(* ===== verification/Abk_Prelude.thy ===== *)
theory Abk_Prelude
  imports Main "HOL-Library.Sublist"
begin

text \<open>
  Shared vocabulary of the development: Python's \<^verbatim>\<open>str\<close> operations on the byte
  sequences the program edits, and the hint collections the component proofs use.

  A text is the list of the bytes of its UTF-8 encoding. UTF-8 is self-synchronising, so
  membership, search and replacement of one well-formed text in another give the same
  answer on code points and on bytes; every operation here is one of these. The white
  space functions name the byte sequences of the non-ASCII white space explicitly.
\<close>

type_synonym str = string

abbreviation NL :: char where "NL \<equiv> CHR 0x0A"
abbreviation CR :: char where "CR \<equiv> CHR 0x0D"
abbreviation TAB :: char where "TAB \<equiv> CHR 0x09"
abbreviation BSL :: char where "BSL \<equiv> CHR 0x5C"
abbreviation QUO :: char where "QUO \<equiv> CHR 0x27"
abbreviation DQ :: char where "DQ \<equiv> CHR 0x22"

named_theorems io_simps \<open>unfolding rules of the effectful combinators\<close>
named_theorems safe_intros \<open>closure rules for programs over the graft context\<close>

subsection \<open>Search: \<open>needle in text\<close> and the first occurrence\<close>

abbreviation contains :: "str \<Rightarrow> str \<Rightarrow> bool" where
  "contains needle t \<equiv> sublist needle t"

text \<open>
  \<open>cut p t\<close> splits \<open>t\<close> around the first (leftmost) occurrence of \<open>p\<close>.
\<close>

fun cut :: "str \<Rightarrow> str \<Rightarrow> (str \<times> str) option" where
  "cut p [] = (if p = [] then Some ([], []) else None)"
| "cut p (c # t) =
     (if prefix p (c # t) then Some ([], drop (length p) (c # t))
      else map_option (\<lambda>(a, b). (c # a, b)) (cut p t))"

lemma cut_SomeD: "cut p t = Some (a, b) \<Longrightarrow> t = a @ p @ b"
  by (induction p t arbitrary: a rule: cut.induct)
    (auto split: if_splits simp: prefix_def)

lemma cut_None_iff: "cut p t = None \<longleftrightarrow> \<not> contains p t"
  by (induction p t rule: cut.induct) (auto simp: sublist_Cons_right)

lemma cut_Some_iff_contains: "(\<exists>ab. cut p t = Some ab) \<longleftrightarrow> contains p t"
  using cut_None_iff [of p t] by (cases "cut p t") auto

lemma contains_cutE:
  assumes "contains p t"
  obtains a b where "cut p t = Some (a, b)" and "t = a @ p @ b"
  using assms cut_None_iff [of p t] by (cases "cut p t") (auto dest: cut_SomeD)

lemma cut_leftmost: "cut p t = Some (a, b) \<Longrightarrow> t = a' @ p @ b' \<Longrightarrow> length a \<le> length a'"
proof (induction p t arbitrary: a a' rule: cut.induct)
  case (1 p)
  then show ?case by (auto split: if_splits)
next
  case (2 p c t)
  show ?case
  proof (cases "prefix p (c # t)")
    case True
    with "2.prems"(1) have "a = []" by simp
    then show ?thesis by simp
  next
    case False
    with "2.prems"(1) obtain a0 where a: "a = c # a0" and c: "cut p t = Some (a0, b)"
      by auto
    from False "2.prems"(2) obtain a1 where "a' = c # a1" and "t = a1 @ p @ b'"
      by (cases a') (auto simp: prefix_def)
    with 2(1) [OF False c] a show ?thesis by simp
  qed
qed

lemma cut_self [simp]: "cut p p = Some ([], [])"
  by (cases p) auto

lemma cut_prefix: "cut p (p @ b) = Some ([], b)"
proof (cases "p @ b")
  case (Cons c t)
  then have "prefix p (c # t)" by (metis prefixI)
  with Cons show ?thesis by (metis append_eq_conv_conj cut.simps(2))
qed simp

subsection \<open>Replacement: \<open>str.replace\<close>\<close>

definition replace_first :: "str \<Rightarrow> str \<Rightarrow> str \<Rightarrow> str" where
  \<comment> \<open>\<open>text.replace(old, new, 1)\<close>\<close>
  "replace_first t old new = (case cut old t of None \<Rightarrow> t | Some (a, b) \<Rightarrow> a @ new @ b)"

function replace_all :: "str \<Rightarrow> str \<Rightarrow> str \<Rightarrow> str" where
  \<comment> \<open>\<open>text.replace(old, new)\<close>; an empty \<open>old\<close> matches before every character and at the end\<close>
  "replace_all old new t =
     (if old = [] then new @ concat (map (\<lambda>c. c # new) t)
      else case cut old t of None \<Rightarrow> t | Some (a, b) \<Rightarrow> a @ new @ replace_all old new b)"
  by pat_completeness auto
termination
  by (relation "measure (\<lambda>(old, new, t). length t)") (auto dest: cut_SomeD)

declare replace_all.simps [simp del]

lemma replace_first_absent: "\<not> contains old t \<Longrightarrow> replace_first t old new = t"
  by (simp add: replace_first_def flip: cut_None_iff)

lemma replace_first_contains:
  "contains old t \<Longrightarrow> contains new (replace_first t old new)"
  by (erule contains_cutE) (simp add: replace_first_def)

function occurrences :: "str \<Rightarrow> str \<Rightarrow> nat" where
  \<comment> \<open>\<open>text.count(p)\<close>: non-overlapping occurrences, scanned from the left\<close>
  "occurrences p [] = (if p = [] then 1 else 0)"
| "occurrences p (c # t) =
     (if p = [] then Suc (occurrences p t)
      else if prefix p (c # t) then Suc (occurrences p (drop (length p - 1) t))
      else occurrences p t)"
  by pat_completeness auto
termination
  by (relation "measure (\<lambda>(p, t). length t)") auto

subsection \<open>End-of-line forms\<close>

definition to_lf :: "str \<Rightarrow> str" where
  "to_lf t = replace_all [CR, NL] [NL] t"

definition to_crlf :: "str \<Rightarrow> str" where
  "to_crlf t = replace_all [NL] [CR, NL] t"

lemma replace_all_Nil [simp]: "old \<noteq> [] \<Longrightarrow> replace_all old new [] = []"
  by (simp add: replace_all.simps [of old new "[]"])

lemma replace_all_hit:
  "old \<noteq> [] \<Longrightarrow> replace_all old new (old @ t) = new @ replace_all old new t"
  by (subst replace_all.simps) (simp add: cut_prefix)

lemma replace_all_miss:
  assumes "old \<noteq> []" and "\<not> prefix old (c # t)"
  shows "replace_all old new (c # t) = c # replace_all old new t"
proof (cases "cut old t")
  case None
  with assms show ?thesis
    by (simp add: replace_all.simps [of old new "c # t"] replace_all.simps [of old new t])
next
  case (Some ab)
  then obtain a b where "cut old t = Some (a, b)" by (cases ab) auto
  with assms show ?thesis
    by (simp add: replace_all.simps [of old new "c # t"] replace_all.simps [of old new t])
qed

lemma to_lf_simps [simp]:
  "to_lf [] = []"
  "to_lf (CR # NL # t) = NL # to_lf t"
  "c \<noteq> CR \<Longrightarrow> to_lf (c # t) = c # to_lf t"
  "d \<noteq> NL \<Longrightarrow> to_lf (CR # d # t) = CR # to_lf (d # t)"
  "to_lf [CR] = [CR]"
  using replace_all_hit [of "[CR, NL]" "[NL]" t]
  by (simp_all add: to_lf_def replace_all_miss)

lemma to_crlf_simps [simp]:
  "to_crlf [] = []"
  "to_crlf (NL # t) = CR # NL # to_crlf t"
  "c \<noteq> NL \<Longrightarrow> to_crlf (c # t) = c # to_crlf t"
  using replace_all_hit [of "[NL]" "[CR, NL]" t]
  by (simp_all add: to_crlf_def replace_all_miss)

lemma to_crlf_append [simp]: "to_crlf (a @ b) = to_crlf a @ to_crlf b"
proof (induction a)
  case (Cons c a)
  then show ?case by (cases "c = NL") auto
qed simp

lemma to_lf_no_CR: "CR \<notin> set t \<Longrightarrow> to_lf t = t"
  by (induction t) auto

lemma to_lf_to_crlf: "CR \<notin> set t \<Longrightarrow> to_lf (to_crlf t) = t"
proof (induction t)
  case (Cons c t)
  then show ?case by (cases "c = NL") auto
qed simp

lemma to_crlf_no_NL: "NL \<notin> set t \<Longrightarrow> to_crlf t = t"
  by (induction t) auto

lemma NL_set_to_crlf [simp]: "NL \<in> set (to_crlf t) \<longleftrightarrow> NL \<in> set t"
proof (induction t)
  case (Cons c t)
  then show ?case by (cases "c = NL") auto
qed simp

subsection \<open>Lines: \<open>str.split(sep)\<close> and \<open>sep.join\<close>\<close>

fun py_join :: "str \<Rightarrow> str list \<Rightarrow> str" where
  "py_join sep [] = []"
| "py_join sep [x] = x"
| "py_join sep (x # y # zs) = x @ sep @ py_join sep (y # zs)"

function split_on :: "str \<Rightarrow> str \<Rightarrow> str list" where
  \<comment> \<open>\<open>text.split(sep)\<close>; Python refuses an empty separator, which no caller passes\<close>
  "split_on sep t =
     (if sep = [] then [t]
      else case cut sep t of None \<Rightarrow> [t] | Some (a, b) \<Rightarrow> a # split_on sep b)"
  by pat_completeness auto
termination
  by (relation "measure (\<lambda>(sep, t). length t)") (auto dest: cut_SomeD)

declare split_on.simps [simp del]

lemma split_on_nonempty [simp]: "split_on sep t \<noteq> []"
  by (subst split_on.simps) (auto split: option.splits)

lemma py_join_Cons: "xs \<noteq> [] \<Longrightarrow> py_join sep (x # xs) = x @ sep @ py_join sep xs"
  by (cases xs) auto

lemma join_split: "py_join sep (split_on sep t) = t"
proof (induction sep t rule: split_on.induct)
  case (1 sep t)
  show ?case
  proof (cases "sep = [] \<or> cut sep t = None")
    case True
    then show ?thesis by (subst split_on.simps) auto
  next
    case False
    then obtain a b where c: "cut sep t = Some (a, b)" and s: "sep \<noteq> []"
      by (cases "cut sep t") auto
    have "split_on sep t = a # split_on sep b"
      by (subst split_on.simps) (simp add: c s)
    with 1 [OF s c refl] cut_SomeD [OF c] show ?thesis
      by (simp add: py_join_Cons)
  qed
qed

text \<open>
  The text of a triple-quoted literal, written as the list of its lines: the lines joined
  by a line feed. A literal that ends in a line feed has an empty last line.
\<close>

definition block :: "str list \<Rightarrow> str" where
  "block ls = py_join [NL] ls"

subsection \<open>White space: \<open>str.split()\<close> and \<open>str.strip()\<close>\<close>

fun ws_len :: "str \<Rightarrow> nat" where
  \<comment> \<open>how many bytes the white-space character at the head takes, 0 if there is none\<close>
  "ws_len [] = 0"
| "ws_len (a # t) =
     (let n = (of_char a :: nat) in
      if (0x09 \<le> n \<and> n \<le> 0x0D) \<or> (0x1C \<le> n \<and> n \<le> 0x20) then 1
      else case map of_char (take 2 t) of
          b # cs \<Rightarrow>
            if n = 0xC2 \<and> (b = 0x85 \<or> b = (0xA0 :: nat)) then 2
            else (case cs of
                [c] \<Rightarrow>
                  if (n = 0xE1 \<and> b = 0x9A \<and> c = 0x80) \<or>
                     (n = 0xE2 \<and> b = 0x80 \<and> (0x80 \<le> c \<and> c \<le> 0x8A \<or> c \<in> {0xA8, 0xA9, 0xAF})) \<or>
                     (n = 0xE2 \<and> b = 0x81 \<and> c = 0x9F) \<or>
                     (n = 0xE3 \<and> b = 0x80 \<and> c = (0x80 :: nat)) then 3 else 0
              | _ \<Rightarrow> 0)
        | [] \<Rightarrow> 0)"

declare ws_len.simps(2) [simp del]

function ws_split :: "str \<Rightarrow> str \<Rightarrow> str list" where
  \<comment> \<open>\<open>ws_split [] t\<close> is \<open>t.split()\<close>; the first argument is the token being read, reversed\<close>
  "ws_split cur [] = (if cur = [] then [] else [rev cur])"
| "ws_split cur (c # t) =
     (if ws_len (c # t) = 0 then ws_split (c # cur) t
      else (if cur = [] then [] else [rev cur]) @ ws_split [] (drop (ws_len (c # t) - 1) t))"
  by pat_completeness auto
termination
  by (relation "measure (\<lambda>(cur, t). length t)") auto

function py_lstrip :: "str \<Rightarrow> str" where
  "py_lstrip [] = []"
| "py_lstrip (c # t) =
     (if ws_len (c # t) = 0 then c # t else py_lstrip (drop (ws_len (c # t) - 1) t))"
  by pat_completeness auto
termination
  by (relation "measure length") auto

fun py_rstrip :: "str \<Rightarrow> str" where
  "py_rstrip [] = []"
| "py_rstrip (c # t) = (if py_lstrip (c # t) = [] then [] else c # py_rstrip t)"

definition py_strip :: "str \<Rightarrow> str" where
  "py_strip t = py_rstrip (py_lstrip t)"

subsection \<open>Small helpers of the Python built-ins\<close>

fun dec_digits :: "nat \<Rightarrow> str \<Rightarrow> str" where
  "dec_digits n acc =
     (let acc' = char_of (48 + n mod 10) # acc in
      if n < 10 then acc' else dec_digits (n div 10) acc')"

declare dec_digits.simps [simp del]

definition py_str_nat :: "nat \<Rightarrow> str" where
  \<comment> \<open>\<open>str(n)\<close>\<close>
  "py_str_nat n = dec_digits n []"

fun rewrite_first :: "('a \<Rightarrow> bool) \<Rightarrow> 'a \<Rightarrow> 'a list \<Rightarrow> 'a list option" where
  \<comment> \<open>overwrite the first element that satisfies the test: a \<open>for .. enumerate .. break\<close> loop\<close>
  "rewrite_first P x [] = None"
| "rewrite_first P x (y # ys) =
     (if P y then Some (x # ys) else map_option ((#) y) (rewrite_first P x ys))"

lemma rewrite_first_None [simp]: "rewrite_first P x ys = None \<longleftrightarrow> (\<forall>y \<in> set ys. \<not> P y)"
  by (induction ys) auto

lemma rewrite_first_SomeD:
  "rewrite_first P x ys = Some zs \<Longrightarrow>
     \<exists>as y bs. ys = as @ y # bs \<and> zs = as @ x # bs \<and> P y \<and> (\<forall>a \<in> set as. \<not> P a)"
proof (induction ys arbitrary: zs)
  case (Cons a ys)
  show ?case
  proof (cases "P a")
    case True
    with Cons.prems show ?thesis by (intro exI [of _ "[]"]) auto
  next
    case False
    with Cons.prems obtain ws where w: "rewrite_first P x ys = Some ws" "zs = a # ws" by auto
    from Cons.IH [OF w(1)] obtain as y bs where
      "ys = as @ y # bs" "ws = as @ x # bs" "P y" "\<forall>b \<in> set as. \<not> P b" by blast
    with False w(2) show ?thesis by (intro exI [of _ "a # as"] exI [of _ y] exI [of _ bs]) simp
  qed
qed simp

definition insert_key :: "'a \<Rightarrow> 'a list \<Rightarrow> 'a list" where
  \<comment> \<open>\<open>set.add\<close> on a set kept as a list without duplicates\<close>
  "insert_key x xs = (if x \<in> set xs then xs else xs @ [x])"

lemma set_insert_key [simp]: "set (insert_key x xs) = insert x (set xs)"
  by (auto simp: insert_key_def)

lemma distinct_insert_key [simp]: "distinct (insert_key x xs) = distinct xs"
  by (simp add: insert_key_def)

subsection \<open>A written text and its reader\<close>

locale text_reader =
  fixes put :: "'a \<Rightarrow> str" and get :: "str \<Rightarrow> 'b option"
    and meaning :: "'a \<Rightarrow> 'b" and proper :: "'a \<Rightarrow> bool"
  assumes get_put: "proper x \<Longrightarrow> get (put x) = Some (meaning x)"
begin

lemma same_text: "proper x \<Longrightarrow> proper y \<Longrightarrow> put x = put y \<Longrightarrow> meaning x = meaning y"
  using get_put [of x] get_put [of y] by simp

end

end
