(* ===== verification/Abk_Common.thy ===== *)
theory Abk_Common
  imports Abk_Prelude
begin

text \<open>
  The text layer of \<^verbatim>\<open>scripts/abk_common.py\<close>: the anchored edits \<open>replace_once\<close> and
  \<open>ensure_after\<close>, the needle test \<open>has_any\<close>, and the constants of the module.
  Two interfaces are stated as locales: \<open>text_edit\<close> (what every anchored edit promises its
  caller) and \<open>text_measure\<close> (an additive measure of a text, kept by a balanced edit).
\<close>

subsection \<open>Constants of the module\<close>

definition BACKUP_SUFFIX :: str where "BACKUP_SUFFIX = ''.abk-orig''"
definition MODULE_ID :: str where "MODULE_ID = ''abk_5_15_backport''"
definition MODULE_MARKER :: str where "MODULE_MARKER = ''ABK stable_515_backport:''"
definition SUITE_FEATURE_MARKER :: str where
  "SUITE_FEATURE_MARKER = ''/* ABK feature_porting:''"
definition SUITE_SECURITY_MARKER :: str where
  "SUITE_SECURITY_MARKER = ''/* ABK security_update_backport:''"
definition SUITE_FD_FALLBACK_ALIGN :: str where
  "SUITE_FD_FALLBACK_ALIGN = ''nr = ALIGN(slots_wanted, BITS_PER_LONG)''"
definition SUITE_FD_HELPER :: str where "SUITE_FD_HELPER = ''abk_fdtable_slots_wanted''"
definition F2FS_BLOCK_MONTHLY_SENTINEL :: str where
  "F2FS_BLOCK_MONTHLY_SENTINEL = ''delayed_work_pending(&hctx->run_work)''"

subsection \<open>The anchored edits\<close>

datatype step_status = StApplied | StPresent | StMissing

definition eol_variants :: "str \<Rightarrow> (str \<times> str) list" where
  "eol_variants b = (let lf = to_lf b in [(lf, [NL]), (replace_all [NL] [CR, NL] lf, [CR, NL])])"

fun first_variant :: "str \<Rightarrow> str \<Rightarrow> (str \<times> str) list \<Rightarrow> str \<times> step_status" where
  "first_variant t new_lf [] = (t, StMissing)"
| "first_variant t new_lf ((old_v, joiner) # vs) =
     (if contains old_v t
      then (replace_first t old_v (replace_all [NL] joiner new_lf), StApplied)
      else first_variant t new_lf vs)"

definition replace_once :: "str \<Rightarrow> str \<Rightarrow> str \<Rightarrow> str \<times> step_status" where
  "replace_once t old new =
     (let new_lf = to_lf new in
      if contains new_lf t \<or> contains (replace_all [NL] [CR, NL] new_lf) t then (t, StPresent)
      else first_variant t new_lf (eol_variants old))"

definition ensure_after :: "str \<Rightarrow> str \<Rightarrow> str \<Rightarrow> str \<times> step_status" where
  "ensure_after t anchor snippet =
     (if contains snippet t then (t, StPresent)
      else if \<not> contains anchor t then (t, StMissing)
      else (replace_first t anchor (anchor @ [NL] @ snippet), StApplied))"

definition has_any :: "str \<Rightarrow> str list \<Rightarrow> bool" where
  "has_any t needles = list_ex (\<lambda>n. contains n t) needles"

lemma replace_all_NL_NL [simp]: "replace_all [NL] [NL] t = t"
proof (induction t)
  case (Cons c t)
  then show ?case
    using replace_all_hit [of "[NL]" "[NL]" t] by (cases "c = NL") (auto simp: replace_all_miss)
qed simp

lemma replace_once_unfold:
  "replace_once t old new =
     (if contains (to_lf new) t \<or> contains (to_crlf (to_lf new)) t then (t, StPresent)
      else if contains (to_lf old) t
        then (replace_first t (to_lf old) (to_lf new), StApplied)
      else if contains (to_crlf (to_lf old)) t
        then (replace_first t (to_crlf (to_lf old)) (to_crlf (to_lf new)), StApplied)
      else (t, StMissing))"
  by (simp add: replace_once_def eol_variants_def to_crlf_def Let_def)

subsection \<open>Interface: an anchored edit\<close>

text \<open>
  What a caller relies on: an edit that is not applied leaves the text alone, and an applied
  edit is found present by the next run.
\<close>

locale text_edit =
  fixes edit :: "str \<Rightarrow> 'e \<Rightarrow> str \<times> step_status"
  assumes edit_keeps: "edit t e = (t', s) \<Longrightarrow> s \<noteq> StApplied \<Longrightarrow> t' = t"
    and edit_lands: "edit t e = (t', StApplied) \<Longrightarrow> edit t' e = (t', StPresent)"
begin

lemma edit_rerun:
  assumes "edit t e = (t', s)" and "s \<noteq> StMissing"
  shows "edit t' e = (t', StPresent)"
  using assms edit_keeps [of t e t' s] edit_lands [of t e t'] by (cases s) auto

lemma edit_changed: "edit t e = (t', s) \<Longrightarrow> t' \<noteq> t \<Longrightarrow> s = StApplied"
  using edit_keeps by blast

end

interpretation once: text_edit "\<lambda>t (old, new). replace_once t old new"
  by unfold_locales
    (auto simp: replace_once_unfold replace_first_contains split: if_splits)

interpretation after: text_edit "\<lambda>t (anchor, snippet). ensure_after t anchor snippet"
proof unfold_locales
  fix t e t' s
  assume "(case e of (a, n) \<Rightarrow> ensure_after t a n) = (t', s)" and "s \<noteq> StApplied"
  then show "t' = t" by (auto simp: ensure_after_def split: if_splits prod.splits)
next
  fix t e t'
  assume *: "(case e of (a, n) \<Rightarrow> ensure_after t a n) = (t', StApplied)"
  obtain a n where e: "e = (a, n)" by (cases e)
  from * e have t': "t' = replace_first t a (a @ [NL] @ n)" and "contains a t"
    by (auto simp: ensure_after_def split: if_splits)
  then have "contains (a @ [NL] @ n) t'" by (simp add: replace_first_contains)
  moreover have "contains n (a @ [NL] @ n)" by (metis append_assoc sublist_append_leftI)
  ultimately have "contains n t'" by (rule sublist_order.order.trans [rotated])
  then show "(case e of (a, n) \<Rightarrow> ensure_after t' a n) = (t', StPresent)"
    by (simp add: e ensure_after_def)
qed

subsection \<open>Interface: a measure kept by balanced edits\<close>

locale text_measure =
  fixes m :: "str \<Rightarrow> int"
  assumes m_append: "m (a @ b) = m a + m b"
    and m_CR: "m [CR] = 0"
begin

lemma m_Nil: "m [] = 0"
  using m_append [of "[]" "[]"] by simp

lemma m_Cons: "m (c # t) = m [c] + m t"
  using m_append [of "[c]" t] by simp

lemma m_to_crlf: "m (to_crlf t) = m t"
proof (induction t)
  case (Cons c t)
  then show ?case
    using m_Cons [of CR "NL # to_crlf t"] m_Cons [of NL "to_crlf t"] m_Cons [of c "to_crlf t"]
      m_Cons [of c t] m_CR
    by (cases "c = NL") auto
qed simp

lemma m_to_lf: "m (to_lf t) = m t"
proof (induction t rule: length_induct)
  case (1 t)
  show ?case
  proof (cases t)
    case (Cons c u)
    note IH = "1.IH" [rule_format]
    show ?thesis
    proof (cases "c = CR \<and> (\<exists>v. u = NL # v)")
      case True
      then obtain v where v: "t = CR # NL # v" using Cons by auto
      with IH [of v] show ?thesis
        using m_Cons [of CR "NL # v"] m_Cons [of NL v] m_Cons [of NL "to_lf v"] m_CR by simp
    next
      case False
      then have "to_lf t = c # to_lf u" using Cons by (cases u; cases "c = CR") auto
      with IH [of u] Cons show ?thesis using m_Cons [of c u] m_Cons [of c "to_lf u"] by simp
    qed
  qed simp
qed

lemma m_replace_first: "m old = m new \<Longrightarrow> m (replace_first t old new) = m t"
  by (auto simp: replace_first_def m_append dest!: cut_SomeD split: option.splits)

lemma m_replace_once: "m old = m new \<Longrightarrow> m (fst (replace_once t old new)) = m t"
  by (simp add: replace_once_unfold m_replace_first m_to_lf m_to_crlf)

lemma m_ensure_after:
  "m snippet = 0 \<Longrightarrow> m [NL] = 0 \<Longrightarrow> m (fst (ensure_after t anchor snippet)) = m t"
  using m_Cons [of NL snippet] by (simp add: ensure_after_def m_replace_first m_append)

end

text \<open>The brace balance \<^verbatim>\<open>tests/step_audit.py\<close> checks on every patched C file.\<close>

definition brace_delta :: "str \<Rightarrow> int" where
  "brace_delta t = int (count_list t (CHR 0x7B)) - int (count_list t (CHR 0x7D))"

lemma count_list_append_int:
  "int (count_list (a @ b) x) = int (count_list a x) + int (count_list b x)"
  by (induction a) auto

interpretation brace: text_measure brace_delta
  by unfold_locales (auto simp: brace_delta_def count_list_append_int)

end
