(* ===== verification/Utf8.thy ===== *)
theory Utf8
  imports Abk_Prelude
begin

text \<open>
  When a sequence of bytes is the UTF-8 encoding of a Python string: the test
  \<^verbatim>\<open>bytes.decode("utf-8")\<close> makes, and how valid texts compose.
\<close>

definition in_range :: "nat \<Rightarrow> nat \<Rightarrow> char \<Rightarrow> bool" where
  "in_range lo hi c \<longleftrightarrow> lo \<le> of_char c \<and> of_char c \<le> hi"

abbreviation cont_byte :: "char \<Rightarrow> bool" where
  "cont_byte \<equiv> in_range 0x80 0xBF"

definition lead3 :: "char \<Rightarrow> char \<Rightarrow> bool" where
  "lead3 a b \<longleftrightarrow>
     (in_range 0xE0 0xE0 a \<and> in_range 0xA0 0xBF b) \<or>
     ((in_range 0xE1 0xEC a \<or> in_range 0xEE 0xEF a) \<and> cont_byte b) \<or>
     (in_range 0xED 0xED a \<and> in_range 0x80 0x9F b)"

definition lead4 :: "char \<Rightarrow> char \<Rightarrow> bool" where
  "lead4 a b \<longleftrightarrow>
     (in_range 0xF0 0xF0 a \<and> in_range 0x90 0xBF b) \<or>
     (in_range 0xF1 0xF3 a \<and> cont_byte b) \<or>
     (in_range 0xF4 0xF4 a \<and> in_range 0x80 0x8F b)"

fun utf8_valid :: "str \<Rightarrow> bool" where
  "utf8_valid [] = True"
| "utf8_valid (a # t) =
     (if in_range 0 0x7F a then utf8_valid t
      else (case t of [] \<Rightarrow> False | b # t1 \<Rightarrow>
        (if in_range 0xC2 0xDF a then cont_byte b \<and> utf8_valid t1
         else (case t1 of [] \<Rightarrow> False | c # t2 \<Rightarrow>
           (if lead3 a b then cont_byte c \<and> utf8_valid t2
            else (case t2 of [] \<Rightarrow> False | d # t3 \<Rightarrow>
              lead4 a b \<and> cont_byte c \<and> cont_byte d \<and> utf8_valid t3))))))"

lemma utf8_valid_ConsE:
  assumes "utf8_valid (a # t)"
  obtains (one) "in_range 0 0x7F a" "utf8_valid t"
  | (two) b t1 where "t = b # t1" "\<not> in_range 0 0x7F a" "in_range 0xC2 0xDF a" "cont_byte b"
      "utf8_valid t1"
  | (three) b c t2 where "t = b # c # t2" "\<not> in_range 0 0x7F a" "\<not> in_range 0xC2 0xDF a"
      "lead3 a b" "cont_byte b" "cont_byte c" "utf8_valid t2"
  | (four) b c d t3 where "t = b # c # d # t3" "\<not> in_range 0 0x7F a" "\<not> in_range 0xC2 0xDF a"
      "\<not> lead3 a b" "lead4 a b" "cont_byte b" "cont_byte c" "cont_byte d" "utf8_valid t3"
proof -
  have l3: "lead3 a b \<Longrightarrow> cont_byte b" and l4: "lead4 a b \<Longrightarrow> cont_byte b" for b
    by (auto simp: lead3_def lead4_def in_range_def)
  show thesis
    using assms one two three four l3 l4 by (auto split: list.splits if_splits)
qed

definition ascii :: "str \<Rightarrow> bool" where
  "ascii t = list_all (in_range 0 0x7F) t"

lemma ascii_simps [simp]:
  "ascii []" "ascii (c # t) \<longleftrightarrow> in_range 0 0x7F c \<and> ascii t"
  "ascii (a @ b) \<longleftrightarrow> ascii a \<and> ascii b"
  by (auto simp: ascii_def)

lemma utf8_valid_ascii_append: "ascii a \<Longrightarrow> utf8_valid (a @ b) = utf8_valid b"
  by (induction a) auto

lemma utf8_valid_ascii: "ascii a \<Longrightarrow> utf8_valid a"
  using utf8_valid_ascii_append [of a "[]"] by simp

lemma utf8_valid_append: "utf8_valid a \<Longrightarrow> utf8_valid (a @ b) = utf8_valid b"
proof (induction a rule: length_induct)
  case (1 a)
  note IH = "1.IH" [rule_format]
  show ?case
  proof (cases a)
    case (Cons x t)
    with "1.prems" have "utf8_valid (x # t)" by simp
    then show ?thesis by (cases rule: utf8_valid_ConsE) (use Cons IH in auto)
  qed simp
qed

text \<open>
  Self-synchronisation: a valid text cut before a byte that is no continuation byte is cut
  between two characters.
\<close>

lemma utf8_valid_cut:
  "utf8_valid (a @ x # b) \<Longrightarrow> \<not> cont_byte x \<Longrightarrow> utf8_valid a \<and> utf8_valid (x # b)"
proof (induction a rule: length_induct)
  case (1 a)
  note IH = "1.IH" [rule_format]
  show ?case
  proof (cases a)
    case (Cons h t)
    with "1.prems" have v: "utf8_valid (h # t @ x # b)" by simp
    from v show ?thesis
    proof (cases rule: utf8_valid_ConsE)
      case one
      with IH [of t] Cons "1.prems"(2) show ?thesis by simp
    next
      case (two c t1)
      then obtain t' where "t = c # t'" "t1 = t' @ x # b"
        using "1.prems"(2) by (cases t) auto
      with two IH [of t'] Cons "1.prems"(2) show ?thesis by simp
    next
      case (three c d t2)
      then obtain t' where "t = c # d # t'" "t2 = t' @ x # b"
        using "1.prems"(2) by (cases t; cases "tl t") auto
      with three IH [of t'] Cons "1.prems"(2) show ?thesis by simp
    next
      case (four c d e t3)
      then obtain t' where "t = c # d # e # t'" "t3 = t' @ x # b"
        using "1.prems"(2) by (cases t; cases "tl t"; cases "tl (tl t)") auto
      with four IH [of t'] Cons "1.prems"(2) show ?thesis by simp
    qed
  qed (use "1.prems" in simp)
qed

lemma lead_not_cont:
  "in_range 0 0x7F x \<Longrightarrow> \<not> cont_byte x" "in_range 0xC2 0xDF x \<Longrightarrow> \<not> cont_byte x"
  "lead3 x b \<Longrightarrow> \<not> cont_byte x" "lead4 x b \<Longrightarrow> \<not> cont_byte x"
  by (auto simp: in_range_def lead3_def lead4_def)

lemma utf8_valid_hd: "utf8_valid (x # b) \<Longrightarrow> \<not> cont_byte x"
  by (erule utf8_valid_ConsE) (blast dest: lead_not_cont)+

text \<open>
  Replacing a valid, non-empty part of a valid text by a valid text keeps it valid: the
  part starts and ends between two characters.
\<close>

lemma utf8_valid_substitute:
  assumes "utf8_valid (a @ old @ b)" and "utf8_valid old" and "old \<noteq> []" and "utf8_valid new"
  shows "utf8_valid (a @ new @ b)"
proof -
  from assms(3) obtain x o' where o: "old = x # o'" by (cases old) auto
  with assms(2) have "\<not> cont_byte x" by (simp add: utf8_valid_hd del: utf8_valid.simps)
  with assms(1) o have "utf8_valid a" and "utf8_valid (old @ b)"
    using utf8_valid_cut [of a x "o' @ b"] by auto
  then show ?thesis using assms(2,4) by (simp add: utf8_valid_append)
qed

text \<open>The two end-of-line conversions keep validity: they touch ASCII bytes only.\<close>

lemma non_eol:
  "cont_byte c \<Longrightarrow> c \<noteq> NL \<and> c \<noteq> CR" "\<not> in_range 0 0x7F c \<Longrightarrow> c \<noteq> NL \<and> c \<noteq> CR"
  by (auto simp: in_range_def)

lemma eol_ascii [simp]: "in_range 0 0x7F NL" "in_range 0 0x7F CR"
  by (simp_all add: in_range_def)

lemma utf8_valid_to_crlf: "utf8_valid t \<Longrightarrow> utf8_valid (to_crlf t)"
proof (induction t rule: length_induct)
  case (1 t)
  note IH = "1.IH" [rule_format]
  show ?case
  proof (cases t)
    case (Cons x u)
    with "1.prems" have "utf8_valid (x # u)" by simp
    then show ?thesis
    proof (cases rule: utf8_valid_ConsE)
      case one
      with IH [of u] Cons show ?thesis by (cases "x = NL") auto
    next
      case (two b v)
      with IH [of v] Cons non_eol(2) [of x] non_eol(1) [of b] show ?thesis by simp
    next
      case (three b c v)
      with IH [of v] Cons non_eol(2) [of x] non_eol(1) [of b] non_eol(1) [of c]
      show ?thesis by simp
    next
      case (four b c d v)
      with IH [of v] Cons non_eol(2) [of x] non_eol(1) [of b] non_eol(1) [of c] non_eol(1) [of d]
      show ?thesis by simp
    qed
  qed simp
qed

lemma to_lf_Cons: "c \<noteq> CR \<or> (\<forall>v. u \<noteq> NL # v) \<Longrightarrow> to_lf (c # u) = c # to_lf u"
  by (cases u; cases "c = CR") auto

lemma utf8_valid_to_lf: "utf8_valid t \<Longrightarrow> utf8_valid (to_lf t)"
proof (induction t rule: length_induct)
  case (1 t)
  note IH = "1.IH" [rule_format]
  show ?case
  proof (cases t)
    case (Cons x u)
    with "1.prems" have "utf8_valid (x # u)" by simp
    then show ?thesis
    proof (cases rule: utf8_valid_ConsE)
      case one
      show ?thesis
      proof (cases "x = CR \<and> (\<exists>v. u = NL # v)")
        case True
        then obtain v where "x = CR" and "u = NL # v" by blast
        with IH [of v] one Cons show ?thesis by simp
      next
        case False
        with IH [of u] one Cons show ?thesis by (simp add: to_lf_Cons)
      qed
    next
      case (two b v)
      with IH [of v] Cons non_eol(2) [of x] non_eol(1) [of b] show ?thesis by simp
    next
      case (three b c v)
      with IH [of v] Cons non_eol(2) [of x] non_eol(1) [of b] non_eol(1) [of c]
      show ?thesis by simp
    next
      case (four b c d v)
      with IH [of v] Cons non_eol(2) [of x] non_eol(1) [of b] non_eol(1) [of c] non_eol(1) [of d]
      show ?thesis by simp
    qed
  qed simp
qed

end
