(* ===== verification/Tree_Store.thy ===== *)
theory Tree_Store
  imports Abk_Common Utf8
begin

text \<open>
  The files under the kernel tree and the two functions of \<^verbatim>\<open>scripts/abk_common.py\<close> that
  touch them: \<open>read_text\<close> (bytes decoded as UTF-8) and \<open>write_text\<close>, which snapshots a file
  to \<^verbatim>\<open><file>.abk-orig\<close> before its first write. \<open>rollback\<close> is the restoring loop of
  \<^verbatim>\<open>scripts/abk_rollback.sh\<close>. A path is the path relative to the tree's root.
\<close>

type_synonym path = str

text \<open>
  \<open>Unreadable\<close> is an existing entry that cannot be opened as a file (a directory, a
  permission failure): reading it raises an \<open>OSError\<close> other than \<open>FileNotFoundError\<close>.
\<close>

datatype node = Regular str | Unreadable

type_synonym store = "path \<Rightarrow> node option"

datatype exn =
    FileNotFound path   \<comment> \<open>\<open>FileNotFoundError\<close>, an \<open>OSError\<close>\<close>
  | Os_Error path       \<comment> \<open>any other \<open>OSError\<close>\<close>
  | Unicode_Error path  \<comment> \<open>\<open>UnicodeDecodeError\<close>, a \<open>ValueError\<close>\<close>
  | Value_Error str
  | System_Exit str

fun is_fnf :: "exn \<Rightarrow> bool" where
  "is_fnf (FileNotFound p) = True"
| "is_fnf _ = False"

fun is_oserror :: "exn \<Rightarrow> bool" where
  "is_oserror (FileNotFound p) = True"
| "is_oserror (Os_Error p) = True"
| "is_oserror _ = False"

fun is_valueerror :: "exn \<Rightarrow> bool" where
  "is_valueerror (Unicode_Error p) = True"
| "is_valueerror (Value_Error m) = True"
| "is_valueerror _ = False"

subsection \<open>\<open>read_text\<close> and \<open>write_text\<close>\<close>

definition read_text :: "store \<Rightarrow> path \<Rightarrow> exn + str" where
  "read_text fs p =
     (case fs p of
        None \<Rightarrow> Inl (FileNotFound p)
      | Some Unreadable \<Rightarrow> Inl (Os_Error p)
      | Some (Regular b) \<Rightarrow> if utf8_valid b then Inr b else Inl (Unicode_Error p))"

definition write_text :: "store \<Rightarrow> path \<Rightarrow> str \<Rightarrow> bool \<Rightarrow> (exn + unit) \<times> store" where
  \<comment> \<open>the snapshot is taken once: an existing \<^verbatim>\<open>.abk-orig\<close> is never overwritten\<close>
  "write_text fs p t backup =
     (if backup \<and> fs p = None then (Inl (FileNotFound p), fs)
      else
        let bp = p @ BACKUP_SUFFIX in
        if backup \<and> fs bp = None \<and> fs p = Some Unreadable then (Inl (Os_Error p), fs)
        else
          let fs1 = (if backup \<and> fs bp = None then fs(bp := fs p) else fs) in
          if fs p = Some Unreadable then (Inl (Os_Error p), fs1)
          else (Inr (), fs1(p \<mapsto> Regular t)))"

subsection \<open>Rollback\<close>

definition is_backup :: "path \<Rightarrow> bool" where
  "is_backup p = suffix BACKUP_SUFFIX p"

definition NEW_FILE_SENTINEL :: str where
  "NEW_FILE_SENTINEL =
     ''sailboat_moon_kmsg: new file created by the module; delete on rollback''"

definition first_line :: "str \<Rightarrow> str" where
  "first_line b = takeWhile (\<lambda>c. c \<noteq> NL) b"

definition sentinel_line :: "str \<Rightarrow> str" where
  \<comment> \<open>\<open>$(head -n 1 file)\<close>; the shell drops NUL bytes\<close>
  "sentinel_line b = filter (\<lambda>c. c \<noteq> CHR 0x00) (first_line b)"

definition rollback :: "store \<Rightarrow> store" where
  "rollback fs p =
     (if is_backup p
      then (case fs p of Some (Regular b) \<Rightarrow> None | n \<Rightarrow> n)
      else case fs (p @ BACKUP_SUFFIX) of
          Some (Regular b) \<Rightarrow>
            if sentinel_line b = NEW_FILE_SENTINEL then None else Some (Regular b)
        | _ \<Rightarrow> fs p)"

text \<open>
  The loop as the script writes it, one snapshot after the other; \<open>rollback\<close> is its effect, in
  whatever order \<^verbatim>\<open>find\<close> lists the snapshots.
\<close>

definition original_of :: "path \<Rightarrow> path" where
  \<comment> \<open>\<^verbatim>\<open>${backup%.abk-orig}\<close>\<close>
  "original_of b = take (length b - length BACKUP_SUFFIX) b"

definition restore_one :: "path \<Rightarrow> store \<Rightarrow> store" where
  "restore_one backup fs =
     (let original = original_of backup in
      case fs backup of
        Some (Regular b) \<Rightarrow>
          (if sentinel_line b = NEW_FILE_SENTINEL then fs(original := None, backup := None)
           else fs(original := Some (Regular b), backup := None))
      | _ \<Rightarrow> fs)"

definition rolled_back :: "path set \<Rightarrow> store \<Rightarrow> store" where
  \<comment> \<open>the snapshots in \<open>B\<close> are restored\<close>
  "rolled_back B fs q =
     (if is_backup q then if q \<in> B then None else fs q
      else if q @ BACKUP_SUFFIX \<in> B then rollback fs q else fs q)"

lemma original_of_append [simp]: "original_of (q @ BACKUP_SUFFIX) = q"
  by (simp add: original_of_def)

lemma restore_one_rolled_back:
  assumes b: "fs b = Some (Regular t)" "is_backup b" "b \<notin> B" and n: "\<not> is_backup (original_of b)"
  shows "restore_one b (rolled_back B fs) = rolled_back (insert b B) fs"
proof
  fix q
  obtain p where p: "b = p @ BACKUP_SUFFIX" using b(2) by (auto simp: is_backup_def suffix_def)
  then have "rolled_back B fs b = Some (Regular t)" and np: "\<not> is_backup p"
    using b n by (simp_all add: rolled_back_def)
  then show "restore_one b (rolled_back B fs) q = rolled_back (insert b B) fs q"
    using b p by (cases "q = p"; cases "q = b") (auto simp: restore_one_def rolled_back_def rollback_def)
qed

lemma fold_restore:
  assumes "distinct bs" and "\<forall>b \<in> set bs. is_backup b \<and> \<not> is_backup (original_of b) \<and> (\<exists>t. fs b = Some (Regular t))"
  shows "fold restore_one bs fs = rolled_back (set bs) fs"
  using assms
proof (induction bs rule: rev_induct)
  case Nil
  then show ?case by (simp add: rolled_back_def fun_eq_iff)
next
  case (snoc b bs)
  then obtain t where "fs b = Some (Regular t)" by auto
  with snoc restore_one_rolled_back [of fs b t "set bs"] show ?case by simp
qed

lemma rolled_back_all:
  assumes "B = {b. is_backup b \<and> (\<exists>t. fs b = Some (Regular t))}"
  shows "rolled_back B fs = rollback fs"
proof
  fix q
  have "is_backup (q @ BACKUP_SUFFIX)" by (simp add: is_backup_def suffix_def)
  then show "rolled_back B fs q = rollback fs q"
    unfolding assms by (auto simp: rolled_back_def rollback_def split: option.splits node.splits)
qed

text \<open>
  \<open>snap fs0 fs\<close>: every file of \<open>fs\<close> either is as it was in \<open>fs0\<close> and has no snapshot, or
  has a snapshot holding exactly what \<open>fs0\<close> held.
\<close>

definition snap :: "store \<Rightarrow> store \<Rightarrow> bool" where
  "snap fs0 fs \<longleftrightarrow>
     (\<forall>p. (is_backup p \<longrightarrow> fs0 p = None \<and> fs (p @ BACKUP_SUFFIX) = None) \<and>
          (\<not> is_backup p \<longrightarrow>
             (fs (p @ BACKUP_SUFFIX) = None \<and> fs p = fs0 p) \<or>
             (\<exists>b b'. fs0 p = Some (Regular b) \<and> fs (p @ BACKUP_SUFFIX) = Some (Regular b)
                  \<and> fs p = Some (Regular b'))))"

lemma snap_backup: "snap fs0 fs \<Longrightarrow> is_backup p \<Longrightarrow> fs0 p = None \<and> fs (p @ BACKUP_SUFFIX) = None"
  by (simp add: snap_def)

lemma snap_fileE:
  assumes "snap fs0 fs" and "\<not> is_backup p"
  obtains (untouched) "fs (p @ BACKUP_SUFFIX) = None" "fs p = fs0 p"
  | (saved) b b' where "fs0 p = Some (Regular b)" "fs (p @ BACKUP_SUFFIX) = Some (Regular b)"
      "fs p = Some (Regular b')"
proof -
  from assms have "(fs (p @ BACKUP_SUFFIX) = None \<and> fs p = fs0 p) \<or>
      (\<exists>b b'. fs0 p = Some (Regular b) \<and> fs (p @ BACKUP_SUFFIX) = Some (Regular b)
         \<and> fs p = Some (Regular b'))"
    by (simp add: snap_def)
  then show thesis using untouched saved by blast
qed

definition pristine :: "store \<Rightarrow> bool" where
  "pristine fs \<longleftrightarrow> (\<forall>p. is_backup p \<longrightarrow> fs p = None)"

lemma is_backup_suffix [simp]: "is_backup (p @ BACKUP_SUFFIX)"
  by (simp add: is_backup_def suffix_def)

lemma backup_neq [simp]: "p @ BACKUP_SUFFIX \<noteq> p" "p \<noteq> p @ BACKUP_SUFFIX"
  by (simp_all add: BACKUP_SUFFIX_def)

lemma BACKUP_SUFFIX_nonempty [simp]: "BACKUP_SUFFIX \<noteq> []"
  by (simp add: BACKUP_SUFFIX_def)

lemma is_backup_decomp: "is_backup p \<longleftrightarrow> (\<exists>q. p = q @ BACKUP_SUFFIX)"
  by (auto simp: is_backup_def suffix_def)

lemma pristine_snap: "pristine fs \<Longrightarrow> snap fs fs"
  by (auto simp: snap_def pristine_def)

lemma snapI:
  assumes "\<And>q. is_backup q \<Longrightarrow> fs0 q = None \<and> fs (q @ BACKUP_SUFFIX) = None"
    and "\<And>q. \<not> is_backup q \<Longrightarrow>
      (fs (q @ BACKUP_SUFFIX) = None \<and> fs q = fs0 q) \<or>
      (\<exists>b b'. fs0 q = Some (Regular b) \<and> fs (q @ BACKUP_SUFFIX) = Some (Regular b)
         \<and> fs q = Some (Regular b'))"
  shows "snap fs0 fs"
  using assms by (simp add: snap_def)

lemma write_text_cases:
  assumes "fs p = Some (Regular b)"
  shows "write_text fs p t True =
    (Inr (), (if fs (p @ BACKUP_SUFFIX) = None then fs(p @ BACKUP_SUFFIX := fs p) else fs)
               (p \<mapsto> Regular t))"
  using assms by (simp add: write_text_def Let_def)

lemma snap_update:
  assumes s: "snap fs0 fs" and p: "\<not> is_backup p" and b: "fs0 p = Some (Regular b)"
  shows "snap fs0 (fs(p @ BACKUP_SUFFIX \<mapsto> Regular b, p \<mapsto> Regular t))"
proof (rule snapI)
  fix q
  assume q: "is_backup q"
  then have "q @ BACKUP_SUFFIX \<noteq> p @ BACKUP_SUFFIX" and "q @ BACKUP_SUFFIX \<noteq> p"
    using p by auto
  with snap_backup [OF s q] show "fs0 q = None \<and>
      (fs(p @ BACKUP_SUFFIX \<mapsto> Regular b, p \<mapsto> Regular t)) (q @ BACKUP_SUFFIX) = None"
    by simp
next
  fix q
  let ?fs = "fs(p @ BACKUP_SUFFIX \<mapsto> Regular b, p \<mapsto> Regular t)"
  assume q: "\<not> is_backup q"
  show "(?fs (q @ BACKUP_SUFFIX) = None \<and> ?fs q = fs0 q) \<or>
      (\<exists>b b'. fs0 q = Some (Regular b) \<and> ?fs (q @ BACKUP_SUFFIX) = Some (Regular b)
         \<and> ?fs q = Some (Regular b'))"
  proof (cases "q = p")
    case True
    with b show ?thesis by simp
  next
    case False
    have "q \<noteq> p @ BACKUP_SUFFIX" and "q @ BACKUP_SUFFIX \<noteq> p" using p q by auto
    with False have u: "?fs (q @ BACKUP_SUFFIX) = fs (q @ BACKUP_SUFFIX)" "?fs q = fs q"
      by simp_all
    from s q show ?thesis unfolding u by (cases rule: snap_fileE) blast+
  qed
qed

lemma write_text_snap:
  assumes s: "snap fs0 fs" and p: "\<not> is_backup p"
  shows "snap fs0 (snd (write_text fs p t True))"
proof (cases "\<exists>b. fs p = Some (Regular b)")
  case False
  then have "fs p = None \<or> fs p = Some Unreadable"
    by (metis node.exhaust not_Some_eq)
  moreover have "fs p = Some Unreadable \<Longrightarrow> fs (p @ BACKUP_SUFFIX) = None"
    using s p by (cases rule: snap_fileE) auto
  ultimately have "snd (write_text fs p t True) = fs"
    by (auto simp: write_text_def Let_def)
  with s show ?thesis by simp
next
  case True
  then obtain b where b: "fs p = Some (Regular b)" ..
  from s p show ?thesis
  proof (cases rule: snap_fileE)
    case untouched
    then have "fs0 p = Some (Regular b)" using b by simp
    from snap_update [OF s p this] b untouched(1) show ?thesis
      by (simp add: write_text_cases del: fun_upd_apply)
  next
    case (saved c c')
    then have "fs(p @ BACKUP_SUFFIX \<mapsto> Regular c) = fs" by auto
    with snap_update [OF s p saved(1)] saved(2,3) show ?thesis
      by (simp add: write_text_cases del: fun_upd_apply)
  qed
qed

lemma rollback_snap:
  assumes s: "snap fs0 fs" and e: "\<And>q b. fs0 q = Some (Regular b) \<Longrightarrow> sentinel_line b \<noteq> NEW_FILE_SENTINEL"
  shows "rollback fs p = fs0 p"
proof (cases "is_backup p")
  case False
  with s show ?thesis
    by (cases rule: snap_fileE) (use False e [of p] in \<open>auto simp: rollback_def\<close>)
next
  case True
  then obtain q where q: "p = q @ BACKUP_SUFFIX" by (auto simp: is_backup_decomp)
  have "fs p = None \<or> (\<exists>b. fs p = Some (Regular b))"
  proof (cases "is_backup q")
    case True
    with s q show ?thesis by (simp add: snap_backup)
  next
    case False
    with s show ?thesis by (cases rule: snap_fileE) (use q in auto)
  qed
  with s True show ?thesis by (auto simp: rollback_def snap_backup)
qed

end
