(* ===== verification/Graft_Context.thy ===== *)
theory Graft_Context
  imports Tree_Store "HOL-Library.Char_ord" "HOL-Library.List_Lexorder"
begin

text \<open>
  The class \<open>GraftContext\<close> of \<^verbatim>\<open>scripts/abk_backport_engine.py\<close>: the cached view of the
  kernel tree every group edits through. Its methods are state-passing programs of type
  \<open>'a io\<close>: they return a value or a raised exception, and the context after them. Effects
  made before an exception stay, as they do in the source.
\<close>

record gctx =
  common_dir :: str                  \<comment> \<open>the root of the tree, as \<open>str\<close> shows it\<close>
  kfiles :: store                    \<comment> \<open>the files under \<open>common_dir\<close>\<close>
  sub_level :: str
  family :: str
  dry_run :: bool
  defconfig :: "str option"          \<comment> \<open>the \<^verbatim>\<open>--defconfig\<close> path\<close>
  defconfig_rel :: "path option"     \<comment> \<open>the same, relative to \<open>common_dir\<close>; None outside it\<close>
  texts :: "path \<rightharpoonup> str"            \<comment> \<open>the read cache \<open>_texts\<close>\<close>
  dirty :: "path list"               \<comment> \<open>the set \<open>_dirty\<close>\<close>
  shape_cache :: "bool option"       \<comment> \<open>the only key of \<open>_shape_cache\<close>, \<open>block\<close>\<close>
  environ :: "str \<rightharpoonup> str"            \<comment> \<open>\<open>os.environ\<close>\<close>
  wording :: "exn \<Rightarrow> str"            \<comment> \<open>the interpreter's text for an \<open>OSError\<close> or a decoding error\<close>

type_synonym 'a io = "gctx \<Rightarrow> (exn + 'a) \<times> gctx"

definition tree_path :: "gctx \<Rightarrow> path \<Rightarrow> str" where
  \<comment> \<open>\<open>str(ctx.path(rel))\<close> for a relative \<open>rel\<close> in normal form\<close>
  "tree_path g rel =
     (if common_dir g = ''.'' then rel
      else if suffix ''/'' (common_dir g) then common_dir g @ rel
      else common_dir g @ ''/'' @ rel)"

definition exc_filename :: "gctx \<Rightarrow> exn \<Rightarrow> str" where
  \<comment> \<open>\<open>exc.filename\<close> of an \<open>OSError\<close> raised by a read\<close>
  "exc_filename g e = (case e of FileNotFound p \<Rightarrow> tree_path g p | Os_Error p \<Rightarrow> tree_path g p | _ \<Rightarrow> [])"

definition exc_str :: "gctx \<Rightarrow> exn \<Rightarrow> str" where
  \<comment> \<open>\<open>str(exc)\<close>\<close>
  "exc_str g e = (case e of Value_Error m \<Rightarrow> m | System_Exit m \<Rightarrow> m | _ \<Rightarrow> wording g e)"

subsection \<open>Combinators\<close>

definition io_ret :: "'a \<Rightarrow> 'a io" where
  "io_ret x = (\<lambda>g. (Inr x, g))"

definition io_raise :: "exn \<Rightarrow> 'a io" where
  "io_raise e = (\<lambda>g. (Inl e, g))"

definition io_bind :: "'a io \<Rightarrow> ('a \<Rightarrow> 'b io) \<Rightarrow> 'b io" where
  "io_bind m f = (\<lambda>g. case m g of (Inl e, g') \<Rightarrow> (Inl e, g') | (Inr x, g') \<Rightarrow> f x g')"

definition io_try :: "(exn \<Rightarrow> bool) \<Rightarrow> 'a io \<Rightarrow> (exn \<Rightarrow> 'b io) \<Rightarrow> ('a \<Rightarrow> 'b io) \<Rightarrow> 'b io" where
  \<comment> \<open>\<open>try: x = m except E as exc: handler(exc) else: k(x)\<close>\<close>
  "io_try caught m handler k =
     (\<lambda>g. case m g of
            (Inl e, g') \<Rightarrow> (if caught e then handler e g' else (Inl e, g'))
          | (Inr x, g') \<Rightarrow> k x g')"

definition io_get :: "(gctx \<Rightarrow> 'a) \<Rightarrow> 'a io" where
  "io_get f = (\<lambda>g. (Inr (f g), g))"

definition io_or :: "bool io \<Rightarrow> bool io \<Rightarrow> bool io" where
  \<comment> \<open>\<open>or\<close>: the second operand runs only when the first is false\<close>
  "io_or a b = io_bind a (\<lambda>x. if x then io_ret True else b)"

lemmas io_defs [io_simps] = io_ret_def io_raise_def io_bind_def io_try_def io_get_def

subsection \<open>\<open>__init__\<close>, \<open>read\<close>, \<open>write\<close>, \<open>pending_writes\<close>\<close>

definition path_str :: "str \<Rightarrow> str" where
  \<comment> \<open>\<open>str(Path(p))\<close> on POSIX: repeated slashes and single dots go, exactly two leading slashes stay\<close>
  "path_str p =
     (let lead = length (takeWhile (\<lambda>c. c = CHR ''/'') p);
          root = (if lead = 0 then [] else if lead = 2 then ''//'' else ''/'');
          s = root @ py_join ''/'' (filter (\<lambda>c. c \<noteq> [] \<and> c \<noteq> ''.'') (split_on ''/'' p))
      in if s = [] then ''.'' else s)"

definition relative_to :: "str list \<Rightarrow> str list \<Rightarrow> path option" where
  \<comment> \<open>\<open>Path.relative_to\<close> on the components of two resolved paths; None for \<open>ValueError\<close>\<close>
  "relative_to p root =
     (if prefix root p
      then Some (case drop (length root) p of [] \<Rightarrow> ''.'' | cs \<Rightarrow> py_join ''/'' cs)
      else None)"

definition resolve_defconfig :: "(str \<Rightarrow> str list option) \<Rightarrow> str \<Rightarrow> str option \<Rightarrow> path option" where
  \<comment> \<open>\<open>resolve\<close> is \<open>Path.resolve\<close> of the running system, None where it raises \<open>OSError\<close>\<close>
  "resolve_defconfig resolve root_dir dc =
     (case dc of None \<Rightarrow> None
      | Some d \<Rightarrow> (case (resolve d, resolve root_dir) of
            (Some dp, Some root) \<Rightarrow> relative_to dp root
          | _ \<Rightarrow> None))"

definition make_context ::
  "(str \<Rightarrow> str list option) \<Rightarrow> (str \<rightharpoonup> str) \<Rightarrow> (exn \<Rightarrow> str) \<Rightarrow> store \<Rightarrow> str \<Rightarrow> str \<Rightarrow> str
     \<Rightarrow> str \<Rightarrow> bool \<Rightarrow> gctx" where
  \<comment> \<open>an empty \<^verbatim>\<open>--defconfig\<close> is no defconfig\<close>
  "make_context resolve env word fs root_dir sub fam dc dry =
     (let dcp = (if dc = [] then None else Some (path_str dc)) in
      \<lparr>common_dir = path_str root_dir, kfiles = fs, sub_level = sub, family = fam, dry_run = dry, defconfig = dcp,
       defconfig_rel = resolve_defconfig resolve (path_str root_dir) dcp,
       texts = Map.empty, dirty = [], shape_cache = None, environ = env, wording = word\<rparr>)"

definition ctx_read :: "path \<Rightarrow> str io" where
  "ctx_read rel = (\<lambda>g. case texts g rel of
       Some t \<Rightarrow> (Inr t, g)
     | None \<Rightarrow> (case read_text (kfiles g) rel of
           Inl e \<Rightarrow> (Inl e, g)
         | Inr t \<Rightarrow> (Inr t, g\<lparr>texts := (texts g)(rel \<mapsto> t)\<rparr>)))"

definition ctx_write :: "path \<Rightarrow> str \<Rightarrow> unit io" where
  "ctx_write rel t = (\<lambda>g.
     let g1 = g\<lparr>texts := (texts g)(rel \<mapsto> t)\<rparr> in
     if dry_run g then (Inr (), g1\<lparr>dirty := insert_key rel (dirty g)\<rparr>)
     else case write_text (kfiles g) rel t True of
         (Inl e, fs) \<Rightarrow> (Inl e, g1\<lparr>kfiles := fs\<rparr>)
       | (Inr u, fs) \<Rightarrow> (Inr (), g1\<lparr>kfiles := fs, dirty := insert_key rel (dirty g)\<rparr>))"

definition pending_writes :: "gctx \<Rightarrow> path list" where
  "pending_writes g = sort (dirty g)"

subsection \<open>The configuration lane\<close>

definition config_target :: "str \<Rightarrow> str \<Rightarrow> str" where
  "config_target name value = ''CONFIG_'' @ name @ ''='' @ value"

definition config_stale :: "str \<Rightarrow> str \<Rightarrow> str \<Rightarrow> bool" where
  "config_stale name target line \<longleftrightarrow>
     line = ''# CONFIG_'' @ name @ '' is not set'' \<or>
     (prefix (''CONFIG_'' @ name @ ''='') line \<and> line \<noteq> target)"

definition config_marker :: str where
  "config_marker = ''# '' @ MODULE_MARKER @ '' config_enablement''"

fun enable_loop :: "str \<Rightarrow> (str \<times> str) list \<Rightarrow> str \<Rightarrow> nat \<Rightarrow> nat \<Rightarrow> str \<times> nat \<times> nat" where
  \<comment> \<open>the loop over the configs: the text, the appended and the rewritten count\<close>
  "enable_loop joiner [] t a r = (t, a, r)"
| "enable_loop joiner ((name, value) # cs) t a r =
     (let target = config_target name value; lines = split_on joiner t in
      if target \<in> set lines then enable_loop joiner cs t a r
      else case rewrite_first (config_stale name target) target lines of
          Some ls \<Rightarrow> enable_loop joiner cs (py_join joiner ls) a (Suc r)
        | None \<Rightarrow>
            let ls = (if config_marker \<in> set lines then lines else lines @ [[], config_marker])
            in enable_loop joiner cs (py_join joiner (ls @ [target])) (Suc a) r)"

definition joiner_of :: "str \<Rightarrow> str" where
  "joiner_of t = (if contains [CR, NL] t then [CR, NL] else [NL])"

datatype status =
    Applied | Partial | AlreadyPresent | SkipSuiteProcessed
  | ReportOnly | BlockedByMissingAnchor | BlockedByShape

type_synonym outcome = "status \<times> str"

definition no_defconfig :: "gctx \<Rightarrow> outcome" where
  "no_defconfig g =
     (ReportOnly, if defconfig g = None then ''no defconfig passed''
                  else ''defconfig outside KERNEL_ROOT'')"

definition enable_configs :: "(str \<times> str) list \<Rightarrow> outcome io" where
  "enable_configs configs =
     io_bind (io_get (\<lambda>g. (defconfig_rel g, no_defconfig g))) (\<lambda>(dr, refused).
     case dr of None \<Rightarrow> io_ret refused
     | Some rel \<Rightarrow>
         io_bind (ctx_read rel) (\<lambda>t.
         let joiner = joiner_of t; (t1, appended, rewritten) = enable_loop joiner configs t 0 0 in
         if appended = 0 \<and> rewritten = 0
         then io_ret (AlreadyPresent,
                py_str_nat (length configs) @ '' symbol(s) already set in '' @ rel)
         else
           let t2 = (if suffix joiner t1 then t1 else t1 @ joiner) in
           io_bind (ctx_write rel t2) (\<lambda>_.
           io_ret (Applied, py_str_nat appended @ '' appended, '' @ py_str_nat rewritten
                     @ '' rewritten in '' @ rel))))"

definition cmdline_head :: str where
  "cmdline_head = ''CONFIG_CMDLINE='' @ [DQ]"

definition cmdline_line :: "str \<Rightarrow> bool" where
  "cmdline_line line \<longleftrightarrow> prefix cmdline_head line \<and> suffix [DQ] line"

definition cmdline_tokens :: "str \<Rightarrow> str list" where
  \<comment> \<open>\<open>line[len(head):-len(tail)].split()\<close>\<close>
  "cmdline_tokens line =
     ws_split [] (take (length line - 1 - length cmdline_head) (drop (length cmdline_head) line))"

definition drop_token :: "str \<Rightarrow> str \<Rightarrow> str" where
  "drop_token token line =
     (if cmdline_line line \<and> token \<in> set (cmdline_tokens line)
      then cmdline_head @ py_join '' '' (filter (\<lambda>x. x \<noteq> token) (cmdline_tokens line)) @ [DQ]
      else line)"

definition defconfig_drop_cmdline_token :: "str \<Rightarrow> outcome io" where
  "defconfig_drop_cmdline_token token =
     io_bind (io_get (\<lambda>g. (defconfig_rel g, no_defconfig g))) (\<lambda>(dr, refused).
     case dr of None \<Rightarrow> io_ret refused
     | Some rel \<Rightarrow>
         io_bind (ctx_read rel) (\<lambda>t.
         let joiner = joiner_of t; lines = split_on joiner t;
             seen = list_ex cmdline_line lines;
             dropped = list_ex (\<lambda>l. cmdline_line l \<and> token \<in> set (cmdline_tokens l)) lines in
         if \<not> seen then io_ret (BlockedByMissingAnchor, ''no CONFIG_CMDLINE line in '' @ rel)
         else if \<not> dropped
         then io_ret (AlreadyPresent, token @ '' already absent from CONFIG_CMDLINE in '' @ rel)
         else
           io_bind (ctx_write rel (py_join joiner (map (drop_token token) lines))) (\<lambda>_.
           io_ret (Applied, ''dropped '' @ token @ '' from CONFIG_CMDLINE in '' @ rel))))"

subsection \<open>Shape probes\<close>

definition suite_touched :: "path \<Rightarrow> bool io" where
  "suite_touched rel = io_bind (ctx_read rel) (\<lambda>t.
     io_ret (has_any t [SUITE_FEATURE_MARKER, SUITE_SECURITY_MARKER, SUITE_FD_HELPER]))"

definition suite_fdtable_fallback :: "bool io" where
  "suite_fdtable_fallback = io_bind (ctx_read ''fs/file.c'') (\<lambda>t.
     io_ret (contains SUITE_FD_FALLBACK_ALIGN t \<or> contains SUITE_FD_HELPER t))"

definition block_rolled_back :: "bool io" where
  "block_rolled_back = (\<lambda>g. case shape_cache g of
       Some b \<Rightarrow> (Inr b, g)
     | None \<Rightarrow> io_bind (ctx_read ''block/blk-mq.c'') (\<lambda>t g'.
         let b = (\<not> contains F2FS_BLOCK_MONTHLY_SENTINEL t) in
         (Inr b, g'\<lparr>shape_cache := Some b\<rparr>)) g)"

definition fdtable_upstream_shape :: "bool io" where
  "fdtable_upstream_shape = io_bind (ctx_read ''fs/file.c'') (\<lambda>t.
     io_ret (contains ''alloc_fdtable(unsigned int slots_wanted)'' t
        \<and> \<not> contains SUITE_FD_FALLBACK_ALIGN t
        \<and> contains ''roundup_pow_of_two(slots_wanted)'' t))"

end
