(* ===== verification/Context_Laws.thy ===== *)
theory Context_Laws
  imports Graft_Context
begin

text \<open>
  Laws of the graft context, stated once for every program that reaches the tree only through
  it. A locale names what a relation between an earlier and a later context must satisfy to be
  kept by \<open>ctx_read\<close> and \<open>ctx_write\<close>; \<open>prog_on A m\<close> says that the program \<open>m\<close> keeps every such
  relation while writing only files of the scope \<open>A\<close> that it has read before. One proof of
  \<open>prog_on\<close> for a program then gives all its frame, snapshot, dry-run and coherence properties.
\<close>

subsection \<open>What a context shows of a file\<close>

definition seen :: "gctx \<Rightarrow> path \<Rightarrow> str option" where
  "seen g rel = (case texts g rel of Some t \<Rightarrow> Some t
     | None \<Rightarrow> (case read_text (kfiles g) rel of Inl e \<Rightarrow> None | Inr t \<Rightarrow> Some t))"

lemma ctx_read_seen: "seen g rel = Some t \<longleftrightarrow> fst (ctx_read rel g) = Inr t"
  by (auto simp: seen_def ctx_read_def split: option.splits sum.splits)

lemma ctx_read_Inr:
  "ctx_read rel g = (Inr t, g') \<Longrightarrow>
     seen g rel = Some t \<and> g' = g\<lparr>texts := (texts g)(rel \<mapsto> t)\<rparr>"
  by (cases g) (auto simp: seen_def ctx_read_def split: option.splits sum.splits)

lemma ctx_read_Inl:
  "ctx_read rel g = (Inl e, g') \<Longrightarrow>
     seen g rel = None \<and> texts g rel = None \<and> read_text (kfiles g) rel = Inl e \<and> g' = g"
  by (auto simp: seen_def ctx_read_def split: option.splits sum.splits)

lemma ctx_read_cached: "texts g rel = Some t \<Longrightarrow> ctx_read rel g = (Inr t, g)"
  by (simp add: ctx_read_def)

subsection \<open>Interface: a relation kept by the context's operations\<close>

locale ctx_relation =
  fixes A :: "gctx \<Rightarrow> path set" and R :: "gctx \<Rightarrow> gctx \<Rightarrow> bool"
  assumes R_refl: "R g g"
    and R_trans: "R g h \<Longrightarrow> R h k \<Longrightarrow> R g k"
    and R_read: "R g (snd (ctx_read rel g))"
    and R_write: "rel \<in> A g \<Longrightarrow> rel \<in> dom (texts g) \<Longrightarrow> R g (snd (ctx_write rel t g))"
    and R_shape: "R g (g\<lparr>shape_cache := c\<rparr>)"

definition prog_on :: "(gctx \<Rightarrow> path set) \<Rightarrow> 'a io \<Rightarrow> bool" where
  "prog_on A m \<longleftrightarrow> (\<forall>R. ctx_relation A R \<longrightarrow> (\<forall>g. R g (snd (m g))))"

lemma prog_onI: "(\<And>R g. ctx_relation A R \<Longrightarrow> R g (snd (m g))) \<Longrightarrow> prog_on A m"
  unfolding prog_on_def by blast

lemma prog_onD: "prog_on A m \<Longrightarrow> ctx_relation A R \<Longrightarrow> R g (snd (m g))"
  unfolding prog_on_def by blast

lemma ctx_relation_mono:
  "ctx_relation B R \<Longrightarrow> (\<And>g. A g \<subseteq> B g) \<Longrightarrow> ctx_relation A R"
  unfolding ctx_relation_def by blast

lemma prog_on_mono: "prog_on A m \<Longrightarrow> (\<And>g. A g \<subseteq> B g) \<Longrightarrow> prog_on B m"
  unfolding prog_on_def using ctx_relation_mono by blast

lemma prog_ret [safe_intros]: "prog_on A (io_ret x)"
  by (rule prog_onI) (simp add: io_ret_def ctx_relation.R_refl)

lemma prog_raise [safe_intros]: "prog_on A (io_raise e)"
  by (rule prog_onI) (simp add: io_raise_def ctx_relation.R_refl)

lemma prog_get [safe_intros]: "prog_on A (io_get f)"
  by (rule prog_onI) (simp add: io_get_def ctx_relation.R_refl)

lemma prog_read [safe_intros]: "prog_on A (ctx_read rel)"
  by (rule prog_onI) (rule ctx_relation.R_read)

lemma prog_bind [safe_intros]:
  assumes "prog_on A m" and "\<And>x. prog_on A (f x)"
  shows "prog_on A (io_bind m f)"
proof (rule prog_onI)
  fix R g
  assume R: "ctx_relation A R"
  from prog_onD [OF assms(1) R, of g] show "R g (snd (io_bind m f g))"
    using prog_onD [OF assms(2) R] ctx_relation.R_trans [OF R]
    by (auto simp: io_bind_def split: prod.splits sum.splits)
qed

lemma prog_try [safe_intros]:
  assumes "prog_on A m" and "\<And>e. prog_on A (h e)" and "\<And>x. prog_on A (k x)"
  shows "prog_on A (io_try c m h k)"
proof (rule prog_onI)
  fix R g
  assume R: "ctx_relation A R"
  from prog_onD [OF assms(1) R, of g] show "R g (snd (io_try c m h k g))"
    using prog_onD [OF assms(2) R] prog_onD [OF assms(3) R] ctx_relation.R_trans [OF R]
    by (auto simp: io_try_def split: prod.splits sum.splits)
qed

lemma prog_if [safe_intros]:
  "prog_on A m \<Longrightarrow> prog_on A n \<Longrightarrow> prog_on A (if b then m else n)"
  by simp

lemma prog_case_option [safe_intros]:
  "prog_on A m \<Longrightarrow> (\<And>x. prog_on A (f x)) \<Longrightarrow> prog_on A (case z of None \<Rightarrow> m | Some x \<Rightarrow> f x)"
  by (cases z) simp_all

lemma prog_case_prod [safe_intros]:
  "(\<And>x y. prog_on A (f x y)) \<Longrightarrow> prog_on A (case z of (x, y) \<Rightarrow> f x y)"
  by (cases z) simp

lemma prog_Let [safe_intros]: "(\<And>x. prog_on A (f x)) \<Longrightarrow> prog_on A (let x = z in f x)"
  by simp

lemma block_rolled_back_shape:
  "snd (block_rolled_back g) = g \<or> snd (block_rolled_back g) = snd (ctx_read ''block/blk-mq.c'' g) \<or>
   (\<exists>c. snd (block_rolled_back g) = (snd (ctx_read ''block/blk-mq.c'' g))\<lparr>shape_cache := c\<rparr>)"
proof (cases "shape_cache g")
  case None
  then show ?thesis
    by (cases "ctx_read ''block/blk-mq.c'' g"; cases "fst (ctx_read ''block/blk-mq.c'' g)")
      (auto simp only: block_rolled_back_def io_bind_def Let_def prod.case sum.case snd_conv
        fst_conv option.case)
next
  case (Some c)
  then show ?thesis by (simp add: block_rolled_back_def)
qed

lemma prog_block_rolled_back [safe_intros]: "prog_on A block_rolled_back"
proof (rule prog_onI)
  fix R g
  assume R: "ctx_relation A R"
  have r: "R g (snd (ctx_read ''block/blk-mq.c'' g))" by (rule ctx_relation.R_read [OF R])
  from block_rolled_back_shape [of g] show "R g (snd (block_rolled_back g))"
  proof (elim disjE exE)
    assume "snd (block_rolled_back g) = g"
    then show ?thesis using ctx_relation.R_refl [OF R, of g] by (simp only:)
  next
    assume "snd (block_rolled_back g) = snd (ctx_read ''block/blk-mq.c'' g)"
    then show ?thesis using r by (simp only:)
  next
    fix c
    assume "snd (block_rolled_back g) = (snd (ctx_read ''block/blk-mq.c'' g))\<lparr>shape_cache := c\<rparr>"
    then show ?thesis using ctx_relation.R_trans [OF R r ctx_relation.R_shape [OF R]] by (simp only:)
  qed
qed

lemma prog_suite_touched [safe_intros]: "prog_on A (suite_touched rel)"
  unfolding suite_touched_def by (intro safe_intros)

lemma prog_suite_fdtable_fallback [safe_intros]: "prog_on A suite_fdtable_fallback"
  unfolding suite_fdtable_fallback_def by (intro safe_intros)

lemma prog_fdtable_upstream_shape [safe_intros]: "prog_on A fdtable_upstream_shape"
  unfolding fdtable_upstream_shape_def by (intro safe_intros)

subsection \<open>A write right after the read of the same file\<close>

lemma prog_read_then:
  assumes R: "ctx_relation A R"
    and k: "\<And>t. R (g\<lparr>texts := (texts g)(rel \<mapsto> t)\<rparr>) (snd (k t (g\<lparr>texts := (texts g)(rel \<mapsto> t)\<rparr>)))"
  shows "R g (snd (io_bind (ctx_read rel) k g))"
proof -
  obtain r h where h: "ctx_read rel g = (r, h)" by (cases "ctx_read rel g")
  then have 1: "R g h" using ctx_relation.R_read [OF R, of g rel] by simp
  show ?thesis
  proof (cases r)
    case (Inl e)
    with h 1 show ?thesis by (simp add: io_bind_def)
  next
    case (Inr t)
    with h have "h = g\<lparr>texts := (texts g)(rel \<mapsto> t)\<rparr>" using ctx_read_Inr [of rel g t h] by simp
    with k [of t] 1 h Inr show ?thesis
      using ctx_relation.R_trans [OF R] by (simp add: io_bind_def)
  qed
qed

lemma prog_write_then:
  assumes R: "ctx_relation A R" and "rel \<in> A g" and "texts g rel = Some t"
    and k: "\<And>u. prog_on A (k u)"
  shows "R g (snd (io_bind (ctx_write rel t') k g))"
proof -
  obtain r h where h: "ctx_write rel t' g = (r, h)" by (cases "ctx_write rel t' g")
  then have 1: "R g h" using ctx_relation.R_write [OF R assms(2), of t'] assms(3) by auto
  show ?thesis
  proof (cases r)
    case (Inl e)
    with h 1 show ?thesis by (simp add: io_bind_def)
  next
    case (Inr u)
    have "R h (snd (k u h))" by (rule prog_onD [OF k R])
    with 1 h Inr show ?thesis
      using ctx_relation.R_trans [OF R] by (simp add: io_bind_def)
  qed
qed

subsection \<open>The configuration lane writes the defconfig, and only inside the tree\<close>

definition defconfig_scope :: "gctx \<Rightarrow> path set" where
  "defconfig_scope g = set_option (defconfig_rel g)"

lemma io_bind_get [simp]: "io_bind (io_get f) k g = k (f g) g"
  by (simp add: io_bind_def io_get_def)

lemma prog_ret_at: "ctx_relation A R \<Longrightarrow> R g (snd (io_ret x g))"
  by (simp add: io_ret_def ctx_relation.R_refl)

lemma defconfig_scope_texts [simp]: "defconfig_scope (g\<lparr>texts := c\<rparr>) = defconfig_scope g"
  by (simp add: defconfig_scope_def)

lemma prog_enable_configs [safe_intros]: "prog_on defconfig_scope (enable_configs cfgs)"
proof (rule prog_onI)
  fix R g
  assume R: "ctx_relation defconfig_scope R"
  show "R g (snd (enable_configs cfgs g))"
  proof (cases "defconfig_rel g")
    case None
    then show ?thesis by (simp add: enable_configs_def prog_ret_at [OF R])
  next
    case (Some rel)
    then show ?thesis
      by (auto simp: enable_configs_def Let_def prog_ret_at [OF R] defconfig_scope_def
          intro!: prog_read_then [OF R] prog_write_then [OF R] safe_intros split: prod.split)
  qed
qed

lemma prog_drop_token [safe_intros]:
  "prog_on defconfig_scope (defconfig_drop_cmdline_token token)"
proof (rule prog_onI)
  fix R g
  assume R: "ctx_relation defconfig_scope R"
  show "R g (snd (defconfig_drop_cmdline_token token g))"
  proof (cases "defconfig_rel g")
    case None
    then show ?thesis by (simp add: defconfig_drop_cmdline_token_def prog_ret_at [OF R])
  next
    case (Some rel)
    then show ?thesis
      by (auto simp: defconfig_drop_cmdline_token_def Let_def prog_ret_at [OF R]
          defconfig_scope_def intro!: prog_read_then [OF R] prog_write_then [OF R] safe_intros)
  qed
qed

end
