(* ===== verification/Context_Frames.thy ===== *)
theory Context_Frames
  imports Context_Laws
begin

text \<open>
  The relations every program over the graft context keeps, each an interpretation of
  \<open>ctx_relation\<close>: a dry run leaves the tree alone, the constant fields stay, only the files of
  the scope (and their snapshots) change, the cache stays coherent with the tree, and the
  snapshots stay exact. \<open>graft_prog\<close> adds that a dry run answers as the real run does.
\<close>

subsection \<open>Constants and dry runs\<close>

definition same_consts :: "gctx \<Rightarrow> gctx \<Rightarrow> bool" where
  "same_consts g h \<longleftrightarrow> sub_level h = sub_level g \<and> family h = family g \<and> dry_run h = dry_run g
     \<and> defconfig h = defconfig g \<and> defconfig_rel h = defconfig_rel g \<and> environ h = environ g
     \<and> wording h = wording g \<and> common_dir h = common_dir g"

lemma ctx_read_cases:
  obtains (cached) t where "texts g rel = Some t" "ctx_read rel g = (Inr t, g)"
  | (failed) e where "texts g rel = None" "read_text (kfiles g) rel = Inl e"
      "ctx_read rel g = (Inl e, g)"
  | (loaded) t where "texts g rel = None" "read_text (kfiles g) rel = Inr t"
      "ctx_read rel g = (Inr t, g\<lparr>texts := (texts g)(rel \<mapsto> t)\<rparr>)"
  by (cases "texts g rel"; cases "read_text (kfiles g) rel") (auto simp: ctx_read_def)

lemma ctx_write_cases:
  obtains (dry) "dry_run g" "ctx_write rel t g =
      (Inr (), g\<lparr>texts := (texts g)(rel \<mapsto> t), dirty := insert_key rel (dirty g)\<rparr>)"
  | (wrote) fs where "\<not> dry_run g" "write_text (kfiles g) rel t True = (Inr (), fs)"
      "ctx_write rel t g = (Inr (), g\<lparr>texts := (texts g)(rel \<mapsto> t), kfiles := fs,
                                      dirty := insert_key rel (dirty g)\<rparr>)"
  | (failed) e fs where "\<not> dry_run g" "write_text (kfiles g) rel t True = (Inl e, fs)"
      "ctx_write rel t g = (Inl e, g\<lparr>texts := (texts g)(rel \<mapsto> t), kfiles := fs\<rparr>)"
proof (cases "dry_run g")
  case True
  then show ?thesis using dry by (simp add: ctx_write_def Let_def)
next
  case False
  obtain r fs where w: "write_text (kfiles g) rel t True = (r, fs)" by fastforce
  show ?thesis
  proof (cases r)
    case (Inl e)
    with w False show ?thesis using failed by (simp add: ctx_write_def Let_def)
  next
    case (Inr u)
    with w False show ?thesis using wrote by (simp add: ctx_write_def Let_def)
  qed
qed

interpretation steady: ctx_relation A same_consts
proof unfold_locales
  fix g rel
  show "same_consts g (snd (ctx_read rel g))"
    by (rule ctx_read_cases [of g rel]) (simp_all add: same_consts_def)
next
  fix g rel t
  show "same_consts g (snd (ctx_write rel t g))"
    by (rule ctx_write_cases [of g rel t]) (simp_all add: same_consts_def)
qed (auto simp: same_consts_def)

definition dry_keeps :: "gctx \<Rightarrow> gctx \<Rightarrow> bool" where
  "dry_keeps g h \<longleftrightarrow> dry_run h = dry_run g \<and> (dry_run g \<longrightarrow> kfiles h = kfiles g)"

interpretation dry: ctx_relation A dry_keeps
proof unfold_locales
  fix g rel
  show "dry_keeps g (snd (ctx_read rel g))"
    by (rule ctx_read_cases [of g rel]) (simp_all add: dry_keeps_def)
next
  fix g rel t
  show "dry_keeps g (snd (ctx_write rel t g))"
    by (rule ctx_write_cases [of g rel t]) (simp_all add: dry_keeps_def)
qed (auto simp: dry_keeps_def)

subsection \<open>The scope frames the tree\<close>

definition fixed_scope :: "(gctx \<Rightarrow> path set) \<Rightarrow> bool" where
  "fixed_scope A \<longleftrightarrow> (\<forall>g h. same_consts g h \<longrightarrow> A h = A g)"

lemma fixed_scope_const [simp]: "fixed_scope (\<lambda>_. S)"
  by (simp add: fixed_scope_def)

lemma fixed_scope_defconfig [simp]: "fixed_scope defconfig_scope"
  by (simp add: fixed_scope_def defconfig_scope_def same_consts_def)

lemma fixed_scope_Un [simp]:
  "fixed_scope A \<Longrightarrow> fixed_scope B \<Longrightarrow> fixed_scope (\<lambda>g. A g \<union> B g)"
  unfolding fixed_scope_def by blast

lemma fixed_scopeD: "fixed_scope A \<Longrightarrow> same_consts g h \<Longrightarrow> A h = A g"
  unfolding fixed_scope_def by blast

definition with_backups :: "path set \<Rightarrow> path set" where
  "with_backups S = S \<union> (\<lambda>p. p @ BACKUP_SUFFIX) ` S"

definition framed :: "(gctx \<Rightarrow> path set) \<Rightarrow> gctx \<Rightarrow> gctx \<Rightarrow> bool" where
  "framed A g h \<longleftrightarrow> same_consts g h \<and> set (dirty g) \<subseteq> set (dirty h)
     \<and> set (dirty h) \<subseteq> set (dirty g) \<union> A g
     \<and> dom (texts g) \<subseteq> dom (texts h)
     \<and> (\<forall>p. p \<notin> A g \<longrightarrow> p \<in> dom (texts g) \<longrightarrow> texts h p = texts g p)
     \<and> (\<forall>p. p \<notin> with_backups (A g) \<longrightarrow> kfiles h p = kfiles g p)"

lemma write_text_frame:
  "write_text fs p t b = (r, fs') \<Longrightarrow> q \<noteq> p \<Longrightarrow> q \<noteq> p @ BACKUP_SUFFIX \<Longrightarrow> fs' q = fs q"
  by (auto simp: write_text_def Let_def split: if_splits)

lemma framed_write:
  assumes "rel \<in> A g"
  shows "framed A g (snd (ctx_write rel t g))"
  by (rule ctx_write_cases [of g rel t])
    (use assms in \<open>auto simp: framed_def same_consts_def with_backups_def
        dest: write_text_frame\<close>)

lemma framed_trans:
  assumes "fixed_scope A" and "framed A g h" and "framed A h k"
  shows "framed A g k"
proof -
  have A: "A h = A g" using assms(2) fixed_scopeD [OF assms(1)] by (simp add: framed_def)
  note f = assms(2,3) [unfolded framed_def A]
  have "same_consts g k" using f by (simp add: same_consts_def)
  moreover have "texts k p = texts g p" if "p \<notin> A g" "p \<in> dom (texts g)" for p
  proof -
    from f(1) that have "texts h p = texts g p" and "p \<in> dom (texts h)" by blast+
    with f(2) that show ?thesis by simp
  qed
  moreover have "kfiles k p = kfiles g p" if "p \<notin> with_backups (A g)" for p
    using f that by simp
  moreover have "set (dirty g) \<subseteq> set (dirty k)" "set (dirty k) \<subseteq> set (dirty g) \<union> A g"
    "dom (texts g) \<subseteq> dom (texts k)"
    using f by blast+
  ultimately show ?thesis by (simp add: framed_def)
qed

lemma ctx_relation_framed:
  assumes "fixed_scope A"
  shows "ctx_relation A (framed A)"
proof unfold_locales
  fix g rel
  show "framed A g (snd (ctx_read rel g))"
    by (rule ctx_read_cases [of g rel]) (auto simp: framed_def same_consts_def)
next
  fix g h k
  show "framed A g h \<Longrightarrow> framed A h k \<Longrightarrow> framed A g k"
    by (rule framed_trans [OF assms])
next
  fix rel t g
  show "rel \<in> A g \<Longrightarrow> framed A g (snd (ctx_write rel t g))"
    by (rule framed_write)
qed (auto simp: framed_def same_consts_def)

subsection \<open>Programs with an empty scope do not write\<close>

definition unwritten :: "gctx \<Rightarrow> gctx \<Rightarrow> bool" where
  "unwritten g h \<longleftrightarrow> same_consts g h \<and> kfiles h = kfiles g \<and> dirty h = dirty g \<and> seen h = seen g
     \<and> (\<forall>rel t. texts g rel = Some t \<longrightarrow> texts h rel = Some t)"

lemma unwritten_refl [simp]: "unwritten g g"
  by (simp add: unwritten_def same_consts_def)

lemma unwritten_trans [trans]: "unwritten g h \<Longrightarrow> unwritten h k \<Longrightarrow> unwritten g k"
  by (simp add: unwritten_def same_consts_def)

lemma seen_load:
  "texts g rel = None \<Longrightarrow> read_text (kfiles g) rel = Inr t \<Longrightarrow>
   seen (g\<lparr>texts := (texts g)(rel \<mapsto> t)\<rparr>) = seen g"
  by (auto simp: seen_def fun_eq_iff split: option.split sum.split)

interpretation quiet: ctx_relation "\<lambda>_. {}" unwritten
proof unfold_locales
  fix g rel
  show "unwritten g (snd (ctx_read rel g))"
    by (rule ctx_read_cases [of g rel]) (auto simp: unwritten_def same_consts_def seen_load)
next
  fix g h k
  show "unwritten g h \<Longrightarrow> unwritten h k \<Longrightarrow> unwritten g k" by (rule unwritten_trans)
next
  fix g c
  show "unwritten g (g\<lparr>shape_cache := c\<rparr>)"
    by (auto simp: unwritten_def same_consts_def seen_def fun_eq_iff split: option.split sum.split)
qed simp_all

subsection \<open>Coherence of the cache\<close>

definition coherent :: "gctx \<Rightarrow> bool" where
  "coherent g \<longleftrightarrow> set (dirty g) \<subseteq> dom (texts g) \<and>
     (\<forall>rel t. texts g rel = Some t \<longrightarrow>
        (dry_run g \<and> rel \<in> set (dirty g)) \<or> kfiles g rel = Some (Regular t))"

lemma coherent_file:
  "coherent g \<Longrightarrow> \<not> dry_run g \<Longrightarrow> texts g rel = Some t \<Longrightarrow> kfiles g rel = Some (Regular t)"
  by (auto simp: coherent_def)

lemma read_text_Inr: "read_text fs rel = Inr t \<longleftrightarrow> fs rel = Some (Regular t) \<and> utf8_valid t"
  by (auto simp: read_text_def split: option.splits node.splits)

lemma coherent_read: "coherent g \<Longrightarrow> coherent (snd (ctx_read rel g))"
  by (rule ctx_read_cases [of g rel]) (auto simp: coherent_def read_text_Inr)

lemma write_coherent:
  assumes "coherent g" and "\<not> dry_run g" and "rel \<in> dom (texts g)"
  obtains fs where "write_text (kfiles g) rel t True = (Inr (), fs)"
    and "fs rel = Some (Regular t)"
    and "\<And>p b. p \<noteq> rel \<Longrightarrow> kfiles g p = Some b \<Longrightarrow> fs p = Some b"
    and "\<And>p. p \<noteq> rel \<Longrightarrow> p \<noteq> rel @ BACKUP_SUFFIX \<Longrightarrow> fs p = kfiles g p"
proof -
  from assms obtain b where "kfiles g rel = Some (Regular b)"
    using coherent_file by (metis domD)
  from write_text_cases [of "kfiles g" rel b t, OF this] that show ?thesis by fastforce
qed

lemma coherent_write:
  assumes "coherent g" and "rel \<in> dom (texts g)"
  shows "coherent (snd (ctx_write rel t g)) \<and> fst (ctx_write rel t g) = Inr ()"
proof (cases "dry_run g")
  case True
  with assms show ?thesis by (auto simp: coherent_def ctx_write_def Let_def)
next
  case False
  obtain fs where w: "write_text (kfiles g) rel t True = (Inr (), fs)"
    "fs rel = Some (Regular t)" "\<And>p b. p \<noteq> rel \<Longrightarrow> kfiles g p = Some b \<Longrightarrow> fs p = Some b"
    by (rule write_coherent [OF assms(1) False assms(2)]) blast
  have "fs p = Some (Regular u)" if "p \<noteq> rel" "texts g p = Some u" for p u
    using w(3) [OF that(1)] coherent_file [OF assms(1) False that(2)] by simp
  with False w(1,2) assms show ?thesis
    by (auto simp: ctx_write_def Let_def coherent_def)
qed

definition keeps_coherent :: "gctx \<Rightarrow> gctx \<Rightarrow> bool" where
  "keeps_coherent g h \<longleftrightarrow> (coherent g \<longrightarrow> coherent h)"

interpretation cohere: ctx_relation A keeps_coherent
proof unfold_locales
  fix g c
  show "keeps_coherent g (g\<lparr>shape_cache := c\<rparr>)" by (simp add: keeps_coherent_def coherent_def)
qed (auto simp: keeps_coherent_def coherent_read coherent_write)

subsection \<open>Snapshots\<close>

definition no_backup :: "path set \<Rightarrow> bool" where
  "no_backup S \<longleftrightarrow> (\<forall>p \<in> S. \<not> is_backup p)"

definition keeps_snap :: "(gctx \<Rightarrow> path set) \<Rightarrow> store \<Rightarrow> gctx \<Rightarrow> gctx \<Rightarrow> bool" where
  "keeps_snap A fs0 g h \<longleftrightarrow> same_consts g h \<and>
     (no_backup (A g) \<longrightarrow> snap fs0 (kfiles g) \<longrightarrow> snap fs0 (kfiles h))"

lemma ctx_write_kfiles:
  "kfiles (snd (ctx_write rel t g)) =
     (if dry_run g then kfiles g else snd (write_text (kfiles g) rel t True))"
  by (rule ctx_write_cases [of g rel t]) auto

lemma ctx_read_kfiles [simp]: "kfiles (snd (ctx_read rel g)) = kfiles g"
  by (rule ctx_read_cases [of g rel]) auto

lemma ctx_relation_snap:
  assumes "fixed_scope A"
  shows "ctx_relation A (keeps_snap A fs0)"
proof unfold_locales
  fix g h k
  assume "keeps_snap A fs0 g h" and "keeps_snap A fs0 h k"
  moreover from this(1) have "A h = A g"
    using fixed_scopeD [OF assms] by (simp add: keeps_snap_def)
  ultimately show "keeps_snap A fs0 g k" by (simp add: keeps_snap_def same_consts_def)
next
  fix g rel
  show "keeps_snap A fs0 g (snd (ctx_read rel g))"
    using steady.R_read [of g rel] by (simp add: keeps_snap_def)
next
  fix rel g t
  assume "rel \<in> A g" and "rel \<in> dom (texts g)"
  with steady.R_write [of rel "\<lambda>_. UNIV" g t]
  show "keeps_snap A fs0 g (snd (ctx_write rel t g))"
    by (auto simp: keeps_snap_def no_backup_def ctx_write_kfiles intro: write_text_snap)
qed (auto simp: keeps_snap_def same_consts_def)

text \<open>Every pending write has its snapshot on disk.\<close>

definition all_backed :: "gctx \<Rightarrow> bool" where
  "all_backed g \<longleftrightarrow> (\<forall>rel \<in> set (dirty g). kfiles g (rel @ BACKUP_SUFFIX) \<noteq> None)"

definition keeps_backed :: "gctx \<Rightarrow> gctx \<Rightarrow> bool" where
  "keeps_backed g h \<longleftrightarrow> dry_run h = dry_run g \<and> (\<not> dry_run g \<longrightarrow> all_backed g \<longrightarrow> all_backed h)"

lemma write_text_backed:
  assumes "write_text fs p t True = (Inr (), fs')"
  shows "fs' (p @ BACKUP_SUFFIX) \<noteq> None" and "fs q \<noteq> None \<Longrightarrow> fs' q \<noteq> None"
  using assms by (auto simp: write_text_def Let_def split: if_splits)

interpretation backed: ctx_relation A keeps_backed
proof unfold_locales
  fix g rel
  show "keeps_backed g (snd (ctx_read rel g))"
    by (rule ctx_read_cases [of g rel]) (simp_all add: keeps_backed_def all_backed_def)
next
  fix rel g t
  show "keeps_backed g (snd (ctx_write rel t g))"
  proof (rule ctx_write_cases [of g rel t])
    fix fs
    assume nd: "\<not> dry_run g" and w: "write_text (kfiles g) rel t True = (Inr (), fs)"
      and e: "ctx_write rel t g = (Inr (), g\<lparr>texts := (texts g)(rel \<mapsto> t), kfiles := fs,
                dirty := insert_key rel (dirty g)\<rparr>)"
    from w have "all_backed g \<Longrightarrow> q \<in> insert rel (set (dirty g)) \<Longrightarrow> fs (q @ BACKUP_SUFFIX) \<noteq> None" for q
      using write_text_backed [OF w] unfolding all_backed_def by blast
    then show ?thesis using e unfolding keeps_backed_def all_backed_def by simp
  next
    fix e fs
    assume nd: "\<not> dry_run g" and w: "write_text (kfiles g) rel t True = (Inl e, fs)"
      and e: "ctx_write rel t g = (Inl e, g\<lparr>texts := (texts g)(rel \<mapsto> t), kfiles := fs\<rparr>)"
    from w have "kfiles g q \<noteq> None \<Longrightarrow> fs q \<noteq> None" for q
      by (auto simp: write_text_def Let_def split: if_splits)
    then show ?thesis using e unfolding keeps_backed_def all_backed_def by simp
  qed (simp add: keeps_backed_def)
qed (auto simp: keeps_backed_def all_backed_def)

end
