(* ===== verification/Dry_Run.thy ===== *)
theory Dry_Run
  imports Context_Frames
begin

text \<open>
  A dry run computes the statuses the real run would report. \<open>dry_sim w d\<close> relates the context
  of the real run to the one of the dry run: equal except that the dry one has not written.
  A program is \<open>dry_blind\<close> if related contexts give the same answer and stay related, and
  \<open>graft_prog A\<close> joins this with \<open>prog_on A\<close>: the contract of every patch group's function.
\<close>

definition dry_sim :: "gctx \<Rightarrow> gctx \<Rightarrow> bool" where
  "dry_sim w d \<longleftrightarrow> \<not> dry_run w \<and> coherent w \<and> coherent d \<and> no_backup (defconfig_scope w) \<and>
     (\<exists>fs. d = w\<lparr>dry_run := True, kfiles := fs\<rparr> \<and>
        (\<forall>rel. \<not> is_backup rel \<longrightarrow> rel \<notin> dom (texts w) \<longrightarrow> fs rel = kfiles w rel))"

definition dry_agree :: "gctx \<Rightarrow> gctx \<Rightarrow> 'a io \<Rightarrow> bool" where
  "dry_agree w d m \<longleftrightarrow> fst (m d) = fst (m w) \<and> dry_sim (snd (m w)) (snd (m d))"

definition dry_blind :: "'a io \<Rightarrow> bool" where
  "dry_blind m \<longleftrightarrow> (\<forall>w d. dry_sim w d \<longrightarrow> dry_agree w d m)"

lemma dry_blindI: "(\<And>w d. dry_sim w d \<Longrightarrow> dry_agree w d m) \<Longrightarrow> dry_blind m"
  by (simp add: dry_blind_def)

lemma dry_blindD: "dry_blind m \<Longrightarrow> dry_sim w d \<Longrightarrow> dry_agree w d m"
  by (simp add: dry_blind_def)

lemma dry_simE:
  assumes "dry_sim w d"
  obtains fs where "d = w\<lparr>dry_run := True, kfiles := fs\<rparr>" and "\<not> dry_run w" and "coherent w"
    and "coherent d"
    and "no_backup (defconfig_scope w)"
    and "\<And>rel. \<not> is_backup rel \<Longrightarrow> rel \<notin> dom (texts w) \<Longrightarrow> fs rel = kfiles w rel"
  using assms by (auto simp: dry_sim_def)

lemma dry_simI:
  "d = w\<lparr>dry_run := True, kfiles := fs\<rparr> \<Longrightarrow> \<not> dry_run w \<Longrightarrow> coherent w \<Longrightarrow> coherent d \<Longrightarrow>
   no_backup (defconfig_scope w) \<Longrightarrow>
   (\<And>rel. \<not> is_backup rel \<Longrightarrow> rel \<notin> dom (texts w) \<Longrightarrow> fs rel = kfiles w rel) \<Longrightarrow> dry_sim w d"
  by (auto simp: dry_sim_def)

lemma agree_ret: "dry_sim w d \<Longrightarrow> dry_agree w d (io_ret x)"
  by (simp add: dry_agree_def io_ret_def)

lemma agree_bind:
  assumes "dry_agree w d m"
    and "\<And>x w' d'. m w = (Inr x, w') \<Longrightarrow> dry_sim w' d' \<Longrightarrow> dry_agree w' d' (f x)"
  shows "dry_agree w d (io_bind m f)"
proof -
  obtain r w' where w: "m w = (r, w')" by fastforce
  obtain d' where d: "m d = (r, d')" and s: "dry_sim w' d'"
    using assms(1) w by (cases "m d") (simp add: dry_agree_def)
  show ?thesis
  proof (cases r)
    case (Inl e)
    with w d s show ?thesis by (simp add: dry_agree_def io_bind_def)
  next
    case (Inr x)
    from assms(2) [OF _ s, of x] w d Inr show ?thesis by (simp add: dry_agree_def io_bind_def)
  qed
qed

lemma agree_try:
  assumes "dry_agree w d m"
    and "\<And>e w' d'. dry_sim w' d' \<Longrightarrow> dry_agree w' d' (h e)"
    and "\<And>x w' d'. m w = (Inr x, w') \<Longrightarrow> dry_sim w' d' \<Longrightarrow> dry_agree w' d' (f x)"
  shows "dry_agree w d (io_try c m h f)"
proof -
  obtain r w' where w: "m w = (r, w')" by fastforce
  obtain d' where d: "m d = (r, d')" and s: "dry_sim w' d'"
    using assms(1) w by (cases "m d") (simp add: dry_agree_def)
  show ?thesis
  proof (cases r)
    case (Inl e)
    with w d s assms(2) [OF s, of e] show ?thesis by (simp add: dry_agree_def io_try_def)
  next
    case (Inr x)
    from assms(3) [OF _ s, of x] w d Inr show ?thesis by (simp add: dry_agree_def io_try_def)
  qed
qed

lemma agree_read:
  assumes "dry_sim w d" and "\<not> is_backup rel"
  shows "dry_agree w d (ctx_read rel)"
proof -
  from assms(1) obtain fs where d: "d = w\<lparr>dry_run := True, kfiles := fs\<rparr>"
    and w: "\<not> dry_run w" "coherent w" "coherent d" "no_backup (defconfig_scope w)"
    and fs: "\<And>rel. \<not> is_backup rel \<Longrightarrow> rel \<notin> dom (texts w) \<Longrightarrow> fs rel = kfiles w rel"
    by (rule dry_simE) blast
  show ?thesis
  proof (rule ctx_read_cases [of w rel])
    fix t
    assume "texts w rel = Some t" and "ctx_read rel w = (Inr t, w)"
    with d assms(1) show ?thesis by (simp add: dry_agree_def ctx_read_def)
  next
    fix e
    assume *: "texts w rel = None" "read_text (kfiles w) rel = Inl e" "ctx_read rel w = (Inl e, w)"
    then have "fs rel = kfiles w rel" by (intro fs assms(2)) (simp add: domIff)
    with *(2) have "read_text fs rel = Inl e" by (simp add: read_text_def)
    with * d assms(1) show ?thesis by (simp add: dry_agree_def ctx_read_def)
  next
    fix t
    let ?w = "w\<lparr>texts := (texts w)(rel \<mapsto> t)\<rparr>"
    assume *: "texts w rel = None" "read_text (kfiles w) rel = Inr t" "ctx_read rel w = (Inr t, ?w)"
    then have "fs rel = kfiles w rel" by (intro fs assms(2)) (simp add: domIff)
    with *(2) have r: "read_text fs rel = Inr t" by (simp add: read_text_def)
    have "coherent ?w" using coherent_read [OF w(2), of rel] * by simp
    then have "dry_sim ?w (d\<lparr>texts := (texts w)(rel \<mapsto> t)\<rparr>)"
      using w fs coherent_read [OF w(3), of rel] r *(1)
      by (intro dry_simI [where fs = fs]) (auto simp: d ctx_read_def)
    with * r d show ?thesis by (simp add: dry_agree_def ctx_read_def)
  qed
qed

lemma agree_write:
  assumes "dry_sim w d" and "rel \<in> dom (texts w)"
  shows "dry_agree w d (ctx_write rel t)"
proof -
  from assms(1) obtain fs where d: "d = w\<lparr>dry_run := True, kfiles := fs\<rparr>"
    and w: "\<not> dry_run w" "coherent w" "coherent d" "no_backup (defconfig_scope w)"
    and fs: "\<And>rel. \<not> is_backup rel \<Longrightarrow> rel \<notin> dom (texts w) \<Longrightarrow> fs rel = kfiles w rel"
    by (rule dry_simE) blast
  obtain fs' where f: "write_text (kfiles w) rel t True = (Inr (), fs')"
    "\<And>p. p \<noteq> rel \<Longrightarrow> p \<noteq> rel @ BACKUP_SUFFIX \<Longrightarrow> fs' p = kfiles w p"
    by (rule write_coherent [OF w(2,1) assms(2)]) blast
  let ?w = "w\<lparr>texts := (texts w)(rel \<mapsto> t), kfiles := fs', dirty := insert_key rel (dirty w)\<rparr>"
  have W: "ctx_write rel t w = (Inr (), ?w)"
    using f(1) w(1) by (simp add: ctx_write_def Let_def)
  have "coherent (snd (ctx_write rel t w))" using coherent_write [OF w(2) assms(2)] by blast
  then have "coherent ?w" using W by simp
  moreover have "fs p = fs' p" if "\<not> is_backup p" "p \<notin> dom (texts ?w)" for p
  proof -
    from that have "p \<noteq> rel" "p \<noteq> rel @ BACKUP_SUFFIX" "p \<notin> dom (texts w)" by auto
    with f(2) fs that(1) show ?thesis by simp
  qed
  moreover have "coherent (snd (ctx_write rel t d))"
    using coherent_write [OF w(3)] assms(2) by (simp add: d)
  then have "coherent (d\<lparr>texts := (texts w)(rel \<mapsto> t), dirty := insert_key rel (dirty w)\<rparr>)"
    by (simp add: d ctx_write_def Let_def)
  ultimately have "dry_sim ?w
      (d\<lparr>texts := (texts w)(rel \<mapsto> t), dirty := insert_key rel (dirty w)\<rparr>)"
    using w by (intro dry_simI [where fs = fs]) (simp_all add: defconfig_scope_def d)
  moreover have "ctx_write rel t d =
      (Inr (), d\<lparr>texts := (texts w)(rel \<mapsto> t), dirty := insert_key rel (dirty w)\<rparr>)"
    by (simp add: d ctx_write_def Let_def)
  ultimately show ?thesis using W by (simp add: dry_agree_def)
qed

lemma agree_get:
  assumes "dry_sim w d" and "\<And>g fs. f (g\<lparr>dry_run := True, kfiles := fs\<rparr>) = f g"
  shows "dry_agree w d (io_get f)"
  using assms by (auto simp: dry_agree_def io_get_def elim: dry_simE)

lemma agree_shape:
  assumes "dry_sim w d"
  shows "dry_sim (w\<lparr>shape_cache := c\<rparr>) (d\<lparr>shape_cache := c\<rparr>)"
proof -
  from assms obtain fs where d: "d = w\<lparr>dry_run := True, kfiles := fs\<rparr>"
    and w: "\<not> dry_run w" "coherent w" "coherent d" "no_backup (defconfig_scope w)"
    and fs: "\<And>rel. \<not> is_backup rel \<Longrightarrow> rel \<notin> dom (texts w) \<Longrightarrow> fs rel = kfiles w rel"
    by (rule dry_simE) blast
  show ?thesis
    by (rule dry_simI [where fs = fs])
      (use d w fs in \<open>simp_all add: coherent_def defconfig_scope_def\<close>)
qed

lemma agree_read_then:
  assumes "dry_sim w d" and "\<not> is_backup rel"
    and "\<And>t w' d'. dry_sim w' d' \<Longrightarrow> texts w' rel = Some t \<Longrightarrow> defconfig_rel w' = defconfig_rel w
           \<Longrightarrow> dry_agree w' d' (k t)"
  shows "dry_agree w d (io_bind (ctx_read rel) k)"
proof (rule agree_bind [OF agree_read [OF assms(1,2)]])
  fix t w' d'
  assume "ctx_read rel w = (Inr t, w')" and s: "dry_sim w' d'"
  then have "texts w' rel = Some t" and "defconfig_rel w' = defconfig_rel w"
    using ctx_read_Inr [of rel w t w'] by simp_all
  with s show "dry_agree w' d' (k t)" by (rule assms(3))
qed

lemma agree_write_then:
  assumes "dry_sim w d" and "texts w rel = Some t" and "\<And>u. dry_blind (k u)"
  shows "dry_agree w d (io_bind (ctx_write rel t') k)"
  by (rule agree_bind [OF agree_write [OF assms(1)]]) (use assms(2,3) in \<open>auto intro: dry_blindD\<close>)

subsection \<open>The contract of a program over the context\<close>

definition graft_prog :: "(gctx \<Rightarrow> path set) \<Rightarrow> 'a io \<Rightarrow> bool" where
  "graft_prog A m \<longleftrightarrow> prog_on A m \<and> dry_blind m"

lemma graft_progI: "prog_on A m \<Longrightarrow> dry_blind m \<Longrightarrow> graft_prog A m"
  by (simp add: graft_prog_def)

lemma graft_keeps:
  assumes "graft_prog A m" and "ctx_relation A R"
  shows "R g (snd (m g))"
  using assms prog_onD unfolding graft_prog_def by blast

lemma graft_coherent: "graft_prog A m \<Longrightarrow> coherent g \<Longrightarrow> coherent (snd (m g))"
  using graft_keeps [OF _ cohere.ctx_relation_axioms, of A m g] by (simp add: keeps_coherent_def)

lemma graft_consts: "graft_prog A m \<Longrightarrow> same_consts g (snd (m g))"
  by (rule graft_keeps [OF _ steady.ctx_relation_axioms])

lemma graft_dry: "graft_prog A m \<Longrightarrow> dry_run g \<Longrightarrow> kfiles (snd (m g)) = kfiles g"
  using graft_keeps [OF _ dry.ctx_relation_axioms, of A m g] by (simp add: dry_keeps_def)

lemma graft_quiet: "graft_prog (\<lambda>_. {}) m \<Longrightarrow> unwritten g (snd (m g))"
  by (rule graft_keeps [OF _ quiet.ctx_relation_axioms])

lemma graft_framed: "graft_prog A m \<Longrightarrow> fixed_scope A \<Longrightarrow> framed A g (snd (m g))"
  by (rule graft_keeps [OF _ ctx_relation_framed])

lemma graft_snap:
  "graft_prog A m \<Longrightarrow> fixed_scope A \<Longrightarrow> no_backup (A g) \<Longrightarrow> snap fs0 (kfiles g) \<Longrightarrow>
   snap fs0 (kfiles (snd (m g)))"
  using graft_keeps [OF _ ctx_relation_snap, of A m fs0 g] by (simp add: keeps_snap_def)

lemma graft_mono: "graft_prog A m \<Longrightarrow> (\<And>g. A g \<subseteq> B g) \<Longrightarrow> graft_prog B m"
  unfolding graft_prog_def using prog_on_mono by blast

lemma graft_ret [safe_intros]: "graft_prog A (io_ret x)"
  by (intro graft_progI dry_blindI agree_ret safe_intros)

lemma graft_raise [safe_intros]: "graft_prog A (io_raise e)"
  by (intro graft_progI dry_blindI safe_intros) (simp add: dry_agree_def io_raise_def)

lemma graft_read [safe_intros]: "\<not> is_backup rel \<Longrightarrow> graft_prog A (ctx_read rel)"
  by (intro graft_progI dry_blindI agree_read safe_intros)

lemma graft_get: "(\<And>g fs. f (g\<lparr>dry_run := True, kfiles := fs\<rparr>) = f g) \<Longrightarrow> graft_prog A (io_get f)"
  by (intro graft_progI dry_blindI agree_get safe_intros)

lemma graft_get_environ [safe_intros]: "graft_prog A (io_get (\<lambda>g. F (environ g)))"
  by (rule graft_get) simp

lemma graft_bind [safe_intros]:
  "graft_prog A m \<Longrightarrow> (\<And>x. graft_prog A (f x)) \<Longrightarrow> graft_prog A (io_bind m f)"
  unfolding graft_prog_def
  by (auto intro!: prog_bind dry_blindI agree_bind intro: dry_blindD)

lemma graft_bind_in:
  assumes "graft_prog A m" and "\<And>x g h. m g = (Inr x, h) \<Longrightarrow> graft_prog A (f x)"
  shows "graft_prog A (io_bind m f)"
proof (rule graft_progI)
  show "prog_on A (io_bind m f)"
  proof (rule prog_onI)
    fix R g
    assume R: "ctx_relation A R"
    obtain r h where m: "m g = (r, h)" by fastforce
    have "prog_on A m" using assms(1) by (simp add: graft_prog_def)
    from prog_onD [OF this R, of g] m have 1: "R g h" by simp
    show "R g (snd (io_bind m f g))"
    proof (cases r)
      case (Inl e)
      with m 1 show ?thesis by (simp add: io_bind_def)
    next
      case (Inr x)
      with m assms(2) have f: "prog_on A (f x)" unfolding graft_prog_def by blast
      have "R h (snd (f x h))" by (rule prog_onD [OF f R])
      with 1 m Inr show ?thesis using ctx_relation.R_trans [OF R] by (simp add: io_bind_def)
    qed
  qed
  show "dry_blind (io_bind m f)"
    using assms unfolding graft_prog_def
    by (intro dry_blindI agree_bind) (blast intro: dry_blindD)+
qed

lemma graft_try [safe_intros]:
  "graft_prog A m \<Longrightarrow> (\<And>e. graft_prog A (h e)) \<Longrightarrow> (\<And>x. graft_prog A (k x)) \<Longrightarrow>
   graft_prog A (io_try c m h k)"
  unfolding graft_prog_def
  by (auto intro!: prog_try dry_blindI agree_try intro: dry_blindD)

lemma graft_if [safe_intros]:
  "graft_prog A m \<Longrightarrow> graft_prog A n \<Longrightarrow> graft_prog A (if b then m else n)"
  by simp

lemma graft_case_option [safe_intros]:
  "graft_prog A m \<Longrightarrow> (\<And>x. graft_prog A (f x)) \<Longrightarrow>
   graft_prog A (case z of None \<Rightarrow> m | Some x \<Rightarrow> f x)"
  by (cases z) simp_all

lemma graft_case_sum [safe_intros]:
  "(\<And>x. graft_prog A (f x)) \<Longrightarrow> (\<And>x. graft_prog A (h x)) \<Longrightarrow>
   graft_prog A (case z of Inl x \<Rightarrow> f x | Inr x \<Rightarrow> h x)"
  by (cases z) simp_all

lemma graft_case_prod [safe_intros]:
  "(\<And>x y. graft_prog A (f x y)) \<Longrightarrow> graft_prog A (case z of (x, y) \<Rightarrow> f x y)"
  by (cases z) simp

lemma graft_Let [safe_intros]: "(\<And>x. graft_prog A (f x)) \<Longrightarrow> graft_prog A (let x = z in f x)"
  by simp

lemma graft_or [safe_intros]: "graft_prog A a \<Longrightarrow> graft_prog A b \<Longrightarrow> graft_prog A (io_or a b)"
  unfolding io_or_def by (intro safe_intros)

lemma graft_read_write:
  assumes "\<And>g. rel \<in> A g" and "\<not> is_backup rel"
    and "\<And>t. graft_prog A (no t)" and "\<And>t u. graft_prog A (k t u)"
  shows "graft_prog A (io_bind (ctx_read rel)
           (\<lambda>t. if c t then no t else io_bind (ctx_write rel (f t)) (k t)))"
proof (rule graft_progI)
  show "prog_on A (io_bind (ctx_read rel)
           (\<lambda>t. if c t then no t else io_bind (ctx_write rel (f t)) (k t)))"
  proof (rule prog_onI)
    fix R g
    assume R: "ctx_relation A R"
    show "R g (snd (io_bind (ctx_read rel)
        (\<lambda>t. if c t then no t else io_bind (ctx_write rel (f t)) (k t)) g))"
    proof (rule prog_read_then [OF R])
      fix t
      let ?h = "g\<lparr>texts := (texts g)(rel \<mapsto> t)\<rparr>"
      have no: "prog_on A (no t)" and k: "\<And>u. prog_on A (k t u)"
        using assms(3,4) by (simp_all add: graft_prog_def)
      show "R ?h (snd ((if c t then no t else io_bind (ctx_write rel (f t)) (k t)) ?h))"
      proof (cases "c t")
        case True
        have "R ?h (snd (no t ?h))" by (rule prog_onD [OF no R])
        with True show ?thesis by simp
      next
        case False
        have "R ?h (snd (io_bind (ctx_write rel (f t)) (k t) ?h))"
          by (rule prog_write_then [OF R assms(1) _ k]) simp
        with False show ?thesis by simp
      qed
    qed
  qed
  show "dry_blind (io_bind (ctx_read rel)
           (\<lambda>t. if c t then no t else io_bind (ctx_write rel (f t)) (k t)))"
  proof (intro dry_blindI agree_read_then)
    fix w d t w' d'
    assume s: "dry_sim w' d'" and t: "texts w' rel = Some t"
    have no: "dry_blind (no t)" and k: "\<And>u. dry_blind (k t u)"
      using assms(3,4) by (simp_all add: graft_prog_def)
    show "dry_agree w' d' (if c t then no t else io_bind (ctx_write rel (f t)) (k t))"
      using dry_blindD [OF no s] agree_write_then [OF s t k] by simp
  qed (use assms(2) in simp_all)
qed

lemma graft_block_rolled_back [safe_intros]: "graft_prog A block_rolled_back"
proof (intro graft_progI safe_intros dry_blindI)
  fix w d
  assume s: "dry_sim w d"
  then have c: "shape_cache d = shape_cache w" by (auto elim: dry_simE)
  have b: "\<not> is_backup ''block/blk-mq.c''" by (simp add: is_backup_def BACKUP_SUFFIX_def suffix_def)
  show "dry_agree w d block_rolled_back"
  proof (cases "shape_cache w")
    case None
    have "dry_agree w d (io_bind (ctx_read ''block/blk-mq.c'')
       (\<lambda>t g'. let b = (\<not> contains F2FS_BLOCK_MONTHLY_SENTINEL t)
               in (Inr b, g'\<lparr>shape_cache := Some b\<rparr>)))"
      by (rule agree_read_then [OF s b]) (simp add: dry_agree_def Let_def agree_shape)
    with None c show ?thesis by (simp add: dry_agree_def block_rolled_back_def)
  next
    case (Some x)
    with c s show ?thesis by (simp add: dry_agree_def block_rolled_back_def)
  qed
qed

lemma not_backup_fs_file [simp]: "\<not> is_backup ''fs/file.c''"
  by (simp add: is_backup_def BACKUP_SUFFIX_def suffix_def)

lemma graft_suite_touched [safe_intros]: "\<not> is_backup rel \<Longrightarrow> graft_prog A (suite_touched rel)"
  unfolding suite_touched_def by (intro safe_intros)

lemma graft_suite_fdtable_fallback [safe_intros]: "graft_prog A suite_fdtable_fallback"
  unfolding suite_fdtable_fallback_def by (intro safe_intros) simp

lemma graft_fdtable_upstream_shape [safe_intros]: "graft_prog A fdtable_upstream_shape"
  unfolding fdtable_upstream_shape_def by (intro safe_intros) simp

subsection \<open>The configuration lane\<close>

lemma dry_sim_defconfig:
  "dry_sim w d \<Longrightarrow> defconfig_rel d = defconfig_rel w \<and> no_defconfig d = no_defconfig w"
  by (auto elim!: dry_simE simp: no_defconfig_def)

lemma dry_sim_defconfig_not_backup: "dry_sim w d \<Longrightarrow> defconfig_rel w = Some rel \<Longrightarrow> \<not> is_backup rel"
  by (auto elim!: dry_simE simp: no_backup_def defconfig_scope_def)

lemma dry_agree_get:
  assumes "dry_sim w d" and "f d = f w" and "dry_agree w d (k (f w))"
  shows "dry_agree w d (io_bind (io_get f) k)"
  using assms by (simp add: dry_agree_def)

lemma blind_ret: "dry_blind (io_ret x)"
  by (intro dry_blindI agree_ret)

lemma graft_enable_configs [safe_intros]: "graft_prog defconfig_scope (enable_configs cfgs)"
proof (intro graft_progI safe_intros dry_blindI)
  fix w d
  assume s: "dry_sim w d"
  show "dry_agree w d (enable_configs cfgs)"
  proof (cases "defconfig_rel w")
    case None
    with dry_sim_defconfig [OF s] show ?thesis
      unfolding enable_configs_def by (intro dry_agree_get s) (simp_all add: agree_ret s)
  next
    case (Some rel)
    with s have "\<not> is_backup rel" by (rule dry_sim_defconfig_not_backup)
    with Some dry_sim_defconfig [OF s] show ?thesis
      unfolding enable_configs_def
      by (intro dry_agree_get s)
        (auto simp: Let_def s intro!: agree_ret agree_read_then agree_write_then blind_ret
          split: prod.split)
  qed
qed

lemma graft_drop_token [safe_intros]:
  "graft_prog defconfig_scope (defconfig_drop_cmdline_token token)"
proof (intro graft_progI safe_intros dry_blindI)
  fix w d
  assume s: "dry_sim w d"
  show "dry_agree w d (defconfig_drop_cmdline_token token)"
  proof (cases "defconfig_rel w")
    case None
    with dry_sim_defconfig [OF s] show ?thesis
      unfolding defconfig_drop_cmdline_token_def
      by (intro dry_agree_get s) (simp_all add: agree_ret s)
  next
    case (Some rel)
    with s have "\<not> is_backup rel" by (rule dry_sim_defconfig_not_backup)
    with Some dry_sim_defconfig [OF s] show ?thesis
      unfolding defconfig_drop_cmdline_token_def
      by (intro dry_agree_get s)
        (auto simp: Let_def s intro!: agree_ret agree_read_then agree_write_then blind_ret)
  qed
qed

end
