(* ===== verification/Apply_Steps.thy ===== *)
theory Apply_Steps
  imports Dry_Run "HOL-Library.AList"
begin

text \<open>
  \<open>apply_steps\<close> of \<^verbatim>\<open>scripts/abk_backport_engine.py\<close>: the ordered, transactional list of
  anchored replacements behind nearly every patch group, with its abstract specification
  \<open>run_view\<close> (the same edits on a view of the file contents) and the refinement between them.
\<close>

type_synonym step = "path \<times> str \<times> str \<times> bool"
type_synonym step_result = "path \<times> step_status"

definition status_name :: "step_status \<Rightarrow> str" where
  "status_name s = (case s of StApplied \<Rightarrow> ''applied'' | StPresent \<Rightarrow> ''already_present''
                     | StMissing \<Rightarrow> ''missing_anchor'')"

definition show_result :: "step_result \<Rightarrow> str" where
  "show_result = (\<lambda>(r, s). r @ '':'' @ status_name s)"

definition required_detail :: "step_result list \<Rightarrow> str" where
  "required_detail res = ''required anchor missing ('' @
     py_join ''; '' (map show_result (filter (\<lambda>(r, s). s \<noteq> StPresent) res)) @ '')''"

definition absent_detail :: "path \<Rightarrow> str" where
  "absent_detail rel = rel @ '': file absent''"

type_synonym staged = "(step_result list \<times> str) + ((path \<times> str) list \<times> step_result list)"

fun stage_steps :: "step list \<Rightarrow> (path \<times> str) list \<Rightarrow> step_result list \<Rightarrow> staged io" where
  \<comment> \<open>the first loop; \<open>pending\<close> keeps the insertion order of the Python dict\<close>
  "stage_steps [] pending results = io_ret (Inr (pending, results))"
| "stage_steps ((rel, old, new, required) # steps) pending results =
     io_try is_fnf (ctx_read rel)
       (\<lambda>e. if required then io_ret (Inl (results, absent_detail rel))
            else stage_steps steps pending (results @ [(rel, StMissing)]))
       (\<lambda>cur. let (t, st) = replace_once (case map_of pending rel of Some p \<Rightarrow> p | None \<Rightarrow> cur) old new;
                  results' = results @ [(rel, st)] in
          if st = StMissing
          then (if required then io_ret (Inl (results', required_detail results'))
                else stage_steps steps pending results')
          else stage_steps steps (AList.update rel t pending) results')"

fun flush :: "(path \<times> str) list \<Rightarrow> unit io" where
  "flush [] = io_ret ()"
| "flush ((rel, t) # pending) = io_bind (ctx_read rel) (\<lambda>cur.
     if t = cur then flush pending else io_bind (ctx_write rel t) (\<lambda>_. flush pending))"

definition count_status :: "step_status \<Rightarrow> step_result list \<Rightarrow> nat" where
  "count_status s res = length (filter (\<lambda>(r, s'). s' = s) res)"

type_synonym step_report = "status option \<times> step_result list \<times> str"

definition classify :: "step_result list \<Rightarrow> step_report" where
  "classify res =
     (let applied = count_status StApplied res; present = count_status StPresent res in
      if applied = 0 \<and> present = 0 then
        (Some BlockedByMissingAnchor, res, ''no step anchor matched ('' @
           (if res = [] then ''empty step list'' else py_join ''; '' (map show_result res)) @ '')'')
      else if applied = 0 \<and> present = length res then
        (Some AlreadyPresent, res, ''all anchors already in the upstream form'')
      else
        let detail = py_str_nat applied @ '' hunk(s) applied, '' @ py_str_nat present
                       @ '' already present'';
            missing = filter (\<lambda>(r, s). s = StMissing) res in
        if missing \<noteq> [] then
          (Some Partial, res, detail @ ''; degraded: '' @ py_join '', '' (map show_result missing))
        else (Some Applied, res, detail))"

definition apply_steps :: "step list \<Rightarrow> step_report io" where
  "apply_steps steps = io_bind (stage_steps steps [] []) (\<lambda>r. case r of
       Inl (res, d) \<Rightarrow> io_ret (None, res, d)
     | Inr (pending, res) \<Rightarrow> io_bind (flush pending) (\<lambda>_. io_ret (classify res)))"

definition steps_files :: "step list \<Rightarrow> path set" where
  "steps_files steps = (\<lambda>(rel, _). rel) ` set steps"

lemma steps_files_simps [simp]:
  "steps_files [] = {}"
  "steps_files ((rel, e) # ss) = insert rel (steps_files ss)"
  "steps_files (xs @ ys) = steps_files xs \<union> steps_files ys"
  by (auto simp: steps_files_def)

lemma step_file: "s = (rel, e) \<Longrightarrow> fst s = rel"
  by simp

lemma steps_files_fst: "steps_files ss = fst ` set ss"
  by (force simp: steps_files_def)

subsection \<open>The contract over the context\<close>

lemma graft_stage:
  "\<forall>rel \<in> steps_files ss. \<not> is_backup rel \<Longrightarrow> graft_prog A (stage_steps ss p r)"
proof (induction ss arbitrary: p r)
  case (Cons x ss)
  obtain rel old new required where x: "x = (rel, old, new, required)" by (cases x)
  show ?case unfolding x stage_steps.simps
    by (intro safe_intros Cons.IH) (use Cons.prems x in auto)
qed (simp add: safe_intros)

lemma graft_flush:
  assumes "\<And>g. fst ` set p \<subseteq> A g" and "\<forall>rel \<in> fst ` set p. \<not> is_backup rel"
  shows "graft_prog A (flush p)"
  using assms
proof (induction p)
  case (Cons x p)
  obtain rel t where x: "x = (rel, t)" by (cases x)
  have "graft_prog A (flush p)" using Cons by auto
  then show ?case
    unfolding x flush.simps using Cons.prems x
    by (intro graft_read_write) auto
qed (simp add: safe_intros)

lemma dom_update: "fst ` set (AList.update k v al) = insert k (fst ` set al)"
  by (metis dom_map_of_conv_image_fst dom_fun_upd option.distinct(1) update_conv')

lemma stage_keys:
  "stage_steps ss p res g = (Inr (Inr (p', res')), h) \<Longrightarrow>
     fst ` set p' \<subseteq> fst ` set p \<union> steps_files ss"
proof (induction ss arbitrary: p res g)
  case (Cons x ss)
  obtain rel old new required where x: "x = (rel, old, new, required)" by (cases x)
  note IH = Cons.IH
  from Cons.prems show ?case
    unfolding x
    by (cases "ctx_read rel g")
      (auto simp: io_try_def io_ret_def Let_def dom_update split: sum.splits if_splits prod.splits
        dest!: IH; force)
qed (auto simp: io_ret_def)

lemma graft_apply_steps [safe_intros]:
  assumes "\<And>g. steps_files steps \<subseteq> A g" and "\<forall>rel \<in> steps_files steps. \<not> is_backup rel"
  shows "graft_prog A (apply_steps steps)"
  unfolding apply_steps_def
proof (rule graft_bind_in)
  fix r g h
  assume s: "stage_steps steps [] [] g = (Inr r, h)"
  show "graft_prog A (case r of Inl (res, d) \<Rightarrow> io_ret (None, res, d)
     | Inr (pending, res) \<Rightarrow> io_bind (flush pending) (\<lambda>_. io_ret (classify res)))"
  proof (cases r)
    case (Inl a)
    then show ?thesis by (cases a) (simp add: safe_intros)
  next
    case (Inr b)
    then obtain p res where r: "r = Inr (p, res)" by (cases b) auto
    with stage_keys s have k: "fst ` set p \<subseteq> steps_files steps" by fastforce
    have "graft_prog A (flush p)"
      by (rule graft_flush) (use k assms in blast)+
    then show ?thesis unfolding r by (simp add: safe_intros)
  qed
qed (rule graft_stage [OF assms(2)])

end
