(* ===== verification/Steps_Spec.thy ===== *)
theory Steps_Spec
  imports Apply_Steps
begin

text \<open>
  The abstract specification of \<open>apply_steps\<close>: the steps run in order on a view of the file
  contents, with no cache, no staging and no snapshots; and the proof that \<open>apply_steps\<close>
  implements it, writing the changed files only after every required anchor was found.
\<close>

type_synonym view = "path \<rightharpoonup> str"

fun run_view :: "step list \<Rightarrow> view \<Rightarrow> step_result list \<Rightarrow> (step_result list \<times> str) + (view \<times> step_result list)"
where
  "run_view [] v res = Inr (v, res)"
| "run_view ((rel, old, new, required) # ss) v res =
     (case v rel of
        None \<Rightarrow> if required then Inl (res, absent_detail rel)
                else run_view ss v (res @ [(rel, StMissing)])
      | Some cur \<Rightarrow>
          (case replace_once cur old new of (t, st) \<Rightarrow>
             if st = StMissing \<and> required
             then Inl (res @ [(rel, st)], required_detail (res @ [(rel, st)]))
             else run_view ss (if st = StMissing then v else v(rel \<mapsto> t)) (res @ [(rel, st)])))"

subsection \<open>Files a program can look at\<close>

definition calm :: "gctx \<Rightarrow> path set \<Rightarrow> bool" where
  \<comment> \<open>every file of \<open>S\<close> is cached, absent, or readable\<close>
  "calm g S \<longleftrightarrow> (\<forall>rel \<in> S. texts g rel = None \<longrightarrow>
     (\<forall>e. read_text (kfiles g) rel = Inl e \<longrightarrow> is_fnf e))"

lemma calm_unwritten:
  assumes "unwritten g h"
  shows "calm g S \<Longrightarrow> calm h S"
  unfolding calm_def
proof (intro ballI impI)
  fix rel
  assume c: "\<forall>rel\<in>S. texts g rel = None \<longrightarrow> (\<forall>e. read_text (kfiles g) rel = Inl e \<longrightarrow> is_fnf e)"
    and "rel \<in> S" and "texts h rel = None"
  moreover from this(3) assms have "texts g rel = None"
    by (cases "texts g rel") (simp_all add: unwritten_def)
  ultimately show "\<forall>e. read_text (kfiles h) rel = Inl e \<longrightarrow> is_fnf e"
    using assms by (simp add: unwritten_def)
qed

lemma calm_unwritten_back:
  assumes "unwritten g h"
  shows "calm h S \<Longrightarrow> calm g S"
  unfolding calm_def
proof (intro ballI allI impI)
  fix rel e
  assume c: "\<forall>rel\<in>S. texts h rel = None \<longrightarrow> (\<forall>e. read_text (kfiles h) rel = Inl e \<longrightarrow> is_fnf e)"
    and "rel \<in> S" and n: "texts g rel = None" and e: "read_text (kfiles g) rel = Inl e"
  moreover from n e have "seen g rel = None" by (simp add: seen_def)
  with assms have "seen h rel = None" by (simp add: unwritten_def)
  then have "texts h rel = None" by (cases "texts h rel") (simp_all add: seen_def)
  ultimately show "is_fnf e" using assms by (simp add: unwritten_def)
qed

lemma calm_mono: "calm g S \<Longrightarrow> T \<subseteq> S \<Longrightarrow> calm g T"
  by (auto simp: calm_def)

lemma readE:
  obtains (present) t h where "seen g rel = Some t" "ctx_read rel g = (Inr t, h)" "unwritten g h"
      "texts h rel = Some t"
  | (absent) e where "seen g rel = None" "ctx_read rel g = (Inl e, g)" "is_fnf e"
  | (broken) e where "ctx_read rel g = (Inl e, g)" "\<not> is_fnf e" "\<And>S. rel \<in> S \<Longrightarrow> \<not> calm g S"
proof (rule ctx_read_cases [of g rel])
  fix t
  assume "texts g rel = Some t" "ctx_read rel g = (Inr t, g)"
  then show thesis using present [of t g] by (simp add: seen_def)
next
  fix e
  assume *: "texts g rel = None" "read_text (kfiles g) rel = Inl e" "ctx_read rel g = (Inl e, g)"
  show thesis
  proof (cases "is_fnf e")
    case True
    with * absent [of e] show thesis by (simp add: seen_def)
  next
    case False
    with * show thesis by (intro broken [of e]) (auto simp: calm_def)
  qed
next
  fix t
  assume "texts g rel = None" "read_text (kfiles g) rel = Inr t"
    "ctx_read rel g = (Inr t, g\<lparr>texts := (texts g)(rel \<mapsto> t)\<rparr>)"
  then show thesis
    using present [of t "g\<lparr>texts := (texts g)(rel \<mapsto> t)\<rparr>"] quiet.R_read [of g rel]
    by (simp add: seen_def)
qed

fun staged_as :: "path set \<Rightarrow> gctx \<Rightarrow> (exn + staged) \<times> gctx
    \<Rightarrow> (step_result list \<times> str) + (view \<times> step_result list) \<Rightarrow> bool" where
  \<comment> \<open>what staging returns, against what the specification says\<close>
  "staged_as S g (Inl e, h) w \<longleftrightarrow> unwritten g h \<and> \<not> calm g S"
| "staged_as S g (Inr r, h) (Inl x) \<longleftrightarrow> unwritten g h \<and> r = Inl x"
| "staged_as S g (Inr r, h) (Inr (v, res)) \<longleftrightarrow> unwritten g h \<and>
     (\<exists>p. r = Inr (p, res) \<and> v = seen g ++ map_of p \<and> distinct (map fst p)
        \<and> fst ` set p \<subseteq> dom (seen g))"

lemma unwritten_seen: "unwritten g h \<Longrightarrow> seen h = seen g"
  by (simp add: unwritten_def)

lemma unwritten_dirty: "unwritten g h \<Longrightarrow> dirty h = dirty g"
  by (simp add: unwritten_def)

lemma staged_as_unwritten:
  assumes "unwritten g h" and "staged_as S h s w"
  shows "staged_as S g s w"
  using assms unwritten_seen [OF assms(1)] calm_unwritten [OF assms(1)]
  by (cases "(S, g, s, w)" rule: staged_as.cases) (auto intro: unwritten_trans)

lemma stage_refines:
  assumes "steps_files ss \<subseteq> S" and "fst ` set p \<subseteq> dom (seen g)" and "distinct (map fst p)"
  shows "staged_as S g (stage_steps ss p res g) (run_view ss (seen g ++ map_of p) res)"
  using assms
proof (induction ss arbitrary: p res g)
  case Nil
  then show ?case by (auto simp: io_ret_def)
next
  case (Cons x ss)
  obtain rel old new req where x: "x = (rel, old, new, req)" by (cases x)
  have ss: "steps_files ss \<subseteq> S" and rel: "rel \<in> S" using Cons.prems(1) x by auto
  show ?case
  proof (cases rule: readE [of g rel])
    case (broken e)
    with rel x show ?thesis by (simp add: io_try_def)
  next
    case (absent e)
    then have "rel \<notin> fst ` set p" using Cons.prems(2) by blast
    then have m: "map_of p rel = None" by (simp add: map_of_eq_None_iff)
    show ?thesis
    proof (cases req)
      case True
      with absent m x show ?thesis
        by (auto simp: io_try_def io_ret_def map_add_def)
    next
      case False
      from False absent x have "stage_steps (x # ss) p res g =
          stage_steps ss p (res @ [(rel, StMissing)]) g"
        by (simp add: io_try_def)
      moreover from False absent m x have "run_view (x # ss) (seen g ++ map_of p) res =
          run_view ss (seen g ++ map_of p) (res @ [(rel, StMissing)])"
        by (simp add: map_add_def)
      ultimately show ?thesis using Cons.IH [OF ss Cons.prems(2,3)] by simp
    qed
  next
    case (present t h)
    let ?cur = "case map_of p rel of Some q \<Rightarrow> q | None \<Rightarrow> t"
    obtain t' st where r: "replace_once ?cur old new = (t', st)" by fastforce
    have v: "(seen g ++ map_of p) rel = Some ?cur"
      using present(1) by (cases "map_of p rel") (simp_all add: map_add_def)
    note sh = unwritten_seen [OF present(3)]
    show ?thesis
    proof (cases "st = StMissing")
      case missing: True
      show ?thesis
      proof (cases req)
        case True
        with missing r v x present show ?thesis
          by (auto simp: io_try_def io_ret_def Let_def)
      next
        case False
        have "stage_steps (x # ss) p res g = stage_steps ss p (res @ [(rel, st)]) h"
          using False missing r x present by (simp add: io_try_def Let_def)
        moreover have "run_view (x # ss) (seen g ++ map_of p) res =
            run_view ss (seen h ++ map_of p) (res @ [(rel, st)])"
          using False missing r x v sh by simp
        moreover have "fst ` set p \<subseteq> dom (seen h)" using Cons.prems(2) sh by simp
        ultimately show ?thesis
          using staged_as_unwritten [OF present(3) Cons.IH [OF ss _ Cons.prems(3)]] by simp
      qed
    next
      case ok: False
      let ?p = "AList.update rel t' p"
      have d: "fst ` set ?p \<subseteq> dom (seen h)" "distinct (map fst ?p)"
        using Cons.prems(2,3) present(1) sh by (auto simp: dom_update distinct_update)
      have u: "seen g ++ map_of ?p = (seen g ++ map_of p)(rel \<mapsto> t')"
        by (simp add: update_conv')
      have "stage_steps (x # ss) p res g = stage_steps ss ?p (res @ [(rel, st)]) h"
        using ok r x present by (simp add: io_try_def Let_def)
      moreover have "run_view (x # ss) (seen g ++ map_of p) res =
          run_view ss (seen h ++ map_of ?p) (res @ [(rel, st)])"
        using ok r x v u sh by simp
      ultimately show ?thesis
        using staged_as_unwritten [OF present(3) Cons.IH [OF ss d]] by simp
    qed
  qed
qed

subsection \<open>Flushing the staged texts\<close>

lemma seen_write:
  assumes "coherent g" and "rel \<in> dom (texts g)" and "\<not> is_backup q"
  shows "seen (snd (ctx_write rel t g)) q = (if q = rel then Some t else seen g q)"
proof (cases "dry_run g")
  case True
  then show ?thesis
    by (auto simp: ctx_write_def Let_def seen_def split: option.split sum.split)
next
  case False
  obtain fs where f: "write_text (kfiles g) rel t True = (Inr (), fs)"
    "\<And>p. p \<noteq> rel \<Longrightarrow> p \<noteq> rel @ BACKUP_SUFFIX \<Longrightarrow> fs p = kfiles g p"
    by (rule write_coherent [OF assms(1) False assms(2)]) blast
  show ?thesis
  proof (cases "q = rel")
    case True
    with f False show ?thesis by (simp add: ctx_write_def Let_def seen_def)
  next
    case q: False
    have "q \<noteq> rel @ BACKUP_SUFFIX" using assms(3) by auto
    with q f(2) have "fs q = kfiles g q" by simp
    then have "read_text fs q = read_text (kfiles g) q" by (simp add: read_text_def)
    with q f(1) False show ?thesis
      by (auto simp: ctx_write_def Let_def seen_def split: option.split sum.split)
  qed
qed

lemma dirty_write:
  "coherent g \<Longrightarrow> rel \<in> dom (texts g) \<Longrightarrow>
     set (dirty (snd (ctx_write rel t g))) = insert rel (set (dirty g))"
  using coherent_write [of g rel t] by (rule_tac ctx_write_cases [of g rel t]) auto

definition landed :: "gctx \<Rightarrow> view \<Rightarrow> gctx \<Rightarrow> bool" where
  \<comment> \<open>\<open>h\<close> shows exactly the view \<open>v\<close>, and has the files where it differs from \<open>g\<close> as new writes\<close>
  "landed g v h \<longleftrightarrow> coherent h \<and> (\<forall>q. \<not> is_backup q \<longrightarrow> seen h q = v q) \<and>
     set (dirty h) = set (dirty g) \<union> {q. v q \<noteq> seen g q}"

lemma flush_lands:
  assumes "coherent g" and "distinct (map fst p)" and "fst ` set p \<subseteq> dom (seen g)"
    and "\<forall>q \<in> fst ` set p. \<not> is_backup q"
  shows "\<exists>h. flush p g = (Inr (), h) \<and> coherent h \<and>
    (\<forall>q. \<not> is_backup q \<longrightarrow> seen h q = (seen g ++ map_of p) q) \<and>
    set (dirty h) = set (dirty g) \<union> {q. (seen g ++ map_of p) q \<noteq> seen g q}"
  using assms
proof (induction p arbitrary: g)
  case Nil
  then show ?case by (simp add: io_ret_def)
next
  case (Cons x p)
  obtain rel t where x: "x = (rel, t)" by (cases x)
  have nb: "\<not> is_backup rel" and new: "rel \<notin> fst ` set p" using Cons.prems x by auto
  from Cons.prems(3) x obtain cur where "seen g rel = Some cur" by auto
  then obtain g1 where r: "ctx_read rel g = (Inr cur, g1)"
    by (cases "ctx_read rel g") (simp add: ctx_read_seen)
  have w: "unwritten g g1" and c: "coherent g1" and t: "rel \<in> dom (texts g1)"
    using quiet.R_read [of g rel] coherent_read [OF Cons.prems(1), of rel] ctx_read_Inr [OF r] r
    by auto
  note sg = unwritten_seen [OF w] and dg = unwritten_dirty [OF w]
  let ?g2 = "snd (ctx_write rel t g1)"
  define g2 where "g2 = (if t = cur then g1 else ?g2)"
  have run: "flush (x # p) g = flush p g2"
    using r coherent_write [OF c t, of t]
    by (cases "ctx_write rel t g1") (auto simp: x g2_def io_bind_def)
  have c2: "coherent g2" using c coherent_write [OF c t] by (simp add: g2_def)
  have s2: "seen g2 q = (if q = rel then Some t else seen g q)" if "\<not> is_backup q" for q
    using seen_write [OF c t that, of t] sg \<open>seen g rel = Some cur\<close> by (auto simp: g2_def)
  have d2: "set (dirty g2) = set (dirty g) \<union> (if t = cur then {} else {rel})"
    using dirty_write [OF c t, of t] dg by (simp add: g2_def)
  have m: "map_of p rel = None" using new by (simp add: map_of_eq_None_iff)
  have k: "fst ` set p \<subseteq> dom (seen g2)"
  proof
    fix q
    assume "q \<in> fst ` set p"
    then have "\<not> is_backup q" and "q \<in> dom (seen g)" using Cons.prems(3,4) x by auto
    with s2 [of q] show "q \<in> dom (seen g2)" by (simp add: domIff)
  qed
  obtain h where h: "flush p g2 = (Inr (), h)" "coherent h"
    "\<And>q. \<not> is_backup q \<Longrightarrow> seen h q = (seen g2 ++ map_of p) q"
    "set (dirty h) = set (dirty g2) \<union> {q. (seen g2 ++ map_of p) q \<noteq> seen g2 q}"
    using Cons.IH [OF c2 _ k] Cons.prems(2,4) x by auto
  have up: "(seen g2 ++ map_of p) q = (seen g ++ map_of (x # p)) q" if "\<not> is_backup q" for q
    using s2 [OF that] m x by (auto simp: map_add_def split: option.split)
  have diff: "(seen g2 ++ map_of p) q \<noteq> seen g2 q \<longleftrightarrow>
      (seen g ++ map_of p) q \<noteq> seen g q \<and> q \<noteq> rel" for q
  proof (cases "map_of p q")
    case None
    then show ?thesis by (simp add: map_add_def)
  next
    case (Some u)
    then have "q \<in> fst ` set p" using map_of_eq_None_iff [of p q] by auto
    then have "\<not> is_backup q" and "q \<noteq> rel" using Cons.prems(4) x new by auto
    with Some s2 show ?thesis by (simp add: map_add_def)
  qed
  have "set (dirty h) = set (dirty g) \<union> {q. (seen g ++ map_of (x # p)) q \<noteq> seen g q}"
    using h(4) d2 diff m x \<open>seen g rel = Some cur\<close> by (auto simp: map_add_def split: if_splits)
  moreover have "\<forall>q. \<not> is_backup q \<longrightarrow> seen h q = (seen g ++ map_of (x # p)) q"
  proof (intro allI impI)
    fix q
    assume q: "\<not> is_backup q"
    show "seen h q = (seen g ++ map_of (x # p)) q" using h(3) [OF q] up [OF q] by (rule trans)
  qed
  moreover have "flush (x # p) g = (Inr (), h)" by (simp only: run h(1))
  ultimately show ?case using h(2) by blast
qed

lemma flush_noop:
  "coherent g \<Longrightarrow> \<forall>(rel, t) \<in> set p. seen g rel = Some t \<Longrightarrow> unwritten g (snd (flush p g))"
proof (induction p arbitrary: g)
  case Nil
  then show ?case by (simp add: io_ret_def)
next
  case (Cons x p)
  obtain rel t where x: "x = (rel, t)" by (cases x)
  from Cons.prems(2) x obtain g1 where r: "ctx_read rel g = (Inr t, g1)"
    by (cases "ctx_read rel g") (simp add: ctx_read_seen)
  with quiet.R_read [of g rel] coherent_read [OF Cons.prems(1), of rel]
  have u: "unwritten g g1" and "coherent g1" by simp_all
  with Cons have "unwritten g1 (snd (flush p g1))" by (simp add: unwritten_seen)
  with u r x show ?case by (auto simp: io_bind_def intro: unwritten_trans)
qed

subsection \<open>The refinement\<close>

fun steps_as :: "path set \<Rightarrow> gctx \<Rightarrow> (exn + step_report) \<times> gctx
    \<Rightarrow> (step_result list \<times> str) + (view \<times> step_result list) \<Rightarrow> bool" where
  "steps_as S g (Inl e, h) w \<longleftrightarrow> unwritten g h \<and> \<not> calm g S"
| "steps_as S g (Inr r, h) (Inl (res, d)) \<longleftrightarrow> unwritten g h \<and> r = (None, res, d)"
| "steps_as S g (Inr r, h) (Inr (v, res)) \<longleftrightarrow> landed g v h \<and> r = classify res \<and>
     (v = seen g \<longrightarrow> unwritten g h)"

lemma apply_steps_refines:
  assumes c: "coherent g" and nb: "\<forall>q \<in> steps_files ss. \<not> is_backup q"
  shows "steps_as (steps_files ss) g (apply_steps ss g) (run_view ss (seen g) [])"
proof -
  obtain r h where s: "stage_steps ss [] [] g = (r, h)" by fastforce
  from stage_refines [of ss "steps_files ss" "[]" g "[]"] s
  have a: "staged_as (steps_files ss) g (r, h) (run_view ss (seen g) [])" by simp
  have ch: "coherent h" using graft_coherent [OF graft_stage [OF nb] c] s by (metis snd_conv)
  show ?thesis
  proof (cases r)
    case (Inl e)
    with a s show ?thesis by (simp add: apply_steps_def io_bind_def)
  next
    case r: (Inr x)
    show ?thesis
    proof (cases "run_view ss (seen g) []")
      case (Inl y)
      with a s r show ?thesis by (cases y) (simp add: apply_steps_def io_bind_def io_ret_def)
    next
      case (Inr y)
      then obtain v res where w: "run_view ss (seen g) [] = Inr (v, res)" by (cases y) auto
      with a r obtain p where u: "unwritten g h" and p: "x = Inr (p, res)" "v = seen g ++ map_of p"
        "distinct (map fst p)" "fst ` set p \<subseteq> dom (seen g)"
        by auto
      have k: "\<forall>q \<in> fst ` set p. \<not> is_backup q"
        using stage_keys [of ss "[]" "[]" g p res h] s r p(1) nb by auto
      note sg = unwritten_seen [OF u] and dg = unwritten_dirty [OF u]
      from flush_lands [OF ch p(3) _ k] p(2,4) sg dg obtain k where
        f: "flush p h = (Inr (), k)" and l: "landed g v k"
        unfolding landed_def by auto
      have "unwritten g k" if "v = seen g"
      proof -
        have "\<forall>(rel, t) \<in> set p. seen h rel = Some t"
        proof (intro ballI, clarify)
          fix rel t
          assume "(rel, t) \<in> set p"
          then have "map_of p rel = Some t" using p(3) by simp
          then have "v rel = Some t" using p(2) by simp
          then show "seen h rel = Some t" using that sg by simp
        qed
        from flush_noop [OF ch this] f u show ?thesis by (auto intro: unwritten_trans)
      qed
      with s r p(1) f l w show ?thesis
        by (simp add: apply_steps_def io_bind_def io_ret_def)
    qed
  qed
qed

subsection \<open>What the specification promises\<close>

lemma run_view_ConsE:
  assumes "run_view ((rel, old, new, req) # ss) v r0 = Inr (v', res)"
  obtains (skip) "\<not> req" "run_view ss v (r0 @ [(rel, StMissing)]) = Inr (v', res)"
  | (edit) cur t st where "v rel = Some cur" "replace_once cur old new = (t, st)" "st \<noteq> StMissing"
      "run_view ss (v(rel \<mapsto> t)) (r0 @ [(rel, st)]) = Inr (v', res)"
  using assms by (auto split: option.splits prod.splits if_splits)

lemma run_view_results:
  "run_view ss v r0 = Inr (v', res) \<Longrightarrow>
     \<exists>r. res = r0 @ r \<and> map fst r = map fst ss \<and> dom v' = dom v
       \<and> list_all2 (\<lambda>(rel, old, new, req) (rel', st). req \<longrightarrow> st \<noteq> StMissing) ss r"
proof (induction ss arbitrary: v r0)
  case (Cons x ss)
  obtain rel old new req where x: "x = (rel, old, new, req)" by (cases x)
  from Cons.prems [unfolded x] show ?case
  proof (cases rule: run_view_ConsE)
    case skip
    from Cons.IH [OF skip(2)] skip(1) x show ?thesis by fastforce
  next
    case (edit cur t st)
    have "dom (v(rel \<mapsto> t)) = dom v" using edit(1) by auto
    moreover obtain r where "res = (r0 @ [(rel, st)]) @ r" "map fst r = map fst ss"
      "dom v' = dom (v(rel \<mapsto> t))"
      "list_all2 (\<lambda>(rel, old, new, req) (rel', st). req \<longrightarrow> st \<noteq> StMissing) ss r"
      using Cons.IH [OF edit(4)] by blast
    ultimately have "res = r0 @ (rel, st) # r" "map fst r = map fst ss" "dom v' = dom v"
      "list_all2 (\<lambda>(rel, old, new, req) (rel', st). req \<longrightarrow> st \<noteq> StMissing) ss r"
      by (simp_all only: append_assoc append.simps)
    then show ?thesis using edit(3) x by (intro exI [of _ "(rel, st) # r"]) simp
  qed
qed simp

lemma run_view_outside:
  "run_view ss v r0 = Inr (v', res) \<Longrightarrow> q \<notin> steps_files ss \<Longrightarrow> v' q = v q"
proof (induction ss arbitrary: v r0)
  case (Cons x ss)
  obtain rel old new req where x: "x = (rel, old, new, req)" by (cases x)
  with Cons.prems(2) have q: "q \<noteq> rel" "q \<notin> steps_files ss" by auto
  from Cons.prems(1) [unfolded x] show ?case
    by (cases rule: run_view_ConsE) (use Cons.IH q in fastforce)+
qed simp

lemma run_view_no_applied:
  "run_view ss v r0 = Inr (v', res) \<Longrightarrow> StApplied \<notin> snd ` set res \<Longrightarrow> v' = v"
proof (induction ss arbitrary: v r0)
  case (Cons x ss)
  obtain rel old new req where x: "x = (rel, old, new, req)" by (cases x)
  from Cons.prems(1) [unfolded x] show ?case
  proof (cases rule: run_view_ConsE)
    case skip
    from Cons.IH [OF skip(2) Cons.prems(2)] show ?thesis .
  next
    case (edit cur t st)
    have "st \<noteq> StApplied" using run_view_results [OF edit(4)] Cons.prems(2) by auto
    then have "t = cur" using once.edit_keeps [of cur "(old, new)" t st] edit(2) by simp
    with edit(1) Cons.IH [OF edit(4) Cons.prems(2)] show ?thesis by (simp add: fun_upd_idem)
  qed
qed simp

lemma run_view_append:
  "run_view (pre @ ss) v r0 = (case run_view pre v r0 of Inl x \<Rightarrow> Inl x | Inr (w, r) \<Rightarrow> run_view ss w r)"
proof (induction pre arbitrary: v r0)
  case (Cons s pre)
  obtain rel old new req where s: "s = (rel, old, new, req)" by (cases s)
  show ?case
  proof (cases "v rel")
    case None
    with Cons.IH s show ?thesis by simp
  next
    case (Some cur)
    obtain t st where "replace_once cur old new = (t, st)" by fastforce
    with Cons.IH Some s show ?thesis by (simp del: fun_upd_apply)
  qed
qed simp

lemma run_view_miss:
  assumes "\<And>w r t. run_view pre v r0 = Inr (w, r) \<Longrightarrow> w rel = Some t \<Longrightarrow> snd (replace_once t old new) = StMissing"
  shows "\<exists>res d. run_view (pre @ (rel, old, new, True) # post) v r0 = Inl (res, d)"
proof (cases "run_view pre v r0")
  case (Inl x)
  then show ?thesis by (cases x) (simp add: run_view_append)
next
  case (Inr x)
  obtain w r where x: "x = (w, r)" by (cases x)
  with Inr assms [of w r] show ?thesis
    by (cases "w rel") (auto simp: run_view_append split: prod.split)
qed

fun verdict :: "view \<Rightarrow> step \<Rightarrow> step_status" where
  \<comment> \<open>what a step on its own finds in a view\<close>
  "verdict v (rel, old, new, req) =
     (case v rel of None \<Rightarrow> StMissing | Some t \<Rightarrow> snd (replace_once t old new))"

definition rerun_of :: "step_status \<Rightarrow> step_status" where
  "rerun_of st = (if st = StMissing then StMissing else StPresent)"

definition undisturbed :: "step list \<Rightarrow> view \<Rightarrow> step_result list \<Rightarrow> bool" where
  \<comment> \<open>of two steps on one file, neither undoes nor completes the other: a step that was made is
    still found made at the end, one that was missing is still missing\<close>
  "undisturbed ss v res \<longleftrightarrow> list_all2 (\<lambda>s (rel, st).
     1 < count_list (map fst ss) rel \<longrightarrow> verdict v s = rerun_of st) ss res"

lemma run_view_idle:
  assumes "\<forall>s \<in> set ss. verdict v s \<noteq> StApplied \<and> (snd (snd (snd s)) \<longrightarrow> verdict v s \<noteq> StMissing)"
  shows "run_view ss v r0 = Inr (v, r0 @ map (\<lambda>s. (fst s, verdict v s)) ss)"
  using assms
proof (induction ss arbitrary: r0)
  case (Cons s ss)
  obtain rel old new req where s: "s = (rel, old, new, req)" by (cases s)
  show ?case
  proof (cases "v rel")
    case None
    with Cons s show ?thesis by (simp)
  next
    case (Some cur)
    obtain t st where e: "replace_once cur old new = (t, st)" by fastforce
    have "verdict v s = st" using s Some e by (simp)
    with Cons.prems have st: "st \<noteq> StApplied" "req \<Longrightarrow> st \<noteq> StMissing" using s by auto
      then have "t = cur" using once.edit_keeps [of cur "(old, new)" t st] e by simp
    with Some have "v(rel \<mapsto> t) = v" by auto
    with Cons Some e st s show ?thesis by (auto simp del: fun_upd_apply)
  qed
qed simp

lemma run_view_lone:
  assumes "run_view ss v r0 = Inr (v', r0 @ r)"
  shows "list_all2 (\<lambda>s x. count_list (map fst ss) (fst s) = 1 \<longrightarrow> verdict v' s = rerun_of (snd x)) ss r"
  using assms
proof (induction ss arbitrary: v r0 r)
  case (Cons s ss)
  obtain rel old new req where s: "s = (rel, old, new, req)" by (cases s)
  obtain st w r' where r: "r = (rel, st) # r'" and ss: "run_view ss w (r0 @ [(rel, st)]) = Inr (v', (r0 @ [(rel, st)]) @ r')"
    and w: "verdict w s = rerun_of st"
  proof (cases "v rel")
    case None
    with Cons.prems s have m: "run_view ss v (r0 @ [(rel, StMissing)]) = Inr (v', r0 @ r)"
      by (simp split: if_splits)
    moreover from run_view_results [OF m] obtain r' where "r = (rel, StMissing) # r'" by auto
    ultimately show thesis using that [of StMissing r' v] None s by (simp add: rerun_of_def)
  next
    case (Some cur)
    obtain t st where e: "replace_once cur old new = (t, st)" by fastforce
    define w where "w = (if st = StMissing then v else v(rel \<mapsto> t))"
    with Cons.prems s Some e have m: "run_view ss w (r0 @ [(rel, st)]) = Inr (v', r0 @ r)"
      by (simp split: if_splits)
    from run_view_results [OF m] obtain r' where r: "r = (rel, st) # r'" by auto
    have "verdict w s = rerun_of st"
      using once.edit_rerun [of cur "(old, new)" t st] e Some s
      by (cases "st = StMissing") (simp_all add: rerun_of_def w_def)
    with m r show thesis using that [of st r' w] by simp
  qed
  have one: "verdict v' s = rerun_of st" if "count_list (map fst (s # ss)) (fst s) = 1"
  proof -
    from that s have "rel \<notin> fst ` set ss" by (simp add: count_list_0_iff)
    then have "rel \<notin> steps_files ss" by (simp add: steps_files_fst)
    from run_view_outside [OF ss this] w s show ?thesis by (simp)
  qed
  have "count_list (map fst (s # ss)) (fst s') = 1 \<Longrightarrow> count_list (map fst ss) (fst s') = 1" if "s' \<in> set ss" for s'
  proof -
    from that have "count_list (map fst ss) (fst s') \<noteq> 0" by (simp add: count_list_0_iff)
    moreover assume "count_list (map fst (s # ss)) (fst s') = 1"
    ultimately show ?thesis by (simp split: if_splits)
  qed
  with Cons.IH [OF ss]
  have "list_all2 (\<lambda>s' x. count_list (map fst (s # ss)) (fst s') = 1 \<longrightarrow> verdict v' s' = rerun_of (snd x)) ss r'"
    unfolding list_all2_conv_all_nth by simp
  with one show ?case unfolding r list.rel_inject snd_conv by blast
qed simp


definition settled :: "step list \<Rightarrow> view \<Rightarrow> bool" where
  \<comment> \<open>every step finds its new text in its file\<close>
  "settled ss v \<longleftrightarrow> (\<forall>(rel, old, new, req) \<in> set ss.
     \<exists>t. v rel = Some t \<and> replace_once t old new = (t, StPresent))"

lemma run_view_settled:
  "settled ss v \<Longrightarrow> run_view ss v r0 = Inr (v, r0 @ map (\<lambda>(rel, _). (rel, StPresent)) ss)"
proof (induction ss arbitrary: r0)
  case (Cons x ss)
  obtain rel old new req where x: "x = (rel, old, new, req)" by (cases x)
  from Cons.prems x obtain t where "v rel = Some t" "replace_once t old new = (t, StPresent)"
    by (auto simp: settled_def)
  moreover from Cons.prems have "settled ss v" by (simp add: settled_def)
  ultimately show ?case using Cons.IH [of "r0 @ [(rel, StPresent)]"] x
    by (simp add: fun_upd_idem)
qed simp

lemma run_view_distinct_settled:
  assumes "run_view ss v r0 = Inr (v', r0 @ r)" and "distinct (map fst ss)"
    and "StMissing \<notin> snd ` set r"
  shows "settled ss v'"
  using assms
proof (induction ss arbitrary: v r0 r)
  case Nil
  then show ?case by (simp add: settled_def)
next
  case (Cons x ss)
  obtain rel old new req where x: "x = (rel, old, new, req)" by (cases x)
  with Cons.prems(2) have new: "rel \<notin> steps_files ss" by (force simp: steps_files_def)
  from Cons.prems(1) [unfolded x] show ?case
  proof (cases rule: run_view_ConsE)
    case skip
    from run_view_results [OF skip(2)] Cons.prems(3) show ?thesis by auto
  next
    case (edit cur t st)
    from run_view_results [OF edit(4)] obtain r' where r: "r = (rel, st) # r'" by auto
    have "replace_once t old new = (t, StPresent)"
      using once.edit_rerun [of cur "(old, new)" t st] edit(2,3) by simp
    moreover have "v' rel = Some t" using run_view_outside [OF edit(4) new] by simp
    moreover have e: "run_view ss (v(rel \<mapsto> t)) (r0 @ [(rel, st)]) = Inr (v', (r0 @ [(rel, st)]) @ r')"
      using edit(4) r by (simp del: fun_upd_apply)
    have "settled ss v'" by (rule Cons.IH [OF e]) (use Cons.prems(2,3) r in simp_all)
    with calculation show ?thesis by (simp add: settled_def x)
  qed
qed

lemma count_status_zero: "count_status s res = 0 \<longleftrightarrow> s \<notin> snd ` set res"
  by (force simp: count_status_def filter_empty_conv)

lemma count_status_all: "count_status s res = length res \<longleftrightarrow> (\<forall>(r, s') \<in> set res. s' = s)"
proof -
  have "count_status s res = length res \<longleftrightarrow> filter (\<lambda>(r, s'). s' = s) res = res"
    unfolding count_status_def by (metis length_filter_less filter_True filter_id_conv less_irrefl)
  then show ?thesis by (auto simp: filter_id_conv)
qed

lemma step_sets:
  "S \<subseteq> {StMissing} \<longleftrightarrow> StApplied \<notin> S \<and> StPresent \<notin> S"
  "S \<subseteq> {StPresent} \<longleftrightarrow> StApplied \<notin> S \<and> StMissing \<notin> S"
  "S = {StPresent} \<longleftrightarrow> StPresent \<in> S \<and> StApplied \<notin> S \<and> StMissing \<notin> S"
proof -
  have all: "(\<forall>s. P s) \<longleftrightarrow> P StApplied \<and> P StPresent \<and> P StMissing" for P
    by (metis step_status.exhaust)
  show "S \<subseteq> {StMissing} \<longleftrightarrow> StApplied \<notin> S \<and> StPresent \<notin> S"
    "S \<subseteq> {StPresent} \<longleftrightarrow> StApplied \<notin> S \<and> StMissing \<notin> S"
    "S = {StPresent} \<longleftrightarrow> StPresent \<in> S \<and> StApplied \<notin> S \<and> StMissing \<notin> S"
    by (simp_all add: subset_iff set_eq_iff all conj_ac)
qed

lemma classify_status:
  "fst (classify res) =
     (if snd ` set res \<subseteq> {StMissing} then Some BlockedByMissingAnchor
      else if snd ` set res = {StPresent} then Some AlreadyPresent
      else if StMissing \<in> snd ` set res then Some Partial
      else Some Applied)"
proof -
  let ?S = "snd ` set res"
  have all: "count_status StPresent res = length res \<longleftrightarrow> ?S \<subseteq> {StPresent}"
    unfolding count_status_all by force
  have miss: "filter (\<lambda>(r, s). s = StMissing) res \<noteq> [] \<longleftrightarrow> StMissing \<in> ?S"
    by (force simp: filter_empty_conv)
  show ?thesis
    unfolding step_sets(1,3) classify_def Let_def count_status_zero all step_sets(2) miss
    by (cases "StMissing \<in> ?S"; cases "StPresent \<in> ?S"; cases "StApplied \<in> ?S";
        simp only: simp_thms if_True if_False fst_conv)
qed

subsection \<open>Balanced steps\<close>

context text_measure
begin

definition balanced_steps :: "step list \<Rightarrow> bool" where
  "balanced_steps ss \<longleftrightarrow> (\<forall>(rel, old, new, req) \<in> set ss. m old = m new)"

lemma run_view_measure:
  "run_view ss v r0 = Inr (v', res) \<Longrightarrow> balanced_steps ss \<Longrightarrow> map_option m (v' q) = map_option m (v q)"
proof (induction ss arbitrary: v r0)
  case (Cons x ss)
  obtain rel old new req where x: "x = (rel, old, new, req)" by (cases x)
  have b: "m old = m new" "balanced_steps ss" using Cons.prems(2) x by (auto simp: balanced_steps_def)
  from Cons.prems(1) [unfolded x] show ?case
  proof (cases rule: run_view_ConsE)
    case skip
    from Cons.IH [OF skip(2) b(2)] show ?thesis .
  next
    case (edit cur t st)
    have "m t = m cur" using m_replace_once [OF b(1), of cur] edit(2) by simp
    with Cons.IH [OF edit(4) b(2)] edit(1) show ?thesis by (simp split: if_splits)
  qed
qed simp

lemma apply_steps_measure:
  assumes c: "coherent g" and nb: "\<forall>q \<in> steps_files ss. \<not> is_backup q" and b: "balanced_steps ss"
    and q: "\<not> is_backup q"
  shows "map_option m (seen (snd (apply_steps ss g)) q) = map_option m (seen g q)"
proof -
  obtain r h where a: "apply_steps ss g = (r, h)" by fastforce
  note R = apply_steps_refines [OF c nb, unfolded a]
  show ?thesis
  proof (cases r)
    case (Inl e)
    with R a show ?thesis by (auto dest: unwritten_seen)
  next
    case r: (Inr x)
    show ?thesis
    proof (cases "run_view ss (seen g) []")
      case (Inl y)
      with R a r show ?thesis by (cases y) (auto dest: unwritten_seen)
    next
      case (Inr y)
      then obtain v res where w: "run_view ss (seen g) [] = Inr (v, res)" by (cases y) auto
      with R r have "landed g v h" by simp
      with q have "seen h q = v q" by (simp add: landed_def)
      with run_view_measure [OF w b, of q] a show ?thesis by simp
    qed
  qed
qed

end

subsection \<open>A second run of a partial list\<close>

lemma run_view_rerun:
  assumes w: "run_view ss v [] = Inr (v', res)" and u: "undisturbed ss v' res"
    and eq: "\<And>rel. rel \<in> steps_files ss \<Longrightarrow> v'' rel = v' rel"
  shows "run_view ss v'' [] = Inr (v'', map (\<lambda>(rel, st). (rel, rerun_of st)) res)"
proof -
  have r: "map fst res = map fst ss"
    "list_all2 (\<lambda>(rel, old, new, req) (rel', st). req \<longrightarrow> st \<noteq> StMissing) ss res"
    using run_view_results [OF w] by auto
  have same: "fst (res ! i) = fst (ss ! i)" if "i < length ss" for i
    using that arg_cong [OF r(1), of length] arg_cong [OF r(1), of "\<lambda>xs. xs ! i"] by simp
  have v: "verdict v'' (ss ! i) = rerun_of (snd (res ! i))" if i: "i < length ss" for i
  proof -
    obtain rel old new req where s: "ss ! i = (rel, old, new, req)" by (cases "ss ! i")
    have m: "rel \<in> steps_files ss" using nth_mem [OF i] s by (force simp: steps_files_fst)
    then have "count_list (map fst ss) rel \<noteq> 0" by (simp add: steps_files_fst count_list_0_iff)
    then consider "count_list (map fst ss) rel = 1" | "1 < count_list (map fst ss) rel" by linarith
    then have "verdict v' (ss ! i) = rerun_of (snd (res ! i))"
    proof cases
      case 1
      have "list_all2 (\<lambda>s x. count_list (map fst ss) (fst s) = 1 \<longrightarrow> verdict v' s = rerun_of (snd x)) ss res"
        by (rule run_view_lone [of ss v "[]"]) (simp add: w)
      from list_all2_nthD [OF this i] 1 s show ?thesis by simp
    next
      case 2
      from list_all2_nthD [OF u [unfolded undisturbed_def] i] 2 same [OF i] s show ?thesis
        by (cases "res ! i") simp
    qed
    with eq [OF m] s show ?thesis by simp
  qed
  have idle: "\<forall>s \<in> set ss. verdict v'' s \<noteq> StApplied \<and> (snd (snd (snd s)) \<longrightarrow> verdict v'' s \<noteq> StMissing)"
  proof
    fix s
    assume "s \<in> set ss"
    then obtain i where i: "i < length ss" "s = ss ! i" by (auto simp: in_set_conv_nth)
    with v [OF i(1)] list_all2_nthD [OF r(2) i(1)]
    show "verdict v'' s \<noteq> StApplied \<and> (snd (snd (snd s)) \<longrightarrow> verdict v'' s \<noteq> StMissing)"
      by (cases s; cases "res ! i") (auto simp: rerun_of_def)
  qed
  have "map (\<lambda>s. (fst s, verdict v'' s)) ss = map (\<lambda>(rel, st). (rel, rerun_of st)) res"
    by (rule nth_equalityI)
      (use r(1) [THEN arg_cong, of length] v same in \<open>auto simp: case_prod_unfold\<close>)
  with run_view_idle [OF idle, of "[]"] show ?thesis by simp
qed

lemma classify_rerun:
  assumes "fst (classify res) = Some Partial"
  shows "fst (classify (map (\<lambda>(rel, st). (rel, rerun_of st)) res)) = Some Partial"
proof -
  let ?S = "snd ` set res"
  have S: "snd ` set (map (\<lambda>(rel, st). (rel, rerun_of st)) res) = rerun_of ` ?S"
    by (auto simp: image_image case_prod_unfold)
  from assms have "StMissing \<in> ?S" "\<not> ?S \<subseteq> {StMissing}" by (auto simp: classify_status split: if_splits)
  then have "StMissing \<in> rerun_of ` ?S" "StPresent \<in> rerun_of ` ?S" by (force simp: rerun_of_def)+
  then show ?thesis unfolding classify_status S by auto
qed

subsection \<open>Files that stay readable\<close>

definition keeps_calm :: "gctx \<Rightarrow> gctx \<Rightarrow> bool" where
  \<comment> \<open>a file that is not cached afterwards was not touched\<close>
  "keeps_calm g h \<longleftrightarrow> (\<forall>q. \<not> is_backup q \<longrightarrow> texts h q = None \<longrightarrow>
     texts g q = None \<and> kfiles h q = kfiles g q)"

interpretation settled_files: ctx_relation A keeps_calm
proof unfold_locales
  fix g rel
  show "keeps_calm g (snd (ctx_read rel g))"
    by (rule ctx_read_cases [of g rel]) (auto simp: keeps_calm_def split: if_splits)
next
  fix rel t and g :: gctx
  have "is_backup (rel @ BACKUP_SUFFIX)" by (simp add: is_backup_def suffix_def)
  then have "fs q = kfiles g q" if "write_text (kfiles g) rel t True = (x, fs)" "\<not> is_backup q" "q \<noteq> rel" for x fs q
    using write_text_frame [OF that(1,3)] that(2) by blast
  then show "keeps_calm g (snd (ctx_write rel t g))"
    by (rule_tac ctx_write_cases [of g rel t]) (simp_all add: keeps_calm_def)
qed (auto simp: keeps_calm_def)

lemma calm_kept:
  assumes "keeps_calm g h" and "calm g S" and "\<forall>q \<in> S. \<not> is_backup q"
  shows "calm h S"
  using assms unfolding calm_def keeps_calm_def by (auto simp: read_text_def split: option.splits)

end
