(* ===== verification/Graft_Engine.thy ===== *)
theory Graft_Engine
  imports Steps_Spec
begin

text \<open>
  \<open>PatchGroup\<close>, \<open>run_child\<close> and the report of \<^verbatim>\<open>scripts/abk_backport_engine.py\<close>, with the tail
  and the probes the group functions of the registries share.
\<close>

subsection \<open>The shared shapes of the group functions\<close>

definition apply_or_else :: "step list \<Rightarrow> (str \<Rightarrow> outcome io) \<Rightarrow> outcome io" where
  \<comment> \<open>\<open>status, _results, detail = apply_steps(ctx, steps)\<close>, then a branch for \<open>None\<close>\<close>
  "apply_or_else steps k = io_bind (apply_steps steps) (\<lambda>(st, res, d).
     case st of None \<Rightarrow> k d | Some s \<Rightarrow> io_ret (s, d))"

definition apply_or_block :: "step list \<Rightarrow> outcome io" where
  "apply_or_block steps = apply_or_else steps (\<lambda>d. io_ret (BlockedByShape, d))"

definition read_or_empty :: "path \<Rightarrow> str io" where
  \<comment> \<open>\<open>try: text = ctx.read(rel) except FileNotFoundError: text = ""\<close>\<close>
  "read_or_empty rel = io_try is_fnf (ctx_read rel) (\<lambda>e. io_ret []) io_ret"

subsection \<open>Text helpers of the batch modules\<close>

definition tab_line :: "str \<Rightarrow> str" where
  \<comment> \<open>four or more leading spaces become one tab for every four\<close>
  "tab_line l = (let n = length (takeWhile (\<lambda>c. c = CHR '' '') l) in
     if 4 \<le> n then replicate (n div 4) TAB @ drop n l else l)"

definition lstrip_nl :: "str \<Rightarrow> str" where
  "lstrip_nl t = dropWhile (\<lambda>c. c = NL) t"

definition rstrip_nl :: "str \<Rightarrow> str" where
  "rstrip_nl t = rev (dropWhile (\<lambda>c. c = NL) (rev t))"

definition tabs :: "str \<Rightarrow> str" where
  \<comment> \<open>\<open>_tabs\<close>, which several batch modules define alike\<close>
  "tabs t = rstrip_nl (py_join [NL] (map tab_line (split_on [NL] t))) @ [NL]"

definition before_paren :: "str \<Rightarrow> str" where
  \<comment> \<open>\<open>needle.split("(")[0]\<close>\<close>
  "before_paren t = takeWhile (\<lambda>c. c \<noteq> CHR ''('') t"

subsection \<open>\<open>PatchGroup\<close>\<close>

record group =
  key :: str
  summary :: str
  commits :: "str list"
  group_files :: "path list"
  apply_fn :: "outcome io"
  hard :: bool

record group_result =
  r_key :: str
  r_summary :: str
  r_commits :: "str list"
  r_files :: "path list"
  r_status :: status
  r_detail :: str

definition group_result_of :: "group \<Rightarrow> outcome \<Rightarrow> group_result" where
  "group_result_of G out = \<lparr>r_key = key G, r_summary = summary G, r_commits = commits G,
     r_files = group_files G, r_status = fst out, r_detail = snd out\<rparr>"

fun is_system_exit :: "exn \<Rightarrow> bool" where
  "is_system_exit (System_Exit m) = True"
| "is_system_exit _ = False"

definition exc_text :: "exn \<Rightarrow> str io" where
  "exc_text e = io_get (\<lambda>g. exc_str g e)"

definition exc_filename_io :: "exn \<Rightarrow> str io" where
  "exc_filename_io e = io_get (\<lambda>g. exc_filename g e)"

definition run_group :: "group \<Rightarrow> group_result io" where
  \<comment> \<open>\<open>PatchGroup.run\<close>\<close>
  "run_group G = io_try (\<lambda>e. is_system_exit e \<or> is_oserror e \<or> is_valueerror e) (apply_fn G)
     (\<lambda>e. if hard G then io_raise e
          else if is_system_exit e
          then io_bind (exc_text e) (\<lambda>s. io_ret (group_result_of G (BlockedByShape, ''aborted: '' @ s)))
          else io_bind (exc_text e) (\<lambda>s. io_ret (group_result_of G (BlockedByShape, ''error: '' @ s))))
     (\<lambda>r. io_ret (group_result_of G r))"

subsection \<open>Running a child\<close>

definition status_str :: "status \<Rightarrow> str" where
  "status_str s = (case s of Applied \<Rightarrow> ''applied'' | Partial \<Rightarrow> ''partial''
     | AlreadyPresent \<Rightarrow> ''already_present'' | SkipSuiteProcessed \<Rightarrow> ''skip_suite_processed''
     | ReportOnly \<Rightarrow> ''report_only'' | BlockedByMissingAnchor \<Rightarrow> ''blocked_by_missing_anchor''
     | BlockedByShape \<Rightarrow> ''blocked_by_shape'')"

definition ok_status :: "status \<Rightarrow> bool" where
  "ok_status s \<longleftrightarrow> s \<in> {Applied, Partial, AlreadyPresent}"

definition hex_digit :: "nat \<Rightarrow> char" where
  "hex_digit n = (if n < 10 then char_of (48 + n) else char_of (87 + n))"

definition repr_char :: "char \<Rightarrow> char \<Rightarrow> str" where
  \<comment> \<open>one character inside Python's \<open>repr\<close>; bytes of a non-ASCII character are kept\<close>
  "repr_char q c =
     (let n = of_char c :: nat in
      if c = q \<or> c = BSL then [BSL, c]
      else if c = NL then [BSL, CHR ''n''] else if c = CR then [BSL, CHR ''r'']
      else if c = TAB then [BSL, CHR ''t'']
      else if n < 32 \<or> n = 127 then [BSL, CHR ''x'', hex_digit (n div 16), hex_digit (n mod 16)]
      else [c])"

definition py_repr :: "str \<Rightarrow> str" where
  "py_repr t = (let q = (if QUO \<in> set t \<and> DQ \<notin> set t then DQ else QUO) in
     q # concat (map (repr_char q) t) @ [q])"

definition repr_list :: "str list \<Rightarrow> str" where
  "repr_list xs = ''['' @ py_join '', '' (map py_repr xs) @ '']''"

definition degraded_message :: "str \<Rightarrow> status \<Rightarrow> path list \<Rightarrow> str" where
  "degraded_message k s changed = ''group '' @ k @ '' degraded to '' @ status_str s @
     '' but already wrote '' @ repr_list (sort changed) @ ''; refusing to continue''"

definition no_op_message :: "str \<Rightarrow> status \<Rightarrow> str" where
  "no_op_message k s = ''group '' @ k @ '' reported '' @ status_str s @
     '' without writing any file; refusing to report a no-op as an edit''"

fun read_all :: "path list \<Rightarrow> (path \<times> str) list io" where
  \<comment> \<open>\<open>{rel: ctx.read(rel) for rel in ...}\<close>\<close>
  "read_all [] = io_ret []"
| "read_all (rel # rels) =
     io_bind (ctx_read rel) (\<lambda>t. io_bind (read_all rels) (\<lambda>ts. io_ret ((rel, t) # ts)))"

definition changed_since :: "(path \<times> str) list \<Rightarrow> (path \<times> str) list \<Rightarrow> path list" where
  "changed_since before now = map fst (filter (\<lambda>(rel, t). map_of before rel \<noteq> Some t) now)"

definition run_checked :: "group \<Rightarrow> group_result io" where
  \<comment> \<open>one enabled iteration of the loop of \<open>run_child\<close>\<close>
  "run_checked G =
     io_bind (io_get pending_writes) (\<lambda>p0.
     io_bind (read_all p0) (\<lambda>before.
     io_bind (run_group G) (\<lambda>r.
     io_bind (io_get pending_writes) (\<lambda>p1.
     io_bind (read_all p1) (\<lambda>now.
     let changed = changed_since before now; s = r_status r in
     if \<not> ok_status s then
       (if changed \<noteq> [] then io_raise (System_Exit (degraded_message (key G) s changed)) else io_ret r)
     else if s \<in> {Applied, Partial} \<and> changed = []
     then io_raise (System_Exit (no_op_message (key G) s))
     else io_ret r)))))"

definition disabled_result :: "group \<Rightarrow> group_result io" where
  "disabled_result G = io_bind (io_get family) (\<lambda>f. io_ret (group_result_of G (ReportOnly,
     ''family '' @ f @ '' is not android13-5.15; nothing read or written'')))"

fun run_groups :: "bool \<Rightarrow> group list \<Rightarrow> group_result list \<Rightarrow> group_result list io" where
  "run_groups enabled [] results = io_ret results"
| "run_groups enabled (G # Gs) results =
     io_bind (if enabled then run_checked G else disabled_result G)
       (\<lambda>r. run_groups enabled Gs (results @ [r]))"

record shapes =
  sh_fdtable_upstream_shape :: bool
  sh_suite_fdtable_fallback :: bool
  sh_block_rolled_back :: bool

definition shape_report :: "shapes io" where
  "shape_report = io_bind fdtable_upstream_shape (\<lambda>a. io_bind suite_fdtable_fallback (\<lambda>b.
     io_bind block_rolled_back (\<lambda>c. io_ret
       \<lparr>sh_fdtable_upstream_shape = a, sh_suite_fdtable_fallback = b, sh_block_rolled_back = c\<rparr>)))"

fun status_summary_of :: "group_result list \<Rightarrow> (status \<times> nat) list \<Rightarrow> (status \<times> nat) list" where
  \<comment> \<open>the counting dict, in insertion order\<close>
  "status_summary_of [] s = s"
| "status_summary_of (r # rs) s = status_summary_of rs
     (AList.update (r_status r) (case map_of s (r_status r) of None \<Rightarrow> 1 | Some n \<Rightarrow> n + 1) s)"

record report =
  rp_module :: str
  rp_child :: str
  rp_generated :: str
  rp_family :: str
  rp_sub_level :: str
  rp_dry_run :: bool
  rp_defconfig :: "str option"
  rp_defconfig_writable :: bool
  rp_shapes :: "shapes option"
  rp_pending_writes :: "path list"
  rp_applied_groups :: "str list"
  rp_status_summary :: "(status \<times> nat) list"
  rp_groups :: "group_result list"

definition build_report ::
  "str \<Rightarrow> str \<Rightarrow> group_result list \<Rightarrow> shapes option \<Rightarrow> gctx \<Rightarrow> report" where
  "build_report child now results sh g =
     \<lparr>rp_module = MODULE_ID, rp_child = child, rp_generated = now, rp_family = family g,
      rp_sub_level = sub_level g, rp_dry_run = dry_run g, rp_defconfig = defconfig g,
      rp_defconfig_writable = (defconfig_rel g \<noteq> None), rp_shapes = sh,
      rp_pending_writes = pending_writes g,
      rp_applied_groups = map r_key (filter (\<lambda>r. ok_status (r_status r)) results),
      rp_status_summary = status_summary_of results [], rp_groups = results\<rparr>"

definition run_child :: "str \<Rightarrow> str \<Rightarrow> group list \<Rightarrow> bool \<Rightarrow> report io" where
  \<comment> \<open>\<open>now\<close> is the clock's reading, formatted\<close>
  "run_child child now groups enabled =
     io_bind (run_groups enabled groups []) (\<lambda>results.
     io_bind (if enabled then io_bind shape_report (\<lambda>s. io_ret (Some s)) else io_ret None) (\<lambda>sh.
     io_get (build_report child now results sh)))"

definition main_enabled :: "str \<Rightarrow> bool \<Rightarrow> bool" where
  \<comment> \<open>\<open>ctx.family == "android13-5.15" or args.allow_unsupported\<close> of every registry's \<open>main\<close>\<close>
  "main_enabled fam allow_unsupported \<longleftrightarrow> fam = ''android13-5.15'' \<or> allow_unsupported"

end
