(* ===== verification/Engine_Laws.thy ===== *)
theory Engine_Laws
  imports Graft_Engine
begin

text \<open>
  The contract of a patch group's function, \<open>transactional\<close>: it reaches the tree only through
  the context and inside its scope, and it has written nothing when it degrades or raises.
  The locale \<open>registry\<close> states what a list of such groups gives \<open>run_child\<close>.
\<close>

named_theorems txn_intros \<open>closure rules of transactional group functions\<close>

definition transactional :: "(gctx \<Rightarrow> path set) \<Rightarrow> outcome io \<Rightarrow> bool" where
  "transactional A m \<longleftrightarrow> graft_prog A m \<and> (\<forall>g r h. coherent g \<longrightarrow> m g = (r, h) \<longrightarrow>
     (case r of Inl e \<Rightarrow> True | Inr (s, d) \<Rightarrow> \<not> ok_status s) \<longrightarrow> unwritten g h)"

lemma transactionalI:
  assumes "graft_prog A m"
    and "\<And>g e h. coherent g \<Longrightarrow> m g = (Inl e, h) \<Longrightarrow> unwritten g h"
    and "\<And>g s d h. coherent g \<Longrightarrow> m g = (Inr (s, d), h) \<Longrightarrow> \<not> ok_status s \<Longrightarrow> unwritten g h"
  shows "transactional A m"
  using assms unfolding transactional_def by (auto split: sum.splits prod.splits)

lemma transactional_graft: "transactional A m \<Longrightarrow> graft_prog A m"
  by (simp add: transactional_def)

lemma transactional_raise_quiet:
  "transactional A m \<Longrightarrow> coherent g \<Longrightarrow> m g = (Inl e, h) \<Longrightarrow> unwritten g h"
  by (simp add: transactional_def)

lemma transactional_degraded:
  "transactional A m \<Longrightarrow> coherent g \<Longrightarrow> m g = (Inr (s, d), h) \<Longrightarrow> \<not> ok_status s \<Longrightarrow> unwritten g h"
  by (simp add: transactional_def)

lemma transactional_mono:
  "transactional A m \<Longrightarrow> (\<And>g. A g \<subseteq> B g) \<Longrightarrow> transactional B m"
  unfolding transactional_def using graft_mono by blast

lemma transactional_quiet:
  assumes "graft_prog (\<lambda>_. {}) m"
  shows "transactional A m"
  by (rule transactionalI) (use assms graft_mono [OF assms, of A] graft_quiet [OF assms] in
    \<open>auto simp: prod_eq_iff dest: arg_cong [where f = snd]\<close>)

lemma txn_ret [txn_intros]: "transactional A (io_ret x)"
  by (intro transactional_quiet safe_intros)

lemma txn_raise [txn_intros]: "transactional A (io_raise e)"
  by (intro transactional_quiet safe_intros)

lemma txn_if [txn_intros]:
  "transactional A m \<Longrightarrow> transactional A n \<Longrightarrow> transactional A (if b then m else n)"
  by simp

lemma txn_case_option [txn_intros]:
  "transactional A m \<Longrightarrow> (\<And>x. transactional A (f x)) \<Longrightarrow>
   transactional A (case z of None \<Rightarrow> m | Some x \<Rightarrow> f x)"
  by (cases z) simp_all

lemma txn_case_prod [txn_intros]:
  "(\<And>x y. transactional A (f x y)) \<Longrightarrow> transactional A (case z of (x, y) \<Rightarrow> f x y)"
  by (cases z) simp

lemma txn_Let [txn_intros]: "(\<And>x. transactional A (f x)) \<Longrightarrow> transactional A (let x = z in f x)"
  by simp

lemma txn_bind [txn_intros]:
  assumes m: "graft_prog (\<lambda>_. {}) m" and f: "\<And>x. transactional A (f x)"
  shows "transactional A (io_bind m f)"
proof (rule transactionalI)
  show "graft_prog A (io_bind m f)"
    using graft_mono [OF m, of A] f by (intro graft_bind) (simp_all add: transactional_def)
next
  fix g e h
  assume c: "coherent g" and r: "io_bind m f g = (Inl e, h)"
  obtain x k where k: "m g = (x, k)" by fastforce
  have u: "unwritten g k" and ck: "coherent k"
    using graft_quiet [OF m, of g] graft_coherent [OF m c] k by simp_all
  show "unwritten g h"
  proof (cases x)
    case (Inl e')
    with r k u show ?thesis by (simp add: io_bind_def)
  next
    case (Inr y)
    with r k have "f y k = (Inl e, h)" by (simp add: io_bind_def)
    from transactional_raise_quiet [OF f ck this] u show ?thesis by (rule unwritten_trans [rotated])
  qed
next
  fix g s d h
  assume c: "coherent g" and r: "io_bind m f g = (Inr (s, d), h)" and s: "\<not> ok_status s"
  obtain x k where k: "m g = (x, k)" by fastforce
  have u: "unwritten g k" and ck: "coherent k"
    using graft_quiet [OF m, of g] graft_coherent [OF m c] k by simp_all
  from r k obtain y where y: "x = Inr y" and "f y k = (Inr (s, d), h)"
    by (cases x) (simp_all add: io_bind_def)
  from transactional_degraded [OF f ck this(2) s] u show "unwritten g h"
    by (rule unwritten_trans [rotated])
qed

lemma txn_bind_in:
  assumes m: "graft_prog (\<lambda>_. {}) m" and f: "\<And>x g h. m g = (Inr x, h) \<Longrightarrow> transactional A (f x)"
  shows "transactional A (io_bind m f)"
proof -
  define f' where "f' x = (if \<exists>g h. m g = (Inr x, h) then f x else io_raise (System_Exit []))" for x
  have "io_bind m f = io_bind m f'"
    by (auto simp: io_bind_def f'_def fun_eq_iff split: prod.splits sum.splits)
  moreover have "transactional A (f' x)" for x
    using f by (auto simp: f'_def intro!: txn_raise)
  ultimately show ?thesis using txn_bind [OF m] by simp
qed

lemma txn_try [txn_intros]:
  assumes m: "graft_prog (\<lambda>_. {}) m" and h: "\<And>e. transactional A (h e)"
    and f: "\<And>x. transactional A (f x)"
  shows "transactional A (io_try c m h f)"
proof -
  define m' where "m' = io_try c m (\<lambda>e. io_ret (Inl e)) (\<lambda>x. io_ret (Inr x))"
  have eq: "io_try c m h f = io_bind m' (\<lambda>z. case z of Inl e \<Rightarrow> h e | Inr x \<Rightarrow> f x)"
    by (auto simp: m'_def io_try_def io_bind_def io_ret_def fun_eq_iff split: prod.splits sum.splits)
  have "graft_prog (\<lambda>_. {}) m'" unfolding m'_def by (intro safe_intros m)
  moreover have "transactional A (case z of Inl e \<Rightarrow> h e | Inr x \<Rightarrow> f x)" for z
    using h f by (cases z) simp_all
  ultimately show ?thesis unfolding eq by (rule txn_bind)
qed

subsection \<open>Steps\<close>

lemma graft_read_or_empty [safe_intros]: "\<not> is_backup rel \<Longrightarrow> graft_prog A (read_or_empty rel)"
  unfolding read_or_empty_def by (intro safe_intros)

lemma apply_steps_quiet:
  assumes c: "coherent g" and nb: "\<forall>q \<in> steps_files ss. \<not> is_backup q"
    and a: "apply_steps ss g = (r, h)"
    and q: "case r of Inl e \<Rightarrow> True
      | Inr (st, res, d) \<Rightarrow> st = None \<or> st = Some AlreadyPresent \<or> st = Some BlockedByMissingAnchor"
  shows "unwritten g h"
proof -
  note R = apply_steps_refines [OF c nb, unfolded a]
  show ?thesis
  proof (cases r)
    case (Inl e)
    with R show ?thesis by simp
  next
    case (Inr x)
    show ?thesis
    proof (cases "run_view ss (seen g) []")
      case (Inl y)
      with R Inr show ?thesis by (cases y) simp
    next
      case (Inr y)
      then obtain v res where w: "run_view ss (seen g) [] = Inr (v, res)" by (cases y) auto
      with R \<open>r = Inr x\<close> have x: "x = classify res" and u: "v = seen g \<longrightarrow> unwritten g h" by simp_all
      from q \<open>r = Inr x\<close> x have "fst (classify res) \<in> {None, Some AlreadyPresent, Some BlockedByMissingAnchor}"
        by (cases "classify res") auto
      then have "StApplied \<notin> snd ` set res"
        unfolding classify_status by (auto split: if_splits)
      from run_view_no_applied [OF w this] u show ?thesis by simp
    qed
  qed
qed

lemma classify_cases:
  "fst (classify res) \<in> {Some BlockedByMissingAnchor, Some AlreadyPresent, Some Partial, Some Applied}"
  by (simp add: classify_status)

lemma apply_steps_status:
  assumes c: "coherent g" and nb: "\<forall>q \<in> steps_files ss. \<not> is_backup q"
    and a: "apply_steps ss g = (Inr (st, res, d), h)"
  shows "st \<in> {None, Some BlockedByMissingAnchor, Some AlreadyPresent, Some Partial, Some Applied}"
proof (cases "run_view ss (seen g) []")
  case (Inl y)
  with apply_steps_refines [OF c nb] a show ?thesis by (cases y) simp
next
  case (Inr y)
  with apply_steps_refines [OF c nb] a obtain res' where "(st, res, d) = classify res'"
    by (cases y) simp
  then show ?thesis using classify_cases [of res'] by (cases "classify res'") auto
qed

lemma apply_or_else_cases:
  assumes "apply_or_else ss k g = (r, h)"
  obtains (raised) e where "apply_steps ss g = (Inl e, h)" "r = Inl e"
  | (missed) res d g' where "apply_steps ss g = (Inr (None, res, d), g')" "k d g' = (r, h)"
  | (finished) s res d where "apply_steps ss g = (Inr (Some s, res, d), h)" "r = Inr (s, d)"
proof -
  obtain x g' where x: "apply_steps ss g = (x, g')" by fastforce
  show thesis
  proof (cases x)
    case (Inl e)
    with x assms show thesis using raised by (simp add: apply_or_else_def io_bind_def)
  next
    case (Inr y)
    obtain st res d where y: "y = (st, res, d)" by (cases y)
    with x Inr assms show thesis
      using missed finished by (cases st) (simp_all add: apply_or_else_def io_bind_def io_ret_def)
  qed
qed

lemma txn_apply_or_else [txn_intros]:
  assumes s: "\<And>g. steps_files ss \<subseteq> A g" and nb: "\<forall>rel \<in> steps_files ss. \<not> is_backup rel"
    and k: "\<And>d. transactional A (k d)"
  shows "transactional A (apply_or_else ss k)"
proof -
  have graft: "graft_prog A (apply_steps ss)" using s nb by (intro safe_intros) auto
  have quiet: "unwritten g h"
    if c: "coherent g" and a: "apply_or_else ss k g = (r, h)"
      and r: "case r of Inl e \<Rightarrow> True | Inr (s, d) \<Rightarrow> \<not> ok_status s" for g r h
    using a
  proof (cases rule: apply_or_else_cases)
    case (raised e)
    with apply_steps_quiet [OF c nb raised(1)] show ?thesis by simp
  next
    case (missed res d g')
    have u: "unwritten g g'" using apply_steps_quiet [OF c nb missed(1)] by simp
    have "coherent g'" using graft_coherent [OF graft c] missed(1) by (metis snd_conv)
    with missed(2) r k have "unwritten g' h" by (auto simp: transactional_def)
    with u show ?thesis by (rule unwritten_trans)
  next
    case (finished s res d)
    with apply_steps_status [OF c nb finished(1)] r apply_steps_quiet [OF c nb finished(1)]
    show ?thesis by (auto simp: ok_status_def)
  qed
  have "graft_prog A (apply_or_else ss k)"
    unfolding apply_or_else_def
    by (rule graft_bind [OF graft]) (intro safe_intros transactional_graft [OF k])
  then show ?thesis unfolding transactional_def using quiet by blast
qed

lemma txn_apply_or_block [txn_intros]:
  "(\<And>g. steps_files ss \<subseteq> A g) \<Longrightarrow> \<forall>rel \<in> steps_files ss. \<not> is_backup rel \<Longrightarrow>
   transactional A (apply_or_block ss)"
  unfolding apply_or_block_def by (intro txn_intros)

lemma is_backup_code: "is_backup p \<longleftrightarrow> take 9 (rev p) = rev BACKUP_SUFFIX"
proof -
  have "length BACKUP_SUFFIX = 9" by (simp add: BACKUP_SUFFIX_def)
  then show ?thesis
    unfolding is_backup_def suffix_to_prefix prefix_def
    by (metis append_eq_conv_conj length_rev append_take_drop_id)
qed

subsection \<open>Steps that are all required\<close>

definition all_required :: "step list \<Rightarrow> bool" where
  "all_required ss \<longleftrightarrow> (\<forall>s \<in> set ss. snd (snd (snd s)))"

lemma step_req: "s = (rel, old, new, req) \<Longrightarrow> snd (snd (snd s)) = req"
  by simp

lemma run_view_required:
  assumes "run_view ss v [] = Inr (v', res)" and "all_required ss"
  shows "StMissing \<notin> snd ` set res" and "length res = length ss"
proof -
  from run_view_results [OF assms(1)]
  have l: "list_all2 (\<lambda>(rel, old, new, req) (rel', st). req \<longrightarrow> st \<noteq> StMissing) ss res" by simp
  then show "length res = length ss" by (simp add: list_all2_lengthD)
  show "StMissing \<notin> snd ` set res"
  proof
    assume "StMissing \<in> snd ` set res"
    then obtain i where i: "i < length res" "snd (res ! i) = StMissing"
      by (auto simp: in_set_conv_nth)
    obtain rel old new req rel' where s: "ss ! i = (rel, old, new, req)"
      and r: "res ! i = (rel', StMissing)"
      using i(2) by (cases "ss ! i"; cases "res ! i") auto
    have "i < length ss" using i l by (simp add: list_all2_lengthD)
    with list_all2_nthD [OF l this] s r have "\<not> req" by simp
    moreover from \<open>i < length ss\<close> s have "(rel, old, new, req) \<in> set ss" by (metis nth_mem)
    ultimately show False using assms(2) by (fastforce simp: all_required_def)
  qed
qed

lemma classify_required:
  assumes "StMissing \<notin> snd ` set res" and "res \<noteq> []"
  shows "fst (classify res) \<in> {Some AlreadyPresent, Some Applied}"
proof -
  have "\<not> snd ` set res \<subseteq> {StMissing}" using assms by (cases res) auto
  with assms(1) show ?thesis by (simp add: classify_status)
qed

lemma apply_steps_required:
  assumes c: "coherent g" and nb: "\<forall>q \<in> steps_files ss. \<not> is_backup q"
    and req: "all_required ss" and ne: "ss \<noteq> []"
    and a: "apply_steps ss g = (Inr (st, res, d), h)"
  shows "st \<in> {None, Some AlreadyPresent, Some Applied}"
proof (cases "run_view ss (seen g) []")
  case (Inl y)
  with apply_steps_refines [OF c nb] a show ?thesis by (cases y) simp
next
  case (Inr y)
  then obtain v res' where w: "run_view ss (seen g) [] = Inr (v, res')" by (cases y) auto
  from run_view_required [OF w req] ne have "fst (classify res') \<in> {Some AlreadyPresent, Some Applied}"
    by (intro classify_required) auto
  with apply_steps_refines [OF c nb] a w show ?thesis by (cases "classify res'") simp
qed

subsection \<open>A second run of a partial list\<close>

lemma apply_steps_rerun_partial:
  assumes c: "coherent g" and nb: "\<forall>q \<in> steps_files ss. \<not> is_backup q" and cm: "calm g (steps_files ss)"
    and w: "run_view ss (seen g) [] = Inr (v, res)" and u: "undisturbed ss v res"
    and a: "apply_steps ss g = (Inr (Some Partial, res', d), h)"
  obtains d' k where "apply_steps ss h = (Inr (Some Partial, map (\<lambda>(rel, st). (rel, rerun_of st)) res, d'), k)"
    "unwritten h k"
proof -
  let ?res = "map (\<lambda>(rel, st). (rel, rerun_of st)) res"
  have l: "landed g v h" and p: "fst (classify res) = Some Partial"
    using apply_steps_refines [OF c nb] w a by (auto simp: prod_eq_iff)
  have ch: "coherent h" using l by (simp add: landed_def)
  have "seen h rel = v rel" if "rel \<in> steps_files ss" for rel
    using l nb that by (simp add: landed_def)
  note again = run_view_rerun [OF w u this]
  have "graft_prog (\<lambda>_. steps_files ss) (apply_steps ss)" using nb by (intro safe_intros) auto
  then have "keeps_calm g h"
    using prog_onD [OF _ settled_files.ctx_relation_axioms, of "\<lambda>_. steps_files ss" "apply_steps ss" g] a
    by (simp add: graft_prog_def)
  then have cmh: "calm h (steps_files ss)" by (rule calm_kept [OF _ cm nb])
  obtain d' where cl: "classify ?res = (Some Partial, ?res, d')"
    using classify_rerun [OF p] by (auto simp: classify_def Let_def split: if_splits)
  from apply_steps_refines [OF ch nb] again cmh cl obtain k
    where "apply_steps ss h = (Inr (Some Partial, ?res, d'), k)" "unwritten h k"
    by (cases "apply_steps ss h"; cases "fst (apply_steps ss h)") auto
  then show thesis by (rule that)
qed

end
