(* ===== verification/Tree_Reach.thy ===== *)
theory Tree_Reach
  imports Tree_Store
begin

text \<open>
  The life of the files of a tree as a step relation: a run of a module writes files through
  \<open>write_text\<close>, one at a time, and \<^verbatim>\<open>scripts/abk_rollback.sh --apply\<close> restores them. Runs and
  rollbacks come in any order and number.
\<close>

inductive tree_step :: "store \<Rightarrow> store \<Rightarrow> bool" where
  tree_write: "\<not> is_backup p \<Longrightarrow> tree_step fs (snd (write_text fs p t True))"
| tree_rollback: "tree_step fs (rollback fs)"

inductive_cases tree_stepE: "tree_step fs fs'"

definition no_sentinel :: "store \<Rightarrow> bool" where
  \<comment> \<open>no file opens with the line that marks a file made by a module\<close>
  "no_sentinel fs \<longleftrightarrow> (\<forall>q b. fs q = Some (Regular b) \<longrightarrow> sentinel_line b \<noteq> NEW_FILE_SENTINEL)"

lemma rollback_snap_eq: "snap fs0 fs \<Longrightarrow> no_sentinel fs0 \<Longrightarrow> rollback fs = fs0"
  unfolding no_sentinel_def by (rule ext) (rule rollback_snap; blast)

lemma tree_step_snap:
  assumes "tree_step fs fs'" and "snap fs0 fs" and "pristine fs0" and "no_sentinel fs0"
  shows "snap fs0 fs'"
  using assms(1)
proof (rule tree_stepE)
  fix p t
  assume "fs' = snd (write_text fs p t True)" and "\<not> is_backup p"
  with assms(2) show ?thesis by (simp add: write_text_snap)
next
  assume "fs' = rollback fs"
  with rollback_snap_eq [OF assms(2,4)] pristine_snap [OF assms(3)] show ?thesis by simp
qed

lemma tree_steps_snap:
  assumes "tree_step\<^sup>*\<^sup>* fs fs'" and "snap fs0 fs" and "pristine fs0" and "no_sentinel fs0"
  shows "snap fs0 fs'"
  using assms(1)
proof (induction rule: rtranclp_induct)
  case base
  show ?case by (rule assms(2))
next
  case (step fs1 fs2)
  from tree_step_snap [OF step.hyps(2) step.IH assms(3,4)] show ?case .
qed

end
