(* ===== verification/Registry_Laws.thy ===== *)
theory Registry_Laws
  imports Engine_Laws Tree_Reach
begin

text \<open>
  What \<open>run_child\<close> guarantees for any list of transactional groups: the locale \<open>registry\<close>,
  interpreted by each registry theory on its own list of groups.
\<close>

subsection \<open>\<open>PatchGroup.run\<close>\<close>

lemma graft_exc_text [safe_intros]: "graft_prog A (exc_text e)"
  unfolding exc_text_def by (rule graft_get) (cases e; simp add: exc_str_def)

lemma graft_exc_filename [safe_intros]: "graft_prog A (exc_filename_io e)"
  unfolding exc_filename_io_def by (rule graft_get) (cases e; simp add: exc_filename_def tree_path_def)

lemma graft_run_group:
  assumes "graft_prog A (apply_fn G)"
  shows "graft_prog A (run_group G)"
  unfolding run_group_def by (intro safe_intros assms)

lemma exc_text_eq: "exc_text e g = (Inr (exc_str g e), g)"
  by (simp add: exc_text_def io_get_def)

lemma exn_all_caught [simp]: "is_system_exit e \<or> is_oserror e \<or> is_valueerror e"
  by (cases e) simp_all

lemma run_group_cases:
  assumes "run_group G g = (r, h)"
  obtains (returned) s d where "apply_fn G g = (Inr (s, d), h)" "r = Inr (group_result_of G (s, d))"
  | (caught) e d where "apply_fn G g = (Inl e, h)" "\<not> hard G"
      "r = Inr (group_result_of G (BlockedByShape, d))"
  | (escaped) e where "apply_fn G g = (Inl e, h)" "r = Inl e" "hard G"
proof -
  obtain r' h' where a: "apply_fn G g = (r', h')" by fastforce
  show thesis
  proof (cases r')
    case (Inr x)
    obtain s d where x: "x = (s, d)" by (cases x)
    from a Inr x assms have "apply_fn G g = (Inr (s, d), h)"
      "r = Inr (group_result_of G (s, d))" by (simp_all add: run_group_def io_try_def io_ret_def)
    then show thesis by (rule returned)
  next
    case (Inl e)
    show thesis
    proof (cases "hard G")
      case True
      with a Inl assms have "apply_fn G g = (Inl e, h)" "r = Inl e"
        by (simp_all add: run_group_def io_try_def io_raise_def)
      then show thesis using True by (rule escaped)
    next
      case False
      have "run_group G g = (if is_system_exit e
          then io_bind (exc_text e) (\<lambda>s. io_ret (group_result_of G (BlockedByShape, ''aborted: '' @ s)))
          else io_bind (exc_text e) (\<lambda>s. io_ret (group_result_of G (BlockedByShape, ''error: '' @ s)))) h'"
        using a Inl False by (simp add: run_group_def io_try_def)
      then obtain d where "run_group G g = (Inr (group_result_of G (BlockedByShape, d)), h')"
        by (cases "is_system_exit e") (auto simp: io_bind_def exc_text_eq io_ret_def)
      with assms a Inl have "apply_fn G g = (Inl e, h)"
        "r = Inr (group_result_of G (BlockedByShape, d))" by simp_all
      with False show thesis using caught by blast
    qed
  qed
qed

subsection \<open>The read-back of the pending writes\<close>

definition pending_texts :: "gctx \<Rightarrow> (path \<times> str) list" where
  "pending_texts g = map (\<lambda>rel. (rel, the (texts g rel))) (pending_writes g)"

lemma set_pending_writes [simp]: "set (pending_writes g) = set (dirty g)"
  by (simp add: pending_writes_def)

lemma read_all_cached:
  "set rels \<subseteq> dom (texts g) \<Longrightarrow> read_all rels g = (Inr (map (\<lambda>rel. (rel, the (texts g rel))) rels), g)"
proof (induction rels)
  case (Cons rel rels)
  then obtain t where "texts g rel = Some t" by auto
  with Cons show ?case by (simp add: io_bind_def ctx_read_cached io_ret_def)
qed (simp add: io_ret_def)

lemma read_pending:
  "coherent g \<Longrightarrow> io_bind (read_all (pending_writes g)) k g = k (pending_texts g) g"
  by (simp add: io_bind_def read_all_cached coherent_def pending_texts_def)

definition changed_by :: "gctx \<Rightarrow> gctx \<Rightarrow> path list" where
  "changed_by g h = changed_since (pending_texts g) (pending_texts h)"

lemma run_checked_eq:
  assumes "coherent g" and "graft_prog A (apply_fn G)"
  shows "run_checked G g = (case run_group G g of
      (Inl e, h) \<Rightarrow> (Inl e, h)
    | (Inr r, h) \<Rightarrow>
        (if \<not> ok_status (r_status r) then
           (if changed_by g h \<noteq> []
            then (Inl (System_Exit (degraded_message (key G) (r_status r) (changed_by g h))), h)
            else (Inr r, h))
         else if r_status r \<in> {Applied, Partial} \<and> changed_by g h = []
         then (Inl (System_Exit (no_op_message (key G) (r_status r))), h)
         else (Inr r, h)))"
proof -
  obtain x h where x: "run_group G g = (x, h)" by fastforce
  have c: "coherent h" using graft_coherent [OF graft_run_group [OF assms(2)] assms(1)] x
    by (metis snd_conv)
  show ?thesis
  proof (cases x)
    case (Inl e)
    with x show ?thesis
      unfolding run_checked_def by (simp add: read_pending assms(1)) (simp add: io_bind_def)
  next
    case (Inr r)
    with x show ?thesis
      unfolding run_checked_def
      by (simp add: read_pending assms(1))
        (simp add: io_bind_def [of "run_group G"] read_pending c Let_def io_raise_def io_ret_def
          changed_by_def)
  qed
qed

lemma changed_by_iff:
  assumes "coherent h"
  shows "rel \<in> set (changed_by g h) \<longleftrightarrow>
    rel \<in> set (dirty h) \<and> (rel \<notin> set (dirty g) \<or> texts h rel \<noteq> Some (the (texts g rel)))"
proof -
  have "map_of (pending_texts g) rel = (if rel \<in> set (dirty g) then Some (the (texts g rel)) else None)"
    for rel by (auto simp: pending_texts_def map_of_map_restrict restrict_map_def)
  moreover have "rel \<in> set (dirty h) \<Longrightarrow> texts h rel = Some (the (texts h rel))" for rel
    using assms by (auto simp: coherent_def)
  ultimately show ?thesis
    by (auto simp: changed_by_def changed_since_def pending_texts_def image_iff)
qed

lemma changed_by_unwritten: "coherent g \<Longrightarrow> unwritten g h \<Longrightarrow> changed_by g h = []"
proof -
  assume c: "coherent g" and u: "unwritten g h"
  have "pending_texts h = pending_texts g"
    using c u by (auto simp: pending_texts_def pending_writes_def unwritten_def coherent_def)
  moreover have "distinct (map fst (pending_texts g)) \<or> True" by simp
  moreover have "map_of (pending_texts g) rel = Some t" if "(rel, t) \<in> set (pending_texts g)" for rel t
    using that by (auto simp: pending_texts_def map_of_map_restrict restrict_map_def)
  ultimately show ?thesis
    by (auto simp: changed_by_def changed_since_def filter_empty_conv)
qed

lemma prog_read_all [safe_intros]: "prog_on A (read_all rels)"
  by (induction rels) (simp_all add: safe_intros)

lemma dry_sim_pending:
  assumes "dry_sim w d"
  shows "coherent d" "pending_texts d = pending_texts w" "family d = family w"
  using assms by (auto elim!: dry_simE simp: pending_texts_def pending_writes_def)

lemma graft_run_checked:
  assumes "graft_prog A (apply_fn G)"
  shows "graft_prog A (run_checked G)"
proof (rule graft_progI)
  have "prog_on A (run_group G)" using graft_run_group [OF assms] by (simp add: graft_prog_def)
  then show "prog_on A (run_checked G)"
    unfolding run_checked_def by (intro safe_intros)
  show "dry_blind (run_checked G)"
  proof (rule dry_blindI)
    fix w d
    assume s: "dry_sim w d"
    have cw: "coherent w" using s by (rule dry_simE)
    note cd = dry_sim_pending [OF s]
    obtain r h where w: "run_group G w = (r, h)" by fastforce
    have "dry_agree w d (run_group G)"
      using graft_run_group [OF assms] s by (simp add: graft_prog_def dry_blindD)
    then obtain k where d: "run_group G d = (r, k)" and sk: "dry_sim h k"
      using w by (cases "run_group G d") (simp add: dry_agree_def)
    have "changed_by d k = changed_by w h"
      using cd(2) dry_sim_pending(2) [OF sk] by (simp add: changed_by_def)
    then show "dry_agree w d (run_checked G)"
      using w d sk
      by (simp add: dry_agree_def run_checked_eq [OF cw assms] run_checked_eq [OF cd(1) assms]
          split: sum.split)
  qed
qed

subsection \<open>Interface: a registry of transactional groups\<close>

lemma graft_disabled_result [safe_intros]: "graft_prog A (disabled_result G)"
  unfolding disabled_result_def by (intro graft_bind graft_get safe_intros) simp

lemma graft_shape_report [safe_intros]: "graft_prog A shape_report"
  unfolding shape_report_def by (intro safe_intros)

definition child_body :: "group list \<Rightarrow> bool \<Rightarrow> (group_result list \<times> shapes option) io" where
  \<comment> \<open>\<open>run_child\<close> up to the assembly of the report\<close>
  "child_body groups enabled =
     io_bind (run_groups enabled groups []) (\<lambda>results.
     io_bind (if enabled then io_bind shape_report (\<lambda>s. io_ret (Some s)) else io_ret None) (\<lambda>sh.
     io_ret (results, sh)))"

lemma run_child_body:
  "run_child child now groups enabled =
     io_bind (child_body groups enabled) (\<lambda>(results, sh). io_get (build_report child now results sh))"
  by (auto simp: run_child_def child_body_def io_defs fun_eq_iff split: prod.splits sum.splits)

lemma run_child_state: "snd (run_child child now groups enabled g) = snd (child_body groups enabled g)"
  by (cases "child_body groups enabled g"; cases "fst (child_body groups enabled g)")
    (auto simp: run_child_body io_bind_def io_get_def)

definition registry_files :: "group list \<Rightarrow> path set" where
  "registry_files groups = (\<Union>G \<in> set groups. set (group_files G))"

definition registry_scope :: "group list \<Rightarrow> gctx \<Rightarrow> path set" where
  \<comment> \<open>the files the groups declare, and the defconfig\<close>
  "registry_scope groups g = registry_files groups \<union> defconfig_scope g"

definition confined :: "group \<Rightarrow> bool" where
  \<comment> \<open>the group's function writes only files the group declares, or the defconfig\<close>
  "confined G \<longleftrightarrow> no_backup (set (group_files G)) \<and>
     graft_prog (\<lambda>g. set (group_files G) \<union> defconfig_scope g) (apply_fn G)"

definition well_declared :: "group \<Rightarrow> bool" where
  \<comment> \<open>and it has written nothing when it degrades or raises\<close>
  "well_declared G \<longleftrightarrow> no_backup (set (group_files G)) \<and>
     transactional (\<lambda>g. set (group_files G) \<union> defconfig_scope g) (apply_fn G)"

lemma well_declared_confined: "well_declared G \<Longrightarrow> confined G"
  by (simp add: well_declared_def confined_def transactional_graft)

lemma key_of:
  "G = \<lparr>key = k, summary = s, commits = c, group_files = f, apply_fn = a, hard = h\<rparr> \<Longrightarrow> key G = k"
  by simp

lemma files_of:
  "G = \<lparr>key = k, summary = s, commits = c, group_files = f, apply_fn = a, hard = h\<rparr> \<Longrightarrow> group_files G = f"
  by simp

lemma hard_of:
  "G = \<lparr>key = k, summary = s, commits = c, group_files = f, apply_fn = a, hard = h\<rparr> \<Longrightarrow> hard G = h"
  by simp

lemma registry_files_append: "registry_files (Gs @ Hs) = registry_files Gs \<union> registry_files Hs"
  by (simp add: registry_files_def)

lemma registry_scope_fixed [simp]: "fixed_scope (registry_scope groups)"
  unfolding registry_scope_def by simp

lemma well_declaredI:
  assumes "transactional (\<lambda>_. S) m" and "apply_fn G = m" and "S \<subseteq> set (group_files G)"
    and "\<forall>f \<in> set (group_files G). \<not> is_backup f"
  shows "well_declared G"
proof -
  have "transactional (\<lambda>g. set (group_files G) \<union> defconfig_scope g) m"
    by (rule transactional_mono [OF assms(1)]) (use assms(3) in auto)
  with assms(2,4) show ?thesis by (simp add: well_declared_def no_backup_def)
qed

locale registry =
  fixes groups :: "group list"
  assumes keys_distinct: "distinct (map key groups)"
    and groups_confined: "G \<in> set groups \<Longrightarrow> confined G"
begin

abbreviation scope :: "gctx \<Rightarrow> path set" where
  "scope \<equiv> registry_scope groups"

lemma scope_fixed: "fixed_scope scope"
  by simp

lemma group_graft:
  assumes "G \<in> set groups"
  shows "graft_prog scope (apply_fn G)"
  by (rule graft_mono [OF groups_confined [OF assms, unfolded confined_def, THEN conjunct2]])
    (use assms in \<open>auto simp: registry_scope_def registry_files_def\<close>)

lemma files_no_backup: "no_backup (registry_files groups)"
  using groups_confined unfolding no_backup_def registry_files_def confined_def by blast

lemma scope_no_backup: "no_backup (defconfig_scope g) \<Longrightarrow> no_backup (scope g)"
  using files_no_backup unfolding no_backup_def registry_scope_def by blast

lemma graft_run_groups: "set Gs \<subseteq> set groups \<Longrightarrow> graft_prog scope (run_groups enabled Gs rs)"
  by (induction Gs arbitrary: rs)
    (auto intro!: safe_intros graft_run_checked group_graft)

lemma graft_child_body: "graft_prog scope (child_body groups enabled)"
  unfolding child_body_def by (intro safe_intros graft_run_groups subset_refl)

lemma child_framed: "framed scope g (snd (run_child child now groups enabled g))"
  unfolding run_child_state by (rule graft_framed [OF graft_child_body scope_fixed])

lemma child_dry: "dry_run g \<Longrightarrow> kfiles (snd (run_child child now groups enabled g)) = kfiles g"
  unfolding run_child_state by (rule graft_dry [OF graft_child_body])

lemma child_coherent: "coherent g \<Longrightarrow> coherent (snd (run_child child now groups enabled g))"
  unfolding run_child_state by (rule graft_coherent [OF graft_child_body])

lemma child_snap:
  assumes "snap fs0 (kfiles g)" and "no_backup (scope g)"
  shows "snap fs0 (kfiles (snd (run_child child now groups enabled g)))"
  unfolding run_child_state by (rule graft_snap [OF graft_child_body scope_fixed assms(2,1)])

lemma child_backed:
  assumes "\<not> dry_run g" and "all_backed g"
  shows "all_backed (snd (run_child child now groups enabled g))"
  using graft_keeps [OF graft_child_body backed.ctx_relation_axioms, where g = g] assms
  unfolding run_child_state keeps_backed_def by blast

lemma child_rollback:
  assumes "pristine (kfiles g)" and "no_backup (scope g)"
    and "no_sentinel (kfiles g)"
  shows "rollback (kfiles (snd (run_child child now groups enabled g))) = kfiles g"
  by (rule rollback_snap_eq [OF child_snap [OF pristine_snap [OF assms(1)] assms(2)] assms(3)])

lemma child_predicts:
  assumes s: "dry_sim w d"
  shows "fst (run_child child now groups enabled d) =
    map_sum id (\<lambda>r. r\<lparr>rp_dry_run := True\<rparr>) (fst (run_child child now groups enabled w))"
proof -
  have "dry_agree w d (child_body groups enabled)"
    using graft_child_body s by (simp add: graft_prog_def dry_blindD)
  then obtain r h k where w: "child_body groups enabled w = (r, h)"
    and d: "child_body groups enabled d = (r, k)" and hk: "dry_sim h k"
    by (cases "child_body groups enabled w"; cases "child_body groups enabled d")
      (simp add: dry_agree_def)
  from hk have "build_report child now rs sh k = (build_report child now rs sh h)\<lparr>rp_dry_run := True\<rparr>"
    for rs sh by (auto elim!: dry_simE simp: build_report_def pending_writes_def)
  with w d show ?thesis
    by (cases r) (auto simp: run_child_body io_bind_def io_get_def split: prod.split)
qed

end

text \<open>A registry all of whose groups are transactional: a degraded group never trips the check.\<close>

locale txn_registry =
  fixes groups :: "group list"
  assumes txn_keys_distinct: "distinct (map key groups)"
    and declared: "G \<in> set groups \<Longrightarrow> well_declared G"

sublocale txn_registry \<subseteq> registry groups
  by unfold_locales (use txn_keys_distinct declared well_declared_confined in auto)

context txn_registry
begin

lemma group_degrades:
  assumes "G \<in> set groups" and "coherent g" and r: "run_group G g = (r, h)"
    and bad: "case r of Inl e \<Rightarrow> True | Inr x \<Rightarrow> \<not> ok_status (r_status x)"
  shows "unwritten g h"
proof -
  note txn = declared [OF assms(1), unfolded well_declared_def, THEN conjunct2]
  from r show ?thesis
  proof (cases rule: run_group_cases)
    case (returned s d)
    with bad have "\<not> ok_status s" by (simp add: group_result_of_def)
    then show ?thesis by (rule transactional_degraded [OF txn assms(2) returned(1)])
  next
    case (caught e d)
    show ?thesis by (rule transactional_raise_quiet [OF txn assms(2) caught(1)])
  next
    case (escaped e)
    show ?thesis by (rule transactional_raise_quiet [OF txn assms(2) escaped(1)])
  qed
qed

lemma checked_raises:
  assumes "G \<in> set groups" and "coherent g" and r: "run_checked G g = (Inl e, h)"
  shows "(hard G \<and> apply_fn G g = (Inl e, h)) \<or>
    (\<exists>s \<in> {Applied, Partial}. e = System_Exit (no_op_message (key G) s))"
proof -
  note txn = declared [OF assms(1), unfolded well_declared_def, THEN conjunct2] and gr = group_graft [OF assms(1)]
  obtain x k where x: "run_group G g = (x, k)" by fastforce
  from x show ?thesis
  proof (cases rule: run_group_cases)
    case (returned s d)
    have "\<not> ok_status s \<Longrightarrow> changed_by g k = []"
      using changed_by_unwritten [OF assms(2) transactional_degraded [OF txn assms(2) returned(1)]] .
    with r x returned(2) show ?thesis
      by (auto simp: run_checked_eq [OF assms(2) gr] group_result_of_def split: if_splits)
  next
    case (caught e' d)
    have "changed_by g k = []"
      using changed_by_unwritten [OF assms(2) transactional_raise_quiet [OF txn assms(2) caught(1)]] .
    with r x caught(3) show ?thesis
      by (auto simp: run_checked_eq [OF assms(2) gr] group_result_of_def ok_status_def
          split: if_splits)
  next
    case (escaped e')
    with r x show ?thesis by (simp add: run_checked_eq [OF assms(2) gr])
  qed
qed

end

subsection \<open>A second run of a partial group\<close>

lemma partial_rerun_refused:
  assumes gr: "graft_prog A (apply_fn G)" and f: "apply_fn G = apply_or_else ss k" and c: "coherent g"
    and nb: "\<forall>q \<in> steps_files ss. \<not> is_backup q" and cm: "calm g (steps_files ss)"
    and w: "run_view ss (seen g) [] = Inr (v, res)" and u: "undisturbed ss v res"
    and r: "run_checked G g = (Inr r, h)" and s: "r_status r = Partial"
  shows "\<exists>h'. run_checked G h = (Inl (System_Exit (no_op_message (key G) Partial)), h') \<and> unwritten h h'"
proof -
  have x: "run_group G g = (Inr r, h)"
    using r by (auto simp: run_checked_eq [OF c gr] split: prod.splits sum.splits if_splits)
  obtain d where a: "apply_or_else ss k g = (Inr (Partial, d), h)"
  proof (use x in \<open>cases rule: run_group_cases\<close>)
    case (returned st d)
    with s f that show thesis by (auto simp: group_result_of_def)
  next
    case (caught e d)
    with s show thesis by (simp add: group_result_of_def)
  qed simp
  obtain res' where st: "apply_steps ss g = (Inr (Some Partial, res', d), h)"
    using a
  proof (cases rule: apply_or_else_cases)
    case (missed res' d' g')
    with apply_steps_refines [OF c nb] w show thesis by (auto simp: classify_def Let_def split: if_splits)
  next
    case (finished st res' d')
    with that show thesis by auto
  qed simp
  obtain d' h' where again: "apply_steps ss h = (Inr (Some Partial, map (\<lambda>(rel, st). (rel, rerun_of st)) res, d'), h')"
    and q: "unwritten h h'"
    by (rule apply_steps_rerun_partial [OF c nb cm w u st])
  have ch: "coherent h" using graft_coherent [OF graft_run_checked [OF gr] c] r by (metis snd_conv)
  have "apply_fn G h = (Inr (Partial, d'), h')"
    using again by (simp add: f apply_or_else_def io_bind_def io_ret_def)
  then have "run_group G h = (Inr (group_result_of G (Partial, d')), h')"
    by (simp add: run_group_def io_try_def io_ret_def)
  with changed_by_unwritten [OF ch q] q show ?thesis
    by (simp add: run_checked_eq [OF ch gr] group_result_of_def ok_status_def)
qed

end
