(* ===== verification/Core_Fd.thy ===== *)
theory Core_Fd
  imports Registry_Laws
begin

text \<open>
  \<^verbatim>\<open>scripts/abk_stable_core.py\<close>, lines up to 350: the fdtable conversion and replace_fd(). Anchors, steps and
  group functions stand in source order under the source's names.
\<close>

definition FD_DOC_TAIL_OLD :: str where
  \<open>FD_DOC_TAIL_OLD = block
     ['' * The ALIGN(nr, BITS_PER_LONG) here is for clarity: since we just multiplied'',
      '' * by that "1024/sizeof(ptr)" before, we already know there are sufficient'',
      '' * clear low bits. Clang seems to realize that, gcc ends up being confused.'',
      '' *'',
      '' * On a 128-bit machine, the ALIGN() would actually matter. In the meantime,'',
      '' * let\'s consider it documentation (and maybe a test-case for gcc to improve'',
      '' * its code generation ;)'',
      '' */'',
      ''static struct fdtable * alloc_fdtable(unsigned int nr)'',
      ''{'',
      ''	struct fdtable *fdt;'',
      ''	void *data;'',
      []]\<close>

definition FD_DOC_TAIL_NEW :: str where
  \<open>FD_DOC_TAIL_NEW = block
     ['' */'',
      ''/* ABK stable_515_backport: fd table allocation conventions grafted from 5.15.191 (slots_wanted parameter and ERR_PTR conventions). */'',
      ''static struct fdtable *alloc_fdtable(unsigned int slots_wanted)'',
      ''{'',
      ''	struct fdtable *fdt;'',
      ''	unsigned int nr;'',
      ''	void *data;'',
      []]\<close>

definition FD_SIZE_MATH_OLD :: str where
  \<open>FD_SIZE_MATH_OLD = block
     [''	nr /= (1024 / sizeof(struct file *));'',
      ''	nr = roundup_pow_of_two(nr + 1);'',
      ''	nr *= (1024 / sizeof(struct file *));'',
      ''	nr = ALIGN(nr, BITS_PER_LONG);'',
      []]\<close>

definition FD_SIZE_MATH_NEW :: str where
  \<open>FD_SIZE_MATH_NEW = block
     [''	if (IS_ENABLED(CONFIG_32BIT) && slots_wanted < 256)'',
      ''		nr = 256;'',
      ''	else'',
      ''		nr = roundup_pow_of_two(slots_wanted);'',
      []]\<close>

definition FD_CLAMP_OLD :: str where
  \<open>FD_CLAMP_OLD = block
     [''	 * Note that this can drive nr *below* what we had passed if sysctl_nr_open'',
      ''	 * had been set lower between the check in expand_files() and here.  Deal'',
      ''	 * with that in caller, it\'s cheaper that way.'',
      ''	 *'',
      ''	 * We make sure that nr remains a multiple of BITS_PER_LONG - otherwise'',
      ''	 * bitmaps handling below becomes unpleasant, to put it mildly...'',
      ''	 */'',
      ''	if (unlikely(nr > sysctl_nr_open))'',
      ''		nr = ((sysctl_nr_open - 1) | (BITS_PER_LONG - 1)) + 1;'',
      []]\<close>

definition FD_CLAMP_NEW :: str where
  \<open>FD_CLAMP_NEW = block
     [''	 * Note that this can drive nr *below* what we had passed if sysctl_nr_open'',
      ''	 * had been set lower between the check in expand_files() and here.'',
      ''	 *'',
      ''	 * We make sure that nr remains a multiple of BITS_PER_LONG - otherwise'',
      ''	 * bitmaps handling below becomes unpleasant, to put it mildly...'',
      ''	 */'',
      ''	if (unlikely(nr > sysctl_nr_open)) {'',
      ''		nr = round_down(sysctl_nr_open, BITS_PER_LONG);'',
      ''		if (nr < slots_wanted)'',
      ''			return ERR_PTR(-EMFILE);'',
      ''	}'',
      [],
      ''	/* ABK stable_515_backport: fdtable allocation INT_MAX guard (5.15.191). */'',
      ''	if (unlikely(nr > INT_MAX / sizeof(struct file *)))'',
      ''		return ERR_PTR(-EMFILE);'',
      []]\<close>

definition FD_TAIL_OLD :: str where
  \<open>FD_TAIL_OLD = block
     [''out_fdt:'',
      ''	kfree(fdt);'',
      ''out:'',
      ''	return NULL;'',
      ''}'',
      []]\<close>

definition FD_TAIL_NEW :: str where
  \<open>FD_TAIL_NEW = block
     [''out_fdt:'',
      ''	kfree(fdt);'',
      ''out:'',
      ''	return ERR_PTR(-ENOMEM);'',
      ''}'',
      []]\<close>

definition FD_EXPAND_CALL_OLD :: str where
  \<open>FD_EXPAND_CALL_OLD = block
     [''	spin_unlock(&files->file_lock);'',
      ''	new_fdt = alloc_fdtable(nr);'',
      []]\<close>

definition FD_EXPAND_CALL_NEW :: str where
  \<open>FD_EXPAND_CALL_NEW = block
     [''	spin_unlock(&files->file_lock);'',
      ''	new_fdt = alloc_fdtable(nr + 1);'',
      []]\<close>

definition FD_EXPAND_CHECK_OLD :: str where
  \<open>FD_EXPAND_CHECK_OLD = block
     [''	if (!new_fdt)'',
      ''		return -ENOMEM;'',
      ''	/*'',
      ''	 * extremely unlikely race - sysctl_nr_open decreased between the check in'',
      ''	 * caller and alloc_fdtable().  Cheaper to catch it here...'',
      ''	 */'',
      ''	if (unlikely(new_fdt->max_fds <= nr)) {'',
      ''		__free_fdtable(new_fdt);'',
      ''		return -EMFILE;'',
      ''	}'',
      []]\<close>

definition FD_EXPAND_CHECK_NEW :: str where
  \<open>FD_EXPAND_CHECK_NEW = block
     [''	if (IS_ERR(new_fdt))'',
      ''		return PTR_ERR(new_fdt);'',
      []]\<close>

definition FD_DUPFD_AOSP_OLD :: str where
  \<open>FD_DUPFD_AOSP_OLD = block
     [''		new_fdt = alloc_fdtable(open_files - 1);'',
      ''		if (!new_fdt) {'',
      ''			*errorp = -ENOMEM;'',
      ''			goto out_release;'',
      ''		}'',
      [],
      ''		/* beyond sysctl_nr_open; nothing to do */'',
      ''		if (unlikely(new_fdt->max_fds < open_files)) {'',
      ''			__free_fdtable(new_fdt);'',
      ''			*errorp = -EMFILE;'',
      ''			goto out_release;'',
      ''		}'',
      []]\<close>

definition FD_DUPFD_AOSP_NEW :: str where
  \<open>FD_DUPFD_AOSP_NEW = block
     [''		/* ABK stable_515_backport: dup_fd keeps the errorp contract while alloc_fdtable() switches to the slots_wanted/ERR_PTR conventions. */'',
      ''		new_fdt = alloc_fdtable(open_files);'',
      ''		if (IS_ERR(new_fdt)) {'',
      ''			kmem_cache_free(files_cachep, newf);'',
      ''			*errorp = PTR_ERR(new_fdt);'',
      ''			return NULL;'',
      ''		}'',
      []]\<close>

definition FD_DUPFD_LABEL_OLD :: str where
  \<open>FD_DUPFD_LABEL_OLD = block
     [''	return newf;'',
      [],
      ''out_release:'',
      ''	kmem_cache_free(files_cachep, newf);'',
      ''out:'',
      ''	return NULL;'',
      ''}'',
      []]\<close>

definition FD_DUPFD_LABEL_NEW :: str where
  \<open>FD_DUPFD_LABEL_NEW = block
     [''	return newf;'',
      [],
      ''out:'',
      ''	return NULL;'',
      ''}'',
      []]\<close>

definition FD_DUPFD_LABEL_VANILLA_OLD :: str where
  \<open>FD_DUPFD_LABEL_VANILLA_OLD = block
     [''	return newf;'',
      [],
      ''out_release:'',
      ''	kmem_cache_free(files_cachep, newf);'',
      ''	return ERR_PTR(error);'',
      ''}'',
      []]\<close>

definition FD_DUPFD_LABEL_VANILLA_NEW :: str where
  \<open>FD_DUPFD_LABEL_VANILLA_NEW = block
     [''	return newf;'',
      ''}'',
      []]\<close>

definition FD_DUPFD_ERR_DECL_OLD :: str where
  \<open>FD_DUPFD_ERR_DECL_OLD = block
     [''	struct fdtable *old_fdt, *new_fdt;'',
      ''	int error;'',
      [],
      ''	newf = kmem_cache_alloc(files_cachep, GFP_KERNEL);'',
      []]\<close>

definition FD_DUPFD_ERR_DECL_NEW :: str where
  \<open>FD_DUPFD_ERR_DECL_NEW = block
     [''	struct fdtable *old_fdt, *new_fdt;'',
      [],
      ''	newf = kmem_cache_alloc(files_cachep, GFP_KERNEL);'',
      []]\<close>

definition FD_DUPFD_VANILLA_OLD :: str where
  \<open>FD_DUPFD_VANILLA_OLD = block
     [''		new_fdt = alloc_fdtable(open_files - 1);'',
      ''		if (!new_fdt) {'',
      ''			error = -ENOMEM;'',
      ''			goto out_release;'',
      ''		}'',
      [],
      ''		/* beyond sysctl_nr_open; nothing to do */'',
      ''		if (unlikely(new_fdt->max_fds < open_files)) {'',
      ''			__free_fdtable(new_fdt);'',
      ''			error = -EMFILE;'',
      ''			goto out_release;'',
      ''		}'',
      []]\<close>

definition FD_DUPFD_VANILLA_NEW :: str where
  \<open>FD_DUPFD_VANILLA_NEW = block
     [''		/* ABK stable_515_backport: dup_fd adopts the ERR_CAST return contract of the 5.15.191 conventions. */'',
      ''		new_fdt = alloc_fdtable(open_files);'',
      ''		if (IS_ERR(new_fdt)) {'',
      ''			kmem_cache_free(files_cachep, newf);'',
      ''			return ERR_CAST(new_fdt);'',
      ''		}'',
      []]\<close>

definition FD_REPLACE_FD_OLD :: str where
  \<open>FD_REPLACE_FD_OLD = block
     [''	return do_dup2(files, file, fd, flags);'',
      []]\<close>

definition FD_REPLACE_FD_NEW :: str where
  \<open>FD_REPLACE_FD_NEW = block
     [''	err = do_dup2(files, file, fd, flags);'',
      ''	if (err < 0)'',
      ''		return err;'',
      ''	return 0;'',
      []]\<close>

definition FD_SUITE_DOC_TAIL_OLD :: str where
  \<open>FD_SUITE_DOC_TAIL_OLD = block
     ['' * The ALIGN(nr, BITS_PER_LONG) here is for clarity: since we just multiplied'',
      '' * by that "1024/sizeof(ptr)" before, we already know there are sufficient'',
      '' * clear low bits. Clang seems to realize that, gcc ends up being confused.'',
      '' *'',
      '' * On a 128-bit machine, the ALIGN() would actually matter. In the meantime,'',
      '' * let\'s consider it documentation (and maybe a test-case for gcc to improve'',
      '' * its code generation ;)'',
      '' */'',
      ''static struct fdtable * alloc_fdtable(unsigned int nr)'',
      ''{'',
      ''	struct fdtable *fdt;'',
      ''	unsigned int slots_wanted = abk_fdtable_slots_wanted(nr);'',
      ''	void *data;'',
      []]\<close>

definition FD_SUITE_SIZE_MATH_OLD :: str where
  \<open>FD_SUITE_SIZE_MATH_OLD = block
     [''	/*'',
      ''	 * Keep the legacy file-local interface shape, but derive capacity from'',
      ''	 * the requested slot count before dropping into the allocator.'',
      ''	 */'',
      ''	nr = ALIGN(slots_wanted, BITS_PER_LONG);'',
      []]\<close>

definition FD_SUITE_SIZE_MATH_NEW :: str where
  \<open>FD_SUITE_SIZE_MATH_NEW = block
     [''	/*'',
      ''	 * Figure out how many fds we actually want to support in this fdtable.'',
      ''	 * Allocation steps are keyed to the size of the fdarray, since it'',
      ''	 * grows far faster than any of the other dynamic data. We try to fit'',
      ''	 * the fdarray into page-tuned chunks: starting at 1024B and growing in'',
      ''	 * powers of two from there on.'',
      ''	 */'',
      ''	if (IS_ENABLED(CONFIG_32BIT) && slots_wanted < 256)'',
      ''		nr = 256;'',
      ''	else'',
      ''		nr = roundup_pow_of_two(slots_wanted);'',
      []]\<close>

definition FD_SUITE_CLAMP_OLD :: str where
  \<open>FD_SUITE_CLAMP_OLD = block
     [''	 * Note that this can drive nr *below* what we had passed if sysctl_nr_open'',
      ''	 * had been set lower between the check in expand_files() and here.  Deal'',
      ''	 * with that in caller, it\'s cheaper that way.'',
      ''	 *'',
      ''	 * We make sure that nr remains a multiple of BITS_PER_LONG - otherwise'',
      ''	 * bitmaps handling below becomes unpleasant, to put it mildly...'',
      ''	 */'',
      ''	if (unlikely(nr > sysctl_nr_open))'',
      ''		nr = ((sysctl_nr_open - 1) | (BITS_PER_LONG - 1)) + 1;'',
      ''	if (unlikely(nr > INT_MAX / sizeof(struct file *)))'',
      ''		return NULL;'',
      []]\<close>

definition suite_fallback_shape :: "str \<Rightarrow> bool" where
  \<open>suite_fallback_shape t \<longleftrightarrow>
     contains ''alloc_fdtable(unsigned int nr)'' t
     \<and> contains ''unsigned int slots_wanted = abk_fdtable_slots_wanted(nr);'' t
     \<and> contains SUITE_FD_FALLBACK_ALIGN t\<close>

definition suite_label_step :: step where
  \<open>suite_label_step =
   (''fs/file.c'',
    FD_DUPFD_LABEL_OLD,
    FD_DUPFD_LABEL_NEW, True)\<close>

definition suite_label_vanilla_step :: step where
  \<open>suite_label_vanilla_step =
   (''fs/file.c'',
    FD_DUPFD_LABEL_VANILLA_OLD,
    FD_DUPFD_LABEL_VANILLA_NEW, True)\<close>

definition suite_err_decl_step :: step where
  \<open>suite_err_decl_step =
   (''fs/file.c'',
    FD_DUPFD_ERR_DECL_OLD,
    FD_DUPFD_ERR_DECL_NEW, True)\<close>

definition suite_composed_step1 :: step where
  \<open>suite_composed_step1 =
   (''fs/file.c'',
    FD_SUITE_DOC_TAIL_OLD,
    FD_DOC_TAIL_NEW, True)\<close>

definition suite_composed_step2 :: step where
  \<open>suite_composed_step2 =
   (''fs/file.c'',
    FD_SUITE_SIZE_MATH_OLD,
    FD_SUITE_SIZE_MATH_NEW, True)\<close>

definition suite_composed_step3 :: step where
  \<open>suite_composed_step3 =
   (''fs/file.c'',
    FD_SUITE_CLAMP_OLD,
    FD_CLAMP_NEW, True)\<close>

definition suite_composed_step4 :: step where
  \<open>suite_composed_step4 =
   (''fs/file.c'',
    FD_TAIL_OLD,
    FD_TAIL_NEW, True)\<close>

definition suite_composed_step5 :: step where
  \<open>suite_composed_step5 =
   (''fs/file.c'',
    FD_EXPAND_CALL_OLD,
    FD_EXPAND_CALL_NEW, True)\<close>

definition suite_composed_step6 :: step where
  \<open>suite_composed_step6 =
   (''fs/file.c'',
    FD_EXPAND_CHECK_OLD,
    FD_EXPAND_CHECK_NEW, True)\<close>

definition suite_dupfd_step :: step where
  \<open>suite_dupfd_step =
   (''fs/file.c'',
    FD_DUPFD_AOSP_OLD,
    FD_DUPFD_AOSP_NEW, True)\<close>

definition suite_dupfd_vanilla_step :: step where
  \<open>suite_dupfd_vanilla_step =
   (''fs/file.c'',
    FD_DUPFD_VANILLA_OLD,
    FD_DUPFD_VANILLA_NEW, True)\<close>

definition suite_composed_steps :: "bool \<Rightarrow> step list" where
  \<open>suite_composed_steps dup_fd_aosp =
     (let label_step = (if dup_fd_aosp then suite_label_step else suite_label_vanilla_step);
          err_decl_step = (if dup_fd_aosp then [] else [suite_err_decl_step])
      in [suite_composed_step1, suite_composed_step2, suite_composed_step3, suite_composed_step4, suite_composed_step5, suite_composed_step6,
          (if dup_fd_aosp then suite_dupfd_step else suite_dupfd_vanilla_step), label_step]
         @ err_decl_step)\<close>

lemma suite_composed_steps_files: "steps_files (suite_composed_steps b) = {''fs/file.c''}"
  by (simp add: suite_composed_steps_def Let_def steps_files_fst
      step_file [OF suite_label_step_def]
      step_file [OF suite_label_vanilla_step_def]
      step_file [OF suite_err_decl_step_def]
      step_file [OF suite_composed_step1_def]
      step_file [OF suite_composed_step2_def]
      step_file [OF suite_composed_step3_def]
      step_file [OF suite_composed_step4_def]
      step_file [OF suite_composed_step5_def]
      step_file [OF suite_composed_step6_def]
      step_file [OF suite_dupfd_step_def]
      step_file [OF suite_dupfd_vanilla_step_def])

definition fdtable_step1 :: step where
  \<open>fdtable_step1 =
   (''fs/file.c'',
    FD_DOC_TAIL_OLD,
    FD_DOC_TAIL_NEW, True)\<close>

definition fdtable_step2 :: step where
  \<open>fdtable_step2 =
   (''fs/file.c'',
    FD_SIZE_MATH_OLD,
    FD_SIZE_MATH_NEW, True)\<close>

definition fdtable_step3 :: step where
  \<open>fdtable_step3 =
   (''fs/file.c'',
    FD_CLAMP_OLD,
    FD_CLAMP_NEW, True)\<close>

definition fdtable_step4 :: step where
  \<open>fdtable_step4 =
   (''fs/file.c'',
    FD_TAIL_OLD,
    FD_TAIL_NEW, True)\<close>

definition fdtable_step5 :: step where
  \<open>fdtable_step5 =
   (''fs/file.c'',
    FD_EXPAND_CALL_OLD,
    FD_EXPAND_CALL_NEW, True)\<close>

definition fdtable_step6 :: step where
  \<open>fdtable_step6 =
   (''fs/file.c'',
    FD_EXPAND_CHECK_OLD,
    FD_EXPAND_CHECK_NEW, True)\<close>

definition fdtable_step7 :: step where
  \<open>fdtable_step7 =
   (''fs/file.c'',
    FD_DUPFD_AOSP_OLD,
    FD_DUPFD_AOSP_NEW, True)\<close>

definition fdtable_step8 :: step where
  \<open>fdtable_step8 =
   (''fs/file.c'',
    FD_DUPFD_LABEL_OLD,
    FD_DUPFD_LABEL_NEW, True)\<close>

definition fdtable_vanilla_step6 :: step where
  \<open>fdtable_vanilla_step6 =
   (''fs/file.c'',
    FD_DUPFD_VANILLA_OLD,
    FD_DUPFD_VANILLA_NEW, True)\<close>

definition fdtable_vanilla_step7 :: step where
  \<open>fdtable_vanilla_step7 =
   (''fs/file.c'',
    FD_DUPFD_LABEL_VANILLA_OLD,
    FD_DUPFD_LABEL_VANILLA_NEW, True)\<close>

definition fdtable_vanilla_step8 :: step where
  \<open>fdtable_vanilla_step8 =
   (''fs/file.c'',
    FD_DUPFD_ERR_DECL_OLD,
    FD_DUPFD_ERR_DECL_NEW, True)\<close>

definition fdtable_steps :: "step list" where
  \<open>fdtable_steps = [fdtable_step1, fdtable_step2, fdtable_step3, fdtable_step4, fdtable_step5, fdtable_step6, fdtable_step7, fdtable_step8]\<close>

definition fdtable_vanilla_steps :: "step list" where
  \<comment> \<open>\<open>steps[6] = ...; steps[7] = ...; steps.insert(8, ...)\<close>\<close>
  \<open>fdtable_vanilla_steps =
     (let steps = fdtable_steps[6 := fdtable_vanilla_step6, 7 := fdtable_vanilla_step7]
      in take 8 steps @ [fdtable_vanilla_step8] @ drop 8 steps)\<close>

lemma fdtable_steps_files:
  "steps_files fdtable_steps = {''fs/file.c''}"
  "steps_files fdtable_vanilla_steps = {''fs/file.c''}"
  by (simp_all add: fdtable_vanilla_steps_def fdtable_steps_def Let_def steps_files_fst
      step_file [OF fdtable_step1_def]
      step_file [OF fdtable_step2_def]
      step_file [OF fdtable_step3_def]
      step_file [OF fdtable_step4_def]
      step_file [OF fdtable_step5_def]
      step_file [OF fdtable_step6_def]
      step_file [OF fdtable_step7_def]
      step_file [OF fdtable_step8_def]
      step_file [OF fdtable_vanilla_step6_def]
      step_file [OF fdtable_vanilla_step7_def]
      step_file [OF fdtable_vanilla_step8_def])

definition fdtable_apply :: "outcome io" where
  \<open>fdtable_apply =
    io_bind fdtable_upstream_shape (\<lambda>upstream.
    if upstream
    then io_ret (AlreadyPresent, ''upstream fdtable conventions already present'')
    else
    io_bind (ctx_read ''fs/file.c'') (\<lambda>text_probe.
    let dup_fd_aosp = contains ''sane_fdtable_size(old_fdt, max_fds)'' text_probe in
    if suite_fallback_shape text_probe
    then apply_or_else (suite_composed_steps dup_fd_aosp) (\<lambda>d.
      io_ret (SkipSuiteProcessed, ''suite fallback shape not recognized for composition; '' @ d))
    else
    io_bind (suite_touched ''fs/file.c'') (\<lambda>touched.
    if touched
    then io_ret (SkipSuiteProcessed, ''fs/file.c already carries ABK_ABI_PATCH_SUITE markers'')
    else
    apply_or_else (if dup_fd_aosp then fdtable_steps else fdtable_vanilla_steps) (\<lambda>d.
      io_raise (System_Exit
        (''stable_backport_core/fdtable_alloc_conventions: fs/file.c matches no known '' @
         ''shape (pristine monthly, upstream 5.15.191, or suite-processed); '' @ d))))))\<close>

lemma fdtable_apply_txn: "transactional (\<lambda>_. {''fs/file.c''}) fdtable_apply"
  unfolding fdtable_apply_def
  by (intro txn_intros safe_intros)
    (simp_all add: is_backup_code BACKUP_SUFFIX_def suite_composed_steps_files fdtable_steps_files)

definition replace_fd_errno_step1 :: step where
  \<open>replace_fd_errno_step1 =
   (''fs/file.c'',
    FD_REPLACE_FD_OLD,
    FD_REPLACE_FD_NEW, True)\<close>

definition replace_fd_errno_steps :: "step list" where
  \<open>replace_fd_errno_steps = [replace_fd_errno_step1]\<close>

definition replace_fd_errno_apply :: "outcome io" where
  \<open>replace_fd_errno_apply =
    apply_or_block replace_fd_errno_steps\<close>

lemma replace_fd_errno_steps_files: "steps_files replace_fd_errno_steps = {''fs/file.c''}"
  by (simp add: replace_fd_errno_steps_def steps_files_fst insert_commute
      step_file [OF replace_fd_errno_step1_def])

lemma replace_fd_errno_steps_required: "all_required replace_fd_errno_steps"
  by (simp add: replace_fd_errno_steps_def all_required_def
      step_req [OF replace_fd_errno_step1_def])

lemma replace_fd_errno_apply_txn: "transactional (\<lambda>_. {''fs/file.c''}) replace_fd_errno_apply"
  unfolding replace_fd_errno_apply_def
  by (intro txn_intros safe_intros)
    (simp_all add: is_backup_code BACKUP_SUFFIX_def replace_fd_errno_steps_files)

end
