(* ===== verification/Core_Page_Reserves.thy ===== *)
theory Core_Page_Reserves
  imports Registry_Laws
begin

text \<open>
  \<^verbatim>\<open>scripts/abk_stable_core.py\<close>, lines up to 658: the allocator's reserve groups. Anchors, steps and
  group functions stand in source order under the source's names.
\<close>

definition min_reserve_step1 :: step where
  \<open>min_reserve_step1 =
   (''mm/internal.h'',
    ''#define ALLOC_HIGH		 0x20 /* __GFP_HIGH set */'',
    block
     [''#define ALLOC_MIN_RESERVE	 0x20 /* __GFP_HIGH set. Allow access to 50%'',
      ''				       * of the min watermark.'',
      ''				       */''], True)\<close>

definition min_reserve_step2 :: step where
  \<open>min_reserve_step2 =
   (''mm/page_alloc.c'',
    block
     [''if (alloc_flags & ALLOC_HIGH)'',
      ''		min -= min / 2;''],
    block
     [''if (alloc_flags & ALLOC_MIN_RESERVE)'',
      ''		min -= min / 2;''], True)\<close>

definition min_reserve_step3 :: step where
  \<open>min_reserve_step3 =
   (''mm/page_alloc.c'',
    block
     [''	 * __GFP_HIGH is assumed to be the same as ALLOC_HIGH'',
      []],
    block
     [''	 * __GFP_HIGH is assumed to be the same as ALLOC_MIN_RESERVE'',
      []], True)\<close>

definition min_reserve_step4 :: step where
  \<open>min_reserve_step4 =
   (''mm/page_alloc.c'',
    ''BUILD_BUG_ON(__GFP_HIGH != (__force gfp_t) ALLOC_HIGH);'',
    ''BUILD_BUG_ON(__GFP_HIGH != (__force gfp_t) ALLOC_MIN_RESERVE);'', True)\<close>

definition min_reserve_step5 :: step where
  \<open>min_reserve_step5 =
   (''mm/page_alloc.c'',
    ''	 * set both ALLOC_HARDER (__GFP_ATOMIC) and ALLOC_HIGH (__GFP_HIGH).'',
    ''	 * set both ALLOC_HARDER (__GFP_ATOMIC) and ALLOC_MIN_RESERVE(__GFP_HIGH).'', False)\<close>

definition min_reserve_step6 :: step where
  \<open>min_reserve_step6 =
   (''mm/page_alloc.c'',
    block
     [''	} else if (unlikely(rt_task(current)) && in_task())'',
      ''		alloc_flags |= ALLOC_HARDER;''],
    block
     [''	} else if (unlikely(rt_task(current)) && in_task())'',
      ''		alloc_flags |= ALLOC_MIN_RESERVE;''], True)\<close>

definition min_reserve_steps :: "step list" where
  \<open>min_reserve_steps = [min_reserve_step1, min_reserve_step2, min_reserve_step3, min_reserve_step4, min_reserve_step5, min_reserve_step6]\<close>

definition min_reserve_apply :: "outcome io" where
  \<open>min_reserve_apply =
    apply_or_else min_reserve_steps (\<lambda>d.
    io_bind (ctx_read ''mm/internal.h'') (\<lambda>t.
    if contains ''ALLOC_RESERVES'' t
    then io_ret (AlreadyPresent, ''superseded by pagealloc_highatomic_reserve_semantics'')
    else io_ret (BlockedByShape, d)))\<close>

lemma min_reserve_steps_files: "steps_files min_reserve_steps = {''mm/internal.h'', ''mm/page_alloc.c''}"
  by (simp add: min_reserve_steps_def steps_files_fst insert_commute
      step_file [OF min_reserve_step1_def]
      step_file [OF min_reserve_step2_def]
      step_file [OF min_reserve_step3_def]
      step_file [OF min_reserve_step4_def]
      step_file [OF min_reserve_step5_def]
      step_file [OF min_reserve_step6_def])

lemma min_reserve_apply_txn: "transactional (\<lambda>_. {''mm/internal.h'', ''mm/page_alloc.c''}) min_reserve_apply"
  unfolding min_reserve_apply_def
  by (intro txn_intros safe_intros)
    (simp_all add: is_backup_code BACKUP_SUFFIX_def min_reserve_steps_files)

definition ALLOC_CONT :: str where
  \<open>ALLOC_CONT = ''				       ''\<close>

definition highatomic_reserve_step1 :: step where
  \<open>highatomic_reserve_step1 =
   (''mm/internal.h'',
    block
     [''#define ALLOC_HARDER		 0x10 /* try to alloc harder */'',
      ''#define ALLOC_MIN_RESERVE	 0x20 /* __GFP_HIGH set. Allow access to 50%'',
      ''				       * of the min watermark.'',
      ''				       */''],
    block
     [''#define ALLOC_NON_BLOCK		 0x10 /* Caller cannot block. Allow access'',
      []] @
   ALLOC_CONT @
   block
     [''* to 25% of the min watermark or'',
      []] @
   ALLOC_CONT @
   block
     [''* 62.5% if __GFP_HIGH is set.'',
      []] @
   ALLOC_CONT @
   block
     [''*/'',
      ''#define ALLOC_MIN_RESERVE	 0x20 /* __GFP_HIGH set. Allow access to 50%'',
      []] @
   ALLOC_CONT @
   block
     [''* of the min watermark.'',
      []] @
   ALLOC_CONT @
   ''*/'', True)\<close>

definition highatomic_reserve_step2 :: step where
  \<open>highatomic_reserve_step2 =
   (''mm/internal.h'',
    ''#define ALLOC_KSWAPD		0x800 /* allow waking of kswapd, __GFP_KSWAPD_RECLAIM set */'',
    block
     [''#define ALLOC_HIGHATOMIC	0x200 /* Allows access to MIGRATE_HIGHATOMIC */'',
      ''#define ALLOC_KSWAPD		0x800 /* allow waking of kswapd, __GFP_KSWAPD_RECLAIM set */'',
      [],
      ''/* Flags that allow allocations below the min watermark. */'',
      ''#define ALLOC_RESERVES (ALLOC_NON_BLOCK|ALLOC_MIN_RESERVE|ALLOC_HIGHATOMIC|ALLOC_OOM)''], True)\<close>

definition highatomic_reserve_step3 :: step where
  \<open>highatomic_reserve_step3 =
   (''mm/page_alloc.c'',
    block
     [''	const bool alloc_harder = (alloc_flags & (ALLOC_HARDER|ALLOC_OOM));'',
      ''	long unusable_free = (1 << order) - 1;'',
      [],
      ''	/*'',
      ''	 * If the caller does not have rights to ALLOC_HARDER then subtract'',
      ''	 * the high-atomic reserves. This will over-estimate the size of the'',
      ''	 * atomic reserve but it avoids a search.'',
      ''	 */'',
      ''	if (likely(!alloc_harder))'',
      ''		unusable_free += z->nr_reserved_highatomic;''],
    block
     [''	long unusable_free = (1 << order) - 1;'',
      [],
      ''	/*'',
      ''	 * If the caller does not have rights to reserves below the min'',
      ''	 * watermark then subtract the high-atomic reserves. This will'',
      ''	 * over-estimate the size of the atomic reserve but it avoids a search.'',
      ''	 */'',
      ''	if (likely(!(alloc_flags & ALLOC_RESERVES)))'',
      ''		unusable_free += z->nr_reserved_highatomic;''], True)\<close>

definition highatomic_reserve_step4 :: step where
  \<open>highatomic_reserve_step4 =
   (''mm/page_alloc.c'',
    block
     [''	long min = mark;'',
      ''	int o;'',
      ''	const bool alloc_harder = (alloc_flags & (ALLOC_HARDER|ALLOC_OOM));'',
      [],
      ''	/* free_pages may go negative - that\'s OK */'',
      ''	free_pages -= __zone_watermark_unusable_free(z, order, alloc_flags);'',
      [],
      ''	if (alloc_flags & ALLOC_MIN_RESERVE)'',
      ''		min -= min / 2;'',
      [],
      ''	if (unlikely(alloc_harder)) {'',
      ''		/*'',
      ''		 * OOM victims can try even harder than normal ALLOC_HARDER'',
      ''		 * users on the grounds that it\'s definitely going to be in'',
      ''		 * the exit path shortly and free memory. Any allocation it'',
      ''		 * makes during the free path will be small and short-lived.'',
      ''		 */'',
      ''		if (alloc_flags & ALLOC_OOM)'',
      ''			min -= min / 2;'',
      ''		else'',
      ''			min -= min / 4;'',
      ''	}''],
    block
     [''	long min = mark;'',
      ''	int o;'',
      [],
      ''	/* free_pages may go negative - that\'s OK */'',
      ''	free_pages -= __zone_watermark_unusable_free(z, order, alloc_flags);'',
      [],
      ''	if (unlikely(alloc_flags & ALLOC_RESERVES)) {'',
      ''		/*'',
      ''		 * __GFP_HIGH allows access to 50% of the min reserve as well'',
      ''		 * as OOM.'',
      ''		 */'',
      ''		if (alloc_flags & ALLOC_MIN_RESERVE) {'',
      ''			min -= min / 2;'',
      [],
      ''			/*'',
      ''			 * Non-blocking allocations (e.g. GFP_ATOMIC) can'',
      ''			 * access more reserves than just __GFP_HIGH. Other'',
      ''			 * non-blocking allocations requests such as GFP_NOWAIT'',
      ''			 * or (GFP_KERNEL & ~__GFP_DIRECT_RECLAIM) do not get'',
      ''			 * access to the min reserve.'',
      ''			 */'',
      ''			if (alloc_flags & ALLOC_NON_BLOCK)'',
      ''				min -= min / 4;'',
      ''		}'',
      [],
      ''		/*'',
      ''		 * OOM victims can try even harder than the normal reserve'',
      ''		 * users on the grounds that it\'s definitely going to be in'',
      ''		 * the exit path shortly and free memory. Any allocation it'',
      ''		 * makes during the free path will be small and short-lived.'',
      ''		 */'',
      ''		if (alloc_flags & ALLOC_OOM)'',
      ''			min -= min / 2;'',
      ''	}''], True)\<close>

definition highatomic_reserve_step5 :: step where
  \<open>highatomic_reserve_step5 =
   (''mm/page_alloc.c'',
    block
     [''		if (alloc_harder && !free_area_empty(area, MIGRATE_HIGHATOMIC))'',
      ''			return true;'',
      ''	}''],
    block
     [''		if ((alloc_flags & (ALLOC_HIGHATOMIC|ALLOC_OOM)) &&'',
      ''		    !free_area_empty(area, MIGRATE_HIGHATOMIC)) {'',
      ''			return true;'',
      ''		}'',
      ''	}''], True)\<close>

definition highatomic_reserve_step6 :: step where
  \<open>highatomic_reserve_step6 =
   (''mm/page_alloc.c'',
    block
     [''			if (unlikely(order && (alloc_flags & ALLOC_HARDER)))'',
      ''				reserve_highatomic_pageblock(page, zone, order);''],
    block
     [''			if (unlikely(alloc_flags & ALLOC_HIGHATOMIC))'',
      ''				reserve_highatomic_pageblock(page, zone, order);''], True)\<close>

definition highatomic_reserve_step7 :: step where
  \<open>highatomic_reserve_step7 =
   (''mm/page_alloc.c'',
    block
     [''		if (order > 0 && alloc_flags & ALLOC_HARDER) {'',
      ''			page = __rmqueue_smallest(zone, order, MIGRATE_HIGHATOMIC);'',
      ''			if (page)'',
      ''				trace_mm_page_alloc_zone_locked(page, order, migratetype);'',
      ''		}''],
    block
     [''		if (alloc_flags & ALLOC_HIGHATOMIC) {'',
      ''			page = __rmqueue_smallest(zone, order, MIGRATE_HIGHATOMIC);'',
      ''			if (page)'',
      ''				trace_mm_page_alloc_zone_locked(page, order, migratetype);'',
      ''		}''], True)\<close>

definition highatomic_reserve_step8 :: step where
  \<open>highatomic_reserve_step8 =
   (''mm/page_alloc.c'',
    block
     [''			if (!page)'',
      ''				page = __rmqueue(zone, order, migratetype,'',
      ''						alloc_flags);'',
      ''		}''],
    block
     [''			if (!page) {'',
      ''				page = __rmqueue(zone, order, migratetype,'',
      ''						alloc_flags);'',
      [],
      ''				/*'',
      ''				 * If the allocation fails, allow OOM handling and'',
      ''				 * order-0 (atomic) allocs access to HIGHATOMIC'',
      ''				 * reserves as failing now is worse than failing a'',
      ''				 * high-order atomic allocation in the future.'',
      ''				 */'',
      ''				if (!page && (alloc_flags & (ALLOC_OOM|ALLOC_NON_BLOCK)))'',
      ''					page = __rmqueue_smallest(zone, order, MIGRATE_HIGHATOMIC);'',
      ''			}'',
      ''		}''], True)\<close>

definition highatomic_reserve_step9 :: step where
  \<open>highatomic_reserve_step9 =
   (''mm/page_alloc.c'',
    block
     [''gfp_to_alloc_flags(gfp_t gfp_mask)'',
      ''{'',
      ''	unsigned int alloc_flags = ALLOC_WMARK_MIN | ALLOC_CPUSET;''],
    block
     [''gfp_to_alloc_flags(gfp_t gfp_mask, unsigned int order)'',
      ''{'',
      ''	unsigned int alloc_flags = ALLOC_WMARK_MIN | ALLOC_CPUSET;''], True)\<close>

definition highatomic_reserve_step10 :: step where
  \<open>highatomic_reserve_step10 =
   (''mm/page_alloc.c'',
    ''	alloc_flags = gfp_to_alloc_flags(gfp_mask);'',
    ''	alloc_flags = gfp_to_alloc_flags(gfp_mask, order);'', True)\<close>

definition highatomic_reserve_step11 :: step where
  \<open>highatomic_reserve_step11 =
   (''mm/page_alloc.c'',
    block
     [''	 * policy or is asking for __GFP_HIGH memory.  GFP_ATOMIC requests will'',
      ''	 * set both ALLOC_HARDER (__GFP_ATOMIC) and ALLOC_MIN_RESERVE(__GFP_HIGH).'',
      ''	 */'',
      ''	alloc_flags |= (__force int)'',
      ''		(gfp_mask & (__GFP_HIGH | __GFP_KSWAPD_RECLAIM));'',
      [],
      ''	if (gfp_mask & __GFP_ATOMIC) {'',
      ''		/*'',
      ''		 * Not worth trying to allocate harder for __GFP_NOMEMALLOC even'',
      ''		 * if it can\'t schedule.'',
      ''		 */'',
      ''		if (!(gfp_mask & __GFP_NOMEMALLOC))'',
      ''			alloc_flags |= ALLOC_HARDER;'',
      ''		/*'',
      ''		 * Ignore cpuset mems for GFP_ATOMIC rather than fail, see the'',
      ''		 * comment for __cpuset_node_allowed().'',
      ''		 */'',
      ''		alloc_flags &= ~ALLOC_CPUSET;''],
    block
     [''	 * policy or is asking for __GFP_HIGH memory.  GFP_ATOMIC requests will'',
      ''	 * set both ALLOC_NON_BLOCK and ALLOC_MIN_RESERVE(__GFP_HIGH).'',
      ''	 */'',
      ''	alloc_flags |= (__force int)'',
      ''		(gfp_mask & (__GFP_HIGH | __GFP_KSWAPD_RECLAIM));'',
      [],
      ''	if (!(gfp_mask & __GFP_DIRECT_RECLAIM)) {'',
      ''		/*'',
      ''		 * Not worth trying to allocate harder for __GFP_NOMEMALLOC even'',
      ''		 * if it can\'t schedule.'',
      ''		 */'',
      ''		if (!(gfp_mask & __GFP_NOMEMALLOC)) {'',
      ''			alloc_flags |= ALLOC_NON_BLOCK;'',
      [],
      ''			if (order > 0 && (alloc_flags & ALLOC_MIN_RESERVE))'',
      ''				alloc_flags |= ALLOC_HIGHATOMIC;'',
      ''		}'',
      [],
      ''		/*'',
      ''		 * Ignore cpuset mems for non-blocking __GFP_HIGH (probably'',
      ''		 * GFP_ATOMIC) rather than fail, see the comment for'',
      ''		 * __cpuset_node_allowed().'',
      ''		 */'',
      ''		if (alloc_flags & ALLOC_MIN_RESERVE)'',
      ''			alloc_flags &= ~ALLOC_CPUSET;''], True)\<close>

definition highatomic_reserve_step12 :: step where
  \<open>highatomic_reserve_step12 =
   (''mm/page_alloc.c'',
    block
     [''		/*'',
      ''		 * Help non-failing allocations by giving them access to memory'',
      ''		 * reserves but do not use ALLOC_NO_WATERMARKS because this'',
      ''		 * could deplete whole memory reserves which would just make'',
      ''		 * the situation worse'',
      ''		 */'',
      ''		page = __alloc_pages_cpuset_fallback(gfp_mask, order, ALLOC_HARDER, ac);''],
    block
     [''		/*'',
      ''		 * Help non-failing allocations by giving some access to memory'',
      ''		 * reserves normally used for high priority non-blocking'',
      ''		 * allocations but do not use ALLOC_NO_WATERMARKS because this'',
      ''		 * could deplete whole memory reserves which would just make'',
      ''		 * the situation worse.'',
      ''		 */'',
      ''		page = __alloc_pages_cpuset_fallback(gfp_mask, order, ALLOC_MIN_RESERVE, ac);''], True)\<close>

definition highatomic_reserve_steps :: "step list" where
  \<open>highatomic_reserve_steps = [highatomic_reserve_step1, highatomic_reserve_step2, highatomic_reserve_step3, highatomic_reserve_step4, highatomic_reserve_step5, highatomic_reserve_step6, highatomic_reserve_step7, highatomic_reserve_step8, highatomic_reserve_step9, highatomic_reserve_step10, highatomic_reserve_step11, highatomic_reserve_step12]\<close>

definition highatomic_reserve_apply :: "outcome io" where
  \<open>highatomic_reserve_apply =
    apply_or_else highatomic_reserve_steps (\<lambda>d.
    io_bind (ctx_read ''mm/page_alloc.c'') (\<lambda>t.
    if contains ''enum rmqueue_mode rmqm = RMQUEUE_NORMAL'' t
       \<and> contains ''If the allocation fails, allow OOM handling'' t
    then io_ret (AlreadyPresent, ''superseded by pagealloc_fallback_reuse'')
    else io_ret (BlockedByShape, d)))\<close>

lemma highatomic_reserve_steps_files: "steps_files highatomic_reserve_steps = {''mm/internal.h'', ''mm/page_alloc.c''}"
  by (simp add: highatomic_reserve_steps_def steps_files_fst insert_commute
      step_file [OF highatomic_reserve_step1_def]
      step_file [OF highatomic_reserve_step2_def]
      step_file [OF highatomic_reserve_step3_def]
      step_file [OF highatomic_reserve_step4_def]
      step_file [OF highatomic_reserve_step5_def]
      step_file [OF highatomic_reserve_step6_def]
      step_file [OF highatomic_reserve_step7_def]
      step_file [OF highatomic_reserve_step8_def]
      step_file [OF highatomic_reserve_step9_def]
      step_file [OF highatomic_reserve_step10_def]
      step_file [OF highatomic_reserve_step11_def]
      step_file [OF highatomic_reserve_step12_def])

lemma highatomic_reserve_steps_required: "all_required highatomic_reserve_steps"
  by (simp add: highatomic_reserve_steps_def all_required_def
      step_req [OF highatomic_reserve_step1_def]
      step_req [OF highatomic_reserve_step2_def]
      step_req [OF highatomic_reserve_step3_def]
      step_req [OF highatomic_reserve_step4_def]
      step_req [OF highatomic_reserve_step5_def]
      step_req [OF highatomic_reserve_step6_def]
      step_req [OF highatomic_reserve_step7_def]
      step_req [OF highatomic_reserve_step8_def]
      step_req [OF highatomic_reserve_step9_def]
      step_req [OF highatomic_reserve_step10_def]
      step_req [OF highatomic_reserve_step11_def]
      step_req [OF highatomic_reserve_step12_def])

lemma highatomic_reserve_apply_txn: "transactional (\<lambda>_. {''mm/internal.h'', ''mm/page_alloc.c''}) highatomic_reserve_apply"
  unfolding highatomic_reserve_apply_def
  by (intro txn_intros safe_intros)
    (simp_all add: is_backup_code BACKUP_SUFFIX_def highatomic_reserve_steps_files)

definition thisnode_thp_old :: str where
  \<open>thisnode_thp_old = block
     [''			    compact_result == COMPACT_DEFERRED)'',
      ''				goto nopage;'',
      [],
      ''			/*'',
      ''			 * Looks like reclaim/compaction is worth trying, but'',
      []]\<close>

definition thisnode_thp_new :: str where
  \<open>thisnode_thp_new = block
     [''			    compact_result == COMPACT_DEFERRED)'',
      ''				goto nopage;'',
      [],
      ''			/*'',
      ''			 * THP page faults may attempt local node only first,'',
      ''			 * but are then allowed to only compact, not reclaim,'',
      ''			 * see alloc_pages_mpol().'',
      ''			 *'',
      ''			 * Compaction can fail for other reasons than those'',
      ''			 * checked above and we don\'t want such THP allocations'',
      ''			 * to put reclaim pressure on a single node in a'',
      ''			 * situation where other nodes might have plenty of'',
      ''			 * available memory.'',
      ''			 */'',
      ''			if (gfp_mask & __GFP_THISNODE)'',
      ''				goto nopage;'',
      [],
      ''			/*'',
      ''			 * Looks like reclaim/compaction is worth trying, but'',
      []]\<close>

definition thisnode_thp_step1 :: step where
  \<open>thisnode_thp_step1 =
   (''mm/page_alloc.c'',
    thisnode_thp_old,
    thisnode_thp_new, True)\<close>

definition thisnode_thp_steps :: "step list" where
  \<open>thisnode_thp_steps = [thisnode_thp_step1]\<close>

definition thisnode_thp_apply :: "outcome io" where
  \<open>thisnode_thp_apply =
    apply_or_block thisnode_thp_steps\<close>

lemma thisnode_thp_steps_files: "steps_files thisnode_thp_steps = {''mm/page_alloc.c''}"
  by (simp add: thisnode_thp_steps_def steps_files_fst insert_commute
      step_file [OF thisnode_thp_step1_def])

lemma thisnode_thp_steps_required: "all_required thisnode_thp_steps"
  by (simp add: thisnode_thp_steps_def all_required_def
      step_req [OF thisnode_thp_step1_def])

lemma thisnode_thp_apply_txn: "transactional (\<lambda>_. {''mm/page_alloc.c''}) thisnode_thp_apply"
  unfolding thisnode_thp_apply_def
  by (intro txn_intros safe_intros)
    (simp_all add: is_backup_code BACKUP_SUFFIX_def thisnode_thp_steps_files)

end
