(* ===== verification/Core_Cpuset_Cgroup.thy ===== *)
theory Core_Cpuset_Cgroup
  imports Registry_Laws
begin

text \<open>
  \<^verbatim>\<open>scripts/abk_stable_core.py\<close>, lines up to 921: the cpuset, pagelist and cgroup groups. Anchors, steps and
  group functions stand in source order under the source's names.
\<close>

definition cpuset_bailout_step1 :: step where
  \<open>cpuset_bailout_step1 =
   (''include/linux/cpuset.h'',
    block
     [''extern struct static_key_false cpusets_pre_enable_key;'',
      ''extern struct static_key_false cpusets_enabled_key;'',
      ''static inline bool cpusets_enabled(void)''],
    block
     [''extern struct static_key_false cpusets_pre_enable_key;'',
      ''extern struct static_key_false cpusets_enabled_key;'',
      ''extern struct static_key_false cpusets_insane_config_key;'',
      [],
      ''static inline bool cpusets_enabled(void)''], True)\<close>

definition cpuset_bailout_step2 :: step where
  \<open>cpuset_bailout_step2 =
   (''include/linux/cpuset.h'',
    block
     [''	static_branch_dec_cpuslocked(&cpusets_pre_enable_key);'',
      ''}'',
      [],
      ''extern int cpuset_init(void);''],
    block
     [''	static_branch_dec_cpuslocked(&cpusets_pre_enable_key);'',
      ''}'',
      [],
      ''/*'',
      '' * This will get enabled whenever a cpuset configuration is considered'',
      '' * unsupportable in general. E.g. movable only node which cannot satisfy'',
      '' * any non movable allocations (see update_nodemask). Page allocator'',
      '' * needs to make additional checks for those configurations and this'',
      '' * check is meant to guard those checks without any overhead for sane'',
      '' * configurations.'',
      '' */'',
      ''static inline bool cpusets_insane_config(void)'',
      ''{'',
      ''	return static_branch_unlikely(&cpusets_insane_config_key);'',
      ''}'',
      [],
      ''extern int cpuset_init(void);''], True)\<close>

definition cpuset_bailout_step3 :: step where
  \<open>cpuset_bailout_step3 =
   (''include/linux/cpuset.h'',
    block
     [''static inline bool cpusets_enabled(void) { return false; }'',
      [],
      ''static inline int cpuset_init(void) { return 0; }''],
    block
     [''static inline bool cpusets_enabled(void) { return false; }'',
      [],
      ''static inline bool cpusets_insane_config(void) { return false; }'',
      [],
      ''static inline int cpuset_init(void) { return 0; }''], True)\<close>

definition cpuset_bailout_step4 :: step where
  \<open>cpuset_bailout_step4 =
   (''include/linux/mmzone.h'',
    block
     [(''#define for_each_zone_zonelist(zone, z, zlist, highidx) '' @ [BSL]),
      ''	for_each_zone_zonelist_nodemask(zone, z, zlist, highidx, NULL)'',
      [],
      ''#ifdef CONFIG_SPARSEMEM''],
    block
     [(''#define for_each_zone_zonelist(zone, z, zlist, highidx) '' @ [BSL]),
      ''	for_each_zone_zonelist_nodemask(zone, z, zlist, highidx, NULL)'',
      [],
      ''/* Whether the \'nodes\' are all movable nodes */'',
      ''static inline bool movable_only_nodes(nodemask_t *nodes)'',
      ''{'',
      ''	struct zonelist *zonelist;'',
      ''	struct zoneref *z;'',
      ''	int nid;'',
      [],
      ''	if (nodes_empty(*nodes))'',
      ''		return false;'',
      [],
      ''	/*'',
      ''	 * We can chose arbitrary node from the nodemask to get a'',
      ''	 * zonelist as they are interlinked. We just need to find'',
      ''	 * at least one zone that can satisfy kernel allocations.'',
      ''	 */'',
      ''	nid = first_node(*nodes);'',
      ''	zonelist = &NODE_DATA(nid)->node_zonelists[ZONELIST_FALLBACK];'',
      ''	z = first_zones_zonelist(zonelist, ZONE_NORMAL,	nodes);'',
      ''	return (!z->zone) ? true : false;'',
      ''}'',
      [],
      [],
      ''#ifdef CONFIG_SPARSEMEM''], True)\<close>

definition cpuset_bailout_step5 :: step where
  \<open>cpuset_bailout_step5 =
   (''kernel/cgroup/cpuset.c'',
    block
     [''DEFINE_STATIC_KEY_FALSE(cpusets_pre_enable_key);'',
      ''DEFINE_STATIC_KEY_FALSE(cpusets_enabled_key);'',
      [],
      ''/* See "Frequency meter" comments, below. */''],
    block
     [''DEFINE_STATIC_KEY_FALSE(cpusets_pre_enable_key);'',
      ''DEFINE_STATIC_KEY_FALSE(cpusets_enabled_key);'',
      [],
      ''/*'',
      '' * There could be abnormal cpuset configurations for cpu or memory'',
      '' * node binding, add this key to provide a quick low-cost judgement'',
      '' * of the situation.'',
      '' */'',
      ''DEFINE_STATIC_KEY_FALSE(cpusets_insane_config_key);'',
      [],
      ''/* See "Frequency meter" comments, below. */''], True)\<close>

definition cpuset_bailout_step6 :: step where
  \<open>cpuset_bailout_step6 =
   (''kernel/cgroup/cpuset.c'',
    block
     [''static DECLARE_WAIT_QUEUE_HEAD(cpuset_attach_wq);'',
      [],
      ''/*'',
      '' * Cgroup v2 behavior is used on the "cpus" and "mems" control files when''],
    block
     [''static DECLARE_WAIT_QUEUE_HEAD(cpuset_attach_wq);'',
      [],
      ''static inline void check_insane_mems_config(nodemask_t *nodes)'',
      ''{'',
      ''	if (!cpusets_insane_config() &&'',
      ''		movable_only_nodes(nodes)) {'',
      ''		static_branch_enable_cpuslocked(&cpusets_insane_config_key);'',
      (''		pr_info("Unsupported (movable nodes only) cpuset configuration detected (nmask=%*pbl)!'' @ [BSL] @ ''n"''),
      (''			"Cpuset allocations might fail even with a lot of memory available.'' @ [BSL] @ ''n",''),
      ''			nodemask_pr_args(nodes));'',
      ''	}'',
      ''}'',
      [],
      ''/*'',
      '' * Cgroup v2 behavior is used on the "cpus" and "mems" control files when''], True)\<close>

definition cpuset_bailout_step7 :: step where
  \<open>cpuset_bailout_step7 =
   (''kernel/cgroup/cpuset.c'',
    block
     [''	if (retval < 0)'',
      ''		goto done;'',
      [],
      ''	spin_lock_irq(&callback_lock);'',
      ''	cs->mems_allowed = trialcs->mems_allowed;''],
    block
     [''	if (retval < 0)'',
      ''		goto done;'',
      [],
      ''	check_insane_mems_config(&trialcs->mems_allowed);'',
      [],
      ''	spin_lock_irq(&callback_lock);'',
      ''	cs->mems_allowed = trialcs->mems_allowed;''], True)\<close>

definition cpuset_bailout_step8 :: step where
  \<open>cpuset_bailout_step8 =
   (''kernel/cgroup/cpuset.c'',
    block
     [''	mems_updated = !nodes_equal(new_mems, cs->effective_mems);'',
      [],
      ''	if (is_in_v2_mode())''],
    block
     [''	mems_updated = !nodes_equal(new_mems, cs->effective_mems);'',
      [],
      ''	if (mems_updated)'',
      ''		check_insane_mems_config(&new_mems);'',
      [],
      ''	if (is_in_v2_mode())''], True)\<close>

definition cpuset_bailout_step9 :: step where
  \<open>cpuset_bailout_step9 =
   (''mm/page_alloc.c'',
    block
     [''	if (!ac->preferred_zoneref->zone)'',
      ''		goto nopage;'',
      [],
      ''	if (alloc_flags & ALLOC_KSWAPD)'',
      ''		wake_all_kswapds(order, gfp_mask, ac);''],
    block
     [''	if (!ac->preferred_zoneref->zone)'',
      ''		goto nopage;'',
      [],
      ''	/*'',
      ''	 * Check for insane configurations where the cpuset doesn\'t contain'',
      ''	 * any suitable zone to satisfy the request - e.g. non-movable'',
      ''	 * GFP_HIGHUSER allocations from MOVABLE nodes only.'',
      ''	 */'',
      ''	if (cpusets_insane_config() && (gfp_mask & __GFP_HARDWALL)) {'',
      ''		struct zoneref *z = first_zones_zonelist(ac->zonelist,'',
      ''					ac->highest_zoneidx,'',
      ''					&cpuset_current_mems_allowed);'',
      ''		if (!z->zone)'',
      ''			goto nopage;'',
      ''	}'',
      [],
      ''	if (alloc_flags & ALLOC_KSWAPD)'',
      ''		wake_all_kswapds(order, gfp_mask, ac);''], True)\<close>

definition cpuset_bailout_steps :: "step list" where
  \<open>cpuset_bailout_steps = [cpuset_bailout_step1, cpuset_bailout_step2, cpuset_bailout_step3, cpuset_bailout_step4, cpuset_bailout_step5, cpuset_bailout_step6, cpuset_bailout_step7, cpuset_bailout_step8, cpuset_bailout_step9]\<close>

definition cpuset_bailout_apply :: "outcome io" where
  \<open>cpuset_bailout_apply =
    apply_or_block cpuset_bailout_steps\<close>

lemma cpuset_bailout_steps_files: "steps_files cpuset_bailout_steps = {''include/linux/cpuset.h'', ''include/linux/mmzone.h'', ''kernel/cgroup/cpuset.c'', ''mm/page_alloc.c''}"
  by (simp add: cpuset_bailout_steps_def steps_files_fst insert_commute
      step_file [OF cpuset_bailout_step1_def]
      step_file [OF cpuset_bailout_step2_def]
      step_file [OF cpuset_bailout_step3_def]
      step_file [OF cpuset_bailout_step4_def]
      step_file [OF cpuset_bailout_step5_def]
      step_file [OF cpuset_bailout_step6_def]
      step_file [OF cpuset_bailout_step7_def]
      step_file [OF cpuset_bailout_step8_def]
      step_file [OF cpuset_bailout_step9_def])

lemma cpuset_bailout_steps_required: "all_required cpuset_bailout_steps"
  by (simp add: cpuset_bailout_steps_def all_required_def
      step_req [OF cpuset_bailout_step1_def]
      step_req [OF cpuset_bailout_step2_def]
      step_req [OF cpuset_bailout_step3_def]
      step_req [OF cpuset_bailout_step4_def]
      step_req [OF cpuset_bailout_step5_def]
      step_req [OF cpuset_bailout_step6_def]
      step_req [OF cpuset_bailout_step7_def]
      step_req [OF cpuset_bailout_step8_def]
      step_req [OF cpuset_bailout_step9_def])

lemma cpuset_bailout_apply_txn: "transactional (\<lambda>_. {''include/linux/cpuset.h'', ''include/linux/mmzone.h'', ''kernel/cgroup/cpuset.c'', ''mm/page_alloc.c''}) cpuset_bailout_apply"
  unfolding cpuset_bailout_apply_def
  by (intro txn_intros safe_intros)
    (simp_all add: is_backup_code BACKUP_SUFFIX_def cpuset_bailout_steps_files)

definition pagelist_lockfree_old :: str where
  \<open>pagelist_lockfree_old = block
     [''	int old_percpu_pagelist_high_fraction;'',
      ''	int ret;'',
      [],
      ''	mutex_lock(&pcp_batch_high_lock);'',
      ''	old_percpu_pagelist_high_fraction = percpu_pagelist_high_fraction;'',
      [],
      ''	ret = proc_dointvec_minmax(table, write, buffer, length, ppos);'',
      ''	if (!write || ret < 0)'',
      ''		goto out;'',
      [],
      ''	/* Sanity checking to avoid pcp imbalance */'',
      []]\<close>

definition pagelist_lockfree_new :: str where
  \<open>pagelist_lockfree_new = block
     [''	int old_percpu_pagelist_high_fraction;'',
      ''	int ret;'',
      [],
      ''	/*'',
      ''	 * Avoid using pcp_batch_high_lock for reads as the value is read'',
      ''	 * atomically and a race with offlining is harmless.'',
      ''	 */'',
      [],
      ''	if (!write)'',
      ''		return proc_dointvec_minmax(table, write, buffer, length, ppos);'',
      [],
      ''	mutex_lock(&pcp_batch_high_lock);'',
      ''	old_percpu_pagelist_high_fraction = percpu_pagelist_high_fraction;'',
      [],
      ''	ret = proc_dointvec_minmax(table, write, buffer, length, ppos);'',
      ''	if (ret < 0)'',
      ''		goto out;'',
      [],
      ''	/* Sanity checking to avoid pcp imbalance */'',
      []]\<close>

definition pagelist_lockfree_step1 :: step where
  \<open>pagelist_lockfree_step1 =
   (''mm/page_alloc.c'',
    pagelist_lockfree_old,
    pagelist_lockfree_new, True)\<close>

definition pagelist_lockfree_steps :: "step list" where
  \<open>pagelist_lockfree_steps = [pagelist_lockfree_step1]\<close>

definition pagelist_lockfree_apply :: "outcome io" where
  \<open>pagelist_lockfree_apply =
    apply_or_block pagelist_lockfree_steps\<close>

lemma pagelist_lockfree_steps_files: "steps_files pagelist_lockfree_steps = {''mm/page_alloc.c''}"
  by (simp add: pagelist_lockfree_steps_def steps_files_fst insert_commute
      step_file [OF pagelist_lockfree_step1_def])

lemma pagelist_lockfree_steps_required: "all_required pagelist_lockfree_steps"
  by (simp add: pagelist_lockfree_steps_def all_required_def
      step_req [OF pagelist_lockfree_step1_def])

lemma pagelist_lockfree_apply_txn: "transactional (\<lambda>_. {''mm/page_alloc.c''}) pagelist_lockfree_apply"
  unfolding pagelist_lockfree_apply_def
  by (intro txn_intros safe_intros)
    (simp_all add: is_backup_code BACKUP_SUFFIX_def pagelist_lockfree_steps_files)

definition cgroup_rcu_step1 :: step where
  \<open>cgroup_rcu_step1 =
   (''include/linux/cgroup-defs.h'',
    block
     [[],
      ''	/* A list running through the active hierarchies */'',
      ''	struct list_head root_list;'',
      [],
      ''	/* Hierarchy-specific flags */''],
    block
     [[],
      ''	/* A list running through the active hierarchies */'',
      ''	struct list_head root_list;'',
      ''	struct rcu_head rcu;'',
      [],
      ''	/* Hierarchy-specific flags */''], True)\<close>

definition cgroup_rcu_step2 :: step where
  \<open>cgroup_rcu_step2 =
   (''kernel/cgroup/cgroup-internal.h'',
    block
     [(''#define for_each_root(root)						'' @ [BSL]),
      ''	list_for_each_entry((root), &cgroup_roots, root_list)''],
    block
     [(''#define for_each_root(root)						'' @ [BSL]),
      (''	list_for_each_entry_rcu((root), &cgroup_roots, root_list,	'' @ [BSL]),
      ''				lockdep_is_held(&cgroup_mutex))''], True)\<close>

definition cgroup_rcu_step3 :: step where
  \<open>cgroup_rcu_step3 =
   (''kernel/cgroup/cgroup.c'',
    block
     [''void cgroup_free_root(struct cgroup_root *root)'',
      ''{'',
      ''	kfree(root);'',
      ''}''],
    block
     [''void cgroup_free_root(struct cgroup_root *root)'',
      ''{'',
      ''	kfree_rcu(root, rcu);'',
      ''}''], True)\<close>

definition cgroup_rcu_step4 :: step where
  \<open>cgroup_rcu_step4 =
   (''kernel/cgroup/cgroup.c'',
    block
     [''	if (!list_empty(&root->root_list)) {'',
      ''		list_del(&root->root_list);'',
      ''		cgroup_root_count--;'',
      ''	}''],
    block
     [''	if (!list_empty(&root->root_list)) {'',
      ''		list_del_rcu(&root->root_list);'',
      ''		cgroup_root_count--;'',
      ''	}''], True)\<close>

definition cgroup_rcu_step5 :: step where
  \<open>cgroup_rcu_step5 =
   (''kernel/cgroup/cgroup.c'',
    block
     [''	}'',
      ''	rcu_read_unlock();'',
      [],
      ''	BUG_ON(!res);'',
      ''	return res;'',
      ''}''],
    block
     [''	}'',
      ''	rcu_read_unlock();'',
      [],
      ''	return res;'',
      ''}''], True)\<close>

definition cgroup_rcu_step6 :: step where
  \<open>cgroup_rcu_step6 =
   (''kernel/cgroup/cgroup.c'',
    block
     [''	struct cgroup *res = NULL;'',
      [],
      ''	lockdep_assert_held(&cgroup_mutex);'',
      ''	lockdep_assert_held(&css_set_lock);''],
    block
     [''	struct cgroup *res = NULL;'',
      [],
      ''	lockdep_assert_held(&css_set_lock);''], True)\<close>

definition cgroup_rcu_step7 :: step where
  \<open>cgroup_rcu_step7 =
   (''kernel/cgroup/cgroup.c'',
    block
     [''/*'',
      '' * Return the cgroup for "task" from the given hierarchy. Must be'',
      '' * called with cgroup_mutex and css_set_lock held.'',
      '' */''],
    block
     [''/*'',
      '' * Return the cgroup for "task" from the given hierarchy. Must be'',
      '' * called with css_set_lock held to prevent task\'s groups from being modified.'',
      '' * Must be called with either cgroup_mutex or rcu read lock to prevent the'',
      '' * cgroup root from being destroyed.'',
      '' */''], True)\<close>

definition cgroup_rcu_step8 :: step where
  \<open>cgroup_rcu_step8 =
   (''kernel/cgroup/cgroup.c'',
    block
     [''	INIT_LIST_HEAD(&root->root_list);'',
      ''	atomic_set(&root->nr_cgrps, 1);''],
    block
     [''	INIT_LIST_HEAD_RCU(&root->root_list);'',
      ''	atomic_set(&root->nr_cgrps, 1);''], True)\<close>

definition cgroup_rcu_step9 :: step where
  \<open>cgroup_rcu_step9 =
   (''kernel/cgroup/cgroup.c'',
    block
     [''	list_add(&root->root_list, &cgroup_roots);'',
      ''	cgroup_root_count++;''],
    block
     [''	list_add_rcu(&root->root_list, &cgroup_roots);'',
      ''	cgroup_root_count++;''], True)\<close>

definition cgroup_rcu_steps :: "step list" where
  \<open>cgroup_rcu_steps = [cgroup_rcu_step1, cgroup_rcu_step2, cgroup_rcu_step3, cgroup_rcu_step4, cgroup_rcu_step5, cgroup_rcu_step6, cgroup_rcu_step7, cgroup_rcu_step8, cgroup_rcu_step9]\<close>

definition cgroup_rcu_apply :: "outcome io" where
  \<open>cgroup_rcu_apply =
    apply_or_block cgroup_rcu_steps\<close>

lemma cgroup_rcu_steps_files: "steps_files cgroup_rcu_steps = {''include/linux/cgroup-defs.h'', ''kernel/cgroup/cgroup-internal.h'', ''kernel/cgroup/cgroup.c''}"
  by (simp add: cgroup_rcu_steps_def steps_files_fst insert_commute
      step_file [OF cgroup_rcu_step1_def]
      step_file [OF cgroup_rcu_step2_def]
      step_file [OF cgroup_rcu_step3_def]
      step_file [OF cgroup_rcu_step4_def]
      step_file [OF cgroup_rcu_step5_def]
      step_file [OF cgroup_rcu_step6_def]
      step_file [OF cgroup_rcu_step7_def]
      step_file [OF cgroup_rcu_step8_def]
      step_file [OF cgroup_rcu_step9_def])

lemma cgroup_rcu_steps_required: "all_required cgroup_rcu_steps"
  by (simp add: cgroup_rcu_steps_def all_required_def
      step_req [OF cgroup_rcu_step1_def]
      step_req [OF cgroup_rcu_step2_def]
      step_req [OF cgroup_rcu_step3_def]
      step_req [OF cgroup_rcu_step4_def]
      step_req [OF cgroup_rcu_step5_def]
      step_req [OF cgroup_rcu_step6_def]
      step_req [OF cgroup_rcu_step7_def]
      step_req [OF cgroup_rcu_step8_def]
      step_req [OF cgroup_rcu_step9_def])

lemma cgroup_rcu_apply_txn: "transactional (\<lambda>_. {''include/linux/cgroup-defs.h'', ''kernel/cgroup/cgroup-internal.h'', ''kernel/cgroup/cgroup.c''}) cgroup_rcu_apply"
  unfolding cgroup_rcu_apply_def
  by (intro txn_intros safe_intros)
    (simp_all add: is_backup_code BACKUP_SUFFIX_def cgroup_rcu_steps_files)

definition cgroup_wq_split_step1 :: step where
  \<open>cgroup_wq_split_step1 =
   (''kernel/cgroup/cgroup.c'',
    block
     ['' * of concurrent destructions.  Use a separate workqueue so that cgroup'',
      '' * destruction work items don\'t end up filling up max_active of system_wq'',
      '' * which may lead to deadlock.'',
      '' */'',
      ''static struct workqueue_struct *cgroup_destroy_wq;''],
    block
     ['' * of concurrent destructions.  Use a separate workqueue so that cgroup'',
      '' * destruction work items don\'t end up filling up max_active of system_wq'',
      '' * which may lead to deadlock.'',
      '' *'',
      '' * A cgroup destruction should enqueue work sequentially to:'',
      '' * cgroup_offline_wq: use for css offline work'',
      '' * cgroup_release_wq: use for css release work'',
      '' * cgroup_free_wq: use for free work'',
      '' *'',
      '' * Rationale for using separate workqueues:'',
      '' * The cgroup root free work may depend on completion of other css offline'',
      '' * operations. If all tasks were enqueued to a single workqueue, this could'',
      '' * create a deadlock scenario where:'',
      '' * - Free work waits for other css offline work to complete.'',
      '' * - But other css offline work is queued after free work in the same queue.'',
      '' *'',
      '' * Example deadlock scenario with single workqueue (cgroup_destroy_wq):'',
      '' * 1. umount net_prio'',
      '' * 2. net_prio root destruction enqueues work to cgroup_destroy_wq (CPUx)'',
      '' * 3. perf_event CSS A offline enqueues work to same cgroup_destroy_wq (CPUx)'',
      '' * 4. net_prio cgroup_destroy_root->cgroup_lock_and_drain_offline.'',
      '' * 5. net_prio root destruction blocks waiting for perf_event CSS A offline,'',
      '' *    which can never complete as it\'s behind in the same queue and'',
      '' *    workqueue\'s max_active is 1.'',
      '' */'',
      ''static struct workqueue_struct *cgroup_offline_wq;'',
      ''static struct workqueue_struct *cgroup_release_wq;'',
      ''static struct workqueue_struct *cgroup_free_wq;''], True)\<close>

definition cgroup_wq_split_step2 :: step where
  \<open>cgroup_wq_split_step2 =
   (''kernel/cgroup/cgroup.c'',
    block
     [''	INIT_RCU_WORK(&css->destroy_rwork, css_free_rwork_fn);'',
      ''	queue_rcu_work(cgroup_destroy_wq, &css->destroy_rwork);'',
      ''}'',
      [],
      ''static void css_release(struct percpu_ref *ref)''],
    block
     [''	INIT_RCU_WORK(&css->destroy_rwork, css_free_rwork_fn);'',
      ''	queue_rcu_work(cgroup_free_wq, &css->destroy_rwork);'',
      ''}'',
      [],
      ''static void css_release(struct percpu_ref *ref)''], True)\<close>

definition cgroup_wq_split_step3 :: step where
  \<open>cgroup_wq_split_step3 =
   (''kernel/cgroup/cgroup.c'',
    block
     [''	INIT_WORK(&css->destroy_work, css_release_work_fn);'',
      ''	queue_work(cgroup_destroy_wq, &css->destroy_work);'',
      ''}'',
      [],
      ''static void init_and_link_css(struct cgroup_subsys_state *css,''],
    block
     [''	INIT_WORK(&css->destroy_work, css_release_work_fn);'',
      ''	queue_work(cgroup_release_wq, &css->destroy_work);'',
      ''}'',
      [],
      ''static void init_and_link_css(struct cgroup_subsys_state *css,''], True)\<close>

definition cgroup_wq_split_step4 :: step where
  \<open>cgroup_wq_split_step4 =
   (''kernel/cgroup/cgroup.c'',
    block
     [''	list_del_rcu(&css->rstat_css_node);'',
      ''	INIT_RCU_WORK(&css->destroy_rwork, css_free_rwork_fn);'',
      ''	queue_rcu_work(cgroup_destroy_wq, &css->destroy_rwork);'',
      ''	return ERR_PTR(err);''],
    block
     [''	list_del_rcu(&css->rstat_css_node);'',
      ''	INIT_RCU_WORK(&css->destroy_rwork, css_free_rwork_fn);'',
      ''	queue_rcu_work(cgroup_free_wq, &css->destroy_rwork);'',
      ''	return ERR_PTR(err);''], True)\<close>

definition cgroup_wq_split_step5 :: step where
  \<open>cgroup_wq_split_step5 =
   (''kernel/cgroup/cgroup.c'',
    block
     [''		INIT_WORK(&css->destroy_work, css_killed_work_fn);'',
      ''		queue_work(cgroup_destroy_wq, &css->destroy_work);''],
    block
     [''		INIT_WORK(&css->destroy_work, css_killed_work_fn);'',
      ''		queue_work(cgroup_offline_wq, &css->destroy_work);''], True)\<close>

definition cgroup_wq_split_step6 :: step where
  \<open>cgroup_wq_split_step6 =
   (''kernel/cgroup/cgroup.c'',
    block
     [''	cgroup_destroy_wq = alloc_workqueue("cgroup_destroy", 0, 1);'',
      ''	BUG_ON(!cgroup_destroy_wq);'',
      ''	return 0;'',
      ''}'',
      ''core_initcall(cgroup_wq_init);''],
    block
     [''	cgroup_offline_wq = alloc_workqueue("cgroup_offline", 0, 1);'',
      ''	BUG_ON(!cgroup_offline_wq);'',
      [],
      ''	cgroup_release_wq = alloc_workqueue("cgroup_release", 0, 1);'',
      ''	BUG_ON(!cgroup_release_wq);'',
      [],
      ''	cgroup_free_wq = alloc_workqueue("cgroup_free", 0, 1);'',
      ''	BUG_ON(!cgroup_free_wq);'',
      ''	return 0;'',
      ''}'',
      ''core_initcall(cgroup_wq_init);''], True)\<close>

definition cgroup_wq_split_steps :: "step list" where
  \<open>cgroup_wq_split_steps = [cgroup_wq_split_step1, cgroup_wq_split_step2, cgroup_wq_split_step3, cgroup_wq_split_step4, cgroup_wq_split_step5, cgroup_wq_split_step6]\<close>

definition cgroup_wq_split_apply :: "outcome io" where
  \<open>cgroup_wq_split_apply =
    apply_or_block cgroup_wq_split_steps\<close>

lemma cgroup_wq_split_steps_files: "steps_files cgroup_wq_split_steps = {''kernel/cgroup/cgroup.c''}"
  by (simp add: cgroup_wq_split_steps_def steps_files_fst insert_commute
      step_file [OF cgroup_wq_split_step1_def]
      step_file [OF cgroup_wq_split_step2_def]
      step_file [OF cgroup_wq_split_step3_def]
      step_file [OF cgroup_wq_split_step4_def]
      step_file [OF cgroup_wq_split_step5_def]
      step_file [OF cgroup_wq_split_step6_def])

lemma cgroup_wq_split_steps_required: "all_required cgroup_wq_split_steps"
  by (simp add: cgroup_wq_split_steps_def all_required_def
      step_req [OF cgroup_wq_split_step1_def]
      step_req [OF cgroup_wq_split_step2_def]
      step_req [OF cgroup_wq_split_step3_def]
      step_req [OF cgroup_wq_split_step4_def]
      step_req [OF cgroup_wq_split_step5_def]
      step_req [OF cgroup_wq_split_step6_def])

lemma cgroup_wq_split_apply_txn: "transactional (\<lambda>_. {''kernel/cgroup/cgroup.c''}) cgroup_wq_split_apply"
  unfolding cgroup_wq_split_apply_def
  by (intro txn_intros safe_intros)
    (simp_all add: is_backup_code BACKUP_SUFFIX_def cgroup_wq_split_steps_files)

end
