(* ===== verification/Batch37_Reclaim_Paths.thy ===== *)
theory Batch37_Reclaim_Paths
  imports Registry_Laws
begin

text \<open>
  The anchors, steps and groups of \<^verbatim>\<open>scripts/batch37_core_reclaim_paths.py\<close>, in source order.
\<close>

definition b37_MEMCONTROL_C :: str where
  \<open>b37_MEMCONTROL_C = ''mm/memcontrol.c''\<close>

definition b37_VMSCAN_C :: str where
  \<open>b37_VMSCAN_C = ''mm/vmscan.c''\<close>

definition b37_SWAP_H :: str where
  \<open>b37_SWAP_H = ''include/linux/swap.h''\<close>

definition b37_CGROUP_V2_RST :: str where
  \<open>b37_CGROUP_V2_RST = ''Documentation/admin-guide/cgroup-v2.rst''\<close>

definition b37_SWAP_C :: str where
  \<open>b37_SWAP_C = ''mm/swap.c''\<close>

definition b37_DECAYING_BATCH_DECL :: str where
  \<open>b37_DECAYING_BATCH_DECL = ''unsigned long batch_size = (nr_to_reclaim - nr_reclaimed) / 4;''\<close>

definition b37_SWAP_CLUSTER_BATCH :: str where
  \<open>b37_SWAP_CLUSTER_BATCH = ''min(nr_to_reclaim - nr_reclaimed, SWAP_CLUSTER_MAX),''\<close>

definition b37_SWAPPINESS_ARG :: str where
  \<open>b37_SWAPPINESS_ARG = ''swappiness == -1 ? NULL : &swappiness''\<close>

definition b37_SUSPEND_ABORT_GUARD :: str where
  \<open>b37_SUSPEND_ABORT_GUARD = ''if (unlikely(sc->proactive && signal_pending(current)))''\<close>

definition b37_SUSPEND_ABORT_ERRNO :: str where
  \<open>b37_SUSPEND_ABORT_ERRNO = ''return -ERESTARTSYS;''\<close>

definition b37_DEAD_PAGE_FILTER :: str where
  \<open>b37_DEAD_PAGE_FILTER = ''if (page_ref_freeze(page, 1)) {''\<close>

definition b37_CALL_OLD :: str where
  \<open>b37_CALL_OLD = block
     [''		reclaimed = try_to_free_mem_cgroup_pages(memcg,'',
      ''						nr_to_reclaim - nr_reclaimed,'',
      ''						GFP_KERNEL, reclaim_options);'',
      []]\<close>

definition b37_MEMORY_RECLAIM_MARKER :: str where
  \<open>b37_MEMORY_RECLAIM_MARKER = ''/* ABK stable_515_backport: per-memcg proactive reclaim (android14-6.1 memory.reclaim). */''\<close>

definition b37_C1_NEW :: str where
  \<open>b37_C1_NEW = block
     [''		reclaimed = try_to_free_mem_cgroup_pages(memcg,'',
      ''					min(nr_to_reclaim - nr_reclaimed, SWAP_CLUSTER_MAX),'',
      ''					GFP_KERNEL, reclaim_options);'',
      []]\<close>

definition b37_build_steps_batch_fidelity_step1 :: step where
  \<open>b37_build_steps_batch_fidelity_step1 =
   (b37_MEMCONTROL_C,
    b37_CALL_OLD,
    b37_C1_NEW, True)\<close>

definition b37_build_steps_batch_fidelity :: "step list" where
  \<open>b37_build_steps_batch_fidelity = [b37_build_steps_batch_fidelity_step1]\<close>

lemma b37_build_steps_batch_fidelity_files: "steps_files b37_build_steps_batch_fidelity = {b37_MEMCONTROL_C}"
  by (simp add: b37_build_steps_batch_fidelity_def steps_files_fst insert_commute
      step_file [OF b37_build_steps_batch_fidelity_step1_def])

lemma b37_build_steps_batch_fidelity_required: "all_required b37_build_steps_batch_fidelity"
  by (simp add: b37_build_steps_batch_fidelity_def all_required_def
      step_req [OF b37_build_steps_batch_fidelity_step1_def])

definition b37_batch_fidelity_apply :: "outcome io" where
  \<open>b37_batch_fidelity_apply =
    io_try is_fnf (ctx_read b37_MEMCONTROL_C)
      (\<lambda>e. io_ret (BlockedByShape, b37_MEMCONTROL_C @
      '': file absent''))
      (\<lambda>text.
    if contains b37_SWAP_CLUSTER_BATCH text \<or> contains b37_DECAYING_BATCH_DECL text
    then io_ret (AlreadyPresent, ''the proactive-reclaim batch is already capped and decaying'')
    else
    apply_or_block b37_build_steps_batch_fidelity)\<close>

lemma b37_batch_fidelity_apply_txn: "transactional (\<lambda>_. {b37_MEMCONTROL_C}) b37_batch_fidelity_apply"
  unfolding b37_batch_fidelity_apply_def
  by (intro txn_intros safe_intros)
    (simp_all add: is_backup_code BACKUP_SUFFIX_def b37_build_steps_batch_fidelity_files b37_MEMCONTROL_C_def)

definition b37_BATCH_DECL_OLD :: str where
  \<open>b37_BATCH_DECL_OLD = block
     [''	reclaim_options	= MEMCG_RECLAIM_MAY_SWAP | MEMCG_RECLAIM_PROACTIVE;'',
      ''	while (nr_reclaimed < nr_to_reclaim) {'',
      ''		unsigned long reclaimed;'',
      []]\<close>

definition b37_BATCH_DECL_NEW :: str where
  \<open>b37_BATCH_DECL_NEW = block
     [''	reclaim_options	= MEMCG_RECLAIM_MAY_SWAP | MEMCG_RECLAIM_PROACTIVE;'',
      ''	while (nr_reclaimed < nr_to_reclaim) {'',
      ''		/* Will converge on zero, but reclaim enforces a minimum */'',
      ''		unsigned long batch_size = (nr_to_reclaim - nr_reclaimed) / 4;'',
      ''		unsigned long reclaimed;'',
      []]\<close>

definition b37_C2_CALL_OLD :: str where
  \<open>b37_C2_CALL_OLD = block
     [''		reclaimed = try_to_free_mem_cgroup_pages(memcg,'',
      ''					min(nr_to_reclaim - nr_reclaimed, SWAP_CLUSTER_MAX),'',
      ''					GFP_KERNEL, reclaim_options);'',
      []]\<close>

definition b37_C2_CALL_NEW :: str where
  \<open>b37_C2_CALL_NEW = block
     [''		reclaimed = try_to_free_mem_cgroup_pages(memcg,'',
      ''					batch_size, GFP_KERNEL, reclaim_options);'',
      []]\<close>

definition b37_build_steps_decaying_batches_step1 :: step where
  \<open>b37_build_steps_decaying_batches_step1 =
   (b37_MEMCONTROL_C,
    b37_BATCH_DECL_OLD,
    b37_BATCH_DECL_NEW, True)\<close>

definition b37_build_steps_decaying_batches_step2 :: step where
  \<open>b37_build_steps_decaying_batches_step2 =
   (b37_MEMCONTROL_C,
    b37_C2_CALL_OLD,
    b37_C2_CALL_NEW, True)\<close>

definition b37_build_steps_decaying_batches :: "step list" where
  \<open>b37_build_steps_decaying_batches = [b37_build_steps_decaying_batches_step1, b37_build_steps_decaying_batches_step2]\<close>

lemma b37_build_steps_decaying_batches_files: "steps_files b37_build_steps_decaying_batches = {b37_MEMCONTROL_C}"
  by (simp add: b37_build_steps_decaying_batches_def steps_files_fst insert_commute
      step_file [OF b37_build_steps_decaying_batches_step1_def]
      step_file [OF b37_build_steps_decaying_batches_step2_def])

lemma b37_build_steps_decaying_batches_required: "all_required b37_build_steps_decaying_batches"
  by (simp add: b37_build_steps_decaying_batches_def all_required_def
      step_req [OF b37_build_steps_decaying_batches_step1_def]
      step_req [OF b37_build_steps_decaying_batches_step2_def])

definition b37_decaying_batches_apply :: "outcome io" where
  \<open>b37_decaying_batches_apply =
    io_try is_fnf (ctx_read b37_MEMCONTROL_C)
      (\<lambda>e. io_ret (BlockedByShape, b37_MEMCONTROL_C @
      '': file absent''))
      (\<lambda>text.
    if contains b37_DECAYING_BATCH_DECL text
    then io_ret (AlreadyPresent, ''the proactive-reclaim batch is already decaying'')
    else
    apply_or_block b37_build_steps_decaying_batches)\<close>

lemma b37_decaying_batches_apply_txn: "transactional (\<lambda>_. {b37_MEMCONTROL_C}) b37_decaying_batches_apply"
  unfolding b37_decaying_batches_apply_def
  by (intro txn_intros safe_intros)
    (simp_all add: is_backup_code BACKUP_SUFFIX_def b37_build_steps_decaying_batches_files b37_MEMCONTROL_C_def)

definition b37_DEFINES_OLD :: str where
  \<open>b37_DEFINES_OLD = block
     [''#define MEMCG_RECLAIM_MAY_SWAP (1 << 1)'',
      ''#define MEMCG_RECLAIM_PROACTIVE (1 << 2)'',
      []]\<close>

definition b37_DEFINES_NEW :: str where
  \<open>b37_DEFINES_NEW = b37_DEFINES_OLD @
   block
     [''#define MIN_SWAPPINESS 0'',
      ''#define MAX_SWAPPINESS 200'',
      []]\<close>

definition b37_SWAPPINESS_LITERAL_FP_OLD :: str where
  \<open>b37_SWAPPINESS_LITERAL_FP_OLD = block
     [''	fp = (200 - swappiness) * (total_cost + 1);'',
      []]\<close>

definition b37_SWAPPINESS_LITERAL_FP_NEW :: str where
  \<open>b37_SWAPPINESS_LITERAL_FP_NEW = block
     [''	fp = (MAX_SWAPPINESS - swappiness) * (total_cost + 1);'',
      []]\<close>

definition b37_SWAPPINESS_WRITE_OLD :: str where
  \<open>b37_SWAPPINESS_WRITE_OLD = block
     [''	struct mem_cgroup *memcg = mem_cgroup_from_css(css);'',
      [],
      ''	if (val > 200)'',
      ''		return -EINVAL;'',
      []]\<close>

definition b37_SWAPPINESS_WRITE_NEW :: str where
  \<open>b37_SWAPPINESS_WRITE_NEW = block
     [''	struct mem_cgroup *memcg = mem_cgroup_from_css(css);'',
      [],
      ''	if (val > MAX_SWAPPINESS)'',
      ''		return -EINVAL;'',
      []]\<close>

definition b37_build_steps_swappiness_defines_step1 :: step where
  \<open>b37_build_steps_swappiness_defines_step1 =
   (b37_SWAP_H,
    b37_DEFINES_OLD,
    b37_DEFINES_NEW, True)\<close>

definition b37_build_steps_swappiness_defines_step2 :: step where
  \<open>b37_build_steps_swappiness_defines_step2 =
   (b37_VMSCAN_C,
    b37_SWAPPINESS_LITERAL_FP_OLD,
    b37_SWAPPINESS_LITERAL_FP_NEW, True)\<close>

definition b37_build_steps_swappiness_defines_step3 :: step where
  \<open>b37_build_steps_swappiness_defines_step3 =
   (b37_MEMCONTROL_C,
    b37_SWAPPINESS_WRITE_OLD,
    b37_SWAPPINESS_WRITE_NEW, True)\<close>

definition b37_build_steps_swappiness_defines :: "step list" where
  \<open>b37_build_steps_swappiness_defines = [b37_build_steps_swappiness_defines_step1, b37_build_steps_swappiness_defines_step2, b37_build_steps_swappiness_defines_step3]\<close>

lemma b37_build_steps_swappiness_defines_files: "steps_files b37_build_steps_swappiness_defines = {b37_SWAP_H, b37_VMSCAN_C, b37_MEMCONTROL_C}"
  by (simp add: b37_build_steps_swappiness_defines_def steps_files_fst insert_commute
      step_file [OF b37_build_steps_swappiness_defines_step1_def]
      step_file [OF b37_build_steps_swappiness_defines_step2_def]
      step_file [OF b37_build_steps_swappiness_defines_step3_def])

lemma b37_build_steps_swappiness_defines_required: "all_required b37_build_steps_swappiness_defines"
  by (simp add: b37_build_steps_swappiness_defines_def all_required_def
      step_req [OF b37_build_steps_swappiness_defines_step1_def]
      step_req [OF b37_build_steps_swappiness_defines_step2_def]
      step_req [OF b37_build_steps_swappiness_defines_step3_def])

definition b37_swappiness_defines_apply :: "outcome io" where
  \<open>b37_swappiness_defines_apply =
    apply_or_block b37_build_steps_swappiness_defines\<close>

lemma b37_swappiness_defines_apply_txn: "transactional (\<lambda>_. {b37_SWAP_H, b37_VMSCAN_C, b37_MEMCONTROL_C}) b37_swappiness_defines_apply"
  unfolding b37_swappiness_defines_apply_def
  by (intro txn_intros safe_intros)
    (simp_all add: is_backup_code BACKUP_SUFFIX_def b37_build_steps_swappiness_defines_files b37_MEMCONTROL_C_def b37_SWAP_H_def b37_VMSCAN_C_def)

definition b37_PROTO_OLD :: str where
  \<open>b37_PROTO_OLD = block
     [''extern unsigned long try_to_free_mem_cgroup_pages(struct mem_cgroup *memcg,'',
      ''						  unsigned long nr_pages,'',
      ''						  gfp_t gfp_mask,'',
      ''						  unsigned int reclaim_options);'',
      []]\<close>

definition b37_PROTO_NEW :: str where
  \<open>b37_PROTO_NEW = block
     [''extern unsigned long try_to_free_mem_cgroup_pages(struct mem_cgroup *memcg,'',
      ''						  unsigned long nr_pages,'',
      ''						  gfp_t gfp_mask,'',
      ''						  unsigned int reclaim_options,'',
      ''						  int *swappiness);'',
      []]\<close>

definition b37_SC_FIELD_OLD :: str where
  \<open>b37_SC_FIELD_OLD = block
     [''	unsigned long	anon_cost;'',
      ''	unsigned long	file_cost;'',
      [],
      ''	/* Can active pages be deactivated as part of reclaim? */'',
      []]\<close>

definition b37_SC_FIELD_NEW :: str where
  \<open>b37_SC_FIELD_NEW = block
     [''	unsigned long	anon_cost;'',
      ''	unsigned long	file_cost;'',
      [],
      ''#ifdef CONFIG_MEMCG'',
      ''	/* Swappiness value for proactive reclaim. Always use sc_swappiness()! */'',
      ''	int *proactive_swappiness;'',
      ''#endif'',
      [],
      ''	/* Can active pages be deactivated as part of reclaim? */'',
      []]\<close>

definition b37_SC_HELPER_OLD :: str where
  \<open>b37_SC_HELPER_OLD = block
     [''static bool writeback_throttling_sane(struct scan_control *sc)'',
      ''{'',
      ''	if (!cgroup_reclaim(sc))'',
      ''		return true;'',
      ''#ifdef CONFIG_CGROUP_WRITEBACK'',
      ''	if (cgroup_subsys_on_dfl(memory_cgrp_subsys))'',
      ''		return true;'',
      ''#endif'',
      ''	return false;'',
      ''}'',
      ''#else'',
      []]\<close>

definition b37_SC_HELPER_NEW :: str where
  \<open>b37_SC_HELPER_NEW = block
     [''static bool writeback_throttling_sane(struct scan_control *sc)'',
      ''{'',
      ''	if (!cgroup_reclaim(sc))'',
      ''		return true;'',
      ''#ifdef CONFIG_CGROUP_WRITEBACK'',
      ''	if (cgroup_subsys_on_dfl(memory_cgrp_subsys))'',
      ''		return true;'',
      ''#endif'',
      ''	return false;'',
      ''}'',
      [],
      ''static int sc_swappiness(struct scan_control *sc, struct mem_cgroup *memcg)'',
      ''{'',
      ''	if (sc->proactive && sc->proactive_swappiness)'',
      ''		return *sc->proactive_swappiness;'',
      ''	return mem_cgroup_swappiness(memcg);'',
      ''}'',
      ''#else'',
      []]\<close>

definition b37_SC_HELPER_NO_MEMCG_OLD :: str where
  \<open>b37_SC_HELPER_NO_MEMCG_OLD = block
     [''static bool writeback_throttling_sane(struct scan_control *sc)'',
      ''{'',
      ''	return true;'',
      ''}'',
      ''#endif'',
      []]\<close>

definition b37_SC_HELPER_NO_MEMCG_NEW :: str where
  \<open>b37_SC_HELPER_NO_MEMCG_NEW = block
     [''static bool writeback_throttling_sane(struct scan_control *sc)'',
      ''{'',
      ''	return true;'',
      ''}'',
      [],
      ''static int sc_swappiness(struct scan_control *sc, struct mem_cgroup *memcg)'',
      ''{'',
      ''	return READ_ONCE(vm_swappiness);'',
      ''}'',
      ''#endif'',
      []]\<close>

definition b37_GET_SCAN_COUNT_OLD :: str where
  \<open>b37_GET_SCAN_COUNT_OLD = block
     [''	struct mem_cgroup *memcg = lruvec_memcg(lruvec);'',
      ''	unsigned long anon_cost, file_cost, total_cost;'',
      ''	int swappiness = mem_cgroup_swappiness(memcg);'',
      []]\<close>

definition b37_GET_SCAN_COUNT_NEW :: str where
  \<open>b37_GET_SCAN_COUNT_NEW = block
     [''	struct mem_cgroup *memcg = lruvec_memcg(lruvec);'',
      ''	unsigned long anon_cost, file_cost, total_cost;'',
      ''	int swappiness = sc_swappiness(sc, memcg);'',
      []]\<close>

definition b37_GET_SWAPPINESS_OLD :: str where
  \<open>b37_GET_SWAPPINESS_OLD = block
     [''	if (!can_demote(pgdat->node_id, sc) &&'',
      ''		mem_cgroup_get_nr_swap_pages(memcg) <= 0)'',
      ''		return 0;'',
      [],
      ''	return mem_cgroup_swappiness(memcg);'',
      ''}'',
      []]\<close>

definition b37_GET_SWAPPINESS_NEW :: str where
  \<open>b37_GET_SWAPPINESS_NEW = block
     [''	if (!can_demote(pgdat->node_id, sc) &&'',
      ''		mem_cgroup_get_nr_swap_pages(memcg) <= 0)'',
      ''		return 0;'',
      [],
      ''	return sc_swappiness(sc, memcg);'',
      ''}'',
      []]\<close>

definition b37_VENDOR_SWAPPINESS_HOOK :: str where
  \<open>b37_VENDOR_SWAPPINESS_HOOK = ''trace_android_vh_tune_swappiness(&swappiness);''\<close>

definition b37_GET_SWAPPINESS_HOOK_OLD :: str where
  \<open>b37_GET_SWAPPINESS_HOOK_OLD = block
     [''	if (!can_demote(pgdat->node_id, sc) &&'',
      ''		mem_cgroup_get_nr_swap_pages(memcg) <= 0)'',
      ''		return 0;'',
      [],
      ''	swappiness = mem_cgroup_swappiness(memcg);'',
      ''	trace_android_vh_tune_swappiness(&swappiness);'',
      []]\<close>

definition b37_GET_SWAPPINESS_HOOK_NEW :: str where
  \<open>b37_GET_SWAPPINESS_HOOK_NEW = block
     [''	if (!can_demote(pgdat->node_id, sc) &&'',
      ''		mem_cgroup_get_nr_swap_pages(memcg) <= 0)'',
      ''		return 0;'',
      [],
      ''	swappiness = sc_swappiness(sc, memcg);'',
      ''	trace_android_vh_tune_swappiness(&swappiness);'',
      []]\<close>

definition b37_TTFMCP_OLD :: str where
  \<open>b37_TTFMCP_OLD = block
     [''unsigned long try_to_free_mem_cgroup_pages(struct mem_cgroup *memcg,'',
      ''					   unsigned long nr_pages,'',
      ''					   gfp_t gfp_mask,'',
      ''					   unsigned int reclaim_options)'',
      ''{'',
      ''	unsigned long nr_reclaimed;'',
      ''	unsigned int noreclaim_flag;'',
      ''	struct scan_control sc = {'',
      ''		.nr_to_reclaim = max(nr_pages, SWAP_CLUSTER_MAX),'',
      []]\<close>

definition b37_TTFMCP_NEW :: str where
  \<open>b37_TTFMCP_NEW = block
     [''unsigned long try_to_free_mem_cgroup_pages(struct mem_cgroup *memcg,'',
      ''					   unsigned long nr_pages,'',
      ''					   gfp_t gfp_mask,'',
      ''					   unsigned int reclaim_options,'',
      ''					   int *swappiness)'',
      ''{'',
      ''	unsigned long nr_reclaimed;'',
      ''	unsigned int noreclaim_flag;'',
      ''	struct scan_control sc = {'',
      ''		.nr_to_reclaim = max(nr_pages, SWAP_CLUSTER_MAX),'',
      ''		.proactive_swappiness = swappiness,'',
      []]\<close>

definition b37_INCLUDE_OLD :: str where
  \<open>b37_INCLUDE_OLD = block
     [''#include <linux/fs.h>'',
      ''#include <linux/seq_file.h>'',
      ''#include <linux/vmpressure.h>'',
      []]\<close>

definition b37_INCLUDE_NEW :: str where
  \<open>b37_INCLUDE_NEW = block
     [''#include <linux/fs.h>'',
      ''#include <linux/seq_file.h>'',
      ''#include <linux/parser.h>'',
      ''#include <linux/vmpressure.h>'',
      []]\<close>

definition b37_CALL_RECLAIM_HIGH_OLD :: str where
  \<open>b37_CALL_RECLAIM_HIGH_OLD = block
     [''		nr_reclaimed += try_to_free_mem_cgroup_pages(memcg, nr_pages,'',
      ''							     gfp_mask,'',
      ''							     MEMCG_RECLAIM_MAY_SWAP);'',
      []]\<close>

definition b37_CALL_RECLAIM_HIGH_NEW :: str where
  \<open>b37_CALL_RECLAIM_HIGH_NEW = block
     [''		nr_reclaimed += try_to_free_mem_cgroup_pages(memcg, nr_pages,'',
      ''							     gfp_mask,'',
      ''							     MEMCG_RECLAIM_MAY_SWAP,'',
      ''							     NULL);'',
      []]\<close>

definition b37_CALL_TRY_CHARGE_OLD :: str where
  \<open>b37_CALL_TRY_CHARGE_OLD = block
     [''	nr_reclaimed = try_to_free_mem_cgroup_pages(mem_over_limit, nr_pages,'',
      ''						    gfp_mask, reclaim_options);'',
      []]\<close>

definition b37_CALL_TRY_CHARGE_NEW :: str where
  \<open>b37_CALL_TRY_CHARGE_NEW = block
     [''	nr_reclaimed = try_to_free_mem_cgroup_pages(mem_over_limit, nr_pages,'',
      ''						    gfp_mask, reclaim_options,'',
      ''						    NULL);'',
      []]\<close>

definition b37_CALL_RESIZE_MAX_OLD :: str where
  \<open>b37_CALL_RESIZE_MAX_OLD = block
     [''		if (!try_to_free_mem_cgroup_pages(memcg, 1, GFP_KERNEL,'',
      ''					memsw ? 0 : MEMCG_RECLAIM_MAY_SWAP)) {'',
      []]\<close>

definition b37_CALL_RESIZE_MAX_NEW :: str where
  \<open>b37_CALL_RESIZE_MAX_NEW = block
     [''		if (!try_to_free_mem_cgroup_pages(memcg, 1, GFP_KERNEL,'',
      ''					memsw ? 0 : MEMCG_RECLAIM_MAY_SWAP,'',
      ''					NULL)) {'',
      []]\<close>

definition b37_CALL_FORCE_EMPTY_OLD :: str where
  \<open>b37_CALL_FORCE_EMPTY_OLD = block
     [''		progress = try_to_free_mem_cgroup_pages(memcg, 1, GFP_KERNEL,'',
      ''							MEMCG_RECLAIM_MAY_SWAP);'',
      []]\<close>

definition b37_CALL_FORCE_EMPTY_NEW :: str where
  \<open>b37_CALL_FORCE_EMPTY_NEW = block
     [''		progress = try_to_free_mem_cgroup_pages(memcg, 1, GFP_KERNEL,'',
      ''							MEMCG_RECLAIM_MAY_SWAP,'',
      ''							NULL);'',
      []]\<close>

definition b37_CALL_HIGH_WRITE_OLD :: str where
  \<open>b37_CALL_HIGH_WRITE_OLD = block
     [''		reclaimed = try_to_free_mem_cgroup_pages(memcg, nr_pages - high,'',
      ''					GFP_KERNEL, MEMCG_RECLAIM_MAY_SWAP);'',
      []]\<close>

definition b37_CALL_HIGH_WRITE_NEW :: str where
  \<open>b37_CALL_HIGH_WRITE_NEW = block
     [''		reclaimed = try_to_free_mem_cgroup_pages(memcg, nr_pages - high,'',
      ''					GFP_KERNEL, MEMCG_RECLAIM_MAY_SWAP,'',
      ''					NULL);'',
      []]\<close>

definition b37_CALL_MAX_WRITE_OLD :: str where
  \<open>b37_CALL_MAX_WRITE_OLD = block
     [''			if (!try_to_free_mem_cgroup_pages(memcg, nr_pages - max,'',
      ''					GFP_KERNEL, MEMCG_RECLAIM_MAY_SWAP))'',
      []]\<close>

definition b37_CALL_MAX_WRITE_NEW :: str where
  \<open>b37_CALL_MAX_WRITE_NEW = block
     [''			if (!try_to_free_mem_cgroup_pages(memcg, nr_pages - max,'',
      ''					GFP_KERNEL, MEMCG_RECLAIM_MAY_SWAP, NULL))'',
      []]\<close>

definition b37_TOKENS_OLD :: str where
  \<open>b37_TOKENS_OLD = b37_MEMORY_RECLAIM_MARKER @
   block
     [[],
      ''static ssize_t memory_reclaim(struct kernfs_open_file *of, char *buf,'',
      []]\<close>

definition b37_TOKENS_NEW :: str where
  \<open>b37_TOKENS_NEW = block
     [''enum {'',
      ''	MEMORY_RECLAIM_SWAPPINESS = 0,'',
      ''	MEMORY_RECLAIM_NULL,'',
      ''};'',
      [],
      ''static const match_table_t tokens = {'',
      ''	{ MEMORY_RECLAIM_SWAPPINESS, "swappiness=%d"},'',
      ''	{ MEMORY_RECLAIM_NULL, NULL },'',
      ''};'',
      [],
      []] @
   b37_TOKENS_OLD\<close>

definition b37_PARSER_OLD :: str where
  \<open>b37_PARSER_OLD = block
     [''	struct mem_cgroup *memcg = mem_cgroup_from_css(of_css(of));'',
      ''	unsigned int nr_retries = MAX_RECLAIM_RETRIES;'',
      ''	unsigned long nr_to_reclaim, nr_reclaimed = 0;'',
      ''	unsigned int reclaim_options;'',
      ''	int err;'',
      [],
      ''	buf = strstrip(buf);'',
      ''	err = page_counter_memparse(buf, "", &nr_to_reclaim);'',
      ''	if (err)'',
      ''		return err;'',
      []]\<close>

definition b37_PARSER_NEW :: str where
  \<open>b37_PARSER_NEW = block
     [''	struct mem_cgroup *memcg = mem_cgroup_from_css(of_css(of));'',
      ''	unsigned int nr_retries = MAX_RECLAIM_RETRIES;'',
      ''	unsigned long nr_to_reclaim, nr_reclaimed = 0;'',
      ''	int swappiness = -1;'',
      ''	unsigned int reclaim_options;'',
      ''	char *old_buf, *start;'',
      ''	substring_t args[MAX_OPT_ARGS];'',
      [],
      ''	buf = strstrip(buf);'',
      [],
      ''	old_buf = buf;'',
      ''	nr_to_reclaim = memparse(buf, &buf) / PAGE_SIZE;'',
      ''	if (buf == old_buf)'',
      ''		return -EINVAL;'',
      [],
      ''	buf = strstrip(buf);'',
      [],
      ''	while ((start = strsep(&buf, " ")) != NULL) {'',
      ''		if (!strlen(start))'',
      ''			continue;'',
      ''		switch (match_token(start, tokens, args)) {'',
      ''		case MEMORY_RECLAIM_SWAPPINESS:'',
      ''			if (match_int(&args[0], &swappiness))'',
      ''				return -EINVAL;'',
      ''			if (swappiness < MIN_SWAPPINESS || swappiness > MAX_SWAPPINESS)'',
      ''				return -EINVAL;'',
      ''			break;'',
      ''		default:'',
      ''			return -EINVAL;'',
      ''		}'',
      ''	}'',
      []]\<close>

definition b37_C3_CALL_OLD :: str where
  \<open>b37_C3_CALL_OLD = block
     [''		reclaimed = try_to_free_mem_cgroup_pages(memcg,'',
      ''					batch_size, GFP_KERNEL, reclaim_options);'',
      []]\<close>

definition b37_C3_CALL_NEW :: str where
  \<open>b37_C3_CALL_NEW = block
     [''		reclaimed = try_to_free_mem_cgroup_pages(memcg,'',
      ''					batch_size, GFP_KERNEL,'',
      ''					reclaim_options,'',
      ''					swappiness == -1 ? NULL : &swappiness);'',
      []]\<close>

definition b37_DOC_OLD :: str where
  \<open>b37_DOC_OLD = block
     [''	This file accepts a single key, the number of bytes to reclaim.'',
      ''	No nested keys are currently supported.'',
      [],
      ''	Example::'',
      [],
      ''	  echo "1G" > memory.reclaim'',
      [],
      ''	The interface can be later extended with nested keys to'',
      ''	configure the reclaim behavior. For example, specify the'',
      ''	type of memory to reclaim from (anon, file, ..).'',
      [],
      ''	Please note that the kernel can over or under reclaim from'',
      ''	the target cgroup. If less bytes are reclaimed than the'',
      ''	specified amount, -EAGAIN is returned.'',
      []]\<close>

definition b37_DOC_NEW :: str where
  \<open>b37_DOC_NEW = block
     [''	Example::'',
      [],
      ''	  echo "1G" > memory.reclaim'',
      [],
      ''	Please note that the kernel can over or under reclaim from'',
      ''	the target cgroup. If less bytes are reclaimed than the'',
      ''	specified amount, -EAGAIN is returned.'',
      [],
      ''The following nested keys are defined.'',
      [],
      ''	  ==========            ================================'',
      ''	  swappiness            Swappiness value to reclaim with'',
      ''	  ==========            ================================'',
      [],
      ''	Specifying a swappiness value instructs the kernel to perform'',
      ''	the reclaim with that swappiness value. Note that this has the'',
      ''	same semantics as vm.swappiness applied to memcg reclaim with'',
      ''	all the existing limitations and potential future extensions.'',
      []]\<close>

definition b37_swappiness_hook_step :: step where
  \<open>b37_swappiness_hook_step =
     (b37_VMSCAN_C, b37_GET_SWAPPINESS_HOOK_OLD, b37_GET_SWAPPINESS_HOOK_NEW, True)\<close>

definition b37_swappiness_step :: step where
  \<open>b37_swappiness_step = (b37_VMSCAN_C, b37_GET_SWAPPINESS_OLD, b37_GET_SWAPPINESS_NEW, True)\<close>

definition b37_get_swappiness_step :: "step io" where
  \<open>b37_get_swappiness_step = io_bind (read_or_empty b37_VMSCAN_C) (\<lambda>t.
     case find (\<lambda>(rel, old, new, req). contains old t \<or> contains new t)
            [b37_swappiness_hook_step, b37_swappiness_step] of
       Some step \<Rightarrow> io_ret step
     | None \<Rightarrow> io_ret b37_swappiness_step)\<close>

definition b37_build_steps_swappiness_arg_step1 :: step where
  \<open>b37_build_steps_swappiness_arg_step1 =
   (b37_SWAP_H,
    b37_PROTO_OLD,
    b37_PROTO_NEW, True)\<close>

definition b37_build_steps_swappiness_arg_step2 :: step where
  \<open>b37_build_steps_swappiness_arg_step2 =
   (b37_VMSCAN_C,
    b37_SC_FIELD_OLD,
    b37_SC_FIELD_NEW, True)\<close>

definition b37_build_steps_swappiness_arg_step3 :: step where
  \<open>b37_build_steps_swappiness_arg_step3 =
   (b37_VMSCAN_C,
    b37_SC_HELPER_OLD,
    b37_SC_HELPER_NEW, True)\<close>

definition b37_build_steps_swappiness_arg_step4 :: step where
  \<open>b37_build_steps_swappiness_arg_step4 =
   (b37_VMSCAN_C,
    b37_SC_HELPER_NO_MEMCG_OLD,
    b37_SC_HELPER_NO_MEMCG_NEW, True)\<close>

definition b37_build_steps_swappiness_arg_step5 :: step where
  \<open>b37_build_steps_swappiness_arg_step5 =
   (b37_VMSCAN_C,
    b37_GET_SCAN_COUNT_OLD,
    b37_GET_SCAN_COUNT_NEW, True)\<close>

definition b37_build_steps_swappiness_arg_step7 :: step where
  \<open>b37_build_steps_swappiness_arg_step7 =
   (b37_VMSCAN_C,
    b37_TTFMCP_OLD,
    b37_TTFMCP_NEW, True)\<close>

definition b37_build_steps_swappiness_arg_step8 :: step where
  \<open>b37_build_steps_swappiness_arg_step8 =
   (b37_MEMCONTROL_C,
    b37_INCLUDE_OLD,
    b37_INCLUDE_NEW, True)\<close>

definition b37_build_steps_swappiness_arg_step9 :: step where
  \<open>b37_build_steps_swappiness_arg_step9 =
   (b37_MEMCONTROL_C,
    b37_CALL_RECLAIM_HIGH_OLD,
    b37_CALL_RECLAIM_HIGH_NEW, True)\<close>

definition b37_build_steps_swappiness_arg_step10 :: step where
  \<open>b37_build_steps_swappiness_arg_step10 =
   (b37_MEMCONTROL_C,
    b37_CALL_TRY_CHARGE_OLD,
    b37_CALL_TRY_CHARGE_NEW, True)\<close>

definition b37_build_steps_swappiness_arg_step11 :: step where
  \<open>b37_build_steps_swappiness_arg_step11 =
   (b37_MEMCONTROL_C,
    b37_CALL_RESIZE_MAX_OLD,
    b37_CALL_RESIZE_MAX_NEW, True)\<close>

definition b37_build_steps_swappiness_arg_step12 :: step where
  \<open>b37_build_steps_swappiness_arg_step12 =
   (b37_MEMCONTROL_C,
    b37_CALL_FORCE_EMPTY_OLD,
    b37_CALL_FORCE_EMPTY_NEW, True)\<close>

definition b37_build_steps_swappiness_arg_step13 :: step where
  \<open>b37_build_steps_swappiness_arg_step13 =
   (b37_MEMCONTROL_C,
    b37_CALL_HIGH_WRITE_OLD,
    b37_CALL_HIGH_WRITE_NEW, True)\<close>

definition b37_build_steps_swappiness_arg_step14 :: step where
  \<open>b37_build_steps_swappiness_arg_step14 =
   (b37_MEMCONTROL_C,
    b37_CALL_MAX_WRITE_OLD,
    b37_CALL_MAX_WRITE_NEW, True)\<close>

definition b37_build_steps_swappiness_arg_step15 :: step where
  \<open>b37_build_steps_swappiness_arg_step15 =
   (b37_MEMCONTROL_C,
    b37_TOKENS_OLD,
    b37_TOKENS_NEW, True)\<close>

definition b37_build_steps_swappiness_arg_step16 :: step where
  \<open>b37_build_steps_swappiness_arg_step16 =
   (b37_MEMCONTROL_C,
    b37_PARSER_OLD,
    b37_PARSER_NEW, True)\<close>

definition b37_build_steps_swappiness_arg_step17 :: step where
  \<open>b37_build_steps_swappiness_arg_step17 =
   (b37_MEMCONTROL_C,
    b37_C3_CALL_OLD,
    b37_C3_CALL_NEW, True)\<close>

definition b37_build_steps_swappiness_arg_step18 :: step where
  \<open>b37_build_steps_swappiness_arg_step18 =
   (b37_CGROUP_V2_RST,
    b37_DOC_OLD,
    b37_DOC_NEW, True)\<close>

definition b37_build_steps_swappiness_arg :: "step \<Rightarrow> step list" where
  \<open>b37_build_steps_swappiness_arg swap_step = [b37_build_steps_swappiness_arg_step1, b37_build_steps_swappiness_arg_step2, b37_build_steps_swappiness_arg_step3, b37_build_steps_swappiness_arg_step4, b37_build_steps_swappiness_arg_step5, swap_step, b37_build_steps_swappiness_arg_step7, b37_build_steps_swappiness_arg_step8, b37_build_steps_swappiness_arg_step9, b37_build_steps_swappiness_arg_step10, b37_build_steps_swappiness_arg_step11, b37_build_steps_swappiness_arg_step12, b37_build_steps_swappiness_arg_step13, b37_build_steps_swappiness_arg_step14, b37_build_steps_swappiness_arg_step15, b37_build_steps_swappiness_arg_step16, b37_build_steps_swappiness_arg_step17, b37_build_steps_swappiness_arg_step18]\<close>

lemma b37_build_steps_swappiness_arg_files:
  "fst swap_step = b37_VMSCAN_C \<Longrightarrow>
   steps_files (b37_build_steps_swappiness_arg swap_step) = {b37_SWAP_H, b37_VMSCAN_C, b37_MEMCONTROL_C, b37_CGROUP_V2_RST}"
  by (simp add: b37_build_steps_swappiness_arg_def steps_files_fst insert_commute
      step_file [OF b37_build_steps_swappiness_arg_step1_def]
      step_file [OF b37_build_steps_swappiness_arg_step2_def]
      step_file [OF b37_build_steps_swappiness_arg_step3_def]
      step_file [OF b37_build_steps_swappiness_arg_step4_def]
      step_file [OF b37_build_steps_swappiness_arg_step5_def]
      step_file [OF b37_build_steps_swappiness_arg_step7_def]
      step_file [OF b37_build_steps_swappiness_arg_step8_def]
      step_file [OF b37_build_steps_swappiness_arg_step9_def]
      step_file [OF b37_build_steps_swappiness_arg_step10_def]
      step_file [OF b37_build_steps_swappiness_arg_step11_def]
      step_file [OF b37_build_steps_swappiness_arg_step12_def]
      step_file [OF b37_build_steps_swappiness_arg_step13_def]
      step_file [OF b37_build_steps_swappiness_arg_step14_def]
      step_file [OF b37_build_steps_swappiness_arg_step15_def]
      step_file [OF b37_build_steps_swappiness_arg_step16_def]
      step_file [OF b37_build_steps_swappiness_arg_step17_def]
      step_file [OF b37_build_steps_swappiness_arg_step18_def])

definition b37_swappiness_arg_apply :: "outcome io" where
  \<open>b37_swappiness_arg_apply = io_bind b37_get_swappiness_step (\<lambda>swap_step.
     apply_or_block (b37_build_steps_swappiness_arg swap_step))\<close>

lemma b37_get_swappiness_step_vmscan:
  "b37_get_swappiness_step g = (Inr s, h) \<Longrightarrow> fst s = b37_VMSCAN_C"
  by (auto simp: b37_get_swappiness_step_def io_bind_def io_ret_def step_file [OF b37_swappiness_step_def]
      step_file [OF b37_swappiness_hook_step_def] split: prod.splits sum.splits option.splits if_splits)

lemma b37_swappiness_arg_apply_txn: "transactional (\<lambda>_. {b37_SWAP_H, b37_VMSCAN_C, b37_MEMCONTROL_C, b37_CGROUP_V2_RST}) b37_swappiness_arg_apply"
  unfolding b37_swappiness_arg_apply_def
proof (rule txn_bind_in)
  show "graft_prog (\<lambda>_. {}) b37_get_swappiness_step"
    unfolding b37_get_swappiness_step_def
    by (intro safe_intros) (simp add: is_backup_code BACKUP_SUFFIX_def b37_VMSCAN_C_def)
  fix s g h
  assume "b37_get_swappiness_step g = (Inr s, h)"
  from b37_build_steps_swappiness_arg_files [OF b37_get_swappiness_step_vmscan [OF this]]
  show "transactional (\<lambda>_. {b37_SWAP_H, b37_VMSCAN_C, b37_MEMCONTROL_C, b37_CGROUP_V2_RST})
      (apply_or_block (b37_build_steps_swappiness_arg s))"
    by (intro txn_intros) (simp_all add: is_backup_code BACKUP_SUFFIX_def b37_SWAP_H_def
        b37_VMSCAN_C_def b37_MEMCONTROL_C_def b37_CGROUP_V2_RST_def)
qed

definition b37_SHOULD_ABORT_OLD :: str where
  \<open>b37_SHOULD_ABORT_OLD = block
     [''static bool should_abort_scan(struct lruvec *lruvec, unsigned long seq,'',
      ''			      struct scan_control *sc, bool need_swapping)'',
      ''{'',
      ''	int i;'',
      ''	DEFINE_MAX_SEQ(lruvec);'',
      [],
      []]\<close>

definition b37_SHOULD_ABORT_NEW :: str where
  \<open>b37_SHOULD_ABORT_NEW = block
     [''static bool should_abort_scan(struct lruvec *lruvec, unsigned long seq,'',
      ''			      struct scan_control *sc, bool need_swapping)'',
      ''{'',
      ''	int i;'',
      ''	DEFINE_MAX_SEQ(lruvec);'',
      [],
      ''	/*'',
      ''	 * ABK stable_515_backport: dc37771a43d4.  The PM freezer parks a task'',
      ''	 * by setting TIF_SIGPENDING; a task that does not reach the'',
      ''	 * refrigerator in time fails the suspend.  Since 287d5fedb377 the'',
      ''	 * proactive-reclaim batches decay from a quarter of the request, so'',
      ''	 * this inner loop can run for seconds on a multi-gigabyte target'',
      ''	 * without returning to the handler\'s own signal_pending() check.'',
      ''	 * Only sc->proactive is tested: reactive reclaim\'s per-iteration'',
      ''	 * target is bounded by get_scan_count(), so it returns to its outer'',
      ''	 * loop often enough on its own.'',
      ''	 */'',
      ''	if (unlikely(sc->proactive && signal_pending(current)))'',
      ''		return true;'',
      [],
      []]\<close>

definition b37_SIGNAL_OLD :: str where
  \<open>b37_SIGNAL_OLD = block
     [''		if (signal_pending(current))'',
      ''			return -EINTR;'',
      [],
      ''		/*'',
      ''		 * This is the final attempt, drain percpu lru caches in the'',
      []]\<close>

definition b37_SIGNAL_NEW :: str where
  \<open>b37_SIGNAL_NEW = block
     [''		/*'',
      ''		 * ABK stable_515_backport: dc37771a43d4.  -ERESTARTSYS, not'',
      ''		 * -EINTR: the freezer\'s fake signal then restarts the write'',
      ''		 * transparently after resume, while a real signal still either'',
      ''		 * restarts it (SA_RESTART) or is converted to -EINTR by the'',
      ''		 * signal layer.'',
      ''		 */'',
      ''		if (signal_pending(current))'',
      ''			return -ERESTARTSYS;'',
      [],
      ''		/*'',
      ''		 * This is the final attempt, drain percpu lru caches in the'',
      []]\<close>

definition b37_build_steps_suspend_abort_step1 :: step where
  \<open>b37_build_steps_suspend_abort_step1 =
   (b37_VMSCAN_C,
    b37_SHOULD_ABORT_OLD,
    b37_SHOULD_ABORT_NEW, True)\<close>

definition b37_build_steps_suspend_abort_step2 :: step where
  \<open>b37_build_steps_suspend_abort_step2 =
   (b37_MEMCONTROL_C,
    b37_SIGNAL_OLD,
    b37_SIGNAL_NEW, True)\<close>

definition b37_build_steps_suspend_abort :: "step list" where
  \<open>b37_build_steps_suspend_abort = [b37_build_steps_suspend_abort_step1, b37_build_steps_suspend_abort_step2]\<close>

lemma b37_build_steps_suspend_abort_files: "steps_files b37_build_steps_suspend_abort = {b37_VMSCAN_C, b37_MEMCONTROL_C}"
  by (simp add: b37_build_steps_suspend_abort_def steps_files_fst insert_commute
      step_file [OF b37_build_steps_suspend_abort_step1_def]
      step_file [OF b37_build_steps_suspend_abort_step2_def])

lemma b37_build_steps_suspend_abort_required: "all_required b37_build_steps_suspend_abort"
  by (simp add: b37_build_steps_suspend_abort_def all_required_def
      step_req [OF b37_build_steps_suspend_abort_step1_def]
      step_req [OF b37_build_steps_suspend_abort_step2_def])

definition b37_suspend_abort_apply :: "outcome io" where
  \<open>b37_suspend_abort_apply =
    apply_or_block b37_build_steps_suspend_abort\<close>

lemma b37_suspend_abort_apply_txn: "transactional (\<lambda>_. {b37_VMSCAN_C, b37_MEMCONTROL_C}) b37_suspend_abort_apply"
  unfolding b37_suspend_abort_apply_def
  by (intro txn_intros safe_intros)
    (simp_all add: is_backup_code BACKUP_SUFFIX_def b37_build_steps_suspend_abort_files b37_MEMCONTROL_C_def b37_VMSCAN_C_def)

definition b37_LRU_ADD_OLD :: str where
  \<open>b37_LRU_ADD_OLD = block
     [''void __pagevec_lru_add(struct pagevec *pvec)'',
      ''{'',
      ''	int i;'',
      ''	struct lruvec *lruvec = NULL;'',
      ''	unsigned long flags = 0;'',
      [],
      ''	for (i = 0; i < pagevec_count(pvec); i++) {'',
      ''		struct page *page = pvec->pages[i];'',
      [],
      ''		lruvec = relock_page_lruvec_irqsave(page, lruvec, &flags);'',
      ''		__pagevec_lru_add_fn(page, lruvec);'',
      ''	}'',
      ''	if (lruvec)'',
      ''		unlock_page_lruvec_irqrestore(lruvec, flags);'',
      ''	release_pages(pvec->pages, pvec->nr);'',
      ''	pagevec_reinit(pvec);'',
      ''}'',
      []]\<close>

definition b37_LRU_ADD_NEW :: str where
  \<open>b37_LRU_ADD_NEW = block
     [''void __pagevec_lru_add(struct pagevec *pvec)'',
      ''{'',
      ''	int i;'',
      ''	struct lruvec *lruvec = NULL;'',
      ''	unsigned long flags = 0;'',
      ''	LIST_HEAD(pages_to_free);'',
      [],
      ''	for (i = 0; i < pagevec_count(pvec); i++) {'',
      ''		struct page *page = pvec->pages[i];'',
      [],
      ''		/*'',
      ''		 * ABK stable_515_backport: 9669b87065a6.  A page whose only'',
      ''		 * reference is this batch\'s own is already dead.  Adding it to'',
      ''		 * the LRU only for release_pages() to take it off again costs'',
      ''		 * two lruvec lock acquisitions for nothing, and under pressure'',
      ''		 * those are the lock the reclaimer is waiting on.  Filter it'',
      ''		 * out here and free it with the rest of the batch below.'',
      ''		 *'',
      ''		 * Upstream also unqueues the page from the deferred-split list'',
      ''		 * at this point; on 5.15 that line is deliberately not carried.'',
      ''		 * A deferred-split page is always compound, and'',
      ''		 * pagevec_add_and_need_flush() drains the lru_add pagevec'',
      ''		 * immediately for a compound page, so what really lingers here'',
      ''		 * is an order-0 page -- for which page_deferred_list() is a'',
      ''		 * neighbouring allocation, not a list head -- and a THP that'',
      ''		 * does reach the allocator unqueues itself through'',
      ''		 * free_transhuge_page().'',
      ''		 *'',
      ''		 * PG_active can be set on a batched page (__lru_cache_activate_'',
      ''		 * page()) and PG_unevictable by the migration path; the folio'',
      ''		 * skips the cleanup in __pagevec_lru_add_fn(), so both are'',
      ''		 * cleared before it is freed.'',
      ''		 */'',
      ''		if (page_ref_freeze(page, 1)) {'',
      ''			__ClearPageActive(page);'',
      ''			__ClearPageUnevictable(page);'',
      ''			pvec->pages[i] = NULL;'',
      ''			list_add(&page->lru, &pages_to_free);'',
      ''			continue;'',
      ''		}'',
      [],
      ''		lruvec = relock_page_lruvec_irqsave(page, lruvec, &flags);'',
      ''		__pagevec_lru_add_fn(page, lruvec);'',
      ''	}'',
      ''	if (lruvec)'',
      ''		unlock_page_lruvec_irqrestore(lruvec, flags);'',
      [],
      ''	mem_cgroup_uncharge_list(&pages_to_free);'',
      ''	free_unref_page_list(&pages_to_free);'',
      [],
      ''	release_pages(pvec->pages, pvec->nr);'',
      ''	pagevec_reinit(pvec);'',
      ''}'',
      []]\<close>

definition b37_RELEASE_OLD :: str where
  \<open>b37_RELEASE_OLD = block
     [''	for (i = 0; i < nr; i++) {'',
      ''		struct page *page = pages[i];'',
      [],
      ''		/*'',
      ''		 * Make sure the IRQ-safe lock-holding time does not get'',
      ''		 * excessive with a continuous string of pages from the'',
      ''		 * same lruvec. The lock is held only if lruvec != NULL.'',
      ''		 */'',
      []]\<close>

definition b37_RELEASE_NEW :: str where
  \<open>b37_RELEASE_NEW = block
     [''	for (i = 0; i < nr; i++) {'',
      ''		struct page *page = pages[i];'',
      [],
      ''		/* A drained add batch may have freed this slot already. */'',
      ''		if (!page)'',
      ''			continue;'',
      [],
      ''		/*'',
      ''		 * Make sure the IRQ-safe lock-holding time does not get'',
      ''		 * excessive with a continuous string of pages from the'',
      ''		 * same lruvec. The lock is held only if lruvec != NULL.'',
      ''		 */'',
      []]\<close>

definition b37_build_steps_lru_add_drain_step1 :: step where
  \<open>b37_build_steps_lru_add_drain_step1 =
   (b37_SWAP_C,
    b37_LRU_ADD_OLD,
    b37_LRU_ADD_NEW, True)\<close>

definition b37_build_steps_lru_add_drain_step2 :: step where
  \<open>b37_build_steps_lru_add_drain_step2 =
   (b37_SWAP_C,
    b37_RELEASE_OLD,
    b37_RELEASE_NEW, True)\<close>

definition b37_build_steps_lru_add_drain :: "step list" where
  \<open>b37_build_steps_lru_add_drain = [b37_build_steps_lru_add_drain_step1, b37_build_steps_lru_add_drain_step2]\<close>

lemma b37_build_steps_lru_add_drain_files: "steps_files b37_build_steps_lru_add_drain = {b37_SWAP_C}"
  by (simp add: b37_build_steps_lru_add_drain_def steps_files_fst insert_commute
      step_file [OF b37_build_steps_lru_add_drain_step1_def]
      step_file [OF b37_build_steps_lru_add_drain_step2_def])

lemma b37_build_steps_lru_add_drain_required: "all_required b37_build_steps_lru_add_drain"
  by (simp add: b37_build_steps_lru_add_drain_def all_required_def
      step_req [OF b37_build_steps_lru_add_drain_step1_def]
      step_req [OF b37_build_steps_lru_add_drain_step2_def])

definition b37_lru_add_drain_apply :: "outcome io" where
  \<open>b37_lru_add_drain_apply =
    apply_or_block b37_build_steps_lru_add_drain\<close>

lemma b37_lru_add_drain_apply_txn: "transactional (\<lambda>_. {b37_SWAP_C}) b37_lru_add_drain_apply"
  unfolding b37_lru_add_drain_apply_def
  by (intro txn_intros safe_intros)
    (simp_all add: is_backup_code BACKUP_SUFFIX_def b37_build_steps_lru_add_drain_files b37_SWAP_C_def)

definition proactive_reclaim_batch_fidelity_group :: group where
  \<open>proactive_reclaim_batch_fidelity_group =
    \<lparr>key = ''proactive_reclaim_batch_fidelity'',
     summary = ''cap one proactive-reclaim call at SWAP_CLUSTER_MAX, so a request is not overreclaimed towards the original target after an inner loop already satisfied part of it'',
     commits = [''0388536ac291 (v6.6, \'mm:vmscan: fix inaccurate reclaim during proactive reclaim\')''],
     group_files = [b37_MEMCONTROL_C],
     apply_fn = b37_batch_fidelity_apply, hard = False\<rparr>\<close>

lemma proactive_reclaim_batch_fidelity_group_declared [simp]: "well_declared proactive_reclaim_batch_fidelity_group"
  by (rule well_declaredI [OF b37_batch_fidelity_apply_txn]) (simp_all add: is_backup_code BACKUP_SUFFIX_def proactive_reclaim_batch_fidelity_group_def b37_MEMCONTROL_C_def)

definition proactive_reclaim_decaying_batches_group :: group where
  \<open>proactive_reclaim_decaying_batches_group =
    \<lparr>key = ''proactive_reclaim_decaying_batches'',
     summary = ''replace that fixed 32-page cap with a decaying batch ((reclaim - reclaimed) / 4): the cap\'s reclaim start/stop overhead cost more than its accuracy bought'',
     commits = [''287d5fedb377 (v6.9, \'mm: memcg: use larger batches for proactive reclaim\', Fixes: 0388536ac291)''],
     group_files = [b37_MEMCONTROL_C],
     apply_fn = b37_decaying_batches_apply, hard = False\<rparr>\<close>

lemma proactive_reclaim_decaying_batches_group_declared [simp]: "well_declared proactive_reclaim_decaying_batches_group"
  by (rule well_declaredI [OF b37_decaying_batches_apply_txn]) (simp_all add: is_backup_code BACKUP_SUFFIX_def proactive_reclaim_decaying_batches_group_def b37_MEMCONTROL_C_def)

definition reclaim_swappiness_defines_group :: group where
  \<open>reclaim_swappiness_defines_group =
    \<lparr>key = ''reclaim_swappiness_defines'',
     summary = ''MIN_SWAPPINESS / MAX_SWAPPINESS, and the three 200 literals they replace (the swappiness= parser of the next group validates against them)'',
     commits = [''410abb20acae (v6.11, \'mm: add defines for min/max swappiness\', patch 2 of the \'Add swappiness argument to memory.reclaim\' series -- carried because patch 3 names these constants)''],
     group_files = [b37_SWAP_H,
      b37_VMSCAN_C,
      b37_MEMCONTROL_C],
     apply_fn = b37_swappiness_defines_apply, hard = False\<rparr>\<close>

lemma reclaim_swappiness_defines_group_declared [simp]: "well_declared reclaim_swappiness_defines_group"
  by (rule well_declaredI [OF b37_swappiness_defines_apply_txn]) (simp_all add: is_backup_code BACKUP_SUFFIX_def reclaim_swappiness_defines_group_def b37_MEMCONTROL_C_def b37_SWAP_H_def b37_VMSCAN_C_def)

definition proactive_reclaim_swappiness_arg_group :: group where
  \<open>proactive_reclaim_swappiness_arg_group =
    \<lparr>key = ''proactive_reclaim_swappiness_arg'',
     summary = ''memory.reclaim gains a swappiness=<val> nested key: the value rides on scan_control to get_scan_count()/get_swappiness() through a new sc_swappiness() accessor, so a proactive reclaimer no longer has to rewrite the global vm.swappiness to steer file-vs-anon balance'',
     commits = [''68cd9050d871 (v6.11, \'mm: add swappiness= arg to memory.reclaim\', patch 3 of the same series)''],
     group_files = [b37_SWAP_H,
      b37_VMSCAN_C,
      b37_MEMCONTROL_C,
      b37_CGROUP_V2_RST],
     apply_fn = b37_swappiness_arg_apply, hard = False\<rparr>\<close>

lemma proactive_reclaim_swappiness_arg_group_declared [simp]: "well_declared proactive_reclaim_swappiness_arg_group"
  by (rule well_declaredI [OF b37_swappiness_arg_apply_txn]) (simp_all add: is_backup_code BACKUP_SUFFIX_def proactive_reclaim_swappiness_arg_group_def b37_CGROUP_V2_RST_def b37_MEMCONTROL_C_def b37_SWAP_H_def b37_VMSCAN_C_def)

definition proactive_reclaim_suspend_abort_group :: group where
  \<open>proactive_reclaim_suspend_abort_group =
    \<lparr>key = ''proactive_reclaim_suspend_abort'',
     summary = ''let the PM freezer interrupt a proactive reclaim: the MGLRU inner loop checks for a pending signal, and the handler returns -ERESTARTSYS so the syscall restarts after resume instead of failing the suspend'',
     commits = [''dc37771a43d4 (v7.2, \'mm: vmscan: abort proactive reclaim early when freezing for suspend\', Fixes: 287d5fedb377)''],
     group_files = [b37_VMSCAN_C,
      b37_MEMCONTROL_C],
     apply_fn = b37_suspend_abort_apply, hard = False\<rparr>\<close>

lemma proactive_reclaim_suspend_abort_group_declared [simp]: "well_declared proactive_reclaim_suspend_abort_group"
  by (rule well_declaredI [OF b37_suspend_abort_apply_txn]) (simp_all add: is_backup_code BACKUP_SUFFIX_def proactive_reclaim_suspend_abort_group_def b37_MEMCONTROL_C_def b37_VMSCAN_C_def)

definition lru_add_drain_dead_folios_group :: group where
  \<open>lru_add_drain_dead_folios_group =
    \<lparr>key = ''lru_add_drain_dead_folios'',
     summary = ''free a page that is already dead before it reaches the LRU, instead of adding it and taking it off again: the lru_add batch is filtered on its final reference, and the batch consumer tolerates the vacated slot'',
     commits = [''9669b87065a6 (v7.2, \'mm/lruvec: preemptively free dead folios during lru_add drain\')''],
     group_files = [b37_SWAP_C],
     apply_fn = b37_lru_add_drain_apply, hard = False\<rparr>\<close>

lemma lru_add_drain_dead_folios_group_declared [simp]: "well_declared lru_add_drain_dead_folios_group"
  by (rule well_declaredI [OF b37_lru_add_drain_apply_txn]) (simp_all add: is_backup_code BACKUP_SUFFIX_def lru_add_drain_dead_folios_group_def b37_SWAP_C_def)

definition b37_build_groups :: "group list" where
  \<open>b37_build_groups = [proactive_reclaim_batch_fidelity_group, proactive_reclaim_decaying_batches_group, reclaim_swappiness_defines_group, proactive_reclaim_swappiness_arg_group, proactive_reclaim_suspend_abort_group, lru_add_drain_dead_folios_group]\<close>

end
