(* ===== verification/Core_Memcg.thy ===== *)
theory Core_Memcg
  imports Batch37_Reclaim_Paths
begin

text \<open>
  \<^verbatim>\<open>scripts/abk_stable_core.py\<close>, lines up to 1336: memory.reclaim and the first MGLRU groups. Anchors, steps and
  group functions stand in source order under the source's names.
\<close>

definition memcg_reclaim_step1 :: step where
  \<open>memcg_reclaim_step1 =
   (''include/linux/swap.h'',
    block
     [''extern unsigned long try_to_free_pages(struct zonelist *zonelist, int order,'',
      ''					gfp_t gfp_mask, nodemask_t *mask);'',
      ''extern unsigned long try_to_free_mem_cgroup_pages(struct mem_cgroup *memcg,'',
      ''						  unsigned long nr_pages,'',
      ''						  gfp_t gfp_mask,'',
      ''						  bool may_swap);''],
    block
     [''extern unsigned long try_to_free_pages(struct zonelist *zonelist, int order,'',
      ''					gfp_t gfp_mask, nodemask_t *mask);'',
      [],
      ''/* ABK stable_515_backport: per-memcg proactive reclaim options (android14-6.1). */'',
      ''#define MEMCG_RECLAIM_MAY_SWAP (1 << 1)'',
      ''#define MEMCG_RECLAIM_PROACTIVE (1 << 2)'',
      ''extern unsigned long try_to_free_mem_cgroup_pages(struct mem_cgroup *memcg,'',
      ''						  unsigned long nr_pages,'',
      ''						  gfp_t gfp_mask,'',
      ''						  unsigned int reclaim_options);''], True)\<close>

definition memcg_reclaim_step2 :: step where
  \<open>memcg_reclaim_step2 =
   (''mm/vmscan.c'',
    block
     [''	/* Can pages be swapped as part of reclaim? */'',
      ''	unsigned int may_swap:1;'',
      []],
    block
     [''	/* Can pages be swapped as part of reclaim? */'',
      ''	unsigned int may_swap:1;'',
      [],
      ''	/* ABK stable_515_backport: set for proactive memory.reclaim requests. */'',
      ''	unsigned int proactive:1;'',
      []], True)\<close>

definition memcg_reclaim_step3 :: step where
  \<open>memcg_reclaim_step3 =
   (''mm/vmscan.c'',
    block
     [''unsigned long try_to_free_mem_cgroup_pages(struct mem_cgroup *memcg,'',
      ''					   unsigned long nr_pages,'',
      ''					   gfp_t gfp_mask,'',
      ''					   bool may_swap)'',
      ''{'',
      ''	unsigned long nr_reclaimed;'',
      ''	unsigned int noreclaim_flag;'',
      ''	struct scan_control sc = {'',
      ''		.nr_to_reclaim = max(nr_pages, SWAP_CLUSTER_MAX),'',
      ''		.gfp_mask = (current_gfp_context(gfp_mask) & GFP_RECLAIM_MASK) |'',
      ''				(GFP_HIGHUSER_MOVABLE & ~GFP_RECLAIM_MASK),'',
      ''		.reclaim_idx = MAX_NR_ZONES - 1,'',
      ''		.target_mem_cgroup = memcg,'',
      ''		.priority = DEF_PRIORITY,'',
      ''		.may_writepage = !laptop_mode,'',
      ''		.may_unmap = 1,'',
      ''		.may_swap = may_swap,'',
      ''	};''],
    block
     [''unsigned long try_to_free_mem_cgroup_pages(struct mem_cgroup *memcg,'',
      ''					   unsigned long nr_pages,'',
      ''					   gfp_t gfp_mask,'',
      ''					   unsigned int reclaim_options)'',
      ''{'',
      ''	unsigned long nr_reclaimed;'',
      ''	unsigned int noreclaim_flag;'',
      ''	struct scan_control sc = {'',
      ''		.nr_to_reclaim = max(nr_pages, SWAP_CLUSTER_MAX),'',
      ''		.gfp_mask = (current_gfp_context(gfp_mask) & GFP_RECLAIM_MASK) |'',
      ''				(GFP_HIGHUSER_MOVABLE & ~GFP_RECLAIM_MASK),'',
      ''		.reclaim_idx = MAX_NR_ZONES - 1,'',
      ''		.target_mem_cgroup = memcg,'',
      ''		.priority = DEF_PRIORITY,'',
      ''		.may_writepage = !laptop_mode,'',
      ''		.may_unmap = 1,'',
      ''		.may_swap = !!(reclaim_options & MEMCG_RECLAIM_MAY_SWAP),'',
      ''		.proactive = !!(reclaim_options & MEMCG_RECLAIM_PROACTIVE),'',
      ''	};''], True)\<close>

definition memcg_reclaim_step4 :: step where
  \<open>memcg_reclaim_step4 =
   (''mm/vmscan.c'',
    block
     [''		/* Record the group\'s reclaim efficiency */'',
      ''		vmpressure(sc->gfp_mask, memcg, false,'',
      ''			   sc->nr_scanned - scanned,'',
      ''			   sc->nr_reclaimed - reclaimed);''],
    block
     [''		/* Record the group\'s reclaim efficiency */'',
      ''		if (!sc->proactive)'',
      ''			vmpressure(sc->gfp_mask, memcg, false,'',
      ''				   sc->nr_scanned - scanned,'',
      ''				   sc->nr_reclaimed - reclaimed);''], False)\<close>

definition memcg_reclaim_step5 :: step where
  \<open>memcg_reclaim_step5 =
   (''mm/vmscan.c'',
    block
     [''	/* Record the subtree\'s reclaim efficiency */'',
      ''	vmpressure(sc->gfp_mask, sc->target_mem_cgroup, true,'',
      ''		   sc->nr_scanned - nr_scanned,'',
      ''		   sc->nr_reclaimed - nr_reclaimed);''],
    block
     [''	/* Record the subtree\'s reclaim efficiency */'',
      ''	if (!sc->proactive)'',
      ''		vmpressure(sc->gfp_mask, sc->target_mem_cgroup, true,'',
      ''			   sc->nr_scanned - nr_scanned,'',
      ''			   sc->nr_reclaimed - nr_reclaimed);''], False)\<close>

definition memcg_reclaim_step6 :: step where
  \<open>memcg_reclaim_step6 =
   (''mm/vmscan.c'',
    block
     [''	do {'',
      ''		vmpressure_prio(sc->gfp_mask, sc->target_mem_cgroup,'',
      ''				sc->priority);'',
      ''		sc->nr_scanned = 0;''],
    block
     [''	do {'',
      ''		if (!sc->proactive)'',
      ''			vmpressure_prio(sc->gfp_mask, sc->target_mem_cgroup,'',
      ''					sc->priority);'',
      ''		sc->nr_scanned = 0;''], False)\<close>

definition memcg_reclaim_step7 :: step where
  \<open>memcg_reclaim_step7 =
   (''mm/memcontrol.c'',
    block
     [''	bool passed_oom = false;'',
      ''	bool may_swap = true;'',
      ''	bool drained = false;''],
    block
     [''	bool passed_oom = false;'',
      ''	unsigned int reclaim_options = MEMCG_RECLAIM_MAY_SWAP;'',
      ''	bool drained = false;''], True)\<close>

definition memcg_reclaim_step8 :: step where
  \<open>memcg_reclaim_step8 =
   (''mm/memcontrol.c'',
    block
     [''	} else {'',
      ''		mem_over_limit = mem_cgroup_from_counter(counter, memsw);'',
      ''		may_swap = false;'',
      ''	}''],
    block
     [''	} else {'',
      ''		mem_over_limit = mem_cgroup_from_counter(counter, memsw);'',
      ''		reclaim_options &= ~MEMCG_RECLAIM_MAY_SWAP;'',
      ''	}''], True)\<close>

definition memcg_reclaim_step9 :: step where
  \<open>memcg_reclaim_step9 =
   (''mm/memcontrol.c'',
    block
     [''		psi_memstall_enter(&pflags);'',
      ''		nr_reclaimed += try_to_free_mem_cgroup_pages(memcg, nr_pages,'',
      ''							     gfp_mask, true);'',
      ''		psi_memstall_leave(&pflags);''],
    block
     [''		psi_memstall_enter(&pflags);'',
      ''		nr_reclaimed += try_to_free_mem_cgroup_pages(memcg, nr_pages,'',
      ''							     gfp_mask,'',
      ''							     MEMCG_RECLAIM_MAY_SWAP);'',
      ''		psi_memstall_leave(&pflags);''], True)\<close>

definition memcg_reclaim_step10 :: step where
  \<open>memcg_reclaim_step10 =
   (''mm/memcontrol.c'',
    block
     [''	psi_memstall_enter(&pflags);'',
      ''	nr_reclaimed = try_to_free_mem_cgroup_pages(mem_over_limit, nr_pages,'',
      ''						    gfp_mask, may_swap);'',
      ''	psi_memstall_leave(&pflags);''],
    block
     [''	psi_memstall_enter(&pflags);'',
      ''	nr_reclaimed = try_to_free_mem_cgroup_pages(mem_over_limit, nr_pages,'',
      ''						    gfp_mask, reclaim_options);'',
      ''	psi_memstall_leave(&pflags);''], True)\<close>

definition memcg_reclaim_step11 :: step where
  \<open>memcg_reclaim_step11 =
   (''mm/memcontrol.c'',
    block
     [''		if (!try_to_free_mem_cgroup_pages(memcg, 1,'',
      ''					GFP_KERNEL, !memsw)) {'',
      ''			ret = -EBUSY;'',
      ''			break;''],
    block
     [''		if (!try_to_free_mem_cgroup_pages(memcg, 1, GFP_KERNEL,'',
      ''					memsw ? 0 : MEMCG_RECLAIM_MAY_SWAP)) {'',
      ''			ret = -EBUSY;'',
      ''			break;''], True)\<close>

definition memcg_reclaim_step12 :: step where
  \<open>memcg_reclaim_step12 =
   (''mm/memcontrol.c'',
    block
     [''		progress = try_to_free_mem_cgroup_pages(memcg, 1,'',
      ''							GFP_KERNEL, true);'',
      []],
    block
     [''		progress = try_to_free_mem_cgroup_pages(memcg, 1, GFP_KERNEL,'',
      ''							MEMCG_RECLAIM_MAY_SWAP);'',
      []], True)\<close>

definition memcg_reclaim_step13 :: step where
  \<open>memcg_reclaim_step13 =
   (''mm/memcontrol.c'',
    block
     [''		reclaimed = try_to_free_mem_cgroup_pages(memcg, nr_pages - high,'',
      ''							 GFP_KERNEL, true);'',
      []],
    block
     [''		reclaimed = try_to_free_mem_cgroup_pages(memcg, nr_pages - high,'',
      ''					GFP_KERNEL, MEMCG_RECLAIM_MAY_SWAP);'',
      []], True)\<close>

definition memcg_reclaim_step14 :: step where
  \<open>memcg_reclaim_step14 =
   (''mm/memcontrol.c'',
    block
     [''			if (!try_to_free_mem_cgroup_pages(memcg, nr_pages - max,'',
      ''							  GFP_KERNEL, true))'',
      []],
    block
     [''			if (!try_to_free_mem_cgroup_pages(memcg, nr_pages - max,'',
      ''					GFP_KERNEL, MEMCG_RECLAIM_MAY_SWAP))'',
      []], True)\<close>

definition memcg_reclaim_step15 :: step where
  \<open>memcg_reclaim_step15 =
   (''mm/memcontrol.c'',
    ''static struct cftype memory_files[] = {'',
    block
     [''/* ABK stable_515_backport: per-memcg proactive reclaim (android14-6.1 memory.reclaim). */'',
      ''static ssize_t memory_reclaim(struct kernfs_open_file *of, char *buf,'',
      ''			      size_t nbytes, loff_t off)'',
      ''{'',
      ''	struct mem_cgroup *memcg = mem_cgroup_from_css(of_css(of));'',
      ''	unsigned int nr_retries = MAX_RECLAIM_RETRIES;'',
      ''	unsigned long nr_to_reclaim, nr_reclaimed = 0;'',
      ''	unsigned int reclaim_options;'',
      ''	int err;'',
      [],
      ''	buf = strstrip(buf);'',
      ''	err = page_counter_memparse(buf, "", &nr_to_reclaim);'',
      ''	if (err)'',
      ''		return err;'',
      [],
      ''	reclaim_options	= MEMCG_RECLAIM_MAY_SWAP | MEMCG_RECLAIM_PROACTIVE;'',
      ''	while (nr_reclaimed < nr_to_reclaim) {'',
      ''		unsigned long reclaimed;'',
      [],
      ''		if (signal_pending(current))'',
      ''			return -EINTR;'',
      [],
      ''		/*'',
      ''		 * This is the final attempt, drain percpu lru caches in the'',
      ''		 * hope of introducing more evictable pages for'',
      ''		 * try_to_free_mem_cgroup_pages().'',
      ''		 */'',
      ''		if (!nr_retries)'',
      ''			lru_add_drain_all();'',
      [],
      ''		reclaimed = try_to_free_mem_cgroup_pages(memcg,'',
      ''						nr_to_reclaim - nr_reclaimed,'',
      ''						GFP_KERNEL, reclaim_options);'',
      [],
      ''		if (!reclaimed && !nr_retries--)'',
      ''			return -EAGAIN;'',
      [],
      ''		nr_reclaimed += reclaimed;'',
      ''	}'',
      [],
      ''	return nbytes;'',
      ''}'',
      [],
      ''static struct cftype memory_files[] = {''], True)\<close>

definition memcg_reclaim_step16 :: step where
  \<open>memcg_reclaim_step16 =
   (''mm/memcontrol.c'',
    block
     [''	{'',
      ''		.name = "oom.group",'',
      ''		.flags = CFTYPE_NOT_ON_ROOT | CFTYPE_NS_DELEGATABLE,'',
      ''		.seq_show = memory_oom_group_show,'',
      ''		.write = memory_oom_group_write,'',
      ''	},'',
      ''	{ }	/* terminate */''],
    block
     [''	{'',
      ''		.name = "oom.group",'',
      ''		.flags = CFTYPE_NOT_ON_ROOT | CFTYPE_NS_DELEGATABLE,'',
      ''		.seq_show = memory_oom_group_show,'',
      ''		.write = memory_oom_group_write,'',
      ''	},'',
      ''	{'',
      ''		.name = "reclaim",'',
      ''		.flags = CFTYPE_NS_DELEGATABLE,'',
      ''		.write = memory_reclaim,'',
      ''	},'',
      ''	{ }	/* terminate */''], True)\<close>

definition memcg_reclaim_step17 :: step where
  \<open>memcg_reclaim_step17 =
   (''Documentation/admin-guide/cgroup-v2.rst'',
    block
     [''	utility is limited to providing the final safety net.'',
      [],
      ''  memory.oom.group'',
      []],
    block
     [''	utility is limited to providing the final safety net.'',
      [],
      ''  memory.reclaim'',
      ''	A write-only nested-keyed file which exists for all cgroups.'',
      [],
      ''	This is a simple interface to trigger memory reclaim in the'',
      ''	target cgroup.'',
      [],
      ''	This file accepts a single key, the number of bytes to reclaim.'',
      ''	No nested keys are currently supported.'',
      [],
      ''	Example::'',
      [],
      ''	  echo "1G" > memory.reclaim'',
      [],
      ''	The interface can be later extended with nested keys to'',
      ''	configure the reclaim behavior. For example, specify the'',
      ''	type of memory to reclaim from (anon, file, ..).'',
      [],
      ''	Please note that the kernel can over or under reclaim from'',
      ''	the target cgroup. If less bytes are reclaimed than the'',
      ''	specified amount, -EAGAIN is returned.'',
      [],
      ''  memory.oom.group'',
      []], True)\<close>

definition memcg_reclaim_steps :: "step list" where
  \<open>memcg_reclaim_steps = [memcg_reclaim_step1, memcg_reclaim_step2, memcg_reclaim_step3, memcg_reclaim_step4, memcg_reclaim_step5, memcg_reclaim_step6, memcg_reclaim_step7, memcg_reclaim_step8, memcg_reclaim_step9, memcg_reclaim_step10, memcg_reclaim_step11, memcg_reclaim_step12, memcg_reclaim_step13, memcg_reclaim_step14, memcg_reclaim_step15, memcg_reclaim_step16, memcg_reclaim_step17]\<close>

definition memcg_reclaim_apply :: "outcome io" where
  \<open>memcg_reclaim_apply =
    io_bind (read_or_empty ''mm/memcontrol.c'') (\<lambda>probe.
    if contains b37_MEMORY_RECLAIM_MARKER probe
    then io_ret (AlreadyPresent, ''memory.reclaim is already in memcontrol.c'')
    else
    apply_or_block memcg_reclaim_steps)\<close>

lemma memcg_reclaim_steps_files: "steps_files memcg_reclaim_steps = {''include/linux/swap.h'', ''mm/vmscan.c'', ''mm/memcontrol.c'', ''Documentation/admin-guide/cgroup-v2.rst''}"
  by (simp add: memcg_reclaim_steps_def steps_files_fst insert_commute
      step_file [OF memcg_reclaim_step1_def]
      step_file [OF memcg_reclaim_step2_def]
      step_file [OF memcg_reclaim_step3_def]
      step_file [OF memcg_reclaim_step4_def]
      step_file [OF memcg_reclaim_step5_def]
      step_file [OF memcg_reclaim_step6_def]
      step_file [OF memcg_reclaim_step7_def]
      step_file [OF memcg_reclaim_step8_def]
      step_file [OF memcg_reclaim_step9_def]
      step_file [OF memcg_reclaim_step10_def]
      step_file [OF memcg_reclaim_step11_def]
      step_file [OF memcg_reclaim_step12_def]
      step_file [OF memcg_reclaim_step13_def]
      step_file [OF memcg_reclaim_step14_def]
      step_file [OF memcg_reclaim_step15_def]
      step_file [OF memcg_reclaim_step16_def]
      step_file [OF memcg_reclaim_step17_def])

lemma memcg_reclaim_apply_txn: "transactional (\<lambda>_. {''include/linux/swap.h'', ''mm/vmscan.c'', ''mm/memcontrol.c'', ''Documentation/admin-guide/cgroup-v2.rst''}) memcg_reclaim_apply"
  unfolding memcg_reclaim_apply_def
  by (intro txn_intros safe_intros)
    (simp_all add: is_backup_code BACKUP_SUFFIX_def memcg_reclaim_steps_files)

definition mglru_clean_workingset_step1 :: step where
  \<open>mglru_clean_workingset_step1 =
   (''mm/workingset.c'',
    block
     [''	bool workingset;'',
      ''	int memcgid;'',
      []],
    block
     [''	bool workingset;'',
      ''	int memcgid;'',
      [],
      ''	VM_BUG_ON_PAGE(!PageLocked(page), page);'',
      []], True)\<close>

definition mglru_clean_workingset_steps :: "step list" where
  \<open>mglru_clean_workingset_steps = [mglru_clean_workingset_step1]\<close>

definition mglru_clean_workingset_apply :: "outcome io" where
  \<open>mglru_clean_workingset_apply =
    apply_or_block mglru_clean_workingset_steps\<close>

lemma mglru_clean_workingset_steps_files: "steps_files mglru_clean_workingset_steps = {''mm/workingset.c''}"
  by (simp add: mglru_clean_workingset_steps_def steps_files_fst insert_commute
      step_file [OF mglru_clean_workingset_step1_def])

lemma mglru_clean_workingset_steps_required: "all_required mglru_clean_workingset_steps"
  by (simp add: mglru_clean_workingset_steps_def all_required_def
      step_req [OF mglru_clean_workingset_step1_def])

lemma mglru_clean_workingset_apply_txn: "transactional (\<lambda>_. {''mm/workingset.c''}) mglru_clean_workingset_apply"
  unfolding mglru_clean_workingset_apply_def
  by (intro txn_intros safe_intros)
    (simp_all add: is_backup_code BACKUP_SUFFIX_def mglru_clean_workingset_steps_files)

definition mglru_optimize_deactivation_step1 :: step where
  \<open>mglru_optimize_deactivation_step1 =
   (''mm/swap.c'',
    block
     [''#else'',
      ''static void page_inc_refs(struct page *page)'',
      ''{'',
      ''}'',
      ''#endif /* CONFIG_LRU_GEN */'',
      []],
    block
     [''#else'',
      ''static void page_inc_refs(struct page *page)'',
      ''{'',
      ''}'',
      ''#endif /* CONFIG_LRU_GEN */'',
      [],
      ''#ifdef CONFIG_LRU_GEN'',
      ''/* ABK stable_515_backport: v6.14 cc8ec7be78ff, pagevec shape */'',
      ''static bool lru_gen_clear_refs(struct page *page)'',
      ''{'',
      ''	int gen;'',
      ''	int type;'',
      ''	struct lruvec *lruvec;'',
      [],
      ''	gen = page_lru_gen(page);'',
      ''	if (gen < 0)'',
      ''		return true;'',
      [],
      ''	type = page_is_file_lru(page);'',
      ''	/*'',
      ''	 * LRU_REFS_FLAGS is a mm/vmscan.c file-local define on this tree'',
      ''	 * (BIT(PG_referenced) | BIT(PG_workingset)); spell it out here'',
      ''	 * because mm/swap.c cannot see it.'',
      ''	 */'',
      ''	set_mask_bits(&page->flags, LRU_REFS_MASK | BIT(PG_referenced) |'',
      ''			      BIT(PG_workingset), 0);'',
      [],
      ''	lruvec = mem_cgroup_page_lruvec(page);'',
      ''	/* whether can do without shuffling under the LRU lock */'',
      ''	return gen == lru_gen_from_seq(READ_ONCE(lruvec->lrugen.min_seq[type]));'',
      ''}'',
      ''#else'',
      ''static bool lru_gen_clear_refs(struct page *page)'',
      ''{'',
      ''	return false;'',
      ''}'',
      ''#endif /* CONFIG_LRU_GEN */'',
      []], True)\<close>

definition mglru_optimize_deactivation_step2 :: step where
  \<open>mglru_optimize_deactivation_step2 =
   (''mm/swap.c'',
    block
     [''static void lru_deactivate_file_fn(struct page *page, struct lruvec *lruvec)'',
      ''{'',
      ''	bool active = PageActive(page);'',
      []],
    block
     [''static void lru_deactivate_file_fn(struct page *page, struct lruvec *lruvec)'',
      ''{'',
      ''	bool active = PageActive(page) || lru_gen_enabled();'',
      []], True)\<close>

definition mglru_optimize_deactivation_step3 :: step where
  \<open>mglru_optimize_deactivation_step3 =
   (''mm/swap.c'',
    block
     [''		del_page_from_lru_list(page, lruvec);'',
      ''		ClearPageActive(page);'',
      ''		ClearPageReferenced(page);'',
      ''		/*'',
      ''		 * Lazyfree pages are clean anonymous pages.  They have'',
      []],
    block
     [''		del_page_from_lru_list(page, lruvec);'',
      ''		ClearPageActive(page);'',
      ''		if (lru_gen_enabled())'',
      ''			lru_gen_clear_refs(page);'',
      ''		else'',
      ''			ClearPageReferenced(page);'',
      ''		/*'',
      ''		 * Lazyfree pages are clean anonymous pages.  They have'',
      []], True)\<close>

definition mglru_optimize_deactivation_step4 :: step where
  \<open>mglru_optimize_deactivation_step4 =
   (''mm/swap.c'',
    block
     [''	if (PageUnevictable(page))'',
      ''		return;'',
      [],
      ''	if (likely(get_page_unless_zero(page))) {'',
      ''		struct pagevec *pvec;'',
      []],
    block
     [''	if (PageUnevictable(page))'',
      ''		return;'',
      [],
      ''	if (lru_gen_enabled() && lru_gen_clear_refs(page))'',
      ''		return;'',
      [],
      ''	if (likely(get_page_unless_zero(page))) {'',
      ''		struct pagevec *pvec;'',
      []], True)\<close>

definition mglru_optimize_deactivation_step5 :: step where
  \<open>mglru_optimize_deactivation_step5 =
   (''mm/swap.c'',
    block
     [''void deactivate_page(struct page *page)'',
      ''{'',
      ''	if (PageLRU(page) && !PageUnevictable(page) &&'',
      ''	    (PageActive(page) || lru_gen_enabled())) {'',
      ''		struct pagevec *pvec;'',
      [],
      ''		local_lock(&lru_pvecs.lock);'',
      ''		pvec = this_cpu_ptr(&lru_pvecs.lru_deactivate);'',
      []],
    block
     [''void deactivate_page(struct page *page)'',
      ''{'',
      ''	struct pagevec *pvec;'',
      [],
      ''	if (PageLRU(page) && !PageUnevictable(page)) {'',
      ''		if (lru_gen_enabled() ? lru_gen_clear_refs(page)'',
      ''					      : !PageActive(page))'',
      ''			return;'',
      [],
      ''		local_lock(&lru_pvecs.lock);'',
      ''		pvec = this_cpu_ptr(&lru_pvecs.lru_deactivate);'',
      []], True)\<close>

definition mglru_optimize_deactivation_steps :: "step list" where
  \<open>mglru_optimize_deactivation_steps = [mglru_optimize_deactivation_step1, mglru_optimize_deactivation_step2, mglru_optimize_deactivation_step3, mglru_optimize_deactivation_step4, mglru_optimize_deactivation_step5]\<close>

definition mglru_optimize_deactivation_apply :: "outcome io" where
  \<open>mglru_optimize_deactivation_apply =
    apply_or_block mglru_optimize_deactivation_steps\<close>

lemma mglru_optimize_deactivation_steps_files: "steps_files mglru_optimize_deactivation_steps = {''mm/swap.c''}"
  by (simp add: mglru_optimize_deactivation_steps_def steps_files_fst insert_commute
      step_file [OF mglru_optimize_deactivation_step1_def]
      step_file [OF mglru_optimize_deactivation_step2_def]
      step_file [OF mglru_optimize_deactivation_step3_def]
      step_file [OF mglru_optimize_deactivation_step4_def]
      step_file [OF mglru_optimize_deactivation_step5_def])

lemma mglru_optimize_deactivation_steps_required: "all_required mglru_optimize_deactivation_steps"
  by (simp add: mglru_optimize_deactivation_steps_def all_required_def
      step_req [OF mglru_optimize_deactivation_step1_def]
      step_req [OF mglru_optimize_deactivation_step2_def]
      step_req [OF mglru_optimize_deactivation_step3_def]
      step_req [OF mglru_optimize_deactivation_step4_def]
      step_req [OF mglru_optimize_deactivation_step5_def])

lemma mglru_optimize_deactivation_apply_txn: "transactional (\<lambda>_. {''mm/swap.c''}) mglru_optimize_deactivation_apply"
  unfolding mglru_optimize_deactivation_apply_def
  by (intro txn_intros safe_intros)
    (simp_all add: is_backup_code BACKUP_SUFFIX_def mglru_optimize_deactivation_steps_files)

definition MGLRU_AGING_FEEDBACK_PROBE :: str where
  \<open>MGLRU_AGING_FEEDBACK_PROBE = ''#define evictable_min_seq(min_seq, swappiness)''\<close>

definition MGLRU_TYPE_SELECTION_PROBE :: str where
  \<open>MGLRU_TYPE_SELECTION_PROBE = ''static int get_type_to_scan(struct lruvec *lruvec, int swappiness)''\<close>

definition MGLRU_WAKE_FLUSHERS_PROBE :: str where
  \<open>MGLRU_WAKE_FLUSHERS_PROBE = '' * If too many file cache in the coldest generation can\'t be evicted''\<close>

end
