(* ===== verification/Core_Mglru.thy ===== *)
theory Core_Mglru
  imports Core_Memcg
begin

text \<open>
  \<^verbatim>\<open>scripts/abk_stable_core.py\<close>, lines up to 2292: the MGLRU rework groups. Anchors, steps and
  group functions stand in source order under the source's names.
\<close>

definition mglru_rework_aging_feedback_step1 :: step where
  \<open>mglru_rework_aging_feedback_step1 =
   (''include/linux/mmzone.h'',
    block
     ['' * stored in min_seq[] separately for anon and file types as clean file pages'',
      '' * can be evicted regardless of swap constraints.'',
      '' *'',
      '' * Normally anon and file min_seq are in sync. But if swapping is constrained,'',
      '' * e.g., out of swap space, file min_seq is allowed to advance and leave anon'',
      '' * min_seq behind.'',
      []],
    block
     ['' * stored in min_seq[] separately for anon and file types so that they can be'',
      '' * incremented independently. Ideally min_seq[] are kept in sync when both anon'',
      '' * and file types are evictable. However, to adapt to situations like extreme'',
      '' * swappiness, they are allowed to be out of sync by at most'',
      '' * MAX_NR_GENS-MIN_NR_GENS-1.'',
      []], True)\<close>

definition mglru_rework_aging_feedback_step2 :: step where
  \<open>mglru_rework_aging_feedback_step2 =
   (''include/linux/mmzone.h'',
    block
     [''	/* the first tier doesn\'t need protection, hence the minus one */'',
      ''	unsigned long protected[NR_HIST_GENS][ANON_AND_FILE][MAX_NR_TIERS - 1];'',
      []],
    block
     [''	/* can only be modified under the LRU lock */'',
      ''	unsigned long protected[NR_HIST_GENS][ANON_AND_FILE][MAX_NR_TIERS];'',
      []], True)\<close>

definition mglru_rework_aging_feedback_step3 :: step where
  \<open>mglru_rework_aging_feedback_step3 =
   (''include/linux/mmzone.h'',
    block
     [''	int batched;'',
      ''	bool can_swap;'',
      ''	bool full_scan;'',
      []],
    block
     [''	int batched;'',
      ''	int swappiness;'',
      ''	bool full_scan;'',
      []], True)\<close>

definition mglru_rework_aging_feedback_step4 :: step where
  \<open>mglru_rework_aging_feedback_step4 =
   (''mm/vmscan.c'',
    block
     [(''#define for_each_gen_type_zone(gen, type, zone)				'' @ [BSL]),
      (''	for ((gen) = 0; (gen) < MAX_NR_GENS; (gen)++)			'' @ [BSL]),
      (''		for ((type) = 0; (type) < ANON_AND_FILE; (type)++)	'' @ [BSL]),
      ''			for ((zone) = 0; (zone) < MAX_NR_ZONES; (zone)++)'',
      []],
    block
     [(''#define for_each_gen_type_zone(gen, type, zone)				'' @ [BSL]),
      (''	for ((gen) = 0; (gen) < MAX_NR_GENS; (gen)++)			'' @ [BSL]),
      (''		for ((type) = 0; (type) < ANON_AND_FILE; (type)++)	'' @ [BSL]),
      ''			for ((zone) = 0; (zone) < MAX_NR_ZONES; (zone)++)'',
      [],
      (''#define evictable_min_seq(min_seq, swappiness)				'' @ [BSL]),
      ''	min((min_seq)[!(swappiness)], (min_seq)[(swappiness) <= MAX_SWAPPINESS])'',
      [],
      (''#define for_each_evictable_type(type, swappiness)			'' @ [BSL]),
      ''	for ((type) = !(swappiness); (type) <= ((swappiness) <= MAX_SWAPPINESS); (type)++)'',
      []], True)\<close>

definition mglru_rework_aging_feedback_step5 :: step where
  \<open>mglru_rework_aging_feedback_step5 =
   (''mm/vmscan.c'',
    block
     [''static bool __maybe_unused seq_is_valid(struct lruvec *lruvec)'',
      ''{'',
      ''	/* see the comment on lru_gen_struct */'',
      ''	return get_nr_gens(lruvec, LRU_GEN_FILE) >= MIN_NR_GENS &&'',
      ''	       get_nr_gens(lruvec, LRU_GEN_FILE) <= get_nr_gens(lruvec, LRU_GEN_ANON) &&'',
      ''	       get_nr_gens(lruvec, LRU_GEN_ANON) <= MAX_NR_GENS;'',
      []],
    block
     [''static bool __maybe_unused seq_is_valid(struct lruvec *lruvec)'',
      ''{'',
      ''	int type;'',
      [],
      ''	for (type = 0; type < ANON_AND_FILE; type++) {'',
      ''		int n = get_nr_gens(lruvec, type);'',
      [],
      ''		if (n < MIN_NR_GENS || n > MAX_NR_GENS)'',
      ''			return false;'',
      ''	}'',
      [],
      ''	return true;'',
      []], True)\<close>

definition mglru_rework_aging_feedback_step6 :: step where
  \<open>mglru_rework_aging_feedback_step6 =
   (''mm/vmscan.c'',
    block
     [''	for (type = !walk->can_swap; type < ANON_AND_FILE; type++) {'',
      ''		size += type ? get_mm_counter(mm, MM_FILEPAGES) :''],
    block
     [''	for_each_evictable_type(type, walk->swappiness) {'',
      ''		size += type ? get_mm_counter(mm, MM_FILEPAGES) :''], True)\<close>

definition mglru_rework_aging_feedback_step7 :: step where
  \<open>mglru_rework_aging_feedback_step7 =
   (''mm/vmscan.c'',
    block
     [''	if (vma_is_anonymous(vma))'',
      ''		return !walk->can_swap;'',
      []],
    block
     [''	if (vma_is_anonymous(vma))'',
      ''		return !walk->swappiness;'',
      []], True)\<close>

definition mglru_rework_aging_feedback_step8 :: step where
  \<open>mglru_rework_aging_feedback_step8 =
   (''mm/vmscan.c'',
    block
     [''	if (shmem_mapping(mapping))'',
      ''		return !walk->can_swap;'',
      [],
      ''	/* to exclude special mappings like dax, etc. */'',
      ''	return !mapping->a_ops->readpage;'',
      []],
    block
     [''	if (shmem_mapping(mapping))'',
      ''		return !walk->swappiness;'',
      [],
      ''	if (walk->swappiness > MAX_SWAPPINESS)'',
      ''		return true;'',
      [],
      ''	/* to exclude special mappings like dax, etc. */'',
      ''	return !mapping->a_ops->readpage;'',
      []], True)\<close>

definition mglru_rework_aging_feedback_step9 :: step where
  \<open>mglru_rework_aging_feedback_step9 =
   (''mm/vmscan.c'',
    block
     [''static struct page *get_pfn_page(unsigned long pfn, struct mem_cgroup *memcg,'',
      ''				 struct pglist_data *pgdat, bool can_swap)'',
      ''{'',
      ''	struct page *page;'',
      [],
      ''	/* try to avoid unnecessary memory loads */'',
      ''	if (pfn < pgdat->node_start_pfn || pfn >= pgdat_end_pfn(pgdat))'',
      ''		return NULL;'',
      [],
      ''	page = compound_head(pfn_to_page(pfn));'',
      ''	if (page_to_nid(page) != pgdat->node_id)'',
      ''		return NULL;'',
      [],
      ''	if (page_memcg_rcu(page) != memcg)'',
      ''		return NULL;'',
      [],
      ''	/* file VMAs can contain anon pages from COW */'',
      ''	if (!page_is_file_lru(page) && !can_swap)'',
      ''		return NULL;'',
      [],
      ''	return page;'',
      ''}'',
      []],
    block
     [''static struct page *get_pfn_page(unsigned long pfn, struct mem_cgroup *memcg,'',
      ''				 struct pglist_data *pgdat)'',
      ''{'',
      ''	struct page *page;'',
      [],
      ''	/* try to avoid unnecessary memory loads */'',
      ''	if (pfn < pgdat->node_start_pfn || pfn >= pgdat_end_pfn(pgdat))'',
      ''		return NULL;'',
      [],
      ''	page = compound_head(pfn_to_page(pfn));'',
      ''	if (page_to_nid(page) != pgdat->node_id)'',
      ''		return NULL;'',
      [],
      ''	if (page_memcg_rcu(page) != memcg)'',
      ''		return NULL;'',
      [],
      ''	return page;'',
      ''}'',
      []], True)\<close>

definition mglru_rework_aging_feedback_step10 :: step where
  \<open>mglru_rework_aging_feedback_step10 =
   (''mm/vmscan.c'',
    block
     [''		page = get_pfn_page(pfn, memcg, pgdat, walk->can_swap);'',
      ''		if (!page)'',
      ''			continue;'',
      [],
      ''		if (!ptep_test_and_clear_young(args->vma, addr, pte + i))'',
      []],
    block
     [''		page = get_pfn_page(pfn, memcg, pgdat);'',
      ''		if (!page)'',
      ''			continue;'',
      [],
      ''		if (!ptep_test_and_clear_young(args->vma, addr, pte + i))'',
      []], True)\<close>

definition mglru_rework_aging_feedback_step11 :: step where
  \<open>mglru_rework_aging_feedback_step11 =
   (''mm/vmscan.c'',
    block
     [''		page = get_pfn_page(pfn, memcg, pgdat, walk->can_swap);'',
      ''		if (!page)'',
      ''			goto next;'',
      []],
    block
     [''		page = get_pfn_page(pfn, memcg, pgdat);'',
      ''		if (!page)'',
      ''			goto next;'',
      []], True)\<close>

definition mglru_rework_aging_feedback_step12 :: step where
  \<open>mglru_rework_aging_feedback_step12 =
   (''mm/vmscan.c'',
    block
     [''	struct page *page = pvmw->page;'',
      ''	bool can_swap = !page_is_file_lru(page);'',
      ''	struct mem_cgroup *memcg = page_memcg(page);'',
      []],
    block
     [''	struct page *page = pvmw->page;'',
      ''	struct mem_cgroup *memcg = page_memcg(page);'',
      []], True)\<close>

definition mglru_rework_aging_feedback_step13 :: step where
  \<open>mglru_rework_aging_feedback_step13 =
   (''mm/vmscan.c'',
    block
     [''		page = get_pfn_page(pfn, memcg, pgdat, can_swap);'',
      ''		if (!page)'',
      ''			continue;'',
      [],
      ''		if (!ptep_test_and_clear_young(pvmw->vma, addr, pte + i))'',
      []],
    block
     [''		page = get_pfn_page(pfn, memcg, pgdat);'',
      ''		if (!page)'',
      ''			continue;'',
      [],
      ''		if (!ptep_test_and_clear_young(pvmw->vma, addr, pte + i))'',
      []], True)\<close>

definition mglru_rework_aging_feedback_step14 :: step where
  \<open>mglru_rework_aging_feedback_step14 =
   (''mm/vmscan.c'',
    block
     [''static bool inc_min_seq(struct lruvec *lruvec, int type, bool can_swap)'',
      ''{'',
      ''	int zone;'',
      ''	int remaining = MAX_LRU_BATCH;'',
      ''	struct lru_gen_struct *lrugen = &lruvec->lrugen;'',
      ''	int new_gen, old_gen = lru_gen_from_seq(lrugen->min_seq[type]);'',
      [],
      ''	if (type == LRU_GEN_ANON && !can_swap)'',
      ''		goto done;'',
      [],
      ''	/* prevent cold/hot inversion if full_scan is true */'',
      ''	for (zone = 0; zone < MAX_NR_ZONES; zone++) {'',
      ''		struct list_head *head = &lrugen->lists[old_gen][type][zone];'',
      [],
      ''		while (!list_empty(head)) {'',
      ''			struct page *page = lru_to_page(head);'',
      [],
      ''			VM_WARN_ON_ONCE_PAGE(PageUnevictable(page), page);'',
      ''			VM_WARN_ON_ONCE_PAGE(PageActive(page), page);'',
      ''			VM_WARN_ON_ONCE_PAGE(page_is_file_lru(page) != type, page);'',
      ''			VM_WARN_ON_ONCE_PAGE(page_zonenum(page) != zone, page);'',
      [],
      ''			new_gen = page_inc_gen(lruvec, page, false);'',
      ''			list_move_tail(&page->lru, &lrugen->lists[new_gen][type][zone]);'',
      [],
      ''			if (!--remaining)'',
      ''				return false;'',
      ''		}'',
      ''	}'',
      []],
    block
     [''static bool inc_min_seq(struct lruvec *lruvec, int type, int swappiness)'',
      ''{'',
      ''	int zone;'',
      ''	int remaining = MAX_LRU_BATCH;'',
      ''	struct lru_gen_struct *lrugen = &lruvec->lrugen;'',
      ''	int hist = lru_hist_from_seq(lrugen->min_seq[type]);'',
      ''	int new_gen, old_gen = lru_gen_from_seq(lrugen->min_seq[type]);'',
      [],
      ''	if (type ? swappiness > MAX_SWAPPINESS : !swappiness)'',
      ''		goto done;'',
      [],
      ''	/* prevent cold/hot inversion if the type is evictable */'',
      ''	for (zone = 0; zone < MAX_NR_ZONES; zone++) {'',
      ''		struct list_head *head = &lrugen->lists[old_gen][type][zone];'',
      [],
      ''		while (!list_empty(head)) {'',
      ''			struct page *page = lru_to_page(head);'',
      ''			int refs = page_lru_refs(page);'',
      ''			int tier = lru_tier_from_refs(refs);'',
      ''			int delta = thp_nr_pages(page);'',
      [],
      ''			VM_WARN_ON_ONCE_PAGE(PageUnevictable(page), page);'',
      ''			VM_WARN_ON_ONCE_PAGE(PageActive(page), page);'',
      ''			VM_WARN_ON_ONCE_PAGE(page_is_file_lru(page) != type, page);'',
      ''			VM_WARN_ON_ONCE_PAGE(page_zonenum(page) != zone, page);'',
      [],
      ''			new_gen = page_inc_gen(lruvec, page, false);'',
      ''			list_move_tail(&page->lru, &lrugen->lists[new_gen][type][zone]);'',
      [],
      ''			WRITE_ONCE(lrugen->protected[hist][type][tier],'',
      ''				   lrugen->protected[hist][type][tier] + delta);'',
      [],
      ''			if (!--remaining)'',
      ''				return false;'',
      ''		}'',
      ''	}'',
      []], True)\<close>

definition mglru_rework_aging_feedback_step15 :: step where
  \<open>mglru_rework_aging_feedback_step15 =
   (''mm/vmscan.c'',
    block
     [''static bool try_to_inc_min_seq(struct lruvec *lruvec, bool can_swap)'',
      ''{'',
      ''	int gen, type, zone;'',
      ''	bool success = false;'',
      ''	struct lru_gen_struct *lrugen = &lruvec->lrugen;'',
      ''	DEFINE_MIN_SEQ(lruvec);'',
      [],
      ''	VM_WARN_ON_ONCE(!seq_is_valid(lruvec));'',
      [],
      ''	/* find the oldest populated generation */'',
      ''	for (type = !can_swap; type < ANON_AND_FILE; type++) {'',
      ''		while (min_seq[type] + MIN_NR_GENS <= lrugen->max_seq) {'',
      ''			gen = lru_gen_from_seq(min_seq[type]);'',
      [],
      ''			for (zone = 0; zone < MAX_NR_ZONES; zone++) {'',
      ''				if (!list_empty(&lrugen->lists[gen][type][zone]))'',
      ''					goto next;'',
      ''			}'',
      [],
      ''			min_seq[type]++;'',
      ''		}'',
      ''next:'',
      ''		;'',
      ''	}'',
      [],
      ''	/* see the comment on lru_gen_struct */'',
      ''	if (can_swap) {'',
      ''		min_seq[LRU_GEN_ANON] = min(min_seq[LRU_GEN_ANON], min_seq[LRU_GEN_FILE]);'',
      ''		min_seq[LRU_GEN_FILE] = max(min_seq[LRU_GEN_ANON], lrugen->min_seq[LRU_GEN_FILE]);'',
      ''	}'',
      [],
      ''	for (type = !can_swap; type < ANON_AND_FILE; type++) {'',
      ''		if (min_seq[type] == lrugen->min_seq[type])'',
      ''			continue;'',
      [],
      ''		reset_ctrl_pos(lruvec, type, true);'',
      ''		WRITE_ONCE(lrugen->min_seq[type], min_seq[type]);'',
      ''		success = true;'',
      ''	}'',
      [],
      ''	return success;'',
      ''}'',
      []],
    block
     [''static bool try_to_inc_min_seq(struct lruvec *lruvec, int swappiness)'',
      ''{'',
      ''	int gen, type, zone;'',
      ''	bool success = false;'',
      ''	struct lru_gen_struct *lrugen = &lruvec->lrugen;'',
      ''	DEFINE_MIN_SEQ(lruvec);'',
      [],
      ''	VM_WARN_ON_ONCE(!seq_is_valid(lruvec));'',
      [],
      ''	/* find the oldest populated generation */'',
      ''	for_each_evictable_type(type, swappiness) {'',
      ''		while (min_seq[type] + MIN_NR_GENS <= lrugen->max_seq) {'',
      ''			gen = lru_gen_from_seq(min_seq[type]);'',
      [],
      ''			for (zone = 0; zone < MAX_NR_ZONES; zone++) {'',
      ''				if (!list_empty(&lrugen->lists[gen][type][zone]))'',
      ''					goto next;'',
      ''			}'',
      [],
      ''			min_seq[type]++;'',
      ''		}'',
      ''next:'',
      ''		;'',
      ''	}'',
      [],
      ''	/* see the comment on lru_gen_struct */'',
      ''	if (swappiness && swappiness <= MAX_SWAPPINESS) {'',
      ''		unsigned long seq = lrugen->max_seq - MIN_NR_GENS;'',
      [],
      ''		if (min_seq[LRU_GEN_ANON] > seq && min_seq[LRU_GEN_FILE] < seq)'',
      ''			min_seq[LRU_GEN_ANON] = seq;'',
      ''		else if (min_seq[LRU_GEN_FILE] > seq && min_seq[LRU_GEN_ANON] < seq)'',
      ''			min_seq[LRU_GEN_FILE] = seq;'',
      ''	}'',
      [],
      ''	for_each_evictable_type(type, swappiness) {'',
      ''		if (min_seq[type] <= lrugen->min_seq[type])'',
      ''			continue;'',
      [],
      ''		reset_ctrl_pos(lruvec, type, true);'',
      ''		WRITE_ONCE(lrugen->min_seq[type], min_seq[type]);'',
      ''		success = true;'',
      ''	}'',
      [],
      ''	return success;'',
      ''}'',
      []], True)\<close>

definition mglru_rework_aging_feedback_step16 :: step where
  \<open>mglru_rework_aging_feedback_step16 =
   (''mm/vmscan.c'',
    block
     [''static void inc_max_seq(struct lruvec *lruvec, bool can_swap, bool full_scan)'',
      ''{'',
      ''	int prev, next;'',
      ''	int type, zone;'',
      ''	struct lru_gen_struct *lrugen = &lruvec->lrugen;'',
      ''restart:'',
      ''	spin_lock_irq(&lruvec->lru_lock);'',
      [],
      ''	VM_WARN_ON_ONCE(!seq_is_valid(lruvec));'',
      [],
      ''	for (type = ANON_AND_FILE - 1; type >= 0; type--) {'',
      ''		if (get_nr_gens(lruvec, type) != MAX_NR_GENS)'',
      ''			continue;'',
      [],
      ''		VM_WARN_ON_ONCE(!full_scan && (type == LRU_GEN_FILE || can_swap));'',
      [],
      ''		while (!inc_min_seq(lruvec, type, can_swap)) {'',
      ''			spin_unlock_irq(&lruvec->lru_lock);'',
      ''			cond_resched();'',
      ''			spin_lock_irq(&lruvec->lru_lock);'',
      ''		}'',
      ''		if (inc_min_seq(lruvec, type, can_swap))'',
      ''			continue;'',
      [],
      ''		spin_unlock_irq(&lruvec->lru_lock);'',
      ''		cond_resched();'',
      ''		goto restart;'',
      [],
      ''	}'',
      []],
    block
     [''static void inc_max_seq(struct lruvec *lruvec, int swappiness, bool full_scan)'',
      ''{'',
      ''	int prev, next;'',
      ''	int type, zone;'',
      ''	struct lru_gen_struct *lrugen = &lruvec->lrugen;'',
      ''restart:'',
      ''	spin_lock_irq(&lruvec->lru_lock);'',
      [],
      ''	VM_WARN_ON_ONCE(!seq_is_valid(lruvec));'',
      [],
      ''	for (type = 0; type < ANON_AND_FILE; type++) {'',
      ''		if (get_nr_gens(lruvec, type) != MAX_NR_GENS)'',
      ''			continue;'',
      [],
      ''		if (inc_min_seq(lruvec, type, swappiness))'',
      ''			continue;'',
      [],
      ''		spin_unlock_irq(&lruvec->lru_lock);'',
      ''		cond_resched();'',
      ''		goto restart;'',
      ''	}'',
      []], True)\<close>

definition mglru_rework_aging_feedback_step17 :: step where
  \<open>mglru_rework_aging_feedback_step17 =
   (''mm/vmscan.c'',
    block
     [''static bool try_to_inc_max_seq(struct lruvec *lruvec, unsigned long max_seq,'',
      ''			       struct scan_control *sc, bool can_swap, bool full_scan)'',
      []],
    block
     [''static bool try_to_inc_max_seq(struct lruvec *lruvec, unsigned long max_seq,'',
      ''			       struct scan_control *sc, int swappiness, bool full_scan)'',
      []], True)\<close>

definition mglru_rework_aging_feedback_step18 :: step where
  \<open>mglru_rework_aging_feedback_step18 =
   (''mm/vmscan.c'',
    block
     [''	walk->can_swap = can_swap;'',
      ''	walk->full_scan = full_scan;'',
      []],
    block
     [''	walk->swappiness = swappiness;'',
      ''	walk->full_scan = full_scan;'',
      []], True)\<close>

definition mglru_rework_aging_feedback_step19 :: step where
  \<open>mglru_rework_aging_feedback_step19 =
   (''mm/vmscan.c'',
    block
     [''		inc_max_seq(lruvec, can_swap, full_scan);'',
      []],
    block
     [''		inc_max_seq(lruvec, swappiness, full_scan);'',
      []], True)\<close>

definition mglru_rework_aging_feedback_step20 :: step where
  \<open>mglru_rework_aging_feedback_step20 =
   (''mm/vmscan.c'',
    block
     [''static bool should_run_aging(struct lruvec *lruvec, unsigned long max_seq, unsigned long *min_seq,'',
      ''			     struct scan_control *sc, bool can_swap, unsigned long *nr_to_scan)'',
      ''{'',
      ''	int gen, type, zone;'',
      ''	unsigned long old = 0;'',
      ''	unsigned long young = 0;'',
      ''	unsigned long total = 0;'',
      ''	struct lru_gen_struct *lrugen = &lruvec->lrugen;'',
      ''	struct mem_cgroup *memcg = lruvec_memcg(lruvec);'',
      [],
      ''	for (type = !can_swap; type < ANON_AND_FILE; type++) {'',
      ''		unsigned long seq;'',
      [],
      ''		for (seq = min_seq[type]; seq <= max_seq; seq++) {'',
      ''			unsigned long size = 0;'',
      [],
      ''			gen = lru_gen_from_seq(seq);'',
      [],
      ''			for (zone = 0; zone < MAX_NR_ZONES; zone++)'',
      ''				size += max_t(long, READ_ONCE(lrugen->nr_pages[gen][type][zone]),'',
      ''						0);'',
      [],
      ''			total += size;'',
      ''			if (seq == max_seq)'',
      ''				young += size;'',
      ''			else if (seq + MIN_NR_GENS == max_seq)'',
      ''				old += size;'',
      ''		}'',
      ''	}'',
      [],
      ''	/* try to scrape all its memory if this memcg was deleted */'',
      ''	*nr_to_scan = mem_cgroup_online(memcg) ? (total >> sc->priority) : total;'',
      [],
      ''	/*'',
      ''	 * The aging tries to be lazy to reduce the overhead, while the eviction'',
      ''	 * stalls when the number of generations reaches MIN_NR_GENS. Hence, the'',
      ''	 * ideal number of generations is MIN_NR_GENS+1.'',
      ''	 */'',
      ''	if (min_seq[!can_swap] + MIN_NR_GENS > max_seq)'',
      ''		return true;'',
      ''	if (min_seq[!can_swap] + MIN_NR_GENS < max_seq)'',
      ''		return false;'',
      [],
      ''	/*'',
      ''	 * It\'s also ideal to spread pages out evenly, i.e., 1/(MIN_NR_GENS+1)'',
      ''	 * of the total number of pages for each generation. A reasonable range'',
      ''	 * for this average portion is [1/MIN_NR_GENS, 1/(MIN_NR_GENS+2)]. The'',
      ''	 * aging cares about the upper bound of hot pages, while the eviction'',
      ''	 * cares about the lower bound of cold pages.'',
      ''	 */'',
      ''	if (young * MIN_NR_GENS > total)'',
      ''		return true;'',
      ''	if (old * (MIN_NR_GENS + 2) < total)'',
      ''		return true;'',
      [],
      ''	return false;'',
      ''}'',
      []],
    block
     [''static bool should_run_aging(struct lruvec *lruvec, unsigned long max_seq, unsigned long *min_seq,'',
      ''			     struct scan_control *sc, int swappiness, unsigned long *nr_to_scan)'',
      ''{'',
      ''	int gen, type, zone;'',
      ''	unsigned long size = 0;'',
      ''	struct lru_gen_struct *lrugen = &lruvec->lrugen;'',
      ''	struct mem_cgroup *memcg = lruvec_memcg(lruvec);'',
      [],
      ''	*nr_to_scan = 0;'',
      ''	/* have to run aging, since eviction is not possible anymore */'',
      ''	if (evictable_min_seq(min_seq, swappiness) + MIN_NR_GENS > max_seq)'',
      ''		return true;'',
      [],
      ''	for_each_evictable_type(type, swappiness) {'',
      ''		unsigned long seq;'',
      [],
      ''		for (seq = min_seq[type]; seq <= max_seq; seq++) {'',
      ''			gen = lru_gen_from_seq(seq);'',
      [],
      ''			for (zone = 0; zone < MAX_NR_ZONES; zone++)'',
      ''				size += max_t(long, READ_ONCE(lrugen->nr_pages[gen][type][zone]),'',
      ''						0);'',
      ''		}'',
      ''	}'',
      [],
      ''	/* try to scrape all its memory if this memcg was deleted */'',
      ''	*nr_to_scan = mem_cgroup_online(memcg) ? (size >> sc->priority) : size;'',
      [],
      ''	/* better to run aging even though eviction is still possible */'',
      ''	return evictable_min_seq(min_seq, swappiness) + MIN_NR_GENS == max_seq;'',
      ''}'',
      []], True)\<close>

definition mglru_rework_aging_feedback_step21 :: step where
  \<open>mglru_rework_aging_feedback_step21 =
   (''mm/vmscan.c'',
    block
     [''	if (min_ttl) {'',
      ''		int gen = lru_gen_from_seq(min_seq[LRU_GEN_FILE]);'',
      []],
    block
     [''	if (min_ttl) {'',
      ''		int gen = lru_gen_from_seq(evictable_min_seq(min_seq, swappiness));'',
      []], True)\<close>

definition mglru_rework_aging_feedback_step22 :: step where
  \<open>mglru_rework_aging_feedback_step22 =
   (''mm/vmscan.c'',
    block
     [''static unsigned long get_nr_to_scan(struct lruvec *lruvec, struct scan_control *sc,'',
      ''				    bool can_swap, bool *need_aging)'',
      []],
    block
     [''static unsigned long get_nr_to_scan(struct lruvec *lruvec, struct scan_control *sc,'',
      ''				    int swappiness, bool *need_aging)'',
      []], True)\<close>

definition mglru_rework_aging_feedback_step23 :: step where
  \<open>mglru_rework_aging_feedback_step23 =
   (''mm/vmscan.c'',
    block
     [''	*need_aging = should_run_aging(lruvec, max_seq, min_seq, sc, can_swap, &nr_to_scan);'',
      []],
    block
     [''	*need_aging = should_run_aging(lruvec, max_seq, min_seq, sc, swappiness, &nr_to_scan);'',
      []], True)\<close>

definition mglru_rework_aging_feedback_step24 :: step where
  \<open>mglru_rework_aging_feedback_step24 =
   (''mm/vmscan.c'',
    block
     [''	if (try_to_inc_max_seq(lruvec, max_seq, sc, can_swap, false))'',
      ''		return nr_to_scan;'',
      ''done:'',
      ''	return min_seq[!can_swap] + MIN_NR_GENS <= max_seq ? nr_to_scan : 0;'',
      []],
    block
     [''	if (try_to_inc_max_seq(lruvec, max_seq, sc, swappiness, false))'',
      ''		return nr_to_scan;'',
      ''done:'',
      ''	return evictable_min_seq(min_seq, swappiness) + MIN_NR_GENS <= max_seq ?'',
      ''		nr_to_scan : 0;'',
      []], True)\<close>

definition mglru_rework_aging_feedback_step25 :: step where
  \<open>mglru_rework_aging_feedback_step25 =
   (''mm/vmscan.c'',
    block
     [''		WRITE_ONCE(lrugen->protected[hist][type][tier - 1],'',
      ''			   lrugen->protected[hist][type][tier - 1] + delta);'',
      []],
    block
     [''		WRITE_ONCE(lrugen->protected[hist][type][tier],'',
      ''			   lrugen->protected[hist][type][tier] + delta);'',
      []], True)\<close>

definition mglru_rework_aging_feedback_step26 :: step where
  \<open>mglru_rework_aging_feedback_step26 =
   (''mm/vmscan.c'',
    block
     [''			sum = lrugen->avg_total[type][tier] +'',
      ''			      atomic_long_read(&lrugen->evicted[hist][type][tier]);'',
      ''			if (tier)'',
      ''				sum += lrugen->protected[hist][type][tier - 1];'',
      ''			WRITE_ONCE(lrugen->avg_total[type][tier], sum / 2);'',
      []],
    block
     [''			sum = lrugen->avg_total[type][tier] +'',
      ''			      lrugen->protected[hist][type][tier] +'',
      ''			      atomic_long_read(&lrugen->evicted[hist][type][tier]);'',
      ''			WRITE_ONCE(lrugen->avg_total[type][tier], sum / 2);'',
      []], True)\<close>

definition mglru_rework_aging_feedback_step27 :: step where
  \<open>mglru_rework_aging_feedback_step27 =
   (''mm/vmscan.c'',
    block
     [''		if (clear) {'',
      ''			atomic_long_set(&lrugen->refaulted[hist][type][tier], 0);'',
      ''			atomic_long_set(&lrugen->evicted[hist][type][tier], 0);'',
      ''			if (tier)'',
      ''				WRITE_ONCE(lrugen->protected[hist][type][tier - 1], 0);'',
      ''		}'',
      []],
    block
     [''		if (clear) {'',
      ''			atomic_long_set(&lrugen->refaulted[hist][type][tier], 0);'',
      ''			atomic_long_set(&lrugen->evicted[hist][type][tier], 0);'',
      ''			WRITE_ONCE(lrugen->protected[hist][type][tier], 0);'',
      ''		}'',
      []], True)\<close>

definition mglru_rework_aging_feedback_step28 :: step where
  \<open>mglru_rework_aging_feedback_step28 =
   (''mm/vmscan.c'',
    block
     [''	struct lru_gen_mm_walk *walk;'',
      ''	bool skip_retry = false;'',
      ''	struct mem_cgroup *memcg = lruvec_memcg(lruvec);'',
      []],
    block
     [''	struct lru_gen_mm_walk *walk;'',
      ''	bool skip_retry = false;'',
      ''	struct lru_gen_struct *lrugen = &lruvec->lrugen;'',
      ''	struct mem_cgroup *memcg = lruvec_memcg(lruvec);'',
      []], True)\<close>

definition mglru_rework_aging_feedback_step29 :: step where
  \<open>mglru_rework_aging_feedback_step29 =
   (''mm/vmscan.c'',
    block
     [''	scanned += try_to_inc_min_seq(lruvec, swappiness);'',
      [],
      ''	if (get_nr_gens(lruvec, !swappiness) == MIN_NR_GENS)'',
      ''		scanned = 0;'',
      []],
    block
     [''	scanned += try_to_inc_min_seq(lruvec, swappiness);'',
      [],
      ''	if (evictable_min_seq(lrugen->min_seq, swappiness) + MIN_NR_GENS > lrugen->max_seq)'',
      ''		scanned = 0;'',
      []], True)\<close>

definition mglru_rework_aging_feedback_step30 :: step where
  \<open>mglru_rework_aging_feedback_step30 =
   (''mm/vmscan.c'',
    block
     [''				if (tier)'',
      ''					n[2] = READ_ONCE(lrugen->protected[hist][type][tier - 1]);'',
      []],
    block
     [''				n[2] = READ_ONCE(lrugen->protected[hist][type][tier]);'',
      []], True)\<close>

definition mglru_rework_aging_feedback_step31 :: step where
  \<open>mglru_rework_aging_feedback_step31 =
   (''mm/vmscan.c'',
    block
     [''	while (true) {'',
      ''		int delta;'',
      ''		int swappiness;'',
      ''		unsigned long nr_to_scan;'',
      [],
      ''		if (sc->may_swap)'',
      ''			swappiness = get_swappiness(lruvec, sc);'',
      ''		else if (!cgroup_reclaim(sc) && get_swappiness(lruvec, sc))'',
      ''			swappiness = 1;'',
      ''		else'',
      ''			swappiness = 0;'',
      [],
      ''		nr_to_scan = get_nr_to_scan(lruvec, sc, swappiness, &need_aging);'',
      []],
    block
     [''	while (true) {'',
      ''		int delta;'',
      ''		int swappiness = get_swappiness(lruvec, sc);'',
      ''		unsigned long nr_to_scan;'',
      [],
      ''		nr_to_scan = get_nr_to_scan(lruvec, sc, swappiness, &need_aging);'',
      []], True)\<close>

definition mglru_rework_aging_feedback_step32 :: step where
  \<open>mglru_rework_aging_feedback_step32 =
   (''mm/vmscan.c'',
    block
     [''static int get_swappiness(struct lruvec *lruvec, struct scan_control *sc)'',
      ''{'',
      ''	int swappiness;'',
      ''	struct mem_cgroup *memcg = lruvec_memcg(lruvec);'',
      ''	struct pglist_data *pgdat = lruvec_pgdat(lruvec);'',
      [],
      []],
    block
     [''static int get_swappiness(struct lruvec *lruvec, struct scan_control *sc)'',
      ''{'',
      ''	int swappiness;'',
      ''	struct mem_cgroup *memcg = lruvec_memcg(lruvec);'',
      ''	struct pglist_data *pgdat = lruvec_pgdat(lruvec);'',
      [],
      ''	if (!sc->may_swap)'',
      ''		return 0;'',
      [],
      []], True)\<close>

definition mglru_rework_aging_feedback_step33 :: step where
  \<open>mglru_rework_aging_feedback_step33 =
   (''mm/vmscan.c'',
    block
     [''static int run_aging(struct lruvec *lruvec, unsigned long seq, struct scan_control *sc,'',
      ''		     bool can_swap, bool full_scan)'',
      ''{'',
      ''	DEFINE_MAX_SEQ(lruvec);'',
      ''	DEFINE_MIN_SEQ(lruvec);'',
      [],
      ''	if (seq < max_seq)'',
      ''		return 0;'',
      [],
      ''	if (seq > max_seq)'',
      ''		return -EINVAL;'',
      [],
      ''	if (!full_scan && min_seq[!can_swap] + MAX_NR_GENS - 1 <= max_seq)'',
      ''		return -ERANGE;'',
      [],
      ''	try_to_inc_max_seq(lruvec, max_seq, sc, can_swap, full_scan);'',
      []],
    block
     [''static int run_aging(struct lruvec *lruvec, unsigned long seq, struct scan_control *sc,'',
      ''		     int swappiness, bool full_scan)'',
      ''{'',
      ''	DEFINE_MAX_SEQ(lruvec);'',
      ''	DEFINE_MIN_SEQ(lruvec);'',
      [],
      ''	if (seq < max_seq)'',
      ''		return 0;'',
      [],
      ''	if (seq > max_seq)'',
      ''		return -EINVAL;'',
      [],
      ''	if (!full_scan && evictable_min_seq(min_seq, swappiness) + MAX_NR_GENS - 1 <= max_seq)'',
      ''		return -ERANGE;'',
      [],
      ''	try_to_inc_max_seq(lruvec, max_seq, sc, swappiness, full_scan);'',
      []], True)\<close>

definition mglru_rework_aging_feedback_step34 :: step where
  \<open>mglru_rework_aging_feedback_step34 =
   (''mm/vmscan.c'',
    block
     [''	else if (swappiness > 200)'',
      ''		goto done;'',
      []],
    block
     [''	else if (swappiness > MAX_SWAPPINESS + 1)'',
      ''		goto done;'',
      []], True)\<close>

definition mglru_rework_aging_feedback_steps :: "step list" where
  \<open>mglru_rework_aging_feedback_steps = [mglru_rework_aging_feedback_step1, mglru_rework_aging_feedback_step2, mglru_rework_aging_feedback_step3, mglru_rework_aging_feedback_step4, mglru_rework_aging_feedback_step5, mglru_rework_aging_feedback_step6, mglru_rework_aging_feedback_step7, mglru_rework_aging_feedback_step8, mglru_rework_aging_feedback_step9, mglru_rework_aging_feedback_step10, mglru_rework_aging_feedback_step11, mglru_rework_aging_feedback_step12, mglru_rework_aging_feedback_step13, mglru_rework_aging_feedback_step14, mglru_rework_aging_feedback_step15, mglru_rework_aging_feedback_step16, mglru_rework_aging_feedback_step17, mglru_rework_aging_feedback_step18, mglru_rework_aging_feedback_step19, mglru_rework_aging_feedback_step20, mglru_rework_aging_feedback_step21, mglru_rework_aging_feedback_step22, mglru_rework_aging_feedback_step23, mglru_rework_aging_feedback_step24, mglru_rework_aging_feedback_step25, mglru_rework_aging_feedback_step26, mglru_rework_aging_feedback_step27, mglru_rework_aging_feedback_step28, mglru_rework_aging_feedback_step29, mglru_rework_aging_feedback_step30, mglru_rework_aging_feedback_step31, mglru_rework_aging_feedback_step32, mglru_rework_aging_feedback_step33, mglru_rework_aging_feedback_step34]\<close>

definition mglru_rework_aging_feedback_apply :: "outcome io" where
  \<open>mglru_rework_aging_feedback_apply =
    io_bind (read_or_empty ''mm/vmscan.c'') (\<lambda>probe.
    if contains MGLRU_AGING_FEEDBACK_PROBE probe
    then io_ret (AlreadyPresent, ''the aging-feedback rework is already applied'')
    else
    apply_or_block mglru_rework_aging_feedback_steps)\<close>

lemma mglru_rework_aging_feedback_steps_files: "steps_files mglru_rework_aging_feedback_steps = {''include/linux/mmzone.h'', ''mm/vmscan.c''}"
  by (simp add: mglru_rework_aging_feedback_steps_def steps_files_fst insert_commute
      step_file [OF mglru_rework_aging_feedback_step1_def]
      step_file [OF mglru_rework_aging_feedback_step2_def]
      step_file [OF mglru_rework_aging_feedback_step3_def]
      step_file [OF mglru_rework_aging_feedback_step4_def]
      step_file [OF mglru_rework_aging_feedback_step5_def]
      step_file [OF mglru_rework_aging_feedback_step6_def]
      step_file [OF mglru_rework_aging_feedback_step7_def]
      step_file [OF mglru_rework_aging_feedback_step8_def]
      step_file [OF mglru_rework_aging_feedback_step9_def]
      step_file [OF mglru_rework_aging_feedback_step10_def]
      step_file [OF mglru_rework_aging_feedback_step11_def]
      step_file [OF mglru_rework_aging_feedback_step12_def]
      step_file [OF mglru_rework_aging_feedback_step13_def]
      step_file [OF mglru_rework_aging_feedback_step14_def]
      step_file [OF mglru_rework_aging_feedback_step15_def]
      step_file [OF mglru_rework_aging_feedback_step16_def]
      step_file [OF mglru_rework_aging_feedback_step17_def]
      step_file [OF mglru_rework_aging_feedback_step18_def]
      step_file [OF mglru_rework_aging_feedback_step19_def]
      step_file [OF mglru_rework_aging_feedback_step20_def]
      step_file [OF mglru_rework_aging_feedback_step21_def]
      step_file [OF mglru_rework_aging_feedback_step22_def]
      step_file [OF mglru_rework_aging_feedback_step23_def]
      step_file [OF mglru_rework_aging_feedback_step24_def]
      step_file [OF mglru_rework_aging_feedback_step25_def]
      step_file [OF mglru_rework_aging_feedback_step26_def]
      step_file [OF mglru_rework_aging_feedback_step27_def]
      step_file [OF mglru_rework_aging_feedback_step28_def]
      step_file [OF mglru_rework_aging_feedback_step29_def]
      step_file [OF mglru_rework_aging_feedback_step30_def]
      step_file [OF mglru_rework_aging_feedback_step31_def]
      step_file [OF mglru_rework_aging_feedback_step32_def]
      step_file [OF mglru_rework_aging_feedback_step33_def]
      step_file [OF mglru_rework_aging_feedback_step34_def])

lemma mglru_rework_aging_feedback_steps_required: "all_required mglru_rework_aging_feedback_steps"
  by (simp add: mglru_rework_aging_feedback_steps_def all_required_def
      step_req [OF mglru_rework_aging_feedback_step1_def]
      step_req [OF mglru_rework_aging_feedback_step2_def]
      step_req [OF mglru_rework_aging_feedback_step3_def]
      step_req [OF mglru_rework_aging_feedback_step4_def]
      step_req [OF mglru_rework_aging_feedback_step5_def]
      step_req [OF mglru_rework_aging_feedback_step6_def]
      step_req [OF mglru_rework_aging_feedback_step7_def]
      step_req [OF mglru_rework_aging_feedback_step8_def]
      step_req [OF mglru_rework_aging_feedback_step9_def]
      step_req [OF mglru_rework_aging_feedback_step10_def]
      step_req [OF mglru_rework_aging_feedback_step11_def]
      step_req [OF mglru_rework_aging_feedback_step12_def]
      step_req [OF mglru_rework_aging_feedback_step13_def]
      step_req [OF mglru_rework_aging_feedback_step14_def]
      step_req [OF mglru_rework_aging_feedback_step15_def]
      step_req [OF mglru_rework_aging_feedback_step16_def]
      step_req [OF mglru_rework_aging_feedback_step17_def]
      step_req [OF mglru_rework_aging_feedback_step18_def]
      step_req [OF mglru_rework_aging_feedback_step19_def]
      step_req [OF mglru_rework_aging_feedback_step20_def]
      step_req [OF mglru_rework_aging_feedback_step21_def]
      step_req [OF mglru_rework_aging_feedback_step22_def]
      step_req [OF mglru_rework_aging_feedback_step23_def]
      step_req [OF mglru_rework_aging_feedback_step24_def]
      step_req [OF mglru_rework_aging_feedback_step25_def]
      step_req [OF mglru_rework_aging_feedback_step26_def]
      step_req [OF mglru_rework_aging_feedback_step27_def]
      step_req [OF mglru_rework_aging_feedback_step28_def]
      step_req [OF mglru_rework_aging_feedback_step29_def]
      step_req [OF mglru_rework_aging_feedback_step30_def]
      step_req [OF mglru_rework_aging_feedback_step31_def]
      step_req [OF mglru_rework_aging_feedback_step32_def]
      step_req [OF mglru_rework_aging_feedback_step33_def]
      step_req [OF mglru_rework_aging_feedback_step34_def])

lemma mglru_rework_aging_feedback_apply_txn: "transactional (\<lambda>_. {''include/linux/mmzone.h'', ''mm/vmscan.c''}) mglru_rework_aging_feedback_apply"
  unfolding mglru_rework_aging_feedback_apply_def
  by (intro txn_intros safe_intros)
    (simp_all add: is_backup_code BACKUP_SUFFIX_def mglru_rework_aging_feedback_steps_files)

definition mglru_rework_type_selection_step1 :: step where
  \<open>mglru_rework_type_selection_step1 =
   (''mm/vmscan.c'',
    block
     [''static void read_ctrl_pos(struct lruvec *lruvec, int type, int tier, int gain,'',
      ''			  struct ctrl_pos *pos)'',
      ''{'',
      ''	struct lru_gen_struct *lrugen = &lruvec->lrugen;'',
      ''	int hist = lru_hist_from_seq(lrugen->min_seq[type]);'',
      [],
      ''	pos->refaulted = lrugen->avg_refaulted[type][tier] +'',
      ''			 atomic_long_read(&lrugen->refaulted[hist][type][tier]);'',
      ''	pos->total = lrugen->avg_total[type][tier] +'',
      ''		     atomic_long_read(&lrugen->evicted[hist][type][tier]);'',
      ''	if (tier)'',
      ''		pos->total += lrugen->protected[hist][type][tier - 1];'',
      ''	pos->gain = gain;'',
      ''}'',
      []],
    block
     [''static void read_ctrl_pos(struct lruvec *lruvec, int type, int tier, int gain,'',
      ''			  struct ctrl_pos *pos)'',
      ''{'',
      ''	int i;'',
      ''	struct lru_gen_struct *lrugen = &lruvec->lrugen;'',
      ''	int hist = lru_hist_from_seq(lrugen->min_seq[type]);'',
      [],
      ''	pos->gain = gain;'',
      ''	pos->refaulted = pos->total = 0;'',
      [],
      ''	for (i = tier % MAX_NR_TIERS; i <= min_t(typeof(tier), tier, MAX_NR_TIERS - 1); i++) {'',
      ''		pos->refaulted += lrugen->avg_refaulted[type][i] +'',
      ''				  atomic_long_read(&lrugen->refaulted[hist][type][i]);'',
      ''		pos->total += lrugen->avg_total[type][i] +'',
      ''			      lrugen->protected[hist][type][i] +'',
      ''			      atomic_long_read(&lrugen->evicted[hist][type][i]);'',
      ''	}'',
      ''}'',
      []], True)\<close>

definition mglru_rework_type_selection_step2 :: step where
  \<open>mglru_rework_type_selection_step2 =
   (''mm/vmscan.c'',
    block
     [''	/*'',
      ''	 * To leave a margin for fluctuations, use a larger gain factor (1:2).'',
      ''	 * This value is chosen because any other tier would have at least twice'',
      ''	 * as many refaults as the first tier.'',
      ''	 */'',
      ''	read_ctrl_pos(lruvec, type, 0, 1, &sp);'',
      ''	for (tier = 1; tier < MAX_NR_TIERS; tier++) {'',
      ''		read_ctrl_pos(lruvec, type, tier, 2, &pv);'',
      ''		if (!positive_ctrl_err(&sp, &pv))'',
      ''			break;'',
      ''	}'',
      []],
    block
     [''	/*'',
      ''	 * To leave a margin for fluctuations, use a larger gain factor (2:3).'',
      ''	 * This value is chosen because any other tier would have at least twice'',
      ''	 * as many refaults as the first tier.'',
      ''	 */'',
      ''	read_ctrl_pos(lruvec, type, 0, 2, &sp);'',
      ''	for (tier = 1; tier < MAX_NR_TIERS; tier++) {'',
      ''		read_ctrl_pos(lruvec, type, tier, 3, &pv);'',
      ''		if (!positive_ctrl_err(&sp, &pv))'',
      ''			break;'',
      ''	}'',
      []], True)\<close>

definition mglru_rework_type_selection_step3 :: step where
  \<open>mglru_rework_type_selection_step3 =
   (''mm/vmscan.c'',
    block
     [''static int get_type_to_scan(struct lruvec *lruvec, int swappiness, int *tier_idx)'',
      ''{'',
      ''	int type, tier;'',
      ''	struct ctrl_pos sp, pv;'',
      ''	int gain[ANON_AND_FILE] = { swappiness, 200 - swappiness };'',
      [],
      ''	/*'',
      ''	 * Compare the first tier of anon with that of file to determine which'',
      ''	 * type to scan. Also need to compare other tiers of the selected type'',
      ''	 * with the first tier of the other type to determine the last tier (of'',
      ''	 * the selected type) to evict.'',
      ''	 */'',
      ''	read_ctrl_pos(lruvec, LRU_GEN_ANON, 0, gain[LRU_GEN_ANON], &sp);'',
      ''	read_ctrl_pos(lruvec, LRU_GEN_FILE, 0, gain[LRU_GEN_FILE], &pv);'',
      ''	type = positive_ctrl_err(&sp, &pv);'',
      [],
      ''	read_ctrl_pos(lruvec, !type, 0, gain[!type], &sp);'',
      ''	for (tier = 1; tier < MAX_NR_TIERS; tier++) {'',
      ''		read_ctrl_pos(lruvec, type, tier, gain[type], &pv);'',
      ''		if (!positive_ctrl_err(&sp, &pv))'',
      ''			break;'',
      ''	}'',
      [],
      ''	*tier_idx = tier - 1;'',
      [],
      ''	return type;'',
      ''}'',
      []],
    block
     [''static int get_type_to_scan(struct lruvec *lruvec, int swappiness)'',
      ''{'',
      ''	struct ctrl_pos sp, pv;'',
      [],
      ''	if (swappiness <= MIN_SWAPPINESS + 1)'',
      ''		return LRU_GEN_FILE;'',
      [],
      ''	if (swappiness >= MAX_SWAPPINESS)'',
      ''		return LRU_GEN_ANON;'',
      [],
      ''	/*'',
      ''	 * Compare the sum of all tiers of anon with that of file to determine'',
      ''	 * which type to scan.'',
      ''	 */'',
      ''	read_ctrl_pos(lruvec, LRU_GEN_ANON, MAX_NR_TIERS, swappiness, &sp);'',
      ''	read_ctrl_pos(lruvec, LRU_GEN_FILE, MAX_NR_TIERS, MAX_SWAPPINESS - swappiness, &pv);'',
      [],
      ''	return positive_ctrl_err(&sp, &pv);'',
      ''}'',
      []], True)\<close>

definition mglru_rework_type_selection_step4 :: step where
  \<open>mglru_rework_type_selection_step4 =
   (''mm/vmscan.c'',
    block
     [''	int i;'',
      ''	int type;'',
      ''	int scanned;'',
      ''	int tier = -1;'',
      ''	DEFINE_MIN_SEQ(lruvec);'',
      [],
      ''	/*'',
      ''	 * Try to make the obvious choice first. When anon and file are both'',
      ''	 * available from the same generation, interpret swappiness 1 as file'',
      ''	 * first and 200 as anon first.'',
      ''	 */'',
      ''	if (!swappiness)'',
      ''		type = LRU_GEN_FILE;'',
      ''	else if (min_seq[LRU_GEN_ANON] < min_seq[LRU_GEN_FILE])'',
      ''		type = LRU_GEN_ANON;'',
      ''	else if (swappiness == 1)'',
      ''		type = LRU_GEN_FILE;'',
      ''	else if (swappiness == 200)'',
      ''		type = LRU_GEN_ANON;'',
      ''	else'',
      ''		type = get_type_to_scan(lruvec, swappiness, &tier);'',
      [],
      ''	for (i = !swappiness; i < ANON_AND_FILE; i++) {'',
      ''		if (tier < 0)'',
      ''			tier = get_tier_idx(lruvec, type);'',
      [],
      ''		scanned = scan_pages(lruvec, sc, type, tier, list);'',
      ''		if (scanned)'',
      ''			break;'',
      [],
      ''		type = !type;'',
      ''		tier = -1;'',
      ''	}'',
      [],
      ''	*type_scanned = type;'',
      [],
      ''	return scanned;'',
      ''}'',
      []],
    block
     [''	int i;'',
      ''	int type = get_type_to_scan(lruvec, swappiness);'',
      [],
      ''	for_each_evictable_type(i, swappiness) {'',
      ''		int scanned;'',
      ''		int tier = get_tier_idx(lruvec, type);'',
      [],
      ''		*type_scanned = type;'',
      [],
      ''		scanned = scan_pages(lruvec, sc, type, tier, list);'',
      ''		if (scanned)'',
      ''			return scanned;'',
      [],
      ''		type = !type;'',
      ''	}'',
      [],
      ''	return 0;'',
      ''}'',
      []], True)\<close>

definition mglru_rework_type_selection_steps :: "step list" where
  \<open>mglru_rework_type_selection_steps = [mglru_rework_type_selection_step1, mglru_rework_type_selection_step2, mglru_rework_type_selection_step3, mglru_rework_type_selection_step4]\<close>

definition mglru_rework_type_selection_apply :: "outcome io" where
  \<open>mglru_rework_type_selection_apply =
    io_bind (read_or_empty ''mm/vmscan.c'') (\<lambda>probe.
    if contains MGLRU_TYPE_SELECTION_PROBE probe
    then io_ret (AlreadyPresent, ''the type-selection rework is already applied'')
    else
    apply_or_block mglru_rework_type_selection_steps)\<close>

lemma mglru_rework_type_selection_steps_files: "steps_files mglru_rework_type_selection_steps = {''mm/vmscan.c''}"
  by (simp add: mglru_rework_type_selection_steps_def steps_files_fst insert_commute
      step_file [OF mglru_rework_type_selection_step1_def]
      step_file [OF mglru_rework_type_selection_step2_def]
      step_file [OF mglru_rework_type_selection_step3_def]
      step_file [OF mglru_rework_type_selection_step4_def])

lemma mglru_rework_type_selection_steps_required: "all_required mglru_rework_type_selection_steps"
  by (simp add: mglru_rework_type_selection_steps_def all_required_def
      step_req [OF mglru_rework_type_selection_step1_def]
      step_req [OF mglru_rework_type_selection_step2_def]
      step_req [OF mglru_rework_type_selection_step3_def]
      step_req [OF mglru_rework_type_selection_step4_def])

lemma mglru_rework_type_selection_apply_txn: "transactional (\<lambda>_. {''mm/vmscan.c''}) mglru_rework_type_selection_apply"
  unfolding mglru_rework_type_selection_apply_def
  by (intro txn_intros safe_intros)
    (simp_all add: is_backup_code BACKUP_SUFFIX_def mglru_rework_type_selection_steps_files)

definition mglru_rework_refault_detection_step1 :: step where
  \<open>mglru_rework_refault_detection_step1 =
   (''mm/workingset.c'',
    block
     [''	int memcg_id;'',
      ''	bool workingset;'',
      ''	unsigned long token;'',
      ''	unsigned long min_seq;'',
      []],
    block
     [''	int memcg_id;'',
      ''	bool workingset;'',
      ''	unsigned long token;'',
      ''	unsigned long seq;'',
      ''	unsigned long diff;'',
      []], True)\<close>

definition mglru_rework_refault_detection_step2 :: step where
  \<open>mglru_rework_refault_detection_step2 =
   (''mm/workingset.c'',
    block
     [''	mod_lruvec_state(lruvec, WORKINGSET_REFAULT_BASE + type, delta);'',
      [],
      ''	min_seq = READ_ONCE(lrugen->min_seq[type]);'',
      ''	if ((token >> LRU_REFS_WIDTH) != (min_seq & (EVICTION_MASK >> LRU_REFS_WIDTH)))'',
      ''		goto unlock;'',
      [],
      ''	hist = lru_hist_from_seq(min_seq);'',
      []],
    block
     [''	mod_lruvec_state(lruvec, WORKINGSET_REFAULT_BASE + type, delta);'',
      [],
      ''	/* ABK stable_515_backport: v6.14 b1a71694fb00, abs_diff() is 6.9+ */'',
      ''	seq = READ_ONCE(lrugen->max_seq) & (EVICTION_MASK >> LRU_REFS_WIDTH);'',
      ''	diff = seq > (token >> LRU_REFS_WIDTH) ?'',
      ''	       seq - (token >> LRU_REFS_WIDTH) : (token >> LRU_REFS_WIDTH) - seq;'',
      ''	if (diff >= MAX_NR_GENS)'',
      ''		goto unlock;'',
      [],
      ''	hist = lru_hist_from_seq(READ_ONCE(lrugen->min_seq[type]));'',
      []], True)\<close>

definition mglru_rework_refault_detection_steps :: "step list" where
  \<open>mglru_rework_refault_detection_steps = [mglru_rework_refault_detection_step1, mglru_rework_refault_detection_step2]\<close>

definition mglru_rework_refault_detection_apply :: "outcome io" where
  \<open>mglru_rework_refault_detection_apply =
    apply_or_block mglru_rework_refault_detection_steps\<close>

lemma mglru_rework_refault_detection_steps_files: "steps_files mglru_rework_refault_detection_steps = {''mm/workingset.c''}"
  by (simp add: mglru_rework_refault_detection_steps_def steps_files_fst insert_commute
      step_file [OF mglru_rework_refault_detection_step1_def]
      step_file [OF mglru_rework_refault_detection_step2_def])

lemma mglru_rework_refault_detection_steps_required: "all_required mglru_rework_refault_detection_steps"
  by (simp add: mglru_rework_refault_detection_steps_def all_required_def
      step_req [OF mglru_rework_refault_detection_step1_def]
      step_req [OF mglru_rework_refault_detection_step2_def])

lemma mglru_rework_refault_detection_apply_txn: "transactional (\<lambda>_. {''mm/workingset.c''}) mglru_rework_refault_detection_apply"
  unfolding mglru_rework_refault_detection_apply_def
  by (intro txn_intros safe_intros)
    (simp_all add: is_backup_code BACKUP_SUFFIX_def mglru_rework_refault_detection_steps_files)

definition mglru_wake_flushers_step1 :: step where
  \<open>mglru_wake_flushers_step1 =
   (''mm/vmscan.c'',
    block
     [''static bool sort_page(struct lruvec *lruvec, struct page *page, struct scan_control *sc,'',
      ''		       int tier_idx)'',
      ''{'',
      ''	bool success;'',
      []],
    block
     [''static bool sort_page(struct lruvec *lruvec, struct page *page, struct scan_control *sc,'',
      ''		       int tier_idx)'',
      ''{'',
      ''	bool success;'',
      ''	bool dirty, writeback;'',
      []], True)\<close>

definition mglru_wake_flushers_step2 :: step where
  \<open>mglru_wake_flushers_step2 =
   (''mm/vmscan.c'',
    block
     [''	/* waiting for writeback */'',
      ''	if (PageLocked(page) || PageWriteback(page) ||'',
      ''	    (type == LRU_GEN_FILE && PageDirty(page))) {'',
      []],
    block
     [''	dirty = PageDirty(page);'',
      ''	writeback = PageWriteback(page);'',
      ''	if (type == LRU_GEN_FILE && dirty) {'',
      ''		sc->nr.file_taken += delta;'',
      ''		if (!writeback)'',
      ''			sc->nr.unqueued_dirty += delta;'',
      ''	}'',
      [],
      ''	/* waiting for writeback */'',
      ''	if (PageLocked(page) || writeback ||'',
      ''	    (type == LRU_GEN_FILE && dirty)) {'',
      []], True)\<close>

definition mglru_wake_flushers_step3 :: step where
  \<open>mglru_wake_flushers_step3 =
   (''mm/vmscan.c'',
    block
     [''	__count_memcg_events(memcg, item, isolated);'',
      ''	__count_memcg_events(memcg, PGREFILL, sorted);'',
      ''	__count_vm_events(PGSCAN_ANON + type, isolated);'',
      []],
    block
     [''	__count_memcg_events(memcg, item, isolated);'',
      ''	__count_memcg_events(memcg, PGREFILL, sorted);'',
      ''	__count_vm_events(PGSCAN_ANON + type, isolated);'',
      ''	if (type == LRU_GEN_FILE)'',
      ''		sc->nr.file_taken += isolated;'',
      []], True)\<close>

definition mglru_wake_flushers_step4 :: step where
  \<open>mglru_wake_flushers_step4 =
   (''mm/vmscan.c'',
    block
     [''retry:'',
      ''	reclaimed = shrink_page_list(&list, pgdat, sc, &stat, false);'',
      ''	sc->nr_reclaimed += reclaimed;'',
      []],
    block
     [''retry:'',
      ''	reclaimed = shrink_page_list(&list, pgdat, sc, &stat, false);'',
      ''	sc->nr.unqueued_dirty += stat.nr_unqueued_dirty;'',
      ''	sc->nr_reclaimed += reclaimed;'',
      []], True)\<close>

definition mglru_wake_flushers_step5 :: step where
  \<open>mglru_wake_flushers_step5 =
   (''mm/vmscan.c'',
    block
     [''		cond_resched();'',
      ''	}'',
      [],
      ''	/* see the comment in lru_gen_age_node() */'',
      []],
    block
     [''		cond_resched();'',
      ''	}'',
      [],
      ''	/*'',
      ''	 * If too many file cache in the coldest generation can\'t be evicted'',
      ''	 * due to being dirty, wake up the flusher.'',
      ''	 */'',
      ''	if (sc->nr.unqueued_dirty && sc->nr.unqueued_dirty == sc->nr.file_taken)'',
      ''		wakeup_flusher_threads(WB_REASON_VMSCAN);'',
      [],
      ''	/* see the comment in lru_gen_age_node() */'',
      []], True)\<close>

definition mglru_wake_flushers_steps :: "step list" where
  \<open>mglru_wake_flushers_steps = [mglru_wake_flushers_step1, mglru_wake_flushers_step2, mglru_wake_flushers_step3, mglru_wake_flushers_step4, mglru_wake_flushers_step5]\<close>

definition mglru_wake_flushers_apply :: "outcome io" where
  \<open>mglru_wake_flushers_apply =
    io_bind (read_or_empty ''mm/vmscan.c'') (\<lambda>probe.
    if contains MGLRU_WAKE_FLUSHERS_PROBE probe
    then io_ret (AlreadyPresent, ''the wake-flushers graft is already in vmscan.c'')
    else
    apply_or_block mglru_wake_flushers_steps)\<close>

lemma mglru_wake_flushers_steps_files: "steps_files mglru_wake_flushers_steps = {''mm/vmscan.c''}"
  by (simp add: mglru_wake_flushers_steps_def steps_files_fst insert_commute
      step_file [OF mglru_wake_flushers_step1_def]
      step_file [OF mglru_wake_flushers_step2_def]
      step_file [OF mglru_wake_flushers_step3_def]
      step_file [OF mglru_wake_flushers_step4_def]
      step_file [OF mglru_wake_flushers_step5_def])

lemma mglru_wake_flushers_steps_required: "all_required mglru_wake_flushers_steps"
  by (simp add: mglru_wake_flushers_steps_def all_required_def
      step_req [OF mglru_wake_flushers_step1_def]
      step_req [OF mglru_wake_flushers_step2_def]
      step_req [OF mglru_wake_flushers_step3_def]
      step_req [OF mglru_wake_flushers_step4_def]
      step_req [OF mglru_wake_flushers_step5_def])

lemma mglru_wake_flushers_apply_txn: "transactional (\<lambda>_. {''mm/vmscan.c''}) mglru_wake_flushers_apply"
  unfolding mglru_wake_flushers_apply_def
  by (intro txn_intros safe_intros)
    (simp_all add: is_backup_code BACKUP_SUFFIX_def mglru_wake_flushers_steps_files)

end
