(* ===== verification/Batch24_Zram_Max_Pages.thy ===== *)
theory Batch24_Zram_Max_Pages
  imports Registry_Laws
begin

text \<open>
  The anchors, steps and groups of \<^verbatim>\<open>scripts/batch24_core_zram_max_pages.py\<close>, in source order.
\<close>

definition b24_ZRAM_C :: str where
  \<open>b24_ZRAM_C = ''drivers/block/zram/zram_drv.c''\<close>

definition b24_SYNC_HEAD_OLD :: str where
  \<open>b24_SYNC_HEAD_OLD = block
     [''	char *args, *param, *val, *algo = NULL;'',
      ''	u32 mode = 0, threshold = 0;'',
      ''	unsigned long index;'',
      ''	struct page *page;'',
      ''	ssize_t ret;'',
      [],
      ''	args = skip_spaces(buf);'',
      ''	while (*args) {'',
      ''		args = next_arg(args, &param, &val);'',
      [],
      ''		if (!val || !*val)'',
      ''			return -EINVAL;'',
      [],
      ''		if (!strcmp(param, "type")) {'',
      ''			if (!strcmp(val, "idle"))'',
      ''				mode = RECOMPRESS_IDLE;'',
      ''			if (!strcmp(val, "huge"))'',
      ''				mode = RECOMPRESS_HUGE;'',
      ''			if (!strcmp(val, "huge_idle"))'',
      ''				mode = RECOMPRESS_IDLE | RECOMPRESS_HUGE;'',
      ''			continue;'',
      ''		}'',
      []]\<close>

definition b24_SYNC_HEAD_NEW :: str where
  \<open>b24_SYNC_HEAD_NEW = block
     [''	char *args, *param, *val, *algo = NULL;'',
      ''	u64 num_recomp_pages = ULLONG_MAX;'',
      ''	u32 mode = 0, threshold = 0;'',
      ''	unsigned long index;'',
      ''	struct page *page;'',
      ''	ssize_t ret;'',
      [],
      ''	args = skip_spaces(buf);'',
      ''	while (*args) {'',
      ''		args = next_arg(args, &param, &val);'',
      [],
      ''		if (!val || !*val)'',
      ''			return -EINVAL;'',
      [],
      ''		if (!strcmp(param, "type")) {'',
      ''			if (!strcmp(val, "idle"))'',
      ''				mode = RECOMPRESS_IDLE;'',
      ''			if (!strcmp(val, "huge"))'',
      ''				mode = RECOMPRESS_HUGE;'',
      ''			if (!strcmp(val, "huge_idle"))'',
      ''				mode = RECOMPRESS_IDLE | RECOMPRESS_HUGE;'',
      ''			if (!mode)'',
      ''				return -EINVAL;'',
      ''			continue;'',
      ''		}'',
      [],
      ''		/*'',
      ''		 * ABK stable_515_backport: 34efe1c3b688.  Bound the pass: at most'',
      ''		 * max_pages entries are attempted, so one sweep cannot recompress'',
      ''		 * the whole device.'',
      ''		 */'',
      ''		if (!strcmp(param, "max_pages")) {'',
      ''			ret = kstrtoull(val, 10, &num_recomp_pages);'',
      ''			if (ret)'',
      ''				return ret;'',
      ''			continue;'',
      ''		}'',
      []]\<close>

definition b24_SYNC_LOOP_OLD :: str where
  \<open>b24_SYNC_LOOP_OLD = block
     [''	ret = len;'',
      ''	for (index = 0; index < nr_pages; index++) {'',
      ''		int err = 0;'',
      [],
      ''		zram_slot_lock(zram, index);'',
      []]\<close>

definition b24_SYNC_LOOP_NEW :: str where
  \<open>b24_SYNC_LOOP_NEW = block
     [''	ret = len;'',
      ''	for (index = 0; index < nr_pages; index++) {'',
      ''		int err = 0;'',
      [],
      ''		if (!num_recomp_pages)'',
      ''			break;'',
      [],
      ''		zram_slot_lock(zram, index);'',
      []]\<close>

definition b24_SYNC_CALL_OLD :: str where
  \<open>b24_SYNC_CALL_OLD = block
     [''		err = zram_recompress(zram, index, page, threshold, prio, prio_max);'',
      []]\<close>

definition b24_SYNC_CALL_NEW :: str where
  \<open>b24_SYNC_CALL_NEW = block
     [''		num_recomp_pages--;'',
      ''		err = zram_recompress(zram, index, page, threshold, prio, prio_max);'',
      []]\<close>

definition b24_ASYNC_HEAD_OLD :: str where
  \<open>b24_ASYNC_HEAD_OLD = block
     [''	char *args, *param, *val, *algo = NULL;'',
      ''	u32 mode = 0, threshold = 0;'',
      ''	unsigned long index;'',
      ''	ssize_t ret;'',
      [],
      ''	args = skip_spaces(buf);'',
      ''	while (*args) {'',
      ''		args = next_arg(args, &param, &val);'',
      [],
      ''		if (!val || !*val)'',
      ''			return -EINVAL;'',
      [],
      ''		if (!strcmp(param, "type")) {'',
      ''			if (!strcmp(val, "idle"))'',
      ''				mode = RECOMPRESS_IDLE;'',
      ''			if (!strcmp(val, "huge"))'',
      ''				mode = RECOMPRESS_HUGE;'',
      ''			if (!strcmp(val, "huge_idle"))'',
      ''				mode = RECOMPRESS_IDLE | RECOMPRESS_HUGE;'',
      ''			continue;'',
      ''		}'',
      []]\<close>

definition b24_ASYNC_HEAD_NEW :: str where
  \<open>b24_ASYNC_HEAD_NEW = block
     [''	char *args, *param, *val, *algo = NULL;'',
      ''	u64 num_recomp_pages = ULLONG_MAX;'',
      ''	u32 mode = 0, threshold = 0;'',
      ''	unsigned long index;'',
      ''	ssize_t ret;'',
      [],
      ''	args = skip_spaces(buf);'',
      ''	while (*args) {'',
      ''		args = next_arg(args, &param, &val);'',
      [],
      ''		if (!val || !*val)'',
      ''			return -EINVAL;'',
      [],
      ''		if (!strcmp(param, "type")) {'',
      ''			if (!strcmp(val, "idle"))'',
      ''				mode = RECOMPRESS_IDLE;'',
      ''			if (!strcmp(val, "huge"))'',
      ''				mode = RECOMPRESS_HUGE;'',
      ''			if (!strcmp(val, "huge_idle"))'',
      ''				mode = RECOMPRESS_IDLE | RECOMPRESS_HUGE;'',
      ''			if (!mode)'',
      ''				return -EINVAL;'',
      ''			continue;'',
      ''		}'',
      [],
      ''		/*'',
      ''		 * ABK stable_515_backport: 34efe1c3b688.  Same cap as the'',
      ''		 * synchronous node; here it bounds the number of queued jobs, which'',
      ''		 * is one job per attempted page.'',
      ''		 */'',
      ''		if (!strcmp(param, "max_pages")) {'',
      ''			ret = kstrtoull(val, 10, &num_recomp_pages);'',
      ''			if (ret)'',
      ''				return ret;'',
      ''			continue;'',
      ''		}'',
      []]\<close>

definition b24_ASYNC_LOOP_OLD :: str where
  \<open>b24_ASYNC_LOOP_OLD = block
     [''	ret = len;'',
      ''	for (index = 0; index < nr_pages; index++) {'',
      ''		bool candidate = false;'',
      ''		int err = 0;'',
      [],
      ''		zram_slot_lock(zram, index);'',
      []]\<close>

definition b24_ASYNC_LOOP_NEW :: str where
  \<open>b24_ASYNC_LOOP_NEW = block
     [''	ret = len;'',
      ''	for (index = 0; index < nr_pages; index++) {'',
      ''		bool candidate = false;'',
      ''		int err = 0;'',
      [],
      ''		if (!num_recomp_pages)'',
      ''			break;'',
      [],
      ''		zram_slot_lock(zram, index);'',
      []]\<close>

definition b24_ASYNC_ENQUEUE_OLD :: str where
  \<open>b24_ASYNC_ENQUEUE_OLD = block
     [''		err = abk_zram_recomp_enqueue(zram, index, threshold, prio,'',
      ''									prio_max, mode & RECOMPRESS_IDLE);'',
      []]\<close>

definition b24_ASYNC_ENQUEUE_NEW :: str where
  \<open>b24_ASYNC_ENQUEUE_NEW = block
     [''		num_recomp_pages--;'',
      ''		err = abk_zram_recomp_enqueue(zram, index, threshold, prio,'',
      ''									prio_max, mode & RECOMPRESS_IDLE);'',
      []]\<close>

definition b24_build_steps_step1 :: step where
  \<open>b24_build_steps_step1 =
   (b24_ZRAM_C,
    b24_SYNC_HEAD_OLD,
    b24_SYNC_HEAD_NEW, True)\<close>

definition b24_build_steps_step2 :: step where
  \<open>b24_build_steps_step2 =
   (b24_ZRAM_C,
    b24_SYNC_LOOP_OLD,
    b24_SYNC_LOOP_NEW, True)\<close>

definition b24_build_steps_step3 :: step where
  \<open>b24_build_steps_step3 =
   (b24_ZRAM_C,
    b24_SYNC_CALL_OLD,
    b24_SYNC_CALL_NEW, True)\<close>

definition b24_build_steps_step4 :: step where
  \<open>b24_build_steps_step4 =
   (b24_ZRAM_C,
    b24_ASYNC_HEAD_OLD,
    b24_ASYNC_HEAD_NEW, True)\<close>

definition b24_build_steps_step5 :: step where
  \<open>b24_build_steps_step5 =
   (b24_ZRAM_C,
    b24_ASYNC_LOOP_OLD,
    b24_ASYNC_LOOP_NEW, True)\<close>

definition b24_build_steps_step6 :: step where
  \<open>b24_build_steps_step6 =
   (b24_ZRAM_C,
    b24_ASYNC_ENQUEUE_OLD,
    b24_ASYNC_ENQUEUE_NEW, True)\<close>

definition b24_build_steps :: "step list" where
  \<open>b24_build_steps = [b24_build_steps_step1, b24_build_steps_step2, b24_build_steps_step3, b24_build_steps_step4, b24_build_steps_step5, b24_build_steps_step6]\<close>

lemma b24_build_steps_files: "steps_files b24_build_steps = {b24_ZRAM_C}"
  by (simp add: b24_build_steps_def steps_files_fst insert_commute
      step_file [OF b24_build_steps_step1_def]
      step_file [OF b24_build_steps_step2_def]
      step_file [OF b24_build_steps_step3_def]
      step_file [OF b24_build_steps_step4_def]
      step_file [OF b24_build_steps_step5_def]
      step_file [OF b24_build_steps_step6_def])

lemma b24_build_steps_required: "all_required b24_build_steps"
  by (simp add: b24_build_steps_def all_required_def
      step_req [OF b24_build_steps_step1_def]
      step_req [OF b24_build_steps_step2_def]
      step_req [OF b24_build_steps_step3_def]
      step_req [OF b24_build_steps_step4_def]
      step_req [OF b24_build_steps_step5_def]
      step_req [OF b24_build_steps_step6_def])

definition b24_RECOMPRESS_HELPER :: str where
  \<open>b24_RECOMPRESS_HELPER = ''static int zram_recompress(struct zram *zram, u32 index,''\<close>

definition b24_RECOMPRESS_ASYNC_STORE :: str where
  \<open>b24_RECOMPRESS_ASYNC_STORE = ''static ssize_t recompress_async_store(struct device *dev,''\<close>

definition b24_MAX_PAGES_CAP_DECL :: str where
  \<open>b24_MAX_PAGES_CAP_DECL = ''u64 num_recomp_pages = ULLONG_MAX;''\<close>

definition b24_MAX_PAGES_MARKER :: str where
  \<open>b24_MAX_PAGES_MARKER = ''ABK stable_515_backport: 34efe1c3b688''\<close>

definition b24_max_pages_apply :: "outcome io" where
  \<open>b24_max_pages_apply =
    io_try is_fnf (ctx_read b24_ZRAM_C)
      (\<lambda>e. io_ret (BlockedByShape, b24_ZRAM_C @
      '': file absent''))
      (\<lambda>text.
    if \<not> contains b24_RECOMPRESS_HELPER text
    then io_ret (BlockedByShape, ''zram_recompress() not found: zram_recompression must apply first'')
    else
    if \<not> contains b24_RECOMPRESS_ASYNC_STORE text
    then io_ret (BlockedByShape, ''recompress_async_store() not found: zram_async_recompress must apply first'')
    else
    apply_or_block b24_build_steps)\<close>

lemma b24_max_pages_apply_txn: "transactional (\<lambda>_. {b24_ZRAM_C}) b24_max_pages_apply"
  unfolding b24_max_pages_apply_def
  by (intro txn_intros safe_intros)
    (simp_all add: is_backup_code BACKUP_SUFFIX_def b24_build_steps_files b24_ZRAM_C_def)

definition zram_recompress_max_pages_group :: group where
  \<open>zram_recompress_max_pages_group =
    \<lparr>key = ''zram_recompress_max_pages'',
     summary = ''bound a recompression pass: recompress and recompress_async gain a max_pages parameter (counting attempts, not successes) and reject an unrecognised type= value instead of silently recompressing the whole device'',
     commits = [''34efe1c3b688 (v6.10) -- max_pages param'',
      ''2f529e73d720 (v7.1) -- reject unrecognized type= values''],
     group_files = [b24_ZRAM_C],
     apply_fn = b24_max_pages_apply, hard = False\<rparr>\<close>

lemma zram_recompress_max_pages_group_declared [simp]: "well_declared zram_recompress_max_pages_group"
  by (rule well_declaredI [OF b24_max_pages_apply_txn]) (simp_all add: is_backup_code BACKUP_SUFFIX_def zram_recompress_max_pages_group_def b24_ZRAM_C_def)

definition b24_build_groups :: "group list" where
  \<open>b24_build_groups = [zram_recompress_max_pages_group]\<close>

end
