(* ===== verification/Core_Zram.thy ===== *)
theory Core_Zram
  imports Batch24_Zram_Max_Pages
begin

text \<open>
  \<^verbatim>\<open>scripts/abk_stable_core.py\<close>, lines up to 3199: zram recompression. Anchors, steps and
  group functions stand in source order under the source's names.
\<close>

definition zram_recompression_step1 :: step where
  \<open>zram_recompression_step1 =
   (''drivers/block/zram/Kconfig'',
    block
     [''config ZRAM_MEMORY_TRACKING'',
      ''	bool "Track zRam block status"'',
      ''	depends on ZRAM && DEBUG_FS'',
      ''	help'',
      ''	  With this feature, admin can track the state of allocated blocks'',
      ''	  of zRAM. Admin could see the information via'',
      ''	  /sys/kernel/debug/zram/zramX/block_state.''],
    block
     [''config ZRAM_TRACK_ENTRY_ACTIME'',
      ''	bool "Track access time of zram entries"'',
      ''	depends on ZRAM'',
      ''	help'',
      ''	  With this feature zram tracks access time of every stored'',
      ''	  entry (page), which can be used for a more fine grained IDLE'',
      ''	  pages writeback.'',
      [],
      ''config ZRAM_MEMORY_TRACKING'',
      ''	bool "Track zRam block status"'',
      ''	depends on ZRAM && DEBUG_FS'',
      ''	select ZRAM_TRACK_ENTRY_ACTIME'',
      ''	help'',
      ''	  With this feature, admin can track the state of allocated blocks'',
      ''	  of zRAM. Admin could see the information via'',
      ''	  /sys/kernel/debug/zram/zramX/block_state.'',
      [],
      ''config ZRAM_MULTI_COMP'',
      ''	bool "Enable multiple compression streams"'',
      ''	depends on ZRAM'',
      ''	help'',
      ''	  This will enable multi-compression streams, so that ZRAM can'',
      ''	  re-compress pages using a potentially slower but more effective'',
      ''	  compression algorithm. Note, that IDLE page recompression'',
      ''	  requires ZRAM_TRACK_ENTRY_ACTIME.''], True)\<close>

definition zram_recompression_step2 :: step where
  \<open>zram_recompression_step2 =
   (''drivers/block/zram/zram_drv.h'',
    block
     [''#define ZRAM_FLAG_SHIFT 24'',
      [],
      ''/* Flags for zram pages (table[page_no].flags) */''],
    block
     [''#define ZRAM_FLAG_SHIFT 24'',
      [],
      ''/* Only 2 bits are allowed for comp priority index */'',
      ''#define ZRAM_COMP_PRIORITY_MASK	0x3'',
      [],
      ''/* Flags for zram pages (table[page_no].flags) */''], True)\<close>

definition zram_recompression_step3 :: step where
  \<open>zram_recompression_step3 =
   (''drivers/block/zram/zram_drv.h'',
    block
     [''	ZRAM_HUGE,	/* Incompressible page */'',
      ''	ZRAM_IDLE,	/* not accessed page since last idle marking */'',
      [],
      ''	__NR_ZRAM_PAGEFLAGS,''],
    block
     [''	ZRAM_HUGE,	/* Incompressible page */'',
      ''	ZRAM_IDLE,	/* not accessed page since last idle marking */'',
      ''	ZRAM_INCOMPRESSIBLE, /* none of the algorithms could compress it */'',
      [],
      ''	ZRAM_COMP_PRIORITY_BIT1, /* First bit of comp priority index */'',
      ''	ZRAM_COMP_PRIORITY_BIT2, /* Second bit of comp priority index */'',
      [],
      ''	__NR_ZRAM_PAGEFLAGS,''], True)\<close>

definition zram_recompression_step4 :: step where
  \<open>zram_recompression_step4 =
   (''drivers/block/zram/zram_drv.h'',
    block
     [''	unsigned long flags;'',
      ''#ifdef CONFIG_ZRAM_MEMORY_TRACKING'',
      ''	ktime_t ac_time;'',
      ''#endif'',
      ''};''],
    block
     [''	unsigned long flags;'',
      ''#ifdef CONFIG_ZRAM_TRACK_ENTRY_ACTIME'',
      ''	ktime_t ac_time;'',
      ''#endif'',
      ''};''], True)\<close>

definition zram_recompression_step5 :: step where
  \<open>zram_recompression_step5 =
   (''drivers/block/zram/zram_drv.h'',
    block
     [''struct zram {'',
      ''	struct zram_table_entry *table;'',
      ''	struct zs_pool *mem_pool;'',
      ''	struct zcomp *comp;'',
      []],
    block
     [''#ifdef CONFIG_ZRAM_MULTI_COMP'',
      ''#define ZRAM_PRIMARY_COMP	0U'',
      ''#define ZRAM_SECONDARY_COMP	1U'',
      ''#define ZRAM_MAX_COMPS	4U'',
      ''#else'',
      ''#define ZRAM_PRIMARY_COMP	0U'',
      ''#define ZRAM_SECONDARY_COMP	0U'',
      ''#define ZRAM_MAX_COMPS	1U'',
      ''#endif'',
      [],
      ''struct zram {'',
      ''	struct zram_table_entry *table;'',
      ''	struct zs_pool *mem_pool;'',
      ''	struct zcomp *comps[ZRAM_MAX_COMPS];'',
      []], True)\<close>

definition zram_recompression_step6 :: step where
  \<open>zram_recompression_step6 =
   (''drivers/block/zram/zram_drv.h'',
    block
     [''	u64 disksize;	/* bytes */'',
      ''	char compressor[CRYPTO_MAX_ALG_NAME];'',
      []],
    block
     [''	u64 disksize;	/* bytes */'',
      ''	const char *comp_algs[ZRAM_MAX_COMPS];'',
      ''	s8 num_active_comps;'',
      []], True)\<close>

definition zram_recompression_step7 :: step where
  \<open>zram_recompression_step7 =
   (''include/linux/zsmalloc.h'',
    ''size_t zs_huge_class_size(struct zs_pool *pool);'',
    block
     [''size_t zs_huge_class_size(struct zs_pool *pool);'',
      ''unsigned int zs_lookup_class_index(struct zs_pool *pool,'',
      ''					 unsigned int size);''], True)\<close>

definition zram_recompression_step8 :: step where
  \<open>zram_recompression_step8 =
   (''mm/zsmalloc.c'',
    ''unsigned long zs_get_total_pages(struct zs_pool *pool)'',
    block
     [''unsigned int zs_lookup_class_index(struct zs_pool *pool,'',
      ''				   unsigned int size)'',
      ''{'',
      ''	struct size_class *class;'',
      [],
      ''	class = pool->size_class[get_size_class_index(size)];'',
      [],
      ''	return class->index;'',
      ''}'',
      ''EXPORT_SYMBOL_GPL(zs_lookup_class_index);'',
      [],
      ''unsigned long zs_get_total_pages(struct zs_pool *pool)''], True)\<close>

definition zram_recompression_step9 :: step where
  \<open>zram_recompression_step9 =
   (''drivers/block/zram/zram_drv.c'',
    block
     [''static void zram_set_obj_size(struct zram *zram,'',
      ''					u32 index, size_t size)'',
      ''{'',
      ''	unsigned long flags = zram->table[index].flags >> ZRAM_FLAG_SHIFT;'',
      [],
      ''	zram->table[index].flags = (flags << ZRAM_FLAG_SHIFT) | size;'',
      ''}''],
    block
     [''static void zram_set_obj_size(struct zram *zram,'',
      ''					u32 index, size_t size)'',
      ''{'',
      ''	unsigned long flags = zram->table[index].flags >> ZRAM_FLAG_SHIFT;'',
      [],
      ''	zram->table[index].flags = (flags << ZRAM_FLAG_SHIFT) | size;'',
      ''}'',
      [],
      ''static inline void zram_set_priority(struct zram *zram, u32 index,'',
      ''					 u32 prio)'',
      ''{'',
      ''	prio &= ZRAM_COMP_PRIORITY_MASK;'',
      ''	zram->table[index].flags &= ~((unsigned long)ZRAM_COMP_PRIORITY_MASK <<'',
      ''					        ZRAM_COMP_PRIORITY_BIT1);'',
      ''	zram->table[index].flags |= ((unsigned long)prio << ZRAM_COMP_PRIORITY_BIT1);'',
      ''}'',
      [],
      ''static inline u32 zram_get_priority(struct zram *zram, u32 index)'',
      ''{'',
      ''	u32 prio = zram->table[index].flags >> ZRAM_COMP_PRIORITY_BIT1;'',
      [],
      ''	return prio & ZRAM_COMP_PRIORITY_MASK;'',
      ''}''], True)\<close>

definition zram_recompression_step10 :: step where
  \<open>zram_recompression_step10 =
   (''drivers/block/zram/zram_drv.c'',
    block
     [''static int __zram_bvec_read(struct zram *zram, struct page *page, u32 index,'',
      ''				struct bio *bio, bool partial_io)'',
      ''{'',
      ''	struct zcomp_strm *zstrm;'',
      ''	unsigned long handle;'',
      ''	unsigned int size;'',
      ''	void *src, *dst;'',
      ''	int ret;'',
      [],
      ''	zram_slot_lock(zram, index);'',
      ''	if (zram_test_flag(zram, index, ZRAM_WB)) {'',
      ''		struct bio_vec bvec;'',
      [],
      ''		zram_slot_unlock(zram, index);'',
      [],
      ''		bvec.bv_page = page;'',
      ''		bvec.bv_len = PAGE_SIZE;'',
      ''		bvec.bv_offset = 0;'',
      ''		return read_from_bdev(zram, &bvec,'',
      ''				zram_get_element(zram, index),'',
      ''				bio, partial_io);'',
      ''	}'',
      [],
      ''	handle = zram_get_handle(zram, index);'',
      ''	if (!handle || zram_test_flag(zram, index, ZRAM_SAME)) {'',
      ''		unsigned long value;'',
      ''		void *mem;'',
      [],
      ''		value = handle ? zram_get_element(zram, index) : 0;'',
      ''		mem = kmap_atomic(page);'',
      ''		zram_fill_page(mem, PAGE_SIZE, value);'',
      ''		kunmap_atomic(mem);'',
      ''		zram_slot_unlock(zram, index);'',
      ''		return 0;'',
      ''	}'',
      [],
      ''	size = zram_get_obj_size(zram, index);'',
      [],
      ''	if (size != PAGE_SIZE)'',
      ''		zstrm = zcomp_stream_get(zram->comp);'',
      [],
      ''	src = zs_map_object(zram->mem_pool, handle, ZS_MM_RO);'',
      ''	if (size == PAGE_SIZE) {'',
      ''		dst = kmap_atomic(page);'',
      ''		memcpy(dst, src, PAGE_SIZE);'',
      ''		kunmap_atomic(dst);'',
      ''		ret = 0;'',
      ''	} else {'',
      ''		dst = kmap_atomic(page);'',
      ''		ret = zcomp_decompress(zstrm, src, size, dst);'',
      ''		kunmap_atomic(dst);'',
      ''		zcomp_stream_put(zram->comp);'',
      ''	}'',
      ''	zs_unmap_object(zram->mem_pool, handle);'',
      ''	zram_slot_unlock(zram, index);''],
    block
     [''/*'',
      '' * Reads (decompresses if needed) a page from zspool (zsmalloc).'',
      '' * Corresponding ZRAM slot should be locked.'',
      '' */'',
      ''static int zram_read_from_zspool(struct zram *zram, struct page *page,'',
      ''				 u32 index)'',
      ''{'',
      ''	struct zcomp_strm *zstrm;'',
      ''	unsigned long handle;'',
      ''	unsigned int size;'',
      ''	void *src, *dst;'',
      ''	u32 prio;'',
      ''	int ret;'',
      [],
      ''	handle = zram_get_handle(zram, index);'',
      ''	if (!handle || zram_test_flag(zram, index, ZRAM_SAME)) {'',
      ''		unsigned long value;'',
      ''		void *mem;'',
      [],
      ''		value = handle ? zram_get_element(zram, index) : 0;'',
      ''		mem = kmap_atomic(page);'',
      ''		zram_fill_page(mem, PAGE_SIZE, value);'',
      ''		kunmap_atomic(mem);'',
      ''		return 0;'',
      ''	}'',
      [],
      ''	size = zram_get_obj_size(zram, index);'',
      [],
      ''	prio = zram_get_priority(zram, index);'',
      ''	if (size != PAGE_SIZE)'',
      ''		zstrm = zcomp_stream_get(zram->comps[prio]);'',
      [],
      ''	src = zs_map_object(zram->mem_pool, handle, ZS_MM_RO);'',
      ''	if (size == PAGE_SIZE) {'',
      ''		dst = kmap_atomic(page);'',
      ''		memcpy(dst, src, PAGE_SIZE);'',
      ''		kunmap_atomic(dst);'',
      ''		ret = 0;'',
      ''	} else {'',
      ''		dst = kmap_atomic(page);'',
      ''		ret = zcomp_decompress(zstrm, src, size, dst);'',
      ''		kunmap_atomic(dst);'',
      ''		zcomp_stream_put(zram->comps[prio]);'',
      ''	}'',
      ''	zs_unmap_object(zram->mem_pool, handle);'',
      ''	return ret;'',
      ''}'',
      [],
      ''static int __zram_bvec_read(struct zram *zram, struct page *page, u32 index,'',
      ''				struct bio *bio, bool partial_io)'',
      ''{'',
      ''	int ret;'',
      [],
      ''	zram_slot_lock(zram, index);'',
      ''	if (zram_test_flag(zram, index, ZRAM_WB)) {'',
      ''		struct bio_vec bvec;'',
      [],
      ''		zram_slot_unlock(zram, index);'',
      [],
      ''		bvec.bv_page = page;'',
      ''		bvec.bv_len = PAGE_SIZE;'',
      ''		bvec.bv_offset = 0;'',
      ''		return read_from_bdev(zram, &bvec,'',
      ''				zram_get_element(zram, index),'',
      ''				bio, partial_io);'',
      ''	}'',
      [],
      ''	ret = zram_read_from_zspool(zram, page, index);'',
      ''	zram_slot_unlock(zram, index);''], True)\<close>

definition zram_recompression_step11 :: step where
  \<open>zram_recompression_step11 =
   (''drivers/block/zram/zram_drv.c'',
    block
     [''compress_again:'',
      ''	zstrm = zcomp_stream_get(zram->comp);''],
    block
     [''compress_again:'',
      ''	zstrm = zcomp_stream_get(zram->comps[ZRAM_PRIMARY_COMP]);''], True)\<close>

definition zram_recompression_step12 :: step where
  \<open>zram_recompression_step12 =
   (''drivers/block/zram/zram_drv.c'',
    ''		zcomp_stream_put(zram->comp);'',
    ''		zcomp_stream_put(zram->comps[ZRAM_PRIMARY_COMP]);'', True)\<close>

definition zram_recompression_step13 :: step where
  \<open>zram_recompression_step13 =
   (''drivers/block/zram/zram_drv.c'',
    block
     [''		zcomp_stream_put(zram->comp);'',
      ''		atomic64_inc(&zram->stats.writestall);''],
    block
     [''		zcomp_stream_put(zram->comps[ZRAM_PRIMARY_COMP]);'',
      ''		atomic64_inc(&zram->stats.writestall);''], True)\<close>

definition zram_recompression_step14 :: step where
  \<open>zram_recompression_step14 =
   (''drivers/block/zram/zram_drv.c'',
    block
     [''		zcomp_stream_put(zram->comp);'',
      ''		zs_free(zram->mem_pool, handle);'',
      ''		return -ENOMEM;''],
    block
     [''		zcomp_stream_put(zram->comps[ZRAM_PRIMARY_COMP]);'',
      ''		zs_free(zram->mem_pool, handle);'',
      ''		return -ENOMEM;''], True)\<close>

definition zram_recompression_step15 :: step where
  \<open>zram_recompression_step15 =
   (''drivers/block/zram/zram_drv.c'',
    block
     [''	zcomp_stream_put(zram->comp);'',
      ''	zs_unmap_object(zram->mem_pool, handle);''],
    block
     [''	zcomp_stream_put(zram->comps[ZRAM_PRIMARY_COMP]);'',
      ''	zs_unmap_object(zram->mem_pool, handle);''], True)\<close>

definition zram_recompression_step16 :: step where
  \<open>zram_recompression_step16 =
   (''drivers/block/zram/zram_drv.c'',
    block
     [''	if (zram_test_flag(zram, index, ZRAM_HUGE)) {'',
      ''		zram_clear_flag(zram, index, ZRAM_HUGE);'',
      ''		atomic64_dec(&zram->stats.huge_pages);'',
      ''	}'',
      [],
      ''	if (zram_test_flag(zram, index, ZRAM_WB)) {''],
    block
     [''	if (zram_test_flag(zram, index, ZRAM_HUGE)) {'',
      ''		zram_clear_flag(zram, index, ZRAM_HUGE);'',
      ''		atomic64_dec(&zram->stats.huge_pages);'',
      ''	}'',
      [],
      ''	if (zram_test_flag(zram, index, ZRAM_INCOMPRESSIBLE))'',
      ''		zram_clear_flag(zram, index, ZRAM_INCOMPRESSIBLE);'',
      [],
      ''	zram_set_priority(zram, index, 0);'',
      [],
      ''	if (zram_test_flag(zram, index, ZRAM_WB)) {''], True)\<close>

definition zram_recompression_step17 :: step where
  \<open>zram_recompression_step17 =
   (''drivers/block/zram/zram_drv.c'',
    block
     [''	unsigned long handle;'',
      [],
      ''#ifdef CONFIG_ZRAM_MEMORY_TRACKING'',
      ''	zram->table[index].ac_time = 0;'',
      ''#endif''],
    block
     [''	unsigned long handle;'',
      [],
      ''#ifdef CONFIG_ZRAM_TRACK_ENTRY_ACTIME'',
      ''	zram->table[index].ac_time = 0;'',
      ''#endif''], True)\<close>

definition zram_recompression_step18 :: step where
  \<open>zram_recompression_step18 =
   (''drivers/block/zram/zram_drv.c'',
    block
     [''static void zram_accessed(struct zram *zram, u32 index)'',
      ''{'',
      ''	zram_clear_flag(zram, index, ZRAM_IDLE);'',
      ''	zram->table[index].ac_time = ktime_get_boottime();'',
      ''}''],
    block
     [''static void zram_accessed(struct zram *zram, u32 index)'',
      ''{'',
      ''	zram_clear_flag(zram, index, ZRAM_IDLE);'',
      ''#ifdef CONFIG_ZRAM_TRACK_ENTRY_ACTIME'',
      ''	zram->table[index].ac_time = ktime_get_boottime();'',
      ''#endif'',
      ''}''], True)\<close>

definition zram_recompression_step19 :: step where
  \<open>zram_recompression_step19 =
   (''drivers/block/zram/zram_drv.c'',
    block
     [''static void zram_accessed(struct zram *zram, u32 index)'',
      ''{'',
      ''	zram_clear_flag(zram, index, ZRAM_IDLE);'',
      ''};''],
    block
     [''static void zram_accessed(struct zram *zram, u32 index)'',
      ''{'',
      ''	zram_clear_flag(zram, index, ZRAM_IDLE);'',
      ''#ifdef CONFIG_ZRAM_TRACK_ENTRY_ACTIME'',
      ''	zram->table[index].ac_time = ktime_get_boottime();'',
      ''#endif'',
      ''};''], True)\<close>

definition zram_recompression_step20 :: step where
  \<open>zram_recompression_step20 =
   (''drivers/block/zram/zram_drv.c'',
    ''static void zram_reset_device(struct zram *zram)'',
    block
     [''static void zram_destroy_comps(struct zram *zram)'',
      ''{'',
      ''	u32 prio;'',
      [],
      ''	for (prio = 0; prio < ZRAM_MAX_COMPS; prio++) {'',
      ''		struct zcomp *comp = zram->comps[prio];'',
      [],
      ''		zram->comps[prio] = NULL;'',
      ''		if (!comp)'',
      ''			continue;'',
      ''		zcomp_destroy(comp);'',
      ''		zram->num_active_comps--;'',
      ''	}'',
      ''}'',
      [],
      ''static void zram_reset_device(struct zram *zram)''], True)\<close>

definition zram_recompression_step21 :: step where
  \<open>zram_recompression_step21 =
   (''drivers/block/zram/zram_drv.c'',
    block
     [''static void zram_reset_device(struct zram *zram)'',
      ''{'',
      ''	struct zcomp *comp;'',
      ''	u64 disksize;'',
      [],
      ''	down_write(&zram->init_lock);'',
      [],
      ''	zram->limit_pages = 0;'',
      [],
      ''	if (!init_done(zram)) {'',
      ''		up_write(&zram->init_lock);'',
      ''		return;'',
      ''	}'',
      [],
      ''	comp = zram->comp;'',
      ''	disksize = zram->disksize;'',
      ''	zram->disksize = 0;'',
      [],
      ''	set_capacity_and_notify(zram->disk, 0);'',
      ''	part_stat_set_all(zram->disk->part0, 0);'',
      [],
      ''	up_write(&zram->init_lock);'',
      ''	/* I/O operation under all of CPU are done so let\'s free */'',
      ''	zram_meta_free(zram, disksize);'',
      ''	memset(&zram->stats, 0, sizeof(zram->stats));'',
      ''	zcomp_destroy(comp);'',
      ''	reset_bdev(zram);'',
      ''}''],
    block
     [''static void zram_reset_device(struct zram *zram)'',
      ''{'',
      ''	u64 disksize;'',
      [],
      ''	down_write(&zram->init_lock);'',
      [],
      ''	zram->limit_pages = 0;'',
      [],
      ''	if (!init_done(zram)) {'',
      ''		up_write(&zram->init_lock);'',
      ''		return;'',
      ''	}'',
      [],
      ''	disksize = zram->disksize;'',
      ''	zram->disksize = 0;'',
      [],
      ''	set_capacity_and_notify(zram->disk, 0);'',
      ''	part_stat_set_all(zram->disk->part0, 0);'',
      [],
      ''	/* ABK stable_515_backport: Batch 10-1 drains async recompress jobs'',
      ''	 * before comps/table teardown so queued jobs never see a dead pool.'',
      ''	 */'',
      ''	abk_zram_recomp_drain(zram);'',
      [],
      ''	up_write(&zram->init_lock);'',
      ''	/* I/O operation under all of CPU are done so let\'s free */'',
      ''	zram_meta_free(zram, disksize);'',
      ''	memset(&zram->stats, 0, sizeof(zram->stats));'',
      ''	zram_destroy_comps(zram);'',
      ''	reset_bdev(zram);'',
      ''}''], True)\<close>

definition zram_recompression_step22_old :: str where
  \<open>zram_recompression_step22_old = ''static void zram_bio_discard(struct zram *zram, u32 index,''\<close>

definition zram_recompression_step22_new_lines1 :: "str list" where
  \<open>zram_recompression_step22_new_lines1 =
     [''#ifdef CONFIG_ZRAM_MULTI_COMP'',
      ''/*'',
      '' * Decompress (unless it\'s ZRAM_HUGE) the page and attempt to compress'',
      '' * it using the provided (potentially more effective) algorithm priority.'',
      '' * The corresponding ZRAM slot should be locked.'',
      '' */'',
      ''static int zram_recompress(struct zram *zram, u32 index, struct page *page,'',
      ''			   u32 threshold, u32 prio, u32 prio_max)'',
      ''{'',
      ''	struct zcomp_strm *zstrm = NULL;'',
      ''	unsigned long handle_old, handle_new;'',
      ''	unsigned int comp_len_old, comp_len_new;'',
      ''	unsigned int class_index_old, class_index_new;'',
      ''	u32 num_recomps = 0;'',
      ''	void *src, *dst;'',
      ''	int ret;'',
      [],
      ''	handle_old = zram_get_handle(zram, index);'',
      ''	if (!handle_old)'',
      ''		return -EINVAL;'',
      [],
      ''	comp_len_old = zram_get_obj_size(zram, index);'',
      ''	if (comp_len_old < threshold)'',
      ''		return 0;'',
      [],
      ''	ret = zram_read_from_zspool(zram, page, index);'',
      ''	if (ret)'',
      ''		return ret;'',
      [],
      ''	zram_clear_flag(zram, index, ZRAM_IDLE);'',
      [],
      ''	class_index_old = zs_lookup_class_index(zram->mem_pool, comp_len_old);'',
      ''	for (; prio < prio_max; prio++) {'',
      ''		if (!zram->comps[prio])'',
      ''			continue;'',
      ''		if (prio <= zram_get_priority(zram, index))'',
      ''			continue;'',
      [],
      ''		num_recomps++;'',
      ''		zstrm = zcomp_stream_get(zram->comps[prio]);'',
      ''		src = kmap_atomic(page);'',
      ''		ret = zcomp_compress(zstrm, src, &comp_len_new);'',
      ''		kunmap_atomic(src);'',
      [],
      ''		if (ret) {'',
      ''			zcomp_stream_put(zram->comps[prio]);'',
      ''			return ret;'',
      ''		}'',
      [],
      ''		class_index_new = zs_lookup_class_index(zram->mem_pool, comp_len_new);'',
      ''		if (class_index_new >= class_index_old ||'',
      ''		    (threshold && comp_len_new >= threshold)) {'',
      ''			zcomp_stream_put(zram->comps[prio]);'',
      ''			continue;'',
      ''		}'',
      ''		break;'',
      ''	}'',
      [],
      ''	if (!zstrm)'',
      ''		return 0;'',
      [],
      ''	if (class_index_new >= class_index_old) {'',
      ''		if (num_recomps == zram->num_active_comps - 1)'',
      ''			zram_set_flag(zram, index, ZRAM_INCOMPRESSIBLE);'',
      ''		return 0;'',
      ''	}'',
      [],
      ''	if (threshold && comp_len_new >= threshold)'',
      ''		return 0;'',
      [],
      ''	handle_new = zs_malloc(zram->mem_pool, comp_len_new,'',
      ''			       __GFP_KSWAPD_RECLAIM | __GFP_NOWARN |'',
      ''			       __GFP_HIGHMEM | __GFP_MOVABLE);'',
      ''	if (!handle_new) {'',
      ''		zcomp_stream_put(zram->comps[prio]);'',
      ''		return -ENOMEM;'',
      ''	}'',
      [],
      ''	dst = zs_map_object(zram->mem_pool, handle_new, ZS_MM_WO);'',
      ''	memcpy(dst, zstrm->buffer, comp_len_new);'',
      ''	zcomp_stream_put(zram->comps[prio]);'',
      [],
      ''	zs_unmap_object(zram->mem_pool, handle_new);'',
      [],
      ''	zram_free_page(zram, index);'',
      ''	zram_set_handle(zram, index, handle_new);'',
      ''	zram_set_obj_size(zram, index, comp_len_new);'',
      ''	zram_set_priority(zram, index, prio);'',
      [],
      ''	atomic64_add(comp_len_new, &zram->stats.compr_data_size);'',
      ''	atomic64_inc(&zram->stats.pages_stored);'',
      [],
      ''	return 0;'',
      ''}'',
      [],
      ''#define RECOMPRESS_IDLE		(1 << 0)'',
      ''#define RECOMPRESS_HUGE		(1 << 1)'',
      [],
      ''static ssize_t recompress_store(struct device *dev,'',
      ''				struct device_attribute *attr,'',
      ''				const char *buf, size_t len)'',
      ''{'',
      ''	u32 prio = ZRAM_SECONDARY_COMP, prio_max = ZRAM_MAX_COMPS;'',
      ''	struct zram *zram = dev_to_zram(dev);'',
      ''	unsigned long nr_pages = zram->disksize >> PAGE_SHIFT;'',
      ''	char *args, *param, *val, *algo = NULL;'',
      ''	u32 mode = 0, threshold = 0;'',
      ''	unsigned long index;'',
      ''	struct page *page;'',
      ''	ssize_t ret;'',
      [],
      ''	args = skip_spaces(buf);'',
      ''	while (*args) {'',
      ''		args = next_arg(args, &param, &val);'',
      [],
      ''		if (!val || !*val)'',
      ''			return -EINVAL;'',
      [],
      ''		if (!strcmp(param, "type")) {'',
      ''			if (!strcmp(val, "idle"))'',
      ''				mode = RECOMPRESS_IDLE;'',
      ''			if (!strcmp(val, "huge"))'',
      ''				mode = RECOMPRESS_HUGE;'',
      ''			if (!strcmp(val, "huge_idle"))'',
      ''				mode = RECOMPRESS_IDLE | RECOMPRESS_HUGE;'',
      ''			continue;'',
      ''		}'',
      [],
      ''		if (!strcmp(param, "threshold")) {'',
      ''			ret = kstrtouint(val, 10, &threshold);'',
      ''			if (ret)'',
      ''				return ret;'',
      ''			continue;'',
      ''		}'',
      [],
      ''		if (!strcmp(param, "algo")) {'',
      ''			algo = val;'',
      ''			continue;'',
      ''		}'',
      ''	}'',
      [],
      ''	if (threshold >= huge_class_size)'',
      ''		return -EINVAL;'',
      [],
      ''	down_read(&zram->init_lock);'',
      ''	if (!init_done(zram)) {'',
      ''		ret = -EINVAL;'',
      ''		goto release_init_lock;'',
      ''	}'',
      [],
      ''	if (algo) {'',
      ''		bool found = false;'',
      [],
      ''		for (; prio < ZRAM_MAX_COMPS; prio++) {'',
      ''			if (!zram->comp_algs[prio])'',
      ''				continue;'',
      ''			if (!strcmp(zram->comp_algs[prio], algo)) {'',
      ''				prio_max = min(prio + 1, ZRAM_MAX_COMPS);'',
      ''				found = true;'',
      ''				break;'',
      ''			}'',
      ''		}'',
      [],
      ''		if (!found) {'']\<close>

definition zram_recompression_step22_new_lines2 :: "str list" where
  \<open>zram_recompression_step22_new_lines2 =
     [''			ret = -EINVAL;'',
      ''			goto release_init_lock;'',
      ''		}'',
      ''	}'',
      [],
      ''	page = alloc_page(GFP_KERNEL);'',
      ''	if (!page) {'',
      ''		ret = -ENOMEM;'',
      ''		goto release_init_lock;'',
      ''	}'',
      [],
      ''	ret = len;'',
      ''	for (index = 0; index < nr_pages; index++) {'',
      ''		int err = 0;'',
      [],
      ''		zram_slot_lock(zram, index);'',
      [],
      ''		if (!zram_allocated(zram, index))'',
      ''			goto next;'',
      [],
      ''		if (mode & RECOMPRESS_IDLE &&'',
      ''		    !zram_test_flag(zram, index, ZRAM_IDLE))'',
      ''			goto next;'',
      [],
      ''		if (mode & RECOMPRESS_HUGE &&'',
      ''		    !zram_test_flag(zram, index, ZRAM_HUGE))'',
      ''			goto next;'',
      [],
      ''		if (zram_test_flag(zram, index, ZRAM_WB) ||'',
      ''		    zram_test_flag(zram, index, ZRAM_UNDER_WB) ||'',
      ''		    zram_test_flag(zram, index, ZRAM_SAME) ||'',
      ''		    zram_test_flag(zram, index, ZRAM_INCOMPRESSIBLE))'',
      ''			goto next;'',
      [],
      ''		err = zram_recompress(zram, index, page, threshold, prio, prio_max);'',
      ''next:'',
      ''		zram_slot_unlock(zram, index);'',
      ''		if (err) {'',
      ''			ret = err;'',
      ''			break;'',
      ''		}'',
      [],
      ''		cond_resched();'',
      ''	}'',
      [],
      ''	__free_page(page);'',
      [],
      ''release_init_lock:'',
      ''	up_read(&zram->init_lock);'',
      ''	return ret;'',
      ''}'',
      ''#endif'',
      [],
      ''static void zram_bio_discard(struct zram *zram, u32 index,'']\<close>

definition zram_recompression_step22_new :: str where
  \<open>zram_recompression_step22_new = block (zram_recompression_step22_new_lines1 @ zram_recompression_step22_new_lines2)\<close>

definition zram_recompression_step22 :: step where
  \<open>zram_recompression_step22 =
   (''drivers/block/zram/zram_drv.c'',
    zram_recompression_step22_old,
    zram_recompression_step22_new, True)\<close>

definition zram_recompression_step23 :: step where
  \<open>zram_recompression_step23 =
   (''drivers/block/zram/zram_drv.c'',
    block
     [''static ssize_t idle_store(struct device *dev,'',
      ''		struct device_attribute *attr, const char *buf, size_t len)'',
      ''{'',
      ''	struct zram *zram = dev_to_zram(dev);'',
      ''	unsigned long nr_pages = zram->disksize >> PAGE_SHIFT;'',
      ''	int index;'',
      [],
      ''	if (!sysfs_streq(buf, "all"))'',
      ''		return -EINVAL;'',
      [],
      ''	down_read(&zram->init_lock);'',
      ''	if (!init_done(zram)) {'',
      ''		up_read(&zram->init_lock);'',
      ''		return -EINVAL;'',
      ''	}'',
      [],
      ''	for (index = 0; index < nr_pages; index++) {'',
      ''		/*'',
      ''		 * Do not mark ZRAM_UNDER_WB slot as ZRAM_IDLE to close race.'',
      ''		 * See the comment in writeback_store.'',
      ''		 */'',
      ''		zram_slot_lock(zram, index);'',
      ''		if (zram_allocated(zram, index) &&'',
      ''				!zram_test_flag(zram, index, ZRAM_UNDER_WB))'',
      ''			zram_set_flag(zram, index, ZRAM_IDLE);'',
      ''		zram_slot_unlock(zram, index);'',
      ''	}'',
      [],
      ''	up_read(&zram->init_lock);'',
      [],
      ''	return len;'',
      ''}''],
    block
     [''/*'',
      '' * Mark all pages which are older than or equal to cutoff as IDLE.'',
      '' * Callers should hold the zram init lock in read mode.'',
      '' */'',
      ''static void mark_idle(struct zram *zram, ktime_t cutoff)'',
      ''{'',
      ''	int is_idle = 1;'',
      ''	unsigned long nr_pages = zram->disksize >> PAGE_SHIFT;'',
      ''	int index;'',
      [],
      ''	for (index = 0; index < nr_pages; index++) {'',
      ''		zram_slot_lock(zram, index);'',
      ''		if (!zram_allocated(zram, index) ||'',
      ''		    zram_test_flag(zram, index, ZRAM_WB) ||'',
      ''		    zram_test_flag(zram, index, ZRAM_UNDER_WB) ||'',
      ''		    zram_test_flag(zram, index, ZRAM_SAME)) {'',
      ''			zram_slot_unlock(zram, index);'',
      ''			continue;'',
      ''		}'',
      [],
      ''#ifdef CONFIG_ZRAM_TRACK_ENTRY_ACTIME'',
      ''		is_idle = !cutoff ||'',
      ''			ktime_after(cutoff, zram->table[index].ac_time);'',
      ''#endif'',
      ''		if (is_idle)'',
      ''			zram_set_flag(zram, index, ZRAM_IDLE);'',
      ''		else'',
      ''			zram_clear_flag(zram, index, ZRAM_IDLE);'',
      ''		zram_slot_unlock(zram, index);'',
      ''	}'',
      ''}'',
      [],
      ''static ssize_t idle_store(struct device *dev,'',
      ''		struct device_attribute *attr, const char *buf, size_t len)'',
      ''{'',
      ''	struct zram *zram = dev_to_zram(dev);'',
      ''	ktime_t cutoff_time = 0;'',
      [],
      ''	if (!sysfs_streq(buf, "all")) {'',
      ''		u64 age_sec;'',
      [],
      ''		if (IS_ENABLED(CONFIG_ZRAM_TRACK_ENTRY_ACTIME) &&'',
      ''		    !kstrtoull(buf, 0, &age_sec))'',
      ''			cutoff_time = ktime_sub(ktime_get_boottime(),'',
      ''					ns_to_ktime(age_sec * NSEC_PER_SEC));'',
      ''		else'',
      ''			return -EINVAL;'',
      ''	}'',
      [],
      ''	down_read(&zram->init_lock);'',
      ''	if (!init_done(zram)) {'',
      ''		up_read(&zram->init_lock);'',
      ''		return -EINVAL;'',
      ''	}'',
      [],
      ''	mark_idle(zram, cutoff_time);'',
      ''	up_read(&zram->init_lock);'',
      [],
      ''	return len;'',
      ''}''], True)\<close>

definition zram_recompression_step24 :: step where
  \<open>zram_recompression_step24 =
   (''drivers/block/zram/zram_drv.c'',
    block
     [''static ssize_t comp_algorithm_show(struct device *dev,'',
      ''		struct device_attribute *attr, char *buf)'',
      ''{'',
      ''	size_t sz;'',
      ''	struct zram *zram = dev_to_zram(dev);'',
      [],
      ''	down_read(&zram->init_lock);'',
      ''	sz = zcomp_available_show(zram->compressor, buf);'',
      ''	up_read(&zram->init_lock);'',
      [],
      ''	return sz;'',
      ''}'',
      [],
      ''static ssize_t comp_algorithm_store(struct device *dev,'',
      ''		struct device_attribute *attr, const char *buf, size_t len)'',
      ''{'',
      ''	struct zram *zram = dev_to_zram(dev);'',
      ''	char compressor[ARRAY_SIZE(zram->compressor)];'',
      ''	size_t sz;'',
      [],
      ''	strlcpy(compressor, buf, sizeof(compressor));'',
      ''	/* ignore trailing newline */'',
      ''	sz = strlen(compressor);'',
      (''	if (sz > 0 && compressor[sz - 1] == '' @ [QUO] @ [BSL] @ ''n\')''),
      ''		compressor[sz - 1] = 0x00;'',
      [],
      ''	if (!zcomp_available_algorithm(compressor))'',
      ''		return -EINVAL;'',
      [],
      ''	down_write(&zram->init_lock);'',
      ''	if (init_done(zram)) {'',
      ''		up_write(&zram->init_lock);'',
      (''		pr_info("Can\'t change algorithm for initialized device'' @ [BSL] @ ''n");''),
      ''		return -EBUSY;'',
      ''	}'',
      [],
      ''	strcpy(zram->compressor, compressor);'',
      ''	up_write(&zram->init_lock);'',
      ''	return len;'',
      ''}''],
    block
     [''/* Do not free statically defined compression algorithms */'',
      ''static void comp_algorithm_set(struct zram *zram, u32 prio,'',
      ''				    const char *alg)'',
      ''{'',
      ''	if (zram->comp_algs[prio] != default_compressor)'',
      ''		kfree(zram->comp_algs[prio]);'',
      [],
      ''	zram->comp_algs[prio] = alg;'',
      ''}'',
      [],
      ''static ssize_t __comp_algorithm_show(struct zram *zram, u32 prio, char *buf)'',
      ''{'',
      ''	ssize_t sz;'',
      [],
      ''	down_read(&zram->init_lock);'',
      ''	sz = zcomp_available_show(zram->comp_algs[prio], buf);'',
      ''	up_read(&zram->init_lock);'',
      [],
      ''	return sz;'',
      ''}'',
      [],
      ''static int __comp_algorithm_store(struct zram *zram, u32 prio, const char *buf)'',
      ''{'',
      ''	char *compressor;'',
      ''	size_t sz;'',
      [],
      ''	sz = strlen(buf);'',
      ''	if (sz >= CRYPTO_MAX_ALG_NAME)'',
      ''		return -E2BIG;'',
      [],
      ''	compressor = kstrdup(buf, GFP_KERNEL);'',
      ''	if (!compressor)'',
      ''		return -ENOMEM;'',
      [],
      (''	if (sz > 0 && compressor[sz - 1] == '' @ [QUO] @ [BSL] @ ''n\')''),
      ''		compressor[sz - 1] = 0x00;'',
      [],
      ''	if (!zcomp_available_algorithm(compressor)) {'',
      ''		kfree(compressor);'',
      ''		return -EINVAL;'',
      ''	}'',
      [],
      ''	down_write(&zram->init_lock);'',
      ''	if (init_done(zram)) {'',
      ''		up_write(&zram->init_lock);'',
      ''		kfree(compressor);'',
      (''		pr_info("Can\'t change algorithm for initialized device'' @ [BSL] @ ''n");''),
      ''		return -EBUSY;'',
      ''	}'',
      [],
      ''	comp_algorithm_set(zram, prio, compressor);'',
      ''	up_write(&zram->init_lock);'',
      ''	return 0;'',
      ''}'',
      [],
      ''static ssize_t comp_algorithm_show(struct device *dev,'',
      ''		struct device_attribute *attr, char *buf)'',
      ''{'',
      ''	struct zram *zram = dev_to_zram(dev);'',
      [],
      ''	return __comp_algorithm_show(zram, ZRAM_PRIMARY_COMP, buf);'',
      ''}'',
      [],
      ''static ssize_t comp_algorithm_store(struct device *dev,'',
      ''		struct device_attribute *attr, const char *buf, size_t len)'',
      ''{'',
      ''	struct zram *zram = dev_to_zram(dev);'',
      ''	int ret;'',
      [],
      ''	ret = __comp_algorithm_store(zram, ZRAM_PRIMARY_COMP, buf);'',
      ''	return ret ? ret : len;'',
      ''}''], True)\<close>

definition zram_recompression_step25 :: step where
  \<open>zram_recompression_step25 =
   (''drivers/block/zram/zram_drv.c'',
    block
     [''static ssize_t compact_store(struct device *dev,'',
      ''		struct device_attribute *attr, const char *buf, size_t len)'',
      ''{'',
      ''	struct zram *zram = dev_to_zram(dev);'',
      [],
      ''	down_read(&zram->init_lock);'',
      ''	if (!init_done(zram)) {'',
      ''		up_read(&zram->init_lock);'',
      ''		return -EINVAL;'',
      ''	}'',
      [],
      ''	zs_compact(zram->mem_pool);'',
      ''	up_read(&zram->init_lock);'',
      [],
      ''	return len;'',
      ''}''],
    block
     [''#ifdef CONFIG_ZRAM_MULTI_COMP'',
      ''static ssize_t recomp_algorithm_show(struct device *dev,'',
      ''				     struct device_attribute *attr, char *buf)'',
      ''{'',
      ''	struct zram *zram = dev_to_zram(dev);'',
      ''	ssize_t sz = 0;'',
      ''	u32 prio;'',
      [],
      ''	for (prio = ZRAM_SECONDARY_COMP; prio < ZRAM_MAX_COMPS; prio++) {'',
      ''		if (!zram->comp_algs[prio])'',
      ''			continue;'',
      [],
      ''		sz += scnprintf(buf + sz, PAGE_SIZE - sz - 2, "#%d: ", prio);'',
      ''		sz += __comp_algorithm_show(zram, prio, buf + sz);'',
      ''	}'',
      [],
      ''	return sz;'',
      ''}'',
      [],
      ''static ssize_t recomp_algorithm_store(struct device *dev,'',
      ''				      struct device_attribute *attr, const char *buf,'',
      ''				      size_t len)'',
      ''{'',
      ''	struct zram *zram = dev_to_zram(dev);'',
      ''	int prio = ZRAM_SECONDARY_COMP;'',
      ''	char *args, *param, *val;'',
      ''	char *alg = NULL;'',
      ''	int ret;'',
      [],
      ''	args = skip_spaces(buf);'',
      ''	while (*args) {'',
      ''		args = next_arg(args, &param, &val);'',
      [],
      ''		if (!val || !*val)'',
      ''			return -EINVAL;'',
      [],
      ''		if (!strcmp(param, "algo")) {'',
      ''			alg = val;'',
      ''			continue;'',
      ''		}'',
      [],
      ''		if (!strcmp(param, "priority")) {'',
      ''			ret = kstrtoint(val, 10, &prio);'',
      ''			if (ret)'',
      ''				return ret;'',
      ''			continue;'',
      ''		}'',
      ''	}'',
      [],
      ''	if (!alg)'',
      ''		return -EINVAL;'',
      [],
      ''	if (prio < ZRAM_SECONDARY_COMP || prio >= ZRAM_MAX_COMPS)'',
      ''		return -EINVAL;'',
      [],
      ''	ret = __comp_algorithm_store(zram, prio, alg);'',
      ''	return ret ? ret : len;'',
      ''}'',
      ''#endif'',
      [],
      ''static ssize_t compact_store(struct device *dev,'',
      ''		struct device_attribute *attr, const char *buf, size_t len)'',
      ''{'',
      ''	struct zram *zram = dev_to_zram(dev);'',
      [],
      ''	down_read(&zram->init_lock);'',
      ''	if (!init_done(zram)) {'',
      ''		up_read(&zram->init_lock);'',
      ''		return -EINVAL;'',
      ''	}'',
      [],
      ''	zs_compact(zram->mem_pool);'',
      ''	up_read(&zram->init_lock);'',
      [],
      ''	return len;'',
      ''}''], True)\<close>

definition zram_recompression_step26 :: step where
  \<open>zram_recompression_step26 =
   (''drivers/block/zram/zram_drv.c'',
    block
     [''	comp = zcomp_create(zram->compressor);'',
      ''	if (IS_ERR(comp)) {'',
      (''		pr_err("Cannot initialise %s compressing backend'' @ [BSL] @ ''n",''),
      ''				zram->compressor);'',
      ''		err = PTR_ERR(comp);'',
      ''		goto out_free_meta;'',
      ''	}'',
      [],
      ''	zram->comp = comp;'',
      ''	zram->disksize = disksize;''],
    block
     [''	for (prio = 0; prio < ZRAM_MAX_COMPS; prio++) {'',
      ''		if (!zram->comp_algs[prio])'',
      ''			continue;'',
      [],
      ''		comp = zcomp_create(zram->comp_algs[prio]);'',
      ''		if (IS_ERR(comp)) {'',
      (''			pr_err("Cannot initialise %s compressing backend'' @ [BSL] @ ''n",''),
      ''			       zram->comp_algs[prio]);'',
      ''			err = PTR_ERR(comp);'',
      ''			goto out_free_comps;'',
      ''		}'',
      [],
      ''		zram->comps[prio] = comp;'',
      ''		zram->num_active_comps++;'',
      ''	}'',
      ''	zram->disksize = disksize;''], True)\<close>

definition zram_recompression_step27 :: step where
  \<open>zram_recompression_step27 =
   (''drivers/block/zram/zram_drv.c'',
    block
     [''	u64 disksize;'',
      ''	struct zcomp *comp;'',
      ''	struct zram *zram = dev_to_zram(dev);'',
      ''	int err;'',
      []],
    block
     [''	u64 disksize;'',
      ''	struct zcomp *comp;'',
      ''	struct zram *zram = dev_to_zram(dev);'',
      ''	int err;'',
      ''	u32 prio;'',
      []], True)\<close>

definition zram_recompression_step28 :: step where
  \<open>zram_recompression_step28 =
   (''drivers/block/zram/zram_drv.c'',
    block
     [''out_free_meta:'',
      ''	zram_meta_free(zram, disksize);'',
      ''out_unlock:''],
    block
     [''out_free_comps:'',
      ''	zram_destroy_comps(zram);'',
      ''	zram_meta_free(zram, disksize);'',
      ''out_unlock:''], True)\<close>

definition zram_recompression_step29 :: step where
  \<open>zram_recompression_step29 =
   (''drivers/block/zram/zram_drv.c'',
    ''	strlcpy(zram->compressor, default_compressor, sizeof(zram->compressor));'',
    block
     [''	zram->comp_algs[ZRAM_PRIMARY_COMP] = default_compressor;'',
      ''	zram->num_active_comps = 1;''], True)\<close>

definition zram_recompression_step30 :: step where
  \<open>zram_recompression_step30 =
   (''drivers/block/zram/zram_drv.c'',
    block
     [''static DEVICE_ATTR_RW(comp_algorithm);'',
      ''#ifdef CONFIG_ZRAM_WRITEBACK''],
    block
     [''static DEVICE_ATTR_RW(comp_algorithm);'',
      ''#ifdef CONFIG_ZRAM_MULTI_COMP'',
      ''static DEVICE_ATTR_WO(recompress);'',
      ''static DEVICE_ATTR_RW(recomp_algorithm);'',
      ''#endif'',
      ''#ifdef CONFIG_ZRAM_WRITEBACK''], True)\<close>

definition zram_recompression_step31 :: step where
  \<open>zram_recompression_step31 =
   (''drivers/block/zram/zram_drv.c'',
    block
     [''	&dev_attr_comp_algorithm.attr,'',
      ''#ifdef CONFIG_ZRAM_WRITEBACK'',
      ''	&dev_attr_backing_dev.attr,''],
    block
     [''	&dev_attr_comp_algorithm.attr,'',
      ''#ifdef CONFIG_ZRAM_MULTI_COMP'',
      ''	&dev_attr_recompress.attr,'',
      ''	&dev_attr_recomp_algorithm.attr,'',
      ''#endif'',
      ''#ifdef CONFIG_ZRAM_WRITEBACK'',
      ''	&dev_attr_backing_dev.attr,''], True)\<close>

definition zram_recompression_steps :: "step list" where
  \<open>zram_recompression_steps = [zram_recompression_step1, zram_recompression_step2, zram_recompression_step3, zram_recompression_step4, zram_recompression_step5, zram_recompression_step6, zram_recompression_step7, zram_recompression_step8, zram_recompression_step9, zram_recompression_step10, zram_recompression_step11, zram_recompression_step12, zram_recompression_step13, zram_recompression_step14, zram_recompression_step15, zram_recompression_step16, zram_recompression_step17, zram_recompression_step18, zram_recompression_step19, zram_recompression_step20, zram_recompression_step21, zram_recompression_step22, zram_recompression_step23, zram_recompression_step24, zram_recompression_step25, zram_recompression_step26, zram_recompression_step27, zram_recompression_step28, zram_recompression_step29, zram_recompression_step30, zram_recompression_step31]\<close>

definition zram_recompression_apply :: "outcome io" where
  \<open>zram_recompression_apply =
    io_bind (read_or_empty ''drivers/block/zram/zram_drv.c'') (\<lambda>probe.
    if contains b24_RECOMPRESS_HELPER probe
    then io_ret (AlreadyPresent, ''the recompression graft is already in zram_drv.c'')
    else
    apply_or_block zram_recompression_steps)\<close>

lemma zram_recompression_steps_files: "steps_files zram_recompression_steps = {''drivers/block/zram/Kconfig'', ''drivers/block/zram/zram_drv.h'', ''include/linux/zsmalloc.h'', ''mm/zsmalloc.c'', ''drivers/block/zram/zram_drv.c''}"
  by (simp add: zram_recompression_steps_def steps_files_fst insert_commute
      step_file [OF zram_recompression_step1_def]
      step_file [OF zram_recompression_step2_def]
      step_file [OF zram_recompression_step3_def]
      step_file [OF zram_recompression_step4_def]
      step_file [OF zram_recompression_step5_def]
      step_file [OF zram_recompression_step6_def]
      step_file [OF zram_recompression_step7_def]
      step_file [OF zram_recompression_step8_def]
      step_file [OF zram_recompression_step9_def]
      step_file [OF zram_recompression_step10_def]
      step_file [OF zram_recompression_step11_def]
      step_file [OF zram_recompression_step12_def]
      step_file [OF zram_recompression_step13_def]
      step_file [OF zram_recompression_step14_def]
      step_file [OF zram_recompression_step15_def]
      step_file [OF zram_recompression_step16_def]
      step_file [OF zram_recompression_step17_def]
      step_file [OF zram_recompression_step18_def]
      step_file [OF zram_recompression_step19_def]
      step_file [OF zram_recompression_step20_def]
      step_file [OF zram_recompression_step21_def]
      step_file [OF zram_recompression_step22_def]
      step_file [OF zram_recompression_step23_def]
      step_file [OF zram_recompression_step24_def]
      step_file [OF zram_recompression_step25_def]
      step_file [OF zram_recompression_step26_def]
      step_file [OF zram_recompression_step27_def]
      step_file [OF zram_recompression_step28_def]
      step_file [OF zram_recompression_step29_def]
      step_file [OF zram_recompression_step30_def]
      step_file [OF zram_recompression_step31_def])

lemma zram_recompression_steps_required: "all_required zram_recompression_steps"
  by (simp add: zram_recompression_steps_def all_required_def
      step_req [OF zram_recompression_step1_def]
      step_req [OF zram_recompression_step2_def]
      step_req [OF zram_recompression_step3_def]
      step_req [OF zram_recompression_step4_def]
      step_req [OF zram_recompression_step5_def]
      step_req [OF zram_recompression_step6_def]
      step_req [OF zram_recompression_step7_def]
      step_req [OF zram_recompression_step8_def]
      step_req [OF zram_recompression_step9_def]
      step_req [OF zram_recompression_step10_def]
      step_req [OF zram_recompression_step11_def]
      step_req [OF zram_recompression_step12_def]
      step_req [OF zram_recompression_step13_def]
      step_req [OF zram_recompression_step14_def]
      step_req [OF zram_recompression_step15_def]
      step_req [OF zram_recompression_step16_def]
      step_req [OF zram_recompression_step17_def]
      step_req [OF zram_recompression_step18_def]
      step_req [OF zram_recompression_step19_def]
      step_req [OF zram_recompression_step20_def]
      step_req [OF zram_recompression_step21_def]
      step_req [OF zram_recompression_step22_def]
      step_req [OF zram_recompression_step23_def]
      step_req [OF zram_recompression_step24_def]
      step_req [OF zram_recompression_step25_def]
      step_req [OF zram_recompression_step26_def]
      step_req [OF zram_recompression_step27_def]
      step_req [OF zram_recompression_step28_def]
      step_req [OF zram_recompression_step29_def]
      step_req [OF zram_recompression_step30_def]
      step_req [OF zram_recompression_step31_def])

lemma zram_recompression_apply_txn: "transactional (\<lambda>_. {''drivers/block/zram/Kconfig'', ''drivers/block/zram/zram_drv.h'', ''include/linux/zsmalloc.h'', ''mm/zsmalloc.c'', ''drivers/block/zram/zram_drv.c''}) zram_recompression_apply"
  unfolding zram_recompression_apply_def
  by (intro txn_intros safe_intros)
    (simp_all add: is_backup_code BACKUP_SUFFIX_def zram_recompression_steps_files)

end
