(* ===== verification/Core_Config.thy ===== *)
theory Core_Config
  imports Registry_Laws
begin

text \<open>
  \<^verbatim>\<open>scripts/abk_stable_core.py\<close>, lines up to 3406: the defconfig lane. Anchors, steps and
  group functions stand in source order under the source's names.
\<close>

definition MODULE_CONFIGS :: "(str \<times> str) list" where
  \<open>MODULE_CONFIGS =
     [(''ZRAM_TRACK_ENTRY_ACTIME'', ''y''),
      (''ZRAM_MULTI_COMP'', ''y''),
      (''ABK_DYNAMIC_READAHEAD'', ''y''),
      (''RCU_NOCB_CPU_DEFAULT_ALL'', ''y'')]\<close>

definition ALIGN_CONFIGS :: "(str \<times> str) list" where
  \<open>ALIGN_CONFIGS =
     [(''LRU_GEN_ENABLED'', ''y''),
      (''TCP_CONG_ADVANCED'', ''y''),
      (''TCP_CONG_BBR'', ''y''),
      (''BLK_WBT'', ''y''),
      (''BLK_DEV_THROTTLING'', ''y''),
      (''TASK_DELAY_ACCT'', ''y'')]\<close>

definition ROM_CONFIGS :: "(str \<times> str) list" where
  \<open>ROM_CONFIGS =
     [(''ZRAM_WRITEBACK'', ''y'')]\<close>

definition INTRODUCED_KCONFIG :: "(str \<times> str option) list" where
  \<open>INTRODUCED_KCONFIG =
     [(''ZRAM_TRACK_ENTRY_ACTIME'', Some ''module''),
      (''ZRAM_MULTI_COMP'', Some ''module''),
      (''ABK_DYNAMIC_READAHEAD'', Some ''module''),
      (''RCU_NOCB_CPU_DEFAULT_ALL'', Some ''module''),
      (''LRU_GEN_ENABLED'', Some ''align''),
      (''ZSMALLOC_CHAIN_SIZE'', None),
      (''ZRAM_WRITEBACK'', Some ''rom'')]\<close>

definition PSI_CMDLINE_TOKEN :: str where
  \<open>PSI_CMDLINE_TOKEN = ''cgroup_disable=pressure''\<close>

definition env_flag :: "str \<Rightarrow> (str \<rightharpoonup> str) \<Rightarrow> bool" where
  \<comment> \<open>\<open>os.environ.get(name, "").strip() == "1"\<close>\<close>
  "env_flag name env \<longleftrightarrow> py_strip (case env name of None \<Rightarrow> [] | Some v \<Rightarrow> v) = ''1''"

definition config_enablement_apply :: "outcome io" where
  \<open>config_enablement_apply =
    io_bind (io_get (\<lambda>g. env_flag ''ABK_515_DEFCONFIG_ALIGN'' (environ g))) (\<lambda>align.
    io_bind (io_get (\<lambda>g. env_flag ''ABK_515_DEFCONFIG_ROM'' (environ g))) (\<lambda>rom.
    io_bind (io_get (\<lambda>g. env_flag ''ABK_515_DEFCONFIG_PSI'' (environ g))) (\<lambda>psi.
    let configs = MODULE_CONFIGS @ (if align then ALIGN_CONFIGS else []) @ (if rom then ROM_CONFIGS else []);
        tiers = [''module-owned symbols only''] @ (if align then [''6.6 GKI align''] else []) @
          (if rom then [''ROM integration''] else []) @ (if psi then [''per-cgroup PSI accounting''] else []);
        finish = (\<lambda>(status, detail). io_ret (status, detail @ '' ['' @ py_join '', '' tiers @ '']''))
    in
    io_bind (enable_configs configs) (\<lambda>(status, detail).
    if psi
    then io_bind (defconfig_drop_cmdline_token PSI_CMDLINE_TOKEN) (\<lambda>(psi_status, psi_detail).
      finish (if psi_status = BlockedByMissingAnchor then psi_status
              else if psi_status = Applied then Applied else status,
              detail @ ''; '' @ psi_detail))
    else finish (status, detail)))))\<close>

end
