(* ===== verification/Core_Madvise.thy ===== *)
theory Core_Madvise
  imports Registry_Laws
begin

text \<open>
  \<^verbatim>\<open>scripts/abk_stable_core.py\<close>, lines up to 3875: zsmalloc chain sizes and madvise(MADV_COLLAPSE). Anchors, steps and
  group functions stand in source order under the source's names.
\<close>

definition ZS_KCONFIG_STAT :: str where
  \<open>ZS_KCONFIG_STAT = block
     [''config ZSMALLOC_STAT'',
      ''	bool "Export zsmalloc statistics"'',
      ''	depends on ZSMALLOC'',
      ''	select DEBUG_FS'',
      ''	help'',
      ''	  This option enables code in the zsmalloc to collect various'',
      ''	  statistics about what\'s happening in zsmalloc and exports that'',
      ''	  information to userspace via debugfs.'',
      ''	  If unsure, say N.'',
      []]\<close>

definition ZS_KCONFIG_CHAIN :: str where
  \<open>ZS_KCONFIG_CHAIN = block
     [[],
      ''config ZSMALLOC_CHAIN_SIZE'',
      ''	int "Maximum number of physical pages per-zspage"'',
      ''	default 8'',
      ''	range 4 16'',
      ''	depends on ZSMALLOC'',
      ''	help'',
      ''	  This option sets the upper limit on the number of physical pages'',
      ''	  that a zmalloc page (zspage) can consist of. The optimal zspage'',
      ''	  chain size is calculated for each size class during the'',
      ''	  initialization of the pool.'',
      []]\<close>

definition ZS_MACRO_OLD :: str where
  \<open>ZS_MACRO_OLD = block
     [''/*'',
      '' * A single \'zspage\' is composed of up to 2^N discontiguous 0-order (single)'',
      '' * pages. ZS_MAX_ZSPAGE_ORDER defines upper limit on N.'',
      '' */'',
      ''#define ZS_MAX_ZSPAGE_ORDER 2'',
      ''#define ZS_MAX_PAGES_PER_ZSPAGE (_AC(1, UL) << ZS_MAX_ZSPAGE_ORDER)'',
      []]\<close>

definition ZS_MACRO_NEW :: str where
  \<open>ZS_MACRO_NEW = block
     [''/*'',
      '' * A single \'zspage\' is composed of up to N discontiguous 0-order (single)'',
      '' * pages.  CONFIG_ZSMALLOC_CHAIN_SIZE bounds N; the class sizing pass picks'',
      '' * the chain length that wastes the least space per object, so the higher'',
      '' * ceiling is what pays back internal fragmentation in small classes.'',
      '' *'',
      '' * ABK stable_515_backport: zsmalloc chain size (android15-6.6 / 6.2)'',
      '' */'',
      ''#define ZS_MAX_PAGES_PER_ZSPAGE	(_AC(CONFIG_ZSMALLOC_CHAIN_SIZE, UL))'',
      []]\<close>

definition ZS_SIZING_OLD :: str where
  \<open>ZS_SIZING_OLD = block
     [''static int get_pages_per_zspage(int class_size)'',
      ''{'',
      ''	int i, max_usedpc = 0;'',
      ''	/* zspage order which gives maximum used size per KB */'',
      ''	int max_usedpc_order = 1;'',
      [],
      ''	for (i = 1; i <= ZS_MAX_PAGES_PER_ZSPAGE; i++) {'',
      ''		int zspage_size;'',
      ''		int waste, usedpc;'',
      [],
      ''		zspage_size = i * PAGE_SIZE;'',
      ''		waste = zspage_size % class_size;'',
      ''		usedpc = (zspage_size - waste) * 100 / zspage_size;'',
      [],
      ''		if (usedpc > max_usedpc) {'',
      ''			max_usedpc = usedpc;'',
      ''			max_usedpc_order = i;'',
      ''		}'',
      ''	}'',
      [],
      ''	return max_usedpc_order;'',
      ''}'',
      []]\<close>

definition ZS_SIZING_NEW :: str where
  \<open>ZS_SIZING_NEW = block
     [''static int calculate_zspage_chain_size(int class_size)'',
      ''{'',
      ''	int i, min_waste = INT_MAX;'',
      ''	int chain_size = 1;'',
      [],
      ''	/* ABK stable_515_backport: pick the chain with the least hard waste */'',
      ''	if (is_power_of_2(class_size))'',
      ''		return chain_size;'',
      [],
      ''	for (i = 1; i <= ZS_MAX_PAGES_PER_ZSPAGE; i++) {'',
      ''		int waste;'',
      [],
      ''		waste = (i * PAGE_SIZE) % class_size;'',
      ''		if (waste < min_waste) {'',
      ''			min_waste = waste;'',
      ''			chain_size = i;'',
      ''		}'',
      ''	}'',
      [],
      ''	return chain_size;'',
      ''}'',
      []]\<close>

definition ZS_ISOLATED_BITS_OLD :: str where
  \<open>ZS_ISOLATED_BITS_OLD = block
     [''#define ISOLATED_BITS	3'',
      []]\<close>

definition ZS_ISOLATED_BITS_NEW :: str where
  \<open>ZS_ISOLATED_BITS_NEW = block
     [''#define ISOLATED_BITS	5'',
      []]\<close>

definition zsmalloc_chain_size_step1 :: step where
  \<open>zsmalloc_chain_size_step1 =
   (''mm/Kconfig'',
    ZS_KCONFIG_STAT,
    ZS_KCONFIG_STAT @
   ZS_KCONFIG_CHAIN, True)\<close>

definition zsmalloc_chain_size_step2 :: step where
  \<open>zsmalloc_chain_size_step2 =
   (''mm/zsmalloc.c'',
    ZS_MACRO_OLD,
    ZS_MACRO_NEW, True)\<close>

definition zsmalloc_chain_size_step3 :: step where
  \<open>zsmalloc_chain_size_step3 =
   (''mm/zsmalloc.c'',
    ZS_SIZING_OLD,
    ZS_SIZING_NEW, True)\<close>

definition zsmalloc_chain_size_step4 :: step where
  \<open>zsmalloc_chain_size_step4 =
   (''mm/zsmalloc.c'',
    block
     [''		pages_per_zspage = get_pages_per_zspage(size);'',
      []],
    block
     [''		pages_per_zspage = calculate_zspage_chain_size(size);'',
      []], True)\<close>

definition zsmalloc_chain_size_step5 :: step where
  \<open>zsmalloc_chain_size_step5 =
   (''mm/zsmalloc.c'',
    ZS_ISOLATED_BITS_OLD,
    ZS_ISOLATED_BITS_NEW, True)\<close>

definition zsmalloc_chain_size_steps :: "step list" where
  \<open>zsmalloc_chain_size_steps = [zsmalloc_chain_size_step1, zsmalloc_chain_size_step2, zsmalloc_chain_size_step3, zsmalloc_chain_size_step4, zsmalloc_chain_size_step5]\<close>

definition zsmalloc_chain_size_apply :: "outcome io" where
  \<open>zsmalloc_chain_size_apply =
    apply_or_block zsmalloc_chain_size_steps\<close>

lemma zsmalloc_chain_size_steps_files: "steps_files zsmalloc_chain_size_steps = {''mm/Kconfig'', ''mm/zsmalloc.c''}"
  by (simp add: zsmalloc_chain_size_steps_def steps_files_fst insert_commute
      step_file [OF zsmalloc_chain_size_step1_def]
      step_file [OF zsmalloc_chain_size_step2_def]
      step_file [OF zsmalloc_chain_size_step3_def]
      step_file [OF zsmalloc_chain_size_step4_def]
      step_file [OF zsmalloc_chain_size_step5_def])

lemma zsmalloc_chain_size_steps_required: "all_required zsmalloc_chain_size_steps"
  by (simp add: zsmalloc_chain_size_steps_def all_required_def
      step_req [OF zsmalloc_chain_size_step1_def]
      step_req [OF zsmalloc_chain_size_step2_def]
      step_req [OF zsmalloc_chain_size_step3_def]
      step_req [OF zsmalloc_chain_size_step4_def]
      step_req [OF zsmalloc_chain_size_step5_def])

lemma zsmalloc_chain_size_apply_txn: "transactional (\<lambda>_. {''mm/Kconfig'', ''mm/zsmalloc.c''}) zsmalloc_chain_size_apply"
  unfolding zsmalloc_chain_size_apply_def
  by (intro txn_intros safe_intros)
    (simp_all add: is_backup_code BACKUP_SUFFIX_def zsmalloc_chain_size_steps_files)

definition MC_UAPI_ANCHOR :: str where
  \<open>MC_UAPI_ANCHOR = ''#define MADV_POPULATE_WRITE	23	/* populate (prefault) page tables writable */''\<close>

definition MC_UAPI_NEW :: str where
  \<open>MC_UAPI_NEW = ''#define MADV_COLLAPSE	25		/* Synchronous hugepage collapse */''\<close>

definition MC_HEADER_ANCHOR :: str where
  \<open>MC_HEADER_ANCHOR = block
     [''int hugepage_madvise(struct vm_area_struct *vma, unsigned long *vm_flags,'',
      ''		     int advice);'']\<close>

definition MC_HEADER_DECL :: str where
  \<open>MC_HEADER_DECL = block
     [''int madvise_collapse(struct vm_area_struct *vma,'',
      ''		     struct vm_area_struct **prev,'',
      ''		     unsigned long start, unsigned long end);'']\<close>

definition MC_NEED_MMAP_OLD :: str where
  \<open>MC_NEED_MMAP_OLD = block
     [''	case MADV_POPULATE_READ:'',
      ''	case MADV_POPULATE_WRITE:'',
      ''		return 0;'']\<close>

definition MC_NEED_MMAP_NEW :: str where
  \<open>MC_NEED_MMAP_NEW = block
     [''	case MADV_POPULATE_READ:'',
      ''	case MADV_POPULATE_WRITE:'',
      ''	case MADV_COLLAPSE:'',
      ''		return 0;'']\<close>

definition MC_CASE_OLD :: str where
  \<open>MC_CASE_OLD = block
     [''	case MADV_POPULATE_READ:'',
      ''	case MADV_POPULATE_WRITE:'',
      ''		return madvise_populate(vma, prev, start, end, behavior);'']\<close>

definition MC_CASE_NEW :: str where
  \<open>MC_CASE_NEW = MC_CASE_OLD @
   block
     [[],
      ''#ifdef CONFIG_TRANSPARENT_HUGEPAGE'',
      ''	/* ABK stable_515_backport: MADV_COLLAPSE (android14-6.1) */'',
      ''	case MADV_COLLAPSE:'',
      ''		return madvise_collapse(vma, prev, start, end);'',
      ''#endif'']\<close>

definition MC_VALID_OLD :: str where
  \<open>MC_VALID_OLD = block
     [''#ifdef CONFIG_TRANSPARENT_HUGEPAGE'',
      ''	case MADV_HUGEPAGE:'',
      ''	case MADV_NOHUGEPAGE:'',
      ''#endif'']\<close>

definition MC_VALID_NEW :: str where
  \<open>MC_VALID_NEW = block
     [''#ifdef CONFIG_TRANSPARENT_HUGEPAGE'',
      ''	case MADV_HUGEPAGE:'',
      ''	case MADV_NOHUGEPAGE:'',
      ''	case MADV_COLLAPSE:'',
      ''#endif'']\<close>

definition MC_PMD_SIG_OLD :: str where
  \<open>MC_PMD_SIG_OLD = block
     [''static int khugepaged_scan_pmd(struct mm_struct *mm,'',
      ''			       struct vm_area_struct *vma,'',
      ''			       unsigned long address,'',
      ''			       struct page **hpage)'']\<close>

definition MC_PMD_SIG_NEW :: str where
  \<open>MC_PMD_SIG_NEW = block
     [''static int khugepaged_scan_pmd(struct mm_struct *mm,'',
      ''			       struct vm_area_struct *vma,'',
      ''			       unsigned long address,'',
      ''			       struct page **hpage, int *res)'']\<close>

definition MC_PMD_OUT_OLD :: str where
  \<open>MC_PMD_OUT_OLD = block
     [''				     none_or_zero, result, unmapped);'',
      ''	return ret;'',
      ''}'']\<close>

definition MC_PMD_OUT_NEW :: str where
  \<open>MC_PMD_OUT_NEW = block
     [''				     none_or_zero, result, unmapped);'',
      ''	/* ABK stable_515_backport: MADV_COLLAPSE needs the verdict, not just the flag that the kthread cares about. */'',
      ''	if (res)'',
      ''		*res = result;'',
      ''	return ret;'',
      ''}'']\<close>

definition MC_FILE_STUB_OLD :: str where
  \<open>MC_FILE_STUB_OLD = block
     [''static void khugepaged_scan_file(struct mm_struct *mm,'',
      ''		struct file *file, pgoff_t start, struct page **hpage)'',
      ''{'',
      ''	BUILD_BUG();'',
      ''}'']\<close>

definition MC_FILE_SIG_OLD :: str where
  \<open>MC_FILE_SIG_OLD = block
     [''static void khugepaged_scan_file(struct mm_struct *mm,'',
      ''		struct file *file, pgoff_t start, struct page **hpage)'']\<close>

definition MC_FILE_SIG_NEW :: str where
  \<open>MC_FILE_SIG_NEW = block
     [''static void khugepaged_scan_file(struct mm_struct *mm,'',
      ''		struct file *file, pgoff_t start, struct page **hpage,'',
      ''		int *res)'']\<close>

definition MC_FILE_STUB_NEW :: str where
  \<open>MC_FILE_STUB_NEW = block
     [''static void khugepaged_scan_file(struct mm_struct *mm, struct file *file,'',
      ''		pgoff_t start, struct page **hpage, int *res)'',
      ''{'',
      ''	BUILD_BUG();'',
      ''}'']\<close>

definition MC_FILE_OUT_OLD :: str where
  \<open>MC_FILE_OUT_OLD = block
     [''			collapse_file(mm, file, start, hpage, node);'',
      ''		}'',
      ''	}'',
      [],
      ''	/* TODO: tracepoints */'',
      ''}'']\<close>

definition MC_FILE_OUT_NEW :: str where
  \<open>MC_FILE_OUT_NEW = block
     [''			collapse_file(mm, file, start, hpage, node);'',
      ''		}'',
      ''	}'',
      [],
      ''	if (res)'',
      ''		*res = result;'',
      [],
      ''	/* TODO: tracepoints */'',
      ''}'']\<close>

definition MC_CALLER_OLD :: str where
  \<open>MC_CALLER_OLD = block
     [''				khugepaged_scan_file(mm, file, pgoff, hpage);'',
      ''				fput(file);'',
      ''			} else {'',
      ''				ret = khugepaged_scan_pmd(mm, vma,'',
      ''						khugepaged_scan.address,'',
      ''						hpage);'',
      ''			}'']\<close>

definition MC_CALLER_NEW :: str where
  \<open>MC_CALLER_NEW = block
     [''				khugepaged_scan_file(mm, file, pgoff, hpage,'',
      ''					      NULL);'',
      ''				fput(file);'',
      ''			} else {'',
      ''				ret = khugepaged_scan_pmd(mm, vma,'',
      ''						khugepaged_scan.address,'',
      ''						hpage, NULL);'',
      ''			}'']\<close>

definition MC_IMPL_A :: str where
  \<open>MC_IMPL_A = block
     [''/*'',
      '' * ABK stable_515_backport: MADV_COLLAPSE (android14-6.1 / mainline 6.1)'',
      '' *'',
      '' * Synchronously collapse every PMD-aligned chunk of [start, end) into a'',
      '' * huge page, regardless of the THP defrag setting of the process.'',
      '' *'',
      '' * On the 6.1 form the scan helpers take a caller-owned collapse_control;'',
      '' * here they still own the preallocated huge page and the shared'',
      '' * khugepaged_node_load[] scratch, so this drives them exactly the way'',
      '' * the khugepaged thread does: hold mmap_lock for reading, and re-take it'',
      '' * after a helper dropped it.'',
      '' */'',
      ''static int madvise_collapse_errno(int r)'',
      ''{'',
      ''	/*'',
      ''	 * MADV_COLLAPSE breaks from existing madvise(2) conventions to provide'',
      ''	 * actionable feedback to caller, so they may take an appropriate'',
      ''	 * fallback measure depending on the nature of the failure.'',
      ''	 */'',
      []]\<close>

definition MC_IMPL_B :: str where
  \<open>MC_IMPL_B = block
     [''	switch (r) {'',
      ''	case SCAN_ALLOC_HUGE_PAGE_FAIL:'',
      ''		return -ENOMEM;'',
      ''	case SCAN_CGROUP_CHARGE_FAIL:'',
      ''		return -EBUSY;'',
      ''	/* Resource temporary unavailable - trying again might succeed */'',
      ''	case SCAN_PAGE_COUNT:'',
      ''	case SCAN_PAGE_LOCK:'',
      ''	case SCAN_PAGE_LRU:'',
      ''	case SCAN_DEL_PAGE_LRU:'',
      ''	case SCAN_SCAN_ABORT:'',
      ''		/*'',
      ''		 * SCAN_SCAN_ABORT is not in the 6.1 list because that tree dropped'',
      ''		 * the shared node-load scratch; on this baseline it can also be a'',
      ''		 * transient effect of a concurrent kthread scan, so it is retryable.'',
      ''		 */'',
      ''		return -EAGAIN;'',
      ''	/*'',
      ''	 * Other: retrying is unlikely to help; the error is intrinsic to the'',
      ''	 * specified memory range, and khugepaged will not be able to collapse'',
      ''	 * it either.'',
      ''	 */'',
      ''	default:'',
      ''		return -EINVAL;'',
      ''	}'',
      ''}'',
      []]\<close>

definition MC_IMPL_C :: str where
  \<open>MC_IMPL_C = block
     [[],
      ''int madvise_collapse(struct vm_area_struct *vma, struct vm_area_struct **prev,'',
      ''		     unsigned long start, unsigned long end)'',
      ''{'',
      ''	struct mm_struct *mm = vma->vm_mm;'',
      ''	struct page *hpage = NULL;'',
      ''	unsigned long hstart, hend, addr;'',
      ''	bool wait = true, mmap_locked = true;'',
      ''	int thps = 0, last_fail = SCAN_FAIL;'',
      [],
      ''	BUG_ON(vma->vm_start > start);'',
      ''	BUG_ON(vma->vm_end < end);'',
      [],
      ''	*prev = vma;'',
      [],
      ''	if (!hugepage_vma_check(vma, vma->vm_flags))'',
      ''		return -EINVAL;'',
      [],
      ''	mmgrab(mm);'',
      ''	lru_add_drain_all();'',
      [],
      ''	hstart = (start + ~HPAGE_PMD_MASK) & HPAGE_PMD_MASK;'',
      ''	hend = end & HPAGE_PMD_MASK;'',
      []]\<close>

definition MC_IMPL_D :: str where
  \<open>MC_IMPL_D = block
     [[],
      ''	for (addr = hstart; addr < hend; addr += HPAGE_PMD_SIZE) {'',
      ''		int result = SCAN_FAIL;'',
      [],
      ''		if (!mmap_locked) {'',
      ''			cond_resched();'',
      ''			mmap_read_lock(mm);'',
      ''			mmap_locked = true;'',
      ''			/*'',
      ''			 * ABK stable_515_backport: on this baseline'',
      ''			 * hugepage_vma_revalidate() returns 0 on success and a'',
      ''			 * scan code otherwise (6.1 returns SCAN_SUCCEED, which is'',
      ''			 * 1 here), so test it the way its other callers do.'',
      ''			 */'',
      ''			result = hugepage_vma_revalidate(mm, addr, &vma);'',
      ''			if (result) {'',
      ''				last_fail = result;'',
      ''				goto out_nolock;'',
      ''			}'',
      [],
      ''			hend = min(hend, vma->vm_end & HPAGE_PMD_MASK);'',
      ''		}'',
      [],
      ''		if (!khugepaged_prealloc_page(&hpage, &wait)) {'',
      ''			last_fail = SCAN_ALLOC_HUGE_PAGE_FAIL;'',
      ''			goto out_maybelock;'',
      ''		}'',
      [],
      ''		cond_resched();'',
      [],
      ''		if (IS_ENABLED(CONFIG_SHMEM) && vma->vm_file) {'',
      ''			struct file *file = get_file(vma->vm_file);'',
      ''			pgoff_t pgoff = linear_page_index(vma, addr);'',
      [],
      ''			mmap_read_unlock(mm);'',
      ''			mmap_locked = false;'',
      ''			khugepaged_scan_file(mm, file, pgoff, &hpage, &result);'',
      ''			fput(file);'',
      ''		} else {'',
      ''			if (khugepaged_scan_pmd(mm, vma, addr, &hpage, &result))'',
      ''				mmap_locked = false;'',
      ''		}'',
      [],
      ''		if (!mmap_locked)'',
      ''			*prev = NULL;	/* tell caller we dropped mmap_lock */'',
      []]\<close>

definition MC_IMPL_E :: str where
  \<open>MC_IMPL_E = block
     [[],
      ''		switch (result) {'',
      ''		case SCAN_SUCCEED:'',
      ''			++thps;'',
      ''			break;'',
      ''		/* Whitelisted set of results where continuing OK */'',
      ''		case SCAN_PMD_NULL:'',
      ''		case SCAN_EXCEED_NONE_PTE:'',
      ''		case SCAN_EXCEED_SWAP_PTE:'',
      ''		case SCAN_EXCEED_SHARED_PTE:'',
      ''		case SCAN_PTE_NON_PRESENT:'',
      ''		case SCAN_PTE_UFFD_WP:'',
      ''		case SCAN_PAGE_RO:'',
      ''		case SCAN_LACK_REFERENCED_PAGE:'',
      ''		case SCAN_PAGE_NULL:'',
      ''		case SCAN_PAGE_ANON:'',
      ''		case SCAN_PAGE_COMPOUND:'',
      ''		case SCAN_PAGE_HAS_PRIVATE:'',
      ''		case SCAN_SWAP_CACHE_PAGE:'',
      ''		case SCAN_PAGE_COUNT:'',
      ''		case SCAN_PAGE_LOCK:'',
      ''		case SCAN_PAGE_LRU:'',
      ''		case SCAN_DEL_PAGE_LRU:'',
      ''		case SCAN_SCAN_ABORT:'',
      ''			last_fail = result;'',
      ''			break;'',
      ''		default:'',
      ''			last_fail = result;'',
      ''			/* Other error, exit */'',
      ''			goto out_maybelock;'',
      ''		}'',
      ''	}'',
      []]\<close>

definition MC_IMPL_F :: str where
  \<open>MC_IMPL_F = block
     [[],
      ''out_maybelock:'',
      ''	/* Caller expects us to hold mmap_lock on return */'',
      ''	if (!mmap_locked)'',
      ''		mmap_read_lock(mm);'',
      ''out_nolock:'',
      ''	mmap_assert_locked(mm);'',
      ''	if (!IS_ERR_OR_NULL(hpage))'',
      ''		put_page(hpage);'',
      ''	mmdrop(mm);'',
      [],
      ''	return thps == ((hend - hstart) >> HPAGE_PMD_SHIFT) ? 0'',
      ''			: madvise_collapse_errno(last_fail);'',
      ''}'',
      [],
      []]\<close>

definition MC_SCAN_SLOT_SIG :: str where
  \<open>MC_SCAN_SLOT_SIG = block
     [''static unsigned int khugepaged_scan_mm_slot(unsigned int pages,'',
      ''					    struct page **hpage)'']\<close>

definition MC_IMPL_OLD :: str where
  \<open>MC_IMPL_OLD = MC_SCAN_SLOT_SIG\<close>

definition MC_IMPL_NEW :: str where
  \<open>MC_IMPL_NEW = MC_IMPL_A @
   MC_IMPL_B @
   MC_IMPL_C @
   MC_IMPL_D @
   MC_IMPL_E @
   MC_IMPL_F @
   MC_SCAN_SLOT_SIG\<close>

definition madvise_collapse_step1 :: step where
  \<open>madvise_collapse_step1 =
   (''mm/madvise.c'',
    MC_NEED_MMAP_OLD,
    MC_NEED_MMAP_NEW, True)\<close>

definition madvise_collapse_step2 :: step where
  \<open>madvise_collapse_step2 =
   (''mm/madvise.c'',
    MC_CASE_OLD,
    MC_CASE_NEW, True)\<close>

definition madvise_collapse_step3 :: step where
  \<open>madvise_collapse_step3 =
   (''mm/madvise.c'',
    MC_VALID_OLD,
    MC_VALID_NEW, True)\<close>

definition madvise_collapse_step4 :: step where
  \<open>madvise_collapse_step4 =
   (''mm/khugepaged.c'',
    MC_FILE_STUB_OLD,
    MC_FILE_STUB_NEW, True)\<close>

definition madvise_collapse_step5 :: step where
  \<open>madvise_collapse_step5 =
   (''mm/khugepaged.c'',
    MC_FILE_SIG_OLD,
    MC_FILE_SIG_NEW, True)\<close>

definition madvise_collapse_step6 :: step where
  \<open>madvise_collapse_step6 =
   (''mm/khugepaged.c'',
    MC_FILE_OUT_OLD,
    MC_FILE_OUT_NEW, True)\<close>

definition madvise_collapse_step7 :: step where
  \<open>madvise_collapse_step7 =
   (''mm/khugepaged.c'',
    MC_PMD_SIG_OLD,
    MC_PMD_SIG_NEW, True)\<close>

definition madvise_collapse_step8 :: step where
  \<open>madvise_collapse_step8 =
   (''mm/khugepaged.c'',
    MC_PMD_OUT_OLD,
    MC_PMD_OUT_NEW, True)\<close>

definition madvise_collapse_step9 :: step where
  \<open>madvise_collapse_step9 =
   (''mm/khugepaged.c'',
    MC_CALLER_OLD,
    MC_CALLER_NEW, True)\<close>

definition madvise_collapse_step10 :: step where
  \<open>madvise_collapse_step10 =
   (''mm/khugepaged.c'',
    MC_IMPL_OLD,
    MC_IMPL_NEW, True)\<close>

definition madvise_collapse_steps :: "step list" where
  \<open>madvise_collapse_steps = [madvise_collapse_step1, madvise_collapse_step2, madvise_collapse_step3, madvise_collapse_step4, madvise_collapse_step5, madvise_collapse_step6, madvise_collapse_step7, madvise_collapse_step8, madvise_collapse_step9, madvise_collapse_step10]\<close>

lemma madvise_collapse_steps_files: "steps_files madvise_collapse_steps = {''mm/madvise.c'', ''mm/khugepaged.c''}"
  by (simp add: madvise_collapse_steps_def steps_files_fst insert_commute
      step_file [OF madvise_collapse_step1_def]
      step_file [OF madvise_collapse_step2_def]
      step_file [OF madvise_collapse_step3_def]
      step_file [OF madvise_collapse_step4_def]
      step_file [OF madvise_collapse_step5_def]
      step_file [OF madvise_collapse_step6_def]
      step_file [OF madvise_collapse_step7_def]
      step_file [OF madvise_collapse_step8_def]
      step_file [OF madvise_collapse_step9_def]
      step_file [OF madvise_collapse_step10_def])

lemma madvise_collapse_steps_required: "all_required madvise_collapse_steps"
  by (simp add: madvise_collapse_steps_def all_required_def
      step_req [OF madvise_collapse_step1_def]
      step_req [OF madvise_collapse_step2_def]
      step_req [OF madvise_collapse_step3_def]
      step_req [OF madvise_collapse_step4_def]
      step_req [OF madvise_collapse_step5_def]
      step_req [OF madvise_collapse_step6_def]
      step_req [OF madvise_collapse_step7_def]
      step_req [OF madvise_collapse_step8_def]
      step_req [OF madvise_collapse_step9_def]
      step_req [OF madvise_collapse_step10_def])

definition madvise_singles :: "(path \<times> str \<times> str) list" where
  \<open>madvise_singles =
     [(''include/uapi/asm-generic/mman-common.h'', MC_UAPI_ANCHOR, MC_UAPI_NEW),
      (''include/linux/huge_mm.h'', MC_HEADER_ANCHOR, MC_HEADER_DECL)]\<close>

fun stage_singles :: "(path \<times> str \<times> str) list \<Rightarrow> (path \<times> str) list \<Rightarrow> (str + (path \<times> str) list) io" where
  \<comment> \<open>the \<open>ensure_after\<close> loop; \<open>Inl\<close> is its early return\<close>
  \<open>stage_singles [] staged = io_ret (Inr staged)\<close>
| \<open>stage_singles ((rel, anchor, snippet) # singles) staged =
     io_bind (ctx_read rel) (\<lambda>t.
     case ensure_after t anchor snippet of (t', status) \<Rightarrow>
       if status = StMissing
       then io_ret (Inl (rel @ '': no anchor for '' @ first_line snippet))
       else stage_singles singles
              (if status = StApplied then AList.update rel t' staged else staged))\<close>

fun write_all :: "(path \<times> str) list \<Rightarrow> unit io" where
  \<open>write_all [] = io_ret ()\<close>
| \<open>write_all ((rel, t) # staged) = io_bind (ctx_write rel t) (\<lambda>_. write_all staged)\<close>

definition madvise_collapse_apply :: "outcome io" where
  \<open>madvise_collapse_apply =
    io_bind (stage_singles madvise_singles []) (\<lambda>z. case z of
      Inl d \<Rightarrow> io_ret (BlockedByShape, d)
    | Inr staged \<Rightarrow>
        io_bind (apply_steps madvise_collapse_steps) (\<lambda>(st, res, d). case st of
          None \<Rightarrow> io_ret (BlockedByShape, d)
        | Some s \<Rightarrow> io_bind (write_all staged) (\<lambda>_.
            io_ret (if staged \<noteq> [] \<and> s = AlreadyPresent then Applied else s, d))))\<close>

end
