(* ===== verification/Core_Madvise_Laws.thy ===== *)
theory Core_Madvise_Laws
  imports Core_Madvise
begin

text \<open>
  The group function of madvise(MADV_COLLAPSE) stages two \<open>ensure_after\<close> edits, runs its steps
  and writes the staged texts last: the proof that it is transactional all the same.
\<close>

lemma stage_singles_quiet:
  "\<forall>rel \<in> fst ` set ss. \<not> is_backup rel \<Longrightarrow> graft_prog A (stage_singles ss st)"
proof (induction ss arbitrary: st)
  case (Cons x ss)
  obtain rel anchor snippet where x: "x = (rel, anchor, snippet)" by (cases x)
  show ?case unfolding x stage_singles.simps
    by (intro safe_intros Cons.IH) (use Cons.prems x in auto)
qed (simp add: safe_intros)

lemma ctx_read_loads: "ctx_read rel g = (Inr t, h) \<Longrightarrow> rel \<in> dom (texts h)"
  using ctx_read_Inr [of rel g t h] by simp

lemma stage_singles_loaded:
  "stage_singles ss st g = (Inr (Inr st'), h) \<Longrightarrow> fst ` set st \<subseteq> dom (texts g) \<Longrightarrow>
   fst ` set st' \<subseteq> dom (texts h) \<and> fst ` set st' \<subseteq> fst ` set st \<union> fst ` set ss"
proof (induction ss arbitrary: st g)
  case (Cons x ss)
  obtain rel anchor snippet where x: "x = (rel, anchor, snippet)" by (cases x)
  obtain t k where k: "ctx_read rel g = (Inr t, k)"
    using Cons.prems(1) x by (cases "ctx_read rel g"; cases "fst (ctx_read rel g)") (auto simp: io_bind_def)
  obtain t' s where e: "ensure_after t anchor snippet = (t', s)" by fastforce
  let ?st = "if s = StApplied then AList.update rel t' st else st"
  have run: "stage_singles ss ?st k = (Inr (Inr st'), h)"
    using Cons.prems(1) x k e by (auto simp: io_bind_def io_ret_def split: if_splits)
  have "dom (texts g) \<subseteq> dom (texts k)" using ctx_read_Inr [OF k] by auto
  then have "fst ` set ?st \<subseteq> dom (texts k)"
    using Cons.prems(2) ctx_read_loads [OF k] by (auto simp: dom_update split: if_splits)
  from Cons.IH [OF run this] x show ?case by (auto simp: dom_update split: if_splits)
qed (simp add: io_ret_def)

lemma write_all_kept:
  assumes R: "ctx_relation A R" and "\<And>g. fst ` set st \<subseteq> A g" and "fst ` set st \<subseteq> dom (texts g)"
  shows "R g (snd (write_all st g))"
  using assms(2,3)
proof (induction st arbitrary: g)
  case Nil
  then show ?case by (simp add: io_ret_def ctx_relation.R_refl [OF R])
next
  case (Cons x st)
  obtain rel t where x: "x = (rel, t)" by (cases x)
  obtain r k where k: "ctx_write rel t g = (r, k)" by fastforce
  have rel: "rel \<in> A g" "rel \<in> dom (texts g)" using Cons.prems x by auto
  have Rk: "R g k" using ctx_relation.R_write [OF R rel, of t] k by simp
  have "dom (texts g) \<subseteq> dom (texts k)"
    using framed_write [of rel "\<lambda>_. UNIV" g t] k by (simp add: framed_def)
  moreover have "fst ` set st \<subseteq> dom (texts g)" using Cons.prems(2) by simp
  ultimately have "fst ` set st \<subseteq> dom (texts k)" by blast
  then have "R k (snd (write_all st k))" using Cons.IH [of k] Cons.prems(1) by auto
  with Rk k x show ?case
    using ctx_relation.R_trans [OF R] by (cases r) (auto simp: io_bind_def)
qed

lemma write_all_agree:
  "dry_sim w d \<Longrightarrow> fst ` set st \<subseteq> dom (texts w) \<Longrightarrow> dry_agree w d (write_all st)"
proof (induction st arbitrary: w d)
  case Nil
  then show ?case by (simp add: agree_ret)
next
  case (Cons x st)
  obtain rel t where x: "x = (rel, t)" by (cases x)
  show ?case unfolding x write_all.simps
  proof (rule agree_bind [OF agree_write])
    show "dry_sim w d" by (rule Cons.prems(1))
    show "rel \<in> dom (texts w)" using Cons.prems(2) x by auto
    fix u w' d'
    assume "ctx_write rel t w = (Inr u, w')" and s: "dry_sim w' d'"
    then have "dom (texts w) \<subseteq> dom (texts w')"
      using framed_write [of rel "\<lambda>_. UNIV" w t] by (simp add: framed_def)
    moreover have "fst ` set st \<subseteq> dom (texts w)" using Cons.prems(2) by simp
    ultimately have "fst ` set st \<subseteq> dom (texts w')" by blast
    with s show "dry_agree w' d' (write_all st)" by (rule Cons.IH)
  qed
qed

definition madvise_tail :: "(path \<times> str) list \<Rightarrow> outcome io" where
  "madvise_tail staged = io_bind (apply_steps madvise_collapse_steps) (\<lambda>(st, res, d). case st of
       None \<Rightarrow> io_ret (BlockedByShape, d)
     | Some s \<Rightarrow> io_bind (write_all staged) (\<lambda>_.
         io_ret (if staged \<noteq> [] \<and> s = AlreadyPresent then Applied else s, d)))"

definition madvise_scope :: "path set" where
  "madvise_scope = {''include/uapi/asm-generic/mman-common.h'', ''include/linux/huge_mm.h'',
     ''mm/madvise.c'', ''mm/khugepaged.c''}"

lemma madvise_scope_nb: "\<forall>rel \<in> madvise_scope. \<not> is_backup rel"
  by (simp add: madvise_scope_def is_backup_code BACKUP_SUFFIX_def)

lemma graft_madvise_steps: "graft_prog (\<lambda>_. madvise_scope) (apply_steps madvise_collapse_steps)"
  by (rule graft_apply_steps)
    (simp_all add: madvise_collapse_steps_files madvise_scope_def is_backup_code BACKUP_SUFFIX_def)

lemma madvise_tail_kept:
  assumes R: "ctx_relation (\<lambda>_. madvise_scope) R" and st: "fst ` set staged \<subseteq> madvise_scope"
    and d: "fst ` set staged \<subseteq> dom (texts g)"
  shows "R g (snd (madvise_tail staged g))"
proof -
  obtain r h where a: "apply_steps madvise_collapse_steps g = (r, h)" by fastforce
  have 1: "R g h" using graft_keeps [OF graft_madvise_steps R, of g] a by simp
  have "framed (\<lambda>_. madvise_scope) g h" using graft_framed [OF graft_madvise_steps, of g] a by simp
  then have "fst ` set staged \<subseteq> dom (texts h)" using d unfolding framed_def by blast
  from write_all_kept [OF R _ this] st have 2: "R h (snd (write_all staged h))" by simp
  show ?thesis
  proof (cases r)
    case (Inl e)
    with a 1 show ?thesis by (simp add: madvise_tail_def io_bind_def)
  next
    case (Inr x)
    obtain s res d' where x: "x = (s, res, d')" by (cases x)
    show ?thesis
    proof (cases s)
      case None
      with a 1 Inr x show ?thesis by (simp add: madvise_tail_def io_bind_def io_ret_def)
    next
      case (Some s')
      obtain q k where q: "write_all staged h = (q, k)" by fastforce
      with Some a Inr x have "snd (madvise_tail staged g) = k"
        by (cases q) (simp_all add: madvise_tail_def io_bind_def io_ret_def)
      with 1 2 q show ?thesis using ctx_relation.R_trans [OF R] by simp
    qed
  qed
qed

lemma madvise_tail_agree:
  assumes s: "dry_sim w d" and st: "fst ` set staged \<subseteq> dom (texts w)"
  shows "dry_agree w d (madvise_tail staged)"
  unfolding madvise_tail_def
proof (rule agree_bind)
  show "dry_agree w d (apply_steps madvise_collapse_steps)"
    using graft_madvise_steps s by (simp add: graft_prog_def dry_blindD)
  fix x w' d'
  assume a: "apply_steps madvise_collapse_steps w = (Inr x, w')" and s': "dry_sim w' d'"
  have "framed (\<lambda>_. madvise_scope) w w'" using graft_framed [OF graft_madvise_steps, of w] a by simp
  then have "fst ` set staged \<subseteq> dom (texts w')" using st unfolding framed_def by blast
  from write_all_agree [OF s' this]
  show "dry_agree w' d' (case x of (st, res, d) \<Rightarrow> case st of None \<Rightarrow> io_ret (BlockedByShape, d)
      | Some s \<Rightarrow> io_bind (write_all staged) (\<lambda>_.
          io_ret (if staged \<noteq> [] \<and> s = AlreadyPresent then Applied else s, d)))"
    by (auto split: prod.split option.split intro!: agree_ret s' agree_bind)
qed

lemma write_all_ok:
  "coherent g \<Longrightarrow> fst ` set st \<subseteq> dom (texts g) \<Longrightarrow> \<exists>h. write_all st g = (Inr (), h)"
proof (induction st arbitrary: g)
  case (Cons x st)
  obtain rel t where x: "x = (rel, t)" by (cases x)
  have rel: "rel \<in> dom (texts g)" using Cons.prems(2) x by auto
  obtain k where k: "ctx_write rel t g = (Inr (), k)" "coherent k"
    using coherent_write [OF Cons.prems(1) rel, of t] by (cases "ctx_write rel t g") auto
  have "dom (texts g) \<subseteq> dom (texts k)"
    using framed_write [of rel "\<lambda>_. UNIV" g t] k by (simp add: framed_def)
  moreover have "fst ` set st \<subseteq> dom (texts g)" using Cons.prems(2) by simp
  ultimately have "fst ` set st \<subseteq> dom (texts k)" by blast
  from Cons.IH [OF k(2) this] k(1) x show ?case by (auto simp: io_bind_def)
qed (simp add: io_ret_def)

lemma madvise_steps_nb: "\<forall>rel \<in> steps_files madvise_collapse_steps. \<not> is_backup rel"
  by (simp add: madvise_collapse_steps_files is_backup_code BACKUP_SUFFIX_def)

lemma madvise_tail_quiet:
  assumes c: "coherent g" and st: "fst ` set staged \<subseteq> dom (texts g)"
    and t: "madvise_tail staged g = (r, h)"
    and r: "case r of Inl e \<Rightarrow> True | Inr (s, d) \<Rightarrow> \<not> ok_status s"
  shows "unwritten g h"
proof -
  obtain x k where a: "apply_steps madvise_collapse_steps g = (x, k)" by fastforce
  have ck: "coherent k" using graft_coherent [OF graft_madvise_steps c] a by (metis snd_conv)
  have "framed (\<lambda>_. madvise_scope) g k" using graft_framed [OF graft_madvise_steps, of g] a by simp
  then have "fst ` set staged \<subseteq> dom (texts k)" using st unfolding framed_def by blast
  from write_all_ok [OF ck this] obtain h' where w: "write_all staged k = (Inr (), h')" ..
  show ?thesis
  proof (cases x)
    case (Inl e)
    with a t have "h = k" by (simp add: madvise_tail_def io_bind_def)
    with apply_steps_quiet [OF c madvise_steps_nb a] Inl show ?thesis by simp
  next
    case (Inr y)
    obtain s res d where y: "y = (s, res, d)" by (cases y)
    show ?thesis
    proof (cases s)
      case None
      with a t Inr y have "h = k" by (simp add: madvise_tail_def io_bind_def io_ret_def)
      with apply_steps_quiet [OF c madvise_steps_nb a] Inr y None show ?thesis by simp
    next
      case (Some s')
      have "madvise_collapse_steps \<noteq> []" by (simp add: madvise_collapse_steps_def)
      from apply_steps_required [OF c madvise_steps_nb madvise_collapse_steps_required this]
      have "s' \<in> {AlreadyPresent, Applied}" using a Inr y Some by auto
      with a t Inr y Some w r show ?thesis
        by (auto simp: madvise_tail_def io_bind_def io_ret_def ok_status_def split: if_splits)
    qed
  qed
qed

lemma madvise_singles_files:
  "fst ` set madvise_singles \<subseteq> madvise_scope"
  by (simp add: madvise_singles_def madvise_scope_def)

lemma madvise_apply_tail:
  "madvise_collapse_apply = io_bind (stage_singles madvise_singles []) (\<lambda>z. case z of
      Inl d \<Rightarrow> io_ret (BlockedByShape, d) | Inr staged \<Rightarrow> madvise_tail staged)"
  unfolding madvise_collapse_apply_def madvise_tail_def by (rule refl)

lemma graft_madvise_stage: "graft_prog A (stage_singles madvise_singles [])"
  by (rule stage_singles_quiet) (use madvise_singles_files madvise_scope_nb in blast)

lemma madvise_staged:
  "stage_singles madvise_singles [] g = (Inr (Inr st), h) \<Longrightarrow>
   fst ` set st \<subseteq> dom (texts h) \<and> fst ` set st \<subseteq> madvise_scope"
  using stage_singles_loaded [of madvise_singles "[]" g st h] madvise_singles_files
  unfolding list.set image_empty Un_empty_left by blast

lemma graft_madvise_apply: "graft_prog (\<lambda>_. madvise_scope) madvise_collapse_apply"
proof (rule graft_progI)
  show "prog_on (\<lambda>_. madvise_scope) madvise_collapse_apply"
  proof (rule prog_onI)
    fix R g
    assume R: "ctx_relation (\<lambda>_. madvise_scope) R"
    obtain z h where z: "stage_singles madvise_singles [] g = (z, h)" by fastforce
    have 1: "R g h" using graft_keeps [OF graft_madvise_stage R, of g] z by simp
    show "R g (snd (madvise_collapse_apply g))"
    proof (cases "\<exists>st. z = Inr (Inr st)")
      case True
      then obtain st where st: "z = Inr (Inr st)" ..
      from madvise_staged z st have "R h (snd (madvise_tail st h))"
        by (intro madvise_tail_kept [OF R]) auto
      with 1 z st show ?thesis
        using ctx_relation.R_trans [OF R] by (simp add: madvise_apply_tail io_bind_def)
    next
      case False
      then have "snd (madvise_collapse_apply g) = h" using z
        by (cases z) (auto simp: madvise_apply_tail io_bind_def io_ret_def split: sum.splits)
      with 1 show ?thesis by simp
    qed
  qed
  show "dry_blind madvise_collapse_apply"
    unfolding madvise_apply_tail
  proof (intro dry_blindI agree_bind)
    fix w d
    assume "dry_sim w d"
    then show "dry_agree w d (stage_singles madvise_singles [])"
      using graft_madvise_stage by (simp add: graft_prog_def dry_blindD)
  next
    fix w d z w' d'
    assume "stage_singles madvise_singles [] w = (Inr z, w')" and "dry_sim w' d'"
    then show "dry_agree w' d' (case z of Inl d \<Rightarrow> io_ret (BlockedByShape, d)
        | Inr staged \<Rightarrow> madvise_tail staged)"
      by (cases z) (simp_all add: agree_ret madvise_tail_agree madvise_staged)
  qed
qed

lemma madvise_collapse_apply_txn: "transactional (\<lambda>_. madvise_scope) madvise_collapse_apply"
proof -
  have "unwritten g h"
    if c: "coherent g" and a: "madvise_collapse_apply g = (r, h)"
      and r: "case r of Inl e \<Rightarrow> True | Inr (s, d) \<Rightarrow> \<not> ok_status s" for g r h
  proof -
    obtain z k where z: "stage_singles madvise_singles [] g = (z, k)" by fastforce
    have u: "unwritten g k" using graft_quiet [OF graft_madvise_stage, of g] z by simp
    have ck: "coherent k" using graft_coherent [OF graft_madvise_stage c] z by (metis snd_conv)
    show ?thesis
    proof (cases "\<exists>st. z = Inr (Inr st)")
      case True
      then obtain st where st: "z = Inr (Inr st)" ..
      with a z have t: "madvise_tail st k = (r, h)" by (simp add: madvise_apply_tail io_bind_def)
      have "fst ` set st \<subseteq> dom (texts k)" using madvise_staged z st by blast
      from madvise_tail_quiet [OF ck this t r] u show ?thesis by (rule unwritten_trans [rotated])
    next
      case False
      then have "h = k" using z a
        by (cases z) (auto simp: madvise_apply_tail io_bind_def io_ret_def split: sum.splits)
      with u show ?thesis by simp
    qed
  qed
  then show ?thesis unfolding transactional_def using graft_madvise_apply by blast
qed

end
