(* ===== verification/Core_Fallback.thy ===== *)
theory Core_Fallback
  imports Registry_Laws
begin

text \<open>
  \<^verbatim>\<open>scripts/abk_stable_core.py\<close>, lines up to 4428: the rmqueue fallback and RCU groups. Anchors, steps and
  group functions stand in source order under the source's names.
\<close>

definition B8_FIND_OLD :: str where
  \<open>B8_FIND_OLD = block
     [''/*'',
      '' * Check whether there is a suitable fallback freepage with requested order.'',
      '' * If only_stealable is true, this function returns fallback_mt only if'',
      '' * we can steal other freepages all together. This would help to reduce'',
      '' * fragmentation due to mixed migratetype pages in one pageblock.'',
      '' */'',
      ''int find_suitable_fallback(struct free_area *area, unsigned int order,'',
      ''			int migratetype, bool only_stealable, bool *can_steal)'',
      ''{'',
      ''	int i;'',
      ''	int fallback_mt;'',
      [],
      ''	if (area->nr_free == 0)'',
      ''		return -1;'',
      [],
      ''	*can_steal = false;'',
      ''	for (i = 0;; i++) {'',
      ''		fallback_mt = fallbacks[migratetype][i];'',
      ''		if (fallback_mt == MIGRATE_TYPES)'',
      ''			break;'',
      [],
      ''		if (free_area_empty(area, fallback_mt))'',
      ''			continue;'',
      [],
      ''		if (can_steal_fallback(order, migratetype))'',
      ''			*can_steal = true;'',
      [],
      ''		if (!only_stealable)'',
      ''			return fallback_mt;'',
      [],
      ''		if (*can_steal)'',
      ''			return fallback_mt;'',
      ''	}'',
      [],
      ''	return -1;'',
      ''}'',
      []]\<close>

definition B8_FIND_NEW :: str where
  \<open>B8_FIND_NEW = block
     [''/*'',
      '' * Check whether there is a suitable fallback freepage with requested order.'',
      '' * If claimable is true, this function returns fallback_mt only if'',
      '' * we would do this whole-block claiming. This would help to reduce'',
      '' * fragmentation due to mixed migratetype pages in one pageblock.'',
      '' */'',
      ''int find_suitable_fallback(struct free_area *area, unsigned int order,'',
      ''			int migratetype, bool claimable)'',
      ''{'',
      ''	int i;'',
      [],
      ''	/* ABK stable_515_backport: distinguish an unclaimable order (-2) from'',
      ''	 * an order whose fallback lists are empty (-1). */'',
      ''	if (claimable && !can_steal_fallback(order, migratetype))'',
      ''		return -2;'',
      [],
      ''	if (area->nr_free == 0)'',
      ''		return -1;'',
      [],
      ''	for (i = 0; fallbacks[migratetype][i] != MIGRATE_TYPES; i++) {'',
      ''		int fallback_mt = fallbacks[migratetype][i];'',
      [],
      ''		if (!free_area_empty(area, fallback_mt))'',
      ''			return fallback_mt;'',
      ''	}'',
      [],
      ''	return -1;'',
      ''}'',
      []]\<close>

definition B8_COMPACTION_DECL_OLD :: str where
  \<open>B8_COMPACTION_DECL_OLD = block
     [''		struct free_area *area = &cc->zone->free_area[order];'',
      ''		bool can_steal;'',
      [],
      ''		/* Job done if page is free of the right migratetype */'']\<close>

definition B8_COMPACTION_DECL_NEW :: str where
  \<open>B8_COMPACTION_DECL_NEW = block
     [''		struct free_area *area = &cc->zone->free_area[order];'',
      [],
      ''		/* Job done if page is free of the right migratetype */'']\<close>

definition B8_COMPACTION_CALL_OLD :: str where
  \<open>B8_COMPACTION_CALL_OLD = block
     [''		if (find_suitable_fallback(area, order, migratetype,'',
      ''						true, &can_steal) != -1) {'']\<close>

definition B8_COMPACTION_CALL_NEW :: str where
  \<open>B8_COMPACTION_CALL_NEW = block
     [''		if (find_suitable_fallback(area, order, migratetype,'',
      ''						true) >= 0) {'']\<close>

definition B8_FALLBACK_OLD :: str where
  \<open>B8_FALLBACK_OLD = block
     [''/*'',
      '' * Try finding a free buddy page on the fallback list and put it on the free'',
      '' * list of requested migratetype, possibly along with other pages from the same'',
      '' * block, depending on fragmentation avoidance heuristics. Returns true if'',
      '' * fallback was found so that __rmqueue_smallest() can grab it.'',
      '' *'',
      '' * The use of signed ints for order and current_order is a deliberate'',
      '' * deviation from the rest of this file, to make the for loop'',
      '' * condition simpler.'',
      '' */'',
      ''static __always_inline bool'',
      ''__rmqueue_fallback(struct zone *zone, int order, int start_migratetype,'',
      ''						unsigned int alloc_flags)'',
      ''{'',
      ''	struct free_area *area;'',
      ''	int current_order;'',
      ''	int min_order = order;'',
      ''	struct page *page;'',
      ''	int fallback_mt;'',
      ''	bool can_steal;'',
      [],
      ''	/*'',
      ''	 * Do not steal pages from freelists belonging to other pageblocks'',
      ''	 * i.e. orders < pageblock_order. If there are no local zones free,'',
      ''	 * the zonelists will be reiterated without ALLOC_NOFRAGMENT.'',
      ''	 */'',
      ''	if (alloc_flags & ALLOC_NOFRAGMENT)'',
      ''		min_order = pageblock_order;'',
      [],
      ''	/*'',
      ''	 * Find the largest available free page in the other list. This roughly'',
      ''	 * approximates finding the pageblock with the most free pages, which'',
      ''	 * would be too costly to do exactly.'',
      ''	 */'',
      ''	for (current_order = MAX_ORDER - 1; current_order >= min_order;'',
      ''				--current_order) {'',
      ''		area = &(zone->free_area[current_order]);'',
      ''		fallback_mt = find_suitable_fallback(area, current_order,'',
      ''				start_migratetype, false, &can_steal);'',
      ''		if (fallback_mt == -1)'',
      ''			continue;'',
      [],
      ''		/*'',
      ''		 * We cannot steal all free pages from the pageblock and the'',
      ''		 * requested migratetype is movable. In that case it\'s better to'',
      ''		 * steal and split the smallest available page instead of the'',
      ''		 * largest available page, because even if the next movable'',
      ''		 * allocation falls back into a different pageblock than this'',
      ''		 * one, it won\'t cause permanent fragmentation.'',
      ''		 */'',
      ''		if (!can_steal && start_migratetype == MIGRATE_MOVABLE'',
      ''					&& current_order > order)'',
      ''			goto find_smallest;'',
      [],
      ''		goto do_steal;'',
      ''	}'',
      [],
      ''	return false;'',
      [],
      ''find_smallest:'',
      ''	for (current_order = order; current_order < MAX_ORDER;'',
      ''							current_order++) {'',
      ''		area = &(zone->free_area[current_order]);'',
      ''		fallback_mt = find_suitable_fallback(area, current_order,'',
      ''				start_migratetype, false, &can_steal);'',
      ''		if (fallback_mt != -1)'',
      ''			break;'',
      ''	}'',
      [],
      ''	/*'',
      ''	 * This should not happen - we already found a suitable fallback'',
      ''	 * when looking for the largest page.'',
      ''	 */'',
      ''	VM_BUG_ON(current_order == MAX_ORDER);'',
      [],
      ''do_steal:'',
      ''	page = get_page_from_free_area(area, fallback_mt);'',
      [],
      ''	steal_suitable_fallback(zone, page, alloc_flags, start_migratetype,'',
      ''								can_steal);'',
      [],
      ''	trace_mm_page_alloc_extfrag(page, order, current_order,'',
      ''		start_migratetype, fallback_mt);'',
      [],
      ''	return true;'',
      [],
      ''}'',
      []]\<close>

definition B8_FALLBACK_NEW :: str where
  \<open>B8_FALLBACK_NEW = block
     [''/*'',
      '' * ABK stable_515_backport: split fallback claim and single-page steal phases.'',
      '' * Try to allocate from a fallback migratetype by claiming the entire block,'',
      '' * i.e. converting it to the allocation\'s start migratetype.'',
      '' *'',
      '' * The use of signed ints for order and current_order is a deliberate'',
      '' * deviation from the rest of this file, to make the for loop'',
      '' * condition simpler.'',
      '' */'',
      ''static __always_inline struct page *'',
      ''__rmqueue_claim(struct zone *zone, int order, int start_migratetype,'',
      ''						unsigned int alloc_flags)'',
      ''{'',
      ''	struct free_area *area;'',
      ''	int current_order;'',
      ''	int min_order = order;'',
      ''	struct page *page;'',
      ''	int fallback_mt;'',
      [],
      ''	/* ABK stable_515_backport: reuse the claim phase while zone->lock is held. */'',
      ''	if (alloc_flags & ALLOC_NOFRAGMENT)'',
      ''		min_order = pageblock_order;'',
      [],
      ''	for (current_order = MAX_ORDER - 1; current_order >= min_order;'',
      ''				--current_order) {'',
      ''		area = &(zone->free_area[current_order]);'',
      ''		fallback_mt = find_suitable_fallback(area, current_order,'',
      ''							start_migratetype, true);'',
      [],
      ''		/* No block in that order. */'',
      ''		if (fallback_mt == -1)'',
      ''			continue;'',
      [],
      ''		/* Advanced into orders too low to claim, abort. */'',
      ''		if (fallback_mt == -2)'',
      ''			break;'',
      [],
      ''		page = get_page_from_free_area(area, fallback_mt);'',
      ''		steal_suitable_fallback(zone, page, alloc_flags, start_migratetype,'',
      ''									true);'',
      ''		page = __rmqueue_smallest(zone, order, start_migratetype);'',
      ''		if (page) {'',
      ''			trace_mm_page_alloc_extfrag(page, order, current_order,'',
      ''								start_migratetype, fallback_mt);'',
      ''			return page;'',
      ''		}'',
      ''	}'',
      [],
      ''	return NULL;'',
      ''}'',
      [],
      ''/*'',
      '' * ABK stable_515_backport: keep single-page stealing as a separate mode.'',
      '' * Try to steal a single page from some fallback migratetype. Leave the rest of'',
      '' * the block as its current migratetype, potentially causing fragmentation.'',
      '' */'',
      ''static __always_inline struct page *'',
      ''__rmqueue_steal(struct zone *zone, int order, int start_migratetype,'',
      ''						unsigned int alloc_flags)'',
      ''{'',
      ''	struct free_area *area;'',
      ''	int current_order;'',
      ''	struct page *page;'',
      ''	int fallback_mt;'',
      [],
      ''	for (current_order = order; current_order < MAX_ORDER; current_order++) {'',
      ''		area = &(zone->free_area[current_order]);'',
      ''		fallback_mt = find_suitable_fallback(area, current_order,'',
      ''							start_migratetype, false);'',
      ''		if (fallback_mt == -1)'',
      ''			continue;'',
      [],
      ''		page = get_page_from_free_area(area, fallback_mt);'',
      ''		steal_suitable_fallback(zone, page, alloc_flags, start_migratetype,'',
      ''									false);'',
      ''		page = __rmqueue_smallest(zone, order, start_migratetype);'',
      ''		if (page) {'',
      ''			trace_mm_page_alloc_extfrag(page, order, current_order,'',
      ''								start_migratetype, fallback_mt);'',
      ''			return page;'',
      ''		}'',
      ''	}'',
      [],
      ''	return NULL;'',
      ''}'',
      [],
      ''/* ABK stable_515_backport: fallback search phase remembered by rmqueue_bulk. */'',
      ''enum rmqueue_mode {'',
      ''	RMQUEUE_NORMAL,'',
      ''	RMQUEUE_CMA,'',
      ''	RMQUEUE_CLAIM,'',
      ''	RMQUEUE_STEAL,'',
      ''};'',
      []]\<close>

definition B8_RMQUEUE_OLD :: str where
  \<open>B8_RMQUEUE_OLD = block
     [''/*'',
      '' * Do the hard work of removing an element from the buddy allocator.'',
      '' * Call me with the zone->lock already held.'',
      '' */'',
      ''static __always_inline struct page *'',
      ''__rmqueue(struct zone *zone, unsigned int order, int migratetype,'',
      ''						unsigned int alloc_flags)'',
      ''{'',
      ''	struct page *page = NULL;'',
      [],
      ''	trace_android_vh_rmqueue_smallest_bypass(&page, zone, order, migratetype);'',
      ''	if (page)'',
      ''		return page;'',
      [],
      ''retry:'',
      ''	page = __rmqueue_smallest(zone, order, migratetype);'',
      [],
      ''	/*'',
      ''	 * let normal GFP_MOVABLE has chance to try MIGRATE_CMA'',
      ''	 */'',
      ''	if (unlikely(!page) && (migratetype == MIGRATE_MOVABLE)) {'',
      ''		bool try_cma = false;'',
      ''		trace_android_vh_rmqueue_cma_fallback(zone, order, &page);'',
      ''		trace_android_vh_try_cma_fallback(zone, order, &try_cma);'',
      ''		if (try_cma)'',
      ''			page = __rmqueue_cma_fallback(zone, order);'',
      ''	}'',
      [],
      ''	if (unlikely(!page) && __rmqueue_fallback(zone, order, migratetype,'',
      ''						  alloc_flags))'',
      ''		goto retry;'',
      [],
      ''	if (page)'',
      ''		trace_mm_page_alloc_zone_locked(page, order, migratetype);'',
      ''	return page;'',
      ''}'',
      []]\<close>

definition B8_RMQUEUE_NEW :: str where
  \<open>B8_RMQUEUE_NEW = block
     [''/*'',
      '' * Do the hard work of removing an element from the buddy allocator.'',
      '' * Call me with the zone->lock already held.'',
      '' */'',
      ''static __always_inline struct page *'',
      ''__rmqueue(struct zone *zone, unsigned int order, int migratetype,'',
      ''						unsigned int alloc_flags, enum rmqueue_mode *mode)'',
      ''{'',
      ''	struct page *page = NULL;'',
      [],
      ''	trace_android_vh_rmqueue_smallest_bypass(&page, zone, order, migratetype);'',
      ''	if (page)'',
      ''		return page;'',
      [],
      ''	/*'',
      ''	 * First try the freelists of the requested migratetype, then try fallback'',
      ''	 * modes with increasing levels of fragmentation risk. The fallback logic'',
      ''	 * is expensive and rmqueue_bulk() keeps zone->lock held across the loop,'',
      ''	 * so remember the successful mode for the next page in that batch.'',
      ''	 */'',
      ''	switch (*mode) {'',
      ''	case RMQUEUE_NORMAL:'',
      ''		page = __rmqueue_smallest(zone, order, migratetype);'',
      ''		if (page)'',
      ''			goto out;'',
      ''		fallthrough;'',
      ''	case RMQUEUE_CMA:'',
      ''		if (migratetype == MIGRATE_MOVABLE) {'',
      ''			bool try_cma = false;'',
      ''			bool from_cma = false;'',
      [],
      ''			trace_android_vh_rmqueue_cma_fallback(zone, order, &page);'',
      ''			trace_android_vh_try_cma_fallback(zone, order, &try_cma);'',
      ''			if (try_cma) {'',
      ''				page = __rmqueue_cma_fallback(zone, order);'',
      ''				from_cma = !!page;'',
      ''			}'',
      ''			if (page) {'',
      ''				if (from_cma)'',
      ''					*mode = RMQUEUE_CMA;'',
      ''				goto out;'',
      ''			}'',
      ''		}'',
      ''		fallthrough;'',
      ''	case RMQUEUE_CLAIM:'',
      ''		page = __rmqueue_claim(zone, order, migratetype, alloc_flags);'',
      ''		if (page) {'',
      ''			/* Replenished the preferred freelist, go back to normal mode. */'',
      ''			*mode = RMQUEUE_NORMAL;'',
      ''			goto out;'',
      ''		}'',
      ''		fallthrough;'',
      ''	case RMQUEUE_STEAL:'',
      ''		if (!(alloc_flags & ALLOC_NOFRAGMENT)) {'',
      ''			page = __rmqueue_steal(zone, order, migratetype, alloc_flags);'',
      ''			if (page) {'',
      ''				*mode = RMQUEUE_STEAL;'',
      ''				goto out;'',
      ''			}'',
      ''		}'',
      ''		break;'',
      ''	}'',
      [],
      ''	page = NULL;'',
      ''out:'',
      ''	if (page)'',
      ''		trace_mm_page_alloc_zone_locked(page, order, migratetype);'',
      ''	return page;'',
      ''}'',
      []]\<close>

definition B8_BULK_DECL_OLD :: str where
  \<open>B8_BULK_DECL_OLD = block
     [''{'',
      ''	int i, allocated = 0;'',
      [],
      ''	/* Caller must hold IRQ-safe pcp->lock so IRQs are disabled. */'']\<close>

definition B8_BULK_DECL_NEW :: str where
  \<open>B8_BULK_DECL_NEW = block
     [''{'',
      ''	/* ABK stable_515_backport: reuse the fallback mode for this locked batch. */'',
      ''	enum rmqueue_mode rmqm = RMQUEUE_NORMAL;'',
      ''	int i, allocated = 0;'',
      [],
      ''	/* Caller must hold IRQ-safe pcp->lock so IRQs are disabled. */'']\<close>

definition B8_BULK_CALL_OLD :: str where
  \<open>B8_BULK_CALL_OLD = block
     [''		else'',
      ''			page = __rmqueue(zone, order, migratetype, alloc_flags);'']\<close>

definition B8_BULK_CALL_NEW :: str where
  \<open>B8_BULK_CALL_NEW = block
     [''		else'',
      ''			page = __rmqueue(zone, order, migratetype, alloc_flags, &rmqm);'']\<close>

definition B8_BUDDY_CALL_OLD :: str where
  \<open>B8_BUDDY_CALL_OLD = block
     [''				if (try_cma)'',
      ''					page = __rmqueue_cma(zone, order, migratetype,'',
      ''							alloc_flags);'',
      ''			}'',
      ''			if (!page)'',
      ''				page = __rmqueue(zone, order, migratetype,'',
      ''						alloc_flags);'']\<close>

definition B8_BUDDY_CALL_NEW :: str where
  \<open>B8_BUDDY_CALL_NEW = block
     [''				if (try_cma)'',
      ''					page = __rmqueue_cma(zone, order, migratetype,'',
      ''							alloc_flags);'',
      ''			}'',
      ''			if (!page) {'',
      ''				enum rmqueue_mode rmqm = RMQUEUE_NORMAL;'',
      [],
      ''				page = __rmqueue(zone, order, migratetype,'',
      ''						alloc_flags, &rmqm);'',
      ''			}'']\<close>

definition B8_BUDDY_HIGHATOMIC_TAIL_OLD :: str where
  \<open>B8_BUDDY_HIGHATOMIC_TAIL_OLD = block
     [''			if (!page)'',
      ''				page = __rmqueue(zone, order, migratetype,'',
      ''						alloc_flags);'']\<close>

definition B8_BUDDY_HIGHATOMIC_TAIL_NEW :: str where
  \<open>B8_BUDDY_HIGHATOMIC_TAIL_NEW = block
     [''			if (!page) {'',
      ''				enum rmqueue_mode rmqm = RMQUEUE_NORMAL;'',
      [],
      ''				page = __rmqueue(zone, order, migratetype,'',
      ''						alloc_flags, &rmqm);'',
      ''			}'']\<close>

definition B8_BUDDY_HIGHATOMIC_RETRY :: str where
  \<open>B8_BUDDY_HIGHATOMIC_RETRY = block
     [''			if (!page) {'',
      ''				page = __rmqueue(zone, order, migratetype,'',
      ''						alloc_flags);'',
      [],
      ''				/*'',
      ''				 * If the allocation fails, allow OOM handling and'',
      ''				 * order-0 (atomic) allocs access to HIGHATOMIC'',
      ''				 * reserves as failing now is worse than failing a'',
      ''				 * high-order atomic allocation in the future.'',
      ''				 */'',
      ''				if (!page && (alloc_flags & (ALLOC_OOM|ALLOC_NON_BLOCK)))'',
      ''					page = __rmqueue_smallest(zone, order, MIGRATE_HIGHATOMIC);'',
      ''			}'']\<close>

definition B8_BUDDY_HIGHATOMIC_RETRY_NEW :: str where
  \<open>B8_BUDDY_HIGHATOMIC_RETRY_NEW = block
     [''			if (!page) {'',
      ''				enum rmqueue_mode rmqm = RMQUEUE_NORMAL;'',
      [],
      ''				page = __rmqueue(zone, order, migratetype,'',
      ''						alloc_flags, &rmqm);'',
      [],
      ''				/*'',
      ''				 * If the allocation fails, allow OOM handling and'',
      ''				 * order-0 (atomic) allocs access to HIGHATOMIC'',
      ''				 * reserves as failing now is worse than failing a'',
      ''				 * high-order atomic allocation in the future.'',
      ''				 */'',
      ''				if (!page && (alloc_flags & (ALLOC_OOM|ALLOC_NON_BLOCK)))'',
      ''					page = __rmqueue_smallest(zone, order, MIGRATE_HIGHATOMIC);'',
      ''			}'']\<close>

definition B8_BUDDY_CALL_HIGHATOMIC_OLD :: str where
  \<open>B8_BUDDY_CALL_HIGHATOMIC_OLD = replace_all B8_BUDDY_HIGHATOMIC_TAIL_OLD B8_BUDDY_HIGHATOMIC_RETRY B8_BUDDY_CALL_OLD\<close>

definition B8_BUDDY_CALL_HIGHATOMIC_NEW :: str where
  \<open>B8_BUDDY_CALL_HIGHATOMIC_NEW = replace_all B8_BUDDY_HIGHATOMIC_TAIL_NEW B8_BUDDY_HIGHATOMIC_RETRY_NEW B8_BUDDY_CALL_NEW\<close>

definition pagealloc_fallback_step1 :: step where
  \<open>pagealloc_fallback_step1 =
   (''mm/internal.h'',
    block
     [''int find_suitable_fallback(struct free_area *area, unsigned int order,'',
      ''			int migratetype, bool only_stealable, bool *can_steal);''],
    block
     [''int find_suitable_fallback(struct free_area *area, unsigned int order,'',
      ''			int migratetype, bool claimable);''], True)\<close>

definition pagealloc_fallback_step2 :: step where
  \<open>pagealloc_fallback_step2 =
   (''mm/compaction.c'',
    B8_COMPACTION_DECL_OLD,
    B8_COMPACTION_DECL_NEW, True)\<close>

definition pagealloc_fallback_step3 :: step where
  \<open>pagealloc_fallback_step3 =
   (''mm/compaction.c'',
    B8_COMPACTION_CALL_OLD,
    B8_COMPACTION_CALL_NEW, True)\<close>

definition pagealloc_fallback_step4 :: step where
  \<open>pagealloc_fallback_step4 =
   (''mm/page_alloc.c'',
    B8_FIND_OLD,
    B8_FIND_NEW, True)\<close>

definition pagealloc_fallback_step5 :: step where
  \<open>pagealloc_fallback_step5 =
   (''mm/page_alloc.c'',
    B8_RMQUEUE_OLD,
    B8_RMQUEUE_NEW, True)\<close>

definition pagealloc_fallback_step6 :: step where
  \<open>pagealloc_fallback_step6 =
   (''mm/page_alloc.c'',
    B8_FALLBACK_OLD,
    B8_FALLBACK_NEW, True)\<close>

definition pagealloc_fallback_step7 :: step where
  \<open>pagealloc_fallback_step7 =
   (''mm/page_alloc.c'',
    B8_BULK_DECL_OLD,
    B8_BULK_DECL_NEW, True)\<close>

definition pagealloc_fallback_step8 :: step where
  \<open>pagealloc_fallback_step8 =
   (''mm/page_alloc.c'',
    B8_BULK_CALL_OLD,
    B8_BULK_CALL_NEW, True)\<close>

definition pagealloc_buddy_step :: "bool \<Rightarrow> step" where
  \<open>pagealloc_buddy_step highatomic =
     (''mm/page_alloc.c'',
      if highatomic then B8_BUDDY_CALL_HIGHATOMIC_OLD else B8_BUDDY_CALL_OLD,
      if highatomic then B8_BUDDY_CALL_HIGHATOMIC_NEW else B8_BUDDY_CALL_NEW, True)\<close>

definition pagealloc_fallback_steps :: "bool \<Rightarrow> step list" where
  \<open>pagealloc_fallback_steps highatomic =
     [pagealloc_fallback_step1, pagealloc_fallback_step2, pagealloc_fallback_step3, pagealloc_fallback_step4, pagealloc_fallback_step5, pagealloc_fallback_step6, pagealloc_fallback_step7, pagealloc_fallback_step8, pagealloc_buddy_step highatomic]\<close>

lemma pagealloc_fallback_steps_files:
  "steps_files (pagealloc_fallback_steps b) = {''mm/internal.h'', ''mm/compaction.c'', ''mm/page_alloc.c''}"
  by (simp add: pagealloc_fallback_steps_def steps_files_fst insert_commute
      step_file [OF pagealloc_buddy_step_def]
      step_file [OF pagealloc_fallback_step1_def]
      step_file [OF pagealloc_fallback_step2_def]
      step_file [OF pagealloc_fallback_step3_def]
      step_file [OF pagealloc_fallback_step4_def]
      step_file [OF pagealloc_fallback_step5_def]
      step_file [OF pagealloc_fallback_step6_def]
      step_file [OF pagealloc_fallback_step7_def]
      step_file [OF pagealloc_fallback_step8_def])

definition pagealloc_fallback_reuse_apply :: "outcome io" where
  \<open>pagealloc_fallback_reuse_apply =
    io_bind (ctx_read ''mm/page_alloc.c'') (\<lambda>page_alloc_probe.
    apply_or_block (pagealloc_fallback_steps
      (contains ''If the allocation fails, allow OOM handling'' page_alloc_probe)))\<close>

lemma pagealloc_fallback_reuse_apply_txn:
  "transactional (\<lambda>_. {''mm/internal.h'', ''mm/compaction.c'', ''mm/page_alloc.c''})
     pagealloc_fallback_reuse_apply"
  unfolding pagealloc_fallback_reuse_apply_def
  by (intro txn_intros safe_intros)
    (simp_all add: is_backup_code BACKUP_SUFFIX_def pagealloc_fallback_steps_files)

definition B8_RCU_NOCB_KCONFIG_OLD :: str where
  \<open>B8_RCU_NOCB_KCONFIG_OLD = block
     [''	  Say Y here if you need reduced OS jitter, despite added overhead.'',
      ''	  Say N here if you are unsure.'',
      [],
      ''config TASKS_TRACE_RCU_READ_MB'']\<close>

definition B8_RCU_NOCB_KCONFIG_NEW :: str where
  \<open>B8_RCU_NOCB_KCONFIG_NEW = block
     [''	  Say Y here if you need reduced OS jitter, despite added overhead.'',
      ''	  Say N here if you are unsure.'',
      [],
      ''# ABK stable_515_backport: RCU_NOCB_CPU_DEFAULT_ALL option from upstream.'',
      ''config RCU_NOCB_CPU_DEFAULT_ALL'',
      ''	bool "Offload RCU callback processing from all CPUs by default"'',
      ''	depends on RCU_NOCB_CPU'',
      ''	default n'',
      ''	help'',
      ''	  Use this option to offload callback processing from all CPUs'',
      ''	  by default, in the absence of the rcu_nocbs or nohz_full boot'',
      ''	  parameter. This also avoids the need to use any boot parameters'',
      ''	  to achieve the effect of offloading all CPUs on boot.'',
      [],
      ''	  Say Y here if you want offload all CPUs by default on boot.'',
      ''	  Say N here if you are unsure.'',
      [],
      ''config TASKS_TRACE_RCU_READ_MB'']\<close>

definition B8_RCU_NOCB_DOC_NOHZ_OLD :: str where
  \<open>B8_RCU_NOCB_DOC_NOHZ_OLD = block
     [''			just as if they had also been called out in the'',
      ''			rcu_nocbs= boot parameter.'']\<close>

definition B8_RCU_NOCB_DOC_NOHZ_NEW :: str where
  \<open>B8_RCU_NOCB_DOC_NOHZ_NEW = block
     [''			just as if they had also been called out in the'',
      ''			rcu_nocbs= boot parameter.'',
      [],
      ''			ABK stable_515_backport: This argument takes precedence over'',
      ''			CONFIG_RCU_NOCB_CPU_DEFAULT_ALL.'']\<close>

definition B8_RCU_NOCB_DOC_PARAM_OLD :: str where
  \<open>B8_RCU_NOCB_DOC_PARAM_OLD = block
     [''			which can be useful for HPC and real-time'',
      ''			workloads.  It can also improve energy efficiency'',
      ''			for asymmetric multiprocessors.'']\<close>

definition B8_RCU_NOCB_DOC_PARAM_NEW :: str where
  \<open>B8_RCU_NOCB_DOC_PARAM_NEW = block
     [''			which can be useful for HPC and real-time'',
      ''			workloads.  It can also improve energy efficiency'',
      ''			for asymmetric multiprocessors.'',
      [],
      ''			ABK stable_515_backport: This argument takes precedence over'',
      ''			CONFIG_RCU_NOCB_CPU_DEFAULT_ALL.'']\<close>

definition B8_RCU_NOCB_INIT_OLD :: str where
  \<open>B8_RCU_NOCB_INIT_OLD = block
     [''	int cpu;'',
      ''	bool need_rcu_nocb_mask = false;'',
      ''	struct rcu_data *rdp;'',
      [],
      ''#if defined(CONFIG_NO_HZ_FULL)'']\<close>

definition B8_RCU_NOCB_INIT_NEW :: str where
  \<open>B8_RCU_NOCB_INIT_NEW = block
     [''	int cpu;'',
      ''	bool need_rcu_nocb_mask = false;'',
      ''	/* ABK stable_515_backport: default-all tracks whether no boot mask was supplied. */'',
      ''	bool offload_all = false;'',
      ''	struct rcu_data *rdp;'',
      [],
      ''#if defined(CONFIG_RCU_NOCB_CPU_DEFAULT_ALL)'',
      ''	if (!cpumask_available(rcu_nocb_mask)) {'',
      ''		need_rcu_nocb_mask = true;'',
      ''		offload_all = true;'',
      ''	}'',
      ''#endif /* #if defined(CONFIG_RCU_NOCB_CPU_DEFAULT_ALL) */'',
      [],
      ''#if defined(CONFIG_NO_HZ_FULL)'']\<close>

definition B8_RCU_NOCB_NOHZ_OLD :: str where
  \<open>B8_RCU_NOCB_NOHZ_OLD = block
     [''#if defined(CONFIG_NO_HZ_FULL)'',
      ''	if (tick_nohz_full_running && cpumask_weight(tick_nohz_full_mask))'',
      ''		need_rcu_nocb_mask = true;'',
      ''#endif /* #if defined(CONFIG_NO_HZ_FULL) */'']\<close>

definition B8_RCU_NOCB_NOHZ_NEW :: str where
  \<open>B8_RCU_NOCB_NOHZ_NEW = block
     [''#if defined(CONFIG_NO_HZ_FULL)'',
      ''	if (tick_nohz_full_running && cpumask_weight(tick_nohz_full_mask)) {'',
      ''		need_rcu_nocb_mask = true;'',
      ''		offload_all = false; /* NO_HZ_FULL has its own mask. */'',
      ''	}'',
      ''#endif /* #if defined(CONFIG_NO_HZ_FULL) */'']\<close>

definition B8_RCU_NOCB_SETALL_OLD :: str where
  \<open>B8_RCU_NOCB_SETALL_OLD = block
     [''#if defined(CONFIG_NO_HZ_FULL)'',
      ''	if (tick_nohz_full_running)'',
      ''		cpumask_or(rcu_nocb_mask, rcu_nocb_mask, tick_nohz_full_mask);'',
      ''#endif /* #if defined(CONFIG_NO_HZ_FULL) */'',
      [],
      ''	if (register_shrinker(&lazy_rcu_shrinker))'']\<close>

definition B8_RCU_NOCB_SETALL_NEW :: str where
  \<open>B8_RCU_NOCB_SETALL_NEW = block
     [''#if defined(CONFIG_NO_HZ_FULL)'',
      ''	if (tick_nohz_full_running)'',
      ''		cpumask_or(rcu_nocb_mask, rcu_nocb_mask, tick_nohz_full_mask);'',
      ''#endif /* #if defined(CONFIG_NO_HZ_FULL) */'',
      [],
      ''	/* ABK stable_515_backport: materialize the default all-CPU mask. */'',
      ''	if (offload_all)'',
      ''		cpumask_setall(rcu_nocb_mask);'',
      [],
      ''	if (register_shrinker(&lazy_rcu_shrinker))'']\<close>

definition rcu_nocb_cpu_default_all_step1 :: step where
  \<open>rcu_nocb_cpu_default_all_step1 =
   (''kernel/rcu/Kconfig'',
    B8_RCU_NOCB_KCONFIG_OLD,
    B8_RCU_NOCB_KCONFIG_NEW, True)\<close>

definition rcu_nocb_cpu_default_all_step2 :: step where
  \<open>rcu_nocb_cpu_default_all_step2 =
   (''Documentation/admin-guide/kernel-parameters.txt'',
    B8_RCU_NOCB_DOC_NOHZ_OLD,
    B8_RCU_NOCB_DOC_NOHZ_NEW, True)\<close>

definition rcu_nocb_cpu_default_all_step3 :: step where
  \<open>rcu_nocb_cpu_default_all_step3 =
   (''Documentation/admin-guide/kernel-parameters.txt'',
    B8_RCU_NOCB_DOC_PARAM_OLD,
    B8_RCU_NOCB_DOC_PARAM_NEW, True)\<close>

definition rcu_nocb_cpu_default_all_step4 :: step where
  \<open>rcu_nocb_cpu_default_all_step4 =
   (''kernel/rcu/tree_nocb.h'',
    B8_RCU_NOCB_INIT_OLD,
    B8_RCU_NOCB_INIT_NEW, True)\<close>

definition rcu_nocb_cpu_default_all_step5 :: step where
  \<open>rcu_nocb_cpu_default_all_step5 =
   (''kernel/rcu/tree_nocb.h'',
    B8_RCU_NOCB_NOHZ_OLD,
    B8_RCU_NOCB_NOHZ_NEW, True)\<close>

definition rcu_nocb_cpu_default_all_step6 :: step where
  \<open>rcu_nocb_cpu_default_all_step6 =
   (''kernel/rcu/tree_nocb.h'',
    B8_RCU_NOCB_SETALL_OLD,
    B8_RCU_NOCB_SETALL_NEW, True)\<close>

definition rcu_nocb_cpu_default_all_steps :: "step list" where
  \<open>rcu_nocb_cpu_default_all_steps = [rcu_nocb_cpu_default_all_step1, rcu_nocb_cpu_default_all_step2, rcu_nocb_cpu_default_all_step3, rcu_nocb_cpu_default_all_step4, rcu_nocb_cpu_default_all_step5, rcu_nocb_cpu_default_all_step6]\<close>

definition rcu_nocb_cpu_default_all_apply :: "outcome io" where
  \<open>rcu_nocb_cpu_default_all_apply =
    io_bind (ctx_read ''kernel/rcu/Kconfig'') (\<lambda>kconfig.
    io_bind (ctx_read ''kernel/rcu/tree_nocb.h'') (\<lambda>nocb.
    io_bind (ctx_read ''Documentation/admin-guide/kernel-parameters.txt'') (\<lambda>params.
    if contains ''config RCU_NOCB_CPU_DEFAULT_ALL'' kconfig \<and> contains ''bool offload_all = false'' nocb \<and> contains ''CONFIG_RCU_NOCB_CPU_DEFAULT_ALL'' params
    then io_ret (AlreadyPresent, ''RCU_NOCB_CPU_DEFAULT_ALL is already present'')
    else
    apply_or_block rcu_nocb_cpu_default_all_steps)))\<close>

lemma rcu_nocb_cpu_default_all_steps_files: "steps_files rcu_nocb_cpu_default_all_steps = {''kernel/rcu/Kconfig'', ''Documentation/admin-guide/kernel-parameters.txt'', ''kernel/rcu/tree_nocb.h''}"
  by (simp add: rcu_nocb_cpu_default_all_steps_def steps_files_fst insert_commute
      step_file [OF rcu_nocb_cpu_default_all_step1_def]
      step_file [OF rcu_nocb_cpu_default_all_step2_def]
      step_file [OF rcu_nocb_cpu_default_all_step3_def]
      step_file [OF rcu_nocb_cpu_default_all_step4_def]
      step_file [OF rcu_nocb_cpu_default_all_step5_def]
      step_file [OF rcu_nocb_cpu_default_all_step6_def])

lemma rcu_nocb_cpu_default_all_steps_required: "all_required rcu_nocb_cpu_default_all_steps"
  by (simp add: rcu_nocb_cpu_default_all_steps_def all_required_def
      step_req [OF rcu_nocb_cpu_default_all_step1_def]
      step_req [OF rcu_nocb_cpu_default_all_step2_def]
      step_req [OF rcu_nocb_cpu_default_all_step3_def]
      step_req [OF rcu_nocb_cpu_default_all_step4_def]
      step_req [OF rcu_nocb_cpu_default_all_step5_def]
      step_req [OF rcu_nocb_cpu_default_all_step6_def])

lemma rcu_nocb_cpu_default_all_apply_txn: "transactional (\<lambda>_. {''kernel/rcu/Kconfig'', ''Documentation/admin-guide/kernel-parameters.txt'', ''kernel/rcu/tree_nocb.h''}) rcu_nocb_cpu_default_all_apply"
  unfolding rcu_nocb_cpu_default_all_apply_def
  by (intro txn_intros safe_intros)
    (simp_all add: is_backup_code BACKUP_SUFFIX_def rcu_nocb_cpu_default_all_steps_files)

end
