(* ===== verification/Core_Readahead.thy ===== *)
theory Core_Readahead
  imports Registry_Laws
begin

text \<open>
  \<^verbatim>\<open>scripts/abk_stable_core.py\<close>, lines up to 4613: dynamic readahead. Anchors, steps and
  group functions stand in source order under the source's names.
\<close>

definition DRA_RA_TAIL :: str where
  \<open>DRA_RA_TAIL = block
     [''/*'',
      '' * Initialise a struct file\'s readahead state.  Assumes that the caller has'',
      '' * memset *ra to zero.'',
      '' */'']\<close>

definition DRA_RA_OLD :: str where
  \<open>DRA_RA_OLD = block
     [''#include "internal.h"'',
      [],
      []] @
   DRA_RA_TAIL\<close>

definition DRA_RA_BLOCK :: str where
  \<open>DRA_RA_BLOCK = block
     [''#ifdef CONFIG_ABK_DYNAMIC_READAHEAD'',
      ''#include <linux/moduleparam.h>'',
      ''#include <linux/jiffies.h>'',
      ''#include <linux/cgroup.h>'',
      ''#include <linux/sched/rt.h>'',
      ''#include <linux/vmstat.h>'',
      [],
      ''/*'',
      '' * ABK stable_515_backport: dynamic readahead (Batch 9-1).'',
      '' *'',
      '' * In-tree port of the OPLUS/Xiaomi "mi_dynamic_readahead" kernel module'',
      '' * (Copyright 2020-2022 Oplus, as shipped in Xiaomi_Kernel_OpenSource'',
      '' * xiaomi-modules/mi_dynamic_readahead): while memory is low, background'',
      '' * tasks get their sequential readahead window halved and their mmap'',
      '' * read-around window shrunk, cutting page-cache prefetch pressure during'',
      '' * reclaim.  The original module registered these two android vendor-hook'',
      '' * callbacks at module_init(); this built-in form does the same at'',
      '' * core_initcall.  Runtime disable on the command line:'',
      '' * readahead.dynamic_readahead=0 (or the same name under'',
      '' * /sys/module/readahead/parameters/).'',
      '' */'',
      ''static unsigned long abk_dra_high_wm;'',
      ''static unsigned long abk_dra_wm_stamp;'',
      ''static bool abk_dra_enable = true;'',
      [],
      ''/* Refresh the watermark sum at most once per second so the low-memory'',
      '' * gate tracks min_free_kbytes/hotplug changes instead of freezing at the'',
      '' * boot-time value. */'',
      ''static void abk_dra_refresh_high_wm(void)'',
      ''{'',
      ''	struct zone *zone;'',
      [],
      ''	if (abk_dra_wm_stamp &&'',
      ''	    time_is_after_jiffies(abk_dra_wm_stamp + HZ))'',
      ''		return;'',
      [],
      ''	abk_dra_high_wm = 0;'',
      ''	for_each_zone(zone)'',
      ''		abk_dra_high_wm += high_wmark_pages(zone);'',
      ''	abk_dra_wm_stamp = jiffies;'',
      ''}'',
      [],
      ''static bool abk_dra_is_lowmem(void)'',
      ''{'',
      ''	abk_dra_refresh_high_wm();'',
      ''	return global_zone_page_state(NR_FREE_PAGES) < abk_dra_high_wm;'',
      ''}'',
      [],
      ''static bool abk_dra_is_background_task(void)'',
      ''{'',
      ''	struct cgroup_subsys_state *css;'',
      ''	const char *kn_name;'',
      ''	bool background = false;'',
      [],
      ''	if (rt_task(current))'',
      ''		return false;'',
      [],
      ''	rcu_read_lock();'',
      ''	css = task_css(current, cpuset_cgrp_id);'',
      ''	kn_name = css->cgroup->kn ? css->cgroup->kn->name : NULL;'',
      ''	if (kn_name && !strncmp(kn_name, "background", strlen("background")))'',
      ''		background = true;'',
      ''	rcu_read_unlock();'',
      [],
      ''	return background;'',
      ''}'',
      [],
      ''static void abk_dra_adjust_readahead(void *data,'',
      ''		struct readahead_control *ractl, unsigned long *max_pages)'',
      ''{'',
      ''	if (abk_dra_enable && abk_dra_is_lowmem() &&'',
      ''	    abk_dra_is_background_task())'',
      ''		*max_pages = min_t(unsigned long, *max_pages,'',
      ''				   ractl->ra->ra_pages / 2);'',
      ''}'',
      [],
      ''static void abk_dra_adjust_readaround(void *data, unsigned int ra_pages,'',
      ''		pgoff_t pgoff, pgoff_t *start, unsigned int *size,'',
      ''		unsigned int *async_size)'',
      ''{'',
      ''	unsigned int dy_ra_pages;'',
      [],
      ''	if (!abk_dra_enable || !abk_dra_is_lowmem() ||'',
      ''	    !abk_dra_is_background_task())'',
      ''		return;'',
      [],
      ''	dy_ra_pages = ra_pages / 2;'',
      ''	*start = max_t(long, 0, pgoff - dy_ra_pages / 2);'',
      ''	*size = dy_ra_pages;'',
      ''	*async_size = dy_ra_pages / 4;'',
      ''}'',
      [],
      ''static int __init abk_dra_init(void)'',
      ''{'',
      ''	int ret;'',
      [],
      ''	abk_dra_refresh_high_wm();'',
      [],
      ''	ret = register_trace_android_vh_ra_tuning_max_page('',
      ''			abk_dra_adjust_readahead, NULL);'',
      ''	if (ret)'',
      ''		return ret;'',
      [],
      ''	ret = register_trace_android_vh_tune_mmap_readaround('',
      ''			abk_dra_adjust_readaround, NULL);'',
      ''	if (ret)'',
      ''		unregister_trace_android_vh_ra_tuning_max_page('',
      ''				abk_dra_adjust_readahead, NULL);'',
      [],
      ''	return ret;'',
      ''}'',
      ''core_initcall(abk_dra_init);'',
      ''module_param_named(dynamic_readahead, abk_dra_enable, bool, 0644);'',
      ''#endif /* CONFIG_ABK_DYNAMIC_READAHEAD */'']\<close>

definition DRA_RA_NEW :: str where
  \<open>DRA_RA_NEW = block
     [''#include "internal.h"'',
      [],
      []] @
   DRA_RA_BLOCK @
   block
     [[],
      [],
      []] @
   DRA_RA_TAIL\<close>

definition DRA_KC_OLD :: str where
  \<open>DRA_KC_OLD = block
     [''menu "Memory Management options"'',
      [],
      ''config SELECT_MEMORY_MODEL'']\<close>

definition DRA_KC_NEW :: str where
  \<open>DRA_KC_NEW = block
     [''menu "Memory Management options"'',
      [],
      ''# ABK stable_515_backport: Batch 9-1 dynamic readahead (OPLUS/Xiaomi)'',
      ''config ABK_DYNAMIC_READAHEAD'',
      ''	bool "ABK dynamic readahead (low-memory background cap)"'',
      ''	help'',
      ''	  In-tree port of the OPLUS/Xiaomi dynamic_readahead module (see'',
      ''	  plan.md Batch 9-1): while memory is low, background cpuset tasks'',
      ''	  get their readahead window halved and their mmap read-around'',
      ''	  shrunk.  Runtime toggle on the command line:'',
      ''	  readahead.dynamic_readahead=0 disables.'',
      [],
      ''config SELECT_MEMORY_MODEL'']\<close>

definition dynamic_readahead_step1 :: step where
  \<open>dynamic_readahead_step1 =
   (''mm/readahead.c'',
    DRA_RA_OLD,
    DRA_RA_NEW, True)\<close>

definition dynamic_readahead_step2 :: step where
  \<open>dynamic_readahead_step2 =
   (''mm/Kconfig'',
    DRA_KC_OLD,
    DRA_KC_NEW, True)\<close>

definition dynamic_readahead_steps :: "step list" where
  \<open>dynamic_readahead_steps = [dynamic_readahead_step1, dynamic_readahead_step2]\<close>

definition dynamic_readahead_apply :: "outcome io" where
  \<open>dynamic_readahead_apply =
    apply_or_block dynamic_readahead_steps\<close>

lemma dynamic_readahead_steps_files: "steps_files dynamic_readahead_steps = {''mm/readahead.c'', ''mm/Kconfig''}"
  by (simp add: dynamic_readahead_steps_def steps_files_fst insert_commute
      step_file [OF dynamic_readahead_step1_def]
      step_file [OF dynamic_readahead_step2_def])

lemma dynamic_readahead_steps_required: "all_required dynamic_readahead_steps"
  by (simp add: dynamic_readahead_steps_def all_required_def
      step_req [OF dynamic_readahead_step1_def]
      step_req [OF dynamic_readahead_step2_def])

lemma dynamic_readahead_apply_txn: "transactional (\<lambda>_. {''mm/readahead.c'', ''mm/Kconfig''}) dynamic_readahead_apply"
  unfolding dynamic_readahead_apply_def
  by (intro txn_intros safe_intros)
    (simp_all add: is_backup_code BACKUP_SUFFIX_def dynamic_readahead_steps_files)

end
