(* ===== verification/Core_Batch_Small.thy ===== *)
theory Core_Batch_Small
  imports Registry_Laws
begin

text \<open>
  One section per module: the early single-topic batch modules of the memory, zram and freezer work.
\<close>

section \<open>\<^verbatim>\<open>scripts/batch10_core_cached_freeze_reclaim.py\<close>\<close>

text \<open>
  The anchors, steps and groups of \<^verbatim>\<open>scripts/batch10_core_cached_freeze_reclaim.py\<close>, in source order.
\<close>

definition b10c_CFR_DECL_OLD :: str where
  \<open>b10c_CFR_DECL_OLD = block
     [''#include <linux/memcontrol.h>'',
      []]\<close>

definition b10c_CFR_DECL_NEW :: str where
  \<open>b10c_CFR_DECL_NEW = block
     [''#include <linux/memcontrol.h>'',
      [],
      ''/* ABK stable_515_backport: cached freeze reclaim accounting (Batch 10-3). */'',
      ''atomic_long_t abk_cfr_reclaim_attempts;'',
      ''atomic_long_t abk_cfr_reclaim_requested;'',
      ''atomic_long_t abk_cfr_reclaim_reclaimed;'',
      []]\<close>

definition b10c_CFR_ACC_OLD :: str where
  \<open>b10c_CFR_ACC_OLD = block
     [''	memalloc_noreclaim_restore(noreclaim_flag);'',
      ''	trace_mm_vmscan_memcg_reclaim_end(nr_reclaimed);'',
      ''	set_task_reclaim_state(current, NULL);'',
      [],
      ''	return nr_reclaimed;'',
      ''}'',
      ''EXPORT_SYMBOL_GPL(try_to_free_mem_cgroup_pages);'',
      []]\<close>

definition b10c_CFR_ACC_NEW :: str where
  \<open>b10c_CFR_ACC_NEW = block
     [''	memalloc_noreclaim_restore(noreclaim_flag);'',
      ''	trace_mm_vmscan_memcg_reclaim_end(nr_reclaimed);'',
      ''	set_task_reclaim_state(current, NULL);'',
      [],
      ''	/* ABK stable_515_backport: cached freeze reclaim accounting (Batch 10-3). */'',
      ''	if (reclaim_options & MEMCG_RECLAIM_PROACTIVE) {'',
      ''		atomic_long_inc(&abk_cfr_reclaim_attempts);'',
      ''		atomic_long_add(nr_pages, &abk_cfr_reclaim_requested);'',
      ''		atomic_long_add(nr_reclaimed, &abk_cfr_reclaim_reclaimed);'',
      ''	}'',
      [],
      ''	return nr_reclaimed;'',
      ''}'',
      ''EXPORT_SYMBOL_GPL(try_to_free_mem_cgroup_pages);'',
      []]\<close>

definition b10c_CFR_STAT_OLD :: str where
  \<open>b10c_CFR_STAT_OLD = block
     [''	/* The above should easily fit into one page */'',
      ''	WARN_ON_ONCE(seq_buf_has_overflowed(&s));'',
      []]\<close>

definition b10c_CFR_STAT_NEW :: str where
  \<open>b10c_CFR_STAT_NEW = block
     [''	/* ABK stable_515_backport: cached freeze reclaim accounting (Batch 10-3). */'',
      ''	{'',
      ''		extern atomic_long_t abk_cfr_reclaim_attempts;'',
      ''		extern atomic_long_t abk_cfr_reclaim_requested;'',
      ''		extern atomic_long_t abk_cfr_reclaim_reclaimed;'',
      [],
      (''		seq_buf_printf(&s, "cfr_reclaim_attempts %ld'' @ [BSL] @ ''n",''),
      ''			       atomic_long_read(&abk_cfr_reclaim_attempts));'',
      (''		seq_buf_printf(&s, "cfr_reclaim_requested %ld'' @ [BSL] @ ''n",''),
      ''			       atomic_long_read(&abk_cfr_reclaim_requested));'',
      (''		seq_buf_printf(&s, "cfr_reclaim_reclaimed %ld'' @ [BSL] @ ''n",''),
      ''			       atomic_long_read(&abk_cfr_reclaim_reclaimed));'',
      ''	}'',
      [],
      []] @
   b10c_CFR_STAT_OLD\<close>

definition b10c_build_steps_step1 :: step where
  \<open>b10c_build_steps_step1 =
   (''mm/vmscan.c'',
    b10c_CFR_DECL_OLD,
    b10c_CFR_DECL_NEW, True)\<close>

definition b10c_build_steps_step2 :: step where
  \<open>b10c_build_steps_step2 =
   (''mm/vmscan.c'',
    b10c_CFR_ACC_OLD,
    b10c_CFR_ACC_NEW, True)\<close>

definition b10c_build_steps_step3 :: step where
  \<open>b10c_build_steps_step3 =
   (''mm/memcontrol.c'',
    b10c_CFR_STAT_OLD,
    b10c_CFR_STAT_NEW, True)\<close>

definition b10c_build_steps :: "step list" where
  \<open>b10c_build_steps = [b10c_build_steps_step1, b10c_build_steps_step2, b10c_build_steps_step3]\<close>

lemma b10c_build_steps_files: "steps_files b10c_build_steps = {''mm/vmscan.c'', ''mm/memcontrol.c''}"
  by (simp add: b10c_build_steps_def steps_files_fst insert_commute
      step_file [OF b10c_build_steps_step1_def]
      step_file [OF b10c_build_steps_step2_def]
      step_file [OF b10c_build_steps_step3_def])

lemma b10c_build_steps_required: "all_required b10c_build_steps"
  by (simp add: b10c_build_steps_def all_required_def
      step_req [OF b10c_build_steps_step1_def]
      step_req [OF b10c_build_steps_step2_def]
      step_req [OF b10c_build_steps_step3_def])

section \<open>\<^verbatim>\<open>scripts/batch10_core_zram_secondary.py\<close>\<close>

text \<open>
  The anchors, steps and groups of \<^verbatim>\<open>scripts/batch10_core_zram_secondary.py\<close>, in source order.
\<close>

definition b10s_PARAM_OLD :: str where
  \<open>b10s_PARAM_OLD = block
     [''static const char *default_compressor = CONFIG_ZRAM_DEF_COMP;'',
      []]\<close>

definition b10s_PARAM_NEW :: str where
  \<open>b10s_PARAM_NEW = block
     [''static const char *default_compressor = CONFIG_ZRAM_DEF_COMP;'',
      [],
      ''#ifdef CONFIG_ZRAM_MULTI_COMP'',
      ''/*'',
      '' * ABK stable_515_backport: Batch 10-4 secondary zram compressor.'',
      '' *'',
      '' * Registering it at device-creation time is what actually makes'',
      '' * recompression happen: recomp_algorithm_store() rejects any later'',
      '' * attempt with -EBUSY once Android has written disksize at boot, and'',
      '' * zram_recompress() is a no-op while every secondary comp slot is NULL.'',
      '' *'',
      '' * zstd by default: measured on the target device against an exact 64 MiB'',
      '' * ELF corpus, zstd is 22% smaller than the lz4kd primary (24.21 vs 31.06'',
      '' * MB) at 88 MB/s compress / 330 MB/s decompress, while lz4hc buys only'',
      '' * 5.6% over lz4kd for twice the compression cost -- dominated in both the'',
      '' * primary and the secondary slot.  The async worker pays the compression,'',
      '' * and 330 MB/s of fault-time decompression is still far above UFS.'',
      '' *'',
      '' * 0444 on purpose: a ROM userspace daemon selected lz4hc before disksize'',
      '' * and the node is -EBUSY afterwards, so a writable parameter would only'',
      '' * invite the same bad choice.  Verified on-device that even KernelSU root'',
      '' * cannot write a 0444 parameter; only the boot cmdline can differ.'',
      '' */'',
      ''static char abk_zram_recomp_algo[CRYPTO_MAX_ALG_NAME] = "zstd";'',
      ''module_param_string(abk_recomp_algo, abk_zram_recomp_algo,'',
      ''		    sizeof(abk_zram_recomp_algo), 0444);'',
      ''MODULE_PARM_DESC(abk_recomp_algo,'',
      ''	"ABK: secondary zram compressor enabling recompression (read-only; empty disables)");'',
      ''#endif'',
      []]\<close>

definition b10s_ADD_OLD :: str where
  \<open>b10s_ADD_OLD = block
     [''	device_id = ret;'',
      []]\<close>

definition b10s_ADD_NEW :: str where
  \<open>b10s_ADD_NEW = block
     [''	device_id = ret;'',
      [],
      ''#ifdef CONFIG_ZRAM_MULTI_COMP'',
      ''	/* ABK stable_515_backport: Batch 10-4: fill the secondary comp slot'',
      ''	 * before any disksize write can initialize the device (best effort:'',
      ''	 * a failure here only means recompression stays disabled).'',
      ''	 */'',
      ''	if (!zram->comp_algs[ZRAM_SECONDARY_COMP] && abk_zram_recomp_algo[0]) {'',
      ''		if (zcomp_available_algorithm(abk_zram_recomp_algo)) {'',
      ''			char *abk_alg = kstrdup(abk_zram_recomp_algo, GFP_KERNEL);'',
      [],
      ''			if (abk_alg) {'',
      ''				comp_algorithm_set(zram, ZRAM_SECONDARY_COMP, abk_alg);'',
      (''				pr_info("zram%d: recompression enabled, secondary compressor %s'' @ [BSL] @ ''n",''),
      ''					device_id, abk_zram_recomp_algo);'',
      ''			}'',
      ''		} else {'',
      (''			pr_warn("zram%d: secondary compressor %s unavailable, recompression disabled'' @ [BSL] @ ''n",''),
      ''				device_id, abk_zram_recomp_algo);'',
      ''		}'',
      ''	}'',
      ''#endif'',
      []]\<close>

definition b10s_build_steps_step1 :: step where
  \<open>b10s_build_steps_step1 =
   (''drivers/block/zram/zram_drv.c'',
    b10s_PARAM_OLD,
    b10s_PARAM_NEW, True)\<close>

definition b10s_build_steps_step2 :: step where
  \<open>b10s_build_steps_step2 =
   (''drivers/block/zram/zram_drv.c'',
    b10s_ADD_OLD,
    b10s_ADD_NEW, True)\<close>

definition b10s_build_steps :: "step list" where
  \<open>b10s_build_steps = [b10s_build_steps_step1, b10s_build_steps_step2]\<close>

lemma b10s_build_steps_files: "steps_files b10s_build_steps = {''drivers/block/zram/zram_drv.c''}"
  by (simp add: b10s_build_steps_def steps_files_fst insert_commute
      step_file [OF b10s_build_steps_step1_def]
      step_file [OF b10s_build_steps_step2_def])

lemma b10s_build_steps_required: "all_required b10s_build_steps"
  by (simp add: b10s_build_steps_def all_required_def
      step_req [OF b10s_build_steps_step1_def]
      step_req [OF b10s_build_steps_step2_def])

section \<open>\<^verbatim>\<open>scripts/batch10_core_memcg_v1.py\<close>\<close>

text \<open>
  The anchors, steps and groups of \<^verbatim>\<open>scripts/batch10_core_memcg_v1.py\<close>, in source order.
\<close>

definition b10m_LEGACY_HDR_OLD :: str where
  \<open>b10m_LEGACY_HDR_OLD = block
     [''static struct cftype mem_cgroup_legacy_files[] = {'',
      []]\<close>

definition b10m_LEGACY_HDR_NEW :: str where
  \<open>b10m_LEGACY_HDR_NEW = block
     [''/* ABK stable_515_backport: Batch 10-4 cgroup-v1 proactive reclaim.'',
      '' * The handler is defined further down next to the v2 cftype table; v1'',
      '' * needs the same file, so declare it before the legacy table.'',
      '' */'',
      ''static ssize_t memory_reclaim(struct kernfs_open_file *of, char *buf,'',
      ''			      size_t nbytes, loff_t off);'',
      [],
      []] @
   b10m_LEGACY_HDR_OLD\<close>

definition b10m_LEGACY_ENT_OLD :: str where
  \<open>b10m_LEGACY_ENT_OLD = block
     [''	{'',
      ''		.name = "force_empty",'',
      ''		.write = mem_cgroup_force_empty_write,'',
      ''	},'',
      []]\<close>

definition b10m_LEGACY_ENT_NEW :: str where
  \<open>b10m_LEGACY_ENT_NEW = b10m_LEGACY_ENT_OLD @
   block
     [''	{'',
      ''		.name = "reclaim",'',
      ''		.write = memory_reclaim,'',
      ''	},'',
      []]\<close>

definition b10m_V1_STAT_OLD :: str where
  \<open>b10m_V1_STAT_OLD = block
     [''	BUILD_BUG_ON(ARRAY_SIZE(memcg1_stat_names) != ARRAY_SIZE(memcg1_stats));'',
      [],
      ''	mem_cgroup_flush_stats();'',
      []]\<close>

definition b10m_V1_STAT_NEW :: str where
  \<open>b10m_V1_STAT_NEW = b10m_V1_STAT_OLD @
   block
     [[],
      ''	/* ABK stable_515_backport: Batch 10-4 cached freeze reclaim accounting. */'',
      ''	{'',
      ''		extern atomic_long_t abk_cfr_reclaim_attempts;'',
      ''		extern atomic_long_t abk_cfr_reclaim_requested;'',
      ''		extern atomic_long_t abk_cfr_reclaim_reclaimed;'',
      [],
      (''		seq_printf(m, "cfr_reclaim_attempts %ld'' @ [BSL] @ ''n",''),
      ''			   atomic_long_read(&abk_cfr_reclaim_attempts));'',
      (''		seq_printf(m, "cfr_reclaim_requested %ld'' @ [BSL] @ ''n",''),
      ''			   atomic_long_read(&abk_cfr_reclaim_requested));'',
      (''		seq_printf(m, "cfr_reclaim_reclaimed %ld'' @ [BSL] @ ''n",''),
      ''			   atomic_long_read(&abk_cfr_reclaim_reclaimed));'',
      ''	}'',
      []]\<close>

definition b10m_build_steps_step1 :: step where
  \<open>b10m_build_steps_step1 =
   (''mm/memcontrol.c'',
    b10m_LEGACY_HDR_OLD,
    b10m_LEGACY_HDR_NEW, True)\<close>

definition b10m_build_steps_step2 :: step where
  \<open>b10m_build_steps_step2 =
   (''mm/memcontrol.c'',
    b10m_LEGACY_ENT_OLD,
    b10m_LEGACY_ENT_NEW, True)\<close>

definition b10m_build_steps_step3 :: step where
  \<open>b10m_build_steps_step3 =
   (''mm/memcontrol.c'',
    b10m_V1_STAT_OLD,
    b10m_V1_STAT_NEW, True)\<close>

definition b10m_build_steps :: "step list" where
  \<open>b10m_build_steps = [b10m_build_steps_step1, b10m_build_steps_step2, b10m_build_steps_step3]\<close>

lemma b10m_build_steps_files: "steps_files b10m_build_steps = {''mm/memcontrol.c''}"
  by (simp add: b10m_build_steps_def steps_files_fst insert_commute
      step_file [OF b10m_build_steps_step1_def]
      step_file [OF b10m_build_steps_step2_def]
      step_file [OF b10m_build_steps_step3_def])

lemma b10m_build_steps_required: "all_required b10m_build_steps"
  by (simp add: b10m_build_steps_def all_required_def
      step_req [OF b10m_build_steps_step1_def]
      step_req [OF b10m_build_steps_step2_def]
      step_req [OF b10m_build_steps_step3_def])

section \<open>\<^verbatim>\<open>scripts/batch11_core_zram_algo_lock.py\<close>\<close>

text \<open>
  The anchors, steps and groups of \<^verbatim>\<open>scripts/batch11_core_zram_algo_lock.py\<close>, in source order.
\<close>

definition b11_PARAM_OLD :: str where
  \<open>b11_PARAM_OLD = block
     [''static const char *default_compressor = CONFIG_ZRAM_DEF_COMP;'',
      []]\<close>

definition b11_PARAM_NEW :: str where
  \<open>b11_PARAM_NEW = block
     [''#ifdef CONFIG_ZRAM_MULTI_COMP'',
      ''/*'',
      '' * ABK stable_515_backport: Batch 11 - the zram algorithm lock.'',
      '' *'',
      '' * The pair is a measurement, not a preference: on the target device lz4kd'',
      '' * is the fastest primary in both directions (112 MB/s compress, 955 MB/s'',
      '' * decompress on an exact 64 MiB ELF corpus) and zstd the best'',
      '' * ratio-per-cost secondary (2.77x against lz4kd\'s 2.16x), while lz4hc --'',
      '' * what the ROM\'s userspace daemon picked -- is dominated in both slots.'',
      '' *'',
      '' * Both sysfs nodes close at `disksize`, so the selection used to belong to'',
      '' * whoever won that one window, and repairing it afterwards costs a'',
      '' * swapoff+reset -- which also drops a writeback backing device attached in'',
      '' * the same window.  Locking the choice at creation closes the window from'',
      '' * the kernel side; see abk_zram_locked_algo_store() for why a write that'',
      '' * cannot win is reported as success instead of refused.'',
      '' *'',
      '' * 0444 on purpose: only the boot cmdline can differ from the measurement.'',
      '' */'',
      ''static bool abk_zram_lock_algo = true;'',
      ''/*'',
      '' * module_param_named, not module_param: the parameter must be called'',
      '' * zram.abk_lock_algo while the variable keeps the abk_zram_ prefix, and'',
      '' * plain module_param() insists on one name for both (it compiles to'',
      '' * "use of undeclared identifier \'abk_lock_algo\'" otherwise -- caught by'',
      '' * ABK CI, not by the text-level audits).'',
      '' */'',
      ''module_param_named(abk_lock_algo, abk_zram_lock_algo, bool, 0444);'',
      ''MODULE_PARM_DESC(abk_lock_algo,'',
      ''	"ABK: lock the zram compressors against runtime writes (read-only)");'',
      [],
      ''static char abk_zram_comp_algo[CRYPTO_MAX_ALG_NAME] = "lz4kd";'',
      ''module_param_string(abk_comp_algo, abk_zram_comp_algo,'',
      ''		    sizeof(abk_zram_comp_algo), 0444);'',
      ''MODULE_PARM_DESC(abk_comp_algo,'',
      ''	"ABK: locked primary zram compressor (read-only; a name this build lacks keeps the default)");'',
      ''#endif'',
      [],
      ''static const char *default_compressor = CONFIG_ZRAM_DEF_COMP;'',
      []]\<close>

definition b11_PRIMARY_OLD :: str where
  \<open>b11_PRIMARY_OLD = block
     [''	zram_debugfs_register(zram);'',
      []]\<close>

definition b11_PRIMARY_NEW :: str where
  \<open>b11_PRIMARY_NEW = block
     [''#ifdef CONFIG_ZRAM_MULTI_COMP'',
      ''	/* ABK stable_515_backport: Batch 11 - lock the primary before the disk'',
      ''	 * can be created, so a build whose CONFIG_ZRAM_DEF_COMP is a dominated'',
      ''	 * compressor still starts from the measured one.  Best effort: a tree'',
      ''	 * without the vendor\'s lz4kd backend keeps its build default.'',
      ''	 */'',
      ''	if (abk_zram_lock_algo && abk_zram_comp_algo[0]) {'',
      ''		if (zcomp_available_algorithm(abk_zram_comp_algo)) {'',
      ''			char *abk_prim = kstrdup(abk_zram_comp_algo, GFP_KERNEL);'',
      [],
      ''			if (abk_prim)'',
      ''				comp_algorithm_set(zram, ZRAM_PRIMARY_COMP,'',
      ''						   abk_prim);'',
      ''		} else {'',
      (''			pr_warn("zram%d: locked compressor %s unavailable, keeping %s'' @ [BSL] @ ''n",''),
      ''				device_id, abk_zram_comp_algo, default_compressor);'',
      ''		}'',
      ''	}'',
      ''#endif'',
      [],
      ''	zram_debugfs_register(zram);'',
      []]\<close>

definition b11_LOCK_OLD :: str where
  \<open>b11_LOCK_OLD = block
     [''module_init(zram_init);'',
      []]\<close>

definition b11_LOCK_BODY :: str where
  \<open>b11_LOCK_BODY = block
     [''#ifdef CONFIG_ZRAM_MULTI_COMP'',
      ''/*'',
      '' * ABK stable_515_backport: Batch 11 - the locked stores.'',
      '' *'',
      '' * comp_algorithm and recomp_algorithm are both writable only before'',
      '' * `disksize`, and that window is also where a writeback backing device is'',
      '' * attached; a bad algorithm choice could therefore only be repaired by a'',
      '' * reset that throws the writeback setup away.  With the choice locked at'',
      '' * device creation, the window stops being contested and a later write is'',
      '' * accepted and ignored: callers that check the return value (Android\'s'',
      '' * mmd_setup aborts its whole zram setup, writeback included, on a failed'',
      '' * algorithm write) must not see a failure here.'',
      '' */'',
      ''static void abk_zram_algo_lock_report(const char *node, const char *buf)'',
      ''{'',
      ''	char abk_req[CRYPTO_MAX_ALG_NAME];'',
      ''	size_t abk_n = strlen(buf);'',
      [],
      ''	if (abk_n >= sizeof(abk_req))'',
      ''		abk_n = sizeof(abk_req) - 1;'',
      ''	memcpy(abk_req, buf, abk_n);'',
      (''	while (abk_n > 0 && (abk_req[abk_n - 1] == '' @ [QUO] @ [BSL] @ ''n\' ||''),
      (''			     abk_req[abk_n - 1] == '' @ [QUO] @ [BSL] @ ''r\' ||''),
      ''			     abk_req[abk_n - 1] == \' \'))'',
      ''		abk_n--;'',
      (''	abk_req[abk_n] = '' @ [QUO] @ [BSL] @ ''0\';''),
      [],
      (''	pr_info_ratelimited("zram: %s is locked, ignoring a write of \'%s'' @ [QUO] @ [BSL] @ ''n",''),
      ''			    node, abk_req);'',
      ''}'',
      [],
      ''static ssize_t abk_zram_locked_algo_store(struct device *dev,'',
      ''					  struct device_attribute *attr,'',
      ''					  const char *buf, size_t len)'',
      ''{'',
      ''	abk_zram_algo_lock_report(attr->attr.name, buf);'',
      ''	return len;'',
      ''}'',
      [],
      ''/*'',
      '' * The attribute structs are global and dev_attr_store() dereferences'',
      '' * ->store on every write, so pointing them at the locked store in a late'',
      '' * initcall covers the devices zram_init() already created as well as any'',
      '' * later hot_add.'',
      '' */'',
      ''static int __init abk_zram_algo_lock_init(void)'',
      ''{'',
      ''	if (!abk_zram_lock_algo)'',
      ''		return 0;'',
      [],
      ''	dev_attr_comp_algorithm.store = abk_zram_locked_algo_store;'',
      ''	dev_attr_recomp_algorithm.store = abk_zram_locked_algo_store;'',
      (''	pr_info("zram: compressors locked to %s + %s, runtime writes ignored'' @ [BSL] @ ''n",''),
      ''		abk_zram_comp_algo, abk_zram_recomp_algo[0] ? abk_zram_recomp_algo : "none");'',
      ''	return 0;'',
      ''}'',
      ''late_initcall(abk_zram_algo_lock_init);'',
      ''#endif /* CONFIG_ZRAM_MULTI_COMP */'',
      []]\<close>

definition b11_LOCK_NEW :: str where
  \<open>b11_LOCK_NEW = block
     [''module_init(zram_init);'',
      [],
      []] @
   b11_LOCK_BODY\<close>

definition b11_build_steps_step1 :: step where
  \<open>b11_build_steps_step1 =
   (''drivers/block/zram/zram_drv.c'',
    b11_PARAM_OLD,
    b11_PARAM_NEW, True)\<close>

definition b11_build_steps_step2 :: step where
  \<open>b11_build_steps_step2 =
   (''drivers/block/zram/zram_drv.c'',
    b11_PRIMARY_OLD,
    b11_PRIMARY_NEW, True)\<close>

definition b11_build_steps_step3 :: step where
  \<open>b11_build_steps_step3 =
   (''drivers/block/zram/zram_drv.c'',
    b11_LOCK_OLD,
    b11_LOCK_NEW, True)\<close>

definition b11_build_steps :: "step list" where
  \<open>b11_build_steps = [b11_build_steps_step1, b11_build_steps_step2, b11_build_steps_step3]\<close>

lemma b11_build_steps_files: "steps_files b11_build_steps = {''drivers/block/zram/zram_drv.c''}"
  by (simp add: b11_build_steps_def steps_files_fst insert_commute
      step_file [OF b11_build_steps_step1_def]
      step_file [OF b11_build_steps_step2_def]
      step_file [OF b11_build_steps_step3_def])

lemma b11_build_steps_required: "all_required b11_build_steps"
  by (simp add: b11_build_steps_def all_required_def
      step_req [OF b11_build_steps_step1_def]
      step_req [OF b11_build_steps_step2_def]
      step_req [OF b11_build_steps_step3_def])

section \<open>\<^verbatim>\<open>scripts/batch13_core_gfp_customize_vh.py\<close>\<close>

text \<open>
  The anchors, steps and groups of \<^verbatim>\<open>scripts/batch13_core_gfp_customize_vh.py\<close>, in source order.
\<close>

definition b13_HOOK_MM_OLD :: str where
  \<open>b13_HOOK_MM_OLD = block
     [''#endif /* _TRACE_HOOK_MM_H */'',
      []]\<close>

definition b13_HOOK_MM_NEW :: str where
  \<open>b13_HOOK_MM_NEW = block
     [''DECLARE_HOOK(android_vh_customize_alloc_gfp,'',
      ''	TP_PROTO(gfp_t *alloc_gfp, unsigned int order),'',
      ''	TP_ARGS(alloc_gfp, order));'',
      [],
      ''#endif /* _TRACE_HOOK_MM_H */'',
      []]\<close>

definition b13_HOOK_PA_OLD :: str where
  \<open>b13_HOOK_PA_OLD = block
     [''	ac.nodemask = nodemask;'',
      [],
      ''	page = __alloc_pages_slowpath(alloc_gfp, order, &ac);'',
      []]\<close>

definition b13_HOOK_PA_NEW :: str where
  \<open>b13_HOOK_PA_NEW = block
     [''	ac.nodemask = nodemask;'',
      ''	trace_android_vh_customize_alloc_gfp(&alloc_gfp, order);'',
      [],
      ''	page = __alloc_pages_slowpath(alloc_gfp, order, &ac);'',
      []]\<close>

definition b13_HOOK_VH_OLD :: str where
  \<open>b13_HOOK_VH_OLD = block
     [''EXPORT_TRACEPOINT_SYMBOL_GPL(android_vh_vmscan_kswapd_done);'',
      []]\<close>

definition b13_HOOK_VH_NEW :: str where
  \<open>b13_HOOK_VH_NEW = block
     [''EXPORT_TRACEPOINT_SYMBOL_GPL(android_vh_vmscan_kswapd_done);'',
      ''EXPORT_TRACEPOINT_SYMBOL_GPL(android_vh_customize_alloc_gfp);'',
      []]\<close>

definition b13_POLICY_OLD :: str where
  \<open>b13_POLICY_OLD = block
     [''		if (managed_zone(zone))'',
      ''			return true;'',
      ''	}'',
      ''	return false;'',
      ''}'',
      ''#endif /* CONFIG_ZONE_DMA */'',
      []]\<close>

definition b13_POLICY_BLOCK :: str where
  \<open>b13_POLICY_BLOCK = tabs (block
     [[],
      ''#ifdef CONFIG_ANDROID_VENDOR_HOOKS'',
      ''/*'',
      '' * ABK stable_515_backport: Batch 13 high-order slowpath fast-fail.'',
      '' *'',
      '' * Consumer of the android_vh_customize_alloc_gfp hook grafted from'',
      '' * android15-6.6 (commit 4466afd69452).  A request that missed the'',
      '' * buddy fast path is about to spend __alloc_pages_slowpath()\'s direct'',
      '' * reclaim and compaction retry loop, which on a fragmented,'',
      '' * nearly-full phone is a multi-millisecond stall of the faulting'',
      '' * task.  While memory is low -- available pages below'',
      '' * abk_gfp_fastfail_pct percent of the summed high watermarks, probed'',
      '' * at most once per second like the Batch 9-1 readahead gate -- the'',
      '' * slowpath attempt gets __GFP_NORETRY and __GFP_NOWARN added for'',
      '' * orders at or above abk_gfp_fastfail_order: 5.15\'s NORETRY semantics'',
      '' * allow one direct-reclaim try and forbid the retry loop, so the'',
      '' * request fails into its caller\'s normal fallback (a 4K fault instead'',
      '' * of a THP, -ENOMEM to a tolerant caller) instead of churning.  On this'',
      '' * tree the default is not a no-op even for THP: GFP_TRANSHUGE_LIGHT has'',
      '' * __GFP_NOWARN but no __GFP_NORETRY, and with the default defrag=madvise a'',
      '' * madvised fault (LIGHT | __GFP_DIRECT_RECLAIM) and khugepaged\'s defrag'',
      '' * allocations (GFP_TRANSHUGE) are the retryable class this gate catches.'',
      '' * Boot-time CMA/hugetlb pool population runs before late_initcall and is'',
      '' * deliberately left retrying.  Switch off with'',
      '' * page_alloc.abk_gfp_fastfail=0.'',
      '' */'',
      ''static bool abk_gfp_fastfail = true;'',
      ''static unsigned int abk_gfp_fastfail_order = 9;'',
      ''static unsigned int abk_gfp_fastfail_pct = 50;'',
      [],
      ''module_param(abk_gfp_fastfail, bool, 0644);'',
      ''MODULE_PARM_DESC(abk_gfp_fastfail,'',
      ''    "high-order page-allocator slowpath attempts turn no-retry under memory pressure");'',
      ''module_param(abk_gfp_fastfail_order, uint, 0644);'',
      ''MODULE_PARM_DESC(abk_gfp_fastfail_order,'',
      ''    "minimum order the fast-fail policy applies to (default 9: THP-class)");'',
      ''module_param(abk_gfp_fastfail_pct, uint, 0644);'',
      ''MODULE_PARM_DESC(abk_gfp_fastfail_pct,'',
      ''    "pressure gate: available < pct% of the summed high watermarks (0: gate removed, always fast-fail)");'',
      [],
      ''static unsigned long abk_gfp_high_wm;'',
      ''static unsigned long abk_gfp_wm_stamp;'',
      [],
      ''static bool abk_gfp_under_pressure(void)'',
      ''{'',
      ''    unsigned long limit, sum;'',
      ''    unsigned int pct;'',
      [],
      ''    pct = READ_ONCE(abk_gfp_fastfail_pct);'',
      ''    if (!pct)'',
      ''        return true;'',
      [],
      ''    if (!READ_ONCE(abk_gfp_wm_stamp) ||'',
      ''        !time_is_after_jiffies(READ_ONCE(abk_gfp_wm_stamp) + HZ)) {'',
      ''        struct zone *zone;'',
      [],
      ''        sum = 0;'',
      ''        for_each_zone(zone)'',
      ''            sum += high_wmark_pages(zone);'',
      ''        WRITE_ONCE(abk_gfp_high_wm, sum);'',
      ''        WRITE_ONCE(abk_gfp_wm_stamp, jiffies);'',
      ''    }'',
      [],
      ''    limit = mult_frac(READ_ONCE(abk_gfp_high_wm), pct, 100);'',
      ''    return si_mem_available() < (long)limit;'',
      ''}'',
      [],
      ''static void abk_gfp_fastfail_hook(void *data, gfp_t *gfp, unsigned int order)'',
      ''{'',
      ''    if (!READ_ONCE(abk_gfp_fastfail))'',
      ''        return;'',
      ''    if (order < READ_ONCE(abk_gfp_fastfail_order))'',
      ''        return;'',
      ''    if (!abk_gfp_under_pressure())'',
      ''        return;'',
      ''    *gfp |= __GFP_NORETRY | __GFP_NOWARN;'',
      ''}'',
      [],
      ''static int __init abk_gfp_fastfail_init(void)'',
      ''{'',
      ''    return register_trace_android_vh_customize_alloc_gfp('',
      ''        abk_gfp_fastfail_hook, NULL);'',
      ''}'',
      ''late_initcall(abk_gfp_fastfail_init);'',
      ''#endif /* CONFIG_ANDROID_VENDOR_HOOKS */'',
      []])\<close>

definition b13_POLICY_NEW :: str where
  \<open>b13_POLICY_NEW = b13_POLICY_OLD @
   block
     [[],
      []] @
   lstrip_nl b13_POLICY_BLOCK\<close>

definition b13_build_hook_steps_step1 :: step where
  \<open>b13_build_hook_steps_step1 =
   (''include/trace/hooks/mm.h'',
    b13_HOOK_MM_OLD,
    b13_HOOK_MM_NEW, True)\<close>

definition b13_build_hook_steps_step2 :: step where
  \<open>b13_build_hook_steps_step2 =
   (''mm/page_alloc.c'',
    b13_HOOK_PA_OLD,
    b13_HOOK_PA_NEW, True)\<close>

definition b13_build_hook_steps_step3 :: step where
  \<open>b13_build_hook_steps_step3 =
   (''drivers/android/vendor_hooks.c'',
    b13_HOOK_VH_OLD,
    b13_HOOK_VH_NEW, True)\<close>

definition b13_build_hook_steps :: "step list" where
  \<open>b13_build_hook_steps = [b13_build_hook_steps_step1, b13_build_hook_steps_step2, b13_build_hook_steps_step3]\<close>

lemma b13_build_hook_steps_files: "steps_files b13_build_hook_steps = {''include/trace/hooks/mm.h'', ''mm/page_alloc.c'', ''drivers/android/vendor_hooks.c''}"
  by (simp add: b13_build_hook_steps_def steps_files_fst insert_commute
      step_file [OF b13_build_hook_steps_step1_def]
      step_file [OF b13_build_hook_steps_step2_def]
      step_file [OF b13_build_hook_steps_step3_def])

lemma b13_build_hook_steps_required: "all_required b13_build_hook_steps"
  by (simp add: b13_build_hook_steps_def all_required_def
      step_req [OF b13_build_hook_steps_step1_def]
      step_req [OF b13_build_hook_steps_step2_def]
      step_req [OF b13_build_hook_steps_step3_def])

definition b13_build_policy_steps_step1 :: step where
  \<open>b13_build_policy_steps_step1 =
   (''mm/page_alloc.c'',
    b13_POLICY_OLD,
    b13_POLICY_NEW, True)\<close>

definition b13_build_policy_steps :: "step list" where
  \<open>b13_build_policy_steps = [b13_build_policy_steps_step1]\<close>

lemma b13_build_policy_steps_files: "steps_files b13_build_policy_steps = {''mm/page_alloc.c''}"
  by (simp add: b13_build_policy_steps_def steps_files_fst insert_commute
      step_file [OF b13_build_policy_steps_step1_def])

lemma b13_build_policy_steps_required: "all_required b13_build_policy_steps"
  by (simp add: b13_build_policy_steps_def all_required_def
      step_req [OF b13_build_policy_steps_step1_def])

end
