(* ===== verification/Core_Batch.thy ===== *)
theory Core_Batch
  imports Batch10_Zram_Async Core_Batch_Small Batch24_Zram_Max_Pages
begin

text \<open>
  \<^verbatim>\<open>scripts/abk_stable_core.py\<close>, lines up to 4792: the groups over the steps of batches 10 to 13. Anchors, steps and
  group functions stand in source order under the source's names.
\<close>

definition zram_async_recompress_apply :: "outcome io" where
  \<open>zram_async_recompress_apply =
    io_bind (read_or_empty ''drivers/block/zram/zram_drv.c'') (\<lambda>probe.
    if contains b24_RECOMPRESS_ASYNC_STORE probe
    then io_ret (AlreadyPresent, ''the async recompress engine is already in zram_drv.c'')
    else
    apply_or_block b10z_build_steps)\<close>

lemma zram_async_recompress_apply_txn: "transactional (\<lambda>_. {''drivers/block/zram/zram_drv.c''}) zram_async_recompress_apply"
  unfolding zram_async_recompress_apply_def
  by (intro txn_intros safe_intros)
    (simp_all add: is_backup_code BACKUP_SUFFIX_def b10z_build_steps_files)

definition cached_freeze_reclaim_apply :: "outcome io" where
  \<open>cached_freeze_reclaim_apply =
    apply_or_block b10c_build_steps\<close>

lemma cached_freeze_reclaim_apply_txn: "transactional (\<lambda>_. {''mm/vmscan.c'', ''mm/memcontrol.c''}) cached_freeze_reclaim_apply"
  unfolding cached_freeze_reclaim_apply_def
  by (intro txn_intros safe_intros)
    (simp_all add: is_backup_code BACKUP_SUFFIX_def b10c_build_steps_files)

definition zram_secondary_comp_apply :: "outcome io" where
  \<open>zram_secondary_comp_apply =
    apply_or_block b10s_build_steps\<close>

lemma zram_secondary_comp_apply_txn: "transactional (\<lambda>_. {''drivers/block/zram/zram_drv.c''}) zram_secondary_comp_apply"
  unfolding zram_secondary_comp_apply_def
  by (intro txn_intros safe_intros)
    (simp_all add: is_backup_code BACKUP_SUFFIX_def b10s_build_steps_files)

definition memcg_v1_reclaim_apply :: "outcome io" where
  \<open>memcg_v1_reclaim_apply =
    apply_or_block b10m_build_steps\<close>

lemma memcg_v1_reclaim_apply_txn: "transactional (\<lambda>_. {''mm/memcontrol.c''}) memcg_v1_reclaim_apply"
  unfolding memcg_v1_reclaim_apply_def
  by (intro txn_intros safe_intros)
    (simp_all add: is_backup_code BACKUP_SUFFIX_def b10m_build_steps_files)

definition zram_algo_lock_apply :: "outcome io" where
  \<open>zram_algo_lock_apply =
    apply_or_block b11_build_steps\<close>

lemma zram_algo_lock_apply_txn: "transactional (\<lambda>_. {''drivers/block/zram/zram_drv.c''}) zram_algo_lock_apply"
  unfolding zram_algo_lock_apply_def
  by (intro txn_intros safe_intros)
    (simp_all add: is_backup_code BACKUP_SUFFIX_def b11_build_steps_files)

definition customize_alloc_gfp_vh_apply :: "outcome io" where
  \<open>customize_alloc_gfp_vh_apply =
    io_try is_oserror (ctx_read ''mm/page_alloc.c'')
      (\<lambda>e. io_bind (exc_text e) (\<lambda>msg. io_ret (BlockedByShape, ''cannot read mm/page_alloc.c: '' @ msg)))
      (\<lambda>pa.
    if \<not> contains ''#include <trace/hooks/mm.h>'' pa
    then io_ret (BlockedByShape, ''mm/page_alloc.c does not include <trace/hooks/mm.h>; the hook call grafted there could not compile'')
    else
    apply_or_block b13_build_hook_steps)\<close>

lemma customize_alloc_gfp_vh_apply_txn: "transactional (\<lambda>_. {''include/trace/hooks/mm.h'', ''mm/page_alloc.c'', ''drivers/android/vendor_hooks.c''}) customize_alloc_gfp_vh_apply"
  unfolding customize_alloc_gfp_vh_apply_def
  by (intro txn_intros safe_intros)
    (simp_all add: is_backup_code BACKUP_SUFFIX_def b13_build_hook_steps_files)

definition gfp_pressure_fastfail_apply :: "outcome io" where
  \<open>gfp_pressure_fastfail_apply =
    io_try is_oserror (io_bind (ctx_read ''include/trace/hooks/mm.h'') (\<lambda>mm_h. io_bind (ctx_read ''mm/page_alloc.c'') (\<lambda>pa. io_ret (mm_h, pa))))
      (\<lambda>e. io_bind (exc_text e) (\<lambda>msg. io_ret (BlockedByShape, ''cannot read hook files: '' @ msg)))
      (\<lambda>(mm_h, pa).
    if \<not> contains ''android_vh_customize_alloc_gfp'' mm_h
    then io_ret (BlockedByShape, ''customize_alloc_gfp hook not grafted yet (the policy needs customize_alloc_gfp_vh)'')
    else
    if \<not> contains ''trace_android_vh_customize_alloc_gfp(&alloc_gfp, order);'' pa
    then io_ret (BlockedByShape, ''customize_alloc_gfp hook is not called in mm/page_alloc.c; the policy would be registered but never fire'')
    else
    if \<not> contains ''#include <trace/hooks/mm.h>'' pa
    then io_ret (BlockedByShape, ''mm/page_alloc.c does not include <trace/hooks/mm.h>; the payload\'s register_trace_ could not compile'')
    else
    apply_or_block b13_build_policy_steps)\<close>

lemma gfp_pressure_fastfail_apply_txn: "transactional (\<lambda>_. {''mm/page_alloc.c''}) gfp_pressure_fastfail_apply"
  unfolding gfp_pressure_fastfail_apply_def
  by (intro txn_intros safe_intros)
    (simp_all add: is_backup_code BACKUP_SUFFIX_def b13_build_policy_steps_files)

end
