(* ===== verification/Batch41_Kcompressd.thy ===== *)
theory Batch41_Kcompressd
  imports Registry_Laws
begin

text \<open>
  The anchors, steps and groups of \<^verbatim>\<open>scripts/batch41_core_vm_kcompressd.py\<close>, in source order.
\<close>

definition b41_PAGE_IO :: str where
  \<open>b41_PAGE_IO = ''mm/page_io.c''\<close>

definition b41_C_INC_OLD :: str where
  \<open>b41_C_INC_OLD = block
     [''#include <linux/sched/task.h>'',
      [],
      []]\<close>

definition b41_C_INC_NEW :: str where
  \<open>b41_C_INC_NEW = block
     [''#include <linux/sched/task.h>'',
      ''#include <linux/kfifo.h>'',
      ''#include <linux/kthread.h>'',
      ''#include <linux/memory.h>'',
      ''#include <linux/nodemask.h>'',
      ''#include <linux/sysctl.h>'',
      ''#include <linux/wait.h>'',
      [],
      []]\<close>

definition b41_C_OFFLOAD_OLD :: str where
  \<open>b41_C_OFFLOAD_OLD = block
     [''	ret = __swap_writepage(page, wbc, end_swap_bio_write);'',
      ''out:'',
      ''	return ret;'',
      ''}'',
      []]\<close>

definition b41_C_OFFLOAD_NEW :: str where
  \<open>b41_C_OFFLOAD_NEW = block
     [''	/* ABK stable_515_backport: Batch 41 -- hand this page\'s'',
      ''	 * compression to the node\'s kcompressd thread. */'',
      ''	if (abk_kcompressd_store(page)) {'',
      ''		/* Release the page lock before returning, exactly as the'',
      ''		 * fall-through path does.  __swap_writepage() is a'',
      ''		 * ->writepage implementation and every exit of it unlocks'',
      ''		 * the page, so on an unpatched kernel swap_writepage()'',
      ''		 * returns with PG_locked clear; an offload has to leave the'',
      ''		 * same invariant behind it.'',
      ''		 *'',
      ''		 * The cost of not doing so is not local.  pageout()'',
      ''		 * (mm/vmscan.c) reads our 0 as PAGE_SUCCESS, and'',
      ''		 * PAGE_SUCCESS\'s `if (!trylock_page(page)) goto keep;`'',
      ''		 * then fails, because shrink_page_list() still holds the'',
      ''		 * lock it took before calling us.  `keep:` sits *after*'',
      ''		 * keep_locked:\'s unlock_page(), so it performs no unlock of'',
      ''		 * its own: the page reaches ret_pages still locked,'',
      ''		 * move_pages_to_lru() never unlocks it either, and the'',
      ''		 * kcompressd thread\'s lock_page() in'',
      ''		 * abk_kcompressd_do_swapout() sleeps forever -- the thread'',
      ''		 * in D state, its whole FIFO pinned, swapped stuck at 0'',
      ''		 * while enqueued keeps climbing.  Measured on vermeer: 26'',
      ''		 * pages queued and none ever written out.  Upstream 0.5'',
      ''		 * returns early the same unlock-free way and carries the'',
      ''		 * same defect on 6.12, whose pageout() has the identical'',
      ''		 * PAGE_SUCCESS branch. */'',
      ''		unlock_page(page);'',
      ''		return 0;'',
      ''	}'',
      [],
      []] @
   b41_C_OFFLOAD_OLD\<close>

definition b41_DECL_ANCHOR :: str where
  \<open>b41_DECL_ANCHOR = block
     [''/*'',
      '' * We may have stale swap cache pages in memory: notice'',
      '' * them here and get rid of the unnecessary final write.'',
      '' */'',
      ''int swap_writepage(struct page *page, struct writeback_control *wbc)'',
      ''{'',
      []]\<close>

definition b41_C_DECL_OLD :: str where
  \<open>b41_C_DECL_OLD = block
     [''/*'',
      '' * We may have stale swap cache pages in memory: notice'',
      '' * them here and get rid of the unnecessary final write.'',
      '' */'',
      ''int swap_writepage(struct page *page, struct writeback_control *wbc)'',
      ''{'',
      []]\<close>

definition b41_C_DECL_NEW :: str where
  \<open>b41_C_DECL_NEW = block
     [''/* ABK stable_515_backport: Batch 41 -- defined below, with the engine. */'',
      ''static bool abk_kcompressd_store(struct page *page);'',
      [],
      ''/*'',
      '' * We may have stale swap cache pages in memory: notice'',
      '' * them here and get rid of the unnecessary final write.'',
      '' */'',
      ''int swap_writepage(struct page *page, struct writeback_control *wbc)'',
      ''{'',
      []]\<close>

definition b41_HOOK_PROBE :: str where
  \<open>b41_HOOK_PROBE = block
     [''	if (frontswap_store(page) == 0) {'',
      ''		set_page_writeback(page);'',
      ''		trace_android_vh_shrink_page_lock_owner_clear(page);'',
      ''		unlock_page(page);'',
      ''		end_page_writeback(page);'',
      ''		goto out;'',
      ''	}'',
      []]\<close>

definition b41_PLAIN_PROBE :: str where
  \<open>b41_PLAIN_PROBE = block
     [''	if (frontswap_store(page) == 0) {'',
      ''		set_page_writeback(page);'',
      ''		unlock_page(page);'',
      ''		end_page_writeback(page);'',
      ''		goto out;'',
      ''	}'',
      []]\<close>

definition b41_HOOK_BODY :: str where
  \<open>b41_HOOK_BODY = block
     [[],
      ''	if (frontswap_store(page) == 0) {'',
      ''		set_page_writeback(page);'',
      ''		trace_android_vh_shrink_page_lock_owner_clear(page);'',
      ''		unlock_page(page);'',
      ''		end_page_writeback(page);'',
      ''	} else {'',
      ''		/* Implies unlock_page(page). */'',
      ''		__swap_writepage(page, &wbc, end_swap_bio_write);'',
      ''	}'',
      [],
      ''	atomic_long_inc(&abk_kcompressd_swapped);'',
      ''	/* Drop the reference abk_kcompressd_enqueue() took for this page. */'',
      ''	put_page(page);'',
      [],
      []]\<close>

definition b41_PLAIN_BODY :: str where
  \<open>b41_PLAIN_BODY = block
     [[],
      ''	if (frontswap_store(page) == 0) {'',
      ''		set_page_writeback(page);'',
      ''		unlock_page(page);'',
      ''		end_page_writeback(page);'',
      ''	} else {'',
      ''		/* Implies unlock_page(page). */'',
      ''		__swap_writepage(page, &wbc, end_swap_bio_write);'',
      ''	}'',
      [],
      ''	atomic_long_inc(&abk_kcompressd_swapped);'',
      ''	/* Drop the reference abk_kcompressd_enqueue() took for this page. */'',
      ''	put_page(page);'',
      [],
      []]\<close>

definition b41_ENGINE_src_lines1 :: "str list" where
  \<open>b41_ENGINE_src_lines1 =
     [[],
      ''/* ========================================================================'',
      '' * ABK stable_515_backport: Batch 41 -- kcompressd swap-out offload.'',
      '' *'',
      '' * Kcompressd-Unofficial 0.5 (Masahito Suzuki, forked from MediaTek\'s'',
      '' * Kcompressd by Qun-Wei Lin) moves kswapd\'s compress-and-swap-out work out'',
      '' * of swap_writepage() and onto a per-node kcompressd kthread, so reclaim'',
      '' * latency stops including the compression of every anonymous page kswapd'',
      '' * writes.  Four things about this tree keep it from looking like the patch:'',
      '' *'',
      '' *   1. pglist_data is off limits.  Upstream adds wait_queue_head_t'',
      '' *      kcompressd_wait, struct task_struct *kcompressd, struct kfifo'',
      '' *      kcompress_fifo and spinlock_t kcompress_fifo_lock to struct'',
      '' *      pglist_data.  android/abi_gki_aarch64.xml pins that struct at 56320'',
      '' *      bits across 22 members with a layout offset on each of them, and'',
      '' *      there is no ANDROID_KABI_RESERVE run to spend -- the four spare slots'',
      '' *      are in struct zone, and pglist_data\'s one free-looking member,'',
      '' *      ANDROID_OEM_DATA(1), is a single u64 behind'',
      '' *      CONFIG_ANDROID_VENDOR_OEM_DATA and belongs to the OEM anyway.  So the'',
      '' *      per-node state is a private static array indexed by page_to_nid(),'',
      '' *      the way Batch 10-1 carries per-device state in a private map rather'',
      '' *      than growing struct zram.'',
      '' *   2. mm/vmscan.c is not touched.  Upstream creates the thread in'',
      '' *      kswapd_run() and tears it down in kswapd_stop(); this tree\'s'',
      '' *      kswapd_run() is void, has no __meminit and no pgdat_kswapd_lock(),'',
      '' *      and its trace_android_vh_kswapd_per_node() can skip the body before'',
      '' *      the thread would have been created.  One late_initcall over the'',
      '' *      online nodes replaces both, and never runs twice.'',
      '' *   3. There is no global to declare.  include/linux/swap.h gains no extern'',
      '' *      (it already carries four groups\' text, and a new global would add a'',
      '' *      symbol to vmlinux); the knob is file-static here and is registered'',
      '' *      with register_sysctl() instead of as an entry in kernel/sysctl.c\'s'',
      '' *      vm_table[].'',
      '' *   4. 5.15 is page-based, not folio-based; its __swap_writepage() takes'',
      '' *      three arguments and its own bio end-io function; zswap is reached'',
      '' *      through frontswap_store() (already what swap_writepage() calls here)'',
      '' *      rather than a direct zswap_store(); and'',
      '' *      mem_cgroup_zswap_writeback_enabled() does not exist.'',
      '' *'',
      '' * Kcompressd-Unofficial 0.5 by Masahito Suzuki (forked from Kcompressd by'',
      '' * Qun-Wei Lin from MediaTek).'',
      '' * ===================================================================== */'',
      [],
      ''/*'',
      '' * Soft limit behind /proc/sys/vm/kcompressd.  Zero switches the offload off'',
      '' * and the tree behaves exactly like an unpatched kernel; a non-zero value is'',
      '' * NOT the queue\'s capacity -- the ring is always ABK_KCOMPRESS_FIFO_SIZE'',
      '' * entries, and this is how many queued pages the head-drain strategy starts'',
      '' * at.  Same range (0..256) and same default (24) as upstream.'',
      '' */'',
      ''#define ABK_KCOMPRESS_FIFO_SIZE 256'',
      [],
      ''static int abk_kcompressd_threshold = 24;'',
      [],
      ''/*'',
      '' * Read-only counters, /proc/sys/vm/kcompressd_{enqueued,swapped,sync}.'',
      '' * Upstream ships none, but Batch 8 showed what an offload that reports'',
      '' * applied without doing anything looks like, so the three numbers that tell'',
      '' * the two apart are observable: enqueued - swapped is the live queue depth,'',
      '' * and sync is the volume the caller wrote itself.  Atomic because they are'',
      '' * incremented from more than one node\'s context; atomic_long_t\'s value is its'',
      '' * first member, so .data can point straight at the variable.'',
      '' */'',
      ''static atomic_long_t abk_kcompressd_enqueued;'',
      ''static atomic_long_t abk_kcompressd_swapped;'',
      ''static atomic_long_t abk_kcompressd_sync;'',
      [],
      ''/*'',
      '' * Per-node state: upstream\'s four pglist_data members.  Zero-initialised BSS'',
      '' * of MAX_NUMNODES entries -- arm64\'s NODES_SHIFT is 4 when CONFIG_NUMA is on'',
      '' * and MAX_NUMNODES collapses to 1 when it is off, so the whole array is a'',
      '' * couple of kilobytes either way.  Every field starts out "no thread, no'',
      '' * queue", which is exactly the degraded state, so teardown has nothing to'',
      '' * intersect with and there is no partial-init shape to recover from.'',
      '' */'',
      ''struct abk_kcompressd_node {'',
      ''	wait_queue_head_t	wait;'',
      ''	struct task_struct	*task;'',
      ''	struct kfifo		fifo;'',
      ''	spinlock_t		lock;'',
      ''};'',
      [],
      ''static struct abk_kcompressd_node abk_kcompressd_nodes[MAX_NUMNODES];'',
      [],
      ''/*'',
      '' * abk_kcompressd_do_swapout() - write one page out to swap.'',
      '' * @page: the page abk_kcompressd_enqueue() queued, or the head it drained.'',
      '' *'',
      '' * A line-for-line copy of the tail of swap_writepage(): the same'',
      '' * writeback_control pageout() builds, frontswap_store() first -- zswap is a'',
      '' * frontswap backend here, so this is upstream\'s zswap_store() branch -- and'',
      '' * __swap_writepage() otherwise.  Only the page ABI and the three-argument'',
      '' * __swap_writepage() differ from upstream.'',
      '' *'',
      '' * The vendor hook below replicates the one swap_writepage() calls at the same'',
      '' * point; the __swap_writepage() half needs no replica, because the hooks that'',
      '' * path carries (mm/page_io.c:266 and :308, and block/bdev.c:380 inside'',
      '' * bdev_write_page()) are inside the callee and travel with the call.'',
      '' */'',
      ''static void abk_kcompressd_do_swapout(struct page *page)'',
      ''{'',
      ''	struct writeback_control wbc = {'',
      ''		.sync_mode	= WB_SYNC_NONE,'',
      ''		.nr_to_write	= SWAP_CLUSTER_MAX,'',
      ''		.range_start	= 0,'',
      ''		.range_end	= LLONG_MAX,'',
      ''		.for_reclaim	= 1,'',
      ''	};'',
      [],
      ''	/*'',
      ''	 * try_to_free_swap() (mm/swapfile.c) tests page_swapped() and knows'',
      ''	 * nothing about this queue, so a path that frees the swap slot while'',
      ''	 * the page sits in the FIFO would have this write land in a slot'',
      ''	 * another page may since have taken.  Write nothing instead: the page'',
      ''	 * keeps its data and no other page\'s swap-out is corrupted.  No path'',
      ''	 * that reaches here has been shown to do this -- see the risk note in'',
      ''	 * the Batch 41 report.'',
      ''	 *'',
      ''	 * pr_warn_once(), deliberately not a check from the WARN family: this is'',
      ''	 * a check for a condition we believe unreachable, and the *action* on'',
      ''	 * reaching it (skip the write) is already the safe one.  A WARN-family'',
      ''	 * check is an oops, and a device booted with'',
      ''	 * panic_on_oops/panic_on_warn would turn our own "impossible" guard into'',
      ''	 * a panic -- strictly worse than the condition it guards.  A dmesg line'',
      ''	 * is enough to find out that it happened, and the once form means it'',
      ''	 * cannot become a hot-path cost either.'',
      ''	 */'',
      ''	if (unlikely(!PageSwapCache(page))) {'',
      (''		pr_warn_once("kcompressd: dropping a queued page whose swap slot was freed (swap entry %#lx)'' @ [BSL] @ ''n",''),
      ''			     (unsigned long)page_private(page));'',
      ''		put_page(page);'',
      ''		return;'',
      ''	}'',
      [],
      ''	/*'']\<close>

definition b41_ENGINE_src_lines2 :: "str list" where
  \<open>b41_ENGINE_src_lines2 =
     [''	 * Not in upstream, and not optional here.  An offloaded page waits on'',
      ''	 * this FIFO with no owner: abk_kcompressd_store() unlocks it before'',
      ''	 * returning (see the unlock_page() in swap_writepage()), so nobody'',
      ''	 * holds PG_locked from the pass that queued it, and whoever reaches it'',
      ''	 * next -- a fault mapping it back in, or a later reclaim pass -- is free'',
      ''	 * to take the lock.  __swap_writepage() is a ->writepage'',
      ''	 * implementation whose every exit unlocks the page, so it must hold'',
      ''	 * PG_locked on entry; unlock_page() has a VM_BUG_ON_PAGE(!PageLocked())'',
      ''	 * that is only visible under CONFIG_DEBUG_VM, and the work itself has'',
      ''	 * to run against a page whose owning I/O this thread is the only one'',
      ''	 * doing.  Taking the lock restores the contract the synchronous path'',
      ''	 * relies on, and waiting on whoever holds it is what the synchronous'',
      ''	 * path does too.'',
      ''	 *'',
      ''	 * The reference is what keeps this safe: abk_kcompressd_enqueue()'',
      ''	 * took a get_page() before queueing, so the page cannot have been'',
      ''	 * freed underneath us no matter who else locked it.'',
      ''	 */'',
      ''	lock_page(page);'',
      [],
      ''@@ABK_KCOMPRESS_SWAPOUT_BODY@@'',
      ''}'',
      [],
      ''/*'',
      '' * abk_kcompressd_enqueue() - queue one page for the node\'s kcompressd.'',
      '' * @kcd: the node\'s state, already validated by the caller.'',
      '' * @page: the page to queue; the caller holds the page\'s lock and the LRU\'s'',
      '' * reference.'',
      '' *'',
      '' * Returns true when the page is in the queue, false when it is not and the'',
      '' * caller has to write it itself.'',
      '' *'',
      '' * Queue discipline, and the part that makes this version worth porting.'',
      '' * MediaTek\'s original refused the *new* page when the queue was full and'',
      '' * left the queued ones waiting, which reversed completion order against'',
      '' * submission order and could starve the oldest pages indefinitely.'',
      '' * Unofficial 0.5 does the opposite: at the soft limit it dequeues the oldest'',
      '' * page first, writes that one out synchronously on the caller\'s thread, and'',
      '' * only then makes room for the new one.  Completion order then matches'',
      '' * submission order, and the queue pushes back towards the synchronous path'',
      '' * instead of growing -- once it is full, every further page costs one older'',
      '' * page\'s write, so an overloaded node degrades towards first-come-first-'',
      '' * served rather than towards a delay.'',
      '' */'',
      ''static bool abk_kcompressd_enqueue(struct abk_kcompressd_node *kcd,'',
      ''				   struct page *page)'',
      ''{'',
      ''	struct page *head = NULL;'',
      ''	unsigned long flags;'',
      ''	unsigned int ret;'',
      [],
      ''	/*'',
      ''	 * One lock for the ring and for nothing else, and the node\'s lifetime is'',
      ''	 * decided under it: the kcd->task read in abk_kcompressd_store() is a'',
      ''	 * plain unlocked load, so a reader that saw a thread could still be'',
      ''	 * about to call in here while abk_kcompressd_del_node() frees the ring'',
      ''	 * underneath it.  Taking the lock for the write makes the two mutually'',
      ''	 * exclusive instead of merely racy -- after this, any enqueue that'',
      ''	 * arrives finds kcd->task == NULL here and bails.'',
      ''	 *'',
      ''	 * kfifo_out_locked() in the thread takes the same lock, so every ring'',
      ''	 * operation is serialized against both sides.  The wait queue predicate'',
      ''	 * reads kfifo_is_empty() unlocked, which is safe the usual wait_event()'',
      ''	 * way: the sleeper enqueues itself on the queue before it tests the'',
      ''	 * condition, so a wake_up_interruptible() landing in between cannot be'',
      ''	 * missed.'',
      ''	 */'',
      ''	spin_lock_irqsave(&kcd->lock, flags);'',
      ''	if (unlikely(!kcd->task)) {'',
      ''		/* The node was off-lined; nothing may enter a freed ring. */'',
      ''		spin_unlock_irqrestore(&kcd->lock, flags);'',
      ''		return false;'',
      ''	}'',
      ''	if (kfifo_len(&kcd->fifo) >='',
      ''			(unsigned int)abk_kcompressd_threshold * sizeof(page) &&'',
      ''			unlikely(!kfifo_out(&kcd->fifo, &head, sizeof(page)))) {'',
      ''		/* Cannot make room; refuse rather than lose the oldest page. */'',
      ''		spin_unlock_irqrestore(&kcd->lock, flags);'',
      ''		return false;'',
      ''	}'',
      ''	/*'',
      ''	 * Load-bearing, not an optimisation -- see the keep_locked: note in'',
      ''	 * abk_kcompressd_do_swapout().  It is what keeps the swap slot alive'',
      ''	 * (__delete_from_swap_cache()/put_swap_page() only run once the'',
      ''	 * refcount matches, and this reference makes it not match) and what'',
      ''	 * keeps the page from being freed out from under the write.'',
      ''	 */'',
      ''	get_page(page);'',
      ''	ret = kfifo_in(&kcd->fifo, &page, sizeof(page));'',
      ''	if (likely(ret)) {'',
      ''		atomic_long_inc(&abk_kcompressd_enqueued);'',
      ''		wake_up_interruptible(&kcd->wait);'',
      ''	} else {'',
      ''		/* Enqueue failed; undo the reference rather than leak it. */'',
      ''		put_page(page);'',
      ''	}'',
      ''	spin_unlock_irqrestore(&kcd->lock, flags);'',
      [],
      ''	/*'',
      ''	 * Written out here, on the caller\'s thread, before its own page'',
      ''	 * returns -- the head-drain cost is paid inside the offload, so an'',
      ''	 * overloaded node slows the reclaim that overloaded it.'',
      ''	 */'',
      ''	if (head)'',
      ''		abk_kcompressd_do_swapout(head);'',
      [],
      ''	return ret != 0;'',
      ''}'',
      [],
      ''/*'',
      '' * abk_kcompressd_store() - off-load one page\'s compression to kcompressd.'',
      '' * @page: the page swap_writepage() is about to write synchronously.'',
      '' *'',
      '' * True means queued, and swap_writepage() returns 0 (the writeback is'',
      '' * kcompressd\'s job now).  False means the caller writes the page itself,'',
      '' * exactly as it would have without this module.'',
      '' */'',
      ''static bool abk_kcompressd_store(struct page *page)'',
      ''{'',
      ''	struct abk_kcompressd_node *kcd = &abk_kcompressd_nodes[page_to_nid(page)];'',
      ''	bool offloaded;'',
      [],
      ''	/*'',
      ''	 * A node that never got a thread, or a knob at zero, is not a fallback'',
      ''	 * -- the tree is simply behaving like an unpatched kernel, and counting'',
      ''	 * these would only turn the counter into a second PSWPOUT.  Not'',
      ''	 * counted.'',
      ''	 */'',
      ''	if (!abk_kcompressd_threshold || unlikely(!kcd->task))'',
      ''		return false;'',
      [],
      ''	/* Everything below is a refused offload, and is counted. */'',
      [],
      ''	/*'',
      ''	 * Only kswapd.  This is the one gate that must not be relaxed, and the'']\<close>

definition b41_ENGINE_src_lines3 :: "str list" where
  \<open>b41_ENGINE_src_lines3 =
     [''	 * reason is not a preference: direct reclaim would take the cannot_free'',
      ''	 * path above for *every* page, __remove_mapping() would return 0,'',
      ''	 * nr_reclaimed would never be incremented (it only accumulates at'',
      ''	 * free_it:), shrink_page_list() would return 0,'',
      ''	 * do_try_to_free_pages() would never reach sc->nr_to_reclaim, and'',
      ''	 * __alloc_pages_slowpath() would escalate -- to the OOM killer, on a'',
      ''	 * system with plenty to reclaim.  kswapd instead re-scans and'',
      ''	 * converges, because the next pass finds the page freeable once'',
      ''	 * kcompressd has dropped its reference.'',
      ''	 */'',
      ''	if (!current_is_kswapd())'',
      ''		goto sync;'',
      [],
      ''	/*'',
      ''	 * ...and not kcompressd itself.  current_is_kswapd() tests'',
      ''	 * current->flags & PF_KSWAPD, and this module\'s own drain thread sets'',
      ''	 * PF_KSWAPD (see the thread below), so the gate above admits kcompressd'',
      ''	 * as well as kswapd.  Nothing in 5.15\'s offload path re-enters'',
      ''	 * swap_writepage() today -- frontswap_store() -> zswap and'',
      ''	 * __swap_writepage() -> bdev_write_page() -> zram_rw_page() ->'',
      ''	 * zcomp_compress() all bottom out without it -- so this is a guard'',
      ''	 * against a future path, not a fix for a live bug.'',
      ''	 *'',
      ''	 * What it would be if it fired: the enqueue puts the page back in the'',
      ''	 * FIFO this very thread is draining, the drain loop in'',
      ''	 * kfifo_out_locked() never empties, so it neither sleeps nor exits, and'',
      ''	 * every round pins one more page -- a livelock that ends in the OOM'',
      ''	 * killer, not a panic.  Comparing the task struct directly (rather than'',
      ''	 * a per-cpu marker) is also migration-safe: a kthread that migrates'',
      ''	 * between draining pages takes the guard with it.'',
      ''	 */'',
      ''	if (unlikely(kcd->task == current))'',
      ''		goto sync;'',
      [],
      ''	/* Only anonymous pages: a shared page\'s writeback is not ours to'',
      ''	 * defer. */'',
      ''	if (!PageAnon(page))'',
      ''		goto sync;'',
      [],
      ''	/*'',
      ''	 * The swap device must be efficiently written synchronously.  On this'',
      ''	 * branch, this is what keeps the patch from being inert: zram sets'',
      ''	 * SWP_SYNCHRONOUS_IO because mm/swapfile.c:3252 tests'',
      ''	 * p->bdev->bd_disk->fops->rw_page and zram implements .rw_page, so a'',
      ''	 * zram-only Android with no zswap opens the gate right here.  (5.15 has'',
      ''	 * no zswap_is_enabled(), the 6.12 name for the same question; an'',
      ''	 * enabled frontswap backend opens the gate instead.)  A slow or'',
      ''	 * asynchronous device -- network swap, a slow SSD -- falls out: moving'',
      ''	 * the submission to another thread only moves the wait.'',
      ''	 */'',
      ''	if (!frontswap_enabled() &&'',
      ''	    !data_race(page_swap_info(page)->flags & SWP_SYNCHRONOUS_IO))'',
      ''		goto sync;'',
      [],
      ''	/*'',
      ''	 * This module\'s own reclaim policy from Batch 38 (memcg_dying_bailout):'',
      ''	 * no reclaim into a memcg cgroup_rmdir() is tearing down.  It is both'',
      ''	 * stricter and better motivated than the upstream'',
      ''	 * mem_cgroup_zswap_writeback_enabled() gate it replaces -- that symbol'',
      ''	 * does not exist on 5.15 -- and it costs nothing new: page_memcg() and'',
      ''	 * memcg_is_dying() are already reachable through the swap.h include'',
      ''	 * this file has, memcontrol.h included by it.'',
      ''	 *'',
      ''	 * Last, and deliberately: page_memcg() is the only helper in this'',
      ''	 * function with a precondition on the page\'s shape (its'',
      ''	 * VM_BUG_ON_PGFLAGS(PageTail(page), page) is CONFIG_DEBUG_VM_PGFLAGS'',
      ''	 * only, so it would not panic -- it would read the tail page\'s'',
      ''	 * memcg_data as an slub objcg).  Every gate above is shape-agnostic, so'',
      ''	 * running them first means this helper only ever sees a page that'',
      ''	 * survived them.  Cosmetic today -- swap_writepage() is only ever called'',
      ''	 * on a compound head page, so a tail cannot arrive at all.'',
      ''	 */'',
      ''	if (memcg_is_dying(page_memcg(page)))'',
      ''		goto sync;'',
      [],
      ''	offloaded = abk_kcompressd_enqueue(kcd, page);'',
      ''	if (offloaded)'',
      ''		return true;'',
      ''sync:'',
      ''	atomic_long_inc(&abk_kcompressd_sync);'',
      ''	return false;'',
      ''}'',
      [],
      ''/*'',
      '' * abk_kcompressd() - the per-node drain thread.'',
      '' *'',
      '' * PF_MEMALLOC: compressing allocates memory of its own (the crypto/scomp'',
      '' * streams, a bounce page), and being reclaimable from inside the compressor'',
      '' * would have it wait on itself.  PF_KSWAPD: upstream\'s own comment says this'',
      '' * stops i915_gem_shrinker_scan() from crashing the system; the side effect is'',
      '' * that every shrinker then treats kcompressd the way it treats kswapd.'',
      '' *'',
      '' * No throttling, no batching, no cgroup accounting -- a straight FIFO drain,'',
      '' * like upstream.'',
      '' */'',
      ''static int abk_kcompressd(void *p)'',
      ''{'',
      ''    int nid = (int)(long)p;'',
      ''    struct abk_kcompressd_node *kcd = &abk_kcompressd_nodes[nid];'',
      ''    struct page *page;'',
      [],
      ''    current->flags |= PF_MEMALLOC | PF_KSWAPD;'',
      [],
      ''    while (!kthread_should_stop()) {'',
      ''        /*'',
      ''			* kthread_should_stop() is part of the predicate, not just of the'',
      ''			* loop condition, because abk_kcompressd_del_node() calls'',
      ''			* kthread_stop(): kthread_stop() sets the flag and waits for this'',
      ''			* thread to exit, and nothing else will wake it once the FIFO is'',
      ''			* empty.  Upstream 0.5\'s predicate is !kfifo_is_empty() only, so'',
      ''			* kswapd_stop() on a memory-offline node would block on'',
      ''			* kthread_stop() forever with mem_hotplug_lock held in write mode --'',
      ''			* a sysfs write that never returns, and every other hotplug operation'',
      ''			* deadlocked behind it.  (5.15\'s own kswapd gets away with a'',
      ''			* stop-unaware predicate only because wakeup_kswapd() fires on every'',
      ''			* allocation while it sleeps; our thread has no such traffic, so it'',
      ''			* has to be explicit.)'',
      ''         */'',
      ''        wait_event_interruptible(kcd->wait,'',
      ''                     !kfifo_is_empty(&kcd->fifo) ||'',
      ''                     kthread_should_stop());'',
      [],
      ''        /*'',
      ''			* Drain unconditionally, including on the last round.  A queued page'',
      ''			* holds a reference and a live swap slot, and the node being torn down'',
      ''			* is exactly the node those pages belong to: dropping them instead of'',
      ''			* writing them would leave a swap-cache page whose data was never'',
      ''			* written but whose clean bit is already clear, and no code path'',
      ''			* re-dirties such a page on our behalf.'',
      ''         */'',
      ''        while (kfifo_out_locked(&kcd->fifo, &page, sizeof(page),'',
      ''                    &kcd->lock))'',
      ''            abk_kcompressd_do_swapout(page);'',
      ''    }'',
      ''    return 0;'']\<close>

definition b41_ENGINE_src_lines4 :: "str list" where
  \<open>b41_ENGINE_src_lines4 =
     [''}'',
      [],
      ''/*'',
      '' * The knob plus the three counters.  register_sysctl("vm", ...) rather than'',
      '' * an entry in kernel/sysctl.c\'s vm_table[]: that is not a file this module'',
      '' * otherwise touches.  register_sysctl() sits behind CONFIG_SYSCTL, which'',
      '' * fs/proc/Kconfig\'s PROC_SYSCTL selects and which in turn depends only on the'',
      '' * always-on default of PROC_FS; the !CONFIG_SYSCTL fallback is the same inline'',
      '' * stub, so a tree without /proc/sys keeps the compiled-in threshold instead'',
      '' * of failing to build.  proc_doulongvec_minmax() dereferences extra1/extra2'',
      '' * only under a NULL check, so the read-only counters leave them at zero.'',
      '' */'',
      ''static int abk_kcompressd_sysctl_limit = ABK_KCOMPRESS_FIFO_SIZE;'',
      [],
      ''static struct ctl_table abk_kcompressd_sysctl_table[] = {'',
      ''	{'',
      ''		.procname	= "kcompressd",'',
      ''		.data		= &abk_kcompressd_threshold,'',
      ''		.maxlen		= sizeof(int),'',
      ''		.mode		= 0644,'',
      ''		.proc_handler	= proc_dointvec_minmax,'',
      ''		.extra1		= SYSCTL_ZERO,'',
      ''		.extra2		= &abk_kcompressd_sysctl_limit,'',
      ''	},'',
      ''	{'',
      ''		.procname	= "kcompressd_enqueued",'',
      ''		.data		= &abk_kcompressd_enqueued,'',
      ''		.maxlen		= sizeof(unsigned long),'',
      ''		.mode		= 0444,'',
      ''		.proc_handler	= proc_doulongvec_minmax,'',
      ''	},'',
      ''	{'',
      ''		.procname	= "kcompressd_swapped",'',
      ''		.data		= &abk_kcompressd_swapped,'',
      ''		.maxlen		= sizeof(unsigned long),'',
      ''		.mode		= 0444,'',
      ''		.proc_handler	= proc_doulongvec_minmax,'',
      ''	},'',
      ''	{'',
      ''		.procname	= "kcompressd_sync",'',
      ''		.data		= &abk_kcompressd_sync,'',
      ''		.maxlen		= sizeof(unsigned long),'',
      ''		.mode		= 0444,'',
      ''		.proc_handler	= proc_doulongvec_minmax,'',
      ''	},'',
      ''	{ }'',
      ''};'',
      [],
      ''/*'',
      '' * abk_kcompressd_add_node() - bring the node\'s kcompressd up.'',
      '' * @nid: node to serve.'',
      '' *'',
      '' * Both the boot-time initcall and the memory-hotplug notifier land here, so'',
      '' * "how a node gets a thread" has exactly one definition.  Idempotent: the task'',
      '' * pointer is the whole "already up" marker, and a node this cannot serve keeps'',
      '' * its entry NULL, which abk_kcompressd_store() reads as "write synchronously".'',
      '' */'',
      ''static void abk_kcompressd_add_node(int nid)'',
      ''{'',
      ''    struct abk_kcompressd_node *kcd = &abk_kcompressd_nodes[nid];'',
      ''    struct task_struct *task;'',
      ''    int ret;'',
      [],
      ''    /*'',
      ''        * The waitqueue head is zero-initialised in BSS and never "un-made" by'',
      ''        * abk_kcompressd_del_node(), so re-initialising it here is safe (nobody'',
      ''        * can be asleep on it: the only waiter is this node\'s own drain thread,'',
      ''        * which either does not exist yet or has already exited) and makes'',
      ''        * "ready for a thread" explicit.  The spinlock needs no such treatment --'',
      ''        * zero is a valid unlocked arch_spinlock_t and del_node() never'',
      ''        * un-initialises it -- so there is deliberately no spin_lock_init() here.'',
      ''     */'',
      ''    if (!node_online(nid))'',
      ''        return;'',
      ''    init_waitqueue_head(&kcd->wait);'',
      [],
      ''    spin_lock_irq(&kcd->lock);'',
      ''    if (kcd->task) {'',
      ''        spin_unlock_irq(&kcd->lock);'',
      ''        return;                         /* already served */'',
      ''    }'',
      ''    spin_unlock_irq(&kcd->lock);'',
      [],
      ''    ret = kfifo_alloc(&kcd->fifo,'',
      ''              ABK_KCOMPRESS_FIFO_SIZE * sizeof(struct page *),'',
      ''              GFP_KERNEL);'',
      ''    if (ret) {'',
      (''        pr_err("kcompressd: node %d fifo allocation failed (%d), node stays synchronous'' @ [BSL] @ ''n",''),
      ''               nid, ret);'',
      ''        return;'',
      ''    }'',
      [],
      ''    /*'',
      ''        * Re-check after the (sleeping) allocation.  Two concurrent bring-ups'',
      ''        * would otherwise both get past the check above and the loser would'',
      ''        * overwrite kcd->task, leaking its thread while its ring gets freed under'',
      ''        * it.  Memory notifications take mem_hotplug_lock in write mode and the'',
      ''        * boot-time loop runs before the registration, so this is belt-and-braces'',
      ''        * rather than a live race -- but it costs one lock round trip.'',
      ''     */'',
      ''    spin_lock_irq(&kcd->lock);'',
      ''    if (kcd->task) {'',
      ''        spin_unlock_irq(&kcd->lock);'',
      ''        kfifo_free(&kcd->fifo);'',
      ''        return;'',
      ''    }'',
      ''    spin_unlock_irq(&kcd->lock);'',
      [],
      ''    task = kthread_create_on_node(abk_kcompressd, (void *)(long)nid, nid,'',
      ''                      "Sail_kcompd%d", nid);'',
      ''    if (IS_ERR(task)) {'',
      (''        pr_err("kcompressd: node %d failed to start (%ld), node stays synchronous'' @ [BSL] @ ''n",''),
      ''               nid, PTR_ERR(task));'',
      ''        kfifo_free(&kcd->fifo);'',
      ''        return;'',
      ''    }'',
      ''    kcd->task = task;'',
      ''    wake_up_process(task);'',
      ''}'',
      [],
      ''/*'',
      '' * abk_kcompressd_del_node() - tear the node\'s kcompressd down.'',
      '' * @nid: node that just lost its last memory.'',
      '' *'',
      '' * The mirror of upstream\'s kswapd_stop() half, which this module needs because'',
      '' * its thread is not created by kswapd_run()/kswapd_stop().  Without it every'',
      '' * memory-hotplug removal leaks one kthread, one ~2 KiB ring and the task'',
      '' * struct for that node.'',
      '' *'',
      '' * Ordering is the whole problem, so it is spelled out step by step.  Upstream'',
      '' * calls kswapd_stop(node) in offline_pages() *before* memory_notify(MEM_OFFLINE),'',
      '' * so by the time this runs kswapd for the node is already gone and the node is'',
      '' * already out of N_MEMORY (node_states_clear_node()).  That is the only point'',
      '' * at which both of the following hold: no new work can be routed to the node,'',
      '' * and the pages still queued are the node\'s own, still-isolated-in-zone range'']\<close>

definition b41_ENGINE_src_lines5 :: "str list" where
  \<open>b41_ENGINE_src_lines5 =
     ['' * which remove_pfn_range_from_zone() has not touched yet.  Doing this any'',
      '' * earlier -- MEM_GOING_OFFLINE, where the range is being migrated -- would'',
      '' * mean draining pages that the offline path still holds isolated.'',
      '' *'',
      '' * The three steps are also the reason this cannot deadlock against a'',
      '' * concurrent reclaim: NULL the task pointer *under the ring lock*, so a'',
      '' * reclaim page already past the unlocked task read either bails at the new'',
      '' * check inside abk_kcompressd_enqueue() or finished before we took the lock.'',
      '' */'',
      ''static void abk_kcompressd_del_node(int nid)'',
      ''{'',
      ''	struct abk_kcompressd_node *kcd = &abk_kcompressd_nodes[nid];'',
      ''	struct task_struct *task;'',
      ''	struct page *page;'',
      ''	unsigned long flags;'',
      [],
      ''	spin_lock_irqsave(&kcd->lock, flags);'',
      ''	task = kcd->task;'',
      ''	kcd->task = NULL;'',
      ''	spin_unlock_irqrestore(&kcd->lock, flags);'',
      ''	if (!task)'',
      ''		return;'',
      [],
      ''	/*'',
      ''	 * kthread_stop() only *sets* the stop flag and waits for the thread; it'',
      ''	 * does not wake it, and this thread\'s predicate has to include'',
      ''	 * kthread_should_stop() to notice.  Waiting first rather than last also'',
      ''	 * means the ring cannot still be in use when we drain and free it.'',
      ''	 */'',
      ''	wake_up_interruptible(&kcd->wait);'',
      ''	kthread_stop(task);'',
      [],
      ''	/*'',
      ''	 * Anything enqueued between the thread\'s last drain and its exit lands'',
      ''	 * here.  The ring must be empty before it is freed: every entry holds a'',
      ''	 * page reference and a live swap slot, and those pages belong to the'',
      ''	 * node being removed, so dropping rather than writing them would leave'',
      ''	 * swap-cache pages whose data was never written and whose clean bit is'',
      ''	 * already clear.'',
      ''	 */'',
      ''	while (kfifo_out(&kcd->fifo, &page, sizeof(page)))'',
      ''		abk_kcompressd_do_swapout(page);'',
      [],
      ''	kfifo_free(&kcd->fifo);'',
      ''}'',
      [],
      ''/*'',
      '' * abk_kcompressd_memory_notifier() - node bring-up and teardown.'',
      '' *'',
      '' * Registers on the memory notifier chain, which is a *blocking* chain'',
      '' * (drivers/base/memory.c: BLOCKING_NOTIFIER_HEAD(memory_chain)), so both'',
      '' * kthread_create_on_node() and kthread_stop() are allowed to sleep here.  It is'',
      '' * also a real function only under CONFIG_MEMORY_HOTPLUG_SPARSE -- the'',
      '' * !CONFIG_MEMORY_HOTPLUG_SPARSE definition in include/linux/memory.h returns 0'',
      '' * and does not touch the chain -- so a build without hotplug simply never'',
      '' * calls back and keeps the boot-time node set.  gki_defconfig has'',
      '' * CONFIG_MEMORY_HOTPLUG=y and arm64 selects SPARSEMEM, so on this target the'',
      '' * registration is live.'',
      '' *'',
      '' * MEM_ONLINE: pfn_to_nid(arg->start_pfn) rather than arg->status_change_nid,'',
      '' * because online_pages() calls kswapd_run(nid) for *every* block added to a'',
      '' * node, not only the first one, and a notifier that ignored the second and'',
      '' * later blocks would leave a node whose first block arrived before this module'',
      '' * loaded without a thread.  add_node() is idempotent, so covering both costs'',
      '' * nothing.'',
      '' *'',
      '' * MEM_OFFLINE: gated on arg->status_change_nid >= 0 for the same reason'',
      '' * offline_pages() gates kswapd_stop() on it -- that is the condition under'',
      '' * which the node actually became memoryless.'',
      '' */'',
      ''static int abk_kcompressd_memory_notifier(struct notifier_block *nb,'',
      ''					  unsigned long action, void *v)'',
      ''{'',
      ''	struct memory_notify *arg = v;'',
      ''	int nid;'',
      [],
      ''	switch (action) {'',
      ''	case MEM_ONLINE:'',
      ''		nid = pfn_to_nid(arg->start_pfn);'',
      ''		if (nid >= 0 && nid < MAX_NUMNODES)'',
      ''			abk_kcompressd_add_node(nid);'',
      ''		break;'',
      ''	case MEM_OFFLINE:'',
      ''		if (arg->status_change_nid < 0)'',
      ''			break;'',
      ''		nid = arg->status_change_nid;'',
      ''		if (nid >= 0 && nid < MAX_NUMNODES)'',
      ''			abk_kcompressd_del_node(nid);'',
      ''		break;'',
      ''	}'',
      ''	return NOTIFY_OK;'',
      ''}'',
      [],
      ''static struct notifier_block abk_kcompressd_memory_nb = {'',
      ''	.notifier_call = abk_kcompressd_memory_notifier,'',
      ''};'',
      [],
      ''static int __init abk_kcompressd_init(void)'',
      ''{'',
      ''	struct ctl_table_header *header;'',
      ''	int nid;'',
      [],
      ''	/*'',
      ''	 * Fail closed.  /proc/sys/vm/kcompressd is the *only* way to switch'',
      ''	 * this off (vm.kcompressd=0) or to watch it (the three counters), and'',
      ''	 * register_sysctl() returns NULL in its !CONFIG_SYSCTL inline-stub'',
      ''	 * form.  Running the offload with no knob and no counters would leave an'',
      ''	 * operator with no handle on it, so a tree without /proc/sys gets no'',
      ''	 * threads instead -- the same end state as upstream, whose whole'',
      ''	 * vm_table[] entry (and vm_kcompressd) is inside kernel/sysctl.c and'',
      ''	 * simply does not exist there.'',
      ''	 *'',
      ''	 * kthreadd is PID 2, long before any initcall, and /proc/sys exists from'',
      ''	 * do_pre_smp_initcalls(), so both the register_sysctl() below and the'',
      ''	 * kthread_create_on_node() under it work at this level.'',
      ''	 */'',
      ''	header = register_sysctl("vm", abk_kcompressd_sysctl_table);'',
      ''	if (!header) {'',
      (''		pr_err("kcompressd: cannot register /proc/sys/vm/kcompressd, offload disabled'' @ [BSL] @ ''n");''),
      ''		return 0;'',
      ''	}'',
      [],
      ''	for (nid = 0; nid < MAX_NUMNODES; nid++)'',
      ''		if (node_online(nid))'',
      ''			abk_kcompressd_add_node(nid);'',
      [],
      ''	/*'',
      ''	 * Node lifecycle after this is the notifier\'s job: MEM_ONLINE brings a'',
      ''	 * hot-plugged node\'s thread up, MEM_OFFLINE tears it down again.  Both'',
      ''	 * are no-ops (or unreachable) on a build without'',
      ''	 * CONFIG_MEMORY_HOTPLUG_SPARSE, in which case the loop above covers'',
      ''	 * everything the system will ever have.'',
      ''	 */'',
      ''	register_memory_notifier(&abk_kcompressd_memory_nb);'',
      []]\<close>

definition b41_ENGINE_src_lines6 :: "str list" where
  \<open>b41_ENGINE_src_lines6 =
     [''	pr_info("kcompressd: swap-out compression offload ready, "'',
      (''		"vm.kcompressd soft limit %d of a %d-entry queue'' @ [BSL] @ ''n",''),
      ''		abk_kcompressd_threshold, ABK_KCOMPRESS_FIFO_SIZE);'',
      ''	return 0;'',
      ''}'',
      ''late_initcall(abk_kcompressd_init);'',
      []]\<close>

definition b41_ENGINE_src :: str where
  \<open>b41_ENGINE_src = block (b41_ENGINE_src_lines1 @ b41_ENGINE_src_lines2 @ b41_ENGINE_src_lines3 @ b41_ENGINE_src_lines4 @ b41_ENGINE_src_lines5 @ b41_ENGINE_src_lines6)\<close>

definition b41_ENGINE :: str where
  \<open>b41_ENGINE = tabs b41_ENGINE_src\<close>

definition b41_SWAPOUT_BODY_MARKER :: str where
  \<open>b41_SWAPOUT_BODY_MARKER = ''@@ABK_KCOMPRESS_SWAPOUT_BODY@@''\<close>

definition b41_ENGINE_ANCHOR_OLD :: str where
  \<open>b41_ENGINE_ANCHOR_OLD = block
     [''int swap_set_page_dirty(struct page *page)'',
      ''{'',
      ''	struct swap_info_struct *sis = page_swap_info(page);'',
      [],
      ''	if (data_race(sis->flags & SWP_FS_OPS)) {'',
      ''		struct address_space *mapping = sis->swap_file->f_mapping;'',
      [],
      ''		VM_BUG_ON_PAGE(!PageSwapCache(page), page);'',
      ''		return mapping->a_ops->set_page_dirty(page);'',
      ''	} else {'',
      ''		return __set_page_dirty_no_writeback(page);'',
      ''	}'',
      ''}'',
      []]\<close>

definition b41_probe_swapout_shape :: "str option io" where
  \<open>b41_probe_swapout_shape = io_try is_oserror (ctx_read b41_PAGE_IO) (\<lambda>e. io_ret None) (\<lambda>t.
     if contains b41_HOOK_PROBE t then io_ret (Some ''hook'')
     else if contains b41_PLAIN_PROBE t then io_ret (Some ''plain'')
     else io_ret None)\<close>

definition b41_swapout_body :: "str option io" where
  \<open>b41_swapout_body = io_bind b41_probe_swapout_shape (\<lambda>shape.
     case shape of None \<Rightarrow> io_ret None
     | Some s \<Rightarrow> io_ret (Some (if s = ''hook'' then b41_HOOK_BODY else b41_PLAIN_BODY)))\<close>

definition b41_build_steps_step1 :: step where
  \<open>b41_build_steps_step1 =
   (b41_PAGE_IO,
    b41_C_INC_OLD,
    b41_C_INC_NEW, True)\<close>

definition b41_build_steps_step2 :: step where
  \<open>b41_build_steps_step2 =
   (b41_PAGE_IO,
    b41_C_OFFLOAD_OLD,
    b41_C_OFFLOAD_NEW, True)\<close>

definition b41_build_steps_step3 :: step where
  \<open>b41_build_steps_step3 =
   (b41_PAGE_IO,
    b41_C_DECL_OLD,
    b41_C_DECL_NEW, True)\<close>

definition b41_engine :: "str \<Rightarrow> str" where
  \<open>b41_engine body = replace_all b41_SWAPOUT_BODY_MARKER (rstrip_nl body) b41_ENGINE @ [NL]\<close>

definition b41_engine_step :: "str \<Rightarrow> step" where
  \<open>b41_engine_step body =
     (b41_PAGE_IO, b41_ENGINE_ANCHOR_OLD, b41_ENGINE_ANCHOR_OLD @ b41_engine body, True)\<close>

definition b41_build_steps :: "str \<Rightarrow> step list" where
  \<open>b41_build_steps body = [b41_build_steps_step1, b41_build_steps_step2, b41_build_steps_step3, b41_engine_step body]\<close>

lemma b41_build_steps_files: "steps_files (b41_build_steps body) = {b41_PAGE_IO}"
  by (simp add: b41_build_steps_def steps_files_fst step_file [OF b41_engine_step_def]
      step_file [OF b41_build_steps_step1_def]
      step_file [OF b41_build_steps_step2_def]
      step_file [OF b41_build_steps_step3_def])

end
