(* ===== verification/Core_Late.thy ===== *)
theory Core_Late
  imports Batch41_Kcompressd
begin

text \<open>
  \<^verbatim>\<open>scripts/abk_stable_core.py\<close>, lines up to 5589: the pte, kcompressd and background read-ahead groups. Anchors, steps and
  group functions stand in source order under the source's names.
\<close>

definition ARM64_PTE_MKWRITE_OLD :: str where
  \<open>ARM64_PTE_MKWRITE_OLD = block
     [''static inline pte_t pte_mkwrite(pte_t pte)'',
      ''{'',
      ''	pte = set_pte_bit(pte, __pgprot(PTE_WRITE));'',
      ''	pte = clear_pte_bit(pte, __pgprot(PTE_RDONLY));'',
      ''	return pte;'',
      ''}'']\<close>

definition ARM64_PTE_MKWRITE_NEW :: str where
  \<open>ARM64_PTE_MKWRITE_NEW = block
     [''static inline pte_t pte_mkwrite(pte_t pte)'',
      ''{'',
      ''	pte = set_pte_bit(pte, __pgprot(PTE_WRITE));'',
      ''	if (pte_sw_dirty(pte))'',
      ''		pte = clear_pte_bit(pte, __pgprot(PTE_RDONLY));'',
      ''	return pte;'',
      ''}'']\<close>

definition arm64_pte_mkwrite_clean_step1 :: step where
  \<open>arm64_pte_mkwrite_clean_step1 =
   (''arch/arm64/include/asm/pgtable.h'',
    ARM64_PTE_MKWRITE_OLD,
    ARM64_PTE_MKWRITE_NEW, True)\<close>

definition arm64_pte_mkwrite_clean_steps :: "step list" where
  \<open>arm64_pte_mkwrite_clean_steps = [arm64_pte_mkwrite_clean_step1]\<close>

definition arm64_pte_mkwrite_clean_apply :: "outcome io" where
  \<open>arm64_pte_mkwrite_clean_apply =
    apply_or_block arm64_pte_mkwrite_clean_steps\<close>

lemma arm64_pte_mkwrite_clean_steps_files: "steps_files arm64_pte_mkwrite_clean_steps = {''arch/arm64/include/asm/pgtable.h''}"
  by (simp add: arm64_pte_mkwrite_clean_steps_def steps_files_fst insert_commute
      step_file [OF arm64_pte_mkwrite_clean_step1_def])

lemma arm64_pte_mkwrite_clean_steps_required: "all_required arm64_pte_mkwrite_clean_steps"
  by (simp add: arm64_pte_mkwrite_clean_steps_def all_required_def
      step_req [OF arm64_pte_mkwrite_clean_step1_def])

lemma arm64_pte_mkwrite_clean_apply_txn: "transactional (\<lambda>_. {''arch/arm64/include/asm/pgtable.h''}) arm64_pte_mkwrite_clean_apply"
  unfolding arm64_pte_mkwrite_clean_apply_def
  by (intro txn_intros safe_intros)
    (simp_all add: is_backup_code BACKUP_SUFFIX_def arm64_pte_mkwrite_clean_steps_files)

definition vm_kcompressd_swapout_apply :: "outcome io" where
  \<open>vm_kcompressd_swapout_apply =
    io_bind b41_swapout_body (\<lambda>body. case body of
      None \<Rightarrow> io_ret (BlockedByShape, ''mm/page_io.c matches neither the 167/178/194 nor the lts shape of swap_writepage()\'s frontswap_store() branch'')
    | Some b \<Rightarrow>
    io_bind (read_or_empty b41_PAGE_IO) (\<lambda>b41_text.
    if contains ''sailboat_kcompressd_wb_pin'' b41_text
    then io_ret (AlreadyPresent, ''kcompressd_writeback_pin already applied on top'')
    else
    apply_or_block (b41_build_steps b)))\<close>

lemma vm_kcompressd_swapout_apply_txn: "transactional (\<lambda>_. {b41_PAGE_IO}) vm_kcompressd_swapout_apply"
  unfolding vm_kcompressd_swapout_apply_def b41_swapout_body_def b41_probe_swapout_shape_def
  by (intro txn_intros safe_intros)
    (simp_all add: is_backup_code BACKUP_SUFFIX_def b41_build_steps_files b41_PAGE_IO_def)

definition BG_RA_ANCHOR :: str where
  \<open>BG_RA_ANCHOR = block
     [''EXPORT_SYMBOL(try_to_release_page);'',
      []]\<close>

definition BG_RA_PAYLOAD :: str where
  \<open>BG_RA_PAYLOAD = block
     [''EXPORT_SYMBOL(try_to_release_page);'',
      [],
      ''/* sailboat_bg_readahead_tune: background readahead suppression from Xiaomi\'s'',
      '' * iorap2 (mi_lb_* family, v3.0.0).  Tasks in the "background" cpuset cgroup'',
      '' * past their launch burst (nvcsw > abk_bg_ra_nvcsw_min) get fault-around and'',
      '' * async mmap readahead skipped, the ondemand cap halved and the read-around'',
      '' * window shrunk, through the four vendor hooks this file already fires.'',
      '' * Knobs: /sys/module/filemap/parameters/abk_bg_ra_{suppress,nvcsw_min}.'',
      '' */'',
      ''#include <linux/cgroup.h>'',
      ''#include <linux/moduleparam.h>'',
      ''#ifdef CONFIG_CPUSETS'',
      ''static int abk_bg_ra_suppress = 1;'',
      ''/* module_param, not core_param: core_param buries knobs under'',
      '' * /sys/module/kernel/parameters/ (r1 boot proved it); same-name form. */'',
      ''module_param(abk_bg_ra_suppress, int, 0644);'',
      ''static int abk_bg_ra_nvcsw_min = 99;'',
      ''module_param(abk_bg_ra_nvcsw_min, int, 0644);'',
      [],
      ''static bool abk_bg_ra_should_suppress_current(void)'',
      ''{'',
      ''	struct cgroup_subsys_state *css;'',
      ''	bool matched;'',
      [],
      ''	if (!READ_ONCE(abk_bg_ra_suppress))'',
      ''		return false;'',
      ''	if (current->nvcsw <= (unsigned long)READ_ONCE(abk_bg_ra_nvcsw_min))'',
      ''		return false;'',
      [],
      ''	rcu_read_lock();'',
      ''	css = task_css(current, cpuset_cgrp_id);'',
      ''	matched = css && css->cgroup && css->cgroup->kn &&'',
      ''		  !strncmp(css->cgroup->kn->name ?: "", "background",'',
      ''			   sizeof("background") - 1);'',
      ''	rcu_read_unlock();'',
      [],
      ''	return matched;'',
      ''}'',
      [],
      ''static void abk_bg_ra_should_fault_around_cb(void *data, struct vm_fault *vmf,'',
      ''					     bool *should_around)'',
      ''{'',
      ''	if (abk_bg_ra_should_suppress_current())'',
      ''		*should_around = false;'',
      ''}'',
      [],
      ''static void abk_bg_ra_skip_async_mmap_readahead_cb(void *data,'',
      ''						   struct vm_fault *vmf,'',
      ''						   struct page *page,'',
      ''						   bool *skip)'',
      ''{'',
      ''	if (abk_bg_ra_should_suppress_current())'',
      ''		*skip = true;'',
      ''}'',
      [],
      ''static void abk_bg_ra_tune_max_page_cb(void *data,'',
      ''				       struct readahead_control *ractl,'',
      ''				       unsigned long *max_page)'',
      ''{'',
      ''	if (abk_bg_ra_should_suppress_current())'',
      ''		*max_page = min_t(unsigned long, *max_page,'',
      ''				  ractl->ra->ra_pages >> 1);'',
      ''}'',
      [],
      ''static void abk_bg_ra_tune_readaround_cb(void *data, unsigned int ra_pages,'',
      ''					 pgoff_t pgoff, pgoff_t *start,'',
      ''					 unsigned int *size,'',
      ''					 unsigned int *async_size)'',
      ''{'',
      ''	if (!abk_bg_ra_should_suppress_current())'',
      ''		return;'',
      ''	*start = max_t(long, 0, pgoff - ra_pages / 4);'',
      ''	*size = ra_pages / 2;'',
      ''	*async_size = ra_pages / 8;'',
      ''}'',
      [],
      ''static int __init abk_bg_ra_tune_init(void)'',
      ''{'',
      ''	register_trace_android_vh_should_fault_around('',
      ''			abk_bg_ra_should_fault_around_cb, NULL);'',
      ''	register_trace_android_vh_do_async_mmap_readahead('',
      ''			abk_bg_ra_skip_async_mmap_readahead_cb, NULL);'',
      ''	register_trace_android_vh_ra_tuning_max_page('',
      ''			abk_bg_ra_tune_max_page_cb, NULL);'',
      ''	register_trace_android_vh_tune_mmap_readaround('',
      ''			abk_bg_ra_tune_readaround_cb, NULL);'',
      ''	return 0;'',
      ''}'',
      ''fs_initcall(abk_bg_ra_tune_init);'',
      ''#endif /* CONFIG_CPUSETS */'',
      []]\<close>

definition bg_readahead_tune_call_sites :: "(path \<times> str) list" where
  \<open>bg_readahead_tune_call_sites =
      [(''mm/filemap.c'', ''trace_android_vh_do_async_mmap_readahead(vmf, page, &skip);''),
       (''mm/filemap.c'', ''trace_android_vh_tune_mmap_readaround(ra->ra_pages, vmf->pgoff,''),
       (''mm/readahead.c'', ''trace_android_vh_ra_tuning_max_page(ractl, &max_pages);''),
       (''mm/memory.c'', ''trace_android_vh_should_fault_around(vmf, &should_around);'')]\<close>

definition bg_readahead_tune_step1 :: step where
  \<open>bg_readahead_tune_step1 =
   (''mm/filemap.c'',
    BG_RA_ANCHOR,
    BG_RA_PAYLOAD, True)\<close>

definition bg_readahead_tune_steps :: "step list" where
  \<open>bg_readahead_tune_steps = [bg_readahead_tune_step1]\<close>

definition bg_readahead_tune_apply :: "outcome io" where
  \<open>bg_readahead_tune_apply =
    io_try is_oserror (io_bind (ctx_read ''mm/filemap.c'') (\<lambda>filemap. io_bind (ctx_read ''mm/readahead.c'') (\<lambda>readahead. io_bind (ctx_read ''mm/memory.c'') (\<lambda>memory. io_ret (filemap, readahead, memory)))))
      (\<lambda>e. io_bind (exc_text e) (\<lambda>msg.
         io_ret (BlockedByShape, ''cannot read hook call-site files: '' @ msg)))
      (\<lambda>(filemap, readahead, memory).
    case find (\<lambda>(rel, needle). \<not> contains needle (if rel = ''mm/filemap.c'' then filemap else if rel = ''mm/readahead.c'' then readahead else memory)) bg_readahead_tune_call_sites of
      Some (rel, needle) \<Rightarrow> io_ret (BlockedByShape, rel @ '' does not call '' @ before_paren needle @ ''; the policy would be registered but never fire'')
    | None \<Rightarrow>
    if \<not> contains ''#include <trace/hooks/mm.h>'' filemap
    then io_ret (BlockedByShape, ''mm/filemap.c does not include <trace/hooks/mm.h>; the payload\'s register_trace_ could not compile'')
    else
    apply_or_block bg_readahead_tune_steps)\<close>

lemma bg_readahead_tune_steps_files: "steps_files bg_readahead_tune_steps = {''mm/filemap.c''}"
  by (simp add: bg_readahead_tune_steps_def steps_files_fst insert_commute
      step_file [OF bg_readahead_tune_step1_def])

lemma bg_readahead_tune_steps_required: "all_required bg_readahead_tune_steps"
  by (simp add: bg_readahead_tune_steps_def all_required_def
      step_req [OF bg_readahead_tune_step1_def])

lemma bg_readahead_tune_apply_txn: "transactional (\<lambda>_. {''mm/filemap.c''}) bg_readahead_tune_apply"
  unfolding bg_readahead_tune_apply_def
  by (intro txn_intros safe_intros)
    (simp_all add: is_backup_code BACKUP_SUFFIX_def bg_readahead_tune_steps_files)

definition BG_LP_ANCHOR :: str where
  \<open>BG_LP_ANCHOR = block
     [''fs_initcall(abk_bg_ra_tune_init);'',
      ''#endif /* CONFIG_CPUSETS */'',
      []]\<close>

definition BG_LP_PAYLOAD_lines1 :: "str list" where
  \<open>BG_LP_PAYLOAD_lines1 =
     [''fs_initcall(abk_bg_ra_tune_init);'',
      ''#endif /* CONFIG_CPUSETS */'',
      [],
      ''/* sailboat_bg_launch_prefetch: launch page-cache recorder and replayer --'',
      '' * the kernel-side rebuild of Xiaomi\'s iorap2 collect/compile/preread loop,'',
      '' * daemon-free.  See the registry comment for the design contract. */'',
      ''#include <linux/cred.h>'',
      ''#include <linux/fs.h>'',
      ''#include <linux/workqueue.h>'',
      [],
      ''#define ABK_LP_SLOTS 4096'',
      ''#define ABK_LP_PAGES 4096	/* 16 MB span per record */'',
      ''#define ABK_LP_PATH 160'',
      [],
      ''struct abk_lp_rec {'',
      ''	bool used;'',
      ''	dev_t dev;'',
      ''	u64 ino;'',
      ''	s64 mtime_sec;'',
      ''	u32 uid;'',
      ''	u32 pathlen;'',
      ''	unsigned long jstamp;	/* last replay/prefetch stamp (cooldown) */'',
      ''	unsigned long touch;	/* LRU recency: last collect that hit us */'',
      ''	DECLARE_BITMAP(pages, ABK_LP_PAGES);'',
      ''	char path[ABK_LP_PATH];'',
      ''};'',
      [],
      ''static struct abk_lp_rec abk_lp_table[ABK_LP_SLOTS];'',
      ''static DEFINE_SPINLOCK(abk_lp_lock);'',
      ''static bool abk_lp_seeded;	/* any record exists (replay fast gate) */'',
      [],
      ''/* Backing stores for the two set-with-side-effect knobs, declared before'',
      '' * abk_lp_prefetch_work() which reads abk_lp_prefetch_uid. */'',
      ''static int abk_lp_record_uid = -1;'',
      ''static int abk_lp_prefetch_uid = -1;'',
      [],
      ''static int abk_lp_enable = 1;'',
      ''module_param(abk_lp_enable, int, 0644);'',
      ''/* at-fault replay is off by default: issuing page_cache_sync_readahead from'',
      '' * the fault/read hook contexts hard-reset the SoC (no panic text); the'',
      '' * supported replay path is the pre-launch kick.  Kept behind the knob for'',
      '' * future forensics. */'',
      ''static int abk_lp_fault_replay;'',
      ''module_param(abk_lp_fault_replay, int, 0644);'',
      ''static int abk_lp_record_ms = 4000;'',
      ''module_param(abk_lp_record_ms, int, 0644);'',
      ''static int abk_lp_young_max = 99;'',
      ''module_param(abk_lp_young_max, int, 0644);'',
      ''static int abk_lp_replay_kb = 2048;'',
      ''module_param(abk_lp_replay_kb, int, 0644);'',
      ''static int abk_lp_kick_kb = 16384;'',
      ''module_param(abk_lp_kick_kb, int, 0644);'',
      ''static int abk_lp_stats_records;'',
      ''module_param(abk_lp_stats_records, int, 0444);'',
      ''static int abk_lp_stats_pages;'',
      ''module_param(abk_lp_stats_pages, int, 0444);'',
      ''static int abk_lp_stats_prefetched;'',
      ''module_param(abk_lp_stats_prefetched, int, 0444);'',
      ''static int abk_lp_stats_kicks;'',
      ''module_param(abk_lp_stats_kicks, int, 0444);'',
      [],
      ''static u32 abk_lp_win_uid = UINT_MAX;	/* no window */'',
      ''static unsigned long abk_lp_win_deadline;'',
      [],
      ''static bool abk_lp_window_open(u32 uid)'',
      ''{'',
      ''	u32 win = READ_ONCE(abk_lp_win_uid);'',
      [],
      ''	return win != UINT_MAX && uid == win &&'',
      ''	       time_after(READ_ONCE(abk_lp_win_deadline), jiffies);'',
      ''}'',
      [],
      ''/* Issue page_cache_sync_readahead() over the set ranges of a record bitmap,'',
      '' * up to budget_pages.  Called sleepable and lock-free on purpose: the'',
      '' * readahead path may allocate and submit IO. */'',
      ''static unsigned long abk_lp_readahead_bits(struct address_space *mapping,'',
      ''					   struct file_ra_state *ra,'',
      ''					   struct file *file,'',
      ''					   const unsigned long *bits,'',
      ''					   unsigned long budget_pages)'',
      ''{'',
      ''	pgoff_t idx = 0, run, n;'',
      [],
      ''	while (idx < ABK_LP_PAGES && budget_pages) {'',
      ''		if (!test_bit(idx, bits)) {'',
      ''			idx++;'',
      ''			continue;'',
      ''		}'',
      ''		run = 0;'',
      ''		while (idx + run < ABK_LP_PAGES && test_bit(idx + run, bits))'',
      ''			run++;'',
      ''		n = min_t(unsigned long, run, budget_pages);'',
      ''		page_cache_sync_readahead(mapping, ra, file, idx, n);'',
      ''		WRITE_ONCE(abk_lp_stats_prefetched,'',
      ''			   abk_lp_stats_prefetched + (int)n);'',
      ''		budget_pages -= n;'',
      ''		idx += run;'',
      ''	}'',
      ''	return budget_pages;'',
      ''}'',
      [],
      ''/* One record: find by key or claim a free (then round-robin) slot, then set'',
      '' * the touched range.  d_path() does not sleep, so the read-path caller may'',
      '' * ask for the path under the spinlock; the map_pages caller never does'',
      '' * (atomic-safe by construction). */'',
      ''static void abk_lp_touch(struct inode *inode, u32 uid, pgoff_t first,'',
      ''			 pgoff_t last, struct file *file, bool want_path)'',
      ''{'',
      ''	struct abk_lp_rec *rec = NULL;'',
      ''	struct abk_lp_rec *victim = NULL;'',
      ''	unsigned long flags;'',
      ''	int i;'',
      [],
      ''	if (unlikely(first >= ABK_LP_PAGES))'',
      ''		return;'',
      ''	if (last >= ABK_LP_PAGES)'',
      ''		last = ABK_LP_PAGES - 1;'',
      ''	if (last < first)'',
      ''		return;'',
      [],
      ''	spin_lock_irqsave(&abk_lp_lock, flags);'',
      ''	for (i = 0; i < ABK_LP_SLOTS; i++) {'',
      ''		struct abk_lp_rec *r = &abk_lp_table[i];'',
      [],
      ''		if (r->used && r->dev == inode->i_sb->s_dev &&'',
      ''		    r->ino == inode->i_ino &&'',
      ''		    r->mtime_sec == inode->i_mtime.tv_sec && r->uid == uid) {'',
      ''			rec = r;'',
      ''			break;'',
      ''		}'',
      ''	}'',
      ''	if (!rec) {'',
      ''		/* Shared-file skip: framework jars/libs/apex are touched by'',
      ''		 * every app.  If another uid already recorded this exact'',
      ''		 * (dev, ino, mtime), the pages are shared cache owned by the'']\<close>

definition BG_LP_PAYLOAD_lines2 :: "str list" where
  \<open>BG_LP_PAYLOAD_lines2 =
     [''		 * first recorder -- skip, or one cold launch (~600 records)'',
      ''		 * churns the whole table.  A file update changes i_mtime and'',
      ''		 * gets recorded fresh. */'',
      ''		for (i = 0; i < ABK_LP_SLOTS; i++) {'',
      ''			struct abk_lp_rec *r = &abk_lp_table[i];'',
      [],
      ''			if (r->used && r->dev == inode->i_sb->s_dev &&'',
      ''			    r->ino == inode->i_ino &&'',
      ''			    r->mtime_sec == inode->i_mtime.tv_sec) {'',
      ''				spin_unlock_irqrestore(&abk_lp_lock, flags);'',
      ''				return;'',
      ''			}'',
      ''		}'',
      (''		/* LRU eviction so a hot app\'s records survive other apps'' @ [QUO]),
      ''		 * collection (round-robin churned exactly those). */'',
      ''		for (i = 0; i < ABK_LP_SLOTS; i++) {'',
      ''			struct abk_lp_rec *r = &abk_lp_table[i];'',
      [],
      ''			if (!r->used) {'',
      ''				victim = r;'',
      ''				break;'',
      ''			}'',
      ''			if (!victim || time_before(r->touch, victim->touch))'',
      ''				victim = r;'',
      ''		}'',
      ''		rec = victim;'',
      ''		rec->used = true;'',
      ''		rec->dev = inode->i_sb->s_dev;'',
      ''		rec->ino = inode->i_ino;'',
      ''		rec->mtime_sec = inode->i_mtime.tv_sec;'',
      ''		rec->uid = uid;'',
      ''		rec->pathlen = 0;'',
      ''		rec->jstamp = 0;'',
      ''		rec->touch = jiffies;'',
      ''		bitmap_zero(rec->pages, ABK_LP_PAGES);'',
      ''		WRITE_ONCE(abk_lp_seeded, true);'',
      ''		WRITE_ONCE(abk_lp_stats_records, abk_lp_stats_records + 1);'',
      ''	}'',
      ''	rec->touch = jiffies;'',
      ''	bitmap_set(rec->pages, first, last - first + 1);'',
      ''	WRITE_ONCE(abk_lp_stats_pages, abk_lp_stats_pages + 1);'',
      ''	if (want_path && file && rec->pathlen == 0) {'',
      ''		char *p = d_path(&file->f_path, rec->path, ABK_LP_PATH);'',
      [],
      ''		if (!IS_ERR(p)) {'',
      ''			rec->pathlen = strlen(p);'',
      ''			memmove(rec->path, p, rec->pathlen + 1);'',
      ''		}'',
      ''	}'',
      ''	spin_unlock_irqrestore(&abk_lp_lock, flags);'',
      ''}'',
      [],
      ''/* Consume a record for this file, if the current task looks like a launch'',
      '' * burst (young) and the record is off cooldown.  Runs from the'',
      '' * should_fault_around hook and the filemap_read hook; both call sites are'',
      '' * process context with no spinlocks held, so the readahead itself runs'',
      '' * outside abk_lp_lock on a stack copy of the bitmap. */'',
      ''static void abk_lp_replay(struct file *file)'',
      ''{'',
      ''	struct inode *host;'',
      ''	struct abk_lp_rec *rec = NULL;'',
      ''	unsigned long bits[ABK_LP_PAGES / BITS_PER_LONG];'',
      ''	unsigned long flags, budget;'',
      ''	u32 uid = current_uid().val;'',
      ''	int i;'',
      [],
      ''	if (!READ_ONCE(abk_lp_enable) || !file)'',
      ''		return;'',
      ''	if (current->nvcsw >= (unsigned long)READ_ONCE(abk_lp_young_max))'',
      ''		return;'',
      ''	if (!READ_ONCE(abk_lp_seeded))'',
      ''		return;'',
      ''	if (!file->f_mapping || !file->f_mapping->host)'',
      ''		return;'',
      ''	host = file->f_mapping->host;'',
      [],
      ''	spin_lock_irqsave(&abk_lp_lock, flags);'',
      ''	for (i = 0; i < ABK_LP_SLOTS; i++) {'',
      ''		struct abk_lp_rec *r = &abk_lp_table[i];'',
      [],
      ''		if (r->used && r->uid == uid && r->dev == host->i_sb->s_dev &&'',
      ''		    r->ino == host->i_ino &&'',
      ''		    r->mtime_sec == host->i_mtime.tv_sec) {'',
      ''			rec = r;'',
      ''			break;'',
      ''		}'',
      ''	}'',
      ''	if (!rec) {'',
      ''		spin_unlock_irqrestore(&abk_lp_lock, flags);'',
      ''		return;'',
      ''	}'',
      ''	if (rec->jstamp && time_before(jiffies, rec->jstamp + 2 *'',
      ''			msecs_to_jiffies(READ_ONCE(abk_lp_record_ms)))) {'',
      ''		spin_unlock_irqrestore(&abk_lp_lock, flags);'',
      ''		return;'',
      ''	}'',
      ''	rec->jstamp = jiffies;'',
      ''	memcpy(bits, rec->pages, sizeof(bits));'',
      ''	spin_unlock_irqrestore(&abk_lp_lock, flags);'',
      [],
      ''	budget = (unsigned long)READ_ONCE(abk_lp_replay_kb) >> 2;'',
      ''	abk_lp_readahead_bits(file->f_mapping, &file->f_ra, file, bits, budget);'',
      ''}'',
      [],
      ''/* Pre-launch kick: reopen each recorded path of the requested UID and'',
      '' * prefetch its recorded ranges before the app starts.  Runs on a workqueue'',
      '' * (fully sleepable); verifies the reopened inode still matches the record'',
      '' * key, so a replaced file is skipped rather than prefetched stale. */'',
      ''static void abk_lp_prefetch_work(struct work_struct *work)'',
      ''{'',
      ''	unsigned long bits[ABK_LP_PAGES / BITS_PER_LONG];'',
      ''	unsigned long flags;'',
      ''	char path[ABK_LP_PATH];'',
      ''	dev_t dev;'',
      ''	u64 ino;'',
      ''	s64 mtime;'',
      ''	int uid, i;'',
      [],
      ''	uid = READ_ONCE(abk_lp_prefetch_uid);'',
      ''	if (uid < 0)'',
      ''		return;'',
      ''	for (i = 0; i < ABK_LP_SLOTS; i++) {'',
      ''		struct abk_lp_rec *r = &abk_lp_table[i];'',
      ''		struct file *f;'',
      ''		unsigned long budget;'',
      [],
      ''		spin_lock_irqsave(&abk_lp_lock, flags);'',
      ''		if (!r->used || r->uid != (u32)uid || !r->pathlen) {'',
      ''			spin_unlock_irqrestore(&abk_lp_lock, flags);'',
      ''			continue;'',
      ''		}'',
      ''		dev = r->dev;'',
      ''		ino = r->ino;'',
      ''		mtime = r->mtime_sec;'',
      ''		memcpy(bits, r->pages, sizeof(bits));'']\<close>

definition BG_LP_PAYLOAD_lines3 :: "str list" where
  \<open>BG_LP_PAYLOAD_lines3 =
     [''		memcpy(path, r->path, r->pathlen + 1);'',
      ''		spin_unlock_irqrestore(&abk_lp_lock, flags);'',
      [],
      ''		f = filp_open(path, O_RDONLY | O_LARGEFILE, 0);'',
      ''		if (IS_ERR(f))'',
      ''			continue;'',
      ''		if (!f->f_mapping || !f->f_mapping->host ||'',
      ''		    f->f_mapping->host->i_sb->s_dev != dev ||'',
      ''		    f->f_mapping->host->i_ino != ino ||'',
      ''		    f->f_mapping->host->i_mtime.tv_sec != mtime) {'',
      ''			filp_close(f, NULL);'',
      ''			continue;'',
      ''		}'',
      ''		budget = (unsigned long)READ_ONCE(abk_lp_kick_kb) >> 2;'',
      ''		abk_lp_readahead_bits(f->f_mapping, &f->f_ra, f, bits, budget);'',
      ''		filp_close(f, NULL);'',
      ''		WRITE_ONCE(abk_lp_stats_kicks, abk_lp_stats_kicks + 1);'',
      ''	}'',
      ''}'',
      ''static DECLARE_WORK(abk_lp_kick, abk_lp_prefetch_work);'',
      [],
      ''static int abk_lp_record_uid_set(const char *val, const struct kernel_param *kp)'',
      ''{'',
      ''	int i, ret;'',
      [],
      ''	/* param_set_int, not kstrtouint: the sysfs write carries a trailing'',
      ''	 * newline the standard setter tolerates (a bare kstrtouint rejected'',
      ''	 * "10274'',
      ''" and the window never opened).  Negative closes it. */'',
      ''	ret = param_set_int(val, kp);'',
      ''	if (ret)'',
      ''		return ret;'',
      ''	if (*(int *)kp->arg < 0)'',
      ''		return 0;'',
      ''	spin_lock(&abk_lp_lock);'',
      ''	WRITE_ONCE(abk_lp_win_uid, (u32)*(int *)kp->arg);'',
      ''	WRITE_ONCE(abk_lp_win_deadline,'',
      ''		   jiffies + msecs_to_jiffies(READ_ONCE(abk_lp_record_ms)));'',
      ''	for (i = 0; i < ABK_LP_SLOTS; i++)'',
      ''		if (abk_lp_table[i].used && abk_lp_table[i].uid =='',
      ''						   (u32)*(int *)kp->arg)'',
      ''			abk_lp_table[i].jstamp = 0;'',
      ''	spin_unlock(&abk_lp_lock);'',
      ''	return 0;'',
      ''}'',
      [],
      ''static int abk_lp_prefetch_uid_set(const char *val,'',
      ''				   const struct kernel_param *kp)'',
      ''{'',
      ''	int ret;'',
      [],
      ''	ret = param_set_int(val, kp);'',
      ''	if (ret)'',
      ''		return ret;'',
      ''	queue_work(system_long_wq, &abk_lp_kick);'',
      ''	return 0;'',
      ''}'',
      [],
      ''module_param_call(abk_lp_record_uid, abk_lp_record_uid_set, &param_get_int,'',
      ''		  &abk_lp_record_uid, 0644);'',
      ''module_param_call(abk_lp_prefetch_uid, abk_lp_prefetch_uid_set, &param_get_int,'',
      ''		  &abk_lp_prefetch_uid, 0644);'',
      [],
      ''static void abk_lp_read_cb(void *data, struct file *file, loff_t pos,'',
      ''			   size_t size)'',
      ''{'',
      ''	u32 uid = current_uid().val;'',
      [],
      ''	if (!READ_ONCE(abk_lp_enable) || !file)'',
      ''		return;'',
      ''	if (READ_ONCE(abk_lp_fault_replay))'',
      ''		abk_lp_replay(file);'',
      ''	if (size == 0)'',
      ''		return;'',
      ''	if (!abk_lp_window_open(uid))'',
      ''		return;'',
      ''	if (!file->f_mapping || !file->f_mapping->host)'',
      ''		return;'',
      ''	abk_lp_touch(file->f_mapping->host, uid, pos >> PAGE_SHIFT,'',
      ''		     ((u64)pos + size - 1) >> PAGE_SHIFT, file, true);'',
      ''}'',
      [],
      ''static void abk_lp_map_cb(void *data, struct file *file, pgoff_t first_pgoff,'',
      ''			  pgoff_t last_pgoff, vm_fault_t ret)'',
      ''{'',
      ''	u32 uid = current_uid().val;'',
      [],
      ''	if (!READ_ONCE(abk_lp_enable) || !file)'',
      ''		return;'',
      ''	if (!abk_lp_window_open(uid))'',
      ''		return;'',
      ''	if (!file->f_mapping || !file->f_mapping->host)'',
      ''		return;'',
      ''	/* want_path=true: heavy apps fault code in through map_pages, not'',
      ''	 * read(), so a pathless record gives the kick\'s filp_open() nothing'',
      ''	 * to reopen (QQ measured prefetched=0).  Call site is after'',
      ''	 * pte_unmap_unlock(), process context; d_path() does not sleep. */'',
      ''	abk_lp_touch(file->f_mapping->host, uid, first_pgoff, last_pgoff,'',
      ''		     file, true);'',
      ''}'',
      [],
      ''static void abk_lp_fault_replay_cb(void *data, struct vm_fault *vmf,'',
      ''				   bool *should_around)'',
      ''{'',
      ''	if (!vmf || !vmf->vma || !vmf->vma->vm_file)'',
      ''		return;'',
      ''	if (!READ_ONCE(abk_lp_fault_replay))'',
      ''		return;'',
      ''	abk_lp_replay(vmf->vma->vm_file);'',
      ''}'',
      [],
      ''static int __init abk_lp_init(void)'',
      ''{'',
      ''	int ret;'',
      [],
      ''	ret = register_trace_android_vh_filemap_read(abk_lp_read_cb, NULL);'',
      ''	if (ret)'',
      ''		return ret;'',
      ''	ret = register_trace_android_vh_filemap_map_pages(abk_lp_map_cb, NULL);'',
      ''	if (ret)'',
      ''		goto unreg_read;'',
      ''	ret = register_trace_android_vh_should_fault_around('',
      ''			abk_lp_fault_replay_cb, NULL);'',
      ''	if (ret)'',
      ''		goto unreg_map;'',
      ''	return 0;'',
      [],
      ''unreg_map:'',
      ''	unregister_trace_android_vh_filemap_map_pages(abk_lp_map_cb, NULL);'',
      ''unreg_read:'',
      ''	unregister_trace_android_vh_filemap_read(abk_lp_read_cb, NULL);'',
      ''	return ret;'',
      ''}'',
      ''fs_initcall(abk_lp_init);'',
      []]\<close>

definition BG_LP_PAYLOAD :: str where
  \<open>BG_LP_PAYLOAD = block (BG_LP_PAYLOAD_lines1 @ BG_LP_PAYLOAD_lines2 @ BG_LP_PAYLOAD_lines3)\<close>

definition bg_launch_prefetch_call_sites :: "(path \<times> str) list" where
  \<open>bg_launch_prefetch_call_sites =
      [(''mm/filemap.c'', ''trace_android_vh_filemap_read(filp, iocb->ki_pos, iov_iter_count(iter));''),
       (''mm/filemap.c'', ''trace_android_vh_filemap_map_pages(file, first_pgoff, last_pgoff, ret);''),
       (''mm/memory.c'', ''trace_android_vh_should_fault_around(vmf, &should_around);'')]\<close>

definition bg_launch_prefetch_step1 :: step where
  \<open>bg_launch_prefetch_step1 =
   (''mm/filemap.c'',
    BG_LP_ANCHOR,
    BG_LP_PAYLOAD, True)\<close>

definition bg_launch_prefetch_steps :: "step list" where
  \<open>bg_launch_prefetch_steps = [bg_launch_prefetch_step1]\<close>

definition bg_launch_prefetch_apply :: "outcome io" where
  \<open>bg_launch_prefetch_apply =
    io_try is_oserror (io_bind (ctx_read ''mm/filemap.c'') (\<lambda>filemap. io_bind (ctx_read ''mm/memory.c'') (\<lambda>memory. io_ret (filemap, memory))))
      (\<lambda>e. io_bind (exc_text e) (\<lambda>msg.
         io_ret (BlockedByShape, ''cannot read hook call-site files: '' @ msg)))
      (\<lambda>(filemap, memory).
    case find (\<lambda>(rel, needle). \<not> contains needle (if rel = ''mm/filemap.c'' then filemap else memory)) bg_launch_prefetch_call_sites of
      Some (rel, needle) \<Rightarrow> io_ret (BlockedByShape, rel @ '' does not call '' @ before_paren needle @ ''; the recorder would be registered but never collect'')
    | None \<Rightarrow>
    apply_or_block bg_launch_prefetch_steps)\<close>

lemma bg_launch_prefetch_steps_files: "steps_files bg_launch_prefetch_steps = {''mm/filemap.c''}"
  by (simp add: bg_launch_prefetch_steps_def steps_files_fst insert_commute
      step_file [OF bg_launch_prefetch_step1_def])

lemma bg_launch_prefetch_steps_required: "all_required bg_launch_prefetch_steps"
  by (simp add: bg_launch_prefetch_steps_def all_required_def
      step_req [OF bg_launch_prefetch_step1_def])

lemma bg_launch_prefetch_apply_txn: "transactional (\<lambda>_. {''mm/filemap.c''}) bg_launch_prefetch_apply"
  unfolding bg_launch_prefetch_apply_def
  by (intro txn_intros safe_intros)
    (simp_all add: is_backup_code BACKUP_SUFFIX_def bg_launch_prefetch_steps_files)

end
