(* ===== verification/Batch14_Zram_Writeback.thy ===== *)
theory Batch14_Zram_Writeback
  imports Registry_Laws
begin

text \<open>
  The anchors, steps and groups of \<^verbatim>\<open>scripts/batch14_core_zram_writeback.py\<close>, in source order.
\<close>

definition b14_ZRAM_C :: str where
  \<open>b14_ZRAM_C = ''drivers/block/zram/zram_drv.c''\<close>

definition b14_A_META_FREE :: str where
  \<open>b14_A_META_FREE = block
     [''	size_t num_pages = disksize >> PAGE_SHIFT;'',
      ''	size_t index;'',
      [],
      ''	/* Free all pages that are still in this zram device */'']\<close>

definition b14_A_META_FREE_NEW :: str where
  \<open>b14_A_META_FREE_NEW = block
     [''	size_t num_pages = disksize >> PAGE_SHIFT;'',
      ''	size_t index;'',
      [],
      ''	/*'',
      ''	 * ABK stable_515_backport: 74363ec674cb.  zram_remove() now calls'',
      ''	 * reset_bdev() directly (see _A_REMOVE below), so this function can be'',
      ''	 * entered for a device that never reached `disksize`: both the table and'',
      ''	 * the pool can be NULL here.  zs_destroy_pool() dereferences'',
      ''	 * pool->size_class[], hence the guard is load-bearing.'',
      ''	 */'',
      ''	if (!zram->table)'',
      ''		return;'',
      [],
      ''	/* Free all pages that are still in this zram device */'']\<close>

definition b14_A_VFREE :: str where
  \<open>b14_A_VFREE = block
     [''	zs_destroy_pool(zram->mem_pool);'',
      ''	vfree(zram->table);'',
      ''}'']\<close>

definition b14_A_VFREE_NEW :: str where
  \<open>b14_A_VFREE_NEW = block
     [''	zs_destroy_pool(zram->mem_pool);'',
      ''	vfree(zram->table);'',
      ''	/* ABK stable_515_backport: 74363ec674cb -- keep the NULL check above'',
      ''	 * meaningful on a second reset of the same struct. */'',
      ''	zram->table = NULL;'',
      ''}'']\<close>

definition b14_A_REMOVE :: str where
  \<open>b14_A_REMOVE = block
     [''	/* Make sure all the pending I/O are finished */'',
      ''	fsync_bdev(bdev);'',
      ''	zram_reset_device(zram);'',
      [],
      (''	pr_info("Removed device: %s'' @ [BSL] @ ''n", zram->disk->disk_name);'')]\<close>

definition b14_A_REMOVE_NEW :: str where
  \<open>b14_A_REMOVE_NEW = block
     [''	/* Make sure all the pending I/O are finished */'',
      ''	fsync_bdev(bdev);'',
      ''	zram_reset_device(zram);'',
      ''	/*'',
      ''	 * ABK stable_515_backport: 74363ec674cb.  zram_reset_device() returns'',
      ''	 * early on a device that never reached `disksize`, and that early return'',
      ''	 * skips reset_bdev() -- so a backing device attached in the pre-disksize'',
      ''	 * window (the ROM and the runtime companion both do that) kept the'',
      ''	 * exclusive blkdev holder and the struct file until the module was'',
      ''	 * unloaded, pinning the backing block device.  reset_bdev() is a no-op'',
      ''	 * once the device is already detached (and an inline no-op entirely when'',
      ''	 * CONFIG_ZRAM_WRITEBACK is off, via the stub below), so calling it here'',
      ''	 * unconditionally is safe.  backing_dev_store() calls it again before it'',
      ''	 * installs a new backing device, so a later re-attach still starts from a'',
      ''	 * clean state.'',
      ''	 */'',
      ''	reset_bdev(zram);'',
      [],
      (''	pr_info("Removed device: %s'' @ [BSL] @ ''n", zram->disk->disk_name);'')]\<close>

definition b14_B_DECL :: str where
  \<open>b14_B_DECL = block
     [''	unsigned long nr_pages = zram->disksize >> PAGE_SHIFT;'',
      ''	unsigned long index = 0;'']\<close>

definition b14_B_DECL_NEW :: str where
  \<open>b14_B_DECL_NEW = block
     [''	/*'',
      ''	 * ABK stable_515_backport: 894913e2d35c.  disksize is written under'',
      ''	 * init_lock (zram_reset_device), so nr_pages must be derived under the'',
      ''	 * read lock as well: a reset that re-initialises a smaller disksize'',
      ''	 * between this point and the scan would leave the bound describing the'',
      ''	 * freed table and the loop would index past the new one.'',
      ''	 */'',
      ''	unsigned long nr_pages;'',
      ''	unsigned long index = 0;'']\<close>

definition b14_B_PARSE :: str where
  \<open>b14_B_PARSE = block
     [''		if (kstrtol(buf + sizeof(PAGE_WB_SIG) - 1, 10, &index) ||'',
      ''				index >= nr_pages)'',
      ''			return -EINVAL;'']\<close>

definition b14_B_PARSE_NEW :: str where
  \<open>b14_B_PARSE_NEW = block
     [''		if (kstrtol(buf + sizeof(PAGE_WB_SIG) - 1, 10, &index))'',
      ''			return -EINVAL;'']\<close>

definition b14_B_POSTLOCK :: str where
  \<open>b14_B_POSTLOCK = block
     [''	if (!zram->backing_dev) {'',
      ''		ret = -ENODEV;'',
      ''		goto release_init_lock;'',
      ''	}'']\<close>

definition b14_B_POSTLOCK_NEW :: str where
  \<open>b14_B_POSTLOCK_NEW = block
     [''	if (!zram->backing_dev) {'',
      ''		ret = -ENODEV;'',
      ''		goto release_init_lock;'',
      ''	}'',
      [],
      ''	/* ABK stable_515_backport: 894913e2d35c -- bound and range check'',
      ''	 * under the read lock, so they stay consistent with zram->table. */'',
      ''	nr_pages = zram->disksize >> PAGE_SHIFT;'',
      ''	if (index >= nr_pages) {'',
      ''		ret = -EINVAL;'',
      ''		goto release_init_lock;'',
      ''	}'',
      ''	/*'',
      ''	 * ABK fix.  The derivation above is unconditional, but the sweep'',
      ''	 * loop below counts *iterations* from `index` -- it is'',
      ''	 * ``for (; nr_pages != 0; index++, nr_pages--)``, so the bound is a'',
      ''	 * count, not an upper limit on `index`.  PAGE_WRITEBACK therefore'',
      ''	 * needs its single-iteration bound to survive this point: the'',
      ''	 * parse sets nr_pages = 1 for it, and overwriting that with the'',
      ''	 * device size makes ``page_index=N`` walk index up to'',
      ''	 * N + nr_pages - 1, past zram->table[nr_pages - 1].'',
      ''	 *'',
      ''	 * Measured on vermeer / 5.15.216 (2026-09-15): on a 16 GiB device'',
      ''	 * (nr_pages = 4194304, 24-byte zram_table_entry) `page_index=1`'',
      ''	 * reached index 4194304 and faulted in zram_slot_lock() --'',
      ''	 * ``&zram->table[4194304].flags`` is 8 bytes past the kvcalloc\'d'',
      ''	 * 100663296-byte table, a level 3 translation fault that panics'',
      ''	 * the kernel (x1 == 0x400000 in the register dump).  `page_index=0`'',
      ''	 * did not fault -- it stopped exactly on the last valid slot -- but'',
      ''	 * silently swept the whole device instead of one page.'',
      ''	 *'',
      ''	 * The range check above cannot catch this: it validates only the'',
      ''	 * starting index, not start + count.'',
      ''	 */'',
      ''	if (mode == PAGE_WRITEBACK)'',
      ''		nr_pages = 1;'']\<close>

definition b14_B_LOOP_TAIL :: str where
  \<open>b14_B_LOOP_TAIL = block
     [''next:'',
      ''		zram_slot_unlock(zram, index);'',
      ''	}'',
      [],
      ''	if (blk_idx)'']\<close>

definition b14_B_LOOP_TAIL_NEW :: str where
  \<open>b14_B_LOOP_TAIL_NEW = block
     [''next:'',
      ''		zram_slot_unlock(zram, index);'',
      ''		/*'',
      ''		 * ABK stable_515_backport: 424d0e5828ad.  A sweep can walk every'',
      ''		 * slot of a multi-GiB disk, each one with an alloc_page(), a'',
      ''		 * decompression and a blocking wait for in-flight writeback bios'',
      ''		 * while holding init_lock.  Yield so a reset/disksize store'',
      ''		 * waiting on the write lock (and the RCU/watchdog machinery) is'',
      ''		 * not starved.'',
      ''		 */'',
      ''		cond_resched();'',
      ''	}'',
      [],
      ''	if (blk_idx)'']\<close>

definition b14_C_LIMIT_STORE :: str where
  \<open>b14_C_LIMIT_STORE = block
     [''	if (kstrtoull(buf, 10, &val))'',
      ''		return ret;'',
      [],
      ''	down_read(&zram->init_lock);'',
      ''	spin_lock(&zram->wb_limit_lock);'',
      ''	zram->bd_wb_limit = val;'']\<close>

definition b14_C_LIMIT_STORE_NEW :: str where
  \<open>b14_C_LIMIT_STORE_NEW = block
     [''	if (kstrtoull(buf, 10, &val))'',
      ''		return ret;'',
      [],
      ''	/*'',
      ''	 * ABK stable_515_backport: mainline writeback_limit_store() alignment'',
      ''	 * guard.  A page costs \'1 << (PAGE_SHIFT - 12)\' units, so on a'',
      ''	 * PAGE_SIZE > 4KiB build a budget smaller than one page underflows the'',
      ''	 * u64 on the first successful writeback (3 -> -1) and the wear cap'',
      ''	 * silently stops capping.  Round the budget down to a whole page.'',
      ''	 */'',
      ''	val = rounddown(val, PAGE_SIZE / 4096);'',
      [],
      ''	down_read(&zram->init_lock);'',
      ''	spin_lock(&zram->wb_limit_lock);'',
      ''	zram->bd_wb_limit = val;'']\<close>

definition b14_build_teardown_steps_step1 :: step where
  \<open>b14_build_teardown_steps_step1 =
   (b14_ZRAM_C,
    b14_A_META_FREE,
    b14_A_META_FREE_NEW, True)\<close>

definition b14_build_teardown_steps_step2 :: step where
  \<open>b14_build_teardown_steps_step2 =
   (b14_ZRAM_C,
    b14_A_VFREE,
    b14_A_VFREE_NEW, True)\<close>

definition b14_build_teardown_steps_step3 :: step where
  \<open>b14_build_teardown_steps_step3 =
   (b14_ZRAM_C,
    b14_A_REMOVE,
    b14_A_REMOVE_NEW, True)\<close>

definition b14_build_teardown_steps :: "step list" where
  \<open>b14_build_teardown_steps = [b14_build_teardown_steps_step1, b14_build_teardown_steps_step2, b14_build_teardown_steps_step3]\<close>

lemma b14_build_teardown_steps_files: "steps_files b14_build_teardown_steps = {b14_ZRAM_C}"
  by (simp add: b14_build_teardown_steps_def steps_files_fst insert_commute
      step_file [OF b14_build_teardown_steps_step1_def]
      step_file [OF b14_build_teardown_steps_step2_def]
      step_file [OF b14_build_teardown_steps_step3_def])

lemma b14_build_teardown_steps_required: "all_required b14_build_teardown_steps"
  by (simp add: b14_build_teardown_steps_def all_required_def
      step_req [OF b14_build_teardown_steps_step1_def]
      step_req [OF b14_build_teardown_steps_step2_def]
      step_req [OF b14_build_teardown_steps_step3_def])

definition b14_build_writeback_bounds_steps_step1 :: step where
  \<open>b14_build_writeback_bounds_steps_step1 =
   (b14_ZRAM_C,
    b14_B_DECL,
    b14_B_DECL_NEW, True)\<close>

definition b14_build_writeback_bounds_steps_step2 :: step where
  \<open>b14_build_writeback_bounds_steps_step2 =
   (b14_ZRAM_C,
    b14_B_PARSE,
    b14_B_PARSE_NEW, True)\<close>

definition b14_build_writeback_bounds_steps_step3 :: step where
  \<open>b14_build_writeback_bounds_steps_step3 =
   (b14_ZRAM_C,
    b14_B_POSTLOCK,
    b14_B_POSTLOCK_NEW, True)\<close>

definition b14_build_writeback_bounds_steps_step4 :: step where
  \<open>b14_build_writeback_bounds_steps_step4 =
   (b14_ZRAM_C,
    b14_B_LOOP_TAIL,
    b14_B_LOOP_TAIL_NEW, True)\<close>

definition b14_build_writeback_bounds_steps :: "step list" where
  \<open>b14_build_writeback_bounds_steps = [b14_build_writeback_bounds_steps_step1, b14_build_writeback_bounds_steps_step2, b14_build_writeback_bounds_steps_step3, b14_build_writeback_bounds_steps_step4]\<close>

lemma b14_build_writeback_bounds_steps_files: "steps_files b14_build_writeback_bounds_steps = {b14_ZRAM_C}"
  by (simp add: b14_build_writeback_bounds_steps_def steps_files_fst insert_commute
      step_file [OF b14_build_writeback_bounds_steps_step1_def]
      step_file [OF b14_build_writeback_bounds_steps_step2_def]
      step_file [OF b14_build_writeback_bounds_steps_step3_def]
      step_file [OF b14_build_writeback_bounds_steps_step4_def])

lemma b14_build_writeback_bounds_steps_required: "all_required b14_build_writeback_bounds_steps"
  by (simp add: b14_build_writeback_bounds_steps_def all_required_def
      step_req [OF b14_build_writeback_bounds_steps_step1_def]
      step_req [OF b14_build_writeback_bounds_steps_step2_def]
      step_req [OF b14_build_writeback_bounds_steps_step3_def]
      step_req [OF b14_build_writeback_bounds_steps_step4_def])

definition b14_build_limit_align_steps_step1 :: step where
  \<open>b14_build_limit_align_steps_step1 =
   (b14_ZRAM_C,
    b14_C_LIMIT_STORE,
    b14_C_LIMIT_STORE_NEW, True)\<close>

definition b14_build_limit_align_steps :: "step list" where
  \<open>b14_build_limit_align_steps = [b14_build_limit_align_steps_step1]\<close>

lemma b14_build_limit_align_steps_files: "steps_files b14_build_limit_align_steps = {b14_ZRAM_C}"
  by (simp add: b14_build_limit_align_steps_def steps_files_fst insert_commute
      step_file [OF b14_build_limit_align_steps_step1_def])

lemma b14_build_limit_align_steps_required: "all_required b14_build_limit_align_steps"
  by (simp add: b14_build_limit_align_steps_def all_required_def
      step_req [OF b14_build_limit_align_steps_step1_def])

definition b14_teardown_apply :: "outcome io" where
  \<open>b14_teardown_apply =
    io_try is_fnf (ctx_read b14_ZRAM_C)
      (\<lambda>e. io_ret (BlockedByShape, b14_ZRAM_C @ '': file absent''))
      (\<lambda>text.
    case find (\<lambda>(probe, why). \<not> contains probe text)
          [(''static void zram_meta_free(struct zram *zram, u64 disksize)'', ''zram_meta_free()''),
           (''static void zram_reset_device(struct zram *zram)'', ''zram_reset_device()'')] of
        Some (probe, why) \<Rightarrow> io_ret (BlockedByShape, why @ '' not found in zram_drv.c'')
      | None \<Rightarrow>
    apply_or_block b14_build_teardown_steps)\<close>

lemma b14_teardown_apply_txn: "transactional (\<lambda>_. {b14_ZRAM_C}) b14_teardown_apply"
  unfolding b14_teardown_apply_def
  by (intro txn_intros safe_intros)
    (simp_all add: is_backup_code BACKUP_SUFFIX_def b14_build_teardown_steps_files b14_ZRAM_C_def)

definition b14_writeback_bounds_apply :: "outcome io" where
  \<open>b14_writeback_bounds_apply =
    io_try is_fnf (ctx_read b14_ZRAM_C)
      (\<lambda>e. io_ret (BlockedByShape, b14_ZRAM_C @ '': file absent''))
      (\<lambda>_.
    apply_or_block b14_build_writeback_bounds_steps)\<close>

lemma b14_writeback_bounds_apply_txn: "transactional (\<lambda>_. {b14_ZRAM_C}) b14_writeback_bounds_apply"
  unfolding b14_writeback_bounds_apply_def
  by (intro txn_intros safe_intros)
    (simp_all add: is_backup_code BACKUP_SUFFIX_def b14_build_writeback_bounds_steps_files b14_ZRAM_C_def)

definition b14_limit_align_apply :: "outcome io" where
  \<open>b14_limit_align_apply =
    io_try is_fnf (ctx_read b14_ZRAM_C)
      (\<lambda>e. io_ret (BlockedByShape, b14_ZRAM_C @ '': file absent''))
      (\<lambda>text.
    if \<not> contains ''static ssize_t writeback_limit_store'' text
    then io_ret (BlockedByShape, ''writeback_limit_store() not found in zram_drv.c'')
    else
    apply_or_block b14_build_limit_align_steps)\<close>

lemma b14_limit_align_apply_txn: "transactional (\<lambda>_. {b14_ZRAM_C}) b14_limit_align_apply"
  unfolding b14_limit_align_apply_def
  by (intro txn_intros safe_intros)
    (simp_all add: is_backup_code BACKUP_SUFFIX_def b14_build_limit_align_steps_files b14_ZRAM_C_def)

definition zram_wb_teardown_group :: group where
  \<open>zram_wb_teardown_group =
    \<lparr>key = ''zram_wb_teardown'',
     summary = ''release a writeback backing device attached before disksize: full teardown of an uninitialised device (74363ec674cb, with the zs_destroy_pool(NULL) guard that makes it safe)'',
     commits = [''74363ec674cb (v6.16, Cc: stable; Fixes: 013bf95a83ec)'',
      ''series partner be48c412f6eb is a precondition (5.15.168+), not a step -- see the module docstring for why 5.15.167 is accepted without it''],
     group_files = [b14_ZRAM_C],
     apply_fn = b14_teardown_apply, hard = False\<rparr>\<close>

lemma zram_wb_teardown_group_declared [simp]: "well_declared zram_wb_teardown_group"
  by (rule well_declaredI [OF b14_teardown_apply_txn]) (simp_all add: is_backup_code BACKUP_SUFFIX_def zram_wb_teardown_group_def b14_ZRAM_C_def)

definition zram_writeback_bounds_group :: group where
  \<open>zram_writeback_bounds_group =
    \<lparr>key = ''zram_writeback_bounds'',
     summary = ''derive the writeback scan bound (and the page_index range check) under init_lock so a racing reset cannot index past the table, plus cond_resched() in the sweep loop (894913e2d35c + 424d0e5828ad, re-anchored to the 5.15 init_lock shape)'',
     commits = [''894913e2d35c (v7.3, Cc: stable; Fixes: a939888ec38b)'',
      ''424d0e5828ad (v6.14)''],
     group_files = [b14_ZRAM_C],
     apply_fn = b14_writeback_bounds_apply, hard = False\<rparr>\<close>

lemma zram_writeback_bounds_group_declared [simp]: "well_declared zram_writeback_bounds_group"
  by (rule well_declaredI [OF b14_writeback_bounds_apply_txn]) (simp_all add: is_backup_code BACKUP_SUFFIX_def zram_writeback_bounds_group_def b14_ZRAM_C_def)

definition zram_wb_limit_align_group :: group where
  \<open>zram_wb_limit_align_group =
    \<lparr>key = ''zram_wb_limit_align'',
     summary = ''round the writeback budget down to a whole page so a PAGE_SIZE > 4KiB build cannot underflow bd_wb_limit and silently disable the flash-wear cap (mainline writeback_limit_store() guard)'',
     commits = [''mainline writeback_limit_store(); lineage bb416d18b850 -> 1d69a3f8ae77''],
     group_files = [b14_ZRAM_C],
     apply_fn = b14_limit_align_apply, hard = False\<rparr>\<close>

lemma zram_wb_limit_align_group_declared [simp]: "well_declared zram_wb_limit_align_group"
  by (rule well_declaredI [OF b14_limit_align_apply_txn]) (simp_all add: is_backup_code BACKUP_SUFFIX_def zram_wb_limit_align_group_def b14_ZRAM_C_def)

definition b14_build_groups :: "group list" where
  \<open>b14_build_groups = [zram_wb_teardown_group, zram_writeback_bounds_group, zram_wb_limit_align_group]\<close>

end
