(* ===== verification/Batch15_Fs_Pid.thy ===== *)
theory Batch15_Fs_Pid
  imports Registry_Laws
begin

text \<open>
  The anchors, steps and groups of \<^verbatim>\<open>scripts/batch15_core_fs_pid_hotpaths.py\<close>, in source order.
\<close>

definition b15f_PID_C :: str where
  \<open>b15f_PID_C = ''kernel/pid.c''\<close>

definition b15f_FILE_C :: str where
  \<open>b15f_FILE_C = ''fs/file.c''\<close>

definition b15f_PID_DECL_OLD :: str where
  \<open>b15f_PID_DECL_OLD = block
     [''	struct upid *upid;'',
      ''	int retval = -ENOMEM;'',
      []]\<close>

definition b15f_PID_DECL_NEW :: str where
  \<open>b15f_PID_DECL_NEW = block
     [''	struct upid *upid;'',
      ''	int retval = -ENOMEM;'',
      ''	/*'',
      ''	 * ABK stable_515_backport: pid_alloc_hotpath_phase2.  idr_preload()'',
      ''	 * can come up short for the GFP_ATOMIC idr_alloc_cyclic() below'',
      ''	 * (the idr has to grow a node the preloaded pool did not cover), and'',
      ''	 * the allocation then reports -ENOMEM from inside pidmap_lock even'',
      ''	 * though this caller is allowed to sleep.  One retry with a freshly'',
      ''	 * preloaded pool turns that spurious -ENOMEM into a successful fork;'',
      ''	 * a second failure is fatal.'',
      ''	 */'',
      ''	bool retried_preload;'',
      []]\<close>

definition b15f_PID_PRELOAD_OLD :: str where
  \<open>b15f_PID_PRELOAD_OLD = block
     [''			set_tid_size--;'',
      ''		}'',
      [],
      ''		idr_preload(GFP_KERNEL);'',
      ''		spin_lock_irq(&pidmap_lock);'',
      [],
      ''		if (tid) {'',
      []]\<close>

definition b15f_PID_PRELOAD_NEW :: str where
  \<open>b15f_PID_PRELOAD_NEW = block
     [''			set_tid_size--;'',
      ''		}'',
      [],
      ''		retried_preload = false;'',
      ''		/* ABK stable_515_backport: the retry re-enters here -- same'',
      ''		 * namespace level, set_tid bookkeeping not repeated. */'',
      ''retry_preload:'',
      ''		idr_preload(GFP_KERNEL);'',
      ''		spin_lock_irq(&pidmap_lock);'',
      [],
      ''		if (tid) {'',
      []]\<close>

definition b15f_PID_RETRY_OLD :: str where
  \<open>b15f_PID_RETRY_OLD = block
     [''		spin_unlock_irq(&pidmap_lock);'',
      ''		idr_preload_end();'',
      [],
      ''		if (nr < 0) {'',
      ''			retval = (nr == -ENOSPC) ? -EAGAIN : nr;'',
      ''			goto out_free;'',
      ''		}'',
      [],
      ''		pid->numbers[i].nr = nr;'',
      ''		pid->numbers[i].ns = tmp;'',
      ''		tmp = tmp->parent;'',
      ''	}'',
      []]\<close>

definition b15f_PID_RETRY_NEW :: str where
  \<open>b15f_PID_RETRY_NEW = block
     [''		spin_unlock_irq(&pidmap_lock);'',
      ''		idr_preload_end();'',
      [],
      ''		if (nr < 0) {'',
      ''			/*'',
      ''			 * ABK stable_515_backport: retry this namespace level once'',
      ''			 * under a fresh GFP_KERNEL preload.  Deliberately a `goto`'',
      ''			 * and not `continue`: `continue` would run the for-loop\'s'',
      ''			 * `i--`, skipping a level whose pid->numbers[i] entry has'',
      ''			 * not been written yet.'',
      ''			 */'',
      ''			if (nr == -ENOMEM && !retried_preload) {'',
      ''				retried_preload = true;'',
      ''				goto retry_preload;'',
      ''			}'',
      ''			retval = (nr == -ENOSPC) ? -EAGAIN : nr;'',
      ''			goto out_free;'',
      ''		}'',
      [],
      ''		pid->numbers[i].nr = nr;'',
      ''		pid->numbers[i].ns = tmp;'',
      ''		tmp = tmp->parent;'',
      ''	}'',
      []]\<close>

definition b15f_FD_HELPER_OLD :: str where
  \<open>b15f_FD_HELPER_OLD = block
     [''#define fdt_words(fdt) ((fdt)->max_fds / BITS_PER_LONG) // words in ->open_fds'',
      []]\<close>

definition b15f_FD_HELPER_NEW :: str where
  \<open>b15f_FD_HELPER_NEW = block
     [''#define fdt_words(fdt) ((fdt)->max_fds / BITS_PER_LONG) // words in ->open_fds'',
      [],
      ''/*'',
      '' * ABK stable_515_backport: fd_alloc_hotpath.  expand_files() already'',
      '' * reports "nothing done" (0) for a descriptor the current table covers,'',
      '' * so the two hot-path callers below can skip the call -- and its second'',
      '' * files_fdtable() lookup -- with one comparison.'',
      '' */'',
      ''static inline bool abk_expand_files_needed(const struct fdtable *fdt,'',
      ''					   unsigned int nr)'',
      ''{'',
      ''	return nr >= fdt->max_fds;'',
      ''}'',
      [],
      []]\<close>

definition b15f_FD_EXPAND_OLD :: str where
  \<open>b15f_FD_EXPAND_OLD = block
     [''repeat:'',
      ''	fdt = files_fdtable(files);'',
      [],
      ''	/* Do we need to expand? */'',
      ''	if (nr < fdt->max_fds)'',
      ''		return expanded;'',
      [],
      ''	/* Can we expand? */'',
      ''	if (nr >= sysctl_nr_open)'',
      ''		return -EMFILE;'',
      []]\<close>

definition b15f_FD_EXPAND_NEW :: str where
  \<open>b15f_FD_EXPAND_NEW = block
     [''repeat:'',
      ''	fdt = files_fdtable(files);'',
      [],
      ''	/* Do we need to expand? */'',
      ''	if (!abk_expand_files_needed(fdt, nr))'',
      ''		return expanded;'',
      [],
      ''	/* Can we expand? */'',
      ''	if (nr >= sysctl_nr_open)'',
      ''		return -EMFILE;'',
      []]\<close>

definition b15f_FD_ALLOC_OLD :: str where
  \<open>b15f_FD_ALLOC_OLD = block
     [''	error = -EMFILE;'',
      ''	if (fd >= end)'',
      ''		goto out;'',
      [],
      ''	error = expand_files(files, fd);'',
      ''	if (error < 0)'',
      ''		goto out;'',
      [],
      ''	/*'',
      ''	 * If we needed to expand the fs array we'',
      ''	 * might have blocked - try again.'',
      ''	 */'',
      ''	if (error)'',
      ''		goto repeat;'',
      []]\<close>

definition b15f_FD_ALLOC_NEW :: str where
  \<open>b15f_FD_ALLOC_NEW = block
     [''	error = -EMFILE;'',
      ''	if (fd >= end)'',
      ''		goto out;'',
      [],
      ''	/* ABK stable_515_backport: fd_alloc_hotpath -- fdt was read at the top'',
      ''	 * of this iteration, so the growth check needs no call. */'',
      ''	if (abk_expand_files_needed(fdt, fd)) {'',
      ''		error = expand_files(files, fd);'',
      ''		if (error < 0)'',
      ''			goto out;'',
      [],
      ''		/*'',
      ''		 * If we needed to expand the fs array we'',
      ''		 * might have blocked - try again.'',
      ''		 */'',
      ''		if (error)'',
      ''			goto repeat;'',
      ''	}'',
      []]\<close>

definition b15f_FD_UNUSED_OLD :: str where
  \<open>b15f_FD_UNUSED_OLD = block
     [''int get_unused_fd_flags(unsigned flags)'',
      ''{'',
      ''	return __get_unused_fd_flags(flags, rlimit(RLIMIT_NOFILE));'',
      ''}'',
      []]\<close>

definition b15f_FD_UNUSED_NEW :: str where
  \<open>b15f_FD_UNUSED_NEW = block
     [''int get_unused_fd_flags(unsigned flags)'',
      ''{'',
      ''	/* ABK stable_515_backport: fd_alloc_hotpath -- deliberately a bare'',
      ''	 * tail call so the hot open()/dup() entry points stay on alloc_fd().'',
      ''	 */'',
      ''	return __get_unused_fd_flags(flags, rlimit(RLIMIT_NOFILE));'',
      ''}'',
      []]\<close>

definition b15f_CR_PICK_OLD :: str where
  \<open>b15f_CR_PICK_OLD = block
     [''	spin_lock(&files->file_lock);'',
      ''	fdt = files_fdtable(files);'',
      ''	if (fd >= fdt->max_fds) {'',
      ''		file = ERR_PTR(-EINVAL);'',
      ''		goto out_unlock;'',
      ''	}'',
      ''	fd = array_index_nospec(fd, fdt->max_fds);'',
      []]\<close>

definition b15f_CR_PICK_NEW :: str where
  \<open>b15f_CR_PICK_NEW = block
     [''	spin_lock(&files->file_lock);'',
      ''	fdt = files_fdtable(files);'',
      ''	if (fd >= fdt->max_fds) {'',
      ''		file = ERR_PTR(-EINVAL);'',
      ''		goto out_unlock;'',
      ''	}'',
      ''	/*'',
      ''	 * ABK stable_515_backport: close_range_hotpath.  __clear_open_fd()'',
      ''	 * clears the open bit under this same lock, and the fd-array slot is'',
      ''	 * NULLed before it, so a clear bit means the load below cannot return'',
      ''	 * a file.  Answering from the bitmap skips array_index_nospec() and'',
      ''	 * the fd-array cache line for every descriptor the range walk skips.'',
      ''	 */'',
      ''	if (!fd_is_open(fd, fdt)) {'',
      ''		file = ERR_PTR(-EBADF);'',
      ''		goto out_unlock;'',
      ''	}'',
      ''	fd = array_index_nospec(fd, fdt->max_fds);'',
      []]\<close>

definition b15f_CR_RANGE_OLD :: str where
  \<open>b15f_CR_RANGE_OLD = block
     [''static inline void __range_close(struct files_struct *cur_fds, unsigned int fd,'',
      ''				 unsigned int max_fd)'',
      ''{'',
      ''	while (fd <= max_fd) {'',
      ''		struct file *file;'',
      [],
      ''		file = pick_file(cur_fds, fd++);'',
      ''		if (!IS_ERR(file)) {'',
      ''			/* found a valid file to close */'',
      ''			filp_close(file, cur_fds);'',
      ''			cond_resched();'',
      ''			continue;'',
      ''		}'',
      [],
      ''		/* beyond the last fd in that table */'',
      ''		if (PTR_ERR(file) == -EINVAL)'',
      ''			return;'',
      ''	}'',
      ''}'',
      []]\<close>

definition b15f_CR_RANGE_NEW :: str where
  \<open>b15f_CR_RANGE_NEW = block
     [''/*'',
      '' * ABK stable_515_backport: close_range_hotpath.  Walk open_fds instead of'',
      '' * probing every descriptor in [fd, max_fd]: a range close of a large span'',
      '' * used to pay one locked pick_file() per descriptor, almost all of them'',
      '' * -EBADF misses.  The table is re-read under rcu_read_lock() after each'',
      '' * filp_close() -- the same context __range_cloexec() and __close_range()'',
      '' * use for last_fd()/open_fds -- and max_fd is re-clamped to it, so a'',
      '' * concurrent expansion cannot make the walk read past the live table.'',
      '' */'',
      ''static inline void __range_close(struct files_struct *cur_fds, unsigned int fd,'',
      ''				 unsigned int max_fd)'',
      ''{'',
      ''	struct fdtable *fdt;'',
      ''	unsigned int n;'',
      [],
      ''	rcu_read_lock();'',
      ''	fdt = files_fdtable(cur_fds);'',
      ''	n = last_fd(fdt);'',
      ''	max_fd = min(max_fd, n);'',
      ''	fd = find_next_bit(fdt->open_fds, max_fd + 1, fd);'',
      ''	rcu_read_unlock();'',
      [],
      ''	while (fd <= max_fd) {'',
      ''		struct file *file;'',
      [],
      ''		file = pick_file(cur_fds, fd);'',
      ''		if (!IS_ERR(file)) {'',
      ''			/* found a valid file to close */'',
      ''			filp_close(file, cur_fds);'',
      ''			cond_resched();'',
      ''		} else if (PTR_ERR(file) == -EINVAL) {'',
      ''			/* beyond the last fd in that table */'',
      ''			return;'',
      ''		}'',
      [],
      ''		rcu_read_lock();'',
      ''		fdt = files_fdtable(cur_fds);'',
      ''		max_fd = min(max_fd, last_fd(fdt));'',
      ''		fd = find_next_bit(fdt->open_fds, max_fd + 1, fd + 1);'',
      ''		rcu_read_unlock();'',
      ''	}'',
      ''}'',
      []]\<close>

definition b15f_build_pid_alloc_steps_step1 :: step where
  \<open>b15f_build_pid_alloc_steps_step1 =
   (b15f_PID_C,
    b15f_PID_DECL_OLD,
    b15f_PID_DECL_NEW, True)\<close>

definition b15f_build_pid_alloc_steps_step2 :: step where
  \<open>b15f_build_pid_alloc_steps_step2 =
   (b15f_PID_C,
    b15f_PID_PRELOAD_OLD,
    b15f_PID_PRELOAD_NEW, True)\<close>

definition b15f_build_pid_alloc_steps_step3 :: step where
  \<open>b15f_build_pid_alloc_steps_step3 =
   (b15f_PID_C,
    b15f_PID_RETRY_OLD,
    b15f_PID_RETRY_NEW, True)\<close>

definition b15f_build_pid_alloc_steps :: "step list" where
  \<open>b15f_build_pid_alloc_steps = [b15f_build_pid_alloc_steps_step1, b15f_build_pid_alloc_steps_step2, b15f_build_pid_alloc_steps_step3]\<close>

lemma b15f_build_pid_alloc_steps_files: "steps_files b15f_build_pid_alloc_steps = {b15f_PID_C}"
  by (simp add: b15f_build_pid_alloc_steps_def steps_files_fst insert_commute
      step_file [OF b15f_build_pid_alloc_steps_step1_def]
      step_file [OF b15f_build_pid_alloc_steps_step2_def]
      step_file [OF b15f_build_pid_alloc_steps_step3_def])

lemma b15f_build_pid_alloc_steps_required: "all_required b15f_build_pid_alloc_steps"
  by (simp add: b15f_build_pid_alloc_steps_def all_required_def
      step_req [OF b15f_build_pid_alloc_steps_step1_def]
      step_req [OF b15f_build_pid_alloc_steps_step2_def]
      step_req [OF b15f_build_pid_alloc_steps_step3_def])

definition b15f_build_fd_alloc_steps_step1 :: step where
  \<open>b15f_build_fd_alloc_steps_step1 =
   (b15f_FILE_C,
    b15f_FD_HELPER_OLD,
    b15f_FD_HELPER_NEW, True)\<close>

definition b15f_build_fd_alloc_steps_step2 :: step where
  \<open>b15f_build_fd_alloc_steps_step2 =
   (b15f_FILE_C,
    b15f_FD_EXPAND_OLD,
    b15f_FD_EXPAND_NEW, True)\<close>

definition b15f_build_fd_alloc_steps_step3 :: step where
  \<open>b15f_build_fd_alloc_steps_step3 =
   (b15f_FILE_C,
    b15f_FD_ALLOC_OLD,
    b15f_FD_ALLOC_NEW, True)\<close>

definition b15f_build_fd_alloc_steps_step4 :: step where
  \<open>b15f_build_fd_alloc_steps_step4 =
   (b15f_FILE_C,
    b15f_FD_UNUSED_OLD,
    b15f_FD_UNUSED_NEW, True)\<close>

definition b15f_build_fd_alloc_steps :: "step list" where
  \<open>b15f_build_fd_alloc_steps = [b15f_build_fd_alloc_steps_step1, b15f_build_fd_alloc_steps_step2, b15f_build_fd_alloc_steps_step3, b15f_build_fd_alloc_steps_step4]\<close>

lemma b15f_build_fd_alloc_steps_files: "steps_files b15f_build_fd_alloc_steps = {b15f_FILE_C}"
  by (simp add: b15f_build_fd_alloc_steps_def steps_files_fst insert_commute
      step_file [OF b15f_build_fd_alloc_steps_step1_def]
      step_file [OF b15f_build_fd_alloc_steps_step2_def]
      step_file [OF b15f_build_fd_alloc_steps_step3_def]
      step_file [OF b15f_build_fd_alloc_steps_step4_def])

lemma b15f_build_fd_alloc_steps_required: "all_required b15f_build_fd_alloc_steps"
  by (simp add: b15f_build_fd_alloc_steps_def all_required_def
      step_req [OF b15f_build_fd_alloc_steps_step1_def]
      step_req [OF b15f_build_fd_alloc_steps_step2_def]
      step_req [OF b15f_build_fd_alloc_steps_step3_def]
      step_req [OF b15f_build_fd_alloc_steps_step4_def])

definition b15f_build_close_range_steps_step1 :: step where
  \<open>b15f_build_close_range_steps_step1 =
   (b15f_FILE_C,
    b15f_CR_PICK_OLD,
    b15f_CR_PICK_NEW, True)\<close>

definition b15f_build_close_range_steps_step2 :: step where
  \<open>b15f_build_close_range_steps_step2 =
   (b15f_FILE_C,
    b15f_CR_RANGE_OLD,
    b15f_CR_RANGE_NEW, True)\<close>

definition b15f_build_close_range_steps :: "step list" where
  \<open>b15f_build_close_range_steps = [b15f_build_close_range_steps_step1, b15f_build_close_range_steps_step2]\<close>

lemma b15f_build_close_range_steps_files: "steps_files b15f_build_close_range_steps = {b15f_FILE_C}"
  by (simp add: b15f_build_close_range_steps_def steps_files_fst insert_commute
      step_file [OF b15f_build_close_range_steps_step1_def]
      step_file [OF b15f_build_close_range_steps_step2_def])

lemma b15f_build_close_range_steps_required: "all_required b15f_build_close_range_steps"
  by (simp add: b15f_build_close_range_steps_def all_required_def
      step_req [OF b15f_build_close_range_steps_step1_def]
      step_req [OF b15f_build_close_range_steps_step2_def])

definition b15f_pid_alloc_apply :: "outcome io" where
  \<open>b15f_pid_alloc_apply =
    io_try is_fnf (ctx_read b15f_PID_C)
      (\<lambda>e. io_ret (BlockedByShape, b15f_PID_C @ '': file absent''))
      (\<lambda>text.
    case find (\<lambda>(probe, why). \<not> contains probe text)
          [(''struct pid *alloc_pid(struct pid_namespace *ns, pid_t *set_tid,'', ''alloc_pid()''),
           (block
          [''		idr_preload(GFP_KERNEL);'',
           []], ''idr_preload(GFP_KERNEL) protocol''),
           (block
          [''	idr_preload_end();'',
           []], ''idr_preload_end() protocol'')] of
        Some (probe, why) \<Rightarrow> io_ret (BlockedByShape, why @ '' not found in pid.c'')
      | None \<Rightarrow>
    apply_or_block b15f_build_pid_alloc_steps)\<close>

lemma b15f_pid_alloc_apply_txn: "transactional (\<lambda>_. {b15f_PID_C}) b15f_pid_alloc_apply"
  unfolding b15f_pid_alloc_apply_def
  by (intro txn_intros safe_intros)
    (simp_all add: is_backup_code BACKUP_SUFFIX_def b15f_build_pid_alloc_steps_files b15f_PID_C_def)

definition b15f_fd_alloc_apply :: "outcome io" where
  \<open>b15f_fd_alloc_apply =
    io_try is_fnf (ctx_read b15f_FILE_C)
      (\<lambda>e. io_ret (BlockedByShape, b15f_FILE_C @ '': file absent''))
      (\<lambda>text.
    io_bind (suite_touched b15f_FILE_C) (\<lambda>b1.
    if b1 then io_ret (SkipSuiteProcessed, ''fs/file.c already carries the ABK_ABI_PATCH_SUITE fd allocation hotpath graft (abk_fdtable_slots_wanted/ABK feature_porting marker); Batch 15 absorbs that group, so its copy is left alone'')
    else
    if \<not> contains ''alloc_fdtable(unsigned int slots_wanted)'' text \<or> \<not> contains ''roundup_pow_of_two(slots_wanted)'' text
    then io_ret (BlockedByShape, ''fs/file.c does not carry the upstream 5.15.191 fdtable shape yet; fdtable_alloc_conventions must run before fd_alloc_hotpath'')
    else
    case find (\<lambda>(probe, why). \<not> contains probe text)
          [(''#define fdt_words(fdt)'', ''fdt_words() helper site''),
           (''static int expand_files(struct files_struct *files, unsigned int nr)'', ''expand_files()''),
           (''static int alloc_fd(unsigned start, unsigned end, unsigned flags)'', ''alloc_fd()''),
           (block
          [''int get_unused_fd_flags(unsigned flags)'',
           []], ''get_unused_fd_flags()'')] of
        Some (probe, why) \<Rightarrow> io_ret (BlockedByShape, why @ '' not found in fs/file.c'')
      | None \<Rightarrow>
    apply_or_block b15f_build_fd_alloc_steps))\<close>

lemma b15f_fd_alloc_apply_txn: "transactional (\<lambda>_. {b15f_FILE_C}) b15f_fd_alloc_apply"
  unfolding b15f_fd_alloc_apply_def
  by (intro txn_intros safe_intros)
    (simp_all add: is_backup_code BACKUP_SUFFIX_def b15f_build_fd_alloc_steps_files b15f_FILE_C_def)

definition b15f_close_range_apply :: "outcome io" where
  \<open>b15f_close_range_apply =
    io_try is_fnf (ctx_read b15f_FILE_C)
      (\<lambda>e. io_ret (BlockedByShape, b15f_FILE_C @ '': file absent''))
      (\<lambda>text.
    io_bind (suite_touched b15f_FILE_C) (\<lambda>b1.
    if b1 then io_ret (SkipSuiteProcessed, ''fs/file.c already carries the ABK_ABI_PATCH_SUITE close_range() bitmap graft (ABK feature_porting marker); Batch 15 absorbs that group, so its copy is left alone'')
    else
    case find (\<lambda>(probe, why). \<not> contains probe text)
          [(''static struct file *pick_file(struct files_struct *files, unsigned fd)'', ''pick_file()''),
           (''static inline void __range_close(struct files_struct *cur_fds, unsigned int fd,'', ''__range_close()''),
           (''static inline unsigned last_fd(struct fdtable *fdt)'', ''last_fd()''),
           (block
          [''		file = ERR_PTR(-EINVAL);'',
           []], ''pick_file() 5.15 error convention'')] of
        Some (probe, why) \<Rightarrow> io_ret (BlockedByShape, why @ '' not found in fs/file.c'')
      | None \<Rightarrow>
    apply_or_block b15f_build_close_range_steps))\<close>

lemma b15f_close_range_apply_txn: "transactional (\<lambda>_. {b15f_FILE_C}) b15f_close_range_apply"
  unfolding b15f_close_range_apply_def
  by (intro txn_intros safe_intros)
    (simp_all add: is_backup_code BACKUP_SUFFIX_def b15f_build_close_range_steps_files b15f_FILE_C_def)

definition pid_alloc_hotpath_phase2_group :: group where
  \<open>pid_alloc_hotpath_phase2_group =
    \<lparr>key = ''pid_alloc_hotpath_phase2'',
     summary = ''alloc_pid() preload/retry on the 5.15 pid-namespace shape: idr_preload(GFP_KERNEL) is retried once (same namespace level) after a GFP_ATOMIC -ENOMEM under pidmap_lock; idr_alloc_cyclic()\'s -ENOSPC stays translated to -EAGAIN; no pid_namespace layout change'',
     commits = [''ABK_ABI_PATCH_SUITE pid_alloc_hotpath_phase2 (abk_feature_porting.patch_pid_alloc, absorbed by Batch 15)'',
      ''the suite\'s `continue` retry is corrected to a same-level `goto retry_preload` -- see the module docstring'',
      ''no upstream commit: alloc_pid() is byte-identical and retry-free in the 5.15/6.1/6.6 reference trees; the -ENOSPC -> -EAGAIN half is already present on every 5.15 baseline''],
     group_files = [b15f_PID_C],
     apply_fn = b15f_pid_alloc_apply, hard = False\<rparr>\<close>

lemma pid_alloc_hotpath_phase2_group_declared [simp]: "well_declared pid_alloc_hotpath_phase2_group"
  by (rule well_declaredI [OF b15f_pid_alloc_apply_txn]) (simp_all add: is_backup_code BACKUP_SUFFIX_def pid_alloc_hotpath_phase2_group_def b15f_PID_C_def)

definition fd_alloc_hotpath_group :: group where
  \<open>fd_alloc_hotpath_group =
    \<lparr>key = ''fd_alloc_hotpath'',
     summary = ''fd allocation hot path on top of the 5.15.191 fd-table conventions: abk_expand_files_needed() lets expand_files() and alloc_fd() answer the growth question with one comparison instead of an expand_files() call on the common path; the suite\'s alloc_fdtable() capacity rewrite is NOT ported because fdtable_alloc_conventions owns that text and runs first'',
     commits = [''ABK_ABI_PATCH_SUITE fd_alloc_hotpath (abk_feature_porting.patch_fd_alloc_hotpath, absorbed by Batch 15), minus its abk_fdtable_slots_wanted() helper and alloc_fdtable() capacity rewrite'',
      ''composition: requires fdtable_alloc_conventions (5.15.191, 04a2c4b4511d + 1d3b4bec3ce5) to have landed the upstream slots_wanted/ERR_PTR alloc_fdtable()''],
     group_files = [b15f_FILE_C],
     apply_fn = b15f_fd_alloc_apply, hard = False\<rparr>\<close>

lemma fd_alloc_hotpath_group_declared [simp]: "well_declared fd_alloc_hotpath_group"
  by (rule well_declaredI [OF b15f_fd_alloc_apply_txn]) (simp_all add: is_backup_code BACKUP_SUFFIX_def fd_alloc_hotpath_group_def b15f_FILE_C_def)

definition close_range_hotpath_group :: group where
  \<open>close_range_hotpath_group =
    \<lparr>key = ''close_range_hotpath'',
     summary = ''close_range() walks the open_fds bitmap instead of probing every descriptor in the range: pick_file() gains a bitmap early-out (-EBADF) and __range_close() advances fd-to-fd through find_next_bit(), re-reading the table under rcu_read_lock() after each filp_close(); syscall-visible behaviour unchanged'',
     commits = [''ABK_ABI_PATCH_SUITE close_range_hotpath (abk_feature_porting.patch_close_range_hotpath, absorbed by Batch 15), in its 5.15 (range_new_5_15) form -- the abk_close_range_limit()/abk_pick_file_for_close() helpers belong to the caller-locked 6.1 shape and are not ported''],
     group_files = [b15f_FILE_C],
     apply_fn = b15f_close_range_apply, hard = False\<rparr>\<close>

lemma close_range_hotpath_group_declared [simp]: "well_declared close_range_hotpath_group"
  by (rule well_declaredI [OF b15f_close_range_apply_txn]) (simp_all add: is_backup_code BACKUP_SUFFIX_def close_range_hotpath_group_def b15f_FILE_C_def)

definition b15f_build_groups :: "group list" where
  \<open>b15f_build_groups = [pid_alloc_hotpath_phase2_group, fd_alloc_hotpath_group, close_range_hotpath_group]\<close>

end
