(* ===== verification/Batch15_Mm_Hotpaths.thy ===== *)
theory Batch15_Mm_Hotpaths
  imports Registry_Laws
begin

text \<open>
  The anchors, steps and groups of \<^verbatim>\<open>scripts/batch15_core_mm_hotpaths.py\<close>, in source order.
\<close>

definition b15m_SLUB_C :: str where
  \<open>b15m_SLUB_C = ''mm/slub.c''\<close>

definition b15m_HUGE_C :: str where
  \<open>b15m_HUGE_C = ''mm/huge_memory.c''\<close>

definition b15m_MEMORY_C :: str where
  \<open>b15m_MEMORY_C = ''mm/memory.c''\<close>

definition b15m_A_HELPER :: str where
  \<open>b15m_A_HELPER = block
     [''/*'',
      '' * Inlined fastpath so that allocation functions (kmalloc, kmem_cache_alloc)'',
      []]\<close>

definition b15m_A_HELPER_NEW :: str where
  \<open>b15m_A_HELPER_NEW = block
     [''/*'',
      '' * ABK stable_515_backport: slab_alloc_free_hotpath helper graft.'',
      '' *'',
      '' * One next-object helper for the single-object fastpath and for'',
      '' * kmem_cache_alloc_bulk(), so both issue the freepointer prefetch.  The'',
      '' * single-object path keeps its own post-cmpxchg prefetch_freepointer()'',
      '' * call below: that one is a no-op once the line is resident, and the'',
      '' * point of the graft is the earlier prefetch -- the next object is warmed'',
      '' * while the cmpxchg_double above still validates tid and freelist.'',
      '' */'',
      ''static __always_inline void *abk_slab_next_object(struct kmem_cache *s,'',
      ''					      void *object)'',
      ''{'',
      ''	void *next_object = get_freepointer_safe(s, object);'',
      [],
      ''	prefetch_freepointer(s, next_object);'',
      ''	return next_object;'',
      ''}'',
      [],
      ''/*'',
      '' * Inlined fastpath so that allocation functions (kmalloc, kmem_cache_alloc)'',
      []]\<close>

definition b15m_A_ALLOC_FAST :: str where
  \<open>b15m_A_ALLOC_FAST = block
     [''	} else {'',
      ''		void *next_object = get_freepointer_safe(s, object);'',
      [],
      ''		/*'',
      ''		 * The cmpxchg will only match if there was no additional'',
      ''		 * operation and if we are on the right processor.'',
      []]\<close>

definition b15m_A_ALLOC_FAST_NEW :: str where
  \<open>b15m_A_ALLOC_FAST_NEW = block
     [''	} else {'',
      ''		/*'',
      ''		 * ABK stable_515_backport: slab_alloc_free_hotpath -- the same helper'',
      ''		 * kmem_cache_alloc_bulk() uses, which prefetches the next freelist'',
      ''		 * entry (the post-cmpxchg prefetch below is kept for the unmodified'',
      ''		 * upstream shape).'',
      ''		 */'',
      ''		void *next_object = abk_slab_next_object(s, object);'',
      [],
      ''		/*'',
      ''		 * The cmpxchg will only match if there was no additional'',
      ''		 * operation and if we are on the right processor.'',
      []]\<close>

definition b15m_A_BULK_DECL :: str where
  \<open>b15m_A_BULK_DECL = block
     [''int kmem_cache_alloc_bulk(struct kmem_cache *s, gfp_t flags, size_t size,'',
      ''			  void **p)'',
      ''{'',
      ''	struct kmem_cache_cpu *c;'',
      []]\<close>

definition b15m_A_BULK_DECL_NEW :: str where
  \<open>b15m_A_BULK_DECL_NEW = block
     [''int kmem_cache_alloc_bulk(struct kmem_cache *s, gfp_t flags, size_t size,'',
      ''			  void **p)'',
      ''{'',
      ''	void *next_object; /* ABK stable_515_backport: slab_alloc_free_hotpath */'',
      ''	struct kmem_cache_cpu *c;'',
      []]\<close>

definition b15m_A_BULK_USE :: str where
  \<open>b15m_A_BULK_USE = block
     [''		c->freelist = get_freepointer(s, object);'',
      ''		p[i] = object;'',
      ''		maybe_wipe_obj_freeptr(s, p[i]);'',
      []]\<close>

definition b15m_A_BULK_USE_NEW :: str where
  \<open>b15m_A_BULK_USE_NEW = block
     [''		/*'',
      ''		 * ABK stable_515_backport: slab_alloc_free_hotpath -- prefetch the next'',
      ''		 * freelist entry before advancing the per-cpu freelist.'',
      ''		 */'',
      ''		next_object = abk_slab_next_object(s, object);'',
      ''		c->freelist = next_object;'',
      ''		p[i] = object;'',
      ''		maybe_wipe_obj_freeptr(s, p[i]);'',
      []]\<close>

definition b15m_A_KFREE :: str where
  \<open>b15m_A_KFREE = block
     [''void kmem_cache_free(struct kmem_cache *s, void *x)'',
      ''{'',
      ''	s = cache_from_obj(s, x);'',
      ''	if (!s)'',
      ''		return;'',
      ''	slab_free(s, virt_to_head_page(x), x, NULL, 1, _RET_IP_);'',
      ''	trace_kmem_cache_free(_RET_IP_, x, s->name);'',
      ''}'',
      []]\<close>

definition b15m_A_KFREE_NEW :: str where
  \<open>b15m_A_KFREE_NEW = block
     [''void kmem_cache_free(struct kmem_cache *s, void *x)'',
      ''{'',
      ''	/*'',
      ''	 * ABK stable_515_backport: slab_alloc_free_hotpath.  Resolve the slab'',
      ''	 * handle from `x` above cache_from_obj() so it is available before `s`'',
      ''	 * is reassigned to the memcg cache, and reuse it for slab_free()'',
      ''	 * instead of resolving it twice on the way through.  On 5.15 the'',
      ''	 * handle is a struct page -- struct slab is 5.17, so there is exactly'',
      ''	 * one resolution here, not the suite\'s two-step folio/slab lookup.'',
      ''	 */'',
      ''	struct page *page = virt_to_head_page(x);'',
      [],
      ''	s = cache_from_obj(s, x);'',
      ''	if (!s)'',
      ''		return;'',
      ''	slab_free(s, page, x, NULL, 1, _RET_IP_);'',
      ''	trace_kmem_cache_free(_RET_IP_, x, s->name);'',
      ''}'',
      []]\<close>

definition b15m_B_HELPERS :: str where
  \<open>b15m_B_HELPERS = block
     [''EXPORT_SYMBOL_GPL(thp_get_unmapped_area);'',
      []]\<close>

definition b15m_B_HELPERS_NEW :: str where
  \<open>b15m_B_HELPERS_NEW = block
     [''EXPORT_SYMBOL_GPL(thp_get_unmapped_area);'',
      [],
      ''/*'',
      '' * ABK stable_515_backport: hugepage fault alloc fastpath helper graft.'',
      '' *'',
      '' * 5.15 shape, not the suite\'s 6.1 shape: there are no folios here (5.16),'',
      '' * so every helper works in struct page, mem_cgroup_charge() takes the'',
      '' * page, and the allocation is alloc_hugepage_vma() + prep_transhuge_page()'',
      '' * rather than vma_alloc_folio().  The decomposition is the same, call for'',
      '' * call: prepare, fallback accounting, allocate, charge, prep and map.'',
      '' *'',
      '' * set_huge_zero_page() is static and defined further down this file (above'',
      '' * do_huge_pmd_anonymous_page()), so it is forward declared here rather than'',
      '' * moved -- moving it would rewrite a pristine upstream block for no gain.'',
      '' */'',
      ''static void set_huge_zero_page(pgtable_t pgtable, struct mm_struct *mm,'',
      ''				 struct vm_area_struct *vma, unsigned long haddr,'',
      ''				 pmd_t *pmd, struct page *zero_page);'',
      [],
      ''static vm_fault_t abk_thp_fault_fallback(bool charge)'',
      ''{'',
      ''	count_vm_event(THP_FAULT_FALLBACK);'',
      ''	if (charge)'',
      ''		count_vm_event(THP_FAULT_FALLBACK_CHARGE);'',
      ''	return VM_FAULT_FALLBACK;'',
      ''}'',
      [],
      ''/*'',
      '' * 5.15\'s khugepaged_enter() returns an int error (6.1 folds this into a'',
      '' * void khugepaged_enter_vma()), so it must be propagated, not dropped.'',
      '' */'',
      ''static vm_fault_t abk_thp_fault_prepare(struct vm_fault *vmf,'',
      ''				       unsigned long haddr)'',
      ''{'',
      ''	struct vm_area_struct *vma = vmf->vma;'',
      [],
      ''	if (!transhuge_vma_suitable(vma, haddr))'',
      ''		return VM_FAULT_FALLBACK;'',
      ''	if (unlikely(anon_vma_prepare(vma)))'',
      ''		return VM_FAULT_OOM;'',
      ''	if (unlikely(khugepaged_enter(vma, vma->vm_flags)))'',
      ''		return VM_FAULT_OOM;'',
      [],
      ''	return 0;'',
      ''}'',
      [],
      ''static struct page *abk_thp_fault_alloc_page(struct vm_area_struct *vma,'',
      ''					     unsigned long haddr,'',
      ''					     gfp_t *gfp)'',
      ''{'',
      ''	struct page *page;'',
      [],
      ''	*gfp = vma_thp_gfp_mask(vma);'',
      ''	page = alloc_hugepage_vma(*gfp, vma, haddr, HPAGE_PMD_ORDER);'',
      ''	if (!page)'',
      ''		return NULL;'',
      [],
      ''	prep_transhuge_page(page);'',
      ''	VM_BUG_ON_PAGE(!PageCompound(page), page);'',
      ''	return page;'',
      ''}'',
      [],
      ''static vm_fault_t abk_thp_fault_charge_page(struct page *page,'',
      ''					    struct vm_area_struct *vma,'',
      ''					    gfp_t gfp)'',
      ''{'',
      ''	if (mem_cgroup_charge(page, vma->vm_mm, gfp)) {'',
      ''		put_page(page);'',
      ''		return abk_thp_fault_fallback(true);'',
      ''	}'',
      [],
      ''	cgroup_throttle_swaprate(page, gfp);'',
      ''	return 0;'',
      ''}'',
      [],
      ''static void abk_prep_anon_thp_page(struct page *page,'',
      ''				   unsigned long address)'',
      ''{'',
      ''	clear_huge_page(page, address, HPAGE_PMD_NR);'',
      ''	/*'',
      ''	 * The memory barrier inside __SetPageUptodate makes sure that'',
      ''	 * clear_huge_page writes become visible before the set_pmd_at()'',
      ''	 * write.'',
      ''	 */'',
      ''	__SetPageUptodate(page);'',
      ''}'',
      [],
      ''static void abk_map_anon_page_pmd(struct page *page, pgtable_t pgtable,'',
      ''				  pmd_t *pmd,'',
      ''				  struct vm_area_struct *vma,'',
      ''				  unsigned long haddr,'',
      ''				  unsigned long address)'',
      ''{'',
      ''	pmd_t entry;'',
      [],
      ''	entry = mk_huge_pmd(page, vma->vm_page_prot);'',
      ''	entry = maybe_pmd_mkwrite(pmd_mkdirty(entry), vma);'',
      ''	page_add_new_anon_rmap(page, vma, haddr, true);'',
      ''	lru_cache_add_inactive_or_unevictable(page, vma);'',
      ''	pgtable_trans_huge_deposit(vma->vm_mm, pmd, pgtable);'',
      ''	set_pmd_at(vma->vm_mm, haddr, pmd, entry);'',
      ''	update_mmu_cache_pmd(vma, address, pmd);'',
      ''	add_mm_counter(vma->vm_mm, MM_ANONPAGES, HPAGE_PMD_NR);'',
      ''	mm_inc_nr_ptes(vma->vm_mm);'',
      ''	count_vm_event(THP_FAULT_ALLOC);'',
      ''	count_memcg_event_mm(vma->vm_mm, THP_FAULT_ALLOC);'',
      ''}'',
      [],
      ''static vm_fault_t abk_do_huge_pmd_anonymous_zero_page(struct vm_fault *vmf,'',
      ''					      unsigned long haddr)'',
      ''{'',
      ''	struct vm_area_struct *vma = vmf->vma;'',
      ''	pgtable_t pgtable;'',
      ''	struct page *zero_page;'',
      ''	vm_fault_t ret;'',
      [],
      ''	pgtable = pte_alloc_one(vma->vm_mm);'',
      ''	if (unlikely(!pgtable))'',
      ''		return VM_FAULT_OOM;'',
      ''	zero_page = mm_get_huge_zero_page(vma->vm_mm);'',
      ''	if (unlikely(!zero_page)) {'',
      ''		pte_free(vma->vm_mm, pgtable);'',
      ''		return abk_thp_fault_fallback(false);'',
      ''	}'',
      ''	vmf->ptl = pmd_lock(vma->vm_mm, vmf->pmd);'',
      ''	ret = 0;'',
      ''	if (pmd_none(*vmf->pmd)) {'',
      ''		ret = check_stable_address_space(vma->vm_mm);'',
      ''		if (ret) {'',
      ''			spin_unlock(vmf->ptl);'',
      ''			pte_free(vma->vm_mm, pgtable);'',
      ''		} else if (userfaultfd_missing(vma)) {'',
      ''			spin_unlock(vmf->ptl);'',
      ''			pte_free(vma->vm_mm, pgtable);'',
      ''			ret = handle_userfault(vmf, VM_UFFD_MISSING);'',
      ''			VM_BUG_ON(ret & VM_FAULT_FALLBACK);'',
      ''		} else {'',
      ''			set_huge_zero_page(pgtable, vma->vm_mm, vma,'',
      ''					   haddr, vmf->pmd, zero_page);'',
      ''			update_mmu_cache_pmd(vma, vmf->address, vmf->pmd);'',
      ''			spin_unlock(vmf->ptl);'',
      ''		}'',
      ''	} else {'',
      ''		spin_unlock(vmf->ptl);'',
      ''		pte_free(vma->vm_mm, pgtable);'',
      ''	}'',
      ''	return ret;'',
      ''}'',
      []]\<close>

definition b15m_B_DO_HUGE :: str where
  \<open>b15m_B_DO_HUGE = block
     [''static vm_fault_t __do_huge_pmd_anonymous_page(struct vm_fault *vmf,'',
      ''			struct page *page, gfp_t gfp)'',
      ''{'',
      ''	struct vm_area_struct *vma = vmf->vma;'',
      ''	pgtable_t pgtable;'',
      ''	unsigned long haddr = vmf->address & HPAGE_PMD_MASK;'',
      ''	vm_fault_t ret = 0;'',
      [],
      ''	VM_BUG_ON_PAGE(!PageCompound(page), page);'',
      [],
      ''	if (mem_cgroup_charge(page, vma->vm_mm, gfp)) {'',
      ''		put_page(page);'',
      ''		count_vm_event(THP_FAULT_FALLBACK);'',
      ''		count_vm_event(THP_FAULT_FALLBACK_CHARGE);'',
      ''		return VM_FAULT_FALLBACK;'',
      ''	}'',
      ''	cgroup_throttle_swaprate(page, gfp);'',
      [],
      ''	pgtable = pte_alloc_one(vma->vm_mm);'',
      ''	if (unlikely(!pgtable)) {'',
      ''		ret = VM_FAULT_OOM;'',
      ''		goto release;'',
      ''	}'',
      [],
      ''	clear_huge_page(page, vmf->address, HPAGE_PMD_NR);'',
      ''	/*'',
      ''	 * The memory barrier inside __SetPageUptodate makes sure that'',
      ''	 * clear_huge_page writes become visible before the set_pmd_at()'',
      ''	 * write.'',
      ''	 */'',
      ''	__SetPageUptodate(page);'',
      [],
      ''	vmf->ptl = pmd_lock(vma->vm_mm, vmf->pmd);'',
      ''	if (unlikely(!pmd_none(*vmf->pmd))) {'',
      ''		goto unlock_release;'',
      ''	} else {'',
      ''		pmd_t entry;'',
      [],
      ''		ret = check_stable_address_space(vma->vm_mm);'',
      ''		if (ret)'',
      ''			goto unlock_release;'',
      [],
      ''		/* Deliver the page fault to userland */'',
      ''		if (userfaultfd_missing(vma)) {'',
      ''			spin_unlock(vmf->ptl);'',
      ''			put_page(page);'',
      ''			pte_free(vma->vm_mm, pgtable);'',
      ''			ret = handle_userfault(vmf, VM_UFFD_MISSING);'',
      ''			VM_BUG_ON(ret & VM_FAULT_FALLBACK);'',
      ''			return ret;'',
      ''		}'',
      [],
      ''		entry = mk_huge_pmd(page, vma->vm_page_prot);'',
      ''		entry = maybe_pmd_mkwrite(pmd_mkdirty(entry), vma);'',
      ''		page_add_new_anon_rmap(page, vma, haddr, true);'',
      ''		lru_cache_add_inactive_or_unevictable(page, vma);'',
      ''		pgtable_trans_huge_deposit(vma->vm_mm, vmf->pmd, pgtable);'',
      ''		set_pmd_at(vma->vm_mm, haddr, vmf->pmd, entry);'',
      ''		update_mmu_cache_pmd(vma, vmf->address, vmf->pmd);'',
      ''		add_mm_counter(vma->vm_mm, MM_ANONPAGES, HPAGE_PMD_NR);'',
      ''		mm_inc_nr_ptes(vma->vm_mm);'',
      ''		spin_unlock(vmf->ptl);'',
      ''		count_vm_event(THP_FAULT_ALLOC);'',
      ''		count_memcg_event_mm(vma->vm_mm, THP_FAULT_ALLOC);'',
      ''	}'',
      [],
      ''	return 0;'',
      ''unlock_release:'',
      ''	spin_unlock(vmf->ptl);'',
      ''release:'',
      ''	if (pgtable)'',
      ''		pte_free(vma->vm_mm, pgtable);'',
      ''	put_page(page);'',
      ''	return ret;'',
      [],
      ''}'',
      []]\<close>

definition b15m_B_DO_HUGE_NEW :: str where
  \<open>b15m_B_DO_HUGE_NEW = block
     [''static vm_fault_t __do_huge_pmd_anonymous_page(struct vm_fault *vmf,'',
      ''			struct page *page, gfp_t gfp)'',
      ''{'',
      ''	/*'',
      ''	 * ABK stable_515_backport: hugepage_fault_alloc_fastpath -- the charge,'',
      ''	 * clear/uptodate prep and PMD map steps are factored into the'',
      ''	 * page-typed helpers above; the OOM, userfaultfd and release paths are'',
      ''	 * unchanged.'',
      ''	 */'',
      ''	struct vm_area_struct *vma = vmf->vma;'',
      ''	pgtable_t pgtable;'',
      ''	unsigned long haddr = vmf->address & HPAGE_PMD_MASK;'',
      ''	vm_fault_t ret;'',
      [],
      ''	VM_BUG_ON_PAGE(!PageCompound(page), page);'',
      [],
      ''	ret = abk_thp_fault_charge_page(page, vma, gfp);'',
      ''	if (ret)'',
      ''		return ret;'',
      [],
      ''	pgtable = pte_alloc_one(vma->vm_mm);'',
      ''	if (unlikely(!pgtable)) {'',
      ''		ret = VM_FAULT_OOM;'',
      ''		goto release;'',
      ''	}'',
      [],
      ''	abk_prep_anon_thp_page(page, vmf->address);'',
      [],
      ''	vmf->ptl = pmd_lock(vma->vm_mm, vmf->pmd);'',
      ''	if (unlikely(!pmd_none(*vmf->pmd)))'',
      ''		goto unlock_release;'',
      [],
      ''	ret = check_stable_address_space(vma->vm_mm);'',
      ''	if (ret)'',
      ''		goto unlock_release;'',
      [],
      ''	/* Deliver the page fault to userland */'',
      ''	if (userfaultfd_missing(vma)) {'',
      ''		spin_unlock(vmf->ptl);'',
      ''		put_page(page);'',
      ''		pte_free(vma->vm_mm, pgtable);'',
      ''		ret = handle_userfault(vmf, VM_UFFD_MISSING);'',
      ''		VM_BUG_ON(ret & VM_FAULT_FALLBACK);'',
      ''		return ret;'',
      ''	}'',
      [],
      ''	abk_map_anon_page_pmd(page, pgtable, vmf->pmd, vma,'',
      ''			      haddr, vmf->address);'',
      ''	spin_unlock(vmf->ptl);'',
      ''	return 0;'',
      [],
      ''unlock_release:'',
      ''	spin_unlock(vmf->ptl);'',
      ''release:'',
      ''	if (pgtable)'',
      ''		pte_free(vma->vm_mm, pgtable);'',
      ''	put_page(page);'',
      ''	return ret;'',
      [],
      ''}'',
      []]\<close>

definition b15m_B_ENTRY :: str where
  \<open>b15m_B_ENTRY = block
     [''vm_fault_t do_huge_pmd_anonymous_page(struct vm_fault *vmf)'',
      ''{'',
      ''	struct vm_area_struct *vma = vmf->vma;'',
      ''	gfp_t gfp;'',
      ''	struct page *page;'',
      ''	unsigned long haddr = vmf->address & HPAGE_PMD_MASK;'',
      [],
      ''	if (!transhuge_vma_suitable(vma, haddr))'',
      ''		return VM_FAULT_FALLBACK;'',
      ''	if (unlikely(anon_vma_prepare(vma)))'',
      ''		return VM_FAULT_OOM;'',
      ''	if (unlikely(khugepaged_enter(vma, vma->vm_flags)))'',
      ''		return VM_FAULT_OOM;'',
      ''	if (!(vmf->flags & FAULT_FLAG_WRITE) &&'',
      ''			!mm_forbids_zeropage(vma->vm_mm) &&'',
      ''			transparent_hugepage_use_zero_page()) {'',
      ''		pgtable_t pgtable;'',
      ''		struct page *zero_page;'',
      ''		vm_fault_t ret;'',
      ''		pgtable = pte_alloc_one(vma->vm_mm);'',
      ''		if (unlikely(!pgtable))'',
      ''			return VM_FAULT_OOM;'',
      ''		zero_page = mm_get_huge_zero_page(vma->vm_mm);'',
      ''		if (unlikely(!zero_page)) {'',
      ''			pte_free(vma->vm_mm, pgtable);'',
      ''			count_vm_event(THP_FAULT_FALLBACK);'',
      ''			return VM_FAULT_FALLBACK;'',
      ''		}'',
      ''		vmf->ptl = pmd_lock(vma->vm_mm, vmf->pmd);'',
      ''		ret = 0;'',
      ''		if (pmd_none(*vmf->pmd)) {'',
      ''			ret = check_stable_address_space(vma->vm_mm);'',
      ''			if (ret) {'',
      ''				spin_unlock(vmf->ptl);'',
      ''				pte_free(vma->vm_mm, pgtable);'',
      ''			} else if (userfaultfd_missing(vma)) {'',
      ''				spin_unlock(vmf->ptl);'',
      ''				pte_free(vma->vm_mm, pgtable);'',
      ''				ret = handle_userfault(vmf, VM_UFFD_MISSING);'',
      ''				VM_BUG_ON(ret & VM_FAULT_FALLBACK);'',
      ''			} else {'',
      ''				set_huge_zero_page(pgtable, vma->vm_mm, vma,'',
      ''						   haddr, vmf->pmd, zero_page);'',
      ''				update_mmu_cache_pmd(vma, vmf->address, vmf->pmd);'',
      ''				spin_unlock(vmf->ptl);'',
      ''			}'',
      ''		} else {'',
      ''			spin_unlock(vmf->ptl);'',
      ''			pte_free(vma->vm_mm, pgtable);'',
      ''		}'',
      ''		return ret;'',
      ''	}'',
      ''	gfp = vma_thp_gfp_mask(vma);'',
      ''	page = alloc_hugepage_vma(gfp, vma, haddr, HPAGE_PMD_ORDER);'',
      ''	if (unlikely(!page)) {'',
      ''		count_vm_event(THP_FAULT_FALLBACK);'',
      ''		return VM_FAULT_FALLBACK;'',
      ''	}'',
      ''	prep_transhuge_page(page);'',
      ''	return __do_huge_pmd_anonymous_page(vmf, page, gfp);'',
      ''}'',
      []]\<close>

definition b15m_B_ENTRY_NEW :: str where
  \<open>b15m_B_ENTRY_NEW = block
     [''vm_fault_t do_huge_pmd_anonymous_page(struct vm_fault *vmf)'',
      ''{'',
      ''	/*'',
      ''	 * ABK stable_515_backport: hugepage_fault_alloc_fastpath -- the vma'',
      ''	 * checks, the huge zero page branch, the allocation and the fallback'',
      ''	 * accounting all live in the file-local helpers above.  The THP'',
      ''	 * fault-fallback events and the PMD fault routing are unchanged.'',
      ''	 */'',
      ''	struct vm_area_struct *vma = vmf->vma;'',
      ''	gfp_t gfp;'',
      ''	struct page *page;'',
      ''	unsigned long haddr = vmf->address & HPAGE_PMD_MASK;'',
      ''	vm_fault_t ret;'',
      [],
      ''	ret = abk_thp_fault_prepare(vmf, haddr);'',
      ''	if (ret)'',
      ''		return ret;'',
      [],
      ''	if (!(vmf->flags & FAULT_FLAG_WRITE) &&'',
      ''			!mm_forbids_zeropage(vma->vm_mm) &&'',
      ''			transparent_hugepage_use_zero_page())'',
      ''		return abk_do_huge_pmd_anonymous_zero_page(vmf, haddr);'',
      [],
      ''	page = abk_thp_fault_alloc_page(vma, haddr, &gfp);'',
      ''	if (unlikely(!page))'',
      ''		return abk_thp_fault_fallback(false);'',
      ''	return __do_huge_pmd_anonymous_page(vmf, page, gfp);'',
      ''}'',
      []]\<close>

definition b15m_B_MEMORY :: str where
  \<open>b15m_B_MEMORY = block
     [''static inline vm_fault_t create_huge_pmd(struct vm_fault *vmf)'',
      ''{'',
      ''	if (vma_is_anonymous(vmf->vma))'',
      ''		return do_huge_pmd_anonymous_page(vmf);'',
      ''	if (vmf->vma->vm_ops->huge_fault)'',
      ''		return vmf->vma->vm_ops->huge_fault(vmf, PE_SIZE_PMD);'',
      ''	return VM_FAULT_FALLBACK;'',
      ''}'',
      []]\<close>

definition b15m_B_MEMORY_NEW :: str where
  \<open>b15m_B_MEMORY_NEW = block
     [''/* ABK stable_515_backport: hugepage fault alloc fastpath routing helper. */'',
      ''static inline vm_fault_t abk_create_anonymous_huge_pmd(struct vm_fault *vmf)'',
      ''{'',
      ''	return do_huge_pmd_anonymous_page(vmf);'',
      ''}'',
      [],
      ''static inline vm_fault_t create_huge_pmd(struct vm_fault *vmf)'',
      ''{'',
      ''	if (vma_is_anonymous(vmf->vma))'',
      ''		return abk_create_anonymous_huge_pmd(vmf);'',
      ''	if (vmf->vma->vm_ops->huge_fault)'',
      ''		return vmf->vma->vm_ops->huge_fault(vmf, PE_SIZE_PMD);'',
      ''	return VM_FAULT_FALLBACK;'',
      ''}'',
      []]\<close>

definition b15m_build_slab_alloc_free_steps_step1 :: step where
  \<open>b15m_build_slab_alloc_free_steps_step1 =
   (b15m_SLUB_C,
    b15m_A_HELPER,
    b15m_A_HELPER_NEW, True)\<close>

definition b15m_build_slab_alloc_free_steps_step2 :: step where
  \<open>b15m_build_slab_alloc_free_steps_step2 =
   (b15m_SLUB_C,
    b15m_A_ALLOC_FAST,
    b15m_A_ALLOC_FAST_NEW, True)\<close>

definition b15m_build_slab_alloc_free_steps_step3 :: step where
  \<open>b15m_build_slab_alloc_free_steps_step3 =
   (b15m_SLUB_C,
    b15m_A_BULK_DECL,
    b15m_A_BULK_DECL_NEW, True)\<close>

definition b15m_build_slab_alloc_free_steps_step4 :: step where
  \<open>b15m_build_slab_alloc_free_steps_step4 =
   (b15m_SLUB_C,
    b15m_A_BULK_USE,
    b15m_A_BULK_USE_NEW, True)\<close>

definition b15m_build_slab_alloc_free_steps_step5 :: step where
  \<open>b15m_build_slab_alloc_free_steps_step5 =
   (b15m_SLUB_C,
    b15m_A_KFREE,
    b15m_A_KFREE_NEW, True)\<close>

definition b15m_build_slab_alloc_free_steps :: "step list" where
  \<open>b15m_build_slab_alloc_free_steps = [b15m_build_slab_alloc_free_steps_step1, b15m_build_slab_alloc_free_steps_step2, b15m_build_slab_alloc_free_steps_step3, b15m_build_slab_alloc_free_steps_step4, b15m_build_slab_alloc_free_steps_step5]\<close>

lemma b15m_build_slab_alloc_free_steps_files: "steps_files b15m_build_slab_alloc_free_steps = {b15m_SLUB_C}"
  by (simp add: b15m_build_slab_alloc_free_steps_def steps_files_fst insert_commute
      step_file [OF b15m_build_slab_alloc_free_steps_step1_def]
      step_file [OF b15m_build_slab_alloc_free_steps_step2_def]
      step_file [OF b15m_build_slab_alloc_free_steps_step3_def]
      step_file [OF b15m_build_slab_alloc_free_steps_step4_def]
      step_file [OF b15m_build_slab_alloc_free_steps_step5_def])

lemma b15m_build_slab_alloc_free_steps_required: "all_required b15m_build_slab_alloc_free_steps"
  by (simp add: b15m_build_slab_alloc_free_steps_def all_required_def
      step_req [OF b15m_build_slab_alloc_free_steps_step1_def]
      step_req [OF b15m_build_slab_alloc_free_steps_step2_def]
      step_req [OF b15m_build_slab_alloc_free_steps_step3_def]
      step_req [OF b15m_build_slab_alloc_free_steps_step4_def]
      step_req [OF b15m_build_slab_alloc_free_steps_step5_def])

definition b15m_build_hugepage_fault_alloc_steps_step1 :: step where
  \<open>b15m_build_hugepage_fault_alloc_steps_step1 =
   (b15m_HUGE_C,
    b15m_B_HELPERS,
    b15m_B_HELPERS_NEW, True)\<close>

definition b15m_build_hugepage_fault_alloc_steps_step2 :: step where
  \<open>b15m_build_hugepage_fault_alloc_steps_step2 =
   (b15m_HUGE_C,
    b15m_B_DO_HUGE,
    b15m_B_DO_HUGE_NEW, True)\<close>

definition b15m_build_hugepage_fault_alloc_steps_step3 :: step where
  \<open>b15m_build_hugepage_fault_alloc_steps_step3 =
   (b15m_HUGE_C,
    b15m_B_ENTRY,
    b15m_B_ENTRY_NEW, True)\<close>

definition b15m_build_hugepage_fault_alloc_steps_step4 :: step where
  \<open>b15m_build_hugepage_fault_alloc_steps_step4 =
   (b15m_MEMORY_C,
    b15m_B_MEMORY,
    b15m_B_MEMORY_NEW, True)\<close>

definition b15m_build_hugepage_fault_alloc_steps :: "step list" where
  \<open>b15m_build_hugepage_fault_alloc_steps = [b15m_build_hugepage_fault_alloc_steps_step1, b15m_build_hugepage_fault_alloc_steps_step2, b15m_build_hugepage_fault_alloc_steps_step3, b15m_build_hugepage_fault_alloc_steps_step4]\<close>

lemma b15m_build_hugepage_fault_alloc_steps_files: "steps_files b15m_build_hugepage_fault_alloc_steps = {b15m_HUGE_C, b15m_MEMORY_C}"
  by (simp add: b15m_build_hugepage_fault_alloc_steps_def steps_files_fst insert_commute
      step_file [OF b15m_build_hugepage_fault_alloc_steps_step1_def]
      step_file [OF b15m_build_hugepage_fault_alloc_steps_step2_def]
      step_file [OF b15m_build_hugepage_fault_alloc_steps_step3_def]
      step_file [OF b15m_build_hugepage_fault_alloc_steps_step4_def])

lemma b15m_build_hugepage_fault_alloc_steps_required: "all_required b15m_build_hugepage_fault_alloc_steps"
  by (simp add: b15m_build_hugepage_fault_alloc_steps_def all_required_def
      step_req [OF b15m_build_hugepage_fault_alloc_steps_step1_def]
      step_req [OF b15m_build_hugepage_fault_alloc_steps_step2_def]
      step_req [OF b15m_build_hugepage_fault_alloc_steps_step3_def]
      step_req [OF b15m_build_hugepage_fault_alloc_steps_step4_def])

definition b15m_slab_alloc_free_apply :: "outcome io" where
  \<open>b15m_slab_alloc_free_apply =
    io_try is_fnf (ctx_read b15m_SLUB_C)
      (\<lambda>e. io_ret (BlockedByShape, b15m_SLUB_C @ '': file absent''))
      (\<lambda>text.
    io_bind (suite_touched b15m_SLUB_C) (\<lambda>b1.
    if b1 then io_ret (SkipSuiteProcessed, b15m_SLUB_C @ '' already carries ABK_ABI_PATCH_SUITE markers'')
    else
    case find (\<lambda>(probe, why). \<not> contains probe text)
          [(''static __always_inline void *slab_alloc_node(struct kmem_cache *s,'', ''slab_alloc_node()''),
           (''int kmem_cache_alloc_bulk(struct kmem_cache *s, gfp_t flags, size_t size,'', ''kmem_cache_alloc_bulk()''),
           (''void kmem_cache_free(struct kmem_cache *s, void *x)'', ''kmem_cache_free()''),
           (''static __always_inline void maybe_wipe_obj_freeptr(struct kmem_cache *s,'', ''maybe_wipe_obj_freeptr()'')] of
        Some (probe, why) \<Rightarrow> io_ret (BlockedByShape, why @ '' not found in '' @ b15m_SLUB_C)
      | None \<Rightarrow>
    apply_or_block b15m_build_slab_alloc_free_steps))\<close>

lemma b15m_slab_alloc_free_apply_txn: "transactional (\<lambda>_. {b15m_SLUB_C}) b15m_slab_alloc_free_apply"
  unfolding b15m_slab_alloc_free_apply_def
  by (intro txn_intros safe_intros)
    (simp_all add: is_backup_code BACKUP_SUFFIX_def b15m_build_slab_alloc_free_steps_files b15m_SLUB_C_def)

definition b15m_hugepage_fault_alloc_apply :: "outcome io" where
  \<open>b15m_hugepage_fault_alloc_apply =
    io_try is_fnf (io_bind (ctx_read b15m_HUGE_C) (\<lambda>huge_text. io_bind (ctx_read b15m_MEMORY_C) (\<lambda>memory_text. io_ret (huge_text, memory_text))))
      (\<lambda>e. io_bind (exc_text e) (\<lambda>msg. io_ret (BlockedByShape, ''target file absent: '' @ msg)))
      (\<lambda>(huge_text, memory_text).
    io_bind ((io_or (suite_touched b15m_HUGE_C) (suite_touched b15m_MEMORY_C))) (\<lambda>b1.
    if b1 then io_ret (SkipSuiteProcessed, b15m_HUGE_C @ ''/'' @ b15m_MEMORY_C @ '' already carry ABK_ABI_PATCH_SUITE markers'')
    else
    case find (\<lambda>(probe, why). \<not> contains probe huge_text)
          [(block
          [''EXPORT_SYMBOL_GPL(thp_get_unmapped_area);'',
           []], ''thp_get_unmapped_area() (helper insert point)''),
           (block
          [''static vm_fault_t __do_huge_pmd_anonymous_page(struct vm_fault *vmf,'',
           ''			struct page *page, gfp_t gfp)'',
           ''{''], ''the page-typed __do_huge_pmd_anonymous_page() (5.15 shape)''),
           (block
          [''vm_fault_t do_huge_pmd_anonymous_page(struct vm_fault *vmf)'',
           ''{''], ''do_huge_pmd_anonymous_page()'')] of
        Some (probe, why) \<Rightarrow> io_ret (BlockedByShape, why @ '' not found in '' @ b15m_HUGE_C)
      | None \<Rightarrow>
    if \<not> (contains (block
     [''	if (vma_is_anonymous(vmf->vma))'',
      ''		return do_huge_pmd_anonymous_page(vmf);'']) memory_text \<or> contains ''		return abk_create_anonymous_huge_pmd(vmf);'' memory_text)
    then io_ret (BlockedByShape, ''the 5.15 create_huge_pmd() body (no FAULT_FLAG_VMA_LOCK arm) not found in '' @ b15m_MEMORY_C)
    else
    apply_or_block b15m_build_hugepage_fault_alloc_steps))\<close>

lemma b15m_hugepage_fault_alloc_apply_txn: "transactional (\<lambda>_. {b15m_HUGE_C, b15m_MEMORY_C}) b15m_hugepage_fault_alloc_apply"
  unfolding b15m_hugepage_fault_alloc_apply_def
  by (intro txn_intros safe_intros)
    (simp_all add: is_backup_code BACKUP_SUFFIX_def b15m_build_hugepage_fault_alloc_steps_files b15m_HUGE_C_def b15m_MEMORY_C_def)

definition slab_alloc_free_hotpath_group :: group where
  \<open>slab_alloc_free_hotpath_group =
    \<lparr>key = ''slab_alloc_free_hotpath'',
     summary = ''share one next-object helper (with freepointer prefetch) between the single-object and bulk SLUB allocation fastpaths, and resolve the slab handle once in kmem_cache_free() before cache_from_obj() reassigns the cache (5.15 page-typed adaptation of ABK_ABI_PATCH_SUITE\'s slab_alloc_free_hotpath)'',
     commits = [''ABK_ABI_PATCH_SUITE slab_alloc_free_hotpath (patch_slab_alloc_free_hotpath, lines 2519-2653)'',
      ''no upstream commit: the suite\'s own mm/slub.c hotpath graft, re-anchored onto the 5.15 6-argument slab_free() shape''],
     group_files = [b15m_SLUB_C],
     apply_fn = b15m_slab_alloc_free_apply, hard = False\<rparr>\<close>

lemma slab_alloc_free_hotpath_group_declared [simp]: "well_declared slab_alloc_free_hotpath_group"
  by (rule well_declaredI [OF b15m_slab_alloc_free_apply_txn]) (simp_all add: is_backup_code BACKUP_SUFFIX_def slab_alloc_free_hotpath_group_def b15m_SLUB_C_def)

definition hugepage_fault_alloc_fastpath_group :: group where
  \<open>hugepage_fault_alloc_fastpath_group =
    \<lparr>key = ''hugepage_fault_alloc_fastpath'',
     summary = ''split anonymous THP fault-time allocation into file-local prepare / fallback / alloc / charge / prep / map helpers and route mm/memory.c\'s anonymous huge-PMD branch through its own helper, keeping THP fault-fallback accounting and PMD fault routing intact (5.15 page-typed adaptation of ABK_ABI_PATCH_SUITE\'s hugepage_fault_alloc_fastpath)'',
     commits = [''ABK_ABI_PATCH_SUITE hugepage_fault_alloc_fastpath (patch_hugepage_fault_alloc_fastpath, lines 2655-2772)'',
      ''no upstream commit: the suite\'s own file-local helper split, shipped in its 5.15 branch (page-typed, khugepaged_enter() return value preserved)''],
     group_files = [b15m_HUGE_C,
      b15m_MEMORY_C],
     apply_fn = b15m_hugepage_fault_alloc_apply, hard = False\<rparr>\<close>

lemma hugepage_fault_alloc_fastpath_group_declared [simp]: "well_declared hugepage_fault_alloc_fastpath_group"
  by (rule well_declaredI [OF b15m_hugepage_fault_alloc_apply_txn]) (simp_all add: is_backup_code BACKUP_SUFFIX_def hugepage_fault_alloc_fastpath_group_def b15m_HUGE_C_def b15m_MEMORY_C_def)

definition b15m_build_groups :: "group list" where
  \<open>b15m_build_groups = [slab_alloc_free_hotpath_group, hugepage_fault_alloc_fastpath_group]\<close>

end
