(* ===== verification/Batch17_Zram_Writeback.thy ===== *)
theory Batch17_Zram_Writeback
  imports Registry_Laws
begin

text \<open>
  The anchors, steps and groups of \<^verbatim>\<open>scripts/batch17_core_zram_writeback.py\<close>, in source order.
\<close>

definition b17_ZRAM_C :: str where
  \<open>b17_ZRAM_C = ''drivers/block/zram/zram_drv.c''\<close>

definition b17_ZRAM_H :: str where
  \<open>b17_ZRAM_H = ''drivers/block/zram/zram_drv.h''\<close>

definition b17_A_INC_OLD :: str where
  \<open>b17_A_INC_OLD = block
     [''#include <linux/highmem.h>'',
      ''#include <linux/slab.h>'',
      []]\<close>

definition b17_A_INC_NEW :: str where
  \<open>b17_A_INC_NEW = block
     [''#include <linux/highmem.h>'',
      ''/* ABK stable_515_backport: bf62f69574b1 -- kfree_rcu()/rcu_read_lock(). */'',
      ''#include <linux/rcupdate.h>'',
      ''#include <linux/slab.h>'',
      []]\<close>

definition b17_A_FIELDS_OLD :: str where
  \<open>b17_A_FIELDS_OLD = block
     [''	bool wb_limit_enable;'',
      ''	u64 bd_wb_limit;'',
      []]\<close>

definition b17_A_FIELDS_NEW :: str where
  \<open>b17_A_FIELDS_NEW = block
     [''	bool wb_limit_enable;'',
      ''	/*'',
      ''	 * ABK stable_515_backport: e828cccb72ed, d38fab605c66.  wb_batch_size'',
      ''	 * is the maximum number of in-flight writeback bios (upstream default'',
      ''	 * 32); wb_compressed selects compressed (raw object) writeback, i.e.'',
      ''	 * upstream\'s compressed_writeback attribute.'',
      ''	 */'',
      ''	bool wb_compressed;'',
      ''	u32 wb_batch_size;'',
      ''	u64 bd_wb_limit;'',
      []]\<close>

definition b17_A_HELPERS_OLD :: str where
  \<open>b17_A_HELPERS_OLD = block
     [''#define PAGE_WB_SIG "page_index="'',
      []]\<close>

definition b17_A_HELPERS_NEW_lines1 :: "str list" where
  \<open>b17_A_HELPERS_NEW_lines1 =
     [''/*'',
      '' * ABK stable_515_backport: f405066a1f0d (+ bf62f69574b1, 3e8d8eb8d7f5).'',
      '' * Writeback bio batching, re-anchored to the 5.15 shape.  Upstream drives'',
      '' * this from its post-processing slot machinery (zram_pp_ctl/zram_pp_slot),'',
      '' * which 5.15 does not have, so the in-flight window is expressed with the'',
      '' * markers 5.15 already uses for it: ZRAM_UNDER_WB keeps concurrent'',
      '' * recompression (recompress_store(), abk_zram_recomp_work()) off the slot,'',
      '' * and ZRAM_IDLE is the "slot neither freed nor rewritten" snapshot that'',
      '' * zram_free_page() invalidates.'',
      '' *'',
      '' * A batch lives for one writeback_store() invocation and is always drained'',
      '' * before init_lock is dropped, so a reset or a device removal -- both of'',
      '' * which need the write lock and then free the table -- can never run against'',
      '' * an in-flight bio.'',
      '' */'',
      ''struct zram_wb_ctl {'',
      ''	/* idle list is accessed only by the writeback task, no concurrency */'',
      ''	struct list_head idle_reqs;'',
      ''	/* done list is accessed concurrently, protected by done_lock */'',
      ''	struct list_head done_reqs;'',
      ''	wait_queue_head_t done_wait;'',
      ''	spinlock_t done_lock;'',
      ''	atomic_t num_inflight;'',
      ''	struct rcu_head rcu;'',
      ''};'',
      [],
      ''struct zram_wb_req {'',
      ''	unsigned long blk_idx;'',
      ''	/* 5.15 has no post-processing slot handle: carry the index instead */'',
      ''	u32 index;'',
      ''	struct page *page;'',
      ''	struct bio_vec bio_vec;'',
      ''	struct bio bio;'',
      ''	struct list_head entry;'',
      ''};'',
      [],
      ''static void release_wb_req(struct zram_wb_req *req)'',
      ''{'',
      ''	__free_page(req->page);'',
      ''	kfree(req);'',
      ''}'',
      [],
      ''static void release_wb_ctl(struct zram_wb_ctl *wb_ctl)'',
      ''{'',
      ''	if (!wb_ctl)'',
      ''		return;'',
      [],
      ''	/* We should never have inflight requests at this point */'',
      ''	WARN_ON(atomic_read(&wb_ctl->num_inflight));'',
      ''	WARN_ON(!list_empty(&wb_ctl->done_reqs));'',
      [],
      ''	while (!list_empty(&wb_ctl->idle_reqs)) {'',
      ''		struct zram_wb_req *req;'',
      [],
      ''		req = list_first_entry(&wb_ctl->idle_reqs,'',
      ''				       struct zram_wb_req, entry);'',
      ''		list_del(&req->entry);'',
      ''		release_wb_req(req);'',
      ''	}'',
      [],
      ''	/*'',
      ''	 * ABK stable_515_backport: bf62f69574b1.  A completion callback can be'',
      ''	 * preempted between queueing its request and wake_up(), so the control'',
      ''	 * block is freed through RCU and the callback runs under rcu_read_lock()'',
      ''	 * -- see zram_writeback_endio() below.'',
      ''	 */'',
      ''	kfree_rcu(wb_ctl, rcu);'',
      ''}'',
      [],
      ''static struct zram_wb_ctl *init_wb_ctl(struct zram *zram)'',
      ''{'',
      ''	struct zram_wb_ctl *wb_ctl;'',
      ''	int i;'',
      [],
      ''	wb_ctl = kmalloc(sizeof(*wb_ctl), GFP_KERNEL);'',
      ''	if (!wb_ctl)'',
      ''		return NULL;'',
      [],
      ''	INIT_LIST_HEAD(&wb_ctl->idle_reqs);'',
      ''	INIT_LIST_HEAD(&wb_ctl->done_reqs);'',
      ''	atomic_set(&wb_ctl->num_inflight, 0);'',
      ''	init_waitqueue_head(&wb_ctl->done_wait);'',
      ''	spin_lock_init(&wb_ctl->done_lock);'',
      [],
      ''	for (i = 0; i < zram->wb_batch_size; i++) {'',
      ''		struct zram_wb_req *req;'',
      [],
      ''		/*'',
      ''		 * This is fatal only if we could not allocate a single request:'',
      ''		 * otherwise writeback proceeds with the requests that did'',
      ''		 * allocate, even if there is only one.'',
      ''		 */'',
      ''		req = kzalloc(sizeof(*req), GFP_KERNEL | __GFP_NOWARN);'',
      ''		if (!req)'',
      ''			break;'',
      [],
      ''		req->page = alloc_page(GFP_KERNEL | __GFP_NOWARN);'',
      ''		if (!req->page) {'',
      ''			kfree(req);'',
      ''			break;'',
      ''		}'',
      [],
      ''		list_add(&req->entry, &wb_ctl->idle_reqs);'',
      ''	}'',
      [],
      ''	/* We could not allocate any requests, so writeback is not possible */'',
      ''	if (list_empty(&wb_ctl->idle_reqs)) {'',
      ''		release_wb_ctl(wb_ctl);'',
      ''		return NULL;'',
      ''	}'',
      [],
      ''	return wb_ctl;'',
      ''}'',
      [],
      ''static void zram_account_writeback_rollback(struct zram *zram)'',
      ''{'',
      ''	spin_lock(&zram->wb_limit_lock);'',
      ''	if (zram->wb_limit_enable)'',
      ''		zram->bd_wb_limit += 1UL << (PAGE_SHIFT - 12);'',
      ''	spin_unlock(&zram->wb_limit_lock);'',
      ''}'',
      [],
      ''static void zram_account_writeback_submit(struct zram *zram)'',
      ''{'',
      ''	/*'',
      ''	 * The budget is charged before submission: with a batch of bios in'',
      ''	 * flight, charging after completion would overshoot the configured'',
      ''	 * writeback limit by up to wb_batch_size pages.'',
      ''	 */'',
      ''	spin_lock(&zram->wb_limit_lock);'',
      ''	if (zram->wb_limit_enable && zram->bd_wb_limit > 0)'',
      ''		zram->bd_wb_limit -= 1UL << (PAGE_SHIFT - 12);'',
      ''	spin_unlock(&zram->wb_limit_lock);'',
      ''}'',
      []]\<close>

definition b17_A_HELPERS_NEW_lines2 :: "str list" where
  \<open>b17_A_HELPERS_NEW_lines2 =
     [''/*'',
      '' * Runs in the writeback task (from zram_complete_done_reqs()), never from the'',
      '' * bio completion callback: zram_slot_lock() is a bit spin lock and the'',
      '' * writeback limit accounting takes zram->wb_limit_lock, so neither may be'',
      '' * taken from IRQ context.'',
      '' */'',
      ''static int zram_writeback_complete(struct zram *zram, struct zram_wb_req *req)'',
      ''{'',
      ''	u32 index = req->index;'',
      ''	u32 size = 0, prio = 0;'',
      ''	bool huge = false;'',
      ''	int err;'',
      [],
      ''	err = blk_status_to_errno(req->bio.bi_status);'',
      ''	if (err) {'',
      ''		/*'',
      ''		 * Failed writeback requests are not accounted in the writeback'',
      ''		 * limit (if enabled), and their block is released again.'',
      ''		 */'',
      ''		zram_account_writeback_rollback(zram);'',
      ''		free_block_bdev(zram, req->blk_idx);'',
      ''		zram_slot_lock(zram, index);'',
      ''		zram_clear_flag(zram, index, ZRAM_UNDER_WB);'',
      ''		zram_clear_flag(zram, index, ZRAM_IDLE);'',
      ''		zram_slot_unlock(zram, index);'',
      ''		return err;'',
      ''	}'',
      [],
      ''	if (zram->wb_compressed) {'',
      ''		/*'',
      ''		 * ABK stable_515_backport: d38fab605c66.  The backing device holds'',
      ''		 * the raw object, so the slot has to keep the metadata the read'',
      ''		 * path needs to decompress it: zram_free_page() clears all of it.'',
      ''		 */'',
      ''		size = zram_get_obj_size(zram, index);'',
      ''		prio = zram_get_priority(zram, index);'',
      ''		huge = zram_test_flag(zram, index, ZRAM_HUGE);'',
      ''	}'',
      [],
      ''	atomic64_inc(&zram->stats.bd_writes);'',
      ''	zram_slot_lock(zram, index);'',
      ''	/*'',
      ''	 * The slot lock was released for the bio, so the slot can have changed'',
      ''	 * under us: slot_free(), or slot_free() plus zram_write_page().  Both'',
      ''	 * clear ZRAM_IDLE (zram_free_page() clears it), and idle_store() never'',
      ''	 * sets ZRAM_IDLE on a ZRAM_UNDER_WB slot, so ZRAM_IDLE is a sound "this'',
      ''	 * is still the slot we read" test.'',
      ''	 */'',
      ''	if (!zram_allocated(zram, index) ||'',
      ''	    !zram_test_flag(zram, index, ZRAM_IDLE)) {'',
      ''		zram_clear_flag(zram, index, ZRAM_UNDER_WB);'',
      ''		zram_clear_flag(zram, index, ZRAM_IDLE);'',
      ''		free_block_bdev(zram, req->blk_idx);'',
      ''		goto out;'',
      ''	}'',
      [],
      ''	zram_free_page(zram, index);'',
      ''	zram_clear_flag(zram, index, ZRAM_UNDER_WB);'',
      ''	zram_set_flag(zram, index, ZRAM_WB);'',
      ''	zram_set_element(zram, index, req->blk_idx);'',
      [],
      ''	if (zram->wb_compressed) {'',
      ''		if (huge)'',
      ''			zram_set_flag(zram, index, ZRAM_HUGE);'',
      ''		zram_set_obj_size(zram, index, size);'',
      ''		zram_set_priority(zram, index, prio);'',
      ''	}'',
      [],
      ''	atomic64_inc(&zram->stats.pages_stored);'',
      ''out:'',
      ''	zram_slot_unlock(zram, index);'',
      ''	return 0;'',
      ''}'',
      [],
      ''static void zram_writeback_endio(struct bio *bio)'',
      ''{'',
      ''	struct zram_wb_req *req = container_of(bio, struct zram_wb_req, bio);'',
      ''	struct zram_wb_ctl *wb_ctl = bio->bi_private;'',
      ''	unsigned long flags;'',
      [],
      ''	/* ABK stable_515_backport: bf62f69574b1 -- see release_wb_ctl(). */'',
      ''	rcu_read_lock();'',
      ''	spin_lock_irqsave(&wb_ctl->done_lock, flags);'',
      ''	list_add(&req->entry, &wb_ctl->done_reqs);'',
      ''	spin_unlock_irqrestore(&wb_ctl->done_lock, flags);'',
      [],
      ''	wake_up(&wb_ctl->done_wait);'',
      ''	rcu_read_unlock();'',
      ''}'',
      [],
      ''static void zram_submit_wb_request(struct zram *zram,'',
      ''				   struct zram_wb_ctl *wb_ctl,'',
      ''				   struct zram_wb_req *req)'',
      ''{'',
      ''	zram_account_writeback_submit(zram);'',
      ''	atomic_inc(&wb_ctl->num_inflight);'',
      ''	req->bio.bi_private = wb_ctl;'',
      ''	submit_bio(&req->bio);'',
      ''}'',
      [],
      ''static int zram_complete_done_reqs(struct zram *zram,'',
      ''				   struct zram_wb_ctl *wb_ctl)'',
      ''{'',
      ''	struct zram_wb_req *req;'',
      ''	unsigned long flags;'',
      ''	int ret = 0, err;'',
      [],
      ''	while (atomic_read(&wb_ctl->num_inflight) > 0) {'',
      ''		spin_lock_irqsave(&wb_ctl->done_lock, flags);'',
      ''		req = list_first_entry_or_null(&wb_ctl->done_reqs,'',
      ''					       struct zram_wb_req, entry);'',
      ''		if (req)'',
      ''			list_del(&req->entry);'',
      ''		spin_unlock_irqrestore(&wb_ctl->done_lock, flags);'',
      [],
      ''		/* ->num_inflight > 0 doesn\'t mean we have done requests */'',
      ''		if (!req)'',
      ''			break;'',
      [],
      ''		err = zram_writeback_complete(zram, req);'',
      ''		if (err)'',
      ''			ret = err;'',
      [],
      ''		atomic_dec(&wb_ctl->num_inflight);'',
      ''		/*'',
      ''		 * The block index now belongs to the slot (success) or was released'',
      ''		 * (error, or the slot changed under us); clearing it keeps a'',
      ''		 * recycled request from releasing it a second time.'',
      ''		 */'',
      ''		req->blk_idx = 0;'',
      ''		list_add(&req->entry, &wb_ctl->idle_reqs);'',
      ''	}'',
      [],
      ''	return ret;'',
      ''}'']\<close>

definition b17_A_HELPERS_NEW_lines3 :: "str list" where
  \<open>b17_A_HELPERS_NEW_lines3 =
     [[],
      ''static struct zram_wb_req *zram_select_idle_req(struct zram_wb_ctl *wb_ctl)'',
      ''{'',
      ''	struct zram_wb_req *req;'',
      [],
      ''	req = list_first_entry_or_null(&wb_ctl->idle_reqs,'',
      ''				       struct zram_wb_req, entry);'',
      ''	if (req)'',
      ''		list_del(&req->entry);'',
      ''	return req;'',
      ''}'',
      [],
      ''/*'',
      '' * ABK stable_515_backport: d38fab605c66 (+ 3bf1c285dc40).  Copy the raw'',
      '' * compressed object straight into the page that will be submitted to the'',
      '' * backing device: no decompression on the writeback path.  Upstream'',
      '' * read_from_zspool_raw() uses the modern zs_obj_read_begin()/end() API, which'',
      '' * 5.15 does not have; zs_map_object() already hands back a contiguous copy of'',
      '' * the object (mm/zsmalloc.c per-cpu vm_buf is allocated precisely for objects'',
      '' * that span two physical pages), so the mapping IS the bounce buffer and'',
      '' * zstrm->local_copy has no 5.15 counterpart.'',
      '' *'',
      '' * Must be called with the slot lock held: the handle is stable, and the object'',
      '' * is pinned, only while the slot is locked.'',
      '' */'',
      ''static int zram_read_from_zspool_raw(struct zram *zram, struct page *page,'',
      ''				     u32 index)'',
      ''{'',
      ''	unsigned long handle = zram_get_handle(zram, index);'',
      ''	unsigned int size = zram_get_obj_size(zram, index);'',
      ''	void *src;'',
      [],
      ''	if (!handle || !size || size > PAGE_SIZE)'',
      ''		return -EINVAL;'',
      [],
      ''	src = zs_map_object(zram->mem_pool, handle, ZS_MM_RO);'',
      ''	memcpy_to_page(page, 0, src, size);'',
      ''	zs_unmap_object(zram->mem_pool, handle);'',
      [],
      ''	/* Do not leak whatever the page held before into the backing device. */'',
      ''	memzero_page(page, size, PAGE_SIZE - size);'',
      [],
      ''	return 0;'',
      ''}'',
      [],
      ''#define PAGE_WB_SIG "page_index="'',
      []]\<close>

definition b17_A_HELPERS_NEW :: str where
  \<open>b17_A_HELPERS_NEW = block (b17_A_HELPERS_NEW_lines1 @ b17_A_HELPERS_NEW_lines2 @ b17_A_HELPERS_NEW_lines3)\<close>

definition b17_A_DEFAULT_OLD :: str where
  \<open>b17_A_DEFAULT_OLD = block
     [''#ifdef CONFIG_ZRAM_WRITEBACK'',
      ''	spin_lock_init(&zram->wb_limit_lock);'',
      ''#endif'',
      []]\<close>

definition b17_A_DEFAULT_NEW :: str where
  \<open>b17_A_DEFAULT_NEW = block
     [''#ifdef CONFIG_ZRAM_WRITEBACK'',
      ''	/* ABK stable_515_backport: e828cccb72ed, d38fab605c66. */'',
      ''	zram->wb_batch_size = 32;'',
      ''	zram->wb_compressed = false;'',
      ''	spin_lock_init(&zram->wb_limit_lock);'',
      ''#endif'',
      []]\<close>

definition b17_A_DECL_OLD :: str where
  \<open>b17_A_DECL_OLD = block
     [''	struct bio bio;'',
      ''	struct bio_vec bio_vec;'',
      ''	struct page *page;'',
      ''	ssize_t ret = len;'',
      ''	int mode, err;'',
      ''	unsigned long blk_idx = 0;'',
      []]\<close>

definition b17_A_DECL_NEW :: str where
  \<open>b17_A_DECL_NEW = block
     [''	/*'',
      ''	 * ABK stable_515_backport: f405066a1f0d.  The sweep no longer owns a'',
      ''	 * single staging page: every in-flight request carries its own, so a'',
      ''	 * batch of writeback bios can be submitted without serialising the'',
      ''	 * whole sweep on submit_bio_wait().  wb_ctl owns this call\'s pool.'',
      ''	 */'',
      ''	struct zram_wb_ctl *wb_ctl = NULL;'',
      ''	struct zram_wb_req *req = NULL;'',
      ''	ssize_t ret = len;'',
      ''	int mode, err;'',
      ''	unsigned long blk_idx = 0;'',
      []]\<close>

definition b17_A_ALLOC_OLD :: str where
  \<open>b17_A_ALLOC_OLD = block
     [''	page = alloc_page(GFP_KERNEL);'',
      ''	if (!page) {'',
      ''		ret = -ENOMEM;'',
      ''		goto release_init_lock;'',
      ''	}'',
      []]\<close>

definition b17_A_ALLOC_NEW :: str where
  \<open>b17_A_ALLOC_NEW = block
     [''	/*'',
      ''	 * ABK stable_515_backport: f405066a1f0d.  One request pool per writeback'',
      ''	 * invocation; init_wb_ctl() degrades to fewer requests (down to a'',
      ''	 * single one) when memory is tight, so writeback stays possible.'',
      ''	 */'',
      ''	wb_ctl = init_wb_ctl(zram);'',
      ''	if (!wb_ctl) {'',
      ''		ret = -ENOMEM;'',
      ''		goto release_init_lock;'',
      ''	}'',
      []]\<close>

definition b17_A_LOOP_OLD :: str where
  \<open>b17_A_LOOP_OLD = block
     [''	for (; nr_pages != 0; index++, nr_pages--) {'',
      ''		struct bio_vec bvec;'',
      [],
      ''		bvec.bv_page = page;'',
      ''		bvec.bv_len = PAGE_SIZE;'',
      ''		bvec.bv_offset = 0;'',
      [],
      ''		spin_lock(&zram->wb_limit_lock);'',
      ''		if (zram->wb_limit_enable && !zram->bd_wb_limit) {'',
      ''			spin_unlock(&zram->wb_limit_lock);'',
      ''			ret = -EIO;'',
      ''			break;'',
      ''		}'',
      ''		spin_unlock(&zram->wb_limit_lock);'',
      [],
      ''		if (!blk_idx) {'',
      ''			blk_idx = alloc_block_bdev(zram);'',
      ''			if (!blk_idx) {'',
      ''				ret = -ENOSPC;'',
      ''				break;'',
      ''			}'',
      ''		}'',
      [],
      ''		zram_slot_lock(zram, index);'',
      ''		if (!zram_allocated(zram, index))'',
      ''			goto next;'',
      [],
      ''		if (zram_test_flag(zram, index, ZRAM_WB) ||'',
      ''				zram_test_flag(zram, index, ZRAM_SAME) ||'',
      ''				zram_test_flag(zram, index, ZRAM_UNDER_WB))'',
      ''			goto next;'',
      [],
      ''		if (mode == IDLE_WRITEBACK &&'',
      ''			  !zram_test_flag(zram, index, ZRAM_IDLE))'',
      ''			goto next;'',
      ''		if (mode == HUGE_WRITEBACK &&'',
      ''			  !zram_test_flag(zram, index, ZRAM_HUGE))'',
      ''			goto next;'',
      ''		/*'',
      ''		 * Clearing ZRAM_UNDER_WB is duty of caller.'',
      ''		 * IOW, zram_free_page never clear it.'',
      ''		 */'',
      ''		zram_set_flag(zram, index, ZRAM_UNDER_WB);'',
      ''		/* Need for hugepage writeback racing */'',
      ''		zram_set_flag(zram, index, ZRAM_IDLE);'',
      ''		zram_slot_unlock(zram, index);'',
      ''		if (zram_bvec_read(zram, &bvec, index, 0, NULL)) {'',
      ''			zram_slot_lock(zram, index);'',
      ''			zram_clear_flag(zram, index, ZRAM_UNDER_WB);'',
      ''			zram_clear_flag(zram, index, ZRAM_IDLE);'',
      ''			zram_slot_unlock(zram, index);'',
      ''			continue;'',
      ''		}'',
      [],
      ''		bio_init(&bio, &bio_vec, 1);'',
      ''		bio_set_dev(&bio, zram->bdev);'',
      ''		bio.bi_iter.bi_sector = blk_idx * (PAGE_SIZE >> 9);'',
      ''		bio.bi_opf = REQ_OP_WRITE | REQ_SYNC;'',
      [],
      ''		bio_add_page(&bio, bvec.bv_page, bvec.bv_len,'',
      ''				bvec.bv_offset);'',
      ''		/*'',
      ''		 * XXX: A single page IO would be inefficient for write'',
      ''		 * but it would be not bad as starter.'',
      ''		 */'',
      ''		err = submit_bio_wait(&bio);'',
      ''		if (err) {'',
      ''			zram_slot_lock(zram, index);'',
      ''			zram_clear_flag(zram, index, ZRAM_UNDER_WB);'',
      ''			zram_clear_flag(zram, index, ZRAM_IDLE);'',
      ''			zram_slot_unlock(zram, index);'',
      ''			/*'',
      ''			 * Return last IO error unless every IO were'',
      ''			 * not suceeded.'',
      ''			 */'',
      ''			ret = err;'',
      ''			continue;'',
      ''		}'',
      [],
      ''		atomic64_inc(&zram->stats.bd_writes);'',
      ''		/*'',
      ''		 * We released zram_slot_lock so need to check if the slot was'',
      ''		 * changed. If there is freeing for the slot, we can catch it'',
      ''		 * easily by zram_allocated.'',
      ''		 * A subtle case is the slot is freed/reallocated/marked as'',
      ''		 * ZRAM_IDLE again. To close the race, idle_store doesn\'t'',
      ''		 * mark ZRAM_IDLE once it found the slot was ZRAM_UNDER_WB.'',
      ''		 * Thus, we could close the race by checking ZRAM_IDLE bit.'',
      ''		 */'',
      ''		zram_slot_lock(zram, index);'',
      ''		if (!zram_allocated(zram, index) ||'',
      ''			  !zram_test_flag(zram, index, ZRAM_IDLE)) {'',
      ''			zram_clear_flag(zram, index, ZRAM_UNDER_WB);'',
      ''			zram_clear_flag(zram, index, ZRAM_IDLE);'',
      ''			goto next;'',
      ''		}'',
      [],
      ''		zram_free_page(zram, index);'',
      ''		zram_clear_flag(zram, index, ZRAM_UNDER_WB);'',
      ''		zram_set_flag(zram, index, ZRAM_WB);'',
      ''		zram_set_element(zram, index, blk_idx);'',
      ''		blk_idx = 0;'',
      ''		atomic64_inc(&zram->stats.pages_stored);'',
      ''		spin_lock(&zram->wb_limit_lock);'',
      ''		if (zram->wb_limit_enable && zram->bd_wb_limit > 0)'',
      ''			zram->bd_wb_limit -=  1UL << (PAGE_SHIFT - 12);'',
      ''		spin_unlock(&zram->wb_limit_lock);'',
      []]\<close>

definition b17_A_LOOP_NEW :: str where
  \<open>b17_A_LOOP_NEW = block
     [''	for (; nr_pages != 0; index++, nr_pages--) {'',
      ''		struct bio_vec bvec;'',
      [],
      ''		spin_lock(&zram->wb_limit_lock);'',
      ''		if (zram->wb_limit_enable && !zram->bd_wb_limit) {'',
      ''			spin_unlock(&zram->wb_limit_lock);'',
      ''			ret = -EIO;'',
      ''			break;'',
      ''		}'',
      ''		spin_unlock(&zram->wb_limit_lock);'',
      [],
      ''		/*'',
      ''		 * ABK stable_515_backport: f405066a1f0d.  Take an idle request,'',
      ''		 * completing in-flight ones if the pool is exhausted.  New bios are'',
      ''		 * submitted as soon as an older one completes, which is what turns'',
      ''		 * the one-page-at-a-time sweep into a pipeline bounded by'',
      ''		 * wb_batch_size.'',
      ''		 */'',
      ''		while (!req) {'',
      ''			req = zram_select_idle_req(wb_ctl);'',
      ''			if (req)'',
      ''				break;'',
      [],
      ''			wait_event(wb_ctl->done_wait,'',
      ''				   !list_empty(&wb_ctl->done_reqs));'',
      [],
      ''			err = zram_complete_done_reqs(zram, wb_ctl);'',
      ''			/*'',
      ''			 * BIO errors are not fatal, we continue and simply attempt'',
      ''			 * to writeback the remaining objects (pages).  Signal'',
      ''			 * user-space with the most recent BIO error.'',
      ''			 */'',
      ''			if (err)'',
      ''				ret = err;'',
      ''		}'',
      [],
      ''		if (!blk_idx) {'',
      ''			blk_idx = alloc_block_bdev(zram);'',
      ''			if (!blk_idx) {'',
      ''				ret = -ENOSPC;'',
      ''				break;'',
      ''			}'',
      ''		}'',
      [],
      ''		zram_slot_lock(zram, index);'',
      ''		if (!zram_allocated(zram, index))'',
      ''			goto next;'',
      [],
      ''		if (zram_test_flag(zram, index, ZRAM_WB) ||'',
      ''				zram_test_flag(zram, index, ZRAM_SAME) ||'',
      ''				zram_test_flag(zram, index, ZRAM_UNDER_WB))'',
      ''			goto next;'',
      [],
      ''		if (mode == IDLE_WRITEBACK &&'',
      ''			  !zram_test_flag(zram, index, ZRAM_IDLE))'',
      ''			goto next;'',
      ''		if (mode == HUGE_WRITEBACK &&'',
      ''			  !zram_test_flag(zram, index, ZRAM_HUGE))'',
      ''			goto next;'',
      ''		/*'',
      ''		 * Clearing ZRAM_UNDER_WB is duty of caller.'',
      ''		 * IOW, zram_free_page never clear it.'',
      ''		 */'',
      ''		zram_set_flag(zram, index, ZRAM_UNDER_WB);'',
      ''		/* Need for hugepage writeback racing */'',
      ''		zram_set_flag(zram, index, ZRAM_IDLE);'',
      [],
      ''		if (zram->wb_compressed) {'',
      ''			/*'',
      ''			 * ABK stable_515_backport: d38fab605c66.  Store the raw'',
      ''			 * zspool object: no decompression on the writeback path.'',
      ''			 * Mapping happens under the slot lock, or a concurrent'',
      ''			 * slot_free() could hand the handle back to zsmalloc'',
      ''			 * between the unlock and the map.'',
      ''			 */'',
      ''			err = zram_read_from_zspool_raw(zram, req->page, index);'',
      ''			zram_slot_unlock(zram, index);'',
      ''			if (err) {'',
      ''				zram_slot_lock(zram, index);'',
      ''				zram_clear_flag(zram, index, ZRAM_UNDER_WB);'',
      ''				zram_clear_flag(zram, index, ZRAM_IDLE);'',
      ''				zram_slot_unlock(zram, index);'',
      ''				continue;'',
      ''			}'',
      ''		} else {'',
      ''			zram_slot_unlock(zram, index);'',
      [],
      ''			bvec.bv_page = req->page;'',
      ''			bvec.bv_len = PAGE_SIZE;'',
      ''			bvec.bv_offset = 0;'',
      ''			if (zram_bvec_read(zram, &bvec, index, 0, NULL)) {'',
      ''				zram_slot_lock(zram, index);'',
      ''				zram_clear_flag(zram, index, ZRAM_UNDER_WB);'',
      ''				zram_clear_flag(zram, index, ZRAM_IDLE);'',
      ''				zram_slot_unlock(zram, index);'',
      ''				continue;'',
      ''			}'',
      ''		}'',
      [],
      ''		req->index = index;'',
      ''		req->blk_idx = blk_idx;'',
      ''		bio_init(&req->bio, &req->bio_vec, 1);'',
      ''		bio_set_dev(&req->bio, zram->bdev);'',
      ''		req->bio.bi_iter.bi_sector = req->blk_idx * (PAGE_SIZE >> 9);'',
      ''		req->bio.bi_opf = REQ_OP_WRITE;'',
      ''		req->bio.bi_end_io = zram_writeback_endio;'',
      ''		bio_add_page(&req->bio, req->page, PAGE_SIZE, 0);'',
      [],
      ''		zram_submit_wb_request(zram, wb_ctl, req);'',
      ''		blk_idx = 0;'',
      ''		req = NULL;'',
      ''		cond_resched();'',
      ''		continue;'',
      []]\<close>

definition b17_A_TAIL_OLD :: str where
  \<open>b17_A_TAIL_OLD = block
     [''		free_block_bdev(zram, blk_idx);'',
      ''	__free_page(page);'',
      ''release_init_lock:'',
      []]\<close>

definition b17_A_TAIL_NEW :: str where
  \<open>b17_A_TAIL_NEW = block
     [''		/*'',
      ''		 * ABK stable_515_backport: 3e8d8eb8d7f5.  A reservation the sweep'',
      ''		 * did not hand to a request (ENOSPC, the writeback limit, or the'',
      ''		 * last iteration bailing out) has to be released here: a leaked'',
      ''		 * index stays busy forever and costs writeback capacity.'',
      ''		 */'',
      ''		free_block_bdev(zram, blk_idx);'',
      [],
      ''	/* A request that was selected but never submitted owns no block. */'',
      ''	if (req)'',
      ''		release_wb_req(req);'',
      [],
      ''	/*'',
      ''	 * ABK stable_515_backport: f405066a1f0d.  Every submitted bio must have'',
      ''	 * completed before init_lock is dropped.  zram_reset_device() and'',
      ''	 * zram_remove() only take the write lock and then free the table, so an'',
      ''	 * in-flight bio that outlived this function would run against freed'',
      ''	 * memory.'',
      ''	 */'',
      ''	while (atomic_read(&wb_ctl->num_inflight) > 0) {'',
      ''		wait_event(wb_ctl->done_wait,'',
      ''			   !list_empty(&wb_ctl->done_reqs));'',
      ''		err = zram_complete_done_reqs(zram, wb_ctl);'',
      ''		if (err)'',
      ''			ret = err;'',
      ''	}'',
      [],
      ''	release_wb_ctl(wb_ctl);'',
      ''release_init_lock:'',
      []]\<close>

definition b17_B_HANDLERS_OLD :: str where
  \<open>b17_B_HANDLERS_OLD = block
     [''static void reset_bdev(struct zram *zram)'',
      []]\<close>

definition b17_B_HANDLERS_NEW :: str where
  \<open>b17_B_HANDLERS_NEW = block
     [''/*'',
      '' * ABK stable_515_backport: e828cccb72ed.  Upper bound for'',
      '' * writeback_batch_size.  Upstream stores whatever the user writes, but'',
      '' * init_wb_ctl() allocates one request and one page per unit under'',
      '' * GFP_KERNEL, so an unbounded u32 is a userspace-triggerable allocation'',
      '' * loop.  256 requests are ~1.1 MiB at 4 KiB pages, far more queue depth'',
      '' * than a backing device needs.'',
      '' */'',
      ''#define ZRAM_WB_BATCH_SIZE_MAX	256'',
      [],
      ''static ssize_t writeback_batch_size_store(struct device *dev,'',
      ''					  struct device_attribute *attr,'',
      ''					  const char *buf, size_t len)'',
      ''{'',
      ''	struct zram *zram = dev_to_zram(dev);'',
      ''	u32 val;'',
      [],
      ''	if (kstrtouint(buf, 10, &val))'',
      ''		return -EINVAL;'',
      [],
      ''	if (!val)'',
      ''		return -EINVAL;'',
      [],
      ''	if (val > ZRAM_WB_BATCH_SIZE_MAX)'',
      ''		val = ZRAM_WB_BATCH_SIZE_MAX;'',
      [],
      ''	down_write(&zram->init_lock);'',
      ''	zram->wb_batch_size = val;'',
      ''	up_write(&zram->init_lock);'',
      [],
      ''	return len;'',
      ''}'',
      [],
      ''static ssize_t writeback_batch_size_show(struct device *dev,'',
      ''					 struct device_attribute *attr,'',
      ''					 char *buf)'',
      ''{'',
      ''	struct zram *zram = dev_to_zram(dev);'',
      ''	u32 val;'',
      [],
      ''	down_read(&zram->init_lock);'',
      ''	val = zram->wb_batch_size;'',
      ''	up_read(&zram->init_lock);'',
      [],
      (''	return scnprintf(buf, PAGE_SIZE, "%u'' @ [BSL] @ ''n", val);''),
      ''}'',
      [],
      ''static void reset_bdev(struct zram *zram)'',
      []]\<close>

definition b17_B_ATTRDECL_OLD :: str where
  \<open>b17_B_ATTRDECL_OLD = block
     [''static DEVICE_ATTR_RW(writeback_limit_enable);'',
      ''#endif'',
      []]\<close>

definition b17_B_ATTRDECL_NEW :: str where
  \<open>b17_B_ATTRDECL_NEW = block
     [''static DEVICE_ATTR_RW(writeback_limit_enable);'',
      ''static DEVICE_ATTR_RW(writeback_batch_size);'',
      ''#endif'',
      []]\<close>

definition b17_B_ATTRS_OLD :: str where
  \<open>b17_B_ATTRS_OLD = block
     [''	&dev_attr_writeback_limit_enable.attr,'',
      ''#endif'',
      []]\<close>

definition b17_B_ATTRS_NEW :: str where
  \<open>b17_B_ATTRS_NEW = block
     [''	&dev_attr_writeback_limit_enable.attr,'',
      ''	&dev_attr_writeback_batch_size.attr,'',
      ''#endif'',
      []]\<close>

definition b17_C_READ_OLD :: str where
  \<open>b17_C_READ_OLD = block
     [''static int zram_bvec_read(struct zram *zram, struct bio_vec *bvec,'',
      ''				u32 index, int offset, struct bio *bio)'',
      ''{'',
      ''	int ret;'',
      ''	struct page *page;'',
      []]\<close>

definition b17_C_READ_NEW_lines1 :: "str list" where
  \<open>b17_C_READ_NEW_lines1 =
     [''#ifdef CONFIG_ZRAM_WRITEBACK'',
      ''/*'',
      '' * ABK stable_515_backport: d38fab605c66.  Compressed writeback leaves the'',
      '' * zspool object as-is on the backing device, so reading such a slot back has'',
      '' * to decompress what the bio delivered ("decompression on demand").  zram'',
      '' * decompression is sleepable while an async read completes in IRQ context,'',
      '' * so the decompression is deferred to a preemptible workqueue; the'',
      '' * synchronous case (partial IO) runs it inline in process context.'',
      '' *'',
      '' * Only the async path needs a request: the synchronous one (partial IO, or a'',
      '' * reader with no parent bio) runs a plain submit_bio_wait() in process'',
      '' * context, where decompression may sleep.  Upstream carries a blk_idx/error'',
      '' * pair here for its worker-based sync path; neither is read in this shape,'',
      '' * so neither is declared.'',
      '' */'',
      ''struct abk_zram_rb_req {'',
      ''	struct work_struct work;'',
      ''	struct zram *zram;'',
      ''	struct page *page;'',
      ''	/* The read bio for the backing device */'',
      ''	struct bio *bio;'',
      ''	u32 index;'',
      ''	/* The original bio to complete (async read) */'',
      ''	struct bio *parent;'',
      ''};'',
      [],
      ''static int abk_zram_decompress_bdev_page(struct zram *zram, struct page *page,'',
      ''					 u32 index)'',
      ''{'',
      ''	struct zcomp_strm *zstrm;'',
      ''	unsigned int size;'',
      ''	u32 prio;'',
      ''	void *src, *dst;'',
      ''	int ret;'',
      [],
      ''	zram_slot_lock(zram, index);'',
      ''	/* The slot was unlocked while the page was read, so re-check it */'',
      ''	if (!zram_test_flag(zram, index, ZRAM_WB)) {'',
      ''		zram_slot_unlock(zram, index);'',
      ''		/* We read some stale data, zero it out */'',
      ''		zero_user(page, 0, PAGE_SIZE);'',
      ''		return -EIO;'',
      ''	}'',
      [],
      ''	if (zram_test_flag(zram, index, ZRAM_HUGE)) {'',
      ''		/* ZRAM_HUGE slots are stored raw, nothing to decompress */'',
      ''		zram_slot_unlock(zram, index);'',
      ''		return 0;'',
      ''	}'',
      [],
      ''	size = zram_get_obj_size(zram, index);'',
      ''	prio = zram_get_priority(zram, index);'',
      [],
      ''	/* 5.15: zcomp_stream_put() takes the comp, not the stream */'',
      ''	zstrm = zcomp_stream_get(zram->comps[prio]);'',
      ''	src = kmap_atomic(page);'',
      ''	ret = zcomp_decompress(zstrm, src, size, zstrm->buffer);'',
      ''	kunmap_atomic(src);'',
      ''	if (!ret) {'',
      ''		dst = kmap_atomic(page);'',
      ''		memcpy(dst, zstrm->buffer, PAGE_SIZE);'',
      ''		kunmap_atomic(dst);'',
      ''	}'',
      ''	zcomp_stream_put(zram->comps[prio]);'',
      ''	zram_slot_unlock(zram, index);'',
      [],
      ''	return ret;'',
      ''}'',
      [],
      ''static void abk_zram_deferred_decompress(struct work_struct *w)'',
      ''{'',
      ''	struct abk_zram_rb_req *req ='',
      ''		container_of(w, struct abk_zram_rb_req, work);'',
      ''	int ret;'',
      [],
      ''	ret = abk_zram_decompress_bdev_page(req->zram, req->page, req->index);'',
      ''	if (ret)'',
      ''		req->parent->bi_status = BLK_STS_IOERR;'',
      [],
      ''	/* Decrement parent\'s ->remaining */'',
      ''	bio_endio(req->parent);'',
      ''	bio_put(req->bio);'',
      ''	kfree(req);'',
      ''}'',
      [],
      ''static void abk_zram_read_endio(struct bio *bio)'',
      ''{'',
      ''	struct abk_zram_rb_req *req = bio->bi_private;'',
      [],
      ''	if (bio->bi_status) {'',
      ''		req->parent->bi_status = bio->bi_status;'',
      ''		bio_endio(req->parent);'',
      ''		bio_put(bio);'',
      ''		kfree(req);'',
      ''		return;'',
      ''	}'',
      [],
      ''	/*'',
      ''	 * zram decompression is sleepable, so defer it to a preemptible'',
      ''	 * context.'',
      ''	 */'',
      ''	INIT_WORK(&req->work, abk_zram_deferred_decompress);'',
      ''	queue_work(system_highpri_wq, &req->work);'',
      ''}'',
      [],
      ''static int abk_zram_read_bdev_page_sync(struct zram *zram, struct page *page,'',
      ''					unsigned long blk_idx)'',
      ''{'',
      ''	struct bio bio;'',
      ''	struct bio_vec bvec;'',
      [],
      ''	bvec.bv_page = page;'',
      ''	bvec.bv_len = PAGE_SIZE;'',
      ''	bvec.bv_offset = 0;'',
      [],
      ''	bio_init(&bio, &bvec, 1);'',
      ''	bio_set_dev(&bio, zram->bdev);'',
      ''	bio.bi_iter.bi_sector = blk_idx * (PAGE_SIZE >> 9);'',
      ''	bio.bi_opf = REQ_OP_READ;'',
      ''	bio_add_page(&bio, page, PAGE_SIZE, 0);'',
      [],
      ''	return submit_bio_wait(&bio);'',
      ''}'',
      [],
      ''static int abk_zram_read_compressed_bdev(struct zram *zram, struct page *page,'',
      ''					 u32 index, unsigned long blk_idx,'',
      ''					 struct bio *parent, bool sync)'',
      ''{'',
      ''	struct abk_zram_rb_req *req;'',
      ''	struct bio *bio;'',
      ''	int ret;'',
      [],
      ''	atomic64_inc(&zram->stats.bd_reads);'',
      [],
      ''	if (sync || !parent) {'']\<close>

definition b17_C_READ_NEW_lines2 :: "str list" where
  \<open>b17_C_READ_NEW_lines2 =
     [''		ret = abk_zram_read_bdev_page_sync(zram, page, blk_idx);'',
      ''		if (ret)'',
      ''			return ret;'',
      ''		return abk_zram_decompress_bdev_page(zram, page, index);'',
      ''	}'',
      [],
      ''	req = kmalloc(sizeof(*req), GFP_NOIO);'',
      ''	if (!req)'',
      ''		return -ENOMEM;'',
      [],
      ''	bio = bio_alloc(GFP_NOIO, 1);'',
      ''	if (!bio) {'',
      ''		kfree(req);'',
      ''		return -ENOMEM;'',
      ''	}'',
      [],
      ''	req->zram = zram;'',
      ''	req->index = index;'',
      ''	req->page = page;'',
      ''	req->bio = bio;'',
      ''	req->parent = parent;'',
      [],
      ''	bio_set_dev(bio, zram->bdev);'',
      ''	bio->bi_iter.bi_sector = blk_idx * (PAGE_SIZE >> 9);'',
      ''	bio->bi_opf = parent->bi_opf;'',
      ''	bio->bi_private = req;'',
      ''	bio->bi_end_io = abk_zram_read_endio;'',
      ''	__bio_add_page(bio, page, PAGE_SIZE, 0);'',
      [],
      ''	bio_inc_remaining(parent);'',
      ''	submit_bio(bio);'',
      [],
      ''	return 0;'',
      ''}'',
      [],
      ''/*'',
      '' * Dispatch wrapper for the two __zram_bvec_read() call sites.  With'',
      '' * compressed writeback enabled a ZRAM_WB slot holds compressed data, so it'',
      '' * has to be decompressed rather than read as a raw page.'',
      '' */'',
      ''static int abk_zram_bvec_read(struct zram *zram, struct page *page, u32 index,'',
      ''			      struct bio *bio, bool partial_io)'',
      ''{'',
      ''	unsigned long blk_idx;'',
      ''	bool huge;'',
      [],
      ''	if (!zram->wb_compressed)'',
      ''		return __zram_bvec_read(zram, page, index, bio, partial_io);'',
      [],
      ''	zram_slot_lock(zram, index);'',
      ''	if (!zram_test_flag(zram, index, ZRAM_WB)) {'',
      ''		zram_slot_unlock(zram, index);'',
      ''		return __zram_bvec_read(zram, page, index, bio, partial_io);'',
      ''	}'',
      [],
      ''	blk_idx = zram_get_element(zram, index);'',
      ''	huge = zram_test_flag(zram, index, ZRAM_HUGE);'',
      ''	zram_slot_unlock(zram, index);'',
      [],
      ''	/* ZRAM_HUGE slots are stored raw even under compressed writeback */'',
      ''	if (huge)'',
      ''		return __zram_bvec_read(zram, page, index, bio, partial_io);'',
      [],
      ''	return abk_zram_read_compressed_bdev(zram, page, index, blk_idx, bio,'',
      ''					     partial_io);'',
      ''}'',
      ''#endif /* CONFIG_ZRAM_WRITEBACK */'',
      [],
      ''static int zram_bvec_read(struct zram *zram, struct bio_vec *bvec,'',
      ''				u32 index, int offset, struct bio *bio)'',
      ''{'',
      ''	int ret;'',
      ''	struct page *page;'',
      []]\<close>

definition b17_C_READ_NEW :: str where
  \<open>b17_C_READ_NEW = block (b17_C_READ_NEW_lines1 @ b17_C_READ_NEW_lines2)\<close>

definition b17_C_CALL1_OLD :: str where
  \<open>b17_C_CALL1_OLD = block
     [''	ret = __zram_bvec_read(zram, page, index, bio, is_partial_io(bvec));'',
      []]\<close>

definition b17_C_CALL1_NEW :: str where
  \<open>b17_C_CALL1_NEW = block
     [''	/* ABK stable_515_backport: d38fab605c66 -- compressed WB slots */'',
      ''#ifdef CONFIG_ZRAM_WRITEBACK'',
      ''	ret = abk_zram_bvec_read(zram, page, index, bio, is_partial_io(bvec));'',
      ''#else'',
      ''	ret = __zram_bvec_read(zram, page, index, bio, is_partial_io(bvec));'',
      ''#endif'',
      []]\<close>

definition b17_C_CALL2_OLD :: str where
  \<open>b17_C_CALL2_OLD = block
     [''		ret = __zram_bvec_read(zram, page, index, bio, true);'',
      []]\<close>

definition b17_C_CALL2_NEW :: str where
  \<open>b17_C_CALL2_NEW = block
     [''		/*'',
      ''		 * ABK stable_515_backport: d38fab605c66.  A partial write has to'',
      ''		 * read the old contents first, and a compressed writeback slot'',
      ''		 * cannot be read raw -- that would splice compressed bytes into'',
      ''		 * the page being written.'',
      ''		 */'',
      ''#ifdef CONFIG_ZRAM_WRITEBACK'',
      ''		ret = abk_zram_bvec_read(zram, page, index, bio, true);'',
      ''#else'',
      ''		ret = __zram_bvec_read(zram, page, index, bio, true);'',
      ''#endif'',
      []]\<close>

definition b17_C_ATTR_OLD :: str where
  \<open>b17_C_ATTR_OLD = block
     [''#ifdef CONFIG_ZRAM_WRITEBACK'',
      ''static DEVICE_ATTR_RW(backing_dev);'',
      []]\<close>

definition b17_C_ATTR_NEW :: str where
  \<open>b17_C_ATTR_NEW = block
     [''#ifdef CONFIG_ZRAM_WRITEBACK'',
      ''static ssize_t compressed_writeback_store(struct device *dev,'',
      ''					  struct device_attribute *attr,'',
      ''					  const char *buf, size_t len)'',
      ''{'',
      ''	struct zram *zram = dev_to_zram(dev);'',
      ''	bool val;'',
      [],
      ''	if (kstrtobool(buf, &val))'',
      ''		return -EINVAL;'',
      [],
      ''	down_write(&zram->init_lock);'',
      ''	if (init_done(zram)) {'',
      ''		up_write(&zram->init_lock);'',
      ''		return -EBUSY;'',
      ''	}'',
      [],
      ''	zram->wb_compressed = val;'',
      ''	up_write(&zram->init_lock);'',
      [],
      ''	return len;'',
      ''}'',
      [],
      ''static ssize_t compressed_writeback_show(struct device *dev,'',
      ''					 struct device_attribute *attr,'',
      ''					 char *buf)'',
      ''{'',
      ''	struct zram *zram = dev_to_zram(dev);'',
      ''	bool val;'',
      [],
      ''	down_read(&zram->init_lock);'',
      ''	val = zram->wb_compressed;'',
      ''	up_read(&zram->init_lock);'',
      [],
      (''	return scnprintf(buf, PAGE_SIZE, "%d'' @ [BSL] @ ''n", val);''),
      ''}'',
      [],
      ''static DEVICE_ATTR_RW(compressed_writeback);'',
      ''static DEVICE_ATTR_RW(backing_dev);'',
      []]\<close>

definition b17_C_ATTRS_OLD :: str where
  \<open>b17_C_ATTRS_OLD = block
     [''	&dev_attr_backing_dev.attr,'',
      []]\<close>

definition b17_C_ATTRS_NEW :: str where
  \<open>b17_C_ATTRS_NEW = block
     [''	&dev_attr_backing_dev.attr,'',
      ''	&dev_attr_compressed_writeback.attr,'',
      []]\<close>

definition b17_build_batching_steps_step1 :: step where
  \<open>b17_build_batching_steps_step1 =
   (b17_ZRAM_C,
    b17_A_INC_OLD,
    b17_A_INC_NEW, True)\<close>

definition b17_build_batching_steps_step2 :: step where
  \<open>b17_build_batching_steps_step2 =
   (b17_ZRAM_H,
    b17_A_FIELDS_OLD,
    b17_A_FIELDS_NEW, True)\<close>

definition b17_build_batching_steps_step3 :: step where
  \<open>b17_build_batching_steps_step3 =
   (b17_ZRAM_C,
    b17_A_HELPERS_OLD,
    b17_A_HELPERS_NEW, True)\<close>

definition b17_build_batching_steps_step4 :: step where
  \<open>b17_build_batching_steps_step4 =
   (b17_ZRAM_C,
    b17_A_DEFAULT_OLD,
    b17_A_DEFAULT_NEW, True)\<close>

definition b17_build_batching_steps_step5 :: step where
  \<open>b17_build_batching_steps_step5 =
   (b17_ZRAM_C,
    b17_A_DECL_OLD,
    b17_A_DECL_NEW, True)\<close>

definition b17_build_batching_steps_step6 :: step where
  \<open>b17_build_batching_steps_step6 =
   (b17_ZRAM_C,
    b17_A_ALLOC_OLD,
    b17_A_ALLOC_NEW, True)\<close>

definition b17_build_batching_steps_step7 :: step where
  \<open>b17_build_batching_steps_step7 =
   (b17_ZRAM_C,
    b17_A_LOOP_OLD,
    b17_A_LOOP_NEW, True)\<close>

definition b17_build_batching_steps_step8 :: step where
  \<open>b17_build_batching_steps_step8 =
   (b17_ZRAM_C,
    b17_A_TAIL_OLD,
    b17_A_TAIL_NEW, True)\<close>

definition b17_build_batching_steps :: "step list" where
  \<open>b17_build_batching_steps = [b17_build_batching_steps_step1, b17_build_batching_steps_step2, b17_build_batching_steps_step3, b17_build_batching_steps_step4, b17_build_batching_steps_step5, b17_build_batching_steps_step6, b17_build_batching_steps_step7, b17_build_batching_steps_step8]\<close>

lemma b17_build_batching_steps_files: "steps_files b17_build_batching_steps = {b17_ZRAM_C, b17_ZRAM_H}"
  by (simp add: b17_build_batching_steps_def steps_files_fst insert_commute
      step_file [OF b17_build_batching_steps_step1_def]
      step_file [OF b17_build_batching_steps_step2_def]
      step_file [OF b17_build_batching_steps_step3_def]
      step_file [OF b17_build_batching_steps_step4_def]
      step_file [OF b17_build_batching_steps_step5_def]
      step_file [OF b17_build_batching_steps_step6_def]
      step_file [OF b17_build_batching_steps_step7_def]
      step_file [OF b17_build_batching_steps_step8_def])

lemma b17_build_batching_steps_required: "all_required b17_build_batching_steps"
  by (simp add: b17_build_batching_steps_def all_required_def
      step_req [OF b17_build_batching_steps_step1_def]
      step_req [OF b17_build_batching_steps_step2_def]
      step_req [OF b17_build_batching_steps_step3_def]
      step_req [OF b17_build_batching_steps_step4_def]
      step_req [OF b17_build_batching_steps_step5_def]
      step_req [OF b17_build_batching_steps_step6_def]
      step_req [OF b17_build_batching_steps_step7_def]
      step_req [OF b17_build_batching_steps_step8_def])

definition b17_build_batch_size_steps_step1 :: step where
  \<open>b17_build_batch_size_steps_step1 =
   (b17_ZRAM_C,
    b17_B_HANDLERS_OLD,
    b17_B_HANDLERS_NEW, True)\<close>

definition b17_build_batch_size_steps_step2 :: step where
  \<open>b17_build_batch_size_steps_step2 =
   (b17_ZRAM_C,
    b17_B_ATTRDECL_OLD,
    b17_B_ATTRDECL_NEW, True)\<close>

definition b17_build_batch_size_steps_step3 :: step where
  \<open>b17_build_batch_size_steps_step3 =
   (b17_ZRAM_C,
    b17_B_ATTRS_OLD,
    b17_B_ATTRS_NEW, True)\<close>

definition b17_build_batch_size_steps :: "step list" where
  \<open>b17_build_batch_size_steps = [b17_build_batch_size_steps_step1, b17_build_batch_size_steps_step2, b17_build_batch_size_steps_step3]\<close>

lemma b17_build_batch_size_steps_files: "steps_files b17_build_batch_size_steps = {b17_ZRAM_C}"
  by (simp add: b17_build_batch_size_steps_def steps_files_fst insert_commute
      step_file [OF b17_build_batch_size_steps_step1_def]
      step_file [OF b17_build_batch_size_steps_step2_def]
      step_file [OF b17_build_batch_size_steps_step3_def])

lemma b17_build_batch_size_steps_required: "all_required b17_build_batch_size_steps"
  by (simp add: b17_build_batch_size_steps_def all_required_def
      step_req [OF b17_build_batch_size_steps_step1_def]
      step_req [OF b17_build_batch_size_steps_step2_def]
      step_req [OF b17_build_batch_size_steps_step3_def])

definition b17_build_compressed_steps_step1 :: step where
  \<open>b17_build_compressed_steps_step1 =
   (b17_ZRAM_C,
    b17_C_READ_OLD,
    b17_C_READ_NEW, True)\<close>

definition b17_build_compressed_steps_step2 :: step where
  \<open>b17_build_compressed_steps_step2 =
   (b17_ZRAM_C,
    b17_C_CALL1_OLD,
    b17_C_CALL1_NEW, True)\<close>

definition b17_build_compressed_steps_step3 :: step where
  \<open>b17_build_compressed_steps_step3 =
   (b17_ZRAM_C,
    b17_C_CALL2_OLD,
    b17_C_CALL2_NEW, True)\<close>

definition b17_build_compressed_steps_step4 :: step where
  \<open>b17_build_compressed_steps_step4 =
   (b17_ZRAM_C,
    b17_C_ATTR_OLD,
    b17_C_ATTR_NEW, True)\<close>

definition b17_build_compressed_steps_step5 :: step where
  \<open>b17_build_compressed_steps_step5 =
   (b17_ZRAM_C,
    b17_C_ATTRS_OLD,
    b17_C_ATTRS_NEW, True)\<close>

definition b17_build_compressed_steps :: "step list" where
  \<open>b17_build_compressed_steps = [b17_build_compressed_steps_step1, b17_build_compressed_steps_step2, b17_build_compressed_steps_step3, b17_build_compressed_steps_step4, b17_build_compressed_steps_step5]\<close>

lemma b17_build_compressed_steps_files: "steps_files b17_build_compressed_steps = {b17_ZRAM_C}"
  by (simp add: b17_build_compressed_steps_def steps_files_fst insert_commute
      step_file [OF b17_build_compressed_steps_step1_def]
      step_file [OF b17_build_compressed_steps_step2_def]
      step_file [OF b17_build_compressed_steps_step3_def]
      step_file [OF b17_build_compressed_steps_step4_def]
      step_file [OF b17_build_compressed_steps_step5_def])

lemma b17_build_compressed_steps_required: "all_required b17_build_compressed_steps"
  by (simp add: b17_build_compressed_steps_def all_required_def
      step_req [OF b17_build_compressed_steps_step1_def]
      step_req [OF b17_build_compressed_steps_step2_def]
      step_req [OF b17_build_compressed_steps_step3_def]
      step_req [OF b17_build_compressed_steps_step4_def]
      step_req [OF b17_build_compressed_steps_step5_def])

definition b17_batching_apply :: "outcome io" where
  \<open>b17_batching_apply =
    io_try is_fnf (ctx_read b17_ZRAM_C)
      (\<lambda>e. io_ret (BlockedByShape, b17_ZRAM_C @ '': file absent''))
      (\<lambda>text.
    if contains ''static void zram_account_writeback_submit(struct zram *zram)'' text
    then io_ret (AlreadyPresent, ''the writeback batching graft is already in zram_drv.c'')
    else
    case find (\<lambda>(probe, why). \<not> contains probe text)
          [(''static ssize_t writeback_store(struct device *dev,'', ''writeback_store()''),
           (''#define PAGE_WB_SIG "page_index="'', ''the writeback sweep''),
           (''static void free_block_bdev(struct zram *zram, unsigned long blk_idx)'', ''free_block_bdev()'')] of
        Some (probe, why) \<Rightarrow> io_ret (BlockedByShape, why @ '' not found in zram_drv.c'')
      | None \<Rightarrow>
    apply_or_block b17_build_batching_steps)\<close>

lemma b17_batching_apply_txn: "transactional (\<lambda>_. {b17_ZRAM_C, b17_ZRAM_H}) b17_batching_apply"
  unfolding b17_batching_apply_def
  by (intro txn_intros safe_intros)
    (simp_all add: is_backup_code BACKUP_SUFFIX_def b17_build_batching_steps_files b17_ZRAM_C_def b17_ZRAM_H_def)

definition b17_batch_size_apply :: "outcome io" where
  \<open>b17_batch_size_apply =
    io_try is_fnf (ctx_read b17_ZRAM_C)
      (\<lambda>e. io_ret (BlockedByShape, b17_ZRAM_C @ '': file absent''))
      (\<lambda>text.
    case find (\<lambda>(probe, why). \<not> contains probe text)
          [(''static void reset_bdev(struct zram *zram)'', ''reset_bdev()''),
           (''static DEVICE_ATTR_RW(writeback_limit_enable);'', ''the writeback attrs'')] of
        Some (probe, why) \<Rightarrow> io_ret (BlockedByShape, why @ '' not found in zram_drv.c'')
      | None \<Rightarrow>
    apply_or_block b17_build_batch_size_steps)\<close>

lemma b17_batch_size_apply_txn: "transactional (\<lambda>_. {b17_ZRAM_C}) b17_batch_size_apply"
  unfolding b17_batch_size_apply_def
  by (intro txn_intros safe_intros)
    (simp_all add: is_backup_code BACKUP_SUFFIX_def b17_build_batch_size_steps_files b17_ZRAM_C_def)

definition b17_compressed_apply :: "outcome io" where
  \<open>b17_compressed_apply =
    io_try is_fnf (io_bind (ctx_read b17_ZRAM_C) (\<lambda>text. io_bind (ctx_read b17_ZRAM_H) (\<lambda>header. io_ret (text, header))))
      (\<lambda>e. io_ret (BlockedByShape, b17_ZRAM_C @ ''/'' @ b17_ZRAM_H @ '': file absent''))
      (\<lambda>(text, header).
    if \<not> contains ''bool wb_compressed;'' header
    then io_ret (BlockedByShape, ''zram->wb_compressed is absent: zram_writeback_batching must apply first'')
    else
    case find (\<lambda>(probe, why). \<not> contains probe text)
          [(''static int zram_bvec_read(struct zram *zram, struct bio_vec *bvec,'', ''zram_bvec_read()'')] of
        Some (probe, why) \<Rightarrow> io_ret (BlockedByShape, why @ '' not found in zram_drv.c'')
      | None \<Rightarrow>
    if \<not> contains (block
     [''		ret = __zram_bvec_read(zram, page, index, bio, true);'',
      []]) text \<and> \<not> contains (block
     [''		ret = abk_zram_bvec_read(zram, page, index, bio, true);'',
      []]) text
    then io_ret (BlockedByShape, ''the partial-write read-modify-write path not found in zram_drv.c'')
    else
    apply_or_block b17_build_compressed_steps)\<close>

lemma b17_compressed_apply_txn: "transactional (\<lambda>_. {b17_ZRAM_C}) b17_compressed_apply"
  unfolding b17_compressed_apply_def
  by (intro txn_intros safe_intros)
    (simp_all add: is_backup_code BACKUP_SUFFIX_def b17_build_compressed_steps_files b17_ZRAM_C_def b17_ZRAM_H_def)

definition zram_writeback_batching_group :: group where
  \<open>zram_writeback_batching_group =
    \<lparr>key = ''zram_writeback_batching'',
     summary = ''keep several writeback bios in flight (wb_batch_size, default 32) instead of one submit_bio_wait() per page, with the upstream wb_ctl UAF (kfree_rcu + rcu_read_lock in the endio) and blk_idx leak fixes built in from the first line (f405066a1f0d, re-anchored to the 5.15 ZRAM_UNDER_WB protocol; also carries the write half of compressed writeback)'',
     commits = [''f405066a1f0d (v6.19, series v6)'',
      ''bf62f69574b1 (v7.3-rc, Cc: stable; Fixes: f405066a1f0d)'',
      ''3e8d8eb8d7f5 (v7.3; Fixes: f405066a1f0d)'',
      ''e828cccb72ed (v6.19) -- field + 32 default (sysfs is the next group)'',
      ''d38fab605c66 (v7.0) -- write half only; read half is the third group'',
      ''3bf1c285dc40 (v7.3; Fixes: d38fab605c66) -- trailing-byte zeroing''],
     group_files = [b17_ZRAM_C,
      b17_ZRAM_H],
     apply_fn = b17_batching_apply, hard = False\<rparr>\<close>

lemma zram_writeback_batching_group_declared [simp]: "well_declared zram_writeback_batching_group"
  by (rule well_declaredI [OF b17_batching_apply_txn]) (simp_all add: is_backup_code BACKUP_SUFFIX_def zram_writeback_batching_group_def b17_ZRAM_C_def b17_ZRAM_H_def)

definition zram_wb_batch_size_group :: group where
  \<open>zram_wb_batch_size_group =
    \<lparr>key = ''zram_wb_batch_size'',
     summary = ''expose the in-flight writeback batch size as a per-device attribute (default 32, !0 rejected, clamped to a bounded pool)'',
     commits = [''e828cccb72ed (v6.19, series v6)''],
     group_files = [b17_ZRAM_C],
     apply_fn = b17_batch_size_apply, hard = False\<rparr>\<close>

lemma zram_wb_batch_size_group_declared [simp]: "well_declared zram_wb_batch_size_group"
  by (rule well_declaredI [OF b17_batch_size_apply_txn]) (simp_all add: is_backup_code BACKUP_SUFFIX_def zram_wb_batch_size_group_def b17_ZRAM_C_def)

definition zram_compressed_writeback_group :: group where
  \<open>zram_compressed_writeback_group =
    \<lparr>key = ''zram_compressed_writeback'',
     summary = ''store writeback pages as raw zspool objects and decompress them on demand on the read path (deferred to a preemptible workqueue for async reads), plus the compressed_writeback attribute'',
     commits = [''d38fab605c66 (v7.0) -- read-back half'',
      ''4c1d61389e8e (v7.0) -- writeback_compressed attribute'',
      ''ba4c3698e696 (Fixes: 4c1d61389e8e) -- renamed to compressed_writeback''],
     group_files = [b17_ZRAM_C],
     apply_fn = b17_compressed_apply, hard = False\<rparr>\<close>

lemma zram_compressed_writeback_group_declared [simp]: "well_declared zram_compressed_writeback_group"
  by (rule well_declaredI [OF b17_compressed_apply_txn]) (simp_all add: is_backup_code BACKUP_SUFFIX_def zram_compressed_writeback_group_def b17_ZRAM_C_def)

definition b17_build_groups :: "group list" where
  \<open>b17_build_groups = [zram_writeback_batching_group, zram_wb_batch_size_group, zram_compressed_writeback_group]\<close>

end
