(* ===== verification/Core_Batch_Files.thy ===== *)
theory Core_Batch_Files
  imports Registry_Laws
begin

text \<open>
  One section per module: the small batch modules of the file, erofs and architecture work.
\<close>

section \<open>\<^verbatim>\<open>scripts/batch30_core_mmap_miss_races.py\<close>\<close>

text \<open>
  The anchors, steps and groups of \<^verbatim>\<open>scripts/batch30_core_mmap_miss_races.py\<close>, in source order.
\<close>

definition b30_FILEMAP_C :: str where
  \<open>b30_FILEMAP_C = ''mm/filemap.c''\<close>

definition b30_ASYNC_OLD :: str where
  \<open>b30_ASYNC_OLD = block
     [''	/* If we don\'t want any read-ahead, don\'t bother */'',
      ''	if (vmf->vma->vm_flags & VM_RAND_READ || !ra->ra_pages)'',
      ''		return fpin;'',
      ''	mmap_miss = READ_ONCE(ra->mmap_miss);'',
      ''	if (mmap_miss)'',
      ''		WRITE_ONCE(ra->mmap_miss, --mmap_miss);'',
      ''	if (PageReadahead(page)) {'',
      []]\<close>

definition b30_ASYNC_NEW :: str where
  \<open>b30_ASYNC_NEW = block
     [''	/* If we don\'t want any read-ahead, don\'t bother */'',
      ''	if (vmf->vma->vm_flags & VM_RAND_READ || !ra->ra_pages)'',
      ''		return fpin;'',
      ''	/*'',
      ''	 * If the page is locked, we\'re likely racing against another fault.'',
      ''	 * Don\'t touch the mmap_miss counter to avoid decreasing it multiple'',
      ''	 * times for a single page and break the balance with mmap_miss'',
      ''	 * increase in do_sync_mmap_readahead().'',
      ''	 */'',
      ''	if (likely(!PageLocked(page))) {'',
      ''		mmap_miss = READ_ONCE(ra->mmap_miss);'',
      ''		if (mmap_miss)'',
      ''			WRITE_ONCE(ra->mmap_miss, --mmap_miss);'',
      ''	}'',
      ''	if (PageReadahead(page)) {'',
      []]\<close>

definition b30_build_steps_step1 :: step where
  \<open>b30_build_steps_step1 =
   (b30_FILEMAP_C,
    b30_ASYNC_OLD,
    b30_ASYNC_NEW, True)\<close>

definition b30_build_steps :: "step list" where
  \<open>b30_build_steps = [b30_build_steps_step1]\<close>

lemma b30_build_steps_files: "steps_files b30_build_steps = {b30_FILEMAP_C}"
  by (simp add: b30_build_steps_def steps_files_fst insert_commute
      step_file [OF b30_build_steps_step1_def])

lemma b30_build_steps_required: "all_required b30_build_steps"
  by (simp add: b30_build_steps_def all_required_def
      step_req [OF b30_build_steps_step1_def])

definition b30_mmap_miss_race_apply :: "outcome io" where
  \<open>b30_mmap_miss_race_apply =
    apply_or_block b30_build_steps\<close>

lemma b30_mmap_miss_race_apply_txn: "transactional (\<lambda>_. {b30_FILEMAP_C}) b30_mmap_miss_race_apply"
  unfolding b30_mmap_miss_race_apply_def
  by (intro txn_intros safe_intros)
    (simp_all add: is_backup_code BACKUP_SUFFIX_def b30_build_steps_files b30_FILEMAP_C_def)

definition readahead_mmap_miss_race_group :: group where
  \<open>readahead_mmap_miss_race_group =
    \<lparr>key = ''readahead_mmap_miss_race'',
     summary = ''skip the mmap_miss decrement in do_async_mmap_readahead() while the page is locked, so concurrent faults on one page cannot drive the per-file counter down repeatedly and keep mmap read-around enabled under memory pressure (e338d8353154, v6.18; no Cc: stable, so it never reached 5.15.y)'',
     commits = [''e338d8353154 (v6.18) -- concurrent-fault mmap_miss guard''],
     group_files = [b30_FILEMAP_C],
     apply_fn = b30_mmap_miss_race_apply, hard = False\<rparr>\<close>

lemma readahead_mmap_miss_race_group_declared [simp]: "well_declared readahead_mmap_miss_race_group"
  by (rule well_declaredI [OF b30_mmap_miss_race_apply_txn]) (simp_all add: is_backup_code BACKUP_SUFFIX_def readahead_mmap_miss_race_group_def b30_FILEMAP_C_def)

definition b30_build_groups :: "group list" where
  \<open>b30_build_groups = [readahead_mmap_miss_race_group]\<close>

section \<open>\<^verbatim>\<open>scripts/batch34_core_arm64_lse_percpu.py\<close>\<close>

text \<open>
  The anchors, steps and groups of \<^verbatim>\<open>scripts/batch34_core_arm64_lse_percpu.py\<close>, in source order.
\<close>

definition b34_PERCPU_H :: str where
  \<open>b34_PERCPU_H = ''arch/arm64/include/asm/percpu.h''\<close>

definition b34_LSE_INSN_OLD :: str where
  \<open>b34_LSE_INSN_OLD = block
     [(''		#op_lse "'' @ [BSL] @ ''t%" #w "[val], %[ptr]'' @ [BSL] @ ''n"			'' @ [BSL]),
      (''		__nops(3))						'' @ [BSL]),
      []]\<close>

definition b34_LSE_INSN_NEW :: str where
  \<open>b34_LSE_INSN_NEW = block
     [(''		#op_lse "'' @ [BSL] @ ''t%" #w "[val], %" #w "[tmp], %[ptr]'' @ [BSL] @ ''n"	'' @ [BSL]),
      (''		__nops(3))						'' @ [BSL]),
      []]\<close>

definition b34_OPS_OLD :: str where
  \<open>b34_OPS_OLD = block
     [''PERCPU_OP(add, add, stadd)'',
      ''PERCPU_OP(andnot, bic, stclr)'',
      ''PERCPU_OP(or, orr, stset)'',
      ''PERCPU_RET_OP(add, add, ldadd)'',
      []]\<close>

definition b34_OPS_NEW :: str where
  \<open>b34_OPS_NEW = block
     [''/*'',
      '' * Use value-returning atomics for CPU-local ops as they are more likely'',
      '' * to execute "near" to the CPU (e.g. in L1$).'',
      '' *'',
      '' * https://lore.kernel.org/r/e7d539ed-ced0-4b96-8ecd-048a5b803b85@paulmck-laptop'',
      '' */'',
      ''PERCPU_OP(add, add, ldadd)'',
      ''PERCPU_OP(andnot, bic, ldclr)'',
      ''PERCPU_OP(or, orr, ldset)'',
      ''PERCPU_RET_OP(add, add, ldadd)'',
      []]\<close>

definition b34_build_steps_step1 :: step where
  \<open>b34_build_steps_step1 =
   (b34_PERCPU_H,
    b34_LSE_INSN_OLD,
    b34_LSE_INSN_NEW, True)\<close>

definition b34_build_steps_step2 :: step where
  \<open>b34_build_steps_step2 =
   (b34_PERCPU_H,
    b34_OPS_OLD,
    b34_OPS_NEW, True)\<close>

definition b34_build_steps :: "step list" where
  \<open>b34_build_steps = [b34_build_steps_step1, b34_build_steps_step2]\<close>

lemma b34_build_steps_files: "steps_files b34_build_steps = {b34_PERCPU_H}"
  by (simp add: b34_build_steps_def steps_files_fst insert_commute
      step_file [OF b34_build_steps_step1_def]
      step_file [OF b34_build_steps_step2_def])

lemma b34_build_steps_required: "all_required b34_build_steps"
  by (simp add: b34_build_steps_def all_required_def
      step_req [OF b34_build_steps_step1_def]
      step_req [OF b34_build_steps_step2_def])

definition b34_arm64_lse_percpu_load_atomics_apply :: "outcome io" where
  \<open>b34_arm64_lse_percpu_load_atomics_apply =
    apply_or_block b34_build_steps\<close>

lemma b34_arm64_lse_percpu_load_atomics_apply_txn: "transactional (\<lambda>_. {b34_PERCPU_H}) b34_arm64_lse_percpu_load_atomics_apply"
  unfolding b34_arm64_lse_percpu_load_atomics_apply_def
  by (intro txn_intros safe_intros)
    (simp_all add: is_backup_code BACKUP_SUFFIX_def b34_build_steps_files b34_PERCPU_H_def)

definition arm64_lse_percpu_load_atomics_group :: group where
  \<open>arm64_lse_percpu_load_atomics_group =
    \<lparr>key = ''arm64_lse_percpu_load_atomics'',
     summary = ''arm64: use load LSE atomics (LDADD/LDCLR/LDSET) for the non-return per-CPU operations so they execute near (L1) instead of far in the interconnect -- KMI-neutral header asm rewrite; upstream evidence is Neoverse-V2-only, no speedup claimed'',
     commits = [''535fdfc5a228 (v6.18, arm64-fixes; lore e7d539ed-ced0-4b96-8ecd-048a5b803b85@paulmck-laptop)''],
     group_files = [b34_PERCPU_H],
     apply_fn = b34_arm64_lse_percpu_load_atomics_apply, hard = False\<rparr>\<close>

lemma arm64_lse_percpu_load_atomics_group_declared [simp]: "well_declared arm64_lse_percpu_load_atomics_group"
  by (rule well_declaredI [OF b34_arm64_lse_percpu_load_atomics_apply_txn]) (simp_all add: is_backup_code BACKUP_SUFFIX_def arm64_lse_percpu_load_atomics_group_def b34_PERCPU_H_def)

definition b34_build_groups :: "group list" where
  \<open>b34_build_groups = [arm64_lse_percpu_load_atomics_group]\<close>

section \<open>\<^verbatim>\<open>scripts/batch35_core_fuse_erofs.py\<close>\<close>

text \<open>
  The anchors, steps and groups of \<^verbatim>\<open>scripts/batch35_core_fuse_erofs.py\<close>, in source order.
\<close>

definition b35f_FUSE_FILE_C :: str where
  \<open>b35f_FUSE_FILE_C = ''fs/fuse/file.c''\<close>

definition b35f_PREFAULT_HEAD_OLD :: str where
  \<open>b35f_PREFAULT_HEAD_OLD = block
     ['' again:'',
      ''		err = -EFAULT;'',
      ''		if (fault_in_iov_iter_readable(ii, bytes))'',
      ''			break;'',
      [],
      ''		err = -ENOMEM;'',
      ''		page = grab_cache_page_write_begin(mapping, index, 0);'',
      []]\<close>

definition b35f_PREFAULT_HEAD_NEW :: str where
  \<open>b35f_PREFAULT_HEAD_NEW = block
     ['' again:'',
      ''		err = -ENOMEM;'',
      ''		page = grab_cache_page_write_begin(mapping, index, 0);'',
      []]\<close>

definition b35f_PREFAULT_RETRY_OLD :: str where
  \<open>b35f_PREFAULT_RETRY_OLD = block
     [''		if (!tmp) {'',
      ''			unlock_page(page);'',
      ''			put_page(page);'',
      ''			goto again;'',
      ''		}'',
      []]\<close>

definition b35f_PREFAULT_RETRY_NEW :: str where
  \<open>b35f_PREFAULT_RETRY_NEW = block
     [''		if (!tmp) {'',
      ''			unlock_page(page);'',
      ''			put_page(page);'',
      [],
      ''			/*'',
      ''			 * Ensure forward progress by faulting in'',
      ''			 * while not holding the page lock:'',
      ''			 */'',
      ''			if (fault_in_iov_iter_readable(ii, bytes)) {'',
      ''				err = -EFAULT;'',
      ''				break;'',
      ''			}'',
      [],
      ''			goto again;'',
      ''		}'',
      []]\<close>

definition b35f_RETRY_PREFAULT :: str where
  \<open>b35f_RETRY_PREFAULT = block
     [''			if (fault_in_iov_iter_readable(ii, bytes)) {'',
      ''				err = -EFAULT;'',
      ''				break;'',
      ''			}'']\<close>

definition b35f_LOOP_HEAD_PREFAULT :: str where
  \<open>b35f_LOOP_HEAD_PREFAULT = block
     ['' again:'',
      ''		err = -EFAULT;'',
      ''		if (fault_in_iov_iter_readable(ii, bytes))'',
      ''			break;'',
      []]\<close>

definition b35f_build_steps_step1 :: step where
  \<open>b35f_build_steps_step1 =
   (b35f_FUSE_FILE_C,
    b35f_PREFAULT_HEAD_OLD,
    b35f_PREFAULT_HEAD_NEW, True)\<close>

definition b35f_build_steps_step2 :: step where
  \<open>b35f_build_steps_step2 =
   (b35f_FUSE_FILE_C,
    b35f_PREFAULT_RETRY_OLD,
    b35f_PREFAULT_RETRY_NEW, True)\<close>

definition b35f_build_steps :: "step list" where
  \<open>b35f_build_steps = [b35f_build_steps_step1, b35f_build_steps_step2]\<close>

lemma b35f_build_steps_files: "steps_files b35f_build_steps = {b35f_FUSE_FILE_C}"
  by (simp add: b35f_build_steps_def steps_files_fst insert_commute
      step_file [OF b35f_build_steps_step1_def]
      step_file [OF b35f_build_steps_step2_def])

lemma b35f_build_steps_required: "all_required b35f_build_steps"
  by (simp add: b35f_build_steps_def all_required_def
      step_req [OF b35f_build_steps_step1_def]
      step_req [OF b35f_build_steps_step2_def])

definition b35f_fuse_prefault_out_of_write_path_apply :: "outcome io" where
  \<open>b35f_fuse_prefault_out_of_write_path_apply =
    apply_or_block b35f_build_steps\<close>

lemma b35f_fuse_prefault_out_of_write_path_apply_txn: "transactional (\<lambda>_. {b35f_FUSE_FILE_C}) b35f_fuse_prefault_out_of_write_path_apply"
  unfolding b35f_fuse_prefault_out_of_write_path_apply_def
  by (intro txn_intros safe_intros)
    (simp_all add: is_backup_code BACKUP_SUFFIX_def b35f_build_steps_files b35f_FUSE_FILE_C_def)

definition fuse_prefault_out_of_write_path_group :: group where
  \<open>fuse_prefault_out_of_write_path_group =
    \<lparr>key = ''fuse_prefault_out_of_write_path'',
     summary = ''prefault the FUSE write source buffer only where the copy made no progress, instead of on every retry of the fill loop -- one fewer userspace access per write(2) through a FUSE daemon'',
     commits = [''faa794dd2e17 (mainline v6.16, \'fuse: Move prefaulting out of hot write path\')''],
     group_files = [b35f_FUSE_FILE_C],
     apply_fn = b35f_fuse_prefault_out_of_write_path_apply, hard = False\<rparr>\<close>

lemma fuse_prefault_out_of_write_path_group_declared [simp]: "well_declared fuse_prefault_out_of_write_path_group"
  by (rule well_declaredI [OF b35f_fuse_prefault_out_of_write_path_apply_txn]) (simp_all add: is_backup_code BACKUP_SUFFIX_def fuse_prefault_out_of_write_path_group_def b35f_FUSE_FILE_C_def)

definition b35f_build_groups :: "group list" where
  \<open>b35f_build_groups = [fuse_prefault_out_of_write_path_group]\<close>

section \<open>\<^verbatim>\<open>scripts/batch39_core_pagealloc_batch_clear.py\<close>\<close>

text \<open>
  The anchors, steps and groups of \<^verbatim>\<open>scripts/batch39_core_pagealloc_batch_clear.py\<close>, in source order.
\<close>

definition b39_PAGE_ALLOC_C :: str where
  \<open>b39_PAGE_ALLOC_C = ''mm/page_alloc.c''\<close>

definition b39_BATCH_CLEAR_OLD :: str where
  \<open>b39_BATCH_CLEAR_OLD = block
     [''static void kernel_init_free_pages(struct page *page, int numpages)'',
      ''{'',
      ''	int i;'',
      [],
      ''	/* s390\'s use of memset() could override KASAN redzones. */'',
      ''	kasan_disable_current();'',
      ''	for (i = 0; i < numpages; i++) {'',
      ''		u8 tag = page_kasan_tag(page + i);'',
      ''		page_kasan_tag_reset(page + i);'',
      ''		clear_highpage(page + i);'',
      ''		page_kasan_tag_set(page + i, tag);'',
      ''	}'',
      ''	kasan_enable_current();'',
      ''}'',
      []]\<close>

definition b39_BATCH_CLEAR_NEW :: str where
  \<open>b39_BATCH_CLEAR_NEW = block
     [''static void kernel_init_free_pages(struct page *page, int numpages)'',
      ''{'',
      ''	/* s390\'s use of memset() could override KASAN redzones. */'',
      ''	kasan_disable_current();'',
      ''	if (!IS_ENABLED(CONFIG_HIGHMEM)) {'',
      ''		/*'',
      ''		 * ABK stable_515_backport: v7.2 b001cf7d16dd -- one memset over'',
      ''		 * the contiguous range instead of numpages kmap_atomic()/'',
      ''		 * clear_page()/kunmap_atomic() round trips.  The per-page KASAN'',
      ''		 * tag pair is a no-op on this baseline and is dropped; HIGHMEM'',
      ''		 * keeps the per-page form because it needs kmap.'',
      ''		 */'',
      ''		memset(kasan_reset_tag(page_address(page)), 0,'',
      ''		       (unsigned long)numpages * PAGE_SIZE);'',
      ''	} else {'',
      ''		int i;'',
      [],
      ''		for (i = 0; i < numpages; i++) {'',
      ''			u8 tag = page_kasan_tag(page + i);'',
      [],
      ''			page_kasan_tag_reset(page + i);'',
      ''			clear_highpage(page + i);'',
      ''			page_kasan_tag_set(page + i, tag);'',
      ''		}'',
      ''	}'',
      ''	kasan_enable_current();'',
      ''}'',
      []]\<close>

definition b39_pagealloc_batch_clear_step1 :: step where
  \<open>b39_pagealloc_batch_clear_step1 =
   (b39_PAGE_ALLOC_C,
    b39_BATCH_CLEAR_OLD,
    b39_BATCH_CLEAR_NEW, True)\<close>

definition b39_pagealloc_batch_clear_steps :: "step list" where
  \<open>b39_pagealloc_batch_clear_steps = [b39_pagealloc_batch_clear_step1]\<close>

definition b39_pagealloc_batch_clear_apply :: "outcome io" where
  \<open>b39_pagealloc_batch_clear_apply =
    apply_or_block b39_pagealloc_batch_clear_steps\<close>

lemma b39_pagealloc_batch_clear_steps_files: "steps_files b39_pagealloc_batch_clear_steps = {b39_PAGE_ALLOC_C}"
  by (simp add: b39_pagealloc_batch_clear_steps_def steps_files_fst insert_commute
      step_file [OF b39_pagealloc_batch_clear_step1_def])

lemma b39_pagealloc_batch_clear_steps_required: "all_required b39_pagealloc_batch_clear_steps"
  by (simp add: b39_pagealloc_batch_clear_steps_def all_required_def
      step_req [OF b39_pagealloc_batch_clear_step1_def])

lemma b39_pagealloc_batch_clear_apply_txn: "transactional (\<lambda>_. {b39_PAGE_ALLOC_C}) b39_pagealloc_batch_clear_apply"
  unfolding b39_pagealloc_batch_clear_apply_def
  by (intro txn_intros safe_intros)
    (simp_all add: is_backup_code BACKUP_SUFFIX_def b39_pagealloc_batch_clear_steps_files b39_PAGE_ALLOC_C_def)

definition pagealloc_batch_clear_group :: group where
  \<open>pagealloc_batch_clear_group =
    \<lparr>key = ''pagealloc_batch_clear'',
     summary = ''kernel_init_free_pages() clears the whole contiguous allocation with one memset instead of numpages kmap_atomic()/clear_page()/kunmap_atomic() round trips; init_on_alloc is default-on in the GKI defconfig, so this is the per-page clear the allocator runs on every allocation'',
     commits = [''b001cf7d16dd (v7.2)''],
     group_files = [b39_PAGE_ALLOC_C],
     apply_fn = b39_pagealloc_batch_clear_apply, hard = False\<rparr>\<close>

lemma pagealloc_batch_clear_group_declared [simp]: "well_declared pagealloc_batch_clear_group"
  by (rule well_declaredI [OF b39_pagealloc_batch_clear_apply_txn]) (simp_all add: is_backup_code BACKUP_SUFFIX_def pagealloc_batch_clear_group_def b39_PAGE_ALLOC_C_def)

definition b39_build_groups :: "group list" where
  \<open>b39_build_groups = [pagealloc_batch_clear_group]\<close>

section \<open>\<^verbatim>\<open>scripts/batch46_core_erofs_readmore_eof.py\<close>\<close>

text \<open>
  The anchors, steps and groups of \<^verbatim>\<open>scripts/batch46_core_erofs_readmore_eof.py\<close>, in source order.
\<close>

definition b46_ZDATA_C :: str where
  \<open>b46_ZDATA_C = ''fs/erofs/zdata.c''\<close>

definition b46_READMORE_OLD :: str where
  \<open>b46_READMORE_OLD = block
     [''	cur = map->m_la + map->m_llen - 1;'',
      ''	while (cur >= end) {'',
      ''		pgoff_t index = cur >> PAGE_SHIFT;'',
      []]\<close>

definition b46_READMORE_NEW :: str where
  \<open>b46_READMORE_NEW = block
     [''	cur = map->m_la + map->m_llen - 1;'',
      ''	while ((cur >= end) && (cur < i_size_read(inode))) {'',
      ''		pgoff_t index = cur >> PAGE_SHIFT;'',
      []]\<close>

definition b46_EOF_GUARD :: str where
  \<open>b46_EOF_GUARD = ''cur < i_size_read(inode)''\<close>

definition b46_LOOP_CONDITION_NEW :: str where
  \<open>b46_LOOP_CONDITION_NEW = block
     [''	while ((cur >= end) && (cur < i_size_read(inode))) {'',
      []]\<close>

definition b46_build_steps_step1 :: step where
  \<open>b46_build_steps_step1 =
   (b46_ZDATA_C,
    b46_READMORE_OLD,
    b46_READMORE_NEW, True)\<close>

definition b46_build_steps :: "step list" where
  \<open>b46_build_steps = [b46_build_steps_step1]\<close>

lemma b46_build_steps_files: "steps_files b46_build_steps = {b46_ZDATA_C}"
  by (simp add: b46_build_steps_def steps_files_fst insert_commute
      step_file [OF b46_build_steps_step1_def])

lemma b46_build_steps_required: "all_required b46_build_steps"
  by (simp add: b46_build_steps_def all_required_def
      step_req [OF b46_build_steps_step1_def])

definition b46_erofs_readmore_past_eof_apply :: "outcome io" where
  \<open>b46_erofs_readmore_past_eof_apply =
    apply_or_block b46_build_steps\<close>

lemma b46_erofs_readmore_past_eof_apply_txn: "transactional (\<lambda>_. {b46_ZDATA_C}) b46_erofs_readmore_past_eof_apply"
  unfolding b46_erofs_readmore_past_eof_apply_def
  by (intro txn_intros safe_intros)
    (simp_all add: is_backup_code BACKUP_SUFFIX_def b46_build_steps_files b46_ZDATA_C_def)

definition erofs_readmore_past_eof_group :: group where
  \<open>erofs_readmore_past_eof_group =
    \<lparr>key = ''erofs_readmore_past_eof'',
     summary = ''z_erofs_pcluster_readmore() stops its backwards prefetch walk at the inode\'s size instead of at the mapped extent, so a read at a large page offset on a small file cannot spend the whole page count iterating past EOF'',
     commits = [''936aa701d82d (mainline v6.5, \'erofs: avoid useless loops in z_erofs_pcluster_readmore() when reading beyond EOF\')''],
     group_files = [b46_ZDATA_C],
     apply_fn = b46_erofs_readmore_past_eof_apply, hard = False\<rparr>\<close>

lemma erofs_readmore_past_eof_group_declared [simp]: "well_declared erofs_readmore_past_eof_group"
  by (rule well_declaredI [OF b46_erofs_readmore_past_eof_apply_txn]) (simp_all add: is_backup_code BACKUP_SUFFIX_def erofs_readmore_past_eof_group_def b46_ZDATA_C_def)

definition b46_build_groups :: "group list" where
  \<open>b46_build_groups = [erofs_readmore_past_eof_group]\<close>

end
