(* ===== verification/Core_Batch_Zram.thy ===== *)
theory Core_Batch_Zram
  imports Registry_Laws
begin

text \<open>
  One section per module: the batch modules of the later zram and zsmalloc work.
\<close>

section \<open>\<^verbatim>\<open>scripts/batch32_core_zram_wb_slot_preserve.py\<close>\<close>

text \<open>
  The anchors, steps and groups of \<^verbatim>\<open>scripts/batch32_core_zram_wb_slot_preserve.py\<close>, in source order.
\<close>

definition b32_ZRAM_C :: str where
  \<open>b32_ZRAM_C = ''drivers/block/zram/zram_drv.c''\<close>

definition b32_COMPLETE_DECL_OLD :: str where
  \<open>b32_COMPLETE_DECL_OLD = block
     [''static int zram_writeback_complete(struct zram *zram, struct zram_wb_req *req)'',
      ''{'',
      ''	u32 index = req->index;'',
      ''	u32 size = 0, prio = 0;'',
      ''	bool huge = false;'',
      ''	int err;'',
      []]\<close>

definition b32_COMPLETE_DECL_NEW :: str where
  \<open>b32_COMPLETE_DECL_NEW = block
     [''static int zram_writeback_complete(struct zram *zram, struct zram_wb_req *req)'',
      ''{'',
      ''	u32 index = req->index;'',
      ''	int err;'',
      []]\<close>

definition b32_COMPLETE_RELEASE_OLD :: str where
  \<open>b32_COMPLETE_RELEASE_OLD = block
     [''	if (zram->wb_compressed) {'',
      ''		/*'',
      ''		 * ABK stable_515_backport: d38fab605c66.  The backing device holds'',
      ''		 * the raw object, so the slot has to keep the metadata the read'',
      ''		 * path needs to decompress it: zram_free_page() clears all of it.'',
      ''		 */'',
      ''		size = zram_get_obj_size(zram, index);'',
      ''		prio = zram_get_priority(zram, index);'',
      ''		huge = zram_test_flag(zram, index, ZRAM_HUGE);'',
      ''	}'',
      [],
      ''	atomic64_inc(&zram->stats.bd_writes);'',
      ''	zram_slot_lock(zram, index);'',
      ''	/*'',
      ''	 * The slot lock was released for the bio, so the slot can have changed'',
      ''	 * under us: slot_free(), or slot_free() plus zram_write_page().  Both'',
      ''	 * clear ZRAM_IDLE (zram_free_page() clears it), and idle_store() never'',
      ''	 * sets ZRAM_IDLE on a ZRAM_UNDER_WB slot, so ZRAM_IDLE is a sound "this'',
      ''	 * is still the slot we read" test.'',
      ''	 */'',
      ''	if (!zram_allocated(zram, index) ||'',
      ''	    !zram_test_flag(zram, index, ZRAM_IDLE)) {'',
      ''		zram_clear_flag(zram, index, ZRAM_UNDER_WB);'',
      ''		zram_clear_flag(zram, index, ZRAM_IDLE);'',
      ''		free_block_bdev(zram, req->blk_idx);'',
      ''		goto out;'',
      ''	}'',
      [],
      ''	zram_free_page(zram, index);'',
      ''	zram_clear_flag(zram, index, ZRAM_UNDER_WB);'',
      ''	zram_set_flag(zram, index, ZRAM_WB);'',
      ''	zram_set_element(zram, index, req->blk_idx);'',
      [],
      ''	if (zram->wb_compressed) {'',
      ''		if (huge)'',
      ''			zram_set_flag(zram, index, ZRAM_HUGE);'',
      ''		zram_set_obj_size(zram, index, size);'',
      ''		zram_set_priority(zram, index, prio);'',
      ''	}'',
      [],
      ''	atomic64_inc(&zram->stats.pages_stored);'',
      []]\<close>

definition b32_COMPLETE_RELEASE_NEW :: str where
  \<open>b32_COMPLETE_RELEASE_NEW = block
     [''	atomic64_inc(&zram->stats.bd_writes);'',
      ''	zram_slot_lock(zram, index);'',
      ''	/*'',
      ''	 * The slot lock was released for the bio, so the slot can have changed'',
      ''	 * under us: slot_free(), or slot_free() plus zram_write_page().  Both'',
      ''	 * clear ZRAM_IDLE (zram_free_page() clears it), and idle_store() never'',
      ''	 * sets ZRAM_IDLE on a ZRAM_UNDER_WB slot, so ZRAM_IDLE is a sound "this'',
      ''	 * is still the slot we read" test.'',
      ''	 */'',
      ''	if (!zram_allocated(zram, index) ||'',
      ''	    !zram_test_flag(zram, index, ZRAM_IDLE)) {'',
      ''		zram_clear_flag(zram, index, ZRAM_UNDER_WB);'',
      ''		zram_clear_flag(zram, index, ZRAM_IDLE);'',
      ''		free_block_bdev(zram, req->blk_idx);'',
      ''		goto out;'',
      ''	}'',
      [],
      ''	/*'',
      ''	 * ABK stable_515_backport: b0377ee80429.  Release the slot without'',
      ''	 * zram_free_page(): that helper resets every flag and attribute, so the'',
      ''	 * slot would lose metadata the paths need -- obj_size and priority for'',
      ''	 * the compressed read, ZRAM_HUGE for the raw one, and (upstream\'s other'',
      ''	 * reason for this commit) ZRAM_INCOMPRESSIBLE plus ac_time.  It also'',
      ''	 * decrements ->huge_pages, and re-setting ZRAM_HUGE afterwards does not'',
      ''	 * give that decrement back: the slot\'s final release would decrement'',
      ''	 * the counter a second time (underflow).'',
      ''	 *'',
      ''	 * Release only what completion owes.  pages_stored is deliberately left'',
      ''	 * alone in both directions: zram_free_page()\'s out: label used to'',
      ''	 * decrement it and the increment that closed this path compensated, so'',
      ''	 * dropping both keeps a written-back page counted as stored.'',
      ''	 */'',
      ''	zram_clear_flag(zram, index, ZRAM_IDLE);'',
      ''	if (zram_test_flag(zram, index, ZRAM_HUGE))'',
      ''		atomic64_dec(&zram->stats.huge_pages);'',
      ''	atomic64_sub(zram_get_obj_size(zram, index),'',
      ''		     &zram->stats.compr_data_size);'',
      ''	zs_free(zram->mem_pool, zram_get_handle(zram, index));'',
      ''	zram_clear_flag(zram, index, ZRAM_UNDER_WB);'',
      ''	zram_set_flag(zram, index, ZRAM_WB);'',
      ''	zram_set_element(zram, index, req->blk_idx);'',
      []]\<close>

definition b32_FREE_PAGE_HUGE_OLD :: str where
  \<open>b32_FREE_PAGE_HUGE_OLD = block
     [''	if (zram_test_flag(zram, index, ZRAM_HUGE)) {'',
      ''		zram_clear_flag(zram, index, ZRAM_HUGE);'',
      ''		atomic64_dec(&zram->stats.huge_pages);'',
      ''	}'',
      []]\<close>

definition b32_FREE_PAGE_HUGE_NEW :: str where
  \<open>b32_FREE_PAGE_HUGE_NEW = block
     [''	if (zram_test_flag(zram, index, ZRAM_HUGE)) {'',
      ''		zram_clear_flag(zram, index, ZRAM_HUGE);'',
      ''		/*'',
      ''		 * ABK stable_515_backport: b0377ee80429.  A written-back slot keeps'',
      ''		 * ZRAM_HUGE for the deferred decompression path, and its huge page'',
      ''		 * was already accounted when the writeback completed -- decrement'',
      ''		 * only for a slot that was never written back.'',
      ''		 */'',
      ''		if (!zram_test_flag(zram, index, ZRAM_WB))'',
      ''			atomic64_dec(&zram->stats.huge_pages);'',
      ''	}'',
      []]\<close>

definition b32_build_steps_step1 :: step where
  \<open>b32_build_steps_step1 =
   (b32_ZRAM_C,
    b32_COMPLETE_DECL_OLD,
    b32_COMPLETE_DECL_NEW, True)\<close>

definition b32_build_steps_step2 :: step where
  \<open>b32_build_steps_step2 =
   (b32_ZRAM_C,
    b32_COMPLETE_RELEASE_OLD,
    b32_COMPLETE_RELEASE_NEW, True)\<close>

definition b32_build_steps_step3 :: step where
  \<open>b32_build_steps_step3 =
   (b32_ZRAM_C,
    b32_FREE_PAGE_HUGE_OLD,
    b32_FREE_PAGE_HUGE_NEW, True)\<close>

definition b32_build_steps :: "step list" where
  \<open>b32_build_steps = [b32_build_steps_step1, b32_build_steps_step2, b32_build_steps_step3]\<close>

lemma b32_build_steps_files: "steps_files b32_build_steps = {b32_ZRAM_C}"
  by (simp add: b32_build_steps_def steps_files_fst insert_commute
      step_file [OF b32_build_steps_step1_def]
      step_file [OF b32_build_steps_step2_def]
      step_file [OF b32_build_steps_step3_def])

lemma b32_build_steps_required: "all_required b32_build_steps"
  by (simp add: b32_build_steps_def all_required_def
      step_req [OF b32_build_steps_step1_def]
      step_req [OF b32_build_steps_step2_def]
      step_req [OF b32_build_steps_step3_def])

definition b32_BATCHING_PAYLOAD :: str where
  \<open>b32_BATCHING_PAYLOAD = ''static void zram_account_writeback_submit(struct zram *zram)''\<close>

definition b32_SLOT_PRESERVE_MARKER :: str where
  \<open>b32_SLOT_PRESERVE_MARKER = ''ABK stable_515_backport: b0377ee80429''\<close>

definition b32_HUGE_GUARD :: str where
  \<open>b32_HUGE_GUARD = block
     [''		if (!zram_test_flag(zram, index, ZRAM_WB))'',
      ''			atomic64_dec(&zram->stats.huge_pages);'',
      []]\<close>

definition b32_slot_preserve_apply :: "outcome io" where
  \<open>b32_slot_preserve_apply =
    io_try is_fnf (ctx_read b32_ZRAM_C)
      (\<lambda>e. io_ret (BlockedByShape, b32_ZRAM_C @
      '': file absent''))
      (\<lambda>text.
    if \<not> contains ''static int zram_writeback_complete(struct zram *zram, struct zram_wb_req *req)'' text
    then io_ret (BlockedByShape, ''zram_writeback_complete() not found: zram_writeback_batching must apply first'')
    else
    apply_or_block b32_build_steps)\<close>

lemma b32_slot_preserve_apply_txn: "transactional (\<lambda>_. {b32_ZRAM_C}) b32_slot_preserve_apply"
  unfolding b32_slot_preserve_apply_def
  by (intro txn_intros safe_intros)
    (simp_all add: is_backup_code BACKUP_SUFFIX_def b32_build_steps_files b32_ZRAM_C_def)

definition zram_wb_slot_preserve_group :: group where
  \<open>zram_wb_slot_preserve_group =
    \<lparr>key = ''zram_wb_slot_preserve'',
     summary = ''release a written-back slot without zram_free_page(): keep the metadata the read and recompression paths need (obj_size, priority, ZRAM_HUGE, ZRAM_INCOMPRESSIBLE, ac_time) and stop decrementing ->huge_pages twice, while leaving pages_stored unchanged'',
     commits = [''b0377ee80429 (mm-hotfixes-stable, Fixes: d38fab605c667) -- do not slot_free() written-back slots'',
      ''37b72d525502 (ACK android16-6.12) -- the same fix against the ACK slot APIs''],
     group_files = [b32_ZRAM_C],
     apply_fn = b32_slot_preserve_apply, hard = False\<rparr>\<close>

lemma zram_wb_slot_preserve_group_declared [simp]: "well_declared zram_wb_slot_preserve_group"
  by (rule well_declaredI [OF b32_slot_preserve_apply_txn]) (simp_all add: is_backup_code BACKUP_SUFFIX_def zram_wb_slot_preserve_group_def b32_ZRAM_C_def)

definition b32_build_groups :: "group list" where
  \<open>b32_build_groups = [zram_wb_slot_preserve_group]\<close>

section \<open>\<^verbatim>\<open>scripts/batch33_core_zsmalloc_free.py\<close>\<close>

text \<open>
  The anchors, steps and groups of \<^verbatim>\<open>scripts/batch33_core_zsmalloc_free.py\<close>, in source order.
\<close>

definition b33_ZSMALLOC_C :: str where
  \<open>b33_ZSMALLOC_C = ''mm/zsmalloc.c''\<close>

definition b33_ZF_OLD :: str where
  \<open>b33_ZF_OLD = block
     [''static void __free_zspage(struct zs_pool *pool, struct size_class *class,'',
      ''				struct zspage *zspage)'',
      ''{'',
      ''	struct page *page, *next;'',
      ''	enum fullness_group fg;'',
      ''	unsigned int class_idx;'',
      [],
      ''	get_zspage_mapping(zspage, &class_idx, &fg);'',
      [],
      ''	assert_spin_locked(&class->lock);'',
      [],
      ''	VM_BUG_ON(get_zspage_inuse(zspage));'',
      ''	VM_BUG_ON(fg != ZS_EMPTY);'',
      [],
      ''	next = page = get_first_page(zspage);'',
      ''	do {'',
      ''		VM_BUG_ON_PAGE(!PageLocked(page), page);'',
      ''		next = get_next_page(page);'',
      ''		reset_page(page);'',
      ''		unlock_page(page);'',
      ''		dec_zone_page_state(page, NR_ZSPAGES);'',
      ''		put_page(page);'',
      ''		page = next;'',
      ''	} while (page != NULL);'',
      [],
      ''	cache_free_zspage(pool, zspage);'',
      [],
      ''	zs_stat_dec(class, OBJ_ALLOCATED, class->objs_per_zspage);'',
      ''	atomic_long_sub(class->pages_per_zspage,'',
      ''					&pool->pages_allocated);'',
      ''}'',
      []]\<close>

definition b33_ZF_NEW :: str where
  \<open>b33_ZF_NEW = block
     [''/*'',
      '' * ABK stable_515_backport: 7ef28e8b8142.  The page-return half of'',
      '' * __free_zspage() moves into its own helper so zs_free() can hand the'',
      '' * pages back to the buddy allocator *after* dropping class->lock:'',
      '' * put_page() reaches the zone lock under memory pressure, and waiting for'',
      '' * it with class->lock held blocks every other zs_free() on the same size'',
      '' * class behind it.  The locked wrapper below keeps the class bookkeeping'',
      '' * (class->stats.objs[] is a plain unsigned long) and stays the only entry'',
      '' * point for free_zspage() and async_free_zspage().'',
      '' */'',
      ''static inline void __free_zspage_lockless(struct zs_pool *pool,'',
      ''				struct zspage *zspage)'',
      ''{'',
      ''	struct page *page, *next;'',
      ''	enum fullness_group fg;'',
      ''	unsigned int class_idx;'',
      [],
      ''	get_zspage_mapping(zspage, &class_idx, &fg);'',
      [],
      ''	VM_BUG_ON(get_zspage_inuse(zspage));'',
      ''	VM_BUG_ON(fg != ZS_EMPTY);'',
      [],
      ''	next = page = get_first_page(zspage);'',
      ''	do {'',
      ''		VM_BUG_ON_PAGE(!PageLocked(page), page);'',
      ''		next = get_next_page(page);'',
      ''		reset_page(page);'',
      ''		unlock_page(page);'',
      ''		dec_zone_page_state(page, NR_ZSPAGES);'',
      ''		put_page(page);'',
      ''		page = next;'',
      ''	} while (page != NULL);'',
      [],
      ''	cache_free_zspage(pool, zspage);'',
      ''}'',
      [],
      ''static void __free_zspage(struct zs_pool *pool, struct size_class *class,'',
      ''				struct zspage *zspage)'',
      ''{'',
      ''	assert_spin_locked(&class->lock);'',
      [],
      ''	__free_zspage_lockless(pool, zspage);'',
      [],
      ''	zs_stat_dec(class, OBJ_ALLOCATED, class->objs_per_zspage);'',
      ''	atomic_long_sub(class->pages_per_zspage,'',
      ''					&pool->pages_allocated);'',
      ''}'',
      []]\<close>

definition b33_ZS_FREE_DECL_OLD :: str where
  \<open>b33_ZS_FREE_DECL_OLD = block
     [''void zs_free(struct zs_pool *pool, unsigned long handle)'',
      ''{'',
      ''	struct zspage *zspage;'',
      ''	struct page *f_page;'',
      []]\<close>

definition b33_ZS_FREE_DECL_NEW :: str where
  \<open>b33_ZS_FREE_DECL_NEW = block
     [''void zs_free(struct zs_pool *pool, unsigned long handle)'',
      ''{'',
      ''	struct zspage *zspage;'',
      ''	struct zspage *zspage_to_free = NULL;'',
      ''	struct page *f_page;'',
      []]\<close>

definition b33_ZS_FREE_TAIL_OLD :: str where
  \<open>b33_ZS_FREE_TAIL_OLD = block
     [''	if (likely(!isolated))'',
      ''		free_zspage(pool, class, zspage);'',
      ''out:'',
      [],
      ''	spin_unlock(&class->lock);'',
      []]\<close>

definition b33_ZS_FREE_TAIL_NEW :: str where
  \<open>b33_ZS_FREE_TAIL_NEW = block
     [''	/*'',
      ''	 * ABK stable_515_backport: 7ef28e8b8142.  Take the zspage off its class'',
      ''	 * and do the class bookkeeping under class->lock, but return its pages'',
      ''	 * to the buddy allocator outside it: put_page() reaches the zone lock'',
      ''	 * under memory pressure, and holding class->lock across that blocks'',
      ''	 * every other zs_free() on this size class behind it.'',
      ''	 */'',
      ''	if (likely(!isolated)) {'',
      ''		if (trylock_zspage(zspage)) {'',
      ''			remove_zspage(class, zspage, ZS_EMPTY);'',
      ''			zs_stat_dec(class, OBJ_ALLOCATED,'',
      ''					class->objs_per_zspage);'',
      ''			zspage_to_free = zspage;'',
      ''		} else {'',
      ''			kick_deferred_free(pool);'',
      ''		}'',
      ''	}'',
      ''out:'',
      [],
      ''	spin_unlock(&class->lock);'',
      [],
      ''	if (zspage_to_free) {'',
      ''		__free_zspage_lockless(pool, zspage_to_free);'',
      ''		atomic_long_sub(class->pages_per_zspage,'',
      ''					&pool->pages_allocated);'',
      ''	}'',
      []]\<close>

definition b33_LOCKLESS_HELPER :: str where
  \<open>b33_LOCKLESS_HELPER = block
     [''static inline void __free_zspage_lockless(struct zs_pool *pool,'',
      ''				struct zspage *zspage)'']\<close>

definition b33_FREE_OUTSIDE_LOCK :: str where
  \<open>b33_FREE_OUTSIDE_LOCK = block
     [''if (zspage_to_free) {'',
      ''		__free_zspage_lockless(pool, zspage_to_free);'']\<close>

definition b33_MARKER :: str where
  \<open>b33_MARKER = ''ABK stable_515_backport: 7ef28e8b8142''\<close>

definition b33_LOCKED_TAIL :: str where
  \<open>b33_LOCKED_TAIL = block
     [''if (likely(!isolated))'',
      ''		free_zspage(pool, class, zspage);'']\<close>

definition b33_build_steps_step1 :: step where
  \<open>b33_build_steps_step1 =
   (b33_ZSMALLOC_C,
    b33_ZF_OLD,
    b33_ZF_NEW, True)\<close>

definition b33_build_steps_step2 :: step where
  \<open>b33_build_steps_step2 =
   (b33_ZSMALLOC_C,
    b33_ZS_FREE_DECL_OLD,
    b33_ZS_FREE_DECL_NEW, True)\<close>

definition b33_build_steps_step3 :: step where
  \<open>b33_build_steps_step3 =
   (b33_ZSMALLOC_C,
    b33_ZS_FREE_TAIL_OLD,
    b33_ZS_FREE_TAIL_NEW, True)\<close>

definition b33_build_steps :: "step list" where
  \<open>b33_build_steps = [b33_build_steps_step1, b33_build_steps_step2, b33_build_steps_step3]\<close>

lemma b33_build_steps_files: "steps_files b33_build_steps = {b33_ZSMALLOC_C}"
  by (simp add: b33_build_steps_def steps_files_fst insert_commute
      step_file [OF b33_build_steps_step1_def]
      step_file [OF b33_build_steps_step2_def]
      step_file [OF b33_build_steps_step3_def])

lemma b33_build_steps_required: "all_required b33_build_steps"
  by (simp add: b33_build_steps_def all_required_def
      step_req [OF b33_build_steps_step1_def]
      step_req [OF b33_build_steps_step2_def]
      step_req [OF b33_build_steps_step3_def])

definition b33_zs_free_out_of_lock_apply :: "outcome io" where
  \<open>b33_zs_free_out_of_lock_apply =
    apply_or_block b33_build_steps\<close>

lemma b33_zs_free_out_of_lock_apply_txn: "transactional (\<lambda>_. {b33_ZSMALLOC_C}) b33_zs_free_out_of_lock_apply"
  unfolding b33_zs_free_out_of_lock_apply_def
  by (intro txn_intros safe_intros)
    (simp_all add: is_backup_code BACKUP_SUFFIX_def b33_build_steps_files b33_ZSMALLOC_C_def)

definition zsmalloc_free_zspage_out_of_lock_group :: group where
  \<open>zsmalloc_free_zspage_out_of_lock_group =
    \<lparr>key = ''zsmalloc_free_zspage_out_of_lock'',
     summary = ''shrink zs_free()\'s class->lock critical section: return a dead zspage\'s pages to the buddy allocator after the lock is dropped, instead of waiting for zone->lock with class->lock held'',
     commits = [''7ef28e8b8142 (mainline, \'mm/zsmalloc: drop class lock before freeing zspage\'; series \'mm/zsmalloc: reduce lock contention in zs_free()\' v6, patch 3 of 4)''],
     group_files = [b33_ZSMALLOC_C],
     apply_fn = b33_zs_free_out_of_lock_apply, hard = False\<rparr>\<close>

lemma zsmalloc_free_zspage_out_of_lock_group_declared [simp]: "well_declared zsmalloc_free_zspage_out_of_lock_group"
  by (rule well_declaredI [OF b33_zs_free_out_of_lock_apply_txn]) (simp_all add: is_backup_code BACKUP_SUFFIX_def zsmalloc_free_zspage_out_of_lock_group_def b33_ZSMALLOC_C_def)

definition b33_build_groups :: "group list" where
  \<open>b33_build_groups = [zsmalloc_free_zspage_out_of_lock_group]\<close>

section \<open>\<^verbatim>\<open>scripts/batch47_core_zram_recomp_skip.py\<close>\<close>

text \<open>
  The anchors, steps and groups of \<^verbatim>\<open>scripts/batch47_core_zram_recomp_skip.py\<close>, in source order.
\<close>

definition b47_ZRAM_C :: str where
  \<open>b47_ZRAM_C = ''drivers/block/zram/zram_drv.c''\<close>

definition b47_HELP_OLD :: str where
  \<open>b47_HELP_OLD = block
     ['' * @offset: byte offset within physical block'',
      '' */'',
      []]\<close>

definition b47_HELP_NEW :: str where
  \<open>b47_HELP_NEW = block
     ['' * @offset: byte offset within physical block'',
      '' */'',
      [],
      ''#ifdef CONFIG_ZRAM_MULTI_COMP'',
      ''/*'',
      '' * sailboat_zram_recomp_skip: would a recompression pass gain anything on'',
      '' * this slot?  True when no compressor above the slot\'s current priority can'',
      '' * take it -- the same condition the priority loop inside'',
      '' * zram_recompress() rejects on.  Asked in front of the attempt so the'',
      '' * caller does not pay for a slot lock, a decompress and a ZRAM_IDLE clear to'',
      '' * reach that rejection, and so the max_pages budget (Batch 24) is not spent'',
      '' * on entries that cannot improve.'',
      '' *'',
      '' * This matters because a re-mark re-hands every page whose age was never'',
      '' * refreshed, and zram_recompress() never refreshes it: it reads through'',
      '' * zram_read_from_zspool() rather than zram_accessed().  A page already at the'',
      '' * top priority is thus eligible on every mark, forever, and without this the'',
      '' * capped sweep spends its whole budget on those before reaching new cold'',
      '' * pages.'',
      '' */'',
      ''static bool abk_zram_recompress_pointless(struct zram *zram,'',
      ''					 unsigned long index, u32 prio, u32 prio_max)'',
      ''{'',
      ''	u32 abk_cur = zram_get_priority(zram, index);'',
      [],
      ''	for (; prio < prio_max; prio++)'',
      ''		if (prio > abk_cur && zram->comps[prio])'',
      ''			return false;'',
      ''	return true;'',
      ''}'',
      ''#endif'',
      []]\<close>

definition b47_SYNC_OLD :: str where
  \<open>b47_SYNC_OLD = block
     [''		if (zram_test_flag(zram, index, ZRAM_WB) ||'',
      ''		    zram_test_flag(zram, index, ZRAM_UNDER_WB) ||'',
      ''		    zram_test_flag(zram, index, ZRAM_SAME) ||'',
      ''		    zram_test_flag(zram, index, ZRAM_INCOMPRESSIBLE))'',
      ''			goto next;'',
      [],
      ''		num_recomp_pages--;'',
      ''		err = zram_recompress(zram, index, page, threshold, prio, prio_max);'',
      []]\<close>

definition b47_SYNC_NEW :: str where
  \<open>b47_SYNC_NEW = block
     [''		if (zram_test_flag(zram, index, ZRAM_WB) ||'',
      ''		    zram_test_flag(zram, index, ZRAM_UNDER_WB) ||'',
      ''		    zram_test_flag(zram, index, ZRAM_SAME) ||'',
      ''		    zram_test_flag(zram, index, ZRAM_INCOMPRESSIBLE))'',
      ''			goto next;'',
      [],
      ''		/* ABK stable_515_backport: Batch 47.  Bail out before the attempt'',
      ''		 * -- and before the cap decrement -- when nothing above this slot\'s'',
      ''		 * priority could compress it further.  A re-mark hands these back on'',
      ''		 * every mark, so this is what keeps the sweep reaching new pages.'',
      ''		 */'',
      ''		if (abk_zram_recompress_pointless(zram, index, prio, prio_max))'',
      ''			goto next;'',
      [],
      ''		num_recomp_pages--;'',
      ''		err = zram_recompress(zram, index, page, threshold, prio, prio_max);'',
      []]\<close>

definition b47_ASYNC_OLD :: str where
  \<open>b47_ASYNC_OLD = block
     [''		if (zram_test_flag(zram, index, ZRAM_WB) ||'',
      ''			zram_test_flag(zram, index, ZRAM_UNDER_WB) ||'',
      ''			zram_test_flag(zram, index, ZRAM_SAME) ||'',
      ''			zram_test_flag(zram, index, ZRAM_INCOMPRESSIBLE))'',
      ''			goto abk_async_next;'',
      [],
      ''		candidate = true;'',
      []]\<close>

definition b47_ASYNC_NEW :: str where
  \<open>b47_ASYNC_NEW = block
     [''		if (zram_test_flag(zram, index, ZRAM_WB) ||'',
      ''			zram_test_flag(zram, index, ZRAM_UNDER_WB) ||'',
      ''			zram_test_flag(zram, index, ZRAM_SAME) ||'',
      ''			zram_test_flag(zram, index, ZRAM_INCOMPRESSIBLE))'',
      ''			goto abk_async_next;'',
      [],
      ''		/* ABK stable_515_backport: Batch 47.  Same bail-out as the synchronous'',
      ''		 * node, ahead of `candidate = true` so no job is queued and the'',
      ''		 * max_pages budget counts only entries that can still improve.'',
      ''		 */'',
      ''		if (abk_zram_recompress_pointless(zram, index, prio, prio_max))'',
      ''			goto abk_async_next;'',
      [],
      ''		candidate = true;'',
      []]\<close>

definition b47_RECOMPRESS_HELPER :: str where
  \<open>b47_RECOMPRESS_HELPER = ''static int zram_recompress(struct zram *zram, u32 index,''\<close>

definition b47_RECOMPRESS_ASYNC_STORE :: str where
  \<open>b47_RECOMPRESS_ASYNC_STORE = ''static ssize_t recompress_async_store(struct device *dev,''\<close>

definition b47_SKIP_PREDICATE :: str where
  \<open>b47_SKIP_PREDICATE = ''static bool abk_zram_recompress_pointless(''\<close>

definition b47_SKIP_MARKER :: str where
  \<open>b47_SKIP_MARKER = ''ABK stable_515_backport: Batch 47''\<close>

definition b47_build_steps_step1 :: step where
  \<open>b47_build_steps_step1 =
   (b47_ZRAM_C,
    b47_HELP_OLD,
    b47_HELP_NEW, True)\<close>

definition b47_build_steps_step2 :: step where
  \<open>b47_build_steps_step2 =
   (b47_ZRAM_C,
    b47_SYNC_OLD,
    b47_SYNC_NEW, True)\<close>

definition b47_build_steps_step3 :: step where
  \<open>b47_build_steps_step3 =
   (b47_ZRAM_C,
    b47_ASYNC_OLD,
    b47_ASYNC_NEW, True)\<close>

definition b47_build_steps :: "step list" where
  \<open>b47_build_steps = [b47_build_steps_step1, b47_build_steps_step2, b47_build_steps_step3]\<close>

lemma b47_build_steps_files: "steps_files b47_build_steps = {b47_ZRAM_C}"
  by (simp add: b47_build_steps_def steps_files_fst insert_commute
      step_file [OF b47_build_steps_step1_def]
      step_file [OF b47_build_steps_step2_def]
      step_file [OF b47_build_steps_step3_def])

lemma b47_build_steps_required: "all_required b47_build_steps"
  by (simp add: b47_build_steps_def all_required_def
      step_req [OF b47_build_steps_step1_def]
      step_req [OF b47_build_steps_step2_def]
      step_req [OF b47_build_steps_step3_def])

definition b47_skip_apply :: "outcome io" where
  \<open>b47_skip_apply =
    io_try is_fnf (ctx_read b47_ZRAM_C)
      (\<lambda>e. io_ret (BlockedByShape, b47_ZRAM_C @
      '': file absent''))
      (\<lambda>text.
    if \<not> contains b47_RECOMPRESS_HELPER text
    then io_ret (BlockedByShape, ''zram_recompress() not found: zram_recompression must apply first'')
    else
    if \<not> contains b47_RECOMPRESS_ASYNC_STORE text
    then io_ret (BlockedByShape, ''recompress_async_store() not found: zram_async_recompress must apply first'')
    else
    if \<not> contains ''num_recomp_pages--;'' text
    then io_ret (BlockedByShape, ''the max_pages decrement is not in either scan: zram_recompress_max_pages must apply first'')
    else
    apply_or_block b47_build_steps)\<close>

lemma b47_skip_apply_txn: "transactional (\<lambda>_. {b47_ZRAM_C}) b47_skip_apply"
  unfolding b47_skip_apply_def
  by (intro txn_intros safe_intros)
    (simp_all add: is_backup_code BACKUP_SUFFIX_def b47_build_steps_files b47_ZRAM_C_def)

definition zram_recomp_best_prio_skip_group :: group where
  \<open>zram_recomp_best_prio_skip_group =
    \<lparr>key = ''zram_recomp_best_prio_skip'',
     summary = ''a recompression sweep skips entries already at the best available compressor priority, so a re-mark cannot spend the max_pages budget on attempts that cannot improve anything'',
     commits = [''Batch 47 design (plan.md): the companion\'s shorter mark clock re-marks already-recompressed pages, and the capped sweep never got past them''],
     group_files = [b47_ZRAM_C],
     apply_fn = b47_skip_apply, hard = False\<rparr>\<close>

lemma zram_recomp_best_prio_skip_group_declared [simp]: "well_declared zram_recomp_best_prio_skip_group"
  by (rule well_declaredI [OF b47_skip_apply_txn]) (simp_all add: is_backup_code BACKUP_SUFFIX_def zram_recomp_best_prio_skip_group_def b47_ZRAM_C_def)

definition b47_build_groups :: "group list" where
  \<open>b47_build_groups = [zram_recomp_best_prio_skip_group]\<close>

end
