(* ===== verification/Batch35_Pagecache.thy ===== *)
theory Batch35_Pagecache
  imports Registry_Laws
begin

text \<open>
  The anchors, steps and groups of \<^verbatim>\<open>scripts/batch35_core_pagecache_pt.py\<close>, in source order.
\<close>

definition b35p_TRUNCATE :: str where
  \<open>b35p_TRUNCATE = ''mm/truncate.c''\<close>

definition b35p_BATCH_FN_OLD :: str where
  \<open>b35p_BATCH_FN_OLD = block
     [''static void clear_shadow_entry(struct address_space *mapping, pgoff_t index,'',
      ''			       void *entry)'',
      ''{'',
      ''	xa_lock_irq(&mapping->i_pages);'',
      ''	__clear_shadow_entry(mapping, index, entry);'',
      ''	xa_unlock_irq(&mapping->i_pages);'',
      ''}'',
      []]\<close>

definition b35p_BATCH_FN_NEW :: str where
  \<open>b35p_BATCH_FN_NEW = block
     [''/*'',
      '' * ABK stable_515_backport: 61c663e020d2.  Clear the shadow entries of a'',
      '' * whole pagevec under one acquisition of the i_pages lock instead of one'',
      '' * per entry.  invalidate_mapping_pages() used to take the lock, walk the'',
      '' * tree and drop it again for every shadow entry, so a large enough range'',
      '' * -- invalidate_bdev() on a big file -- could keep one CPU in there long'',
      '' * enough to trip the soft-lockup detector (upstream\'s report: 11s inside'',
      '' * clear_shadow_entry()).  5.15 keeps __clear_shadow_entry() as the'',
      '' * per-entry worker; the two invalidate_exceptional_entry*() wrappers that'',
      '' * used to drive it one entry at a time are deleted below, because the'',
      '' * shmem/DAX guards they carried now sit here.'',
      '' */'',
      ''static void clear_shadow_entries(struct address_space *mapping,'',
      ''				 struct pagevec *pvec, pgoff_t *indices)'',
      ''{'',
      ''	int i;'',
      [],
      ''	/* Handled by shmem itself, or for DAX we do nothing. */'',
      ''	if (shmem_mapping(mapping) || dax_mapping(mapping))'',
      ''		return;'',
      [],
      ''	xa_lock_irq(&mapping->i_pages);'',
      [],
      ''	for (i = 0; i < pagevec_count(pvec); i++) {'',
      ''		struct page *page = pvec->pages[i];'',
      [],
      ''		if (xa_is_value(page))'',
      ''			__clear_shadow_entry(mapping, indices[i], page);'',
      ''	}'',
      [],
      ''	xa_unlock_irq(&mapping->i_pages);'',
      ''}'',
      []]\<close>

definition b35p_WRAPPERS_OLD :: str where
  \<open>b35p_WRAPPERS_OLD = block
     [''/*'',
      '' * Invalidate exceptional entry if easily possible. This handles exceptional'',
      '' * entries for invalidate_inode_pages().'',
      '' */'',
      ''static int invalidate_exceptional_entry(struct address_space *mapping,'',
      ''					pgoff_t index, void *entry)'',
      ''{'',
      ''	/* Handled by shmem itself, or for DAX we do nothing. */'',
      ''	if (shmem_mapping(mapping) || dax_mapping(mapping))'',
      ''		return 1;'',
      ''	clear_shadow_entry(mapping, index, entry);'',
      ''	return 1;'',
      ''}'',
      [],
      ''/*'',
      '' * Invalidate exceptional entry if clean. This handles exceptional entries for'',
      '' * invalidate_inode_pages2() so for DAX it evicts only clean entries.'',
      '' */'',
      ''static int invalidate_exceptional_entry2(struct address_space *mapping,'',
      ''					 pgoff_t index, void *entry)'',
      ''{'',
      ''	/* Handled by shmem itself */'',
      ''	if (shmem_mapping(mapping))'',
      ''		return 1;'',
      ''	if (dax_mapping(mapping))'',
      ''		return dax_invalidate_mapping_entry_sync(mapping, index);'',
      ''	clear_shadow_entry(mapping, index, entry);'',
      ''	return 1;'',
      ''}'',
      []]\<close>

definition b35p_WRAPPERS_NEW :: str where
  \<open>b35p_WRAPPERS_NEW = block
     [''/*'',
      '' * ABK stable_515_backport: 61c663e020d2.  invalidate_exceptional_entry()'',
      '' * and invalidate_exceptional_entry2() are gone with clear_shadow_entry():'',
      '' * the shmem/DAX guards and the shadow sweep they wrapped now happen once'',
      '' * per pagevec inside clear_shadow_entries(), so nothing calls them.'',
      '' */'',
      []]\<close>

definition b35p_BIP_DECL_OLD :: str where
  \<open>b35p_BIP_DECL_OLD = block
     [''	unsigned long count = 0;'',
      ''	int i;'',
      []]\<close>

definition b35p_BIP_DECL_NEW :: str where
  \<open>b35p_BIP_DECL_NEW = block
     [''	unsigned long count = 0;'',
      ''	int i;'',
      ''	bool xa_has_values = false;'',
      []]\<close>

definition b35p_BIP_ENTRY_OLD :: str where
  \<open>b35p_BIP_ENTRY_OLD = block
     [''			if (xa_is_value(page)) {'',
      ''				count += invalidate_exceptional_entry(mapping,'',
      ''								      index,'',
      ''								      page);'',
      ''				continue;'',
      ''			}'',
      []]\<close>

definition b35p_BIP_ENTRY_NEW :: str where
  \<open>b35p_BIP_ENTRY_NEW = block
     [''			if (xa_is_value(page)) {'',
      ''				xa_has_values = true;'',
      ''				count++;'',
      ''				continue;'',
      ''			}'',
      []]\<close>

definition b35p_BIP_CLEAR_OLD :: str where
  \<open>b35p_BIP_CLEAR_OLD = block
     [''			count += ret;'',
      ''		}'',
      ''		pagevec_remove_exceptionals(&pvec);'',
      []]\<close>

definition b35p_BIP_CLEAR_NEW :: str where
  \<open>b35p_BIP_CLEAR_NEW = block
     [''			count += ret;'',
      ''		}'',
      [],
      ''		if (xa_has_values)'',
      ''			clear_shadow_entries(mapping, &pvec, indices);'',
      [],
      ''		pagevec_remove_exceptionals(&pvec);'',
      []]\<close>

definition b35p_IIP_DECL_OLD :: str where
  \<open>b35p_IIP_DECL_OLD = block
     [''	int ret2 = 0;'',
      ''	int did_range_unmap = 0;'',
      []]\<close>

definition b35p_IIP_DECL_NEW :: str where
  \<open>b35p_IIP_DECL_NEW = block
     [''	int ret2 = 0;'',
      ''	int did_range_unmap = 0;'',
      ''	bool xa_has_values = false;'',
      []]\<close>

definition b35p_IIP_ENTRY_OLD :: str where
  \<open>b35p_IIP_ENTRY_OLD = block
     [''			if (xa_is_value(page)) {'',
      ''				if (!invalidate_exceptional_entry2(mapping,'',
      ''								   index, page))'',
      ''					ret = -EBUSY;'',
      ''				continue;'',
      ''			}'',
      []]\<close>

definition b35p_IIP_ENTRY_NEW :: str where
  \<open>b35p_IIP_ENTRY_NEW = block
     [''			if (xa_is_value(page)) {'',
      ''				xa_has_values = true;'',
      ''				if (dax_mapping(mapping) &&'',
      ''				    !dax_invalidate_mapping_entry_sync(mapping, index))'',
      ''					ret = -EBUSY;'',
      ''				continue;'',
      ''			}'',
      []]\<close>

definition b35p_IIP_CLEAR_OLD :: str where
  \<open>b35p_IIP_CLEAR_OLD = block
     [''			unlock_page(page);'',
      ''		}'',
      ''		pagevec_remove_exceptionals(&pvec);'',
      []]\<close>

definition b35p_IIP_CLEAR_NEW :: str where
  \<open>b35p_IIP_CLEAR_NEW = block
     [''			unlock_page(page);'',
      ''		}'',
      [],
      ''		if (xa_has_values)'',
      ''			clear_shadow_entries(mapping, &pvec, indices);'',
      [],
      ''		pagevec_remove_exceptionals(&pvec);'',
      []]\<close>

definition b35p_build_shadow_batch_steps_step1 :: step where
  \<open>b35p_build_shadow_batch_steps_step1 =
   (b35p_TRUNCATE,
    b35p_BATCH_FN_OLD,
    b35p_BATCH_FN_NEW, True)\<close>

definition b35p_build_shadow_batch_steps_step2 :: step where
  \<open>b35p_build_shadow_batch_steps_step2 =
   (b35p_TRUNCATE,
    b35p_WRAPPERS_OLD,
    b35p_WRAPPERS_NEW, True)\<close>

definition b35p_build_shadow_batch_steps_step3 :: step where
  \<open>b35p_build_shadow_batch_steps_step3 =
   (b35p_TRUNCATE,
    b35p_BIP_DECL_OLD,
    b35p_BIP_DECL_NEW, True)\<close>

definition b35p_build_shadow_batch_steps_step4 :: step where
  \<open>b35p_build_shadow_batch_steps_step4 =
   (b35p_TRUNCATE,
    b35p_BIP_ENTRY_OLD,
    b35p_BIP_ENTRY_NEW, True)\<close>

definition b35p_build_shadow_batch_steps_step5 :: step where
  \<open>b35p_build_shadow_batch_steps_step5 =
   (b35p_TRUNCATE,
    b35p_BIP_CLEAR_OLD,
    b35p_BIP_CLEAR_NEW, True)\<close>

definition b35p_build_shadow_batch_steps_step6 :: step where
  \<open>b35p_build_shadow_batch_steps_step6 =
   (b35p_TRUNCATE,
    b35p_IIP_DECL_OLD,
    b35p_IIP_DECL_NEW, True)\<close>

definition b35p_build_shadow_batch_steps_step7 :: step where
  \<open>b35p_build_shadow_batch_steps_step7 =
   (b35p_TRUNCATE,
    b35p_IIP_ENTRY_OLD,
    b35p_IIP_ENTRY_NEW, True)\<close>

definition b35p_build_shadow_batch_steps_step8 :: step where
  \<open>b35p_build_shadow_batch_steps_step8 =
   (b35p_TRUNCATE,
    b35p_IIP_CLEAR_OLD,
    b35p_IIP_CLEAR_NEW, True)\<close>

definition b35p_build_shadow_batch_steps :: "step list" where
  \<open>b35p_build_shadow_batch_steps = [b35p_build_shadow_batch_steps_step1, b35p_build_shadow_batch_steps_step2, b35p_build_shadow_batch_steps_step3, b35p_build_shadow_batch_steps_step4, b35p_build_shadow_batch_steps_step5, b35p_build_shadow_batch_steps_step6, b35p_build_shadow_batch_steps_step7, b35p_build_shadow_batch_steps_step8]\<close>

lemma b35p_build_shadow_batch_steps_files: "steps_files b35p_build_shadow_batch_steps = {b35p_TRUNCATE}"
  by (simp add: b35p_build_shadow_batch_steps_def steps_files_fst insert_commute
      step_file [OF b35p_build_shadow_batch_steps_step1_def]
      step_file [OF b35p_build_shadow_batch_steps_step2_def]
      step_file [OF b35p_build_shadow_batch_steps_step3_def]
      step_file [OF b35p_build_shadow_batch_steps_step4_def]
      step_file [OF b35p_build_shadow_batch_steps_step5_def]
      step_file [OF b35p_build_shadow_batch_steps_step6_def]
      step_file [OF b35p_build_shadow_batch_steps_step7_def]
      step_file [OF b35p_build_shadow_batch_steps_step8_def])

lemma b35p_build_shadow_batch_steps_required: "all_required b35p_build_shadow_batch_steps"
  by (simp add: b35p_build_shadow_batch_steps_def all_required_def
      step_req [OF b35p_build_shadow_batch_steps_step1_def]
      step_req [OF b35p_build_shadow_batch_steps_step2_def]
      step_req [OF b35p_build_shadow_batch_steps_step3_def]
      step_req [OF b35p_build_shadow_batch_steps_step4_def]
      step_req [OF b35p_build_shadow_batch_steps_step5_def]
      step_req [OF b35p_build_shadow_batch_steps_step6_def]
      step_req [OF b35p_build_shadow_batch_steps_step7_def]
      step_req [OF b35p_build_shadow_batch_steps_step8_def])

definition b35p_shadow_batch_probe :: "bool io" where
  \<open>b35p_shadow_batch_probe = io_bind (ctx_read b35p_TRUNCATE) (\<lambda>t. io_ret (contains ''clear_shadow_entries'' t))\<close>

definition b35p_SWEEP_FN_OLD :: str where
  \<open>b35p_SWEEP_FN_OLD = b35p_BATCH_FN_NEW\<close>

definition b35p_SWEEP_FN_NEW :: str where
  \<open>b35p_SWEEP_FN_NEW = block
     [''/*'',
      '' * ABK stable_515_backport: d3db2c042591.  Hold the i_pages lock once (as'',
      '' * 61c663e020d2 does) *and* walk the tree once: xas_for_each() over the'',
      '' * pagevec\'s [start, max] index span replaces one __clear_shadow_entry()'',
      '' * per entry, which each had to load the slot, compare it against the entry'',
      '' * the caller saw and store NULL.  The slots in between are ordinary pages'',
      '' * the caller has already dealt with, and xas_set_update() keeps the'',
      '' * workingset\'s node accounting.  5.15 shape: a pagevec of struct page, and'',
      '' * the lock taken with xa_lock_irq() rather than xas_lock_irq().'',
      '' *'',
      '' * __clear_shadow_entry() stays: upstream deleted it in this commit because'',
      '' * nothing else called it, but 5.15\'s truncate path still sweeps a pagevec'',
      '' * of exceptional entries through it in truncate_exceptional_pvec_entries(),'',
      '' * and that path takes the page lock first, so it is not this one.'',
      '' *'',
      '' * This replacement overwrites the one 61c663e020d2 installs -- the two are'',
      '' * one change landed in two commits, and the pagevec form never survives a'',
      '' * full pass of this batch.  Its group probes for clear_shadow_entries()'',
      '' * instead of re-deriving that text.'',
      '' */'',
      ''static void clear_shadow_entries(struct address_space *mapping,'',
      ''				 unsigned long start, unsigned long max)'',
      ''{'',
      ''	XA_STATE(xas, &mapping->i_pages, start);'',
      ''	struct page *page;'',
      [],
      ''	/* Handled by shmem itself, or for DAX we do nothing. */'',
      ''	if (shmem_mapping(mapping) || dax_mapping(mapping))'',
      ''		return;'',
      [],
      ''	xas_set_update(&xas, workingset_update_node);'',
      [],
      ''	xa_lock_irq(&mapping->i_pages);'',
      [],
      ''	/* Clear all shadow entries from start to max */'',
      ''	xas_for_each(&xas, page, max) {'',
      ''		if (xa_is_value(page))'',
      ''			xas_store(&xas, NULL);'',
      ''	}'',
      [],
      ''	xa_unlock_irq(&mapping->i_pages);'',
      ''}'',
      []]\<close>

definition b35p_SWEEP_BIP_LOOP_OLD :: str where
  \<open>b35p_SWEEP_BIP_LOOP_OLD = block
     [''	pagevec_init(&pvec);'',
      ''	while (find_lock_entries(mapping, index, end, &pvec, indices)) {'',
      ''		for (i = 0; i < pagevec_count(&pvec); i++) {'',
      []]\<close>

definition b35p_SWEEP_BIP_LOOP_NEW :: str where
  \<open>b35p_SWEEP_BIP_LOOP_NEW = block
     [''	pagevec_init(&pvec);'',
      ''	while (find_lock_entries(mapping, index, end, &pvec, indices)) {'',
      ''		int nr = pagevec_count(&pvec);'',
      [],
      ''		for (i = 0; i < nr; i++) {'',
      []]\<close>

definition b35p_SWEEP_BIP_CALL_OLD :: str where
  \<open>b35p_SWEEP_BIP_CALL_OLD = block
     [''			count += ret;'',
      ''		}'',
      [],
      ''		if (xa_has_values)'',
      ''			clear_shadow_entries(mapping, &pvec, indices);'',
      []]\<close>

definition b35p_SWEEP_BIP_CALL_NEW :: str where
  \<open>b35p_SWEEP_BIP_CALL_NEW = block
     [''			count += ret;'',
      ''		}'',
      [],
      ''		if (xa_has_values)'',
      ''			clear_shadow_entries(mapping, indices[0], indices[nr-1]);'',
      []]\<close>

definition b35p_SWEEP_IIP_LOOP_OLD :: str where
  \<open>b35p_SWEEP_IIP_LOOP_OLD = block
     [''	pagevec_init(&pvec);'',
      ''	index = start;'',
      ''	while (find_get_entries(mapping, index, end, &pvec, indices)) {'',
      ''		for (i = 0; i < pagevec_count(&pvec); i++) {'',
      []]\<close>

definition b35p_SWEEP_IIP_LOOP_NEW :: str where
  \<open>b35p_SWEEP_IIP_LOOP_NEW = block
     [''	pagevec_init(&pvec);'',
      ''	index = start;'',
      ''	while (find_get_entries(mapping, index, end, &pvec, indices)) {'',
      ''		int nr = pagevec_count(&pvec);'',
      [],
      ''		for (i = 0; i < nr; i++) {'',
      []]\<close>

definition b35p_SWEEP_IIP_CALL_OLD :: str where
  \<open>b35p_SWEEP_IIP_CALL_OLD = block
     [''			unlock_page(page);'',
      ''		}'',
      [],
      ''		if (xa_has_values)'',
      ''			clear_shadow_entries(mapping, &pvec, indices);'',
      []]\<close>

definition b35p_SWEEP_IIP_CALL_NEW :: str where
  \<open>b35p_SWEEP_IIP_CALL_NEW = block
     [''			unlock_page(page);'',
      ''		}'',
      [],
      ''		if (xa_has_values)'',
      ''			clear_shadow_entries(mapping, indices[0], indices[nr-1]);'',
      []]\<close>

definition b35p_build_shadow_sweep_steps_step1 :: step where
  \<open>b35p_build_shadow_sweep_steps_step1 =
   (b35p_TRUNCATE,
    b35p_SWEEP_FN_OLD,
    b35p_SWEEP_FN_NEW, True)\<close>

definition b35p_build_shadow_sweep_steps_step2 :: step where
  \<open>b35p_build_shadow_sweep_steps_step2 =
   (b35p_TRUNCATE,
    b35p_SWEEP_BIP_LOOP_OLD,
    b35p_SWEEP_BIP_LOOP_NEW, True)\<close>

definition b35p_build_shadow_sweep_steps_step3 :: step where
  \<open>b35p_build_shadow_sweep_steps_step3 =
   (b35p_TRUNCATE,
    b35p_SWEEP_BIP_CALL_OLD,
    b35p_SWEEP_BIP_CALL_NEW, True)\<close>

definition b35p_build_shadow_sweep_steps_step4 :: step where
  \<open>b35p_build_shadow_sweep_steps_step4 =
   (b35p_TRUNCATE,
    b35p_SWEEP_IIP_LOOP_OLD,
    b35p_SWEEP_IIP_LOOP_NEW, True)\<close>

definition b35p_build_shadow_sweep_steps_step5 :: step where
  \<open>b35p_build_shadow_sweep_steps_step5 =
   (b35p_TRUNCATE,
    b35p_SWEEP_IIP_CALL_OLD,
    b35p_SWEEP_IIP_CALL_NEW, True)\<close>

definition b35p_build_shadow_sweep_steps :: "step list" where
  \<open>b35p_build_shadow_sweep_steps = [b35p_build_shadow_sweep_steps_step1, b35p_build_shadow_sweep_steps_step2, b35p_build_shadow_sweep_steps_step3, b35p_build_shadow_sweep_steps_step4, b35p_build_shadow_sweep_steps_step5]\<close>

lemma b35p_build_shadow_sweep_steps_files: "steps_files b35p_build_shadow_sweep_steps = {b35p_TRUNCATE}"
  by (simp add: b35p_build_shadow_sweep_steps_def steps_files_fst insert_commute
      step_file [OF b35p_build_shadow_sweep_steps_step1_def]
      step_file [OF b35p_build_shadow_sweep_steps_step2_def]
      step_file [OF b35p_build_shadow_sweep_steps_step3_def]
      step_file [OF b35p_build_shadow_sweep_steps_step4_def]
      step_file [OF b35p_build_shadow_sweep_steps_step5_def])

lemma b35p_build_shadow_sweep_steps_required: "all_required b35p_build_shadow_sweep_steps"
  by (simp add: b35p_build_shadow_sweep_steps_def all_required_def
      step_req [OF b35p_build_shadow_sweep_steps_step1_def]
      step_req [OF b35p_build_shadow_sweep_steps_step2_def]
      step_req [OF b35p_build_shadow_sweep_steps_step3_def]
      step_req [OF b35p_build_shadow_sweep_steps_step4_def]
      step_req [OF b35p_build_shadow_sweep_steps_step5_def])

definition b35p_shadow_sweep_probe :: "bool io" where
  \<open>b35p_shadow_sweep_probe = io_bind (ctx_read b35p_TRUNCATE) (\<lambda>t. io_ret (contains ''unsigned long start, unsigned long max'' t))\<close>

definition b35p_run :: "step list \<Rightarrow> bool io \<Rightarrow> outcome io" where
  \<open>b35p_run steps probe = io_bind probe (\<lambda>present.
    if present
    then io_ret (AlreadyPresent, ''this group\'s own payload is already in the tree, so its paired group has consumed its anchors in this pass'')
    else apply_or_block steps)\<close>

definition b35p_shadow_batch_apply :: "outcome io" where
  \<open>b35p_shadow_batch_apply = b35p_run b35p_build_shadow_batch_steps b35p_shadow_batch_probe\<close>

lemma b35p_shadow_batch_apply_txn: "transactional (\<lambda>_. {b35p_TRUNCATE}) b35p_shadow_batch_apply"
  unfolding b35p_shadow_batch_apply_def b35p_run_def b35p_shadow_batch_probe_def
  by (intro txn_intros safe_intros)
    (simp_all add: is_backup_code BACKUP_SUFFIX_def b35p_build_shadow_batch_steps_files b35p_TRUNCATE_def)

definition b35p_shadow_sweep_apply :: "outcome io" where
  \<open>b35p_shadow_sweep_apply = b35p_run b35p_build_shadow_sweep_steps b35p_shadow_sweep_probe\<close>

lemma b35p_shadow_sweep_apply_txn: "transactional (\<lambda>_. {b35p_TRUNCATE}) b35p_shadow_sweep_apply"
  unfolding b35p_shadow_sweep_apply_def b35p_run_def b35p_shadow_sweep_probe_def
  by (intro txn_intros safe_intros)
    (simp_all add: is_backup_code BACKUP_SUFFIX_def b35p_build_shadow_sweep_steps_files b35p_TRUNCATE_def)

definition truncate_shadow_batch_group :: group where
  \<open>truncate_shadow_batch_group =
    \<lparr>key = ''truncate_shadow_batch'',
     summary = ''mm/truncate: clear the shadow entries of a whole pagevec under a single acquisition of the i_pages lock, instead of one lock/walk per entry (the 11s clear_shadow_entry() soft-lockup)'',
     commits = [''61c663e020d2 (v6.11, \'mm/truncate: batch-clear shadow entries\'; Reported-by: Bharata B Rao)''],
     group_files = [b35p_TRUNCATE],
     apply_fn = b35p_shadow_batch_apply, hard = False\<rparr>\<close>

lemma truncate_shadow_batch_group_declared [simp]: "well_declared truncate_shadow_batch_group"
  by (rule well_declaredI [OF b35p_shadow_batch_apply_txn]) (simp_all add: is_backup_code BACKUP_SUFFIX_def truncate_shadow_batch_group_def b35p_TRUNCATE_def)

definition truncate_shadow_batch_sweep_group :: group where
  \<open>truncate_shadow_batch_sweep_group =
    \<lparr>key = ''truncate_shadow_batch_sweep'',
     summary = ''mm: clear a pagevec\'s shadow entries with one xas_for_each() over the batch\'s index span instead of one __clear_shadow_entry() per entry (refactors the group above)'',
     commits = [''d3db2c042591 (v6.13, \'mm: optimize invalidation of shadow entries\'; 18% off fadvise(DONTNEED) on a 200GiB fuse file)''],
     group_files = [b35p_TRUNCATE],
     apply_fn = b35p_shadow_sweep_apply, hard = False\<rparr>\<close>

lemma truncate_shadow_batch_sweep_group_declared [simp]: "well_declared truncate_shadow_batch_sweep_group"
  by (rule well_declaredI [OF b35p_shadow_sweep_apply_txn]) (simp_all add: is_backup_code BACKUP_SUFFIX_def truncate_shadow_batch_sweep_group_def b35p_TRUNCATE_def)

definition b35p_build_groups :: "group list" where
  \<open>b35p_build_groups = [truncate_shadow_batch_group, truncate_shadow_batch_sweep_group]\<close>

end
