(* ===== verification/Batch36_Memcg_Stats.thy ===== *)
theory Batch36_Memcg_Stats
  imports Registry_Laws
begin

text \<open>
  The anchors, steps and groups of \<^verbatim>\<open>scripts/batch36_core_memcg_stats_slim.py\<close>, in source order.
\<close>

definition b36_MEMCONTROL_C :: str where
  \<open>b36_MEMCONTROL_C = ''mm/memcontrol.c''\<close>

definition b36_MEMCONTROL_H :: str where
  \<open>b36_MEMCONTROL_H = ''include/linux/memcontrol.h''\<close>

definition b36_SLIM_BLOCK_OLD :: str where
  \<open>b36_SLIM_BLOCK_OLD = block
     [''/*'',
      '' * memcg and lruvec stats flushing'',
      '' *'',
      '' * Many codepaths leading to stats update or read are performance sensitive and'',
      []]\<close>

definition b36_SLIM_BLOCK_NEW_lines1 :: "str list" where
  \<open>b36_SLIM_BLOCK_NEW_lines1 =
     [''/*'',
      '' * ABK stable_515_backport: memcg_stats_percpu_slim'',
      '' *'',
      '' * Memory reduction for the memcg stats, from mainline 70a64b7919cb +'',
      '' * ff48c71c26aa (v6.10, Shakeel Butt): memcg only accounts a subset of'',
      '' * node_stat_item / vm_event_item, so the per-cpu stats arrays are indexed'',
      '' * through an item -> slot table instead of being sized with the full'',
      '' * enums.'',
      '' *'',
      '' * Reshaped for this tree: upstream also shrinks the embedded'',
      '' * memcg_vmstats/lruvec_stats aggregates, which moves members of the'',
      '' * KMI-visible structs mem_cgroup and mem_cgroup_per_node (both carry'',
      '' * layouts in android/abi_gki_aarch64.xml and have no ANDROID_KABI_RESERVE'',
      '' * slots; shrinking cannot be masked).  Here only the two per-cpu objects'',
      '' * are compacted: they are heap objects behind __percpu pointer fields, so'',
      '' * the header definitions stay byte-identical and the real objects are the'',
      '' * private structs below, allocated with __alloc_percpu_gfp().  The'',
      '' * aggregates keep their full, raw-indexed arrays; the rstat flush maps'',
      '' * each compact per-cpu slot back to its item when it propagates.'',
      '' * memcg_stats_index()/memcg_events_index() answer -1 for items with no'',
      '' * memcg accounting; their per-cpu updates are dropped, exactly like 6.10'',
      '' * drops them after its own index tables.'',
      '' */'',
      [],
      ''/* Subset of node_stat_item with memcg accounting (the memory_stats[]'',
      '' * readers and the v1 memcg1_stats[] table). */'',
      ''static const unsigned int memcg_node_stat_items[] = {'',
      ''	NR_INACTIVE_ANON,'',
      ''	NR_ACTIVE_ANON,'',
      ''	NR_INACTIVE_FILE,'',
      ''	NR_ACTIVE_FILE,'',
      ''	NR_UNEVICTABLE,'',
      ''	NR_SLAB_RECLAIMABLE_B,'',
      ''	NR_SLAB_UNRECLAIMABLE_B,'',
      ''	WORKINGSET_REFAULT_ANON,'',
      ''	WORKINGSET_REFAULT_FILE,'',
      ''	WORKINGSET_ACTIVATE_ANON,'',
      ''	WORKINGSET_ACTIVATE_FILE,'',
      ''	WORKINGSET_RESTORE_ANON,'',
      ''	WORKINGSET_RESTORE_FILE,'',
      ''	WORKINGSET_NODERECLAIM,'',
      ''	NR_ANON_MAPPED,'',
      ''	NR_FILE_MAPPED,'',
      ''	NR_FILE_PAGES,'',
      ''	NR_FILE_DIRTY,'',
      ''	NR_WRITEBACK,'',
      ''	NR_SHMEM,'',
      ''	NR_SHMEM_THPS,'',
      ''	NR_FILE_THPS,'',
      ''	NR_ANON_THPS,'',
      ''	NR_KERNEL_STACK_KB,'',
      ''	NR_PAGETABLE,'',
      ''#ifdef CONFIG_SWAP'',
      ''	NR_SWAPCACHE,'',
      ''#endif'',
      ''};'',
      [],
      ''/* memcg-only items appended after the lruvec subset. */'',
      ''static const unsigned int memcg_stat_items[] = {'',
      ''	MEMCG_SWAP,'',
      ''	MEMCG_SOCK,'',
      ''	MEMCG_PERCPU_B,'',
      ''};'',
      [],
      ''#define NR_MEMCG_NODE_STAT_ITEMS ARRAY_SIZE(memcg_node_stat_items)'',
      (''#define NR_MEMCG_VMSTAT_SIZE (NR_MEMCG_NODE_STAT_ITEMS + '' @ [BSL]),
      ''			      ARRAY_SIZE(memcg_stat_items))'',
      [],
      ''/* Subset of vm_event_item counted into the memcg stats. */'',
      ''static const unsigned int memcg_vm_event_items[] = {'',
      ''	PGPGIN,'',
      ''	PGPGOUT,'',
      ''	PGFAULT,'',
      ''	PGMAJFAULT,'',
      ''	PGREFILL,'',
      ''	PGSCAN_KSWAPD,'',
      ''	PGSCAN_DIRECT,'',
      ''	PGSTEAL_KSWAPD,'',
      ''	PGSTEAL_DIRECT,'',
      ''	PGACTIVATE,'',
      ''	PGDEACTIVATE,'',
      ''	PGLAZYFREE,'',
      ''	PGLAZYFREED,'',
      ''#ifdef CONFIG_TRANSPARENT_HUGEPAGE'',
      ''	THP_FAULT_ALLOC,'',
      ''	THP_COLLAPSE_ALLOC,'',
      ''#endif'',
      ''};'',
      [],
      ''#define NR_MEMCG_VM_EVENTS ARRAY_SIZE(memcg_vm_event_items)'',
      [],
      ''static int8_t mem_cgroup_stats_index[MEMCG_NR_STAT] __read_mostly;'',
      ''static int8_t mem_cgroup_events_index[NR_VM_EVENT_ITEMS] __read_mostly;'',
      [],
      ''static void init_memcg_stats(void)'',
      ''{'',
      ''	int8_t i, j = 0;'',
      [],
      ''	BUILD_BUG_ON(MEMCG_NR_STAT >= S8_MAX);'',
      [],
      ''	for (i = 0; i < NR_MEMCG_NODE_STAT_ITEMS; ++i)'',
      ''		mem_cgroup_stats_index[memcg_node_stat_items[i]] = ++j;'',
      [],
      ''	for (i = 0; i < ARRAY_SIZE(memcg_stat_items); ++i)'',
      ''		mem_cgroup_stats_index[memcg_stat_items[i]] = ++j;'',
      ''}'',
      [],
      ''static void init_memcg_events(void)'',
      ''{'',
      ''	int8_t i, j = 0;'',
      [],
      ''	BUILD_BUG_ON(NR_VM_EVENT_ITEMS >= S8_MAX);'',
      [],
      ''	for (i = 0; i < NR_MEMCG_VM_EVENTS; ++i)'',
      ''		mem_cgroup_events_index[memcg_vm_event_items[i]] = ++j;'',
      ''}'',
      [],
      ''static inline int memcg_stats_index(int idx)'',
      ''{'',
      ''	return mem_cgroup_stats_index[idx] - 1;'',
      ''}'',
      [],
      ''static inline int memcg_events_index(int idx)'',
      ''{'',
      ''	return mem_cgroup_events_index[idx] - 1;'',
      ''}'',
      [],
      ''/*'',
      '' * The compact per-cpu stats objects.  Field layout mirrors'',
      '' * struct memcg_vmstats_percpu / struct lruvec_stats_percpu; only the'',
      '' * array widths differ.  The declared pointer fields in struct mem_cgroup'',
      '' * and struct mem_cgroup_per_node keep pointing at these.'',
      '' */'',
      ''struct abk_vmstats_percpu {'',
      ''	/* Local (CPU and cgroup) page state & events */'']\<close>

definition b36_SLIM_BLOCK_NEW_lines2 :: "str list" where
  \<open>b36_SLIM_BLOCK_NEW_lines2 =
     [''	long			state[NR_MEMCG_VMSTAT_SIZE];'',
      ''	unsigned long		events[NR_MEMCG_VM_EVENTS];'',
      [],
      ''	/* Delta calculation for lockless upward propagation */'',
      ''	long			state_prev[NR_MEMCG_VMSTAT_SIZE];'',
      ''	unsigned long		events_prev[NR_MEMCG_VM_EVENTS];'',
      [],
      ''	/* Cgroup1: threshold notifications & softlimit tree updates */'',
      ''	unsigned long		nr_page_events;'',
      ''	unsigned long		targets[MEM_CGROUP_NTARGETS];'',
      ''};'',
      [],
      ''struct abk_lruvec_stats_percpu {'',
      ''	/* Local (CPU and cgroup) state */'',
      ''	long state[NR_MEMCG_NODE_STAT_ITEMS];'',
      [],
      ''	/* Delta calculation for lockless upward propagation */'',
      ''	long state_prev[NR_MEMCG_NODE_STAT_ITEMS];'',
      ''};'',
      [],
      ''static inline struct abk_vmstats_percpu __percpu *'',
      ''abk_vmstats_percpu_of(struct mem_cgroup *memcg)'',
      ''{'',
      ''	return (struct abk_vmstats_percpu __percpu *)memcg->vmstats_percpu;'',
      ''}'',
      [],
      ''static inline struct abk_lruvec_stats_percpu __percpu *'',
      ''abk_lruvec_stats_percpu_of(struct mem_cgroup_per_node *pn)'',
      ''{'',
      ''	return (struct abk_lruvec_stats_percpu __percpu *)'',
      ''		pn->lruvec_stats_percpu;'',
      ''}'',
      [],
      ''/*'',
      '' * Out of line (moved from include/linux/memcontrol.h): the per-cpu'',
      '' * lruvec stats object is compact and slot-indexed, so the reader needs'',
      '' * the index table above.  No struct member moves; the KMI types keep'',
      '' * their layouts.'',
      '' */'',
      ''unsigned long lruvec_page_state_local(struct lruvec *lruvec,'',
      ''				      enum node_stat_item idx)'',
      ''{'',
      ''	struct mem_cgroup_per_node *pn;'',
      ''	long x = 0;'',
      ''	int cpu;'',
      ''	int i;'',
      [],
      ''	if (mem_cgroup_disabled())'',
      ''		return node_page_state(lruvec_pgdat(lruvec), idx);'',
      [],
      ''	i = memcg_stats_index(idx);'',
      ''	if (i < 0)'',
      ''		return 0;'',
      [],
      ''	pn = container_of(lruvec, struct mem_cgroup_per_node, lruvec);'',
      ''	for_each_possible_cpu(cpu)'',
      ''		x += per_cpu(abk_lruvec_stats_percpu_of(pn)->state[i], cpu);'',
      ''#ifdef CONFIG_SMP'',
      ''	if (x < 0)'',
      ''		x = 0;'',
      ''#endif'',
      ''	return x;'',
      ''}'',
      [],
      ''/*'',
      '' * memcg and lruvec stats flushing'',
      '' *'',
      '' * Many codepaths leading to stats update or read are performance sensitive and'',
      []]\<close>

definition b36_SLIM_BLOCK_NEW :: str where
  \<open>b36_SLIM_BLOCK_NEW = block (b36_SLIM_BLOCK_NEW_lines1 @ b36_SLIM_BLOCK_NEW_lines2)\<close>

definition b36_MOD_STATE_OLD :: str where
  \<open>b36_MOD_STATE_OLD = block
     [''void __mod_memcg_state(struct mem_cgroup *memcg, int idx, int val)'',
      ''{'',
      ''	if (mem_cgroup_disabled())'',
      ''		return;'',
      [],
      ''	__this_cpu_add(memcg->vmstats_percpu->state[idx], val);'',
      ''	memcg_rstat_updated(memcg, val);'',
      ''}'',
      []]\<close>

definition b36_MOD_STATE_NEW :: str where
  \<open>b36_MOD_STATE_NEW = block
     [''void __mod_memcg_state(struct mem_cgroup *memcg, int idx, int val)'',
      ''{'',
      ''	int i;'',
      [],
      ''	if (mem_cgroup_disabled())'',
      ''		return;'',
      [],
      ''	i = memcg_stats_index(idx);'',
      ''	if (i < 0)'',
      ''		return;'',
      [],
      ''	__this_cpu_add(abk_vmstats_percpu_of(memcg)->state[i], val);'',
      ''	memcg_rstat_updated(memcg, val);'',
      ''}'',
      []]\<close>

definition b36_PAGE_STATE_LOCAL_OLD :: str where
  \<open>b36_PAGE_STATE_LOCAL_OLD = block
     [''/* idx can be of type enum memcg_stat_item or node_stat_item. */'',
      ''static unsigned long memcg_page_state_local(struct mem_cgroup *memcg, int idx)'',
      ''{'',
      ''	long x = 0;'',
      ''	int cpu;'',
      [],
      ''	for_each_possible_cpu(cpu)'',
      ''		x += per_cpu(memcg->vmstats_percpu->state[idx], cpu);'',
      ''#ifdef CONFIG_SMP'',
      ''	if (x < 0)'',
      ''		x = 0;'',
      ''#endif'',
      ''	return x;'',
      ''}'',
      []]\<close>

definition b36_PAGE_STATE_LOCAL_NEW :: str where
  \<open>b36_PAGE_STATE_LOCAL_NEW = block
     [''/* idx can be of type enum memcg_stat_item or node_stat_item. */'',
      ''static unsigned long memcg_page_state_local(struct mem_cgroup *memcg, int idx)'',
      ''{'',
      ''	long x = 0;'',
      ''	int cpu;'',
      ''	int i = memcg_stats_index(idx);'',
      [],
      ''	if (i < 0)'',
      ''		return 0;'',
      [],
      ''	for_each_possible_cpu(cpu)'',
      ''		x += per_cpu(abk_vmstats_percpu_of(memcg)->state[i], cpu);'',
      ''#ifdef CONFIG_SMP'',
      ''	if (x < 0)'',
      ''		x = 0;'',
      ''#endif'',
      ''	return x;'',
      ''}'',
      []]\<close>

definition b36_MOD_LRUVEC_OLD :: str where
  \<open>b36_MOD_LRUVEC_OLD = block
     [''void __mod_memcg_lruvec_state(struct lruvec *lruvec, enum node_stat_item idx,'',
      ''			      int val)'',
      ''{'',
      ''	struct mem_cgroup_per_node *pn;'',
      ''	struct mem_cgroup *memcg;'',
      [],
      ''	pn = container_of(lruvec, struct mem_cgroup_per_node, lruvec);'',
      ''	memcg = pn->memcg;'',
      [],
      ''	/* Update memcg */'',
      ''	__this_cpu_add(memcg->vmstats_percpu->state[idx], val);'',
      [],
      ''	/* Update lruvec */'',
      ''	__this_cpu_add(pn->lruvec_stats_percpu->state[idx], val);'',
      [],
      ''	memcg_rstat_updated(memcg, val);'',
      ''}'',
      []]\<close>

definition b36_MOD_LRUVEC_NEW :: str where
  \<open>b36_MOD_LRUVEC_NEW = block
     [''void __mod_memcg_lruvec_state(struct lruvec *lruvec, enum node_stat_item idx,'',
      ''			      int val)'',
      ''{'',
      ''	struct mem_cgroup_per_node *pn;'',
      ''	struct mem_cgroup *memcg;'',
      ''	int i = memcg_stats_index(idx);'',
      [],
      ''	if (i < 0)'',
      ''		return;'',
      [],
      ''	pn = container_of(lruvec, struct mem_cgroup_per_node, lruvec);'',
      ''	memcg = pn->memcg;'',
      [],
      ''	/* Update memcg */'',
      ''	__this_cpu_add(abk_vmstats_percpu_of(memcg)->state[i], val);'',
      [],
      ''	/* Update lruvec */'',
      ''	__this_cpu_add(abk_lruvec_stats_percpu_of(pn)->state[i], val);'',
      [],
      ''	memcg_rstat_updated(memcg, val);'',
      ''}'',
      []]\<close>

definition b36_COUNT_EVENTS_OLD :: str where
  \<open>b36_COUNT_EVENTS_OLD = block
     [''void __count_memcg_events(struct mem_cgroup *memcg, enum vm_event_item idx,'',
      ''			  unsigned long count)'',
      ''{'',
      ''	if (mem_cgroup_disabled())'',
      ''		return;'',
      [],
      ''	__this_cpu_add(memcg->vmstats_percpu->events[idx], count);'',
      ''	memcg_rstat_updated(memcg, count);'',
      ''}'',
      []]\<close>

definition b36_COUNT_EVENTS_NEW :: str where
  \<open>b36_COUNT_EVENTS_NEW = block
     [''void __count_memcg_events(struct mem_cgroup *memcg, enum vm_event_item idx,'',
      ''			  unsigned long count)'',
      ''{'',
      ''	int i;'',
      [],
      ''	if (mem_cgroup_disabled())'',
      ''		return;'',
      [],
      ''	i = memcg_events_index(idx);'',
      ''	if (i < 0)'',
      ''		return;'',
      [],
      ''	__this_cpu_add(abk_vmstats_percpu_of(memcg)->events[i], count);'',
      ''	memcg_rstat_updated(memcg, count);'',
      ''}'',
      []]\<close>

definition b36_EVENTS_LOCAL_OLD :: str where
  \<open>b36_EVENTS_LOCAL_OLD = block
     [''static unsigned long memcg_events_local(struct mem_cgroup *memcg, int event)'',
      ''{'',
      ''	long x = 0;'',
      ''	int cpu;'',
      [],
      ''	for_each_possible_cpu(cpu)'',
      ''		x += per_cpu(memcg->vmstats_percpu->events[event], cpu);'',
      ''	return x;'',
      ''}'',
      []]\<close>

definition b36_EVENTS_LOCAL_NEW :: str where
  \<open>b36_EVENTS_LOCAL_NEW = block
     [''static unsigned long memcg_events_local(struct mem_cgroup *memcg, int event)'',
      ''{'',
      ''	long x = 0;'',
      ''	int cpu;'',
      ''	int i = memcg_events_index(event);'',
      [],
      ''	if (i < 0)'',
      ''		return 0;'',
      [],
      ''	for_each_possible_cpu(cpu)'',
      ''		x += per_cpu(abk_vmstats_percpu_of(memcg)->events[i], cpu);'',
      ''	return x;'',
      ''}'',
      []]\<close>

definition b36_NR_PAGE_EVENTS_OLD :: str where
  \<open>b36_NR_PAGE_EVENTS_OLD = block
     [''	__this_cpu_add(memcg->vmstats_percpu->nr_page_events, nr_pages);'',
      []]\<close>

definition b36_NR_PAGE_EVENTS_NEW :: str where
  \<open>b36_NR_PAGE_EVENTS_NEW = block
     [''	__this_cpu_add(abk_vmstats_percpu_of(memcg)->nr_page_events,'',
      ''			 nr_pages);'',
      []]\<close>

definition b36_RATELIMIT_READ_OLD :: str where
  \<open>b36_RATELIMIT_READ_OLD = block
     [''	val = __this_cpu_read(memcg->vmstats_percpu->nr_page_events);'',
      ''	next = __this_cpu_read(memcg->vmstats_percpu->targets[target]);'',
      []]\<close>

definition b36_RATELIMIT_READ_NEW :: str where
  \<open>b36_RATELIMIT_READ_NEW = block
     [''	val = __this_cpu_read(abk_vmstats_percpu_of(memcg)->nr_page_events);'',
      ''	next = __this_cpu_read(abk_vmstats_percpu_of(memcg)->targets[target]);'',
      []]\<close>

definition b36_RATELIMIT_WRITE_OLD :: str where
  \<open>b36_RATELIMIT_WRITE_OLD = block
     [''		__this_cpu_write(memcg->vmstats_percpu->targets[target], next);'',
      []]\<close>

definition b36_RATELIMIT_WRITE_NEW :: str where
  \<open>b36_RATELIMIT_WRITE_NEW = block
     [''		__this_cpu_write(abk_vmstats_percpu_of(memcg)->targets[target],'',
      ''				 next);'',
      []]\<close>

definition b36_UNCHARGE_OLD :: str where
  \<open>b36_UNCHARGE_OLD = block
     [''	__this_cpu_add(ug->memcg->vmstats_percpu->nr_page_events, ug->nr_memory);'',
      []]\<close>

definition b36_UNCHARGE_NEW :: str where
  \<open>b36_UNCHARGE_NEW = block
     [''	__this_cpu_add(abk_vmstats_percpu_of(ug->memcg)->nr_page_events,'',
      ''			 ug->nr_memory);'',
      []]\<close>

definition b36_PN_ALLOC_OLD :: str where
  \<open>b36_PN_ALLOC_OLD = block
     [''	pn->lruvec_stats_percpu = alloc_percpu_gfp(struct lruvec_stats_percpu,'',
      ''						   GFP_KERNEL_ACCOUNT);'',
      []]\<close>

definition b36_PN_ALLOC_NEW :: str where
  \<open>b36_PN_ALLOC_NEW = block
     [''	pn->lruvec_stats_percpu = (struct lruvec_stats_percpu __percpu *)'',
      ''		__alloc_percpu_gfp(sizeof(struct abk_lruvec_stats_percpu),'',
      ''				   __alignof__(struct abk_lruvec_stats_percpu),'',
      ''				   GFP_KERNEL_ACCOUNT);'',
      []]\<close>

definition b36_MEMCG_ALLOC_OLD :: str where
  \<open>b36_MEMCG_ALLOC_OLD = block
     [''	memcg->vmstats_percpu = alloc_percpu_gfp(struct memcg_vmstats_percpu,'',
      ''						 GFP_KERNEL_ACCOUNT);'',
      []]\<close>

definition b36_MEMCG_ALLOC_NEW :: str where
  \<open>b36_MEMCG_ALLOC_NEW = block
     [''	memcg->vmstats_percpu = (struct memcg_vmstats_percpu __percpu *)'',
      ''		__alloc_percpu_gfp(sizeof(struct abk_vmstats_percpu),'',
      ''				   __alignof__(struct abk_vmstats_percpu),'',
      ''				   GFP_KERNEL_ACCOUNT);'',
      []]\<close>

definition b36_CSS_ALLOC_OLD :: str where
  \<open>b36_CSS_ALLOC_OLD = block
     [''	} else {'',
      ''		page_counter_init(&memcg->memory, NULL);'',
      []]\<close>

definition b36_CSS_ALLOC_NEW :: str where
  \<open>b36_CSS_ALLOC_NEW = block
     [''	} else {'',
      ''		init_memcg_stats();'',
      ''		init_memcg_events();'',
      [],
      ''		page_counter_init(&memcg->memory, NULL);'',
      []]\<close>

definition b36_FLUSH_DECL_OLD :: str where
  \<open>b36_FLUSH_DECL_OLD = block
     [''	struct mem_cgroup *parent = parent_mem_cgroup(memcg);'',
      ''	struct memcg_vmstats_percpu *statc;'',
      []]\<close>

definition b36_FLUSH_DECL_NEW :: str where
  \<open>b36_FLUSH_DECL_NEW = block
     [''	struct mem_cgroup *parent = parent_mem_cgroup(memcg);'',
      ''	struct abk_vmstats_percpu *statc;'',
      []]\<close>

definition b36_FLUSH_STATC_OLD :: str where
  \<open>b36_FLUSH_STATC_OLD = block
     [''	statc = per_cpu_ptr(memcg->vmstats_percpu, cpu);'',
      []]\<close>

definition b36_FLUSH_STATC_NEW :: str where
  \<open>b36_FLUSH_STATC_NEW = block
     [''	statc = per_cpu_ptr(abk_vmstats_percpu_of(memcg), cpu);'',
      []]\<close>

definition b36_FLUSH_STATE_OLD :: str where
  \<open>b36_FLUSH_STATE_OLD = block
     [''	for (i = 0; i < MEMCG_NR_STAT; i++) {'',
      ''		/*'',
      ''		 * Collect the aggregated propagation counts of groups'',
      ''		 * below us. We\'re in a per-cpu loop here and this is'',
      ''		 * a global counter, so the first cycle will get them.'',
      ''		 */'',
      ''		delta = memcg->vmstats.state_pending[i];'',
      ''		if (delta)'',
      ''			memcg->vmstats.state_pending[i] = 0;'',
      [],
      ''		/* Add CPU changes on this level since the last flush */'',
      ''		v = READ_ONCE(statc->state[i]);'',
      ''		if (v != statc->state_prev[i]) {'',
      ''			delta += v - statc->state_prev[i];'',
      ''			statc->state_prev[i] = v;'',
      ''		}'',
      [],
      ''		if (!delta)'',
      ''			continue;'',
      [],
      ''		/* Aggregate counts on this level and propagate upwards */'',
      ''		memcg->vmstats.state[i] += delta;'',
      ''		if (parent)'',
      ''			parent->vmstats.state_pending[i] += delta;'',
      ''	}'',
      []]\<close>

definition b36_FLUSH_STATE_NEW :: str where
  \<open>b36_FLUSH_STATE_NEW = block
     [''	for (i = 0; i < NR_MEMCG_VMSTAT_SIZE; i++) {'',
      ''		/*'',
      ''		 * ABK stable_515_backport: memcg_stats_percpu_slim.  The percpu'',
      ''		 * object is compact and slot-indexed, the embedded aggregate stays'',
      ''		 * raw-indexed (its layout is KMI-frozen), so every aggregate access'',
      ''		 * goes through the slot\'s item.'',
      ''		 */'',
      ''		int item = i < NR_MEMCG_NODE_STAT_ITEMS ?'',
      ''			   memcg_node_stat_items[i] :'',
      ''			   memcg_stat_items[i - NR_MEMCG_NODE_STAT_ITEMS];'',
      [],
      ''		/*'',
      ''		 * Collect the aggregated propagation counts of groups'',
      ''		 * below us. We\'re in a per-cpu loop here and this is'',
      ''		 * a global counter, so the first cycle will get them.'',
      ''		 */'',
      ''		delta = memcg->vmstats.state_pending[item];'',
      ''		if (delta)'',
      ''			memcg->vmstats.state_pending[item] = 0;'',
      [],
      ''		/* Add CPU changes on this level since the last flush */'',
      ''		v = READ_ONCE(statc->state[i]);'',
      ''		if (v != statc->state_prev[i]) {'',
      ''			delta += v - statc->state_prev[i];'',
      ''			statc->state_prev[i] = v;'',
      ''		}'',
      [],
      ''		if (!delta)'',
      ''			continue;'',
      [],
      ''		/* Aggregate counts on this level and propagate upwards */'',
      ''		memcg->vmstats.state[item] += delta;'',
      ''		if (parent)'',
      ''			parent->vmstats.state_pending[item] += delta;'',
      ''	}'',
      []]\<close>

definition b36_FLUSH_EVENTS_OLD :: str where
  \<open>b36_FLUSH_EVENTS_OLD = block
     [''	for (i = 0; i < NR_VM_EVENT_ITEMS; i++) {'',
      ''		delta = memcg->vmstats.events_pending[i];'',
      ''		if (delta)'',
      ''			memcg->vmstats.events_pending[i] = 0;'',
      [],
      ''		v = READ_ONCE(statc->events[i]);'',
      ''		if (v != statc->events_prev[i]) {'',
      ''			delta += v - statc->events_prev[i];'',
      ''			statc->events_prev[i] = v;'',
      ''		}'',
      [],
      ''		if (!delta)'',
      ''			continue;'',
      [],
      ''		memcg->vmstats.events[i] += delta;'',
      ''		if (parent)'',
      ''			parent->vmstats.events_pending[i] += delta;'',
      ''	}'',
      []]\<close>

definition b36_FLUSH_EVENTS_NEW :: str where
  \<open>b36_FLUSH_EVENTS_NEW = block
     [''	for (i = 0; i < NR_MEMCG_VM_EVENTS; i++) {'',
      ''		int event = memcg_vm_event_items[i];'',
      [],
      ''		delta = memcg->vmstats.events_pending[event];'',
      ''		if (delta)'',
      ''			memcg->vmstats.events_pending[event] = 0;'',
      [],
      ''		v = READ_ONCE(statc->events[i]);'',
      ''		if (v != statc->events_prev[i]) {'',
      ''			delta += v - statc->events_prev[i];'',
      ''			statc->events_prev[i] = v;'',
      ''		}'',
      [],
      ''		if (!delta)'',
      ''			continue;'',
      [],
      ''		memcg->vmstats.events[event] += delta;'',
      ''		if (parent)'',
      ''			parent->vmstats.events_pending[event] += delta;'',
      ''	}'',
      []]\<close>

definition b36_FLUSH_LRUVEC_OLD :: str where
  \<open>b36_FLUSH_LRUVEC_OLD = block
     [''	for_each_node_state(nid, N_MEMORY) {'',
      ''		struct mem_cgroup_per_node *pn = memcg->nodeinfo[nid];'',
      ''		struct mem_cgroup_per_node *ppn = NULL;'',
      ''		struct lruvec_stats_percpu *lstatc;'',
      [],
      ''		if (parent)'',
      ''			ppn = parent->nodeinfo[nid];'',
      [],
      ''		lstatc = per_cpu_ptr(pn->lruvec_stats_percpu, cpu);'',
      [],
      ''		for (i = 0; i < NR_VM_NODE_STAT_ITEMS; i++) {'',
      ''			delta = pn->lruvec_stats.state_pending[i];'',
      ''			if (delta)'',
      ''				pn->lruvec_stats.state_pending[i] = 0;'',
      [],
      ''			v = READ_ONCE(lstatc->state[i]);'',
      ''			if (v != lstatc->state_prev[i]) {'',
      ''				delta += v - lstatc->state_prev[i];'',
      ''				lstatc->state_prev[i] = v;'',
      ''			}'',
      [],
      ''			if (!delta)'',
      ''				continue;'',
      [],
      ''			pn->lruvec_stats.state[i] += delta;'',
      ''			if (ppn)'',
      ''				ppn->lruvec_stats.state_pending[i] += delta;'',
      ''		}'',
      ''	}'',
      []]\<close>

definition b36_FLUSH_LRUVEC_NEW :: str where
  \<open>b36_FLUSH_LRUVEC_NEW = block
     [''	for_each_node_state(nid, N_MEMORY) {'',
      ''		struct mem_cgroup_per_node *pn = memcg->nodeinfo[nid];'',
      ''		struct mem_cgroup_per_node *ppn = NULL;'',
      ''		struct abk_lruvec_stats_percpu *lstatc;'',
      [],
      ''		if (parent)'',
      ''			ppn = parent->nodeinfo[nid];'',
      [],
      ''		lstatc = per_cpu_ptr(abk_lruvec_stats_percpu_of(pn), cpu);'',
      [],
      ''		for (i = 0; i < NR_MEMCG_NODE_STAT_ITEMS; i++) {'',
      ''			int item = memcg_node_stat_items[i];'',
      [],
      ''			delta = pn->lruvec_stats.state_pending[item];'',
      ''			if (delta)'',
      ''				pn->lruvec_stats.state_pending[item] = 0;'',
      [],
      ''			v = READ_ONCE(lstatc->state[i]);'',
      ''			if (v != lstatc->state_prev[i]) {'',
      ''				delta += v - lstatc->state_prev[i];'',
      ''				lstatc->state_prev[i] = v;'',
      ''			}'',
      [],
      ''			if (!delta)'',
      ''				continue;'',
      [],
      ''			pn->lruvec_stats.state[item] += delta;'',
      ''			if (ppn)'',
      ''				ppn->lruvec_stats.state_pending[item] += delta;'',
      ''		}'',
      ''	}'',
      []]\<close>

definition b36_HEADER_LOCAL_OLD :: str where
  \<open>b36_HEADER_LOCAL_OLD = block
     [''static inline unsigned long lruvec_page_state_local(struct lruvec *lruvec,'',
      ''						    enum node_stat_item idx)'',
      ''{'',
      ''	struct mem_cgroup_per_node *pn;'',
      ''	long x = 0;'',
      ''	int cpu;'',
      [],
      ''	if (mem_cgroup_disabled())'',
      ''		return node_page_state(lruvec_pgdat(lruvec), idx);'',
      [],
      ''	pn = container_of(lruvec, struct mem_cgroup_per_node, lruvec);'',
      ''	for_each_possible_cpu(cpu)'',
      ''		x += per_cpu(pn->lruvec_stats_percpu->state[idx], cpu);'',
      ''#ifdef CONFIG_SMP'',
      ''	if (x < 0)'',
      ''		x = 0;'',
      ''#endif'',
      ''	return x;'',
      ''}'',
      []]\<close>

definition b36_HEADER_LOCAL_NEW :: str where
  \<open>b36_HEADER_LOCAL_NEW = block
     [''/*'',
      '' * ABK stable_515_backport: memcg_stats_percpu_slim.  Out of line in'',
      '' * mm/memcontrol.c: the per-cpu lruvec stats object is compact and'',
      '' * slot-indexed there.  No struct member moves; the KMI types keep their'',
      '' * layouts.'',
      '' */'',
      ''unsigned long lruvec_page_state_local(struct lruvec *lruvec,'',
      ''				      enum node_stat_item idx);'',
      []]\<close>

definition b36_MARKER :: str where
  \<open>b36_MARKER = ''ABK stable_515_backport: memcg_stats_percpu_slim''\<close>

definition b36_ABK_VMSTATS_STRUCT :: str where
  \<open>b36_ABK_VMSTATS_STRUCT = ''struct abk_vmstats_percpu''\<close>

definition b36_ABK_LRUVEC_STRUCT :: str where
  \<open>b36_ABK_LRUVEC_STRUCT = ''struct abk_lruvec_stats_percpu''\<close>

definition b36_VMSTATS_ALLOC :: str where
  \<open>b36_VMSTATS_ALLOC = ''__alloc_percpu_gfp(sizeof(struct abk_vmstats_percpu)''\<close>

definition b36_LRUVEC_ALLOC :: str where
  \<open>b36_LRUVEC_ALLOC = ''__alloc_percpu_gfp(sizeof(struct abk_lruvec_stats_percpu)''\<close>

definition b36_STATE_TABLE :: str where
  \<open>b36_STATE_TABLE = ''memcg_node_stat_items[]''\<close>

definition b36_EVENTS_TABLE :: str where
  \<open>b36_EVENTS_TABLE = ''memcg_vm_event_items[]''\<close>

definition b36_INIT_PAIR :: str where
  \<open>b36_INIT_PAIR = block
     [''init_memcg_stats();'',
      ''		init_memcg_events();'']\<close>

definition b36_build_steps_step1 :: step where
  \<open>b36_build_steps_step1 =
   (b36_MEMCONTROL_C,
    b36_SLIM_BLOCK_OLD,
    b36_SLIM_BLOCK_NEW, True)\<close>

definition b36_build_steps_step2 :: step where
  \<open>b36_build_steps_step2 =
   (b36_MEMCONTROL_C,
    b36_MOD_STATE_OLD,
    b36_MOD_STATE_NEW, True)\<close>

definition b36_build_steps_step3 :: step where
  \<open>b36_build_steps_step3 =
   (b36_MEMCONTROL_C,
    b36_PAGE_STATE_LOCAL_OLD,
    b36_PAGE_STATE_LOCAL_NEW, True)\<close>

definition b36_build_steps_step4 :: step where
  \<open>b36_build_steps_step4 =
   (b36_MEMCONTROL_C,
    b36_MOD_LRUVEC_OLD,
    b36_MOD_LRUVEC_NEW, True)\<close>

definition b36_build_steps_step5 :: step where
  \<open>b36_build_steps_step5 =
   (b36_MEMCONTROL_C,
    b36_COUNT_EVENTS_OLD,
    b36_COUNT_EVENTS_NEW, True)\<close>

definition b36_build_steps_step6 :: step where
  \<open>b36_build_steps_step6 =
   (b36_MEMCONTROL_C,
    b36_EVENTS_LOCAL_OLD,
    b36_EVENTS_LOCAL_NEW, True)\<close>

definition b36_build_steps_step7 :: step where
  \<open>b36_build_steps_step7 =
   (b36_MEMCONTROL_C,
    b36_NR_PAGE_EVENTS_OLD,
    b36_NR_PAGE_EVENTS_NEW, True)\<close>

definition b36_build_steps_step8 :: step where
  \<open>b36_build_steps_step8 =
   (b36_MEMCONTROL_C,
    b36_UNCHARGE_OLD,
    b36_UNCHARGE_NEW, True)\<close>

definition b36_build_steps_step9 :: step where
  \<open>b36_build_steps_step9 =
   (b36_MEMCONTROL_C,
    b36_RATELIMIT_READ_OLD,
    b36_RATELIMIT_READ_NEW, True)\<close>

definition b36_build_steps_step10 :: step where
  \<open>b36_build_steps_step10 =
   (b36_MEMCONTROL_C,
    b36_RATELIMIT_WRITE_OLD,
    b36_RATELIMIT_WRITE_NEW, True)\<close>

definition b36_build_steps_step11 :: step where
  \<open>b36_build_steps_step11 =
   (b36_MEMCONTROL_C,
    b36_PN_ALLOC_OLD,
    b36_PN_ALLOC_NEW, True)\<close>

definition b36_build_steps_step12 :: step where
  \<open>b36_build_steps_step12 =
   (b36_MEMCONTROL_C,
    b36_MEMCG_ALLOC_OLD,
    b36_MEMCG_ALLOC_NEW, True)\<close>

definition b36_build_steps_step13 :: step where
  \<open>b36_build_steps_step13 =
   (b36_MEMCONTROL_C,
    b36_CSS_ALLOC_OLD,
    b36_CSS_ALLOC_NEW, True)\<close>

definition b36_build_steps_step14 :: step where
  \<open>b36_build_steps_step14 =
   (b36_MEMCONTROL_C,
    b36_FLUSH_DECL_OLD,
    b36_FLUSH_DECL_NEW, True)\<close>

definition b36_build_steps_step15 :: step where
  \<open>b36_build_steps_step15 =
   (b36_MEMCONTROL_C,
    b36_FLUSH_STATC_OLD,
    b36_FLUSH_STATC_NEW, True)\<close>

definition b36_build_steps_step16 :: step where
  \<open>b36_build_steps_step16 =
   (b36_MEMCONTROL_C,
    b36_FLUSH_STATE_OLD,
    b36_FLUSH_STATE_NEW, True)\<close>

definition b36_build_steps_step17 :: step where
  \<open>b36_build_steps_step17 =
   (b36_MEMCONTROL_C,
    b36_FLUSH_EVENTS_OLD,
    b36_FLUSH_EVENTS_NEW, True)\<close>

definition b36_build_steps_step18 :: step where
  \<open>b36_build_steps_step18 =
   (b36_MEMCONTROL_C,
    b36_FLUSH_LRUVEC_OLD,
    b36_FLUSH_LRUVEC_NEW, True)\<close>

definition b36_build_steps_step19 :: step where
  \<open>b36_build_steps_step19 =
   (b36_MEMCONTROL_H,
    b36_HEADER_LOCAL_OLD,
    b36_HEADER_LOCAL_NEW, True)\<close>

definition b36_build_steps :: "step list" where
  \<open>b36_build_steps = [b36_build_steps_step1, b36_build_steps_step2, b36_build_steps_step3, b36_build_steps_step4, b36_build_steps_step5, b36_build_steps_step6, b36_build_steps_step7, b36_build_steps_step8, b36_build_steps_step9, b36_build_steps_step10, b36_build_steps_step11, b36_build_steps_step12, b36_build_steps_step13, b36_build_steps_step14, b36_build_steps_step15, b36_build_steps_step16, b36_build_steps_step17, b36_build_steps_step18, b36_build_steps_step19]\<close>

lemma b36_build_steps_files: "steps_files b36_build_steps = {b36_MEMCONTROL_C, b36_MEMCONTROL_H}"
  by (simp add: b36_build_steps_def steps_files_fst insert_commute
      step_file [OF b36_build_steps_step1_def]
      step_file [OF b36_build_steps_step2_def]
      step_file [OF b36_build_steps_step3_def]
      step_file [OF b36_build_steps_step4_def]
      step_file [OF b36_build_steps_step5_def]
      step_file [OF b36_build_steps_step6_def]
      step_file [OF b36_build_steps_step7_def]
      step_file [OF b36_build_steps_step8_def]
      step_file [OF b36_build_steps_step9_def]
      step_file [OF b36_build_steps_step10_def]
      step_file [OF b36_build_steps_step11_def]
      step_file [OF b36_build_steps_step12_def]
      step_file [OF b36_build_steps_step13_def]
      step_file [OF b36_build_steps_step14_def]
      step_file [OF b36_build_steps_step15_def]
      step_file [OF b36_build_steps_step16_def]
      step_file [OF b36_build_steps_step17_def]
      step_file [OF b36_build_steps_step18_def]
      step_file [OF b36_build_steps_step19_def])

lemma b36_build_steps_required: "all_required b36_build_steps"
  by (simp add: b36_build_steps_def all_required_def
      step_req [OF b36_build_steps_step1_def]
      step_req [OF b36_build_steps_step2_def]
      step_req [OF b36_build_steps_step3_def]
      step_req [OF b36_build_steps_step4_def]
      step_req [OF b36_build_steps_step5_def]
      step_req [OF b36_build_steps_step6_def]
      step_req [OF b36_build_steps_step7_def]
      step_req [OF b36_build_steps_step8_def]
      step_req [OF b36_build_steps_step9_def]
      step_req [OF b36_build_steps_step10_def]
      step_req [OF b36_build_steps_step11_def]
      step_req [OF b36_build_steps_step12_def]
      step_req [OF b36_build_steps_step13_def]
      step_req [OF b36_build_steps_step14_def]
      step_req [OF b36_build_steps_step15_def]
      step_req [OF b36_build_steps_step16_def]
      step_req [OF b36_build_steps_step17_def]
      step_req [OF b36_build_steps_step18_def]
      step_req [OF b36_build_steps_step19_def])

definition b36_memcg_stats_percpu_slim_apply :: "outcome io" where
  \<open>b36_memcg_stats_percpu_slim_apply =
    apply_or_block b36_build_steps\<close>

lemma b36_memcg_stats_percpu_slim_apply_txn: "transactional (\<lambda>_. {b36_MEMCONTROL_C, b36_MEMCONTROL_H}) b36_memcg_stats_percpu_slim_apply"
  unfolding b36_memcg_stats_percpu_slim_apply_def
  by (intro txn_intros safe_intros)
    (simp_all add: is_backup_code BACKUP_SUFFIX_def b36_build_steps_files b36_MEMCONTROL_C_def b36_MEMCONTROL_H_def)

definition memcg_stats_percpu_slim_group :: group where
  \<open>memcg_stats_percpu_slim_group =
    \<lparr>key = ''memcg_stats_percpu_slim'',
     summary = ''shrink the memcg per-cpu stats objects: index state/event arrays through item -> slot tables (mainline 70a64b7919cb + ff48c71c26aa, v6.10) and allocate them at the compacted size, keeping the KMI-visible header layouts byte-identical (the embedded aggregates stay full-width; only the per-cpu objects shrink)'',
     commits = [''70a64b7919cb (mainline v6.10, \'memcg: dynamically allocate lruvec_stats\')'',
      ''ff48c71c26aa (mainline v6.10, \'memcg: reduce memory for the lruvec and memcg stats\')'',
      ''+ KMI reshape: header byte-identical, private compact percpu structs behind the unchanged pointer fields (android13-5.15 abi_gki_aarch64.xml tracks mem_cgroup / mem_cgroup_per_node / memcg_vmstats / lruvec_stats; the item tables are re-derived for 5.15 from memory_stats[] / memcg1_stats[] and the full count_memcg_events* writer set)''],
     group_files = [b36_MEMCONTROL_C,
      b36_MEMCONTROL_H],
     apply_fn = b36_memcg_stats_percpu_slim_apply, hard = False\<rparr>\<close>

lemma memcg_stats_percpu_slim_group_declared [simp]: "well_declared memcg_stats_percpu_slim_group"
  by (rule well_declaredI [OF b36_memcg_stats_percpu_slim_apply_txn]) (simp_all add: is_backup_code BACKUP_SUFFIX_def memcg_stats_percpu_slim_group_def b36_MEMCONTROL_C_def b36_MEMCONTROL_H_def)

definition b36_build_groups :: "group list" where
  \<open>b36_build_groups = [memcg_stats_percpu_slim_group]\<close>

end
