(* ===== verification/Batch38_Mm_Safety.thy ===== *)
theory Batch38_Mm_Safety
  imports Registry_Laws
begin

text \<open>
  The anchors, steps and groups of \<^verbatim>\<open>scripts/batch38_core_mm_safety_perf.py\<close>, in source order.
\<close>

definition b38_HUGE_MEMORY_C :: str where
  \<open>b38_HUGE_MEMORY_C = ''mm/huge_memory.c''\<close>

definition b38_SWAP_STATE_C :: str where
  \<open>b38_SWAP_STATE_C = ''mm/swap_state.c''\<close>

definition b38_FILEMAP_C :: str where
  \<open>b38_FILEMAP_C = ''mm/filemap.c''\<close>

definition b38_VMSCAN_C :: str where
  \<open>b38_VMSCAN_C = ''mm/vmscan.c''\<close>

definition b38_VMSTAT_C :: str where
  \<open>b38_VMSTAT_C = ''mm/vmstat.c''\<close>

definition b38_SPLIT_SIG_OLD :: str where
  \<open>b38_SPLIT_SIG_OLD = block
     [''static void __split_huge_page(struct page *page, struct list_head *list,'',
      ''		pgoff_t end)'',
      ''{'',
      ''	struct page *head = compound_head(page);'',
      ''	struct lruvec *lruvec;'',
      []]\<close>

definition b38_SPLIT_SIG_NEW :: str where
  \<open>b38_SPLIT_SIG_NEW = block
     [''static void __split_huge_page(struct page *page, struct list_head *list,'',
      ''		pgoff_t end, struct address_space *mapping)'',
      ''{'',
      ''	struct page *head = compound_head(page);'',
      ''	struct lruvec *lruvec;'',
      []]\<close>

definition b38_EARLY_UNLOCK_OLD :: str where
  \<open>b38_EARLY_UNLOCK_OLD = block
     [''		split_swap_cluster(entry);'',
      ''	}'',
      [],
      ''	for (i = 0; i < nr; i++) {'',
      ''		struct page *subpage = head + i;'',
      ''		if (subpage == page)'',
      []]\<close>

definition b38_EARLY_UNLOCK_NEW :: str where
  \<open>b38_EARLY_UNLOCK_NEW = block
     [''		split_swap_cluster(entry);'',
      ''	}'',
      [],
      ''	/*'',
      ''	 * Drop the mapping while the head page is still locked and thus pins'',
      ''	 * the inode. The loop below may free the after-split subpages --'',
      ''	 * including the head, when @page is a tail beyond EOF that the split'',
      ''	 * dropped from the page cache -- which could otherwise let the inode,'',
      ''	 * and @mapping, be freed before this unlock.'',
      ''	 */'',
      ''	if (mapping)'',
      ''		i_mmap_unlock_read(mapping);'',
      [],
      ''	for (i = 0; i < nr; i++) {'',
      ''		struct page *subpage = head + i;'',
      ''		if (subpage == page)'',
      []]\<close>

definition b38_CALLSITE_OLD :: str where
  \<open>b38_CALLSITE_OLD = block
     [''		__split_huge_page(page, list, end);'',
      ''		ret = 0;'',
      ''	} else {'',
      []]\<close>

definition b38_CALLSITE_NEW :: str where
  \<open>b38_CALLSITE_NEW = block
     [''		__split_huge_page(page, list, end, mapping);'',
      ''		/* __split_huge_page() dropped the i_mmap lock */'',
      ''		mapping = NULL;'',
      ''		ret = 0;'',
      ''	} else {'',
      []]\<close>

definition b38_build_steps_step1 :: step where
  \<open>b38_build_steps_step1 =
   (b38_HUGE_MEMORY_C,
    b38_SPLIT_SIG_OLD,
    b38_SPLIT_SIG_NEW, True)\<close>

definition b38_build_steps_step2 :: step where
  \<open>b38_build_steps_step2 =
   (b38_HUGE_MEMORY_C,
    b38_EARLY_UNLOCK_OLD,
    b38_EARLY_UNLOCK_NEW, True)\<close>

definition b38_build_steps_step3 :: step where
  \<open>b38_build_steps_step3 =
   (b38_HUGE_MEMORY_C,
    b38_CALLSITE_OLD,
    b38_CALLSITE_NEW, True)\<close>

definition b38_build_steps :: "step list" where
  \<open>b38_build_steps = [b38_build_steps_step1, b38_build_steps_step2, b38_build_steps_step3]\<close>

lemma b38_build_steps_files: "steps_files b38_build_steps = {b38_HUGE_MEMORY_C}"
  by (simp add: b38_build_steps_def steps_files_fst insert_commute
      step_file [OF b38_build_steps_step1_def]
      step_file [OF b38_build_steps_step2_def]
      step_file [OF b38_build_steps_step3_def])

lemma b38_build_steps_required: "all_required b38_build_steps"
  by (simp add: b38_build_steps_def all_required_def
      step_req [OF b38_build_steps_step1_def]
      step_req [OF b38_build_steps_step2_def]
      step_req [OF b38_build_steps_step3_def])

definition b38_huge_memory_imap_split_uaf_apply :: "outcome io" where
  \<open>b38_huge_memory_imap_split_uaf_apply =
    apply_or_block b38_build_steps\<close>

lemma b38_huge_memory_imap_split_uaf_apply_txn: "transactional (\<lambda>_. {b38_HUGE_MEMORY_C}) b38_huge_memory_imap_split_uaf_apply"
  unfolding b38_huge_memory_imap_split_uaf_apply_def
  by (intro txn_intros safe_intros)
    (simp_all add: is_backup_code BACKUP_SUFFIX_def b38_build_steps_files b38_HUGE_MEMORY_C_def)

definition b38_DRAIN_CLUSTER_OLD :: str where
  \<open>b38_DRAIN_CLUSTER_OLD = block
     [''	blk_finish_plug(&plug);'',
      [],
      ''	lru_add_drain();	/* Push any new pages onto the LRU now */'',
      ''skip:'',
      []]\<close>

definition b38_DRAIN_CLUSTER_NEW :: str where
  \<open>b38_DRAIN_CLUSTER_NEW = block
     [''	blk_finish_plug(&plug);'',
      [],
      ''skip:'',
      []]\<close>

definition b38_DRAIN_VMA_OLD :: str where
  \<open>b38_DRAIN_VMA_OLD = block
     [''	}'',
      ''	blk_finish_plug(&plug);'',
      ''	lru_add_drain();'',
      ''skip:'',
      []]\<close>

definition b38_DRAIN_VMA_NEW :: str where
  \<open>b38_DRAIN_VMA_NEW = block
     [''	}'',
      ''	blk_finish_plug(&plug);'',
      ''skip:'',
      []]\<close>

definition b38_swap_readahead_lru_add_drain_step1 :: step where
  \<open>b38_swap_readahead_lru_add_drain_step1 =
   (b38_SWAP_STATE_C,
    b38_DRAIN_CLUSTER_OLD,
    b38_DRAIN_CLUSTER_NEW, True)\<close>

definition b38_swap_readahead_lru_add_drain_step2 :: step where
  \<open>b38_swap_readahead_lru_add_drain_step2 =
   (b38_SWAP_STATE_C,
    b38_DRAIN_VMA_OLD,
    b38_DRAIN_VMA_NEW, True)\<close>

definition b38_swap_readahead_lru_add_drain_steps :: "step list" where
  \<open>b38_swap_readahead_lru_add_drain_steps = [b38_swap_readahead_lru_add_drain_step1, b38_swap_readahead_lru_add_drain_step2]\<close>

definition b38_swap_readahead_lru_add_drain_apply :: "outcome io" where
  \<open>b38_swap_readahead_lru_add_drain_apply =
    apply_or_block b38_swap_readahead_lru_add_drain_steps\<close>

lemma b38_swap_readahead_lru_add_drain_steps_files: "steps_files b38_swap_readahead_lru_add_drain_steps = {b38_SWAP_STATE_C}"
  by (simp add: b38_swap_readahead_lru_add_drain_steps_def steps_files_fst insert_commute
      step_file [OF b38_swap_readahead_lru_add_drain_step1_def]
      step_file [OF b38_swap_readahead_lru_add_drain_step2_def])

lemma b38_swap_readahead_lru_add_drain_steps_required: "all_required b38_swap_readahead_lru_add_drain_steps"
  by (simp add: b38_swap_readahead_lru_add_drain_steps_def all_required_def
      step_req [OF b38_swap_readahead_lru_add_drain_step1_def]
      step_req [OF b38_swap_readahead_lru_add_drain_step2_def])

lemma b38_swap_readahead_lru_add_drain_apply_txn: "transactional (\<lambda>_. {b38_SWAP_STATE_C}) b38_swap_readahead_lru_add_drain_apply"
  unfolding b38_swap_readahead_lru_add_drain_apply_def
  by (intro txn_intros safe_intros)
    (simp_all add: is_backup_code BACKUP_SUFFIX_def b38_swap_readahead_lru_add_drain_steps_files b38_SWAP_STATE_C_def)

definition b38_TASKS_QS_OLD :: str where
  \<open>b38_TASKS_QS_OLD = block
     [''		cond_resched();'',
      [],
      ''		if (nr_reclaimed < nr_to_reclaim || proportional_reclaim)'',
      ''			continue;'',
      []]\<close>

definition b38_TASKS_QS_NEW :: str where
  \<open>b38_TASKS_QS_NEW = block
     [''		cond_resched_tasks_rcu_qs();'',
      [],
      ''		if (nr_reclaimed < nr_to_reclaim || proportional_reclaim)'',
      ''			continue;'',
      []]\<close>

definition b38_vmscan_tasks_rcu_qs_step1 :: step where
  \<open>b38_vmscan_tasks_rcu_qs_step1 =
   (b38_VMSCAN_C,
    b38_TASKS_QS_OLD,
    b38_TASKS_QS_NEW, True)\<close>

definition b38_vmscan_tasks_rcu_qs_steps :: "step list" where
  \<open>b38_vmscan_tasks_rcu_qs_steps = [b38_vmscan_tasks_rcu_qs_step1]\<close>

definition b38_vmscan_tasks_rcu_qs_apply :: "outcome io" where
  \<open>b38_vmscan_tasks_rcu_qs_apply =
    apply_or_block b38_vmscan_tasks_rcu_qs_steps\<close>

lemma b38_vmscan_tasks_rcu_qs_steps_files: "steps_files b38_vmscan_tasks_rcu_qs_steps = {b38_VMSCAN_C}"
  by (simp add: b38_vmscan_tasks_rcu_qs_steps_def steps_files_fst insert_commute
      step_file [OF b38_vmscan_tasks_rcu_qs_step1_def])

lemma b38_vmscan_tasks_rcu_qs_steps_required: "all_required b38_vmscan_tasks_rcu_qs_steps"
  by (simp add: b38_vmscan_tasks_rcu_qs_steps_def all_required_def
      step_req [OF b38_vmscan_tasks_rcu_qs_step1_def])

lemma b38_vmscan_tasks_rcu_qs_apply_txn: "transactional (\<lambda>_. {b38_VMSCAN_C}) b38_vmscan_tasks_rcu_qs_apply"
  unfolding b38_vmscan_tasks_rcu_qs_apply_def
  by (intro txn_intros safe_intros)
    (simp_all add: is_backup_code BACKUP_SUFFIX_def b38_vmscan_tasks_rcu_qs_steps_files b38_VMSCAN_C_def)

definition b38_MMAP_HIT_OLD :: str where
  \<open>b38_MMAP_HIT_OLD = block
     [''		if (mmap_miss > 0)'',
      ''			mmap_miss--;'',
      []]\<close>

definition b38_MMAP_HIT_NEW :: str where
  \<open>b38_MMAP_HIT_NEW = block
     [''		if (mmap_miss > 0 && !(vmf->flags & FAULT_FLAG_TRIED))'',
      ''			mmap_miss--;'',
      []]\<close>

definition b38_filemap_mmap_miss_tried_step1 :: step where
  \<open>b38_filemap_mmap_miss_tried_step1 =
   (b38_FILEMAP_C,
    b38_MMAP_HIT_OLD,
    b38_MMAP_HIT_NEW, True)\<close>

definition b38_filemap_mmap_miss_tried_steps :: "step list" where
  \<open>b38_filemap_mmap_miss_tried_steps = [b38_filemap_mmap_miss_tried_step1]\<close>

definition b38_filemap_mmap_miss_tried_apply :: "outcome io" where
  \<open>b38_filemap_mmap_miss_tried_apply =
    apply_or_block b38_filemap_mmap_miss_tried_steps\<close>

lemma b38_filemap_mmap_miss_tried_steps_files: "steps_files b38_filemap_mmap_miss_tried_steps = {b38_FILEMAP_C}"
  by (simp add: b38_filemap_mmap_miss_tried_steps_def steps_files_fst insert_commute
      step_file [OF b38_filemap_mmap_miss_tried_step1_def])

lemma b38_filemap_mmap_miss_tried_steps_required: "all_required b38_filemap_mmap_miss_tried_steps"
  by (simp add: b38_filemap_mmap_miss_tried_steps_def all_required_def
      step_req [OF b38_filemap_mmap_miss_tried_step1_def])

lemma b38_filemap_mmap_miss_tried_apply_txn: "transactional (\<lambda>_. {b38_FILEMAP_C}) b38_filemap_mmap_miss_tried_apply"
  unfolding b38_filemap_mmap_miss_tried_apply_def
  by (intro txn_intros safe_intros)
    (simp_all add: is_backup_code BACKUP_SUFFIX_def b38_filemap_mmap_miss_tried_steps_files b38_FILEMAP_C_def)

definition b38_DYING_HELPER_OLD :: str where
  \<open>b38_DYING_HELPER_OLD = block
     [''unsigned long mem_cgroup_soft_limit_reclaim(pg_data_t *pgdat, int order,'',
      ''						gfp_t gfp_mask,'',
      ''						unsigned long *total_scanned);'',
      [],
      []]\<close>

definition b38_DYING_HELPER_NEW :: str where
  \<open>b38_DYING_HELPER_NEW = block
     [''unsigned long mem_cgroup_soft_limit_reclaim(pg_data_t *pgdat, int order,'',
      ''						gfp_t gfp_mask,'',
      ''						unsigned long *total_scanned);'',
      [],
      ''/*'',
      '' * ABK stable_515_backport: memcg_is_dying (v7.2 memcg dying-bailout'',
      '' * series).  True once cgroup_rmdir() has started tearing this css down.'',
      '' * A writer reclaiming under cgroup_mutex must not keep reclaiming into'',
      '' * a memcg that is already going away: rmdir waits for it in'',
      '' * kernfs_drain() with cgroup_mutex held, so the whole system backs up'',
      '' * behind it.  5.15 has no css_is_dying(), so the flag is tested directly'',
      '' * -- kill_css() sets CSS_DYING before css_clear_dir().'',
      '' */'',
      ''static inline bool memcg_is_dying(struct mem_cgroup *memcg)'',
      ''{'',
      ''	return memcg ? !!(memcg->css.flags & CSS_DYING) : false;'',
      ''}'',
      [],
      []]\<close>

definition b38_DYING_STUB_OLD :: str where
  \<open>b38_DYING_STUB_OLD = block
     [''static inline'',
      ''unsigned long mem_cgroup_soft_limit_reclaim(pg_data_t *pgdat, int order,'',
      ''					    gfp_t gfp_mask,'',
      ''					    unsigned long *total_scanned)'',
      ''{'',
      ''	return 0;'',
      ''}'',
      []]\<close>

definition b38_DYING_STUB_NEW :: str where
  \<open>b38_DYING_STUB_NEW = block
     [''static inline'',
      ''unsigned long mem_cgroup_soft_limit_reclaim(pg_data_t *pgdat, int order,'',
      ''					    gfp_t gfp_mask,'',
      ''					    unsigned long *total_scanned)'',
      ''{'',
      ''	return 0;'',
      ''}'',
      [],
      ''static inline bool memcg_is_dying(struct mem_cgroup *memcg) { return false; }'',
      [],
      []]\<close>

definition b38_HIGH_BAIL_OLD :: str where
  \<open>b38_HIGH_BAIL_OLD = block
     [''		if (nr_pages <= high)'',
      ''			break;'',
      [],
      ''		if (signal_pending(current))'',
      ''			break;'',
      []]\<close>

definition b38_HIGH_BAIL_NEW :: str where
  \<open>b38_HIGH_BAIL_NEW = block
     [''		if (nr_pages <= high)'',
      ''			break;'',
      [],
      ''		if (signal_pending(current))'',
      ''			break;'',
      [],
      ''		/* cgroup_rmdir() waits for us with cgroup_mutex held. */'',
      ''		if (memcg_is_dying(memcg))'',
      ''			break;'',
      []]\<close>

definition b38_MAX_BAIL_OLD :: str where
  \<open>b38_MAX_BAIL_OLD = block
     [''		if (nr_pages <= max)'',
      ''			break;'',
      [],
      ''		if (signal_pending(current))'',
      ''			break;'',
      []]\<close>

definition b38_MAX_BAIL_NEW :: str where
  \<open>b38_MAX_BAIL_NEW = block
     [''		if (nr_pages <= max)'',
      ''			break;'',
      [],
      ''		if (signal_pending(current))'',
      ''			break;'',
      [],
      ''		/* cgroup_rmdir() waits for us with cgroup_mutex held. */'',
      ''		if (memcg_is_dying(memcg))'',
      ''			break;'',
      []]\<close>

definition b38_RESIZE_BAIL_OLD :: str where
  \<open>b38_RESIZE_BAIL_OLD = block
     [''	do {'',
      ''		if (signal_pending(current)) {'',
      ''			ret = -EINTR;'',
      ''			break;'',
      ''		}'',
      []]\<close>

definition b38_RESIZE_BAIL_NEW :: str where
  \<open>b38_RESIZE_BAIL_NEW = block
     [''	do {'',
      ''		if (signal_pending(current)) {'',
      ''			ret = -EINTR;'',
      ''			break;'',
      ''		}'',
      [],
      ''		/* cgroup_rmdir() waits for us with cgroup_mutex held. */'',
      ''		if (memcg_is_dying(memcg))'',
      ''			break;'',
      []]\<close>

definition b38_FORCE_EMPTY_BAIL_OLD :: str where
  \<open>b38_FORCE_EMPTY_BAIL_OLD = block
     [''		if (signal_pending(current))'',
      ''			return -EINTR;'',
      []]\<close>

definition b38_FORCE_EMPTY_BAIL_NEW :: str where
  \<open>b38_FORCE_EMPTY_BAIL_NEW = block
     [''		if (signal_pending(current))'',
      ''			return -EINTR;'',
      [],
      ''		/* cgroup_rmdir() waits for us with cgroup_mutex held. */'',
      ''		if (memcg_is_dying(memcg))'',
      ''			break;'',
      []]\<close>

definition b38_PROACTIVE_BAIL_OLD :: str where
  \<open>b38_PROACTIVE_BAIL_OLD = block
     [''		 * This is the final attempt, drain percpu lru caches in the'',
      ''		 * hope of introducing more evictable pages for'',
      ''		 * try_to_free_mem_cgroup_pages().'',
      ''		 */'',
      ''		if (!nr_retries)'',
      ''			lru_add_drain_all();'',
      []]\<close>

definition b38_PROACTIVE_BAIL_NEW :: str where
  \<open>b38_PROACTIVE_BAIL_NEW = block
     [''		 * This is the final attempt, drain percpu lru caches in the'',
      ''		 * hope of introducing more evictable pages for'',
      ''		 * try_to_free_mem_cgroup_pages().'',
      ''		 */'',
      [],
      ''		/* cgroup_rmdir() waits for us with cgroup_mutex held. */'',
      ''		if (memcg && memcg_is_dying(memcg))'',
      ''			return -EAGAIN;'',
      [],
      ''		if (!nr_retries)'',
      ''			lru_add_drain_all();'',
      []]\<close>

definition b38_MEMCONTROL_H :: str where
  \<open>b38_MEMCONTROL_H = ''include/linux/memcontrol.h''\<close>

definition b38_MEMCONTROL_C :: str where
  \<open>b38_MEMCONTROL_C = ''mm/memcontrol.c''\<close>

definition b38_memcg_dying_bailout_step1 :: step where
  \<open>b38_memcg_dying_bailout_step1 =
   (b38_MEMCONTROL_H,
    b38_DYING_HELPER_OLD,
    b38_DYING_HELPER_NEW, True)\<close>

definition b38_memcg_dying_bailout_step2 :: step where
  \<open>b38_memcg_dying_bailout_step2 =
   (b38_MEMCONTROL_H,
    b38_DYING_STUB_OLD,
    b38_DYING_STUB_NEW, True)\<close>

definition b38_memcg_dying_bailout_step3 :: step where
  \<open>b38_memcg_dying_bailout_step3 =
   (b38_MEMCONTROL_C,
    b38_HIGH_BAIL_OLD,
    b38_HIGH_BAIL_NEW, True)\<close>

definition b38_memcg_dying_bailout_step4 :: step where
  \<open>b38_memcg_dying_bailout_step4 =
   (b38_MEMCONTROL_C,
    b38_MAX_BAIL_OLD,
    b38_MAX_BAIL_NEW, True)\<close>

definition b38_memcg_dying_bailout_step5 :: step where
  \<open>b38_memcg_dying_bailout_step5 =
   (b38_MEMCONTROL_C,
    b38_RESIZE_BAIL_OLD,
    b38_RESIZE_BAIL_NEW, True)\<close>

definition b38_memcg_dying_bailout_step6 :: step where
  \<open>b38_memcg_dying_bailout_step6 =
   (b38_MEMCONTROL_C,
    b38_FORCE_EMPTY_BAIL_OLD,
    b38_FORCE_EMPTY_BAIL_NEW, True)\<close>

definition b38_memcg_dying_bailout_step7 :: step where
  \<open>b38_memcg_dying_bailout_step7 =
   (b38_MEMCONTROL_C,
    b38_PROACTIVE_BAIL_OLD,
    b38_PROACTIVE_BAIL_NEW, True)\<close>

definition b38_memcg_dying_bailout_steps :: "step list" where
  \<open>b38_memcg_dying_bailout_steps = [b38_memcg_dying_bailout_step1, b38_memcg_dying_bailout_step2, b38_memcg_dying_bailout_step3, b38_memcg_dying_bailout_step4, b38_memcg_dying_bailout_step5, b38_memcg_dying_bailout_step6, b38_memcg_dying_bailout_step7]\<close>

definition b38_memcg_dying_bailout_apply :: "outcome io" where
  \<open>b38_memcg_dying_bailout_apply =
    apply_or_block b38_memcg_dying_bailout_steps\<close>

lemma b38_memcg_dying_bailout_steps_files: "steps_files b38_memcg_dying_bailout_steps = {b38_MEMCONTROL_H, b38_MEMCONTROL_C}"
  by (simp add: b38_memcg_dying_bailout_steps_def steps_files_fst insert_commute
      step_file [OF b38_memcg_dying_bailout_step1_def]
      step_file [OF b38_memcg_dying_bailout_step2_def]
      step_file [OF b38_memcg_dying_bailout_step3_def]
      step_file [OF b38_memcg_dying_bailout_step4_def]
      step_file [OF b38_memcg_dying_bailout_step5_def]
      step_file [OF b38_memcg_dying_bailout_step6_def]
      step_file [OF b38_memcg_dying_bailout_step7_def])

lemma b38_memcg_dying_bailout_steps_required: "all_required b38_memcg_dying_bailout_steps"
  by (simp add: b38_memcg_dying_bailout_steps_def all_required_def
      step_req [OF b38_memcg_dying_bailout_step1_def]
      step_req [OF b38_memcg_dying_bailout_step2_def]
      step_req [OF b38_memcg_dying_bailout_step3_def]
      step_req [OF b38_memcg_dying_bailout_step4_def]
      step_req [OF b38_memcg_dying_bailout_step5_def]
      step_req [OF b38_memcg_dying_bailout_step6_def]
      step_req [OF b38_memcg_dying_bailout_step7_def])

lemma b38_memcg_dying_bailout_apply_txn: "transactional (\<lambda>_. {b38_MEMCONTROL_H, b38_MEMCONTROL_C}) b38_memcg_dying_bailout_apply"
  unfolding b38_memcg_dying_bailout_apply_def
  by (intro txn_intros safe_intros)
    (simp_all add: is_backup_code BACKUP_SUFFIX_def b38_memcg_dying_bailout_steps_files b38_MEMCONTROL_C_def b38_MEMCONTROL_H_def)

definition b38_BUDDYINFO_OLD :: str where
  \<open>b38_BUDDYINFO_OLD = block
     [''	walk_zones_in_node(m, pgdat, true, false, frag_show_print);'',
      []]\<close>

definition b38_BUDDYINFO_NEW :: str where
  \<open>b38_BUDDYINFO_NEW = block
     [''	walk_zones_in_node(m, pgdat, true, true, frag_show_print);'',
      []]\<close>

definition b38_buddyinfo_nolock_step1 :: step where
  \<open>b38_buddyinfo_nolock_step1 =
   (b38_VMSTAT_C,
    b38_BUDDYINFO_OLD,
    b38_BUDDYINFO_NEW, True)\<close>

definition b38_buddyinfo_nolock_steps :: "step list" where
  \<open>b38_buddyinfo_nolock_steps = [b38_buddyinfo_nolock_step1]\<close>

definition b38_buddyinfo_nolock_apply :: "outcome io" where
  \<open>b38_buddyinfo_nolock_apply =
    apply_or_block b38_buddyinfo_nolock_steps\<close>

lemma b38_buddyinfo_nolock_steps_files: "steps_files b38_buddyinfo_nolock_steps = {b38_VMSTAT_C}"
  by (simp add: b38_buddyinfo_nolock_steps_def steps_files_fst insert_commute
      step_file [OF b38_buddyinfo_nolock_step1_def])

lemma b38_buddyinfo_nolock_steps_required: "all_required b38_buddyinfo_nolock_steps"
  by (simp add: b38_buddyinfo_nolock_steps_def all_required_def
      step_req [OF b38_buddyinfo_nolock_step1_def])

lemma b38_buddyinfo_nolock_apply_txn: "transactional (\<lambda>_. {b38_VMSTAT_C}) b38_buddyinfo_nolock_apply"
  unfolding b38_buddyinfo_nolock_apply_def
  by (intro txn_intros safe_intros)
    (simp_all add: is_backup_code BACKUP_SUFFIX_def b38_buddyinfo_nolock_steps_files b38_VMSTAT_C_def)

definition huge_memory_imap_split_uaf_group :: group where
  \<open>huge_memory_imap_split_uaf_group =
    \<lparr>key = ''huge_memory_imap_split_uaf'',
     summary = ''split_huge_page_to_list() releases the i_mmap lock before freeing the after-split subpages, so a concurrent evict()/iput() can no longer free the inode (and @mapping) out from under the final i_mmap_unlock_read(); stability fix, no perf claim'',
     commits = [''e923bd21058e (v7.2)'',
      ''f87c08060818 (5.15.y backport, 2026-08-19) -- the grafted form''],
     group_files = [b38_HUGE_MEMORY_C],
     apply_fn = b38_huge_memory_imap_split_uaf_apply, hard = False\<rparr>\<close>

lemma huge_memory_imap_split_uaf_group_declared [simp]: "well_declared huge_memory_imap_split_uaf_group"
  by (rule well_declaredI [OF b38_huge_memory_imap_split_uaf_apply_txn]) (simp_all add: is_backup_code BACKUP_SUFFIX_def huge_memory_imap_split_uaf_group_def b38_HUGE_MEMORY_C_def)

definition swap_readahead_lru_add_drain_group :: group where
  \<open>swap_readahead_lru_add_drain_group =
    \<lparr>key = ''swap_readahead_lru_add_drain'',
     summary = ''swap-in readahead stops forcing an lru_add_drain() on every cluster/VMA readahead: the pages reach the LRU through the caller\'s per-CPU pagevec batch anyway, so the flush only bought a lruvec_lock acquisition per swap-in fault'',
     commits = [''a4519e5b648a (v7.2)''],
     group_files = [b38_SWAP_STATE_C],
     apply_fn = b38_swap_readahead_lru_add_drain_apply, hard = False\<rparr>\<close>

lemma swap_readahead_lru_add_drain_group_declared [simp]: "well_declared swap_readahead_lru_add_drain_group"
  by (rule well_declaredI [OF b38_swap_readahead_lru_add_drain_apply_txn]) (simp_all add: is_backup_code BACKUP_SUFFIX_def swap_readahead_lru_add_drain_group_def b38_SWAP_STATE_C_def)

definition vmscan_tasks_rcu_qs_group :: group where
  \<open>vmscan_tasks_rcu_qs_group =
    \<lparr>key = ''vmscan_tasks_rcu_qs'',
     summary = ''shrink_lruvec()\'s scan loop reports Tasks-RCU quiescent states instead of a bare cond_resched(), so a task in long reclaim stops being an rcu_tasks holdout (the target runs CONFIG_TASKS_RCU=y, so the classic holdout clear is compiled in); no speedup claimed for the device because none was measured'',
     commits = [''25f52e812168 (v7.2)'',
      ''4cdc1bdf4094 (5.15.y backport, 2026-09-14) -- the grafted form''],
     group_files = [b38_VMSCAN_C],
     apply_fn = b38_vmscan_tasks_rcu_qs_apply, hard = False\<rparr>\<close>

lemma vmscan_tasks_rcu_qs_group_declared [simp]: "well_declared vmscan_tasks_rcu_qs_group"
  by (rule well_declaredI [OF b38_vmscan_tasks_rcu_qs_apply_txn]) (simp_all add: is_backup_code BACKUP_SUFFIX_def vmscan_tasks_rcu_qs_group_def b38_VMSCAN_C_def)

definition filemap_mmap_miss_tried_group :: group where
  \<open>filemap_mmap_miss_tried_group =
    \<lparr>key = ''filemap_mmap_miss_tried'',
     summary = ''filemap_map_pages() stops counting a FAULT_FLAG_TRIED retry as an mmap hit, so the mmap_miss counter no longer undershoots its increment side and read-around stays disabled for genuinely random mmap access under memory pressure'',
     commits = [''9b0fcac3cfe7 (v7.2, 1/2; 0b9c0aeba938 deliberately not grafted)''],
     group_files = [b38_FILEMAP_C],
     apply_fn = b38_filemap_mmap_miss_tried_apply, hard = False\<rparr>\<close>

lemma filemap_mmap_miss_tried_group_declared [simp]: "well_declared filemap_mmap_miss_tried_group"
  by (rule well_declaredI [OF b38_filemap_mmap_miss_tried_apply_txn]) (simp_all add: is_backup_code BACKUP_SUFFIX_def filemap_mmap_miss_tried_group_def b38_FILEMAP_C_def)

definition memcg_dying_bailout_group :: group where
  \<open>memcg_dying_bailout_group =
    \<lparr>key = ''memcg_dying_bailout'',
     summary = ''memory.high / memory.max / memory.reclaim / memcg-v1 limit and force_empty writers stop reclaiming once the memcg is dying, so cgroup_rmdir() is no longer kept waiting in kernfs_drain() with cgroup_mutex held (upstream: 159 s cgdelete, 182 s hang for an unrelated cgroup reader)'',
     commits = [''0beeaf14e7b9 (v7.2, memory.high)'',
      ''e13f634f50d5 (v7.2, memory.max)'',
      ''757dd8193f6c (v7.2, proactive reclaim)'',
      ''10228e0a5123 (v7.2, memcg v1)''],
     group_files = [b38_MEMCONTROL_H,
      b38_MEMCONTROL_C],
     apply_fn = b38_memcg_dying_bailout_apply, hard = False\<rparr>\<close>

lemma memcg_dying_bailout_group_declared [simp]: "well_declared memcg_dying_bailout_group"
  by (rule well_declaredI [OF b38_memcg_dying_bailout_apply_txn]) (simp_all add: is_backup_code BACKUP_SUFFIX_def memcg_dying_bailout_group_def b38_MEMCONTROL_C_def b38_MEMCONTROL_H_def)

definition buddyinfo_nolock_group :: group where
  \<open>buddyinfo_nolock_group =
    \<lparr>key = ''buddyinfo_nolock'',
     summary = ''reading /proc/buddyinfo no longer takes every zone\'s spin_lock_irqsave: frag_show_print() only reads zone->free_area[order].nr_free, and lmkd/dumpsys plus vendor fragmentation monitors poll that file exactly while the allocator is contended'',
     commits = [''aaa98b100ea8 (v7.2)''],
     group_files = [b38_VMSTAT_C],
     apply_fn = b38_buddyinfo_nolock_apply, hard = False\<rparr>\<close>

lemma buddyinfo_nolock_group_declared [simp]: "well_declared buddyinfo_nolock_group"
  by (rule well_declaredI [OF b38_buddyinfo_nolock_apply_txn]) (simp_all add: is_backup_code BACKUP_SUFFIX_def buddyinfo_nolock_group_def b38_VMSTAT_C_def)

definition b38_build_groups :: "group list" where
  \<open>b38_build_groups = [huge_memory_imap_split_uaf_group, swap_readahead_lru_add_drain_group, vmscan_tasks_rcu_qs_group, filemap_mmap_miss_tried_group, memcg_dying_bailout_group, buddyinfo_nolock_group]\<close>

end
