(* ===== verification/Batch40_Erofs_Readahead.thy ===== *)
theory Batch40_Erofs_Readahead
  imports Registry_Laws
begin

text \<open>
  The anchors, steps and groups of \<^verbatim>\<open>scripts/batch40_core_erofs_readahead.py\<close>, in source order.
\<close>

definition b40_COMPRESS_H :: str where
  \<open>b40_COMPRESS_H = ''fs/erofs/compress.h''\<close>

definition b40_DECOMPRESSOR_C :: str where
  \<open>b40_DECOMPRESSOR_C = ''fs/erofs/decompressor.c''\<close>

definition b40_DECOMPRESSOR_LZMA_C :: str where
  \<open>b40_DECOMPRESSOR_LZMA_C = ''fs/erofs/decompressor_lzma.c''\<close>

definition b40_ZDATA_C :: str where
  \<open>b40_ZDATA_C = ''fs/erofs/zdata.c''\<close>

definition b40_ZDATA_H :: str where
  \<open>b40_ZDATA_H = ''fs/erofs/zdata.h''\<close>

definition b40_REQ_STRUCT_OLD :: str where
  \<open>b40_REQ_STRUCT_OLD = block
     [''	/* indicate the algorithm will be used for decompression */'',
      ''	unsigned int alg;'',
      ''	bool inplace_io, partial_decoding;'',
      ''};'',
      []]\<close>

definition b40_REQ_STRUCT_NEW :: str where
  \<open>b40_REQ_STRUCT_NEW = block
     [''	/* indicate the algorithm will be used for decompression */'',
      ''	unsigned int alg;'',
      ''	bool inplace_io, partial_decoding;'',
      [],
      ''	/* allocation flags for extra temporary buffers */'',
      ''	gfp_t gfp;'',
      ''};'',
      []]\<close>

definition b40_LZ4_ALLOC_OLD :: str where
  \<open>b40_LZ4_ALLOC_OLD = block
     [''			victim = erofs_allocpage(pagepool,'',
      ''						 GFP_KERNEL | __GFP_NOFAIL);'',
      ''			set_page_private(victim, Z_EROFS_SHORTLIVED_PAGE);'',
      []]\<close>

definition b40_LZ4_ALLOC_NEW :: str where
  \<open>b40_LZ4_ALLOC_NEW = block
     [''			victim = erofs_allocpage(pagepool, rq->gfp);'',
      ''			if (!victim)'',
      ''				return -ENOMEM;'',
      ''			set_page_private(victim, Z_EROFS_SHORTLIVED_PAGE);'',
      []]\<close>

definition b40_LZMA_ALLOC_OLD :: str where
  \<open>b40_LZMA_ALLOC_OLD = block
     [''			tmppage = erofs_allocpage(pagepool,'',
      ''						  GFP_KERNEL | __GFP_NOFAIL);'',
      ''			set_page_private(tmppage, Z_EROFS_SHORTLIVED_PAGE);'',
      ''			copy_highpage(tmppage, rq->in[j]);'',
      ''			rq->in[j] = tmppage;'',
      []]\<close>

definition b40_LZMA_ALLOC_NEW :: str where
  \<open>b40_LZMA_ALLOC_NEW = block
     [''			tmppage = erofs_allocpage(pagepool, rq->gfp);'',
      ''			if (!tmppage) {'',
      ''				err = -ENOMEM;'',
      ''				goto failed;'',
      ''			}'',
      ''			set_page_private(tmppage, Z_EROFS_SHORTLIVED_PAGE);'',
      ''			copy_highpage(tmppage, rq->in[j]);'',
      ''			rq->in[j] = tmppage;'',
      []]\<close>

definition b40_LZMA_LABEL_OLD :: str where
  \<open>b40_LZMA_LABEL_OLD = block
     [''	}'',
      ''	if (no < nrpages_out && strm->buf.out)'',
      []]\<close>

definition b40_LZMA_LABEL_NEW :: str where
  \<open>b40_LZMA_LABEL_NEW = block
     [''	}'',
      ''failed:'',
      ''	if (no < nrpages_out && strm->buf.out)'',
      []]\<close>

definition b40_PCLUSTER_OLD :: str where
  \<open>b40_PCLUSTER_OLD = block
     [''	/* I: compression algorithm format */'',
      ''	unsigned char algorithmformat;'',
      []]\<close>

definition b40_PCLUSTER_NEW :: str where
  \<open>b40_PCLUSTER_NEW = block
     [''	/* I: compression algorithm format */'',
      ''	unsigned char algorithmformat;'',
      [],
      ''	/* L: whether extra buffer allocations are best-effort */'',
      ''	bool besteffort;'',
      []]\<close>

definition b40_SET_MODE_OLD :: str where
  \<open>b40_SET_MODE_OLD = block
     [''	err = z_erofs_collector_begin(clt, inode, map);'',
      ''	if (err)'',
      ''		goto err_out;'',
      []]\<close>

definition b40_SET_MODE_NEW :: str where
  \<open>b40_SET_MODE_NEW = block
     [''	err = z_erofs_collector_begin(clt, inode, map);'',
      ''	if (err)'',
      ''		goto err_out;'',
      ''	clt->pcl->besteffort |= !fe->readahead;'',
      []]\<close>

definition b40_REQ_INIT_OLD :: str where
  \<open>b40_REQ_INIT_OLD = block
     [''					.partial_decoding = partial'',
      ''				 }, pagepool);'',
      []]\<close>

definition b40_REQ_INIT_NEW :: str where
  \<open>b40_REQ_INIT_NEW = block
     [''					.partial_decoding = partial,'',
      ''					.gfp = pcl->besteffort ?'',
      ''						GFP_KERNEL | __GFP_NOFAIL :'',
      ''						GFP_NOWAIT | __GFP_NORETRY'',
      ''				 }, pagepool);'',
      []]\<close>

definition b40_RESET_OLD :: str where
  \<open>b40_RESET_OLD = block
     [''	cl->nr_pages = 0;'',
      ''	cl->vcnt = 0;'',
      []]\<close>

definition b40_RESET_NEW :: str where
  \<open>b40_RESET_NEW = block
     [''	cl->nr_pages = 0;'',
      ''	cl->vcnt = 0;'',
      ''	pcl->besteffort = false;'',
      []]\<close>

definition b40_REQ_GFP_FIELD :: str where
  \<open>b40_REQ_GFP_FIELD = ''	gfp_t gfp;''\<close>

definition b40_PCLUSTER_BESTEFFORT :: str where
  \<open>b40_PCLUSTER_BESTEFFORT = ''	bool besteffort;''\<close>

definition b40_SET_MODE_LINE :: str where
  \<open>b40_SET_MODE_LINE = ''	clt->pcl->besteffort |= !fe->readahead;''\<close>

definition b40_REQ_GFP_INIT :: str where
  \<open>b40_REQ_GFP_INIT = ''					.gfp = pcl->besteffort ?''\<close>

definition b40_RESET_LINE :: str where
  \<open>b40_RESET_LINE = ''	pcl->besteffort = false;''\<close>

definition b40_UPSTREAM_ONLY_MARKER :: str where
  \<open>b40_UPSTREAM_ONLY_MARKER = ''fillgaps''\<close>

definition b40_build_steps_step1 :: step where
  \<open>b40_build_steps_step1 =
   (b40_COMPRESS_H,
    b40_REQ_STRUCT_OLD,
    b40_REQ_STRUCT_NEW, True)\<close>

definition b40_build_steps_step2 :: step where
  \<open>b40_build_steps_step2 =
   (b40_DECOMPRESSOR_C,
    b40_LZ4_ALLOC_OLD,
    b40_LZ4_ALLOC_NEW, True)\<close>

definition b40_build_steps_step3 :: step where
  \<open>b40_build_steps_step3 =
   (b40_DECOMPRESSOR_LZMA_C,
    b40_LZMA_ALLOC_OLD,
    b40_LZMA_ALLOC_NEW, True)\<close>

definition b40_build_steps_step4 :: step where
  \<open>b40_build_steps_step4 =
   (b40_DECOMPRESSOR_LZMA_C,
    b40_LZMA_LABEL_OLD,
    b40_LZMA_LABEL_NEW, True)\<close>

definition b40_build_steps_step5 :: step where
  \<open>b40_build_steps_step5 =
   (b40_ZDATA_H,
    b40_PCLUSTER_OLD,
    b40_PCLUSTER_NEW, True)\<close>

definition b40_build_steps_step6 :: step where
  \<open>b40_build_steps_step6 =
   (b40_ZDATA_C,
    b40_SET_MODE_OLD,
    b40_SET_MODE_NEW, True)\<close>

definition b40_build_steps_step7 :: step where
  \<open>b40_build_steps_step7 =
   (b40_ZDATA_C,
    b40_REQ_INIT_OLD,
    b40_REQ_INIT_NEW, True)\<close>

definition b40_build_steps_step8 :: step where
  \<open>b40_build_steps_step8 =
   (b40_ZDATA_C,
    b40_RESET_OLD,
    b40_RESET_NEW, True)\<close>

definition b40_build_steps :: "step list" where
  \<open>b40_build_steps = [b40_build_steps_step1, b40_build_steps_step2, b40_build_steps_step3, b40_build_steps_step4, b40_build_steps_step5, b40_build_steps_step6, b40_build_steps_step7, b40_build_steps_step8]\<close>

lemma b40_build_steps_files: "steps_files b40_build_steps = {b40_COMPRESS_H, b40_DECOMPRESSOR_C, b40_DECOMPRESSOR_LZMA_C, b40_ZDATA_H, b40_ZDATA_C}"
  by (simp add: b40_build_steps_def steps_files_fst insert_commute
      step_file [OF b40_build_steps_step1_def]
      step_file [OF b40_build_steps_step2_def]
      step_file [OF b40_build_steps_step3_def]
      step_file [OF b40_build_steps_step4_def]
      step_file [OF b40_build_steps_step5_def]
      step_file [OF b40_build_steps_step6_def]
      step_file [OF b40_build_steps_step7_def]
      step_file [OF b40_build_steps_step8_def])

lemma b40_build_steps_required: "all_required b40_build_steps"
  by (simp add: b40_build_steps_def all_required_def
      step_req [OF b40_build_steps_step1_def]
      step_req [OF b40_build_steps_step2_def]
      step_req [OF b40_build_steps_step3_def]
      step_req [OF b40_build_steps_step4_def]
      step_req [OF b40_build_steps_step5_def]
      step_req [OF b40_build_steps_step6_def]
      step_req [OF b40_build_steps_step7_def]
      step_req [OF b40_build_steps_step8_def])

definition b40_erofs_readahead_relaxed_gfp_apply :: "outcome io" where
  \<open>b40_erofs_readahead_relaxed_gfp_apply =
    io_try is_fnf (ctx_read b40_COMPRESS_H)
      (\<lambda>e. io_ret (BlockedByShape, b40_COMPRESS_H @
      '': file absent''))
      (\<lambda>text.
    if contains b40_REQ_GFP_FIELD text \<and> contains b40_PCLUSTER_BESTEFFORT text
    then io_ret (AlreadyPresent, ''gfp field and pcluster bit both present'')
    else
    if contains b40_UPSTREAM_ONLY_MARKER text
    then io_ret (BlockedByShape, ''post-v6.9 request struct (fillgaps present) without the group\'s own edit: unexpected shape, not grafted'')
    else
    apply_or_block b40_build_steps)\<close>

lemma b40_erofs_readahead_relaxed_gfp_apply_txn: "transactional (\<lambda>_. {b40_COMPRESS_H, b40_DECOMPRESSOR_C, b40_DECOMPRESSOR_LZMA_C, b40_ZDATA_H, b40_ZDATA_C}) b40_erofs_readahead_relaxed_gfp_apply"
  unfolding b40_erofs_readahead_relaxed_gfp_apply_def
  by (intro txn_intros safe_intros)
    (simp_all add: is_backup_code BACKUP_SUFFIX_def b40_build_steps_files b40_COMPRESS_H_def b40_DECOMPRESSOR_C_def b40_DECOMPRESSOR_LZMA_C_def b40_ZDATA_C_def b40_ZDATA_H_def)

definition erofs_readahead_relaxed_gfp_group :: group where
  \<open>erofs_readahead_relaxed_gfp_group =
    \<lparr>key = ''erofs_readahead_relaxed_gfp'',
     summary = ''erofs decompression asks for its temporary bounce pages with GFP_NOWAIT|__GFP_NORETRY on the readahead path and keeps GFP_KERNEL|__GFP_NOFAIL for synchronous reads, instead of making every readahead shot wait in direct reclaim for a page it can live without'',
     commits = [''d9281660ff3f (mainline v6.9, \'erofs: relaxed temporary buffers allocation on readahead\')''],
     group_files = [b40_COMPRESS_H,
      b40_DECOMPRESSOR_C,
      b40_DECOMPRESSOR_LZMA_C,
      b40_ZDATA_C,
      b40_ZDATA_H],
     apply_fn = b40_erofs_readahead_relaxed_gfp_apply, hard = False\<rparr>\<close>

lemma erofs_readahead_relaxed_gfp_group_declared [simp]: "well_declared erofs_readahead_relaxed_gfp_group"
  by (rule well_declaredI [OF b40_erofs_readahead_relaxed_gfp_apply_txn]) (simp_all add: is_backup_code BACKUP_SUFFIX_def erofs_readahead_relaxed_gfp_group_def b40_COMPRESS_H_def b40_DECOMPRESSOR_C_def b40_DECOMPRESSOR_LZMA_C_def b40_ZDATA_C_def b40_ZDATA_H_def)

definition b40_build_groups :: "group list" where
  \<open>b40_build_groups = [erofs_readahead_relaxed_gfp_group]\<close>

end
