(* ===== verification/Batch49_Mglru_Reclaim.thy ===== *)
theory Batch49_Mglru_Reclaim
  imports Registry_Laws
begin

text \<open>
  The anchors, steps and groups of \<^verbatim>\<open>scripts/batch49_core_mglru_reclaim_loop.py\<close>, in source order.
\<close>

definition b49_VMSCAN_C :: str where
  \<open>b49_VMSCAN_C = ''mm/vmscan.c''\<close>

definition b49_SWAP_C :: str where
  \<open>b49_SWAP_C = ''mm/swap.c''\<close>

definition b49_WORKINGSET_C :: str where
  \<open>b49_WORKINGSET_C = ''mm/workingset.c''\<close>

definition b49_MM_INLINE_H :: str where
  \<open>b49_MM_INLINE_H = ''include/linux/mm_inline.h''\<close>

definition b49_LOOP_PROBE :: str where
  \<open>b49_LOOP_PROBE = ''static unsigned long lruvec_evictable_size(struct lruvec *lruvec, int swappiness)''\<close>

definition b49_DIRTY_PROBE :: str where
  \<open>b49_DIRTY_PROBE = ''if (stat.nr_unqueued_dirty == isolated) {''\<close>

definition b49_PLACEMENT_PROBE :: str where
  \<open>b49_PLACEMENT_PROBE = ''sailboat_mglru_prefault_accessed_placement''\<close>

definition b49_LOOP_STEPS_step1 :: step where
  \<open>b49_LOOP_STEPS_step1 =
   (b49_VMSCAN_C,
    block
     [''static bool should_run_aging(struct lruvec *lruvec, unsigned long max_seq, unsigned long *min_seq,'',
      ''			     struct scan_control *sc, int swappiness, unsigned long *nr_to_scan)'',
      ''{'',
      ''	int gen, type, zone;'',
      ''	unsigned long size = 0;'',
      ''	struct lru_gen_struct *lrugen = &lruvec->lrugen;'',
      ''	struct mem_cgroup *memcg = lruvec_memcg(lruvec);'',
      [],
      ''	*nr_to_scan = 0;'',
      ''	/* have to run aging, since eviction is not possible anymore */'',
      ''	if (evictable_min_seq(min_seq, swappiness) + MIN_NR_GENS > max_seq)'',
      ''		return true;'',
      [],
      ''	for_each_evictable_type(type, swappiness) {'',
      ''		unsigned long seq;'',
      [],
      ''		for (seq = min_seq[type]; seq <= max_seq; seq++) {'',
      ''			gen = lru_gen_from_seq(seq);'',
      [],
      ''			for (zone = 0; zone < MAX_NR_ZONES; zone++)'',
      ''				size += max_t(long, READ_ONCE(lrugen->nr_pages[gen][type][zone]),'',
      ''						0);'',
      ''		}'',
      ''	}'',
      [],
      ''	/* try to scrape all its memory if this memcg was deleted */'',
      ''	*nr_to_scan = mem_cgroup_online(memcg) ? (size >> sc->priority) : size;'',
      [],
      ''	/* better to run aging even though eviction is still possible */'',
      ''	return evictable_min_seq(min_seq, swappiness) + MIN_NR_GENS == max_seq;'',
      ''}'',
      []],
    block
     [''/* sailboat_mglru_reclaim_loop_rework: v7.2 163bc3d68c9f -- the evictable'',
      '' * size walk moves out of should_run_aging() into upstream\'s own'',
      '' * lruvec_evictable_size() helper shape. */'',
      ''static unsigned long lruvec_evictable_size(struct lruvec *lruvec, int swappiness)'',
      ''{'',
      ''	int gen, type, zone;'',
      ''	unsigned long seq, total = 0;'',
      ''	struct lru_gen_struct *lrugen = &lruvec->lrugen;'',
      ''	DEFINE_MAX_SEQ(lruvec);'',
      ''	DEFINE_MIN_SEQ(lruvec);'',
      [],
      ''	for_each_evictable_type(type, swappiness) {'',
      ''		for (seq = min_seq[type]; seq <= max_seq; seq++) {'',
      ''			gen = lru_gen_from_seq(seq);'',
      [],
      ''			for (zone = 0; zone < MAX_NR_ZONES; zone++)'',
      ''				total += max_t(long, READ_ONCE(lrugen->nr_pages[gen][type][zone]),'',
      ''						0);'',
      ''		}'',
      ''	}'',
      [],
      ''	return total;'',
      ''}'',
      [],
      ''/* sailboat_mglru_reclaim_loop_rework: v7.2 163bc3d68c9f -- 4-arg pure'',
      '' * predicate; the nr_to_scan computation moves to get_nr_to_scan(). */'',
      ''static bool should_run_aging(struct lruvec *lruvec, unsigned long max_seq,'',
      ''			     struct scan_control *sc, int swappiness)'',
      ''{'',
      ''	DEFINE_MIN_SEQ(lruvec);'',
      [],
      ''	/* have to run aging, since eviction is not possible anymore */'',
      ''	if (evictable_min_seq(min_seq, swappiness) + MIN_NR_GENS > max_seq)'',
      ''		return true;'',
      [],
      ''	/* try to avoid aging, do gentle reclaim at the default priority */'',
      ''	if (sc->priority == DEF_PRIORITY)'',
      ''		return false;'',
      [],
      ''	/* better to run aging even though eviction is still possible */'',
      ''	return evictable_min_seq(min_seq, swappiness) + MIN_NR_GENS == max_seq;'',
      ''}'',
      []], True)\<close>

definition b49_LOOP_STEPS_step2 :: step where
  \<open>b49_LOOP_STEPS_step2 =
   (b49_VMSCAN_C,
    block
     [''static bool age_lruvec(struct lruvec *lruvec, struct scan_control *sc, unsigned long min_ttl)'',
      ''{'',
      ''	bool need_aging;'',
      ''	unsigned long nr_to_scan;'',
      ''	int swappiness = get_swappiness(lruvec, sc);'',
      ''	struct mem_cgroup *memcg = lruvec_memcg(lruvec);'',
      ''	DEFINE_MAX_SEQ(lruvec);'',
      ''	DEFINE_MIN_SEQ(lruvec);'',
      [],
      ''	VM_WARN_ON_ONCE(sc->memcg_low_reclaim);'',
      [],
      ''	mem_cgroup_calculate_protection(NULL, memcg);'',
      [],
      ''	if (mem_cgroup_below_min(memcg))'',
      ''		return false;'',
      [],
      ''	need_aging = should_run_aging(lruvec, max_seq, min_seq, sc, swappiness, &nr_to_scan);'',
      [],
      ''	if (min_ttl) {'',
      ''		int gen = lru_gen_from_seq(evictable_min_seq(min_seq, swappiness));'',
      ''		unsigned long birth = READ_ONCE(lruvec->lrugen.timestamps[gen]);'',
      [],
      ''		if (time_is_after_jiffies(birth + min_ttl))'',
      ''			return false;'',
      [],
      ''		/* the size is likely too small to be helpful */'',
      ''		if (!nr_to_scan && sc->priority != DEF_PRIORITY)'',
      ''			return false;'',
      ''	}'',
      []],
    block
     [''static bool age_lruvec(struct lruvec *lruvec, struct scan_control *sc, unsigned long min_ttl)'',
      ''{'',
      ''	bool need_aging;'',
      ''	unsigned long evictable;'',
      ''	int swappiness = get_swappiness(lruvec, sc);'',
      ''	struct mem_cgroup *memcg = lruvec_memcg(lruvec);'',
      ''	DEFINE_MAX_SEQ(lruvec);'',
      ''	DEFINE_MIN_SEQ(lruvec);'',
      [],
      ''	VM_WARN_ON_ONCE(sc->memcg_low_reclaim);'',
      [],
      ''	mem_cgroup_calculate_protection(NULL, memcg);'',
      [],
      ''	if (mem_cgroup_below_min(memcg))'',
      ''		return false;'',
      [],
      ''	need_aging = should_run_aging(lruvec, max_seq, sc, swappiness);'',
      [],
      ''	/* the exact value should_run_aging() used to report as nr_to_scan */'',
      ''	evictable = lruvec_evictable_size(lruvec, swappiness);'',
      ''	if (mem_cgroup_online(memcg))'',
      ''		evictable >>= sc->priority;'',
      [],
      ''	if (min_ttl) {'',
      ''		int gen = lru_gen_from_seq(evictable_min_seq(min_seq, swappiness));'',
      ''		unsigned long birth = READ_ONCE(lruvec->lrugen.timestamps[gen]);'',
      [],
      ''		if (time_is_after_jiffies(birth + min_ttl))'',
      ''			return false;'',
      [],
      ''		/* the size is likely too small to be helpful */'',
      ''		if (!evictable && sc->priority != DEF_PRIORITY)'',
      ''			return false;'',
      ''	}'',
      []], True)\<close>

definition b49_LOOP_STEPS_step3 :: step where
  \<open>b49_LOOP_STEPS_step3 =
   (b49_VMSCAN_C,
    block
     [''static bool try_to_inc_min_seq(struct lruvec *lruvec, int swappiness)'',
      ''{'',
      ''	int gen, type, zone;'',
      ''	bool success = false;'',
      ''	struct lru_gen_struct *lrugen = &lruvec->lrugen;'',
      []],
    block
     [''static void try_to_inc_min_seq(struct lruvec *lruvec, int swappiness)'',
      ''{'',
      ''	int gen, type, zone;'',
      ''	struct lru_gen_struct *lrugen = &lruvec->lrugen;'',
      []], True)\<close>

definition b49_LOOP_STEPS_step4 :: step where
  \<open>b49_LOOP_STEPS_step4 =
   (b49_VMSCAN_C,
    block
     [''		reset_ctrl_pos(lruvec, type, true);'',
      ''		WRITE_ONCE(lrugen->min_seq[type], min_seq[type]);'',
      ''		success = true;'',
      ''	}'',
      [],
      ''	return success;'',
      ''}'',
      []],
    block
     [''		reset_ctrl_pos(lruvec, type, true);'',
      ''		WRITE_ONCE(lrugen->min_seq[type], min_seq[type]);'',
      ''	}'',
      ''}'',
      []], True)\<close>

definition b49_LOOP_STEPS_step5 :: step where
  \<open>b49_LOOP_STEPS_step5 =
   (b49_VMSCAN_C,
    block
     [''static int scan_pages(struct lruvec *lruvec, struct scan_control *sc,'',
      ''		      int type, int tier, struct list_head *list)'',
      ''{'',
      ''	int i;'',
      ''	int gen;'',
      ''	enum vm_event_item item;'',
      ''	int sorted = 0;'',
      ''	int scanned = 0;'',
      ''	int isolated = 0;'',
      ''	int remaining = MAX_LRU_BATCH;'',
      ''	struct lru_gen_struct *lrugen = &lruvec->lrugen;'',
      ''	struct mem_cgroup *memcg = lruvec_memcg(lruvec);'',
      [],
      ''	VM_WARN_ON_ONCE(!list_empty(list));'',
      []],
    block
     [''static int scan_pages(struct lruvec *lruvec, struct scan_control *sc,'',
      ''		      int type, int tier, unsigned long nr_to_scan,'',
      ''		      struct list_head *list, int *isolatedp)'',
      ''{'',
      ''	int i;'',
      ''	int gen;'',
      ''	enum vm_event_item item;'',
      ''	int sorted = 0;'',
      ''	int scanned = 0;'',
      ''	int isolated = 0;'',
      ''	unsigned long remaining = nr_to_scan;'',
      ''	struct lru_gen_struct *lrugen = &lruvec->lrugen;'',
      ''	struct mem_cgroup *memcg = lruvec_memcg(lruvec);'',
      [],
      ''	VM_WARN_ON_ONCE(nr_to_scan > MAX_LRU_BATCH);'',
      ''	VM_WARN_ON_ONCE(!list_empty(list));'',
      []], True)\<close>

definition b49_LOOP_STEPS_step6 :: step where
  \<open>b49_LOOP_STEPS_step6 =
   (b49_VMSCAN_C,
    block
     [''	/*'',
      ''	 * There might not be eligible pages due to reclaim_idx, may_unmap and'',
      ''	 * may_writepage. Check the remaining to prevent livelock if it\'s not'',
      ''	 * making progress.'',
      ''	 */'',
      ''	return isolated || !remaining ? scanned : 0;'',
      ''}'',
      []],
    block
     [''	*isolatedp = isolated;'',
      ''	return scanned;'',
      ''}'',
      []], True)\<close>

definition b49_LOOP_STEPS_step7 :: step where
  \<open>b49_LOOP_STEPS_step7 =
   (b49_VMSCAN_C,
    block
     [''static int isolate_pages(struct lruvec *lruvec, struct scan_control *sc, int swappiness,'',
      ''			 int *type_scanned, struct list_head *list)'',
      ''{'',
      ''	int i;'',
      ''	int type = get_type_to_scan(lruvec, swappiness);'',
      [],
      ''	for_each_evictable_type(i, swappiness) {'',
      ''		int scanned;'',
      ''		int tier = get_tier_idx(lruvec, type);'',
      [],
      ''		*type_scanned = type;'',
      [],
      ''		scanned = scan_pages(lruvec, sc, type, tier, list);'',
      ''		if (scanned)'',
      ''			return scanned;'',
      [],
      ''		type = !type;'',
      ''	}'',
      [],
      ''	return 0;'',
      ''}'',
      []],
    block
     [''/* sailboat_mglru_reclaim_loop_rework: v7.2 3a72e078b4a3 + 16b475d2ac3c --'',
      '' * exact isolation accounting across evictable types; no type fallback'',
      '' * when the type scanned but isolated nothing. */'',
      ''static int isolate_pages(struct lruvec *lruvec, struct scan_control *sc, int swappiness,'',
      ''			 unsigned long nr_to_scan, struct list_head *list,'',
      ''			 int *isolated, int *isolate_type)'',
      ''{'',
      ''	int i;'',
      ''	int total_scanned = 0;'',
      ''	int type = get_type_to_scan(lruvec, swappiness);'',
      [],
      ''	for_each_evictable_type(i, swappiness) {'',
      ''		int scanned;'',
      ''		int tier = get_tier_idx(lruvec, type);'',
      [],
      ''		scanned = scan_pages(lruvec, sc, type, tier, nr_to_scan, list, isolated);'',
      [],
      ''		total_scanned += scanned;'',
      ''		if (*isolated) {'',
      ''			*isolate_type = type;'',
      ''			break;'',
      ''		}'',
      ''		/*'',
      ''		 * If scanned > 0 and isolated == 0, avoid falling back to the'',
      ''		 * other type, as this type remains sufficient. Falling back'',
      ''		 * too readily can disrupt the positive_ctrl_err() bias.'',
      ''		 */'',
      ''		if (!scanned)'',
      ''			type = !type;'',
      ''	}'',
      [],
      ''	return total_scanned;'',
      ''}'',
      []], True)\<close>

definition b49_LOOP_STEPS_step8 :: step where
  \<open>b49_LOOP_STEPS_step8 =
   (b49_VMSCAN_C,
    block
     [''static int evict_pages(struct lruvec *lruvec, struct scan_control *sc, int swappiness,'',
      ''		       bool *need_swapping)'',
      ''{'',
      ''	int type;'',
      ''	int scanned;'',
      ''	int reclaimed;'',
      ''	LIST_HEAD(list);'',
      ''	LIST_HEAD(clean);'',
      ''	struct page *page;'',
      ''	struct page *next;'',
      ''	enum vm_event_item item;'',
      ''	struct reclaim_stat stat;'',
      ''	struct lru_gen_mm_walk *walk;'',
      ''	bool skip_retry = false;'',
      ''	struct lru_gen_struct *lrugen = &lruvec->lrugen;'',
      ''	struct mem_cgroup *memcg = lruvec_memcg(lruvec);'',
      ''	struct pglist_data *pgdat = lruvec_pgdat(lruvec);'',
      [],
      ''	spin_lock_irq(&lruvec->lru_lock);'',
      [],
      ''	scanned = isolate_pages(lruvec, sc, swappiness, &type, &list);'',
      [],
      ''	scanned += try_to_inc_min_seq(lruvec, swappiness);'',
      [],
      ''	if (evictable_min_seq(lrugen->min_seq, swappiness) + MIN_NR_GENS > lrugen->max_seq)'',
      ''		scanned = 0;'',
      [],
      ''	spin_unlock_irq(&lruvec->lru_lock);'',
      [],
      ''	if (list_empty(&list))'',
      ''		return scanned;'',
      []],
    block
     [''static int evict_pages(struct lruvec *lruvec, struct scan_control *sc, int swappiness,'',
      ''		       unsigned long nr_to_scan, bool *need_swapping)'',
      ''{'',
      ''	int scanned, reclaimed;'',
      ''	int isolated = 0, type = 0;'',
      ''	LIST_HEAD(list);'',
      ''	LIST_HEAD(clean);'',
      ''	struct page *page;'',
      ''	struct page *next;'',
      ''	enum vm_event_item item;'',
      ''	struct reclaim_stat stat;'',
      ''	struct lru_gen_mm_walk *walk;'',
      ''	bool skip_retry = false;'',
      ''	struct mem_cgroup *memcg = lruvec_memcg(lruvec);'',
      ''	struct pglist_data *pgdat = lruvec_pgdat(lruvec);'',
      [],
      ''	spin_lock_irq(&lruvec->lru_lock);'',
      [],
      ''	/* In case page deletion left empty old gens, flush them */'',
      ''	try_to_inc_min_seq(lruvec, swappiness);'',
      [],
      ''	scanned = isolate_pages(lruvec, sc, swappiness, nr_to_scan, &list,'',
      ''				&isolated, &type);'',
      [],
      ''	/* Scanning may have emptied the oldest gen, flush it */'',
      ''	if (scanned)'',
      ''		try_to_inc_min_seq(lruvec, swappiness);'',
      [],
      ''	spin_unlock_irq(&lruvec->lru_lock);'',
      [],
      ''	if (list_empty(&list))'',
      ''		return scanned;'',
      []], True)\<close>

definition b49_LOOP_STEPS_step9 :: step where
  \<open>b49_LOOP_STEPS_step9 =
   (b49_VMSCAN_C,
    block
     [''static int run_eviction(struct lruvec *lruvec, unsigned long seq, struct scan_control *sc,'',
      ''			int swappiness, unsigned long nr_to_reclaim)'',
      ''{'',
      ''	DEFINE_MAX_SEQ(lruvec);'',
      []],
    block
     [''static int run_eviction(struct lruvec *lruvec, unsigned long seq, struct scan_control *sc,'',
      ''			int swappiness, unsigned long nr_to_reclaim)'',
      ''{'',
      ''	int nr_batch;'',
      ''	DEFINE_MAX_SEQ(lruvec);'',
      []], True)\<close>

definition b49_LOOP_STEPS_step10 :: step where
  \<open>b49_LOOP_STEPS_step10 =
   (b49_VMSCAN_C,
    block
     [''		if (!evict_pages(lruvec, sc, swappiness, NULL))'',
      ''			return 0;'',
      []],
    block
     [''		nr_batch = min_t(unsigned long, nr_to_reclaim - sc->nr_reclaimed,'',
      ''				 MAX_LRU_BATCH);'',
      ''		if (!evict_pages(lruvec, sc, swappiness, nr_batch, NULL))'',
      ''			return 0;'',
      []], True)\<close>

definition b49_LOOP_STEPS_step11 :: step where
  \<open>b49_LOOP_STEPS_step11 =
   (b49_VMSCAN_C,
    block
     [''static unsigned long get_nr_to_scan(struct lruvec *lruvec, struct scan_control *sc,'',
      ''				    int swappiness, bool *need_aging)'',
      ''{'',
      ''	unsigned long nr_to_scan;'',
      ''	struct mem_cgroup *memcg = lruvec_memcg(lruvec);'',
      ''	DEFINE_MAX_SEQ(lruvec);'',
      ''	DEFINE_MIN_SEQ(lruvec);'',
      [],
      ''	if (mem_cgroup_below_min(memcg) ||'',
      ''	    (mem_cgroup_below_low(memcg) && !sc->memcg_low_reclaim))'',
      ''		return 0;'',
      [],
      ''	*need_aging = should_run_aging(lruvec, max_seq, min_seq, sc, swappiness, &nr_to_scan);'',
      ''	if (!*need_aging)'',
      ''		return nr_to_scan;'',
      [],
      ''	/* skip the aging path at the default priority */'',
      ''	if (sc->priority == DEF_PRIORITY)'',
      ''		goto done;'',
      [],
      ''	/* leave the work to lru_gen_age_node() */'',
      ''	if (current_is_kswapd())'',
      ''		return 0;'',
      [],
      ''	if (try_to_inc_max_seq(lruvec, max_seq, sc, swappiness, false))'',
      ''		return nr_to_scan;'',
      ''done:'',
      ''	return evictable_min_seq(min_seq, swappiness) + MIN_NR_GENS <= max_seq ?'',
      ''		nr_to_scan : 0;'',
      ''}'',
      []],
    block
     [''/* sailboat_mglru_reclaim_loop_rework: v7.2 163bc3d68c9f -- budget only;'',
      '' * the aging decision moved into the loop.  This baseline has no'',
      '' * apply_proportional_protection(); the below-min/below-low gate is its'',
      '' * proportional protection. */'',
      ''static unsigned long get_nr_to_scan(struct lruvec *lruvec, struct scan_control *sc,'',
      ''				    struct mem_cgroup *memcg, int swappiness)'',
      ''{'',
      ''	unsigned long evictable;'',
      [],
      ''	if (mem_cgroup_below_min(memcg) ||'',
      ''	    (mem_cgroup_below_low(memcg) && !sc->memcg_low_reclaim))'',
      ''		return 0;'',
      [],
      ''	evictable = lruvec_evictable_size(lruvec, swappiness);'',
      [],
      ''	/* try to scrape all its memory if this memcg was deleted */'',
      ''	if (!mem_cgroup_online(memcg))'',
      ''		return evictable;'',
      [],
      ''	return evictable >> sc->priority;'',
      ''}'',
      []], True)\<close>

definition b49_LOOP_STEPS_step12 :: step where
  \<open>b49_LOOP_STEPS_step12 =
   (b49_VMSCAN_C,
    block
     [''static void lru_gen_shrink_lruvec(struct lruvec *lruvec, struct scan_control *sc)'',
      ''{'',
      ''	struct blk_plug plug;'',
      ''	bool need_aging = false;'',
      ''	bool need_swapping = false;'',
      ''	unsigned long scanned = 0;'',
      ''	unsigned long reclaimed = sc->nr_reclaimed;'',
      ''	DEFINE_MAX_SEQ(lruvec);'',
      [],
      ''	lru_add_drain();'',
      [],
      ''	blk_start_plug(&plug);'',
      [],
      ''	set_mm_walk(lruvec_pgdat(lruvec));'',
      [],
      ''	while (true) {'',
      ''		int delta;'',
      ''		int swappiness = get_swappiness(lruvec, sc);'',
      ''		unsigned long nr_to_scan;'',
      [],
      ''		nr_to_scan = get_nr_to_scan(lruvec, sc, swappiness, &need_aging);'',
      ''		if (!nr_to_scan)'',
      ''			goto done;'',
      [],
      ''		delta = evict_pages(lruvec, sc, swappiness, &need_swapping);'',
      ''		if (!delta)'',
      ''			goto done;'',
      [],
      ''		scanned += delta;'',
      ''		if (scanned >= nr_to_scan)'',
      ''			break;'',
      [],
      ''		if (should_abort_scan(lruvec, max_seq, sc, need_swapping))'',
      ''			break;'',
      [],
      ''		cond_resched();'',
      ''	}'',
      []],
    block
     [''/* sailboat_mglru_reclaim_loop_rework: v7.2 12316f7902f8 -- upstream\'s'',
      '' * root_reclaim() predicate (direct reclaim and root-cgroup reclaim). */'',
      ''static bool root_reclaim(struct scan_control *sc)'',
      ''{'',
      ''	return !sc->target_mem_cgroup ||'',
      ''	       mem_cgroup_is_root(sc->target_mem_cgroup);'',
      ''}'',
      [],
      ''static void lru_gen_shrink_lruvec(struct lruvec *lruvec, struct scan_control *sc)'',
      ''{'',
      ''	struct blk_plug plug;'',
      ''	bool need_swapping = false;'',
      ''	bool should_age = false;'',
      ''	unsigned long nr_to_scan;'',
      ''	unsigned long reclaimed = sc->nr_reclaimed;'',
      ''	int swappiness = get_swappiness(lruvec, sc);'',
      ''	struct mem_cgroup *memcg = lruvec_memcg(lruvec);'',
      [],
      ''	lru_add_drain();'',
      [],
      ''	blk_start_plug(&plug);'',
      [],
      ''	set_mm_walk(lruvec_pgdat(lruvec));'',
      [],
      ''	/* sailboat_mglru_reclaim_loop_rework: v7.2 163bc3d68c9f +'',
      ''	 * 6e9be217a3ce + 12316f7902f8 -- the scan budget is computed once,'',
      ''	 * aging is an explicit loop step, and batches are MIN_LRU_BATCH. */'',
      ''	nr_to_scan = get_nr_to_scan(lruvec, sc, memcg, swappiness);'',
      ''	while (nr_to_scan > 0) {'',
      ''		unsigned long nr_batch;'',
      ''		int delta;'',
      ''		DEFINE_MAX_SEQ(lruvec);'',
      [],
      ''		if (mem_cgroup_below_min(memcg))'',
      ''			break;'',
      [],
      ''		if (should_run_aging(lruvec, max_seq, sc, swappiness)) {'',
      ''			should_age = true;'',
      ''			/*'',
      ''			 * kswapd leaves the node-wide aging to lru_gen_age_node(),'',
      ''			 * which owns the min_ttl/OOM policy on this baseline, and'',
      ''			 * stops this lruvec as it is low on cold pages -- the'',
      ''			 * pre-restructure behaviour, kept deliberately.'',
      ''			 */'',
      ''			if (current_is_kswapd())'',
      ''				break;'',
      ''			try_to_inc_max_seq(lruvec, max_seq, sc, swappiness, false);'',
      ''		}'',
      [],
      ''		nr_batch = min_t(unsigned long, nr_to_scan, MIN_LRU_BATCH);'',
      ''		delta = evict_pages(lruvec, sc, swappiness, nr_batch, &need_swapping);'',
      ''		if (!delta)'',
      ''			break;'',
      [],
      ''		if (should_abort_scan(lruvec, max_seq, sc, need_swapping))'',
      ''			break;'',
      [],
      ''		/*'',
      ''		 * Root reclaim needs rotation when low on cold pages for better'',
      ''		 * fairness.  Cgroup reclaim gets fairness from the iterator.'',
      ''		 * This baseline has no memcg rotation, so this break just ends'',
      ''		 * the pass.'',
      ''		 */'',
      ''		if (root_reclaim(sc) && should_age)'',
      ''			break;'',
      [],
      ''		nr_to_scan -= delta;'',
      ''		cond_resched();'',
      ''	}'',
      []], True)\<close>

definition b49_LOOP_STEPS_step13 :: step where
  \<open>b49_LOOP_STEPS_step13 =
   (b49_VMSCAN_C,
    block
     [''	/* see the comment in lru_gen_age_node() */'',
      ''	if (sc->nr_reclaimed - reclaimed >= MIN_LRU_BATCH && !need_aging)'',
      ''		sc->memcgs_need_aging = false;'',
      ''done:'',
      ''	clear_mm_walk();'',
      []],
    block
     [''	/* see the comment in lru_gen_age_node() */'',
      ''	if (sc->nr_reclaimed - reclaimed >= MIN_LRU_BATCH && !should_age)'',
      ''		sc->memcgs_need_aging = false;'',
      [],
      ''	clear_mm_walk();'',
      []], True)\<close>

definition b49_LOOP_STEPS :: "step list" where
  \<open>b49_LOOP_STEPS = [b49_LOOP_STEPS_step1, b49_LOOP_STEPS_step2, b49_LOOP_STEPS_step3, b49_LOOP_STEPS_step4, b49_LOOP_STEPS_step5, b49_LOOP_STEPS_step6, b49_LOOP_STEPS_step7, b49_LOOP_STEPS_step8, b49_LOOP_STEPS_step9, b49_LOOP_STEPS_step10, b49_LOOP_STEPS_step11, b49_LOOP_STEPS_step12, b49_LOOP_STEPS_step13]\<close>

lemma b49_LOOP_STEPS_files: "steps_files b49_LOOP_STEPS = {b49_VMSCAN_C}"
  by (simp add: b49_LOOP_STEPS_def steps_files_fst insert_commute
      step_file [OF b49_LOOP_STEPS_step1_def]
      step_file [OF b49_LOOP_STEPS_step2_def]
      step_file [OF b49_LOOP_STEPS_step3_def]
      step_file [OF b49_LOOP_STEPS_step4_def]
      step_file [OF b49_LOOP_STEPS_step5_def]
      step_file [OF b49_LOOP_STEPS_step6_def]
      step_file [OF b49_LOOP_STEPS_step7_def]
      step_file [OF b49_LOOP_STEPS_step8_def]
      step_file [OF b49_LOOP_STEPS_step9_def]
      step_file [OF b49_LOOP_STEPS_step10_def]
      step_file [OF b49_LOOP_STEPS_step11_def]
      step_file [OF b49_LOOP_STEPS_step12_def]
      step_file [OF b49_LOOP_STEPS_step13_def])

lemma b49_LOOP_STEPS_required: "all_required b49_LOOP_STEPS"
  by (simp add: b49_LOOP_STEPS_def all_required_def
      step_req [OF b49_LOOP_STEPS_step1_def]
      step_req [OF b49_LOOP_STEPS_step2_def]
      step_req [OF b49_LOOP_STEPS_step3_def]
      step_req [OF b49_LOOP_STEPS_step4_def]
      step_req [OF b49_LOOP_STEPS_step5_def]
      step_req [OF b49_LOOP_STEPS_step6_def]
      step_req [OF b49_LOOP_STEPS_step7_def]
      step_req [OF b49_LOOP_STEPS_step8_def]
      step_req [OF b49_LOOP_STEPS_step9_def]
      step_req [OF b49_LOOP_STEPS_step10_def]
      step_req [OF b49_LOOP_STEPS_step11_def]
      step_req [OF b49_LOOP_STEPS_step12_def]
      step_req [OF b49_LOOP_STEPS_step13_def])

definition b49_mglru_reclaim_loop_rework_apply :: "outcome io" where
  \<open>b49_mglru_reclaim_loop_rework_apply =
    io_bind (read_or_empty b49_VMSCAN_C) (\<lambda>probe.
    if contains b49_LOOP_PROBE probe
    then io_ret (AlreadyPresent, ''the reclaim-loop rework is already in vmscan.c'')
    else
    apply_or_block b49_LOOP_STEPS)\<close>

lemma b49_mglru_reclaim_loop_rework_apply_txn: "transactional (\<lambda>_. {b49_VMSCAN_C}) b49_mglru_reclaim_loop_rework_apply"
  unfolding b49_mglru_reclaim_loop_rework_apply_def
  by (intro txn_intros safe_intros)
    (simp_all add: is_backup_code BACKUP_SUFFIX_def b49_LOOP_STEPS_files b49_VMSCAN_C_def)

definition b49_DIRTY_STEPS_step1 :: step where
  \<open>b49_DIRTY_STEPS_step1 =
   (b49_VMSCAN_C,
    block
     [''static bool sort_page(struct lruvec *lruvec, struct page *page, struct scan_control *sc,'',
      ''		       int tier_idx)'',
      ''{'',
      ''	bool success;'',
      ''	bool dirty, writeback;'',
      ''	int gen = page_lru_gen(page);'',
      ''	int type = page_is_file_lru(page);'',
      ''	int zone = page_zonenum(page);'',
      ''	int delta = thp_nr_pages(page);'',
      ''	int refs = page_lru_refs(page);'',
      ''	int tier = lru_tier_from_refs(refs);'',
      ''	struct lru_gen_struct *lrugen = &lruvec->lrugen;'',
      [],
      ''	VM_WARN_ON_ONCE_PAGE(gen >= MAX_NR_GENS, page);'',
      [],
      ''	/* unevictable */'',
      ''	if (!page_evictable(page)) {'',
      ''		success = lru_gen_del_page(lruvec, page, true);'',
      ''		VM_WARN_ON_ONCE_PAGE(!success, page);'',
      ''		SetPageUnevictable(page);'',
      ''		add_page_to_lru_list(page, lruvec);'',
      ''		__count_vm_events(UNEVICTABLE_PGCULLED, delta);'',
      ''		return true;'',
      ''	}'',
      [],
      ''	/* dirty lazyfree */'',
      ''	if (type == LRU_GEN_FILE && PageAnon(page) && PageDirty(page)) {'',
      ''		success = lru_gen_del_page(lruvec, page, true);'',
      ''		VM_WARN_ON_ONCE_PAGE(!success, page);'',
      ''		SetPageSwapBacked(page);'',
      ''		add_page_to_lru_list_tail(page, lruvec);'',
      ''		return true;'',
      ''	}'',
      [],
      ''	/* promoted */'',
      ''	if (gen != lru_gen_from_seq(lrugen->min_seq[type])) {'',
      ''		list_move(&page->lru, &lrugen->lists[gen][type][zone]);'',
      ''		return true;'',
      ''	}'',
      [],
      ''	/* protected */'',
      ''	if (tier > tier_idx) {'',
      ''		int hist = lru_hist_from_seq(lrugen->min_seq[type]);'',
      [],
      ''		gen = page_inc_gen(lruvec, page, false);'',
      ''		list_move_tail(&page->lru, &lrugen->lists[gen][type][zone]);'',
      [],
      ''		WRITE_ONCE(lrugen->protected[hist][type][tier],'',
      ''			   lrugen->protected[hist][type][tier] + delta);'',
      ''		return true;'',
      ''	}'',
      [],
      ''	/* ineligible */'',
      ''	if (zone > sc->reclaim_idx || skip_cma(page, sc)) {'',
      ''		gen = page_inc_gen(lruvec, page, false);'',
      ''		list_move_tail(&page->lru, &lrugen->lists[gen][type][zone]);'',
      ''		return true;'',
      ''	}'',
      [],
      ''	dirty = PageDirty(page);'',
      ''	writeback = PageWriteback(page);'',
      ''	if (type == LRU_GEN_FILE && dirty) {'',
      ''		sc->nr.file_taken += delta;'',
      ''		if (!writeback)'',
      ''			sc->nr.unqueued_dirty += delta;'',
      ''	}'',
      [],
      ''	/* waiting for writeback */'',
      ''	if (PageLocked(page) || writeback ||'',
      ''	    (type == LRU_GEN_FILE && dirty)) {'',
      ''		gen = page_inc_gen(lruvec, page, true);'',
      ''		list_move(&page->lru, &lrugen->lists[gen][type][zone]);'',
      ''		return true;'',
      ''	}'',
      [],
      ''	return false;'',
      ''}'',
      []],
    block
     [''static bool sort_page(struct lruvec *lruvec, struct page *page, struct scan_control *sc,'',
      ''		       int tier_idx)'',
      ''{'',
      ''	bool success;'',
      ''	int gen = page_lru_gen(page);'',
      ''	int type = page_is_file_lru(page);'',
      ''	int zone = page_zonenum(page);'',
      ''	int delta = thp_nr_pages(page);'',
      ''	int refs = page_lru_refs(page);'',
      ''	int tier = lru_tier_from_refs(refs);'',
      ''	struct lru_gen_struct *lrugen = &lruvec->lrugen;'',
      [],
      ''	VM_WARN_ON_ONCE_PAGE(gen >= MAX_NR_GENS, page);'',
      [],
      ''	/* unevictable */'',
      ''	if (!page_evictable(page)) {'',
      ''		success = lru_gen_del_page(lruvec, page, true);'',
      ''		VM_WARN_ON_ONCE_PAGE(!success, page);'',
      ''		SetPageUnevictable(page);'',
      ''		add_page_to_lru_list(page, lruvec);'',
      ''		__count_vm_events(UNEVICTABLE_PGCULLED, delta);'',
      ''		return true;'',
      ''	}'',
      [],
      ''	/* dirty lazyfree */'',
      ''	if (type == LRU_GEN_FILE && PageAnon(page) && PageDirty(page)) {'',
      ''		success = lru_gen_del_page(lruvec, page, true);'',
      ''		VM_WARN_ON_ONCE_PAGE(!success, page);'',
      ''		SetPageSwapBacked(page);'',
      ''		add_page_to_lru_list_tail(page, lruvec);'',
      ''		return true;'',
      ''	}'',
      [],
      ''	/* promoted */'',
      ''	if (gen != lru_gen_from_seq(lrugen->min_seq[type])) {'',
      ''		list_move(&page->lru, &lrugen->lists[gen][type][zone]);'',
      ''		return true;'',
      ''	}'',
      [],
      ''	/* protected */'',
      ''	if (tier > tier_idx) {'',
      ''		int hist = lru_hist_from_seq(lrugen->min_seq[type]);'',
      [],
      ''		gen = page_inc_gen(lruvec, page);'',
      ''		list_move_tail(&page->lru, &lrugen->lists[gen][type][zone]);'',
      [],
      ''		WRITE_ONCE(lrugen->protected[hist][type][tier],'',
      ''			   lrugen->protected[hist][type][tier] + delta);'',
      ''		return true;'',
      ''	}'',
      [],
      ''	/* ineligible */'',
      ''	if (zone > sc->reclaim_idx || skip_cma(page, sc)) {'',
      ''		gen = page_inc_gen(lruvec, page);'',
      ''		list_move_tail(&page->lru, &lrugen->lists[gen][type][zone]);'',
      ''		return true;'',
      ''	}'',
      [],
      ''	/*'',
      ''	 * sailboat_mglru_dirty_reclaim_rework: v7.2 75d4c3f5fb98 +'',
      ''	 * 32d87083ee97 -- no more special handling for dirty/writeback/'',
      ''	 * locked pages; the common shrink_page_list() routine reactivates'',
      ''	 * them like the classical LRU, which keeps their tier bits and'',
      ''	 * rotates them back to the tail once writeback is done.'',
      ''	 */'',
      ''	return false;'',
      ''}'',
      []], True)\<close>

definition b49_DIRTY_STEPS_step2 :: step where
  \<open>b49_DIRTY_STEPS_step2 =
   (b49_VMSCAN_C,
    block
     [''	/* for shrink_page_list() */'',
      ''	ClearPageReclaim(page);'',
      ''	ClearPageReferenced(page);'',
      []],
    block
     [''	/* for shrink_page_list(); PG_reclaim is left to the common routine */'',
      ''	ClearPageReferenced(page);'',
      []], True)\<close>

definition b49_DIRTY_STEPS_step3 :: step where
  \<open>b49_DIRTY_STEPS_step3 =
   (b49_VMSCAN_C,
    block
     [''/* protect pages accessed multiple times through file descriptors */'',
      ''static int page_inc_gen(struct lruvec *lruvec, struct page *page, bool reclaiming)'',
      ''{'',
      []],
    block
     [''/* protect pages accessed multiple times through file descriptors */'',
      ''static int page_inc_gen(struct lruvec *lruvec, struct page *page)'',
      ''{'',
      []], True)\<close>

definition b49_DIRTY_STEPS_step4 :: step where
  \<open>b49_DIRTY_STEPS_step4 =
   (b49_VMSCAN_C,
    block
     [''		new_flags = old_flags & ~(LRU_GEN_MASK | LRU_REFS_MASK | LRU_REFS_FLAGS);'',
      ''		new_flags |= (new_gen + 1UL) << LRU_GEN_PGOFF;'',
      ''		/* for end_page_writeback() */'',
      ''		if (reclaiming)'',
      ''			new_flags |= BIT(PG_reclaim);'',
      ''	} while (!try_cmpxchg(&page->flags, &old_flags, new_flags));'',
      []],
    block
     [''		new_flags = old_flags & ~(LRU_GEN_MASK | LRU_REFS_MASK | LRU_REFS_FLAGS);'',
      ''		new_flags |= (new_gen + 1UL) << LRU_GEN_PGOFF;'',
      ''	} while (!try_cmpxchg(&page->flags, &old_flags, new_flags));'',
      []], True)\<close>

definition b49_DIRTY_STEPS_step5 :: step where
  \<open>b49_DIRTY_STEPS_step5 =
   (b49_VMSCAN_C,
    block
     [''			new_gen = page_inc_gen(lruvec, page, false);'',
      ''			list_move_tail(&page->lru, &lrugen->lists[new_gen][type][zone]);'',
      []],
    block
     [''			new_gen = page_inc_gen(lruvec, page);'',
      ''			list_move_tail(&page->lru, &lrugen->lists[new_gen][type][zone]);'',
      []], True)\<close>

definition b49_DIRTY_STEPS_step6 :: step where
  \<open>b49_DIRTY_STEPS_step6 =
   (b49_VMSCAN_C,
    block
     [''	__count_vm_events(PGSCAN_ANON + type, isolated);'',
      ''	if (type == LRU_GEN_FILE)'',
      ''		sc->nr.file_taken += isolated;'',
      [],
      ''	*isolatedp = isolated;'',
      []],
    block
     [''	__count_vm_events(PGSCAN_ANON + type, isolated);'',
      [],
      ''	*isolatedp = isolated;'',
      []], True)\<close>

definition b49_DIRTY_STEPS_step7 :: step where
  \<open>b49_DIRTY_STEPS_step7 =
   (b49_VMSCAN_C,
    block
     [''retry:'',
      ''	reclaimed = shrink_page_list(&list, pgdat, sc, &stat, false);'',
      ''	sc->nr.unqueued_dirty += stat.nr_unqueued_dirty;'',
      ''	sc->nr_reclaimed += reclaimed;'',
      [],
      ''	list_for_each_entry_safe_reverse(page, next, &list, lru) {'',
      []],
    block
     [''retry:'',
      ''	reclaimed = shrink_page_list(&list, pgdat, sc, &stat, false);'',
      ''	sc->nr_reclaimed += reclaimed;'',
      [],
      ''	/*'',
      ''	 * If too many file cache in the coldest generation can\'t be evicted'',
      ''	 * due to being dirty, wake up the flusher.'',
      ''	 */'',
      ''	if (stat.nr_unqueued_dirty == isolated) {'',
      ''		wakeup_flusher_threads(WB_REASON_VMSCAN);'',
      ''	}'',
      [],
      ''	list_for_each_entry_safe_reverse(page, next, &list, lru) {'',
      []], True)\<close>

definition b49_DIRTY_STEPS_step8 :: step where
  \<open>b49_DIRTY_STEPS_step8 =
   (b49_VMSCAN_C,
    block
     [''		nr_to_scan -= delta;'',
      ''		cond_resched();'',
      ''	}'',
      [],
      ''	/*'',
      ''	 * If too many file cache in the coldest generation can\'t be evicted'',
      ''	 * due to being dirty, wake up the flusher.'',
      ''	 */'',
      ''	if (sc->nr.unqueued_dirty && sc->nr.unqueued_dirty == sc->nr.file_taken)'',
      ''		wakeup_flusher_threads(WB_REASON_VMSCAN);'',
      [],
      ''	/* see the comment in lru_gen_age_node() */'',
      []],
    block
     [''		nr_to_scan -= delta;'',
      ''		cond_resched();'',
      ''	}'',
      [],
      ''	/* see the comment in lru_gen_age_node() */'',
      []], True)\<close>

definition b49_DIRTY_STEPS :: "step list" where
  \<open>b49_DIRTY_STEPS = [b49_DIRTY_STEPS_step1, b49_DIRTY_STEPS_step2, b49_DIRTY_STEPS_step3, b49_DIRTY_STEPS_step4, b49_DIRTY_STEPS_step5, b49_DIRTY_STEPS_step6, b49_DIRTY_STEPS_step7, b49_DIRTY_STEPS_step8]\<close>

lemma b49_DIRTY_STEPS_files: "steps_files b49_DIRTY_STEPS = {b49_VMSCAN_C}"
  by (simp add: b49_DIRTY_STEPS_def steps_files_fst insert_commute
      step_file [OF b49_DIRTY_STEPS_step1_def]
      step_file [OF b49_DIRTY_STEPS_step2_def]
      step_file [OF b49_DIRTY_STEPS_step3_def]
      step_file [OF b49_DIRTY_STEPS_step4_def]
      step_file [OF b49_DIRTY_STEPS_step5_def]
      step_file [OF b49_DIRTY_STEPS_step6_def]
      step_file [OF b49_DIRTY_STEPS_step7_def]
      step_file [OF b49_DIRTY_STEPS_step8_def])

lemma b49_DIRTY_STEPS_required: "all_required b49_DIRTY_STEPS"
  by (simp add: b49_DIRTY_STEPS_def all_required_def
      step_req [OF b49_DIRTY_STEPS_step1_def]
      step_req [OF b49_DIRTY_STEPS_step2_def]
      step_req [OF b49_DIRTY_STEPS_step3_def]
      step_req [OF b49_DIRTY_STEPS_step4_def]
      step_req [OF b49_DIRTY_STEPS_step5_def]
      step_req [OF b49_DIRTY_STEPS_step6_def]
      step_req [OF b49_DIRTY_STEPS_step7_def]
      step_req [OF b49_DIRTY_STEPS_step8_def])

definition b49_mglru_dirty_reclaim_rework_apply :: "outcome io" where
  \<open>b49_mglru_dirty_reclaim_rework_apply =
    io_bind (read_or_empty b49_VMSCAN_C) (\<lambda>probe.
    if contains b49_DIRTY_PROBE probe
    then io_ret (AlreadyPresent, ''the dirty-reclaim rework is already in vmscan.c'')
    else
    apply_or_block b49_DIRTY_STEPS)\<close>

lemma b49_mglru_dirty_reclaim_rework_apply_txn: "transactional (\<lambda>_. {b49_VMSCAN_C}) b49_mglru_dirty_reclaim_rework_apply"
  unfolding b49_mglru_dirty_reclaim_rework_apply_def
  by (intro txn_intros safe_intros)
    (simp_all add: is_backup_code BACKUP_SUFFIX_def b49_DIRTY_STEPS_files b49_VMSCAN_C_def)

definition b49_PLACEMENT_STEPS_step1 :: step where
  \<open>b49_PLACEMENT_STEPS_step1 =
   (b49_MM_INLINE_H,
    block
     [''	if (PageActive(page))'',
      ''		seq = lrugen->max_seq;'',
      ''	else if ((type == LRU_GEN_ANON && !PageSwapCache(page)) ||'',
      ''		 (PageReclaim(page) &&'',
      ''		  (PageDirty(page) || PageWriteback(page))))'',
      ''		seq = lrugen->min_seq[type] + 1;'',
      ''	else'',
      ''		seq = lrugen->min_seq[type];'',
      []],
    block
     [''	if (PageActive(page))'',
      ''		seq = lrugen->max_seq;'',
      ''	else if ((type == LRU_GEN_ANON && !PageSwapCache(page)) ||'',
      ''		 (PageReclaim(page) &&'',
      ''		  (PageDirty(page) || PageWriteback(page))))'',
      ''		seq = lrugen->min_seq[type] + 1;'',
      ''	/*'',
      ''	 * sailboat_mglru_prefault_accessed_placement: v7.2 6cbdd9726fb5 --'',
      ''	 * prefaulted file pages are mark_page_accessed()d on fault (see'',
      ''	 * lru_cache_add()), and PG_referenced places them one generation'',
      ''	 * up, like folio_test_referenced() does in upstream\'s'',
      ''	 * lru_gen_folio_seq().'',
      ''	 */'',
      ''	else if (PageReferenced(page))'',
      ''		seq = lrugen->min_seq[type] + 1;'',
      ''	else'',
      ''		seq = lrugen->min_seq[type];'',
      []], True)\<close>

definition b49_PLACEMENT_STEPS_step2 :: step where
  \<open>b49_PLACEMENT_STEPS_step2 =
   (b49_SWAP_C,
    block
     [''	trace_android_vh_lru_cache_add(page);'',
      ''	/* see the comment in lru_gen_add_page() */'',
      ''	if (lru_gen_enabled() && !PageUnevictable(page) &&'',
      ''	    lru_gen_in_fault() && !(current->flags & PF_MEMALLOC)) {'',
      ''		bool bypass = false;'',
      [],
      ''		trace_android_vh_lru_cache_add_page_activate(page, &bypass);'',
      ''		if (!bypass)'',
      ''			SetPageActive(page);'',
      ''	}'',
      []],
    block
     [''	trace_android_vh_lru_cache_add(page);'',
      ''	/*'',
      ''	 * sailboat_mglru_prefault_accessed_placement: v7.2 6cbdd9726fb5 --'',
      ''	 * for refaulted workingset pages, set PG_active so they can be'',
      ''	 * added to active generations.  For prefaulted file pages,'',
      ''	 * mark_page_accessed() sets PG_referenced so lru_gen_add_page()'',
      ''	 * places them into the second oldest generation.'',
      ''	 */'',
      ''	if (lru_gen_enabled() && !PageUnevictable(page) &&'',
      ''	    lru_gen_in_fault() && !(current->flags & PF_MEMALLOC)) {'',
      ''		if (PageWorkingset(page)) {'',
      ''			bool bypass = false;'',
      [],
      ''			trace_android_vh_lru_cache_add_page_activate(page, &bypass);'',
      ''			if (!bypass)'',
      ''				SetPageActive(page);'',
      ''		} else if (!PageReferenced(page)) {'',
      ''			mark_page_accessed(page);'',
      ''		}'',
      ''	}'',
      []], True)\<close>

definition b49_PLACEMENT_STEPS_step3 :: step where
  \<open>b49_PLACEMENT_STEPS_step3 =
   (b49_WORKINGSET_C,
    block
     [''	atomic_long_add(delta, &lrugen->refaulted[hist][type][tier]);'',
      ''	mod_lruvec_state(lruvec, WORKINGSET_ACTIVATE_BASE + type, delta);'',
      [],
      ''	/*'',
      ''	 * Count the following two cases as stalls:'',
      ''	 * 1. For pages accessed through page tables, hotter pages pushed out'',
      ''	 *    hot pages which refaulted immediately.'',
      ''	 * 2. For pages accessed multiple times through file descriptors,'',
      ''	 *    numbers of accesses might have been out of the range.'',
      ''	 */'',
      ''	if (lru_gen_in_fault() || refs == BIT(LRU_REFS_WIDTH)) {'',
      ''		SetPageWorkingset(page);'',
      ''		mod_lruvec_state(lruvec, WORKINGSET_RESTORE_BASE + type, delta);'',
      ''	}'',
      []],
    block
     [''	atomic_long_add(delta, &lrugen->refaulted[hist][type][tier]);'',
      [],
      ''	/*'',
      ''	 * Count the following two cases as stalls:'',
      ''	 * 1. For pages accessed through page tables, hotter pages pushed out'',
      ''	 *    hot pages which refaulted immediately.'',
      ''	 * 2. For pages accessed multiple times through file descriptors,'',
      ''	 *    numbers of accesses might have been out of the range.'',
      ''	 */'',
      ''	if (lru_gen_in_fault() || refs == BIT(LRU_REFS_WIDTH)) {'',
      ''		SetPageWorkingset(page);'',
      ''		/*'',
      ''		 * sailboat_mglru_prefault_accessed_placement: v7.2 6cbdd9726fb5'',
      ''		 * -- see lru_cache_add(), where SetPageActive() happens for'',
      ''		 * workingset pages only; non-workingset prefaults no longer'',
      ''		 * count as activations.'',
      ''		 */'',
      ''		if (lru_gen_in_fault())'',
      ''			mod_lruvec_state(lruvec, WORKINGSET_ACTIVATE_BASE + type, delta);'',
      ''		mod_lruvec_state(lruvec, WORKINGSET_RESTORE_BASE + type, delta);'',
      ''	}'',
      []], True)\<close>

definition b49_PLACEMENT_STEPS :: "step list" where
  \<open>b49_PLACEMENT_STEPS = [b49_PLACEMENT_STEPS_step1, b49_PLACEMENT_STEPS_step2, b49_PLACEMENT_STEPS_step3]\<close>

lemma b49_PLACEMENT_STEPS_files: "steps_files b49_PLACEMENT_STEPS = {b49_MM_INLINE_H, b49_SWAP_C, b49_WORKINGSET_C}"
  by (simp add: b49_PLACEMENT_STEPS_def steps_files_fst insert_commute
      step_file [OF b49_PLACEMENT_STEPS_step1_def]
      step_file [OF b49_PLACEMENT_STEPS_step2_def]
      step_file [OF b49_PLACEMENT_STEPS_step3_def])

lemma b49_PLACEMENT_STEPS_required: "all_required b49_PLACEMENT_STEPS"
  by (simp add: b49_PLACEMENT_STEPS_def all_required_def
      step_req [OF b49_PLACEMENT_STEPS_step1_def]
      step_req [OF b49_PLACEMENT_STEPS_step2_def]
      step_req [OF b49_PLACEMENT_STEPS_step3_def])

definition b49_mglru_prefault_accessed_placement_apply :: "outcome io" where
  \<open>b49_mglru_prefault_accessed_placement_apply =
    io_bind (read_or_empty b49_MM_INLINE_H) (\<lambda>probe.
    if contains b49_PLACEMENT_PROBE probe
    then io_ret (AlreadyPresent, ''the prefault placement rework is already applied'')
    else
    apply_or_block b49_PLACEMENT_STEPS)\<close>

lemma b49_mglru_prefault_accessed_placement_apply_txn: "transactional (\<lambda>_. {b49_MM_INLINE_H, b49_SWAP_C, b49_WORKINGSET_C}) b49_mglru_prefault_accessed_placement_apply"
  unfolding b49_mglru_prefault_accessed_placement_apply_def
  by (intro txn_intros safe_intros)
    (simp_all add: is_backup_code BACKUP_SUFFIX_def b49_PLACEMENT_STEPS_files b49_MM_INLINE_H_def b49_SWAP_C_def b49_WORKINGSET_C_def)

definition mglru_reclaim_loop_rework_group :: group where
  \<open>mglru_reclaim_loop_rework_group =
    \<lparr>key = ''mglru_reclaim_loop_rework'',
     summary = ''MGLRU v7.2: reclaim loop restructure -- one-shot scan budget, explicit aging step, MIN_LRU_BATCH batches, exact isolation accounting (series cover 0491e9f75c15)'',
     commits = [''790d3abeca09/aa6ef5b159dc/163bc3d68c9f/6e9be217a3ce/3a72e078b4a3/16b475d2ac3c/12316f7902f8 (v7.2)''],
     group_files = [b49_VMSCAN_C],
     apply_fn = b49_mglru_reclaim_loop_rework_apply, hard = False\<rparr>\<close>

lemma mglru_reclaim_loop_rework_group_declared [simp]: "well_declared mglru_reclaim_loop_rework_group"
  by (rule well_declaredI [OF b49_mglru_reclaim_loop_rework_apply_txn]) (simp_all add: is_backup_code BACKUP_SUFFIX_def mglru_reclaim_loop_rework_group_def b49_VMSCAN_C_def)

definition mglru_dirty_reclaim_rework_group :: group where
  \<open>mglru_dirty_reclaim_rework_group =
    \<lparr>key = ''mglru_dirty_reclaim_rework'',
     summary = ''MGLRU v7.2: dirty/writeback pages go through the common shrink_page_list() reactivation with per-batch flusher wakeup (75d4c3f5fb98/acd22fbb9f47/f37d3708b676/32d87083ee97)'',
     commits = [''75d4c3f5fb98/acd22fbb9f47/f37d3708b676/32d87083ee97 (v7.2)''],
     group_files = [b49_VMSCAN_C],
     apply_fn = b49_mglru_dirty_reclaim_rework_apply, hard = False\<rparr>\<close>

lemma mglru_dirty_reclaim_rework_group_declared [simp]: "well_declared mglru_dirty_reclaim_rework_group"
  by (rule well_declaredI [OF b49_mglru_dirty_reclaim_rework_apply_txn]) (simp_all add: is_backup_code BACKUP_SUFFIX_def mglru_dirty_reclaim_rework_group_def b49_VMSCAN_C_def)

definition mglru_prefault_accessed_placement_group :: group where
  \<open>mglru_prefault_accessed_placement_group =
    \<lparr>key = ''mglru_prefault_accessed_placement'',
     summary = ''MGLRU v7.2: prefaulted file pages are mark_page_accessed()d into the second oldest generation, refaulted workingset pages still activate (6cbdd9726fb5)'',
     commits = [''6cbdd9726fb5 (v7.2)''],
     group_files = [b49_MM_INLINE_H,
      b49_SWAP_C,
      b49_WORKINGSET_C],
     apply_fn = b49_mglru_prefault_accessed_placement_apply, hard = False\<rparr>\<close>

lemma mglru_prefault_accessed_placement_group_declared [simp]: "well_declared mglru_prefault_accessed_placement_group"
  by (rule well_declaredI [OF b49_mglru_prefault_accessed_placement_apply_txn]) (simp_all add: is_backup_code BACKUP_SUFFIX_def mglru_prefault_accessed_placement_group_def b49_MM_INLINE_H_def b49_SWAP_C_def b49_WORKINGSET_C_def)

definition b49_build_groups :: "group list" where
  \<open>b49_build_groups = [mglru_reclaim_loop_rework_group, mglru_dirty_reclaim_rework_group, mglru_prefault_accessed_placement_group]\<close>

end
