(* ===== verification/Core_Batch_Late.thy ===== *)
theory Core_Batch_Late
  imports Registry_Laws
begin

text \<open>
  One section per module: the batch modules 70 to 72.
\<close>

section \<open>\<^verbatim>\<open>scripts/batch70_core_smaps_migration_guard.py\<close>\<close>

text \<open>
  The anchors, steps and groups of \<^verbatim>\<open>scripts/batch70_core_smaps_migration_guard.py\<close>, in source order.
\<close>

definition b70_TASK_MMU :: str where
  \<open>b70_TASK_MMU = ''fs/proc/task_mmu.c''\<close>

definition b70_HELPER_OLD :: str where
  \<open>b70_HELPER_OLD = block
     [''static void smaps_pte_entry(pte_t *pte, unsigned long addr,'',
      ''		struct mm_walk *walk)'',
      ''{'',
      []]\<close>

definition b70_HELPER_NEW :: str where
  \<open>b70_HELPER_NEW = block
     [''/*'',
      '' * sailboat_smaps_migration_guard: resolve a migration entry to its page'',
      '' * WITHOUT pfn_swap_entry_to_page()\'s BUG_ON(!PageLocked()) contract. The'',
      '' * smaps/pagemap walkers hold the page-table lock but never the target'',
      '' * page lock, so a migration entry whose page is no longer locked (the'',
      '' * migration completed, or the pfn was reused) makes that BUG_ON panic'',
      '' * the device (field BUG via smaps_rollup -> smaps_pte_range ->'',
      '' * smaps_pte_entry, swapops.h:267). PageLocked(p) here IS the BUG_ON\'s own'',
      '' * predicate: a page that passes it resolves exactly as'',
      '' * pfn_swap_entry_to_page() would, and one that fails is skipped (NULL)'',
      '' * instead of panicking. The smp_rmb() orders the entry/pfn read ahead of'',
      '' * the PageLocked() flags read. This suppresses the panic and resolves by'',
      '' * pfn like the upstream helper -- it does not add a page-identity'',
      '' * re-validation the walkers\' page-table lock does not already give.'',
      '' * NULL means "skip this entry"; every caller below already tolerates'',
      '' * it (smaps returns on NULL, pagemap_pmd_range checks page before use).'',
      '' */'',
      ''static struct page *abk_smaps_migration_page(swp_entry_t entry)'',
      ''{'',
      ''	struct page *p;'',
      [],
      ''	if (!is_migration_entry(entry))'',
      ''		return NULL;'',
      ''	p = pfn_to_page(swp_offset(entry));'',
      ''	smp_rmb();'',
      ''	if (!PageLocked(p))'',
      ''		return NULL;'',
      ''	return p;'',
      ''}'',
      [],
      []] @
   b70_HELPER_OLD\<close>

definition b70_PTE_OLD :: str where
  \<open>b70_PTE_OLD = block
     [''		} else if (is_pfn_swap_entry(swpent)) {'',
      ''			if (is_migration_entry(swpent))'',
      ''				migration = true;'',
      ''			page = pfn_swap_entry_to_page(swpent);'',
      ''		}'',
      []]\<close>

definition b70_PTE_NEW :: str where
  \<open>b70_PTE_NEW = block
     [''		} else if (is_pfn_swap_entry(swpent)) {'',
      ''			if (is_migration_entry(swpent)) {'',
      ''				migration = true;'',
      ''				page = abk_smaps_migration_page(swpent);'',
      ''			} else {'',
      ''				page = pfn_swap_entry_to_page(swpent);'',
      ''			}'',
      ''		}'',
      []]\<close>

definition b70_PMD_OLD :: str where
  \<open>b70_PMD_OLD = block
     [''		if (is_migration_entry(entry)) {'',
      ''			migration = true;'',
      ''			page = pfn_swap_entry_to_page(entry);'',
      ''		}'',
      []]\<close>

definition b70_PMD_NEW :: str where
  \<open>b70_PMD_NEW = block
     [''		if (is_migration_entry(entry)) {'',
      ''			migration = true;'',
      ''			page = abk_smaps_migration_page(entry);'',
      ''		}'',
      []]\<close>

definition b70_HUGE_OLD :: str where
  \<open>b70_HUGE_OLD = block
     [''		if (is_pfn_swap_entry(swpent))'',
      ''			page = pfn_swap_entry_to_page(swpent);'',
      []]\<close>

definition b70_HUGE_NEW :: str where
  \<open>b70_HUGE_NEW = block
     [''		if (is_migration_entry(swpent))'',
      ''			page = abk_smaps_migration_page(swpent);'',
      ''		else if (is_pfn_swap_entry(swpent))'',
      ''			page = pfn_swap_entry_to_page(swpent);'',
      []]\<close>

definition b70_PAGEMAP_PTE_OLD :: str where
  \<open>b70_PAGEMAP_PTE_OLD = block
     [''		migration = is_migration_entry(entry);'',
      ''		if (is_pfn_swap_entry(entry))'',
      ''			page = pfn_swap_entry_to_page(entry);'',
      []]\<close>

definition b70_PAGEMAP_PTE_NEW :: str where
  \<open>b70_PAGEMAP_PTE_NEW = block
     [''		migration = is_migration_entry(entry);'',
      ''		if (is_migration_entry(entry))'',
      ''			page = abk_smaps_migration_page(entry);'',
      ''		else if (is_pfn_swap_entry(entry))'',
      ''			page = pfn_swap_entry_to_page(entry);'',
      []]\<close>

definition b70_PAGEMAP_PMD_OLD :: str where
  \<open>b70_PAGEMAP_PMD_OLD = block
     [''			VM_BUG_ON(!is_pmd_migration_entry(pmd));'',
      ''			migration = is_migration_entry(entry);'',
      ''			page = pfn_swap_entry_to_page(entry);'',
      []]\<close>

definition b70_PAGEMAP_PMD_NEW :: str where
  \<open>b70_PAGEMAP_PMD_NEW = block
     [''			VM_BUG_ON(!is_pmd_migration_entry(pmd));'',
      ''			migration = is_migration_entry(entry);'',
      ''			page = abk_smaps_migration_page(entry);'',
      []]\<close>

definition b70_HELPER_DEF :: str where
  \<open>b70_HELPER_DEF = ''static struct page *abk_smaps_migration_page(''\<close>

definition b70_HELPER_MARKER :: str where
  \<open>b70_HELPER_MARKER = ''sailboat_smaps_migration_guard''\<close>

definition b70_PTE_GUARD :: str where
  \<open>b70_PTE_GUARD = ''page = abk_smaps_migration_page(swpent);''\<close>

definition b70_PMD_GUARD :: str where
  \<open>b70_PMD_GUARD = ''page = abk_smaps_migration_page(entry);''\<close>

definition b70_build_steps_step1 :: step where
  \<open>b70_build_steps_step1 =
   (b70_TASK_MMU,
    b70_HELPER_OLD,
    b70_HELPER_NEW, True)\<close>

definition b70_build_steps_step2 :: step where
  \<open>b70_build_steps_step2 =
   (b70_TASK_MMU,
    b70_PTE_OLD,
    b70_PTE_NEW, True)\<close>

definition b70_build_steps_step3 :: step where
  \<open>b70_build_steps_step3 =
   (b70_TASK_MMU,
    b70_PMD_OLD,
    b70_PMD_NEW, True)\<close>

definition b70_build_steps_step4 :: step where
  \<open>b70_build_steps_step4 =
   (b70_TASK_MMU,
    b70_HUGE_OLD,
    b70_HUGE_NEW, True)\<close>

definition b70_build_steps_step5 :: step where
  \<open>b70_build_steps_step5 =
   (b70_TASK_MMU,
    b70_PAGEMAP_PTE_OLD,
    b70_PAGEMAP_PTE_NEW, True)\<close>

definition b70_build_steps_step6 :: step where
  \<open>b70_build_steps_step6 =
   (b70_TASK_MMU,
    b70_PAGEMAP_PMD_OLD,
    b70_PAGEMAP_PMD_NEW, True)\<close>

definition b70_build_steps :: "step list" where
  \<open>b70_build_steps = [b70_build_steps_step1, b70_build_steps_step2, b70_build_steps_step3, b70_build_steps_step4, b70_build_steps_step5, b70_build_steps_step6]\<close>

lemma b70_build_steps_files: "steps_files b70_build_steps = {b70_TASK_MMU}"
  by (simp add: b70_build_steps_def steps_files_fst insert_commute
      step_file [OF b70_build_steps_step1_def]
      step_file [OF b70_build_steps_step2_def]
      step_file [OF b70_build_steps_step3_def]
      step_file [OF b70_build_steps_step4_def]
      step_file [OF b70_build_steps_step5_def]
      step_file [OF b70_build_steps_step6_def])

lemma b70_build_steps_required: "all_required b70_build_steps"
  by (simp add: b70_build_steps_def all_required_def
      step_req [OF b70_build_steps_step1_def]
      step_req [OF b70_build_steps_step2_def]
      step_req [OF b70_build_steps_step3_def]
      step_req [OF b70_build_steps_step4_def]
      step_req [OF b70_build_steps_step5_def]
      step_req [OF b70_build_steps_step6_def])

definition b70_smaps_migration_guard_apply :: "outcome io" where
  \<open>b70_smaps_migration_guard_apply =
    io_try is_fnf (ctx_read b70_TASK_MMU)
      (\<lambda>e. io_ret (BlockedByShape, b70_TASK_MMU @
      '': file absent''))
      (\<lambda>text.
    if contains b70_HELPER_DEF text
    then
      if contains b70_HELPER_MARKER text
      then io_ret (AlreadyPresent, ''the smaps migration guard is already applied'')
      else
      io_ret (BlockedByShape, b70_TASK_MMU @
      '': the helper is present but its '' @
      b70_HELPER_MARKER @
      '' marker is not; refusing rather than inserting a second copy'')
    else
    apply_or_block b70_build_steps)\<close>

lemma b70_smaps_migration_guard_apply_txn: "transactional (\<lambda>_. {b70_TASK_MMU}) b70_smaps_migration_guard_apply"
  unfolding b70_smaps_migration_guard_apply_def
  by (intro txn_intros safe_intros)
    (simp_all add: is_backup_code BACKUP_SUFFIX_def b70_build_steps_files b70_TASK_MMU_def)

definition smaps_migration_guard_group :: group where
  \<open>smaps_migration_guard_group =
    \<lparr>key = ''smaps_migration_guard'',
     summary = ''smaps/pagemap walkers resolve migration entries through a PageLocked-checked helper instead of pfn_swap_entry_to_page(), so a migration that completes between the PTE snapshot and the check skips the entry instead of tripping swapops.h:267 BUG_ON'',
     commits = [''field panic MD_RST_STAT.BIN.txt:777 (smaps_rollup -> smaps_pte_range -> pfn_swap_entry_to_page)''],
     group_files = [b70_TASK_MMU],
     apply_fn = b70_smaps_migration_guard_apply, hard = False\<rparr>\<close>

lemma smaps_migration_guard_group_declared [simp]: "well_declared smaps_migration_guard_group"
  by (rule well_declaredI [OF b70_smaps_migration_guard_apply_txn]) (simp_all add: is_backup_code BACKUP_SUFFIX_def smaps_migration_guard_group_def b70_TASK_MMU_def)

definition b70_build_groups :: "group list" where
  \<open>b70_build_groups = [smaps_migration_guard_group]\<close>

section \<open>\<^verbatim>\<open>scripts/batch71_core_kcompressd_wb_pin.py\<close>\<close>

text \<open>
  The anchors, steps and groups of \<^verbatim>\<open>scripts/batch71_core_kcompressd_wb_pin.py\<close>, in source order.
\<close>

definition b71_PAGE_IO :: str where
  \<open>b71_PAGE_IO = ''mm/page_io.c''\<close>

definition b71_WB_SET_OLD :: str where
  \<open>b71_WB_SET_OLD = block
     [''		 * same defect on 6.12, whose pageout() has the identical'',
      ''		 * PAGE_SUCCESS branch. */'',
      ''		unlock_page(page);'',
      ''		return 0;'',
      ''	}'',
      []]\<close>

definition b71_WB_SET_NEW :: str where
  \<open>b71_WB_SET_NEW = block
     [''		 * same defect on 6.12, whose pageout() has the identical'',
      ''		 * PAGE_SUCCESS branch. */'',
      ''		/*'',
      ''		 * sailboat_kcompressd_wb_pin: mark the page under writeback'',
      ''		 * before releasing it, so its swap slot stays pinned for the'',
      ''		 * whole FIFO residency.  Without this the queued page is'',
      ''		 * unlocked and not-writeback, so try_to_free_swap() (which'',
      ''		 * bails only on PageWriteback) frees the slot, it is reused'',
      ''		 * for another page, and the deferred write lands in the wrong'',
      ''		 * slot -- silent swap data corruption (anon pages crash apps,'',
      ''		 * file pages = /data loss).  end_page_writeback() is paired in'',
      ''		 * abk_kcompressd_do_swapout() once the drain holds the lock.'',
      ''		 */'',
      ''		set_page_writeback(page);'',
      ''		unlock_page(page);'',
      ''		return 0;'',
      ''	}'',
      []]\<close>

definition b71_WB_END_OLD :: str where
  \<open>b71_WB_END_OLD = block
     [''	 * freed underneath us no matter who else locked it.'',
      ''	 */'',
      ''	lock_page(page);'',
      [],
      [],
      ''	if (frontswap_store(page) == 0) {'',
      []]\<close>

definition b71_WB_END_NEW :: str where
  \<open>b71_WB_END_NEW = block
     [''	 * freed underneath us no matter who else locked it.'',
      ''	 */'',
      ''	lock_page(page);'',
      ''	/*'',
      ''	 * sailboat_kcompressd_wb_pin: the page arrived unlocked and under'',
      ''	 * writeback (set at enqueue to pin the swap slot across the queue).'',
      ''	 * Now that the drain holds the lock, end that writeback so the write'',
      ''	 * body below runs from the same locked / not-writeback state the'',
      ''	 * synchronous path expects; the body re-sets and ends writeback'',
      ''	 * itself (bdev_write_page for zram).  The lock covers this gap:'',
      ''	 * try_to_free_swap() needs the page lock, which we hold.'',
      ''	 */'',
      ''	end_page_writeback(page);'',
      [],
      [],
      ''	if (frontswap_store(page) == 0) {'',
      []]\<close>

definition b71_WB_DROP_OLD :: str where
  \<open>b71_WB_DROP_OLD = block
     [''		put_page(page);'',
      ''		return;'',
      ''	}'',
      []]\<close>

definition b71_WB_DROP_NEW :: str where
  \<open>b71_WB_DROP_NEW = block
     [''		/*'',
      ''		 * sailboat_kcompressd_wb_pin: this page was pinned under'',
      ''		 * PG_writeback at enqueue, and this drop path returns before the'',
      ''		 * drain\'s end_page_writeback() below.  End it here too, or the page'',
      ''		 * is left under writeback forever -- unreclaimable, and freeing it'',
      ''		 * with the bit set trips bad_page().  No page lock is needed'',
      ''		 * (end_page_writeback() runs from bio completion), and the page is'',
      ''		 * still under writeback here because nothing has ended it yet.'',
      ''		 */'',
      ''		end_page_writeback(page);'',
      ''		put_page(page);'',
      ''		return;'',
      ''	}'',
      []]\<close>

definition b71_WB_MARKER :: str where
  \<open>b71_WB_MARKER = ''sailboat_kcompressd_wb_pin''\<close>

definition b71_WB_SET :: str where
  \<open>b71_WB_SET = ''set_page_writeback(page);''\<close>

definition b71_WB_END :: str where
  \<open>b71_WB_END = ''end_page_writeback(page);''\<close>

definition b71_WB_DROP_END :: str where
  \<open>b71_WB_DROP_END = block
     [''end_page_writeback(page);'',
      ''		put_page(page);'']\<close>

definition b71_DO_SWAPOUT_PROBE :: str where
  \<open>b71_DO_SWAPOUT_PROBE = ''abk_kcompressd_do_swapout''\<close>

definition b71_build_steps_step1 :: step where
  \<open>b71_build_steps_step1 =
   (b71_PAGE_IO,
    b71_WB_SET_OLD,
    b71_WB_SET_NEW, True)\<close>

definition b71_build_steps_step2 :: step where
  \<open>b71_build_steps_step2 =
   (b71_PAGE_IO,
    b71_WB_END_OLD,
    b71_WB_END_NEW, True)\<close>

definition b71_build_steps_step3 :: step where
  \<open>b71_build_steps_step3 =
   (b71_PAGE_IO,
    b71_WB_DROP_OLD,
    b71_WB_DROP_NEW, True)\<close>

definition b71_build_steps :: "step list" where
  \<open>b71_build_steps = [b71_build_steps_step1, b71_build_steps_step2, b71_build_steps_step3]\<close>

lemma b71_build_steps_files: "steps_files b71_build_steps = {b71_PAGE_IO}"
  by (simp add: b71_build_steps_def steps_files_fst insert_commute
      step_file [OF b71_build_steps_step1_def]
      step_file [OF b71_build_steps_step2_def]
      step_file [OF b71_build_steps_step3_def])

lemma b71_build_steps_required: "all_required b71_build_steps"
  by (simp add: b71_build_steps_def all_required_def
      step_req [OF b71_build_steps_step1_def]
      step_req [OF b71_build_steps_step2_def]
      step_req [OF b71_build_steps_step3_def])

definition b71_kcompressd_wb_pin_apply :: "outcome io" where
  \<open>b71_kcompressd_wb_pin_apply =
    io_try is_fnf (ctx_read b71_PAGE_IO)
      (\<lambda>e. io_ret (BlockedByShape, b71_PAGE_IO @
      '': file absent''))
      (\<lambda>text.
    if contains b71_WB_MARKER text
    then io_ret (AlreadyPresent, ''the kcompressd writeback pin is already applied'')
    else
    if \<not> contains b71_DO_SWAPOUT_PROBE text
    then io_ret (BlockedByShape, ''abk_kcompressd_do_swapout() not found: vm_kcompressd_swapout must apply first'')
    else
    apply_or_block b71_build_steps)\<close>

lemma b71_kcompressd_wb_pin_apply_txn: "transactional (\<lambda>_. {b71_PAGE_IO}) b71_kcompressd_wb_pin_apply"
  unfolding b71_kcompressd_wb_pin_apply_def
  by (intro txn_intros safe_intros)
    (simp_all add: is_backup_code BACKUP_SUFFIX_def b71_build_steps_files b71_PAGE_IO_def)

definition kcompressd_writeback_pin_group :: group where
  \<open>kcompressd_writeback_pin_group =
    \<lparr>key = ''kcompressd_writeback_pin'',
     summary = ''abk_kcompressd_do_swapout()\'s deferred swap-out keeps the page under PG_writeback across the FIFO (set at enqueue, ended once the drain holds the lock), so try_to_free_swap() cannot free and reuse the swap slot mid-queue -- closing the silent swap data corruption that crashed apps (ART SIGSEGV) and corrupted /data under thrash'',
     commits = [''device A/B verify_swap: kcompressd on = 10/614400 corrupt pages, off = 0/614400 (SM8550 vermeer 5.15.220)''],
     group_files = [b71_PAGE_IO],
     apply_fn = b71_kcompressd_wb_pin_apply, hard = False\<rparr>\<close>

lemma kcompressd_writeback_pin_group_declared [simp]: "well_declared kcompressd_writeback_pin_group"
  by (rule well_declaredI [OF b71_kcompressd_wb_pin_apply_txn]) (simp_all add: is_backup_code BACKUP_SUFFIX_def kcompressd_writeback_pin_group_def b71_PAGE_IO_def)

definition b71_build_groups :: "group list" where
  \<open>b71_build_groups = [kcompressd_writeback_pin_group]\<close>

section \<open>\<^verbatim>\<open>scripts/batch72_core_kcompressd_swapcache_drop.py\<close>\<close>

text \<open>
  The anchors, steps and groups of \<^verbatim>\<open>scripts/batch72_core_kcompressd_swapcache_drop.py\<close>, in source order.
\<close>

definition b72_VMSAN :: str where
  \<open>b72_VMSAN = ''mm/vmscan.c''\<close>

definition b72_PAGE_IO :: str where
  \<open>b72_PAGE_IO = ''mm/page_io.c''\<close>

definition b72_DECL_OLD :: str where
  \<open>b72_DECL_OLD = block
     [''	LIST_HEAD(ret_pages);'',
      ''	LIST_HEAD(free_pages);'',
      ''	LIST_HEAD(demote_pages);'',
      []]\<close>

definition b72_DECL_NEW :: str where
  \<open>b72_DECL_NEW = block
     [''	LIST_HEAD(ret_pages);'',
      ''	LIST_HEAD(free_pages);'',
      ''	LIST_HEAD(demote_pages);'',
      ''	/* sailboat_kcompressd_swapcache_drop */'',
      ''	LIST_HEAD(wb_retry_pages);'',
      ''	bool wb_retry_done = false;'',
      []]\<close>

definition b72_PARK_OLD :: str where
  \<open>b72_PARK_OLD = block
     [''			case PAGE_SUCCESS:'',
      ''				stat->nr_pageout += thp_nr_pages(page);'',
      [],
      ''				if (PageWriteback(page))'',
      ''					goto keep;'',
      ''				if (PageDirty(page))'',
      ''					goto keep;'',
      []]\<close>

definition b72_PARK_NEW :: str where
  \<open>b72_PARK_NEW = block
     [''			case PAGE_SUCCESS:'',
      ''				stat->nr_pageout += thp_nr_pages(page);'',
      [],
      ''				if (PageWriteback(page)) {'',
      ''					/* sailboat_kcompressd_swapcache_drop */'',
      ''#ifdef CONFIG_SWAP'',
      ''					if (!wb_retry_done && PageSwapCache(page) &&'',
      ''					    (page_swap_info(page)->flags &'',
      ''					     SWP_SYNCHRONOUS_IO)) {'',
      ''						list_add(&page->lru, &wb_retry_pages);'',
      ''						continue;'',
      ''					}'',
      ''#endif'',
      ''					goto keep;'',
      ''				}'',
      ''				if (PageDirty(page))'',
      ''					goto keep;'',
      []]\<close>

definition b72_RETRY_OLD :: str where
  \<open>b72_RETRY_OLD = block
     [''	/* \'page_list\' is always empty here */'',
      [],
      ''	/* Migrate pages selected for demotion */'',
      []]\<close>

definition b72_RETRY_NEW :: str where
  \<open>b72_RETRY_NEW = block
     [''	/* \'page_list\' is always empty here */'',
      [],
      ''	/* sailboat_kcompressd_swapcache_drop */'',
      ''	if (!wb_retry_done && !list_empty(&wb_retry_pages)) {'',
      ''		struct page *page, *next;'',
      ''		bool drain_ctx = (current->flags & PF_KSWAPD) &&'',
      ''				 !(current->flags & PF_SWAPWRITE);'',
      [],
      ''		wb_retry_done = true;'',
      ''		list_for_each_entry_safe(page, next, &wb_retry_pages, lru) {'',
      ''			if (!PageWriteback(page))'',
      ''				continue;'',
      ''			if (!drain_ctx) {'',
      ''				wait_on_page_writeback(page);'',
      ''				if (!PageWriteback(page))'',
      ''					continue;'',
      ''			}'',
      ''			list_move(&page->lru, &ret_pages);'',
      ''		}'',
      ''		if (!list_empty(&wb_retry_pages)) {'',
      ''			list_splice_tail(&wb_retry_pages, page_list);'',
      ''			do_demote_pass = false;'',
      ''			goto retry;'',
      ''		}'',
      ''	}'',
      [],
      ''	/* Migrate pages selected for demotion */'',
      []]\<close>

definition b72_MARKER :: str where
  \<open>b72_MARKER = ''sailboat_kcompressd_swapcache_drop''\<close>

definition b72_WB_PIN_MARKER :: str where
  \<open>b72_WB_PIN_MARKER = ''sailboat_kcompressd_wb_pin''\<close>

definition b72_DECL_LIST :: str where
  \<open>b72_DECL_LIST = ''LIST_HEAD(wb_retry_pages);''\<close>

definition b72_DECL_FLAG :: str where
  \<open>b72_DECL_FLAG = ''bool wb_retry_done = false;''\<close>

definition b72_PARK :: str where
  \<open>b72_PARK = ''list_add(&page->lru, &wb_retry_pages);''\<close>

definition b72_WAIT_PIN :: str where
  \<open>b72_WAIT_PIN = ''wait_on_page_writeback(page);''\<close>

definition b72_DRAIN_GUARD :: str where
  \<open>b72_DRAIN_GUARD = ''PF_KSWAPD''\<close>

definition b72_SPLICE :: str where
  \<open>b72_SPLICE = ''list_splice_tail(&wb_retry_pages, page_list);''\<close>

definition b72_RETRY_LATCH :: str where
  \<open>b72_RETRY_LATCH = ''		wb_retry_done = true;''\<close>

definition b72_SWAP_GATE :: str where
  \<open>b72_SWAP_GATE = ''#ifdef CONFIG_SWAP''\<close>

definition b72_PAGE_SUCCESS_BLOCK :: str where
  \<open>b72_PAGE_SUCCESS_BLOCK = block
     [''			case PAGE_SUCCESS:'',
      ''				stat->nr_pageout += thp_nr_pages(page);'',
      []]\<close>

definition b72_build_steps_step1 :: step where
  \<open>b72_build_steps_step1 =
   (b72_VMSAN,
    b72_DECL_OLD,
    b72_DECL_NEW, True)\<close>

definition b72_build_steps_step2 :: step where
  \<open>b72_build_steps_step2 =
   (b72_VMSAN,
    b72_PARK_OLD,
    b72_PARK_NEW, True)\<close>

definition b72_build_steps_step3 :: step where
  \<open>b72_build_steps_step3 =
   (b72_VMSAN,
    b72_RETRY_OLD,
    b72_RETRY_NEW, True)\<close>

definition b72_build_steps :: "step list" where
  \<open>b72_build_steps = [b72_build_steps_step1, b72_build_steps_step2, b72_build_steps_step3]\<close>

lemma b72_build_steps_files: "steps_files b72_build_steps = {b72_VMSAN}"
  by (simp add: b72_build_steps_def steps_files_fst insert_commute
      step_file [OF b72_build_steps_step1_def]
      step_file [OF b72_build_steps_step2_def]
      step_file [OF b72_build_steps_step3_def])

lemma b72_build_steps_required: "all_required b72_build_steps"
  by (simp add: b72_build_steps_def all_required_def
      step_req [OF b72_build_steps_step1_def]
      step_req [OF b72_build_steps_step2_def]
      step_req [OF b72_build_steps_step3_def])

definition b72_kcompressd_swapcache_drop_apply :: "outcome io" where
  \<open>b72_kcompressd_swapcache_drop_apply =
    io_try is_fnf (ctx_read b72_VMSAN)
      (\<lambda>e. io_ret (BlockedByShape, b72_VMSAN @
      '': file absent''))
      (\<lambda>text.
    if contains b72_MARKER text
    then io_ret (AlreadyPresent, ''the kcompressd swap-cache drop is already applied'')
    else
    if \<not> contains b72_PAGE_SUCCESS_BLOCK text
    then io_ret (BlockedByShape, b72_VMSAN @
      '': the PAGE_SUCCESS block is not in the expected 5.15 shape; refusing rather than patching an unknown reclaim loop'')
    else
    io_try is_fnf (ctx_read b72_PAGE_IO)
      (\<lambda>e. io_ret (BlockedByShape, b72_PAGE_IO @
      '': file absent''))
      (\<lambda>io_text.
    if \<not> contains b72_WB_PIN_MARKER io_text
    then io_ret (BlockedByShape, b72_PAGE_IO @
      '': '' @
      b72_WB_PIN_MARKER @
      '' not found; kcompressd_writeback_pin must apply first'')
    else
    apply_or_block b72_build_steps))\<close>

lemma b72_kcompressd_swapcache_drop_apply_txn: "transactional (\<lambda>_. {b72_VMSAN}) b72_kcompressd_swapcache_drop_apply"
  unfolding b72_kcompressd_swapcache_drop_apply_def
  by (intro txn_intros safe_intros)
    (simp_all add: is_backup_code BACKUP_SUFFIX_def b72_build_steps_files b72_PAGE_IO_def b72_VMSAN_def)

definition kcompressd_swapcache_drop_group :: group where
  \<open>kcompressd_swapcache_drop_group =
    \<lparr>key = ''kcompressd_swapcache_drop'',
     summary = ''a swap-cache page whose synchronous swap-out is still under writeback at PAGE_SUCCESS is re-scanned once inside the same shrink_page_list() call, so __remove_mapping() frees its swap cache entry now instead of on a later scan -- bound to one one bounded wait for the deferred write, then one re-scan; no lock, no allocation'',
     commits = [''follow-up to Batch 71 kcompressd_writeback_pin: the pin keeps the page (and its slot) alive for the FIFO residency, which makes reclaim keep the swap cache entry allocated for the whole queue; this group drops it one drain later''],
     group_files = [b72_VMSAN],
     apply_fn = b72_kcompressd_swapcache_drop_apply, hard = False\<rparr>\<close>

lemma kcompressd_swapcache_drop_group_declared [simp]: "well_declared kcompressd_swapcache_drop_group"
  by (rule well_declaredI [OF b72_kcompressd_swapcache_drop_apply_txn]) (simp_all add: is_backup_code BACKUP_SUFFIX_def kcompressd_swapcache_drop_group_def b72_VMSAN_def)

definition b72_build_groups :: "group list" where
  \<open>b72_build_groups = [kcompressd_swapcache_drop_group]\<close>

end
