(* ===== verification/Batch73_Swapin_Window.thy ===== *)
theory Batch73_Swapin_Window
  imports Registry_Laws
begin

text \<open>
  The anchors, steps and groups of \<^verbatim>\<open>scripts/batch73_core_swapin_window.py\<close>, in source order.
\<close>

definition b73_READAHEAD :: str where
  \<open>b73_READAHEAD = ''mm/readahead.c''\<close>

definition b73_SWAP_STATE :: str where
  \<open>b73_SWAP_STATE = ''mm/swap_state.c''\<close>

definition b73_INTERNAL_H :: str where
  \<open>b73_INTERNAL_H = ''mm/internal.h''\<close>

definition b73_GROUP_MARKER :: str where
  \<open>b73_GROUP_MARKER = ''sailboat_swapin_readahead_window''\<close>

definition b73_CLAMP_DEF :: str where
  \<open>b73_CLAMP_DEF = ''unsigned int abk_swapin_window_clamp(unsigned int pages)''\<close>

definition b73_GATE_DEF :: str where
  \<open>b73_GATE_DEF = ''bool abk_swapin_shrink_gate(void)''\<close>

definition b73_CLAMP_CALL :: str where
  \<open>b73_CLAMP_CALL = ''pages = abk_swapin_window_clamp(pages);''\<close>

definition b73_RA_TAIL_ANCHOR :: str where
  \<open>b73_RA_TAIL_ANCHOR = ''EXPORT_SYMBOL(readahead_expand);''\<close>

definition b73_PARAM_LINES :: "str list" where
  \<open>b73_PARAM_LINES =
     [(block
       [''module_param_named(swapin_window_enable, swapin_window_enable, bool, 0644);'',
        []]),
      (block
       [''module_param_named(swapin_boost_enable, swapin_boost_enable, bool, 0644);'',
        []]),
      (block
       [''module_param_named(swapin_boost_pages, swapin_boost_pages, uint, 0644);'',
        []]),
      (block
       [''module_param_named(swapin_shrink_enable, swapin_shrink_enable, bool, 0644);'',
        []]),
      (block
       [''module_param_named(swapin_shrink_pages, swapin_shrink_pages, uint, 0644);'',
        []]),
      (block
       [''module_param_named(swapin_window_background_only,'',
        ''		   swapin_window_background_only, bool, 0644);'',
        []]),
      (block
       [''module_param_named(swapin_vma_ra, enable_vma_readahead, bool, 0644);'',
        []])]\<close>

definition b73_PARAM_PINS :: "str list" where
  \<open>b73_PARAM_PINS =
     [''swapin_window_enable'',
      ''swapin_boost_enable'',
      ''swapin_boost_pages'',
      ''swapin_shrink_enable'',
      ''swapin_shrink_pages'',
      ''swapin_window_background_only'',
      ''swapin_vma_ra'']\<close>

definition b73_RA_INCLUDES_OLD :: str where
  \<open>b73_RA_INCLUDES_OLD = block
     [''#include <linux/fadvise.h>'',
      ''#include <linux/sched/mm.h>'',
      ''#include <trace/hooks/mm.h>'',
      [],
      ''#include "internal.h"'',
      []]\<close>

definition b73_RA_INCLUDES_NEW :: str where
  \<open>b73_RA_INCLUDES_NEW = block
     [''#include <linux/fadvise.h>'',
      ''#include <linux/sched/mm.h>'',
      ''#include <trace/hooks/mm.h>'',
      ''#include <linux/moduleparam.h>'',
      [],
      ''#include "internal.h"'',
      []]\<close>

definition b73_RA_TAIL_OLD :: str where
  \<open>b73_RA_TAIL_OLD = block
     [''EXPORT_SYMBOL(readahead_expand);'',
      []]\<close>

definition b73_RA_TAIL_NEW_HEAD :: str where
  \<open>b73_RA_TAIL_NEW_HEAD = block
     [''EXPORT_SYMBOL(readahead_expand);'',
      [],
      ''/* sailboat_swapin_readahead_window */'',
      ''#ifdef CONFIG_SWAP'',
      ''extern bool enable_vma_readahead;'',
      [],
      ''static bool swapin_window_enable __read_mostly = true;'',
      ''static bool swapin_boost_enable __read_mostly = true;'',
      ''static unsigned int swapin_boost_pages __read_mostly = 8;'',
      ''static bool swapin_shrink_enable __read_mostly = true;'',
      ''static unsigned int swapin_shrink_pages __read_mostly = 1;'',
      ''static bool swapin_window_background_only __read_mostly = true;'',
      [],
      []]\<close>

definition b73_RA_TAIL_NEW :: str where
  \<open>b73_RA_TAIL_NEW = b73_RA_TAIL_NEW_HEAD @ concat b73_PARAM_LINES @
   block
     [[],
      ''#define ABK_SWAPIN_WINDOW_MAX	(1U << SWAP_RA_ORDER_CEILING)'',
      [],
      ''bool abk_swapin_shrink_gate(void)'',
      ''{'',
      ''	if (!swapin_window_background_only)'',
      ''		return true;'',
      [],
      ''#ifdef CONFIG_ABK_DYNAMIC_READAHEAD'',
      ''	return abk_dra_is_background_task();'',
      ''#else'',
      ''	return false;'',
      ''#endif'',
      ''}'',
      [],
      ''unsigned int abk_swapin_window_clamp(unsigned int pages)'',
      ''{'',
      ''	if (!swapin_window_enable)'',
      ''		return pages;'',
      [],
      ''	if (swapin_boost_enable && pages < swapin_boost_pages) {'',
      ''		unsigned int boost = swapin_boost_pages;'',
      [],
      ''		if (boost > ABK_SWAPIN_WINDOW_MAX)'',
      ''			boost = ABK_SWAPIN_WINDOW_MAX;'',
      ''		if (boost > pages)'',
      ''			pages = roundup_pow_of_two(boost);'',
      ''	}'',
      [],
      ''	if (swapin_shrink_enable && pages > swapin_shrink_pages &&'',
      ''	    abk_swapin_shrink_gate()) {'',
      ''		if (swapin_shrink_pages)'',
      ''			pages = rounddown_pow_of_two(swapin_shrink_pages);'',
      ''		else'',
      ''			pages = 1;'',
      ''	}'',
      [],
      ''	return pages;'',
      ''}'',
      ''#endif '',
      []]\<close>

definition b73_SS_VMA_RA_OLD :: str where
  \<open>b73_SS_VMA_RA_OLD = block
     [''static bool enable_vma_readahead __read_mostly = true;'',
      []]\<close>

definition b73_SS_VMA_RA_NEW :: str where
  \<open>b73_SS_VMA_RA_NEW = block
     [''/* sailboat_swapin_readahead_window */'',
      ''bool enable_vma_readahead __read_mostly = true;'',
      []]\<close>

definition b73_SS_SWAPIN_OLD :: str where
  \<open>b73_SS_SWAPIN_OLD = block
     [''	/* Don\'t shrink readahead too fast */'',
      ''	last_ra = prev_win / 2;'',
      ''	if (pages < last_ra)'',
      ''		pages = last_ra;'',
      [],
      ''	return pages;'',
      ''}'',
      []]\<close>

definition b73_SS_SWAPIN_NEW :: str where
  \<open>b73_SS_SWAPIN_NEW = block
     [''	/* Don\'t shrink readahead too fast */'',
      ''	last_ra = prev_win / 2;'',
      ''	if (pages < last_ra)'',
      ''		pages = last_ra;'',
      [],
      ''	/* sailboat_swapin_readahead_window */'',
      ''	pages = abk_swapin_window_clamp(pages);'',
      [],
      ''	return pages;'',
      ''}'',
      []]\<close>

definition b73_SS_CLUSTER_OLD :: str where
  \<open>b73_SS_CLUSTER_OLD = block
     [''	atomic_set(&last_readahead_pages, pages);'',
      [],
      ''	return pages;'',
      ''}'',
      []]\<close>

definition b73_SS_CLUSTER_NEW :: str where
  \<open>b73_SS_CLUSTER_NEW = block
     [''	atomic_set(&last_readahead_pages, pages);'',
      [],
      ''	/* sailboat_swapin_readahead_window */'',
      ''	pages = abk_swapin_window_clamp(pages);'',
      [],
      ''	return pages;'',
      ''}'',
      []]\<close>

definition b73_INTERNAL_OLD :: str where
  \<open>b73_INTERNAL_OLD = block
     [''extern int isolate_lru_page(struct page *page);'',
      ''extern void putback_lru_page(struct page *page);'',
      []]\<close>

definition b73_INTERNAL_NEW :: str where
  \<open>b73_INTERNAL_NEW = block
     [''extern int isolate_lru_page(struct page *page);'',
      ''extern void putback_lru_page(struct page *page);'',
      [],
      ''/* sailboat_swapin_readahead_window */'',
      ''extern unsigned int abk_swapin_window_clamp(unsigned int pages);'',
      ''extern bool abk_swapin_shrink_gate(void);'',
      []]\<close>

definition b73_build_steps_step1 :: step where
  \<open>b73_build_steps_step1 =
   (b73_READAHEAD,
    b73_RA_INCLUDES_OLD,
    b73_RA_INCLUDES_NEW, True)\<close>

definition b73_build_steps_step2 :: step where
  \<open>b73_build_steps_step2 =
   (b73_READAHEAD,
    b73_RA_TAIL_OLD,
    b73_RA_TAIL_NEW, True)\<close>

definition b73_build_steps_step3 :: step where
  \<open>b73_build_steps_step3 =
   (b73_SWAP_STATE,
    b73_SS_VMA_RA_OLD,
    b73_SS_VMA_RA_NEW, True)\<close>

definition b73_build_steps_step4 :: step where
  \<open>b73_build_steps_step4 =
   (b73_SWAP_STATE,
    b73_SS_SWAPIN_OLD,
    b73_SS_SWAPIN_NEW, True)\<close>

definition b73_build_steps_step5 :: step where
  \<open>b73_build_steps_step5 =
   (b73_SWAP_STATE,
    b73_SS_CLUSTER_OLD,
    b73_SS_CLUSTER_NEW, True)\<close>

definition b73_build_steps_step6 :: step where
  \<open>b73_build_steps_step6 =
   (b73_INTERNAL_H,
    b73_INTERNAL_OLD,
    b73_INTERNAL_NEW, True)\<close>

definition b73_build_steps :: "step list" where
  \<open>b73_build_steps = [b73_build_steps_step1, b73_build_steps_step2, b73_build_steps_step3, b73_build_steps_step4, b73_build_steps_step5, b73_build_steps_step6]\<close>

lemma b73_build_steps_files: "steps_files b73_build_steps = {b73_READAHEAD, b73_SWAP_STATE, b73_INTERNAL_H}"
  by (simp add: b73_build_steps_def steps_files_fst insert_commute
      step_file [OF b73_build_steps_step1_def]
      step_file [OF b73_build_steps_step2_def]
      step_file [OF b73_build_steps_step3_def]
      step_file [OF b73_build_steps_step4_def]
      step_file [OF b73_build_steps_step5_def]
      step_file [OF b73_build_steps_step6_def])

lemma b73_build_steps_required: "all_required b73_build_steps"
  by (simp add: b73_build_steps_def all_required_def
      step_req [OF b73_build_steps_step1_def]
      step_req [OF b73_build_steps_step2_def]
      step_req [OF b73_build_steps_step3_def]
      step_req [OF b73_build_steps_step4_def]
      step_req [OF b73_build_steps_step5_def]
      step_req [OF b73_build_steps_step6_def])

definition b73_swapin_window_apply :: "outcome io" where
  \<open>b73_swapin_window_apply =
    io_try is_fnf (io_bind (ctx_read b73_READAHEAD) (\<lambda>ra_text. io_bind (ctx_read b73_SWAP_STATE) (\<lambda>ss_text.
        io_bind (ctx_read b73_INTERNAL_H) (\<lambda>ih_text. io_ret (ra_text, ss_text, ih_text)))))
      (\<lambda>e. io_bind (exc_filename_io e) (\<lambda>name. io_ret (BlockedByShape, name @ '': file absent'')))
      (\<lambda>(ra_text, ss_text, ih_text).
    let marked = length (filter (contains b73_GROUP_MARKER) [ra_text, ss_text, ih_text]) in
    if marked = 3
    then io_ret (AlreadyPresent, ''the swap-in readahead window policy is already applied'')
    else
    if marked \<noteq> 0
    then io_ret (BlockedByShape, ''sailboat_swapin_readahead_window marker in only '' @
           py_str_nat marked @ '' of 3 files; refusing to patch a partially applied tree'')
    else
    case find (\<lambda>(rel, anchor, what). \<not> contains anchor (if rel = b73_READAHEAD then ra_text else ss_text))
           [(b73_READAHEAD, b73_RA_TAIL_ANCHOR, ''EXPORT_SYMBOL(readahead_expand)''),
             (b73_SWAP_STATE, b73_SS_SWAPIN_OLD, ''__swapin_nr_pages() floor + return''),
             (b73_SWAP_STATE, b73_SS_CLUSTER_OLD, ''swapin_nr_pages() (cluster) return'')] of
      Some (rel, anchor, what) \<Rightarrow>
        io_ret (BlockedByShape, rel @ '': '' @ what @ '' not in the expected shape'')
    | None \<Rightarrow>
    apply_or_block b73_build_steps)\<close>

lemma b73_swapin_window_apply_txn: "transactional (\<lambda>_. {b73_READAHEAD, b73_SWAP_STATE, b73_INTERNAL_H}) b73_swapin_window_apply"
  unfolding b73_swapin_window_apply_def
  by (intro txn_intros safe_intros)
    (simp_all add: is_backup_code BACKUP_SUFFIX_def b73_build_steps_files b73_INTERNAL_H_def b73_READAHEAD_def b73_SWAP_STATE_def)

definition swapin_readahead_window_group :: group where
  \<open>swapin_readahead_window_group =
    \<lparr>key = ''swapin_readahead_window'',
     summary = ''put a tunable boost/shrink policy on the swap-in readahead window after the kernel\'s own floor: raise it to a power-of-two floor, cap it for the tasks the background classifier identifies, and expose the VMA-based swap-in switch (enable_vma_readahead) as swapin_vma_ra -- all arithmetic, no lock/sleep/allocation in the fault path'',
     commits = [''local policy on the 5.15.220 mm/swap_state.c window heuristic (no upstream commit; zram-only swap means the window is a decompression burst on the faulting CPUs)''],
     group_files = [b73_READAHEAD,
      b73_SWAP_STATE,
      b73_INTERNAL_H],
     apply_fn = b73_swapin_window_apply, hard = False\<rparr>\<close>

lemma swapin_readahead_window_group_declared [simp]: "well_declared swapin_readahead_window_group"
  by (rule well_declaredI [OF b73_swapin_window_apply_txn]) (simp_all add: is_backup_code BACKUP_SUFFIX_def swapin_readahead_window_group_def b73_INTERNAL_H_def b73_READAHEAD_def b73_SWAP_STATE_def)

definition b73_build_groups :: "group list" where
  \<open>b73_build_groups = [swapin_readahead_window_group]\<close>

end
