(* ===== verification/Batch74_Fault_Around.thy ===== *)
theory Batch74_Fault_Around
  imports Registry_Laws
begin

text \<open>
  The anchors, steps and groups of \<^verbatim>\<open>scripts/batch74_core_fault_around_app_policy.py\<close>, in source order.
\<close>

definition b74_MEMORY_C :: str where
  \<open>b74_MEMORY_C = ''mm/memory.c''\<close>

definition b74_MARKER :: str where
  \<open>b74_MARKER = ''sailboat_fault_around_app_policy''\<close>

definition b74_HOOK_CALL :: str where
  \<open>b74_HOOK_CALL = ''trace_android_vh_should_fault_around(vmf, &should_around);''\<close>

definition b74_CALL_SITE :: str where
  \<open>b74_CALL_SITE = ''abk_fa_adjust(&should_around);''\<close>

definition b74_ADJUST_DEF :: str where
  \<open>b74_ADJUST_DEF = ''static void abk_fa_adjust(bool *should_around)''\<close>

definition b74_UID_READ :: str where
  \<open>b74_UID_READ = ''from_kuid(&init_user_ns, current_uid())''\<close>

definition b74_BITMAP_DEF :: str where
  \<open>b74_BITMAP_DEF = ''static unsigned long abk_fa_app_bitmap[DIV_ROUND_UP(90000, BITS_PER_LONG)];''\<close>

definition b74_LOCK_DEF :: str where
  \<open>b74_LOCK_DEF = ''static DEFINE_MUTEX(abk_fa_app_lock);''\<close>

definition b74_PARAM_ENABLE :: str where
  \<open>b74_PARAM_ENABLE = ''module_param(fault_around_enable, bool, 0644);''\<close>

definition b74_PARAM_SYS_UID :: str where
  \<open>b74_PARAM_SYS_UID = ''module_param(fault_around_sys_uid, bool, 0644);''\<close>

definition b74_PARAM_APP_ONLY :: str where
  \<open>b74_PARAM_APP_ONLY = ''module_param(fault_around_app_only, bool, 0644);''\<close>

definition b74_PARAM_APP :: str where
  \<open>b74_PARAM_APP = ''module_param_cb(fault_around_app, &abk_fa_app_param_ops, NULL, 0644);''\<close>

definition b74_READ_BOUND :: str where
  \<open>b74_READ_BOUND = ''ABK_FA_APP_LIST_MAX''\<close>

definition b74_CLEAR_CALL :: str where
  \<open>b74_CLEAR_CALL = ''bitmap_zero(abk_fa_app_bitmap, 90000);''\<close>

definition b74_GATE_ENABLE :: str where
  \<open>b74_GATE_ENABLE = ''if (!READ_ONCE(fault_around_enable))''\<close>

definition b74_GATE_SYS_UID :: str where
  \<open>b74_GATE_SYS_UID = ''if (READ_ONCE(fault_around_sys_uid))''\<close>

definition b74_GATE_APP_ONLY :: str where
  \<open>b74_GATE_APP_ONLY = ''if (!READ_ONCE(fault_around_app_only) &&''\<close>

definition b74_POLICY_DRAFT :: str where
  \<open>b74_POLICY_DRAFT = block
     [[],
      ''/* sailboat_fault_around_app_policy */'',
      ''#define ABK_FA_APP_UID_BASE 10000'',
      ''#define ABK_FA_APP_UID_LAST 99999'',
      ''#define ABK_FA_APP_LIST_MAX 64'',
      [],
      ''static bool fault_around_enable __read_mostly = true;'',
      ''static bool fault_around_sys_uid __read_mostly = true;'',
      ''static bool fault_around_app_only __read_mostly;'',
      [],
      [],
      ''static unsigned long abk_fa_app_bitmap[DIV_ROUND_UP(90000, BITS_PER_LONG)];'',
      [],
      ''static DEFINE_MUTEX(abk_fa_app_lock);'',
      [],
      ''static uid_t abk_fa_current_uid(void)'',
      ''{'',
      ''    return from_kuid(&init_user_ns, current_uid());'',
      ''}'',
      [],
      ''static int abk_fa_app_set(const char *val, const struct kernel_param *kp)'',
      ''{'',
      ''    unsigned int uid;'',
      ''    int ret;'',
      [],
      ''    ret = kstrtouint(val, 10, &uid);'',
      ''    if (ret)'',
      ''        return ret;'',
      ''    if (uid && (uid < ABK_FA_APP_UID_BASE || uid > ABK_FA_APP_UID_LAST))'',
      ''        return -EINVAL;'',
      [],
      ''    mutex_lock(&abk_fa_app_lock);'',
      ''    if (!uid)'',
      ''        bitmap_zero(abk_fa_app_bitmap, 90000);'',
      ''    else'',
      ''        set_bit(uid - ABK_FA_APP_UID_BASE, abk_fa_app_bitmap);'',
      ''    mutex_unlock(&abk_fa_app_lock);'',
      [],
      ''    return 0;'',
      ''}'',
      [],
      ''static int abk_fa_app_get(char *buffer, const struct kernel_param *kp)'',
      ''{'',
      ''    unsigned int uid;'',
      ''    int len = 0;'',
      ''    int nr = 0;'',
      [],
      ''    mutex_lock(&abk_fa_app_lock);'',
      ''    for (uid = ABK_FA_APP_UID_BASE;'',
      ''         uid <= ABK_FA_APP_UID_LAST && nr < ABK_FA_APP_LIST_MAX; uid++) {'',
      ''        if (!test_bit(uid - ABK_FA_APP_UID_BASE, abk_fa_app_bitmap))'',
      ''            continue;'',
      ''        if (len > PAGE_SIZE - 16)'',
      ''            break;'',
      ''        len += scnprintf(buffer + len, PAGE_SIZE - len,'',
      ''                 nr ? ",%u" : "%u", uid);'',
      ''        nr++;'',
      ''    }'',
      ''    mutex_unlock(&abk_fa_app_lock);'',
      [],
      (''    len += scnprintf(buffer + len, PAGE_SIZE - len, "'' @ [BSL] @ ''n");''),
      ''    return len;'',
      ''}'',
      [],
      ''static const struct kernel_param_ops abk_fa_app_param_ops = {'',
      ''    .set = abk_fa_app_set,'',
      ''    .get = abk_fa_app_get,'',
      ''};'',
      [],
      ''module_param(fault_around_enable, bool, 0644);'',
      ''MODULE_PARM_DESC(fault_around_enable,'',
      ''    "read fault-around uid policy on (default 1)");'',
      ''module_param(fault_around_sys_uid, bool, 0644);'',
      ''MODULE_PARM_DESC(fault_around_sys_uid,'',
      ''    "suppress fault-around for system uids below 10000 (default 1)");'',
      ''module_param(fault_around_app_only, bool, 0644);'',
      ''MODULE_PARM_DESC(fault_around_app_only,'',
      ''    "1: the fault_around_app list is not consulted at all; 0: a listed uid loses fault-around (default 0)");'',
      ''module_param_cb(fault_around_app, &abk_fa_app_param_ops, NULL, 0644);'',
      ''MODULE_PARM_DESC(fault_around_app,'',
      ''    "uid excluded from fault-around, [10000, 99999]; write 0 to clear, read the first 64");'',
      [],
      ''static void abk_fa_adjust(bool *should_around)'',
      ''{'',
      ''    uid_t uid;'',
      [],
      ''    if (!*should_around)'',
      ''        return;'',
      ''    if (!READ_ONCE(fault_around_enable))'',
      ''        return;'',
      [],
      ''    uid = abk_fa_current_uid();'',
      ''    if (uid < ABK_FA_APP_UID_BASE) {'',
      ''        if (READ_ONCE(fault_around_sys_uid))'',
      ''            *should_around = false;'',
      ''        return;'',
      ''    }'',
      ''    if (uid > ABK_FA_APP_UID_LAST)'',
      ''        return;'',
      ''    if (!READ_ONCE(fault_around_app_only) &&'',
      ''        test_bit(uid - ABK_FA_APP_UID_BASE, abk_fa_app_bitmap))'',
      ''        *should_around = false;'',
      ''}'',
      []]\<close>

definition b74_POLICY_BLOCK :: str where
  \<open>b74_POLICY_BLOCK = lstrip_nl (tabs (b74_POLICY_DRAFT))\<close>

definition b74_DEF_OLD :: str where
  \<open>b74_DEF_OLD = block
     [''static vm_fault_t do_read_fault(struct vm_fault *vmf)'',
      ''{'',
      ''	struct vm_area_struct *vma = vmf->vma;'',
      ''	vm_fault_t ret = 0;'',
      ''	bool should_around = true;'',
      []]\<close>

definition b74_DEF_NEW :: str where
  \<open>b74_DEF_NEW = b74_POLICY_BLOCK @
   block
     [[],
      []] @
   b74_DEF_OLD\<close>

definition b74_CALL_OLD :: str where
  \<open>b74_CALL_OLD = block
     [''	trace_android_vh_should_fault_around(vmf, &should_around);'',
      ''	if (vma->vm_ops->map_pages && fault_around_bytes >> PAGE_SHIFT > 1 && should_around) {'',
      []]\<close>

definition b74_CALL_NEW :: str where
  \<open>b74_CALL_NEW = block
     [''	trace_android_vh_should_fault_around(vmf, &should_around);'',
      ''	/* sailboat_fault_around_app_policy */'',
      ''	abk_fa_adjust(&should_around);'',
      ''	if (vma->vm_ops->map_pages && fault_around_bytes >> PAGE_SHIFT > 1 && should_around) {'',
      []]\<close>

definition b74_DO_READ_FAULT_PROBE :: str where
  \<open>b74_DO_READ_FAULT_PROBE = ''static vm_fault_t do_read_fault(struct vm_fault *vmf)''\<close>

definition b74_build_steps_step1 :: step where
  \<open>b74_build_steps_step1 =
   (b74_MEMORY_C,
    b74_DEF_OLD,
    b74_DEF_NEW, True)\<close>

definition b74_build_steps_step2 :: step where
  \<open>b74_build_steps_step2 =
   (b74_MEMORY_C,
    b74_CALL_OLD,
    b74_CALL_NEW, True)\<close>

definition b74_build_steps :: "step list" where
  \<open>b74_build_steps = [b74_build_steps_step1, b74_build_steps_step2]\<close>

lemma b74_build_steps_files: "steps_files b74_build_steps = {b74_MEMORY_C}"
  by (simp add: b74_build_steps_def steps_files_fst insert_commute
      step_file [OF b74_build_steps_step1_def]
      step_file [OF b74_build_steps_step2_def])

lemma b74_build_steps_required: "all_required b74_build_steps"
  by (simp add: b74_build_steps_def all_required_def
      step_req [OF b74_build_steps_step1_def]
      step_req [OF b74_build_steps_step2_def])

definition b74_fault_around_app_policy_apply :: "outcome io" where
  \<open>b74_fault_around_app_policy_apply =
    io_try is_oserror (ctx_read b74_MEMORY_C)
      (\<lambda>e. io_ret (BlockedByShape, b74_MEMORY_C @
      '': file absent''))
      (\<lambda>text.
    if contains b74_ADJUST_DEF text \<or> contains b74_BITMAP_DEF text
    then
      if contains b74_MARKER text
      then io_ret (AlreadyPresent, ''the fault-around uid policy is already applied'')
      else
      io_ret (BlockedByShape, b74_MEMORY_C @
      '': the policy block is present but its '' @
      b74_MARKER @
      '' marker is not; refusing rather than inserting a second copy'')
    else
    case find (\<lambda>needle. \<not> contains needle text)
          [(b74_DO_READ_FAULT_PROBE),
           (b74_HOOK_CALL)] of
        Some needle \<Rightarrow> io_ret (BlockedByShape, b74_MEMORY_C @ '': '' @ (before_paren needle) @ '' not found; this tree does not have the android_vh_should_fault_around call site the policy hangs off'')
      | None \<Rightarrow>
    apply_or_block b74_build_steps)\<close>

lemma b74_fault_around_app_policy_apply_txn: "transactional (\<lambda>_. {b74_MEMORY_C}) b74_fault_around_app_policy_apply"
  unfolding b74_fault_around_app_policy_apply_def
  by (intro txn_intros safe_intros)
    (simp_all add: is_backup_code BACKUP_SUFFIX_def b74_build_steps_files b74_MEMORY_C_def)

definition fault_around_app_policy_group :: group where
  \<open>fault_around_app_policy_group =
    \<lparr>key = ''fault_around_app_policy'',
     summary = ''do_read_fault() gains a per-uid read fault-around policy after the android_vh_should_fault_around hook: a 90000-bit app-uid bitmap (11.25 KiB .bss, lockless test_bit on the fault path, mutex on the list writers) plus four /sys/module/memory/parameters knobs, defaulting to performance-first -- fault-around on for the whole app uid range (10000-99999), suppressed only for the system range, exclusion list empty'',
     commits = [''no upstream commit: project policy over the tree\'s existing android_vh_should_fault_around call site in mm/memory.c''],
     group_files = [b74_MEMORY_C],
     apply_fn = b74_fault_around_app_policy_apply, hard = False\<rparr>\<close>

lemma fault_around_app_policy_group_declared [simp]: "well_declared fault_around_app_policy_group"
  by (rule well_declaredI [OF b74_fault_around_app_policy_apply_txn]) (simp_all add: is_backup_code BACKUP_SUFFIX_def fault_around_app_policy_group_def b74_MEMORY_C_def)

definition b74_build_groups :: "group list" where
  \<open>b74_build_groups = [fault_around_app_policy_group]\<close>

end
