(* ===== verification/Core_Registry.thy ===== *)
theory Core_Registry
  imports Core_Fd Core_Page_Reserves Core_Cpuset_Cgroup Core_Mglru Core_Zram Core_Config Core_Madvise_Laws Core_Fallback Core_Readahead Core_Batch Core_Late Batch14_Zram_Writeback Batch15_Fs_Pid Batch15_Mm_Hotpaths Batch17_Zram_Writeback Batch24_Zram_Max_Pages Core_Batch_Files Core_Batch_Zram Batch35_Pagecache Batch36_Memcg_Stats Batch37_Reclaim_Paths Batch38_Mm_Safety Batch40_Erofs_Readahead Batch49_Mglru_Reclaim Core_Batch_Late Batch73_Swapin_Window Batch74_Fault_Around
begin

text \<open>
  The registry of \<^verbatim>\<open>scripts/abk_stable_core.py\<close>: every group of \<open>PATCH_GROUPS\<close> with its key,
  summary, commits, declared files and function, and the whole list in registration order.
\<close>

definition fdtable_alloc_conventions_group :: group where
  \<open>fdtable_alloc_conventions_group =
    \<lparr>key = ''fdtable_alloc_conventions'',
     summary = ''alloc_fdtable() slots_wanted/ERR_PTR conventions + INT_MAX guard (5.15.191)'',
     commits = [''04a2c4b4511d (5.15.191)'',
      ''1d3b4bec3ce5 (5.15.191)''],
     group_files = [''fs/file.c''],
     apply_fn = fdtable_apply, hard = True\<rparr>\<close>

lemma fdtable_alloc_conventions_group_declared [simp]: "well_declared fdtable_alloc_conventions_group"
  by (rule well_declaredI [OF fdtable_apply_txn]) (simp_all add: is_backup_code BACKUP_SUFFIX_def fdtable_alloc_conventions_group_def)

definition fdtable_replace_fd_errno_group :: group where
  \<open>fdtable_replace_fd_errno_group =
    \<lparr>key = ''fdtable_replace_fd_errno'',
     summary = ''replace_fd() returns 0 instead of do_dup2()\'s positive fd (5.15.195)'',
     commits = [''ff8ec0dbe0150 (5.15.195)''],
     group_files = [''fs/file.c''],
     apply_fn = replace_fd_errno_apply, hard = False\<rparr>\<close>

lemma fdtable_replace_fd_errno_group_declared [simp]: "well_declared fdtable_replace_fd_errno_group"
  by (rule well_declaredI [OF replace_fd_errno_apply_txn]) (simp_all add: is_backup_code BACKUP_SUFFIX_def fdtable_replace_fd_errno_group_def)

definition pagealloc_min_reserve_semantics_group :: group where
  \<open>pagealloc_min_reserve_semantics_group =
    \<lparr>key = ''pagealloc_min_reserve_semantics'',
     summary = ''ALLOC_HIGH -> ALLOC_MIN_RESERVE with RT tasks treated as __GFP_HIGH (5.15.171)'',
     commits = [''92e52ff398b5 (5.15.171)'',
      ''9da195a2d35b (5.15.171)''],
     group_files = [''mm/internal.h'',
      ''mm/page_alloc.c''],
     apply_fn = min_reserve_apply, hard = False\<rparr>\<close>

lemma pagealloc_min_reserve_semantics_group_declared [simp]: "well_declared pagealloc_min_reserve_semantics_group"
  by (rule well_declaredI [OF min_reserve_apply_txn]) (simp_all add: is_backup_code BACKUP_SUFFIX_def pagealloc_min_reserve_semantics_group_def)

definition pagealloc_highatomic_reserve_semantics_group :: group where
  \<open>pagealloc_highatomic_reserve_semantics_group =
    \<lparr>key = ''pagealloc_highatomic_reserve_semantics'',
     summary = ''high-atomic reserve semantics: ALLOC_NON_BLOCK/ALLOC_HIGHATOMIC/ALLOC_RESERVES with explicit watermark access rules (5.15.188-.218)'',
     commits = [''ca8527f25736 (5.15.188, base already in AOSP)'',
      ''c1b8856c5a7d (5.15.189)'',
      ''17dedfd6de69 (5.15.190)'',
      ''85f58ee33c6c (5.15.191)'',
      ''4c4e238d3ada (5.15.199)'',
      ''735457683e23 (5.15.218)''],
     group_files = [''mm/internal.h'',
      ''mm/page_alloc.c''],
     apply_fn = highatomic_reserve_apply, hard = False\<rparr>\<close>

lemma pagealloc_highatomic_reserve_semantics_group_declared [simp]: "well_declared pagealloc_highatomic_reserve_semantics_group"
  by (rule well_declaredI [OF highatomic_reserve_apply_txn]) (simp_all add: is_backup_code BACKUP_SUFFIX_def pagealloc_highatomic_reserve_semantics_group_def)

definition pagealloc_thisnode_thp_noreclaim_group :: group where
  \<open>pagealloc_thisnode_thp_noreclaim_group =
    \<lparr>key = ''pagealloc_thisnode_thp_noreclaim'',
     summary = ''THP __GFP_THISNODE allocations compact only, never direct-reclaim (5.15.202)'',
     commits = [''0eac511c7657 (5.15.202)''],
     group_files = [''mm/page_alloc.c''],
     apply_fn = thisnode_thp_apply, hard = False\<rparr>\<close>

lemma pagealloc_thisnode_thp_noreclaim_group_declared [simp]: "well_declared pagealloc_thisnode_thp_noreclaim_group"
  by (rule well_declaredI [OF thisnode_thp_apply_txn]) (simp_all add: is_backup_code BACKUP_SUFFIX_def pagealloc_thisnode_thp_noreclaim_group_def)

definition pagealloc_cpuset_bailout_group :: group where
  \<open>pagealloc_cpuset_bailout_group =
    \<lparr>key = ''pagealloc_cpuset_bailout'',
     summary = ''bail out early when cpuset forbids every suitable zone (5.15.191)'',
     commits = [''c635a42d9b74 (5.15.191)''],
     group_files = [''include/linux/cpuset.h'',
      ''include/linux/mmzone.h'',
      ''kernel/cgroup/cpuset.c'',
      ''mm/page_alloc.c''],
     apply_fn = cpuset_bailout_apply, hard = False\<rparr>\<close>

lemma pagealloc_cpuset_bailout_group_declared [simp]: "well_declared pagealloc_cpuset_bailout_group"
  by (rule well_declaredI [OF cpuset_bailout_apply_txn]) (simp_all add: is_backup_code BACKUP_SUFFIX_def pagealloc_cpuset_bailout_group_def)

definition pagealloc_high_fraction_lockfree_group :: group where
  \<open>pagealloc_high_fraction_lockfree_group =
    \<lparr>key = ''pagealloc_high_fraction_lockfree'',
     summary = ''percpu_pagelist_high_fraction reads without pcp_batch_high_lock (5.15.200)'',
     commits = [''eda99622e6f3 (5.15.200)''],
     group_files = [''mm/page_alloc.c''],
     apply_fn = pagelist_lockfree_apply, hard = False\<rparr>\<close>

lemma pagealloc_high_fraction_lockfree_group_declared [simp]: "well_declared pagealloc_high_fraction_lockfree_group"
  by (rule well_declaredI [OF pagelist_lockfree_apply_txn]) (simp_all add: is_backup_code BACKUP_SUFFIX_def pagealloc_high_fraction_lockfree_group_def)

definition cgroup_root_list_rcu_group :: group where
  \<open>cgroup_root_list_rcu_group =
    \<lparr>key = ''cgroup_root_list_rcu'',
     summary = ''cgroup root_list traversal and teardown become RCU-safe (5.15.168)'',
     commits = [''de77545c72c4 (5.15.168)''],
     group_files = [''include/linux/cgroup-defs.h'',
      ''kernel/cgroup/cgroup-internal.h'',
      ''kernel/cgroup/cgroup.c''],
     apply_fn = cgroup_rcu_apply, hard = False\<rparr>\<close>

lemma cgroup_root_list_rcu_group_declared [simp]: "well_declared cgroup_root_list_rcu_group"
  by (rule well_declaredI [OF cgroup_rcu_apply_txn]) (simp_all add: is_backup_code BACKUP_SUFFIX_def cgroup_root_list_rcu_group_def)

definition zram_recompression_group :: group where
  \<open>zram_recompression_group =
    \<lparr>key = ''zram_recompression'',
     summary = ''zram multi-compression streams: idle/small page in-place recompression via a second compressor (android15-6.6 / 6.2 recompression series)'',
     commits = [''ACK android15-6.6 zram recompression (6.2 series; ZRAM_MULTI_COMP + ZRAM_TRACK_ENTRY_ACTIME)''],
     group_files = [''drivers/block/zram/Kconfig'',
      ''drivers/block/zram/zram_drv.h'',
      ''drivers/block/zram/zram_drv.c'',
      ''mm/zsmalloc.c'',
      ''include/linux/zsmalloc.h''],
     apply_fn = zram_recompression_apply, hard = False\<rparr>\<close>

lemma zram_recompression_group_declared [simp]: "well_declared zram_recompression_group"
  by (rule well_declaredI [OF zram_recompression_apply_txn]) (simp_all add: is_backup_code BACKUP_SUFFIX_def zram_recompression_group_def)

definition cgroup_destroy_wq_split_group :: group where
  \<open>cgroup_destroy_wq_split_group =
    \<lparr>key = ''cgroup_destroy_wq_split'',
     summary = ''split cgroup_destroy_wq into offline/release/free workqueues (5.15.194)'',
     commits = [''f2795d1b9250 (5.15.194)''],
     group_files = [''kernel/cgroup/cgroup.c''],
     apply_fn = cgroup_wq_split_apply, hard = False\<rparr>\<close>

lemma cgroup_destroy_wq_split_group_declared [simp]: "well_declared cgroup_destroy_wq_split_group"
  by (rule well_declaredI [OF cgroup_wq_split_apply_txn]) (simp_all add: is_backup_code BACKUP_SUFFIX_def cgroup_destroy_wq_split_group_def)

definition memcg_memory_reclaim_group :: group where
  \<open>memcg_memory_reclaim_group =
    \<lparr>key = ''memcg_memory_reclaim'',
     summary = ''per-memcg proactive reclaim via memory.reclaim, with reclaim options replacing may_swap (android14-6.1 / 6.1.y), documented in the cgroup v2 manual'',
     commits = [''memory.reclaim series (android14-6.1; mainline proactive reclaim)''],
     group_files = [''include/linux/swap.h'',
      ''mm/vmscan.c'',
      ''mm/memcontrol.c'',
      ''Documentation/admin-guide/cgroup-v2.rst''],
     apply_fn = memcg_reclaim_apply, hard = False\<rparr>\<close>

lemma memcg_memory_reclaim_group_declared [simp]: "well_declared memcg_memory_reclaim_group"
  by (rule well_declaredI [OF memcg_reclaim_apply_txn]) (simp_all add: is_backup_code BACKUP_SUFFIX_def memcg_memory_reclaim_group_def)

definition mglru_clean_workingset_group :: group where
  \<open>mglru_clean_workingset_group =
    \<lparr>key = ''mglru_clean_workingset'',
     summary = ''MGLRU v4: workingset_refault() lock assertion covers the MGLRU path too (v6.14 9cbfd1c3c83b; the test_recent restructure has no 6.1-shape counterpart)'',
     commits = [''9cbfd1c3c83b (v6.14)''],
     group_files = [''mm/workingset.c''],
     apply_fn = mglru_clean_workingset_apply, hard = False\<rparr>\<close>

lemma mglru_clean_workingset_group_declared [simp]: "well_declared mglru_clean_workingset_group"
  by (rule well_declaredI [OF mglru_clean_workingset_apply_txn]) (simp_all add: is_backup_code BACKUP_SUFFIX_def mglru_clean_workingset_group_def)

definition mglru_optimize_deactivation_group :: group where
  \<open>mglru_optimize_deactivation_group =
    \<lparr>key = ''mglru_optimize_deactivation'',
     summary = ''MGLRU v4: deactivation clears LRU_REFS in place and skips the LRU shuffle when the page is in the oldest generation (v6.14 cc8ec7be78ff, re-authored onto pagevec drain)'',
     commits = [''cc8ec7be78ff (v6.14)''],
     group_files = [''mm/swap.c''],
     apply_fn = mglru_optimize_deactivation_apply, hard = False\<rparr>\<close>

lemma mglru_optimize_deactivation_group_declared [simp]: "well_declared mglru_optimize_deactivation_group"
  by (rule well_declaredI [OF mglru_optimize_deactivation_apply_txn]) (simp_all add: is_backup_code BACKUP_SUFFIX_def mglru_optimize_deactivation_group_def)

definition mglru_rework_aging_feedback_group :: group where
  \<open>mglru_rework_aging_feedback_group =
    \<lparr>key = ''mglru_rework_aging_feedback'',
     summary = ''MGLRU v4: min_seq[] may drift by MAX_NR_GENS-MIN_NR_GENS-1, protected[] gains tier 0, full int swappiness with the >MAX_SWAPPINESS anon-only sentinel, simpler aging feedback (v6.14 798c0330c2ca)'',
     commits = [''798c0330c2ca (v6.14)''],
     group_files = [''include/linux/swap.h'',
      ''include/linux/mmzone.h'',
      ''mm/vmscan.c''],
     apply_fn = mglru_rework_aging_feedback_apply, hard = False\<rparr>\<close>

lemma mglru_rework_aging_feedback_group_declared [simp]: "well_declared mglru_rework_aging_feedback_group"
  by (rule well_declaredI [OF mglru_rework_aging_feedback_apply_txn]) (simp_all add: is_backup_code BACKUP_SUFFIX_def mglru_rework_aging_feedback_group_def)

definition mglru_rework_type_selection_group :: group where
  \<open>mglru_rework_type_selection_group =
    \<lparr>key = ''mglru_rework_type_selection'',
     summary = ''MGLRU v4: type selection sums all tiers per type, tightens the tier margin to 2:3, and reads full-protection history (v6.14 37a260870f2c; needs mglru_rework_aging_feedback)'',
     commits = [''37a260870f2c (v6.14)''],
     group_files = [''mm/vmscan.c''],
     apply_fn = mglru_rework_type_selection_apply, hard = False\<rparr>\<close>

lemma mglru_rework_type_selection_group_declared [simp]: "well_declared mglru_rework_type_selection_group"
  by (rule well_declaredI [OF mglru_rework_type_selection_apply_txn]) (simp_all add: is_backup_code BACKUP_SUFFIX_def mglru_rework_type_selection_group_def)

definition mglru_rework_refault_detection_group :: group where
  \<open>mglru_rework_refault_detection_group =
    \<lparr>key = ''mglru_rework_refault_detection'',
     summary = ''MGLRU v4: refault recency accepts any eviction within the last MAX_NR_GENS generations instead of an exact min_seq match (v6.14 b1a71694fb00; the TPC-C -57% workingset_refault_file result)'',
     commits = [''b1a71694fb00 (v6.14)''],
     group_files = [''mm/workingset.c''],
     apply_fn = mglru_rework_refault_detection_apply, hard = False\<rparr>\<close>

lemma mglru_rework_refault_detection_group_declared [simp]: "well_declared mglru_rework_refault_detection_group"
  by (rule well_declaredI [OF mglru_rework_refault_detection_apply_txn]) (simp_all add: is_backup_code BACKUP_SUFFIX_def mglru_rework_refault_detection_group_def)

definition mglru_wake_flushers_group :: group where
  \<open>mglru_wake_flushers_group =
    \<lparr>key = ''mglru_wake_flushers'',
     summary = ''MGLRU: wake flushers when every file page taken in a reclaim cycle is unqueued dirty, keeping dirty-tail cgroups from memcg OOM (v6.13 1bc542c6a0d1)'',
     commits = [''1bc542c6a0d1 (v6.13)''],
     group_files = [''mm/vmscan.c''],
     apply_fn = mglru_wake_flushers_apply, hard = False\<rparr>\<close>

lemma mglru_wake_flushers_group_declared [simp]: "well_declared mglru_wake_flushers_group"
  by (rule well_declaredI [OF mglru_wake_flushers_apply_txn]) (simp_all add: is_backup_code BACKUP_SUFFIX_def mglru_wake_flushers_group_def)

definition core_groups_3262 :: "group list" where
  \<open>core_groups_3262 = [fdtable_alloc_conventions_group, fdtable_replace_fd_errno_group, pagealloc_min_reserve_semantics_group, pagealloc_highatomic_reserve_semantics_group, pagealloc_thisnode_thp_noreclaim_group, pagealloc_cpuset_bailout_group, pagealloc_high_fraction_lockfree_group, cgroup_root_list_rcu_group, zram_recompression_group, cgroup_destroy_wq_split_group, memcg_memory_reclaim_group, mglru_clean_workingset_group, mglru_optimize_deactivation_group, mglru_rework_aging_feedback_group, mglru_rework_type_selection_group, mglru_rework_refault_detection_group, mglru_wake_flushers_group]\<close>

definition config_enablement_group :: group where
  \<open>config_enablement_group =
    \<lparr>key = ''config_enablement'',
     summary = ''enable the module-owned zram recompression symbols in the build defconfig, optionally aligning with the android15-6.6 GKI config'',
     commits = [''ABK config lane: android15-6.6 gki_defconfig symbols absent from every android13-5.15 baseline''],
     group_files = [''arch/arm64/configs/gki_defconfig''],
     apply_fn = config_enablement_apply, hard = False\<rparr>\<close>

definition zsmalloc_chain_size_group :: group where
  \<open>zsmalloc_chain_size_group =
    \<lparr>key = ''zsmalloc_chain_size'',
     summary = ''make the zspage chain length a CONFIG_ZSMALLOC_CHAIN_SIZE bound chosen for minimal absolute waste (android15-6.6 / 6.2 class sizing)'',
     commits = [''ACK android15-6.6 zsmalloc chain size (6.2 series; not in android14-6.1)''],
     group_files = [''mm/Kconfig'',
      ''mm/zsmalloc.c''],
     apply_fn = zsmalloc_chain_size_apply, hard = False\<rparr>\<close>

lemma zsmalloc_chain_size_group_declared [simp]: "well_declared zsmalloc_chain_size_group"
  by (rule well_declaredI [OF zsmalloc_chain_size_apply_txn]) (simp_all add: is_backup_code BACKUP_SUFFIX_def zsmalloc_chain_size_group_def)

definition madvise_collapse_group :: group where
  \<open>madvise_collapse_group =
    \<lparr>key = ''madvise_collapse'',
     summary = ''synchronous THP collapse via MADV_COLLAPSE (android14-6.1), driven by the existing 5.15 khugepaged scan helpers'',
     commits = [''MADV_COLLAPSE series (android14-6.1 / mainline 6.1)'',
      ''ACK android15-6.6 same form''],
     group_files = [''include/uapi/asm-generic/mman-common.h'',
      ''include/linux/huge_mm.h'',
      ''mm/madvise.c'',
      ''mm/khugepaged.c''],
     apply_fn = madvise_collapse_apply, hard = False\<rparr>\<close>

lemma madvise_collapse_group_declared [simp]: "well_declared madvise_collapse_group"
  by (rule well_declaredI [OF madvise_collapse_apply_txn]) (simp_all add: is_backup_code BACKUP_SUFFIX_def madvise_collapse_group_def madvise_scope_def)

definition core_groups_3850 :: "group list" where
  \<open>core_groups_3850 = [config_enablement_group, zsmalloc_chain_size_group, madvise_collapse_group]\<close>

definition pagealloc_fallback_reuse_group :: group where
  \<open>pagealloc_fallback_reuse_group =
    \<lparr>key = ''pagealloc_fallback_reuse'',
     summary = ''reuse rmqueue fallback modes across rmqueue_bulk() and avoid repeated claimability scans (android15-6.6 / 6.12)'',
     commits = [''e8400a074123 (android15-6.6 rmqueue_bulk fallback mode reuse)'',
      ''0b8d16680d9f (android15-6.6 find_suitable_fallback cleanup)''],
     group_files = [''mm/page_alloc.c'',
      ''mm/compaction.c'',
      ''mm/internal.h''],
     apply_fn = pagealloc_fallback_reuse_apply, hard = False\<rparr>\<close>

lemma pagealloc_fallback_reuse_group_declared [simp]: "well_declared pagealloc_fallback_reuse_group"
  by (rule well_declaredI [OF pagealloc_fallback_reuse_apply_txn]) (simp_all add: is_backup_code BACKUP_SUFFIX_def pagealloc_fallback_reuse_group_def)

definition rcu_nocb_cpu_default_all_group :: group where
  \<open>rcu_nocb_cpu_default_all_group =
    \<lparr>key = ''rcu_nocb_cpu_default_all'',
     summary = ''add an opt-in default mask that offloads RCU callbacks from every CPU (upstream rcu/nocb)'',
     commits = [''b37a667c6242 (rcu/nocb: add an option to offload all CPUs on boot)''],
     group_files = [''Documentation/admin-guide/kernel-parameters.txt'',
      ''kernel/rcu/Kconfig'',
      ''kernel/rcu/tree_nocb.h''],
     apply_fn = rcu_nocb_cpu_default_all_apply, hard = False\<rparr>\<close>

lemma rcu_nocb_cpu_default_all_group_declared [simp]: "well_declared rcu_nocb_cpu_default_all_group"
  by (rule well_declaredI [OF rcu_nocb_cpu_default_all_apply_txn]) (simp_all add: is_backup_code BACKUP_SUFFIX_def rcu_nocb_cpu_default_all_group_def)

definition core_groups_4407 :: "group list" where
  \<open>core_groups_4407 = [pagealloc_fallback_reuse_group, rcu_nocb_cpu_default_all_group]\<close>

definition dynamic_readahead_lowmem_group :: group where
  \<open>dynamic_readahead_lowmem_group =
    \<lparr>key = ''dynamic_readahead_lowmem'',
     summary = ''dynamic readahead: register low-memory background readahead/mmap read-around caps via the android vendor hooks (OPLUS mi_dynamic_readahead, GKI built-in)'',
     commits = [''OPLUS mi_dynamic_readahead kernel module'',
      ''(Xiaomi xiaomi-modules/mi_dynamic_readahead, dijun-v-oss)''],
     group_files = [''mm/readahead.c'',
      ''mm/Kconfig''],
     apply_fn = dynamic_readahead_apply, hard = False\<rparr>\<close>

lemma dynamic_readahead_lowmem_group_declared [simp]: "well_declared dynamic_readahead_lowmem_group"
  by (rule well_declaredI [OF dynamic_readahead_apply_txn]) (simp_all add: is_backup_code BACKUP_SUFFIX_def dynamic_readahead_lowmem_group_def)

definition core_groups_4601 :: "group list" where
  \<open>core_groups_4601 = [dynamic_readahead_lowmem_group]\<close>

definition zram_async_recompress_group :: group where
  \<open>zram_async_recompress_group =
    \<lparr>key = ''zram_async_recompress'',
     summary = ''zram async recompress: recompress_store gains async=1; candidate pages drain on a per-device kthread_worker (QPACE soft decoupling, plan A)'',
     commits = [''popsicle-w-oss zram_drv QPACE async skeleton (generic queue part)'',
      ''Batch 10-1 plan A design (plan.md)''],
     group_files = [''drivers/block/zram/zram_drv.c''],
     apply_fn = zram_async_recompress_apply, hard = False\<rparr>\<close>

lemma zram_async_recompress_group_declared [simp]: "well_declared zram_async_recompress_group"
  by (rule well_declaredI [OF zram_async_recompress_apply_txn]) (simp_all add: is_backup_code BACKUP_SUFFIX_def zram_async_recompress_group_def)

definition core_groups_4630 :: "group list" where
  \<open>core_groups_4630 = [zram_async_recompress_group]\<close>

definition cached_freeze_reclaim_group :: group where
  \<open>cached_freeze_reclaim_group =
    \<lparr>key = ''cached_freeze_reclaim'',
     summary = ''cached freeze reclaim: per-reclaim cfr_reclaim_* counters in memory.stat + abk_cfr_freeze/abk_cfr_thaw freezer tracepoints (Batch 10-3, generic memory-freeze name)'',
     commits = [''AOSP cached apps freezer (cgroup v2 freezer + memory.reclaim)'',
      ''Batch 10-3 semantics (plan.md)''],
     group_files = [''mm/vmscan.c'',
      ''mm/memcontrol.c''],
     apply_fn = cached_freeze_reclaim_apply, hard = False\<rparr>\<close>

lemma cached_freeze_reclaim_group_declared [simp]: "well_declared cached_freeze_reclaim_group"
  by (rule well_declaredI [OF cached_freeze_reclaim_apply_txn]) (simp_all add: is_backup_code BACKUP_SUFFIX_def cached_freeze_reclaim_group_def)

definition core_groups_4653 :: "group list" where
  \<open>core_groups_4653 = [cached_freeze_reclaim_group]\<close>

definition zram_secondary_comp_group :: group where
  \<open>zram_secondary_comp_group =
    \<lparr>key = ''zram_secondary_comp'',
     summary = ''zram secondary compressor registered at device creation, so ZRAM_MULTI_COMP recompression is no longer a silent no-op (zram.abk_recomp_algo, read-only 0444, default zstd)'',
     commits = [''Batch 10-1/10-4 on-device finding: recomp_algorithm empty, recompress paths no-op'',
      ''Batch 10-4 semantics (plan.md)''],
     group_files = [''drivers/block/zram/zram_drv.c''],
     apply_fn = zram_secondary_comp_apply, hard = False\<rparr>\<close>

lemma zram_secondary_comp_group_declared [simp]: "well_declared zram_secondary_comp_group"
  by (rule well_declaredI [OF zram_secondary_comp_apply_txn]) (simp_all add: is_backup_code BACKUP_SUFFIX_def zram_secondary_comp_group_def)

definition memcg_v1_reclaim_group :: group where
  \<open>memcg_v1_reclaim_group =
    \<lparr>key = ''memcg_v1_reclaim'',
     summary = ''cgroup-v1 proactive reclaim: memory.reclaim cftype + cfr_reclaim_* counters in memcg_stat_show, for devices whose memory controller is mounted v1'',
     commits = [''Batch 10-1/10-4 on-device finding: /sys/fs/cgroup memory controller absent, only /dev/memcg'',
      ''Batch 10-4 semantics (plan.md)''],
     group_files = [''mm/memcontrol.c''],
     apply_fn = memcg_v1_reclaim_apply, hard = False\<rparr>\<close>

lemma memcg_v1_reclaim_group_declared [simp]: "well_declared memcg_v1_reclaim_group"
  by (rule well_declaredI [OF memcg_v1_reclaim_apply_txn]) (simp_all add: is_backup_code BACKUP_SUFFIX_def memcg_v1_reclaim_group_def)

definition core_groups_4684 :: "group list" where
  \<open>core_groups_4684 = [zram_secondary_comp_group, memcg_v1_reclaim_group]\<close>

definition zram_algo_lock_group :: group where
  \<open>zram_algo_lock_group =
    \<lparr>key = ''zram_algo_lock'',
     summary = ''zram algorithm lock: primary chosen at device creation from the read-only zram.abk_comp_algo (default lz4kd), and later writes to comp_algorithm/recomp_algorithm are accepted and ignored (zram.abk_lock_algo, read-only 0444)'',
     commits = [''Batch 11 on-device finding: a root writer still switched comp_algorithm after boot (deflate), and the only repair path (swapoff+reset) drops any writeback backing device'',
      ''Batch 11 semantics (plan.md)''],
     group_files = [''drivers/block/zram/zram_drv.c''],
     apply_fn = zram_algo_lock_apply, hard = False\<rparr>\<close>

lemma zram_algo_lock_group_declared [simp]: "well_declared zram_algo_lock_group"
  by (rule well_declaredI [OF zram_algo_lock_apply_txn]) (simp_all add: is_backup_code BACKUP_SUFFIX_def zram_algo_lock_group_def)

definition core_groups_4717 :: "group list" where
  \<open>core_groups_4717 = [zram_algo_lock_group]\<close>

definition customize_alloc_gfp_vh_group :: group where
  \<open>customize_alloc_gfp_vh_group =
    \<lparr>key = ''customize_alloc_gfp_vh'',
     summary = ''android_vh_customize_alloc_gfp vendor hook grafted verbatim from android15-6.6 (4466afd69452): slowpath-entry gfp rewrite point (mm.h declare + page_alloc call + vendor_hooks export, no ABK marker)'',
     commits = [''4466afd694520 (android15-6.6, Bug 337192903)''],
     group_files = [''include/trace/hooks/mm.h'',
      ''mm/page_alloc.c'',
      ''drivers/android/vendor_hooks.c''],
     apply_fn = customize_alloc_gfp_vh_apply, hard = False\<rparr>\<close>

lemma customize_alloc_gfp_vh_group_declared [simp]: "well_declared customize_alloc_gfp_vh_group"
  by (rule well_declaredI [OF customize_alloc_gfp_vh_apply_txn]) (simp_all add: is_backup_code BACKUP_SUFFIX_def customize_alloc_gfp_vh_group_def)

definition gfp_pressure_fastfail_group :: group where
  \<open>gfp_pressure_fastfail_group =
    \<lparr>key = ''gfp_pressure_fastfail'',
     summary = ''high-order slowpath fast-fail under memory pressure: while available pages < page_alloc.abk_gfp_fastfail_pct% (default 50) of the summed high watermarks, slowpath attempts of order >= abk_gfp_fastfail_order (default 9: THP-class) gain __GFP_NORETRY|__GFP_NOWARN; abk_gfp_fastfail=0 switches off (ABK policy on the Batch 13 hook)'',
     commits = [''ABK Batch 13 policy (plan.md) on android_vh_customize_alloc_gfp''],
     group_files = [''include/trace/hooks/mm.h'',
      ''mm/page_alloc.c''],
     apply_fn = gfp_pressure_fastfail_apply, hard = False\<rparr>\<close>

lemma gfp_pressure_fastfail_group_declared [simp]: "well_declared gfp_pressure_fastfail_group"
  by (rule well_declaredI [OF gfp_pressure_fastfail_apply_txn]) (simp_all add: is_backup_code BACKUP_SUFFIX_def gfp_pressure_fastfail_group_def)

definition core_groups_4771 :: "group list" where
  \<open>core_groups_4771 = [customize_alloc_gfp_vh_group, gfp_pressure_fastfail_group]\<close>

definition arm64_pte_mkwrite_clean_group :: group where
  \<open>arm64_pte_mkwrite_clean_group =
    \<lparr>key = ''arm64_pte_mkwrite_clean'',
     summary = ''arm64 pte_mkwrite() stops dirtying a clean PTE, so a writable mapping can report clean and an unwritten page is not written back at reclaim (5.15.196; mainline 143937ca51cc, v6.18)'',
     commits = [''8a2375b0e9b8 (5.15.196)'',
      ''143937ca51cc (v6.18)''],
     group_files = [''arch/arm64/include/asm/pgtable.h''],
     apply_fn = arm64_pte_mkwrite_clean_apply, hard = False\<rparr>\<close>

lemma arm64_pte_mkwrite_clean_group_declared [simp]: "well_declared arm64_pte_mkwrite_clean_group"
  by (rule well_declaredI [OF arm64_pte_mkwrite_clean_apply_txn]) (simp_all add: is_backup_code BACKUP_SUFFIX_def arm64_pte_mkwrite_clean_group_def)

definition core_groups_4852 :: "group list" where
  \<open>core_groups_4852 = [arm64_pte_mkwrite_clean_group]\<close>

definition vm_kcompressd_swapout_group :: group where
  \<open>vm_kcompressd_swapout_group =
    \<lparr>key = ''vm_kcompressd_swapout'',
     summary = ''kswapd\'s anonymous swap-out compression and writeback move to a per-node kcompressd thread, so reclaim latency no longer includes waiting for zram on every page; a full queue drains head-first so completion order keeps matching submission order (Kcompressd-Unofficial 0.5, no 5.15 upstream patch exists)'',
     commits = [''kcompressd-unofficial 0.5 (e4d131aaa669b6f, firelzrd/kcompressd-unofficial)''],
     group_files = [b41_PAGE_IO],
     apply_fn = vm_kcompressd_swapout_apply, hard = False\<rparr>\<close>

lemma vm_kcompressd_swapout_group_declared [simp]: "well_declared vm_kcompressd_swapout_group"
  by (rule well_declaredI [OF vm_kcompressd_swapout_apply_txn]) (simp_all add: is_backup_code BACKUP_SUFFIX_def vm_kcompressd_swapout_group_def b41_PAGE_IO_def)

definition core_groups_4924 :: "group list" where
  \<open>core_groups_4924 = [vm_kcompressd_swapout_group]\<close>

definition bg_readahead_tune_group :: group where
  \<open>bg_readahead_tune_group =
    \<lparr>key = ''bg_readahead_tune'',
     summary = ''background readahead suppression transcribed from Xiaomi\'s iorap2 launch-boost module (mi_lb_* family, driver v3.0.0) -- the policy\'s always-on half: tasks in the "background" cpuset cgroup past their launch burst (nvcsw > abk_bg_ra_nvcsw_min, default 99) lose fault-around and async mmap readahead, get the ondemand_readahead cap halved (ra_pages/2) and the mmap read-around window shrunk (start pgoff-ra/4, size ra/2, async ra/8) through the four ACK vendor hooks this tree already fires; runtime knobs at /sys/module/filemap/parameters/abk_bg_ra_{suppress,nvcsw_min}. The upstream per-UID exemption table and the collect/compile/preread half stay out (userspace contract; Stage-2 candidate)'',
     commits = [''Xiaomi iorap2.ko mi_lb policy (research/ decompile: sym.should_skip_fault_around, sym.mi_lb_skip_async_mmap_readahead, sym.adjust_readahead, sym.adjust_readaround)''],
     group_files = [''mm/filemap.c''],
     apply_fn = bg_readahead_tune_apply, hard = False\<rparr>\<close>

lemma bg_readahead_tune_group_declared [simp]: "well_declared bg_readahead_tune_group"
  by (rule well_declaredI [OF bg_readahead_tune_apply_txn]) (simp_all add: is_backup_code BACKUP_SUFFIX_def bg_readahead_tune_group_def)

definition core_groups_5077 :: "group list" where
  \<open>core_groups_5077 = [bg_readahead_tune_group]\<close>

definition bg_launch_prefetch_group :: group where
  \<open>bg_launch_prefetch_group =
    \<lparr>key = ''bg_launch_prefetch'',
     summary = ''Stage 2 of the iorap2 port: the collect/preread loop rebuilt kernel-side, daemon-free.  While a UID\'s record window is open (write the UID to abk_lp_record_uid; abk_lp_record_ms long), android_vh_filemap_read + android_vh_filemap_map_pages snapshot the touched pages of that UID\'s files into inline 4096-page bitmaps keyed by (dev, ino, mtime, uid); the app\'s next launch (young task, nvcsw < abk_lp_young_max) replays them as page_cache_sync_readahead() from the should_fault_around and filemap_read hooks under a per-record cooldown, and a UID written to abk_lp_prefetch_uid queues a workqueue kick that filp_open()s each recorded path and prefetches it pre-launch.  4096 static slots, LRU eviction, no allocation on any fault path, no stored pointers (UAF-free by construction).  Knobs at /sys/module/filemap/parameters/abk_lp_*.'',
     commits = [''Xiaomi iorap2.ko mi_lb collection (research/ decompile: sym.mi_lb_pagecache_collect, sym.mi_lb_ioctl -- the ioctl/iorapd handshake replaced by module knobs)''],
     group_files = [''mm/filemap.c''],
     apply_fn = bg_launch_prefetch_apply, hard = False\<rparr>\<close>

lemma bg_launch_prefetch_group_declared [simp]: "well_declared bg_launch_prefetch_group"
  by (rule well_declaredI [OF bg_launch_prefetch_apply_txn]) (simp_all add: is_backup_code BACKUP_SUFFIX_def bg_launch_prefetch_group_def)

definition core_groups_5540 :: "group list" where
  \<open>core_groups_5540 = [bg_launch_prefetch_group]\<close>

definition CORE_FILES :: "path list" where
  \<comment> \<open>every file some group declares\<close>
  "CORE_FILES =
     [''Documentation/admin-guide/cgroup-v2.rst'',
      ''Documentation/admin-guide/kernel-parameters.txt'',
      ''arch/arm64/configs/gki_defconfig'',
      ''arch/arm64/include/asm/percpu.h'',
      ''arch/arm64/include/asm/pgtable.h'',
      ''drivers/android/vendor_hooks.c'',
      ''drivers/block/zram/Kconfig'',
      ''drivers/block/zram/zram_drv.c'',
      ''drivers/block/zram/zram_drv.h'',
      ''fs/erofs/compress.h'',
      ''fs/erofs/decompressor.c'',
      ''fs/erofs/decompressor_lzma.c'',
      ''fs/erofs/zdata.c'',
      ''fs/erofs/zdata.h'',
      ''fs/file.c'',
      ''fs/fuse/file.c'',
      ''fs/proc/task_mmu.c'',
      ''include/linux/cgroup-defs.h'',
      ''include/linux/cpuset.h'',
      ''include/linux/huge_mm.h'',
      ''include/linux/memcontrol.h'',
      ''include/linux/mm_inline.h'',
      ''include/linux/mmzone.h'',
      ''include/linux/swap.h'',
      ''include/linux/zsmalloc.h'',
      ''include/trace/hooks/mm.h'',
      ''include/uapi/asm-generic/mman-common.h'',
      ''kernel/cgroup/cgroup-internal.h'',
      ''kernel/cgroup/cgroup.c'',
      ''kernel/cgroup/cpuset.c'',
      ''kernel/pid.c'',
      ''kernel/rcu/Kconfig'',
      ''kernel/rcu/tree_nocb.h'',
      ''mm/Kconfig'',
      ''mm/compaction.c'',
      ''mm/filemap.c'',
      ''mm/huge_memory.c'',
      ''mm/internal.h'',
      ''mm/khugepaged.c'',
      ''mm/madvise.c'',
      ''mm/memcontrol.c'',
      ''mm/memory.c'',
      ''mm/page_alloc.c'',
      ''mm/page_io.c'',
      ''mm/readahead.c'',
      ''mm/slub.c'',
      ''mm/swap.c'',
      ''mm/swap_state.c'',
      ''mm/truncate.c'',
      ''mm/vmscan.c'',
      ''mm/vmstat.c'',
      ''mm/workingset.c'',
      ''mm/zsmalloc.c'']"

lemma core_groups_3262_declared: "\<forall>G \<in> set core_groups_3262. well_declared G"
  by (simp add: core_groups_3262_def)

lemma core_groups_3262_keys: "map key core_groups_3262 = [''fdtable_alloc_conventions'', ''fdtable_replace_fd_errno'', ''pagealloc_min_reserve_semantics'', ''pagealloc_highatomic_reserve_semantics'', ''pagealloc_thisnode_thp_noreclaim'', ''pagealloc_cpuset_bailout'', ''pagealloc_high_fraction_lockfree'', ''cgroup_root_list_rcu'', ''zram_recompression'', ''cgroup_destroy_wq_split'', ''memcg_memory_reclaim'', ''mglru_clean_workingset'', ''mglru_optimize_deactivation'', ''mglru_rework_aging_feedback'', ''mglru_rework_type_selection'', ''mglru_rework_refault_detection'', ''mglru_wake_flushers'']"
  by (simp add: core_groups_3262_def key_of [OF fdtable_alloc_conventions_group_def] key_of [OF fdtable_replace_fd_errno_group_def] key_of [OF pagealloc_min_reserve_semantics_group_def] key_of [OF pagealloc_highatomic_reserve_semantics_group_def] key_of [OF pagealloc_thisnode_thp_noreclaim_group_def] key_of [OF pagealloc_cpuset_bailout_group_def] key_of [OF pagealloc_high_fraction_lockfree_group_def] key_of [OF cgroup_root_list_rcu_group_def] key_of [OF zram_recompression_group_def] key_of [OF cgroup_destroy_wq_split_group_def] key_of [OF memcg_memory_reclaim_group_def] key_of [OF mglru_clean_workingset_group_def] key_of [OF mglru_optimize_deactivation_group_def] key_of [OF mglru_rework_aging_feedback_group_def] key_of [OF mglru_rework_type_selection_group_def] key_of [OF mglru_rework_refault_detection_group_def] key_of [OF mglru_wake_flushers_group_def])

lemma core_groups_3262_files: "registry_files core_groups_3262 \<subseteq> set CORE_FILES"
  by (simp add: registry_files_def core_groups_3262_def CORE_FILES_def
      files_of [OF fdtable_alloc_conventions_group_def] files_of [OF fdtable_replace_fd_errno_group_def] files_of [OF pagealloc_min_reserve_semantics_group_def] files_of [OF pagealloc_highatomic_reserve_semantics_group_def] files_of [OF pagealloc_thisnode_thp_noreclaim_group_def] files_of [OF pagealloc_cpuset_bailout_group_def] files_of [OF pagealloc_high_fraction_lockfree_group_def] files_of [OF cgroup_root_list_rcu_group_def] files_of [OF zram_recompression_group_def] files_of [OF cgroup_destroy_wq_split_group_def] files_of [OF memcg_memory_reclaim_group_def] files_of [OF mglru_clean_workingset_group_def] files_of [OF mglru_optimize_deactivation_group_def] files_of [OF mglru_rework_aging_feedback_group_def] files_of [OF mglru_rework_type_selection_group_def] files_of [OF mglru_rework_refault_detection_group_def] files_of [OF mglru_wake_flushers_group_def])

lemma core_groups_3262_soft: "\<forall>G \<in> set core_groups_3262. hard G \<longrightarrow> key G = ''fdtable_alloc_conventions''"
  by (simp add: core_groups_3262_def
      hard_of [OF fdtable_alloc_conventions_group_def] hard_of [OF fdtable_replace_fd_errno_group_def] hard_of [OF pagealloc_min_reserve_semantics_group_def] hard_of [OF pagealloc_highatomic_reserve_semantics_group_def] hard_of [OF pagealloc_thisnode_thp_noreclaim_group_def] hard_of [OF pagealloc_cpuset_bailout_group_def] hard_of [OF pagealloc_high_fraction_lockfree_group_def] hard_of [OF cgroup_root_list_rcu_group_def] hard_of [OF zram_recompression_group_def] hard_of [OF cgroup_destroy_wq_split_group_def] hard_of [OF memcg_memory_reclaim_group_def] hard_of [OF mglru_clean_workingset_group_def] hard_of [OF mglru_optimize_deactivation_group_def] hard_of [OF mglru_rework_aging_feedback_group_def] hard_of [OF mglru_rework_type_selection_group_def] hard_of [OF mglru_rework_refault_detection_group_def] hard_of [OF mglru_wake_flushers_group_def]
      key_of [OF fdtable_alloc_conventions_group_def])

lemma core_groups_3850_declared: "\<forall>G \<in> set core_groups_3850. G \<noteq> config_enablement_group \<longrightarrow> well_declared G"
  by (simp add: core_groups_3850_def)

lemma core_groups_3850_keys: "map key core_groups_3850 = [''config_enablement'', ''zsmalloc_chain_size'', ''madvise_collapse'']"
  by (simp add: core_groups_3850_def key_of [OF config_enablement_group_def] key_of [OF zsmalloc_chain_size_group_def] key_of [OF madvise_collapse_group_def])

lemma core_groups_3850_files: "registry_files core_groups_3850 \<subseteq> set CORE_FILES"
  by (simp add: registry_files_def core_groups_3850_def CORE_FILES_def
      files_of [OF config_enablement_group_def] files_of [OF zsmalloc_chain_size_group_def] files_of [OF madvise_collapse_group_def])

lemma core_groups_3850_soft: "\<forall>G \<in> set core_groups_3850. hard G \<longrightarrow> key G = ''fdtable_alloc_conventions''"
  by (simp add: core_groups_3850_def
      hard_of [OF config_enablement_group_def] hard_of [OF zsmalloc_chain_size_group_def] hard_of [OF madvise_collapse_group_def]
      )

lemma core_groups_4407_declared: "\<forall>G \<in> set core_groups_4407. well_declared G"
  by (simp add: core_groups_4407_def)

lemma core_groups_4407_keys: "map key core_groups_4407 = [''pagealloc_fallback_reuse'', ''rcu_nocb_cpu_default_all'']"
  by (simp add: core_groups_4407_def key_of [OF pagealloc_fallback_reuse_group_def] key_of [OF rcu_nocb_cpu_default_all_group_def])

lemma core_groups_4407_files: "registry_files core_groups_4407 \<subseteq> set CORE_FILES"
  by (simp add: registry_files_def core_groups_4407_def CORE_FILES_def
      files_of [OF pagealloc_fallback_reuse_group_def] files_of [OF rcu_nocb_cpu_default_all_group_def])

lemma core_groups_4407_soft: "\<forall>G \<in> set core_groups_4407. hard G \<longrightarrow> key G = ''fdtable_alloc_conventions''"
  by (simp add: core_groups_4407_def
      hard_of [OF pagealloc_fallback_reuse_group_def] hard_of [OF rcu_nocb_cpu_default_all_group_def]
      )

lemma core_groups_4601_declared: "\<forall>G \<in> set core_groups_4601. well_declared G"
  by (simp add: core_groups_4601_def)

lemma core_groups_4601_keys: "map key core_groups_4601 = [''dynamic_readahead_lowmem'']"
  by (simp add: core_groups_4601_def key_of [OF dynamic_readahead_lowmem_group_def])

lemma core_groups_4601_files: "registry_files core_groups_4601 \<subseteq> set CORE_FILES"
  by (simp add: registry_files_def core_groups_4601_def CORE_FILES_def
      files_of [OF dynamic_readahead_lowmem_group_def])

lemma core_groups_4601_soft: "\<forall>G \<in> set core_groups_4601. hard G \<longrightarrow> key G = ''fdtable_alloc_conventions''"
  by (simp add: core_groups_4601_def
      hard_of [OF dynamic_readahead_lowmem_group_def]
      )

lemma core_groups_4630_declared: "\<forall>G \<in> set core_groups_4630. well_declared G"
  by (simp add: core_groups_4630_def)

lemma core_groups_4630_keys: "map key core_groups_4630 = [''zram_async_recompress'']"
  by (simp add: core_groups_4630_def key_of [OF zram_async_recompress_group_def])

lemma core_groups_4630_files: "registry_files core_groups_4630 \<subseteq> set CORE_FILES"
  by (simp add: registry_files_def core_groups_4630_def CORE_FILES_def
      files_of [OF zram_async_recompress_group_def])

lemma core_groups_4630_soft: "\<forall>G \<in> set core_groups_4630. hard G \<longrightarrow> key G = ''fdtable_alloc_conventions''"
  by (simp add: core_groups_4630_def
      hard_of [OF zram_async_recompress_group_def]
      )

lemma core_groups_4653_declared: "\<forall>G \<in> set core_groups_4653. well_declared G"
  by (simp add: core_groups_4653_def)

lemma core_groups_4653_keys: "map key core_groups_4653 = [''cached_freeze_reclaim'']"
  by (simp add: core_groups_4653_def key_of [OF cached_freeze_reclaim_group_def])

lemma core_groups_4653_files: "registry_files core_groups_4653 \<subseteq> set CORE_FILES"
  by (simp add: registry_files_def core_groups_4653_def CORE_FILES_def
      files_of [OF cached_freeze_reclaim_group_def])

lemma core_groups_4653_soft: "\<forall>G \<in> set core_groups_4653. hard G \<longrightarrow> key G = ''fdtable_alloc_conventions''"
  by (simp add: core_groups_4653_def
      hard_of [OF cached_freeze_reclaim_group_def]
      )

lemma core_groups_4684_declared: "\<forall>G \<in> set core_groups_4684. well_declared G"
  by (simp add: core_groups_4684_def)

lemma core_groups_4684_keys: "map key core_groups_4684 = [''zram_secondary_comp'', ''memcg_v1_reclaim'']"
  by (simp add: core_groups_4684_def key_of [OF zram_secondary_comp_group_def] key_of [OF memcg_v1_reclaim_group_def])

lemma core_groups_4684_files: "registry_files core_groups_4684 \<subseteq> set CORE_FILES"
  by (simp add: registry_files_def core_groups_4684_def CORE_FILES_def
      files_of [OF zram_secondary_comp_group_def] files_of [OF memcg_v1_reclaim_group_def])

lemma core_groups_4684_soft: "\<forall>G \<in> set core_groups_4684. hard G \<longrightarrow> key G = ''fdtable_alloc_conventions''"
  by (simp add: core_groups_4684_def
      hard_of [OF zram_secondary_comp_group_def] hard_of [OF memcg_v1_reclaim_group_def]
      )

lemma core_groups_4717_declared: "\<forall>G \<in> set core_groups_4717. well_declared G"
  by (simp add: core_groups_4717_def)

lemma core_groups_4717_keys: "map key core_groups_4717 = [''zram_algo_lock'']"
  by (simp add: core_groups_4717_def key_of [OF zram_algo_lock_group_def])

lemma core_groups_4717_files: "registry_files core_groups_4717 \<subseteq> set CORE_FILES"
  by (simp add: registry_files_def core_groups_4717_def CORE_FILES_def
      files_of [OF zram_algo_lock_group_def])

lemma core_groups_4717_soft: "\<forall>G \<in> set core_groups_4717. hard G \<longrightarrow> key G = ''fdtable_alloc_conventions''"
  by (simp add: core_groups_4717_def
      hard_of [OF zram_algo_lock_group_def]
      )

lemma core_groups_4771_declared: "\<forall>G \<in> set core_groups_4771. well_declared G"
  by (simp add: core_groups_4771_def)

lemma core_groups_4771_keys: "map key core_groups_4771 = [''customize_alloc_gfp_vh'', ''gfp_pressure_fastfail'']"
  by (simp add: core_groups_4771_def key_of [OF customize_alloc_gfp_vh_group_def] key_of [OF gfp_pressure_fastfail_group_def])

lemma core_groups_4771_files: "registry_files core_groups_4771 \<subseteq> set CORE_FILES"
  by (simp add: registry_files_def core_groups_4771_def CORE_FILES_def
      files_of [OF customize_alloc_gfp_vh_group_def] files_of [OF gfp_pressure_fastfail_group_def])

lemma core_groups_4771_soft: "\<forall>G \<in> set core_groups_4771. hard G \<longrightarrow> key G = ''fdtable_alloc_conventions''"
  by (simp add: core_groups_4771_def
      hard_of [OF customize_alloc_gfp_vh_group_def] hard_of [OF gfp_pressure_fastfail_group_def]
      )

lemma b14_build_groups_declared: "\<forall>G \<in> set b14_build_groups. well_declared G"
  by (simp add: b14_build_groups_def)

lemma b14_build_groups_keys: "map key b14_build_groups = [''zram_wb_teardown'', ''zram_writeback_bounds'', ''zram_wb_limit_align'']"
  by (simp add: b14_build_groups_def key_of [OF zram_wb_teardown_group_def] key_of [OF zram_writeback_bounds_group_def] key_of [OF zram_wb_limit_align_group_def])

lemma b14_build_groups_files: "registry_files b14_build_groups \<subseteq> set CORE_FILES"
  by (simp add: registry_files_def b14_build_groups_def CORE_FILES_def b14_ZRAM_C_def
      files_of [OF zram_wb_teardown_group_def] files_of [OF zram_writeback_bounds_group_def] files_of [OF zram_wb_limit_align_group_def])

lemma b14_build_groups_soft: "\<forall>G \<in> set b14_build_groups. hard G \<longrightarrow> key G = ''fdtable_alloc_conventions''"
  by (simp add: b14_build_groups_def
      hard_of [OF zram_wb_teardown_group_def] hard_of [OF zram_writeback_bounds_group_def] hard_of [OF zram_wb_limit_align_group_def]
      )

lemma b15f_build_groups_declared: "\<forall>G \<in> set b15f_build_groups. well_declared G"
  by (simp add: b15f_build_groups_def)

lemma b15f_build_groups_keys: "map key b15f_build_groups = [''pid_alloc_hotpath_phase2'', ''fd_alloc_hotpath'', ''close_range_hotpath'']"
  by (simp add: b15f_build_groups_def key_of [OF pid_alloc_hotpath_phase2_group_def] key_of [OF fd_alloc_hotpath_group_def] key_of [OF close_range_hotpath_group_def])

lemma b15f_build_groups_files: "registry_files b15f_build_groups \<subseteq> set CORE_FILES"
  by (simp add: registry_files_def b15f_build_groups_def CORE_FILES_def b15f_FILE_C_def b15f_PID_C_def
      files_of [OF pid_alloc_hotpath_phase2_group_def] files_of [OF fd_alloc_hotpath_group_def] files_of [OF close_range_hotpath_group_def])

lemma b15f_build_groups_soft: "\<forall>G \<in> set b15f_build_groups. hard G \<longrightarrow> key G = ''fdtable_alloc_conventions''"
  by (simp add: b15f_build_groups_def
      hard_of [OF pid_alloc_hotpath_phase2_group_def] hard_of [OF fd_alloc_hotpath_group_def] hard_of [OF close_range_hotpath_group_def]
      )

lemma b15m_build_groups_declared: "\<forall>G \<in> set b15m_build_groups. well_declared G"
  by (simp add: b15m_build_groups_def)

lemma b15m_build_groups_keys: "map key b15m_build_groups = [''slab_alloc_free_hotpath'', ''hugepage_fault_alloc_fastpath'']"
  by (simp add: b15m_build_groups_def key_of [OF slab_alloc_free_hotpath_group_def] key_of [OF hugepage_fault_alloc_fastpath_group_def])

lemma b15m_build_groups_files: "registry_files b15m_build_groups \<subseteq> set CORE_FILES"
  by (simp add: registry_files_def b15m_build_groups_def CORE_FILES_def b15m_HUGE_C_def b15m_MEMORY_C_def b15m_SLUB_C_def
      files_of [OF slab_alloc_free_hotpath_group_def] files_of [OF hugepage_fault_alloc_fastpath_group_def])

lemma b15m_build_groups_soft: "\<forall>G \<in> set b15m_build_groups. hard G \<longrightarrow> key G = ''fdtable_alloc_conventions''"
  by (simp add: b15m_build_groups_def
      hard_of [OF slab_alloc_free_hotpath_group_def] hard_of [OF hugepage_fault_alloc_fastpath_group_def]
      )

lemma b17_build_groups_declared: "\<forall>G \<in> set b17_build_groups. well_declared G"
  by (simp add: b17_build_groups_def)

lemma b17_build_groups_keys: "map key b17_build_groups = [''zram_writeback_batching'', ''zram_wb_batch_size'', ''zram_compressed_writeback'']"
  by (simp add: b17_build_groups_def key_of [OF zram_writeback_batching_group_def] key_of [OF zram_wb_batch_size_group_def] key_of [OF zram_compressed_writeback_group_def])

lemma b17_build_groups_files: "registry_files b17_build_groups \<subseteq> set CORE_FILES"
  by (simp add: registry_files_def b17_build_groups_def CORE_FILES_def b17_ZRAM_C_def b17_ZRAM_H_def
      files_of [OF zram_writeback_batching_group_def] files_of [OF zram_wb_batch_size_group_def] files_of [OF zram_compressed_writeback_group_def])

lemma b17_build_groups_soft: "\<forall>G \<in> set b17_build_groups. hard G \<longrightarrow> key G = ''fdtable_alloc_conventions''"
  by (simp add: b17_build_groups_def
      hard_of [OF zram_writeback_batching_group_def] hard_of [OF zram_wb_batch_size_group_def] hard_of [OF zram_compressed_writeback_group_def]
      )

lemma b24_build_groups_declared: "\<forall>G \<in> set b24_build_groups. well_declared G"
  by (simp add: b24_build_groups_def)

lemma b24_build_groups_keys: "map key b24_build_groups = [''zram_recompress_max_pages'']"
  by (simp add: b24_build_groups_def key_of [OF zram_recompress_max_pages_group_def])

lemma b24_build_groups_files: "registry_files b24_build_groups \<subseteq> set CORE_FILES"
  by (simp add: registry_files_def b24_build_groups_def CORE_FILES_def b24_ZRAM_C_def
      files_of [OF zram_recompress_max_pages_group_def])

lemma b24_build_groups_soft: "\<forall>G \<in> set b24_build_groups. hard G \<longrightarrow> key G = ''fdtable_alloc_conventions''"
  by (simp add: b24_build_groups_def
      hard_of [OF zram_recompress_max_pages_group_def]
      )

lemma b47_build_groups_declared: "\<forall>G \<in> set b47_build_groups. well_declared G"
  by (simp add: b47_build_groups_def)

lemma b47_build_groups_keys: "map key b47_build_groups = [''zram_recomp_best_prio_skip'']"
  by (simp add: b47_build_groups_def key_of [OF zram_recomp_best_prio_skip_group_def])

lemma b47_build_groups_files: "registry_files b47_build_groups \<subseteq> set CORE_FILES"
  by (simp add: registry_files_def b47_build_groups_def CORE_FILES_def b47_ZRAM_C_def
      files_of [OF zram_recomp_best_prio_skip_group_def])

lemma b47_build_groups_soft: "\<forall>G \<in> set b47_build_groups. hard G \<longrightarrow> key G = ''fdtable_alloc_conventions''"
  by (simp add: b47_build_groups_def
      hard_of [OF zram_recomp_best_prio_skip_group_def]
      )

lemma b30_build_groups_declared: "\<forall>G \<in> set b30_build_groups. well_declared G"
  by (simp add: b30_build_groups_def)

lemma b30_build_groups_keys: "map key b30_build_groups = [''readahead_mmap_miss_race'']"
  by (simp add: b30_build_groups_def key_of [OF readahead_mmap_miss_race_group_def])

lemma b30_build_groups_files: "registry_files b30_build_groups \<subseteq> set CORE_FILES"
  by (simp add: registry_files_def b30_build_groups_def CORE_FILES_def b30_FILEMAP_C_def
      files_of [OF readahead_mmap_miss_race_group_def])

lemma b30_build_groups_soft: "\<forall>G \<in> set b30_build_groups. hard G \<longrightarrow> key G = ''fdtable_alloc_conventions''"
  by (simp add: b30_build_groups_def
      hard_of [OF readahead_mmap_miss_race_group_def]
      )

lemma core_groups_4852_declared: "\<forall>G \<in> set core_groups_4852. well_declared G"
  by (simp add: core_groups_4852_def)

lemma core_groups_4852_keys: "map key core_groups_4852 = [''arm64_pte_mkwrite_clean'']"
  by (simp add: core_groups_4852_def key_of [OF arm64_pte_mkwrite_clean_group_def])

lemma core_groups_4852_files: "registry_files core_groups_4852 \<subseteq> set CORE_FILES"
  by (simp add: registry_files_def core_groups_4852_def CORE_FILES_def
      files_of [OF arm64_pte_mkwrite_clean_group_def])

lemma core_groups_4852_soft: "\<forall>G \<in> set core_groups_4852. hard G \<longrightarrow> key G = ''fdtable_alloc_conventions''"
  by (simp add: core_groups_4852_def
      hard_of [OF arm64_pte_mkwrite_clean_group_def]
      )

lemma b32_build_groups_declared: "\<forall>G \<in> set b32_build_groups. well_declared G"
  by (simp add: b32_build_groups_def)

lemma b32_build_groups_keys: "map key b32_build_groups = [''zram_wb_slot_preserve'']"
  by (simp add: b32_build_groups_def key_of [OF zram_wb_slot_preserve_group_def])

lemma b32_build_groups_files: "registry_files b32_build_groups \<subseteq> set CORE_FILES"
  by (simp add: registry_files_def b32_build_groups_def CORE_FILES_def b32_ZRAM_C_def
      files_of [OF zram_wb_slot_preserve_group_def])

lemma b32_build_groups_soft: "\<forall>G \<in> set b32_build_groups. hard G \<longrightarrow> key G = ''fdtable_alloc_conventions''"
  by (simp add: b32_build_groups_def
      hard_of [OF zram_wb_slot_preserve_group_def]
      )

lemma b33_build_groups_declared: "\<forall>G \<in> set b33_build_groups. well_declared G"
  by (simp add: b33_build_groups_def)

lemma b33_build_groups_keys: "map key b33_build_groups = [''zsmalloc_free_zspage_out_of_lock'']"
  by (simp add: b33_build_groups_def key_of [OF zsmalloc_free_zspage_out_of_lock_group_def])

lemma b33_build_groups_files: "registry_files b33_build_groups \<subseteq> set CORE_FILES"
  by (simp add: registry_files_def b33_build_groups_def CORE_FILES_def b33_ZSMALLOC_C_def
      files_of [OF zsmalloc_free_zspage_out_of_lock_group_def])

lemma b33_build_groups_soft: "\<forall>G \<in> set b33_build_groups. hard G \<longrightarrow> key G = ''fdtable_alloc_conventions''"
  by (simp add: b33_build_groups_def
      hard_of [OF zsmalloc_free_zspage_out_of_lock_group_def]
      )

lemma b35p_build_groups_declared: "\<forall>G \<in> set b35p_build_groups. well_declared G"
  by (simp add: b35p_build_groups_def)

lemma b35p_build_groups_keys: "map key b35p_build_groups = [''truncate_shadow_batch'', ''truncate_shadow_batch_sweep'']"
  by (simp add: b35p_build_groups_def key_of [OF truncate_shadow_batch_group_def] key_of [OF truncate_shadow_batch_sweep_group_def])

lemma b35p_build_groups_files: "registry_files b35p_build_groups \<subseteq> set CORE_FILES"
  by (simp add: registry_files_def b35p_build_groups_def CORE_FILES_def b35p_TRUNCATE_def
      files_of [OF truncate_shadow_batch_group_def] files_of [OF truncate_shadow_batch_sweep_group_def])

lemma b35p_build_groups_soft: "\<forall>G \<in> set b35p_build_groups. hard G \<longrightarrow> key G = ''fdtable_alloc_conventions''"
  by (simp add: b35p_build_groups_def
      hard_of [OF truncate_shadow_batch_group_def] hard_of [OF truncate_shadow_batch_sweep_group_def]
      )

lemma b34_build_groups_declared: "\<forall>G \<in> set b34_build_groups. well_declared G"
  by (simp add: b34_build_groups_def)

lemma b34_build_groups_keys: "map key b34_build_groups = [''arm64_lse_percpu_load_atomics'']"
  by (simp add: b34_build_groups_def key_of [OF arm64_lse_percpu_load_atomics_group_def])

lemma b34_build_groups_files: "registry_files b34_build_groups \<subseteq> set CORE_FILES"
  by (simp add: registry_files_def b34_build_groups_def CORE_FILES_def b34_PERCPU_H_def
      files_of [OF arm64_lse_percpu_load_atomics_group_def])

lemma b34_build_groups_soft: "\<forall>G \<in> set b34_build_groups. hard G \<longrightarrow> key G = ''fdtable_alloc_conventions''"
  by (simp add: b34_build_groups_def
      hard_of [OF arm64_lse_percpu_load_atomics_group_def]
      )

lemma b36_build_groups_declared: "\<forall>G \<in> set b36_build_groups. well_declared G"
  by (simp add: b36_build_groups_def)

lemma b36_build_groups_keys: "map key b36_build_groups = [''memcg_stats_percpu_slim'']"
  by (simp add: b36_build_groups_def key_of [OF memcg_stats_percpu_slim_group_def])

lemma b36_build_groups_files: "registry_files b36_build_groups \<subseteq> set CORE_FILES"
  by (simp add: registry_files_def b36_build_groups_def CORE_FILES_def b36_MEMCONTROL_C_def b36_MEMCONTROL_H_def
      files_of [OF memcg_stats_percpu_slim_group_def])

lemma b36_build_groups_soft: "\<forall>G \<in> set b36_build_groups. hard G \<longrightarrow> key G = ''fdtable_alloc_conventions''"
  by (simp add: b36_build_groups_def
      hard_of [OF memcg_stats_percpu_slim_group_def]
      )

lemma b35f_build_groups_declared: "\<forall>G \<in> set b35f_build_groups. well_declared G"
  by (simp add: b35f_build_groups_def)

lemma b35f_build_groups_keys: "map key b35f_build_groups = [''fuse_prefault_out_of_write_path'']"
  by (simp add: b35f_build_groups_def key_of [OF fuse_prefault_out_of_write_path_group_def])

lemma b35f_build_groups_files: "registry_files b35f_build_groups \<subseteq> set CORE_FILES"
  by (simp add: registry_files_def b35f_build_groups_def CORE_FILES_def b35f_FUSE_FILE_C_def
      files_of [OF fuse_prefault_out_of_write_path_group_def])

lemma b35f_build_groups_soft: "\<forall>G \<in> set b35f_build_groups. hard G \<longrightarrow> key G = ''fdtable_alloc_conventions''"
  by (simp add: b35f_build_groups_def
      hard_of [OF fuse_prefault_out_of_write_path_group_def]
      )

lemma b37_build_groups_declared: "\<forall>G \<in> set b37_build_groups. well_declared G"
  by (simp add: b37_build_groups_def)

lemma b37_build_groups_keys: "map key b37_build_groups = [''proactive_reclaim_batch_fidelity'', ''proactive_reclaim_decaying_batches'', ''reclaim_swappiness_defines'', ''proactive_reclaim_swappiness_arg'', ''proactive_reclaim_suspend_abort'', ''lru_add_drain_dead_folios'']"
  by (simp add: b37_build_groups_def key_of [OF proactive_reclaim_batch_fidelity_group_def] key_of [OF proactive_reclaim_decaying_batches_group_def] key_of [OF reclaim_swappiness_defines_group_def] key_of [OF proactive_reclaim_swappiness_arg_group_def] key_of [OF proactive_reclaim_suspend_abort_group_def] key_of [OF lru_add_drain_dead_folios_group_def])

lemma b37_build_groups_files: "registry_files b37_build_groups \<subseteq> set CORE_FILES"
  by (simp add: registry_files_def b37_build_groups_def CORE_FILES_def b37_CGROUP_V2_RST_def b37_MEMCONTROL_C_def b37_SWAP_C_def b37_SWAP_H_def b37_VMSCAN_C_def
      files_of [OF proactive_reclaim_batch_fidelity_group_def] files_of [OF proactive_reclaim_decaying_batches_group_def] files_of [OF reclaim_swappiness_defines_group_def] files_of [OF proactive_reclaim_swappiness_arg_group_def] files_of [OF proactive_reclaim_suspend_abort_group_def] files_of [OF lru_add_drain_dead_folios_group_def])

lemma b37_build_groups_soft: "\<forall>G \<in> set b37_build_groups. hard G \<longrightarrow> key G = ''fdtable_alloc_conventions''"
  by (simp add: b37_build_groups_def
      hard_of [OF proactive_reclaim_batch_fidelity_group_def] hard_of [OF proactive_reclaim_decaying_batches_group_def] hard_of [OF reclaim_swappiness_defines_group_def] hard_of [OF proactive_reclaim_swappiness_arg_group_def] hard_of [OF proactive_reclaim_suspend_abort_group_def] hard_of [OF lru_add_drain_dead_folios_group_def]
      )

lemma b38_build_groups_declared: "\<forall>G \<in> set b38_build_groups. well_declared G"
  by (simp add: b38_build_groups_def)

lemma b38_build_groups_keys: "map key b38_build_groups = [''huge_memory_imap_split_uaf'', ''swap_readahead_lru_add_drain'', ''vmscan_tasks_rcu_qs'', ''filemap_mmap_miss_tried'', ''memcg_dying_bailout'', ''buddyinfo_nolock'']"
  by (simp add: b38_build_groups_def key_of [OF huge_memory_imap_split_uaf_group_def] key_of [OF swap_readahead_lru_add_drain_group_def] key_of [OF vmscan_tasks_rcu_qs_group_def] key_of [OF filemap_mmap_miss_tried_group_def] key_of [OF memcg_dying_bailout_group_def] key_of [OF buddyinfo_nolock_group_def])

lemma b38_build_groups_files: "registry_files b38_build_groups \<subseteq> set CORE_FILES"
  by (simp add: registry_files_def b38_build_groups_def CORE_FILES_def b38_FILEMAP_C_def b38_HUGE_MEMORY_C_def b38_MEMCONTROL_C_def b38_MEMCONTROL_H_def b38_SWAP_STATE_C_def b38_VMSCAN_C_def b38_VMSTAT_C_def
      files_of [OF huge_memory_imap_split_uaf_group_def] files_of [OF swap_readahead_lru_add_drain_group_def] files_of [OF vmscan_tasks_rcu_qs_group_def] files_of [OF filemap_mmap_miss_tried_group_def] files_of [OF memcg_dying_bailout_group_def] files_of [OF buddyinfo_nolock_group_def])

lemma b38_build_groups_soft: "\<forall>G \<in> set b38_build_groups. hard G \<longrightarrow> key G = ''fdtable_alloc_conventions''"
  by (simp add: b38_build_groups_def
      hard_of [OF huge_memory_imap_split_uaf_group_def] hard_of [OF swap_readahead_lru_add_drain_group_def] hard_of [OF vmscan_tasks_rcu_qs_group_def] hard_of [OF filemap_mmap_miss_tried_group_def] hard_of [OF memcg_dying_bailout_group_def] hard_of [OF buddyinfo_nolock_group_def]
      )

lemma b39_build_groups_declared: "\<forall>G \<in> set b39_build_groups. well_declared G"
  by (simp add: b39_build_groups_def)

lemma b39_build_groups_keys: "map key b39_build_groups = [''pagealloc_batch_clear'']"
  by (simp add: b39_build_groups_def key_of [OF pagealloc_batch_clear_group_def])

lemma b39_build_groups_files: "registry_files b39_build_groups \<subseteq> set CORE_FILES"
  by (simp add: registry_files_def b39_build_groups_def CORE_FILES_def b39_PAGE_ALLOC_C_def
      files_of [OF pagealloc_batch_clear_group_def])

lemma b39_build_groups_soft: "\<forall>G \<in> set b39_build_groups. hard G \<longrightarrow> key G = ''fdtable_alloc_conventions''"
  by (simp add: b39_build_groups_def
      hard_of [OF pagealloc_batch_clear_group_def]
      )

lemma b40_build_groups_declared: "\<forall>G \<in> set b40_build_groups. well_declared G"
  by (simp add: b40_build_groups_def)

lemma b40_build_groups_keys: "map key b40_build_groups = [''erofs_readahead_relaxed_gfp'']"
  by (simp add: b40_build_groups_def key_of [OF erofs_readahead_relaxed_gfp_group_def])

lemma b40_build_groups_files: "registry_files b40_build_groups \<subseteq> set CORE_FILES"
  by (simp add: registry_files_def b40_build_groups_def CORE_FILES_def b40_COMPRESS_H_def b40_DECOMPRESSOR_C_def b40_DECOMPRESSOR_LZMA_C_def b40_ZDATA_C_def b40_ZDATA_H_def
      files_of [OF erofs_readahead_relaxed_gfp_group_def])

lemma b40_build_groups_soft: "\<forall>G \<in> set b40_build_groups. hard G \<longrightarrow> key G = ''fdtable_alloc_conventions''"
  by (simp add: b40_build_groups_def
      hard_of [OF erofs_readahead_relaxed_gfp_group_def]
      )

lemma core_groups_4924_declared: "\<forall>G \<in> set core_groups_4924. well_declared G"
  by (simp add: core_groups_4924_def)

lemma core_groups_4924_keys: "map key core_groups_4924 = [''vm_kcompressd_swapout'']"
  by (simp add: core_groups_4924_def key_of [OF vm_kcompressd_swapout_group_def])

lemma core_groups_4924_files: "registry_files core_groups_4924 \<subseteq> set CORE_FILES"
  by (simp add: registry_files_def core_groups_4924_def CORE_FILES_def b41_PAGE_IO_def
      files_of [OF vm_kcompressd_swapout_group_def])

lemma core_groups_4924_soft: "\<forall>G \<in> set core_groups_4924. hard G \<longrightarrow> key G = ''fdtable_alloc_conventions''"
  by (simp add: core_groups_4924_def
      hard_of [OF vm_kcompressd_swapout_group_def]
      )

lemma b46_build_groups_declared: "\<forall>G \<in> set b46_build_groups. well_declared G"
  by (simp add: b46_build_groups_def)

lemma b46_build_groups_keys: "map key b46_build_groups = [''erofs_readmore_past_eof'']"
  by (simp add: b46_build_groups_def key_of [OF erofs_readmore_past_eof_group_def])

lemma b46_build_groups_files: "registry_files b46_build_groups \<subseteq> set CORE_FILES"
  by (simp add: registry_files_def b46_build_groups_def CORE_FILES_def b46_ZDATA_C_def
      files_of [OF erofs_readmore_past_eof_group_def])

lemma b46_build_groups_soft: "\<forall>G \<in> set b46_build_groups. hard G \<longrightarrow> key G = ''fdtable_alloc_conventions''"
  by (simp add: b46_build_groups_def
      hard_of [OF erofs_readmore_past_eof_group_def]
      )

lemma b49_build_groups_declared: "\<forall>G \<in> set b49_build_groups. well_declared G"
  by (simp add: b49_build_groups_def)

lemma b49_build_groups_keys: "map key b49_build_groups = [''mglru_reclaim_loop_rework'', ''mglru_dirty_reclaim_rework'', ''mglru_prefault_accessed_placement'']"
  by (simp add: b49_build_groups_def key_of [OF mglru_reclaim_loop_rework_group_def] key_of [OF mglru_dirty_reclaim_rework_group_def] key_of [OF mglru_prefault_accessed_placement_group_def])

lemma b49_build_groups_files: "registry_files b49_build_groups \<subseteq> set CORE_FILES"
  by (simp add: registry_files_def b49_build_groups_def CORE_FILES_def b49_MM_INLINE_H_def b49_SWAP_C_def b49_VMSCAN_C_def b49_WORKINGSET_C_def
      files_of [OF mglru_reclaim_loop_rework_group_def] files_of [OF mglru_dirty_reclaim_rework_group_def] files_of [OF mglru_prefault_accessed_placement_group_def])

lemma b49_build_groups_soft: "\<forall>G \<in> set b49_build_groups. hard G \<longrightarrow> key G = ''fdtable_alloc_conventions''"
  by (simp add: b49_build_groups_def
      hard_of [OF mglru_reclaim_loop_rework_group_def] hard_of [OF mglru_dirty_reclaim_rework_group_def] hard_of [OF mglru_prefault_accessed_placement_group_def]
      )

lemma core_groups_5077_declared: "\<forall>G \<in> set core_groups_5077. well_declared G"
  by (simp add: core_groups_5077_def)

lemma core_groups_5077_keys: "map key core_groups_5077 = [''bg_readahead_tune'']"
  by (simp add: core_groups_5077_def key_of [OF bg_readahead_tune_group_def])

lemma core_groups_5077_files: "registry_files core_groups_5077 \<subseteq> set CORE_FILES"
  by (simp add: registry_files_def core_groups_5077_def CORE_FILES_def
      files_of [OF bg_readahead_tune_group_def])

lemma core_groups_5077_soft: "\<forall>G \<in> set core_groups_5077. hard G \<longrightarrow> key G = ''fdtable_alloc_conventions''"
  by (simp add: core_groups_5077_def
      hard_of [OF bg_readahead_tune_group_def]
      )

lemma core_groups_5540_declared: "\<forall>G \<in> set core_groups_5540. well_declared G"
  by (simp add: core_groups_5540_def)

lemma core_groups_5540_keys: "map key core_groups_5540 = [''bg_launch_prefetch'']"
  by (simp add: core_groups_5540_def key_of [OF bg_launch_prefetch_group_def])

lemma core_groups_5540_files: "registry_files core_groups_5540 \<subseteq> set CORE_FILES"
  by (simp add: registry_files_def core_groups_5540_def CORE_FILES_def
      files_of [OF bg_launch_prefetch_group_def])

lemma core_groups_5540_soft: "\<forall>G \<in> set core_groups_5540. hard G \<longrightarrow> key G = ''fdtable_alloc_conventions''"
  by (simp add: core_groups_5540_def
      hard_of [OF bg_launch_prefetch_group_def]
      )

lemma b70_build_groups_declared: "\<forall>G \<in> set b70_build_groups. well_declared G"
  by (simp add: b70_build_groups_def)

lemma b70_build_groups_keys: "map key b70_build_groups = [''smaps_migration_guard'']"
  by (simp add: b70_build_groups_def key_of [OF smaps_migration_guard_group_def])

lemma b70_build_groups_files: "registry_files b70_build_groups \<subseteq> set CORE_FILES"
  by (simp add: registry_files_def b70_build_groups_def CORE_FILES_def b70_TASK_MMU_def
      files_of [OF smaps_migration_guard_group_def])

lemma b70_build_groups_soft: "\<forall>G \<in> set b70_build_groups. hard G \<longrightarrow> key G = ''fdtable_alloc_conventions''"
  by (simp add: b70_build_groups_def
      hard_of [OF smaps_migration_guard_group_def]
      )

lemma b71_build_groups_declared: "\<forall>G \<in> set b71_build_groups. well_declared G"
  by (simp add: b71_build_groups_def)

lemma b71_build_groups_keys: "map key b71_build_groups = [''kcompressd_writeback_pin'']"
  by (simp add: b71_build_groups_def key_of [OF kcompressd_writeback_pin_group_def])

lemma b71_build_groups_files: "registry_files b71_build_groups \<subseteq> set CORE_FILES"
  by (simp add: registry_files_def b71_build_groups_def CORE_FILES_def b71_PAGE_IO_def
      files_of [OF kcompressd_writeback_pin_group_def])

lemma b71_build_groups_soft: "\<forall>G \<in> set b71_build_groups. hard G \<longrightarrow> key G = ''fdtable_alloc_conventions''"
  by (simp add: b71_build_groups_def
      hard_of [OF kcompressd_writeback_pin_group_def]
      )

lemma b72_build_groups_declared: "\<forall>G \<in> set b72_build_groups. well_declared G"
  by (simp add: b72_build_groups_def)

lemma b72_build_groups_keys: "map key b72_build_groups = [''kcompressd_swapcache_drop'']"
  by (simp add: b72_build_groups_def key_of [OF kcompressd_swapcache_drop_group_def])

lemma b72_build_groups_files: "registry_files b72_build_groups \<subseteq> set CORE_FILES"
  by (simp add: registry_files_def b72_build_groups_def CORE_FILES_def b72_VMSAN_def
      files_of [OF kcompressd_swapcache_drop_group_def])

lemma b72_build_groups_soft: "\<forall>G \<in> set b72_build_groups. hard G \<longrightarrow> key G = ''fdtable_alloc_conventions''"
  by (simp add: b72_build_groups_def
      hard_of [OF kcompressd_swapcache_drop_group_def]
      )

lemma b73_build_groups_declared: "\<forall>G \<in> set b73_build_groups. well_declared G"
  by (simp add: b73_build_groups_def)

lemma b73_build_groups_keys: "map key b73_build_groups = [''swapin_readahead_window'']"
  by (simp add: b73_build_groups_def key_of [OF swapin_readahead_window_group_def])

lemma b73_build_groups_files: "registry_files b73_build_groups \<subseteq> set CORE_FILES"
  by (simp add: registry_files_def b73_build_groups_def CORE_FILES_def b73_INTERNAL_H_def b73_READAHEAD_def b73_SWAP_STATE_def
      files_of [OF swapin_readahead_window_group_def])

lemma b73_build_groups_soft: "\<forall>G \<in> set b73_build_groups. hard G \<longrightarrow> key G = ''fdtable_alloc_conventions''"
  by (simp add: b73_build_groups_def
      hard_of [OF swapin_readahead_window_group_def]
      )

lemma b74_build_groups_declared: "\<forall>G \<in> set b74_build_groups. well_declared G"
  by (simp add: b74_build_groups_def)

lemma b74_build_groups_keys: "map key b74_build_groups = [''fault_around_app_policy'']"
  by (simp add: b74_build_groups_def key_of [OF fault_around_app_policy_group_def])

lemma b74_build_groups_files: "registry_files b74_build_groups \<subseteq> set CORE_FILES"
  by (simp add: registry_files_def b74_build_groups_def CORE_FILES_def b74_MEMORY_C_def
      files_of [OF fault_around_app_policy_group_def])

lemma b74_build_groups_soft: "\<forall>G \<in> set b74_build_groups. hard G \<longrightarrow> key G = ''fdtable_alloc_conventions''"
  by (simp add: b74_build_groups_def
      hard_of [OF fault_around_app_policy_group_def]
      )

definition CORE_PATCH_GROUPS :: "group list" where
  \<comment> \<open>\<open>PATCH_GROUPS\<close> after the module is loaded: every \<open>PATCH_GROUPS = PATCH_GROUPS + ...\<close> in order\<close>
  "CORE_PATCH_GROUPS =
      core_groups_3262 @
      core_groups_3850 @
      core_groups_4407 @
      core_groups_4601 @
      core_groups_4630 @
      core_groups_4653 @
      core_groups_4684 @
      core_groups_4717 @
      core_groups_4771 @
      b14_build_groups @
      b15f_build_groups @
      b15m_build_groups @
      b17_build_groups @
      b24_build_groups @
      b47_build_groups @
      b30_build_groups @
      core_groups_4852 @
      b32_build_groups @
      b33_build_groups @
      b35p_build_groups @
      b34_build_groups @
      b36_build_groups @
      b35f_build_groups @
      b37_build_groups @
      b38_build_groups @
      b39_build_groups @
      b40_build_groups @
      core_groups_4924 @
      b46_build_groups @
      b49_build_groups @
      core_groups_5077 @
      core_groups_5540 @
      b70_build_groups @
      b71_build_groups @
      b72_build_groups @
      b73_build_groups @
      b74_build_groups"

subsection \<open>The registry as a whole\<close>

lemma graft_config_enablement: "graft_prog defconfig_scope config_enablement_apply"
  unfolding config_enablement_apply_def Let_def
  by (intro safe_intros)

lemma config_enablement_confined: "confined config_enablement_group"
proof -
  have f: "group_files config_enablement_group = [''arch/arm64/configs/gki_defconfig'']"
    and a: "apply_fn config_enablement_group = config_enablement_apply"
    by (simp_all add: config_enablement_group_def)
  have "graft_prog (\<lambda>g. set (group_files config_enablement_group) \<union> defconfig_scope g)
      config_enablement_apply"
    by (rule graft_mono [OF graft_config_enablement]) auto
  with f a show ?thesis
    by (simp add: confined_def no_backup_def is_backup_code BACKUP_SUFFIX_def)
qed

lemmas core_group_keys = core_groups_3262_keys core_groups_3850_keys core_groups_4407_keys core_groups_4601_keys core_groups_4630_keys core_groups_4653_keys core_groups_4684_keys core_groups_4717_keys core_groups_4771_keys b14_build_groups_keys b15f_build_groups_keys b15m_build_groups_keys b17_build_groups_keys b24_build_groups_keys b47_build_groups_keys b30_build_groups_keys core_groups_4852_keys b32_build_groups_keys b33_build_groups_keys b35p_build_groups_keys b34_build_groups_keys b36_build_groups_keys b35f_build_groups_keys b37_build_groups_keys b38_build_groups_keys b39_build_groups_keys b40_build_groups_keys core_groups_4924_keys b46_build_groups_keys b49_build_groups_keys core_groups_5077_keys core_groups_5540_keys b70_build_groups_keys b71_build_groups_keys b72_build_groups_keys b73_build_groups_keys b74_build_groups_keys

lemmas core_groups_declared = core_groups_3262_declared core_groups_3850_declared core_groups_4407_declared core_groups_4601_declared core_groups_4630_declared core_groups_4653_declared core_groups_4684_declared core_groups_4717_declared core_groups_4771_declared b14_build_groups_declared b15f_build_groups_declared b15m_build_groups_declared b17_build_groups_declared b24_build_groups_declared b47_build_groups_declared b30_build_groups_declared core_groups_4852_declared b32_build_groups_declared b33_build_groups_declared b35p_build_groups_declared b34_build_groups_declared b36_build_groups_declared b35f_build_groups_declared b37_build_groups_declared b38_build_groups_declared b39_build_groups_declared b40_build_groups_declared core_groups_4924_declared b46_build_groups_declared b49_build_groups_declared core_groups_5077_declared core_groups_5540_declared b70_build_groups_declared b71_build_groups_declared b72_build_groups_declared b73_build_groups_declared b74_build_groups_declared

lemmas core_group_files = core_groups_3262_files core_groups_3850_files core_groups_4407_files core_groups_4601_files core_groups_4630_files core_groups_4653_files core_groups_4684_files core_groups_4717_files core_groups_4771_files b14_build_groups_files b15f_build_groups_files b15m_build_groups_files b17_build_groups_files b24_build_groups_files b47_build_groups_files b30_build_groups_files core_groups_4852_files b32_build_groups_files b33_build_groups_files b35p_build_groups_files b34_build_groups_files b36_build_groups_files b35f_build_groups_files b37_build_groups_files b38_build_groups_files b39_build_groups_files b40_build_groups_files core_groups_4924_files b46_build_groups_files b49_build_groups_files core_groups_5077_files core_groups_5540_files b70_build_groups_files b71_build_groups_files b72_build_groups_files b73_build_groups_files b74_build_groups_files

lemma core_files: "registry_files CORE_PATCH_GROUPS \<subseteq> set CORE_FILES"
  unfolding CORE_PATCH_GROUPS_def registry_files_append Un_subset_iff
  by (intro conjI core_group_files)

lemmas core_groups_soft = core_groups_3262_soft core_groups_3850_soft core_groups_4407_soft core_groups_4601_soft core_groups_4630_soft core_groups_4653_soft core_groups_4684_soft core_groups_4717_soft core_groups_4771_soft b14_build_groups_soft b15f_build_groups_soft b15m_build_groups_soft b17_build_groups_soft b24_build_groups_soft b47_build_groups_soft b30_build_groups_soft core_groups_4852_soft b32_build_groups_soft b33_build_groups_soft b35p_build_groups_soft b34_build_groups_soft b36_build_groups_soft b35f_build_groups_soft b37_build_groups_soft b38_build_groups_soft b39_build_groups_soft b40_build_groups_soft core_groups_4924_soft b46_build_groups_soft b49_build_groups_soft core_groups_5077_soft core_groups_5540_soft b70_build_groups_soft b71_build_groups_soft b72_build_groups_soft b73_build_groups_soft b74_build_groups_soft

lemma core_soft: "\<forall>G \<in> set CORE_PATCH_GROUPS. hard G \<longrightarrow> key G = ''fdtable_alloc_conventions''"
  unfolding CORE_PATCH_GROUPS_def set_append ball_Un
  by (intro conjI core_groups_soft)

lemma core_declared:
  "\<forall>G \<in> set CORE_PATCH_GROUPS. G \<noteq> config_enablement_group \<longrightarrow> well_declared G"
  unfolding CORE_PATCH_GROUPS_def set_append ball_Un
  using core_groups_declared by simp

lemma core_confined:
  assumes "G \<in> set CORE_PATCH_GROUPS"
  shows "confined G"
proof (cases "G = config_enablement_group")
  case True
  then show ?thesis by (simp only: config_enablement_confined)
next
  case False
  from core_declared [rule_format, OF assms False] show ?thesis by (rule well_declared_confined)
qed

lemma core_keys_distinct: "distinct (map key CORE_PATCH_GROUPS)"
  unfolding CORE_PATCH_GROUPS_def map_append core_group_keys
  by simp

interpretation core: registry CORE_PATCH_GROUPS
  by unfold_locales (simp_all add: core_keys_distinct core_confined)

text \<open>Every group but the defconfig lane is transactional.\<close>

definition CORE_TXN_GROUPS :: "group list" where
  "CORE_TXN_GROUPS = filter (\<lambda>G. key G \<noteq> ''config_enablement'') CORE_PATCH_GROUPS"

interpretation core_txn: txn_registry CORE_TXN_GROUPS
proof unfold_locales
  show "distinct (map key CORE_TXN_GROUPS)"
    unfolding CORE_TXN_GROUPS_def by (rule distinct_map_filter) (rule core_keys_distinct)
  fix G
  assume "G \<in> set CORE_TXN_GROUPS"
  then have G: "G \<in> set CORE_PATCH_GROUPS" and "key G \<noteq> ''config_enablement''"
    unfolding CORE_TXN_GROUPS_def set_filter by simp_all
  then have "G \<noteq> config_enablement_group"
    using key_of [OF config_enablement_group_def] by metis
  with core_declared G show "well_declared G" by blast
qed

end
