(* ===== verification/Display_Registry.thy ===== *)
theory Display_Registry
  imports Registry_Laws
begin

text \<open>
  The registry of \<^verbatim>\<open>scripts/abk_stable_display.py\<close>: one group, the revert of the
  5.15.185 valid-clones check.
\<close>

definition VC_FN_OLD :: str where
  \<open>VC_FN_OLD = block
     [''		if (mode_status != MODE_OK)'',
      ''			return -EINVAL;'',
      ''	}'',
      [],
      ''	return 0;'',
      ''}'',
      [],
      ''static int drm_atomic_check_valid_clones(struct drm_atomic_state *state,'',
      ''					 struct drm_crtc *crtc)'',
      ''{'',
      ''	struct drm_encoder *drm_enc;'',
      ''	struct drm_crtc_state *crtc_state = drm_atomic_get_new_crtc_state(state,'',
      ''									  crtc);'',
      [],
      ''	drm_for_each_encoder_mask(drm_enc, crtc->dev, crtc_state->encoder_mask) {'',
      ''		if (!drm_enc->possible_clones) {'',
      (''			DRM_DEBUG("enc%d possible_clones is 0'' @ [BSL] @ ''n", drm_enc->base.id);''),
      ''			continue;'',
      ''		}'',
      [],
      ''		if ((crtc_state->encoder_mask & drm_enc->possible_clones) !='',
      ''		    crtc_state->encoder_mask) {'',
      (''			DRM_DEBUG("crtc%d failed valid clone check for mask 0x%x'' @ [BSL] @ ''n",''),
      ''				  crtc->base.id, crtc_state->encoder_mask);'',
      ''			return -EINVAL;'',
      ''		}'',
      ''	}'',
      [],
      ''	return 0;'',
      ''}'',
      [],
      ''/**'',
      '' * drm_atomic_helper_check_modeset - validate state object for modeset changes'',
      []]\<close>

definition VC_FN_NEW :: str where
  \<open>VC_FN_NEW = block
     [''		if (mode_status != MODE_OK)'',
      ''			return -EINVAL;'',
      ''	}'',
      [],
      ''	return 0;'',
      ''}'',
      [],
      ''/**'',
      '' * drm_atomic_helper_check_modeset - validate state object for modeset changes'',
      []]\<close>

definition VC_CALL_OLD :: str where
  \<open>VC_CALL_OLD = block
     [''		ret = drm_atomic_add_affected_planes(state, crtc);'',
      ''		if (ret != 0)'',
      ''			return ret;'',
      [],
      ''		ret = drm_atomic_check_valid_clones(state, crtc);'',
      ''		if (ret != 0)'',
      ''			return ret;'',
      ''	}'',
      [],
      ''	/*'',
      ''	 * Iterate over all connectors again, to make sure atomic_check()'',
      []]\<close>

definition VC_CALL_NEW :: str where
  \<open>VC_CALL_NEW = block
     [''		ret = drm_atomic_add_affected_planes(state, crtc);'',
      ''		if (ret != 0)'',
      ''			return ret;'',
      ''	}'',
      [],
      ''	/*'',
      ''	 * Iterate over all connectors again, to make sure atomic_check()'',
      []]\<close>

definition drm_valid_clones_revert_step1 :: step where
  \<open>drm_valid_clones_revert_step1 =
   (''drivers/gpu/drm/drm_atomic_helper.c'',
    VC_FN_OLD,
    VC_FN_NEW, True)\<close>

definition drm_valid_clones_revert_step2 :: step where
  \<open>drm_valid_clones_revert_step2 =
   (''drivers/gpu/drm/drm_atomic_helper.c'',
    VC_CALL_OLD,
    VC_CALL_NEW, True)\<close>

definition drm_valid_clones_revert_steps :: "step list" where
  \<open>drm_valid_clones_revert_steps = [drm_valid_clones_revert_step1, drm_valid_clones_revert_step2]\<close>

definition drm_valid_clones_revert_apply :: "outcome io" where
  \<open>drm_valid_clones_revert_apply =
    apply_or_block drm_valid_clones_revert_steps\<close>

lemma drm_valid_clones_revert_steps_files: "steps_files drm_valid_clones_revert_steps = {''drivers/gpu/drm/drm_atomic_helper.c''}"
  by (simp add: drm_valid_clones_revert_steps_def steps_files_fst insert_commute
      step_file [OF drm_valid_clones_revert_step1_def]
      step_file [OF drm_valid_clones_revert_step2_def])

lemma drm_valid_clones_revert_steps_required: "all_required drm_valid_clones_revert_steps"
  by (simp add: drm_valid_clones_revert_steps_def all_required_def
      step_req [OF drm_valid_clones_revert_step1_def]
      step_req [OF drm_valid_clones_revert_step2_def])

lemma drm_valid_clones_revert_apply_txn: "transactional (\<lambda>_. {''drivers/gpu/drm/drm_atomic_helper.c''}) drm_valid_clones_revert_apply"
  unfolding drm_valid_clones_revert_apply_def
  by (intro txn_intros safe_intros)
    (simp_all add: is_backup_code BACKUP_SUFFIX_def drm_valid_clones_revert_steps_files)

definition drm_valid_clones_revert_group :: group where
  \<open>drm_valid_clones_revert_group =
    \<lparr>key = ''drm_valid_clones_revert'',
     summary = ''remove the 5.15.185 drm valid-clones encoder check so vendor msm_drm atomic commits stop failing with -EINVAL (fixes the black screen on 5.15.185+/lts)'',
     commits = [''revert of upstream 5.15.185 "drm: Add valid clones check" (Concurrent Writeback series)''],
     group_files = [''drivers/gpu/drm/drm_atomic_helper.c''],
     apply_fn = drm_valid_clones_revert_apply, hard = False\<rparr>\<close>

lemma drm_valid_clones_revert_group_declared [simp]: "well_declared drm_valid_clones_revert_group"
  by (rule well_declaredI [OF drm_valid_clones_revert_apply_txn]) (simp_all add: is_backup_code BACKUP_SUFFIX_def drm_valid_clones_revert_group_def)

definition DISPLAY_PATCH_GROUPS :: "group list" where
  \<open>DISPLAY_PATCH_GROUPS = [drm_valid_clones_revert_group]\<close>

interpretation display: txn_registry DISPLAY_PATCH_GROUPS
  by unfold_locales (simp_all add: DISPLAY_PATCH_GROUPS_def)

end
