(* ===== verification/Perf_Tools.thy ===== *)
theory Perf_Tools
  imports Registry_Laws
begin

text \<open>
  The shapes the group functions of \<^verbatim>\<open>scripts/abk_stable_perf.py\<close> and its batch modules share
  beside those of the engine: a note added to the detail of \<open>apply_steps\<close>, and the loop that
  probes files before the steps run.
\<close>

subsection \<open>A note in the detail\<close>

definition apply_noted :: "step list \<Rightarrow> (str \<Rightarrow> str) \<Rightarrow> outcome io" where
  \<comment> \<open>\<open>apply_steps\<close>, \<open>blocked_by_shape\<close> with its detail for \<open>None\<close>, else a rewritten detail\<close>
  "apply_noted steps note = io_bind (apply_steps steps) (\<lambda>(st, res, d).
     case st of None \<Rightarrow> io_ret (BlockedByShape, d) | Some s \<Rightarrow> io_ret (s, note d))"

lemma txn_same_status:
  assumes m: "transactional A m" and n: "graft_prog A n"
    and same: "\<And>g. snd (n g) = snd (m g) \<and> map_sum id fst (fst (n g)) = map_sum id fst (fst (m g))"
  shows "transactional A n"
proof (rule transactionalI [OF n])
  fix g e h
  assume "coherent g" and r: "n g = (Inl e, h)"
  then show "unwritten g h"
    using same [of g] transactional_raise_quiet [OF m, of g]
    by (cases "m g"; cases "fst (m g)") auto
next
  fix g s d h
  assume "coherent g" and r: "n g = (Inr (s, d), h)" and "\<not> ok_status s"
  then show "unwritten g h"
    using same [of g] transactional_degraded [OF m, of g]
    by (cases "m g"; cases "fst (m g)") auto
qed

lemma txn_apply_noted [txn_intros]:
  assumes "\<And>g. steps_files ss \<subseteq> A g" and "\<forall>rel \<in> steps_files ss. \<not> is_backup rel"
  shows "transactional A (apply_noted ss note)"
proof (rule txn_same_status)
  show "transactional A (apply_or_block ss)" using assms by (rule txn_apply_or_block)
  show "graft_prog A (apply_noted ss note)"
    unfolding apply_noted_def using assms by (intro safe_intros) auto
  fix g
  show "snd (apply_noted ss note g) = snd (apply_or_block ss g)
    \<and> map_sum id fst (fst (apply_noted ss note g)) = map_sum id fst (fst (apply_or_block ss g))"
    by (simp add: apply_noted_def apply_or_block_def apply_or_else_def io_bind_def io_ret_def
        split: prod.split sum.split option.split)
qed

subsection \<open>Probes\<close>

fun probe_loop :: "(path \<times> str \<times> str) list \<Rightarrow> outcome io \<Rightarrow> outcome io" where
  "probe_loop [] k = k"
| "probe_loop ((rel, probe, why) # probes) k =
     io_try is_fnf (ctx_read rel) (\<lambda>e. io_ret (BlockedByShape, rel @ '': file absent''))
       (\<lambda>t. if \<not> contains probe t then io_ret (BlockedByShape, why @ '' not found in '' @ rel)
            else probe_loop probes k)"

lemma txn_probe_loop [txn_intros]:
  assumes "\<forall>rel \<in> fst ` set probes. \<not> is_backup rel" and "transactional A k"
  shows "transactional A (probe_loop probes k)"
  using assms(1)
proof (induction probes)
  case Nil
  with assms(2) show ?case by simp
next
  case (Cons x probes)
  obtain rel probe why where x: "x = (rel, probe, why)" by (cases x)
  with Cons.prems have "\<not> is_backup rel" "\<forall>rel \<in> fst ` set probes. \<not> is_backup rel" by simp_all
  then show ?case unfolding x probe_loop.simps by (intro txn_intros safe_intros Cons.IH)
qed

subsection \<open>Anchors counted in either line ending\<close>

definition block_count :: "str \<Rightarrow> str \<Rightarrow> nat" where
  \<comment> \<open>\<open>text.replace("\r\n", "\n").count(block.replace("\r\n", "\n"))\<close>\<close>
  "block_count t b = occurrences (to_lf b) (to_lf t)"

definition ambiguous_anchors :: "(str \<times> str) list \<Rightarrow> str \<Rightarrow> (str \<times> nat) list" where
  "ambiguous_anchors anchors t =
     filter (\<lambda>(label, n). n > 1) (map (\<lambda>(label, b). (label, block_count t b)) anchors)"

definition show_ambiguous :: "(str \<times> nat) list \<Rightarrow> str" where
  "show_ambiguous xs = py_join '', '' (map (\<lambda>(label, n). label @ '' x'' @ py_str_nat n) xs)"

fun anchor_loop :: "(path \<times> (str \<times> str) list) list \<Rightarrow> outcome io \<Rightarrow> outcome io" where
  \<comment> \<open>each file must be there and hold each of its anchors at most once\<close>
  "anchor_loop [] k = k"
| "anchor_loop ((rel, anchors) # rest) k =
     io_try is_fnf (ctx_read rel) (\<lambda>e. io_ret (BlockedByShape, rel @ '': file absent''))
       (\<lambda>t. let ambiguous = ambiguous_anchors anchors t in
            if ambiguous \<noteq> []
            then io_ret (BlockedByShape, rel @ '': ambiguous anchor(s): '' @ show_ambiguous ambiguous)
            else anchor_loop rest k)"

lemma txn_anchor_loop [txn_intros]:
  assumes "\<forall>rel \<in> fst ` set files. \<not> is_backup rel" and "transactional A k"
  shows "transactional A (anchor_loop files k)"
  using assms(1)
proof (induction files)
  case Nil
  with assms(2) show ?case by simp
next
  case (Cons x files)
  obtain rel anchors where x: "x = (rel, anchors)" by (cases x)
  with Cons.prems have "\<not> is_backup rel" "\<forall>rel \<in> fst ` set files. \<not> is_backup rel" by simp_all
  then show ?case unfolding x anchor_loop.simps by (intro txn_intros safe_intros Cons.IH)
qed

lemma steps_files_append: "steps_files (ss @ ts) = steps_files ss \<union> steps_files ts"
  by (auto simp: steps_files_def)

lemma steps_files_Nil: "steps_files [] = {}"
  by (simp add: steps_files_def)

end
