(* ===== verification/Perf_Sched.thy ===== *)
theory Perf_Sched
  imports Perf_Tools
begin

text \<open>
  \<^verbatim>\<open>scripts/abk_stable_perf.py\<close>, lines up to 474: the NOHZ, PSI flag, RT, steal time, stack randomisation and socket groups. Anchors, steps and
  group functions stand in source order under the source's names.
\<close>

definition nohz_step1 :: step where
  \<open>nohz_step1 =
   (''kernel/sched/sched.h'',
    block
     [''#define NOHZ_BALANCE_KICK_BIT	0'',
      ''#define NOHZ_STATS_KICK_BIT	1'',
      ''#define NOHZ_NEWILB_KICK_BIT	2'',
      [],
      ''#define NOHZ_BALANCE_KICK	BIT(NOHZ_BALANCE_KICK_BIT)'',
      ''#define NOHZ_STATS_KICK		BIT(NOHZ_STATS_KICK_BIT)'',
      ''#define NOHZ_NEWILB_KICK	BIT(NOHZ_NEWILB_KICK_BIT)'',
      [],
      ''#define NOHZ_KICK_MASK	(NOHZ_BALANCE_KICK | NOHZ_STATS_KICK)'',
      []],
    block
     [''#define NOHZ_BALANCE_KICK_BIT	0'',
      ''#define NOHZ_STATS_KICK_BIT	1'',
      ''#define NOHZ_NEWILB_KICK_BIT	2'',
      ''#define NOHZ_NEXT_KICK_BIT	3'',
      [],
      ''/* Run rebalance_domains() */'',
      ''#define NOHZ_BALANCE_KICK	BIT(NOHZ_BALANCE_KICK_BIT)'',
      ''/* Update blocked load */'',
      ''#define NOHZ_STATS_KICK		BIT(NOHZ_STATS_KICK_BIT)'',
      ''/* Update blocked load when entering idle */'',
      ''#define NOHZ_NEWILB_KICK	BIT(NOHZ_NEWILB_KICK_BIT)'',
      ''/* Update nohz.next_balance */'',
      ''#define NOHZ_NEXT_KICK		BIT(NOHZ_NEXT_KICK_BIT)'',
      [],
      ''#define NOHZ_KICK_MASK	(NOHZ_BALANCE_KICK | NOHZ_STATS_KICK | NOHZ_NEXT_KICK)'',
      []], True)\<close>

definition nohz_step2 :: step where
  \<open>nohz_step2 =
   (''kernel/sched/fair.c'',
    block
     [''	if (rq->nr_running >= 2) {'',
      ''		flags = NOHZ_KICK_MASK;'',
      ''		goto out;'',
      ''	}''],
    block
     [''	if (rq->nr_running >= 2) {'',
      ''		flags = NOHZ_STATS_KICK | NOHZ_BALANCE_KICK;'',
      ''		goto out;'',
      ''	}''], True)\<close>

definition nohz_step3 :: step where
  \<open>nohz_step3 =
   (''kernel/sched/fair.c'',
    block
     [''		if (rq->cfs.h_nr_running >= 1 && check_cpu_capacity(rq, sd)) {'',
      ''			flags = NOHZ_KICK_MASK;'',
      ''			goto unlock;'',
      ''		}''],
    block
     [''		if (rq->cfs.h_nr_running >= 1 && check_cpu_capacity(rq, sd)) {'',
      ''			flags = NOHZ_STATS_KICK | NOHZ_BALANCE_KICK;'',
      ''			goto unlock;'',
      ''		}''], True)\<close>

definition nohz_step4 :: step where
  \<open>nohz_step4 =
   (''kernel/sched/fair.c'',
    block
     [''			if (sched_asym_prefer(i, cpu)) {'',
      ''				flags = NOHZ_KICK_MASK;'',
      ''				goto unlock;'',
      ''			}''],
    block
     [''			if (sched_asym_prefer(i, cpu)) {'',
      ''				flags = NOHZ_STATS_KICK | NOHZ_BALANCE_KICK;'',
      ''				goto unlock;'',
      ''			}''], True)\<close>

definition nohz_step5 :: step where
  \<open>nohz_step5 =
   (''kernel/sched/fair.c'',
    block
     [''		if (check_misfit_status(rq, sd)) {'',
      ''			flags = NOHZ_KICK_MASK;'',
      ''			goto unlock;'',
      ''		}''],
    block
     [''		if (check_misfit_status(rq, sd)) {'',
      ''			flags = NOHZ_STATS_KICK | NOHZ_BALANCE_KICK;'',
      ''			goto unlock;'',
      ''		}''], True)\<close>

definition nohz_step6 :: step where
  \<open>nohz_step6 =
   (''kernel/sched/fair.c'',
    block
     [''		if (nr_busy > 1) {'',
      ''			flags = NOHZ_KICK_MASK;'',
      ''			goto unlock;'',
      ''		}''],
    block
     [''		if (nr_busy > 1) {'',
      ''			flags = NOHZ_STATS_KICK | NOHZ_BALANCE_KICK;'',
      ''			goto unlock;'',
      ''		}''], True)\<close>

definition nohz_step7 :: step where
  \<open>nohz_step7 =
   (''kernel/sched/fair.c'',
    block
     [''	WRITE_ONCE(nohz.has_blocked, 0);'',
      []],
    block
     [''	if (flags & NOHZ_STATS_KICK)'',
      ''		WRITE_ONCE(nohz.has_blocked, 0);'',
      []], True)\<close>

definition nohz_step8 :: step where
  \<open>nohz_step8 =
   (''kernel/sched/fair.c'',
    block
     [''		if (need_resched()) {'',
      ''			has_blocked_load = true;'',
      ''			goto abort;'',
      ''		}'',
      [],
      ''		rq = cpu_rq(balance_cpu);'',
      [],
      ''		has_blocked_load |= update_nohz_stats(rq);''],
    block
     [''		if (!idle_cpu(this_cpu) && need_resched()) {'',
      ''			if (flags & NOHZ_STATS_KICK)'',
      ''				has_blocked_load = true;'',
      ''			goto abort;'',
      ''		}'',
      [],
      ''		rq = cpu_rq(balance_cpu);'',
      [],
      ''		if (flags & NOHZ_STATS_KICK)'',
      ''			has_blocked_load |= update_nohz_stats(rq);''], True)\<close>

definition nohz_step9 :: step where
  \<open>nohz_step9 =
   (''kernel/sched/fair.c'',
    block
     [''	WRITE_ONCE(nohz.next_blocked,'',
      ''		now + msecs_to_jiffies(LOAD_AVG_PERIOD));'',
      []],
    block
     [''	if (flags & NOHZ_STATS_KICK)'',
      ''		WRITE_ONCE(nohz.next_blocked,'',
      ''			   now + msecs_to_jiffies(LOAD_AVG_PERIOD));'',
      []], True)\<close>

definition nohz_step10 :: step where
  \<open>nohz_step10 =
   (''kernel/sched/core.c'',
    block
     [''	rq->idle_balance = idle_cpu(cpu);'',
      ''	if (rq->idle_balance && !need_resched()) {'',
      ''		rq->nohz_idle_balance = flags;'',
      ''		raise_softirq_irqoff(SCHED_SOFTIRQ);'',
      ''	}''],
    block
     [''	rq->idle_balance = idle_cpu(cpu);'',
      ''	if (rq->idle_balance) {'',
      ''		rq->nohz_idle_balance = flags;'',
      ''		__raise_softirq_irqoff(SCHED_SOFTIRQ);'',
      ''	}''], True)\<close>

definition nohz_steps :: "step list" where
  \<open>nohz_steps = [nohz_step1, nohz_step2, nohz_step3, nohz_step4, nohz_step5, nohz_step6, nohz_step7, nohz_step8, nohz_step9, nohz_step10]\<close>

definition nohz_apply :: "outcome io" where
  \<open>nohz_apply =
    apply_or_block nohz_steps\<close>

lemma nohz_steps_files: "steps_files nohz_steps = {''kernel/sched/sched.h'', ''kernel/sched/fair.c'', ''kernel/sched/core.c''}"
  by (simp add: nohz_steps_def steps_files_fst insert_commute
      step_file [OF nohz_step1_def]
      step_file [OF nohz_step2_def]
      step_file [OF nohz_step3_def]
      step_file [OF nohz_step4_def]
      step_file [OF nohz_step5_def]
      step_file [OF nohz_step6_def]
      step_file [OF nohz_step7_def]
      step_file [OF nohz_step8_def]
      step_file [OF nohz_step9_def]
      step_file [OF nohz_step10_def])

lemma nohz_steps_required: "all_required nohz_steps"
  by (simp add: nohz_steps_def all_required_def
      step_req [OF nohz_step1_def]
      step_req [OF nohz_step2_def]
      step_req [OF nohz_step3_def]
      step_req [OF nohz_step4_def]
      step_req [OF nohz_step5_def]
      step_req [OF nohz_step6_def]
      step_req [OF nohz_step7_def]
      step_req [OF nohz_step8_def]
      step_req [OF nohz_step9_def]
      step_req [OF nohz_step10_def])

lemma nohz_apply_txn: "transactional (\<lambda>_. {''kernel/sched/sched.h'', ''kernel/sched/fair.c'', ''kernel/sched/core.c''}) nohz_apply"
  unfolding nohz_apply_def
  by (intro txn_intros safe_intros)
    (simp_all add: is_backup_code BACKUP_SUFFIX_def nohz_steps_files)

definition psi_flags_step1 :: step where
  \<open>psi_flags_step1 =
   (''include/linux/sched.h'',
    block
     [''	unsigned			sched_reset_on_fork:1;'',
      ''	unsigned			sched_contributes_to_load:1;'',
      ''	unsigned			sched_migrated:1;'',
      ''#ifdef CONFIG_PSI'',
      ''	unsigned			sched_psi_wake_requeue:1;'',
      ''#endif'',
      [],
      ''	/* Force alignment to the next boundary: */''],
    block
     [''	unsigned			sched_reset_on_fork:1;'',
      ''	unsigned			sched_contributes_to_load:1;'',
      ''	unsigned			sched_migrated:1;'',
      [],
      ''	/* Force alignment to the next boundary: */''], True)\<close>

definition psi_flags_step2 :: step where
  \<open>psi_flags_step2 =
   (''kernel/sched/core.c'',
    ''		psi_enqueue(p, flags & ENQUEUE_WAKEUP);'',
    ''		psi_enqueue(p, (flags & ENQUEUE_WAKEUP) && !(flags & ENQUEUE_MIGRATED));'', True)\<close>

definition psi_flags_step3 :: step where
  \<open>psi_flags_step3 =
   (''kernel/sched/stats.h'',
    block
     [''	if (!wakeup || p->sched_psi_wake_requeue) {'',
      ''		if (p->in_memstall)'',
      ''			set |= TSK_MEMSTALL;'',
      ''		if (p->sched_psi_wake_requeue)'',
      ''			p->sched_psi_wake_requeue = 0;'',
      ''	} else {''],
    block
     [''	if (!wakeup) {'',
      ''		if (p->in_memstall)'',
      ''			set |= TSK_MEMSTALL;'',
      ''	} else {''], True)\<close>

definition psi_flags_step4 :: step where
  \<open>psi_flags_step4 =
   (''kernel/sched/stats.h'',
    block
     [''static inline void psi_dequeue(struct task_struct *p, bool sleep)'',
      ''{'',
      ''	int clear = TSK_RUNNING;'',
      [],
      ''	if (static_branch_likely(&psi_disabled))'',
      []],
    block
     [''static inline void psi_dequeue(struct task_struct *p, bool sleep)'',
      ''{'',
      ''	if (static_branch_likely(&psi_disabled))'',
      []], True)\<close>

definition psi_flags_step5 :: step where
  \<open>psi_flags_step5 =
   (''kernel/sched/stats.h'',
    block
     [''	if (p->in_memstall)'',
      ''		clear |= (TSK_MEMSTALL | TSK_MEMSTALL_RUNNING);'',
      [],
      ''	psi_task_change(p, clear, 0);'',
      ''}''],
    block
     [''	psi_task_change(p, p->psi_flags, 0);'',
      ''}''], True)\<close>

definition psi_flags_step6 :: step where
  \<open>psi_flags_step6 =
   (''kernel/sched/stats.h'',
    block
     [''	if (unlikely(p->in_iowait || p->in_memstall)) {'',
      ''		struct rq_flags rf;'',
      ''		struct rq *rq;'',
      ''		int clear = 0;'',
      [],
      ''		if (p->in_iowait)'',
      ''			clear |= TSK_IOWAIT;'',
      ''		if (p->in_memstall)'',
      ''			clear |= TSK_MEMSTALL;'',
      [],
      ''		rq = __task_rq_lock(p, &rf);'',
      ''		psi_task_change(p, clear, 0);'',
      ''		p->sched_psi_wake_requeue = 1;'',
      ''		__task_rq_unlock(rq, &rf);'',
      ''	}''],
    block
     [''	if (unlikely(p->psi_flags)) {'',
      ''		struct rq_flags rf;'',
      ''		struct rq *rq;'',
      [],
      ''		rq = __task_rq_lock(p, &rf);'',
      ''		psi_task_change(p, p->psi_flags, 0);'',
      ''		__task_rq_unlock(rq, &rf);'',
      ''	}''], True)\<close>

definition psi_flags_steps :: "step list" where
  \<open>psi_flags_steps = [psi_flags_step1, psi_flags_step2, psi_flags_step3, psi_flags_step4, psi_flags_step5, psi_flags_step6]\<close>

definition psi_flags_apply :: "outcome io" where
  \<open>psi_flags_apply =
    apply_or_block psi_flags_steps\<close>

lemma psi_flags_steps_files: "steps_files psi_flags_steps = {''include/linux/sched.h'', ''kernel/sched/core.c'', ''kernel/sched/stats.h''}"
  by (simp add: psi_flags_steps_def steps_files_fst insert_commute
      step_file [OF psi_flags_step1_def]
      step_file [OF psi_flags_step2_def]
      step_file [OF psi_flags_step3_def]
      step_file [OF psi_flags_step4_def]
      step_file [OF psi_flags_step5_def]
      step_file [OF psi_flags_step6_def])

lemma psi_flags_steps_required: "all_required psi_flags_steps"
  by (simp add: psi_flags_steps_def all_required_def
      step_req [OF psi_flags_step1_def]
      step_req [OF psi_flags_step2_def]
      step_req [OF psi_flags_step3_def]
      step_req [OF psi_flags_step4_def]
      step_req [OF psi_flags_step5_def]
      step_req [OF psi_flags_step6_def])

lemma psi_flags_apply_txn: "transactional (\<lambda>_. {''include/linux/sched.h'', ''kernel/sched/core.c'', ''kernel/sched/stats.h''}) psi_flags_apply"
  unfolding psi_flags_apply_def
  by (intro txn_intros safe_intros)
    (simp_all add: is_backup_code BACKUP_SUFFIX_def psi_flags_steps_files)

definition rt_optimizations_step1 :: step where
  \<open>rt_optimizations_step1 =
   (''kernel/sched/rt.c'',
    block
     [''static int rto_next_cpu(struct root_domain *rd)'',
      ''{'',
      ''	int next;'',
      ''	int cpu;'',
      []],
    block
     [''static int rto_next_cpu(struct root_domain *rd)'',
      ''{'',
      ''	int this_cpu = smp_processor_id();'',
      ''	int next;'',
      ''	int cpu;'',
      []], True)\<close>

definition rt_optimizations_step2 :: step where
  \<open>rt_optimizations_step2 =
   (''kernel/sched/rt.c'',
    block
     [''		rd->rto_cpu = cpu;'',
      [],
      ''		if (cpu < nr_cpu_ids)'',
      ''			return cpu;''],
    block
     [''		rd->rto_cpu = cpu;'',
      [],
      ''		/* Do not send IPI to self */'',
      ''		if (cpu == this_cpu)'',
      ''			continue;'',
      [],
      ''		if (cpu < nr_cpu_ids)'',
      ''			return cpu;''], True)\<close>

definition rt_optimizations_step3 :: step where
  \<open>rt_optimizations_step3 =
   (''kernel/sched/features.h'',
    block
     ['' */'',
      ''SCHED_FEAT(RT_PUSH_IPI, true)'',
      ''#endif''],
    block
     ['' * This is best for PREEMPT_RT, but for non-RT it can cause issues'',
      '' * when preemption is disabled for long periods of time. Have'',
      '' * it only default enabled for PREEMPT_RT.'',
      '' */'',
      ''# ifdef CONFIG_PREEMPT_RT'',
      ''SCHED_FEAT(RT_PUSH_IPI, true)'',
      ''# else'',
      ''SCHED_FEAT(RT_PUSH_IPI, false)'',
      ''# endif'',
      ''#endif''], False)\<close>

definition rt_optimizations_steps :: "step list" where
  \<open>rt_optimizations_steps = [rt_optimizations_step1, rt_optimizations_step2, rt_optimizations_step3]\<close>

definition rt_optimizations_apply :: "outcome io" where
  \<open>rt_optimizations_apply =
    apply_or_block rt_optimizations_steps\<close>

lemma rt_optimizations_steps_files: "steps_files rt_optimizations_steps = {''kernel/sched/rt.c'', ''kernel/sched/features.h''}"
  by (simp add: rt_optimizations_steps_def steps_files_fst insert_commute
      step_file [OF rt_optimizations_step1_def]
      step_file [OF rt_optimizations_step2_def]
      step_file [OF rt_optimizations_step3_def])

lemma rt_optimizations_apply_txn: "transactional (\<lambda>_. {''kernel/sched/rt.c'', ''kernel/sched/features.h''}) rt_optimizations_apply"
  unfolding rt_optimizations_apply_def
  by (intro txn_intros safe_intros)
    (simp_all add: is_backup_code BACKUP_SUFFIX_def rt_optimizations_steps_files)

definition dst_group_allowed_stats_step1 :: step where
  \<open>dst_group_allowed_stats_step1 =
   (''kernel/sched/fair.c'',
    block
     [''	for_each_cpu(i, sched_group_span(group)) {'',
      ''		struct rq *rq = cpu_rq(i);'',
      ''		unsigned int local;'',
      []],
    block
     [''	for_each_cpu_and(i, sched_group_span(group), p->cpus_ptr) {'',
      ''		struct rq *rq = cpu_rq(i);'',
      ''		unsigned int local;'',
      []], True)\<close>

definition dst_group_allowed_stats_steps :: "step list" where
  \<open>dst_group_allowed_stats_steps = [dst_group_allowed_stats_step1]\<close>

definition dst_group_allowed_stats_apply :: "outcome io" where
  \<open>dst_group_allowed_stats_apply =
    apply_or_block dst_group_allowed_stats_steps\<close>

lemma dst_group_allowed_stats_steps_files: "steps_files dst_group_allowed_stats_steps = {''kernel/sched/fair.c''}"
  by (simp add: dst_group_allowed_stats_steps_def steps_files_fst insert_commute
      step_file [OF dst_group_allowed_stats_step1_def])

lemma dst_group_allowed_stats_steps_required: "all_required dst_group_allowed_stats_steps"
  by (simp add: dst_group_allowed_stats_steps_def all_required_def
      step_req [OF dst_group_allowed_stats_step1_def])

lemma dst_group_allowed_stats_apply_txn: "transactional (\<lambda>_. {''kernel/sched/fair.c''}) dst_group_allowed_stats_apply"
  unfolding dst_group_allowed_stats_apply_def
  by (intro txn_intros safe_intros)
    (simp_all add: is_backup_code BACKUP_SUFFIX_def dst_group_allowed_stats_steps_files)

definition sched_steal_time_drop_step1 :: step where
  \<open>sched_steal_time_drop_step1 =
   (''kernel/sched/core.c'',
    block
     [''#ifdef CONFIG_PARAVIRT_TIME_ACCOUNTING'',
      ''	if (static_key_false((&paravirt_steal_rq_enabled))) {'',
      ''		steal = paravirt_steal_clock(cpu_of(rq));'',
      ''		steal -= rq->prev_steal_time_rq;'',
      [],
      ''		if (unlikely(steal > delta))'',
      ''			steal = delta;'',
      [],
      ''		rq->prev_steal_time_rq += steal;'',
      ''		delta -= steal;'',
      ''	}'',
      ''#endif'',
      []],
    block
     [''#ifdef CONFIG_PARAVIRT_TIME_ACCOUNTING'',
      ''	if (static_key_false((&paravirt_steal_rq_enabled))) {'',
      ''		u64 prev_steal;'',
      [],
      ''		steal = prev_steal = paravirt_steal_clock(cpu_of(rq));'',
      ''		steal -= rq->prev_steal_time_rq;'',
      [],
      ''		if (unlikely(steal > delta))'',
      ''			steal = delta;'',
      [],
      ''		rq->prev_steal_time_rq = prev_steal;'',
      ''		delta -= steal;'',
      ''	}'',
      ''#endif'',
      []], True)\<close>

definition sched_steal_time_drop_steps :: "step list" where
  \<open>sched_steal_time_drop_steps = [sched_steal_time_drop_step1]\<close>

definition sched_steal_time_drop_apply :: "outcome io" where
  \<open>sched_steal_time_drop_apply =
    io_bind (read_or_empty ''kernel/sched/core.c'') (\<lambda>text.
    if contains ''rq->prev_steal_time_rq = prev_steal;'' text
    then io_ret (AlreadyPresent, ''the 5.15.179 excess-steal-time drop is already in update_rq_clock_task()'')
    else
    apply_or_block sched_steal_time_drop_steps)\<close>

lemma sched_steal_time_drop_steps_files: "steps_files sched_steal_time_drop_steps = {''kernel/sched/core.c''}"
  by (simp add: sched_steal_time_drop_steps_def steps_files_fst insert_commute
      step_file [OF sched_steal_time_drop_step1_def])

lemma sched_steal_time_drop_steps_required: "all_required sched_steal_time_drop_steps"
  by (simp add: sched_steal_time_drop_steps_def all_required_def
      step_req [OF sched_steal_time_drop_step1_def])

lemma sched_steal_time_drop_apply_txn: "transactional (\<lambda>_. {''kernel/sched/core.c''}) sched_steal_time_drop_apply"
  unfolding sched_steal_time_drop_apply_def
  by (intro txn_intros safe_intros)
    (simp_all add: is_backup_code BACKUP_SUFFIX_def sched_steal_time_drop_steps_files)

definition kstack_marker :: str where
  \<open>kstack_marker = ''/* ABK stable_515_backport: per-task kstack randomization offset (5.15.210) mapped onto the KABI reserve slot. */''\<close>

definition kabi_reserve_run :: "nat \<Rightarrow> nat \<Rightarrow> str" where
  \<comment> \<open>\<open>"".join("\tANDROID_KABI_RESERVE(%d);\n" % n for n in range(a, b))\<close>\<close>
  \<open>kabi_reserve_run a b =
     concat (map (\<lambda>n. [TAB] @ ''ANDROID_KABI_RESERVE('' @ py_str_nat n @ '');'' @ [NL]) [a..<b])\<close>

definition kstack_run_new :: "nat \<Rightarrow> str" where
  \<open>kstack_run_new a = kabi_reserve_run a 8 @ [TAB] @ kstack_marker @ [NL] @
     [TAB] @ ''ANDROID_KABI_USE(8, u32'' @ [TAB, TAB, TAB] @ ''kstack_offset);'' @ [NL]\<close>

definition sched_h_kstack_step :: "str \<Rightarrow> step" where
  \<open>sched_h_kstack_step t =
    (if contains ''ANDROID_KABI_USE(6, struct sysv_sem sysvsem)'' t
     then (''include/linux/sched.h'', [TAB] @ ''ANDROID_KABI_RESERVE(5);'',
       [TAB] @ kstack_marker @ [NL] @ [TAB] @ ''ANDROID_KABI_USE(5, u32'' @ [TAB, TAB, TAB] @ ''kstack_offset);'', True)
     else if contains ''ANDROID_KABI_USE(1, struct {'' t \<and> contains ''user_dumpable:1;'' t
     then (''include/linux/sched.h'', kabi_reserve_run 2 9, kstack_run_new 2, True)
     else (''include/linux/sched.h'', kabi_reserve_run 1 9, kstack_run_new 1, True))\<close>

lemma sched_h_kstack_step_file: "fst (sched_h_kstack_step t) = ''include/linux/sched.h''"
  by (simp add: sched_h_kstack_step_def)

definition verify_kstack_member :: "unit io" where
  \<comment> \<open>\<open>str.index\<close> raises \<open>ValueError\<close> when it finds nothing; \<open>b\<close> is the text from \<open>start\<close> on\<close>
  \<open>verify_kstack_member =
    io_bind (ctx_read ''include/linux/sched.h'') (\<lambda>t.
    if \<not> contains ''kstack_offset'' t
    then io_raise (Value_Error ''kstack_offset member missing from include/linux/sched.h'')
    else case cut ''struct task_struct {'' t of
      None \<Rightarrow> io_raise (Value_Error ''substring not found'')
    | Some (a, b) \<Rightarrow>
        (case cut ([NL] @ ''};'') (drop (length a) t) of
          None \<Rightarrow> io_raise (Value_Error ''substring not found'')
        | Some (body, c) \<Rightarrow>
            if \<not> contains ''kstack_offset'' body
            then io_raise (Value_Error (''kstack_offset KABI slot landed outside struct task_struct; sched.h shape not covered''))
            else io_ret ()))\<close>

definition kstack_pertask_step1 :: step where
  \<open>kstack_pertask_step1 =
   (''include/linux/randomize_kstack.h'',
    block
     [''			 randomize_kstack_offset);'',
      ''DECLARE_PER_CPU(u32, kstack_offset);'',
      [],
      ''/*'',
      []],
    block
     [''			 randomize_kstack_offset);'',
      [],
      ''/*'',
      []], True)\<close>

definition kstack_pertask_step2 :: step where
  \<open>kstack_pertask_step2 =
   (''include/linux/randomize_kstack.h'',
    block
     [''/*'',
      '' * These macros must be used during syscall entry when interrupts and'',
      '' * preempt are disabled, and after user registers have been stored to'',
      '' * the stack.'',
      '' */'',
      (''#define add_random_kstack_offset() do {					'' @ [BSL]),
      (''	if (static_branch_maybe(CONFIG_RANDOMIZE_KSTACK_OFFSET_DEFAULT,	'' @ [BSL]),
      (''				&randomize_kstack_offset)) {		'' @ [BSL]),
      (''		u32 offset = raw_cpu_read(kstack_offset);		'' @ [BSL]),
      (''		u8 *ptr = __kstack_alloca(KSTACK_OFFSET_MAX(offset));	'' @ [BSL]),
      (''		/* Keep allocation even after "ptr" loses scope. */	'' @ [BSL]),
      (''		asm volatile("" :: "r"(ptr) : "memory");		'' @ [BSL]),
      (''	}								'' @ [BSL]),
      ''} while (0)'',
      [],
      (''#define choose_random_kstack_offset(rand) do {				'' @ [BSL]),
      (''	if (static_branch_maybe(CONFIG_RANDOMIZE_KSTACK_OFFSET_DEFAULT,	'' @ [BSL]),
      (''				&randomize_kstack_offset)) {		'' @ [BSL]),
      (''		u32 offset = raw_cpu_read(kstack_offset);		'' @ [BSL]),
      (''		offset = ror32(offset, 5) ^ (rand);			'' @ [BSL]),
      (''		raw_cpu_write(kstack_offset, offset);			'' @ [BSL]),
      (''	}								'' @ [BSL]),
      ''} while (0)'',
      []],
    block
     [''/**'',
      '' * add_random_kstack_offset - Increase stack utilization by previously'',
      '' *			      chosen random offset'',
      '' *'',
      '' * This should be used in the syscall entry path after user registers have been'',
      '' * stored to the stack. Preemption may be enabled. For testing the resulting'',
      '' * entropy, please see: tools/testing/selftests/lkdtm/stack-entropy.sh'',
      '' */'',
      (''#define add_random_kstack_offset() do {					'' @ [BSL]),
      (''	if (static_branch_maybe(CONFIG_RANDOMIZE_KSTACK_OFFSET_DEFAULT,	'' @ [BSL]),
      (''				&randomize_kstack_offset)) {		'' @ [BSL]),
      (''		u32 offset = current->kstack_offset;			'' @ [BSL]),
      (''		u8 *ptr = __kstack_alloca(KSTACK_OFFSET_MAX(offset));	'' @ [BSL]),
      (''		/* Keep allocation even after "ptr" loses scope. */	'' @ [BSL]),
      (''		asm volatile("" :: "r"(ptr) : "memory");		'' @ [BSL]),
      (''	}								'' @ [BSL]),
      ''} while (0)'',
      [],
      ''/**'',
      '' * choose_random_kstack_offset - Choose the random offset for the next'',
      '' *				 add_random_kstack_offset()'',
      '' *'',
      '' * This should only be used during syscall exit. Preemption may be enabled. This'',
      '' * position in the syscall flow is done to frustrate attacks from userspace'',
      '' * attempting to learn the next offset:'',
      '' * - Maximize the timing uncertainty visible from userspace: if the'',
      '' *   offset is chosen at syscall entry, userspace has much more control'',
      '' *   over the timing between choosing offsets. "How long will we be in'',
      '' *   kernel mode?" tends to be more difficult to predict than "how long'',
      '' *   will we be in user mode?"'',
      '' * - Reduce the lifetime of the new offset sitting in memory during'',
      '' *   kernel mode execution. Exposure of "thread-local" memory content'',
      '' *   (e.g. current, percpu, etc) tends to be easier than arbitrary'',
      '' *   location memory exposure.'',
      '' */'',
      (''#define choose_random_kstack_offset(rand) do {				'' @ [BSL]),
      (''	if (static_branch_maybe(CONFIG_RANDOMIZE_KSTACK_OFFSET_DEFAULT,	'' @ [BSL]),
      (''				&randomize_kstack_offset)) {		'' @ [BSL]),
      (''		u32 offset = current->kstack_offset;			'' @ [BSL]),
      (''		offset = ror32(offset, 5) ^ (rand);			'' @ [BSL]),
      (''		current->kstack_offset = offset;			'' @ [BSL]),
      (''	}								'' @ [BSL]),
      ''} while (0)'',
      [],
      ''/* ABK stable_515_backport: task-local offset initializer for the per-task kstack randomization graft. */'',
      ''#ifdef CONFIG_HAVE_ARCH_RANDOMIZE_KSTACK_OFFSET'',
      ''static inline void random_kstack_task_init(struct task_struct *tsk)'',
      ''{'',
      ''	tsk->kstack_offset = 0;'',
      ''}'',
      ''#else'',
      ''#define random_kstack_task_init(tsk)		do { } while (0)'',
      ''#endif'',
      []], True)\<close>

definition kstack_pertask_step3 :: step where
  \<open>kstack_pertask_step3 =
   (''init/main.c'',
    block
     [''DEFINE_STATIC_KEY_MAYBE_RO(CONFIG_RANDOMIZE_KSTACK_OFFSET_DEFAULT,'',
      ''			   randomize_kstack_offset);'',
      ''DEFINE_PER_CPU(u32, kstack_offset);'',
      [],
      ''static int __init early_randomize_kstack_offset(char *buf)'',
      []],
    block
     [''DEFINE_STATIC_KEY_MAYBE_RO(CONFIG_RANDOMIZE_KSTACK_OFFSET_DEFAULT,'',
      ''			   randomize_kstack_offset);'',
      [],
      ''static int __init early_randomize_kstack_offset(char *buf)'',
      []], True)\<close>

definition kstack_pertask_step4 :: step where
  \<open>kstack_pertask_step4 =
   (''kernel/fork.c'',
    block
     [''#include <linux/kasan.h>'',
      ''#include <linux/scs.h>''],
    block
     [''#include <linux/kasan.h>'',
      ''#include <linux/randomize_kstack.h>'',
      ''#include <linux/scs.h>''], True)\<close>

definition kstack_pertask_step5 :: step where
  \<open>kstack_pertask_step5 =
   (''kernel/fork.c'',
    ''	stackleak_task_init(p);'',
    block
     [''	random_kstack_task_init(p);'',
      ''	stackleak_task_init(p);''], True)\<close>

definition kstack_pertask_rest :: "step list" where
  \<open>kstack_pertask_rest = [kstack_pertask_step1, kstack_pertask_step2, kstack_pertask_step3, kstack_pertask_step4, kstack_pertask_step5]\<close>

definition kstack_pertask_steps :: "str \<Rightarrow> step list" where
  \<open>kstack_pertask_steps t =
     (if contains ''kstack_offset;'' t then [] else [sched_h_kstack_step t]) @ kstack_pertask_rest\<close>

definition kstack_pertask_apply :: "outcome io" where
  \<open>kstack_pertask_apply =
    io_bind (ctx_read ''include/linux/sched.h'') (\<lambda>t.
    io_bind (apply_steps (kstack_pertask_steps t)) (\<lambda>(st, res, d). case st of
      None \<Rightarrow> io_ret (BlockedByShape, d)
    | Some s \<Rightarrow>
        if s \<in> {Applied, Partial}
        then io_bind verify_kstack_member (\<lambda>_. io_ret (s, d))
        else io_ret (s, d)))\<close>

lemma kstack_pertask_files:
  "steps_files (kstack_pertask_steps t) \<subseteq> {''include/linux/sched.h'', ''include/linux/randomize_kstack.h'', ''init/main.c'', ''kernel/fork.c''}"
  by (simp add: kstack_pertask_steps_def kstack_pertask_rest_def steps_files_fst sched_h_kstack_step_file
      step_file [OF kstack_pertask_step1_def]
      step_file [OF kstack_pertask_step2_def]
      step_file [OF kstack_pertask_step3_def]
      step_file [OF kstack_pertask_step4_def]
      step_file [OF kstack_pertask_step5_def])

lemma graft_verify_kstack_member: "graft_prog A verify_kstack_member"
  unfolding verify_kstack_member_def
  by (intro safe_intros) (simp_all add: is_backup_code BACKUP_SUFFIX_def)

lemma kstack_pertask_graft:
  "graft_prog (\<lambda>_. {''include/linux/sched.h'', ''include/linux/randomize_kstack.h'', ''init/main.c'', ''kernel/fork.c''}) kstack_pertask_apply"
proof -
  have s: "graft_prog (\<lambda>_. {''include/linux/sched.h'', ''include/linux/randomize_kstack.h'', ''init/main.c'', ''kernel/fork.c''})
      (apply_steps (kstack_pertask_steps t))" for t
    by (rule graft_apply_steps)
      (use kstack_pertask_files [of t] in \<open>auto simp: is_backup_code BACKUP_SUFFIX_def\<close>)
  show ?thesis
    unfolding kstack_pertask_apply_def
    by (intro graft_bind s graft_read graft_case_prod graft_case_option graft_if graft_ret
        graft_verify_kstack_member) (simp add: is_backup_code BACKUP_SUFFIX_def)
qed

definition release_sock_old :: str where
  \<open>release_sock_old = block
     [''	struct sk_buff *skb, *next;'',
      [],
      ''	while ((skb = sk->sk_backlog.head) != NULL) {'',
      ''		sk->sk_backlog.head = sk->sk_backlog.tail = NULL;'',
      [],
      ''		spin_unlock_bh(&sk->sk_lock.slock);'',
      [],
      ''		do {'',
      ''			next = skb->next;'',
      ''			prefetch(next);'',
      ''			WARN_ON_ONCE(skb_dst_is_noref(skb));'',
      ''			skb_mark_not_on_list(skb);'',
      ''			sk_backlog_rcv(sk, skb);'',
      [],
      ''			cond_resched();'',
      [],
      ''			skb = next;'',
      ''		} while (skb != NULL);'',
      [],
      ''		spin_lock_bh(&sk->sk_lock.slock);'',
      ''	}'',
      []]\<close>

definition release_sock_new :: str where
  \<open>release_sock_new = block
     [''	struct sk_buff *skb, *next;'',
      ''	int nb = 0;'',
      [],
      ''	while ((skb = sk->sk_backlog.head) != NULL) {'',
      ''		sk->sk_backlog.head = sk->sk_backlog.tail = NULL;'',
      [],
      ''		spin_unlock_bh(&sk->sk_lock.slock);'',
      [],
      ''		while (1) {'',
      ''			next = skb->next;'',
      ''			prefetch(next);'',
      ''			WARN_ON_ONCE(skb_dst_is_noref(skb));'',
      ''			skb_mark_not_on_list(skb);'',
      ''			sk_backlog_rcv(sk, skb);'',
      [],
      ''			skb = next;'',
      ''			if (!skb)'',
      ''				break;'',
      [],
      ''			if (!(++nb & 15))'',
      ''				cond_resched();'',
      ''		}'',
      [],
      ''		spin_lock_bh(&sk->sk_lock.slock);'',
      ''	}'',
      []]\<close>

definition release_sock_step1 :: step where
  \<open>release_sock_step1 =
   (''net/core/sock.c'',
    release_sock_old,
    release_sock_new, True)\<close>

definition release_sock_steps :: "step list" where
  \<open>release_sock_steps = [release_sock_step1]\<close>

definition release_sock_apply :: "outcome io" where
  \<open>release_sock_apply =
    apply_or_block release_sock_steps\<close>

lemma release_sock_steps_files: "steps_files release_sock_steps = {''net/core/sock.c''}"
  by (simp add: release_sock_steps_def steps_files_fst insert_commute
      step_file [OF release_sock_step1_def])

lemma release_sock_steps_required: "all_required release_sock_steps"
  by (simp add: release_sock_steps_def all_required_def
      step_req [OF release_sock_step1_def])

lemma release_sock_apply_txn: "transactional (\<lambda>_. {''net/core/sock.c''}) release_sock_apply"
  unfolding release_sock_apply_def
  by (intro txn_intros safe_intros)
    (simp_all add: is_backup_code BACKUP_SUFFIX_def release_sock_steps_files)

end
