(* ===== verification/Perf_Blk_Locking.thy ===== *)
theory Perf_Blk_Locking
  imports Perf_Tools
begin

text \<open>
  \<^verbatim>\<open>scripts/abk_stable_perf.py\<close>, lines up to 880: the semaphore, block layer, lazy preemption and lock wakeup groups. Anchors, steps and
  group functions stand in source order under the source's names.
\<close>

definition semaphore_wake_q_step1 :: step where
  \<open>semaphore_wake_q_step1 =
   (''kernel/locking/semaphore.c'',
    block
     [''#include <linux/sched/debug.h>'',
      ''#include <linux/semaphore.h>''],
    block
     [''#include <linux/sched/debug.h>'',
      ''#include <linux/sched/wake_q.h>'',
      ''#include <linux/semaphore.h>''], True)\<close>

definition semaphore_wake_q_step2 :: step where
  \<open>semaphore_wake_q_step2 =
   (''kernel/locking/semaphore.c'',
    block
     [''static noinline void __up(struct semaphore *sem);'',
      []],
    block
     [''static noinline void __up(struct semaphore *sem, struct wake_q_head *wake_q);'',
      []], True)\<close>

definition semaphore_wake_q_step3 :: step where
  \<open>semaphore_wake_q_step3 =
   (''kernel/locking/semaphore.c'',
    block
     [''void up(struct semaphore *sem)'',
      ''{'',
      ''	unsigned long flags;'',
      [],
      ''	raw_spin_lock_irqsave(&sem->lock, flags);'',
      ''	if (likely(list_empty(&sem->wait_list)))'',
      ''		sem->count++;'',
      ''	else'',
      ''		__up(sem);'',
      ''	raw_spin_unlock_irqrestore(&sem->lock, flags);'',
      ''}''],
    block
     [''void up(struct semaphore *sem)'',
      ''{'',
      ''	unsigned long flags;'',
      ''	DEFINE_WAKE_Q(wake_q);'',
      [],
      ''	raw_spin_lock_irqsave(&sem->lock, flags);'',
      ''	if (likely(list_empty(&sem->wait_list)))'',
      ''		sem->count++;'',
      ''	else'',
      ''		__up(sem, &wake_q);'',
      ''	raw_spin_unlock_irqrestore(&sem->lock, flags);'',
      ''	if (!wake_q_empty(&wake_q))'',
      ''		wake_up_q(&wake_q);'',
      ''}''], True)\<close>

definition semaphore_wake_q_step4 :: step where
  \<open>semaphore_wake_q_step4 =
   (''kernel/locking/semaphore.c'',
    block
     [''static noinline void __sched __up(struct semaphore *sem)'',
      ''{''],
    block
     [''static noinline void __sched __up(struct semaphore *sem,'',
      ''				  struct wake_q_head *wake_q)'',
      ''{''], True)\<close>

definition semaphore_wake_q_step5 :: step where
  \<open>semaphore_wake_q_step5 =
   (''kernel/locking/semaphore.c'',
    block
     [''	list_del(&waiter->list);'',
      ''	waiter->up = true;'',
      ''	wake_up_process(waiter->task);'',
      ''}''],
    block
     [''	list_del(&waiter->list);'',
      ''	waiter->up = true;'',
      ''	wake_q_add(wake_q, waiter->task);'',
      ''}''], True)\<close>

definition semaphore_wake_q_steps :: "step list" where
  \<open>semaphore_wake_q_steps = [semaphore_wake_q_step1, semaphore_wake_q_step2, semaphore_wake_q_step3, semaphore_wake_q_step4, semaphore_wake_q_step5]\<close>

definition semaphore_wake_q_apply :: "outcome io" where
  \<open>semaphore_wake_q_apply =
    apply_or_block semaphore_wake_q_steps\<close>

lemma semaphore_wake_q_steps_files: "steps_files semaphore_wake_q_steps = {''kernel/locking/semaphore.c''}"
  by (simp add: semaphore_wake_q_steps_def steps_files_fst insert_commute
      step_file [OF semaphore_wake_q_step1_def]
      step_file [OF semaphore_wake_q_step2_def]
      step_file [OF semaphore_wake_q_step3_def]
      step_file [OF semaphore_wake_q_step4_def]
      step_file [OF semaphore_wake_q_step5_def])

lemma semaphore_wake_q_steps_required: "all_required semaphore_wake_q_steps"
  by (simp add: semaphore_wake_q_steps_def all_required_def
      step_req [OF semaphore_wake_q_step1_def]
      step_req [OF semaphore_wake_q_step2_def]
      step_req [OF semaphore_wake_q_step3_def]
      step_req [OF semaphore_wake_q_step4_def]
      step_req [OF semaphore_wake_q_step5_def])

lemma semaphore_wake_q_apply_txn: "transactional (\<lambda>_. {''kernel/locking/semaphore.c''}) semaphore_wake_q_apply"
  unfolding semaphore_wake_q_apply_def
  by (intro txn_intros safe_intros)
    (simp_all add: is_backup_code BACKUP_SUFFIX_def semaphore_wake_q_steps_files)

definition BLK_MQ_SUSPEND_PAYLOAD :: str where
  \<open>BLK_MQ_SUSPEND_PAYLOAD = block
     [''			if (pm_wakeup_pending()) {'',
      ''				clear_bit(BLK_MQ_S_INACTIVE, &hctx->state);'',
      ''				ret = -EBUSY;'',
      ''				break;'',
      ''			}'',
      []]\<close>

definition blk_mq_suspend_step1 :: step where
  \<open>blk_mq_suspend_step1 =
   (''block/blk-mq.c'',
    block
     [''#include <linux/sched/signal.h>'',
      ''#include <linux/delay.h>''],
    block
     [''#include <linux/sched/signal.h>'',
      ''#include <linux/suspend.h>'',
      ''#include <linux/delay.h>''], True)\<close>

definition blk_mq_suspend_step2 :: step where
  \<open>blk_mq_suspend_step2 =
   (''block/blk-mq.c'',
    block
     [''	struct blk_mq_hw_ctx *hctx = hlist_entry_safe(node,'',
      ''			struct blk_mq_hw_ctx, cpuhp_online);'',
      [],
      ''	if (!cpumask_test_cpu(cpu, hctx->cpumask) ||''],
    block
     [''	struct blk_mq_hw_ctx *hctx = hlist_entry_safe(node,'',
      ''			struct blk_mq_hw_ctx, cpuhp_online);'',
      ''	int ret = 0;'',
      [],
      ''	if (!cpumask_test_cpu(cpu, hctx->cpumask) ||''], True)\<close>

definition blk_mq_suspend_step3 :: step where
  \<open>blk_mq_suspend_step3 =
   (''block/blk-mq.c'',
    block
     [''	if (percpu_ref_tryget(&hctx->queue->q_usage_counter)) {'',
      ''		while (blk_mq_hctx_has_requests(hctx))'',
      ''			msleep(5);'',
      ''		percpu_ref_put(&hctx->queue->q_usage_counter);'',
      ''	}'',
      [],
      ''	return 0;'',
      ''}''],
    block
     [''	if (percpu_ref_tryget(&hctx->queue->q_usage_counter)) {'',
      ''		while (blk_mq_hctx_has_requests(hctx)) {'',
      ''			/*'',
      ''			 * The wakeup capable IRQ handler of block device is'',
      ''			 * not called during suspend. Skip the loop by checking'',
      ''			 * pm_wakeup_pending to prevent the deadlock and improve'',
      ''			 * suspend latency.'',
      ''			 */'',
      ''			if (pm_wakeup_pending()) {'',
      ''				clear_bit(BLK_MQ_S_INACTIVE, &hctx->state);'',
      ''				ret = -EBUSY;'',
      ''				break;'',
      ''			}'',
      ''			msleep(5);'',
      ''		}'',
      ''		percpu_ref_put(&hctx->queue->q_usage_counter);'',
      ''	}'',
      [],
      ''	return ret;'',
      ''}''], True)\<close>

definition blk_mq_suspend_steps :: "step list" where
  \<open>blk_mq_suspend_steps = [blk_mq_suspend_step1, blk_mq_suspend_step2, blk_mq_suspend_step3]\<close>

definition blk_mq_suspend_apply :: "outcome io" where
  \<open>blk_mq_suspend_apply =
    io_bind (read_or_empty ''block/blk-mq.c'') (\<lambda>text.
    if contains BLK_MQ_SUSPEND_PAYLOAD text
    then io_ret (AlreadyPresent, ''the 5.15.198 abort-on-pending-wakeup payload is already in blk_mq_hctx_notify_offline() (upstream-first on this baseline, or this module\'s own graft on the second pass)'')
    else
    apply_or_block blk_mq_suspend_steps)\<close>

lemma blk_mq_suspend_steps_files: "steps_files blk_mq_suspend_steps = {''block/blk-mq.c''}"
  by (simp add: blk_mq_suspend_steps_def steps_files_fst insert_commute
      step_file [OF blk_mq_suspend_step1_def]
      step_file [OF blk_mq_suspend_step2_def]
      step_file [OF blk_mq_suspend_step3_def])

lemma blk_mq_suspend_steps_required: "all_required blk_mq_suspend_steps"
  by (simp add: blk_mq_suspend_steps_def all_required_def
      step_req [OF blk_mq_suspend_step1_def]
      step_req [OF blk_mq_suspend_step2_def]
      step_req [OF blk_mq_suspend_step3_def])

lemma blk_mq_suspend_apply_txn: "transactional (\<lambda>_. {''block/blk-mq.c''}) blk_mq_suspend_apply"
  unfolding blk_mq_suspend_apply_def
  by (intro txn_intros safe_intros)
    (simp_all add: is_backup_code BACKUP_SUFFIX_def blk_mq_suspend_steps_files)

definition blk_mq_quiesced_elevator_step1 :: step where
  \<open>blk_mq_quiesced_elevator_step1 =
   (''block/elevator.c'',
    block
     [''int elevator_switch_mq(struct request_queue *q,'',
      ''			      struct elevator_type *new_e)'',
      ''{'',
      []],
    block
     [''static int elevator_switch_mq(struct request_queue *q,'',
      ''			      struct elevator_type *new_e)'',
      ''{'',
      []], True)\<close>

definition blk_mq_quiesced_elevator_step2 :: step where
  \<open>blk_mq_quiesced_elevator_step2 =
   (''block/elevator.c'',
    block
     ['' */'',
      ''static int elevator_switch(struct request_queue *q, struct elevator_type *new_e)'',
      ''{'',
      ''	int err;'',
      []],
    block
     ['' */'',
      ''int elevator_switch(struct request_queue *q, struct elevator_type *new_e)'',
      ''{'',
      ''	int err;'',
      []], True)\<close>

definition blk_mq_quiesced_elevator_step3 :: step where
  \<open>blk_mq_quiesced_elevator_step3 =
   (''block/blk.h'',
    block
     [''int elevator_switch_mq(struct request_queue *q,'',
      ''			      struct elevator_type *new_e);''],
    ''int elevator_switch(struct request_queue *q, struct elevator_type *new_e);'', True)\<close>

definition blk_mq_quiesced_elevator_step4 :: step where
  \<open>blk_mq_quiesced_elevator_step4 =
   (''block/blk-mq.c'',
    block
     [''	 * After elevator_switch_mq, the previous elevator_queue will be'',
      []],
    block
     [''	 * After elevator_switch, the previous elevator_queue will be'',
      []], True)\<close>

definition blk_mq_quiesced_elevator_step5 :: step where
  \<open>blk_mq_quiesced_elevator_step5 =
   (''block/blk-mq.c'',
    block
     [''	elevator_switch_mq(q, NULL);'',
      []],
    block
     [''	elevator_switch(q, NULL);'',
      []], True)\<close>

definition blk_mq_quiesced_elevator_step6 :: step where
  \<open>blk_mq_quiesced_elevator_step6 =
   (''block/blk-mq.c'',
    block
     [''	elevator_switch_mq(q, t);'',
      []],
    block
     [''	elevator_switch(q, t);'',
      []], True)\<close>

definition blk_mq_quiesced_elevator_steps :: "step list" where
  \<open>blk_mq_quiesced_elevator_steps = [blk_mq_quiesced_elevator_step1, blk_mq_quiesced_elevator_step2, blk_mq_quiesced_elevator_step3, blk_mq_quiesced_elevator_step4, blk_mq_quiesced_elevator_step5, blk_mq_quiesced_elevator_step6]\<close>

definition blk_mq_quiesced_elevator_apply :: "outcome io" where
  \<open>blk_mq_quiesced_elevator_apply =
    io_bind (read_or_empty ''block/blk-mq.c'') (\<lambda>text.
    if contains ''elevator_switch(q, NULL);'' text
    then io_ret (AlreadyPresent, ''the 5.15.209 quiesced elevator switch is already in blk_mq_elv_switch_none()/blk_mq_elv_switch_back()'')
    else
    apply_or_block blk_mq_quiesced_elevator_steps)\<close>

lemma blk_mq_quiesced_elevator_steps_files: "steps_files blk_mq_quiesced_elevator_steps = {''block/elevator.c'', ''block/blk.h'', ''block/blk-mq.c''}"
  by (simp add: blk_mq_quiesced_elevator_steps_def steps_files_fst insert_commute
      step_file [OF blk_mq_quiesced_elevator_step1_def]
      step_file [OF blk_mq_quiesced_elevator_step2_def]
      step_file [OF blk_mq_quiesced_elevator_step3_def]
      step_file [OF blk_mq_quiesced_elevator_step4_def]
      step_file [OF blk_mq_quiesced_elevator_step5_def]
      step_file [OF blk_mq_quiesced_elevator_step6_def])

lemma blk_mq_quiesced_elevator_steps_required: "all_required blk_mq_quiesced_elevator_steps"
  by (simp add: blk_mq_quiesced_elevator_steps_def all_required_def
      step_req [OF blk_mq_quiesced_elevator_step1_def]
      step_req [OF blk_mq_quiesced_elevator_step2_def]
      step_req [OF blk_mq_quiesced_elevator_step3_def]
      step_req [OF blk_mq_quiesced_elevator_step4_def]
      step_req [OF blk_mq_quiesced_elevator_step5_def]
      step_req [OF blk_mq_quiesced_elevator_step6_def])

lemma blk_mq_quiesced_elevator_apply_txn: "transactional (\<lambda>_. {''block/elevator.c'', ''block/blk.h'', ''block/blk-mq.c''}) blk_mq_quiesced_elevator_apply"
  unfolding blk_mq_quiesced_elevator_apply_def
  by (intro txn_intros safe_intros)
    (simp_all add: is_backup_code BACKUP_SUFFIX_def blk_mq_quiesced_elevator_steps_files)

definition lazy_preempt_dtask_step :: step where
  \<open>lazy_preempt_dtask_step =
   (''include/trace/hooks/dtask.h'',
    block
     [''DECLARE_HOOK(android_vh_freeze_whether_wake,'',
      ''	TP_PROTO(struct task_struct *t, bool *wake),'',
      ''	TP_ARGS(t, wake));'',
      [],
      ''#endif /* _TRACE_HOOK_DTASK_H */''],
    block
     [''DECLARE_HOOK(android_vh_freeze_whether_wake,'',
      ''	TP_PROTO(struct task_struct *t, bool *wake),'',
      ''	TP_ARGS(t, wake));'',
      [],
      ''/* ABK stable_515_backport: lazy preemption scheduling hooks (android14-6.1). */'',
      ''DECLARE_HOOK(android_vh_set_tsk_need_resched_lazy,'',
      ''	TP_PROTO(struct task_struct *p, struct rq *rq, int *need_lazy),'',
      ''	TP_ARGS(p, rq, need_lazy));'',
      [],
      ''DECLARE_HOOK(android_vh_resched_curr_lazy,'',
      ''	TP_PROTO(struct rq *rq, bool *skip_preempt),'',
      ''	TP_ARGS(rq, skip_preempt));'',
      [],
      ''DECLARE_HOOK(android_vh_clear_curr_lazy,'',
      ''	TP_PROTO(struct task_struct *tsk),'',
      ''	TP_ARGS(tsk));'',
      [],
      ''DECLARE_HOOK(android_vh_lock_delay_schedule,'',
      ''	TP_PROTO(struct task_struct *prev, int sched_mode, bool *ext_slice),'',
      ''	TP_ARGS(prev, sched_mode, ext_slice));'',
      ''#endif /* _TRACE_HOOK_DTASK_H */''], True)\<close>

definition lazy_preempt_dtask_rest_step :: step where
  \<open>lazy_preempt_dtask_rest_step =
   (''include/trace/hooks/dtask.h'',
    block
     [''DECLARE_HOOK(android_vh_set_tsk_need_resched_lazy,'',
      ''	TP_PROTO(struct task_struct *p, struct rq *rq, int *need_lazy),'',
      ''	TP_ARGS(p, rq, need_lazy));'',
      ''#endif /* _TRACE_HOOK_DTASK_H */''],
    block
     [''DECLARE_HOOK(android_vh_set_tsk_need_resched_lazy,'',
      ''	TP_PROTO(struct task_struct *p, struct rq *rq, int *need_lazy),'',
      ''	TP_ARGS(p, rq, need_lazy));'',
      [],
      ''/* ABK stable_515_backport: lazy preemption scheduling hooks (android14-6.1). */'',
      ''DECLARE_HOOK(android_vh_resched_curr_lazy,'',
      ''	TP_PROTO(struct rq *rq, bool *skip_preempt),'',
      ''	TP_ARGS(rq, skip_preempt));'',
      [],
      ''DECLARE_HOOK(android_vh_clear_curr_lazy,'',
      ''	TP_PROTO(struct task_struct *tsk),'',
      ''	TP_ARGS(tsk));'',
      [],
      ''DECLARE_HOOK(android_vh_lock_delay_schedule,'',
      ''	TP_PROTO(struct task_struct *prev, int sched_mode, bool *ext_slice),'',
      ''	TP_ARGS(prev, sched_mode, ext_slice));'',
      ''#endif /* _TRACE_HOOK_DTASK_H */''], True)\<close>

definition lazy_preempt_resched_step :: step where
  \<open>lazy_preempt_resched_step =
   (''kernel/sched/core.c'',
    block
     [''void resched_curr(struct rq *rq)'',
      ''{'',
      ''	struct task_struct *curr = rq->curr;'',
      ''	int cpu;'',
      [],
      ''	lockdep_assert_rq_held(rq);'',
      [],
      ''	if (test_tsk_need_resched(curr))'',
      ''		return;'',
      [],
      ''	cpu = cpu_of(rq);''],
    block
     [''void resched_curr(struct rq *rq)'',
      ''{'',
      ''	struct task_struct *curr = rq->curr;'',
      ''	int cpu, need_lazy = 0;'',
      [],
      ''	lockdep_assert_rq_held(rq);'',
      [],
      ''	if (test_tsk_need_resched(curr))'',
      ''		return;'',
      [],
      ''	/* ABK stable_515_backport: lazy preemption resched gate (android14-6.1). */'',
      ''	trace_android_vh_set_tsk_need_resched_lazy(curr, rq, &need_lazy);'',
      ''	if (need_lazy)'',
      ''		return;'',
      [],
      ''	cpu = cpu_of(rq);''], True)\<close>

definition lazy_preempt_hooks_step1 :: step where
  \<open>lazy_preempt_hooks_step1 =
   (''kernel/sched/fair.c'',
    ''#include <trace/hooks/sched.h>'',
    block
     [''#include <trace/hooks/sched.h>'',
      ''#include <trace/hooks/dtask.h>''], True)\<close>

definition lazy_preempt_hooks_step2 :: step where
  \<open>lazy_preempt_hooks_step2 =
   (''kernel/sched/core.c'',
    block
     [''	struct task_struct *prev, *next;'',
      ''	unsigned long *switch_count;'',
      ''	unsigned long prev_state;'',
      ''	struct rq_flags rf;'',
      ''	struct rq *rq;'',
      ''	int cpu;'',
      [],
      ''	cpu = smp_processor_id();''],
    block
     [''	struct task_struct *prev, *next;'',
      ''	unsigned long *switch_count;'',
      ''	unsigned long prev_state;'',
      ''	struct rq_flags rf;'',
      ''	struct rq *rq;'',
      ''	int cpu;'',
      ''	/* ABK stable_515_backport: bounded schedule deferral (android14-6.1). */'',
      ''	bool skip_schedule = false;'',
      [],
      ''	cpu = smp_processor_id();''], True)\<close>

definition lazy_preempt_hooks_step3 :: step where
  \<open>lazy_preempt_hooks_step3 =
   (''kernel/sched/core.c'',
    block
     [''	schedule_debug(prev, !!sched_mode);'',
      [],
      ''	if (sched_feat(HRTICK) || sched_feat(HRTICK_DL))''],
    block
     [''	schedule_debug(prev, !!sched_mode);'',
      [],
      ''	trace_android_vh_lock_delay_schedule(prev, sched_mode, &skip_schedule);'',
      [],
      ''	if (skip_schedule)'',
      ''		return;'',
      [],
      ''	if (sched_feat(HRTICK) || sched_feat(HRTICK_DL))''], True)\<close>

definition lazy_preempt_hooks_step4 :: step where
  \<open>lazy_preempt_hooks_step4 =
   (''kernel/sched/core.c'',
    block
     [''	next = pick_next_task(rq, prev, &rf);'',
      ''	clear_tsk_need_resched(prev);'',
      ''	clear_preempt_need_resched();''],
    block
     [''	next = pick_next_task(rq, prev, &rf);'',
      ''	clear_tsk_need_resched(prev);'',
      ''	clear_preempt_need_resched();'',
      ''	trace_android_vh_clear_curr_lazy(prev);''], True)\<close>

definition lazy_preempt_hooks_step5 :: step where
  \<open>lazy_preempt_hooks_step5 =
   (''kernel/sched/fair.c'',
    block
     [''	if (delta_exec > ideal_runtime) {'',
      ''		resched_curr(rq_of(cfs_rq));'',
      ''		/*'',
      ''		 * The current task ran long enough, ensure it doesn\'t get''],
    block
     [''	if (delta_exec > ideal_runtime) {'',
      ''		trace_android_vh_resched_curr_lazy(rq_of(cfs_rq), &skip_preempt);'',
      [],
      ''		if (skip_preempt)'',
      ''			return;'',
      [],
      ''		resched_curr(rq_of(cfs_rq));'',
      ''		/*'',
      ''		 * The current task ran long enough, ensure it doesn\'t get''], True)\<close>

definition lazy_preempt_hooks_step6 :: step where
  \<open>lazy_preempt_hooks_step6 =
   (''kernel/sched/fair.c'',
    block
     [''	if (queued) {'',
      ''		resched_curr(rq_of(cfs_rq));'',
      ''		return;'',
      ''	}''],
    block
     [''	if (queued) {'',
      ''		bool skip_preempt = false;'',
      [],
      ''		trace_android_vh_resched_curr_lazy(rq_of(cfs_rq), &skip_preempt);'',
      [],
      ''		if (skip_preempt)'',
      ''			return;'',
      [],
      ''		resched_curr(rq_of(cfs_rq));'',
      ''		return;'',
      ''	}''], True)\<close>

definition lazy_preempt_hooks_step7 :: step where
  \<open>lazy_preempt_hooks_step7 =
   (''kernel/sched/fair.c'',
    block
     [''preempt:'',
      ''	resched_curr(rq);'',
      ''	/*'',
      ''	 * Only set the backward buddy when the current task is still''],
    block
     [''preempt:'',
      ''	trace_android_vh_resched_curr_lazy(rq_of(cfs_rq), &ignore);'',
      [],
      ''	if (ignore)'',
      ''		return;'',
      [],
      ''	resched_curr(rq);'',
      ''	/*'',
      ''	 * Only set the backward buddy when the current task is still''], True)\<close>

definition lazy_preempt_rest :: "step list" where
  \<open>lazy_preempt_rest = [lazy_preempt_hooks_step1, lazy_preempt_hooks_step2, lazy_preempt_hooks_step3, lazy_preempt_hooks_step4, lazy_preempt_hooks_step5, lazy_preempt_hooks_step6, lazy_preempt_hooks_step7]\<close>

definition lazy_preempt_steps :: "str \<Rightarrow> str \<Rightarrow> step list" where
  \<open>lazy_preempt_steps dtext ctext =
     (if \<not> contains ''ABK stable_515_backport: lazy preemption scheduling hooks'' dtext
      then (if \<not> contains ''android_vh_set_tsk_need_resched_lazy'' dtext
            then [lazy_preempt_dtask_step] else [lazy_preempt_dtask_rest_step])
      else [])
     @ (if \<not> contains ''trace_android_vh_set_tsk_need_resched_lazy'' ctext
        then [lazy_preempt_resched_step] else [])
     @ lazy_preempt_rest\<close>

definition lazy_preempt_hooks_apply :: "outcome io" where
  \<open>lazy_preempt_hooks_apply =
    io_bind (ctx_read ''include/trace/hooks/dtask.h'') (\<lambda>dtext.
    io_bind (ctx_read ''kernel/sched/core.c'') (\<lambda>ctext.
    apply_or_block (lazy_preempt_steps dtext ctext)))\<close>

lemma lazy_preempt_files: "steps_files (lazy_preempt_steps d c) \<subseteq> {''include/trace/hooks/dtask.h'', ''kernel/sched/core.c'', ''kernel/sched/fair.c''}"
  by (auto simp: lazy_preempt_steps_def lazy_preempt_rest_def steps_files_fst
      step_file [OF lazy_preempt_dtask_step_def]
      step_file [OF lazy_preempt_dtask_rest_step_def]
      step_file [OF lazy_preempt_resched_step_def]
      step_file [OF lazy_preempt_hooks_step1_def]
      step_file [OF lazy_preempt_hooks_step2_def]
      step_file [OF lazy_preempt_hooks_step3_def]
      step_file [OF lazy_preempt_hooks_step4_def]
      step_file [OF lazy_preempt_hooks_step5_def]
      step_file [OF lazy_preempt_hooks_step6_def]
      step_file [OF lazy_preempt_hooks_step7_def])

lemma lazy_preempt_hooks_apply_txn: "transactional (\<lambda>_. {''include/trace/hooks/dtask.h'', ''kernel/sched/core.c'', ''kernel/sched/fair.c''}) lazy_preempt_hooks_apply"
proof -
  have "transactional (\<lambda>_. {''include/trace/hooks/dtask.h'', ''kernel/sched/core.c'', ''kernel/sched/fair.c''}) (apply_or_block (lazy_preempt_steps d c))" for d c
    by (rule txn_apply_or_block)
      (use lazy_preempt_files [of d c] in \<open>auto simp: is_backup_code BACKUP_SUFFIX_def\<close>)
  then show ?thesis
    unfolding lazy_preempt_hooks_apply_def
    by (intro txn_bind safe_intros) (simp_all add: is_backup_code BACKUP_SUFFIX_def)
qed

definition locking_wakeup_patch_step1 :: step where
  \<open>locking_wakeup_patch_step1 =
   (''include/trace/hooks/dtask.h'',
    block
     [''DECLARE_HOOK(android_vh_mutex_unlock_slowpath,'',
      ''	TP_PROTO(struct mutex *lock),'',
      ''	TP_ARGS(lock));'',
      ''DECLARE_HOOK(android_vh_record_mutex_lock_starttime,''],
    block
     [''DECLARE_HOOK(android_vh_mutex_unlock_slowpath,'',
      ''	TP_PROTO(struct mutex *lock),'',
      ''	TP_ARGS(lock));'',
      [],
      ''/* ABK stable_515_backport: post-wakeup fixup hook (android14-6.1). */'',
      ''DECLARE_HOOK(android_vh_mutex_wakeup_patch,'',
      ''	TP_PROTO(struct mutex *lock),'',
      ''	TP_ARGS(lock));'',
      ''DECLARE_HOOK(android_vh_record_mutex_lock_starttime,''], True)\<close>

definition locking_wakeup_patch_step2 :: step where
  \<open>locking_wakeup_patch_step2 =
   (''include/trace/hooks/rwsem.h'',
    block
     [''DECLARE_HOOK(android_vh_rwsem_wake_finish,'',
      ''	TP_PROTO(struct rw_semaphore *sem),'',
      ''	TP_ARGS(sem));'',
      ''DECLARE_HOOK(android_vh_rwsem_downgrade_wake_finish,''],
    block
     [''DECLARE_HOOK(android_vh_rwsem_wake_finish,'',
      ''	TP_PROTO(struct rw_semaphore *sem),'',
      ''	TP_ARGS(sem));'',
      [],
      ''/* ABK stable_515_backport: post-wakeup fixup hook (android14-6.1). */'',
      ''DECLARE_HOOK(android_vh_rwsem_wakeup_patch,'',
      ''	TP_PROTO(struct rw_semaphore *sem),'',
      ''	TP_ARGS(sem));'',
      ''DECLARE_HOOK(android_vh_rwsem_downgrade_wake_finish,''], True)\<close>

definition locking_wakeup_patch_step3 :: step where
  \<open>locking_wakeup_patch_step3 =
   (''kernel/locking/mutex.c'',
    block
     [''	raw_spin_unlock(&lock->wait_lock);'',
      [],
      ''	wake_up_q(&wake_q);'',
      ''}''],
    block
     [''	raw_spin_unlock(&lock->wait_lock);'',
      [],
      ''	wake_up_q(&wake_q);'',
      [],
      ''	/* ABK stable_515_backport: post-wakeup fixup point (android14-6.1). */'',
      ''	trace_android_vh_mutex_wakeup_patch(lock);'',
      ''}''], True)\<close>

definition locking_wakeup_patch_step4 :: step where
  \<open>locking_wakeup_patch_step4 =
   (''kernel/locking/rwsem.c'',
    block
     [''	trace_android_vh_rwsem_wake_finish(sem);'',
      [],
      ''	raw_spin_unlock_irqrestore(&sem->wait_lock, flags);'',
      ''	wake_up_q(&wake_q);'',
      [],
      ''	return sem;'',
      ''}''],
    block
     [''	trace_android_vh_rwsem_wake_finish(sem);'',
      [],
      ''	raw_spin_unlock_irqrestore(&sem->wait_lock, flags);'',
      ''	wake_up_q(&wake_q);'',
      [],
      ''	/* ABK stable_515_backport: post-wakeup fixup point (android14-6.1). */'',
      ''	trace_android_vh_rwsem_wakeup_patch(sem);'',
      [],
      ''	return sem;'',
      ''}''], True)\<close>

definition locking_wakeup_patch_steps :: "step list" where
  \<open>locking_wakeup_patch_steps = [locking_wakeup_patch_step1, locking_wakeup_patch_step2, locking_wakeup_patch_step3, locking_wakeup_patch_step4]\<close>

definition locking_wakeup_patch_apply :: "outcome io" where
  \<open>locking_wakeup_patch_apply =
    apply_or_block locking_wakeup_patch_steps\<close>

lemma locking_wakeup_patch_steps_files: "steps_files locking_wakeup_patch_steps = {''include/trace/hooks/dtask.h'', ''include/trace/hooks/rwsem.h'', ''kernel/locking/mutex.c'', ''kernel/locking/rwsem.c''}"
  by (simp add: locking_wakeup_patch_steps_def steps_files_fst insert_commute
      step_file [OF locking_wakeup_patch_step1_def]
      step_file [OF locking_wakeup_patch_step2_def]
      step_file [OF locking_wakeup_patch_step3_def]
      step_file [OF locking_wakeup_patch_step4_def])

lemma locking_wakeup_patch_steps_required: "all_required locking_wakeup_patch_steps"
  by (simp add: locking_wakeup_patch_steps_def all_required_def
      step_req [OF locking_wakeup_patch_step1_def]
      step_req [OF locking_wakeup_patch_step2_def]
      step_req [OF locking_wakeup_patch_step3_def]
      step_req [OF locking_wakeup_patch_step4_def])

lemma locking_wakeup_patch_apply_txn: "transactional (\<lambda>_. {''include/trace/hooks/dtask.h'', ''include/trace/hooks/rwsem.h'', ''kernel/locking/mutex.c'', ''kernel/locking/rwsem.c''}) locking_wakeup_patch_apply"
  unfolding locking_wakeup_patch_apply_def
  by (intro txn_intros safe_intros)
    (simp_all add: is_backup_code BACKUP_SUFFIX_def locking_wakeup_patch_steps_files)

end
