(* ===== verification/Perf_Psi.thy ===== *)
theory Perf_Psi
  imports Perf_Tools
begin

text \<open>
  \<^verbatim>\<open>scripts/abk_stable_perf.py\<close>, lines up to 1408: PSI IRQ tracking and kernfs polling. Anchors, steps and
  group functions stand in source order under the source's names.
\<close>

definition psi_irq_tracking_step1 :: step where
  \<open>psi_irq_tracking_step1 =
   (''include/linux/psi_types.h'',
    block
     [''enum psi_res {'',
      ''	PSI_IO,'',
      ''	PSI_MEM,'',
      ''	PSI_CPU,'',
      ''	NR_PSI_RESOURCES = 3,'',
      ''};''],
    block
     [''enum psi_res {'',
      ''	PSI_IO,'',
      ''	PSI_MEM,'',
      ''	PSI_CPU,'',
      ''/* ABK stable_515_backport: IRQ pressure resource (android14-6.1). */'',
      ''#ifdef CONFIG_IRQ_TIME_ACCOUNTING'',
      ''	PSI_IRQ,'',
      ''#endif'',
      ''	NR_PSI_RESOURCES,'',
      ''};''], True)\<close>

definition psi_irq_tracking_step2 :: step where
  \<open>psi_irq_tracking_step2 =
   (''include/linux/psi_types.h'',
    block
     [''	PSI_CPU_SOME,'',
      ''	PSI_CPU_FULL,'',
      ''	/* Only per-CPU, to weigh the CPU in the global average: */'',
      ''	PSI_NONIDLE,'',
      ''	NR_PSI_STATES = 7,'',
      ''};''],
    block
     [''	PSI_CPU_SOME,'',
      ''	PSI_CPU_FULL,'',
      ''#ifdef CONFIG_IRQ_TIME_ACCOUNTING'',
      ''	PSI_IRQ_FULL,'',
      ''#endif'',
      ''	/* Only per-CPU, to weigh the CPU in the global average: */'',
      ''	PSI_NONIDLE,'',
      ''	NR_PSI_STATES,'',
      ''};''], True)\<close>

definition psi_irq_tracking_step3 :: step where
  \<open>psi_irq_tracking_step3 =
   (''kernel/sched/stats.h'',
    block
     [''#ifdef CONFIG_PSI'',
      ''/*'',
      '' * PSI tracks state that persists across sleeps, such as iowaits and''],
    block
     [''#ifdef CONFIG_PSI'',
      [],
      ''/* ABK stable_515_backport: PSI IRQ pressure accounting (android14-6.1). */'',
      ''#ifdef CONFIG_IRQ_TIME_ACCOUNTING'',
      ''void psi_account_irqtime(struct rq *rq, struct task_struct *curr, struct task_struct *prev);'',
      ''#else'',
      ''static inline void psi_account_irqtime(struct rq *rq, struct task_struct *curr,'',
      ''				       struct task_struct *prev) {}'',
      ''#endif /* CONFIG_IRQ_TIME_ACCOUNTING */'',
      [],
      ''/*'',
      '' * PSI tracks state that persists across sleeps, such as iowaits and''], True)\<close>

definition psi_irq_tracking_step4 :: step where
  \<open>psi_irq_tracking_step4 =
   (''kernel/sched/stats.h'',
    block
     [''static inline void psi_sched_switch(struct task_struct *prev,'',
      ''				    struct task_struct *next,'',
      ''				    bool sleep) {}'',
      ''#endif /* CONFIG_PSI */''],
    block
     [''static inline void psi_sched_switch(struct task_struct *prev,'',
      ''				    struct task_struct *next,'',
      ''				    bool sleep) {}'',
      ''#ifdef CONFIG_IRQ_TIME_ACCOUNTING'',
      ''static inline void psi_account_irqtime(struct rq *rq, struct task_struct *curr,'',
      ''				       struct task_struct *prev) {}'',
      ''#endif /* CONFIG_IRQ_TIME_ACCOUNTING */'',
      ''#endif /* CONFIG_PSI */''], True)\<close>

definition psi_irq_tracking_step5 :: step where
  \<open>psi_irq_tracking_step5 =
   (''kernel/sched/psi.c'',
    block
     [''/**'',
      '' * psi_memstall_enter - mark the beginning of a memory stall section'',
      '' * @flags: flags to handle nested sections''],
    block
     [''/* ABK stable_515_backport: PSI IRQ pressure accounting, grafted from the'',
      '' * android14-6.1 ACK shape onto the 5.15 iterate_groups walk.'',
      '' */'',
      ''#ifdef CONFIG_IRQ_TIME_ACCOUNTING'',
      ''static DEFINE_PER_CPU(u64, psi_irq_time);'',
      ''void psi_account_irqtime(struct rq *rq, struct task_struct *curr, struct task_struct *prev)'',
      ''{'',
      ''	int cpu = task_cpu(curr);'',
      ''	struct psi_group *group;'',
      ''	struct psi_group_cpu *groupc;'',
      ''	void *iter = NULL;'',
      ''	u64 *psi_time;'',
      ''	s64 delta;'',
      ''	u64 irq;'',
      [],
      ''	if (!curr->pid)'',
      ''		return;'',
      [],
      ''	lockdep_assert_rq_held(rq);'',
      ''	if (prev) {'',
      ''		void *prev_iter = NULL;'',
      [],
      ''		if (iterate_groups(prev, &prev_iter) == iterate_groups(curr, &iter))'',
      ''			return;'',
      ''		iter = NULL;'',
      ''	}'',
      [],
      ''	irq = irq_time_read(cpu);'',
      ''	psi_time = &per_cpu(psi_irq_time, cpu);'',
      ''	delta = (s64)(irq - *psi_time);'',
      ''	if (delta < 0)'',
      ''		return;'',
      ''	*psi_time = irq;'',
      [],
      ''	while ((group = iterate_groups(curr, &iter))) {'',
      ''		u64 now;'',
      [],
      ''		groupc = per_cpu_ptr(group->pcpu, cpu);'',
      [],
      ''		write_seqcount_begin(&groupc->seq);'',
      ''		now = cpu_clock(cpu);'',
      [],
      ''		record_times(groupc, now);'',
      ''		groupc->times[PSI_IRQ_FULL] += delta;'',
      [],
      ''		write_seqcount_end(&groupc->seq);'',
      [],
      ''		if (group->poll_states & (1 << PSI_IRQ_FULL))'',
      ''			psi_schedule_poll_work(group, 1, false);'',
      ''	}'',
      ''}'',
      ''#endif /* CONFIG_IRQ_TIME_ACCOUNTING */'',
      [],
      ''/**'',
      '' * psi_memstall_enter - mark the beginning of a memory stall section'',
      '' * @flags: flags to handle nested sections''], True)\<close>

definition psi_irq_tracking_step6 :: step where
  \<open>psi_irq_tracking_step6 =
   (''kernel/sched/psi.c'',
    block
     [''int psi_show(struct seq_file *m, struct psi_group *group, enum psi_res res)'',
      ''{'',
      ''	int full;'',
      ''	u64 now;''],
    block
     [''int psi_show(struct seq_file *m, struct psi_group *group, enum psi_res res)'',
      ''{'',
      ''	bool only_full = false;'',
      ''	int full;'',
      ''	u64 now;''], True)\<close>

definition psi_irq_tracking_step7 :: step where
  \<open>psi_irq_tracking_step7 =
   (''kernel/sched/psi.c'',
    block
     [''	mutex_unlock(&group->avgs_lock);'',
      [],
      ''	for (full = 0; full < 2; full++) {''],
    block
     [''	mutex_unlock(&group->avgs_lock);'',
      [],
      ''#ifdef CONFIG_IRQ_TIME_ACCOUNTING'',
      ''	only_full = res == PSI_IRQ;'',
      ''#endif'',
      [],
      ''	for (full = 0; full < 2 - only_full; full++) {''], True)\<close>

definition psi_irq_tracking_step8 :: step where
  \<open>psi_irq_tracking_step8 =
   (''kernel/sched/psi.c'',
    ''			   full ? "full" : "some",'',
    ''			   full || only_full ? "full" : "some",'', True)\<close>

definition psi_irq_tracking_step9 :: step where
  \<open>psi_irq_tracking_step9 =
   (''kernel/sched/psi.c'',
    block
     [''	else'',
      ''		return ERR_PTR(-EINVAL);'',
      [],
      ''	if (state >= PSI_NONIDLE)'',
      ''		return ERR_PTR(-EINVAL);''],
    block
     [''	else'',
      ''		return ERR_PTR(-EINVAL);'',
      [],
      ''/* ABK stable_515_backport: irq pressure only supports full triggers (android14-6.1). */'',
      ''#ifdef CONFIG_IRQ_TIME_ACCOUNTING'',
      ''	if (res == PSI_IRQ && --state != PSI_IRQ_FULL)'',
      ''		return ERR_PTR(-EINVAL);'',
      ''#endif'',
      [],
      ''	if (state >= PSI_NONIDLE)'',
      ''		return ERR_PTR(-EINVAL);''], True)\<close>

definition psi_irq_tracking_step10 :: step where
  \<open>psi_irq_tracking_step10 =
   (''kernel/sched/psi.c'',
    block
     [[],
      ''static int __init psi_proc_init(void)'',
      []],
    block
     [[],
      ''/* ABK stable_515_backport: /proc/pressure/irq (android14-6.1). */'',
      ''#ifdef CONFIG_IRQ_TIME_ACCOUNTING'',
      ''static int psi_irq_show(struct seq_file *m, void *v)'',
      ''{'',
      ''	return psi_show(m, &psi_system, PSI_IRQ);'',
      ''}'',
      [],
      ''static int psi_irq_open(struct inode *inode, struct file *file)'',
      ''{'',
      ''	return single_open(file, psi_irq_show, NULL);'',
      ''}'',
      [],
      ''static ssize_t psi_irq_write(struct file *file, const char __user *user_buf,'',
      ''			     size_t nbytes, loff_t *ppos)'',
      ''{'',
      ''	return psi_write(file, user_buf, nbytes, PSI_IRQ);'',
      ''}'',
      [],
      ''static const struct proc_ops psi_irq_proc_ops = {'',
      ''	.proc_open	= psi_irq_open,'',
      ''	.proc_read	= seq_read,'',
      ''	.proc_lseek	= seq_lseek,'',
      ''	.proc_write	= psi_irq_write,'',
      ''	.proc_poll	= psi_fop_poll,'',
      ''	.proc_release	= psi_fop_release,'',
      ''};'',
      ''#endif'',
      [],
      ''static int __init psi_proc_init(void)'',
      []], True)\<close>

definition psi_irq_tracking_step11 :: step where
  \<open>psi_irq_tracking_step11 =
   (''kernel/sched/psi.c'',
    block
     [''		proc_create("pressure/cpu", 0, NULL, &psi_cpu_proc_ops);'',
      ''	}''],
    block
     [''		proc_create("pressure/cpu", 0, NULL, &psi_cpu_proc_ops);'',
      ''#ifdef CONFIG_IRQ_TIME_ACCOUNTING'',
      ''		proc_create("pressure/irq", 0, NULL, &psi_irq_proc_ops);'',
      ''#endif'',
      ''	}''], True)\<close>

definition psi_irq_tracking_step12 :: step where
  \<open>psi_irq_tracking_step12 =
   (''kernel/sched/core.c'',
    block
     [''	rq_lock(rq, &rf);'',
      [],
      ''	update_rq_clock(rq);'',
      ''	trace_android_rvh_tick_entry(rq);''],
    block
     [''	rq_lock(rq, &rf);'',
      [],
      ''	/* ABK stable_515_backport: PSI IRQ pressure accounting (android14-6.1). */'',
      ''	psi_account_irqtime(rq, curr, NULL);'',
      [],
      ''	update_rq_clock(rq);'',
      ''	trace_android_rvh_tick_entry(rq);''], True)\<close>

definition psi_irq_tracking_step13 :: step where
  \<open>psi_irq_tracking_step13 =
   (''kernel/sched/core.c'',
    block
     [''		migrate_disable_switch(rq, prev);'',
      ''		psi_sched_switch(prev, next, !task_on_rq_queued(prev));''],
    block
     [''		migrate_disable_switch(rq, prev);'',
      ''		psi_account_irqtime(rq, prev, next);'',
      ''		psi_sched_switch(prev, next, !task_on_rq_queued(prev));''], True)\<close>

definition psi_irq_tracking_steps :: "step list" where
  \<open>psi_irq_tracking_steps = [psi_irq_tracking_step1, psi_irq_tracking_step2, psi_irq_tracking_step3, psi_irq_tracking_step4, psi_irq_tracking_step5, psi_irq_tracking_step6, psi_irq_tracking_step7, psi_irq_tracking_step8, psi_irq_tracking_step9, psi_irq_tracking_step10, psi_irq_tracking_step11, psi_irq_tracking_step12, psi_irq_tracking_step13]\<close>

definition psi_irq_tracking_apply :: "outcome io" where
  \<open>psi_irq_tracking_apply =
    io_bind (read_or_empty ''kernel/sched/psi.c'') (\<lambda>text.
    if contains ''psi_account_irqtime'' text
    then io_ret (AlreadyPresent, ''PSI IRQ accounting is already in the tree'')
    else
    apply_or_block psi_irq_tracking_steps)\<close>

lemma psi_irq_tracking_steps_files: "steps_files psi_irq_tracking_steps = {''include/linux/psi_types.h'', ''kernel/sched/stats.h'', ''kernel/sched/psi.c'', ''kernel/sched/core.c''}"
  by (simp add: psi_irq_tracking_steps_def steps_files_fst insert_commute
      step_file [OF psi_irq_tracking_step1_def]
      step_file [OF psi_irq_tracking_step2_def]
      step_file [OF psi_irq_tracking_step3_def]
      step_file [OF psi_irq_tracking_step4_def]
      step_file [OF psi_irq_tracking_step5_def]
      step_file [OF psi_irq_tracking_step6_def]
      step_file [OF psi_irq_tracking_step7_def]
      step_file [OF psi_irq_tracking_step8_def]
      step_file [OF psi_irq_tracking_step9_def]
      step_file [OF psi_irq_tracking_step10_def]
      step_file [OF psi_irq_tracking_step11_def]
      step_file [OF psi_irq_tracking_step12_def]
      step_file [OF psi_irq_tracking_step13_def])

lemma psi_irq_tracking_steps_required: "all_required psi_irq_tracking_steps"
  by (simp add: psi_irq_tracking_steps_def all_required_def
      step_req [OF psi_irq_tracking_step1_def]
      step_req [OF psi_irq_tracking_step2_def]
      step_req [OF psi_irq_tracking_step3_def]
      step_req [OF psi_irq_tracking_step4_def]
      step_req [OF psi_irq_tracking_step5_def]
      step_req [OF psi_irq_tracking_step6_def]
      step_req [OF psi_irq_tracking_step7_def]
      step_req [OF psi_irq_tracking_step8_def]
      step_req [OF psi_irq_tracking_step9_def]
      step_req [OF psi_irq_tracking_step10_def]
      step_req [OF psi_irq_tracking_step11_def]
      step_req [OF psi_irq_tracking_step12_def]
      step_req [OF psi_irq_tracking_step13_def])

lemma psi_irq_tracking_apply_txn: "transactional (\<lambda>_. {''include/linux/psi_types.h'', ''kernel/sched/stats.h'', ''kernel/sched/psi.c'', ''kernel/sched/core.c''}) psi_irq_tracking_apply"
  unfolding psi_irq_tracking_apply_def
  by (intro txn_intros safe_intros)
    (simp_all add: is_backup_code BACKUP_SUFFIX_def psi_irq_tracking_steps_files)

definition psi_kernfs_polling_step1 :: step where
  \<open>psi_kernfs_polling_step1 =
   (''include/linux/psi_types.h'',
    block
     [''	/*'',
      ''	 * Time last event was generated. Used for rate-limiting'',
      ''	 * events to one per window'',
      ''	 */'',
      ''	u64 last_event_time;'',
      ''};''],
    block
     [''	/*'',
      ''	 * Time last event was generated. Used for rate-limiting'',
      ''	 * events to one per window'',
      ''	 */'',
      ''	u64 last_event_time;'',
      [],
      ''	/* ABK stable_515_backport: deferred event(s) from the previous ratelimit window (android14-6.1). */'',
      ''	bool pending_event;'',
      ''};''], True)\<close>

definition psi_kernfs_polling_step2 :: step where
  \<open>psi_kernfs_polling_step2 =
   (''include/linux/psi_types.h'',
    block
     [''enum poll_wakeup_bits {'',
      ''	POLL_WAKEUP	= 0,'',
      ''	POLL_SCHEDULED	= 1,'',
      ''};''],
    block
     [''enum poll_wakeup_bits {'',
      ''	POLL_WAKEUP	= 0,'',
      ''	POLL_SCHEDULED	= 1,'',
      ''};'',
      [],
      ''/* ABK stable_515_backport: kernfs polling wrapper for cgroup triggers (android14-6.1). */'',
      ''struct psi_trigger_ext {'',
      ''	struct psi_trigger trigger;'',
      [],
      ''	/* Kernfs file for cgroup triggers */'',
      ''	struct kernfs_open_file *of;'',
      ''};''], True)\<close>

definition psi_kernfs_polling_step3 :: step where
  \<open>psi_kernfs_polling_step3 =
   (''include/linux/psi.h'',
    block
     [''struct psi_trigger *psi_trigger_create(struct psi_group *group,'',
      ''			char *buf, size_t nbytes, enum psi_res res);''],
    block
     [''/* ABK stable_515_backport: kernfs-aware trigger creation (android14-6.1). */'',
      ''struct psi_trigger *psi_trigger_create(struct psi_group *group, char *buf,'',
      ''				       enum psi_res res, struct file *file,'',
      ''				       struct kernfs_open_file *of);''], True)\<close>

definition psi_kernfs_polling_step4 :: step where
  \<open>psi_kernfs_polling_step4 =
   (''kernel/sched/psi.c'',
    block
     [''/* PSI trigger definitions */'',
      ''#define WINDOW_MIN_US 500000	/* Min window size is 500ms */'',
      ''#define WINDOW_MAX_US 10000000	/* Max window size is 10s */''],
    block
     [''/* PSI trigger definitions */'',
      ''/* ABK stable_515_backport: windows may start at 1us (android14-6.1). */'',
      ''#define WINDOW_MAX_US 10000000	/* Max window size is 10s */''], True)\<close>

definition psi_kernfs_polling_step5 :: step where
  \<open>psi_kernfs_polling_step5 =
   (''kernel/sched/psi.c'',
    block
     [''	if (window_us < WINDOW_MIN_US ||'',
      ''		window_us > WINDOW_MAX_US)'',
      ''		return ERR_PTR(-EINVAL);''],
    block
     [''	if (window_us == 0 || window_us > WINDOW_MAX_US)'',
      ''		return ERR_PTR(-EINVAL);''], True)\<close>

definition psi_kernfs_polling_step6 :: step where
  \<open>psi_kernfs_polling_step6 =
   (''kernel/sched/psi.c'',
    block
     [''struct psi_trigger *psi_trigger_create(struct psi_group *group,'',
      ''			char *buf, size_t nbytes, enum psi_res res)'',
      ''{'',
      ''	struct psi_trigger *t;''],
    block
     [''struct psi_trigger *psi_trigger_create(struct psi_group *group, char *buf,'',
      ''				       enum psi_res res, struct file *file,'',
      ''				       struct kernfs_open_file *of)'',
      ''{'',
      ''	struct psi_trigger_ext *t_ext;'',
      ''	struct psi_trigger *t;''], True)\<close>

definition psi_kernfs_polling_step7 :: step where
  \<open>psi_kernfs_polling_step7 =
   (''kernel/sched/psi.c'',
    block
     [''	t = kmalloc(sizeof(*t), GFP_KERNEL);'',
      ''	if (!t)'',
      ''		return ERR_PTR(-ENOMEM);''],
    block
     [''	t_ext = kmalloc(sizeof(*t_ext), GFP_KERNEL);'',
      ''	if (!t_ext)'',
      ''		return ERR_PTR(-ENOMEM);'',
      ''	t = &t_ext->trigger;''], True)\<close>

definition psi_kernfs_polling_step8 :: step where
  \<open>psi_kernfs_polling_step8 =
   (''kernel/sched/psi.c'',
    block
     [''	window_reset(&t->win, 0, 0, 0);'',
      [],
      ''	t->event = 0;'',
      ''	t->last_event_time = 0;'',
      ''	init_waitqueue_head(&t->event_wait);''],
    block
     [''	window_reset(&t->win, sched_clock(),'',
      ''			group->total[PSI_POLL][t->state], 0);'',
      [],
      ''	t->event = 0;'',
      ''	t->last_event_time = 0;'',
      ''	t_ext->of = of;'',
      ''	if (!of)'',
      ''		init_waitqueue_head(&t->event_wait);'',
      ''	t->pending_event = false;''], True)\<close>

definition psi_kernfs_polling_step9 :: step where
  \<open>psi_kernfs_polling_step9 =
   (''kernel/sched/psi.c'',
    block
     [''		task = kthread_create(psi_poll_worker, group, "psimon");'',
      ''		if (IS_ERR(task)) {'',
      ''			kfree(t);'',
      ''			mutex_unlock(&group->trigger_lock);''],
    block
     [''		task = kthread_create(psi_poll_worker, group, "psimon");'',
      ''		if (IS_ERR(task)) {'',
      ''			kfree(t_ext);'',
      ''			mutex_unlock(&group->trigger_lock);''], True)\<close>

definition psi_kernfs_polling_step10 :: step where
  \<open>psi_kernfs_polling_step10 =
   (''kernel/sched/psi.c'',
    block
     [''static u64 update_triggers(struct psi_group *group, u64 now)'',
      ''{'',
      ''	struct psi_trigger *t;'',
      ''	bool new_stall = false;'',
      ''	u64 *total = group->total[PSI_POLL];''],
    block
     [''static u64 update_triggers(struct psi_group *group, u64 now)'',
      ''{'',
      ''	struct psi_trigger *t;'',
      ''	bool update_total = false;'',
      ''	u64 *total = group->total[PSI_POLL];''], True)\<close>

definition psi_kernfs_polling_step11 :: step where
  \<open>psi_kernfs_polling_step11 =
   (''kernel/sched/psi.c'',
    block
     [''	list_for_each_entry(t, &group->triggers, node) {'',
      ''		u64 growth;'',
      [],
      ''		/* Check for stall activity */'',
      ''		if (group->polling_total[t->state] == total[t->state])'',
      ''			continue;'',
      [],
      ''		/*'',
      ''		 * Multiple triggers might be looking at the same state,'',
      ''		 * remember to update group->polling_total[] once we\'ve'',
      ''		 * been through all of them. Also remember to extend the'',
      ''		 * polling time if we see new stall activity.'',
      ''		 */'',
      ''		new_stall = true;'',
      [],
      ''		/* Calculate growth since last update */'',
      ''		growth = window_update(&t->win, now, total[t->state]);'',
      ''		if (growth < t->threshold)'',
      ''			continue;'',
      [],
      ''		/* Limit event signaling to once per window */'',
      ''		if (now < t->last_event_time + t->win.size)'',
      ''			continue;''],
    block
     [''	list_for_each_entry(t, &group->triggers, node) {'',
      ''		u64 growth;'',
      ''		bool new_stall;'',
      [],
      ''		new_stall = group->polling_total[t->state] != total[t->state];'',
      [],
      ''		/* Check for stall activity or a previous threshold breach */'',
      ''		if (!new_stall && !t->pending_event)'',
      ''			continue;'',
      ''		/*'',
      ''		 * Check for new stall activity, as well as deferred'',
      ''		 * events that occurred in the last window after the'',
      ''		 * trigger had already fired (we want to ratelimit'',
      ''		 * events without dropping any).'',
      ''		 */'',
      ''		if (new_stall) {'',
      ''			/*'',
      ''			 * Multiple triggers might be looking at the same state,'',
      ''			 * remember to update group->polling_total[] once we\'ve'',
      ''			 * been through all of them. Also remember to extend the'',
      ''			 * polling time if we see new stall activity.'',
      ''			 */'',
      ''			update_total = true;'',
      [],
      ''			/* Calculate growth since last update */'',
      ''			growth = window_update(&t->win, now, total[t->state]);'',
      ''			if (!t->pending_event) {'',
      ''				if (growth < t->threshold)'',
      ''					continue;'',
      [],
      ''				t->pending_event = true;'',
      ''			}'',
      ''		}'',
      ''		/* Limit event signaling to once per window */'',
      ''		if (now < t->last_event_time + t->win.size)'',
      ''			continue;''], True)\<close>

definition psi_kernfs_polling_step12 :: step where
  \<open>psi_kernfs_polling_step12 =
   (''kernel/sched/psi.c'',
    block
     [''		/* Generate an event */'',
      ''		if (cmpxchg(&t->event, 0, 1) == 0)'',
      ''			wake_up_interruptible(&t->event_wait);'',
      ''		t->last_event_time = now;'',
      ''	}''],
    block
     [''		/* Generate an event */'',
      ''		if (cmpxchg(&t->event, 0, 1) == 0) {'',
      ''			struct psi_trigger_ext *t_ext;'',
      [],
      ''			t_ext = container_of(t, struct psi_trigger_ext, trigger);'',
      ''			if (t_ext->of)'',
      ''				kernfs_notify(t_ext->of->kn);'',
      ''			else'',
      ''				wake_up_interruptible(&t->event_wait);'',
      ''		}'',
      ''		t->last_event_time = now;'',
      ''		/* Reset threshold breach flag once event got generated */'',
      ''		t->pending_event = false;'',
      ''	}''], True)\<close>

definition psi_kernfs_polling_step13 :: step where
  \<open>psi_kernfs_polling_step13 =
   (''kernel/sched/psi.c'',
    block
     [''	if (new_stall)'',
      ''		memcpy(group->polling_total, total,'',
      ''				sizeof(group->polling_total));''],
    block
     [''	if (update_total)'',
      ''		memcpy(group->polling_total, total,'',
      ''				sizeof(group->polling_total));''], True)\<close>

definition psi_kernfs_polling_step14 :: step where
  \<open>psi_kernfs_polling_step14 =
   (''kernel/sched/psi.c'',
    block
     [''void psi_trigger_destroy(struct psi_trigger *t)'',
      ''{'',
      ''	struct psi_group *group;'',
      ''	struct task_struct *task_to_destroy = NULL;''],
    block
     [''void psi_trigger_destroy(struct psi_trigger *t)'',
      ''{'',
      ''	struct psi_trigger_ext *t_ext;'',
      ''	struct psi_group *group;'',
      ''	struct task_struct *task_to_destroy = NULL;''], True)\<close>

definition psi_kernfs_polling_step15 :: step where
  \<open>psi_kernfs_polling_step15 =
   (''kernel/sched/psi.c'',
    ''	wake_up_pollfree(&t->event_wait);'',
    block
     [''	t_ext = container_of(t, struct psi_trigger_ext, trigger);'',
      ''	if (t_ext->of)'',
      ''		kernfs_notify(t_ext->of->kn);'',
      ''	else'',
      ''		wake_up_interruptible(&t->event_wait);''], True)\<close>

definition psi_kernfs_polling_step16 :: step where
  \<open>psi_kernfs_polling_step16 =
   (''kernel/sched/psi.c'',
    block
     [''		kthread_stop(task_to_destroy);'',
      ''		atomic_clear_bit(POLL_SCHEDULED, &group->poll_wakeup);'',
      ''	}'',
      ''	kfree(t);'',
      ''}''],
    block
     [''		kthread_stop(task_to_destroy);'',
      ''		atomic_clear_bit(POLL_SCHEDULED, &group->poll_wakeup);'',
      ''	}'',
      ''	kfree(t_ext);'',
      ''}''], True)\<close>

definition psi_kernfs_polling_step17 :: step where
  \<open>psi_kernfs_polling_step17 =
   (''kernel/sched/psi.c'',
    block
     [''	__poll_t ret = DEFAULT_POLLMASK;'',
      ''	struct psi_trigger *t;''],
    block
     [''	__poll_t ret = DEFAULT_POLLMASK;'',
      ''	struct psi_trigger_ext *t_ext;'',
      ''	struct psi_trigger *t;''], True)\<close>

definition psi_kernfs_polling_step18 :: step where
  \<open>psi_kernfs_polling_step18 =
   (''kernel/sched/psi.c'',
    block
     [''	t = smp_load_acquire(trigger_ptr);'',
      ''	if (!t)'',
      ''		return DEFAULT_POLLMASK | EPOLLERR | EPOLLPRI;'',
      [],
      ''	poll_wait(file, &t->event_wait, wait);''],
    block
     [''	t = smp_load_acquire(trigger_ptr);'',
      ''	if (!t)'',
      ''		return DEFAULT_POLLMASK | EPOLLERR | EPOLLPRI;'',
      [],
      ''	t_ext = container_of(t, struct psi_trigger_ext, trigger);'',
      ''	if (t_ext->of)'',
      ''		kernfs_generic_poll(t_ext->of, wait);'',
      ''	else'',
      ''		poll_wait(file, &t->event_wait, wait);''], True)\<close>

definition psi_kernfs_polling_step19 :: step where
  \<open>psi_kernfs_polling_step19 =
   (''kernel/sched/psi.c'',
    ''	new = psi_trigger_create(&psi_system, buf, nbytes, res);'',
    ''	new = psi_trigger_create(&psi_system, buf, res, file, NULL);'', True)\<close>

definition psi_kernfs_polling_step20 :: step where
  \<open>psi_kernfs_polling_step20 =
   (''kernel/cgroup/cgroup.c'',
    ''	new = psi_trigger_create(psi, buf, nbytes, res);'',
    ''	new = psi_trigger_create(psi, buf, res, of->file, of);'', True)\<close>

definition psi_kernfs_polling_steps :: "step list" where
  \<open>psi_kernfs_polling_steps = [psi_kernfs_polling_step1, psi_kernfs_polling_step2, psi_kernfs_polling_step3, psi_kernfs_polling_step4, psi_kernfs_polling_step5, psi_kernfs_polling_step6, psi_kernfs_polling_step7, psi_kernfs_polling_step8, psi_kernfs_polling_step9, psi_kernfs_polling_step10, psi_kernfs_polling_step11, psi_kernfs_polling_step12, psi_kernfs_polling_step13, psi_kernfs_polling_step14, psi_kernfs_polling_step15, psi_kernfs_polling_step16, psi_kernfs_polling_step17, psi_kernfs_polling_step18, psi_kernfs_polling_step19, psi_kernfs_polling_step20]\<close>

definition psi_kernfs_polling_apply :: "outcome io" where
  \<open>psi_kernfs_polling_apply =
    apply_or_block psi_kernfs_polling_steps\<close>

lemma psi_kernfs_polling_steps_files: "steps_files psi_kernfs_polling_steps = {''include/linux/psi_types.h'', ''include/linux/psi.h'', ''kernel/sched/psi.c'', ''kernel/cgroup/cgroup.c''}"
  by (simp add: psi_kernfs_polling_steps_def steps_files_fst insert_commute
      step_file [OF psi_kernfs_polling_step1_def]
      step_file [OF psi_kernfs_polling_step2_def]
      step_file [OF psi_kernfs_polling_step3_def]
      step_file [OF psi_kernfs_polling_step4_def]
      step_file [OF psi_kernfs_polling_step5_def]
      step_file [OF psi_kernfs_polling_step6_def]
      step_file [OF psi_kernfs_polling_step7_def]
      step_file [OF psi_kernfs_polling_step8_def]
      step_file [OF psi_kernfs_polling_step9_def]
      step_file [OF psi_kernfs_polling_step10_def]
      step_file [OF psi_kernfs_polling_step11_def]
      step_file [OF psi_kernfs_polling_step12_def]
      step_file [OF psi_kernfs_polling_step13_def]
      step_file [OF psi_kernfs_polling_step14_def]
      step_file [OF psi_kernfs_polling_step15_def]
      step_file [OF psi_kernfs_polling_step16_def]
      step_file [OF psi_kernfs_polling_step17_def]
      step_file [OF psi_kernfs_polling_step18_def]
      step_file [OF psi_kernfs_polling_step19_def]
      step_file [OF psi_kernfs_polling_step20_def])

lemma psi_kernfs_polling_steps_required: "all_required psi_kernfs_polling_steps"
  by (simp add: psi_kernfs_polling_steps_def all_required_def
      step_req [OF psi_kernfs_polling_step1_def]
      step_req [OF psi_kernfs_polling_step2_def]
      step_req [OF psi_kernfs_polling_step3_def]
      step_req [OF psi_kernfs_polling_step4_def]
      step_req [OF psi_kernfs_polling_step5_def]
      step_req [OF psi_kernfs_polling_step6_def]
      step_req [OF psi_kernfs_polling_step7_def]
      step_req [OF psi_kernfs_polling_step8_def]
      step_req [OF psi_kernfs_polling_step9_def]
      step_req [OF psi_kernfs_polling_step10_def]
      step_req [OF psi_kernfs_polling_step11_def]
      step_req [OF psi_kernfs_polling_step12_def]
      step_req [OF psi_kernfs_polling_step13_def]
      step_req [OF psi_kernfs_polling_step14_def]
      step_req [OF psi_kernfs_polling_step15_def]
      step_req [OF psi_kernfs_polling_step16_def]
      step_req [OF psi_kernfs_polling_step17_def]
      step_req [OF psi_kernfs_polling_step18_def]
      step_req [OF psi_kernfs_polling_step19_def]
      step_req [OF psi_kernfs_polling_step20_def])

lemma psi_kernfs_polling_apply_txn: "transactional (\<lambda>_. {''include/linux/psi_types.h'', ''include/linux/psi.h'', ''kernel/sched/psi.c'', ''kernel/cgroup/cgroup.c''}) psi_kernfs_polling_apply"
  unfolding psi_kernfs_polling_apply_def
  by (intro txn_intros safe_intros)
    (simp_all add: is_backup_code BACKUP_SUFFIX_def psi_kernfs_polling_steps_files)

end
