(* ===== verification/Perf_Psi_Cgroup.thy ===== *)
theory Perf_Psi_Cgroup
  imports Perf_Tools
begin

text \<open>
  \<^verbatim>\<open>scripts/abk_stable_perf.py\<close>, lines up to 1979: the PSI cgroup switch and the on-CPU state mask. Anchors, steps and
  group functions stand in source order under the source's names.
\<close>

definition psi_cgroup_pressure_step1 :: step where
  \<open>psi_cgroup_pressure_step1 =
   (''include/linux/cgroup-defs.h'',
    block
     [''	/* Control group has to be killed. */'',
      ''	CGRP_KILL,'',
      ''};''],
    block
     [''	/* Control group has to be killed. */'',
      ''	CGRP_KILL,'',
      [],
      ''	/*'',
      ''	 * ABK stable_515_backport: PSI accounting is switched off for this'',
      ''	 * cgroup (cgroup.pressure, android14-6.1).  struct psi_group is'',
      ''	 * embedded in struct cgroup, so the ACK "enabled" member cannot be'',
      ''	 * added to it; a flag bit moves no member.'',
      ''	 */'',
      ''	CGRP_PSI_DISABLED,'',
      ''};''], True)\<close>

definition psi_cgroup_pressure_step2 :: step where
  \<open>psi_cgroup_pressure_step2 =
   (''include/linux/psi.h'',
    block
     [''#ifdef CONFIG_CGROUPS'',
      ''int psi_cgroup_alloc(struct cgroup *cgrp);'',
      ''void psi_cgroup_free(struct cgroup *cgrp);'',
      ''void cgroup_move_task(struct task_struct *p, struct css_set *to);'',
      ''#endif''],
    block
     [''#ifdef CONFIG_CGROUPS'',
      ''int psi_cgroup_alloc(struct cgroup *cgrp);'',
      ''void psi_cgroup_free(struct cgroup *cgrp);'',
      ''void cgroup_move_task(struct task_struct *p, struct css_set *to);'',
      [],
      ''/* ABK stable_515_backport: per-cgroup PSI accounting switch'',
      '' * (cgroup.pressure, android14-6.1).'',
      '' */'',
      ''bool psi_cgroup_accounting_enabled(struct cgroup *cgrp);'',
      ''void psi_cgroup_accounting_set(struct cgroup *cgrp, bool enable);'',
      ''void psi_cgroup_restart(struct psi_group *group);'',
      ''#endif''], True)\<close>

definition psi_cgroup_pressure_step3 :: step where
  \<open>psi_cgroup_pressure_step3 =
   (''kernel/sched/psi.c'',
    block
     [''static void psi_group_change(struct psi_group *group, int cpu,'',
      ''			     unsigned int clear, unsigned int set, u64 now,'',
      ''			     bool wake_clock)'',
      []],
    block
     [''/* ABK stable_515_backport: per-cgroup PSI accounting switch'',
      '' * (cgroup.pressure, android14-6.1).  struct psi_group is embedded in'',
      '' * struct cgroup, so the flag cannot live in the group itself -- a new'',
      '' * member would move struct cgroup\'s members.  psi_system has no cgroup'',
      '' * of its own (the root cgroup\'s pressure files are backed by it), so the'',
      '' * root\'s switch is kept here.'',
      '' */'',
      ''static bool psi_system_accounting_disabled;'',
      [],
      ''static bool psi_group_enabled(struct psi_group *group)'',
      ''{'',
      ''#ifdef CONFIG_CGROUPS'',
      ''	if (group != &psi_system)'',
      ''		return !test_bit(CGRP_PSI_DISABLED,'',
      ''				 &container_of(group, struct cgroup, psi)->flags);'',
      ''#endif'',
      ''	return !psi_system_accounting_disabled;'',
      ''}'',
      [],
      ''static void psi_group_change(struct psi_group *group, int cpu,'',
      ''			     unsigned int clear, unsigned int set, u64 now,'',
      ''			     bool wake_clock)'',
      []], True)\<close>

definition psi_cgroup_pressure_step4 :: step where
  \<open>psi_cgroup_pressure_step4 =
   (''kernel/sched/psi.c'',
    block
     [''	for (t = 0; set; set &= ~(1 << t), t++)'',
      ''		if (set & (1 << t))'',
      ''			groupc->tasks[t]++;'',
      [],
      ''	/* Calculate state mask representing active states */'',
      []],
    block
     [''	for (t = 0; set; set &= ~(1 << t), t++)'',
      ''		if (set & (1 << t))'',
      ''			groupc->tasks[t]++;'',
      [],
      ''	/*'',
      ''	 * ABK stable_515_backport: cgroup.pressure -- with the accounting'',
      ''	 * switched off, keep the task counts current (the levels above and'',
      ''	 * below consult them) but stop deriving and timing states.  The'',
      ''	 * record_times() above already concluded the state that was live when'',
      ''	 * the switch was turned off.'',
      ''	 */'',
      ''	if (unlikely(!psi_group_enabled(group))) {'',
      ''		groupc->state_mask = 0;'',
      [],
      ''		write_seqcount_end(&groupc->seq);'',
      [],
      ''		return;'',
      ''	}'',
      [],
      ''	/* Calculate state mask representing active states */'',
      []], True)\<close>

definition psi_cgroup_pressure_step5 :: step where
  \<open>psi_cgroup_pressure_step5 =
   (''kernel/sched/psi.c'',
    block
     [''	while ((group = iterate_groups(curr, &iter))) {'',
      ''		u64 now;'',
      [],
      ''		groupc = per_cpu_ptr(group->pcpu, cpu);'',
      []],
    block
     [''	while ((group = iterate_groups(curr, &iter))) {'',
      ''		u64 now;'',
      [],
      ''		if (!psi_group_enabled(group))'',
      ''			continue;'',
      [],
      ''		groupc = per_cpu_ptr(group->pcpu, cpu);'',
      []], True)\<close>

definition psi_cgroup_pressure_step6 :: step where
  \<open>psi_cgroup_pressure_step6 =
   (''kernel/sched/psi.c'',
    block
     [''	if (static_branch_likely(&psi_disabled))'',
      ''		return -EOPNOTSUPP;'',
      [],
      ''	/* Update averages before reporting them */'',
      []],
    block
     [''	if (static_branch_likely(&psi_disabled))'',
      ''		return -EOPNOTSUPP;'',
      [],
      ''	/* ABK stable_515_backport: cgroup.pressure -- a cgroup with the'',
      ''	 * accounting switched off has no pressure data to report.  5.15 has'',
      ''	 * no kernfs_show(), so the file stays visible and says so instead of'',
      ''	 * being hidden with the ACK 6.1 shape.'',
      ''	 */'',
      ''	if (!psi_group_enabled(group))'',
      ''		return -EOPNOTSUPP;'',
      [],
      ''	/* Update averages before reporting them */'',
      []], True)\<close>

definition psi_cgroup_pressure_step7 :: step where
  \<open>psi_cgroup_pressure_step7 =
   (''kernel/sched/psi.c'',
    block
     [''	if (static_branch_likely(&psi_disabled))'',
      ''		return ERR_PTR(-EOPNOTSUPP);'',
      [],
      ''	if (sscanf(buf, "some %u %u", &threshold_us, &window_us) == 2)'',
      []],
    block
     [''	if (static_branch_likely(&psi_disabled))'',
      ''		return ERR_PTR(-EOPNOTSUPP);'',
      [],
      ''	/* ABK stable_515_backport: cgroup.pressure -- a group with the'',
      ''	 * accounting switched off never grows a state to trigger on.'',
      ''	 */'',
      ''	if (!psi_group_enabled(group))'',
      ''		return ERR_PTR(-EOPNOTSUPP);'',
      [],
      ''	if (sscanf(buf, "some %u %u", &threshold_us, &window_us) == 2)'',
      []], True)\<close>

definition psi_cgroup_pressure_step8 :: step where
  \<open>psi_cgroup_pressure_step8 =
   (''kernel/sched/psi.c'',
    block
     [''	task_rq_unlock(rq, task, &rf);'',
      ''}'',
      ''#endif /* CONFIG_CGROUPS */''],
    block
     [''	task_rq_unlock(rq, task, &rf);'',
      ''}'',
      [],
      ''/* ABK stable_515_backport: cgroup.pressure accessors (android14-6.1).'',
      '' * The root cgroup\'s pressure files are backed by psi_system, not by an'',
      '' * embedded group, so its switch lives in this file rather than in a'',
      '' * cgroup flag.'',
      '' */'',
      ''bool psi_cgroup_accounting_enabled(struct cgroup *cgrp)'',
      ''{'',
      ''	if (cgroup_ino(cgrp) == 1)'',
      ''		return !psi_system_accounting_disabled;'',
      [],
      ''	return !test_bit(CGRP_PSI_DISABLED, &cgrp->flags);'',
      ''}'',
      [],
      ''void psi_cgroup_accounting_set(struct cgroup *cgrp, bool enable)'',
      ''{'',
      ''	if (cgroup_ino(cgrp) == 1) {'',
      ''		psi_system_accounting_disabled = !enable;'',
      ''		return;'',
      ''	}'',
      [],
      ''	if (enable)'',
      ''		clear_bit(CGRP_PSI_DISABLED, &cgrp->flags);'',
      ''	else'',
      ''		set_bit(CGRP_PSI_DISABLED, &cgrp->flags);'',
      ''}'',
      [],
      ''void psi_cgroup_restart(struct psi_group *group)'',
      ''{'',
      ''	int cpu;'',
      [],
      ''	/*'',
      ''	 * Switching the accounting off needs no sync: psi_group_change() sees'',
      ''	 * the switch and only keeps the task accounting.  Switching it back on'',
      ''	 * has to rebuild every CPU\'s state mask from the counts that were kept,'',
      ''	 * and restart the state clock, or the group stays silent.'',
      ''	 */'',
      ''	if (!psi_group_enabled(group))'',
      ''		return;'',
      [],
      ''	for_each_possible_cpu(cpu) {'',
      ''		struct rq *rq = cpu_rq(cpu);'',
      ''		struct rq_flags rf;'',
      [],
      ''		rq_lock_irq(rq, &rf);'',
      ''		psi_group_change(group, cpu, 0, 0, cpu_clock(cpu), true);'',
      ''		rq_unlock_irq(rq, &rf);'',
      ''	}'',
      ''}'',
      ''#endif /* CONFIG_CGROUPS */''], True)\<close>

definition psi_cgroup_pressure_step9 :: step where
  \<open>psi_cgroup_pressure_step9 =
   (''kernel/cgroup/cgroup.c'',
    block
     [''static ssize_t cgroup_pressure_write(struct kernfs_open_file *of, char *buf,'',
      ''					  size_t nbytes, enum psi_res res)'',
      []],
    block
     [''/* ABK stable_515_backport: renamed for the cgroup.pressure switch below,'',
      '' * which takes the cgroup_pressure_write() name as in android14-6.1.'',
      '' */'',
      ''static ssize_t pressure_write(struct kernfs_open_file *of, char *buf,'',
      ''			      size_t nbytes, enum psi_res res)'',
      []], True)\<close>

definition psi_cgroup_pressure_step10 :: step where
  \<open>psi_cgroup_pressure_step10 =
   (''kernel/cgroup/cgroup.c'',
    block
     [''	return cgroup_pressure_write(of, buf, nbytes, PSI_IO);'',
      []],
    block
     [''	return pressure_write(of, buf, nbytes, PSI_IO);'',
      []], True)\<close>

definition psi_cgroup_pressure_step11 :: step where
  \<open>psi_cgroup_pressure_step11 =
   (''kernel/cgroup/cgroup.c'',
    block
     [''	return cgroup_pressure_write(of, buf, nbytes, PSI_MEM);'',
      []],
    block
     [''	return pressure_write(of, buf, nbytes, PSI_MEM);'',
      []], True)\<close>

definition psi_cgroup_pressure_step12 :: step where
  \<open>psi_cgroup_pressure_step12 =
   (''kernel/cgroup/cgroup.c'',
    block
     [''	return cgroup_pressure_write(of, buf, nbytes, PSI_CPU);'',
      []],
    block
     [''	return pressure_write(of, buf, nbytes, PSI_CPU);'',
      []], True)\<close>

definition psi_cgroup_pressure_step13 :: step where
  \<open>psi_cgroup_pressure_step13 =
   (''kernel/cgroup/cgroup.c'',
    block
     [''static __poll_t cgroup_pressure_poll(struct kernfs_open_file *of,'',
      ''					  poll_table *pt)'',
      []],
    block
     [''/* ABK stable_515_backport: cgroup.pressure -- the per-cgroup PSI'',
      '' * accounting switch of android14-6.1.  Upstream keeps the state in'',
      '' * struct psi_group; here it is the cgroup\'s CGRP_PSI_DISABLED flag bit'',
      '' * (see psi.c), which leaves both struct layouts alone.  Upstream also'',
      '' * hides the pressure files while accounting is off; 5.15 has no'',
      '' * kernfs_show(), so they report EOPNOTSUPP instead of being hidden.'',
      '' */'',
      ''static int cgroup_pressure_show(struct seq_file *seq, void *v)'',
      ''{'',
      ''	struct cgroup *cgrp = seq_css(seq)->cgroup;'',
      [],
      (''	seq_printf(seq, "%d'' @ [BSL] @ ''n", psi_cgroup_accounting_enabled(cgrp));''),
      [],
      ''	return 0;'',
      ''}'',
      [],
      ''static ssize_t cgroup_pressure_write(struct kernfs_open_file *of,'',
      ''				     char *buf, size_t nbytes,'',
      ''				     loff_t off)'',
      ''{'',
      ''	ssize_t ret;'',
      ''	int enable;'',
      ''	struct cgroup *cgrp;'',
      [],
      ''	ret = kstrtoint(strstrip(buf), 0, &enable);'',
      ''	if (ret)'',
      ''		return ret;'',
      [],
      ''	if (enable < 0 || enable > 1)'',
      ''		return -ERANGE;'',
      [],
      ''	cgrp = cgroup_kn_lock_live(of->kn, false);'',
      ''	if (!cgrp)'',
      ''		return -ENOENT;'',
      [],
      ''	if (psi_cgroup_accounting_enabled(cgrp) != enable) {'',
      ''		psi_cgroup_accounting_set(cgrp, enable);'',
      ''		if (enable)'',
      ''			psi_cgroup_restart(cgroup_ino(cgrp) == 1 ?'',
      ''					   &psi_system : &cgrp->psi);'',
      ''	}'',
      [],
      ''	cgroup_kn_unlock(of->kn);'',
      [],
      ''	return nbytes;'',
      ''}'',
      [],
      ''static __poll_t cgroup_pressure_poll(struct kernfs_open_file *of,'',
      ''					  poll_table *pt)'',
      []], True)\<close>

definition psi_cgroup_pressure_step14 :: step where
  \<open>psi_cgroup_pressure_step14 =
   (''kernel/cgroup/cgroup.c'',
    block
     [''	{'',
      ''		.name = "cpu.pressure",'',
      ''		.flags = CFTYPE_PRESSURE,'',
      ''		.seq_show = cgroup_cpu_pressure_show,'',
      ''		.write = cgroup_cpu_pressure_write,'',
      ''		.poll = cgroup_pressure_poll,'',
      ''		.release = cgroup_pressure_release,'',
      ''	},'',
      []],
    block
     [''	{'',
      ''		.name = "cpu.pressure",'',
      ''		.flags = CFTYPE_PRESSURE,'',
      ''		.seq_show = cgroup_cpu_pressure_show,'',
      ''		.write = cgroup_cpu_pressure_write,'',
      ''		.poll = cgroup_pressure_poll,'',
      ''		.release = cgroup_pressure_release,'',
      ''	},'',
      ''	{'',
      ''		/* ABK stable_515_backport: per-cgroup PSI accounting switch'',
      ''		 * (android14-6.1).  CFTYPE_PRESSURE makes it appear and'',
      ''		 * disappear together with the pressure files it controls.'',
      ''		 */'',
      ''		.name = "cgroup.pressure",'',
      ''		.flags = CFTYPE_PRESSURE,'',
      ''		.seq_show = cgroup_pressure_show,'',
      ''		.write = cgroup_pressure_write,'',
      ''	},'',
      []], True)\<close>

definition psi_cgroup_pressure_step15 :: step where
  \<open>psi_cgroup_pressure_step15 =
   (''Documentation/admin-guide/cgroup-v2.rst'',
    block
     [''	In a threaded cgroup, writing this file fails with EOPNOTSUPP as'',
      ''	killing cgroups is a process directed operation, i.e. it affects'',
      ''	the whole thread-group.'',
      [],
      ''Controllers'',
      ''==========='',
      []],
    block
     [''	In a threaded cgroup, writing this file fails with EOPNOTSUPP as'',
      ''	killing cgroups is a process directed operation, i.e. it affects'',
      ''	the whole thread-group.'',
      [],
      ''  cgroup.pressure'',
      ''	A read-write single value file that allowed values are "0" and "1".'',
      ''	The default is "1".'',
      [],
      ''	Writing "0" to the file will disable the cgroup PSI accounting.'',
      ''	Writing "1" to the file will re-enable the cgroup PSI accounting.'',
      [],
      ''	This control attribute is not hierarchical, so disable or enable PSI'',
      ''	accounting in a cgroup does not affect PSI accounting in descendants'',
      ''	and doesn\'t need pass enablement via ancestors from root.'',
      [],
      ''	The reason this control attribute exists is that PSI accounts stalls for'',
      ''	each cgroup separately and aggregates it at each level of the hierarchy.'',
      ''	This may cause non-negligible overhead for some workloads when under'',
      ''	deep level of the hierarchy, in which case this control attribute can'',
      ''	be used to disable PSI accounting in the non-leaf cgroups.'',
      [],
      ''	Written on the root cgroup it controls the system-wide pressure'',
      ''	accounting reported by the /proc/pressure files.'',
      [],
      ''	While the accounting of a cgroup is disabled, its pressure files report'',
      ''	"operation not supported" instead of a stale value.'',
      [],
      ''Controllers'',
      ''==========='',
      []], True)\<close>

definition psi_cgroup_pressure_steps :: "step list" where
  \<open>psi_cgroup_pressure_steps = [psi_cgroup_pressure_step1, psi_cgroup_pressure_step2, psi_cgroup_pressure_step3, psi_cgroup_pressure_step4, psi_cgroup_pressure_step5, psi_cgroup_pressure_step6, psi_cgroup_pressure_step7, psi_cgroup_pressure_step8, psi_cgroup_pressure_step9, psi_cgroup_pressure_step10, psi_cgroup_pressure_step11, psi_cgroup_pressure_step12, psi_cgroup_pressure_step13, psi_cgroup_pressure_step14, psi_cgroup_pressure_step15]\<close>

definition psi_cgroup_pressure_apply :: "outcome io" where
  \<open>psi_cgroup_pressure_apply =
    io_bind (read_or_empty ''kernel/cgroup/cgroup.c'') (\<lambda>text.
    if contains ''cgroup.pressure'' text
    then io_ret (AlreadyPresent, ''cgroup.pressure is already in the cgroup base files'')
    else
    apply_or_block psi_cgroup_pressure_steps)\<close>

lemma psi_cgroup_pressure_steps_files: "steps_files psi_cgroup_pressure_steps = {''include/linux/cgroup-defs.h'', ''include/linux/psi.h'', ''kernel/sched/psi.c'', ''kernel/cgroup/cgroup.c'', ''Documentation/admin-guide/cgroup-v2.rst''}"
  by (simp add: psi_cgroup_pressure_steps_def steps_files_fst insert_commute
      step_file [OF psi_cgroup_pressure_step1_def]
      step_file [OF psi_cgroup_pressure_step2_def]
      step_file [OF psi_cgroup_pressure_step3_def]
      step_file [OF psi_cgroup_pressure_step4_def]
      step_file [OF psi_cgroup_pressure_step5_def]
      step_file [OF psi_cgroup_pressure_step6_def]
      step_file [OF psi_cgroup_pressure_step7_def]
      step_file [OF psi_cgroup_pressure_step8_def]
      step_file [OF psi_cgroup_pressure_step9_def]
      step_file [OF psi_cgroup_pressure_step10_def]
      step_file [OF psi_cgroup_pressure_step11_def]
      step_file [OF psi_cgroup_pressure_step12_def]
      step_file [OF psi_cgroup_pressure_step13_def]
      step_file [OF psi_cgroup_pressure_step14_def]
      step_file [OF psi_cgroup_pressure_step15_def])

lemma psi_cgroup_pressure_steps_required: "all_required psi_cgroup_pressure_steps"
  by (simp add: psi_cgroup_pressure_steps_def all_required_def
      step_req [OF psi_cgroup_pressure_step1_def]
      step_req [OF psi_cgroup_pressure_step2_def]
      step_req [OF psi_cgroup_pressure_step3_def]
      step_req [OF psi_cgroup_pressure_step4_def]
      step_req [OF psi_cgroup_pressure_step5_def]
      step_req [OF psi_cgroup_pressure_step6_def]
      step_req [OF psi_cgroup_pressure_step7_def]
      step_req [OF psi_cgroup_pressure_step8_def]
      step_req [OF psi_cgroup_pressure_step9_def]
      step_req [OF psi_cgroup_pressure_step10_def]
      step_req [OF psi_cgroup_pressure_step11_def]
      step_req [OF psi_cgroup_pressure_step12_def]
      step_req [OF psi_cgroup_pressure_step13_def]
      step_req [OF psi_cgroup_pressure_step14_def]
      step_req [OF psi_cgroup_pressure_step15_def])

lemma psi_cgroup_pressure_apply_txn: "transactional (\<lambda>_. {''include/linux/cgroup-defs.h'', ''include/linux/psi.h'', ''kernel/sched/psi.c'', ''kernel/cgroup/cgroup.c'', ''Documentation/admin-guide/cgroup-v2.rst''}) psi_cgroup_pressure_apply"
  unfolding psi_cgroup_pressure_apply_def
  by (intro txn_intros safe_intros)
    (simp_all add: is_backup_code BACKUP_SUFFIX_def psi_cgroup_pressure_steps_files)

definition psi_oncpu_state_mask_step1 :: step where
  \<open>psi_oncpu_state_mask_step1 =
   (''include/linux/psi_types.h'',
    block
     [''	NR_RUNNING,'',
      ''	/*'',
      ''	 * This can\'t have values other than 0 or 1 and could be'',
      ''	 * implemented as a bit flag. But for now we still have room'',
      ''	 * in the first cacheline of psi_group_cpu, and this way we'',
      ''	 * don\'t have to special case any state tracking for it.'',
      ''	 */'',
      ''	NR_ONCPU,'',
      ''	/*'',
      ''	 * For IO and CPU stalls the presence of running/oncpu tasks'',
      ''	 * in the domain means a partial rather than a full stall.'',
      []],
    block
     [''	NR_RUNNING,'',
      ''	/*'',
      ''	 * For IO and CPU stalls the presence of running/oncpu tasks'',
      ''	 * in the domain means a partial rather than a full stall.'',
      []], True)\<close>

definition psi_oncpu_state_mask_step2 :: step where
  \<open>psi_oncpu_state_mask_step2 =
   (''include/linux/psi_types.h'',
    block
     [''	NR_MEMSTALL_RUNNING,'',
      ''	NR_PSI_TASK_COUNTS = 5,'',
      ''};''],
    block
     [''	NR_MEMSTALL_RUNNING,'',
      ''	NR_PSI_TASK_COUNTS = 4,'',
      ''};''], True)\<close>

definition psi_oncpu_state_mask_step3 :: step where
  \<open>psi_oncpu_state_mask_step3 =
   (''include/linux/psi_types.h'',
    block
     [''#define TSK_ONCPU	(1 << NR_ONCPU)'',
      []],
    block
     [''/* ABK stable_515_backport: only one task can be scheduled on a CPU, so'',
      '' * TSK_ONCPU is a flag in the state mask rather than a task count'',
      '' * (android14-6.1).'',
      '' */'',
      ''#define TSK_ONCPU	(1 << NR_PSI_TASK_COUNTS)'',
      []], True)\<close>

definition psi_oncpu_state_mask_step4 :: step where
  \<open>psi_oncpu_state_mask_step4 =
   (''include/linux/psi_types.h'',
    block
     [''	/* Only per-CPU, to weigh the CPU in the global average: */'',
      ''	PSI_NONIDLE,'',
      ''	NR_PSI_STATES,'',
      ''};''],
    block
     [''	/* Only per-CPU, to weigh the CPU in the global average: */'',
      ''	PSI_NONIDLE,'',
      ''	NR_PSI_STATES,'',
      ''};'',
      [],
      ''/* ABK stable_515_backport: use one bit in the state mask to track'',
      '' * TSK_ONCPU (android14-6.1).'',
      '' */'',
      ''#define PSI_ONCPU	(1 << NR_PSI_STATES)'',
      []], True)\<close>

definition psi_oncpu_state_mask_step5 :: step where
  \<open>psi_oncpu_state_mask_step5 =
   (''kernel/sched/psi.c'',
    block
     [''static bool test_state(unsigned int *tasks, enum psi_states state)'',
      ''{'',
      ''	switch (state) {'',
      ''	case PSI_IO_SOME:'',
      []],
    block
     [''static bool test_state(unsigned int *tasks, enum psi_states state, bool oncpu)'',
      ''{'',
      ''	switch (state) {'',
      ''	case PSI_IO_SOME:'',
      []], True)\<close>

definition psi_oncpu_state_mask_step6 :: step where
  \<open>psi_oncpu_state_mask_step6 =
   (''kernel/sched/psi.c'',
    block
     [''	case PSI_CPU_SOME:'',
      ''		return unlikely(tasks[NR_RUNNING] > tasks[NR_ONCPU]);'',
      ''	case PSI_CPU_FULL:'',
      ''		return unlikely(tasks[NR_RUNNING] && !tasks[NR_ONCPU]);'',
      []],
    block
     [''	case PSI_CPU_SOME:'',
      ''		return unlikely(tasks[NR_RUNNING] > oncpu);'',
      ''	case PSI_CPU_FULL:'',
      ''		return unlikely(tasks[NR_RUNNING] && !oncpu);'',
      []], True)\<close>

definition psi_oncpu_state_mask_step7 :: step where
  \<open>psi_oncpu_state_mask_step7 =
   (''kernel/sched/psi.c'',
    block
     [''	write_seqcount_begin(&groupc->seq);'',
      [],
      ''	record_times(groupc, now);'',
      [],
      ''	for (t = 0, m = clear; m; m &= ~(1 << t), t++) {'',
      []],
    block
     [''	write_seqcount_begin(&groupc->seq);'',
      [],
      ''	record_times(groupc, now);'',
      [],
      ''	/*'',
      ''	 * ABK stable_515_backport: TSK_ONCPU has no task count -- only one'',
      ''	 * task can be scheduled on a CPU, so it is a flag carried in the'',
      ''	 * state mask (android14-6.1).  Set, clear or carry it, then keep it'',
      ''	 * out of the count update below.'',
      ''	 */'',
      ''	if (unlikely(clear & TSK_ONCPU)) {'',
      ''		state_mask = 0;'',
      ''		clear &= ~TSK_ONCPU;'',
      ''	} else if (unlikely(set & TSK_ONCPU)) {'',
      ''		state_mask = PSI_ONCPU;'',
      ''		set &= ~TSK_ONCPU;'',
      ''	} else {'',
      ''		state_mask = groupc->state_mask & PSI_ONCPU;'',
      ''	}'',
      [],
      ''	for (t = 0, m = clear; m; m &= ~(1 << t), t++) {'',
      []], True)\<close>

definition psi_oncpu_state_mask_step8 :: step where
  \<open>psi_oncpu_state_mask_step8 =
   (''kernel/sched/psi.c'',
    block
     [(''			printk_deferred(KERN_ERR "psi: task underflow! cpu=%d t=%d tasks=[%u %u %u %u %u] clear=%x set=%x'' @ [BSL] @ ''n",''),
      ''					cpu, t, groupc->tasks[0],'',
      ''					groupc->tasks[1], groupc->tasks[2],'',
      ''					groupc->tasks[3], groupc->tasks[4],'',
      ''					clear, set);'',
      []],
    block
     [(''			printk_deferred(KERN_ERR "psi: task underflow! cpu=%d t=%d tasks=[%u %u %u %u] clear=%x set=%x'' @ [BSL] @ ''n",''),
      ''					cpu, t, groupc->tasks[0],'',
      ''					groupc->tasks[1], groupc->tasks[2],'',
      ''					groupc->tasks[3], clear, set);'',
      []], True)\<close>

definition psi_oncpu_state_mask_step9 :: step where
  \<open>psi_oncpu_state_mask_step9 =
   (''kernel/sched/psi.c'',
    block
     [''	 * ABK stable_515_backport: cgroup.pressure -- with the accounting'',
      ''	 * switched off, keep the task counts current (the levels above and'',
      ''	 * below consult them) but stop deriving and timing states.  The'',
      ''	 * record_times() above already concluded the state that was live when'',
      ''	 * the switch was turned off.'',
      ''	 */'',
      ''	if (unlikely(!psi_group_enabled(group))) {'',
      ''		groupc->state_mask = 0;'',
      []],
    block
     [''	 * ABK stable_515_backport: cgroup.pressure -- with the accounting'',
      ''	 * switched off, keep the task counts and the ONCPU flag current (the'',
      ''	 * levels above and below consult them) but stop deriving and timing'',
      ''	 * states.  The record_times() above already concluded the state that'',
      ''	 * was live when the switch was turned off.'',
      ''	 */'',
      ''	if (unlikely(!psi_group_enabled(group))) {'',
      ''		groupc->state_mask = state_mask;'',
      []], True)\<close>

definition psi_oncpu_state_mask_step10 :: step where
  \<open>psi_oncpu_state_mask_step10 =
   (''kernel/sched/psi.c'',
    block
     [''	/* Calculate state mask representing active states */'',
      ''	for (s = 0; s < NR_PSI_STATES; s++) {'',
      ''		if (test_state(groupc->tasks, s))'',
      ''			state_mask |= (1 << s);'',
      ''	}'',
      []],
    block
     [''	/* Calculate state mask representing active states */'',
      ''	for (s = 0; s < NR_PSI_STATES; s++) {'',
      ''		if (test_state(groupc->tasks, s, state_mask & PSI_ONCPU))'',
      ''			state_mask |= (1 << s);'',
      ''	}'',
      []], True)\<close>

definition psi_oncpu_state_mask_step11 :: step where
  \<open>psi_oncpu_state_mask_step11 =
   (''kernel/sched/psi.c'',
    block
     [''	if (unlikely(groupc->tasks[NR_ONCPU] && cpu_curr(cpu)->in_memstall))'',
      []],
    block
     [''	if (unlikely((state_mask & PSI_ONCPU) && cpu_curr(cpu)->in_memstall))'',
      []], True)\<close>

definition psi_oncpu_state_mask_step12 :: step where
  \<open>psi_oncpu_state_mask_step12 =
   (''kernel/sched/psi.c'',
    block
     [''	if (next->pid) {'',
      ''		bool identical_state;'',
      [],
      ''		psi_flags_change(next, 0, TSK_ONCPU);'',
      ''		/*'',
      ''		 * When switching between tasks that have an identical'',
      ''		 * runtime state, the cgroup that contains both tasks'',
      ''		 * runtime state, the cgroup that contains both tasks'',
      ''		 * we reach the first common ancestor. Iterate @next\'s'',
      ''		 * ancestors only until we encounter @prev\'s ONCPU.'',
      ''		 */'',
      ''		identical_state = prev->psi_flags == next->psi_flags;'',
      ''		iter = NULL;'',
      ''		while ((group = iterate_groups(next, &iter))) {'',
      ''			if (identical_state &&'',
      ''			    per_cpu_ptr(group->pcpu, cpu)->tasks[NR_ONCPU]) {'',
      ''				common = group;'',
      ''				break;'',
      ''			}'',
      [],
      ''			psi_group_change(group, cpu, 0, TSK_ONCPU, now, true);'',
      ''		}'',
      ''	}'',
      []],
    block
     [''	if (next->pid) {'',
      ''		psi_flags_change(next, 0, TSK_ONCPU);'',
      ''		/*'',
      ''		 * Set TSK_ONCPU on @next\'s cgroups. If @next shares any'',
      ''		 * ancestors with @prev, those will already have @prev\'s'',
      ''		 * TSK_ONCPU bit set, and we can stop the iteration there.'',
      ''		 */'',
      ''		iter = NULL;'',
      ''		while ((group = iterate_groups(next, &iter))) {'',
      ''			if (per_cpu_ptr(group->pcpu, cpu)->state_mask &'',
      ''			    PSI_ONCPU) {'',
      ''				common = group;'',
      ''				break;'',
      ''			}'',
      [],
      ''			psi_group_change(group, cpu, 0, TSK_ONCPU, now, true);'',
      ''		}'',
      ''	}'',
      []], True)\<close>

definition psi_oncpu_state_mask_step13 :: step where
  \<open>psi_oncpu_state_mask_step13 =
   (''kernel/sched/psi.c'',
    block
     [''		/*'',
      ''		 * TSK_ONCPU is handled up to the common ancestor. If we\'re tasked'',
      ''		 * with dequeuing too, finish that for the rest of the hierarchy.'',
      ''		 */'',
      ''		if (sleep) {'',
      ''			clear &= ~TSK_ONCPU;'',
      ''			for (; group; group = iterate_groups(prev, &iter))'',
      ''				psi_group_change(group, cpu, clear, set, now, true);'',
      ''		}'',
      []],
    block
     [''		/*'',
      ''		 * TSK_ONCPU is handled up to the common ancestor. If there are'',
      ''		 * any other differences between the two tasks (e.g. prev goes'',
      ''		 * to sleep, or only one task is memstall), finish propagating'',
      ''		 * those differences all the way up to the root.'',
      ''		 */'',
      ''		if ((prev->psi_flags ^ next->psi_flags) & ~TSK_ONCPU) {'',
      ''			clear &= ~TSK_ONCPU;'',
      ''			for (; group; group = iterate_groups(prev, &iter))'',
      ''				psi_group_change(group, cpu, clear, set, now, true);'',
      ''		}'',
      []], True)\<close>

definition psi_oncpu_state_mask_steps :: "step list" where
  \<open>psi_oncpu_state_mask_steps = [psi_oncpu_state_mask_step1, psi_oncpu_state_mask_step2, psi_oncpu_state_mask_step3, psi_oncpu_state_mask_step4, psi_oncpu_state_mask_step5, psi_oncpu_state_mask_step6, psi_oncpu_state_mask_step7, psi_oncpu_state_mask_step8, psi_oncpu_state_mask_step9, psi_oncpu_state_mask_step10, psi_oncpu_state_mask_step11, psi_oncpu_state_mask_step12, psi_oncpu_state_mask_step13]\<close>

definition psi_oncpu_state_mask_apply :: "outcome io" where
  \<open>psi_oncpu_state_mask_apply =
    io_bind (read_or_empty ''include/linux/psi_types.h'') (\<lambda>text.
    if contains ''PSI_ONCPU'' text
    then io_ret (AlreadyPresent, ''TSK_ONCPU is already a state-mask bit'')
    else
    apply_or_block psi_oncpu_state_mask_steps)\<close>

lemma psi_oncpu_state_mask_steps_files: "steps_files psi_oncpu_state_mask_steps = {''include/linux/psi_types.h'', ''kernel/sched/psi.c''}"
  by (simp add: psi_oncpu_state_mask_steps_def steps_files_fst insert_commute
      step_file [OF psi_oncpu_state_mask_step1_def]
      step_file [OF psi_oncpu_state_mask_step2_def]
      step_file [OF psi_oncpu_state_mask_step3_def]
      step_file [OF psi_oncpu_state_mask_step4_def]
      step_file [OF psi_oncpu_state_mask_step5_def]
      step_file [OF psi_oncpu_state_mask_step6_def]
      step_file [OF psi_oncpu_state_mask_step7_def]
      step_file [OF psi_oncpu_state_mask_step8_def]
      step_file [OF psi_oncpu_state_mask_step9_def]
      step_file [OF psi_oncpu_state_mask_step10_def]
      step_file [OF psi_oncpu_state_mask_step11_def]
      step_file [OF psi_oncpu_state_mask_step12_def]
      step_file [OF psi_oncpu_state_mask_step13_def])

lemma psi_oncpu_state_mask_steps_required: "all_required psi_oncpu_state_mask_steps"
  by (simp add: psi_oncpu_state_mask_steps_def all_required_def
      step_req [OF psi_oncpu_state_mask_step1_def]
      step_req [OF psi_oncpu_state_mask_step2_def]
      step_req [OF psi_oncpu_state_mask_step3_def]
      step_req [OF psi_oncpu_state_mask_step4_def]
      step_req [OF psi_oncpu_state_mask_step5_def]
      step_req [OF psi_oncpu_state_mask_step6_def]
      step_req [OF psi_oncpu_state_mask_step7_def]
      step_req [OF psi_oncpu_state_mask_step8_def]
      step_req [OF psi_oncpu_state_mask_step9_def]
      step_req [OF psi_oncpu_state_mask_step10_def]
      step_req [OF psi_oncpu_state_mask_step11_def]
      step_req [OF psi_oncpu_state_mask_step12_def]
      step_req [OF psi_oncpu_state_mask_step13_def])

lemma psi_oncpu_state_mask_apply_txn: "transactional (\<lambda>_. {''include/linux/psi_types.h'', ''kernel/sched/psi.c''}) psi_oncpu_state_mask_apply"
  unfolding psi_oncpu_state_mask_apply_def
  by (intro txn_intros safe_intros)
    (simp_all add: is_backup_code BACKUP_SUFFIX_def psi_oncpu_state_mask_steps_files)

end
