(* ===== verification/Sha256.thy ===== *)
theory Sha256
  imports Graft_Engine "HOL-Library.Word"
begin

text \<open>
  \<open>hashlib.sha256(...).hexdigest()\<close>, which two batch modules print as the identity of their
  payload: FIPS 180-4 over 32-bit words, on the bytes of a text.
\<close>

unbundle bit_operations_syntax

type_synonym u32 = "32 word"

definition SHA_K :: "u32 list" where
  "SHA_K =
    [0x428a2f98, 0x71374491, 0xb5c0fbcf, 0xe9b5dba5, 0x3956c25b, 0x59f111f1, 0x923f82a4, 0xab1c5ed5,
     0xd807aa98, 0x12835b01, 0x243185be, 0x550c7dc3, 0x72be5d74, 0x80deb1fe, 0x9bdc06a7, 0xc19bf174,
     0xe49b69c1, 0xefbe4786, 0x0fc19dc6, 0x240ca1cc, 0x2de92c6f, 0x4a7484aa, 0x5cb0a9dc, 0x76f988da,
     0x983e5152, 0xa831c66d, 0xb00327c8, 0xbf597fc7, 0xc6e00bf3, 0xd5a79147, 0x06ca6351, 0x14292967,
     0x27b70a85, 0x2e1b2138, 0x4d2c6dfc, 0x53380d13, 0x650a7354, 0x766a0abb, 0x81c2c92e, 0x92722c85,
     0xa2bfe8a1, 0xa81a664b, 0xc24b8b70, 0xc76c51a3, 0xd192e819, 0xd6990624, 0xf40e3585, 0x106aa070,
     0x19a4c116, 0x1e376c08, 0x2748774c, 0x34b0bcb5, 0x391c0cb3, 0x4ed8aa4a, 0x5b9cca4f, 0x682e6ff3,
     0x748f82ee, 0x78a5636f, 0x84c87814, 0x8cc70208, 0x90befffa, 0xa4506ceb, 0xbef9a3f7, 0xc67178f2]"

definition SHA_H0 :: "u32 list" where
  "SHA_H0 = [0x6a09e667, 0xbb67ae85, 0x3c6ef372, 0xa54ff53a, 0x510e527f, 0x9b05688c, 0x1f83d9ab, 0x5be0cd19]"

definition rotr :: "nat \<Rightarrow> u32 \<Rightarrow> u32" where
  "rotr n x = drop_bit n x OR push_bit (32 - n) x"

subsection \<open>Padding\<close>

fun be_bytes :: "nat \<Rightarrow> int \<Rightarrow> u32 list \<Rightarrow> u32 list" where
  \<comment> \<open>the low \<open>n\<close> bytes of \<open>x\<close>, most significant first, before \<open>acc\<close>\<close>
  "be_bytes 0 x acc = acc"
| "be_bytes (Suc n) x acc = be_bytes n (x div 256) (of_int (x mod 256) # acc)"

definition sha_pad :: "u32 list \<Rightarrow> u32 list" where
  "sha_pad bs = bs @ [128] @ replicate ((119 - length bs mod 64) mod 64) 0 @ be_bytes 8 (8 * int (length bs)) []"

fun be_words :: "u32 list \<Rightarrow> u32 list" where
  "be_words (a # b # c # d # bs) =
     (push_bit 24 a OR push_bit 16 b OR push_bit 8 c OR d) # be_words bs"
| "be_words _ = []"

function word_blocks :: "u32 list \<Rightarrow> u32 list list" where
  "word_blocks ws = (if length ws < 16 then [] else take 16 ws # word_blocks (drop 16 ws))"
  by pat_completeness auto
termination
  by (relation "measure length") auto

declare word_blocks.simps [simp del]

subsection \<open>Compression\<close>

fun schedule :: "nat \<Rightarrow> u32 list \<Rightarrow> u32 list" where
  \<comment> \<open>the message schedule, latest word first\<close>
  "schedule 0 ws = rev ws"
| "schedule (Suc n) ws =
     (let x = ws ! 14; y = ws ! 1;
          s0 = rotr 7 x XOR rotr 18 x XOR drop_bit 3 x;
          s1 = rotr 17 y XOR rotr 19 y XOR drop_bit 10 y
      in schedule n ((s1 + ws ! 6 + s0 + ws ! 15) # ws))"

fun sha_round :: "u32 list \<Rightarrow> u32 \<times> u32 \<Rightarrow> u32 list" where
  "sha_round [a, b, c, d, e, f, g, h] (k, w) =
     (let s1 = rotr 6 e XOR rotr 11 e XOR rotr 25 e;
          ch = (e AND f) XOR (NOT e AND g);
          t1 = h + s1 + ch + k + w;
          s0 = rotr 2 a XOR rotr 13 a XOR rotr 22 a;
          maj = (a AND b) XOR (a AND c) XOR (b AND c)
      in [t1 + s0 + maj, a, b, c, d + t1, e, f, g])"
| "sha_round st _ = st"

definition sha_block :: "u32 list \<Rightarrow> u32 list \<Rightarrow> u32 list" where
  "sha_block st ws =
     map2 (+) st (foldl sha_round st (zip SHA_K (schedule 48 (rev ws))))"

definition hex_word :: "u32 \<Rightarrow> str" where
  "hex_word w = map (\<lambda>i. hex_digit (unat (drop_bit (4 * i) w AND 15))) (rev [0..<8])"

definition sha256_hex :: "str \<Rightarrow> str" where
  "sha256_hex t =
     concat (map hex_word (foldl sha_block SHA_H0 (word_blocks (be_words (sha_pad (map (\<lambda>c. of_int (of_char c)) t))))))"

subsection \<open>Sanity\<close>

lemma length_be_bytes: "length (be_bytes n x acc) = n + length acc"
  by (induction n x acc rule: be_bytes.induct) simp_all

lemma length_sha_round: "length st = 8 \<Longrightarrow> length (sha_round st kw) = 8"
  by (cases "(st, kw)" rule: sha_round.cases) (simp_all add: Let_def)

lemma length_sha_rounds: "length st = 8 \<Longrightarrow> length (foldl sha_round st kws) = 8"
  by (induction kws arbitrary: st) (simp_all add: length_sha_round)

lemma length_sha_blocks: "length st = 8 \<Longrightarrow> length (foldl sha_block st bs) = 8"
  by (induction bs arbitrary: st) (simp_all add: sha_block_def length_sha_rounds)

lemma sha_pad_blocks: "64 dvd length (sha_pad bs)"
proof -
  define r where "r = length bs mod 64"
  have r: "r < 64" by (simp add: r_def)
  have "(r + 1 + (119 - r) mod 64 + 8) mod 64 = 0"
  proof (cases "r \<le> 55")
    case True
    then have "119 - r = (55 - r) + 64" by simp
    then have "(119 - r) mod 64 = (55 - r) mod 64" by (simp only: mod_add_self2)
    also have "\<dots> = 55 - r" by simp
    finally have "(119 - r) mod 64 = 55 - r" .
    with True show ?thesis by simp
  next
    case False
    with r show ?thesis by simp
  qed
  then have "(length bs mod 64 + (1 + (119 - r) mod 64 + 8)) mod 64 = 0"
    by (simp add: r_def ac_simps)
  then have "(length bs + (1 + (119 - r) mod 64 + 8)) mod 64 = 0" by (simp only: mod_add_left_eq)
  moreover have "length (sha_pad bs) = length bs + (1 + (119 - r) mod 64 + 8)"
    by (simp add: sha_pad_def length_be_bytes r_def)
  ultimately show ?thesis by (simp only: dvd_eq_mod_eq_0)
qed

lemma length_sha256_hex: "length (sha256_hex t) = 64"
proof -
  have "length (hex_word w) = 8" for w by (simp add: hex_word_def)
  then have "length (concat (map hex_word ws)) = 8 * length ws" for ws
    by (induction ws) simp_all
  then show ?thesis by (simp add: sha256_hex_def length_sha_blocks SHA_H0_def)
qed

end
