(* ===== verification/Perf_Schedutil.thy ===== *)
theory Perf_Schedutil
  imports Batch10_Sched_Policy Batch42_Smart_Cap
begin

text \<open>
  \<^verbatim>\<open>scripts/abk_stable_perf.py\<close>, lines up to 2194: the schedutil policy groups. Anchors, steps and
  group functions stand in source order under the source's names.
\<close>

definition sched_smart_policy_apply :: "outcome io" where
  \<open>sched_smart_policy_apply =
    io_bind (read_or_empty ''kernel/sched/cpufreq_schedutil.c'') (\<lambda>t.
    if p10_has_unknown_policy t
    then io_ret (BlockedByShape, ''an unrecognised smart-freq payload is already in the tree (neither the current nor the Batch 10-4c shape); inserting would duplicate its definitions, so nothing was written'')
    else
    let upgrade = p10_needs_legacy_upgrade t in
    apply_noted (if upgrade then p10_build_upgrade_steps else p10_build_steps)
      (\<lambda>d. (if upgrade then ''upgraded the Batch 10-4c payload in place; '' @ d else d)
         @ ''; payload '' @ p10_policy_sha256))\<close>

lemma sched_smart_policy_apply_txn:
  "transactional (\<lambda>_. {''kernel/sched/cpufreq_schedutil.c''}) sched_smart_policy_apply"
  unfolding sched_smart_policy_apply_def
  by (intro txn_intros safe_intros)
    (simp_all add: is_backup_code BACKUP_SUFFIX_def p10_build_steps_files p10_build_upgrade_steps_files p10_REL_def)

definition sched_smart_cap_apply :: "outcome io" where
  \<open>sched_smart_cap_apply =
    io_bind (read_or_empty ''kernel/sched/cpufreq_schedutil.c'') (\<lambda>t.
    if p42_has_unknown_cap t
    then io_ret (BlockedByShape, ''an unrecognised smart-freq cap payload is already in the tree; inserting would duplicate its definitions, so nothing was written'')
    else
    apply_noted (p42_build_steps (\<not> p42_has_header_block t)) (\<lambda>d. d @ ''; payload '' @ p42_cap_sha256))\<close>

lemma sched_smart_cap_apply_txn:
  "transactional (\<lambda>_. {''kernel/sched/cpufreq_schedutil.c''}) sched_smart_cap_apply"
  unfolding sched_smart_cap_apply_def
  by (intro txn_intros safe_intros)
    (simp_all add: is_backup_code BACKUP_SUFFIX_def p42_build_steps_files p42_REL_def)

end
