(* ===== verification/Batch15_Sched_Refinements.thy ===== *)
theory Batch15_Sched_Refinements
  imports Perf_Tools
begin

text \<open>
  The anchors, steps and groups of \<^verbatim>\<open>scripts/batch15_perf_sched_refinements.py\<close>, in source order.
\<close>

definition p15s_NOHZ_H :: str where
  \<open>p15s_NOHZ_H = ''include/linux/sched/nohz.h''\<close>

definition p15s_TICK_SCHED_C :: str where
  \<open>p15s_TICK_SCHED_C = ''kernel/time/tick-sched.c''\<close>

definition p15s_CORE_C :: str where
  \<open>p15s_CORE_C = ''kernel/sched/core.c''\<close>

definition p15s_FAIR_C :: str where
  \<open>p15s_FAIR_C = ''kernel/sched/fair.c''\<close>

definition p15s_IDLE_C :: str where
  \<open>p15s_IDLE_C = ''kernel/sched/idle.c''\<close>

definition p15s_SCHED_H :: str where
  \<open>p15s_SCHED_H = ''kernel/sched/sched.h''\<close>

definition p15s_MARK_NOHZ :: str where
  \<open>p15s_MARK_NOHZ = ''/* ABK stable_515_backport: nohz tick_sched state field consistency helpers. */''\<close>

definition p15s_MARK_AVG :: str where
  \<open>p15s_MARK_AVG = ''/* ABK stable_515_backport: avg_idle preemption mode simplification. */''\<close>

definition p15s_MARK_AVG_PROBE :: str where
  \<open>p15s_MARK_AVG_PROBE = ''ABK stable_515_backport: avg_idle preemption mode simplification.''\<close>

definition p15s_A_ENUM :: str where
  \<open>p15s_A_ENUM = block
     [''/*'',
      '' * This is the interface between the scheduler and nohz/dynticks:'',
      '' */'',
      [],
      ''#if defined(CONFIG_SMP) && defined(CONFIG_NO_HZ_COMMON)'',
      []]\<close>

definition p15s_A_ENUM_NEW :: str where
  \<open>p15s_A_ENUM_NEW = block
     [''/*'',
      '' * This is the interface between the scheduler and nohz/dynticks:'',
      '' */'',
      [],
      ''/*'',
      '' * ABK stable_515_backport: nohz tick_sched state field consistency'',
      '' * helpers.  The three legacy struct tick_sched bits (inidle, idle_active,'',
      '' * tick_stopped) are read as one named state mask so a reader that needs'',
      '' * two of them snapshots them consistently instead of re-probing the'',
      '' * bitfields one at a time.'',
      '' */'',
      ''enum nohz_cpu_state {'',
      ''	NOHZ_CPU_STATE_NONE = 0,'',
      ''	NOHZ_CPU_STATE_INIDLE = 1U << 0,'',
      ''	NOHZ_CPU_STATE_IDLE_ACTIVE = 1U << 1,'',
      ''	NOHZ_CPU_STATE_TICK_STOPPED = 1U << 2,'',
      ''};'',
      [],
      ''#if defined(CONFIG_SMP) && defined(CONFIG_NO_HZ_COMMON)'',
      []]\<close>

definition p15s_A_TICK_STOPPED :: str where
  \<open>p15s_A_TICK_STOPPED = block
     [''__setup("nohz=", setup_tick_nohz);'',
      [],
      ''bool tick_nohz_tick_stopped(void)'',
      ''{'',
      ''	struct tick_sched *ts = this_cpu_ptr(&tick_cpu_sched);'',
      [],
      ''	return ts->tick_stopped;'',
      ''}'',
      []]\<close>

definition p15s_A_TICK_STOPPED_NEW :: str where
  \<open>p15s_A_TICK_STOPPED_NEW = block
     [''__setup("nohz=", setup_tick_nohz);'',
      [],
      ''/* ABK stable_515_backport: nohz tick_sched state field consistency helpers. */'',
      ''static unsigned int abk_tick_nohz_state_flags(const struct tick_sched *ts)'',
      ''{'',
      ''	unsigned int state = NOHZ_CPU_STATE_NONE;'',
      [],
      ''	if (ts->inidle)'',
      ''		state |= NOHZ_CPU_STATE_INIDLE;'',
      ''	if (ts->idle_active)'',
      ''		state |= NOHZ_CPU_STATE_IDLE_ACTIVE;'',
      ''	if (ts->tick_stopped)'',
      ''		state |= NOHZ_CPU_STATE_TICK_STOPPED;'',
      [],
      ''	return state;'',
      ''}'',
      [],
      ''static unsigned long nohz_cpu_idle_calls(int cpu)'',
      ''{'',
      ''	return tick_get_tick_sched(cpu)->idle_calls;'',
      ''}'',
      [],
      ''bool tick_nohz_tick_stopped(void)'',
      ''{'',
      ''	struct tick_sched *ts = this_cpu_ptr(&tick_cpu_sched);'',
      [],
      ''	return !!(abk_tick_nohz_state_flags(ts) & NOHZ_CPU_STATE_TICK_STOPPED);'',
      ''}'',
      []]\<close>

definition p15s_A_CPU_STOPPED :: str where
  \<open>p15s_A_CPU_STOPPED = block
     [''bool tick_nohz_tick_stopped_cpu(int cpu)'',
      ''{'',
      ''	struct tick_sched *ts = per_cpu_ptr(&tick_cpu_sched, cpu);'',
      [],
      ''	return ts->tick_stopped;'',
      ''}'',
      []]\<close>

definition p15s_A_CPU_STOPPED_NEW :: str where
  \<open>p15s_A_CPU_STOPPED_NEW = block
     [''bool tick_nohz_tick_stopped_cpu(int cpu)'',
      ''{'',
      ''	struct tick_sched *ts = per_cpu_ptr(&tick_cpu_sched, cpu);'',
      [],
      ''	/* ABK stable_515_backport: CPU-scoped form of the nohz state probe. */'',
      ''	return !!(abk_tick_nohz_state_flags(ts) & NOHZ_CPU_STATE_TICK_STOPPED);'',
      ''}'',
      []]\<close>

definition p15s_A_IRQ_EXIT :: str where
  \<open>p15s_A_IRQ_EXIT = block
     [''void tick_nohz_irq_exit(void)'',
      ''{'',
      ''	struct tick_sched *ts = this_cpu_ptr(&tick_cpu_sched);'',
      [],
      ''	if (ts->inidle)'',
      ''		tick_nohz_start_idle(ts);'',
      ''	else'',
      ''		tick_nohz_full_update_tick(ts);'',
      ''}'',
      []]\<close>

definition p15s_A_IRQ_EXIT_NEW :: str where
  \<open>p15s_A_IRQ_EXIT_NEW = block
     [''void tick_nohz_irq_exit(void)'',
      ''{'',
      ''	struct tick_sched *ts = this_cpu_ptr(&tick_cpu_sched);'',
      [],
      ''	if (abk_tick_nohz_state_flags(ts) & NOHZ_CPU_STATE_INIDLE)'',
      ''		tick_nohz_start_idle(ts);'',
      ''	else'',
      ''		tick_nohz_full_update_tick(ts);'',
      ''}'',
      []]\<close>

definition p15s_A_SLEEP_WARN :: str where
  \<open>p15s_A_SLEEP_WARN = block
     [''	WARN_ON_ONCE(!ts->inidle);'',
      [],
      ''	*delta_next = ktime_sub(dev->next_event, now);'',
      []]\<close>

definition p15s_A_SLEEP_WARN_NEW :: str where
  \<open>p15s_A_SLEEP_WARN_NEW = block
     [''	WARN_ON_ONCE(!(abk_tick_nohz_state_flags(ts) & NOHZ_CPU_STATE_INIDLE));'',
      [],
      ''	*delta_next = ktime_sub(dev->next_event, now);'',
      []]\<close>

definition p15s_A_IDLE_CALLS_CPU :: str where
  \<open>p15s_A_IDLE_CALLS_CPU = block
     [''unsigned long tick_nohz_get_idle_calls_cpu(int cpu)'',
      ''{'',
      ''	struct tick_sched *ts = tick_get_tick_sched(cpu);'',
      [],
      ''	return ts->idle_calls;'',
      ''}'',
      []]\<close>

definition p15s_A_IDLE_CALLS_CPU_NEW :: str where
  \<open>p15s_A_IDLE_CALLS_CPU_NEW = block
     [''unsigned long tick_nohz_get_idle_calls_cpu(int cpu)'',
      ''{'',
      ''	return nohz_cpu_idle_calls(cpu);'',
      ''}'',
      []]\<close>

definition p15s_A_IDLE_CALLS :: str where
  \<open>p15s_A_IDLE_CALLS = block
     [''unsigned long tick_nohz_get_idle_calls(void)'',
      ''{'',
      ''	struct tick_sched *ts = this_cpu_ptr(&tick_cpu_sched);'',
      [],
      ''	return ts->idle_calls;'',
      ''}'',
      []]\<close>

definition p15s_A_IDLE_CALLS_NEW :: str where
  \<open>p15s_A_IDLE_CALLS_NEW = block
     [''unsigned long tick_nohz_get_idle_calls(void)'',
      ''{'',
      ''	return nohz_cpu_idle_calls(smp_processor_id());'',
      ''}'',
      []]\<close>

definition p15s_A_IDLE_EXIT :: str where
  \<open>p15s_A_IDLE_EXIT = block
     [''void tick_nohz_idle_exit(void)'',
      ''{'',
      ''	struct tick_sched *ts = this_cpu_ptr(&tick_cpu_sched);'',
      ''	bool idle_active, tick_stopped;'',
      ''	ktime_t now;'',
      [],
      ''	local_irq_disable();'',
      [],
      ''	WARN_ON_ONCE(!ts->inidle);'',
      ''	WARN_ON_ONCE(ts->timer_expires_base);'',
      [],
      ''	ts->inidle = 0;'',
      ''	idle_active = ts->idle_active;'',
      ''	tick_stopped = ts->tick_stopped;'',
      [],
      ''	if (idle_active || tick_stopped)'',
      ''		now = ktime_get();'',
      [],
      ''	if (idle_active)'',
      ''		tick_nohz_stop_idle(ts, now);'',
      [],
      ''	if (tick_stopped)'',
      ''		tick_nohz_idle_update_tick(ts, now);'',
      [],
      ''	local_irq_enable();'',
      ''}'',
      []]\<close>

definition p15s_A_IDLE_EXIT_NEW :: str where
  \<open>p15s_A_IDLE_EXIT_NEW = block
     [''void tick_nohz_idle_exit(void)'',
      ''{'',
      ''	struct tick_sched *ts = this_cpu_ptr(&tick_cpu_sched);'',
      ''	bool idle_active, tick_stopped;'',
      ''	unsigned int nohz_state;'',
      ''	ktime_t now;'',
      [],
      ''	local_irq_disable();'',
      [],
      ''	nohz_state = abk_tick_nohz_state_flags(ts);'',
      ''	WARN_ON_ONCE(!(nohz_state & NOHZ_CPU_STATE_INIDLE));'',
      ''	WARN_ON_ONCE(ts->timer_expires_base);'',
      [],
      ''	ts->inidle = 0;'',
      ''	idle_active = !!(nohz_state & NOHZ_CPU_STATE_IDLE_ACTIVE);'',
      ''	tick_stopped = !!(nohz_state & NOHZ_CPU_STATE_TICK_STOPPED);'',
      [],
      ''	if (idle_active || tick_stopped)'',
      ''		now = ktime_get();'',
      [],
      ''	if (idle_active)'',
      ''		tick_nohz_stop_idle(ts, now);'',
      [],
      ''	if (tick_stopped)'',
      ''		tick_nohz_idle_update_tick(ts, now);'',
      [],
      ''	local_irq_enable();'',
      ''}'',
      []]\<close>

definition p15s_B_HELPER :: str where
  \<open>p15s_B_HELPER = block
     [''/*'',
      '' * Mark the task runnable and perform wakeup-preemption.'',
      '' */'',
      ''static void ttwu_do_wakeup(struct rq *rq, struct task_struct *p, int wake_flags,'',
      []]\<close>

definition p15s_B_HELPER_NEW :: str where
  \<open>p15s_B_HELPER_NEW = block
     [''#ifdef CONFIG_SMP'',
      ''/*'',
      '' * ABK stable_515_backport: avg_idle preemption mode simplification.'',
      '' *'',
      '' * The wake-side idle prediction (rq->wake_avg_idle / rq->wake_stamp) is'',
      '' * retired, so the idle-duration sample moves to the single point where the'',
      '' * idle task stops being current.  put_prev_task_idle() is reached from'',
      '' * __pick_next_task()\'s restart path with prev == idle, and'',
      '' * newidle_balance() does not run again on that path, so rq->idle_stamp'',
      '' * still describes the whole idle period when this executes.'',
      '' *'',
      '' * The guard is load-bearing: idle_stamp is only armed by'',
      '' * newidle_balance(), and a CPU that reached the idle task without passing'',
      '' * through it (the boot CPU, or an idle->idle repick) would otherwise'',
      '' * sample rq_clock(rq) - 0 here.'',
      '' */'',
      ''void update_rq_avg_idle(struct rq *rq)'',
      ''{'',
      ''	u64 delta, max;'',
      [],
      ''	if (!rq->idle_stamp)'',
      ''		return;'',
      [],
      ''	delta = rq_clock(rq) - rq->idle_stamp;'',
      ''	max = 2 * rq->max_idle_balance_cost;'',
      [],
      ''	update_avg(&rq->avg_idle, delta);'',
      [],
      ''	if (rq->avg_idle > max)'',
      ''		rq->avg_idle = max;'',
      ''	rq->idle_stamp = 0;'',
      ''}'',
      ''#endif /* CONFIG_SMP */'',
      [],
      ''/*'',
      '' * Mark the task runnable and perform wakeup-preemption.'',
      '' */'',
      ''static void ttwu_do_wakeup(struct rq *rq, struct task_struct *p, int wake_flags,'',
      []]\<close>

definition p15s_B_TTWU :: str where
  \<open>p15s_B_TTWU = block
     [''		rq_repin_lock(rq, rf);'',
      ''	}'',
      [],
      ''	if (rq->idle_stamp) {'',
      ''		u64 delta = rq_clock(rq) - rq->idle_stamp;'',
      ''		u64 max = 2*rq->max_idle_balance_cost;'',
      [],
      ''		update_avg(&rq->avg_idle, delta);'',
      [],
      ''		if (rq->avg_idle > max)'',
      ''			rq->avg_idle = max;'',
      [],
      ''		rq->wake_stamp = jiffies;'',
      ''		rq->wake_avg_idle = rq->avg_idle / 2;'',
      [],
      ''		rq->idle_stamp = 0;'',
      ''	}'',
      ''#endif'',
      ''}'',
      [],
      ''static void'',
      ''ttwu_do_activate(struct rq *rq, struct task_struct *p, int wake_flags,'',
      []]\<close>

definition p15s_B_TTWU_NEW :: str where
  \<open>p15s_B_TTWU_NEW = block
     [''		rq_repin_lock(rq, rf);'',
      ''	}'',
      ''#endif'',
      ''}'',
      [],
      ''static void'',
      ''ttwu_do_activate(struct rq *rq, struct task_struct *p, int wake_flags,'',
      []]\<close>

definition p15s_B_INIT :: str where
  \<open>p15s_B_INIT = block
     [''		rq->idle_stamp = 0;'',
      ''		rq->avg_idle = 2*sysctl_sched_migration_cost;'',
      ''		rq->wake_stamp = jiffies;'',
      ''		rq->wake_avg_idle = rq->avg_idle;'',
      ''		rq->max_idle_balance_cost = sysctl_sched_migration_cost;'',
      []]\<close>

definition p15s_B_INIT_NEW :: str where
  \<open>p15s_B_INIT_NEW = block
     [''		rq->idle_stamp = 0;'',
      ''		rq->avg_idle = 2*sysctl_sched_migration_cost;'',
      ''		rq->max_idle_balance_cost = sysctl_sched_migration_cost;'',
      []]\<close>

definition p15s_B_SELECT_HEAD :: str where
  \<open>p15s_B_SELECT_HEAD = block
     [''static int select_idle_cpu(struct task_struct *p, struct sched_domain *sd, bool has_idle_core, int target)'',
      ''{'',
      ''	struct cpumask *cpus = this_cpu_cpumask_var_ptr(select_idle_mask);'',
      ''	int i, cpu, idle_cpu = -1, nr = INT_MAX;'',
      ''	struct rq *this_rq = this_rq();'',
      ''	int this = smp_processor_id();'',
      ''	struct sched_domain *this_sd;'',
      ''	u64 time = 0;'',
      [],
      ''	this_sd = rcu_dereference(*this_cpu_ptr(&sd_llc));'',
      ''	if (!this_sd)'',
      ''		return -1;'',
      [],
      ''	cpumask_and(cpus, sched_domain_span(sd), p->cpus_ptr);'',
      [],
      ''	if (sched_feat(SIS_PROP) && !has_idle_core) {'',
      ''		u64 avg_cost, avg_idle, span_avg;'',
      ''		unsigned long now = jiffies;'',
      [],
      ''		/*'',
      ''		 * If we\'re busy, the assumption that the last idle period'',
      ''		 * predicts the future is flawed; age away the remaining'',
      ''		 * predicted idle time.'',
      ''		 */'',
      ''		if (unlikely(this_rq->wake_stamp < now)) {'',
      ''			while (this_rq->wake_stamp < now && this_rq->wake_avg_idle) {'',
      ''				this_rq->wake_stamp++;'',
      ''				this_rq->wake_avg_idle >>= 1;'',
      ''			}'',
      ''		}'',
      [],
      ''		avg_idle = this_rq->wake_avg_idle;'',
      ''		avg_cost = this_sd->avg_scan_cost + 1;'',
      [],
      ''		span_avg = sd->span_weight * avg_idle;'',
      ''		if (span_avg > 4*avg_cost)'',
      ''			nr = div_u64(span_avg, avg_cost);'',
      ''		else'',
      ''			nr = 4;'',
      [],
      ''		time = cpu_clock(this);'',
      ''	}'',
      []]\<close>

definition p15s_B_SELECT_HEAD_NEW :: str where
  \<open>p15s_B_SELECT_HEAD_NEW = block
     [''static int select_idle_cpu(struct task_struct *p, struct sched_domain *sd, bool has_idle_core, int target)'',
      ''{'',
      ''	struct cpumask *cpus = this_cpu_cpumask_var_ptr(select_idle_mask);'',
      ''	int i, cpu, idle_cpu = -1, nr = INT_MAX;'',
      ''	struct rq *this_rq = this_rq();'',
      ''	int this = smp_processor_id();'',
      ''	struct sched_domain *this_sd;'',
      ''	u64 time = 0;'',
      [],
      ''	this_sd = rcu_dereference(*this_cpu_ptr(&sd_llc));'',
      ''	if (!this_sd)'',
      ''		return -1;'',
      [],
      ''	cpumask_and(cpus, sched_domain_span(sd), p->cpus_ptr);'',
      [],
      ''	/*'',
      ''	 * ABK stable_515_backport: avg_idle preemption mode simplification.'',
      ''	 * This tree has no SIS_UTIL and no sd_llc_shared->nr_idle_scan, so the'',
      ''	 * SIS_PROP scan budget is kept and re-sourced from the rq\'s own'',
      ''	 * avg_idle sample instead of the retired rq->wake_avg_idle prediction.'',
      ''	 * There is no aging term left: rq->avg_idle is only refreshed when the'',
      ''	 * CPU actually leaves idle, so a long-busy CPU budgets a scan from its'',
      ''	 * last idle period.'',
      ''	 */'',
      ''	if (sched_feat(SIS_PROP) && !has_idle_core) {'',
      ''		u64 avg_cost, avg_idle, span_avg;'',
      [],
      ''		avg_idle = this_rq->avg_idle / 2;'',
      ''		avg_cost = this_sd->avg_scan_cost + 1;'',
      [],
      ''		span_avg = sd->span_weight * avg_idle;'',
      ''		if (span_avg > 4*avg_cost)'',
      ''			nr = div_u64(span_avg, avg_cost);'',
      ''		else'',
      ''			nr = 4;'',
      [],
      ''		time = cpu_clock(this);'',
      ''	}'',
      []]\<close>

definition p15s_B_SELECT_TAIL :: str where
  \<open>p15s_B_SELECT_TAIL = block
     [''	if (sched_feat(SIS_PROP) && !has_idle_core) {'',
      ''		time = cpu_clock(this) - time;'',
      [],
      ''		/*'',
      ''		 * Account for the scan cost of wakeups against the average'',
      ''		 * idle time.'',
      ''		 */'',
      ''		this_rq->wake_avg_idle -= min(this_rq->wake_avg_idle, time);'',
      [],
      ''		update_avg(&this_sd->avg_scan_cost, time);'',
      ''	}'',
      []]\<close>

definition p15s_B_SELECT_TAIL_NEW :: str where
  \<open>p15s_B_SELECT_TAIL_NEW = block
     [''	if (sched_feat(SIS_PROP) && !has_idle_core) {'',
      ''		time = cpu_clock(this) - time;'',
      [],
      ''		/*'',
      ''		 * ABK stable_515_backport: avg_idle preemption mode'',
      ''		 * simplification -- only sd->avg_scan_cost is accounted, since'',
      ''		 * rq->wake_avg_idle is no longer maintained on this tree.'',
      ''		 */'',
      ''		update_avg(&this_sd->avg_scan_cost, time);'',
      ''	}'',
      []]\<close>

definition p15s_B_IDLE_PUT_PREV :: str where
  \<open>p15s_B_IDLE_PUT_PREV = block
     [''static void put_prev_task_idle(struct rq *rq, struct task_struct *prev)'',
      ''{'',
      ''}'',
      []]\<close>

definition p15s_B_IDLE_PUT_PREV_NEW :: str where
  \<open>p15s_B_IDLE_PUT_PREV_NEW = block
     [''static void put_prev_task_idle(struct rq *rq, struct task_struct *prev)'',
      ''{'',
      ''	/*'',
      ''	 * ABK stable_515_backport: avg_idle preemption mode simplification.'',
      ''	 * This is where the retired ttwu_do_wakeup() idle-duration sample'',
      ''	 * now happens: rq->idle_stamp is still armed from the last'',
      ''	 * newidle_balance(), and it is cleared by the helper.'',
      ''	 */'',
      ''	update_rq_avg_idle(rq);'',
      ''}'',
      []]\<close>

definition p15s_B_SCHED_H :: str where
  \<open>p15s_B_SCHED_H = block
     [''extern void cfs_bandwidth_usage_inc(void);'',
      ''extern void cfs_bandwidth_usage_dec(void);'',
      []]\<close>

definition p15s_B_SCHED_H_NEW :: str where
  \<open>p15s_B_SCHED_H_NEW = block
     [''extern void cfs_bandwidth_usage_inc(void);'',
      ''extern void cfs_bandwidth_usage_dec(void);'',
      [],
      ''#ifdef CONFIG_SMP'',
      ''/* ABK stable_515_backport: avg_idle preemption mode simplification. */'',
      ''extern void update_rq_avg_idle(struct rq *rq);'',
      ''#else'',
      ''static inline void update_rq_avg_idle(struct rq *rq) { }'',
      ''#endif /* CONFIG_SMP */'',
      []]\<close>

definition p15s_build_nohz_steps_step1 :: step where
  \<open>p15s_build_nohz_steps_step1 =
   (p15s_NOHZ_H,
    p15s_A_ENUM,
    p15s_A_ENUM_NEW, True)\<close>

definition p15s_build_nohz_steps_step2 :: step where
  \<open>p15s_build_nohz_steps_step2 =
   (p15s_TICK_SCHED_C,
    p15s_A_TICK_STOPPED,
    p15s_A_TICK_STOPPED_NEW, True)\<close>

definition p15s_build_nohz_steps_step3 :: step where
  \<open>p15s_build_nohz_steps_step3 =
   (p15s_TICK_SCHED_C,
    p15s_A_CPU_STOPPED,
    p15s_A_CPU_STOPPED_NEW, True)\<close>

definition p15s_build_nohz_steps_step4 :: step where
  \<open>p15s_build_nohz_steps_step4 =
   (p15s_TICK_SCHED_C,
    p15s_A_IRQ_EXIT,
    p15s_A_IRQ_EXIT_NEW, True)\<close>

definition p15s_build_nohz_steps_step5 :: step where
  \<open>p15s_build_nohz_steps_step5 =
   (p15s_TICK_SCHED_C,
    p15s_A_SLEEP_WARN,
    p15s_A_SLEEP_WARN_NEW, True)\<close>

definition p15s_build_nohz_steps_step6 :: step where
  \<open>p15s_build_nohz_steps_step6 =
   (p15s_TICK_SCHED_C,
    p15s_A_IDLE_CALLS_CPU,
    p15s_A_IDLE_CALLS_CPU_NEW, True)\<close>

definition p15s_build_nohz_steps_step7 :: step where
  \<open>p15s_build_nohz_steps_step7 =
   (p15s_TICK_SCHED_C,
    p15s_A_IDLE_CALLS,
    p15s_A_IDLE_CALLS_NEW, True)\<close>

definition p15s_build_nohz_steps_step8 :: step where
  \<open>p15s_build_nohz_steps_step8 =
   (p15s_TICK_SCHED_C,
    p15s_A_IDLE_EXIT,
    p15s_A_IDLE_EXIT_NEW, True)\<close>

definition p15s_build_nohz_steps :: "step list" where
  \<open>p15s_build_nohz_steps = [p15s_build_nohz_steps_step1, p15s_build_nohz_steps_step2, p15s_build_nohz_steps_step3, p15s_build_nohz_steps_step4, p15s_build_nohz_steps_step5, p15s_build_nohz_steps_step6, p15s_build_nohz_steps_step7, p15s_build_nohz_steps_step8]\<close>

lemma p15s_build_nohz_steps_files: "steps_files p15s_build_nohz_steps = {p15s_NOHZ_H, p15s_TICK_SCHED_C}"
  by (simp add: p15s_build_nohz_steps_def steps_files_fst insert_commute
      step_file [OF p15s_build_nohz_steps_step1_def]
      step_file [OF p15s_build_nohz_steps_step2_def]
      step_file [OF p15s_build_nohz_steps_step3_def]
      step_file [OF p15s_build_nohz_steps_step4_def]
      step_file [OF p15s_build_nohz_steps_step5_def]
      step_file [OF p15s_build_nohz_steps_step6_def]
      step_file [OF p15s_build_nohz_steps_step7_def]
      step_file [OF p15s_build_nohz_steps_step8_def])

lemma p15s_build_nohz_steps_required: "all_required p15s_build_nohz_steps"
  by (simp add: p15s_build_nohz_steps_def all_required_def
      step_req [OF p15s_build_nohz_steps_step1_def]
      step_req [OF p15s_build_nohz_steps_step2_def]
      step_req [OF p15s_build_nohz_steps_step3_def]
      step_req [OF p15s_build_nohz_steps_step4_def]
      step_req [OF p15s_build_nohz_steps_step5_def]
      step_req [OF p15s_build_nohz_steps_step6_def]
      step_req [OF p15s_build_nohz_steps_step7_def]
      step_req [OF p15s_build_nohz_steps_step8_def])

definition p15s_build_avg_idle_steps_step1 :: step where
  \<open>p15s_build_avg_idle_steps_step1 =
   (p15s_CORE_C,
    p15s_B_HELPER,
    p15s_B_HELPER_NEW, True)\<close>

definition p15s_build_avg_idle_steps_step2 :: step where
  \<open>p15s_build_avg_idle_steps_step2 =
   (p15s_CORE_C,
    p15s_B_TTWU,
    p15s_B_TTWU_NEW, True)\<close>

definition p15s_build_avg_idle_steps_step3 :: step where
  \<open>p15s_build_avg_idle_steps_step3 =
   (p15s_CORE_C,
    p15s_B_INIT,
    p15s_B_INIT_NEW, True)\<close>

definition p15s_build_avg_idle_steps_step4 :: step where
  \<open>p15s_build_avg_idle_steps_step4 =
   (p15s_FAIR_C,
    p15s_B_SELECT_HEAD,
    p15s_B_SELECT_HEAD_NEW, True)\<close>

definition p15s_build_avg_idle_steps_step5 :: step where
  \<open>p15s_build_avg_idle_steps_step5 =
   (p15s_FAIR_C,
    p15s_B_SELECT_TAIL,
    p15s_B_SELECT_TAIL_NEW, True)\<close>

definition p15s_build_avg_idle_steps_step6 :: step where
  \<open>p15s_build_avg_idle_steps_step6 =
   (p15s_IDLE_C,
    p15s_B_IDLE_PUT_PREV,
    p15s_B_IDLE_PUT_PREV_NEW, True)\<close>

definition p15s_build_avg_idle_steps_step7 :: step where
  \<open>p15s_build_avg_idle_steps_step7 =
   (p15s_SCHED_H,
    p15s_B_SCHED_H,
    p15s_B_SCHED_H_NEW, True)\<close>

definition p15s_build_avg_idle_steps :: "step list" where
  \<open>p15s_build_avg_idle_steps = [p15s_build_avg_idle_steps_step1, p15s_build_avg_idle_steps_step2, p15s_build_avg_idle_steps_step3, p15s_build_avg_idle_steps_step4, p15s_build_avg_idle_steps_step5, p15s_build_avg_idle_steps_step6, p15s_build_avg_idle_steps_step7]\<close>

lemma p15s_build_avg_idle_steps_files: "steps_files p15s_build_avg_idle_steps = {p15s_CORE_C, p15s_FAIR_C, p15s_IDLE_C, p15s_SCHED_H}"
  by (simp add: p15s_build_avg_idle_steps_def steps_files_fst insert_commute
      step_file [OF p15s_build_avg_idle_steps_step1_def]
      step_file [OF p15s_build_avg_idle_steps_step2_def]
      step_file [OF p15s_build_avg_idle_steps_step3_def]
      step_file [OF p15s_build_avg_idle_steps_step4_def]
      step_file [OF p15s_build_avg_idle_steps_step5_def]
      step_file [OF p15s_build_avg_idle_steps_step6_def]
      step_file [OF p15s_build_avg_idle_steps_step7_def])

lemma p15s_build_avg_idle_steps_required: "all_required p15s_build_avg_idle_steps"
  by (simp add: p15s_build_avg_idle_steps_def all_required_def
      step_req [OF p15s_build_avg_idle_steps_step1_def]
      step_req [OF p15s_build_avg_idle_steps_step2_def]
      step_req [OF p15s_build_avg_idle_steps_step3_def]
      step_req [OF p15s_build_avg_idle_steps_step4_def]
      step_req [OF p15s_build_avg_idle_steps_step5_def]
      step_req [OF p15s_build_avg_idle_steps_step6_def]
      step_req [OF p15s_build_avg_idle_steps_step7_def])

definition p15s_nohz_apply :: "outcome io" where
  \<open>p15s_nohz_apply =
    io_try is_fnf (io_bind (ctx_read p15s_TICK_SCHED_C) (\<lambda>tick_text. io_bind (ctx_read p15s_NOHZ_H) (\<lambda>nohz_text. io_ret (tick_text, nohz_text))))
      (\<lambda>e. io_bind (exc_text e) (\<lambda>msg. io_ret (BlockedByShape, msg @ '': file absent'')))
      (\<lambda>(tick_text, nohz_text).
    case find (\<lambda>(probe, text, why). \<not> contains probe text)
          [(''#endif /* _LINUX_SCHED_NOHZ_H */'', nohz_text, p15s_NOHZ_H),
           (''__setup("nohz=", setup_tick_nohz);'', tick_text, p15s_TICK_SCHED_C),
           (''bool tick_nohz_tick_stopped(void)'', tick_text, p15s_TICK_SCHED_C)] of
        Some (probe, text, why) \<Rightarrow> io_ret (BlockedByShape, py_repr probe @ '' not found in '' @ why @ ''; this does not look like the 5.15 nohz header / tick-sched.c pair'')
      | None \<Rightarrow>
    if contains ''enum nohz_cpu_state'' nohz_text \<and> \<not> contains p15s_MARK_NOHZ tick_text
    then io_ret (BlockedByShape, ''nohz.h already declares enum nohz_cpu_state without the ABK marker in tick-sched.c: the tree carries an unrecognised nohz state-helper owner; nothing was written'')
    else
    apply_or_block p15s_build_nohz_steps)\<close>

lemma p15s_nohz_apply_txn: "transactional (\<lambda>_. {p15s_NOHZ_H, p15s_TICK_SCHED_C}) p15s_nohz_apply"
  unfolding p15s_nohz_apply_def
  by (intro txn_intros safe_intros)
    (simp_all add: is_backup_code BACKUP_SUFFIX_def p15s_build_nohz_steps_files p15s_NOHZ_H_def p15s_TICK_SCHED_C_def)

definition p15s_avg_idle_apply :: "outcome io" where
  \<open>p15s_avg_idle_apply =
    io_try is_fnf (io_bind (ctx_read p15s_CORE_C) (\<lambda>core_text. io_bind (ctx_read p15s_FAIR_C) (\<lambda>fair_text. io_bind (ctx_read p15s_IDLE_C) (\<lambda>idle_text. io_bind (ctx_read p15s_SCHED_H) (\<lambda>sched_h_text. io_ret (core_text, fair_text, idle_text, sched_h_text))))))
      (\<lambda>e. io_bind (exc_text e) (\<lambda>msg. io_ret (BlockedByShape, msg @ '': file absent'')))
      (\<lambda>(core_text, fair_text, idle_text, sched_h_text).
    if contains ''sched_feat(SIS_UTIL)'' fair_text
    then io_ret (BlockedByShape, ''select_idle_cpu() carries SIS_UTIL (6.1+ shape), not the 5.15 SIS_PROP-only scan; this group\'s fair.c replacements are keyed to the 5.15 shape, so nothing was written'')
    else
    if \<not> contains ''this_rq->wake_avg_idle'' fair_text \<and> \<not> contains p15s_MARK_AVG_PROBE fair_text
    then io_ret (BlockedByShape, ''select_idle_cpu() has no rq->wake_avg_idle prediction and no ABK avg_idle marker: the tree carries an unrecognised avg_idle shape; nothing was written'')
    else
    case find (\<lambda>(probe, text, why). \<not> contains probe text)
          [(''static void ttwu_do_wakeup(struct rq *rq'', core_text, p15s_CORE_C),
           (''static int select_idle_cpu(struct task_struct *p'', fair_text, p15s_FAIR_C),
           (''static void put_prev_task_idle(struct rq *rq'', idle_text, p15s_IDLE_C),
           (''extern void cfs_bandwidth_usage_dec(void);'', sched_h_text, p15s_SCHED_H)] of
        Some (probe, text, why) \<Rightarrow> io_ret (BlockedByShape, probe @ '' not found in '' @ why)
      | None \<Rightarrow>
    apply_or_block p15s_build_avg_idle_steps)\<close>

lemma p15s_avg_idle_apply_txn: "transactional (\<lambda>_. {p15s_CORE_C, p15s_FAIR_C, p15s_IDLE_C, p15s_SCHED_H}) p15s_avg_idle_apply"
  unfolding p15s_avg_idle_apply_def
  by (intro txn_intros safe_intros)
    (simp_all add: is_backup_code BACKUP_SUFFIX_def p15s_build_avg_idle_steps_files p15s_CORE_C_def p15s_FAIR_C_def p15s_IDLE_C_def p15s_SCHED_H_def)

definition nohz_field_refinement_group :: group where
  \<open>nohz_field_refinement_group =
    \<lparr>key = ''nohz_field_refinement'',
     summary = ''normalise the legacy tick_sched nohz state bits (inidle / idle_active / tick_stopped) behind an enum plus accessors, and move every read site in kernel/time/tick-sched.c onto one state snapshot (ABK_ABI_PATCH_SUITE nohz_field_refinement, re-anchored to 5.15; the suite\'s CPU-scoped tick_stopped rewrite, which its own sentinel guard silently skipped, is included here)'',
     commits = [''ABK_ABI_PATCH_SUITE scripts/abk_feature_porting.py:patch_nohz_field_refinement() (group nohz_field_refinement)'',
      ''no upstream commit: the helper names occur 0 times in common-5.15-2024-11 and in common-6.1-src''],
     group_files = [p15s_NOHZ_H,
      p15s_TICK_SCHED_C],
     apply_fn = p15s_nohz_apply, hard = False\<rparr>\<close>

lemma nohz_field_refinement_group_declared [simp]: "well_declared nohz_field_refinement_group"
  by (rule well_declaredI [OF p15s_nohz_apply_txn]) (simp_all add: is_backup_code BACKUP_SUFFIX_def nohz_field_refinement_group_def p15s_NOHZ_H_def p15s_TICK_SCHED_C_def)

definition avg_idle_preemption_mode_group :: group where
  \<open>avg_idle_preemption_mode_group =
    \<lparr>key = ''avg_idle_preemption_mode'',
     summary = ''retire the rq->wake_avg_idle wake-side idle prediction: sample avg_idle at the switch-out-of-idle point instead, keep the direct avg_idle newidle thresholds, and re-source the SIS_PROP idle-scan budget from rq->avg_idle (ABK_ABI_PATCH_SUITE avg_idle_preemption_mode, 5.15 re-anchored; the suite\'s SIS_UTIL branch is refused here because 5.15 has no SIS_UTIL, and its unguarded idle_stamp sample is replaced by the pristine guard)'',
     commits = [''ABK_ABI_PATCH_SUITE scripts/abk_feature_porting.py:patch_avg_idle_preemption_mode() (group avg_idle_preemption_mode)'',
      ''no upstream commit: update_rq_avg_idle() occurs 0 times in common-5.15-2024-11 and in common-6.1-src, whose put_prev_task_idle() is still empty''],
     group_files = [p15s_CORE_C,
      p15s_FAIR_C,
      p15s_IDLE_C,
      p15s_SCHED_H],
     apply_fn = p15s_avg_idle_apply, hard = False\<rparr>\<close>

lemma avg_idle_preemption_mode_group_declared [simp]: "well_declared avg_idle_preemption_mode_group"
  by (rule well_declaredI [OF p15s_avg_idle_apply_txn]) (simp_all add: is_backup_code BACKUP_SUFFIX_def avg_idle_preemption_mode_group_def p15s_CORE_C_def p15s_FAIR_C_def p15s_IDLE_C_def p15s_SCHED_H_def)

definition p15s_build_groups :: "group list" where
  \<open>p15s_build_groups = [nohz_field_refinement_group, avg_idle_preemption_mode_group]\<close>

end
