(* ===== verification/Batch15_Eevdf.thy ===== *)
theory Batch15_Eevdf
  imports Perf_Tools
begin

text \<open>
  The anchors, steps and groups of \<^verbatim>\<open>scripts/batch15_perf_eevdf.py\<close>, in source order.
\<close>

definition p15e_SCHED_H :: str where
  \<open>p15e_SCHED_H = ''include/linux/sched.h''\<close>

definition p15e_FAIR_C :: str where
  \<open>p15e_FAIR_C = ''kernel/sched/fair.c''\<close>

definition p15e_SCHED_H_INTERNAL :: str where
  \<open>p15e_SCHED_H_INTERNAL = ''kernel/sched/sched.h''\<close>

definition p15e_FEATURES_H :: str where
  \<open>p15e_FEATURES_H = ''kernel/sched/features.h''\<close>

definition p15e_CORE_C :: str where
  \<open>p15e_CORE_C = ''kernel/sched/core.c''\<close>

definition p15e_EEVDF_FAIR_MARKER :: str where
  \<open>p15e_EEVDF_FAIR_MARKER = ''/* ABK stable_515_backport: EEVDF runtime-state graft (Batch 28 shape). */''\<close>

definition p15e_FAIR_LANDED_PROBES :: "str list" where
  \<open>p15e_FAIR_LANDED_PROBES =
     [p15e_EEVDF_FAIR_MARKER,
      ''abk_avg_vruntime_add(cfs_rq, se);'',
      ''abk_eevdf_refresh_deadline(cfs_rq, curr);'',
      ''abk_eevdf_place_entity(cfs_rq, se, initial);'',
      ''if (sched_feat(EEVDF))'',
      ''return abk_pick_eevdf(cfs_rq, curr);'',
      ''cfs_rq->abk_pick_deadline = se->deadline;'',
      ''if (!se->slice)'',
      ''!abk_eevdf_eligible(curr, avruntime)'']\<close>

definition p15e_FAIR_SHAPE_PROBES :: "(str \<times> str) list" where
  \<open>p15e_FAIR_SHAPE_PROBES =
     [(''update_stats_dequeue(cfs_rq, se, flags);'', ''the 5.15 update_stats_dequeue() spelling (6.1 uses *_fair)''),
      (''update_stats_wait_end(cfs_rq, se);'', ''the 5.15 update_stats_wait_end() spelling (6.1 uses *_fair)''),
      (''update_stats_wait_start(cfs_rq, prev);'', ''the 5.15 update_stats_wait_start() spelling (6.1 uses *_fair)''),
      (''trace_android_rvh_place_entity(cfs_rq, se, initial, &vruntime);'', ''the AOSP place_entity() hook that 6.1 does not have''),
      (block
     [''static void'',
      ''place_entity(struct cfs_rq *cfs_rq, struct sched_entity *se, int initial)'',
      ''{'',
      []], ''the 5.15 place_entity() definition (7.0 moved its body to place_entity_deadline())'')]\<close>

definition p15e_SCHED_H_SE_TAIL :: str where
  \<open>p15e_SCHED_H_SE_TAIL = block
     [''#ifdef CONFIG_SMP'',
      ''	/*'',
      ''	 * Per entity load average tracking.'',
      ''	 *'',
      ''	 * Put into separate cache line so it does not'',
      ''	 * collide with read-mostly values above.'',
      ''	 */'',
      ''	struct sched_avg		avg;'',
      ''#endif'',
      [],
      ''	ANDROID_KABI_RESERVE(1);'',
      ''	ANDROID_KABI_RESERVE(2);'',
      ''	ANDROID_KABI_RESERVE(3);'',
      ''	ANDROID_KABI_RESERVE(4);'',
      ''};'']\<close>

definition p15e_SCHED_H_SE_TAIL_BROKEN :: str where
  \<open>p15e_SCHED_H_SE_TAIL_BROKEN = block
     [''#ifdef CONFIG_SMP'',
      ''	/*'',
      ''	 * Per entity load average tracking.'',
      ''	 *'',
      ''	 * Put into separate cache line so it does not'',
      ''	 * collide with read-mostly values above.'',
      ''	 */'',
      ''	struct sched_avg		avg;'',
      ''#endif'',
      [],
      ''	ANDROID_KABI_USE(1, u64 deadline);'',
      ''	ANDROID_KABI_USE(2, u64 min_vruntime);'',
      ''	ANDROID_KABI_USE(3, struct {'',
      ''		u64 min_slice;'',
      ''		u64 max_slice;'',
      ''	});'',
      ''	ANDROID_KABI_USE(4, struct {'',
      ''		s64 vlag;'',
      ''		u64 slice;'',
      ''	});'',
      ''};'']\<close>

definition p15e_SCHED_H_SE_TAIL_V15 :: str where
  \<open>p15e_SCHED_H_SE_TAIL_V15 = block
     [''#ifdef CONFIG_SMP'',
      ''	/*'',
      ''	 * Per entity load average tracking.'',
      ''	 *'',
      ''	 * Put into separate cache line so it does not'',
      ''	 * collide with read-mostly values above.'',
      ''	 */'',
      ''	struct sched_avg		avg;'',
      ''#endif'',
      [],
      ''	/*'',
      ''	 * ABK stable_515_backport: EEVDF scheduling-entity state.  This is the'',
      ''	 * ABK_ABI_PATCH_SUITE feature_porting/sched_eevdf_core_fields payload,'',
      ''	 * absorbed by Batch 15; kernel/sched/fair.c (group'',
      ''	 * sched_eevdf_pick_logic of this same module) is the only consumer.'',
      ''	 *'',
      ''	 * Android KABI reserve slots 1-3 become the three EEVDF fields the'',
      ''	 * fair.c half really reads.  Each replacement is one 8-byte,'',
      ''	 * 8-byte-aligned scalar, so ANDROID_KABI_USE\'s own size and alignment'',
      ''	 * static asserts both hold and sizeof(struct sched_entity) is'',
      ''	 * unchanged on every baseline.  Batch 16 released slot 4: the suite'',
      ''	 * also claimed it as ``u64 slice``, but a consumer sweep over the full'',
      ''	 * tree found abk_eevdf_slice()\'s single write and no reader anywhere,'',
      ''	 * so the slot went back to ANDROID_KABI_RESERVE(4) instead of staying'',
      ''	 * dead frozen-ABI space.'',
      ''	 */'',
      ''	ANDROID_KABI_USE(1, u64 deadline);'',
      ''	ANDROID_KABI_USE(2, u64 min_vruntime);'',
      ''	ANDROID_KABI_USE(3, s64 vlag);'',
      ''	ANDROID_KABI_RESERVE(4);'',
      ''};'']\<close>

definition p15e_SCHED_H_SE_TAIL_NEW :: str where
  \<open>p15e_SCHED_H_SE_TAIL_NEW = block
     [''#ifdef CONFIG_SMP'',
      ''	/*'',
      ''	 * Per entity load average tracking.'',
      ''	 *'',
      ''	 * Put into separate cache line so it does not'',
      ''	 * collide with read-mostly values above.'',
      ''	 */'',
      ''	struct sched_avg		avg;'',
      ''#endif'',
      [],
      ''	/*'',
      ''	 * ABK stable_515_backport: EEVDF scheduling-entity state.  Absorbed'',
      ''	 * from ABK_ABI_PATCH_SUITE feature_porting/sched_eevdf_core_fields by'',
      ''	 * Batch 15; Batch 28 extended it to the fourth slot.'',
      ''	 * kernel/sched/fair.c (group sched_eevdf_pick_logic of this same'',
      ''	 * module) is the only consumer.'',
      ''	 *'',
      ''	 * All four Android KABI reserve slots become the four EEVDF fields'',
      ''	 * upstream carries from 6.6 on (deadline, min_vruntime, vlag, slice).'',
      ''	 * Each replacement is one 8-byte, 8-byte-aligned scalar, so'',
      ''	 * ANDROID_KABI_USE\'s own size and alignment static asserts both hold'',
      ''	 * and sizeof(struct sched_entity) is unchanged on every baseline.'',
      ''	 *'',
      ''	 * Slot 4 was released by Batch 16 as dead space (the suite\'s write-only'',
      ''	 * ``slice``); Batch 28 claims it for real: update_deadline(), the EEVDF'',
      ''	 * yield and PREEMPT_SHORT all read se->slice.  This exhausts the'',
      ''	 * reserve run -- the 6.12+ fields (min_slice, max_slice, vprot,'',
      ''	 * sched_delayed) have no slot left and are deliberately not ported.'',
      ''	 */'',
      ''	ANDROID_KABI_USE(1, u64 deadline);'',
      ''	ANDROID_KABI_USE(2, u64 min_vruntime);'',
      ''	ANDROID_KABI_USE(3, s64 vlag);'',
      ''	ANDROID_KABI_USE(4, u64 slice);'',
      ''};'']\<close>

definition p15e_SCHED_H_CFS_RQ :: str where
  \<open>p15e_SCHED_H_CFS_RQ = block
     [''	u64			exec_clock;'',
      ''	u64			min_vruntime;'',
      ''#ifdef CONFIG_SCHED_CORE'',
      []]\<close>

definition p15e_SCHED_H_CFS_RQ_NEW :: str where
  \<open>p15e_SCHED_H_CFS_RQ_NEW = block
     [''	u64			exec_clock;'',
      ''	u64			min_vruntime;'',
      ''	/*'',
      ''	 * ABK stable_515_backport: EEVDF virtual-time accumulators'',
      ''	 * (upstream af4cf40470c2, v6.6).'',
      ''	 *'',
      (''	 *   avg_vruntime := '' @ [BSL] @ ''Sum (v_i - v0) * w_i''),
      (''	 *   avg_load    := '' @ [BSL] @ ''Sum w_i''),
      ''	 *'',
      ''	 * with v0 := min_vruntime, so avg_vruntime() is the weighted'',
      ''	 * average virtual time in O(1) instead of a tree walk.'',
      ''	 * __enqueue_entity()/__dequeue_entity() maintain it and'',
      ''	 * update_min_vruntime() re-bases it whenever v0 moves.'',
      ''	 *'',
      ''	 * abk_pick_deadline is the RUN_TO_PARITY stash (upstream'',
      ''	 * 63304558ba5d, v6.6): the deadline curr was picked with, which'',
      ''	 * update_curr() invalidates by refreshing se->deadline once the'',
      ''	 * request is consumed.  Upstream borrows se->vlag for this; on this'',
      ''	 * tree vlag carries the lag, so the stash lives here instead.'',
      ''	 */'',
      ''	s64			avg_vruntime;'',
      ''	u64			avg_load;'',
      ''	u64			abk_pick_deadline;'',
      ''#ifdef CONFIG_SCHED_CORE'',
      []]\<close>

definition p15e_CORE_SETSCHED_PARAMS :: str where
  \<open>p15e_CORE_SETSCHED_PARAMS = block
     [''	if (dl_policy(policy))'',
      ''		__setparam_dl(p, attr);'',
      ''	else if (fair_policy(policy))'',
      ''		p->static_prio = NICE_TO_PRIO(attr->sched_nice);'',
      []]\<close>

definition p15e_CORE_SETSCHED_PARAMS_NEW :: str where
  \<open>p15e_CORE_SETSCHED_PARAMS_NEW = block
     [''	if (dl_policy(policy))'',
      ''		__setparam_dl(p, attr);'',
      ''	else if (fair_policy(policy)) {'',
      ''		p->static_prio = NICE_TO_PRIO(attr->sched_nice);'',
      ''		/*'',
      ''		 * ABK stable_515_backport: the EEVDF per-task request size --'',
      ''		 * upstream __setparam_fair() (the 85e511df3cec era), inlined'',
      ''		 * here because 5.15 fair.c does not see struct sched_attr.'',
      ''		 *'',
      ''		 * A non-zero sched_runtime becomes the entity\'s request; zero'',
      ''		 * means "no custom request" and abk_eevdf_slice() supplies the'',
      ''		 * default.  The clamp is upstream\'s, and it is what bounds a'',
      ''		 * hostile or buggy caller -- without it sched_setattr would be'',
      ''		 * an unbounded slice request from unprivileged userspace.'',
      ''		 */'',
      ''		if (attr->sched_runtime)'',
      ''			p->se.slice = min_t(u64, max_t(u64, attr->sched_runtime,'',
      ''					       NSEC_PER_MSEC / 10),'',
      ''					    NSEC_PER_MSEC * 100);'',
      ''		else'',
      ''			p->se.slice = 0;'',
      ''	}'',
      []]\<close>

definition p15e_FEATURES_TAIL :: str where
  \<open>p15e_FEATURES_TAIL = block
     [''SCHED_FEAT(ALT_PERIOD, true)'',
      ''SCHED_FEAT(BASE_SLICE, true)'',
      []]\<close>

definition p15e_FEATURES_TAIL_NEW :: str where
  \<open>p15e_FEATURES_TAIL_NEW = block
     [''SCHED_FEAT(ALT_PERIOD, true)'',
      ''SCHED_FEAT(BASE_SLICE, true)'',
      [],
      ''/*'',
      '' * ABK stable_515_backport: EEVDF policy switches.'',
      '' *'',
      '' * RUN_TO_PARITY (upstream 63304558ba5d, v6.6): once picked, a task keeps'',
      '' * the CPU until it either becomes non-eligible or consumes its request.'',
      '' * Without it, lag-based placement puts a wakee left of current AND with'',
      '' * an earlier deadline, which causes immediate preemption on every wakeup'',
      '' * -- upstream measured -31% context switches on `perf bench sched'',
      '' * messaging` for switching it on.'',
      '' *'',
      '' * PREEMPT_SHORT (upstream 85e511df3cec, v6.12): a wakee with a shorter'',
      '' * request than current may preempt it, which is what makes short-slice'',
      '' * latency-sensitive tasks responsive.'',
      '' */'',
      ''SCHED_FEAT(EEVDF, true)'',
      ''SCHED_FEAT(RUN_TO_PARITY, true)'',
      ''SCHED_FEAT(PREEMPT_SHORT, true)'',
      []]\<close>

definition p15e_FAIR_ENTITY_BEFORE :: str where
  \<open>p15e_FAIR_ENTITY_BEFORE = block
     [''static inline bool entity_before(struct sched_entity *a,'',
      ''				struct sched_entity *b)'',
      ''{'',
      ''	return (s64)(a->vruntime - b->vruntime) < 0;'',
      ''}'',
      [],
      (''#define __node_2_se(node) '' @ [BSL]),
      ''	rb_entry((node), struct sched_entity, run_node)'',
      []]\<close>

definition p15e_FAIR_ENTITY_BEFORE_NEW :: str where
  \<open>p15e_FAIR_ENTITY_BEFORE_NEW = block
     [''static inline bool entity_before(struct sched_entity *a,'',
      ''				struct sched_entity *b)'',
      ''{'',
      ''	return (s64)(a->vruntime - b->vruntime) < 0;'',
      ''}'',
      [],
      (''#define __node_2_se(node) '' @ [BSL]),
      ''	rb_entry((node), struct sched_entity, run_node)'',
      [],
      ''/* ABK stable_515_backport: cfs_rq virtual-time accumulators. */'',
      ''/*'',
      '' * Upstream sched/fair: Add cfs_rq::avg_vruntime (af4cf40470c2, v6.6) keeps'',
      '' *'',
      ('' *     '' @ [BSL] @ ''Sum (v_i - v0) * w_i   in cfs_rq::avg_vruntime''),
      ('' *     '' @ [BSL] @ ''Sum w_i                in cfs_rq::avg_load''),
      '' *'',
      '' * so avg_vruntime() is O(1) instead of a tree walk.  v0 is min_vruntime, so'',
      '' * update_min_vruntime() re-bases the sum whenever v0 moves and every'',
      '' * add/remove has to happen while v0 is unchanged.'',
      '' */'',
      ''static inline s64 abk_entity_key(struct cfs_rq *cfs_rq, struct sched_entity *se)'',
      ''{'',
      ''	return (s64)(se->vruntime - cfs_rq->min_vruntime);'',
      ''}'',
      [],
      ''static void abk_avg_vruntime_update(struct cfs_rq *cfs_rq, s64 delta)'',
      ''{'',
      ''	/*'',
      ''	 * v\' = v + d ==> avg_vruntime\' = avg_vruntime - d * avg_load'',
      ''	 */'',
      ''	cfs_rq->avg_vruntime -= cfs_rq->avg_load * delta;'',
      ''}'',
      [],
      ''static void abk_avg_vruntime_add(struct cfs_rq *cfs_rq, struct sched_entity *se)'',
      ''{'',
      ''	unsigned long weight = scale_load_down(se->load.weight);'',
      [],
      ''	cfs_rq->avg_vruntime += abk_entity_key(cfs_rq, se) * weight;'',
      ''	cfs_rq->avg_load += weight;'',
      ''}'',
      [],
      ''static void abk_avg_vruntime_sub(struct cfs_rq *cfs_rq, struct sched_entity *se)'',
      ''{'',
      ''	unsigned long weight = scale_load_down(se->load.weight);'',
      [],
      ''	cfs_rq->avg_vruntime -= abk_entity_key(cfs_rq, se) * weight;'',
      ''	cfs_rq->avg_load -= weight;'',
      ''}'',
      []]\<close>

definition p15e_FAIR_MIN_VRUNTIME :: str where
  \<open>p15e_FAIR_MIN_VRUNTIME = block
     [''static void update_min_vruntime(struct cfs_rq *cfs_rq)'',
      ''{'',
      ''	struct sched_entity *curr = cfs_rq->curr;'',
      ''	struct rb_node *leftmost = rb_first_cached(&cfs_rq->tasks_timeline);'',
      [],
      ''	u64 vruntime = cfs_rq->min_vruntime;'',
      [],
      ''	if (curr) {'',
      ''		if (curr->on_rq)'',
      ''			vruntime = curr->vruntime;'',
      ''		else'',
      ''			curr = NULL;'',
      ''	}'',
      [],
      ''	if (leftmost) { /* non-empty tree */'',
      ''		struct sched_entity *se = __node_2_se(leftmost);'',
      [],
      ''		if (!curr)'',
      ''			vruntime = se->vruntime;'',
      ''		else'',
      ''			vruntime = min_vruntime(vruntime, se->vruntime);'',
      ''	}'',
      [],
      ''	/* ensure we never gain time by being placed backwards. */'',
      ''	cfs_rq->min_vruntime = max_vruntime(cfs_rq->min_vruntime, vruntime);'',
      ''#ifndef CONFIG_64BIT'',
      ''	smp_wmb();'',
      ''	cfs_rq->min_vruntime_copy = cfs_rq->min_vruntime;'',
      ''#endif'',
      ''}'',
      []]\<close>

definition p15e_FAIR_MIN_VRUNTIME_NEW :: str where
  \<open>p15e_FAIR_MIN_VRUNTIME_NEW = block
     [''static void update_min_vruntime(struct cfs_rq *cfs_rq)'',
      ''{'',
      ''	struct sched_entity *curr = cfs_rq->curr;'',
      ''	struct rb_node *leftmost = rb_first_cached(&cfs_rq->tasks_timeline);'',
      [],
      ''	u64 vruntime = cfs_rq->min_vruntime;'',
      ''	u64 old_min_vruntime = cfs_rq->min_vruntime;'',
      [],
      ''	if (curr) {'',
      ''		if (curr->on_rq)'',
      ''			vruntime = curr->vruntime;'',
      ''		else'',
      ''			curr = NULL;'',
      ''	}'',
      [],
      ''	if (leftmost) { /* non-empty tree */'',
      ''		struct sched_entity *se = __node_2_se(leftmost);'',
      [],
      ''		if (!curr)'',
      ''			vruntime = se->vruntime;'',
      ''		else'',
      ''			vruntime = min_vruntime(vruntime, se->vruntime);'',
      ''	}'',
      [],
      ''	/* ensure we never gain time by being placed backwards. */'',
      ''	cfs_rq->min_vruntime = max_vruntime(cfs_rq->min_vruntime, vruntime);'',
      ''	/*'',
      ''	 * ABK stable_515_backport: the accumulators are relative to'',
      ''	 * min_vruntime, so the sum has to be re-based when it moves.'',
      ''	 */'',
      ''	if (cfs_rq->min_vruntime != old_min_vruntime)'',
      ''		abk_avg_vruntime_update(cfs_rq, cfs_rq->min_vruntime - old_min_vruntime);'',
      ''#ifndef CONFIG_64BIT'',
      ''	smp_wmb();'',
      ''	cfs_rq->min_vruntime_copy = cfs_rq->min_vruntime;'',
      ''#endif'',
      ''}'',
      []]\<close>

definition p15e_FAIR_ENQ_DEQ :: str where
  \<open>p15e_FAIR_ENQ_DEQ = block
     [''static void __enqueue_entity(struct cfs_rq *cfs_rq, struct sched_entity *se)'',
      ''{'',
      ''	trace_android_rvh_enqueue_entity(cfs_rq, se);'',
      ''	rb_add_cached(&se->run_node, &cfs_rq->tasks_timeline, __entity_less);'',
      ''}'',
      [],
      ''static void __dequeue_entity(struct cfs_rq *cfs_rq, struct sched_entity *se)'',
      ''{'',
      ''	trace_android_rvh_dequeue_entity(cfs_rq, se);'',
      ''	rb_erase_cached(&se->run_node, &cfs_rq->tasks_timeline);'',
      ''}'',
      []]\<close>

definition p15e_FAIR_ENQ_DEQ_NEW :: str where
  \<open>p15e_FAIR_ENQ_DEQ_NEW = block
     [''static void __enqueue_entity(struct cfs_rq *cfs_rq, struct sched_entity *se)'',
      ''{'',
      ''	trace_android_rvh_enqueue_entity(cfs_rq, se);'',
      ''	abk_avg_vruntime_add(cfs_rq, se);'',
      ''	rb_add_cached(&se->run_node, &cfs_rq->tasks_timeline, __entity_less);'',
      ''}'',
      [],
      ''static void __dequeue_entity(struct cfs_rq *cfs_rq, struct sched_entity *se)'',
      ''{'',
      ''	trace_android_rvh_dequeue_entity(cfs_rq, se);'',
      ''	rb_erase_cached(&se->run_node, &cfs_rq->tasks_timeline);'',
      ''	abk_avg_vruntime_sub(cfs_rq, se);'',
      ''}'',
      []]\<close>

definition p15e_FAIR_VSLICE :: str where
  \<open>p15e_FAIR_VSLICE = block
     [''static u64 sched_vslice(struct cfs_rq *cfs_rq, struct sched_entity *se)'',
      ''{'',
      ''	return calc_delta_fair(sched_slice(cfs_rq, se), se);'',
      ''}'',
      []]\<close>

definition p15e_FAIR_HELPERS_body_lines1 :: "str list" where
  \<open>p15e_FAIR_HELPERS_body_lines1 =
     [''/* ABK stable_515_backport: EEVDF runtime-state graft (Batch 28 shape). */'',
      ''/*'',
      '' * Absorbed from ABK_ABI_PATCH_SUITE feature_porting/sched_eevdf_pick_logic'',
      '' * (phase "scan_based_eevdf_phase2") by Batch 15, and rebuilt onto the upstream'',
      '' * data structure and policy by Batch 28.  docs/survey_eevdf_gap.md is the'',
      '' * difference audit against Linux 6.6 -> 7.3; the per-commit provenance of every'',
      '' * rule below is in this module\'s docstring.'',
      '' *'',
      '' * The four sched_entity fields it reads (deadline, min_vruntime, vlag, slice)'',
      '' * are claimed from the Android KABI reserve slots by the core-fields group of'',
      '' * this same module; the cfs_rq accumulators it reads are added by the'',
      '' * modern-fields group.'',
      '' */'',
      ''#define ABK_EEVDF_REL_DEADLINE_BIT (1ULL << 63)'',
      ''#define ABK_EEVDF_REL_DEADLINE_MASK (ABK_EEVDF_REL_DEADLINE_BIT - 1)'',
      [],
      ''/* clear_buddies() is defined ~3800 lines below; abk_eevdf_refresh_deadline()'',
      '' * calls it when the request is consumed. */'',
      ''static void clear_buddies(struct cfs_rq *cfs_rq, struct sched_entity *se);'',
      [],
      ''static inline u64 abk_eevdf_slice(struct sched_entity *se)'',
      ''{'',
      ''	/*'',
      ''	 * se->slice carries the entity\'s request size, and zero means "no custom'',
      ''	 * request": the value is then the runqueue-wide default.  A non-zero value'',
      ''	 * is a request the task made for itself through sched_setattr(sched_runtime)'',
      ''	 * -- __setscheduler_params() writes it, and the two writers below leave it'',
      ''	 * alone.  That is what lets PREEMPT_SHORT compare two different request'',
      ''	 * sizes; with every entity on the default it would be a tautology.'',
      ''	 *'',
      ''	 * Upstream spells this as a separate `unsigned char custom_slice` bit beside'',
      ''	 * the field.  5.15\'s sched_entity reserve run is exhausted -- four slots, all'',
      ''	 * four already spent -- so zero carries the flag instead.  The observable'',
      ''	 * behaviour is identical, because upstream\'s `!custom_slice` paths also'',
      ''	 * write sysctl_sched_base_slice.'',
      ''	 *'',
      ''	 * (750us is 5.15\'s sysctl_sched_min_granularity; 6.6 renames it'',
      ''	 * sysctl_sched_base_slice.  Its normalised value is also reachable from'',
      ''	 * __setscheduler_params(), which is the only writer of a non-default slice.)'',
      ''	 */'',
      ''	return se->slice ? se->slice : (u64)sysctl_sched_min_granularity;'',
      ''}'',
      [],
      ''static inline u64 abk_eevdf_vslice(struct cfs_rq *cfs_rq, struct sched_entity *se)'',
      ''{'',
      ''	u64 slice = abk_eevdf_slice(se);'',
      [],
      ''	return max_t(u64, calc_delta_fair(slice, se), 1ULL);'',
      ''}'',
      [],
      ''/*'',
      '' * O(1) weighted average virtual time.  Specifically: avg_vruntime() + 0 must'',
      '' * make abk_eevdf_eligible() true, which is why the division below carries a'',
      '' * left bias -- integer division floors unless the value is negative, where it'',
      '' * ceils, and the sign flip is what keeps the result eligible either way'',
      '' * (upstream 650cad561cce, v6.6).'',
      '' */'',
      ''u64 avg_vruntime(struct cfs_rq *cfs_rq)'',
      ''{'',
      ''	struct sched_entity *curr = cfs_rq->curr;'',
      ''	s64 avg = cfs_rq->avg_vruntime;'',
      ''	long load = cfs_rq->avg_load;'',
      [],
      ''	if (curr && curr->on_rq) {'',
      ''		unsigned long weight = scale_load_down(curr->load.weight);'',
      [],
      ''		avg += abk_entity_key(cfs_rq, curr) * weight;'',
      ''		load += weight;'',
      ''	}'',
      [],
      ''	if (load) {'',
      ''		/* sign flips effective floor / ceil */'',
      ''		if (avg < 0)'',
      ''			avg -= (load - 1);'',
      ''		avg = div_s64(avg, load);'',
      ''	}'',
      [],
      ''	return cfs_rq->min_vruntime + avg;'',
      ''}'',
      [],
      ''static inline bool abk_eevdf_has_rel_deadline(const struct sched_entity *se)'',
      ''{'',
      ''	return se->min_vruntime & ABK_EEVDF_REL_DEADLINE_BIT;'',
      ''}'',
      [],
      ''static inline u64 abk_eevdf_get_rel_deadline(const struct sched_entity *se)'',
      ''{'',
      ''	return se->min_vruntime & ABK_EEVDF_REL_DEADLINE_MASK;'',
      ''}'',
      [],
      ''static inline void abk_eevdf_set_rel_deadline(struct sched_entity *se, u64 deadline)'',
      ''{'',
      ''	se->min_vruntime = ABK_EEVDF_REL_DEADLINE_BIT |'',
      ''			   (deadline & ABK_EEVDF_REL_DEADLINE_MASK);'',
      ''}'',
      [],
      ''static inline u64 abk_eevdf_take_rel_deadline(struct sched_entity *se)'',
      ''{'',
      ''	u64 deadline = abk_eevdf_get_rel_deadline(se);'',
      [],
      ''	se->min_vruntime = 0;'',
      ''	return deadline;'',
      ''}'',
      [],
      ''static inline void abk_eevdf_store_rel_deadline(struct sched_entity *se)'',
      ''{'',
      ''	u64 deadline = 0;'',
      [],
      ''	if (se->deadline && (s64)(se->deadline - se->vruntime) > 0)'',
      ''		deadline = se->deadline - se->vruntime;'',
      [],
      ''	abk_eevdf_set_rel_deadline(se, deadline);'',
      ''}'',
      [],
      ''static inline void abk_eevdf_scale_rel_deadline(struct sched_entity *se,'',
      ''						unsigned long old_weight,'',
      ''						unsigned long new_weight)'',
      ''{'',
      ''	u64 deadline;'',
      [],
      ''	if (!abk_eevdf_has_rel_deadline(se))'',
      ''		return;'',
      [],
      ''	deadline = abk_eevdf_get_rel_deadline(se);'',
      ''	if (deadline)'',
      ''		deadline = div_u64(deadline * old_weight, new_weight);'',
      [],
      ''	abk_eevdf_set_rel_deadline(se, deadline);'',
      ''}'',
      [],
      ''static inline bool abk_eevdf_entity_before(const struct sched_entity *a,'',
      ''					      const struct sched_entity *b)'',
      ''{'',
      ''	if (!a)'',
      ''		return false;'']\<close>

definition p15e_FAIR_HELPERS_body_lines2 :: "str list" where
  \<open>p15e_FAIR_HELPERS_body_lines2 =
     [''	if (!b)'',
      ''		return true;'',
      [],
      ''	if (a->deadline == b->deadline)'',
      ''		return (s64)(a->vruntime - b->vruntime) < 0;'',
      [],
      ''	return (s64)(a->deadline - b->deadline) < 0;'',
      ''}'',
      [],
      ''static inline bool abk_eevdf_eligible(struct sched_entity *se, u64 avruntime)'',
      ''{'',
      ''	return (s64)(avruntime - se->vruntime) >= 0;'',
      ''}'',
      [],
      ''static inline s64 abk_eevdf_lag_limit(struct sched_entity *se)'',
      ''{'',
      ''	/*'',
      ''	 * lag_i = S - s_i = w_i * (V - v_i); V is the weighted average of all'',
      ''	 * entities, so add/remove/reweight can move V and leave a lag larger than'',
      ''	 * the system started with.  Upstream bounds it at twice the entity\'s own'',
      ''	 * request, with TICK_NSEC as the floor because that is the timing'',
      ''	 * granularity (update_entity_lag(), v6.6).'',
      ''	 */'',
      ''	return max_t(s64, (s64)calc_delta_fair(max_t(u64, 2 * abk_eevdf_slice(se),'',
      ''						     TICK_NSEC), se), 1LL);'',
      ''}'',
      [],
      ''static void abk_eevdf_update_lag(struct cfs_rq *cfs_rq, struct sched_entity *se)'',
      ''{'',
      ''	s64 vlag, limit;'',
      [],
      ''	vlag = (s64)(avg_vruntime(cfs_rq) - se->vruntime);'',
      ''	limit = abk_eevdf_lag_limit(se);'',
      ''	se->vlag = clamp_t(s64, vlag, -limit, limit);'',
      ''}'',
      [],
      ''static s64 abk_eevdf_preserved_lag(struct cfs_rq *cfs_rq, struct sched_entity *se)'',
      ''{'',
      ''	unsigned long load = cfs_rq->avg_load;'',
      ''	unsigned long weight = max_t(unsigned long, scale_load_down(se->load.weight), 1UL);'',
      ''	s64 lag = se->vlag;'',
      ''	s64 limit = abk_eevdf_lag_limit(se);'',
      [],
      ''	lag = clamp_t(s64, lag, -limit, limit);'',
      ''	if (load)'',
      ''		lag = div_s64(lag * (load + weight), load);'',
      [],
      ''	return lag;'',
      ''}'',
      [],
      ''static void abk_eevdf_apply_lag_placement(struct cfs_rq *cfs_rq,'',
      ''					  struct sched_entity *se, s64 lag)'',
      ''{'',
      ''	u64 avruntime = avg_vruntime(cfs_rq);'',
      [],
      ''	if (lag > 0) {'',
      ''		u64 delta = min_t(u64, avruntime, (u64)lag);'',
      [],
      ''		se->vruntime = avruntime - delta;'',
      ''	} else if (lag < 0) {'',
      ''		se->vruntime = avruntime + (u64)(-lag);'',
      ''	} else {'',
      ''		se->vruntime = avruntime;'',
      ''	}'',
      ''}'',
      [],
      ''/*'',
      '' * EEVDF: vd_i = ve_i + r_i / w_i.  This is upstream update_deadline() (v6.6)'',
      '' * plus this module\'s relative-deadline tag.  It returns true when the request'',
      '' * was refreshed, which means the entity has consumed its slice.'',
      '' *'',
      '' * It is O(1): the Batch 15 form walked the whole tree here (avg_vruntime() for'',
      '' * the lag and a max-slice scan for the limit), and the selector called it once'',
      '' * per tree node, which is what made pick_next_entity() quadratic.'',
      '' */'',
      ''static bool abk_eevdf_refresh_deadline(struct cfs_rq *cfs_rq,'',
      ''				       struct sched_entity *se)'',
      ''{'',
      ''	if (abk_eevdf_has_rel_deadline(se)) {'',
      ''		u64 rel_deadline = abk_eevdf_take_rel_deadline(se);'',
      [],
      ''		se->deadline = se->vruntime + rel_deadline;'',
      ''	}'',
      [],
      ''	if ((s64)(se->vruntime - se->deadline) < 0)'',
      ''		return false;'',
      [],
      ''	/*'',
      ''	 * For EEVDF the virtual time slope is determined by w_i (iow. nice)'',
      ''	 * while the request time r_i is per entity.'',
      ''	 */'',
      ''	if (!se->slice)'',
      ''		se->slice = sysctl_sched_min_granularity;'',
      ''	se->deadline = se->vruntime + abk_eevdf_vslice(cfs_rq, se);'',
      [],
      ''	/*'',
      ''	 * The task has consumed its request.  Its deadline moved, so the'',
      ''	 * RUN_TO_PARITY stash in cfs_rq::abk_pick_deadline no longer matches'',
      ''	 * and the selector is free to pick someone else.'',
      ''	 */'',
      ''	if (cfs_rq->nr_running > 1) {'',
      ''		resched_curr(rq_of(cfs_rq));'',
      ''		clear_buddies(cfs_rq, se);'',
      ''	}'',
      [],
      ''	return true;'',
      ''}'',
      [],
      ''static void abk_eevdf_place_entity(struct cfs_rq *cfs_rq,'',
      ''				 struct sched_entity *se, int initial)'',
      ''{'',
      ''	bool rel_deadline = abk_eevdf_has_rel_deadline(se);'',
      ''	u64 vslice;'',
      ''	s64 lag = 0;'',
      [],
      ''	if (!se->slice)'',
      ''		se->slice = sysctl_sched_min_granularity;'',
      ''	vslice = abk_eevdf_vslice(cfs_rq, se);'',
      [],
      ''	if (!initial && (se->vlag || rel_deadline)) {'',
      ''		lag = abk_eevdf_preserved_lag(cfs_rq, se);'',
      ''		abk_eevdf_apply_lag_placement(cfs_rq, se, lag);'',
      ''	} else if (initial) {'',
      ''		/*'',
      ''		 * A new task runs on the rq that wake_up_new_task() assigned, not'',
      ''		 * on the one it was forked on, so start it at the current ideal'',
      ''		 * virtual time rather than at the vruntime it inherited from its'',
      ''		 * parent (upstream c40dd90ac045, v6.12).'',
      ''		 */'',
      ''		se->vruntime = avg_vruntime(cfs_rq);'',
      ''	}'',
      [],
      ''	if (rel_deadline) {'',
      ''		u64 rel = abk_eevdf_take_rel_deadline(se);'',
      []]\<close>

definition p15e_FAIR_HELPERS_body_lines3 :: "str list" where
  \<open>p15e_FAIR_HELPERS_body_lines3 =
     [''		if (!rel)'',
      ''			rel = vslice;'',
      ''		se->deadline = se->vruntime + rel;'',
      ''		se->vlag = 0;'',
      ''		return;'',
      ''	}'',
      [],
      ''	/*'',
      ''	 * When joining the competition the existing tasks will be, on average,'',
      ''	 * halfway through their slice, so start a new task off with half a slice'',
      ''	 * to ease into the competition (PLACE_DEADLINE_INITIAL, v6.6).'',
      ''	 */'',
      ''	if (initial)'',
      ''		vslice = max_t(u64, vslice >> 1, 1ULL);'',
      [],
      ''	se->deadline = se->vruntime + vslice;'',
      ''	se->vlag = 0;'',
      ''}'',
      [],
      ''/*'',
      '' * EEVDF: from the eligible entities, take the one with the earliest virtual'',
      '' * deadline.'',
      '' *'',
      '' * This is a single O(n) pass with O(1) per node, and -- unlike the Batch 15'',
      '' * form -- it does not mutate scheduler state.  Every quantity it reads'',
      '' * (deadline, vruntime) is established by place_entity() and maintained by'',
      '' * update_curr() -> abk_eevdf_refresh_deadline(); the Batch 15 form refreshed'',
      '' * them here, per node, which is why asking who should run used to perturb the'',
      '' * scheduler.'',
      '' *'',
      '' * The remaining O(n) -> O(log n) step is upstream 2227a957e1d5 (v6.8): re-key'',
      '' * the rb-tree on deadline and augment it with se->min_vruntime so eligibility'',
      '' * can prune subtrees.  That changes __pick_first_entity() semantics for'',
      '' * update_min_vruntime() and check_preempt_tick() as well, so it is a separate'',
      '' * batch.'',
      '' */'',
      ''static struct sched_entity *abk_pick_eevdf(struct cfs_rq *cfs_rq,'',
      ''					  struct sched_entity *curr)'',
      ''{'',
      ''	struct sched_entity *best = NULL;'',
      ''	struct sched_entity *next = cfs_rq->next;'',
      ''	struct rb_node *node;'',
      ''	u64 avruntime = avg_vruntime(cfs_rq);'',
      [],
      ''	/*'',
      ''	 * An entity that is not eligible is owed no service, so it cannot be the'',
      ''	 * answer below -- drop it before any rule looks at it.  Upstream does this'',
      ''	 * immediately ahead of its run-to-parity test (pick_eevdf(), v6.6);'',
      ''	 * leaving it out lets run-to-parity hand the CPU to an ineligible current,'',
      ''	 * which is both more than upstream promises and enough to hide the skip'',
      ''	 * buddy that yield_task_fair() sets.'',
      ''	 */'',
      ''	if (curr && (!curr->on_rq || !abk_eevdf_eligible(curr, avruntime)))'',
      ''		curr = NULL;'',
      [],
      ''	/*'',
      ''	 * Once selected, run a task until it either becomes non-eligible or until'',
      ''	 * it gets a new slice (upstream 63304558ba5d, v6.6).  cfs_rq->'',
      ''	 * abk_pick_deadline is the deadline curr was picked with, set in'',
      ''	 * set_next_entity(); abk_eevdf_refresh_deadline() invalidates the match'',
      ''	 * by moving se->deadline once the request is consumed.'',
      ''	 */'',
      ''	if (sched_feat(RUN_TO_PARITY) && curr && curr->on_rq && curr->deadline &&'',
      ''	    cfs_rq->abk_pick_deadline == curr->deadline)'',
      ''		return curr;'',
      [],
      ''	if (curr && curr->on_rq && abk_eevdf_eligible(curr, avruntime))'',
      ''		best = curr;'',
      [],
      ''	if (next && next->on_rq && abk_eevdf_eligible(next, avruntime) &&'',
      ''	    abk_eevdf_entity_before(next, best))'',
      ''		best = next;'',
      [],
      ''	for (node = rb_first_cached(&cfs_rq->tasks_timeline); node; node = rb_next(node)) {'',
      ''		struct sched_entity *se = __node_2_se(node);'',
      [],
      ''		if (!abk_eevdf_eligible(se, avruntime))'',
      ''			continue;'',
      ''		if (cfs_rq->skip == se)'',
      ''			continue;'',
      ''		if (abk_eevdf_entity_before(se, best))'',
      ''			best = se;'',
      ''	}'',
      [],
      ''	if (!best)'',
      ''		best = curr && curr->on_rq ? curr : __pick_first_entity(cfs_rq);'',
      [],
      ''	return best;'',
      ''}'',
      [],
      ''/*'',
      '' * PREEMPT_SHORT (upstream 85e511df3cec, v6.12): a wakee that asked for less'',
      '' * time than current may preempt it, so a latency-sensitive short request is not'',
      '' * stuck behind a long one.  The guards are upstream do_preempt_short()\'s: the'',
      '' * request really is shorter, the wakee is eligible, and the wakee is not'',
      '' * already ahead of an eligible current (in which case the normal rule below'',
      '' * would take it anyway).'',
      '' */'',
      ''static inline bool abk_eevdf_preempt_short(struct cfs_rq *cfs_rq,'',
      ''					   struct sched_entity *se,'',
      ''					   struct sched_entity *pse)'',
      ''{'',
      ''	if (!sched_feat(PREEMPT_SHORT))'',
      ''		return false;'',
      [],
      ''	if (abk_eevdf_slice(pse) >= abk_eevdf_slice(se))'',
      ''		return false;'',
      [],
      ''	if (!abk_eevdf_eligible(pse, avg_vruntime(cfs_rq)))'',
      ''		return false;'',
      [],
      ''	if (abk_eevdf_eligible(se, avg_vruntime(cfs_rq)) &&'',
      ''	    pse->vruntime >= se->vruntime)'',
      ''		return false;'',
      [],
      ''	return true;'',
      ''}'',
      []]\<close>

definition p15e_FAIR_HELPERS_body :: str where
  \<open>p15e_FAIR_HELPERS_body = block (p15e_FAIR_HELPERS_body_lines1 @ p15e_FAIR_HELPERS_body_lines2 @ p15e_FAIR_HELPERS_body_lines3)\<close>

definition p15e_FAIR_HELPERS :: str where
  \<open>p15e_FAIR_HELPERS = (block
     [[],
      []]) @ p15e_FAIR_HELPERS_body\<close>

definition p15e_FAIR_VSLICE_NEW :: str where
  \<open>p15e_FAIR_VSLICE_NEW = p15e_FAIR_VSLICE @
   p15e_FAIR_HELPERS\<close>

definition p15e_FAIR_UPDATE_CURR :: str where
  \<open>p15e_FAIR_UPDATE_CURR = block
     [''	curr->vruntime += calc_delta_fair(delta_exec, curr);'',
      ''	update_min_vruntime(cfs_rq);'',
      []]\<close>

definition p15e_FAIR_UPDATE_CURR_NEW :: str where
  \<open>p15e_FAIR_UPDATE_CURR_NEW = block
     [''	curr->vruntime += calc_delta_fair(delta_exec, curr);'',
      ''	/*'',
      ''	 * ABK stable_515_backport: EEVDF request accounting (upstream'',
      ''	 * update_deadline(), v6.6).  Refreshing here rather than inside the'',
      ''	 * selector is what keeps pick_next_entity() free of scheduler-state'',
      ''	 * mutation.'',
      ''	 */'',
      ''	abk_eevdf_refresh_deadline(cfs_rq, curr);'',
      ''	update_min_vruntime(cfs_rq);'',
      []]\<close>

definition p15e_FAIR_NEXT_PICK :: str where
  \<open>p15e_FAIR_NEXT_PICK = block
     [''static struct sched_entity *__pick_next_entity(struct sched_entity *se)'',
      []]\<close>

definition p15e_FAIR_LOAD_AVG_STUB :: str where
  \<open>p15e_FAIR_LOAD_AVG_STUB = block
     [''static inline void'',
      ''dequeue_load_avg(struct cfs_rq *cfs_rq, struct sched_entity *se) { }'',
      ''#endif'',
      [],
      []]\<close>

definition p15e_FAIR_LOAD_AVG_STUB_NEW :: str where
  \<open>p15e_FAIR_LOAD_AVG_STUB_NEW = block
     [''static inline void'',
      ''dequeue_load_avg(struct cfs_rq *cfs_rq, struct sched_entity *se) { }'',
      ''#endif'',
      [],
      ''/* ABK stable_515_backport: reweight_entity() now calls place_entity() and'',
      '' * the tree insert/remove helpers, and 5.15 defines reweight_entity() ~1200'',
      '' * lines before place_entity().  __dequeue_entity()/__enqueue_entity() are'',
      '' * already defined above this point.'',
      '' */'',
      ''static void'',
      ''place_entity(struct cfs_rq *cfs_rq, struct sched_entity *se, int initial);'',
      []]\<close>

definition p15e_FAIR_REWEIGHT_HEAD :: str where
  \<open>p15e_FAIR_REWEIGHT_HEAD = block
     [''	if (se->on_rq) {'',
      ''		/* commit outstanding execution time */'',
      ''		if (cfs_rq->curr == se)'',
      ''			update_curr(cfs_rq);'',
      ''		update_load_sub(&cfs_rq->load, se->load.weight);'',
      ''	}'',
      ''	dequeue_load_avg(cfs_rq, se);'',
      [],
      ''	update_load_set(&se->load, weight);'',
      []]\<close>

definition p15e_FAIR_REWEIGHT_HEAD_NEW :: str where
  \<open>p15e_FAIR_REWEIGHT_HEAD_NEW = block
     [''	/*'',
      ''	 * ABK stable_515_backport: a weight change preserves the entity\'s lag'',
      ''	 * and its remaining relative deadline instead of resetting them, on'',
      ''	 * both the current and the queued path.  Lag scales with the weight'',
      ''	 * ratio and the entity is re-placed at the end, which is the phase-2'',
      ''	 * runtime-state behaviour the sibling suite\'s phase-3 marker only'',
      ''	 * annotates.'',
      ''	 */'',
      ''	bool curr = cfs_rq->curr == se;'',
      ''	bool queued = se->on_rq;'',
      ''	unsigned long old_weight = max_t(unsigned long, se->load.weight, 1UL);'',
      ''	unsigned long new_weight = max_t(unsigned long, weight, 1UL);'',
      [],
      ''	if (queued) {'',
      ''		/* commit outstanding execution time before preserving lag/deadline */'',
      ''		if (curr)'',
      ''			update_curr(cfs_rq);'',
      ''		abk_eevdf_update_lag(cfs_rq, se);'',
      ''		abk_eevdf_store_rel_deadline(se);'',
      ''		if (!curr)'',
      ''			__dequeue_entity(cfs_rq, se);'',
      ''		update_load_sub(&cfs_rq->load, se->load.weight);'',
      ''	}'',
      ''	dequeue_load_avg(cfs_rq, se);'',
      [],
      ''	se->vlag = div_s64(se->vlag * (s64)old_weight, new_weight);'',
      ''	abk_eevdf_scale_rel_deadline(se, old_weight, new_weight);'',
      ''	update_load_set(&se->load, weight);'',
      []]\<close>

definition p15e_FAIR_REWEIGHT_TAIL :: str where
  \<open>p15e_FAIR_REWEIGHT_TAIL = block
     [''	enqueue_load_avg(cfs_rq, se);'',
      ''	if (se->on_rq)'',
      ''		update_load_add(&cfs_rq->load, se->load.weight);'',
      [],
      ''}'',
      []]\<close>

definition p15e_FAIR_REWEIGHT_TAIL_NEW :: str where
  \<open>p15e_FAIR_REWEIGHT_TAIL_NEW = block
     [''	enqueue_load_avg(cfs_rq, se);'',
      ''	if (queued) {'',
      ''		place_entity(cfs_rq, se, 0);'',
      ''		update_load_add(&cfs_rq->load, se->load.weight);'',
      ''		if (!curr)'',
      ''			__enqueue_entity(cfs_rq, se);'',
      ''	}'',
      ''}'',
      []]\<close>

definition p15e_FAIR_ENQUEUE_PLACE :: str where
  \<open>p15e_FAIR_ENQUEUE_PLACE = block
     [''	if (flags & ENQUEUE_WAKEUP)'',
      ''		place_entity(cfs_rq, se, 0);'',
      []]\<close>

definition p15e_FAIR_ENQUEUE_PLACE_NEW :: str where
  \<open>p15e_FAIR_ENQUEUE_PLACE_NEW = block
     [''	/* ABK stable_515_backport: an entity that still carries lag or a'',
      ''	 * relative deadline is re-placed even on a non-wakeup enqueue. */'',
      ''	if ((flags & ENQUEUE_WAKEUP) || abk_eevdf_has_rel_deadline(se) || se->vlag)'',
      ''		place_entity(cfs_rq, se, 0);'',
      []]\<close>

definition p15e_FAIR_DEQUEUE_HEAD :: str where
  \<open>p15e_FAIR_DEQUEUE_HEAD = block
     [''static void'',
      ''dequeue_entity(struct cfs_rq *cfs_rq, struct sched_entity *se, int flags)'',
      ''{'',
      []]\<close>

definition p15e_FAIR_DEQUEUE_HEAD_NEW :: str where
  \<open>p15e_FAIR_DEQUEUE_HEAD_NEW = block
     [''static void'',
      ''dequeue_entity(struct cfs_rq *cfs_rq, struct sched_entity *se, int flags)'',
      ''{'',
      ''	/* ABK stable_515_backport: DEQUEUE_SLEEP decides whether the entity'',
      ''	 * keeps its relative deadline (sleep) or is normalized into the'',
      ''	 * migrated/exit form. */'',
      ''	bool sleep = flags & DEQUEUE_SLEEP;'',
      []]\<close>

definition p15e_FAIR_DEQUEUE_BODY :: str where
  \<open>p15e_FAIR_DEQUEUE_BODY = block
     [''	update_stats_dequeue(cfs_rq, se, flags);'',
      [],
      ''	clear_buddies(cfs_rq, se);'',
      [],
      ''	if (se != cfs_rq->curr)'',
      ''		__dequeue_entity(cfs_rq, se);'',
      []]\<close>

definition p15e_FAIR_DEQUEUE_BODY_NEW :: str where
  \<open>p15e_FAIR_DEQUEUE_BODY_NEW = block
     [''	update_stats_dequeue(cfs_rq, se, flags);'',
      [],
      ''	clear_buddies(cfs_rq, se);'',
      ''	/* ABK stable_515_backport: snapshot lag before the entity leaves the'',
      ''	 * tree; a non-sleeping entity additionally stores its remaining'',
      ''	 * relative deadline for the next placement. */'',
      ''	abk_eevdf_update_lag(cfs_rq, se);'',
      ''	if (!sleep)'',
      ''		abk_eevdf_store_rel_deadline(se);'',
      [],
      ''	if (se != cfs_rq->curr)'',
      ''		__dequeue_entity(cfs_rq, se);'',
      []]\<close>

definition p15e_FAIR_PLACE_TAIL :: str where
  \<open>p15e_FAIR_PLACE_TAIL = block
     [''	if (entity_is_long_sleeper(se))'',
      ''		se->vruntime = vruntime;'',
      ''	else'',
      ''		se->vruntime = max_vruntime(se->vruntime, vruntime);'',
      ''	trace_android_rvh_place_entity(cfs_rq, se, initial, &vruntime);'',
      ''}'',
      []]\<close>

definition p15e_FAIR_PLACE_TAIL_NEW :: str where
  \<open>p15e_FAIR_PLACE_TAIL_NEW = block
     [''	if (entity_is_long_sleeper(se))'',
      ''		se->vruntime = vruntime;'',
      ''	else'',
      ''		se->vruntime = max_vruntime(se->vruntime, vruntime);'',
      ''	trace_android_rvh_place_entity(cfs_rq, se, initial, &vruntime);'',
      ''	/* ABK stable_515_backport: the EEVDF placement supersedes the CFS'',
      ''	 * min_vruntime pull above -- it places the entity at the weighted'',
      ''	 * average vruntime offset by its preserved lag, then hands it a slice'',
      ''	 * worth of deadline. */'',
      ''	abk_eevdf_place_entity(cfs_rq, se, initial);'',
      ''}'',
      []]\<close>

definition p15e_FAIR_PREEMPT :: str where
  \<open>p15e_FAIR_PREEMPT = block
     [''	se = __pick_first_entity(cfs_rq);'',
      ''	delta = curr->vruntime - se->vruntime;'',
      [],
      ''	if (delta < 0)'',
      ''		return;'',
      [],
      ''	if (delta > ideal_runtime)'',
      ''		resched_curr(rq_of(cfs_rq));'',
      ''}'',
      []]\<close>

definition p15e_FAIR_PREEMPT_NEW :: str where
  \<open>p15e_FAIR_PREEMPT_NEW = block
     [''	/* ABK stable_515_backport: the EEVDF selector decides preemption'',
      ''	 * first; the slot-based check below stays as the fallback. */'',
      ''	if (sched_feat(EEVDF)) {'',
      ''		se = abk_pick_eevdf(cfs_rq, curr);'',
      ''		if (se && se != curr && abk_eevdf_entity_before(se, curr)) {'',
      ''			resched_curr(rq_of(cfs_rq));'',
      ''			return;'',
      ''		}'',
      ''	}'',
      [],
      ''	se = __pick_first_entity(cfs_rq);'',
      ''	delta = curr->vruntime - se->vruntime;'',
      [],
      ''	if (delta < 0)'',
      ''		return;'',
      [],
      ''	if (delta > ideal_runtime)'',
      ''		resched_curr(rq_of(cfs_rq));'',
      ''}'',
      []]\<close>

definition p15e_FAIR_SET_NEXT :: str where
  \<open>p15e_FAIR_SET_NEXT = block
     [''		update_stats_wait_end(cfs_rq, se);'',
      ''		__dequeue_entity(cfs_rq, se);'',
      ''		update_load_avg(cfs_rq, se, UPDATE_TG);'',
      []]\<close>

definition p15e_FAIR_SET_NEXT_NEW :: str where
  \<open>p15e_FAIR_SET_NEXT_NEW = block
     [''		update_stats_wait_end(cfs_rq, se);'',
      ''		/* ABK stable_515_backport: RUN_TO_PARITY stash -- remember the'',
      ''		 * deadline this entity was picked with; update_curr() invalidates'',
      ''		 * it by refreshing se->deadline once the request is consumed.  It'',
      ''		 * lives in cfs_rq because se->vlag carries the lag on this tree. */'',
      ''		cfs_rq->abk_pick_deadline = se->deadline;'',
      ''		__dequeue_entity(cfs_rq, se);'',
      ''		update_load_avg(cfs_rq, se, UPDATE_TG);'',
      []]\<close>

definition p15e_FAIR_PICK :: str where
  \<open>p15e_FAIR_PICK = block
     [''static struct sched_entity *'',
      ''pick_next_entity(struct cfs_rq *cfs_rq, struct sched_entity *curr)'',
      ''{'',
      ''	struct sched_entity *left = __pick_first_entity(cfs_rq);'',
      ''	struct sched_entity *se = NULL;'',
      [],
      ''	trace_android_rvh_pick_next_entity(cfs_rq, curr, &se);'',
      ''	if (se)'',
      ''		goto done;'',
      [],
      ''	/*'',
      ''	 * If curr is set we have to see if its left of the leftmost entity'',
      ''	 * still in the tree, provided there was anything in the tree at all.'',
      ''	 */'',
      ''	if (!left || (curr && entity_before(curr, left)))'',
      ''		left = curr;'',
      [],
      ''	se = left; /* ideally we run the leftmost entity */'',
      [],
      ''	/*'',
      ''	 * Avoid running the skip buddy, if running something else can'',
      ''	 * be done without getting too unfair.'',
      ''	 */'',
      ''	if (cfs_rq->skip && cfs_rq->skip == se) {'',
      ''		struct sched_entity *second;'',
      [],
      ''		if (se == curr) {'',
      ''			second = __pick_first_entity(cfs_rq);'',
      ''		} else {'',
      ''			second = __pick_next_entity(se);'',
      ''			if (!second || (curr && entity_before(curr, second)))'',
      ''				second = curr;'',
      ''		}'',
      [],
      ''		if (second && wakeup_preempt_entity(second, left) < 1)'',
      ''			se = second;'',
      ''	}'',
      [],
      ''	if (cfs_rq->next && wakeup_preempt_entity(cfs_rq->next, left) < 1) {'',
      ''		/*'',
      ''		 * Someone really wants this to run. If it\'s not unfair, run it.'',
      ''		 */'',
      ''		se = cfs_rq->next;'',
      ''	} else if (cfs_rq->last && wakeup_preempt_entity(cfs_rq->last, left) < 1) {'',
      ''		/*'',
      ''		 * Prefer last buddy, try to return the CPU to a preempted task.'',
      ''		 */'',
      ''		se = cfs_rq->last;'',
      ''	}'',
      [],
      ''done:'',
      ''	return se;'',
      ''}'',
      []]\<close>

definition p15e_FAIR_PICK_NEW :: str where
  \<open>p15e_FAIR_PICK_NEW = block
     [''static struct sched_entity *'',
      ''pick_next_entity(struct cfs_rq *cfs_rq, struct sched_entity *curr)'',
      ''{'',
      ''	struct sched_entity *left;'',
      ''	struct sched_entity *se = NULL;'',
      [],
      ''	/* ABK stable_515_backport: the AOSP vendor hook keeps the first'',
      ''	 * word; when it does not select, the EEVDF selector owns the choice.'',
      ''	 * The legacy CFS ladder below is kept, and is what runs when EEVDF is'',
      ''	 * switched off -- sched_feat(EEVDF) is the switch the EEVDF series'',
      ''	 * itself carried until 5e963f2bd465 "Commit to EEVDF" removed it, and'',
      ''	 * it is the way back to the old selection without a reflash. */'',
      ''	trace_android_rvh_pick_next_entity(cfs_rq, curr, &se);'',
      ''	if (se)'',
      ''		return se;'',
      [],
      ''	if (sched_feat(EEVDF))'',
      ''		return abk_pick_eevdf(cfs_rq, curr);'',
      [],
      ''	left = __pick_first_entity(cfs_rq);'',
      [],
      ''	/*'',
      ''	 * If curr is set we have to see if its left of the leftmost entity'',
      ''	 * still in the tree, provided there was anything in the tree at all.'',
      ''	 */'',
      ''	if (!left || (curr && entity_before(curr, left)))'',
      ''		left = curr;'',
      [],
      ''	se = left; /* ideally we run the leftmost entity */'',
      [],
      ''	/*'',
      ''	 * Avoid running the skip buddy, if running something else can'',
      ''	 * be done without getting too unfair.'',
      ''	 */'',
      ''	if (cfs_rq->skip && cfs_rq->skip == se) {'',
      ''		struct sched_entity *second;'',
      [],
      ''		if (se == curr) {'',
      ''			second = __pick_first_entity(cfs_rq);'',
      ''		} else {'',
      ''			second = __pick_next_entity(se);'',
      ''			if (!second || (curr && entity_before(curr, second)))'',
      ''				second = curr;'',
      ''		}'',
      [],
      ''		if (second && wakeup_preempt_entity(second, left) < 1)'',
      ''			se = second;'',
      ''	}'',
      [],
      ''	if (cfs_rq->next && wakeup_preempt_entity(cfs_rq->next, left) < 1) {'',
      ''		/*'',
      ''		 * Someone really wants this to run. If it\'s not unfair, run it.'',
      ''		 */'',
      ''		se = cfs_rq->next;'',
      ''	} else if (cfs_rq->last && wakeup_preempt_entity(cfs_rq->last, left) < 1) {'',
      ''		/*'',
      ''		 * Prefer last buddy, try to return the CPU to a preempted task.'',
      ''		 */'',
      ''		se = cfs_rq->last;'',
      ''	}'',
      [],
      ''	return se;'',
      ''}'',
      []]\<close>

definition p15e_FAIR_WPE_DECL :: str where
  \<open>p15e_FAIR_WPE_DECL = block
     [''static int'',
      ''wakeup_preempt_entity(struct sched_entity *curr, struct sched_entity *se);'',
      []]\<close>

definition p15e_FAIR_WAKEUP_GRAN :: str where
  \<open>p15e_FAIR_WAKEUP_GRAN = block
     [''static unsigned long wakeup_gran(struct sched_entity *se)'',
      ''{'',
      []]\<close>

definition p15e_FAIR_WPE_DEF :: str where
  \<open>p15e_FAIR_WPE_DEF = block
     [''static int'',
      ''wakeup_preempt_entity(struct sched_entity *curr, struct sched_entity *se)'',
      ''{'',
      []]\<close>

definition p15e_FAIR_WAKEUP_PREEMPT :: str where
  \<open>p15e_FAIR_WAKEUP_PREEMPT = block
     [''	update_curr(cfs_rq_of(se));'',
      ''	trace_android_rvh_check_preempt_wakeup(rq, p, &preempt, &ignore,'',
      ''			wake_flags, se, pse, next_buddy_marked, sysctl_sched_wakeup_granularity);'',
      ''	if (preempt)'',
      ''		goto preempt;'',
      ''	if (ignore)'',
      ''		return;'',
      [],
      ''	if (wakeup_preempt_entity(se, pse) == 1) {'',
      ''		/*'',
      ''		 * Bias pick_next to pick the sched entity that is'',
      ''		 * triggering this preemption.'',
      ''		 */'',
      ''		if (!next_buddy_marked)'',
      ''			set_next_buddy(pse);'',
      ''		goto preempt;'',
      ''	}'',
      [],
      ''	return;'',
      []]\<close>

definition p15e_FAIR_WAKEUP_PREEMPT_NEW :: str where
  \<open>p15e_FAIR_WAKEUP_PREEMPT_NEW = block
     [''	cfs_rq = cfs_rq_of(se);'',
      ''	update_curr(cfs_rq);'',
      ''	trace_android_rvh_check_preempt_wakeup(rq, p, &preempt, &ignore,'',
      ''			wake_flags, se, pse, next_buddy_marked, sysctl_sched_wakeup_granularity);'',
      ''	if (preempt)'',
      ''		goto preempt;'',
      ''	if (ignore)'',
      ''		return;'',
      [],
      ''	/*'',
      ''	 * ABK stable_515_backport: EEVDF wakeup preemption (upstream'',
      ''	 * 147f3efaa241, v6.6).  The decision is the selector\'s, not the CFS'',
      ''	 * wakeup-granularity ladder\'s, so placement and preemption cannot'',
      ''	 * disagree -- an entity that place_entity() put ahead of current must'',
      ''	 * also be able to take the CPU from it.  PREEMPT_SHORT'',
      ''	 * (85e511df3cec, v6.12) reroutes into the same decision, and only'',
      ''	 * fires for an entity that really did ask for a shorter request.'',
      ''	 */'',
      ''	if (sched_feat(EEVDF) &&'',
      ''	    (abk_eevdf_preempt_short(cfs_rq, se, pse) ||'',
      ''	     abk_pick_eevdf(cfs_rq, se) == pse)) {'',
      ''		/*'',
      ''		 * Bias pick_next to pick the sched entity that is'',
      ''		 * triggering this preemption.'',
      ''		 */'',
      ''		if (!next_buddy_marked)'',
      ''			set_next_buddy(pse);'',
      ''		goto preempt;'',
      ''	}'',
      [],
      ''	/*'',
      ''	 * ABK stable_515_backport: the CFS wakeup-granularity ladder,'',
      ''	 * reachable only with EEVDF off.  It is the companion half of the'',
      ''	 * sched_feat(EEVDF) switch pick_next_entity() carries, and it is'',
      ''	 * what keeps wakeup_preempt_entity()/wakeup_gran() live.'',
      ''	 */'',
      ''	if (!sched_feat(EEVDF) && wakeup_preempt_entity(se, pse) == 1) {'',
      ''		if (!next_buddy_marked)'',
      ''			set_next_buddy(pse);'',
      ''		goto preempt;'',
      ''	}'',
      [],
      ''	return;'',
      []]\<close>

definition p15e_FAIR_YIELD :: str where
  \<open>p15e_FAIR_YIELD = block
     [''	clear_buddies(cfs_rq, se);'',
      [],
      ''	if (curr->policy != SCHED_BATCH) {'',
      ''		update_rq_clock(rq);'',
      ''		/*'',
      ''		 * Update run-time statistics of the \'current\'.'',
      ''		 */'',
      ''		update_curr(cfs_rq);'',
      ''		/*'',
      ''		 * Tell update_rq_clock() that we\'ve just updated,'',
      ''		 * so we don\'t do microscopic update in schedule()'',
      ''		 * and double the fastpath cost.'',
      ''		 */'',
      ''		rq_clock_skip_update(rq);'',
      ''	}'',
      [],
      ''	set_skip_buddy(se);'',
      ''}'',
      []]\<close>

definition p15e_FAIR_YIELD_NEW :: str where
  \<open>p15e_FAIR_YIELD_NEW = block
     [''	clear_buddies(cfs_rq, se);'',
      [],
      ''	update_rq_clock(rq);'',
      ''	/*'',
      ''	 * Update run-time statistics of the \'current\'.'',
      ''	 */'',
      ''	update_curr(cfs_rq);'',
      ''	/*'',
      ''	 * Tell update_rq_clock() that we\'ve just updated,'',
      ''	 * so we don\'t do microscopic update in schedule()'',
      ''	 * and double the fastpath cost.'',
      ''	 */'',
      ''	rq_clock_skip_update(rq);'',
      [],
      ''	/*'',
      ''	 * ABK stable_515_backport: EEVDF yield (upstream 147f3efaa241, v6.6,'',
      ''	 * with the forfeit fix of 79104becf42b, v6.17).'',
      ''	 *'',
      ''	 * Forfeit the remaining request and push the deadline one slice'',
      ''	 * ahead, so yield actually hands the CPU over.  The forfeit is'',
      ''	 * guarded on eligibility because core scheduling prefers running an'',
      ''	 * ineligible task over force-idling: without the guard, a task that'',
      ''	 * keeps being re-picked while yielding would push its vruntime ahead'',
      ''	 * on every pass and run away.'',
      ''	 */'',
      ''	if (abk_eevdf_eligible(se, avg_vruntime(cfs_rq))) {'',
      ''		se->vruntime = se->deadline;'',
      ''		se->deadline += abk_eevdf_vslice(cfs_rq, se);'',
      ''		update_min_vruntime(cfs_rq);'',
      ''	}'',
      [],
      ''	set_skip_buddy(se);'',
      ''}'',
      []]\<close>

definition p15e_FAIR_ANCHORS :: "(str \<times> str) list" where
  \<open>p15e_FAIR_ANCHORS =
     [(''entity_before() / __node_2_se()'', p15e_FAIR_ENTITY_BEFORE),
      (''update_min_vruntime() body'', p15e_FAIR_MIN_VRUNTIME),
      (''__enqueue_entity()/__dequeue_entity()'', p15e_FAIR_ENQ_DEQ),
      (''sched_vslice() helper insert'', p15e_FAIR_VSLICE),
      (''update_curr() vruntime advance'', p15e_FAIR_UPDATE_CURR),
      (''__pick_next_entity() declaration'', p15e_FAIR_NEXT_PICK),
      (''dequeue_load_avg() stub'', p15e_FAIR_LOAD_AVG_STUB),
      (''reweight_entity() head'', p15e_FAIR_REWEIGHT_HEAD),
      (''reweight_entity() tail'', p15e_FAIR_REWEIGHT_TAIL),
      (''enqueue_entity() placement gate'', p15e_FAIR_ENQUEUE_PLACE),
      (''dequeue_entity() head'', p15e_FAIR_DEQUEUE_HEAD),
      (''dequeue_entity() body'', p15e_FAIR_DEQUEUE_BODY),
      (''place_entity() tail'', p15e_FAIR_PLACE_TAIL),
      (''check_preempt_tick() tail'', p15e_FAIR_PREEMPT),
      (''set_next_entity() body'', p15e_FAIR_SET_NEXT),
      (''pick_next_entity() body'', p15e_FAIR_PICK),
      (''wakeup_preempt_entity() declaration'', p15e_FAIR_WPE_DECL),
      (''wakeup_gran() definition'', p15e_FAIR_WAKEUP_GRAN),
      (''wakeup_preempt_entity() definition'', p15e_FAIR_WPE_DEF),
      (''check_preempt_wakeup() tail'', p15e_FAIR_WAKEUP_PREEMPT),
      (''yield_task_fair() body'', p15e_FAIR_YIELD)]\<close>

definition p15e_build_pick_logic_steps_step1 :: step where
  \<open>p15e_build_pick_logic_steps_step1 =
   (p15e_FAIR_C,
    p15e_FAIR_ENTITY_BEFORE,
    p15e_FAIR_ENTITY_BEFORE_NEW, True)\<close>

definition p15e_build_pick_logic_steps_step2 :: step where
  \<open>p15e_build_pick_logic_steps_step2 =
   (p15e_FAIR_C,
    p15e_FAIR_MIN_VRUNTIME,
    p15e_FAIR_MIN_VRUNTIME_NEW, True)\<close>

definition p15e_build_pick_logic_steps_step3 :: step where
  \<open>p15e_build_pick_logic_steps_step3 =
   (p15e_FAIR_C,
    p15e_FAIR_ENQ_DEQ,
    p15e_FAIR_ENQ_DEQ_NEW, True)\<close>

definition p15e_build_pick_logic_steps_step4 :: step where
  \<open>p15e_build_pick_logic_steps_step4 =
   (p15e_FAIR_C,
    p15e_FAIR_VSLICE,
    p15e_FAIR_VSLICE_NEW, True)\<close>

definition p15e_build_pick_logic_steps_step5 :: step where
  \<open>p15e_build_pick_logic_steps_step5 =
   (p15e_FAIR_C,
    p15e_FAIR_UPDATE_CURR,
    p15e_FAIR_UPDATE_CURR_NEW, True)\<close>

definition p15e_build_pick_logic_steps_step6 :: step where
  \<open>p15e_build_pick_logic_steps_step6 =
   (p15e_FAIR_C,
    p15e_FAIR_LOAD_AVG_STUB,
    p15e_FAIR_LOAD_AVG_STUB_NEW, True)\<close>

definition p15e_build_pick_logic_steps_step7 :: step where
  \<open>p15e_build_pick_logic_steps_step7 =
   (p15e_FAIR_C,
    p15e_FAIR_REWEIGHT_HEAD,
    p15e_FAIR_REWEIGHT_HEAD_NEW, True)\<close>

definition p15e_build_pick_logic_steps_step8 :: step where
  \<open>p15e_build_pick_logic_steps_step8 =
   (p15e_FAIR_C,
    p15e_FAIR_REWEIGHT_TAIL,
    p15e_FAIR_REWEIGHT_TAIL_NEW, True)\<close>

definition p15e_build_pick_logic_steps_step9 :: step where
  \<open>p15e_build_pick_logic_steps_step9 =
   (p15e_FAIR_C,
    p15e_FAIR_ENQUEUE_PLACE,
    p15e_FAIR_ENQUEUE_PLACE_NEW, True)\<close>

definition p15e_build_pick_logic_steps_step10 :: step where
  \<open>p15e_build_pick_logic_steps_step10 =
   (p15e_FAIR_C,
    p15e_FAIR_DEQUEUE_HEAD,
    p15e_FAIR_DEQUEUE_HEAD_NEW, True)\<close>

definition p15e_build_pick_logic_steps_step11 :: step where
  \<open>p15e_build_pick_logic_steps_step11 =
   (p15e_FAIR_C,
    p15e_FAIR_DEQUEUE_BODY,
    p15e_FAIR_DEQUEUE_BODY_NEW, True)\<close>

definition p15e_build_pick_logic_steps_step12 :: step where
  \<open>p15e_build_pick_logic_steps_step12 =
   (p15e_FAIR_C,
    p15e_FAIR_PLACE_TAIL,
    p15e_FAIR_PLACE_TAIL_NEW, True)\<close>

definition p15e_build_pick_logic_steps_step13 :: step where
  \<open>p15e_build_pick_logic_steps_step13 =
   (p15e_FAIR_C,
    p15e_FAIR_PREEMPT,
    p15e_FAIR_PREEMPT_NEW, True)\<close>

definition p15e_build_pick_logic_steps_step14 :: step where
  \<open>p15e_build_pick_logic_steps_step14 =
   (p15e_FAIR_C,
    p15e_FAIR_SET_NEXT,
    p15e_FAIR_SET_NEXT_NEW, True)\<close>

definition p15e_build_pick_logic_steps_step15 :: step where
  \<open>p15e_build_pick_logic_steps_step15 =
   (p15e_FAIR_C,
    p15e_FAIR_PICK,
    p15e_FAIR_PICK_NEW, True)\<close>

definition p15e_build_pick_logic_steps_step16 :: step where
  \<open>p15e_build_pick_logic_steps_step16 =
   (p15e_FAIR_C,
    p15e_FAIR_WAKEUP_PREEMPT,
    p15e_FAIR_WAKEUP_PREEMPT_NEW, True)\<close>

definition p15e_build_pick_logic_steps_step17 :: step where
  \<open>p15e_build_pick_logic_steps_step17 =
   (p15e_FAIR_C,
    p15e_FAIR_YIELD,
    p15e_FAIR_YIELD_NEW, True)\<close>

definition p15e_build_pick_logic_steps :: "step list" where
  \<open>p15e_build_pick_logic_steps = [p15e_build_pick_logic_steps_step1, p15e_build_pick_logic_steps_step2, p15e_build_pick_logic_steps_step3, p15e_build_pick_logic_steps_step4, p15e_build_pick_logic_steps_step5, p15e_build_pick_logic_steps_step6, p15e_build_pick_logic_steps_step7, p15e_build_pick_logic_steps_step8, p15e_build_pick_logic_steps_step9, p15e_build_pick_logic_steps_step10, p15e_build_pick_logic_steps_step11, p15e_build_pick_logic_steps_step12, p15e_build_pick_logic_steps_step13, p15e_build_pick_logic_steps_step14, p15e_build_pick_logic_steps_step15, p15e_build_pick_logic_steps_step16, p15e_build_pick_logic_steps_step17]\<close>

lemma p15e_build_pick_logic_steps_files: "steps_files p15e_build_pick_logic_steps = {p15e_FAIR_C}"
  by (simp add: p15e_build_pick_logic_steps_def steps_files_fst insert_commute
      step_file [OF p15e_build_pick_logic_steps_step1_def]
      step_file [OF p15e_build_pick_logic_steps_step2_def]
      step_file [OF p15e_build_pick_logic_steps_step3_def]
      step_file [OF p15e_build_pick_logic_steps_step4_def]
      step_file [OF p15e_build_pick_logic_steps_step5_def]
      step_file [OF p15e_build_pick_logic_steps_step6_def]
      step_file [OF p15e_build_pick_logic_steps_step7_def]
      step_file [OF p15e_build_pick_logic_steps_step8_def]
      step_file [OF p15e_build_pick_logic_steps_step9_def]
      step_file [OF p15e_build_pick_logic_steps_step10_def]
      step_file [OF p15e_build_pick_logic_steps_step11_def]
      step_file [OF p15e_build_pick_logic_steps_step12_def]
      step_file [OF p15e_build_pick_logic_steps_step13_def]
      step_file [OF p15e_build_pick_logic_steps_step14_def]
      step_file [OF p15e_build_pick_logic_steps_step15_def]
      step_file [OF p15e_build_pick_logic_steps_step16_def]
      step_file [OF p15e_build_pick_logic_steps_step17_def])

lemma p15e_build_pick_logic_steps_required: "all_required p15e_build_pick_logic_steps"
  by (simp add: p15e_build_pick_logic_steps_def all_required_def
      step_req [OF p15e_build_pick_logic_steps_step1_def]
      step_req [OF p15e_build_pick_logic_steps_step2_def]
      step_req [OF p15e_build_pick_logic_steps_step3_def]
      step_req [OF p15e_build_pick_logic_steps_step4_def]
      step_req [OF p15e_build_pick_logic_steps_step5_def]
      step_req [OF p15e_build_pick_logic_steps_step6_def]
      step_req [OF p15e_build_pick_logic_steps_step7_def]
      step_req [OF p15e_build_pick_logic_steps_step8_def]
      step_req [OF p15e_build_pick_logic_steps_step9_def]
      step_req [OF p15e_build_pick_logic_steps_step10_def]
      step_req [OF p15e_build_pick_logic_steps_step11_def]
      step_req [OF p15e_build_pick_logic_steps_step12_def]
      step_req [OF p15e_build_pick_logic_steps_step13_def]
      step_req [OF p15e_build_pick_logic_steps_step14_def]
      step_req [OF p15e_build_pick_logic_steps_step15_def]
      step_req [OF p15e_build_pick_logic_steps_step16_def]
      step_req [OF p15e_build_pick_logic_steps_step17_def])

definition p15e_core_fields_step1 :: step where
  \<open>p15e_core_fields_step1 =
   (p15e_SCHED_H,
    p15e_SCHED_H_SE_TAIL_NEW,
    p15e_SCHED_H_SE_TAIL_NEW, True)\<close>

definition p15e_core_fields_step2 :: step where
  \<open>p15e_core_fields_step2 =
   (p15e_SCHED_H,
    p15e_SCHED_H_SE_TAIL_V15,
    p15e_SCHED_H_SE_TAIL_NEW, True)\<close>

definition p15e_core_fields_step3 :: step where
  \<open>p15e_core_fields_step3 =
   (p15e_SCHED_H,
    p15e_SCHED_H_SE_TAIL_BROKEN,
    p15e_SCHED_H_SE_TAIL_NEW, True)\<close>

definition p15e_core_fields_step4 :: step where
  \<open>p15e_core_fields_step4 =
   (p15e_SCHED_H,
    p15e_SCHED_H_SE_TAIL,
    p15e_SCHED_H_SE_TAIL_NEW, True)\<close>

definition p15e_build_core_fields_steps :: "str \<Rightarrow> step list option" where
  \<open>p15e_build_core_fields_steps t =
    (if contains p15e_SCHED_H_SE_TAIL_NEW t then Some [p15e_core_fields_step1]
     else if contains p15e_SCHED_H_SE_TAIL_V15 t then Some [p15e_core_fields_step2]
     else if contains p15e_SCHED_H_SE_TAIL_BROKEN t then Some [p15e_core_fields_step3]
     else if contains p15e_SCHED_H_SE_TAIL t then Some [p15e_core_fields_step4]
     else None)\<close>

lemma p15e_build_core_fields_steps_files: "p15e_build_core_fields_steps t = Some ss \<Longrightarrow> steps_files ss = {p15e_SCHED_H}"
  by (auto simp: p15e_build_core_fields_steps_def steps_files_fst step_file [OF p15e_core_fields_step1_def] step_file [OF p15e_core_fields_step2_def] step_file [OF p15e_core_fields_step3_def] step_file [OF p15e_core_fields_step4_def] split: if_splits)

definition p15e_build_modern_fields_steps_step1 :: step where
  \<open>p15e_build_modern_fields_steps_step1 =
   (p15e_SCHED_H_INTERNAL,
    p15e_SCHED_H_CFS_RQ,
    p15e_SCHED_H_CFS_RQ_NEW, True)\<close>

definition p15e_build_modern_fields_steps_step2 :: step where
  \<open>p15e_build_modern_fields_steps_step2 =
   (p15e_CORE_C,
    p15e_CORE_SETSCHED_PARAMS,
    p15e_CORE_SETSCHED_PARAMS_NEW, True)\<close>

definition p15e_build_modern_fields_steps_step3 :: step where
  \<open>p15e_build_modern_fields_steps_step3 =
   (p15e_FEATURES_H,
    p15e_FEATURES_TAIL,
    p15e_FEATURES_TAIL_NEW, True)\<close>

definition p15e_build_modern_fields_steps :: "step list" where
  \<open>p15e_build_modern_fields_steps = [p15e_build_modern_fields_steps_step1, p15e_build_modern_fields_steps_step2, p15e_build_modern_fields_steps_step3]\<close>

lemma p15e_build_modern_fields_steps_files: "steps_files p15e_build_modern_fields_steps = {p15e_SCHED_H_INTERNAL, p15e_CORE_C, p15e_FEATURES_H}"
  by (simp add: p15e_build_modern_fields_steps_def steps_files_fst insert_commute
      step_file [OF p15e_build_modern_fields_steps_step1_def]
      step_file [OF p15e_build_modern_fields_steps_step2_def]
      step_file [OF p15e_build_modern_fields_steps_step3_def])

lemma p15e_build_modern_fields_steps_required: "all_required p15e_build_modern_fields_steps"
  by (simp add: p15e_build_modern_fields_steps_def all_required_def
      step_req [OF p15e_build_modern_fields_steps_step1_def]
      step_req [OF p15e_build_modern_fields_steps_step2_def]
      step_req [OF p15e_build_modern_fields_steps_step3_def])

definition p15e_eevdf_core_fields_apply :: "outcome io" where
  \<open>p15e_eevdf_core_fields_apply =
    io_try is_fnf (ctx_read p15e_SCHED_H) (\<lambda>e. io_ret (BlockedByShape, p15e_SCHED_H @ '': file absent''))
      (\<lambda>t.
    io_try is_fnf (ctx_read p15e_FAIR_C)
      (\<lambda>e. io_ret (BlockedByShape, p15e_FAIR_C @ '': file absent, so the EEVDF fair.c half cannot have landed; sched_entity reserve slots stay ANDROID_KABI_RESERVE''))
      (\<lambda>fair.
    let absent = filter (\<lambda>probe. \<not> contains probe fair) p15e_FAIR_LANDED_PROBES in
    if absent \<noteq> []
    then io_ret (BlockedByShape, p15e_FAIR_C @
         '' does not carry the EEVDF payload ('' @
         py_str_nat (length absent) @
         ''/'' @
         py_str_nat (length p15e_FAIR_LANDED_PROBES) @
         '' probe(s) missing, first: '' @
         py_repr (hd absent) @
         ''); sched_entity reserve slots stay ANDROID_KABI_RESERVE so the KABI slots are never claimed without the scheduler logic that consumes them'')
    else
    case p15e_build_core_fields_steps t of
      None \<Rightarrow> io_ret (BlockedByShape, p15e_SCHED_H @ '': struct sched_entity reserve slots 1-4 are in none of the four recognised shapes (pristine ANDROID_KABI_RESERVE(1..4) run, the pre-release packed draft, the Batch 15 form, the Batch 28 claim)'')
    | Some steps \<Rightarrow> apply_or_block steps))\<close>

lemma txn_core_fields:
  "transactional (\<lambda>_. {p15e_SCHED_H}) (case p15e_build_core_fields_steps t of
     None \<Rightarrow> io_ret x | Some steps \<Rightarrow> apply_or_block steps)"
proof (cases "p15e_build_core_fields_steps t")
  case None
  then show ?thesis by (simp add: txn_ret)
next
  case (Some ss)
  have f: "steps_files ss = {p15e_SCHED_H}" by (rule p15e_build_core_fields_steps_files [OF Some])
  have "transactional (\<lambda>_. {p15e_SCHED_H}) (apply_or_block ss)"
    by (rule txn_apply_or_block) (simp_all add: f is_backup_code BACKUP_SUFFIX_def p15e_SCHED_H_def)
  with Some show ?thesis by simp
qed

lemma p15e_eevdf_core_fields_apply_txn: "transactional (\<lambda>_. {p15e_SCHED_H}) p15e_eevdf_core_fields_apply"
  unfolding p15e_eevdf_core_fields_apply_def
  by (intro txn_try txn_Let txn_if txn_ret safe_intros txn_core_fields)
    (simp_all add: is_backup_code BACKUP_SUFFIX_def p15e_SCHED_H_def p15e_FAIR_C_def)

definition p15e_sched_eevdf_pick_logic_apply :: "outcome io" where
  \<open>p15e_sched_eevdf_pick_logic_apply =
    io_try is_fnf (ctx_read p15e_FAIR_C) (\<lambda>e. io_ret (BlockedByShape, p15e_FAIR_C @ '': file absent''))
      (\<lambda>t.
    let missing = map snd (filter (\<lambda>(probe, why). \<not> contains probe t) p15e_FAIR_SHAPE_PROBES) in
    if missing \<noteq> []
    then io_ret (BlockedByShape, p15e_FAIR_C @ '' is not the 5.15 shape this port was measured against; missing: '' @ py_join ''; '' missing)
    else
    let ambiguous = ambiguous_anchors p15e_FAIR_ANCHORS t in
    if ambiguous \<noteq> []
    then io_ret (BlockedByShape, p15e_FAIR_C @ '': ambiguous anchor(s), each must occur exactly once: '' @ show_ambiguous ambiguous)
    else
    apply_or_block p15e_build_pick_logic_steps)\<close>

lemma p15e_sched_eevdf_pick_logic_apply_txn: "transactional (\<lambda>_. {p15e_FAIR_C}) p15e_sched_eevdf_pick_logic_apply"
  unfolding p15e_sched_eevdf_pick_logic_apply_def
  by (intro txn_intros safe_intros)
    (simp_all add: is_backup_code BACKUP_SUFFIX_def p15e_FAIR_C_def p15e_build_pick_logic_steps_files)

definition p15e_modern_anchors :: "(path \<times> (str \<times> str) list) list" where
  \<open>p15e_modern_anchors =
     [(p15e_SCHED_H_INTERNAL, [(''cfs_rq accumulators'', p15e_SCHED_H_CFS_RQ)]),
      (p15e_FEATURES_H, [(''EEVDF switches'', p15e_FEATURES_TAIL)])]\<close>

definition p15e_eevdf_modern_fields_apply :: "outcome io" where
  \<open>p15e_eevdf_modern_fields_apply =
    io_try is_fnf (ctx_read p15e_FAIR_C)
      (\<lambda>e. io_ret (BlockedByShape, p15e_FAIR_C @ '': file absent, so the EEVDF fair.c half cannot have landed; the cfs_rq accumulators and the EEVDF switches are not written''))
      (\<lambda>fair.
    let absent = filter (\<lambda>probe. \<not> contains probe fair) p15e_FAIR_LANDED_PROBES in
    if absent \<noteq> []
    then io_ret (BlockedByShape, p15e_FAIR_C @
         '' does not carry the EEVDF payload ('' @
         py_str_nat (length absent) @
         ''/'' @
         py_str_nat (length p15e_FAIR_LANDED_PROBES) @
         '' probe(s) missing, first: '' @
         py_repr (hd absent) @
         ''); the cfs_rq accumulators and the EEVDF switches are not written'')
    else
    anchor_loop p15e_modern_anchors (apply_or_block p15e_build_modern_fields_steps))\<close>

lemma p15e_eevdf_modern_fields_apply_txn: "transactional (\<lambda>_. {p15e_SCHED_H_INTERNAL, p15e_CORE_C, p15e_FEATURES_H}) p15e_eevdf_modern_fields_apply"
  unfolding p15e_eevdf_modern_fields_apply_def
  by (intro txn_intros safe_intros)
    (simp_all add: is_backup_code BACKUP_SUFFIX_def p15e_modern_anchors_def p15e_build_modern_fields_steps_files p15e_FAIR_C_def p15e_CORE_C_def p15e_FEATURES_H_def p15e_SCHED_H_INTERNAL_def)

definition sched_eevdf_pick_logic_group :: group where
  \<open>sched_eevdf_pick_logic_group =
    \<lparr>key = ''sched_eevdf_pick_logic'',
     summary = ''EEVDF selection and runtime-state maintenance on the 5.15 rb-tree layout: the abk_eevdf_* helper set, the cfs_rq virtual-time accumulators that make avg_vruntime() O(1), and the rewiring of update_curr/update_min_vruntime/__enqueue_entity/__dequeue_entity/pick_next_entity/reweight_entity/enqueue_entity/dequeue_entity/place_entity/check_preempt_tick/set_next_entity/check_preempt_wakeup/yield_task_fair (ABK_ABI_PATCH_SUITE feature_porting/sched_eevdf_pick_logic, absorbed by Batch 15, rebuilt onto the upstream form by Batch 28)'',
     commits = [''ABK_ABI_PATCH_SUITE feature_porting/sched_eevdf_pick_logic (scan_based_eevdf_phase2)'',
      ''design: ABK_ABI_PATCH_SUITE/docs/feature_porting_eevdf_pid.md'',
      ''absorption: docs/survey_suite_absorption.md'',
      ''Batch 28 provenance: docs/survey_eevdf_gap.md (af4cf40470c2, 147f3efaa241, 63304558ba5d, ee4373dc902c, 85e511df3cec, 79104becf42b, c40dd90ac045)''],
     group_files = [p15e_FAIR_C],
     apply_fn = p15e_sched_eevdf_pick_logic_apply, hard = False\<rparr>\<close>

lemma sched_eevdf_pick_logic_group_declared [simp]: "well_declared sched_eevdf_pick_logic_group"
  by (rule well_declaredI [OF p15e_sched_eevdf_pick_logic_apply_txn]) (simp_all add: is_backup_code BACKUP_SUFFIX_def sched_eevdf_pick_logic_group_def p15e_FAIR_C_def)

definition sched_eevdf_core_fields_group :: group where
  \<open>sched_eevdf_core_fields_group =
    \<lparr>key = ''sched_eevdf_core_fields'',
     summary = ''claim Android KABI reserve slots 1-4 of struct sched_entity for the EEVDF fields the fair.c half reads (u64 deadline, u64 min_vruntime, s64 vlag, u64 slice); sizeof(struct sched_entity) is unchanged and the slots stay ANDROID_KABI_RESERVE unless the fair.c logic landed'',
     commits = [''ABK_ABI_PATCH_SUITE feature_porting/sched_eevdf_core_fields'',
      ''KABI ownership: AGENTS.md red lines (Batch 15), docs/porting_policy.md "Suite absorption"'',
      ''slot 4 (u64 slice): Batch 28, docs/survey_eevdf_gap.md''],
     group_files = [p15e_SCHED_H],
     apply_fn = p15e_eevdf_core_fields_apply, hard = False\<rparr>\<close>

lemma sched_eevdf_core_fields_group_declared [simp]: "well_declared sched_eevdf_core_fields_group"
  by (rule well_declaredI [OF p15e_eevdf_core_fields_apply_txn]) (simp_all add: is_backup_code BACKUP_SUFFIX_def sched_eevdf_core_fields_group_def p15e_SCHED_H_def)

definition sched_eevdf_modern_fields_group :: group where
  \<open>sched_eevdf_modern_fields_group =
    \<lparr>key = ''sched_eevdf_modern_fields'',
     summary = ''the struct cfs_rq virtual-time accumulators (s64 avg_vruntime, u64 avg_load, u64 abk_pick_deadline) that make avg_vruntime() O(1) and carry the run-to-parity stash, plus the RUN_TO_PARITY and PREEMPT_SHORT sched_feat switches; both files are gated on the fair.c half having landed'',
     commits = [''upstream af4cf40470c2 (v6.6) cfs_rq::avg_vruntime'',
      ''upstream 63304558ba5d (v6.6) RUN_TO_PARITY'',
      ''upstream 85e511df3cec (v6.12) PREEMPT_SHORT'',
      ''audit: docs/survey_eevdf_gap.md''],
     group_files = [p15e_SCHED_H_INTERNAL,
      p15e_CORE_C,
      p15e_FEATURES_H],
     apply_fn = p15e_eevdf_modern_fields_apply, hard = False\<rparr>\<close>

lemma sched_eevdf_modern_fields_group_declared [simp]: "well_declared sched_eevdf_modern_fields_group"
  by (rule well_declaredI [OF p15e_eevdf_modern_fields_apply_txn]) (simp_all add: is_backup_code BACKUP_SUFFIX_def sched_eevdf_modern_fields_group_def p15e_CORE_C_def p15e_FEATURES_H_def p15e_SCHED_H_INTERNAL_def)

definition p15e_build_groups :: "group list" where
  \<open>p15e_build_groups = [sched_eevdf_pick_logic_group, sched_eevdf_core_fields_group, sched_eevdf_modern_fields_group]\<close>

end
