(* ===== verification/Batch15_Blk_Async_Depth.thy ===== *)
theory Batch15_Blk_Async_Depth
  imports Perf_Tools
begin

text \<open>
  The anchors, steps and groups of \<^verbatim>\<open>scripts/batch15_perf_blk_mq_async_depth.py\<close>, in source order.
\<close>

definition p15b_BLKDEV_H :: str where
  \<open>p15b_BLKDEV_H = ''include/linux/blkdev.h''\<close>

definition p15b_BLK_CORE_C :: str where
  \<open>p15b_BLK_CORE_C = ''block/blk-core.c''\<close>

definition p15b_BLK_MQ_C :: str where
  \<open>p15b_BLK_MQ_C = ''block/blk-mq.c''\<close>

definition p15b_BLK_MQ_SCHED_C :: str where
  \<open>p15b_BLK_MQ_SCHED_C = ''block/blk-mq-sched.c''\<close>

definition p15b_BLK_SYSFS_C :: str where
  \<open>p15b_BLK_SYSFS_C = ''block/blk-sysfs.c''\<close>

definition p15b_ELEVATOR_C :: str where
  \<open>p15b_ELEVATOR_C = ''block/elevator.c''\<close>

definition p15b_MQ_DEADLINE_C :: str where
  \<open>p15b_MQ_DEADLINE_C = ''block/mq-deadline.c''\<close>

definition p15b_BFQ_C :: str where
  \<open>p15b_BFQ_C = ''block/bfq-iosched.c''\<close>

definition p15b_KYBER_C :: str where
  \<open>p15b_KYBER_C = ''block/kyber-iosched.c''\<close>

definition p15b_A_KABI :: str where
  \<open>p15b_A_KABI = block
     [''	ANDROID_KABI_RESERVE(1);'',
      ''	ANDROID_KABI_RESERVE(2);'',
      ''	ANDROID_KABI_RESERVE(3);'',
      ''	ANDROID_KABI_RESERVE(4);'',
      [],
      ''	ANDROID_OEM_DATA(1);'',
      ''};'',
      []]\<close>

definition p15b_A_KABI_NEW :: str where
  \<open>p15b_A_KABI_NEW = block
     [''	/* ABK stable_515_backport: blk_mq_async_depth -- queue-level async'',
      ''	 * tag depth.  Slot 1 is the slot ABK_ABI_PATCH_SUITE also claims; the'',
      ''	 * suite must not be co-injected with this module. */'',
      ''	ANDROID_KABI_USE(1, unsigned int		async_depth);'',
      ''	ANDROID_KABI_RESERVE(2);'',
      ''	ANDROID_KABI_RESERVE(3);'',
      ''	ANDROID_KABI_RESERVE(4);'',
      [],
      ''	ANDROID_OEM_DATA(1);'',
      ''};'',
      []]\<close>

definition p15b_B_DEFAULT :: str where
  \<open>p15b_B_DEFAULT = block
     [''	q->nr_requests = BLKDEV_MAX_RQ;'',
      [],
      ''	return q;'',
      []]\<close>

definition p15b_B_DEFAULT_NEW :: str where
  \<open>p15b_B_DEFAULT_NEW = block
     [''	q->nr_requests = BLKDEV_MAX_RQ;'',
      ''	/* ABK stable_515_backport: blk_mq_async_depth -- an MQ queue starts at'',
      ''	 * its request depth; blk_mq_init_sched() narrows it per elevator. */'',
      ''	q->async_depth = BLKDEV_MAX_RQ;'',
      [],
      ''	return q;'',
      []]\<close>

definition p15b_C_HELPER :: str where
  \<open>p15b_C_HELPER = block
     [''/*'',
      '' * ABK stable_515_backport: blk_mq_async_depth -- the single limit_depth'',
      '' * entry point.  Flush, passthrough and reserved requests bypass the limit'',
      '' * (they go straight to the dispatch list, so limiting them is useless);'',
      '' * everything else is handed to the elevator, whose op derives a per-hctx'',
      '' * shallow depth from q->async_depth.'',
      '' */'',
      ''static void blk_mq_limit_depth(unsigned int opf, struct blk_mq_alloc_data *data)'',
      ''{'',
      ''	struct elevator_queue *e = data->q->elevator;'',
      [],
      ''	if (!e || !e->type->ops.limit_depth)'',
      ''		return;'',
      ''	if (op_is_flush(opf) || blk_op_is_passthrough(opf) ||'',
      ''	    (data->flags & BLK_MQ_REQ_RESERVED))'',
      ''		return;'',
      [],
      ''	e->type->ops.limit_depth(opf, data);'',
      ''}'',
      [],
      []]\<close>

definition p15b_C_ALLOC_HEAD :: str where
  \<open>p15b_C_ALLOC_HEAD = block
     [''static struct request *__blk_mq_alloc_request(struct blk_mq_alloc_data *data)'',
      ''{'',
      ''	struct request_queue *q = data->q;'',
      []]\<close>

definition p15b_C_ALLOC_HEAD_NEW :: str where
  \<open>p15b_C_ALLOC_HEAD_NEW = p15b_C_HELPER @
   block
     [''static struct request *__blk_mq_alloc_request(struct blk_mq_alloc_data *data)'',
      ''{'',
      ''	void (*limit_depth)(unsigned int, struct blk_mq_alloc_data *) = NULL;'',
      ''	struct request_queue *q = data->q;'',
      []]\<close>

definition p15b_C_LIMIT :: str where
  \<open>p15b_C_LIMIT = block
     [''	if (e) {'',
      ''		/*'',
      ''		 * Flush/passthrough requests are special and go directly to the'',
      ''		 * dispatch list. Don\'t include reserved tags in the'',
      ''		 * limiting, as it isn\'t useful.'',
      ''		 */'',
      ''		if (!op_is_flush(data->cmd_flags) &&'',
      ''		    !blk_op_is_passthrough(data->cmd_flags) &&'',
      ''		    e->type->ops.limit_depth &&'',
      ''		    !(data->flags & BLK_MQ_REQ_RESERVED))'',
      ''			e->type->ops.limit_depth(data->cmd_flags, data);'',
      ''	}'',
      [],
      ''retry:'',
      ''	data->ctx = blk_mq_get_ctx(q);'',
      ''	data->hctx = blk_mq_map_queue(q, data->cmd_flags, data->ctx);'',
      ''	if (!e)'',
      ''		blk_mq_tag_busy(data->hctx);'',
      []]\<close>

definition p15b_C_LIMIT_NEW :: str where
  \<open>p15b_C_LIMIT_NEW = block
     [''	/*'',
      ''	 * ABK stable_515_backport: blk_mq_async_depth -- record the elevator\'s'',
      ''	 * limit_depth() op and run it below, once data->hctx is mapped: the'',
      ''	 * shallow depth it sets is a per-hardware-queue word depth, so it can'',
      ''	 * only be derived from the hctx.  Flush/passthrough/reserved are'',
      ''	 * filtered inside blk_mq_limit_depth().'',
      ''	 */'',
      ''	if (e)'',
      ''		limit_depth = blk_mq_limit_depth;'',
      [],
      ''retry:'',
      ''	data->ctx = blk_mq_get_ctx(q);'',
      ''	data->hctx = blk_mq_map_queue(q, data->cmd_flags, data->ctx);'',
      ''	if (!e)'',
      ''		blk_mq_tag_busy(data->hctx);'',
      []]\<close>

definition p15b_C_GET_TAG :: str where
  \<open>p15b_C_GET_TAG = block
     [''	tag = blk_mq_get_tag(data);'',
      []]\<close>

definition p15b_C_GET_TAG_NEW :: str where
  \<open>p15b_C_GET_TAG_NEW = block
     [''	/*'',
      ''	 * ABK stable_515_backport: blk_mq_async_depth -- data->hctx is known'',
      ''	 * here, so the elevator\'s limit_depth() can set data->shallow_depth,'',
      ''	 * which blk_mq_get_tag() consumes.'',
      ''	 */'',
      ''	if (limit_depth)'',
      ''		limit_depth(data->cmd_flags, data);'',
      [],
      ''	tag = blk_mq_get_tag(data);'',
      []]\<close>

definition p15b_C_QUEUE_INIT :: str where
  \<open>p15b_C_QUEUE_INIT = block
     [''	q->nr_requests = set->queue_depth;'',
      [],
      ''	/*'',
      ''	 * Default to classic polling'',
      ''	 */'',
      []]\<close>

definition p15b_C_QUEUE_INIT_NEW :: str where
  \<open>p15b_C_QUEUE_INIT_NEW = block
     [''	q->nr_requests = set->queue_depth;'',
      ''	/* ABK stable_515_backport: blk_mq_async_depth -- default the async'',
      ''	 * depth to the tag set\'s depth (blk_mq_init_sched narrows it). */'',
      ''	q->async_depth = set->queue_depth;'',
      [],
      ''	/*'',
      ''	 * Default to classic polling'',
      ''	 */'',
      []]\<close>

definition p15b_C_RESIZE :: str where
  \<open>p15b_C_RESIZE = block
     [''	if (!ret) {'',
      ''		q->nr_requests = nr;'',
      ''		if (q->elevator && blk_mq_is_sbitmap_shared(set->flags))'',
      []]\<close>

definition p15b_C_RESIZE_NEW :: str where
  \<open>p15b_C_RESIZE_NEW = block
     [''	if (!ret) {'',
      ''		unsigned long new_async_depth;'',
      [],
      ''		/*'',
      ''		 * ABK stable_515_backport: blk_mq_async_depth -- keep the async'',
      ''		 * depth relative to the request depth across a resize, so'',
      ''		 * `echo N > queue/nr_requests` narrows (or widens) the async budget'',
      ''		 * with it instead of silently turning a relative knob absolute.'',
      ''		 */'',
      ''		new_async_depth = (unsigned long)q->async_depth * nr / q->nr_requests;'',
      ''		if (!new_async_depth)'',
      ''			new_async_depth = 1;'',
      ''		q->async_depth = min_t(unsigned long, new_async_depth, UINT_MAX);'',
      ''		q->nr_requests = nr;'',
      ''		if (q->elevator && blk_mq_is_sbitmap_shared(set->flags))'',
      []]\<close>

definition p15b_D_SCHED_NONE :: str where
  \<open>p15b_D_SCHED_NONE = block
     [''	if (!e) {'',
      ''		q->elevator = NULL;'',
      ''		q->nr_requests = q->tag_set->queue_depth;'',
      ''		return 0;'',
      ''	}'',
      []]\<close>

definition p15b_D_SCHED_NONE_NEW :: str where
  \<open>p15b_D_SCHED_NONE_NEW = block
     [''	if (!e) {'',
      ''		q->elevator = NULL;'',
      ''		q->nr_requests = q->tag_set->queue_depth;'',
      ''		/* ABK stable_515_backport: blk_mq_async_depth -- switching to no'',
      ''		 * scheduler drops the async budget back to the tag set depth. */'',
      ''		q->async_depth = q->tag_set->queue_depth;'',
      ''		return 0;'',
      ''	}'',
      []]\<close>

definition p15b_D_SCHED_DEFAULT :: str where
  \<open>p15b_D_SCHED_DEFAULT = block
     [''	q->nr_requests = 2 * min_t(unsigned int, q->tag_set->queue_depth,'',
      ''				   BLKDEV_MAX_RQ);'',
      []]\<close>

definition p15b_D_SCHED_DEFAULT_NEW :: str where
  \<open>p15b_D_SCHED_DEFAULT_NEW = block
     [''	q->nr_requests = 2 * min_t(unsigned int, q->tag_set->queue_depth,'',
      ''				   BLKDEV_MAX_RQ);'',
      ''	/* ABK stable_515_backport: blk_mq_async_depth -- a fresh elevator'',
      ''	 * starts unrestricted; its ->init_sched() may reserve a share. */'',
      ''	q->async_depth = q->nr_requests;'',
      []]\<close>

definition p15b_E_SYSFS_ANCHOR :: str where
  \<open>p15b_E_SYSFS_ANCHOR = block
     [''static ssize_t'',
      ''queue_ra_store(struct request_queue *q, const char *page, size_t count)'',
      ''{'',
      []]\<close>

definition p15b_E_SYSFS_FUNCS_NEW :: str where
  \<open>p15b_E_SYSFS_FUNCS_NEW = block
     [''/* ABK stable_515_backport: blk_mq_async_depth -- queue/async_depth. */'',
      ''static ssize_t queue_async_depth_show(struct request_queue *q, char *page)'',
      ''{'',
      ''	return queue_var_show(q->async_depth, page);'',
      ''}'',
      [],
      ''static ssize_t'',
      ''queue_async_depth_store(struct request_queue *q, const char *page, size_t count)'',
      ''{'',
      ''	unsigned long nr;'',
      ''	int ret;'',
      [],
      ''	if (!queue_is_mq(q))'',
      ''		return -EINVAL;'',
      [],
      ''	ret = queue_var_store(&nr, page, count);'',
      ''	if (ret < 0)'',
      ''		return ret;'',
      ''	if (nr == 0)'',
      ''		return -EINVAL;'',
      ''	if (!q->elevator)'',
      ''		return -EINVAL;'',
      [],
      ''	/*'',
      ''	 * ABK stable_515_backport: blk_mq_async_depth -- clamp to the queue\'s'',
      ''	 * own request depth, then let every scheduler recompute the shallow'',
      ''	 * depth it derives from it.'',
      ''	 */'',
      ''	q->async_depth = min_t(unsigned long, q->nr_requests, nr);'',
      ''	if (q->elevator->type->ops.depth_updated) {'',
      ''		struct blk_mq_hw_ctx *hctx;'',
      ''		unsigned int i;'',
      [],
      ''		queue_for_each_hw_ctx(q, hctx, i) {'',
      ''			if (hctx->sched_tags)'',
      ''				q->elevator->type->ops.depth_updated(hctx);'',
      ''		}'',
      ''	}'',
      ''	return ret;'',
      ''}'',
      [],
      ''static ssize_t'',
      ''queue_ra_store(struct request_queue *q, const char *page, size_t count)'',
      ''{'',
      []]\<close>

definition p15b_E_SYSFS_ENTRY :: str where
  \<open>p15b_E_SYSFS_ENTRY = block
     [''QUEUE_RW_ENTRY(queue_requests, "nr_requests");'',
      ''QUEUE_RW_ENTRY(queue_ra, "read_ahead_kb");'',
      []]\<close>

definition p15b_E_SYSFS_ENTRY_NEW :: str where
  \<open>p15b_E_SYSFS_ENTRY_NEW = block
     [''QUEUE_RW_ENTRY(queue_requests, "nr_requests");'',
      ''/* ABK stable_515_backport: blk_mq_async_depth -- queue/async_depth. */'',
      ''QUEUE_RW_ENTRY(queue_async_depth, "async_depth");'',
      ''QUEUE_RW_ENTRY(queue_ra, "read_ahead_kb");'',
      []]\<close>

definition p15b_E_SYSFS_ATTR :: str where
  \<open>p15b_E_SYSFS_ATTR = block
     [''	&queue_requests_entry.attr,'',
      ''	&queue_ra_entry.attr,'',
      []]\<close>

definition p15b_E_SYSFS_ATTR_NEW :: str where
  \<open>p15b_E_SYSFS_ATTR_NEW = block
     [''	&queue_requests_entry.attr,'',
      ''	/* ABK stable_515_backport: blk_mq_async_depth -- queue/async_depth. */'',
      ''	&queue_async_depth_entry.attr,'',
      ''	&queue_ra_entry.attr,'',
      []]\<close>

definition p15b_F_ELEVATOR :: str where
  \<open>p15b_F_ELEVATOR = block
     [''	ret = blk_mq_init_sched(q, new_e);'',
      ''	if (ret)'',
      ''		goto out;'',
      []]\<close>

definition p15b_F_ELEVATOR_NEW :: str where
  \<open>p15b_F_ELEVATOR_NEW = block
     [''	ret = blk_mq_init_sched(q, new_e);'',
      ''	if (ret)'',
      ''		goto out;'',
      ''	/* ABK stable_515_backport: blk_mq_async_depth -- switching to no'',
      ''	 * scheduler drops the async budget back to the tag set depth. */'',
      ''	if (!new_e)'',
      ''		q->async_depth = q->tag_set->queue_depth;'',
      []]\<close>

definition p15b_G_DD_HELPER :: str where
  \<open>p15b_G_DD_HELPER = block
     [''/*'',
      '' * Called by __blk_mq_alloc_request(). The shallow_depth value set by this'',
      '' * function is used by __blk_mq_get_tag().'',
      '' */'',
      ''static void dd_limit_depth(unsigned int op, struct blk_mq_alloc_data *data)'',
      []]\<close>

definition p15b_G_DD_HELPER_NEW :: str where
  \<open>p15b_G_DD_HELPER_NEW = block
     [''/*'',
      '' * ABK stable_515_backport: blk_mq_async_depth.  \'depth\' is a number in the'',
      '' * range 1..INT_MAX representing a number of requests. Scale it with a'',
      '' * factor (1 << bt->sb.shift) / q->nr_requests since 1..(1 << bt->sb.shift)'',
      '' * is the range expected by sbitmap_get_shallow().  Values larger than'',
      '' * q->nr_requests have the same effect as q->nr_requests.'',
      '' */'',
      ''static int dd_to_word_depth(struct blk_mq_hw_ctx *hctx, unsigned int qdepth)'',
      ''{'',
      ''	struct sbitmap_queue *bt = hctx->sched_tags->bitmap_tags;'',
      ''	const unsigned int nrr = hctx->queue->nr_requests;'',
      [],
      ''	return ((qdepth << bt->sb.shift) + nrr - 1) / nrr;'',
      ''}'',
      [],
      ''/*'',
      '' * Called by __blk_mq_alloc_request(). The shallow_depth value set by this'',
      '' * function is used by __blk_mq_get_tag().'',
      '' */'',
      ''static void dd_limit_depth(unsigned int op, struct blk_mq_alloc_data *data)'',
      []]\<close>

definition p15b_G_DD_SHALLOW :: str where
  \<open>p15b_G_DD_SHALLOW = block
     [''	data->shallow_depth = dd->async_depth;'',
      []]\<close>

definition p15b_G_DD_SHALLOW_NEW :: str where
  \<open>p15b_G_DD_SHALLOW_NEW = block
     [''	data->shallow_depth = dd_to_word_depth(data->hctx, dd->async_depth);'',
      []]\<close>

definition p15b_G_DD_DEPTH :: str where
  \<open>p15b_G_DD_DEPTH = block
     [''	struct request_queue *q = hctx->queue;'',
      ''	struct deadline_data *dd = q->elevator->elevator_data;'',
      ''	struct blk_mq_tags *tags = hctx->sched_tags;'',
      ''	unsigned int shift = tags->bitmap_tags->sb.shift;'',
      [],
      ''	dd->async_depth = max(1U, 3 * (1U << shift)  / 4);'',
      [],
      ''	sbitmap_queue_min_shallow_depth(tags->bitmap_tags, dd->async_depth);'',
      []]\<close>

definition p15b_G_DD_DEPTH_NEW :: str where
  \<open>p15b_G_DD_DEPTH_NEW = block
     [''	struct request_queue *q = hctx->queue;'',
      ''	struct deadline_data *dd = q->elevator->elevator_data;'',
      ''	struct blk_mq_tags *tags = hctx->sched_tags;'',
      [],
      ''	/*'',
      ''	 * ABK stable_515_backport: blk_mq_async_depth -- dd->async_depth is now'',
      ''	 * the queue-level async depth (a request count); dd_limit_depth()'',
      ''	 * converts it per hctx.  The minimum shallow depth therefore drops to'',
      ''	 * one word bit, which is the smallest depth the conversion can produce.'',
      ''	 */'',
      ''	dd->async_depth = q->async_depth;'',
      [],
      ''	sbitmap_queue_min_shallow_depth(tags->bitmap_tags, 1);'',
      []]\<close>

definition p15b_G_DD_INIT :: str where
  \<open>p15b_G_DD_INIT = block
     [''	q->elevator = eq;'',
      ''	return 0;'',
      []]\<close>

definition p15b_G_DD_INIT_NEW :: str where
  \<open>p15b_G_DD_INIT_NEW = block
     [''	q->elevator = eq;'',
      ''	/* ABK stable_515_backport: blk_mq_async_depth -- a freshly installed'',
      ''	 * mq-deadline is unrestricted; dd_depth_updated() reads this back. */'',
      ''	q->async_depth = q->nr_requests;'',
      ''	return 0;'',
      []]\<close>

definition p15b_H_BFQ_DECL :: str where
  \<open>p15b_H_BFQ_DECL = block
     [''	unsigned int i, j, min_shallow = UINT_MAX;'',
      []]\<close>

definition p15b_H_BFQ_DECL_NEW :: str where
  \<open>p15b_H_BFQ_DECL_NEW = block
     [''	unsigned int i, j, min_shallow = UINT_MAX;'',
      ''	/* ABK stable_515_backport: blk_mq_async_depth -- per-word async budget,'',
      ''	 * derived from the queue-level async depth below. */'',
      ''	unsigned int depth;'',
      []]\<close>

definition p15b_H_BFQ_WORD00 :: str where
  \<open>p15b_H_BFQ_WORD00 = block
     [''	bfqd->word_depths[0][0] = max((1U << bt->sb.shift) >> 1, 1U);'',
      []]\<close>

definition p15b_H_BFQ_WORD00_NEW :: str where
  \<open>p15b_H_BFQ_WORD00_NEW = block
     [''	/*'',
      ''	 * ABK stable_515_backport: blk_mq_async_depth.  q->async_depth is a'',
      ''	 * request count clamped to q->nr_requests, while word_depths[] are'',
      ''	 * per-word bit caps: sbitmap_get_shallow() caps each word at'',
      ''	 * min(word->depth, shallow_depth).  Scale into the 1..(1 << shift)'',
      ''	 * window the allocator expects -- the same conversion mq-deadline\'s'',
      ''	 * dd_to_word_depth() performs -- then apply bfq\'s documented ratios.'',
      ''	 */'',
      ''	depth = ((bfqd->queue->async_depth << bt->sb.shift) +'',
      ''		 bfqd->queue->nr_requests - 1) / bfqd->queue->nr_requests;'',
      ''	bfqd->word_depths[0][0] = max(depth >> 1, 1U);'',
      []]\<close>

definition p15b_H_BFQ_WORD01 :: str where
  \<open>p15b_H_BFQ_WORD01 = block
     [''	bfqd->word_depths[0][1] = max(((1U << bt->sb.shift) * 3) >> 2, 1U);'',
      []]\<close>

definition p15b_H_BFQ_WORD01_NEW :: str where
  \<open>p15b_H_BFQ_WORD01_NEW = block
     [''	bfqd->word_depths[0][1] = max((depth * 3) >> 2, 1U);'',
      []]\<close>

definition p15b_H_BFQ_WORD10 :: str where
  \<open>p15b_H_BFQ_WORD10 = block
     [''	bfqd->word_depths[1][0] = max(((1U << bt->sb.shift) * 3) >> 4, 1U);'',
      []]\<close>

definition p15b_H_BFQ_WORD10_NEW :: str where
  \<open>p15b_H_BFQ_WORD10_NEW = block
     [''	bfqd->word_depths[1][0] = max((depth * 3) >> 4, 1U);'',
      []]\<close>

definition p15b_H_BFQ_WORD11 :: str where
  \<open>p15b_H_BFQ_WORD11 = block
     [''	bfqd->word_depths[1][1] = max(((1U << bt->sb.shift) * 6) >> 4, 1U);'',
      []]\<close>

definition p15b_H_BFQ_WORD11_NEW :: str where
  \<open>p15b_H_BFQ_WORD11_NEW = block
     [''	bfqd->word_depths[1][1] = max((depth * 6) >> 4, 1U);'',
      []]\<close>

definition p15b_H_BFQ_INIT :: str where
  \<open>p15b_H_BFQ_INIT = block
     [''	bfqd->queue = q;'',
      []]\<close>

definition p15b_H_BFQ_INIT_NEW :: str where
  \<open>p15b_H_BFQ_INIT_NEW = block
     [''	bfqd->queue = q;'',
      ''	/* ABK stable_515_backport: blk_mq_async_depth -- bfq\'s async budget is'',
      ''	 * 75% of the queue depth (the remaining 25% stays for synchronous'',
      ''	 * requests); bfq_update_depths() turns it into its four word depths. */'',
      ''	q->async_depth = (q->nr_requests * 3) >> 2;'',
      []]\<close>

definition p15b_I_KYBER_DEPTH :: str where
  \<open>p15b_I_KYBER_DEPTH = block
     [''	struct kyber_queue_data *kqd = hctx->queue->elevator->elevator_data;'',
      ''	struct blk_mq_tags *tags = hctx->sched_tags;'',
      ''	unsigned int shift = tags->bitmap_tags->sb.shift;'',
      [],
      ''	kqd->async_depth = (1U << shift) * KYBER_ASYNC_PERCENT / 100U;'',
      [],
      ''	sbitmap_queue_min_shallow_depth(tags->bitmap_tags, kqd->async_depth);'',
      []]\<close>

definition p15b_I_KYBER_DEPTH_NEW :: str where
  \<open>p15b_I_KYBER_DEPTH_NEW = block
     [''	struct request_queue *q = hctx->queue;'',
      ''	struct kyber_queue_data *kqd = q->elevator->elevator_data;'',
      ''	struct blk_mq_tags *tags = hctx->sched_tags;'',
      ''	unsigned int shift = tags->bitmap_tags->sb.shift;'',
      [],
      ''	/*'',
      ''	 * ABK stable_515_backport: blk_mq_async_depth.  q->async_depth is a'',
      ''	 * request count while data->shallow_depth (fed from kqd->async_depth'',
      ''	 * by kyber_limit_depth()) is a per-word bit cap, so scale it into the'',
      ''	 * 1..(1 << shift) window sbitmap_get_shallow() expects -- the same'',
      ''	 * conversion mq-deadline\'s dd_to_word_depth() performs.  With the'',
      ''	 * default (KYBER_ASYNC_PERCENT % of q->nr_requests) this is identical'',
      ''	 * to the 5.15 formula it replaces.'',
      ''	 */'',
      ''	kqd->async_depth = ((q->async_depth << shift) + q->nr_requests - 1) /'',
      ''			   q->nr_requests;'',
      [],
      ''	sbitmap_queue_min_shallow_depth(tags->bitmap_tags, kqd->async_depth);'',
      []]\<close>

definition p15b_I_KYBER_INIT :: str where
  \<open>p15b_I_KYBER_INIT = block
     [''	eq->elevator_data = kqd;'',
      ''	q->elevator = eq;'',
      [],
      ''	return 0;'',
      ''}'',
      []]\<close>

definition p15b_I_KYBER_INIT_NEW :: str where
  \<open>p15b_I_KYBER_INIT_NEW = block
     [''	eq->elevator_data = kqd;'',
      ''	q->elevator = eq;'',
      ''	/* ABK stable_515_backport: blk_mq_async_depth -- kyber reserves a'',
      ''	 * KYBER_ASYNC_PERCENT share of the queue depth for async requests. */'',
      ''	q->async_depth = q->nr_requests * KYBER_ASYNC_PERCENT / 100;'',
      [],
      ''	return 0;'',
      ''}'',
      []]\<close>

definition p15b_build_blk_mq_async_depth_steps_step1 :: step where
  \<open>p15b_build_blk_mq_async_depth_steps_step1 =
   (p15b_BLKDEV_H,
    p15b_A_KABI,
    p15b_A_KABI_NEW, True)\<close>

definition p15b_build_blk_mq_async_depth_steps_step2 :: step where
  \<open>p15b_build_blk_mq_async_depth_steps_step2 =
   (p15b_BLK_CORE_C,
    p15b_B_DEFAULT,
    p15b_B_DEFAULT_NEW, True)\<close>

definition p15b_build_blk_mq_async_depth_steps_step3 :: step where
  \<open>p15b_build_blk_mq_async_depth_steps_step3 =
   (p15b_BLK_MQ_C,
    p15b_C_ALLOC_HEAD,
    p15b_C_ALLOC_HEAD_NEW, True)\<close>

definition p15b_build_blk_mq_async_depth_steps_step4 :: step where
  \<open>p15b_build_blk_mq_async_depth_steps_step4 =
   (p15b_BLK_MQ_C,
    p15b_C_LIMIT,
    p15b_C_LIMIT_NEW, True)\<close>

definition p15b_build_blk_mq_async_depth_steps_step5 :: step where
  \<open>p15b_build_blk_mq_async_depth_steps_step5 =
   (p15b_BLK_MQ_C,
    p15b_C_GET_TAG,
    p15b_C_GET_TAG_NEW, True)\<close>

definition p15b_build_blk_mq_async_depth_steps_step6 :: step where
  \<open>p15b_build_blk_mq_async_depth_steps_step6 =
   (p15b_BLK_MQ_C,
    p15b_C_QUEUE_INIT,
    p15b_C_QUEUE_INIT_NEW, True)\<close>

definition p15b_build_blk_mq_async_depth_steps_step7 :: step where
  \<open>p15b_build_blk_mq_async_depth_steps_step7 =
   (p15b_BLK_MQ_C,
    p15b_C_RESIZE,
    p15b_C_RESIZE_NEW, True)\<close>

definition p15b_build_blk_mq_async_depth_steps_step8 :: step where
  \<open>p15b_build_blk_mq_async_depth_steps_step8 =
   (p15b_BLK_MQ_SCHED_C,
    p15b_D_SCHED_NONE,
    p15b_D_SCHED_NONE_NEW, True)\<close>

definition p15b_build_blk_mq_async_depth_steps_step9 :: step where
  \<open>p15b_build_blk_mq_async_depth_steps_step9 =
   (p15b_BLK_MQ_SCHED_C,
    p15b_D_SCHED_DEFAULT,
    p15b_D_SCHED_DEFAULT_NEW, True)\<close>

definition p15b_build_blk_mq_async_depth_steps_step10 :: step where
  \<open>p15b_build_blk_mq_async_depth_steps_step10 =
   (p15b_BLK_SYSFS_C,
    p15b_E_SYSFS_ANCHOR,
    p15b_E_SYSFS_FUNCS_NEW, True)\<close>

definition p15b_build_blk_mq_async_depth_steps_step11 :: step where
  \<open>p15b_build_blk_mq_async_depth_steps_step11 =
   (p15b_BLK_SYSFS_C,
    p15b_E_SYSFS_ENTRY,
    p15b_E_SYSFS_ENTRY_NEW, True)\<close>

definition p15b_build_blk_mq_async_depth_steps_step12 :: step where
  \<open>p15b_build_blk_mq_async_depth_steps_step12 =
   (p15b_BLK_SYSFS_C,
    p15b_E_SYSFS_ATTR,
    p15b_E_SYSFS_ATTR_NEW, True)\<close>

definition p15b_build_blk_mq_async_depth_steps_step13 :: step where
  \<open>p15b_build_blk_mq_async_depth_steps_step13 =
   (p15b_ELEVATOR_C,
    p15b_F_ELEVATOR,
    p15b_F_ELEVATOR_NEW, True)\<close>

definition p15b_build_blk_mq_async_depth_steps_step14 :: step where
  \<open>p15b_build_blk_mq_async_depth_steps_step14 =
   (p15b_MQ_DEADLINE_C,
    p15b_G_DD_HELPER,
    p15b_G_DD_HELPER_NEW, True)\<close>

definition p15b_build_blk_mq_async_depth_steps_step15 :: step where
  \<open>p15b_build_blk_mq_async_depth_steps_step15 =
   (p15b_MQ_DEADLINE_C,
    p15b_G_DD_SHALLOW,
    p15b_G_DD_SHALLOW_NEW, True)\<close>

definition p15b_build_blk_mq_async_depth_steps_step16 :: step where
  \<open>p15b_build_blk_mq_async_depth_steps_step16 =
   (p15b_MQ_DEADLINE_C,
    p15b_G_DD_DEPTH,
    p15b_G_DD_DEPTH_NEW, True)\<close>

definition p15b_build_blk_mq_async_depth_steps_step17 :: step where
  \<open>p15b_build_blk_mq_async_depth_steps_step17 =
   (p15b_MQ_DEADLINE_C,
    p15b_G_DD_INIT,
    p15b_G_DD_INIT_NEW, True)\<close>

definition p15b_build_blk_mq_async_depth_steps_step18 :: step where
  \<open>p15b_build_blk_mq_async_depth_steps_step18 =
   (p15b_BFQ_C,
    p15b_H_BFQ_DECL,
    p15b_H_BFQ_DECL_NEW, True)\<close>

definition p15b_build_blk_mq_async_depth_steps_step19 :: step where
  \<open>p15b_build_blk_mq_async_depth_steps_step19 =
   (p15b_BFQ_C,
    p15b_H_BFQ_WORD00,
    p15b_H_BFQ_WORD00_NEW, True)\<close>

definition p15b_build_blk_mq_async_depth_steps_step20 :: step where
  \<open>p15b_build_blk_mq_async_depth_steps_step20 =
   (p15b_BFQ_C,
    p15b_H_BFQ_WORD01,
    p15b_H_BFQ_WORD01_NEW, True)\<close>

definition p15b_build_blk_mq_async_depth_steps_step21 :: step where
  \<open>p15b_build_blk_mq_async_depth_steps_step21 =
   (p15b_BFQ_C,
    p15b_H_BFQ_WORD10,
    p15b_H_BFQ_WORD10_NEW, True)\<close>

definition p15b_build_blk_mq_async_depth_steps_step22 :: step where
  \<open>p15b_build_blk_mq_async_depth_steps_step22 =
   (p15b_BFQ_C,
    p15b_H_BFQ_WORD11,
    p15b_H_BFQ_WORD11_NEW, True)\<close>

definition p15b_build_blk_mq_async_depth_steps_step23 :: step where
  \<open>p15b_build_blk_mq_async_depth_steps_step23 =
   (p15b_BFQ_C,
    p15b_H_BFQ_INIT,
    p15b_H_BFQ_INIT_NEW, True)\<close>

definition p15b_build_blk_mq_async_depth_steps_step24 :: step where
  \<open>p15b_build_blk_mq_async_depth_steps_step24 =
   (p15b_KYBER_C,
    p15b_I_KYBER_DEPTH,
    p15b_I_KYBER_DEPTH_NEW, True)\<close>

definition p15b_build_blk_mq_async_depth_steps_step25 :: step where
  \<open>p15b_build_blk_mq_async_depth_steps_step25 =
   (p15b_KYBER_C,
    p15b_I_KYBER_INIT,
    p15b_I_KYBER_INIT_NEW, True)\<close>

definition p15b_build_blk_mq_async_depth_steps :: "step list" where
  \<open>p15b_build_blk_mq_async_depth_steps = [p15b_build_blk_mq_async_depth_steps_step1, p15b_build_blk_mq_async_depth_steps_step2, p15b_build_blk_mq_async_depth_steps_step3, p15b_build_blk_mq_async_depth_steps_step4, p15b_build_blk_mq_async_depth_steps_step5, p15b_build_blk_mq_async_depth_steps_step6, p15b_build_blk_mq_async_depth_steps_step7, p15b_build_blk_mq_async_depth_steps_step8, p15b_build_blk_mq_async_depth_steps_step9, p15b_build_blk_mq_async_depth_steps_step10, p15b_build_blk_mq_async_depth_steps_step11, p15b_build_blk_mq_async_depth_steps_step12, p15b_build_blk_mq_async_depth_steps_step13, p15b_build_blk_mq_async_depth_steps_step14, p15b_build_blk_mq_async_depth_steps_step15, p15b_build_blk_mq_async_depth_steps_step16, p15b_build_blk_mq_async_depth_steps_step17, p15b_build_blk_mq_async_depth_steps_step18, p15b_build_blk_mq_async_depth_steps_step19, p15b_build_blk_mq_async_depth_steps_step20, p15b_build_blk_mq_async_depth_steps_step21, p15b_build_blk_mq_async_depth_steps_step22, p15b_build_blk_mq_async_depth_steps_step23, p15b_build_blk_mq_async_depth_steps_step24, p15b_build_blk_mq_async_depth_steps_step25]\<close>

lemma p15b_build_blk_mq_async_depth_steps_files: "steps_files p15b_build_blk_mq_async_depth_steps = {p15b_BLKDEV_H, p15b_BLK_CORE_C, p15b_BLK_MQ_C, p15b_BLK_MQ_SCHED_C, p15b_BLK_SYSFS_C, p15b_ELEVATOR_C, p15b_MQ_DEADLINE_C, p15b_BFQ_C, p15b_KYBER_C}"
  by (simp add: p15b_build_blk_mq_async_depth_steps_def steps_files_fst insert_commute
      step_file [OF p15b_build_blk_mq_async_depth_steps_step1_def]
      step_file [OF p15b_build_blk_mq_async_depth_steps_step2_def]
      step_file [OF p15b_build_blk_mq_async_depth_steps_step3_def]
      step_file [OF p15b_build_blk_mq_async_depth_steps_step4_def]
      step_file [OF p15b_build_blk_mq_async_depth_steps_step5_def]
      step_file [OF p15b_build_blk_mq_async_depth_steps_step6_def]
      step_file [OF p15b_build_blk_mq_async_depth_steps_step7_def]
      step_file [OF p15b_build_blk_mq_async_depth_steps_step8_def]
      step_file [OF p15b_build_blk_mq_async_depth_steps_step9_def]
      step_file [OF p15b_build_blk_mq_async_depth_steps_step10_def]
      step_file [OF p15b_build_blk_mq_async_depth_steps_step11_def]
      step_file [OF p15b_build_blk_mq_async_depth_steps_step12_def]
      step_file [OF p15b_build_blk_mq_async_depth_steps_step13_def]
      step_file [OF p15b_build_blk_mq_async_depth_steps_step14_def]
      step_file [OF p15b_build_blk_mq_async_depth_steps_step15_def]
      step_file [OF p15b_build_blk_mq_async_depth_steps_step16_def]
      step_file [OF p15b_build_blk_mq_async_depth_steps_step17_def]
      step_file [OF p15b_build_blk_mq_async_depth_steps_step18_def]
      step_file [OF p15b_build_blk_mq_async_depth_steps_step19_def]
      step_file [OF p15b_build_blk_mq_async_depth_steps_step20_def]
      step_file [OF p15b_build_blk_mq_async_depth_steps_step21_def]
      step_file [OF p15b_build_blk_mq_async_depth_steps_step22_def]
      step_file [OF p15b_build_blk_mq_async_depth_steps_step23_def]
      step_file [OF p15b_build_blk_mq_async_depth_steps_step24_def]
      step_file [OF p15b_build_blk_mq_async_depth_steps_step25_def])

lemma p15b_build_blk_mq_async_depth_steps_required: "all_required p15b_build_blk_mq_async_depth_steps"
  by (simp add: p15b_build_blk_mq_async_depth_steps_def all_required_def
      step_req [OF p15b_build_blk_mq_async_depth_steps_step1_def]
      step_req [OF p15b_build_blk_mq_async_depth_steps_step2_def]
      step_req [OF p15b_build_blk_mq_async_depth_steps_step3_def]
      step_req [OF p15b_build_blk_mq_async_depth_steps_step4_def]
      step_req [OF p15b_build_blk_mq_async_depth_steps_step5_def]
      step_req [OF p15b_build_blk_mq_async_depth_steps_step6_def]
      step_req [OF p15b_build_blk_mq_async_depth_steps_step7_def]
      step_req [OF p15b_build_blk_mq_async_depth_steps_step8_def]
      step_req [OF p15b_build_blk_mq_async_depth_steps_step9_def]
      step_req [OF p15b_build_blk_mq_async_depth_steps_step10_def]
      step_req [OF p15b_build_blk_mq_async_depth_steps_step11_def]
      step_req [OF p15b_build_blk_mq_async_depth_steps_step12_def]
      step_req [OF p15b_build_blk_mq_async_depth_steps_step13_def]
      step_req [OF p15b_build_blk_mq_async_depth_steps_step14_def]
      step_req [OF p15b_build_blk_mq_async_depth_steps_step15_def]
      step_req [OF p15b_build_blk_mq_async_depth_steps_step16_def]
      step_req [OF p15b_build_blk_mq_async_depth_steps_step17_def]
      step_req [OF p15b_build_blk_mq_async_depth_steps_step18_def]
      step_req [OF p15b_build_blk_mq_async_depth_steps_step19_def]
      step_req [OF p15b_build_blk_mq_async_depth_steps_step20_def]
      step_req [OF p15b_build_blk_mq_async_depth_steps_step21_def]
      step_req [OF p15b_build_blk_mq_async_depth_steps_step22_def]
      step_req [OF p15b_build_blk_mq_async_depth_steps_step23_def]
      step_req [OF p15b_build_blk_mq_async_depth_steps_step24_def]
      step_req [OF p15b_build_blk_mq_async_depth_steps_step25_def])

definition p15b_probes :: "(path \<times> str \<times> str) list" where
  \<open>p15b_probes =
     [(p15b_BLKDEV_H, ''struct request_queue {'', ''struct request_queue''),
      (p15b_BLKDEV_H, ''	ANDROID_KABI_RESERVE(4);'', ''request_queue KABI reserve run''),
      (p15b_BLK_CORE_C, ''q->nr_requests = BLKDEV_MAX_RQ;'', ''blk_alloc_queue() default''),
      (p15b_BLK_MQ_C, ''static struct request *__blk_mq_alloc_request(struct blk_mq_alloc_data *data)'', ''__blk_mq_alloc_request()''),
      (p15b_BLK_MQ_C, ''int blk_mq_update_nr_requests(struct request_queue *q, unsigned int nr)'', ''blk_mq_update_nr_requests()''),
      (p15b_BLK_MQ_SCHED_C, ''int blk_mq_init_sched(struct request_queue *q, struct elevator_type *e)'', ''blk_mq_init_sched()''),
      (p15b_BLK_SYSFS_C, ''QUEUE_RW_ENTRY(queue_requests, "nr_requests");'', ''queue/nr_requests attribute''),
      (p15b_BLK_SYSFS_C, ''queue_ra_store(struct request_queue *q, const char *page, size_t count)'', ''queue_ra_store()''),
      (p15b_ELEVATOR_C, ''int elevator_switch_mq(struct request_queue *q,'', ''elevator_switch_mq()''),
      (p15b_MQ_DEADLINE_C, ''static void dd_limit_depth(unsigned int op, struct blk_mq_alloc_data *data)'', ''dd_limit_depth()''),
      (p15b_MQ_DEADLINE_C, ''static void dd_depth_updated(struct blk_mq_hw_ctx *hctx)'', ''dd_depth_updated()''),
      (p15b_BFQ_C, ''static unsigned int bfq_update_depths(struct bfq_data *bfqd,'', ''bfq_update_depths()''),
      (p15b_KYBER_C, ''static void kyber_depth_updated(struct blk_mq_hw_ctx *hctx)'', ''kyber_depth_updated()''),
      (p15b_KYBER_C, ''eq->elevator_data = kqd;'', ''kyber_init_sched() tail'')]\<close>

definition p15b_blk_mq_async_depth_apply :: "outcome io" where
  \<open>p15b_blk_mq_async_depth_apply = probe_loop p15b_probes (apply_or_block p15b_build_blk_mq_async_depth_steps)\<close>

lemma p15b_blk_mq_async_depth_apply_txn: "transactional (\<lambda>_. {p15b_BLKDEV_H, p15b_BLK_CORE_C, p15b_BLK_MQ_C, p15b_BLK_MQ_SCHED_C, p15b_BLK_SYSFS_C, p15b_ELEVATOR_C, p15b_MQ_DEADLINE_C, p15b_BFQ_C, p15b_KYBER_C}) p15b_blk_mq_async_depth_apply"
  unfolding p15b_blk_mq_async_depth_apply_def
  by (intro txn_intros)
    (simp_all add: p15b_probes_def is_backup_code BACKUP_SUFFIX_def p15b_build_blk_mq_async_depth_steps_files p15b_BFQ_C_def p15b_BLKDEV_H_def p15b_BLK_CORE_C_def p15b_BLK_MQ_C_def p15b_BLK_MQ_SCHED_C_def p15b_BLK_SYSFS_C_def p15b_ELEVATOR_C_def p15b_KYBER_C_def p15b_MQ_DEADLINE_C_def)

definition blk_mq_async_depth_group :: group where
  \<open>blk_mq_async_depth_group =
    \<lparr>key = ''blk_mq_async_depth'',
     summary = ''queue-level blk-mq async tag depth: blk_mq_limit_depth() runs the elevator\'s limit_depth() after the hctx mapping, request_queue.async_depth lives in KABI slot 1, queue/async_depth reads/writes it (clamped to nr_requests), blk_mq_update_nr_requests() keeps it proportional, and mq-deadline/bfq/kyber consume it (absorbed from ABK_ABI_PATCH_SUITE blk_mq_async_depth; see the module docstring for the two 5.15 unit conversions)'',
     commits = [''ABK_ABI_PATCH_SUITE scripts/abk_feature_porting.py patch_blk_mq_async_depth() / collect_blk_async_depth_status(), group blk_mq_async_depth (feature source 7.0.12); absorbed per docs/survey_suite_absorption.md'',
      ''read-only lineage check: the mq-deadline half (dd_to_word_depth() + sbitmap_queue_min_shallow_depth(..., 1)) is byte-identical to the Android 6.1 tree (common-6.1-src, SUBLEVEL 176) modulo the 5.15 pointer form of bitmap_tags; the queue-level q->async_depth member is the suite\'s extension (absent from common-6.1-src 6.1.176 and common-6.6-src 6.6.142)''],
     group_files = [p15b_BLKDEV_H,
      p15b_BLK_CORE_C,
      p15b_BLK_MQ_C,
      p15b_BLK_MQ_SCHED_C,
      p15b_BLK_SYSFS_C,
      p15b_ELEVATOR_C,
      p15b_MQ_DEADLINE_C,
      p15b_BFQ_C,
      p15b_KYBER_C],
     apply_fn = p15b_blk_mq_async_depth_apply, hard = False\<rparr>\<close>

lemma blk_mq_async_depth_group_declared [simp]: "well_declared blk_mq_async_depth_group"
  by (rule well_declaredI [OF p15b_blk_mq_async_depth_apply_txn]) (simp_all add: is_backup_code BACKUP_SUFFIX_def blk_mq_async_depth_group_def p15b_BFQ_C_def p15b_BLKDEV_H_def p15b_BLK_CORE_C_def p15b_BLK_MQ_C_def p15b_BLK_MQ_SCHED_C_def p15b_BLK_SYSFS_C_def p15b_ELEVATOR_C_def p15b_KYBER_C_def p15b_MQ_DEADLINE_C_def)

definition p15b_build_groups :: "group list" where
  \<open>p15b_build_groups = [blk_mq_async_depth_group]\<close>

end
