(* ===== verification/Perf_Registry.thy ===== *)
theory Perf_Registry
  imports Perf_Sched Perf_Blk_Locking Perf_Psi Perf_Psi_Cgroup Perf_Schedutil Batch15_Sched_Refinements Batch15_Eevdf Batch15_Blk_Async_Depth
begin

text \<open>
  The registry of \<^verbatim>\<open>scripts/abk_stable_perf.py\<close>: its 24 groups and the whole list in
  registration order.
\<close>

definition sched_nohz_idle_balance_series_group :: group where
  \<open>sched_nohz_idle_balance_series_group =
    \<lparr>key = ''sched_nohz_idle_balance_series'',
     summary = ''NOHZ idle balance: scoped kicks, no ksoftirqd wakeup, raw softirq raise (5.15.174)'',
     commits = [''d071dba5ddd2 (5.15.174)'',
      ''6aeeac48fc1b (5.15.174)'',
      ''38a4826f1bdf (5.15.174)'',
      ''25fc82f3a868 (5.15.174)''],
     group_files = [''kernel/sched/sched.h'',
      ''kernel/sched/fair.c'',
      ''kernel/sched/core.c''],
     apply_fn = nohz_apply, hard = False\<rparr>\<close>

lemma sched_nohz_idle_balance_series_group_declared [simp]: "well_declared sched_nohz_idle_balance_series_group"
  by (rule well_declaredI [OF nohz_apply_txn]) (simp_all add: is_backup_code BACKUP_SUFFIX_def sched_nohz_idle_balance_series_group_def)

definition sched_psi_flags_migration_group :: group where
  \<open>sched_psi_flags_migration_group =
    \<lparr>key = ''sched_psi_flags_migration'',
     summary = ''PSI CPU migration switches task states via psi_flags delta (5.15.179)'',
     commits = [''b3a5ff8c4b6e (5.15.179)''],
     group_files = [''include/linux/sched.h'',
      ''kernel/sched/core.c'',
      ''kernel/sched/stats.h''],
     apply_fn = psi_flags_apply, hard = False\<rparr>\<close>

lemma sched_psi_flags_migration_group_declared [simp]: "well_declared sched_psi_flags_migration_group"
  by (rule well_declaredI [OF psi_flags_apply_txn]) (simp_all add: is_backup_code BACKUP_SUFFIX_def sched_psi_flags_migration_group_def)

definition sched_rt_optimizations_group :: group where
  \<open>sched_rt_optimizations_group =
    \<lparr>key = ''sched_rt_optimizations'',
     summary = ''rto_next_cpu skips the current CPU; RT_PUSH_IPI defaults off on non-RT (5.15.202/.212)'',
     commits = [''3b3c672a66db (5.15.202)'',
      ''d8312a56d9a1 (5.15.212)''],
     group_files = [''kernel/sched/rt.c'',
      ''kernel/sched/features.h''],
     apply_fn = rt_optimizations_apply, hard = False\<rparr>\<close>

lemma sched_rt_optimizations_group_declared [simp]: "well_declared sched_rt_optimizations_group"
  by (rule well_declaredI [OF rt_optimizations_apply_txn]) (simp_all add: is_backup_code BACKUP_SUFFIX_def sched_rt_optimizations_group_def)

definition sched_dst_group_allowed_stats_group :: group where
  \<open>sched_dst_group_allowed_stats_group =
    \<lparr>key = ''sched_dst_group_allowed_stats'',
     summary = ''update_sg_wakeup_stats counts only CPUs allowed for p, fixing wake imbalance for affinity-restricted forks (5.15.212)'',
     commits = [''d99f14f8b142 (5.15.212)''],
     group_files = [''kernel/sched/fair.c''],
     apply_fn = dst_group_allowed_stats_apply, hard = False\<rparr>\<close>

lemma sched_dst_group_allowed_stats_group_declared [simp]: "well_declared sched_dst_group_allowed_stats_group"
  by (rule well_declaredI [OF dst_group_allowed_stats_apply_txn]) (simp_all add: is_backup_code BACKUP_SUFFIX_def sched_dst_group_allowed_stats_group_def)

definition sched_steal_time_excess_drop_group :: group where
  \<open>sched_steal_time_excess_drop_group =
    \<lparr>key = ''sched_steal_time_excess_drop'',
     summary = ''excess steal time is dropped instead of catching up later (5.15.179)'',
     commits = [''56135262c1f9 (5.15.179)''],
     group_files = [''kernel/sched/core.c''],
     apply_fn = sched_steal_time_drop_apply, hard = False\<rparr>\<close>

lemma sched_steal_time_excess_drop_group_declared [simp]: "well_declared sched_steal_time_excess_drop_group"
  by (rule well_declaredI [OF sched_steal_time_drop_apply_txn]) (simp_all add: is_backup_code BACKUP_SUFFIX_def sched_steal_time_excess_drop_group_def)

definition randomize_kstack_pertask_group :: group where
  \<open>randomize_kstack_pertask_group =
    \<lparr>key = ''randomize_kstack_pertask'',
     summary = ''kstack randomization offset becomes per-task, extending entropy lifetime (5.15.210)'',
     commits = [''7e1b6b281aa8 (5.15.210)''],
     group_files = [''include/linux/sched.h'',
      ''include/linux/randomize_kstack.h'',
      ''init/main.c'',
      ''kernel/fork.c''],
     apply_fn = kstack_pertask_apply, hard = False\<rparr>\<close>

definition release_sock_cond_resched_group :: group where
  \<open>release_sock_cond_resched_group =
    \<lparr>key = ''release_sock_cond_resched'',
     summary = ''__release_sock() yields only every 16 processed skbs (5.15.197)'',
     commits = [''66bcd6c577d8 (5.15.197)''],
     group_files = [''net/core/sock.c''],
     apply_fn = release_sock_apply, hard = False\<rparr>\<close>

lemma release_sock_cond_resched_group_declared [simp]: "well_declared release_sock_cond_resched_group"
  by (rule well_declaredI [OF release_sock_apply_txn]) (simp_all add: is_backup_code BACKUP_SUFFIX_def release_sock_cond_resched_group_def)

definition semaphore_wake_q_group :: group where
  \<open>semaphore_wake_q_group =
    \<lparr>key = ''semaphore_wake_q'',
     summary = ''semaphore up() wakes waiters outside the lock via wake_q (5.15.180)'',
     commits = [''46c66d975a58 (5.15.180)''],
     group_files = [''kernel/locking/semaphore.c''],
     apply_fn = semaphore_wake_q_apply, hard = False\<rparr>\<close>

lemma semaphore_wake_q_group_declared [simp]: "well_declared semaphore_wake_q_group"
  by (rule well_declaredI [OF semaphore_wake_q_apply_txn]) (simp_all add: is_backup_code BACKUP_SUFFIX_def semaphore_wake_q_group_def)

definition blk_mq_suspend_wakeup_abort_group :: group where
  \<open>blk_mq_suspend_wakeup_abort_group =
    \<lparr>key = ''blk_mq_suspend_wakeup_abort'',
     summary = ''blk-mq hctx offline wait aborts when pm_wakeup_pending() (5.15.198)'',
     commits = [''8fe7de5d1c7f (5.15.198)''],
     group_files = [''block/blk-mq.c''],
     apply_fn = blk_mq_suspend_apply, hard = False\<rparr>\<close>

lemma blk_mq_suspend_wakeup_abort_group_declared [simp]: "well_declared blk_mq_suspend_wakeup_abort_group"
  by (rule well_declaredI [OF blk_mq_suspend_apply_txn]) (simp_all add: is_backup_code BACKUP_SUFFIX_def blk_mq_suspend_wakeup_abort_group_def)

definition blk_mq_quiesced_elevator_switch_group :: group where
  \<open>blk_mq_quiesced_elevator_switch_group =
    \<lparr>key = ''blk_mq_quiesced_elevator_switch'',
     summary = ''blk-mq reinitialisation switches elevators through the quiesced entry point (5.15.209)'',
     commits = [''9646443f28f3 (5.15.209)''],
     group_files = [''block/blk-mq.c'',
      ''block/blk.h'',
      ''block/elevator.c''],
     apply_fn = blk_mq_quiesced_elevator_apply, hard = False\<rparr>\<close>

lemma blk_mq_quiesced_elevator_switch_group_declared [simp]: "well_declared blk_mq_quiesced_elevator_switch_group"
  by (rule well_declaredI [OF blk_mq_quiesced_elevator_apply_txn]) (simp_all add: is_backup_code BACKUP_SUFFIX_def blk_mq_quiesced_elevator_switch_group_def)

definition sched_lazy_preemption_hooks_group :: group where
  \<open>sched_lazy_preemption_hooks_group =
    \<lparr>key = ''sched_lazy_preemption_hooks'',
     summary = ''lazy preemption scheduling hooks: bounded resched deferral in tick/wakeup/schedule (android14-6.1)'',
     commits = [''ACK android14-6.1 lazy preemption via hooks (969cb3d family)''],
     group_files = [''include/trace/hooks/dtask.h'',
      ''kernel/sched/core.c'',
      ''kernel/sched/fair.c''],
     apply_fn = lazy_preempt_hooks_apply, hard = False\<rparr>\<close>

lemma sched_lazy_preemption_hooks_group_declared [simp]: "well_declared sched_lazy_preemption_hooks_group"
  by (rule well_declaredI [OF lazy_preempt_hooks_apply_txn]) (simp_all add: is_backup_code BACKUP_SUFFIX_def sched_lazy_preemption_hooks_group_def)

definition locking_wakeup_patch_hooks_group :: group where
  \<open>locking_wakeup_patch_hooks_group =
    \<lparr>key = ''locking_wakeup_patch_hooks'',
     summary = ''mutex/rwsem post-wakeup fixup vendor hooks (android14-6.1)'',
     commits = [''ACK android14-6.1 locking wakeup patch hooks (dfdcb1d)''],
     group_files = [''include/trace/hooks/dtask.h'',
      ''include/trace/hooks/rwsem.h'',
      ''kernel/locking/mutex.c'',
      ''kernel/locking/rwsem.c''],
     apply_fn = locking_wakeup_patch_apply, hard = False\<rparr>\<close>

lemma locking_wakeup_patch_hooks_group_declared [simp]: "well_declared locking_wakeup_patch_hooks_group"
  by (rule well_declaredI [OF locking_wakeup_patch_apply_txn]) (simp_all add: is_backup_code BACKUP_SUFFIX_def locking_wakeup_patch_hooks_group_def)

definition psi_irq_tracking_group :: group where
  \<open>psi_irq_tracking_group =
    \<lparr>key = ''psi_irq_tracking'',
     summary = ''PSI_IRQ pressure tracking with /proc/pressure/irq, adapted to the 5.15 group walk (android14-6.1 / 6.1)'',
     commits = [''52b1364 (6.1) + ACK android14-6.1 adaptations''],
     group_files = [''include/linux/psi_types.h'',
      ''kernel/sched/psi.c'',
      ''kernel/sched/stats.h'',
      ''kernel/sched/core.c''],
     apply_fn = psi_irq_tracking_apply, hard = False\<rparr>\<close>

lemma psi_irq_tracking_group_declared [simp]: "well_declared psi_irq_tracking_group"
  by (rule well_declaredI [OF psi_irq_tracking_apply_txn]) (simp_all add: is_backup_code BACKUP_SUFFIX_def psi_irq_tracking_group_def)

definition psi_trigger_kernfs_polling_group :: group where
  \<open>psi_trigger_kernfs_polling_group =
    \<lparr>key = ''psi_trigger_kernfs_polling'',
     summary = ''PSI trigger events delivered via kernfs polling with deferred-event ratelimiting and 1us windows (android14-6.1)'',
     commits = [''ACK android14-6.1 kernfs PSI polling backport (c1496f6 family)''],
     group_files = [''include/linux/psi_types.h'',
      ''include/linux/psi.h'',
      ''kernel/sched/psi.c'',
      ''kernel/cgroup/cgroup.c''],
     apply_fn = psi_kernfs_polling_apply, hard = False\<rparr>\<close>

lemma psi_trigger_kernfs_polling_group_declared [simp]: "well_declared psi_trigger_kernfs_polling_group"
  by (rule well_declaredI [OF psi_kernfs_polling_apply_txn]) (simp_all add: is_backup_code BACKUP_SUFFIX_def psi_trigger_kernfs_polling_group_def)

definition psi_cgroup_pressure_switch_group :: group where
  \<open>psi_cgroup_pressure_switch_group =
    \<lparr>key = ''psi_cgroup_pressure_switch'',
     summary = ''cgroup.pressure: per-cgroup PSI accounting switch, kept off the struct layouts the ACK 6.1 psi_group pointer would move (android14-6.1)'',
     commits = [''ACK android14-6.1 cgroup.pressure switch (psi_group.enabled family)''],
     group_files = [''include/linux/cgroup-defs.h'',
      ''include/linux/psi.h'',
      ''kernel/sched/psi.c'',
      ''kernel/cgroup/cgroup.c'',
      ''Documentation/admin-guide/cgroup-v2.rst''],
     apply_fn = psi_cgroup_pressure_apply, hard = False\<rparr>\<close>

lemma psi_cgroup_pressure_switch_group_declared [simp]: "well_declared psi_cgroup_pressure_switch_group"
  by (rule well_declaredI [OF psi_cgroup_pressure_apply_txn]) (simp_all add: is_backup_code BACKUP_SUFFIX_def psi_cgroup_pressure_switch_group_def)

definition psi_oncpu_state_mask_group :: group where
  \<open>psi_oncpu_state_mask_group =
    \<lparr>key = ''psi_oncpu_state_mask'',
     summary = ''PSI: TSK_ONCPU becomes a flag in the state mask instead of a task count, so the switch walks ancestors until the flag is already set (android14-6.1)'',
     commits = [''ACK android14-6.1 PSI ONCPU state-mask rework (psi_group_cpu::tasks[] 5 -> 4)''],
     group_files = [''include/linux/psi_types.h'',
      ''kernel/sched/psi.c''],
     apply_fn = psi_oncpu_state_mask_apply, hard = False\<rparr>\<close>

lemma psi_oncpu_state_mask_group_declared [simp]: "well_declared psi_oncpu_state_mask_group"
  by (rule well_declaredI [OF psi_oncpu_state_mask_apply_txn]) (simp_all add: is_backup_code BACKUP_SUFFIX_def psi_oncpu_state_mask_group_def)

definition perf_groups_1980 :: "group list" where
  \<open>perf_groups_1980 = [sched_nohz_idle_balance_series_group, sched_psi_flags_migration_group, sched_rt_optimizations_group, sched_dst_group_allowed_stats_group, sched_steal_time_excess_drop_group, randomize_kstack_pertask_group, release_sock_cond_resched_group, semaphore_wake_q_group, blk_mq_suspend_wakeup_abort_group, blk_mq_quiesced_elevator_switch_group, sched_lazy_preemption_hooks_group, locking_wakeup_patch_hooks_group, psi_irq_tracking_group, psi_trigger_kernfs_polling_group, psi_cgroup_pressure_switch_group, psi_oncpu_state_mask_group]\<close>

definition schedutil_smart_policy_group :: group where
  \<open>schedutil_smart_policy_group =
    \<lparr>key = ''schedutil_smart_policy'',
     summary = ''schedutil smart-freq policy (PELT): per-cluster sustained-high-util reason election with a sliding window + frequency floor at cpufreq resolve time, via the android_vh hooks; the hooks are governor-independent, so the policy is disabled by default and defers to any policy whose governor is not schedutil or whose range is already pinned (inspired by WALT smart_freq; Batch 10-2, 10-4c, ownership fix in 10-5)'',
     commits = [''popsicle-w-oss walt smart_freq/pipeline semantics (control-layer subset)'',
      ''research/popsicle_w_oss/walt_pelt_survey.md''],
     group_files = [''kernel/sched/cpufreq_schedutil.c''],
     apply_fn = sched_smart_policy_apply, hard = False\<rparr>\<close>

lemma schedutil_smart_policy_group_declared [simp]: "well_declared schedutil_smart_policy_group"
  by (rule well_declaredI [OF sched_smart_policy_apply_txn]) (simp_all add: is_backup_code BACKUP_SUFFIX_def schedutil_smart_policy_group_def)

definition perf_groups_2121 :: "group list" where
  \<open>perf_groups_2121 = [schedutil_smart_policy_group]\<close>

definition schedutil_smart_cap_group :: group where
  \<open>schedutil_smart_cap_group =
    \<lparr>key = ''schedutil_smart_cap'',
     summary = ''schedutil smart_freq cap (Batch 10-2\'s un-landed half): clamp the resolved frequency to abk_sc_cap_pct of cpuinfo.max_freq inside android_vh_cpufreq_resolve_freq (fast and slow path), released on the direction of the frequency request after abk_sc_hold_ms and re-asserted only when every CPU of the policy has been below abk_sc_release_pct for abk_sc_release_ms; per-policy state under a raw spinlock (fast_switch runs under rq->lock), off by default and gated to schedutil DVFS ownership exactly like schedutil_smart_policy (inspired by WALT smart_freq)'',
     commits = [''popsicle-w-oss walt smart_freq freq_cap[] election'',
      ''research/popsicle_w_oss/walt_extract/smart_freq.c'',
      ''research/popsicle_w_oss/walt_extract/cpufreq_walt.c'',
      ''research/popsicle_w_oss/walt_pelt_survey.md''],
     group_files = [''kernel/sched/cpufreq_schedutil.c''],
     apply_fn = sched_smart_cap_apply, hard = False\<rparr>\<close>

lemma schedutil_smart_cap_group_declared [simp]: "well_declared schedutil_smart_cap_group"
  by (rule well_declaredI [OF sched_smart_cap_apply_txn]) (simp_all add: is_backup_code BACKUP_SUFFIX_def schedutil_smart_cap_group_def)

definition perf_groups_2156 :: "group list" where
  \<open>perf_groups_2156 = [schedutil_smart_cap_group]\<close>

definition PERF_FILES :: "path list" where
  \<comment> \<open>every file some group declares\<close>
  "PERF_FILES =
     [''Documentation/admin-guide/cgroup-v2.rst'',
      ''block/bfq-iosched.c'',
      ''block/blk-core.c'',
      ''block/blk-mq-sched.c'',
      ''block/blk-mq.c'',
      ''block/blk-sysfs.c'',
      ''block/blk.h'',
      ''block/elevator.c'',
      ''block/kyber-iosched.c'',
      ''block/mq-deadline.c'',
      ''include/linux/blkdev.h'',
      ''include/linux/cgroup-defs.h'',
      ''include/linux/psi.h'',
      ''include/linux/psi_types.h'',
      ''include/linux/randomize_kstack.h'',
      ''include/linux/sched.h'',
      ''include/linux/sched/nohz.h'',
      ''include/trace/hooks/dtask.h'',
      ''include/trace/hooks/rwsem.h'',
      ''init/main.c'',
      ''kernel/cgroup/cgroup.c'',
      ''kernel/fork.c'',
      ''kernel/locking/mutex.c'',
      ''kernel/locking/rwsem.c'',
      ''kernel/locking/semaphore.c'',
      ''kernel/sched/core.c'',
      ''kernel/sched/cpufreq_schedutil.c'',
      ''kernel/sched/fair.c'',
      ''kernel/sched/features.h'',
      ''kernel/sched/idle.c'',
      ''kernel/sched/psi.c'',
      ''kernel/sched/rt.c'',
      ''kernel/sched/sched.h'',
      ''kernel/sched/stats.h'',
      ''kernel/time/tick-sched.c'',
      ''net/core/sock.c'']"

lemma perf_groups_1980_declared: "\<forall>G \<in> set perf_groups_1980. G \<noteq> randomize_kstack_pertask_group \<longrightarrow> well_declared G"
  by (simp add: perf_groups_1980_def)

lemma perf_groups_1980_keys: "map key perf_groups_1980 = [''sched_nohz_idle_balance_series'', ''sched_psi_flags_migration'', ''sched_rt_optimizations'', ''sched_dst_group_allowed_stats'', ''sched_steal_time_excess_drop'', ''randomize_kstack_pertask'', ''release_sock_cond_resched'', ''semaphore_wake_q'', ''blk_mq_suspend_wakeup_abort'', ''blk_mq_quiesced_elevator_switch'', ''sched_lazy_preemption_hooks'', ''locking_wakeup_patch_hooks'', ''psi_irq_tracking'', ''psi_trigger_kernfs_polling'', ''psi_cgroup_pressure_switch'', ''psi_oncpu_state_mask'']"
  by (simp add: perf_groups_1980_def key_of [OF sched_nohz_idle_balance_series_group_def] key_of [OF sched_psi_flags_migration_group_def] key_of [OF sched_rt_optimizations_group_def] key_of [OF sched_dst_group_allowed_stats_group_def] key_of [OF sched_steal_time_excess_drop_group_def] key_of [OF randomize_kstack_pertask_group_def] key_of [OF release_sock_cond_resched_group_def] key_of [OF semaphore_wake_q_group_def] key_of [OF blk_mq_suspend_wakeup_abort_group_def] key_of [OF blk_mq_quiesced_elevator_switch_group_def] key_of [OF sched_lazy_preemption_hooks_group_def] key_of [OF locking_wakeup_patch_hooks_group_def] key_of [OF psi_irq_tracking_group_def] key_of [OF psi_trigger_kernfs_polling_group_def] key_of [OF psi_cgroup_pressure_switch_group_def] key_of [OF psi_oncpu_state_mask_group_def])

lemma perf_groups_1980_files: "registry_files perf_groups_1980 \<subseteq> set PERF_FILES"
  by (simp add: registry_files_def perf_groups_1980_def PERF_FILES_def
      files_of [OF sched_nohz_idle_balance_series_group_def] files_of [OF sched_psi_flags_migration_group_def] files_of [OF sched_rt_optimizations_group_def] files_of [OF sched_dst_group_allowed_stats_group_def] files_of [OF sched_steal_time_excess_drop_group_def] files_of [OF randomize_kstack_pertask_group_def] files_of [OF release_sock_cond_resched_group_def] files_of [OF semaphore_wake_q_group_def] files_of [OF blk_mq_suspend_wakeup_abort_group_def] files_of [OF blk_mq_quiesced_elevator_switch_group_def] files_of [OF sched_lazy_preemption_hooks_group_def] files_of [OF locking_wakeup_patch_hooks_group_def] files_of [OF psi_irq_tracking_group_def] files_of [OF psi_trigger_kernfs_polling_group_def] files_of [OF psi_cgroup_pressure_switch_group_def] files_of [OF psi_oncpu_state_mask_group_def])

lemma perf_groups_1980_soft: "\<forall>G \<in> set perf_groups_1980. \<not> hard G"
  by (simp add: perf_groups_1980_def
      hard_of [OF sched_nohz_idle_balance_series_group_def] hard_of [OF sched_psi_flags_migration_group_def] hard_of [OF sched_rt_optimizations_group_def] hard_of [OF sched_dst_group_allowed_stats_group_def] hard_of [OF sched_steal_time_excess_drop_group_def] hard_of [OF randomize_kstack_pertask_group_def] hard_of [OF release_sock_cond_resched_group_def] hard_of [OF semaphore_wake_q_group_def] hard_of [OF blk_mq_suspend_wakeup_abort_group_def] hard_of [OF blk_mq_quiesced_elevator_switch_group_def] hard_of [OF sched_lazy_preemption_hooks_group_def] hard_of [OF locking_wakeup_patch_hooks_group_def] hard_of [OF psi_irq_tracking_group_def] hard_of [OF psi_trigger_kernfs_polling_group_def] hard_of [OF psi_cgroup_pressure_switch_group_def] hard_of [OF psi_oncpu_state_mask_group_def])

lemma perf_groups_2121_declared: "\<forall>G \<in> set perf_groups_2121. well_declared G"
  by (simp add: perf_groups_2121_def)

lemma perf_groups_2121_keys: "map key perf_groups_2121 = [''schedutil_smart_policy'']"
  by (simp add: perf_groups_2121_def key_of [OF schedutil_smart_policy_group_def])

lemma perf_groups_2121_files: "registry_files perf_groups_2121 \<subseteq> set PERF_FILES"
  by (simp add: registry_files_def perf_groups_2121_def PERF_FILES_def
      files_of [OF schedutil_smart_policy_group_def])

lemma perf_groups_2121_soft: "\<forall>G \<in> set perf_groups_2121. \<not> hard G"
  by (simp add: perf_groups_2121_def
      hard_of [OF schedutil_smart_policy_group_def])

lemma perf_groups_2156_declared: "\<forall>G \<in> set perf_groups_2156. well_declared G"
  by (simp add: perf_groups_2156_def)

lemma perf_groups_2156_keys: "map key perf_groups_2156 = [''schedutil_smart_cap'']"
  by (simp add: perf_groups_2156_def key_of [OF schedutil_smart_cap_group_def])

lemma perf_groups_2156_files: "registry_files perf_groups_2156 \<subseteq> set PERF_FILES"
  by (simp add: registry_files_def perf_groups_2156_def PERF_FILES_def
      files_of [OF schedutil_smart_cap_group_def])

lemma perf_groups_2156_soft: "\<forall>G \<in> set perf_groups_2156. \<not> hard G"
  by (simp add: perf_groups_2156_def
      hard_of [OF schedutil_smart_cap_group_def])

lemma p15s_build_groups_declared: "\<forall>G \<in> set p15s_build_groups. well_declared G"
  by (simp add: p15s_build_groups_def)

lemma p15s_build_groups_keys: "map key p15s_build_groups = [''nohz_field_refinement'', ''avg_idle_preemption_mode'']"
  by (simp add: p15s_build_groups_def key_of [OF nohz_field_refinement_group_def] key_of [OF avg_idle_preemption_mode_group_def])

lemma p15s_build_groups_files: "registry_files p15s_build_groups \<subseteq> set PERF_FILES"
  by (simp add: registry_files_def p15s_build_groups_def PERF_FILES_def p15s_CORE_C_def p15s_FAIR_C_def p15s_IDLE_C_def p15s_NOHZ_H_def p15s_SCHED_H_def p15s_TICK_SCHED_C_def
      files_of [OF nohz_field_refinement_group_def] files_of [OF avg_idle_preemption_mode_group_def])

lemma p15s_build_groups_soft: "\<forall>G \<in> set p15s_build_groups. \<not> hard G"
  by (simp add: p15s_build_groups_def
      hard_of [OF nohz_field_refinement_group_def] hard_of [OF avg_idle_preemption_mode_group_def])

lemma p15e_build_groups_declared: "\<forall>G \<in> set p15e_build_groups. well_declared G"
  by (simp add: p15e_build_groups_def)

lemma p15e_build_groups_keys: "map key p15e_build_groups = [''sched_eevdf_pick_logic'', ''sched_eevdf_core_fields'', ''sched_eevdf_modern_fields'']"
  by (simp add: p15e_build_groups_def key_of [OF sched_eevdf_pick_logic_group_def] key_of [OF sched_eevdf_core_fields_group_def] key_of [OF sched_eevdf_modern_fields_group_def])

lemma p15e_build_groups_files: "registry_files p15e_build_groups \<subseteq> set PERF_FILES"
  by (simp add: registry_files_def p15e_build_groups_def PERF_FILES_def p15e_CORE_C_def p15e_FAIR_C_def p15e_FEATURES_H_def p15e_SCHED_H_def p15e_SCHED_H_INTERNAL_def
      files_of [OF sched_eevdf_pick_logic_group_def] files_of [OF sched_eevdf_core_fields_group_def] files_of [OF sched_eevdf_modern_fields_group_def])

lemma p15e_build_groups_soft: "\<forall>G \<in> set p15e_build_groups. \<not> hard G"
  by (simp add: p15e_build_groups_def
      hard_of [OF sched_eevdf_pick_logic_group_def] hard_of [OF sched_eevdf_core_fields_group_def] hard_of [OF sched_eevdf_modern_fields_group_def])

lemma p15b_build_groups_declared: "\<forall>G \<in> set p15b_build_groups. well_declared G"
  by (simp add: p15b_build_groups_def)

lemma p15b_build_groups_keys: "map key p15b_build_groups = [''blk_mq_async_depth'']"
  by (simp add: p15b_build_groups_def key_of [OF blk_mq_async_depth_group_def])

lemma p15b_build_groups_files: "registry_files p15b_build_groups \<subseteq> set PERF_FILES"
  by (simp add: registry_files_def p15b_build_groups_def PERF_FILES_def p15b_BFQ_C_def p15b_BLKDEV_H_def p15b_BLK_CORE_C_def p15b_BLK_MQ_C_def p15b_BLK_MQ_SCHED_C_def p15b_BLK_SYSFS_C_def p15b_ELEVATOR_C_def p15b_KYBER_C_def p15b_MQ_DEADLINE_C_def
      files_of [OF blk_mq_async_depth_group_def])

lemma p15b_build_groups_soft: "\<forall>G \<in> set p15b_build_groups. \<not> hard G"
  by (simp add: p15b_build_groups_def
      hard_of [OF blk_mq_async_depth_group_def])

definition PERF_PATCH_GROUPS :: "group list" where
  \<comment> \<open>\<open>PATCH_GROUPS\<close> after the module is loaded: every \<open>PATCH_GROUPS = PATCH_GROUPS + ...\<close> in order\<close>
  "PERF_PATCH_GROUPS =
      perf_groups_1980 @
      perf_groups_2121 @
      perf_groups_2156 @
      p15s_build_groups @
      p15e_build_groups @
      p15b_build_groups"

subsection \<open>The registry as a whole\<close>

lemma kstack_confined: "confined randomize_kstack_pertask_group"
proof -
  let ?fs = "[''include/linux/sched.h'', ''include/linux/randomize_kstack.h'', ''init/main.c'', ''kernel/fork.c'']"
  have f: "group_files randomize_kstack_pertask_group = ?fs"
    and a: "apply_fn randomize_kstack_pertask_group = kstack_pertask_apply"
    by (simp_all add: randomize_kstack_pertask_group_def)
  have "graft_prog (\<lambda>g. set ?fs \<union> defconfig_scope g) kstack_pertask_apply"
    by (rule graft_mono [OF kstack_pertask_graft]) auto
  with f a show ?thesis
    by (simp add: confined_def no_backup_def is_backup_code BACKUP_SUFFIX_def)
qed

lemmas perf_group_keys = perf_groups_1980_keys perf_groups_2121_keys perf_groups_2156_keys p15s_build_groups_keys p15e_build_groups_keys p15b_build_groups_keys

lemmas perf_groups_declared = perf_groups_1980_declared perf_groups_2121_declared perf_groups_2156_declared p15s_build_groups_declared p15e_build_groups_declared p15b_build_groups_declared

lemmas perf_group_files = perf_groups_1980_files perf_groups_2121_files perf_groups_2156_files p15s_build_groups_files p15e_build_groups_files p15b_build_groups_files

lemmas perf_groups_soft = perf_groups_1980_soft perf_groups_2121_soft perf_groups_2156_soft p15s_build_groups_soft p15e_build_groups_soft p15b_build_groups_soft

lemma perf_files: "registry_files PERF_PATCH_GROUPS \<subseteq> set PERF_FILES"
  unfolding PERF_PATCH_GROUPS_def registry_files_append Un_subset_iff
  by (intro conjI perf_group_files)

lemma perf_soft: "\<forall>G \<in> set PERF_PATCH_GROUPS. \<not> hard G"
  unfolding PERF_PATCH_GROUPS_def set_append ball_Un
  by (intro conjI perf_groups_soft)

lemma perf_declared:
  "\<forall>G \<in> set PERF_PATCH_GROUPS. G \<noteq> randomize_kstack_pertask_group \<longrightarrow> well_declared G"
  unfolding PERF_PATCH_GROUPS_def set_append ball_Un
  using perf_groups_declared by simp

lemma perf_confined:
  assumes "G \<in> set PERF_PATCH_GROUPS"
  shows "confined G"
proof (cases "G = randomize_kstack_pertask_group")
  case True
  then show ?thesis by (simp only: kstack_confined)
next
  case False
  from perf_declared [rule_format, OF assms False] show ?thesis by (rule well_declared_confined)
qed

lemma perf_keys_distinct: "distinct (map key PERF_PATCH_GROUPS)"
  unfolding PERF_PATCH_GROUPS_def map_append perf_group_keys
  by simp

interpretation perf: registry PERF_PATCH_GROUPS
  by unfold_locales (simp_all add: perf_keys_distinct perf_confined)

text \<open>Every group but \<open>randomize_kstack_pertask\<close>, which checks its edit after writing it, is
  transactional.\<close>

definition PERF_TXN_GROUPS :: "group list" where
  "PERF_TXN_GROUPS = filter (\<lambda>G. key G \<noteq> ''randomize_kstack_pertask'') PERF_PATCH_GROUPS"

interpretation perf_txn: txn_registry PERF_TXN_GROUPS
proof unfold_locales
  show "distinct (map key PERF_TXN_GROUPS)"
    unfolding PERF_TXN_GROUPS_def by (rule distinct_map_filter) (rule perf_keys_distinct)
  fix G
  assume "G \<in> set PERF_TXN_GROUPS"
  then have G: "G \<in> set PERF_PATCH_GROUPS" and "key G \<noteq> ''randomize_kstack_pertask''"
    unfolding PERF_TXN_GROUPS_def set_filter by simp_all
  then have "G \<noteq> randomize_kstack_pertask_group"
    using key_of [OF randomize_kstack_pertask_group_def] by metis
  with perf_declared G show "well_declared G" by blast
qed

end
