(* ===== verification/Report_Laws.thy ===== *)
theory Report_Laws
  imports Registry_Laws
begin

text \<open>
  The report \<open>run_child\<close> builds: one result per group in registry order, the counts of
  \<open>status_summary\<close>, and the meaning of a status for the files of the tree.
\<close>

subsection \<open>One result per group\<close>

definition result_for :: "group \<Rightarrow> group_result \<Rightarrow> bool" where
  \<comment> \<open>the result carries the group's own description\<close>
  "result_for G r \<longleftrightarrow> r_key r = key G \<and> r_summary r = summary G \<and> r_commits r = commits G
     \<and> r_files r = group_files G"

lemma result_for_group [simp]: "result_for G (group_result_of G out)"
  by (simp add: result_for_def group_result_of_def)

lemma run_group_result: "run_group G g = (Inr r, h) \<Longrightarrow> result_for G r"
  by (erule run_group_cases) auto

lemma run_checked_result:
  assumes "run_checked G g = (Inr r, h)"
  shows "\<exists>g1 h1. run_group G g1 = (Inr r, h1)"
  using assms
  by (auto simp: run_checked_def io_bind_def io_get_def io_ret_def io_raise_def Let_def
      split: prod.splits sum.splits if_splits)

lemma disabled_result_eq:
  "disabled_result G g = (Inr (group_result_of G (ReportOnly,
     ''family '' @ family g @ '' is not android13-5.15; nothing read or written'')), g)"
  by (simp add: disabled_result_def io_ret_def)

lemma run_groups_results:
  "run_groups enabled Gs rs g = (Inr out, h) \<Longrightarrow> \<exists>new. out = rs @ new \<and> list_all2 result_for Gs new"
proof (induction Gs arbitrary: rs g)
  case Nil
  then show ?case by (simp add: io_ret_def)
next
  case (Cons G Gs)
  let ?m = "if enabled then run_checked G else disabled_result G"
  from Cons.prems obtain r g' where m: "?m g = (Inr r, g')"
    and rest: "run_groups enabled Gs (rs @ [r]) g' = (Inr out, h)"
    by (cases "?m g"; cases "fst (?m g)") (auto simp: io_bind_def)
  have "result_for G r"
  proof (cases enabled)
    case True
    with m run_checked_result [of G g r g'] show ?thesis by (auto dest: run_group_result)
  next
    case False
    with m show ?thesis by (auto simp: disabled_result_eq)
  qed
  moreover obtain new where "out = (rs @ [r]) @ new" "list_all2 result_for Gs new"
    using Cons.IH [OF rest] by blast
  ultimately show ?case by (intro exI [of _ "r # new"]) simp
qed

lemma run_groups_disabled:
  "run_groups False Gs rs g = (Inr (rs @ map (\<lambda>G. group_result_of G (ReportOnly,
     ''family '' @ family g @ '' is not android13-5.15; nothing read or written'')) Gs), g)"
  by (induction Gs arbitrary: rs) (simp_all add: io_ret_def io_bind_def disabled_result_eq)

lemma run_child_report:
  assumes "run_child child now groups enabled g = (Inr rep, h)"
  obtains results sh where "run_groups enabled groups [] g = (Inr results, snd (run_groups enabled groups [] g))"
    and "rep = build_report child now results sh h" and "enabled \<longleftrightarrow> sh \<noteq> None"
proof -
  obtain x g1 where x: "run_groups enabled groups [] g = (x, g1)" by fastforce
  with assms obtain results where r: "x = Inr results"
    by (cases x) (auto simp: run_child_def io_bind_def)
  show thesis
  proof (cases enabled)
    case False
    with assms x r have "rep = build_report child now results None h"
      by (auto simp: run_child_def io_bind_def io_get_def io_ret_def)
    with False x r show thesis by (intro that [of results None]) simp_all
  next
    case True
    with assms x r obtain s where "rep = build_report child now results (Some s) h"
      by (cases "shape_report g1"; cases "fst (shape_report g1)")
        (auto simp: run_child_def io_bind_def io_get_def io_ret_def)
    with True x r show thesis by (intro that [of results "Some s"]) simp_all
  qed
qed

subsection \<open>\<open>status_summary\<close>\<close>

lemma status_summary_keys: "distinct (map fst s) \<Longrightarrow> distinct (map fst (status_summary_of rs s))"
  by (induction rs s rule: status_summary_of.induct) (auto simp: distinct_update)

lemma status_summary_count:
  "map_of (status_summary_of rs s) x =
     (let n = count_list (map r_status rs) x in
      case map_of s x of None \<Rightarrow> if n = 0 then None else Some n | Some k \<Rightarrow> Some (k + n))"
proof (induction rs s rule: status_summary_of.induct)
  case (2 r rs s)
  then show ?case
    by (cases "x = r_status r"; cases "map_of s x") (auto simp: update_conv Let_def)
qed (simp add: Let_def split: option.split)

lemma status_summary_total:
  "distinct (map fst s) \<Longrightarrow>
   sum_list (map snd (status_summary_of rs s)) = sum_list (map snd s) + length rs"
proof (induction rs s rule: status_summary_of.induct)
  case (2 r rs s)
  have "sum_list (map snd (AList.update k (case map_of s k of None \<Rightarrow> 1 | Some n \<Rightarrow> n + 1) s)) =
      Suc (sum_list (map snd s))" if "distinct (map fst s)" for k and s :: "(status \<times> nat) list"
    using that by (induction s) (auto simp: map_of_eq_None_iff split: option.splits)
  with 2 show ?case by (simp add: distinct_update)
qed simp

subsection \<open>What a status says of the tree\<close>

lemma run_checked_sound:
  assumes c: "coherent g" and gr: "graft_prog A (apply_fn G)"
    and r: "run_checked G g = (Inr r, h)"
  shows "r_status r \<in> {Applied, Partial} \<Longrightarrow> changed_by g h \<noteq> []"
    and "\<not> ok_status (r_status r) \<Longrightarrow> changed_by g h = []"
  using r unfolding run_checked_eq [OF c gr]
  by (auto split: prod.splits sum.splits if_splits simp: ok_status_def)

end
