(* ===== verification/Perf_Laws.thy ===== *)
theory Perf_Laws
  imports Perf_Registry Report_Laws
begin

text \<open>
  What single perf groups do: the stack randomisation group, which verifies its edit only after
  it is on disk, and the EEVDF field groups, which write only beside the scheduler code that
  reads the fields.
\<close>

subsection \<open>The check after the write of \<open>randomize_kstack_pertask\<close>\<close>

definition member_in_task_struct :: "str \<Rightarrow> bool" where
  \<comment> \<open>the texts \<open>_verify_kstack_member\<close> accepts\<close>
  "member_in_task_struct t \<longleftrightarrow> contains ''kstack_offset'' t \<and>
     (case cut ''struct task_struct {'' t of None \<Rightarrow> False
      | Some (a, b) \<Rightarrow> (case cut ([NL] @ ''};'') (drop (length a) t) of None \<Rightarrow> False
          | Some (body, c) \<Rightarrow> contains ''kstack_offset'' body))"

lemma verify_kstack_member_run:
  assumes "seen g ''include/linux/sched.h'' = Some t"
  obtains k where "unwritten g k" and
    "verify_kstack_member g = (Inr (), k) \<and> member_in_task_struct t \<or>
     (\<exists>m. verify_kstack_member g = (Inl (Value_Error m), k)) \<and> \<not> member_in_task_struct t"
proof -
  obtain k where r: "ctx_read ''include/linux/sched.h'' g = (Inr t, k)" and u: "unwritten g k"
    using assms quiet.R_read [of g "''include/linux/sched.h''"]
    by (cases "ctx_read ''include/linux/sched.h'' g") (simp add: ctx_read_seen)
  show thesis
    by (rule that [OF u])
      (auto simp: verify_kstack_member_def member_in_task_struct_def io_bind_def r io_ret_def io_raise_def
        split: option.splits)
qed

lemma kstack_apply_run:
  assumes c: "coherent g" and t: "seen g ''include/linux/sched.h'' = Some t"
    and calm: "calm g (steps_files (kstack_pertask_steps t))"
    and w: "run_view (kstack_pertask_steps t) (seen g) [] = Inr (v, res)" and a: "StApplied \<in> snd ` set res"
    and t': "v ''include/linux/sched.h'' = Some t'"
  obtains h where "landed g v h" and
    "if member_in_task_struct t'
     then \<exists>s d. kstack_pertask_apply g = (Inr (s, d), h) \<and> s \<in> {Applied, Partial}
     else \<exists>m. kstack_pertask_apply g = (Inl (Value_Error m), h)"
proof -
  let ?ss = "kstack_pertask_steps t"
  obtain g1 where r: "ctx_read ''include/linux/sched.h'' g = (Inr t, g1)" and u: "unwritten g g1"
    using t quiet.R_read [of g "''include/linux/sched.h''"]
    by (cases "ctx_read ''include/linux/sched.h'' g") (simp add: ctx_read_seen)
  have c1: "coherent g1" using coherent_read [OF c, of "''include/linux/sched.h''"] r by simp
  have s1: "seen g1 = seen g" and d1: "dirty g1 = dirty g" using u by (simp_all add: unwritten_def)
  have nb: "\<forall>q \<in> steps_files ?ss. \<not> is_backup q"
    using kstack_pertask_files [of t] by (auto simp: is_backup_code BACKUP_SUFFIX_def)
  have calm1: "calm g1 (steps_files ?ss)" by (rule calm_unwritten [OF u calm])
  from apply_steps_refines [OF c1 nb] w calm1 obtain h1 where
    ap: "apply_steps ?ss g1 = (Inr (classify res), h1)" and l: "landed g1 v h1"
    by (cases "apply_steps ?ss g1"; cases "fst (apply_steps ?ss g1)") (auto simp: s1)
  obtain st rs d where cl: "classify res = (st, rs, d)" by (cases "classify res")
  then have st: "st \<in> {Some Applied, Some Partial}"
    using classify_status [of res] a by (auto split: if_splits)
  have nbs: "\<not> is_backup ''include/linux/sched.h''" by (simp add: is_backup_code BACKUP_SUFFIX_def)
  then have "seen h1 ''include/linux/sched.h'' = Some t'" using l t' by (simp add: landed_def)
  then obtain k where k: "unwritten h1 k" and vr: "verify_kstack_member h1 = (Inr (), k) \<and> member_in_task_struct t' \<or>
     (\<exists>m. verify_kstack_member h1 = (Inl (Value_Error m), k)) \<and> \<not> member_in_task_struct t'"
    by (rule verify_kstack_member_run)
  have ck: "coherent k"
    using graft_coherent [OF graft_verify_kstack_member, of h1] l vr by (auto simp: landed_def)
  have "landed g v k"
    using l ck k unwritten_seen [OF k] by (auto simp: landed_def unwritten_def s1 d1)
  moreover have "if member_in_task_struct t'
     then \<exists>s d. kstack_pertask_apply g = (Inr (s, d), k) \<and> s \<in> {Applied, Partial}
     else \<exists>m. kstack_pertask_apply g = (Inl (Value_Error m), k)"
    using st vr by (auto simp: kstack_pertask_apply_def io_bind_def io_ret_def r ap cl)
  ultimately show thesis by (rule that)
qed

lemma landed_changes:
  assumes "landed g v h" and "coherent g" and "v q \<noteq> seen g q" and "\<not> is_backup q"
  shows "q \<in> set (changed_by g h)"
proof -
  have c: "coherent h" and q: "q \<in> set (dirty h)" and s: "seen h q = v q"
    using assms by (auto simp: landed_def)
  have "texts h q \<noteq> Some (the (texts g q))" if "q \<in> set (dirty g)"
  proof -
    from that assms(2) obtain t where "texts g q = Some t" by (auto simp: coherent_def)
    moreover from q c obtain t' where "texts h q = Some t'" by (auto simp: coherent_def)
    ultimately show ?thesis using assms(3) s by (simp add: seen_def)
  qed
  with q show ?thesis by (simp add: changed_by_iff [OF c])
qed

lemma kstack_run_checked:
  assumes "coherent g" and "seen g ''include/linux/sched.h'' = Some t"
    and "calm g (steps_files (kstack_pertask_steps t))"
    and w: "run_view (kstack_pertask_steps t) (seen g) [] = Inr (v, res)" and "StApplied \<in> snd ` set res"
    and "v ''include/linux/sched.h'' = Some t'" and "\<not> member_in_task_struct t'"
    and q: "v q \<noteq> seen g q" "\<not> is_backup q"
  obtains changed h where "landed g v h" and "q \<in> set changed" and
    "run_checked randomize_kstack_pertask_group g =
       (Inl (System_Exit (degraded_message ''randomize_kstack_pertask'' BlockedByShape changed)), h)"
proof -
  let ?G = randomize_kstack_pertask_group
  obtain h where l: "landed g v h" and "\<exists>m. kstack_pertask_apply g = (Inl (Value_Error m), h)"
    using kstack_apply_run [OF assms(1-6)] assms(7) by metis
  then obtain m where m: "apply_fn ?G g = (Inl (Value_Error m), h)"
    by (auto simp: randomize_kstack_pertask_group_def)
  have soft: "\<not> hard ?G" and key: "key ?G = ''randomize_kstack_pertask''"
    by (simp_all add: randomize_kstack_pertask_group_def)
  obtain d where "run_group ?G g = (Inr (group_result_of ?G (BlockedByShape, d)), h)"
    using m soft by (simp add: run_group_def io_defs exc_text_eq [unfolded io_defs] split: prod.splits sum.splits)
  moreover have "graft_prog (\<lambda>g. set (group_files ?G) \<union> defconfig_scope g) (apply_fn ?G)"
    using kstack_confined by (simp add: confined_def)
  moreover have ch: "q \<in> set (changed_by g h)" by (rule landed_changes [OF l assms(1) q])
  ultimately have "run_checked ?G g =
      (Inl (System_Exit (degraded_message ''randomize_kstack_pertask'' BlockedByShape (changed_by g h))), h)"
    by (auto simp: run_checked_eq [OF assms(1)] group_result_of_def ok_status_def key)
  with l ch show thesis by (rule_tac that)
qed

subsection \<open>The EEVDF fields\<close>

lemma eevdf_core_fields_gate:
  assumes "seen g p15e_SCHED_H = Some t" and "seen g p15e_FAIR_C = Some fair"
    and "probe \<in> set p15e_FAIR_LANDED_PROBES" and "\<not> contains probe fair"
  shows "\<exists>d h. p15e_eevdf_core_fields_apply g = (Inr (BlockedByShape, d), h) \<and> unwritten g h"
proof -
  obtain k where r: "ctx_read p15e_SCHED_H g = (Inr t, k)" and u: "unwritten g k"
    using assms(1) quiet.R_read [of g p15e_SCHED_H]
    by (cases "ctx_read p15e_SCHED_H g") (simp add: ctx_read_seen)
  then have "seen k p15e_FAIR_C = Some fair" using assms(2) by (simp add: unwritten_def)
  then obtain h where r': "ctx_read p15e_FAIR_C k = (Inr fair, h)" and u': "unwritten k h"
    using quiet.R_read [of k p15e_FAIR_C]
    by (cases "ctx_read p15e_FAIR_C k") (simp add: ctx_read_seen)
  have "filter (\<lambda>probe. \<not> contains probe fair) p15e_FAIR_LANDED_PROBES \<noteq> []"
    using assms(3,4) by (auto simp: filter_empty_conv)
  then show ?thesis
    unfolding p15e_eevdf_core_fields_apply_def
    using unwritten_trans [OF u u'] by (auto simp: io_try_def io_ret_def r r' Let_def)
qed

lemma eevdf_modern_fields_gate:
  assumes "seen g p15e_FAIR_C = Some fair"
    and "probe \<in> set p15e_FAIR_LANDED_PROBES" and "\<not> contains probe fair"
  shows "\<exists>d h. p15e_eevdf_modern_fields_apply g = (Inr (BlockedByShape, d), h) \<and> unwritten g h"
proof -
  obtain h where r: "ctx_read p15e_FAIR_C g = (Inr fair, h)" and u: "unwritten g h"
    using assms(1) quiet.R_read [of g p15e_FAIR_C]
    by (cases "ctx_read p15e_FAIR_C g") (simp add: ctx_read_seen)
  have "filter (\<lambda>probe. \<not> contains probe fair) p15e_FAIR_LANDED_PROBES \<noteq> []"
    using assms(2,3) by (auto simp: filter_empty_conv)
  then show ?thesis
    unfolding p15e_eevdf_modern_fields_apply_def
    using u by (auto simp: io_try_def io_ret_def r Let_def)
qed

end
