(* ===== verification/Text_Laws.thy ===== *)
theory Text_Laws
  imports Abk_Common Utf8
begin

text \<open>
  What the anchored edits of \<^verbatim>\<open>scripts/abk_common.py\<close> keep of a text: its line ending form,
  its UTF-8 validity, and everything outside the one occurrence they replace.
\<close>

subsection \<open>CRLF texts\<close>

definition no_cr :: "str \<Rightarrow> str" where
  "no_cr t = filter (\<lambda>c. c \<noteq> CR) t"

lemma no_cr_append [simp]: "no_cr (a @ b) = no_cr a @ no_cr b"
  by (simp add: no_cr_def)

lemma no_cr_id: "CR \<notin> set t \<Longrightarrow> no_cr t = t"
  unfolding no_cr_def by (rule filter_True) auto

lemma no_cr_to_crlf: "CR \<notin> set t \<Longrightarrow> no_cr (to_crlf t) = t"
proof (induction t)
  case (Cons c t)
  then show ?case by (cases "c = NL") (auto simp: no_cr_def)
qed (simp add: no_cr_def)

lemma contains_to_crlf: "contains n u \<Longrightarrow> contains (to_crlf n) (to_crlf u)"
  by (elim contains_cutE) simp

lemma contains_no_cr: "contains n t \<Longrightarrow> contains (no_cr n) (no_cr t)"
  by (elim contains_cutE) simp

lemma crlf_contains_iff:
  assumes "CR \<notin> set u" and "CR \<notin> set n"
  shows "contains (to_crlf n) (to_crlf u) \<longleftrightarrow> contains n u"
  using contains_to_crlf contains_no_cr [of "to_crlf n" "to_crlf u"] assms
  by (auto simp: no_cr_to_crlf)

lemma crlf_contains_lf:
  assumes "CR \<notin> set u" and "CR \<notin> set n" and "contains n (to_crlf u)"
  shows "contains n u"
  using contains_no_cr [OF assms(3)] assms by (simp add: no_cr_to_crlf no_cr_id)

lemma to_crlf_NL_after_CR:
  "to_crlf u = a @ NL # b \<Longrightarrow> CR \<notin> set u \<Longrightarrow> a \<noteq> [] \<and> last a = CR"
proof (induction u arbitrary: a)
  case (Cons c u)
  show ?case
  proof (cases "c = NL")
    case True
    with Cons.prems have e: "CR # NL # to_crlf u = a @ NL # b" by simp
    show ?thesis
    proof (cases a)
      case Nil
      with e show ?thesis by simp
    next
      case (Cons x a1)
      with e have x: "x = CR" "NL # to_crlf u = a1 @ NL # b" by auto
      show ?thesis
      proof (cases a1)
        case Nil
        with Cons x show ?thesis by simp
      next
        case (Cons y a2)
        with x have "to_crlf u = a2 @ NL # b" by simp
        with Cons.IH [of a2] \<open>CR \<notin> set (c # u)\<close> \<open>a = x # a1\<close> Cons show ?thesis by simp
      qed
    qed
  next
    case False
    with Cons.prems have e: "c # to_crlf u = a @ NL # b" by simp
    with False obtain a1 where a: "a = c # a1" and "to_crlf u = a1 @ NL # b"
      by (cases a) auto
    with Cons.IH [of a1] Cons.prems(2) show ?thesis by simp
  qed
qed simp

lemma crlf_no_inner_lf:
  assumes "CR \<notin> set u" and "CR \<notin> set p" and "NL \<in> set (tl p)"
  shows "\<not> contains p (to_crlf u)"
proof
  assume "contains p (to_crlf u)"
  then obtain a b where t: "to_crlf u = a @ p @ b" by (auto simp: sublist_def)
  obtain c q where p: "p = c # q" and "NL \<in> set q" using assms(3) by (cases p) auto
  then obtain q1 q2 where q: "q = q1 @ NL # q2" by (auto simp: in_set_conv_decomp)
  have "to_crlf u = (a @ c # q1) @ NL # (q2 @ b)" using t p q by simp
  from to_crlf_NL_after_CR [OF this assms(1)] have "last (c # q1) = CR" by simp
  then have "CR \<in> set (c # q1)" by (metis last_in_set list.distinct(1))
  with assms(2) p q show False by auto
qed

lemma to_crlf_last: "CR \<notin> set a \<Longrightarrow> a \<noteq> [] \<Longrightarrow> last (to_crlf a) \<noteq> CR"
proof (induction a rule: rev_induct)
  case (snoc c a)
  then show ?case by (cases "c = NL") auto
qed simp

lemma to_crlf_Nil_iff [simp]: "to_crlf a = [] \<longleftrightarrow> a = []"
proof (cases a)
  case (Cons c t)
  then show ?thesis by (cases "c = NL") auto
qed simp

lemma cut_to_crlf:
  assumes cr: "CR \<notin> set u" "CR \<notin> set p" and c: "cut p u = Some (a, b)"
  shows "cut (to_crlf p) (to_crlf u) = Some (to_crlf a, to_crlf b)"
proof -
  have u: "u = a @ p @ b" using cut_SomeD [OF c] .
  then have cu: "to_crlf u = to_crlf a @ to_crlf p @ to_crlf b" by simp
  then have "contains (to_crlf p) (to_crlf u)" by (metis sublist_appendI)
  then obtain a' b' where c': "cut (to_crlf p) (to_crlf u) = Some (a', b')"
    and e: "to_crlf u = a' @ to_crlf p @ b'" by (rule contains_cutE)
  have le: "length a' \<le> length (to_crlf a)" using cut_leftmost [OF c' cu] .
  have "no_cr (to_crlf u) = no_cr a' @ p @ no_cr b'"
    using e cr(2) by (simp add: no_cr_to_crlf)
  then have "u = no_cr a' @ p @ no_cr b'" using cr(1) by (simp add: no_cr_to_crlf)
  from cut_leftmost [OF c this] have ge: "length a \<le> length (no_cr a')" .
  have "take (length a') (to_crlf a) = take (length a') (to_crlf u)" using cu le by simp
  also have "\<dots> = a'" using e by simp
  finally obtain r where r: "to_crlf a = a' @ r" by (metis append_take_drop_id)
  have acr: "CR \<notin> set a" using u cr(1) by auto
  then have "a = no_cr a' @ no_cr r" using r no_cr_to_crlf [of a] by simp
  then have "length a = length (no_cr a') + length (no_cr r)" by (metis length_append)
  with ge have "no_cr r = []" by simp
  then have "\<forall>x \<in> set r. x = CR" by (auto simp: no_cr_def filter_empty_conv)
  moreover have "r \<noteq> [] \<Longrightarrow> last r \<noteq> CR"
    using r to_crlf_last [OF acr] by (cases "a = []") auto
  ultimately have "r = []" by (metis last_in_set)
  with r have "a' = to_crlf a" by simp
  with e cu c' show ?thesis by simp
qed

lemma replace_first_crlf:
  assumes "CR \<notin> set u" and "CR \<notin> set old"
  shows "replace_first (to_crlf u) (to_crlf old) (to_crlf new) = to_crlf (replace_first u old new)"
proof (cases "cut old u")
  case None
  then have "\<not> contains (to_crlf old) (to_crlf u)"
    using crlf_contains_iff [OF assms] by (simp add: cut_None_iff)
  with None show ?thesis by (simp add: replace_first_absent) (simp add: replace_first_def)
next
  case (Some ab)
  then obtain a b where c: "cut old u = Some (a, b)" by (cases ab) auto
  from cut_to_crlf [OF assms c] c show ?thesis by (simp add: replace_first_def)
qed

lemma replace_once_crlf:
  assumes cr: "CR \<notin> set u" "CR \<notin> set old" "CR \<notin> set new"
    and shape: "NL \<in> set (tl old) \<or> NL \<notin> set old \<and> NL \<notin> set new"
  shows "replace_once (to_crlf u) old new = apfst to_crlf (replace_once u old new)"
proof -
  have lf: "to_lf old = old" "to_lf new = new" using cr by (simp_all add: to_lf_no_CR)
  have present: "contains new (to_crlf u) \<or> contains (to_crlf new) (to_crlf u) \<longleftrightarrow>
      contains new u \<or> contains (to_crlf new) u"
  proof -
    have "contains (to_crlf new) u \<Longrightarrow> contains new u"
      using contains_no_cr [of "to_crlf new" u] cr by (simp add: no_cr_to_crlf no_cr_id)
    then show ?thesis
      using crlf_contains_iff [OF cr(1,3)] crlf_contains_lf [OF cr(1,3)] by blast
  qed
  show ?thesis
  proof (cases "NL \<in> set old")
    case True
    with shape have n: "\<not> contains old (to_crlf u)" using crlf_no_inner_lf [OF cr(1,2)] by blast
    have "\<not> contains (to_crlf old) u"
    proof
      assume "contains (to_crlf old) u"
      then have "set (to_crlf old) \<subseteq> set u" by (rule set_mono_sublist)
      moreover have "CR \<in> set (to_crlf old)"
      proof -
        from True obtain x y where "old = x @ NL # y" by (auto simp: in_set_conv_decomp)
        then show ?thesis by simp
      qed
      ultimately show False using cr(1) by blast
    qed
    with n present show ?thesis
      by (simp add: replace_once_unfold lf crlf_contains_iff [OF cr(1,2)] replace_first_crlf [OF cr(1,2)])
  next
    case False
    moreover have "NL \<notin> set (tl old)" using False by (cases old) auto
    ultimately have "to_crlf old = old" "to_crlf new = new" using shape by (auto simp: to_crlf_no_NL)
    with present crlf_contains_iff [OF cr(1,2)] replace_first_crlf [OF cr(1,2), of new]
    show ?thesis by (simp add: replace_once_unfold lf)
  qed
qed

lemma replace_once_mixes:
  assumes cr: "CR \<notin> set u" "CR \<notin> set old" "CR \<notin> set new" and nl: "NL \<notin> set old" "NL \<in> set new"
    and r: "replace_once u old new = (u', StApplied)"
  obtains a b where "u = a @ old @ b" "u' = a @ new @ b"
    "replace_once (to_crlf u) old new = (to_crlf a @ new @ to_crlf b, StApplied)"
    "to_crlf a @ new @ to_crlf b \<noteq> to_crlf u'"
proof -
  have lf: "to_lf old = old" "to_lf new = new" "to_crlf old = old"
    using cr nl by (simp_all add: to_lf_no_CR to_crlf_no_NL)
  from r have absent: "\<not> contains new u" and "contains old u" and u': "u' = replace_first u old new"
    by (auto simp: replace_once_unfold lf split: if_splits)
  then obtain a b where c: "cut old u = Some (a, b)" and u: "u = a @ old @ b" by (auto elim: contains_cutE)
  have cc: "cut old (to_crlf u) = Some (to_crlf a, to_crlf b)" using cut_to_crlf [OF cr(1,2) c] by (simp add: lf)
  then have "contains old (to_crlf u)" using cut_Some_iff_contains [of old "to_crlf u"] by blast
  moreover have "\<not> contains new (to_crlf u)" "\<not> contains (to_crlf new) (to_crlf u)"
    using absent crlf_contains_lf [OF cr(1,3)] crlf_contains_iff [OF cr(1,3)] by blast+
  ultimately have "replace_once (to_crlf u) old new = (to_crlf a @ new @ to_crlf b, StApplied)"
    using cc by (simp add: replace_once_unfold lf replace_first_def)
  moreover have v: "u' = a @ new @ b" using u' c by (simp add: replace_first_def)
  moreover have "to_crlf new \<noteq> new"
  proof
    from nl(2) obtain x y where "new = x @ NL # y" by (auto simp: in_set_conv_decomp)
    then have "CR \<in> set (to_crlf new)" by simp
    moreover assume "to_crlf new = new"
    ultimately show False using cr(3) by simp
  qed
  ultimately show thesis using that [OF u v] by auto
qed

subsection \<open>UTF-8\<close>

lemma replace_once_utf8:
  assumes "utf8_valid t" and "utf8_valid old" and "utf8_valid new"
  shows "utf8_valid (fst (replace_once t old new))"
proof -
  have "utf8_valid (replace_first t o' n')" if "utf8_valid o'" "utf8_valid n'" for o' n'
  proof (cases "o' = []")
    case True
    then show ?thesis
      using cut_prefix [of "[]" t] that assms(1) by (simp add: replace_first_def utf8_valid_append)
  next
    case False
    then show ?thesis
      using utf8_valid_substitute [OF _ that(1) False that(2)] assms(1)
      by (auto simp: replace_first_def dest!: cut_SomeD split: option.split)
  qed
  then show ?thesis
    using assms by (simp add: replace_once_unfold utf8_valid_to_lf utf8_valid_to_crlf)
qed

end
