(* ===== verification/Json_Text.thy ===== *)
theory Json_Text
  imports Graft_Engine Utf8
begin

text \<open>
  Python's \<open>json.dumps\<close> as the report uses it (ASCII only, compact or indented), and a reader of
  JSON that recovers every value it writes. A string is the list of its code points.
\<close>

subsection \<open>Code points\<close>

abbreviation byte :: "char \<Rightarrow> nat" where "byte \<equiv> of_char"

fun code_points :: "str \<Rightarrow> nat list" where
  \<comment> \<open>\<^verbatim>\<open>bytes.decode("utf-8")\<close>; of bytes that are not UTF-8 what comes before the error\<close>
  "code_points [] = []"
| "code_points (a # t) =
     (if in_range 0 0x7F a then byte a # code_points t
      else (case t of [] \<Rightarrow> [] | b # t1 \<Rightarrow>
        (if in_range 0xC2 0xDF a
         then (if cont_byte b then ((byte a - 0xC0) * 0x40 + (byte b - 0x80)) # code_points t1 else [])
         else (case t1 of [] \<Rightarrow> [] | c # t2 \<Rightarrow>
           (if lead3 a b
            then (if cont_byte c
                  then ((byte a - 0xE0) * 0x1000 + (byte b - 0x80) * 0x40 + (byte c - 0x80)) # code_points t2
                  else [])
            else (case t2 of [] \<Rightarrow> [] | d # t3 \<Rightarrow>
              (if lead4 a b \<and> cont_byte c \<and> cont_byte d
               then ((byte a - 0xF0) * 0x40000 + (byte b - 0x80) * 0x1000 + (byte c - 0x80) * 0x40 + (byte d - 0x80))
                    # code_points t3
               else [])))))))"

definition scalar :: "nat \<Rightarrow> bool" where
  \<comment> \<open>a Unicode scalar value: not a surrogate\<close>
  "scalar n \<longleftrightarrow> n < 0xD800 \<or> (0xE000 \<le> n \<and> n < 0x110000)"

lemma scalar_lead3: "lead3 a b \<Longrightarrow> cont_byte c \<Longrightarrow>
    scalar ((byte a - 0xE0) * 0x1000 + (byte b - 0x80) * 0x40 + (byte c - 0x80))"
  by (auto simp: lead3_def in_range_def scalar_def)

lemma scalar_lead4: "lead4 a b \<Longrightarrow> cont_byte c \<Longrightarrow> cont_byte d \<Longrightarrow>
    scalar ((byte a - 0xF0) * 0x40000 + (byte b - 0x80) * 0x1000 + (byte c - 0x80) * 0x40 + (byte d - 0x80))"
  by (auto simp: lead4_def in_range_def scalar_def)

lemma code_points_scalar: "list_all scalar (code_points t)"
proof (induction t rule: code_points.induct)
  case (2 a t)
  have one: "in_range 0 0x7F a \<Longrightarrow> scalar (byte a)" by (simp add: in_range_def scalar_def)
  have two: "in_range 0xC2 0xDF a \<Longrightarrow> cont_byte b \<Longrightarrow> scalar ((byte a - 0xC0) * 0x40 + (byte b - 0x80))" for b
    by (auto simp: in_range_def scalar_def)
  from 2 one two scalar_lead3 scalar_lead4 show ?case
    by (auto split: list.splits simp del: code_points.simps(2) simp: code_points.simps(2) [of a t])
qed simp

subsection \<open>Values and their text\<close>

datatype json =
    JNull
  | JBool bool
  | JNum nat
  | JStr "nat list"
  | JList "json list"
  | JObj "(nat list \<times> json) list"

definition hex4 :: "nat \<Rightarrow> str" where
  "hex4 n = map (\<lambda>d. hex_digit (n div d mod 16)) [0x1000, 0x100, 0x10, 1]"

definition u_escape :: "nat \<Rightarrow> str" where
  "u_escape n = [BSL, CHR ''u''] @ hex4 n"

definition json_char :: "nat \<Rightarrow> str" where
  "json_char n =
     (if n = 0x22 then [BSL, DQ] else if n = 0x5C then [BSL, BSL]
      else if n = 0x0A then [BSL, CHR ''n''] else if n = 0x0D then [BSL, CHR ''r'']
      else if n = 0x09 then [BSL, CHR ''t''] else if n = 0x0C then [BSL, CHR ''f'']
      else if n = 0x08 then [BSL, CHR ''b'']
      else if 0x20 \<le> n \<and> n \<le> 0x7E then [char_of n]
      else if n < 0x10000 then u_escape n
      else u_escape (0xD800 + (n - 0x10000) div 0x400) @ u_escape (0xDC00 + (n - 0x10000) mod 0x400))"

definition json_string :: "nat list \<Rightarrow> str" where
  "json_string s = [DQ] @ concat (map json_char s) @ [DQ]"

definition line_break :: "nat option \<Rightarrow> nat \<Rightarrow> str" where
  \<comment> \<open>\<open>indent\<close> and the nesting level\<close>
  "line_break ind lv = (case ind of None \<Rightarrow> [] | Some k \<Rightarrow> NL # replicate (k * lv) (CHR '' ''))"

definition item_separator :: "nat option \<Rightarrow> nat \<Rightarrow> str" where
  "item_separator ind lv = (case ind of None \<Rightarrow> '', '' | Some k \<Rightarrow> '','' @ line_break ind lv)"

fun dumps :: "nat option \<Rightarrow> nat \<Rightarrow> json \<Rightarrow> str"
  and dump_items :: "nat option \<Rightarrow> nat \<Rightarrow> json list \<Rightarrow> str"
  and dump_members :: "nat option \<Rightarrow> nat \<Rightarrow> (nat list \<times> json) list \<Rightarrow> str" where
  "dumps ind lv JNull = ''null''"
| "dumps ind lv (JBool b) = (if b then ''true'' else ''false'')"
| "dumps ind lv (JNum n) = py_str_nat n"
| "dumps ind lv (JStr s) = json_string s"
| "dumps ind lv (JList xs) = (if xs = [] then ''[]''
     else ''['' @ line_break ind (Suc lv) @ dump_items ind (Suc lv) xs @ line_break ind lv @ '']'')"
| "dumps ind lv (JObj ms) = (if ms = [] then ''{}''
     else ''{'' @ line_break ind (Suc lv) @ dump_members ind (Suc lv) ms @ line_break ind lv @ ''}'')"
| "dump_items ind lv [] = []"
| "dump_items ind lv (x # xs) =
     dumps ind lv x @ (if xs = [] then [] else item_separator ind lv @ dump_items ind lv xs)"
| "dump_members ind lv [] = []"
| "dump_members ind lv ((k, x) # ms) = json_string k @ '': '' @ dumps ind lv x @
     (if ms = [] then [] else item_separator ind lv @ dump_members ind lv ms)"

subsection \<open>A reader\<close>

definition hex_val :: "char \<Rightarrow> nat option" where
  "hex_val c = (let n = byte c in
     if 48 \<le> n \<and> n \<le> 57 then Some (n - 48) else if 97 \<le> n \<and> n \<le> 102 then Some (n - 87) else None)"

fun hex_number :: "nat \<Rightarrow> str \<Rightarrow> nat option" where
  "hex_number acc [] = Some acc"
| "hex_number acc (c # t) = (case hex_val c of None \<Rightarrow> None | Some d \<Rightarrow> hex_number (acc * 16 + d) t)"

definition unescape :: "char \<Rightarrow> nat option" where
  "unescape c = map_of [(DQ, 0x22), (BSL, 0x5C), (CHR ''/'', 0x2F), (CHR ''n'', 0x0A), (CHR ''r'', 0x0D),
     (CHR ''t'', 0x09), (CHR ''f'', 0x0C), (CHR ''b'', 0x08)] c"

definition read_escape :: "str \<Rightarrow> (nat \<times> str) option" where
  \<comment> \<open>what follows a backslash; two surrogates make one character\<close>
  "read_escape t = (case t of [] \<Rightarrow> None | c # u \<Rightarrow>
     if c \<noteq> CHR ''u'' then map_option (\<lambda>n. (n, u)) (unescape c)
     else (case hex_number 0 (take 4 u) of None \<Rightarrow> None | Some h \<Rightarrow>
       if h < 0xD800 \<or> 0xDC00 \<le> h then Some (h, drop 4 u)
       else (case drop 4 u of
           _ # _ # v \<Rightarrow> (case hex_number 0 (take 4 v) of None \<Rightarrow> None
             | Some l \<Rightarrow> Some (0x10000 + (h - 0xD800) * 0x400 + (l - 0xDC00), drop 4 v))
         | _ \<Rightarrow> None)))"

lemma drop_shorter: "drop k u = x # v \<Longrightarrow> length v < length u"
proof -
  assume "drop k u = x # v"
  then have "length u - k = Suc (length v)" by (metis length_Cons length_drop)
  then show ?thesis by linarith
qed

lemma read_escape_length: "read_escape t = Some (n, r) \<Longrightarrow> length r < length t"
proof -
  assume r: "read_escape t = Some (n, r)"
  then obtain c u where t: "t = c # u" by (cases t) (auto simp: read_escape_def)
  consider "r = u" | "r = drop 4 u" | x y v where "drop 4 u = x # y # v" "r = drop 4 v"
    using r unfolding t read_escape_def by (auto split: list.splits if_splits option.splits)
  then show ?thesis
  proof cases
    case 3
    from drop_shorter [OF 3(1)] 3(2) show ?thesis by (simp add: t)
  qed (simp_all add: t)
qed

function read_string :: "str \<Rightarrow> (nat list \<times> str) option" where
  \<comment> \<open>after the opening quote\<close>
  "read_string [] = None"
| "read_string (c # t) =
     (if c = DQ then Some ([], t)
      else if c = BSL
      then (case read_escape t of None \<Rightarrow> None
        | Some (n, r) \<Rightarrow> map_option (\<lambda>(s, u). (n # s, u)) (read_string r))
      else map_option (\<lambda>(s, u). (byte c # s, u)) (read_string t))"
  by pat_completeness auto
termination
  by (relation "measure length") (auto dest: read_escape_length)

definition json_space :: "char \<Rightarrow> bool" where
  "json_space c \<longleftrightarrow> c \<in> {CHR '' '', NL, CR, TAB}"

definition skip_space :: "str \<Rightarrow> str" where
  "skip_space t = dropWhile json_space t"

definition is_digit :: "char \<Rightarrow> bool" where
  "is_digit c \<longleftrightarrow> 48 \<le> byte c \<and> byte c \<le> 57"

definition read_number :: "str \<Rightarrow> nat" where
  "read_number ds = fold (\<lambda>c n. n * 10 + (byte c - 48)) ds 0"

definition read_keyword :: "str \<Rightarrow> (json \<times> str) option" where
  "read_keyword t =
     (if prefix ''null'' t then Some (JNull, drop 4 t)
      else if prefix ''true'' t then Some (JBool True, drop 4 t)
      else if prefix ''false'' t then Some (JBool False, drop 5 t)
      else if takeWhile is_digit t \<noteq> [] then Some (JNum (read_number (takeWhile is_digit t)), dropWhile is_digit t)
      else None)"

fun read_value :: "nat \<Rightarrow> str \<Rightarrow> (json \<times> str) option"
  and read_items :: "nat \<Rightarrow> str \<Rightarrow> (json list \<times> str) option"
  and read_members :: "nat \<Rightarrow> str \<Rightarrow> ((nat list \<times> json) list \<times> str) option" where
  "read_value 0 t = None"
| "read_value (Suc n) t = (case skip_space t of [] \<Rightarrow> None | c # u \<Rightarrow>
     if c = DQ then map_option (\<lambda>(s, r). (JStr s, r)) (read_string u)
     else if c = CHR ''['' then (case skip_space u of [] \<Rightarrow> None | d # r \<Rightarrow>
       if d = CHR '']'' then Some (JList [], r) else map_option (\<lambda>(xs, r). (JList xs, r)) (read_items n u))
     else if c = CHR ''{'' then (case skip_space u of [] \<Rightarrow> None | d # r \<Rightarrow>
       if d = CHR ''}'' then Some (JObj [], r) else map_option (\<lambda>(ms, r). (JObj ms, r)) (read_members n u))
     else read_keyword (c # u))"
| "read_items 0 t = None"
| "read_items (Suc n) t = (case read_value n t of None \<Rightarrow> None | Some (x, r) \<Rightarrow>
     (case skip_space r of [] \<Rightarrow> None | d # u \<Rightarrow>
       if d = CHR '']'' then Some ([x], u)
       else if d = CHR '','' then map_option (\<lambda>(xs, v). (x # xs, v)) (read_items n u) else None))"
| "read_members 0 t = None"
| "read_members (Suc n) t = (case skip_space t of [] \<Rightarrow> None | q # s \<Rightarrow>
     if q \<noteq> DQ then None else
     (case read_string s of None \<Rightarrow> None | Some (k, s1) \<Rightarrow>
     (case skip_space s1 of [] \<Rightarrow> None | e # s2 \<Rightarrow>
     if e \<noteq> CHR '':'' then None else
     (case read_value n s2 of None \<Rightarrow> None | Some (x, r) \<Rightarrow>
     (case skip_space r of [] \<Rightarrow> None | d # u \<Rightarrow>
       if d = CHR ''}'' then Some ([(k, x)], u)
       else if d = CHR '','' then map_option (\<lambda>(ms, v). ((k, x) # ms, v)) (read_members n u) else None)))))"

definition json_loads :: "str \<Rightarrow> json option" where
  \<comment> \<open>one value and nothing after it; the fuel is enough for any text\<close>
  "json_loads t = (case read_value (Suc (length t)) t of None \<Rightarrow> None
     | Some (x, r) \<Rightarrow> if skip_space r = [] then Some x else None)"

subsection \<open>The reader reads what is written\<close>

lemma byte_char_of: "n < 256 \<Longrightarrow> byte (char_of n) = n"
  by (simp add: of_char_of)

lemma hex_val_digit: "d < 16 \<Longrightarrow> hex_val (hex_digit d) = Some d"
  by (simp add: hex_val_def hex_digit_def byte_char_of del: of_char_of)

lemma hex4_number: "n < 0x10000 \<Longrightarrow> hex_number 0 (hex4 n) = Some n"
proof -
  assume n: "n < 0x10000"
  have "((n div 0x1000 mod 16 * 16 + n div 0x100 mod 16) * 16 + n div 16 mod 16) * 16 + n mod 16 = n"
  proof -
    have "n div 0x100 = n div 16 div 16" "n div 0x1000 = n div 16 div 16 div 16"
      by (simp_all add: div_mult2_eq [symmetric])
    moreover have "n div 16 div 16 div 16 mod 16 = n div 16 div 16 div 16"
      using n by (simp add: div_mult2_eq [symmetric])
    ultimately show ?thesis
      using div_mult_mod_eq [of n 16] div_mult_mod_eq [of "n div 16" 16] div_mult_mod_eq [of "n div 16 div 16" 16]
      by simp
  qed
  moreover have "n div 0x1000 mod 16 = n div 0x1000" "n div 0x1000 < 16"
    using n by (simp_all add: div_less_iff_less_mult)
  ultimately show ?thesis by (simp add: hex4_def hex_val_digit)
qed

lemma hex4_length [simp]: "length (hex4 n) = 4"
  by (simp add: hex4_def)

lemma take_hex4 [simp]: "take 4 (hex4 n @ t) = hex4 n" "drop 4 (hex4 n @ t) = t"
  by simp_all

lemma read_u_escape: "n < 0x10000 \<Longrightarrow> \<not> (0xD800 \<le> n \<and> n < 0xDC00) \<Longrightarrow>
    read_escape (CHR ''u'' # hex4 n @ t) = Some (n, t)"
  by (auto simp: read_escape_def hex4_number)

lemma read_u_pair: "0x10000 \<le> n \<Longrightarrow> n < 0x110000 \<Longrightarrow>
    read_escape (CHR ''u'' # hex4 (0xD800 + (n - 0x10000) div 0x400) @
      BSL # CHR ''u'' # hex4 (0xDC00 + (n - 0x10000) mod 0x400) @ t) = Some (n, t)"
proof -
  assume n: "0x10000 \<le> n" "n < 0x110000"
  let ?m = "n - 0x10000"
  have d: "?m div 0x400 < 0x400" using n by (simp add: div_less_iff_less_mult)
  have m: "?m mod 0x400 < 0x400" by simp
  have h: "hex_number 0 (hex4 (0xD800 + ?m div 0x400)) = Some (0xD800 + ?m div 0x400)"
    "hex_number 0 (hex4 (0xDC00 + ?m mod 0x400)) = Some (0xDC00 + ?m mod 0x400)"
    using d m by (simp_all add: hex4_number)
  have "?m div 0x400 * 0x400 + ?m mod 0x400 = ?m" by simp
  with n d h show ?thesis by (simp add: read_escape_def)
qed

lemma read_json_char:
  assumes "scalar n"
  shows "read_string (json_char n @ t) = map_option (\<lambda>(s, u). (n # s, u)) (read_string t)"
proof -
  consider "n \<in> {0x22, 0x5C, 0x0A, 0x0D, 0x09, 0x0C, 0x08}" | "n \<notin> {0x22, 0x5C}" "0x20 \<le> n" "n \<le> 0x7E"
    | "n \<notin> {0x0A, 0x0D, 0x09, 0x0C, 0x08}" "n < 0x20 \<or> 0x7E < n" "n < 0x10000"
    | "0x10000 \<le> n" by fastforce
  then show ?thesis
  proof cases
    case 1
    then show ?thesis by (auto simp: json_char_def read_escape_def unescape_def)
  next
    case 2
    have "char_of n \<noteq> DQ" "char_of n \<noteq> BSL"
      using 2 by (auto dest: arg_cong [where f = "of_char :: char \<Rightarrow> nat"])
    with 2 show ?thesis by (simp add: json_char_def)
  next
    case 3
    then have "json_char n = u_escape n" by (auto simp: json_char_def)
    moreover have "\<not> (0xD800 \<le> n \<and> n < 0xDC00)" using assms by (auto simp: scalar_def)
    ultimately show ?thesis using read_u_escape [of n t] 3 by (simp add: u_escape_def)
  next
    case 4
    then have "json_char n = u_escape (0xD800 + (n - 0x10000) div 0x400) @
        u_escape (0xDC00 + (n - 0x10000) mod 0x400)" by (simp add: json_char_def)
    moreover have "n < 0x110000" using assms 4 by (simp add: scalar_def)
    ultimately show ?thesis using read_u_pair [of n t] 4 by (simp add: u_escape_def)
  qed
qed

lemma read_json_string:
  "list_all scalar s \<Longrightarrow> read_string (concat (map json_char s) @ DQ # t) = Some (s, t)"
  by (induction s) (simp_all add: read_json_char)

subsection \<open>Numbers\<close>

lemma dec_digits_acc: "dec_digits n acc = dec_digits n [] @ acc"
proof (induction n arbitrary: acc rule: less_induct)
  case (less n)
  show ?case
  proof (cases "n < 10")
    case False
    then have "n div 10 < n" by simp
    with less.IH [OF this, of "char_of (48 + n mod 10) # acc"] less.IH [OF this, of "[char_of (48 + n mod 10)]"] False
    show ?thesis by (subst (1 2) dec_digits.simps) (simp add: Let_def)
  qed (subst (1 2) dec_digits.simps, simp add: Let_def)
qed

lemma str_nat_unfold: "py_str_nat n = (if n < 10 then [] else py_str_nat (n div 10)) @ [char_of (48 + n mod 10)]"
  unfolding py_str_nat_def
  by (subst dec_digits.simps) (simp add: Let_def dec_digits_acc [of "n div 10" "[char_of (48 + n mod 10)]"])

lemma byte_digit: "byte (char_of (48 + n mod 10)) = 48 + n mod 10"
  by (simp add: less_trans [of _ 10])

lemma str_nat_digits: "list_all is_digit (py_str_nat n)"
proof (induction n rule: less_induct)
  case (less n)
  have "is_digit (char_of (48 + n mod 10))" unfolding is_digit_def byte_digit by simp
  with less [of "n div 10"] show ?case by (subst str_nat_unfold) auto
qed

lemma str_nat_number: "read_number (py_str_nat n) = n"
proof (induction n rule: less_induct)
  case (less n)
  then show ?case
    by (subst str_nat_unfold) (auto simp: read_number_def byte_digit simp del: of_char_of)
qed

lemma str_nat_nonempty: "py_str_nat n \<noteq> []"
  by (subst str_nat_unfold) simp

definition ends_number :: "str \<Rightarrow> bool" where
  "ends_number r \<longleftrightarrow> takeWhile is_digit r = []"

lemma take_digits:
  "list_all is_digit ds \<Longrightarrow> ends_number r \<Longrightarrow> takeWhile is_digit (ds @ r) = ds \<and> dropWhile is_digit (ds @ r) = r"
  by (induction ds) (auto simp: ends_number_def takeWhile_eq_Nil_iff dropWhile_eq_self_iff)

subsection \<open>Values\<close>

fun json_ok :: "json \<Rightarrow> bool" and items_ok :: "json list \<Rightarrow> bool"
  and members_ok :: "(nat list \<times> json) list \<Rightarrow> bool" where
  \<comment> \<open>every string of the value is a sequence of scalar values\<close>
  "json_ok (JStr s) \<longleftrightarrow> list_all scalar s"
| "json_ok (JList xs) \<longleftrightarrow> items_ok xs"
| "json_ok (JObj ms) \<longleftrightarrow> members_ok ms"
| "json_ok _ \<longleftrightarrow> True"
| "items_ok [] \<longleftrightarrow> True"
| "items_ok (x # xs) \<longleftrightarrow> json_ok x \<and> items_ok xs"
| "members_ok [] \<longleftrightarrow> True"
| "members_ok ((k, x) # ms) \<longleftrightarrow> list_all scalar k \<and> json_ok x \<and> members_ok ms"

fun weight :: "json \<Rightarrow> nat" and items_weight :: "json list \<Rightarrow> nat"
  and members_weight :: "(nat list \<times> json) list \<Rightarrow> nat" where
  \<comment> \<open>the fuel that reads the value\<close>
  "weight (JList xs) = Suc (items_weight xs)"
| "weight (JObj ms) = Suc (members_weight ms)"
| "weight _ = 1"
| "items_weight [] = 0"
| "items_weight (x # xs) = Suc (weight x + items_weight xs)"
| "members_weight [] = 0"
| "members_weight ((k, x) # ms) = Suc (weight x + members_weight ms)"

lemma skip_space_simps [simp]:
  "skip_space [] = []" "json_space c \<Longrightarrow> skip_space (c # t) = skip_space t"
  "\<not> json_space c \<Longrightarrow> skip_space (c # t) = c # t"
  by (simp_all add: skip_space_def)

lemma not_space [simp]: "\<not> json_space DQ" "\<not> json_space (CHR ''['')" "\<not> json_space (CHR '']'')"
  "\<not> json_space (CHR ''{'')" "\<not> json_space (CHR ''}'')" "\<not> json_space (CHR '','')" "\<not> json_space (CHR '':'')"
  "json_space (CHR '' '')" "json_space NL"
  by (simp_all add: json_space_def)

lemma skip_line_break [simp]: "skip_space (line_break ind lv @ t) = skip_space t"
proof -
  have "skip_space (replicate k (CHR '' '') @ t) = skip_space t" for k by (induction k) simp_all
  then show ?thesis by (simp add: line_break_def split: option.splits)
qed

lemma skip_space_idem [simp]: "skip_space (skip_space t) = skip_space t"
  by (simp add: skip_space_def dropWhile_idem)

lemma read_value_skip: "skip_space t = skip_space t' \<Longrightarrow> read_value n t = read_value n t'"
  by (cases n) simp_all

lemma read_items_skip: "skip_space t = skip_space t' \<Longrightarrow> read_items n t = read_items n t'"
  by (cases n) (simp_all add: read_value_skip [of t t'])

lemma read_members_skip: "skip_space t = skip_space t' \<Longrightarrow> read_members n t = read_members n t'"
  by (cases n) simp_all

lemma separator_comma: "\<exists>s. item_separator ind lv = CHR '','' # s \<and> (\<forall>t. skip_space (s @ t) = skip_space t)"
  by (cases ind) (simp_all add: item_separator_def)

lemma digit_hd: "is_digit c \<Longrightarrow> \<not> json_space c \<and> c \<notin> {DQ, CHR ''['', CHR ''{'', CHR '']'', CHR ''}''}
    \<and> c \<notin> {CHR ''n'', CHR ''t'', CHR ''f''}"
  by (auto simp: is_digit_def json_space_def)

lemma dumps_hd: "\<exists>c u. dumps ind lv x = c # u \<and> \<not> json_space c \<and> c \<notin> {CHR '']'', CHR ''}''}"
proof (cases x)
  case (JNum n)
  obtain c u where c: "py_str_nat n = c # u" using str_nat_nonempty [of n] by (cases "py_str_nat n") auto
  with str_nat_digits [of n] have "is_digit c" by simp
  with c JNum digit_hd [of c] show ?thesis by simp
qed (auto simp: json_string_def json_space_def)

lemma read_keyword_number:
  assumes "ends_number r"
  shows "read_value (Suc n) (py_str_nat k @ r) = Some (JNum k, r)"
proof -
  obtain c u where c: "py_str_nat k = c # u" using str_nat_nonempty [of k] by (cases "py_str_nat k") auto
  with str_nat_digits [of k] have d: "is_digit c" by simp
  have "\<not> prefix ''null'' (py_str_nat k @ r)" "\<not> prefix ''true'' (py_str_nat k @ r)"
    "\<not> prefix ''false'' (py_str_nat k @ r)" using digit_hd [OF d] by (auto simp: c)
  then have "read_keyword (py_str_nat k @ r) = Some (JNum k, r)"
    using take_digits [OF str_nat_digits assms, of k]
    by (simp add: read_keyword_def str_nat_nonempty str_nat_number)
  then show ?thesis using digit_hd [OF d] by (simp add: c)
qed

lemma ends_number_simps [simp]: "ends_number []" "ends_number (CHR '','' # t)" "ends_number (CHR '']'' # t)"
  "ends_number (CHR ''}'' # t)" "ends_number (line_break ind lv @ t) = (ind \<noteq> None \<or> ends_number t)"
  by (simp_all add: ends_number_def is_digit_def line_break_def split: option.splits)

lemma ends_after_item [simp]:
  "ends_number (item_separator ind lv @ t)" "ends_number (line_break ind lv @ CHR '']'' # t)"
  "ends_number (line_break ind lv @ CHR ''}'' # t)"
  by (simp_all add: item_separator_def split: option.splits)

lemma dumps_read:
  "json_ok x \<Longrightarrow> weight x \<le> n \<Longrightarrow> ends_number r \<Longrightarrow> read_value n (dumps ind lv x @ r) = Some (x, r)"
  "items_ok xs \<Longrightarrow> xs \<noteq> [] \<Longrightarrow> items_weight xs \<le> n \<Longrightarrow>
     read_items n (dump_items ind lv xs @ line_break ind lv' @ CHR '']'' # r) = Some (xs, r)"
  "members_ok ms \<Longrightarrow> ms \<noteq> [] \<Longrightarrow> members_weight ms \<le> n \<Longrightarrow>
     read_members n (dump_members ind lv ms @ line_break ind lv' @ CHR ''}'' # r) = Some (ms, r)"
proof (induction ind lv x and ind lv xs and ind lv ms arbitrary: n r and n r lv' and n r lv'
    rule: dumps_dump_items_dump_members.induct)
  case (3 ind lv k)
  then obtain n' where "n = Suc n'" by (cases n) auto
  with 3 show ?case using read_keyword_number [of r n' k] by simp
next
  case (4 ind lv s)
  then obtain n' where "n = Suc n'" by (cases n) auto
  with 4 show ?case by (simp add: json_string_def read_json_string)
next
  case (5 ind lv xs)
  then obtain n' where n: "n = Suc n'" by (cases n) auto
  show ?case
  proof (cases "xs = []")
    case False
    then obtain y ys where xs: "xs = y # ys" by (cases xs) auto
    obtain c u where c: "dumps ind (Suc lv) y = c # u" "\<not> json_space c" "c \<noteq> CHR '']''"
      using dumps_hd [of ind "Suc lv" y] by auto
    let ?t = "dump_items ind (Suc lv) xs @ line_break ind lv @ CHR '']'' # r"
    have "skip_space (line_break ind (Suc lv) @ ?t) = ?t" using c by (simp add: xs)
    moreover have "read_items n' (line_break ind (Suc lv) @ ?t) = Some (xs, r)"
      using 5 n False read_items_skip [of "line_break ind (Suc lv) @ ?t" ?t n'] by simp
    ultimately show ?thesis using n False c by (simp add: xs)
  qed (simp add: n)
next
  case (6 ind lv ms)
  then obtain n' where n: "n = Suc n'" by (cases n) auto
  show ?case
  proof (cases "ms = []")
    case False
    then obtain k y ys where ms: "ms = (k, y) # ys" by (cases ms) auto
    let ?t = "dump_members ind (Suc lv) ms @ line_break ind lv @ CHR ''}'' # r"
    have "skip_space (line_break ind (Suc lv) @ ?t) = ?t" by (simp add: ms json_string_def)
    moreover have "read_members n' (line_break ind (Suc lv) @ ?t) = Some (ms, r)"
      using 6 n False read_members_skip [of "line_break ind (Suc lv) @ ?t" ?t n'] by simp
    ultimately show ?thesis using n False by (simp add: ms json_string_def)
  qed (simp add: n)
next
  case (8 ind lv x xs)
  then obtain n' where n: "n = Suc n'" by (cases n) auto
  show ?case
  proof (cases "xs = []")
    case True
    with 8 n show ?thesis by simp
  next
    case False
    obtain s where s: "item_separator ind lv = CHR '','' # s" "\<And>t. skip_space (s @ t) = skip_space t"
      using separator_comma by blast
    let ?t = "dump_items ind lv xs @ line_break ind lv' @ CHR '']'' # r"
    have "read_value n' (dumps ind lv x @ item_separator ind lv @ ?t) = Some (x, item_separator ind lv @ ?t)"
      using 8 n by simp
    moreover have "read_items n' (s @ ?t) = Some (xs, r)"
      using 8 n False read_items_skip [of "s @ ?t" ?t n'] s(2) by simp
    ultimately show ?thesis using n False by (simp add: s(1))
  qed
next
  case (10 ind lv k x ms)
  then obtain n' where n: "n = Suc n'" by (cases n) auto
  let ?e = "line_break ind lv' @ CHR ''}'' # r"
  let ?q = "if ms = [] then [] else item_separator ind lv @ dump_members ind lv ms"
  have v: "read_value n' (CHR '' '' # dumps ind lv x @ ?q @ ?e) = Some (x, ?q @ ?e)"
    using 10 n read_value_skip [of "CHR '' '' # dumps ind lv x @ ?q @ ?e" "dumps ind lv x @ ?q @ ?e" n']
    by simp
  show ?case
  proof (cases "ms = []")
    case True
    with 10 n v show ?thesis by (simp add: json_string_def read_json_string)
  next
    case False
    obtain s where s: "item_separator ind lv = CHR '','' # s" "\<And>t. skip_space (s @ t) = skip_space t"
      using separator_comma by blast
    have "read_members n' (s @ dump_members ind lv ms @ ?e) = Some (ms, r)"
      using 10 n False read_members_skip [of "s @ dump_members ind lv ms @ ?e" "dump_members ind lv ms @ ?e" n'] s(2)
      by simp
    with v False n 10 show ?thesis by (simp add: json_string_def read_json_string s(1))
  qed
qed (case_tac n; force simp: read_keyword_def json_space_def)+

lemma separator_length: "\<exists>k. length (item_separator ind lv) = Suc k"
  by (simp add: item_separator_def split: option.splits)

lemma weight_length:
  "weight x \<le> length (dumps ind lv x)"
  "items_weight xs \<le> Suc (length (dump_items ind lv xs))"
  "members_weight ms \<le> Suc (length (dump_members ind lv ms))"
proof (induction ind lv x and ind lv xs and ind lv ms rule: dumps_dump_items_dump_members.induct)
  case (3 ind lv n)
  then show ?case using str_nat_nonempty [of n] by (cases "py_str_nat n") auto
next
  case (8 ind lv x xs)
  then show ?case using separator_length [of ind lv] by (elim exE) (cases "xs = []"; simp)
next
  case (10 ind lv k x ms)
  then show ?case using separator_length [of ind lv] by (elim exE) (cases "ms = []"; simp add: json_string_def)
qed (auto simp: json_string_def)

lemma json_loads_dumps: "json_ok x \<Longrightarrow> json_loads (dumps ind lv x) = Some x"
  using dumps_read(1) [of x "Suc (length (dumps ind lv x))" "[]" ind lv] weight_length(1) [of x ind lv]
  by (simp add: json_loads_def)

interpretation json: text_reader "dumps ind lv" json_loads "\<lambda>x. x" json_ok
  by unfold_locales (rule json_loads_dumps)

subsection \<open>ASCII on one line\<close>

lemma json_char_printable:
  assumes "n < 0x110000"
  shows "list_all (in_range 0x20 0x7E) (json_char n)"
proof -
  have h: "in_range 0x20 0x7E (hex_digit (k mod 16))" for k
  proof -
    have "k mod 16 < 16" by simp
    then show ?thesis by (auto simp: in_range_def hex_digit_def byte_char_of simp del: of_char_of)
  qed
  then have u: "list_all (in_range 0x20 0x7E) (u_escape k)" for k
    by (simp add: u_escape_def hex4_def in_range_def)
  have "in_range 0x20 0x7E (char_of n)" if "0x20 \<le> n" "n \<le> 0x7E"
    using that by (simp add: in_range_def byte_char_of del: of_char_of)
  with u show ?thesis by (auto simp: json_char_def in_range_def)
qed

lemma json_string_printable: "list_all scalar s \<Longrightarrow> list_all (in_range 0x20 0x7E) (json_string s)"
proof (induction s)
  case (Cons n s)
  then have "n < 0x110000" by (auto simp: scalar_def)
  from json_char_printable [OF this] Cons show ?case by (simp add: json_string_def)
qed (simp add: json_string_def in_range_def)

lemma str_nat_printable: "list_all (in_range 0x20 0x7E) (py_str_nat n)"
  using str_nat_digits [of n] by (auto simp: list_all_iff is_digit_def in_range_def)

lemma dumps_printable:
  "ind = None \<Longrightarrow> json_ok x \<Longrightarrow> list_all (in_range 0x20 0x7E) (dumps ind lv x)"
  "ind = None \<Longrightarrow> items_ok xs \<Longrightarrow> list_all (in_range 0x20 0x7E) (dump_items ind lv xs)"
  "ind = None \<Longrightarrow> members_ok ms \<Longrightarrow> list_all (in_range 0x20 0x7E) (dump_members ind lv ms)"
  by (induction ind lv x and ind lv xs and ind lv ms rule: dumps_dump_items_dump_members.induct)
    (auto simp: json_string_printable str_nat_printable line_break_def item_separator_def in_range_def)

lemma dumps_one_line: "json_ok x \<Longrightarrow> NL \<notin> set (dumps None lv x)"
  using dumps_printable(1) [of None x lv] by (auto simp: list_all_iff in_range_def)

end
