(* ===== verification/Report_Text.thy ===== *)
theory Report_Text
  imports Json_Text Report_Laws
begin

text \<open>
  The two files \<open>_write_report\<close> of \<^verbatim>\<open>scripts/abk_backport_engine.py\<close> leaves for a run of a child,
  the lines \<open>_log_summary\<close> prints, and the \<open>main\<close> of a child around them. The report directory is
  the map from its file names to their contents.
\<close>

subsection \<open>The report as JSON\<close>

abbreviation js :: "str \<Rightarrow> json" where "js t \<equiv> JStr (code_points t)"

abbreviation js_list :: "str list \<Rightarrow> json" where "js_list ts \<equiv> JList (map js ts)"

definition obj :: "(str \<times> json) list \<Rightarrow> json" where
  "obj ms = JObj (map (\<lambda>(k, x). (code_points k, x)) ms)"

definition shapes_json :: "shapes option \<Rightarrow> json" where
  "shapes_json sh = (case sh of None \<Rightarrow> obj [] | Some s \<Rightarrow> obj
     [(''fdtable_upstream_shape'', JBool (sh_fdtable_upstream_shape s)),
      (''suite_fdtable_fallback'', JBool (sh_suite_fdtable_fallback s)),
      (''block_rolled_back'', JBool (sh_block_rolled_back s))])"

definition summary_json :: "(status \<times> nat) list \<Rightarrow> json" where
  "summary_json s = obj (map (\<lambda>(st, n). (status_str st, JNum n)) s)"

definition result_json :: "group_result \<Rightarrow> json" where
  "result_json r = obj
     [(''key'', js (r_key r)), (''summary'', js (r_summary r)), (''commits'', js_list (r_commits r)),
      (''files'', js_list (r_files r)), (''status'', js (status_str (r_status r))), (''detail'', js (r_detail r))]"

definition report_json :: "report \<Rightarrow> json" where
  "report_json rp = obj
     [(''module'', js (rp_module rp)), (''child'', js (rp_child rp)),
      (''generated_at_utc'', js (rp_generated rp)), (''family'', js (rp_family rp)),
      (''sub_level'', js (rp_sub_level rp)), (''dry_run'', JBool (rp_dry_run rp)),
      (''defconfig'', case rp_defconfig rp of None \<Rightarrow> JNull | Some d \<Rightarrow> js d),
      (''defconfig_writable'', JBool (rp_defconfig_writable rp)),
      (''shapes'', shapes_json (rp_shapes rp)), (''pending_writes'', js_list (rp_pending_writes rp)),
      (''applied_groups'', js_list (rp_applied_groups rp)),
      (''status_summary'', summary_json (rp_status_summary rp)),
      (''groups'', JList (map result_json (rp_groups rp)))]"

subsection \<open>The Markdown table\<close>

definition markdown_row :: "group_result \<Rightarrow> str" where
  "markdown_row r = ''| '' @ r_key r @ '' | '' @ status_str (r_status r) @ '' | ''
     @ py_join ''<br>'' (r_commits r) @ '' | '' @ replace_all [NL] '' '' (r_detail r) @ '' |''"

definition markdown_head :: "report \<Rightarrow> str list" where
  "markdown_head rp =
     [''# '' @ rp_child rp @ '' report'', [],
      ''- generated: '' @ rp_generated rp,
      ''- family: '' @ rp_family rp @ '' (SUBLEVEL '' @ rp_sub_level rp @ '')'',
      ''- dry-run: '' @ (if rp_dry_run rp then ''True'' else ''False''),
      ''- shapes: '' @ dumps None 0 (shapes_json (rp_shapes rp)),
      ''- status summary: '' @ dumps None 0 (summary_json (rp_status_summary rp)), [],
      ''| group | status | commits | detail |'', ''|---|---|---|---|'']"

definition render_markdown :: "report \<Rightarrow> str" where
  "render_markdown rp = py_join [NL] (markdown_head rp @ map markdown_row (rp_groups rp) @ [[]])"

subsection \<open>Writing\<close>

type_synonym dir = "str \<Rightarrow> str option"

definition report_file :: "str \<Rightarrow> str \<Rightarrow> str" where
  "report_file child ext = child @ ''_report'' @ ext"

definition write_one :: "dir \<Rightarrow> str \<Rightarrow> str \<Rightarrow> dir" where
  \<comment> \<open>an existing report is saved once, then the file is written\<close>
  "write_one fs target text =
     (let b = target @ BACKUP_SUFFIX in
      (if fs target \<noteq> None \<and> fs b = None then fs(b := fs target) else fs)(target \<mapsto> text))"

definition write_report :: "str \<Rightarrow> report \<Rightarrow> dir \<Rightarrow> dir" where
  "write_report child rp fs =
     write_one (write_one fs (report_file child ''.json'') (dumps (Some 2) 0 (report_json rp)))
       (report_file child ''.md'') (render_markdown rp)"

definition log_summary :: "str \<Rightarrow> report \<Rightarrow> str list" where
  "log_summary child rp =
     map (\<lambda>r. ''[ABK stable_515_backport] '' @ child @ ''/'' @ r_key r @ '': '' @ status_str (r_status r)) (rp_groups rp)
     @ [''[ABK stable_515_backport] '' @ child @ '': '' @ dumps None 0 (summary_json (rp_status_summary rp))]"

definition unsupported_notice :: "str \<Rightarrow> str" where
  "unsupported_notice fam = ''[ABK stable_515_backport] unsupported family '' @ fam
     @ ''; every group reports report_only and nothing is written (pass --allow-unsupported to override)''"

definition child_main ::
  "str \<Rightarrow> group list \<Rightarrow> str \<Rightarrow> bool \<Rightarrow> gctx \<Rightarrow> dir \<Rightarrow> (exn + report) \<times> gctx \<times> dir \<times> str list" where
  \<comment> \<open>\<open>main\<close> after \<open>make_context\<close>: the outcome, the context, the report directory and what is printed\<close>
  "child_main child groups now allow g fs =
     (let enabled = main_enabled (family g) allow;
          notice = (if enabled then [] else [unsupported_notice (family g)]) in
      case run_child child now groups enabled g of
        (Inl e, h) \<Rightarrow> (Inl e, h, fs, notice)
      | (Inr rp, h) \<Rightarrow> (Inr rp, h, write_report child rp fs, notice @ log_summary child rp))"

subsection \<open>The JSON report\<close>

lemma members_ok_obj: "members_ok (map (\<lambda>(k, x). (code_points k, x)) ms) \<longleftrightarrow> list_all (json_ok \<circ> snd) ms"
  by (induction ms) (auto simp: code_points_scalar)

lemma json_ok_obj [simp]: "json_ok (obj ms) \<longleftrightarrow> list_all (json_ok \<circ> snd) ms"
  by (simp add: obj_def members_ok_obj)

lemma items_ok_map [simp]: "items_ok (map f xs) \<longleftrightarrow> list_all (json_ok \<circ> f) xs"
  by (induction xs) auto

lemma shapes_json_ok: "json_ok (shapes_json sh)"
  by (cases sh) (simp_all add: shapes_json_def)

lemma summary_json_ok: "json_ok (summary_json s)"
  by (auto simp: summary_json_def list_all_iff)

lemma report_json_ok: "json_ok (report_json rp)"
  by (cases "rp_defconfig rp")
    (simp_all add: report_json_def result_json_def shapes_json_ok summary_json_ok
      code_points_scalar [unfolded list_all_iff] list_all_iff)

subsection \<open>The lines of the table\<close>

lemma split_lines_join:
  "ls \<noteq> [] \<Longrightarrow> \<forall>l \<in> set ls. NL \<notin> set l \<Longrightarrow> split_on [NL] (py_join [NL] ls) = ls"
proof (induction ls)
  case (Cons l ls)
  show ?case
  proof (cases "ls = []")
    case True
    have "cut [NL] l = None" using Cons.prems by (auto simp: cut_None_iff sublist_def)
    with True show ?thesis by (subst split_on.simps) simp
  next
    case False
    have "cut [NL] (l @ NL # r) = Some (l, r)" if "NL \<notin> set l" for r
      using that by (induction l) auto
    with Cons False show ?thesis by (subst split_on.simps) (simp add: py_join_Cons)
  qed
qed simp

lemma replace_newlines: "NL \<notin> set (replace_all [NL] '' '' t)"
proof (induction t)
  case (Cons c t)
  then show ?case
    using replace_all_hit [of "[NL]" "'' ''" t] by (cases "c = NL") (simp_all add: replace_all_miss)
qed simp

lemma status_str_line: "NL \<notin> set (status_str s)"
  by (simp add: status_str_def split: status.splits)

lemma set_joined: "set (py_join s xs) \<subseteq> set s \<union> (\<Union>x \<in> set xs. set x)"
  by (induction s xs rule: py_join.induct) auto

definition one_line :: "group \<Rightarrow> bool" where
  "one_line G \<longleftrightarrow> NL \<notin> set (key G) \<and> list_all (\<lambda>c. NL \<notin> set c) (commits G)"

lemma markdown_row_line: "NL \<notin> set (r_key r) \<Longrightarrow> list_all (\<lambda>c. NL \<notin> set c) (r_commits r) \<Longrightarrow>
    NL \<notin> set (markdown_row r)"
  using set_joined [of "''<br>''" "r_commits r"] replace_newlines [of "r_detail r"] status_str_line [of "r_status r"]
  by (auto simp: markdown_row_def list_all_iff)

lemma markdown_lines:
  assumes "list_all (\<lambda>r. NL \<notin> set (r_key r) \<and> list_all (\<lambda>c. NL \<notin> set c) (r_commits r)) (rp_groups rp)"
    and "NL \<notin> set (rp_child rp) \<union> set (rp_generated rp) \<union> set (rp_family rp) \<union> set (rp_sub_level rp)"
  shows "split_on [NL] (render_markdown rp) = markdown_head rp @ map markdown_row (rp_groups rp) @ [[]]"
proof -
  have "\<forall>l \<in> set (markdown_head rp). NL \<notin> set l"
    using assms(2) dumps_one_line [OF shapes_json_ok [of "rp_shapes rp"], of 0]
      dumps_one_line [OF summary_json_ok [of "rp_status_summary rp"], of 0]
    by (auto simp: markdown_head_def)
  then show ?thesis
    unfolding render_markdown_def using assms(1) markdown_row_line
    by (intro split_lines_join) (auto simp: list_all_iff)
qed

subsection \<open>The report directory after a series of runs\<close>

definition history :: "dir \<Rightarrow> str \<Rightarrow> str list \<Rightarrow> str list" where
  \<comment> \<open>the contents a report file has had: what was there, then what was written\<close>
  "history fs target ts = (case fs target of None \<Rightarrow> [] | Some t \<Rightarrow> [t]) @ ts"

definition saved :: "dir \<Rightarrow> str \<Rightarrow> str list \<Rightarrow> str option" where
  \<comment> \<open>the backup of a report file: an old one, or the first contents once they are overwritten\<close>
  "saved fs target ts = (case fs (target @ BACKUP_SUFFIX) of Some b \<Rightarrow> Some b
     | None \<Rightarrow> (case history fs target ts of t # _ # _ \<Rightarrow> Some t | _ \<Rightarrow> None))"

definition after_writes :: "dir \<Rightarrow> str \<Rightarrow> str list \<Rightarrow> dir" where
  "after_writes fs target ts = (\<lambda>n.
     if n = target then (if history fs target ts = [] then None else Some (last (history fs target ts)))
     else if n = target @ BACKUP_SUFFIX then saved fs target ts else fs n)"

lemma backup_differs: "t @ BACKUP_SUFFIX \<noteq> t"
  by (simp add: BACKUP_SUFFIX_def)

lemma write_one_at:
  "write_one fs t x n = (if n = t then Some x
     else if n = t @ BACKUP_SUFFIX \<and> fs t \<noteq> None \<and> fs n = None then fs t else fs n)"
  by (auto simp: write_one_def Let_def)

lemma after_no_writes: "after_writes fs target [] = fs"
  by (rule ext) (simp add: after_writes_def saved_def history_def split: option.splits)

lemma after_write: "write_one (after_writes fs target ts) target t = after_writes fs target (ts @ [t])"
proof (rule ext)
  fix n
  show "write_one (after_writes fs target ts) target t n = after_writes fs target (ts @ [t]) n"
    using backup_differs [of target]
    by (cases "fs target"; cases ts; cases "tl ts")
      (auto simp: write_one_def after_writes_def saved_def history_def Let_def split: option.splits)
qed

lemma write_one_after_other:
  assumes "t \<notin> {u, u @ BACKUP_SUFFIX}" and "t @ BACKUP_SUFFIX \<notin> {u, u @ BACKUP_SUFFIX}"
  shows "write_one (after_writes fs u ts) t x = after_writes (write_one fs t x) u ts"
proof -
  have other: "write_one fs t x u = fs u" "write_one fs t x (u @ BACKUP_SUFFIX) = fs (u @ BACKUP_SUFFIX)"
    using assms by (auto simp: write_one_def Let_def)
  then have "history (write_one fs t x) u ts = history fs u ts" by (simp add: history_def)
  moreover from this other have "saved (write_one fs t x) u ts = saved fs u ts" by (simp add: saved_def split: option.split)
  moreover have "after_writes fs u ts t = fs t" "after_writes fs u ts (t @ BACKUP_SUFFIX) = fs (t @ BACKUP_SUFFIX)"
    using assms by (simp_all add: after_writes_def)
  moreover have "after_writes gs u ts n = gs n" if "n \<notin> {u, u @ BACKUP_SUFFIX}" for gs n
    using that by (simp add: after_writes_def)
  ultimately have "write_one (after_writes fs u ts) t x n = after_writes (write_one fs t x) u ts n" for n
    using assms by (cases "n \<in> {u, u @ BACKUP_SUFFIX}") (auto simp: after_writes_def write_one_at)
  then show ?thesis ..
qed

lemma report_files_apart:
  "report_file child ''.json'' \<noteq> report_file child ''.md''"
  "report_file child ''.json'' @ BACKUP_SUFFIX \<noteq> report_file child ''.md''"
  "report_file child ''.json'' \<noteq> report_file child ''.md'' @ BACKUP_SUFFIX"
  by (simp_all add: report_file_def BACKUP_SUFFIX_def)

lemma write_reports:
  "fold (write_report child) rps fs =
     after_writes (after_writes fs (report_file child ''.json'') (map (\<lambda>rp. dumps (Some 2) 0 (report_json rp)) rps))
       (report_file child ''.md'') (map render_markdown rps)"
proof (induction rps rule: rev_induct)
  case (snoc rp rps)
  then show ?case
    using report_files_apart [of child]
    by (simp add: write_report_def write_one_after_other after_write)
qed (simp add: after_no_writes)

end
