(* ===== verification/Report_Reader.thy ===== *)
theory Report_Reader
  imports Report_Text
begin

text \<open>
  A reader of the report file: the value a consumer of the JSON gets back, field by field by name,
  and the law that it is the report that was written.
\<close>

subsection \<open>Text from code points\<close>

definition encode_point :: "nat \<Rightarrow> str" where
  "encode_point n =
     (if n < 0x80 then [char_of n]
      else if n < 0x800 then [char_of (0xC0 + n div 0x40), char_of (0x80 + n mod 0x40)]
      else if n < 0x10000 then
        [char_of (0xE0 + n div 0x1000), char_of (0x80 + n div 0x40 mod 0x40), char_of (0x80 + n mod 0x40)]
      else [char_of (0xF0 + n div 0x40000), char_of (0x80 + n div 0x1000 mod 0x40),
            char_of (0x80 + n div 0x40 mod 0x40), char_of (0x80 + n mod 0x40)])"

definition encode_points :: "nat list \<Rightarrow> str" where
  "encode_points ns = concat (map encode_point ns)"

lemma encode_points_simps [simp]:
  "encode_points [] = []" "encode_points (n # ns) = encode_point n @ encode_points ns"
  by (simp_all add: encode_points_def)

lemma char_byte: "n = byte c \<Longrightarrow> char_of n = c"
  by simp

lemma encode_one: "in_range 0 0x7F a \<Longrightarrow> encode_point (byte a) = [a]"
  by (simp add: in_range_def encode_point_def)

lemma digits2:
  assumes "y < (64::nat)"
  shows "(x * 64 + y) div 64 = x" and "(x * 64 + y) mod 64 = y"
  using assms by simp_all

lemma encode_two:
  assumes "in_range 0xC2 0xDF a" and "cont_byte b"
  shows "encode_point ((byte a - 0xC0) * 0x40 + (byte b - 0x80)) = [a, b]"
proof -
  define x where "x = byte a - 0xC0"
  define y where "y = byte b - 0x80"
  have a: "byte a = 0xC0 + x" and b: "byte b = 0x80 + y" and r: "2 \<le> x" "x < 32" "y < 64"
    using assms by (auto simp: in_range_def x_def y_def)
  have "\<not> x * 64 + y < 0x80" "x * 64 + y < 0x800" using r by linarith+
  with digits2 [OF r(3), of x] show ?thesis
    by (simp add: encode_point_def a [symmetric] b [symmetric] flip: x_def y_def)
qed

lemma digits3:
  assumes "y < (64::nat)" and "z < 64"
  shows "(x * 4096 + y * 64 + z) div 4096 = x" and "(x * 4096 + y * 64 + z) div 64 mod 64 = y"
    and "(x * 4096 + y * 64 + z) mod 64 = z"
proof -
  have e: "x * 4096 + y * 64 + z = (x * 64 + y) * 64 + z" by simp
  have "(x * 4096 + y * 64 + z) div 64 = x * 64 + y" unfolding e by (rule digits2(1) [OF assms(2)])
  then show "(x * 4096 + y * 64 + z) div 64 mod 64 = y" using digits2(2) [OF assms(1), of x] by simp
  show "(x * 4096 + y * 64 + z) mod 64 = z" unfolding e by (rule digits2(2) [OF assms(2)])
  show "(x * 4096 + y * 64 + z) div 4096 = x" using assms by simp
qed

lemma encode_three:
  assumes "lead3 a b" and "cont_byte c"
  shows "encode_point ((byte a - 0xE0) * 0x1000 + (byte b - 0x80) * 0x40 + (byte c - 0x80)) = [a, b, c]"
proof -
  define x where "x = byte a - 0xE0"
  define y where "y = byte b - 0x80"
  define z where "z = byte c - 0x80"
  have a: "byte a = 0xE0 + x" and b: "byte b = 0x80 + y" and c: "byte c = 0x80 + z"
    and r: "y < 64" "z < 64" "x < 16" "x = 0 \<Longrightarrow> 32 \<le> y"
    using assms by (auto simp: in_range_def lead3_def x_def y_def z_def)
  have "\<not> x * 4096 + y * 64 + z < 0x800" using r(4) by (cases "x = 0") (simp, linarith)
  moreover have "x * 4096 + y * 64 + z < 0x10000" using r(1-3) by linarith
  ultimately show ?thesis using digits3 [OF r(1,2), of x]
    by (simp add: encode_point_def a [symmetric] b [symmetric] c [symmetric] flip: x_def y_def z_def)
qed

lemma digits4:
  assumes "y < (64::nat)" and "z < 64" and "w < 64"
  shows "(x * 262144 + y * 4096 + z * 64 + w) div 262144 = x"
    and "(x * 262144 + y * 4096 + z * 64 + w) div 4096 mod 64 = y"
    and "(x * 262144 + y * 4096 + z * 64 + w) div 64 mod 64 = z"
    and "(x * 262144 + y * 4096 + z * 64 + w) mod 64 = w"
proof -
  have e: "x * 262144 + y * 4096 + z * 64 + w = ((x * 64 + y) * 4096 + z * 64 + w)" by simp
  note d = digits3 [OF assms(2,3), of "x * 64 + y"]
  show "(x * 262144 + y * 4096 + z * 64 + w) div 4096 mod 64 = y"
    unfolding e d(1) by (rule digits2(2) [OF assms(1)])
  show "(x * 262144 + y * 4096 + z * 64 + w) div 64 mod 64 = z" unfolding e by (rule d(2))
  show "(x * 262144 + y * 4096 + z * 64 + w) mod 64 = w" unfolding e by (rule d(3))
  show "(x * 262144 + y * 4096 + z * 64 + w) div 262144 = x" using assms by simp
qed

lemma encode_four:
  assumes "lead4 a b" and "cont_byte c" and "cont_byte d"
  shows "encode_point ((byte a - 0xF0) * 0x40000 + (byte b - 0x80) * 0x1000 + (byte c - 0x80) * 0x40
    + (byte d - 0x80)) = [a, b, c, d]"
proof -
  define x where "x = byte a - 0xF0"
  define y where "y = byte b - 0x80"
  define z where "z = byte c - 0x80"
  define w where "w = byte d - 0x80"
  have a: "byte a = 0xF0 + x" and b: "byte b = 0x80 + y" and c: "byte c = 0x80 + z" and d: "byte d = 0x80 + w"
    and r: "y < 64" "z < 64" "w < 64" "x = 0 \<Longrightarrow> 16 \<le> y"
    using assms by (auto simp: in_range_def lead4_def x_def y_def z_def w_def)
  have "\<not> x * 262144 + y * 4096 + z * 64 + w < 0x10000" using r(4) by (cases "x = 0") (simp, linarith)
  then show ?thesis using digits4 [OF r(1-3), of x]
    by (simp add: encode_point_def a [symmetric] b [symmetric] c [symmetric] d [symmetric]
        flip: x_def y_def z_def w_def)
qed

lemma encode_code_points: "utf8_valid t \<Longrightarrow> encode_points (code_points t) = t"
proof (induction t rule: length_induct)
  case (1 t)
  note IH = "1.IH" [rule_format]
  show ?case
  proof (cases t)
    case (Cons a u)
    with "1.prems" have "utf8_valid (a # u)" by simp
    then show ?thesis
    proof (cases rule: utf8_valid_ConsE)
      case one
      with IH [of u] encode_one [OF one(1)] Cons show ?thesis by simp
    next
      case (two b v)
      with IH [of v] encode_two [OF two(3,4)] Cons show ?thesis by simp
    next
      case (three b c v)
      with IH [of v] encode_three [OF three(4,6)] Cons show ?thesis by simp
    next
      case (four b c d v)
      with IH [of v] encode_four [OF four(5,7,8)] Cons show ?thesis by simp
    qed
  qed simp
qed


subsection \<open>The report from its JSON\<close>

fun field :: "str \<Rightarrow> (json \<Rightarrow> 'a option) \<Rightarrow> json \<Rightarrow> 'a option" where
  \<comment> \<open>the member of that name, read by \<open>rd\<close>\<close>
  "field k rd (JObj ms) = Option.bind (map_of ms (code_points k)) rd"
| "field k rd _ = None"

fun text_of :: "json \<Rightarrow> str option" where
  "text_of (JStr s) = Some (encode_points s)"
| "text_of _ = None"

fun bool_of :: "json \<Rightarrow> bool option" where
  "bool_of (JBool b) = Some b"
| "bool_of _ = None"

fun nat_of :: "json \<Rightarrow> nat option" where
  "nat_of (JNum n) = Some n"
| "nat_of _ = None"

fun list_of :: "(json \<Rightarrow> 'a option) \<Rightarrow> json \<Rightarrow> 'a list option" where
  "list_of rd (JList xs) = those (map rd xs)"
| "list_of rd _ = None"

fun maybe :: "(json \<Rightarrow> 'a option) \<Rightarrow> json \<Rightarrow> 'a option option" where
  \<comment> \<open>\<^verbatim>\<open>null\<close> is \<open>None\<close>\<close>
  "maybe rd JNull = Some None"
| "maybe rd x = map_option Some (rd x)"

definition status_named :: "str \<Rightarrow> status option" where
  "status_named t = find (\<lambda>s. status_str s = t)
     [Applied, Partial, AlreadyPresent, SkipSuiteProcessed, ReportOnly, BlockedByMissingAnchor, BlockedByShape]"

definition status_of :: "json \<Rightarrow> status option" where
  "status_of j = Option.bind (text_of j) status_named"

fun summary_of :: "json \<Rightarrow> (status \<times> nat) list option" where
  "summary_of (JObj ms) = those (map (\<lambda>(k, x).
     Option.bind (status_named (encode_points k)) (\<lambda>st. map_option (Pair st) (nat_of x))) ms)"
| "summary_of _ = None"

definition shapes_of :: "json \<Rightarrow> shapes option option" where
  "shapes_of j = (if j = JObj [] then Some None else
     Option.bind (field ''fdtable_upstream_shape'' bool_of j) (\<lambda>a.
     Option.bind (field ''suite_fdtable_fallback'' bool_of j) (\<lambda>b.
     Option.bind (field ''block_rolled_back'' bool_of j) (\<lambda>c.
     Some (Some \<lparr>sh_fdtable_upstream_shape = a, sh_suite_fdtable_fallback = b, sh_block_rolled_back = c\<rparr>)))))"

definition result_of :: "json \<Rightarrow> group_result option" where
  "result_of j =
     Option.bind (field ''key'' text_of j) (\<lambda>key.
     Option.bind (field ''summary'' text_of j) (\<lambda>summary.
     Option.bind (field ''commits'' (list_of text_of) j) (\<lambda>commits.
     Option.bind (field ''files'' (list_of text_of) j) (\<lambda>files.
     Option.bind (field ''status'' status_of j) (\<lambda>status.
     Option.bind (field ''detail'' text_of j) (\<lambda>detail.
     Some \<lparr>r_key = key, r_summary = summary, r_commits = commits, r_files = files,
       r_status = status, r_detail = detail\<rparr>))))))"

definition report_of :: "json \<Rightarrow> report option" where
  "report_of j =
     Option.bind (field ''module'' text_of j) (\<lambda>module.
     Option.bind (field ''child'' text_of j) (\<lambda>child.
     Option.bind (field ''generated_at_utc'' text_of j) (\<lambda>generated.
     Option.bind (field ''family'' text_of j) (\<lambda>family.
     Option.bind (field ''sub_level'' text_of j) (\<lambda>sub.
     Option.bind (field ''dry_run'' bool_of j) (\<lambda>dry.
     Option.bind (field ''defconfig'' (maybe text_of) j) (\<lambda>dc.
     Option.bind (field ''defconfig_writable'' bool_of j) (\<lambda>writable.
     Option.bind (field ''shapes'' shapes_of j) (\<lambda>shapes.
     Option.bind (field ''pending_writes'' (list_of text_of) j) (\<lambda>pending.
     Option.bind (field ''applied_groups'' (list_of text_of) j) (\<lambda>applied.
     Option.bind (field ''status_summary'' summary_of j) (\<lambda>counts.
     Option.bind (field ''groups'' (list_of result_of) j) (\<lambda>results.
     Some \<lparr>rp_module = module, rp_child = child, rp_generated = generated, rp_family = family,
       rp_sub_level = sub, rp_dry_run = dry, rp_defconfig = dc, rp_defconfig_writable = writable,
       rp_shapes = shapes, rp_pending_writes = pending, rp_applied_groups = applied,
       rp_status_summary = counts, rp_groups = results\<rparr>)))))))))))))"

definition result_valid :: "group_result \<Rightarrow> bool" where
  \<comment> \<open>the texts of the result are texts\<close>
  "result_valid r \<longleftrightarrow> list_all utf8_valid ([r_key r, r_summary r, r_detail r] @ r_commits r @ r_files r)"

definition report_valid :: "report \<Rightarrow> bool" where
  "report_valid rp \<longleftrightarrow> list_all utf8_valid
       ([rp_module rp, rp_child rp, rp_generated rp, rp_family rp, rp_sub_level rp]
        @ (case rp_defconfig rp of None \<Rightarrow> [] | Some d \<Rightarrow> [d]) @ rp_pending_writes rp @ rp_applied_groups rp)
     \<and> list_all result_valid (rp_groups rp)"

lemma those_map: "list_all (\<lambda>x. f x = Some (g x)) xs \<Longrightarrow> those (map f xs) = Some (map g xs)"
  by (induction xs) auto

lemma text_of_js: "utf8_valid t \<Longrightarrow> text_of (js t) = Some t"
  by (simp add: encode_code_points)

lemma texts_of_js: "list_all utf8_valid ts \<Longrightarrow> list_of text_of (js_list ts) = Some ts"
  using those_map [of "text_of \<circ> js" id ts] by (simp add: list_all_iff encode_code_points)

lemma status_str_valid: "utf8_valid (status_str s)"
  by (cases s; simp only:) code_simp+

lemma status_named_str: "status_named (status_str s) = Some s"
  by (cases s; simp only:) code_simp+

lemma status_of_js: "status_of (js (status_str s)) = Some s"
  by (simp only: status_of_def text_of_js [OF status_str_valid] bind.bind_lunit status_named_str)

lemma summary_of_json: "summary_of (summary_json c) = Some c"
  by (induction c)
    (auto simp: summary_json_def obj_def encode_code_points [OF status_str_valid] status_named_str)

lemma code_points_eq: "utf8_valid t \<Longrightarrow> utf8_valid t' \<Longrightarrow> code_points t = code_points t' \<longleftrightarrow> t = t'"
  by (metis encode_code_points)

lemma field_obj:
  assumes "list_all (ascii \<circ> fst) ms" and "ascii k"
  shows "field k rd (obj ms) = Option.bind (map_of ms k) rd"
proof -
  have "map_of (map (\<lambda>(k, x). (code_points k, x)) ms) (code_points k) = map_of ms k"
    using assms by (induction ms) (auto simp: code_points_eq utf8_valid_ascii)
  then show ?thesis by (simp add: obj_def)
qed

lemma shapes_of_json: "shapes_of (shapes_json sh) = Some sh"
proof (cases sh)
  case (Some s)
  let ?ms = "[(''fdtable_upstream_shape'', JBool (sh_fdtable_upstream_shape s)),
      (''suite_fdtable_fallback'', JBool (sh_suite_fdtable_fallback s)),
      (''block_rolled_back'', JBool (sh_block_rolled_back s))]"
  have m: "list_all (ascii \<circ> fst) ?ms" by (simp add: in_range_def)
  have "obj ?ms \<noteq> JObj []" by (simp add: obj_def)
  then show ?thesis
    by (simp add: Some shapes_json_def shapes_of_def field_obj [OF m] in_range_def)
qed (simp add: shapes_json_def shapes_of_def obj_def)

lemma result_of_json:
  assumes "result_valid r"
  shows "result_of (result_json r) = Some r"
proof -
  let ?ms = "[(''key'', js (r_key r)), (''summary'', js (r_summary r)), (''commits'', js_list (r_commits r)),
      (''files'', js_list (r_files r)), (''status'', js (status_str (r_status r))), (''detail'', js (r_detail r))]"
  have m: "list_all (ascii \<circ> fst) ?ms" by (simp add: in_range_def)
  show ?thesis
    using assms
    by (simp add: result_json_def result_of_def field_obj [OF m] in_range_def result_valid_def texts_of_js
        status_of_js text_of_js del: text_of.simps list_of.simps)
qed

lemma report_of_json:
  assumes "report_valid rp"
  shows "report_of (report_json rp) = Some rp"
proof -
  have r: "list_of result_of (JList (map result_json (rp_groups rp))) = Some (rp_groups rp)"
    using those_map [of "result_of \<circ> result_json" id "rp_groups rp"] assms
    by (auto simp: report_valid_def list_all_iff result_of_json)
  have d: "maybe text_of (case rp_defconfig rp of None \<Rightarrow> JNull | Some d \<Rightarrow> js d) = Some (rp_defconfig rp)"
    using assms by (cases "rp_defconfig rp") (simp_all add: report_valid_def text_of_js del: text_of.simps)
  obtain ms where j: "report_json rp = obj ms" and ms: "ms =
     [(''module'', js (rp_module rp)), (''child'', js (rp_child rp)),
      (''generated_at_utc'', js (rp_generated rp)), (''family'', js (rp_family rp)),
      (''sub_level'', js (rp_sub_level rp)), (''dry_run'', JBool (rp_dry_run rp)),
      (''defconfig'', case rp_defconfig rp of None \<Rightarrow> JNull | Some d \<Rightarrow> js d),
      (''defconfig_writable'', JBool (rp_defconfig_writable rp)),
      (''shapes'', shapes_json (rp_shapes rp)), (''pending_writes'', js_list (rp_pending_writes rp)),
      (''applied_groups'', js_list (rp_applied_groups rp)),
      (''status_summary'', summary_json (rp_status_summary rp)),
      (''groups'', JList (map result_json (rp_groups rp)))]"
    by (simp add: report_json_def)
  have m: "list_all (ascii \<circ> fst) ms" by (simp add: ms in_range_def)
  show ?thesis
    using assms
    by (simp add: j report_of_def field_obj [OF m] in_range_def, simp add: ms report_valid_def texts_of_js
        text_of_js summary_of_json shapes_of_json d r del: text_of.simps list_of.simps maybe.simps)
qed

text \<open>The reader undoes the JSON file of a report.\<close>

interpretation report_text: text_reader "\<lambda>rp. dumps (Some 2) 0 (report_json rp)"
  "\<lambda>t. Option.bind (json_loads t) report_of" "\<lambda>rp. rp" report_valid
  by unfold_locales (simp add: json.get_put [OF report_json_ok] report_of_json)

end
