(* ===== verification/Config_Laws.thy ===== *)
theory Config_Laws
  imports Registry_Laws
begin

text \<open>
  \<open>GraftContext.enable_configs\<close>: the loop over the text refines an edit of the list of the
  defconfig's lines (\<open>set_config\<close>), every requested symbol is set after a run, and a second
  run finds nothing to do.
\<close>

subsection \<open>Splitting and joining lines\<close>

definition eols :: "str set" where
  "eols = {[NL], [CR, NL]}"

abbreviation clean :: "str \<Rightarrow> str \<Rightarrow> bool" where
  "clean j line \<equiv> \<not> contains j line"

lemma eols_nonempty [simp]: "j \<in> eols \<Longrightarrow> j \<noteq> []"
  by (auto simp: eols_def)

lemma joiner_in_eols [simp]: "joiner_of t \<in> eols"
  by (simp add: joiner_of_def eols_def)

lemma cut_clean: "cut p t = Some (a, b) \<Longrightarrow> p \<noteq> [] \<Longrightarrow> clean p a"
proof
  assume c: "cut p t = Some (a, b)" and p: "p \<noteq> []" and "contains p a"
  then obtain x y where "a = x @ p @ y" by (auto simp: sublist_def)
  with cut_SomeD [OF c] have "t = x @ p @ (y @ p @ b)" by simp
  from cut_leftmost [OF c this] \<open>a = x @ p @ y\<close> p show False by simp
qed

lemma split_on_clean: "j \<noteq> [] \<Longrightarrow> l \<in> set (split_on j t) \<Longrightarrow> clean j l"
proof (induction j t rule: split_on.induct)
  case (1 j t)
  show ?case
  proof (cases "cut j t")
    case None
    with "1.prems" have "l = t" by (subst (asm) split_on.simps) simp
    with None show ?thesis by (simp add: cut_None_iff)
  next
    case (Some ab)
    then obtain a b where c: "cut j t = Some (a, b)" by (cases ab) auto
    with "1.prems" have "l = a \<or> l \<in> set (split_on j b)" by (subst (asm) split_on.simps) simp
    with cut_clean [OF c] "1.IH" [OF _ c] "1.prems"(1) show ?thesis by auto
  qed
qed

lemma cut_join: "j \<in> eols \<Longrightarrow> clean j x \<Longrightarrow> cut j (x @ j @ r) = Some (x, r)"
proof (induction x)
  case Nil
  then show ?case by (simp add: cut_prefix)
next
  case (Cons c x)
  have "\<not> prefix j (c # x @ j @ r)"
    using Cons.prems by (cases x) (auto simp: eols_def prefix_def sublist_Cons_right)
  moreover have "clean j x" using Cons.prems(2) by (simp add: sublist_Cons_right)
  ultimately show ?case using Cons by simp
qed

lemma split_join:
  "j \<in> eols \<Longrightarrow> ls \<noteq> [] \<Longrightarrow> \<forall>l \<in> set ls. clean j l \<Longrightarrow> split_on j (py_join j ls) = ls"
proof (induction ls)
  case (Cons l ls)
  show ?case
  proof (cases "ls = []")
    case True
    then have "cut j l = None" using Cons.prems by (simp add: cut_None_iff)
    with True Cons.prems(1) show ?thesis by (subst split_on.simps) simp
  next
    case False
    with Cons show ?thesis
      by (subst split_on.simps) (simp add: py_join_Cons cut_join)
  qed
qed simp

lemma py_join_snoc_Nil: "ls \<noteq> [] \<Longrightarrow> py_join j (ls @ [[]]) = py_join j ls @ j"
proof (induction ls)
  case (Cons l ls)
  then show ?case by (cases "ls = []") (simp_all add: py_join_Cons)
qed simp

subsection \<open>The edit of the lines\<close>

definition set_config :: "str \<times> str \<Rightarrow> str list \<Rightarrow> str list" where
  \<comment> \<open>one symbol: leave, overwrite the first stale line, or append under the module's marker\<close>
  "set_config c ls = (let target = config_target (fst c) (snd c) in
     if target \<in> set ls then ls
     else case rewrite_first (config_stale (fst c) target) target ls of
         Some ls' \<Rightarrow> ls'
       | None \<Rightarrow> (if config_marker \<in> set ls then ls else ls @ [[], config_marker]) @ [target])"

definition plain_config :: "str \<times> str \<Rightarrow> bool" where
  \<comment> \<open>a symbol and a value as Kconfig writes them\<close>
  "plain_config c \<longleftrightarrow> CHR ''='' \<notin> set (fst c) \<and> NL \<notin> set (fst c @ snd c) \<and> CR \<notin> set (fst c @ snd c)"

lemma clean_NL: "j \<in> eols \<Longrightarrow> NL \<notin> set l \<Longrightarrow> clean j l"
  by (auto simp: eols_def sublist_def)

lemma target_clean: "j \<in> eols \<Longrightarrow> plain_config c \<Longrightarrow> clean j (config_target (fst c) (snd c))"
  by (rule clean_NL) (auto simp: plain_config_def config_target_def)

lemma marker_clean: "j \<in> eols \<Longrightarrow> clean j config_marker"
  by (rule clean_NL) (auto simp: config_marker_def MODULE_MARKER_def)

lemma set_config_clean:
  assumes "j \<in> eols" and "plain_config c" and "\<forall>l \<in> set ls. clean j l"
  shows "\<forall>l \<in> set (set_config c ls). clean j l"
proof -
  note t = target_clean [OF assms(1,2)] and m = marker_clean [OF assms(1)]
  have "clean j []" using assms(1) by simp
  with t m assms(3) show ?thesis
    by (auto simp: set_config_def Let_def dest!: rewrite_first_SomeD split: option.splits if_splits)
qed

lemma set_config_nonempty: "ls \<noteq> [] \<Longrightarrow> set_config c ls \<noteq> []"
  by (auto simp: set_config_def Let_def dest: rewrite_first_SomeD split: option.splits)

lemma set_config_present: "config_target (fst c) (snd c) \<in> set (set_config c ls)"
  by (auto simp: set_config_def Let_def dest: rewrite_first_SomeD split: option.splits)

lemma set_config_length: "length ls \<le> length (set_config c ls)"
  by (auto simp: set_config_def Let_def dest!: rewrite_first_SomeD split: option.splits)

lemma set_config_keeps:
  assumes "l \<in> set ls" and "\<not> config_stale (fst c) (config_target (fst c) (snd c)) l"
  shows "l \<in> set (set_config c ls)"
  using assms
  by (fastforce simp: set_config_def Let_def dest: rewrite_first_SomeD split: option.splits)

lemma target_not_stale:
  assumes "plain_config c" and "plain_config c'" and "fst c \<noteq> fst c'"
  shows "\<not> config_stale (fst c') t (config_target (fst c) (snd c))"
proof
  assume "config_stale (fst c') t (config_target (fst c) (snd c))"
  then have "prefix (fst c' @ ''='') (fst c @ ''='' @ snd c)"
    by (auto simp: config_stale_def config_target_def)
  then obtain r where r: "fst c @ CHR ''='' # snd c = fst c' @ CHR ''='' # r"
    by (auto simp: prefix_def)
  have "takeWhile (\<lambda>x. x \<noteq> CHR ''='') (fst c @ CHR ''='' # snd c) = fst c"
    "takeWhile (\<lambda>x. x \<noteq> CHR ''='') (fst c' @ CHR ''='' # r) = fst c'"
    using assms(1,2) by (auto simp: plain_config_def intro!: takeWhile_append2 [THEN trans])
  with r assms(3) show False by simp
qed

lemma set_configs_present:
  assumes "\<forall>c \<in> set cs. plain_config c" and "distinct (map fst cs)"
    and "c \<in> set cs"
  shows "config_target (fst c) (snd c) \<in> set (fold set_config cs ls)"
  using assms
proof (induction cs rule: rev_induct)
  case (snoc d cs)
  show ?case
  proof (cases "c = d")
    case True
    then show ?thesis by (simp add: set_config_present)
  next
    case False
    with snoc.prems have c: "c \<in> set cs" by auto
    then have "fst c \<in> fst ` set cs" by (rule imageI)
    moreover have "fst d \<notin> fst ` set cs" using snoc.prems(2) by simp
    ultimately have "fst c \<noteq> fst d" by metis
    moreover have "plain_config c" "plain_config d" using snoc.prems(1) c by auto
    moreover have "config_target (fst c) (snd c) \<in> set (fold set_config cs ls)"
      using snoc c by auto
    ultimately show ?thesis by (simp add: set_config_keeps target_not_stale)
  qed
qed simp

lemma set_configs_clean:
  "j \<in> eols \<Longrightarrow> \<forall>c \<in> set cs. plain_config c \<Longrightarrow> \<forall>l \<in> set ls. clean j l \<Longrightarrow>
   \<forall>l \<in> set (fold set_config cs ls). clean j l"
proof (induction cs arbitrary: ls)
  case (Cons c cs)
  have "\<forall>l \<in> set (set_config c ls). clean j l"
    by (rule set_config_clean [OF Cons.prems(1) _ Cons.prems(3)]) (use Cons.prems(2) in simp)
  with Cons show ?case by simp
qed simp

lemma set_configs_length: "length ls \<le> length (fold set_config cs ls)"
proof (induction cs arbitrary: ls)
  case (Cons c cs)
  from set_config_length [of ls c] Cons [of "set_config c ls"] show ?case by simp
qed simp

lemma set_configs_keeps:
  "l \<in> set ls \<Longrightarrow> \<forall>c \<in> set cs. \<not> config_stale (fst c) (config_target (fst c) (snd c)) l \<Longrightarrow>
   l \<in> set (fold set_config cs ls)"
  by (induction cs arbitrary: ls) (simp_all add: set_config_keeps)

subsection \<open>The loop refines the edit of the lines\<close>

lemma enable_loop_lines:
  assumes "j \<in> eols" and "\<forall>c \<in> set cs. plain_config c"
  shows "split_on j (fst (enable_loop j cs t a r)) = fold set_config cs (split_on j t)"
  using assms(2)
proof (induction cs arbitrary: t a r)
  case (Cons c cs)
  obtain n v where c: "c = (n, v)" by (cases c)
  let ?ls = "split_on j t" and ?target = "config_target n v"
  have step: "split_on j (py_join j (set_config c ?ls)) = set_config c ?ls"
  proof (rule split_join [OF assms(1)])
    show "set_config c ?ls \<noteq> []" by (simp add: set_config_nonempty)
    show "\<forall>l \<in> set (set_config c ?ls). clean j l"
      by (rule set_config_clean [OF assms(1)]) (use Cons.prems assms(1) split_on_clean in auto)
  qed
  have "\<exists>a' r'. enable_loop j (c # cs) t a r =
      enable_loop j cs (py_join j (set_config c ?ls)) a' r'"
  proof (cases "?target \<in> set ?ls")
    case True
    then have "enable_loop j (c # cs) t a r = enable_loop j cs t a r" by (simp add: c Let_def)
    with True show ?thesis by (auto simp: c set_config_def join_split)
  next
    case False
    then show ?thesis
      by (cases "rewrite_first (config_stale n ?target) ?target ?ls")
        (simp_all add: c set_config_def Let_def del: rewrite_first_None, blast+)
  qed
  with Cons step show ?case by auto
qed simp

lemma enable_loop_counts:
  "a \<le> fst (snd (enable_loop j cs t a r)) \<and> r \<le> snd (snd (enable_loop j cs t a r))"
proof (induction cs arbitrary: t a r)
  case (Cons c cs)
  obtain n v where c: "c = (n, v)" by (cases c)
  show ?case
    using Cons [where t = t and a = a and r = r] Cons [where a = a and r = "Suc r"]
      Cons [where a = "Suc a" and r = r]
    by (auto simp: c Let_def intro: Suc_leD split: option.split)
qed simp

lemma enable_loop_idle:
  "\<forall>c \<in> set cs. config_target (fst c) (snd c) \<in> set (split_on j t) \<Longrightarrow>
   enable_loop j cs t a r = (t, a, r)"
  by (induction cs) (auto simp: Let_def)

lemma enable_loop_unchanged:
  "enable_loop j cs t a r = (t', a, r) \<Longrightarrow>
   t' = t \<and> (\<forall>c \<in> set cs. config_target (fst c) (snd c) \<in> set (split_on j t))"
proof (induction cs)
  case (Cons c cs)
  obtain n v where c: "c = (n, v)" by (cases c)
  show ?case
  proof (cases "config_target n v \<in> set (split_on j t)")
    case True
    with Cons c show ?thesis by (simp add: Let_def)
  next
    case False
    then obtain u where "enable_loop j cs u a (Suc r) = (t', a, r) \<or>
        enable_loop j cs u (Suc a) r = (t', a, r)"
      using Cons.prems c by (auto simp: Let_def split: option.splits)
    then show ?thesis
      using enable_loop_counts [of a j cs u "Suc r"] enable_loop_counts [of "Suc a" j cs u r] by auto
  qed
qed simp

text \<open>The text \<open>enable_configs\<close> leaves behind.\<close>

definition configured :: "(str \<times> str) list \<Rightarrow> str \<Rightarrow> str" where
  "configured cs t =
     (let j = joiner_of t; (t1, a, r) = enable_loop j cs t 0 0 in
      if a = 0 \<and> r = 0 then t else if suffix j t1 then t1 else t1 @ j)"

lemma split_on_snoc:
  assumes "j \<in> eols"
  shows "split_on j (t @ j) = split_on j t @ [[]]"
proof -
  have "split_on j (py_join j (split_on j t @ [[]])) = split_on j t @ [[]]"
    by (rule split_join [OF assms]) (use assms split_on_clean in auto)
  then show ?thesis by (simp add: py_join_snoc_Nil join_split)
qed

lemma configured_lines:
  assumes "\<forall>c \<in> set cs. plain_config c"
  obtains (bare) "split_on (joiner_of t) (configured cs t) = fold set_config cs (split_on (joiner_of t) t)"
  | (ended) "split_on (joiner_of t) (configured cs t) = fold set_config cs (split_on (joiner_of t) t) @ [[]]"
proof -
  let ?j = "joiner_of t"
  obtain t1 a r where e: "enable_loop ?j cs t 0 0 = (t1, a, r)" by (cases "enable_loop ?j cs t 0 0")
  then have l: "split_on ?j t1 = fold set_config cs (split_on ?j t)"
    using enable_loop_lines [OF joiner_in_eols assms, of t t 0 0] by simp
  have idle: "a = 0 \<and> r = 0 \<Longrightarrow> t1 = t" using enable_loop_unchanged [of ?j cs t 0 0 t1] e by simp
  show thesis
  proof (cases "(a = 0 \<and> r = 0) \<or> suffix ?j t1")
    case True
    with e idle have "configured cs t = t1" by (auto simp: configured_def Let_def)
    with l bare show thesis by simp
  next
    case False
    then have "configured cs t = t1 @ ?j" using e by (auto simp: configured_def Let_def)
    with l ended split_on_snoc [of ?j t1] show thesis by simp
  qed
qed

lemma configured_set:
  assumes "\<forall>c \<in> set cs. plain_config c" and "distinct (map fst cs)" and "c \<in> set cs"
  shows "config_target (fst c) (snd c) \<in> set (split_on (joiner_of t) (configured cs t))"
  by (rule configured_lines [OF assms(1), of t]) (use set_configs_present [OF assms] in auto)

lemma configured_keeps:
  assumes "\<forall>c \<in> set cs. plain_config c" and "l \<in> set (split_on (joiner_of t) t)"
    and "\<forall>c \<in> set cs. \<not> config_stale (fst c) (config_target (fst c) (snd c)) l"
  shows "l \<in> set (split_on (joiner_of t) (configured cs t))"
  by (rule configured_lines [OF assms(1), of t]) (use set_configs_keeps [OF assms(2,3)] in auto)

subsection \<open>A second run\<close>

lemma set_config_all:
  assumes "P (config_target (fst c) (snd c))" and "P config_marker" and "P []" and "\<forall>l \<in> set ls. P l"
  shows "\<forall>l \<in> set (set_config c ls). P l"
  using assms
  by (auto simp: set_config_def Let_def dest!: rewrite_first_SomeD split: option.splits if_splits)

lemma set_configs_no_CR:
  "\<forall>c \<in> set cs. plain_config c \<Longrightarrow> \<forall>l \<in> set ls. CR \<notin> set l \<Longrightarrow>
   \<forall>l \<in> set (fold set_config cs ls). CR \<notin> set l"
proof (induction cs arbitrary: ls)
  case (Cons c cs)
  have "\<forall>l \<in> set (set_config c ls). CR \<notin> set l"
    by (rule set_config_all)
      (use Cons.prems in \<open>simp_all add: plain_config_def config_target_def config_marker_def MODULE_MARKER_def\<close>)
  with Cons show ?case by simp
qed simp

lemma set_py_join: "x \<in> set (py_join j ls) \<Longrightarrow> x \<in> set j \<or> (\<exists>l \<in> set ls. x \<in> set l)"
proof (induction ls)
  case (Cons l ls)
  then show ?case by (cases "ls = []") (auto simp: py_join_Cons)
qed simp

lemma set_split_on: "l \<in> set (split_on j t) \<Longrightarrow> set l \<subseteq> set t"
proof (induction j t rule: split_on.induct)
  case (1 j t)
  show ?case
  proof (cases "j = [] \<or> cut j t = None")
    case True
    then have "split_on j t = [t]" by (subst split_on.simps) auto
    with "1.prems" show ?thesis by simp
  next
    case False
    then obtain a b where c: "cut j t = Some (a, b)" and j: "j \<noteq> []" by (cases "cut j t") auto
    with "1.prems" have "l = a \<or> l \<in> set (split_on j b)" by (subst (asm) split_on.simps) simp
    with "1.IH" [OF j c refl] cut_SomeD [OF c] show ?thesis by auto
  qed
qed

lemma split_on_two: "j \<noteq> [] \<Longrightarrow> contains j t \<longleftrightarrow> 2 \<le> length (split_on j t)"
proof (cases "cut j t")
  case None
  then have "split_on j t = [t]" by (subst split_on.simps) simp
  with None show ?thesis by (simp add: cut_None_iff)
next
  case (Some ab)
  then obtain a b where c: "cut j t = Some (a, b)" by (cases ab) auto
  assume "j \<noteq> []"
  with c have "split_on j t = a # split_on j b" by (subst split_on.simps) simp
  moreover have "contains j t" using c cut_Some_iff_contains [of j t] by blast
  ultimately show ?thesis by (simp add: Suc_le_eq)
qed

definition no_lone_CR :: "str \<Rightarrow> bool" where
  "no_lone_CR t \<longleftrightarrow> (CR \<in> set t \<longrightarrow> contains [CR, NL] t)"

lemma configured_joiner:
  assumes p: "\<forall>c \<in> set cs. plain_config c" and l: "no_lone_CR t"
  shows "joiner_of (configured cs t) = joiner_of t"
proof (cases "contains [CR, NL] t")
  case True
  then have j: "joiner_of t = [CR, NL]" by (simp add: joiner_of_def)
  have "2 \<le> length (split_on [CR, NL] t)" using True split_on_two [of "[CR, NL]" t] by simp
  then have "2 \<le> length (fold set_config cs (split_on [CR, NL] t))"
    using set_configs_length [of "split_on [CR, NL] t" cs] by simp
  then have "2 \<le> length (split_on [CR, NL] (configured cs t))"
    by (rule_tac configured_lines [OF p, of t, unfolded j]) simp_all
  then show ?thesis
    using split_on_two [of "[CR, NL]" "configured cs t"] j by (simp add: joiner_of_def)
next
  case False
  then have j: "joiner_of t = [NL]" and c: "CR \<notin> set t"
    using l by (simp_all add: joiner_of_def no_lone_CR_def)
  have "\<forall>l \<in> set (fold set_config cs (split_on [NL] t)). CR \<notin> set l"
    by (rule set_configs_no_CR [OF p]) (use set_split_on c in blast)
  then have "\<forall>l \<in> set (split_on [NL] (configured cs t)). CR \<notin> set l"
    by (rule_tac configured_lines [OF p, of t, unfolded j]) simp_all
  then have "CR \<notin> set (configured cs t)"
    using set_py_join [of CR "[NL]" "split_on [NL] (configured cs t)"] by (auto simp: join_split)
  then have "\<not> contains [CR, NL] (configured cs t)" by (auto simp: sublist_def)
  with j show ?thesis by (simp add: joiner_of_def)
qed

lemma configured_again:
  assumes "\<forall>c \<in> set cs. plain_config c" and "distinct (map fst cs)" and "no_lone_CR t"
  shows "configured cs (configured cs t) = configured cs t"
proof -
  have "\<forall>c \<in> set cs. config_target (fst c) (snd c)
      \<in> set (split_on (joiner_of (configured cs t)) (configured cs t))"
    using configured_set [OF assms(1,2)] configured_joiner [OF assms(1,3)] by simp
  then show ?thesis by (simp add: configured_def [of cs "configured cs t"] enable_loop_idle)
qed

subsection \<open>When the defconfig changes\<close>

lemma enable_loop_busy:
  assumes "enable_loop j cs t 0 0 = (t1, a, k)" and "\<not> (a = 0 \<and> k = 0)"
  shows "\<exists>c \<in> set cs. config_target (fst c) (snd c) \<notin> set (split_on j t)"
  using enable_loop_idle [of cs j t 0 0] assms by auto

lemma configured_changes:
  assumes "\<forall>c \<in> set cs. plain_config c" and "distinct (map fst cs)"
    and "\<exists>c \<in> set cs. config_target (fst c) (snd c) \<notin> set (split_on (joiner_of t) t)"
  shows "configured cs t \<noteq> t"
  using configured_set [OF assms(1,2)] assms(3) by metis

lemma set_configs_all:
  assumes "P config_marker" and "P []"
  shows "\<forall>c \<in> set cs. P (config_target (fst c) (snd c)) \<Longrightarrow> \<forall>l \<in> set ls. P l \<Longrightarrow>
    \<forall>l \<in> set (fold set_config cs ls). P l"
proof (induction cs arbitrary: ls)
  case (Cons c cs)
  have "\<forall>l \<in> set (set_config c ls). P l"
    by (rule set_config_all) (use assms Cons.prems in simp_all)
  with Cons show ?case by simp
qed simp

lemma configured_all:
  assumes "\<forall>c \<in> set cs. plain_config c" and "P config_marker" and "P []"
    and "\<forall>c \<in> set cs. P (config_target (fst c) (snd c))" and "\<forall>l \<in> set (split_on (joiner_of t) t). P l"
  shows "\<forall>l \<in> set (split_on (joiner_of t) (configured cs t)). P l"
  by (rule configured_lines [OF assms(1), of t])
    (use set_configs_all [of P, OF assms(2-5)] assms(3) in auto)

subsection \<open>\<open>enable_configs\<close> on a readable defconfig\<close>

lemma enable_configs_run:
  assumes c: "coherent g" and d: "defconfig_rel g = Some rel" and s: "seen g rel = Some t"
    and nb: "\<not> is_backup rel"
  obtains (present) h m where "enable_configs cs g = (Inr (AlreadyPresent, m), h)" "unwritten g h"
      "coherent h" "seen h rel = Some (configured cs t)" "configured cs t = t"
      "\<forall>c \<in> set cs. config_target (fst c) (snd c) \<in> set (split_on (joiner_of t) t)"
  | (written) h m where "enable_configs cs g = (Inr (Applied, m), h)"
      "coherent h" "seen h rel = Some (configured cs t)" "rel \<in> set (dirty h)"
      "defconfig_rel h = Some rel"
      "\<exists>c \<in> set cs. config_target (fst c) (snd c) \<notin> set (split_on (joiner_of t) t)"
proof -
  obtain g1 where r: "ctx_read rel g = (Inr t, g1)" and u: "unwritten g g1"
    and t: "texts g1 rel = Some t"
    using s quiet.R_read [of g rel] ctx_read_Inr by (cases "ctx_read rel g") (fastforce simp: ctx_read_seen)
  have c1: "coherent g1" using coherent_read [OF c, of rel] r by simp
  have d1: "defconfig_rel g1 = Some rel" using u d by (simp add: unwritten_def same_consts_def)
  let ?j = "joiner_of t"
  obtain t1 a k where e: "enable_loop ?j cs t 0 0 = (t1, a, k)" by (cases "enable_loop ?j cs t 0 0")
  show thesis
  proof (cases "a = 0 \<and> k = 0")
    case True
    then have "configured cs t = t" using e by (simp add: configured_def Let_def)
    moreover have "\<forall>c \<in> set cs. config_target (fst c) (snd c) \<in> set (split_on ?j t)"
      using True e enable_loop_unchanged [of ?j cs t 0 0 t1] by simp
    moreover have "seen g1 rel = Some t" using t by (simp add: seen_def)
    ultimately show thesis
      using True r e d present [of _ g1] u c1
      by (simp add: enable_configs_def io_bind_def [of "ctx_read rel"] io_ret_def Let_def)
  next
    case False
    define t2 where "t2 = configured cs t"
    have t2: "t2 = (if suffix ?j t1 then t1 else t1 @ ?j)"
      using False e by (auto simp: t2_def configured_def Let_def)
    have dom: "rel \<in> dom (texts g1)" using t by auto
    obtain h where w: "ctx_write rel t2 g1 = (Inr (), h)" and ch: "coherent h"
      using coherent_write [OF c1 dom, of t2] by (cases "ctx_write rel t2 g1") simp
    have "seen h rel = Some t2" "rel \<in> set (dirty h)" "defconfig_rel h = Some rel"
      using seen_write [OF c1 dom nb, of t2] dirty_write [OF c1 dom, of t2] w d1
        steady.R_write [of rel "\<lambda>_. UNIV" g1 t2] dom
      by (simp_all add: same_consts_def)
    moreover have "enable_configs cs g = (Inr (Applied, py_str_nat a @ '' appended, '' @
        py_str_nat k @ '' rewritten in '' @ rel), h)"
      using False r e d w
      by (simp add: enable_configs_def io_bind_def [of "ctx_read rel"] io_bind_def [of "ctx_write rel t2"]
          io_ret_def Let_def flip: t2)
    ultimately show thesis using written ch enable_loop_busy [OF e False] unfolding t2_def by blast
  qed
qed

end
