(* ===== verification/Cmdline_Laws.thy ===== *)
theory Cmdline_Laws
  imports Config_Laws
begin

text \<open>
  \<open>GraftContext.defconfig_drop_cmdline_token\<close>: \<open>str.split()\<close> reads back the tokens that
  \<open>" ".join\<close> wrote, so the rewritten \<^verbatim>\<open>CONFIG_CMDLINE\<close> line has exactly the other tokens.
\<close>

subsection \<open>White space next to a token\<close>

definition spaced :: "str \<Rightarrow> bool" where
  \<comment> \<open>what follows a token: the end of the text, or a space\<close>
  "spaced r \<longleftrightarrow> r = [] \<or> (\<exists>r'. r = CHR '' '' # r')"

definition ws_code :: "nat \<Rightarrow> nat list \<Rightarrow> nat" where
  \<comment> \<open>\<open>ws_len\<close> on the code of the first byte and those of at most two more\<close>
  "ws_code n bs =
     (if (0x09 \<le> n \<and> n \<le> 0x0D) \<or> (0x1C \<le> n \<and> n \<le> 0x20) then 1
      else case bs of
          b # cs \<Rightarrow>
            if n = 0xC2 \<and> (b = 0x85 \<or> b = 0xA0) then 2
            else (case cs of
                [c] \<Rightarrow>
                  if (n = 0xE1 \<and> b = 0x9A \<and> c = 0x80) \<or>
                     (n = 0xE2 \<and> b = 0x80 \<and> (0x80 \<le> c \<and> c \<le> 0x8A \<or> c \<in> {0xA8, 0xA9, 0xAF})) \<or>
                     (n = 0xE2 \<and> b = 0x81 \<and> c = 0x9F) \<or>
                     (n = 0xE3 \<and> b = 0x80 \<and> c = 0x80) then 3 else 0
              | _ \<Rightarrow> 0)
        | [] \<Rightarrow> 0)"

lemma ws_len_code: "ws_len (a # t) = ws_code (of_char a) (map of_char (take 2 t))"
  by (simp add: ws_len.simps(2) ws_code_def Let_def)

lemma ws_code_Nil: "ws_code n bs = 0 \<Longrightarrow> ws_code n [] = 0"
  by (auto simp: ws_code_def split: if_splits)

lemma ws_code_space: "ws_code n [] = 0 \<Longrightarrow> ws_code n (32 # cs) = 0"
  by (auto simp: ws_code_def split: if_splits list.splits)

lemma ws_code_one:
  assumes "ws_code n (b # bs) = 0"
  shows "ws_code n [b] = 0" and "ws_code n [b, 32] = 0"
  using assms by (auto simp: ws_code_def split: if_splits)

lemma ws_len_spaced:
  assumes z: "ws_len (s @ orig) = 0" and "s \<noteq> []" and r: "spaced r"
  shows "ws_len (s @ r) = 0"
proof -
  from assms(2) obtain a u where s: "s = a # u" by (cases s) auto
  have z: "ws_code (of_char a) (map of_char (take 2 (u @ orig))) = 0"
    using z by (simp add: s ws_len_code)
  consider "u = []" | b where "u = [b]" | b c v where "u = b # c # v"
    by (metis list.exhaust)
  then have "ws_code (of_char a) (map of_char (take 2 (u @ r))) = 0"
  proof cases
    case 1
    with r ws_code_Nil [OF z] show ?thesis by (auto simp: spaced_def intro: ws_code_space)
  next
    case 2
    with z have "ws_code (of_char a) (of_char b # map of_char (take 1 orig)) = 0" by simp
    from ws_code_one [OF this] r 2 show ?thesis by (auto simp: spaced_def)
  next
    case 3
    with z show ?thesis by simp
  qed
  then show ?thesis by (simp add: s ws_len_code)
qed

definition solid :: "str \<Rightarrow> bool" where
  \<comment> \<open>a token: not empty, and no white space starts in it\<close>
  "solid s \<longleftrightarrow> s \<noteq> [] \<and> (\<forall>n < length s. \<forall>r. spaced r \<longrightarrow> ws_len (drop n s @ r) = 0)"

lemma solidI:
  assumes "cur \<noteq> []" and "\<forall>n < length cur. ws_len (drop n (rev cur) @ orig) = 0"
  shows "solid (rev cur)"
  unfolding solid_def
proof (intro conjI allI impI)
  fix n r
  assume "n < length (rev cur)" and "spaced r"
  with assms show "ws_len (drop n (rev cur) @ r) = 0"
    by (rule_tac ws_len_spaced [where orig = orig]) simp_all
qed (use assms(1) in simp)

lemma ws_split_solid_gen:
  assumes "\<forall>n < length cur. ws_len (drop n (rev cur) @ t) = 0" and "tok \<in> set (ws_split cur t)"
  shows "solid tok"
  using assms
proof (induction cur t rule: ws_split.induct)
  case (1 cur)
  then have "tok = rev cur" and "cur \<noteq> []" by (auto split: if_splits)
  with solidI [OF this(2) "1.prems"(1)] show ?case by simp
next
  case (2 cur c t)
  show ?case
  proof (cases "ws_len (c # t) = 0")
    case True
    have "\<forall>n < length (c # cur). ws_len (drop n (rev (c # cur)) @ t) = 0"
    proof (intro allI impI)
      fix n
      assume "n < length (c # cur)"
      then show "ws_len (drop n (rev (c # cur)) @ t) = 0"
        using "2.prems"(1) True by (cases "n = length cur") auto
    qed
    with "2.IH"(1) True "2.prems"(2) show ?thesis by simp
  next
    case False
    with "2.prems"(2) consider "tok = rev cur" "cur \<noteq> []"
      | "tok \<in> set (ws_split [] (drop (ws_len (c # t) - 1) t))"
      by (auto split: if_splits)
    then show ?thesis
    proof cases
      case 1
      with solidI [OF this(2) "2.prems"(1)] show ?thesis by simp
    next
      case 2
      with "2.IH"(2) False show ?thesis by simp
    qed
  qed
qed

lemma ws_split_solid: "tok \<in> set (ws_split [] t) \<Longrightarrow> solid tok"
  by (rule ws_split_solid_gen [of "[]" t]) simp_all

subsection \<open>\<open>" ".join(tokens).split()\<close>\<close>

lemma ws_split_token:
  assumes "\<forall>n < length s. ws_len (drop n s @ r) = 0"
  shows "ws_split cur (s @ r) = ws_split (rev s @ cur) r"
  using assms
proof (induction s arbitrary: cur)
  case (Cons c s)
  have "ws_len (c # s @ r) = 0" using Cons.prems by (metis append_Cons drop0 length_greater_0_conv list.distinct(1))
  moreover have "\<forall>n < length s. ws_len (drop n s @ r) = 0"
    using Cons.prems by (metis Suc_less_eq drop_Suc_Cons length_Cons)
  ultimately show ?case using Cons.IH [of "c # cur"] by simp
qed simp

lemma ws_len_space: "ws_len (CHR '' '' # t) = 1"
  by (simp add: ws_len.simps(2) Let_def)

lemma ws_split_join: "\<forall>s \<in> set toks. solid s \<Longrightarrow> ws_split [] (py_join '' '' toks) = toks"
proof (induction toks)
  case (Cons s toks)
  have s: "solid s" using Cons.prems by simp
  then have ne: "s \<noteq> []" by (simp add: solid_def)
  show ?case
  proof (cases "toks = []")
    case True
    have "ws_split [] (s @ []) = ws_split (rev s @ []) []"
      by (rule ws_split_token) (use s in \<open>simp add: solid_def spaced_def\<close>)
    with True ne show ?thesis by simp
  next
    case False
    let ?r = "CHR '' '' # py_join '' '' toks"
    have "ws_split [] (s @ ?r) = ws_split (rev s @ []) ?r"
      by (rule ws_split_token) (use s in \<open>simp add: solid_def spaced_def\<close>)
    moreover have "ws_split (rev s @ []) ?r = s # ws_split [] (py_join '' '' toks)"
      using ne by (simp add: ws_len_space)
    ultimately show ?thesis using False Cons by (simp add: py_join_Cons)
  qed
qed simp

subsection \<open>The rewritten line\<close>

lemma cmdline_tokens_line:
  "cmdline_tokens (cmdline_head @ body @ [DQ]) = ws_split [] body"
  by (simp add: cmdline_tokens_def)

lemma drop_token_tokens:
  assumes "cmdline_line l"
  shows "cmdline_line (drop_token token l)"
    and "cmdline_tokens (drop_token token l) = filter (\<lambda>x. x \<noteq> token) (cmdline_tokens l)"
proof -
  have "\<forall>s \<in> set (filter (\<lambda>x. x \<noteq> token) (cmdline_tokens l)). solid s"
    unfolding cmdline_tokens_def using ws_split_solid by auto
  then show "cmdline_tokens (drop_token token l) = filter (\<lambda>x. x \<noteq> token) (cmdline_tokens l)"
    using assms by (auto simp: drop_token_def cmdline_tokens_line ws_split_join intro!: filter_True [symmetric])
  show "cmdline_line (drop_token token l)"
    using assms by (auto simp: drop_token_def cmdline_line_def suffix_def)
qed

lemma drop_token_other: "\<not> cmdline_line l \<Longrightarrow> drop_token token l = l"
  by (simp add: drop_token_def)

lemma solid_no_NL: "solid s \<Longrightarrow> NL \<notin> set s"
proof
  assume s: "solid s" and "NL \<in> set s"
  then obtain a b where ab: "s = a @ NL # b" by (auto simp: in_set_conv_decomp)
  have "length a < length s" and "spaced []" using ab by (simp_all add: spaced_def)
  with s have "ws_len (drop (length a) s @ []) = 0" unfolding solid_def by blast
  with ab show False by (simp add: ws_len.simps(2) Let_def)
qed

lemma drop_token_clean:
  assumes "j \<in> eols" and "clean j l"
  shows "clean j (drop_token token l)"
proof (cases "cmdline_line l \<and> token \<in> set (cmdline_tokens l)")
  case True
  let ?toks = "filter (\<lambda>x. x \<noteq> token) (cmdline_tokens l)"
  have "NL \<notin> set s" if "s \<in> set ?toks" for s
    using that by (intro solid_no_NL) (auto simp: cmdline_tokens_def intro: ws_split_solid)
  then have "NL \<notin> set (py_join '' '' ?toks)" using set_py_join [of NL "'' ''" ?toks] by auto
  with True show ?thesis
    by (intro clean_NL [OF assms(1)]) (auto simp: drop_token_def cmdline_head_def)
next
  case False
  then have "drop_token token l = l" unfolding drop_token_def by (rule if_not_P)
  with assms(2) show ?thesis by simp
qed

definition token_dropped :: "str \<Rightarrow> str \<Rightarrow> str" where
  "token_dropped token t = py_join (joiner_of t) (map (drop_token token) (split_on (joiner_of t) t))"

lemma token_dropped_lines:
  "split_on (joiner_of t) (token_dropped token t) = map (drop_token token) (split_on (joiner_of t) t)"
  unfolding token_dropped_def
  by (rule split_join) (use split_on_clean drop_token_clean in auto)

lemma token_dropped_gone:
  assumes "l \<in> set (split_on (joiner_of t) (token_dropped token t))" and "cmdline_line l"
  shows "token \<notin> set (cmdline_tokens l)"
proof -
  from assms(1) obtain l0 where l0: "l = drop_token token l0"
    by (auto simp: token_dropped_lines)
  show ?thesis
  proof (cases "cmdline_line l0")
    case True
    with l0 drop_token_tokens(2) [OF True, of token] show ?thesis by simp
  next
    case False
    with l0 assms(2) show ?thesis by (simp add: drop_token_other)
  qed
qed

lemma drop_cmdline_run:
  assumes c: "coherent g" and d: "defconfig_rel g = Some rel" and s: "seen g rel = Some t"
    and nb: "\<not> is_backup rel"
  obtains (absent) h m where "defconfig_drop_cmdline_token token g = (Inr (BlockedByMissingAnchor, m), h)"
      "unwritten g h" "\<forall>l \<in> set (split_on (joiner_of t) t). \<not> cmdline_line l"
  | (clear) h m where "defconfig_drop_cmdline_token token g = (Inr (AlreadyPresent, m), h)"
      "unwritten g h" "\<forall>l \<in> set (split_on (joiner_of t) t). cmdline_line l \<longrightarrow> token \<notin> set (cmdline_tokens l)"
  | (dropped) h m where "defconfig_drop_cmdline_token token g = (Inr (Applied, m), h)"
      "coherent h" "seen h rel = Some (token_dropped token t)"
proof -
  obtain g1 where r: "ctx_read rel g = (Inr t, g1)" and u: "unwritten g g1"
    and t: "texts g1 rel = Some t"
    using s quiet.R_read [of g rel] ctx_read_Inr by (cases "ctx_read rel g") (fastforce simp: ctx_read_seen)
  have c1: "coherent g1" using coherent_read [OF c, of rel] r by simp
  let ?ls = "split_on (joiner_of t) t"
  let ?hit = "\<lambda>l. cmdline_line l \<and> token \<in> set (cmdline_tokens l)"
  note run = defconfig_drop_cmdline_token_def io_bind_def [of "ctx_read rel"] io_ret_def Let_def
  show thesis
  proof (cases "list_ex cmdline_line ?ls")
    case False
    with r d u absent show thesis by (auto simp: run list_ex_iff)
  next
    case seen: True
    show thesis
    proof (cases "list_ex ?hit ?ls")
      case False
      with seen r d u clear show thesis by (auto simp: run list_ex_iff)
    next
      case True
      have dom: "rel \<in> dom (texts g1)" using t by auto
      obtain h where w: "ctx_write rel (token_dropped token t) g1 = (Inr (), h)" and ch: "coherent h"
        using coherent_write [OF c1 dom, of "token_dropped token t"]
        by (cases "ctx_write rel (token_dropped token t) g1") auto
      have "seen h rel = Some (token_dropped token t)"
        using seen_write [OF c1 dom nb, of "token_dropped token t"] w by simp
      with seen True r d w ch dropped show thesis
        by (simp add: run io_bind_def [of "ctx_write rel _"] flip: token_dropped_def)
    qed
  qed
qed

lemma drop_cmdline_missing:
  assumes d: "defconfig_rel g = Some rel" and s: "seen g rel = Some t"
    and no: "\<forall>l \<in> set (split_on (joiner_of t) t). \<not> cmdline_line l"
  obtains h m where "defconfig_drop_cmdline_token token g = (Inr (BlockedByMissingAnchor, m), h)" "unwritten g h"
proof -
  obtain g1 where r: "ctx_read rel g = (Inr t, g1)" and u: "unwritten g g1"
    using s quiet.R_read [of g rel] by (cases "ctx_read rel g") (fastforce simp: ctx_read_seen)
  have "\<not> list_ex cmdline_line (split_on (joiner_of t) t)" using no by (auto simp: list_ex_iff)
  with r d have "defconfig_drop_cmdline_token token g =
      (Inr (BlockedByMissingAnchor, ''no CONFIG_CMDLINE line in '' @ rel), g1)"
    by (simp add: defconfig_drop_cmdline_token_def io_bind_def [of "ctx_read rel"] io_ret_def Let_def)
  then show thesis using u by (rule that)
qed

end
