(* ===== verification/Core_Config_Laws.thy ===== *)
theory Core_Config_Laws
  imports Cmdline_Laws Core_Registry
begin

text \<open>
  The group \<open>config_enablement\<close> with the PSI tier on: \<open>enable_configs\<close> writes the defconfig, then
  \<open>defconfig_drop_cmdline_token\<close> looks for the \<^verbatim>\<open>CONFIG_CMDLINE\<close> line.
\<close>

definition tier_configs :: "gctx \<Rightarrow> (str \<times> str) list" where
  \<comment> \<open>the symbols the run asks for\<close>
  "tier_configs g = MODULE_CONFIGS
     @ (if env_flag ''ABK_515_DEFCONFIG_ALIGN'' (environ g) then ALIGN_CONFIGS else [])
     @ (if env_flag ''ABK_515_DEFCONFIG_ROM'' (environ g) then ROM_CONFIGS else [])"

lemma tier_configs_facts:
  "\<forall>c \<in> set (tier_configs g). plain_config c" "distinct (map fst (tier_configs g))"
  "\<forall>c \<in> set (tier_configs g). \<not> cmdline_line (config_target (fst c) (snd c))"
proof -
  let ?all = "MODULE_CONFIGS @ ALIGN_CONFIGS @ ROM_CONFIGS"
  have all: "list_all (\<lambda>c. plain_config c \<and> \<not> cmdline_line (config_target (fst c) (snd c))) ?all"
    "distinct (map fst ?all)" by code_simp+
  moreover have "set (tier_configs g) \<subseteq> set ?all" by (auto simp: tier_configs_def)
  ultimately show "\<forall>c \<in> set (tier_configs g). plain_config c"
    "\<forall>c \<in> set (tier_configs g). \<not> cmdline_line (config_target (fst c) (snd c))"
    unfolding list_all_iff by blast+
  from all(2) show "distinct (map fst (tier_configs g))" by (auto simp: tier_configs_def)
qed

lemma config_enablement_psi:
  assumes psi: "env_flag ''ABK_515_DEFCONFIG_PSI'' (environ g)"
    and e: "enable_configs (tier_configs g) g = (Inr (st, m), g1)"
    and x: "defconfig_drop_cmdline_token PSI_CMDLINE_TOKEN g1 = (Inr (BlockedByMissingAnchor, m'), h)"
  shows "\<exists>d. config_enablement_apply g = (Inr (BlockedByMissingAnchor, d), h)"
proof -
  define A where "A = env_flag ''ABK_515_DEFCONFIG_ALIGN'' (environ g)"
  define R where "R = env_flag ''ABK_515_DEFCONFIG_ROM'' (environ g)"
  from e have e': "enable_configs (MODULE_CONFIGS @ (if A then ALIGN_CONFIGS else []) @ (if R then ROM_CONFIGS else [])) g = (Inr (st, m), g1)"
    by (simp only: tier_configs_def A_def R_def)
  show ?thesis
    unfolding config_enablement_apply_def io_bind_get A_def [symmetric] R_def [symmetric] Let_def
    using psi by (simp add: io_bind_def e' x io_ret_def)
qed


lemma psi_lane_run:
  assumes c: "coherent g" and nd: "\<not> dry_run g" and d: "defconfig_rel g = Some rel" and s: "seen g rel = Some t"
    and nb: "\<not> is_backup rel" and cr: "no_lone_CR t"
    and psi: "env_flag ''ABK_515_DEFCONFIG_PSI'' (environ g)"
    and no: "\<forall>l \<in> set (split_on (joiner_of t) t). \<not> cmdline_line l"
    and todo: "\<exists>c \<in> set (tier_configs g). config_target (fst c) (snd c) \<notin> set (split_on (joiner_of t) t)"
  obtains changed h where "run_checked config_enablement_group g =
      (Inl (System_Exit (degraded_message ''config_enablement'' BlockedByMissingAnchor changed)), h)"
    "rel \<in> set changed" "kfiles h rel = Some (Regular (configured (tier_configs g) t))"
proof -
  let ?cs = "tier_configs g" and ?G = config_enablement_group
  note cs = tier_configs_facts [of g]
  let ?t' = "configured ?cs t"
  have t': "?t' \<noteq> t" by (rule configured_changes [OF cs(1,2) todo])
  obtain g1 m where e: "enable_configs ?cs g = (Inr (Applied, m), g1)" and c1: "coherent g1"
    and s1: "seen g1 rel = Some ?t'" and d1: "rel \<in> set (dirty g1)" and r1: "defconfig_rel g1 = Some rel"
    using t' by (rule_tac enable_configs_run [OF c d s nb, of ?cs]) auto
  have "\<not> cmdline_line config_marker" "\<not> cmdline_line []" by code_simp+
  then have "\<forall>l \<in> set (split_on (joiner_of t) ?t'). \<not> cmdline_line l"
    by (rule configured_all [OF cs(1)]) (use cs(3) no in auto)
  then have "\<forall>l \<in> set (split_on (joiner_of ?t') ?t'). \<not> cmdline_line l"
    by (simp add: configured_joiner [OF cs(1) cr])
  from drop_cmdline_missing [OF r1 s1 this] obtain h m'
    where x: "defconfig_drop_cmdline_token PSI_CMDLINE_TOKEN g1 = (Inr (BlockedByMissingAnchor, m'), h)"
    and u: "unwritten g1 h" by blast
  obtain dt where "config_enablement_apply g = (Inr (BlockedByMissingAnchor, dt), h)"
    using config_enablement_psi [OF psi e x] by blast
  then have a: "apply_fn ?G g = (Inr (BlockedByMissingAnchor, dt), h)" and key: "key ?G = ''config_enablement''"
    by (simp_all add: config_enablement_group_def)
  have "confined ?G" by (rule config_enablement_confined)
  then have gr: "graft_prog (\<lambda>g. set (group_files ?G) \<union> defconfig_scope g) (apply_fn ?G)"
    by (simp add: confined_def)
  have ch: "coherent h" using graft_coherent [OF gr c] a by (metis snd_conv)
  have sh: "seen h rel = Some ?t'" and dh: "rel \<in> set (dirty h)" using u s1 d1 by (simp_all add: unwritten_def)
  then have th: "texts h rel = Some ?t'" using ch by (auto simp: coherent_def seen_def)
  have "rel \<in> set (changed_by g h)"
  proof -
    have "texts g rel = Some t" if "rel \<in> set (dirty g)" using that c s by (auto simp: coherent_def seen_def)
    with th t' dh show ?thesis by (auto simp: changed_by_iff [OF ch])
  qed
  moreover from this have "run_checked ?G g =
      (Inl (System_Exit (degraded_message ''config_enablement'' BlockedByMissingAnchor (changed_by g h))), h)"
    using a by (auto simp: run_checked_eq [OF c gr] run_group_def io_try_def io_ret_def group_result_of_def
        ok_status_def key)
  moreover have "kfiles h rel = Some (Regular ?t')"
  proof -
    have "same_consts g h"
      using prog_onD [OF _ steady.ctx_relation_axioms, of _ "apply_fn ?G" g] gr a by (metis graft_prog_def snd_conv)
    with nd have "\<not> dry_run h" by (simp add: same_consts_def)
    from coherent_file [OF ch this th] show ?thesis .
  qed
  ultimately show thesis using that by blast
qed

end
