(* ===== verification/Py_Text.thy ===== *)
theory Py_Text
  imports Abk_Prelude
begin

text \<open>
  Python's \<open>str.splitlines()\<close>, the exceptions the tools raise, and laws of search in a text that is
  a list of lines, for the tools that read or assemble scripts, manifests and patches.
\<close>

subsection \<open>The outcome of a tool\<close>

datatype tool_error =
    Tool_Exit str     \<comment> \<open>\<open>BuildError\<close> and \<open>InjectionError\<close>, both a \<open>SystemExit\<close>\<close>
  | Undecodable       \<comment> \<open>\<open>UnicodeDecodeError\<close>\<close>
  | Index_Error       \<comment> \<open>\<open>IndexError\<close>\<close>
  | Missing_File      \<comment> \<open>\<open>FileNotFoundError\<close>\<close>
  | Bad_Zip           \<comment> \<open>\<open>zipfile.BadZipFile\<close>\<close>
  | Assertion_Failed  \<comment> \<open>\<open>AssertionError\<close>\<close>

type_synonym 'a tool = "tool_error + 'a"

fun tool_bind :: "'a tool \<Rightarrow> ('a \<Rightarrow> 'b tool) \<Rightarrow> 'b tool" where
  "tool_bind (Inl e) f = Inl e"
| "tool_bind (Inr x) f = f x"

lemma tool_bind_assoc: "tool_bind (tool_bind m f) g = tool_bind m (\<lambda>x. tool_bind (f x) g)"
  by (cases m) simp_all

lemma tool_bind_Inr: "tool_bind m f = Inr y \<longleftrightarrow> (\<exists>x. m = Inr x \<and> f x = Inr y)"
  by (cases m) simp_all

subsection \<open>\<open>str.splitlines()\<close>\<close>

fun brk_len :: "str \<Rightarrow> nat" where
  \<comment> \<open>how many bytes the line boundary at the head takes, 0 if there is none\<close>
  "brk_len [] = 0"
| "brk_len (a # t) =
     (if a = CR then (if take 1 t = [NL] then 2 else 1)
      else if a \<in> {NL, CHR 0x0B, CHR 0x0C, CHR 0x1C, CHR 0x1D, CHR 0x1E} then 1
      else if a = CHR 0xC2 \<and> take 1 t = [CHR 0x85] then 2
      else if a = CHR 0xE2 \<and> (take 2 t = [CHR 0x80, CHR 0xA8] \<or> take 2 t = [CHR 0x80, CHR 0xA9]) then 3
      else 0)"

declare brk_len.simps(2) [simp del]

function split_lines :: "str \<Rightarrow> str \<Rightarrow> str list" where
  \<comment> \<open>\<open>split_lines [] t\<close> is \<open>t.splitlines()\<close>; the first argument is the line being read, reversed\<close>
  "split_lines cur [] = (if cur = [] then [] else [rev cur])"
| "split_lines cur (c # t) =
     (if brk_len (c # t) = 0 then split_lines (c # cur) t
      else rev cur # split_lines [] (drop (brk_len (c # t) - 1) t))"
  by pat_completeness auto
termination
  by (relation "measure (\<lambda>(cur, t). length t)") auto

definition splitlines :: "str \<Rightarrow> str list" where
  "splitlines t = split_lines [] t"

definition unbroken :: "str \<Rightarrow> bool" where
  \<comment> \<open>a line: no boundary starts inside it when a line feed follows\<close>
  "unbroken l \<longleftrightarrow> (\<forall>n < length l. brk_len (drop n l @ [NL]) = 0)"

lemma brk_len_NL [simp]: "brk_len (NL # t) = 1"
  by (simp add: brk_len.simps)

lemma brk_len_before_NL: "s \<noteq> [] \<Longrightarrow> brk_len (s @ NL # t) = brk_len (s @ [NL])"
  by (cases s; cases "tl s"; cases "tl (tl s)") (auto simp: brk_len.simps)

lemma split_lines_line:
  "\<forall>n < length l. brk_len (drop n l @ [NL]) = 0 \<Longrightarrow>
   split_lines cur (l @ NL # t) = (rev cur @ l) # split_lines [] t"
proof (induction l arbitrary: cur)
  case (Cons c l)
  have "brk_len ((c # l) @ [NL]) = 0" using Cons.prems by (metis drop0 length_greater_0_conv list.discI)
  then have "brk_len ((c # l) @ NL # t) = 0" using brk_len_before_NL [of "c # l" t] by simp
  moreover have "\<forall>n < length l. brk_len (drop n l @ [NL]) = 0"
    using Cons.prems by (metis Suc_less_eq drop_Suc_Cons length_Cons)
  ultimately show ?case using Cons.IH by simp
qed simp

lemma splitlines_lines:
  "\<forall>l \<in> set ls. unbroken l \<Longrightarrow> splitlines (concat (map (\<lambda>l. l @ [NL]) ls)) = ls"
proof (induction ls)
  case (Cons l ls)
  then show ?case
    using split_lines_line [of l "[]" "concat (map (\<lambda>l. l @ [NL]) ls)"]
    by (simp add: splitlines_def unbroken_def)
qed (simp add: splitlines_def)

subsection \<open>Search across line ends\<close>

lemma contains_across_NL:
  assumes "NL \<notin> set p" and "p \<noteq> []"
  shows "contains p (x @ NL # y) \<longleftrightarrow> contains p x \<or> contains p y"
proof
  assume "contains p (x @ NL # y)"
  then obtain a b where e: "x @ NL # y = a @ p @ b" by (auto simp: sublist_def)
  show "contains p x \<or> contains p y"
  proof (cases "length a + length p \<le> length x")
    case True
    then have "x = a @ p @ take (length x - length a - length p) b"
      using arg_cong [OF e, of "take (length x)"] by simp
    then show ?thesis by (metis sublist_appendI)
  next
    case False
    have "length x < length a"
    proof (rule ccontr)
      assume n: "\<not> length x < length a"
      have d: "length x - length a < length p" using n False by linarith
      with n have "(a @ p @ b) ! length x = p ! (length x - length a)" by (simp add: nth_append)
      with e have "p ! (length x - length a) = NL" by (metis nth_append_length)
      with d show False using assms(1) nth_mem by metis
    qed
    then have "y = drop (Suc (length x)) a @ p @ b"
      using arg_cong [OF e, of "drop (Suc (length x))"] by simp
    then show ?thesis by (metis sublist_appendI)
  qed
next
  assume "contains p x \<or> contains p y"
  then show "contains p (x @ NL # y)"
    by (metis append.assoc append_Cons append_Nil sublist_append_leftI sublist_append_rightI
        sublist_order.order_trans)
qed

lemma contains_block:
  "NL \<notin> set p \<Longrightarrow> p \<noteq> [] \<Longrightarrow> contains p (block ls) \<longleftrightarrow> list_ex (contains p) ls"
  unfolding block_def
  by (induction "[NL]" ls rule: py_join.induct) (auto simp: contains_across_NL)

lemma cut_marker:
  assumes "NL \<notin> set p" and "p \<noteq> []" and "\<not> contains p x" and "x = [] \<or> last x = NL"
  shows "cut p (x @ p @ r) = Some (x, r)"
proof -
  have "contains p (x @ p @ r)" by simp
  then obtain a b where c: "cut p (x @ p @ r) = Some (a, b)" and e: "x @ p @ r = a @ p @ b"
    by (rule contains_cutE)
  have le: "length a \<le> length x" using cut_leftmost [OF c] by blast
  have "length a = length x"
  proof (rule ccontr)
    assume "length a \<noteq> length x"
    with le have lt: "length a < length x" by simp
    define z where "z = drop (length a) x"
    have x: "x = a @ z" using arg_cong [OF e, of "take (length a)"] le
      by (metis append_eq_conv_conj append_take_drop_id take_append z_def diff_is_0_eq take0 append_Nil2)
    with e have "z @ p @ r = p @ b" by simp
    then show False
    proof (cases "length p \<le> length z")
      case True
      with \<open>z @ p @ r = p @ b\<close> have "z = p @ drop (length p) z"
        by (metis append_eq_append_conv_if append_take_drop_id)
      with x assms(3) show False by (metis sublist_appendI append.assoc)
    next
      case False
      with \<open>z @ p @ r = p @ b\<close> have "z = take (length z) p" by (metis append_eq_append_conv_if nle_le)
      moreover have "z \<noteq> []" using lt by (simp add: z_def)
      ultimately have "last z \<in> set p" by (metis in_set_takeD last_in_set)
      moreover have "last x = last z" using x \<open>z \<noteq> []\<close> by simp
      moreover have "x \<noteq> []" using lt by auto
      ultimately show False using assms(1,4) by simp
    qed
  qed
  with e have "a = x \<and> b = r" by (simp add: append_eq_append_conv)
  with c show ?thesis by simp
qed

lemma cut_absent: "\<not> contains p t \<Longrightarrow> cut p t = None"
  by (simp add: cut_None_iff)

lemma occurrences_cut:
  "p \<noteq> [] \<Longrightarrow> occurrences p t = (case cut p t of None \<Rightarrow> 0 | Some (a, b) \<Rightarrow> Suc (occurrences p b))"
proof (induction p t rule: occurrences.induct)
  case (2 p c t)
  show ?case
  proof (cases "prefix p (c # t)")
    case True
    have "drop (length p) (c # t) = drop (length p - 1) t"
      using 2(4) by (cases p) simp_all
    with True 2(4) show ?thesis by simp
  next
    case False
    with 2 show ?thesis by (auto split: option.splits)
  qed
qed simp

lemma occurrences_absent: "p \<noteq> [] \<Longrightarrow> \<not> contains p t \<Longrightarrow> occurrences p t = 0"
  by (simp add: occurrences_cut cut_absent)

subsection \<open>\<open>PurePath.name\<close> and \<open>PurePath.stem\<close>\<close>

definition path_name :: "str \<Rightarrow> str" where
  "path_name p = (case rev (filter (\<lambda>c. c \<notin> {[], ''.''}) (split_on ''/'' p)) of [] \<Rightarrow> [] | c # _ \<Rightarrow> c)"

definition path_stem :: "str \<Rightarrow> str" where
  \<comment> \<open>the name up to its last dot, unless the dot is first or last\<close>
  "path_stem p = (let n = path_name p; ext = takeWhile (\<lambda>c. c \<noteq> CHR ''.'') (rev n) in
     if length ext < length n - 1 \<and> ext \<noteq> [] then take (length n - length ext - 1) n else n)"

end
