(* ===== verification/Ksu_Module.thy ===== *)
theory Ksu_Module
  imports Graft_Engine Py_Text
begin

text \<open>
  \<^verbatim>\<open>scripts/build_ksu_module.py\<close>: packing a KernelSU module directory into a zip. A module
  directory is the list of its files, each a name relative to the directory with its bytes; the
  repository the embed manifest refers to is given by \<open>Path.resolve\<close> on it and by its regular
  files. An archive is the list of its members.
\<close>

type_synonym files = "(str \<times> str) list"

definition EMBED_MANIFEST :: str where "EMBED_MANIFEST = ''embed.conf''"

definition EXECUTABLE_MODE :: nat where "EXECUTABLE_MODE = 0x1ED"  \<comment> \<open>\<open>0o755\<close>\<close>

definition REGULAR_MODE :: nat where "REGULAR_MODE = 0x1A4"  \<comment> \<open>\<open>0o644\<close>\<close>

definition FIXED_TIME :: "nat list" where "FIXED_TIME = [1980, 1, 1, 0, 0, 0]"

subsection \<open>\<open>module.prop\<close>\<close>

fun prop_id :: "str list \<Rightarrow> str option" where
  \<comment> \<open>the value of the first \<^verbatim>\<open>id=\<close> line\<close>
  "prop_id [] = None"
| "prop_id (l # ls) = (if prefix ''id='' l then Some (py_strip (drop 3 l)) else prop_id ls)"

definition read_module_id :: "str \<Rightarrow> files \<Rightarrow> str tool" where
  \<comment> \<open>text mode turns every line end into a line feed, which does not change \<open>splitlines\<close>\<close>
  "read_module_id src fs = (case map_of fs ''module.prop'' of
       None \<Rightarrow> Inl (Tool_Exit (''no module.prop in '' @ src))
     | Some t \<Rightarrow>
         if \<not> utf8_valid t then Inl Undecodable
         else (case prop_id (splitlines t) of
             Some i \<Rightarrow> Inr i
           | None \<Rightarrow> Inl (Tool_Exit (''no id= in '' @ src @ ''/module.prop''))))"

subsection \<open>The embed manifest\<close>

record repo =
  repo_root :: str
  repo_resolve :: "str \<Rightarrow> str list"       \<comment> \<open>\<open>Path.resolve\<close>, as path components\<close>
  repo_file :: "str list \<Rightarrow> str option"  \<comment> \<open>the bytes of a regular file\<close>

definition path_join :: "str \<Rightarrow> str \<Rightarrow> str" where
  \<comment> \<open>\<open>base / p\<close>: an absolute \<open>p\<close> replaces the base\<close>
  "path_join base p = (if prefix ''/'' p then p else base @ ''/'' @ p)"

definition partition_eq :: "str \<Rightarrow> str \<times> str" where
  \<comment> \<open>\<open>line.partition("=")\<close>, without the separator\<close>
  "partition_eq l = (case cut ''='' l of None \<Rightarrow> (l, []) | Some (a, b) \<Rightarrow> (a, b))"

definition embed_target :: "str \<Rightarrow> str" where
  "embed_target t = replace_all [BSL] ''/'' (py_strip t)"

definition safe_target :: "str \<Rightarrow> bool" where
  "safe_target t \<longleftrightarrow> \<not> prefix ''/'' t \<and> ''..'' \<notin> set (split_on ''/'' t)"

definition embed_pair :: "repo \<Rightarrow> str \<Rightarrow> str \<Rightarrow> (str list \<times> str) tool" where
  \<comment> \<open>one line of the manifest; \<open>at\<close> is the text \<^verbatim>\<open>manifest:lineno\<close>\<close>
  "embed_pair R at line =
     (if \<not> contains ''='' line
      then Inl (Tool_Exit (at @ '': no '' @ [QUO] @ ''='' @ [QUO] @ '' in '' @ py_repr line))
      else
      let source_text = py_strip (fst (partition_eq line));
          target_text = embed_target (snd (partition_eq line));
          embed_source = repo_resolve R (path_join (repo_root R) source_text)
      in
      if source_text = [] \<or> target_text = []
      then Inl (Tool_Exit (at @ '': empty side in '' @ py_repr line))
      else if \<not> safe_target target_text
      then Inl (Tool_Exit (at @ '': refusing in-zip path '' @ py_repr target_text))
      else if \<not> prefix (repo_resolve R (repo_root R)) embed_source
      then Inl (Tool_Exit (at @ '': '' @ py_repr source_text @ '' is outside the repository''))
      else if repo_file R embed_source = None
      then Inl (Tool_Exit (at @ '': '' @ py_repr source_text @ '' does not exist''))
      else Inr (embed_source, target_text))"

fun embed_pairs :: "repo \<Rightarrow> str \<Rightarrow> nat \<Rightarrow> str list \<Rightarrow> (str list \<times> str) list tool" where
  "embed_pairs R manifest n [] = Inr []"
| "embed_pairs R manifest n (raw # ls) =
     (let line = py_strip raw in
      if line = [] \<or> prefix ''#'' line then embed_pairs R manifest (Suc n) ls
      else tool_bind (embed_pair R (manifest @ '':'' @ py_str_nat n) line) (\<lambda>p.
           tool_bind (embed_pairs R manifest (Suc n) ls) (\<lambda>ps. Inr (p # ps))))"

definition read_embed_manifest :: "repo \<Rightarrow> str \<Rightarrow> files \<Rightarrow> (str list \<times> str) list tool" where
  "read_embed_manifest R src fs = (case map_of fs EMBED_MANIFEST of
       None \<Rightarrow> Inr []
     | Some t \<Rightarrow>
         if \<not> utf8_valid t then Inl Undecodable
         else embed_pairs R (src @ ''/'' @ EMBED_MANIFEST) 1 (splitlines t))"

subsection \<open>The members and the archive\<close>

definition entry_mode :: "str \<Rightarrow> nat" where
  "entry_mode name = (if suffix ''.sh'' name then EXECUTABLE_MODE else REGULAR_MODE)"

fun add_embeds :: "repo \<Rightarrow> (str list \<times> str) list \<Rightarrow> (str \<times> str \<times> nat) list \<Rightarrow> (str \<times> str \<times> nat) list tool" where
  "add_embeds R [] es = Inr es"
| "add_embeds R ((source, target) # ps) es =
     (if target \<in> fst ` set es
      then Inl (Tool_Exit (''embedded entry '' @ py_repr target @ '' collides with a module file''))
      else case repo_file R source of
          None \<Rightarrow> Inl Missing_File
        | Some d \<Rightarrow> add_embeds R ps (es @ [(target, d, entry_mode target)]))"

definition module_entries :: "repo \<Rightarrow> str \<Rightarrow> files \<Rightarrow> (str \<times> str \<times> nat) list tool" where
  "module_entries R src fs =
     (if map_of fs ''module.prop'' = None
      then Inl (Tool_Exit (src @ '' does not look like a KernelSU module''))
      else
      let own = map (\<lambda>(name, d). (name, d, entry_mode name)) (sort_key fst fs) in
      tool_bind (read_embed_manifest R src fs) (\<lambda>ps.
      tool_bind (add_embeds R ps own) (\<lambda>es. Inr (sort_key fst es))))"

record zentry =
  z_name :: str
  z_data :: str
  z_date :: "nat list"
  z_system :: nat
  z_attr :: nat        \<comment> \<open>\<open>external_attr\<close>\<close>
  z_deflated :: bool

definition zip_info :: "str \<Rightarrow> nat \<Rightarrow> nat list \<Rightarrow> str \<Rightarrow> zentry" where
  \<comment> \<open>\<open>_zip_info\<close> and the loop body of \<open>build\<close>: a Unix member with its mode\<close>
  "zip_info name mode date d =
     \<lparr>z_name = name, z_data = d, z_date = date, z_system = 3, z_attr = mode * 0x10000, z_deflated = True\<rparr>"

definition build :: "repo \<Rightarrow> str \<Rightarrow> files \<Rightarrow> zentry list tool" where
  "build R src fs =
     tool_bind (read_module_id src fs) (\<lambda>module_id.
     if path_name src \<noteq> module_id
     then Inl (Tool_Exit (path_name src @ '' != module.prop id '' @ py_repr module_id @
       '': KernelSU names the module directory after the zip, so the two must match''))
     else
     tool_bind (module_entries R src fs) (\<lambda>es.
     Inr (map (\<lambda>(name, d, mode). zip_info name mode FIXED_TIME d) es)))"

subsection \<open>What the members are\<close>

lemma embed_pairs_safe:
  "embed_pairs R m n ls = Inr ps \<Longrightarrow>
     \<forall>(s, t) \<in> set ps. safe_target t \<and> t \<noteq> [] \<and> repo_file R s \<noteq> None \<and>
       prefix (repo_resolve R (repo_root R)) s"
proof (induction ls arbitrary: n ps)
  case (Cons l ls)
  show ?case
  proof (cases "py_strip l = [] \<or> prefix ''#'' (py_strip l)")
    case True
    with Cons show ?thesis by (simp add: Let_def)
  next
    case False
    with Cons.prems obtain p qs where p: "embed_pair R (m @ '':'' @ py_str_nat n) (py_strip l) = Inr p"
      and qs: "embed_pairs R m (Suc n) ls = Inr qs" and ps: "ps = p # qs"
      by (auto simp: Let_def tool_bind_Inr)
    from p have "case p of (s, t) \<Rightarrow> safe_target t \<and> t \<noteq> [] \<and> repo_file R s \<noteq> None \<and>
        prefix (repo_resolve R (repo_root R)) s"
      by (auto simp: embed_pair_def Let_def split: if_splits)
    with Cons.IH [OF qs] ps show ?thesis by simp
  qed
qed simp

lemma read_embed_manifest_safe:
  "read_embed_manifest R src fs = Inr ps \<Longrightarrow>
     \<forall>(s, t) \<in> set ps. safe_target t \<and> t \<noteq> [] \<and> repo_file R s \<noteq> None \<and>
       prefix (repo_resolve R (repo_root R)) s"
  by (auto simp: read_embed_manifest_def split: option.splits if_splits dest!: embed_pairs_safe)

lemma add_embeds_run:
  "add_embeds R ps es = Inr es' \<Longrightarrow> \<exists>ds. es' = es @ ds \<and> map fst ds = map snd ps \<and>
     list_all2 (\<lambda>(s, t) (n, d, m). repo_file R s = Some d \<and> n = t \<and> m = entry_mode t) ps ds \<and>
     (distinct (map fst es) \<longrightarrow> distinct (map fst es'))"
proof (induction R ps es rule: add_embeds.induct)
  case (2 R source target ps es)
  from "2.prems" obtain d where t: "target \<notin> fst ` set es" and d: "repo_file R source = Some d"
    and r: "add_embeds R ps (es @ [(target, d, entry_mode target)]) = Inr es'"
    by (auto split: if_splits option.splits)
  from 2(1) [OF t d r] obtain ds where "es' = (es @ [(target, d, entry_mode target)]) @ ds"
    "map fst ds = map snd ps"
    "list_all2 (\<lambda>(s, t) (n, d, m). repo_file R s = Some d \<and> n = t \<and> m = entry_mode t) ps ds"
    "distinct (map fst (es @ [(target, d, entry_mode target)])) \<longrightarrow> distinct (map fst es')" by blast
  with t d show ?case by (intro exI [of _ "(target, d, entry_mode target) # ds"]) auto
qed simp

lemma module_entries_run:
  assumes "module_entries R src fs = Inr es" and "distinct (map fst fs)"
  obtains ps ds where "read_embed_manifest R src fs = Inr ps"
    and "set es = (\<lambda>(n, d). (n, d, entry_mode n)) ` set fs \<union> set ds"
    and "list_all2 (\<lambda>(s, t) (n, d, m). repo_file R s = Some d \<and> n = t \<and> m = entry_mode t) ps ds"
    and "sorted (map fst es)" and "distinct (map fst es)" and "map_of fs ''module.prop'' \<noteq> None"
proof -
  let ?own = "map (\<lambda>(n, d). (n, d, entry_mode n)) (sort_key fst fs)"
  from assms(1) obtain ps es' where p: "map_of fs ''module.prop'' \<noteq> None"
    "read_embed_manifest R src fs = Inr ps" and a: "add_embeds R ps ?own = Inr es'" and es: "es = sort_key fst es'"
    by (auto simp: module_entries_def Let_def tool_bind_Inr split: if_splits)
  have m: "map fst ?own = map fst (sort_key fst fs)" by (simp add: comp_def case_prod_unfold)
  have d: "distinct (map fst ?own)" unfolding m using assms(2) by (simp add: distinct_map)
  from add_embeds_run [OF a] obtain ds where ds: "es' = ?own @ ds"
    "list_all2 (\<lambda>(s, t) (n, d, m). repo_file R s = Some d \<and> n = t \<and> m = entry_mode t) ps ds"
    "distinct (map fst es')" using d by blast
  have "distinct (map fst es)" using ds(3) by (simp add: es distinct_map)
  moreover have "set es = (\<lambda>(n, d). (n, d, entry_mode n)) ` set fs \<union> set ds"
    by (simp add: es ds(1))
  moreover have "sorted (map fst es)" by (simp add: es)
  ultimately show thesis using that p ds(2) by blast
qed

end
