(* ===== verification/Ak3_Bundle.thy ===== *)
theory Ak3_Bundle
  imports Ksu_Module
begin

text \<open>
  \<^verbatim>\<open>scripts/ak3_bundle_ksu_module.py\<close>: the installer block injected into an AnyKernel3 script,
  the module zip added beside it, and the verification of the result. Reading the bytes of a
  zip is the parameter \<open>unzip\<close> (\<open>None\<close> is \<open>BadZipFile\<close>); a directory is the list of its files.
\<close>

definition ANY_KERNEL_SCRIPT :: str where "ANY_KERNEL_SCRIPT = ''anykernel.sh''"

definition BUNDLE_DIR :: str where "BUNDLE_DIR = ''abk-ksu-modules''"

definition BEGIN_MARKER :: str where
  "BEGIN_MARKER = ''### >>> ABK 5.15 Runtime Tunables KernelSU module installer''"

definition END_MARKER :: str where
  "END_MARKER = ''### <<< ABK 5.15 Runtime Tunables KernelSU module installer''"

definition INSTALLER_LINES :: "str list" where
  \<comment> \<open>the lines of the block between its markers\<close>
  \<open>INSTALLER_LINES =
     [''## Installs the runtime-tunables module shipped in '' @ BUNDLE_DIR @ ''/, so that'',
      ''## flashing this AnyKernel3 zip also installs the policy that fixes the zram'',
      ''## algorithms and drives the recompression sweeps.  Additive and non-fatal: the'',
      ''## boot image is already written when this runs, so a failure only prints a'',
      ''## warning.'',
      ''if ! command -v ui_print >/dev/null 2>&1; then'',
      ''  ui_print() { echo "$@"; }'',
      ''fi'',
      [],
      ''abk_tu_install_ksu_modules() {'',
      ''  ABK_TU_HOME="${AKHOME:-$PWD}"'',
      ''  ABK_TU_SRC="$ABK_TU_HOME/'' @ BUNDLE_DIR @ ''"'',
      ''  [ -d "$ABK_TU_SRC" ] || return 0'',
      ''  ABK_TU_UNZIP="unzip"'',
      ''  [ -x "$ABK_TU_HOME/tools/busybox" ] && ABK_TU_UNZIP="$ABK_TU_HOME/tools/busybox unzip"'',
      ''  for ABK_TU_ZIP in "$ABK_TU_SRC"/*.zip; do'',
      ''    [ -f "$ABK_TU_ZIP" ] || continue'',
      ''    ABK_TU_ID="$(basename "$ABK_TU_ZIP" .zip)"'',
      ''    ABK_TU_VIA=""'',
      ''    for ABK_TU_KSUD in /data/adb/ksud /data/adb/ksu/bin/ksud /data/adb/ap/bin/apd; do'',
      ''      [ -x "$ABK_TU_KSUD" ] || continue'',
      ''      if "$ABK_TU_KSUD" module install "$ABK_TU_ZIP" >/dev/null 2>&1; then'',
      ''        ABK_TU_VIA="$(basename "$ABK_TU_KSUD")"'',
      ''        break'',
      ''      fi'',
      ''    done'',
      ''    if [ -z "$ABK_TU_VIA" ] && command -v magisk >/dev/null 2>&1; then'',
      ''      magisk --install-module "$ABK_TU_ZIP" >/dev/null 2>&1 && ABK_TU_VIA="magisk"'',
      ''    fi'',
      ''    if [ -z "$ABK_TU_VIA" ] && [ -d /data/adb ]; then'',
      ''      ABK_TU_TARGET="/data/adb/modules/$ABK_TU_ID"'',
      ''      rm -rf "$ABK_TU_TARGET"'',
      ''      mkdir -p "$ABK_TU_TARGET" 2>/dev/null'',
      ''      if $ABK_TU_UNZIP -o "$ABK_TU_ZIP" -d "$ABK_TU_TARGET" >/dev/null 2>&1; then'',
      ''        chmod 0755 "$ABK_TU_TARGET"/*.sh 2>/dev/null'',
      ''        [ -d "$ABK_TU_TARGET/bin" ] && chmod 0755 "$ABK_TU_TARGET"/bin/*.sh 2>/dev/null'',
      ''        ABK_TU_VIA="unpacked to /data/adb/modules"'',
      ''      fi'',
      ''    fi'',
      ''    if [ -n "$ABK_TU_VIA" ]; then'',
      ''      ui_print "  -> ABK Runtime Tunables: module $ABK_TU_ID installed via $ABK_TU_VIA"'',
      ''    else'',
      ''      ui_print "  -> ABK Runtime Tunables: WARNING could not install $ABK_TU_ID; flash that module zip manually"'',
      ''    fi'',
      ''  done'',
      ''}'',
      [],
      ''abk_tu_install_ksu_modules || ui_print "  -> ABK Runtime Tunables: install step skipped"'',
      (''unset ABK_TU_HOME ABK_TU_SRC ABK_TU_UNZIP ABK_TU_ZIP ABK_TU_ID ABK_TU_VIA '' @ [BSL]),
      ''  ABK_TU_KSUD ABK_TU_TARGET 2>/dev/null'']\<close>

definition INSTALLER_BLOCK :: str where
  \<open>INSTALLER_BLOCK = block
     ((BEGIN_MARKER @ '' (managed by ABK_5.15_BACKPORT) >>>'') # INSTALLER_LINES @
      [END_MARKER @ '' <<<'', []])\<close>

subsection \<open>\<open>_BLOCK_PATTERN\<close> and \<open>inject_script\<close>\<close>

definition BLOCK_END :: str where
  "BLOCK_END = END_MARKER @ '' <<<''"

definition block_search :: "str \<Rightarrow> (str \<times> str \<times> str) option" where
  \<comment> \<open>\<open>_BLOCK_PATTERN.search\<close>: the text before the match, the match, the text after it\<close>
  "block_search t = (case cut BEGIN_MARKER t of None \<Rightarrow> None
     | Some (a, b) \<Rightarrow> (case cut BLOCK_END b of None \<Rightarrow> None
         | Some (m, c) \<Rightarrow> Some (a, BEGIN_MARKER @ m @ BLOCK_END, c)))"

lemma block_search_Some: "block_search t = Some (a, m, c) \<Longrightarrow> t = a @ m @ c \<and> m \<noteq> []"
  by (auto simp: block_search_def BEGIN_MARKER_def split: option.splits dest!: cut_SomeD)

function sub_blocks :: "str \<Rightarrow> str" where
  \<comment> \<open>\<open>_BLOCK_PATTERN.sub(lambda _: INSTALLER_BLOCK.rstrip("\n"), text)\<close>\<close>
  "sub_blocks t = (case block_search t of None \<Rightarrow> t
     | Some (a, m, c) \<Rightarrow> a @ rstrip_nl INSTALLER_BLOCK @ sub_blocks c)"
  by pat_completeness auto
termination
  by (relation "measure length") (auto dest!: block_search_Some)

declare sub_blocks.simps [simp del]

definition normalize_eol :: "str \<Rightarrow> str" where
  \<comment> \<open>\<open>text.replace("\r\n", "\n").replace("\r", "\n")\<close>\<close>
  "normalize_eol t = replace_all [CR] [NL] (to_lf t)"

definition block_separator :: "str \<Rightarrow> str" where
  "block_separator t = (if suffix [NL, NL] t then [] else if suffix [NL] t then [NL] else [NL, NL])"

definition inject_script :: "str \<Rightarrow> str" where
  "inject_script text0 =
     (let t = normalize_eol text0 in
      if block_search t \<noteq> None then sub_blocks t
      else t @ block_separator t @ INSTALLER_BLOCK)"

subsection \<open>Checks\<close>

fun after_NL :: "str \<Rightarrow> str list" where
  "after_NL [] = []"
| "after_NL (c # t) = (if c = NL then [t] else []) @ after_NL t"

definition exits_nonzero :: "str \<Rightarrow> bool" where
  \<comment> \<open>\<open>\s*exit\s+[1-9]\<close> matches at the head\<close>
  "exits_nonzero s = (let r = py_lstrip s; q = drop 4 r in
     prefix ''exit'' r \<and> ws_len q \<noteq> 0 \<and> list_ex (\<lambda>c. c \<in> set ''123456789'') (take 1 (py_lstrip q)))"

definition aborts_flash :: "str \<Rightarrow> bool" where
  \<comment> \<open>\<open>re.search(r"^\s*exit\s+[1-9]", body, re.MULTILINE)\<close>\<close>
  "aborts_flash body \<longleftrightarrow> list_ex exits_nonzero (body # after_NL body)"

definition check_anykernel_text :: "str \<Rightarrow> str list tool" where
  "check_anykernel_text t =
     (if occurrences BEGIN_MARKER t \<noteq> 1 \<or> occurrences END_MARKER t \<noteq> 1
      then Inr [''anykernel.sh must contain exactly one installer block'']
      else case block_search t of
        None \<Rightarrow> Inl Assertion_Failed
      | Some (a, body, c) \<Rightarrow> Inr (
          map (\<lambda>needle. ''installer block is missing '' @ py_repr needle)
            (filter (\<lambda>needle. \<not> contains needle body)
               [''module install'', ''magisk --install-module'', ''/data/adb/modules/''])
          @ (if contains ([NL] @ ''set -e'') body then [''installer block must not enable set -e''] else [])
          @ (if aborts_flash body then [''installer block must not abort the flash''] else [])))"

definition zip_read :: "zentry list \<Rightarrow> str \<Rightarrow> str option" where
  \<comment> \<open>\<open>archive.read(name)\<close>: of members of one name the last\<close>
  "zip_read es n = map_option z_data (find (\<lambda>e. z_name e = n) (rev es))"

definition z_mode :: "zentry \<Rightarrow> nat" where
  \<comment> \<open>\<open>(info.external_attr >> 16) & 0o777\<close>\<close>
  "z_mode e = z_attr e div 0x10000 mod 0x200"

fun oct_digits :: "nat \<Rightarrow> str \<Rightarrow> str" where
  "oct_digits n acc = (let acc' = char_of (48 + n mod 8) # acc in
     if n < 8 then acc' else oct_digits (n div 8) acc')"

declare oct_digits.simps [simp del]

fun parse_props :: "str list \<Rightarrow> (str \<times> str) list \<Rightarrow> (str \<times> str) list" where
  "parse_props [] ps = ps"
| "parse_props (l # ls) ps =
     (if contains ''='' l \<and> \<not> prefix ''#'' l
      then parse_props ls (AList.update (py_strip (fst (partition_eq l))) (py_strip (snd (partition_eq l))) ps)
      else parse_props ls ps)"

definition check_module_zip :: "(str \<Rightarrow> zentry list option) \<Rightarrow> str \<Rightarrow> str \<Rightarrow> str list tool" where
  "check_module_zip unzip d expected_name = (case unzip d of
       None \<Rightarrow> Inr [''bundled module zip is not a readable zip'']
     | Some es \<Rightarrow> (case zip_read es ''module.prop'' of
         None \<Rightarrow> Inr [''bundled module zip has no module.prop'']
       | Some t \<Rightarrow>
           if \<not> utf8_valid t then Inl Undecodable
           else
           let id = map_of (parse_props (splitlines t) []) ''id'' in Inr (
           (if id \<noteq> Some expected_name
            then [''bundled module id '' @ (case id of None \<Rightarrow> ''None'' | Some i \<Rightarrow> py_repr i) @
                  '' does not match entry name '' @ py_repr expected_name] else [])
           @ map (\<lambda>e. z_name e @ '' must be 0755 in the module zip, got 0o'' @ oct_digits (z_mode e) [])
               (filter (\<lambda>e. suffix ''.sh'' (z_name e) \<and> z_mode e \<noteq> EXECUTABLE_MODE) es))))"

fun check_modules :: "(str \<Rightarrow> zentry list option) \<Rightarrow> (str \<times> str) list \<Rightarrow> str list tool" where
  "check_modules unzip [] = Inr []"
| "check_modules unzip ((name, d) # ms) =
     tool_bind (check_module_zip unzip d (path_stem name)) (\<lambda>ps.
     tool_bind (check_modules unzip ms) (\<lambda>qs. Inr (ps @ qs)))"

definition bundled :: "str \<Rightarrow> bool" where
  "bundled name \<longleftrightarrow> prefix (BUNDLE_DIR @ ''/'') name \<and> \<not> suffix ''/'' name"

definition check_bundle_files ::
  "(str \<Rightarrow> zentry list option) \<Rightarrow> (str \<times> str) list \<Rightarrow> str \<Rightarrow> str list tool" where
  "check_bundle_files unzip pairs script_text =
     tool_bind (check_anykernel_text script_text) (\<lambda>ps.
     let modules = filter (\<lambda>(name, d). bundled name) pairs in
     tool_bind (check_modules unzip modules) (\<lambda>qs.
     Inr (ps @ (if modules = [] then [''no module zip under '' @ BUNDLE_DIR @ ''/''] else []) @ qs)))"

subsection \<open>A finished zip\<close>

definition module_zip_id :: "(str \<Rightarrow> zentry list option) \<Rightarrow> str \<Rightarrow> str \<Rightarrow> str tool" where
  \<comment> \<open>of the module zip at the path \<open>module_zip\<close> with the bytes \<open>d\<close>\<close>
  "module_zip_id unzip module_zip d = (case unzip d of
       None \<Rightarrow> Inl Bad_Zip
     | Some es \<Rightarrow> (case zip_read es ''module.prop'' of
         None \<Rightarrow> Inl (Tool_Exit (module_zip @ '' has no module.prop''))
       | Some t \<Rightarrow>
           if \<not> utf8_valid t then Inl Undecodable
           else (case prop_id (splitlines t) of
               Some i \<Rightarrow> Inr i
             | None \<Rightarrow> Inl (Tool_Exit (''no id= in '' @ module_zip @ '':module.prop'')))))"

definition z_is_dir :: "zentry \<Rightarrow> bool" where
  "z_is_dir e \<longleftrightarrow> suffix ''/'' (z_name e)"

definition rewrite_member :: "nat \<Rightarrow> zentry \<Rightarrow> str \<Rightarrow> zentry" where
  \<comment> \<open>the member \<open>writestr\<close> adds for \<open>info\<close>, with the bytes \<open>d\<close>\<close>
  "rewrite_member script_mode e d =
     (if z_is_dir e then e\<lparr>z_data := d, z_deflated := False\<rparr>
      else (zip_info (z_name e) (if z_mode e \<noteq> 0 then z_mode e else script_mode) (z_date e) d)
             \<lparr>z_system := z_system e\<rparr>)"

definition inject_members :: "zentry list \<Rightarrow> str \<Rightarrow> nat \<Rightarrow> str \<Rightarrow> str \<Rightarrow> zentry list" where
  "inject_members es patched script_mode module_name module_bytes =
     map (\<lambda>e. rewrite_member script_mode e
            (if z_name e = ANY_KERNEL_SCRIPT then patched
             else if z_name e = module_name then module_bytes
             else the (zip_read es (z_name e)))) es
     @ (if module_name \<in> z_name ` set es then []
        else [zip_info module_name REGULAR_MODE FIXED_TIME module_bytes])"

definition inject_zip ::
  "(str \<Rightarrow> zentry list option) \<Rightarrow> str \<Rightarrow> zentry list \<Rightarrow> str \<Rightarrow> str \<Rightarrow> (zentry list \<times> str) tool" where
  \<comment> \<open>\<open>es\<close> are the members of the zip at the path \<open>source\<close>\<close>
  "inject_zip unzip source es module_zip module_bytes =
     (case find (\<lambda>e. z_name e = ANY_KERNEL_SCRIPT) (rev es) of
        None \<Rightarrow> Inl (Tool_Exit (source @ '' has no '' @ ANY_KERNEL_SCRIPT @ '' at the zip root''))
      | Some info \<Rightarrow>
          if \<not> utf8_valid (z_data info) then Inl Undecodable
          else
          tool_bind (module_zip_id unzip module_zip module_bytes) (\<lambda>i.
          let module_name = BUNDLE_DIR @ ''/'' @ i @ ''.zip'' in
          Inr (inject_members es (inject_script (z_data info)) (z_mode info) module_name module_bytes,
               module_name)))"

definition verify_zip :: "(str \<Rightarrow> zentry list option) \<Rightarrow> str \<Rightarrow> zentry list \<Rightarrow> str list tool" where
  "verify_zip unzip source es = (case zip_read es ANY_KERNEL_SCRIPT of
       None \<Rightarrow> Inr [source @ '' has no '' @ ANY_KERNEL_SCRIPT @ '' at the zip root'']
     | Some script \<Rightarrow>
         if \<not> utf8_valid script then Inl Undecodable
         else check_bundle_files unzip
           (map (\<lambda>n. (n, the (zip_read es n))) (filter bundled (map z_name es))) script)"

subsection \<open>An extracted tree\<close>

definition glob_zip :: "str \<Rightarrow> bool" where
  \<comment> \<open>a path \<open>bundle.glob("*.zip")\<close> yields\<close>
  "glob_zip p \<longleftrightarrow> prefix (BUNDLE_DIR @ ''/'') p \<and> suffix ''.zip'' p
     \<and> CHR ''/'' \<notin> set (drop (length BUNDLE_DIR + 1) p)"

definition inject_dir ::
  "(str \<Rightarrow> zentry list option) \<Rightarrow> str \<Rightarrow> str \<Rightarrow> str option \<Rightarrow> files \<Rightarrow> str tool \<times> files" where
  \<comment> \<open>the zip is written before the script is read; the script's mode bits, which \<open>chmod\<close> sets,
    are not part of \<open>files\<close>\<close>
  "inject_dir unzip ak3_dir module_zip module_bytes fs = (case (map_of fs ANY_KERNEL_SCRIPT, module_bytes) of
       (None, _) \<Rightarrow> (Inl (Tool_Exit (''no '' @ ANY_KERNEL_SCRIPT @ '' in '' @ ak3_dir)), fs)
     | (Some script, None) \<Rightarrow> (Inl (Tool_Exit (''module zip not found: '' @ module_zip)), fs)
     | (Some script, Some d) \<Rightarrow>
         (case module_zip_id unzip module_zip d of
            Inl e \<Rightarrow> (Inl e, fs)
          | Inr i \<Rightarrow>
              let target = BUNDLE_DIR @ ''/'' @ i @ ''.zip''; fs1 = AList.update target d fs in
              if \<not> utf8_valid script then (Inl Undecodable, fs1)
              else (Inr target, AList.update ANY_KERNEL_SCRIPT (inject_script script) fs1)))"

definition verify_dir :: "(str \<Rightarrow> zentry list option) \<Rightarrow> str \<Rightarrow> files \<Rightarrow> str list tool" where
  \<comment> \<open>text mode reads every line end as a line feed\<close>
  "verify_dir unzip ak3_dir fs = (case map_of fs ANY_KERNEL_SCRIPT of
       None \<Rightarrow> Inr [''no '' @ ANY_KERNEL_SCRIPT @ '' in '' @ ak3_dir]
     | Some script \<Rightarrow>
         if \<not> utf8_valid script then Inl Undecodable
         else check_bundle_files unzip (sort_key fst (filter (\<lambda>(n, d). glob_zip n) fs)) (normalize_eol script))"

subsection \<open>Discovery\<close>

definition ak3_roots :: "str option \<Rightarrow> str list" where
  "ak3_roots value = (case value of None \<Rightarrow> [] | Some v \<Rightarrow>
     if v = [] then [] else [v, path_join v ''AnyKernel3'', path_join v ''oneplus_workspace/AnyKernel3''])"

fun first_ak3 :: "(str \<Rightarrow> str option) \<Rightarrow> (str \<Rightarrow> bool) \<Rightarrow> str list \<Rightarrow> str list \<Rightarrow> str option" where
  \<comment> \<open>the loop over the candidates, with the directories already seen\<close>
  "first_ak3 resolve is_ak3 [] visited = None"
| "first_ak3 resolve is_ak3 (c # cs) visited = (case resolve c of
       None \<Rightarrow> first_ak3 resolve is_ak3 cs visited
     | Some r \<Rightarrow>
         if r \<in> set visited then first_ak3 resolve is_ak3 cs visited
         else if is_ak3 r then Some r
         else first_ak3 resolve is_ak3 cs (r # visited))"

definition discover_ak3_dir ::
  "(str \<Rightarrow> str option) \<Rightarrow> (str \<Rightarrow> bool) \<Rightarrow> str option \<Rightarrow> str option \<Rightarrow> str option
    \<Rightarrow> str list \<Rightarrow> (str \<times> str list) list \<Rightarrow> str option" where
  \<comment> \<open>\<open>resolve\<close> is \<open>Path.resolve\<close> (\<open>None\<close> an \<open>OSError\<close>), \<open>is_ak3\<close> that the script and \<^verbatim>\<open>tools/\<close> are
    there; \<open>globbed\<close> the parents the workspace globs find, \<open>parents\<close> the start directory and its
    first two parents, each with what its glob finds\<close>
  "discover_ak3_dir resolve is_ak3 hint anykernel3 workspace globbed parents =
     (let candidates = (case hint of None \<Rightarrow> [] | Some h \<Rightarrow> if h = [] then [] else [h])
            @ ak3_roots anykernel3 @ ak3_roots workspace @ globbed
            @ concat (map (\<lambda>(p, found). p # found) parents)
      in first_ak3 resolve is_ak3 candidates [])"

subsection \<open>\<open>main\<close>\<close>

datatype command = Inject | Verify

definition exit_code :: "str list tool \<Rightarrow> nat tool" where
  "exit_code problems = tool_bind problems (\<lambda>ps. Inr (if ps \<noteq> [] then 1 else 0))"

definition main_zip ::
  "(str \<Rightarrow> zentry list option) \<Rightarrow> command \<Rightarrow> str \<Rightarrow> zentry list \<Rightarrow> str option \<Rightarrow> str \<Rightarrow> str
    \<Rightarrow> nat tool \<times> zentry list option" where
  \<comment> \<open>with \<^verbatim>\<open>--zip\<close>: the exit code, and the output zip if one was written\<close>
  "main_zip unzip cmd source es out module_zip d = (case cmd of
       Verify \<Rightarrow> (exit_code (verify_zip unzip source es), None)
     | Inject \<Rightarrow> (case out of
         None \<Rightarrow> (Inl (Tool_Exit ''--output is required with --zip''), None)
       | Some dest \<Rightarrow> (case inject_zip unzip source es module_zip d of
           Inl e \<Rightarrow> (Inl e, None)
         | Inr (es', entry) \<Rightarrow> (exit_code (verify_zip unzip dest es'), Some es'))))"

definition main_dir ::
  "(str \<Rightarrow> zentry list option) \<Rightarrow> command \<Rightarrow> bool \<Rightarrow> str option \<Rightarrow> str \<Rightarrow> str option \<Rightarrow> files
    \<Rightarrow> nat tool \<times> files" where
  \<comment> \<open>without it: \<open>ak3_dir\<close> is what the discovery found, \<open>fs\<close> the files there\<close>
  "main_dir unzip cmd strict ak3_dir module_zip d fs = (case ak3_dir of
       None \<Rightarrow> (if strict
         then Inl (Tool_Exit ''no extracted AnyKernel3 tree found (looked for anykernel.sh + tools/)'')
         else Inr 0, fs)
     | Some dir \<Rightarrow> (case cmd of
         Verify \<Rightarrow> (exit_code (verify_dir unzip dir fs), fs)
       | Inject \<Rightarrow> (case inject_dir unzip dir module_zip d fs of
           (Inl e, fs') \<Rightarrow> (Inl e, fs')
         | (Inr target, fs') \<Rightarrow> (exit_code (verify_dir unzip dir fs'), fs'))))"

end
