(* ===== verification/Ak3_Laws.thy ===== *)
theory Ak3_Laws
  imports Ak3_Bundle
begin

text \<open>
  Injection into an AnyKernel3 script: where it puts the block, when doing it again changes
  nothing, and that a bundle the tool builds passes its own verification.
\<close>

subsection \<open>The block\<close>

lemma cut_stable:
  assumes "cut p t = Some (a, b)"
  shows "cut p (a @ p @ y) = Some (a, y)"
proof -
  have t: "t = a @ p @ b" using assms by (rule cut_SomeD)
  have "contains p (a @ p @ y)" by simp
  then obtain a' b' where c: "cut p (a @ p @ y) = Some (a', b')" and e: "a @ p @ y = a' @ p @ b'"
    by (rule contains_cutE)
  have le: "length a' \<le> length a" using cut_leftmost [OF c] by blast
  have "a' @ p = take (length a' + length p) (a @ p @ y)" using e by simp
  also have "\<dots> = take (length a' + length p) (a @ p)" using le by simp
  also have "\<dots> = take (length a' + length p) t" using le by (simp add: t)
  finally have "t = a' @ p @ drop (length a' + length p) t" by (metis append.assoc append_take_drop_id)
  from cut_leftmost [OF assms this] le have "length a' = length a" by simp
  with e have "a' = a \<and> b' = y" by (simp add: append_eq_append_conv)
  with c show ?thesis by simp
qed

lemma cut_extends: "cut p t = Some (a, b) \<Longrightarrow> cut p (t @ y) = Some (a, b @ y)"
  using cut_stable [of p t a b "b @ y"] by (auto dest: cut_SomeD)

definition block_head :: str where
  \<comment> \<open>the rest of the begin marker's line\<close>
  "block_head = '' (managed by ABK_5.15_BACKPORT) >>>''"

definition block_mid :: str where
  \<comment> \<open>what stands between the two markers\<close>
  "block_mid = block_head @ NL # (block INSTALLER_LINES @ NL # [])"

lemma py_join_append:
  "xs \<noteq> [] \<Longrightarrow> ys \<noteq> [] \<Longrightarrow> py_join s (xs @ ys) = py_join s xs @ s @ py_join s ys"
proof (induction xs)
  case (Cons x xs)
  then show ?case by (cases "xs = []") (simp_all add: py_join_Cons)
qed simp

lemma lines_nonempty: "INSTALLER_LINES \<noteq> []"
  by (simp add: INSTALLER_LINES_def)

lemma installer_block: "INSTALLER_BLOCK = BEGIN_MARKER @ block_mid @ BLOCK_END @ [NL]"
  by (simp add: INSTALLER_BLOCK_def block_mid_def block_head_def block_def py_join_Cons py_join_append lines_nonempty BLOCK_END_def)

lemma rstrip_installer: "rstrip_nl INSTALLER_BLOCK = BEGIN_MARKER @ block_mid @ BLOCK_END"
proof -
  have "dropWhile (\<lambda>c. c = NL) (rev BLOCK_END) = rev BLOCK_END"
    by (simp add: BLOCK_END_def END_MARKER_def)
  then show ?thesis by (simp add: rstrip_nl_def installer_block dropWhile_append)
     (simp add: BLOCK_END_def)
qed

lemma markers_one_line: "NL \<notin> set BEGIN_MARKER" "BEGIN_MARKER \<noteq> []" "NL \<notin> set END_MARKER"
  "END_MARKER \<noteq> []" "NL \<notin> set BLOCK_END" "BLOCK_END \<noteq> []"
  by (simp_all add: BEGIN_MARKER_def END_MARKER_def BLOCK_END_def)

lemma lines_facts:
  "list_ex (contains BEGIN_MARKER) INSTALLER_LINES = False"
  "list_ex (contains END_MARKER) INSTALLER_LINES = False"
  "list_ex (contains ''exit'') INSTALLER_LINES = False"
  "list_ex (contains ''set -e'') INSTALLER_LINES = False"
  "list_ex (contains ''module install'') INSTALLER_LINES = True"
  "list_ex (contains ''magisk --install-module'') INSTALLER_LINES = True"
  "list_ex (contains ''/data/adb/modules/'') INSTALLER_LINES = True"
  "list_all (\<lambda>l. CR \<notin> set l) INSTALLER_LINES = True"
  by code_simp+

lemma mid_contains:
  assumes "NL \<notin> set p" and "p \<noteq> []"
  shows "contains p block_mid \<longleftrightarrow> contains p block_head \<or> list_ex (contains p) INSTALLER_LINES"
  unfolding block_mid_def contains_across_NL [OF assms] contains_block [OF assms]
  using assms(2) by simp

lemma head_facts:
  "contains BEGIN_MARKER block_head = False"
  "contains END_MARKER block_head = False"
  "contains END_MARKER (BEGIN_MARKER @ block_head) = False"
  "contains BEGIN_MARKER (BLOCK_END @ [NL]) = False"
  "contains END_MARKER ('' <<<'' @ [NL]) = False"
  "list_ex (\<lambda>p. contains p (BEGIN_MARKER @ block_head)) [''exit'', ''set -e''] = False"
  "list_ex (\<lambda>p. contains p BLOCK_END) [''exit'', ''set -e''] = False"
  by code_simp+

lemma mid_no_markers: "\<not> contains BEGIN_MARKER block_mid" "\<not> contains END_MARKER block_mid"
  by (simp_all add: mid_contains markers_one_line lines_facts(1,2) head_facts(1,2))

lemma mid_last: "last block_mid = NL" "block_mid \<noteq> []"
  by (simp_all add: block_mid_def)

lemma no_end_marker: "\<not> contains END_MARKER t \<Longrightarrow> \<not> contains BLOCK_END t"
  by (auto simp: BLOCK_END_def sublist_def)

lemma cut_mid: "cut BLOCK_END (block_mid @ BLOCK_END @ y) = Some (block_mid, y)"
  by (rule cut_marker) (simp_all add: markers_one_line mid_last no_end_marker mid_no_markers(2))

abbreviation installed :: str where
  "installed \<equiv> BEGIN_MARKER @ block_mid @ BLOCK_END"

lemma search_installed:
  "cut BEGIN_MARKER (a @ BEGIN_MARKER @ y) = Some (a, y) \<Longrightarrow> y = block_mid @ BLOCK_END @ c \<Longrightarrow>
   block_search (a @ BEGIN_MARKER @ y) = Some (a, installed, c)"
  by (simp add: block_search_def cut_mid)

lemma sub_blocks_Some: "block_search t = Some (a, m, c) \<Longrightarrow> sub_blocks t = a @ installed @ sub_blocks c"
  by (subst sub_blocks.simps) (simp add: rstrip_installer)

lemma sub_blocks_None: "block_search t = None \<Longrightarrow> sub_blocks t = t"
  by (subst sub_blocks.simps) simp

lemma block_search_SomeD:
  "block_search t = Some (a, m, c) \<Longrightarrow> \<exists>b. cut BEGIN_MARKER t = Some (a, b)"
  by (auto simp: block_search_def split: option.splits)

lemma search_sub_blocks:
  assumes "block_search t = Some (a, m, c)"
  shows "block_search (sub_blocks t) = Some (a, installed, sub_blocks c)"
proof -
  obtain b where "cut BEGIN_MARKER t = Some (a, b)" using block_search_SomeD [OF assms] by blast
  from cut_stable [OF this] show ?thesis
    by (simp add: sub_blocks_Some [OF assms] block_search_def cut_mid)
qed

lemma sub_blocks_idem: "sub_blocks (sub_blocks t) = sub_blocks t"
proof (induction t rule: sub_blocks.induct)
  case (1 t)
  show ?case
  proof (cases "block_search t")
    case (Some x)
    obtain a m c where x: "x = (a, m, c)" by (cases x)
    with 1 Some have "sub_blocks (sub_blocks c) = sub_blocks c" by simp
    then show ?thesis
      using sub_blocks_Some [OF search_sub_blocks [OF Some [unfolded x]]]
        sub_blocks_Some [OF Some [unfolded x]] by simp
  qed (simp add: sub_blocks_None)
qed

subsection \<open>Line ends\<close>

lemma normalize_map: "normalize_eol t = map (\<lambda>c. if c = CR then NL else c) (to_lf t)"
proof -
  have "replace_all [CR] [NL] s = map (\<lambda>c. if c = CR then NL else c) s" for s
  proof (induction s)
    case (Cons c s)
    then show ?case
      using replace_all_hit [of "[CR]" "[NL]" s] by (cases "c = CR") (simp_all add: replace_all_miss)
  qed simp
  then show ?thesis by (simp add: normalize_eol_def)
qed

lemma normalize_no_CR: "CR \<notin> set (normalize_eol t)"
  by (auto simp: normalize_map)

lemma normalize_id: "CR \<notin> set t \<Longrightarrow> normalize_eol t = t"
  by (auto simp: normalize_map to_lf_no_CR intro!: map_idI)

lemma installed_no_CR: "CR \<notin> set installed"
proof -
  have "CR \<notin> set (block INSTALLER_LINES)"
  proof
    assume "CR \<in> set (block INSTALLER_LINES)"
    then have "contains [CR] (block INSTALLER_LINES)" by (metis in_set_conv_decomp sublist_def append_Cons append_Nil)
    then have "list_ex (contains [CR]) INSTALLER_LINES" by (simp add: contains_block)
    then obtain l where "l \<in> set INSTALLER_LINES" "contains [CR] l" by (auto simp: list_ex_iff)
    then show False using lines_facts(8) by (auto simp: list_all_iff sublist_def)
  qed
  then show ?thesis
    by (simp add: block_mid_def block_head_def BEGIN_MARKER_def BLOCK_END_def END_MARKER_def)
qed

lemma set_sub_blocks: "set (sub_blocks t) \<subseteq> set t \<union> set installed"
proof (induction t rule: sub_blocks.induct)
  case (1 t)
  show ?case
  proof (cases "block_search t")
    case (Some x)
    obtain a m c where x: "x = (a, m, c)" by (cases x)
    with 1 Some have "set (sub_blocks c) \<subseteq> set c \<union> set installed" by simp
    moreover have "t = a @ m @ c" using block_search_Some Some x by simp
    ultimately show ?thesis using Some x by (auto simp: sub_blocks_Some)
  qed (simp add: sub_blocks_None)
qed

lemma separator_ends:
  "\<exists>z. t @ block_separator t = z @ [NL] \<and>
     (\<forall>p. NL \<notin> set p \<longrightarrow> p \<noteq> [] \<longrightarrow> contains p z = contains p t)"
proof (cases "suffix [NL, NL] t")
  case True
  then obtain z where t: "t = (z @ [NL]) @ [NL]" by (auto simp: suffix_def)
  have "contains p (z @ [NL]) = contains p t" if "NL \<notin> set p" "p \<noteq> []" for p
    unfolding t using contains_across_NL [OF that, of "z @ [NL]" "[]"] that(2) by simp
  with t True show ?thesis by (intro exI [of _ "z @ [NL]"]) (simp add: block_separator_def)
next
  case False
  show ?thesis
  proof (cases "suffix [NL] t")
    case True
    with False show ?thesis by (intro exI [of _ t]) (simp add: block_separator_def)
  next
    case f: False
    have "contains p (t @ [NL]) = contains p t" if "NL \<notin> set p" "p \<noteq> []" for p
      using contains_across_NL [OF that, of t "[]"] that(2) by simp
    with f False show ?thesis by (intro exI [of _ "t @ [NL]"]) (simp add: block_separator_def)
  qed
qed

lemma contains_separated:
  assumes "NL \<notin> set p" and "p \<noteq> []"
  shows "contains p (t @ block_separator t @ y) \<longleftrightarrow> contains p t \<or> contains p y"
proof -
  obtain z where z: "t @ block_separator t = z @ [NL]" and c: "contains p z = contains p t"
    using separator_ends [of t] assms by (elim exE conjE) simp
  have "t @ block_separator t @ y = z @ NL # y" using z by simp
  with c show ?thesis by (simp only: contains_across_NL [OF assms])
qed

lemma separated_last: "last (t @ block_separator t) = NL"
proof -
  obtain z where "t @ block_separator t = z @ [NL]" using separator_ends [of t] by (elim exE conjE)
  then show ?thesis by simp
qed

subsection \<open>Injecting once and again\<close>

lemma inject_found:
  "block_search (normalize_eol t) = Some x \<Longrightarrow> inject_script t = sub_blocks (normalize_eol t)"
  unfolding inject_script_def Let_def by (simp only: option.simps) simp

lemma inject_absent:
  "block_search (normalize_eol t) = None \<Longrightarrow>
   inject_script t = normalize_eol t @ block_separator (normalize_eol t) @ installed @ [NL]"
  by (simp add: inject_script_def Let_def installer_block)

lemma inject_no_CR: "CR \<notin> set (inject_script t)"
proof -
  have "CR \<notin> set (block_separator n)" for n by (simp add: block_separator_def)
  then show ?thesis
    using normalize_no_CR [of t] installed_no_CR set_sub_blocks [of "normalize_eol t"]
    by (cases "block_search (normalize_eol t)") (auto simp: inject_found inject_absent)
qed

lemma inject_again:
  assumes "block_search (inject_script t) = Some x"
  shows "inject_script (inject_script t) = sub_blocks (inject_script t)"
  using assms by (simp add: inject_found normalize_id inject_no_CR)

lemma marker_at:
  "\<not> contains BEGIN_MARKER t \<Longrightarrow>
   cut BEGIN_MARKER (t @ block_separator t @ BEGIN_MARKER @ y) = Some (t @ block_separator t, y)"
  using cut_marker [of BEGIN_MARKER "t @ block_separator t" y] separated_last [of t]
    contains_separated [of BEGIN_MARKER t "[]"] by (simp add: markers_one_line)

lemma inject_idem:
  assumes "contains BEGIN_MARKER (normalize_eol t) \<Longrightarrow> block_search (normalize_eol t) \<noteq> None"
  shows "inject_script (inject_script t) = inject_script t"
proof (cases "block_search (normalize_eol t)")
  case (Some x)
  then obtain a m c where x: "block_search (normalize_eol t) = Some (a, m, c)" by (cases x) simp
  have "inject_script t = sub_blocks (normalize_eol t)" using Some by (rule inject_found)
  with search_sub_blocks [OF x] inject_again [of t] sub_blocks_idem show ?thesis by simp
next
  case None
  with assms have n: "\<not> contains BEGIN_MARKER (normalize_eol t)" by blast
  have b: "block_search (inject_script t) =
      Some (normalize_eol t @ block_separator (normalize_eol t), installed, [NL])"
    using marker_at [OF n] cut_mid [of "[NL]"] by (simp add: inject_absent [OF None] block_search_def)
  have "block_search [NL] = None" by (simp add: block_search_def BEGIN_MARKER_def)
  then have "sub_blocks [NL] = [NL]" by (rule sub_blocks_None)
  with sub_blocks_Some [OF b] inject_again [OF b] show ?thesis by (simp add: inject_absent [OF None])
qed

lemma begin_mid_no_end: "\<not> contains END_MARKER (BEGIN_MARKER @ block_mid)"
proof -
  have "BEGIN_MARKER @ block_mid = (BEGIN_MARKER @ block_head) @ NL # (block INSTALLER_LINES @ NL # [])"
    by (simp add: block_mid_def)
  then have "contains END_MARKER (BEGIN_MARKER @ block_mid) \<longleftrightarrow>
      contains END_MARKER (BEGIN_MARKER @ block_head) \<or> list_ex (contains END_MARKER) INSTALLER_LINES
        \<or> contains END_MARKER []"
    by (simp only: contains_across_NL contains_block markers_one_line if_False simp_thms)
  then show ?thesis by (simp add: head_facts(3) lines_facts(2) markers_one_line)
qed

lemma orphan_tail:
  assumes "n = x @ b" and "x \<noteq> []" and "last x \<noteq> NL"
  obtains w where "b @ block_separator n = w @ [NL]"
    and "\<And>p. NL \<notin> set p \<Longrightarrow> p \<noteq> [] \<Longrightarrow> contains p w \<Longrightarrow> contains p b"
proof (cases "suffix [NL, NL] n")
  case True
  then have "last n = NL" by (auto simp: suffix_def)
  with assms have b: "b \<noteq> []" "last b = NL" by (cases "b = []"; simp)+
  then have "b = butlast b @ [NL]" by (metis append_butlast_last_id)
  moreover from this have "contains p (butlast b) \<Longrightarrow> contains p b" for p
    by (metis sublist_append_rightI sublist_order.order_trans)
  ultimately show thesis using that [of "butlast b"] True by (simp add: block_separator_def)
next
  case False
  show thesis
  proof (cases "suffix [NL] n")
    case True
    with False that [of b] show thesis by (simp add: block_separator_def)
  next
    case f: False
    with False that [of "b @ [NL]"] show thesis
      using contains_across_NL [of _ b "[]"] by (simp add: block_separator_def)
  qed
qed

lemma inject_orphan:
  assumes "cut BEGIN_MARKER (normalize_eol t) = Some (a, b)" and "\<not> contains BLOCK_END b"
  shows "inject_script (inject_script t) = a @ INSTALLER_BLOCK"
proof -
  let ?n = "normalize_eol t"
  have n: "block_search ?n = None" using assms by (simp add: block_search_def cut_absent)
  have q: "?n = (a @ BEGIN_MARKER) @ b" using cut_SomeD [OF assms(1)] by simp
  have l: "last (a @ BEGIN_MARKER) \<noteq> NL" "a @ BEGIN_MARKER \<noteq> []" by (simp_all add: BEGIN_MARKER_def)
  from orphan_tail [OF q l(2,1)] obtain w where w: "b @ block_separator ?n = w @ [NL]"
    "\<And>p. NL \<notin> set p \<Longrightarrow> p \<noteq> [] \<Longrightarrow> contains p w \<Longrightarrow> contains p b" by metis
  define y where "y = w @ NL # BEGIN_MARKER @ block_mid"
  have "\<not> contains BLOCK_END w" using w(2) markers_one_line assms(2) by blast
  then have y: "\<not> contains BLOCK_END y"
    using no_end_marker [OF begin_mid_no_end] contains_across_NL [OF markers_one_line(5,6), of w]
    by (simp add: y_def)
  have "last y = NL" by (simp add: y_def mid_last)
  with y have "cut BLOCK_END (y @ BLOCK_END @ [NL]) = Some (y, [NL])"
    by (intro cut_marker) (simp_all add: markers_one_line)
  moreover have "b @ block_separator ?n @ installed @ [NL] = y @ BLOCK_END @ [NL]"
    using w(1) by (simp add: y_def)
  then have "cut BEGIN_MARKER (inject_script t) = Some (a, y @ BLOCK_END @ [NL])"
    using cut_extends [OF assms(1), of "block_separator ?n @ installed @ [NL]"]
    by (simp add: inject_absent [OF n])
  ultimately have b: "block_search (inject_script t) = Some (a, BEGIN_MARKER @ y @ BLOCK_END, [NL])"
    by (simp add: block_search_def)
  have "block_search [NL] = None" by (simp add: block_search_def BEGIN_MARKER_def)
  then have "sub_blocks [NL] = [NL]" by (rule sub_blocks_None)
  with sub_blocks_Some [OF b] inject_again [OF b] show ?thesis by (simp add: installer_block)
qed

end
