(* ===== verification/Ak3_Verify.thy ===== *)
theory Ak3_Verify
  imports Ak3_Laws Utf8 Config_Laws
begin

text \<open>
  That the verification of \<^verbatim>\<open>scripts/ak3_bundle_ksu_module.py\<close> accepts what its injection makes
  of a script, and of a zip when the module comes from \<^verbatim>\<open>scripts/build_ksu_module.py\<close>.
\<close>

subsection \<open>The installed script\<close>

lemma occurrences_once:
  "cut p t = Some (a, b) \<Longrightarrow> p \<noteq> [] \<Longrightarrow> \<not> contains p b \<Longrightarrow> occurrences p t = 1"
  using occurrences_cut [of p t] by (simp add: occurrences_absent)

lemma end_no_begin: "\<not> contains BEGIN_MARKER (block_mid @ BLOCK_END @ [NL])"
proof -
  have "block_mid @ BLOCK_END @ [NL] = (block_head @ NL # block INSTALLER_LINES) @ NL # (BLOCK_END @ [NL])"
    by (simp add: block_mid_def)
  then have "contains BEGIN_MARKER (block_mid @ BLOCK_END @ [NL]) \<longleftrightarrow>
      (contains BEGIN_MARKER block_head \<or> list_ex (contains BEGIN_MARKER) INSTALLER_LINES)
        \<or> contains BEGIN_MARKER (BLOCK_END @ [NL])"
    by (simp only: contains_across_NL contains_block markers_one_line if_False simp_thms)
  then show ?thesis by (simp add: head_facts(1,4) lines_facts(1))
qed

lemma installed_lines:
  assumes "NL \<notin> set p" and "p \<noteq> []"
  shows "contains p installed \<longleftrightarrow>
    contains p (BEGIN_MARKER @ block_head) \<or> list_ex (contains p) INSTALLER_LINES \<or> contains p BLOCK_END"
proof -
  have "installed = (BEGIN_MARKER @ block_head) @ NL # (block INSTALLER_LINES @ NL # BLOCK_END)"
    by (simp add: block_mid_def)
  then show ?thesis by (simp only: contains_across_NL [OF assms] contains_block [OF assms])
qed

lemma installed_without:
  "\<not> contains ''exit'' installed" "\<not> contains ''set -e'' installed"
  using head_facts(6,7) lines_facts(3,4) by (simp_all add: installed_lines)

lemma installed_needles:
  "contains ''module install'' installed" "contains ''magisk --install-module'' installed"
  "contains ''/data/adb/modules/'' installed"
  using lines_facts(5,6,7) by (simp_all add: installed_lines)

lemma lstrip_suffix: "suffix (py_lstrip t) t"
proof (induction t rule: py_lstrip.induct)
  case (2 c t)
  have "suffix (drop (ws_len (c # t) - 1) t) (c # t)" by (metis suffix_ConsI suffix_drop)
  with 2 show ?case by (metis py_lstrip.simps(2) suffix_order.order_trans suffix_order.order_refl)
qed simp

lemma after_NL_suffix: "s \<in> set (after_NL t) \<Longrightarrow> suffix s t"
  by (induction t) (auto split: if_splits simp: suffix_Cons)

lemma exits_contains: "exits_nonzero s \<Longrightarrow> suffix s t \<Longrightarrow> contains ''exit'' t"
proof -
  assume "exits_nonzero s" and s: "suffix s t"
  then have "prefix ''exit'' (py_lstrip s)" by (simp add: exits_nonzero_def Let_def)
  moreover have "suffix (py_lstrip s) t" using lstrip_suffix s by (rule suffix_order.order_trans)
  ultimately show ?thesis by (auto simp: prefix_def suffix_def sublist_def)
qed

lemma aborts_contains: "aborts_flash t \<Longrightarrow> contains ''exit'' t"
  by (auto simp: aborts_flash_def list_ex_iff dest: exits_contains after_NL_suffix)

lemma check_installed:
  assumes b: "\<not> contains BEGIN_MARKER t" and e: "\<not> contains END_MARKER t"
  shows "check_anykernel_text (t @ block_separator t @ installed @ [NL]) = Inr []"
proof -
  let ?t = "t @ block_separator t" and ?all = "t @ block_separator t @ installed @ [NL]"
  have cb: "cut BEGIN_MARKER ?all = Some (?t, block_mid @ BLOCK_END @ [NL])"
    using marker_at [OF b, of "block_mid @ BLOCK_END @ [NL]"] by simp
  then have ob: "occurrences BEGIN_MARKER ?all = 1"
    by (rule occurrences_once) (simp_all add: markers_one_line end_no_begin)
  have x: "\<not> contains END_MARKER (t @ block_separator t @ BEGIN_MARKER @ block_mid)"
    using contains_separated [of END_MARKER t] e begin_mid_no_end by (simp add: markers_one_line)
  have "cut END_MARKER ((t @ block_separator t @ BEGIN_MARKER @ block_mid) @ END_MARKER @ '' <<<'' @ [NL]) =
      Some (t @ block_separator t @ BEGIN_MARKER @ block_mid, '' <<<'' @ [NL])"
    using x by (intro cut_marker) (simp_all add: markers_one_line mid_last)
  then have "cut END_MARKER ?all = Some (t @ block_separator t @ BEGIN_MARKER @ block_mid, '' <<<'' @ [NL])"
    by (simp add: BLOCK_END_def)
  then have oe: "occurrences END_MARKER ?all = 1"
    by (rule occurrences_once) (simp_all only: markers_one_line head_facts(5) if_False simp_thms)
  have s: "block_search ?all = Some (?t, installed, [NL])"
    using cb cut_mid [of "[NL]"] by (simp add: block_search_def)
  have "\<not> contains ([NL] @ ''set -e'') installed"
    using installed_without(2) by (metis sublist_append_leftI sublist_order.order_trans)
  moreover have "\<not> aborts_flash installed" using aborts_contains installed_without(1) by blast
  ultimately show ?thesis
    using installed_needles ob oe s by (simp add: check_anykernel_text_def)
qed

lemma check_injected:
  assumes "\<not> contains BEGIN_MARKER (normalize_eol t)" and "\<not> contains END_MARKER (normalize_eol t)"
  shows "check_anykernel_text (inject_script t) = Inr []"
proof -
  have "block_search (normalize_eol t) = None" using assms(1) by (simp add: block_search_def cut_absent)
  with check_installed [OF assms] show ?thesis by (simp add: inject_absent)
qed

subsection \<open>The installed script is text\<close>

lemma lines_ascii: "list_all ascii INSTALLER_LINES = True"
  by code_simp

lemma ascii_block: "list_all ascii ls \<Longrightarrow> ascii (block ls)"
  unfolding block_def by (induction "[NL]" ls rule: py_join.induct) (auto simp: in_range_def)

lemma ascii_installed: "ascii (installed @ [NL])"
proof -
  have "ascii (BEGIN_MARKER @ block_head) \<and> ascii BLOCK_END" by code_simp
  then show ?thesis using ascii_block lines_ascii by (simp add: block_mid_def)
qed

lemma utf8_valid_CR_NL: "utf8_valid t \<Longrightarrow> utf8_valid (map (\<lambda>c. if c = CR then NL else c) t)"
proof (induction t rule: length_induct)
  case (1 t)
  have keep: "\<not> in_range 0 0x7F c \<Longrightarrow> c \<noteq> CR" "cont_byte c \<Longrightarrow> c \<noteq> CR" for c by (auto simp: in_range_def)
  have cont: "in_range 0x80 0xBF c \<Longrightarrow> \<not> in_range 0 0x7F c" for c by (auto simp: in_range_def)
  show ?case
  proof (cases t)
    case (Cons a u)
    from "1.prems" [unfolded Cons] show ?thesis
    proof (cases rule: utf8_valid_ConsE)
      case one
      with "1.IH" Cons show ?thesis by simp
    qed (use "1.IH" Cons keep in auto)
  qed simp
qed

lemma utf8_valid_inject:
  assumes "utf8_valid t" and "\<not> contains BEGIN_MARKER (normalize_eol t)"
  shows "utf8_valid (inject_script t)"
proof -
  have n: "block_search (normalize_eol t) = None" using assms(2) by (simp add: block_search_def cut_absent)
  have "utf8_valid (normalize_eol t)"
    using assms(1) by (simp add: normalize_map utf8_valid_to_lf utf8_valid_CR_NL)
  moreover have "ascii (block_separator (normalize_eol t))" by (simp add: block_separator_def)
  then have "utf8_valid (block_separator (normalize_eol t) @ installed @ [NL])"
    using ascii_installed by (intro utf8_valid_ascii) simp
  ultimately show ?thesis unfolding inject_absent [OF n] by (simp only: utf8_valid_append)
qed

subsection \<open>The module zip a build makes\<close>

lemma build_run:
  assumes "build R src fs = Inr ms"
  obtains t es where "map_of fs ''module.prop'' = Some t" and "utf8_valid t"
    and "prop_id (splitlines t) = Some (path_name src)" and "module_entries R src fs = Inr es"
    and "ms = map (\<lambda>(n, d, m). zip_info n m FIXED_TIME d) es"
  using assms
  by (auto simp: build_def read_module_id_def tool_bind_Inr split: option.splits if_splits)

lemma find_SomeD: "find P xs = Some x \<Longrightarrow> x \<in> set xs \<and> P x"
  by (induction xs) (auto split: if_splits)

lemma find_some: "x \<in> set xs \<Longrightarrow> P x \<Longrightarrow> \<exists>y. find P xs = Some y"
  by (induction xs) auto

lemma zip_read_distinct:
  assumes "distinct (map z_name es)" and "e \<in> set es"
  shows "zip_read es (z_name e) = Some (z_data e)"
proof -
  obtain x where x: "find (\<lambda>f. z_name f = z_name e) (rev es) = Some x"
    using find_some [of e "rev es" "\<lambda>f. z_name f = z_name e"] assms(2) by auto
  have "x \<in> set es" "z_name x = z_name e" using find_SomeD [OF x] by simp_all
  with assms have "x = e" unfolding distinct_map by (blast dest: inj_onD)
  with x show ?thesis by (simp add: zip_read_def)
qed

lemma embeds_mode:
  "list_all2 (\<lambda>(s, t) (n, d, m). repo_file R s = Some d \<and> n = t \<and> m = entry_mode t) ps ds \<Longrightarrow>
   (n, d, m) \<in> set ds \<Longrightarrow> (\<exists>s. (s, n) \<in> set ps \<and> repo_file R s = Some d) \<and> m = entry_mode n"
  by (induction rule: list_all2_induct) auto

lemma build_members:
  assumes "build R src fs = Inr ms" and "distinct (map fst fs)"
  shows "zip_read ms ''module.prop'' = map_of fs ''module.prop''"
    and "\<forall>e \<in> set ms. z_mode e = entry_mode (z_name e)"
proof -
  from assms(1) obtain t es where t: "map_of fs ''module.prop'' = Some t"
    and es: "module_entries R src fs = Inr es" and ms: "ms = map (\<lambda>(n, d, m). zip_info n m FIXED_TIME d) es"
    by (rule build_run)
  obtain ps ds where "read_embed_manifest R src fs = Inr ps"
    and s: "set es = (\<lambda>(n, d). (n, d, entry_mode n)) ` set fs \<union> set ds"
    and l: "list_all2 (\<lambda>(s, t) (n, d, m). repo_file R s = Some d \<and> n = t \<and> m = entry_mode t) ps ds"
    and "sorted (map fst es)" and d: "distinct (map fst es)" and "map_of fs ''module.prop'' \<noteq> None"
    by (rule module_entries_run [OF es assms(2)])
  have n: "map z_name ms = map fst es" by (simp add: ms zip_info_def case_prod_unfold)
  have "(''module.prop'', t, entry_mode ''module.prop'') \<in> set es"
    using map_of_SomeD [OF t] by (force simp: s)
  then have m: "zip_info ''module.prop'' (entry_mode ''module.prop'') FIXED_TIME t \<in> set ms"
    by (force simp: ms)
  show "zip_read ms ''module.prop'' = map_of fs ''module.prop''"
    using zip_read_distinct [OF _ m] d t by (simp add: n) (simp add: zip_info_def)
  have "m = entry_mode n" if "(n, d, m) \<in> set es" for n d m
    using that embeds_mode [OF l] by (auto simp: s)
  moreover have "z_mode (zip_info n (entry_mode n) FIXED_TIME d) = entry_mode n" for n d
    by (simp add: zip_info_def z_mode_def entry_mode_def EXECUTABLE_MODE_def REGULAR_MODE_def)
  moreover have "z_name (zip_info n m FIXED_TIME d) = n" for n m d by (simp add: zip_info_def)
  ultimately show "\<forall>e \<in> set ms. z_mode e = entry_mode (z_name e)"
    by (fastforce simp: ms)
qed

lemma build_contents:
  assumes "build R src fs = Inr ms" and "distinct (map fst fs)"
  shows "sorted (map z_name ms) \<and> distinct (map z_name ms)
    \<and> (\<forall>(n, d) \<in> set fs. \<exists>e \<in> set ms. z_name e = n \<and> z_data e = d)
    \<and> (\<forall>e \<in> set ms. z_date e = FIXED_TIME \<and> ((z_name e, z_data e) \<in> set fs \<or> (safe_target (z_name e) \<and>
         (\<exists>s. prefix (repo_resolve R (repo_root R)) s \<and> repo_file R s = Some (z_data e)))))"
proof -
  from assms(1) obtain t es where es: "module_entries R src fs = Inr es"
    and ms: "ms = map (\<lambda>(n, d, m). zip_info n m FIXED_TIME d) es"
    by (rule build_run)
  obtain ps ds where p: "read_embed_manifest R src fs = Inr ps"
    and s: "set es = (\<lambda>(n, d). (n, d, entry_mode n)) ` set fs \<union> set ds"
    and l: "list_all2 (\<lambda>(s, t) (n, d, m). repo_file R s = Some d \<and> n = t \<and> m = entry_mode t) ps ds"
    and o: "sorted (map fst es)" and d: "distinct (map fst es)" and "map_of fs ''module.prop'' \<noteq> None"
    by (rule module_entries_run [OF es assms(2)])
  have n: "map z_name ms = map fst es" by (simp add: ms zip_info_def case_prod_unfold)
  have all: "\<exists>e \<in> set ms. z_name e = n \<and> z_data e = x" if "(n, x) \<in> set fs" for n x
  proof -
    from that have "(n, x, entry_mode n) \<in> set es" by (force simp: s)
    then have "zip_info n (entry_mode n) FIXED_TIME x \<in> set ms" by (force simp: ms)
    then show ?thesis by (rule bexI [rotated]) (simp add: zip_info_def)
  qed
  have src: "(n, x) \<in> set fs \<or> (safe_target n \<and>
      (\<exists>s. prefix (repo_resolve R (repo_root R)) s \<and> repo_file R s = Some x))" if "(n, x, m) \<in> set es" for n x m
  proof (cases "(n, x, m) \<in> set ds")
    case True
    from embeds_mode [OF l True] obtain q where "(q, n) \<in> set ps" "repo_file R q = Some x" by blast
    then show ?thesis using read_embed_manifest_safe [OF p] by blast
  next
    case False
    with that show ?thesis by (auto simp: s)
  qed
  have "z_date e = FIXED_TIME \<and> ((z_name e, z_data e) \<in> set fs \<or> (safe_target (z_name e) \<and>
      (\<exists>s. prefix (repo_resolve R (repo_root R)) s \<and> repo_file R s = Some (z_data e))))" if e: "e \<in> set ms" for e
  proof -
    from e obtain n x m where "(n, x, m) \<in> set es" "e = zip_info n m FIXED_TIME x" by (auto simp: ms)
    with src [of n x m] show ?thesis by (simp add: zip_info_def)
  qed
  with all o d show ?thesis unfolding n by blast
qed

subsection \<open>Names\<close>

lemma cut_char: "c \<notin> set a \<Longrightarrow> cut [c] (a @ c # b) = Some (a, b)"
  by (induction a) auto

lemma cut_char_None: "c \<notin> set a \<Longrightarrow> cut [c] a = None"
  by (simp add: cut_None_iff) (auto simp: sublist_def)

lemma path_name_one_component: "CHR ''/'' \<notin> set (path_name p)"
proof (cases "rev (filter (\<lambda>c. c \<notin> {[], ''.''}) (split_on ''/'' p))")
  case (Cons c cs)
  then have "c \<in> set (rev (filter (\<lambda>c. c \<notin> {[], ''.''}) (split_on ''/'' p)))" by simp
  then have "c \<in> set (split_on ''/'' p)" by (simp only: set_rev set_filter mem_Collect_eq)
  then have "\<not> contains ''/'' c" by (intro split_on_clean) simp_all
  then have "CHR ''/'' \<notin> set c" by (auto simp: in_set_conv_decomp sublist_def)
  then show ?thesis using Cons by (simp add: path_name_def)
qed (simp add: path_name_def)

definition module_member :: "str \<Rightarrow> str" where
  \<comment> \<open>the name of the bundled zip of a module\<close>
  "module_member i = BUNDLE_DIR @ ''/'' @ i @ ''.zip''"

lemma path_name_member: "CHR ''/'' \<notin> set i \<Longrightarrow> path_name (module_member i) = i @ ''.zip''"
proof -
  assume i: "CHR ''/'' \<notin> set i"
  have "CHR ''/'' \<notin> set BUNDLE_DIR" by (simp add: BUNDLE_DIR_def)
  from cut_char [OF this, of "i @ ''.zip''"]
  have "split_on ''/'' (module_member i) = BUNDLE_DIR # split_on ''/'' (i @ ''.zip'')"
    by (subst split_on.simps) (simp add: module_member_def)
  moreover have "split_on ''/'' (i @ ''.zip'') = [i @ ''.zip'']"
    using cut_char_None [of "CHR ''/''" "i @ ''.zip''"] i by (subst split_on.simps) simp
  ultimately show ?thesis by (cases i) (simp_all add: path_name_def)
qed

lemma path_stem_member: "CHR ''/'' \<notin> set i \<Longrightarrow> i \<noteq> [] \<Longrightarrow> path_stem (module_member i) = i"
  by (simp add: path_stem_def path_name_member Let_def)

lemma bundled_member: "bundled (module_member i)"
  by (simp add: bundled_def module_member_def suffix_def)

lemma member_not_script: "module_member i \<noteq> ANY_KERNEL_SCRIPT"
  by (simp add: module_member_def BUNDLE_DIR_def ANY_KERNEL_SCRIPT_def)

subsection \<open>Every member of an injected zip\<close>

definition one_id :: "str \<Rightarrow> str \<Rightarrow> bool" where
  \<comment> \<open>every line of \<^verbatim>\<open>module.prop\<close> that sets \<open>id\<close>, however it is spaced, sets this one\<close>
  "one_id t i = list_all (\<lambda>l. contains ''='' l \<and> \<not> prefix ''#'' l \<and> py_strip (fst (partition_eq l)) = ''id''
     \<longrightarrow> py_strip (snd (partition_eq l)) = i) (splitlines t)"

lemma parse_props_other:
  "list_all (\<lambda>l. contains ''='' l \<and> \<not> prefix ''#'' l \<and> py_strip (fst (partition_eq l)) = k
     \<longrightarrow> py_strip (snd (partition_eq l)) = i) ls \<Longrightarrow> map_of ps k = Some i \<Longrightarrow>
   map_of (parse_props ls ps) k = Some i"
proof (induction ls arbitrary: ps)
  case (Cons l ls)
  show ?case
  proof (cases "contains ''='' l \<and> \<not> prefix ''#'' l")
    case True
    let ?ps = "AList.update (py_strip (fst (partition_eq l))) (py_strip (snd (partition_eq l))) ps"
    have "map_of ?ps k = Some i" using Cons.prems True by (auto simp: update_conv')
    with Cons True show ?thesis by simp
  next
    case False
    with Cons show ?thesis by (auto split: if_splits)
  qed
qed simp

lemma id_line: "prefix ''id='' l \<Longrightarrow> contains ''='' l \<and> \<not> prefix ''#'' l
    \<and> py_strip (fst (partition_eq l)) = ''id'' \<and> py_strip (snd (partition_eq l)) = py_strip (drop 3 l)"
proof -
  assume "prefix ''id='' l"
  then obtain v where l: "l = ''id'' @ CHR ''='' # v" by (auto simp: prefix_def)
  have "cut ''='' l = Some (''id'', v)" unfolding l by (rule cut_char) simp
  moreover have "py_strip ''id'' = ''id''" by code_simp
  moreover have "contains ''='' l" by (simp add: l sublist_def) (metis append_Cons append_Nil)
  ultimately show ?thesis by (simp add: l partition_eq_def)
qed

lemma parse_props_id:
  "prop_id ls = Some i \<Longrightarrow>
   list_all (\<lambda>l. contains ''='' l \<and> \<not> prefix ''#'' l \<and> py_strip (fst (partition_eq l)) = ''id''
     \<longrightarrow> py_strip (snd (partition_eq l)) = i) ls \<Longrightarrow> map_of (parse_props ls ps) ''id'' = Some i"
proof (induction ls arbitrary: ps)
  case (Cons l ls)
  show ?case
  proof (cases "prefix ''id='' l")
    case True
    with Cons.prems have "py_strip (drop 3 l) = i" by simp
    with id_line [OF True] parse_props_other [of "''id''" i ls] Cons.prems(2) show ?thesis
      by (simp add: update_conv')
  next
    case False
    with Cons show ?thesis by (auto split: if_splits)
  qed
qed simp

lemma check_built:
  assumes "build R src fs = Inr ms" and "distinct (map fst fs)" and "unzip d = Some ms"
    and "map_of fs ''module.prop'' = Some t" and "one_id t (path_name src)"
  shows "check_module_zip unzip d (path_name src) = Inr []"
    and "module_zip_id unzip mz d = Inr (path_name src)"
proof -
  from assms(1,4) have v: "utf8_valid t" and i: "prop_id (splitlines t) = Some (path_name src)"
    by (auto elim!: build_run)
  have r: "zip_read ms ''module.prop'' = Some t" using build_members(1) [OF assms(1,2)] assms(4) by simp
  have m: "map_of (parse_props (splitlines t) []) ''id'' = Some (path_name src)"
    using parse_props_id [OF i] assms(5) unfolding one_id_def by blast
  have "filter (\<lambda>e. suffix ''.sh'' (z_name e) \<and> z_mode e \<noteq> EXECUTABLE_MODE) ms = []"
    using build_members(2) [OF assms(1,2)] by (simp add: filter_empty_conv entry_mode_def)
  with r m v show "check_module_zip unzip d (path_name src) = Inr []"
    by (simp add: check_module_zip_def assms(3) Let_def)
  from r v i show "module_zip_id unzip mz d = Inr (path_name src)"
    by (simp add: module_zip_id_def assms(3))
qed

lemma rewrite_member_simps [simp]:
  "z_name (rewrite_member m e d) = z_name e" "z_data (rewrite_member m e d) = d"
  by (simp_all add: rewrite_member_def zip_info_def)

lemma find_named:
  "(\<forall>e. z_name (F e) = z_name e \<and> z_data (F e) = g (z_name e)) \<Longrightarrow>
   map_option z_data (find (\<lambda>e. z_name e = n) (map F xs)) =
     (if n \<in> z_name ` set xs then Some (g n) else None)"
  by (induction xs) auto

lemma zip_read_map:
  "(\<forall>e. z_name (F e) = z_name e \<and> z_data (F e) = g (z_name e)) \<Longrightarrow>
   zip_read (map F xs) n = (if n \<in> z_name ` set xs then Some (g n) else None)"
  using find_named [of F g n "rev xs"] by (simp add: zip_read_def rev_map)

lemma zip_read_absent: "n \<notin> z_name ` set es \<Longrightarrow> zip_read es n = None"
  by (auto simp: zip_read_def find_None_iff)

lemma zip_read_snoc: "zip_read (es @ [e]) n = (if z_name e = n then Some (z_data e) else zip_read es n)"
  by (simp add: zip_read_def)

lemma zip_read_inject:
  "zip_read (inject_members es patched m name d) n =
     (if n = ANY_KERNEL_SCRIPT \<and> n \<in> z_name ` set es then Some patched
      else if n = name then Some d else zip_read es n)"
proof -
  let ?g = "\<lambda>k. if k = ANY_KERNEL_SCRIPT then patched else if k = name then d else the (zip_read es k)"
  have r: "zip_read (map (\<lambda>e. rewrite_member m e (?g (z_name e))) es) n =
      (if n \<in> z_name ` set es then Some (?g n) else None)"
    by (rule zip_read_map) simp
  have "zip_read es n \<noteq> None" if "n \<in> z_name ` set es"
  proof -
    from that obtain e where "e \<in> set (rev es)" "z_name e = n" by auto
    then obtain x where "find (\<lambda>e. z_name e = n) (rev es) = Some x"
      using find_some [of e "rev es" "\<lambda>e. z_name e = n"] by blast
    then show ?thesis by (simp add: zip_read_def)
  qed
  with r show ?thesis
    by (cases "n \<in> z_name ` set es"; cases "name \<in> z_name ` set es"; cases "n = name")
      (simp_all add: inject_members_def zip_read_snoc zip_read_absent zip_info_def)
qed

lemma names_inject:
  "map z_name (inject_members es patched m name d) =
     map z_name es @ (if name \<in> z_name ` set es then [] else [name])"
  by (simp add: inject_members_def zip_info_def)

lemma check_modules_all:
  "\<forall>(n, d) \<in> set ps. check_module_zip unzip d (path_stem n) = Inr [] \<Longrightarrow> check_modules unzip ps = Inr []"
  by (induction ps) auto

lemma inject_verifies:
  assumes i: "module_zip_id unzip mz d = Inr i" "CHR ''/'' \<notin> set i" "i \<noteq> []"
    and c: "check_module_zip unzip d i = Inr []"
    and s: "zip_read es ANY_KERNEL_SCRIPT = Some s" "utf8_valid s"
      "\<not> contains BEGIN_MARKER (normalize_eol s)" "\<not> contains END_MARKER (normalize_eol s)"
    and f: "\<forall>e \<in> set es. bundled (z_name e) \<longrightarrow> z_name e = module_member i"
  shows "\<exists>es'. inject_zip unzip source es mz d = Inr (es', module_member i)
     \<and> verify_zip unzip out es' = Inr []
     \<and> zip_read es' (module_member i) = Some d
     \<and> (\<forall>n. n \<notin> {ANY_KERNEL_SCRIPT, module_member i} \<longrightarrow> zip_read es' n = zip_read es n)"
proof -
  from s(1) obtain e where e: "find (\<lambda>e. z_name e = ANY_KERNEL_SCRIPT) (rev es) = Some e" "z_data e = s"
    by (auto simp: zip_read_def)
  then have n: "ANY_KERNEL_SCRIPT \<in> z_name ` set es" using find_SomeD [OF e(1)] by force
  define es' where "es' = inject_members es (inject_script s) (z_mode e) (module_member i) d"
  have run: "inject_zip unzip source es mz d = Inr (es', module_member i)"
    using e s(2) i(1) by (simp add: inject_zip_def es'_def module_member_def Let_def)
  have script: "zip_read es' ANY_KERNEL_SCRIPT = Some (inject_script s)"
    using n by (simp add: es'_def zip_read_inject)
  have member: "zip_read es' (module_member i) = Some d"
    using member_not_script by (simp add: es'_def zip_read_inject)
  have "module_member i \<in> set (map z_name es')" by (auto simp: es'_def names_inject)
  with bundled_member have "module_member i \<in> set (filter bundled (map z_name es'))"
    unfolding set_filter by blast
  then have names: "filter bundled (map z_name es') \<noteq> []" by (intro notI) (simp only: list.set empty_iff)
  have all: "\<forall>n \<in> set (filter bundled (map z_name es')). n = module_member i"
    using f by (auto simp: es'_def names_inject split: if_splits)
  let ?ps = "map (\<lambda>n. (n, the (zip_read es' n))) (filter bundled (map z_name es'))"
  have "filter (\<lambda>(n, d). bundled n) ?ps = ?ps" by (simp add: filter_map comp_def)
  moreover have "check_modules unzip ?ps = Inr []"
    using all member c path_stem_member [OF i(2,3)] by (intro check_modules_all) auto
  ultimately have "check_bundle_files unzip ?ps (inject_script s) = Inr []"
    using check_injected [OF s(3,4)] names by (simp add: check_bundle_files_def Let_def)
  then have "verify_zip unzip out es' = Inr []"
    using script utf8_valid_inject [OF s(2,3)] by (simp add: verify_zip_def)
  with run member show ?thesis by (auto simp: es'_def zip_read_inject)
qed

end
