(* ===== verification/Hunks_Tool.thy ===== *)
theory Hunks_Tool
  imports Py_Text Cmdline_Laws
begin

text \<open>
  \<^verbatim>\<open>tools/hunks.py\<close>: the hunks of a unified diff, each with the file it is for, its header, the text
  it expects and the text it leaves. The laws show that it reads back what a diff writes, and what
  it makes of the signature \<^verbatim>\<open>git format-patch\<close> appends.
\<close>

type_synonym hunk = "str option \<times> str \<times> str \<times> str"  \<comment> \<open>file, header, old text, new text\<close>

subsection \<open>\<open>parse_patch\<close>\<close>

fun body_lines :: "str list \<Rightarrow> str list \<times> str list \<times> str list" where
  \<comment> \<open>the inner loop: the old lines, the new lines and what is left\<close>
  "body_lines [] = ([], [], [])"
| "body_lines (raw # ls) =
     (if prefix ''diff --git'' raw \<or> prefix ''@@'' raw then ([], [], raw # ls)
      else case body_lines ls of (old, new, rest) \<Rightarrow>
        (if prefix ''+'' raw then (old, drop 1 raw # new, rest)
         else if prefix ''-'' raw then (drop 1 raw # old, new, rest)
         else if prefix '' '' raw then (drop 1 raw # old, drop 1 raw # new, rest)
         else (old, new, rest)))"

lemma body_lines_rest: "length (snd (snd (body_lines ls))) \<le> length ls"
  by (induction ls) (auto split: prod.splits)

definition diff_path :: "str \<Rightarrow> str option" where
  \<comment> \<open>the third word of a \<^verbatim>\<open>diff --git\<close> line without its \<^verbatim>\<open>a/\<close>; \<open>None\<close> when there is none\<close>
  "diff_path line = (case ws_split [] line of
       _ # _ # p # _ \<Rightarrow> Some (if prefix ''a/'' p then drop 2 p else p)
     | _ \<Rightarrow> None)"

function parse_lines :: "str option \<Rightarrow> str list \<Rightarrow> hunk list tool" where
  \<comment> \<open>the outer loop, at the path last read\<close>
  "parse_lines file_path [] = Inr []"
| "parse_lines file_path (line # ls) =
     (if prefix ''diff --git '' line
      then (case diff_path line of None \<Rightarrow> Inl Index_Error | Some p \<Rightarrow> parse_lines (Some p) ls)
      else if prefix ''@@'' line
      then (case body_lines ls of (old, new, rest) \<Rightarrow>
        tool_bind (parse_lines file_path (snd (snd (body_lines ls)))) (\<lambda>hs.
        Inr ((file_path, line, py_join [NL] old, py_join [NL] new) # hs)))
      else parse_lines file_path ls)"
  by pat_completeness auto
termination
  by (relation "measure (\<lambda>(p, ls). length ls)")
    (auto intro: le_imp_less_Suc [OF body_lines_rest])

definition parse_patch :: "str \<Rightarrow> hunk list tool" where
  "parse_patch text = (if \<not> utf8_valid text then Inl Undecodable else parse_lines None (splitlines text))"

subsection \<open>\<open>main\<close>\<close>

definition show_hunk :: "hunk \<Rightarrow> str" where
  "show_hunk h = (case h of (file_path, header, old, new) \<Rightarrow>
     [NL] @ ''--- '' @ (case file_path of None \<Rightarrow> ''None'' | Some p \<Rightarrow> p) @ '' '' @ header @ [NL] @
     ''OLD >>>'' @ [NL] @ old @ [NL] @ ''<<< NEW'' @ [NL] @ new @ [NL] @ ''>>>'' @ [NL])"

fun hunks_main :: "(str \<times> str) list \<Rightarrow> str \<times> tool_error option" where
  \<comment> \<open>the patches of the directory in order, each its stem and its bytes: what is printed, and the
    exception that ends the run\<close>
  "hunks_main [] = ([], None)"
| "hunks_main ((stem, text) # ps) =
     (let rule = replicate 20 (CHR ''=''); head = [NL] @ rule @ '' '' @ stem @ '' '' @ rule @ [NL] in
      case parse_patch text of
        Inl e \<Rightarrow> (head, Some e)
      | Inr hs \<Rightarrow> (case hunks_main ps of (out, e) \<Rightarrow> (head @ concat (map show_hunk hs) @ out, e)))"

subsection \<open>What a diff writes\<close>

text \<open>
  \<open>Note\<close> is a line of no sign, as the one that says the file ends without a line end.
\<close>

datatype edit_line = Kept str | Gone str | Added str | Note str

fun show_edit :: "edit_line \<Rightarrow> str" where
  "show_edit (Kept l) = CHR '' '' # l"
| "show_edit (Gone l) = CHR ''-'' # l"
| "show_edit (Added l) = CHR ''+'' # l"
| "show_edit (Note l) = l"

fun old_side :: "edit_line list \<Rightarrow> str list" where
  "old_side [] = []"
| "old_side (Kept l # es) = l # old_side es"
| "old_side (Gone l # es) = l # old_side es"
| "old_side (Added l # es) = old_side es"
| "old_side (Note l # es) = old_side es"

fun new_side :: "edit_line list \<Rightarrow> str list" where
  "new_side [] = []"
| "new_side (Kept l # es) = l # new_side es"
| "new_side (Gone l # es) = new_side es"
| "new_side (Added l # es) = l # new_side es"
| "new_side (Note l # es) = new_side es"

type_synonym file_diff = "str \<times> (str \<times> edit_line list) list"

definition hunk_lines :: "str \<times> edit_line list \<Rightarrow> str list" where
  "hunk_lines h = fst h # map show_edit (snd h)"

definition diff_lines :: "file_diff \<Rightarrow> str list" where
  "diff_lines d = (''diff --git a/'' @ fst d @ '' b/'' @ fst d) # (''--- a/'' @ fst d) #
     (''+++ b/'' @ fst d) # concat (map hunk_lines (snd d))"

definition diff_hunks :: "file_diff \<Rightarrow> hunk list" where
  "diff_hunks d = map (\<lambda>(h, es). (Some (fst d), h, py_join [NL] (old_side es), py_join [NL] (new_side es))) (snd d)"

definition graphic :: "str \<Rightarrow> bool" where
  \<comment> \<open>printable ASCII without the space\<close>
  "graphic s = list_all (in_range 0x21 0x7E) s"

fun proper_edit :: "edit_line \<Rightarrow> bool" where
  "proper_edit (Note l) \<longleftrightarrow> unbroken l \<and>
     list_all (\<lambda>s. \<not> prefix s l) [''+'', ''-'', '' '', ''@@'', ''diff --git'']"
| "proper_edit e \<longleftrightarrow> unbroken (show_edit e)"

definition proper_diff :: "file_diff \<Rightarrow> bool" where
  "proper_diff d \<longleftrightarrow> graphic (fst d) \<and>
     list_all (\<lambda>(h, es). prefix ''@@'' h \<and> unbroken h \<and> list_all proper_edit es) (snd d)"

definition lines_text :: "str list \<Rightarrow> str" where
  "lines_text ls = concat (map (\<lambda>l. l @ [NL]) ls)"

definition stops :: "str list \<Rightarrow> bool" where
  \<comment> \<open>what may follow a hunk: nothing, or a line that ends it\<close>
  "stops ls \<longleftrightarrow> ls = [] \<or> prefix ''diff --git'' (hd ls) \<or> prefix ''@@'' (hd ls)"

lemma body_edits:
  "list_all proper_edit es \<Longrightarrow> body_lines (map show_edit es @ ls) =
     (let (old, new, rest) = body_lines ls in (old_side es @ old, new_side es @ new, rest))"
proof (induction es)
  case (Cons e es)
  then show ?case by (cases e) (simp_all add: Let_def split: prod.splits)
qed (simp add: Let_def split: prod.splits)

lemma body_stops: "stops ls \<Longrightarrow> body_lines ls = ([], [], ls)"
  by (cases ls) (auto simp: stops_def)

lemma parse_hunk:
  assumes "prefix ''@@'' h" and "list_all proper_edit es" and "stops ls"
  shows "parse_lines p (hunk_lines (h, es) @ ls) =
    tool_bind (parse_lines p ls) (\<lambda>hs. Inr ((p, h, py_join [NL] (old_side es), py_join [NL] (new_side es)) # hs))"
proof -
  from assms(1) have "\<not> prefix ''diff --git '' h" by (auto simp: prefix_def)
  with assms show ?thesis by (simp add: hunk_lines_def body_edits body_stops Let_def)
qed

lemma parse_hunks:
  "list_all (\<lambda>(h, es). prefix ''@@'' h \<and> list_all proper_edit es) hs \<Longrightarrow> stops ls \<Longrightarrow>
   parse_lines (Some p) (concat (map hunk_lines hs) @ ls) =
     tool_bind (parse_lines (Some p) ls) (\<lambda>r. Inr (diff_hunks (p, hs) @ r))"
proof (induction hs)
  case Nil
  then show ?case by (cases "parse_lines (Some p) ls") (simp_all add: diff_hunks_def)
next
  case (Cons x hs)
  obtain h es where x: "x = (h, es)" by (cases x)
  have "stops (concat (map hunk_lines hs) @ ls)"
    using Cons.prems by (cases hs) (auto simp: stops_def hunk_lines_def)
  with Cons x parse_hunk [of h es "concat (map hunk_lines hs) @ ls" "Some p"] show ?case
    by (simp add: diff_hunks_def tool_bind_assoc)
qed

lemma graphic_ws: "in_range 0x21 0x7E a \<Longrightarrow> ws_len (a # t) = 0"
  by (cases "map of_char (take 2 t) :: nat list") (auto simp: ws_len_code ws_code_def in_range_def split: list.splits)

lemma graphic_solid: "graphic s \<Longrightarrow> s \<noteq> [] \<Longrightarrow> solid s"
  by (auto simp: solid_def graphic_def list_all_length graphic_ws Cons_nth_drop_Suc [symmetric])

lemma diff_path_line: "graphic p \<Longrightarrow> diff_path (''diff --git a/'' @ p @ '' b/'' @ p) = Some p"
proof -
  assume p: "graphic p"
  have g: "graphic ''diff''" "graphic ''--git''" "graphic (''a/'' @ p)" "graphic (''b/'' @ p)"
    using p by (simp_all add: graphic_def in_range_def)
  have "''diff --git a/'' @ p @ '' b/'' @ p = py_join '' '' [''diff'', ''--git'', ''a/'' @ p, ''b/'' @ p]"
    by simp
  moreover have "ws_split [] (py_join '' '' [''diff'', ''--git'', ''a/'' @ p, ''b/'' @ p]) =
      [''diff'', ''--git'', ''a/'' @ p, ''b/'' @ p]"
    by (rule ws_split_join) (use g graphic_solid in auto)
  ultimately show ?thesis by (simp add: diff_path_def)
qed

lemma parse_diff_head:
  "graphic q \<Longrightarrow> parse_lines p (diff_lines (q, hs) @ ls) = parse_lines (Some q) (concat (map hunk_lines hs) @ ls)"
  using diff_path_line [of q] by (simp add: diff_lines_def)

lemma parse_diffs:
  "list_all proper_diff ds \<Longrightarrow> stops ls \<Longrightarrow>
   parse_lines p (concat (map diff_lines ds) @ ls) =
     tool_bind (parse_lines (last (p # map (\<lambda>d. Some (fst d)) ds)) ls) (\<lambda>r. Inr (concat (map diff_hunks ds) @ r))"
proof (induction ds arbitrary: p)
  case Nil
  then show ?case by (cases "parse_lines p ls") simp_all
next
  case (Cons d ds)
  obtain q hs where d: "d = (q, hs)" by (cases d)
  let ?rest = "concat (map diff_lines ds) @ ls"
  have st: "stops ?rest"
    using Cons.prems by (cases ds) (auto simp: stops_def diff_lines_def)
  have g: "graphic q" and h: "list_all (\<lambda>(h, es). prefix ''@@'' h \<and> list_all proper_edit es) hs"
    using Cons.prems(1) by (auto simp: d proper_diff_def list_all_iff)
  have "parse_lines p (diff_lines (q, hs) @ ?rest) =
      tool_bind (parse_lines (Some q) ?rest) (\<lambda>r. Inr (diff_hunks (q, hs) @ r))"
    using parse_diff_head [OF g, of p hs ?rest] parse_hunks [OF h st, of q] by simp
  moreover have "parse_lines (Some q) ?rest =
      tool_bind (parse_lines (last (Some q # map (\<lambda>d. Some (fst d)) ds)) ls) (\<lambda>r. Inr (concat (map diff_hunks ds) @ r))"
    using Cons by simp
  ultimately show ?case by (simp add: d tool_bind_assoc)
qed

lemma brk_len_ascii: "in_range 0x20 0x7E a \<Longrightarrow> brk_len (a # t) = 0"
proof -
  assume "in_range 0x20 0x7E a"
  then have "a \<notin> {CR, NL, CHR 0x0B, CHR 0x0C, CHR 0x1C, CHR 0x1D, CHR 0x1E, CHR 0xC2, CHR 0xE2}"
    by (auto simp: in_range_def)
  then show ?thesis by (simp add: brk_len.simps(2))
qed

lemma unbroken_ascii: "list_all (in_range 0x20 0x7E) s \<Longrightarrow> unbroken s"
  by (auto simp: unbroken_def list_all_length brk_len_ascii Cons_nth_drop_Suc [symmetric])

lemma proper_unbroken: "proper_edit e \<Longrightarrow> unbroken (show_edit e)"
  by (cases e) simp_all

lemma diff_unbroken: "proper_diff d \<Longrightarrow> l \<in> set (diff_lines d) \<Longrightarrow> unbroken l"
proof -
  assume p: "proper_diff d" and l: "l \<in> set (diff_lines d)"
  have "list_all (in_range 0x20 0x7E) (fst d)"
    using p by (auto simp: proper_diff_def graphic_def list_all_iff in_range_def)
  then have "list_all (in_range 0x20 0x7E) (''diff --git a/'' @ fst d @ '' b/'' @ fst d)"
    "list_all (in_range 0x20 0x7E) (''--- a/'' @ fst d)" "list_all (in_range 0x20 0x7E) (''+++ b/'' @ fst d)"
    by (simp_all add: in_range_def)
  with p l unbroken_ascii show ?thesis
    unfolding diff_lines_def by (fastforce simp: hunk_lines_def proper_diff_def list_all_iff proper_unbroken)
qed

lemma splitlines_text: "\<forall>l \<in> set ls. unbroken l \<Longrightarrow> splitlines (lines_text ls) = ls"
  unfolding lines_text_def by (rule splitlines_lines)

lemma parse_rendered:
  assumes "list_all proper_diff ds" and "utf8_valid (lines_text (concat (map diff_lines ds)))"
  shows "parse_patch (lines_text (concat (map diff_lines ds))) = Inr (concat (map diff_hunks ds))"
proof -
  have "splitlines (lines_text (concat (map diff_lines ds))) = concat (map diff_lines ds)"
    by (rule splitlines_text) (use assms(1) diff_unbroken in \<open>auto simp: list_all_iff\<close>)
  with assms parse_diffs [OF assms(1), of "[]" None] show ?thesis
    by (simp add: parse_patch_def stops_def)
qed

definition diff_text :: "file_diff list \<Rightarrow> str" where
  "diff_text ds = lines_text (concat (map diff_lines ds))"

definition hunks_of :: "str \<Rightarrow> hunk list option" where
  "hunks_of t = (case parse_patch t of Inl e \<Rightarrow> None | Inr hs \<Rightarrow> Some hs)"

interpretation diff: text_reader diff_text hunks_of "\<lambda>ds. concat (map diff_hunks ds)"
    "\<lambda>ds. list_all proper_diff ds \<and> utf8_valid (diff_text ds)"
  by unfold_locales (simp add: hunks_of_def diff_text_def parse_rendered)

lemma side_append: "old_side (es @ fs) = old_side es @ old_side fs" "new_side (es @ fs) = new_side es @ new_side fs"
  by (induction es rule: old_side.induct) simp_all

lemma parse_signed:
  assumes "list_all proper_diff (ds @ [(p, hs @ [(h, es)])])" and "proper_edit (Note v)"
    and "utf8_valid (lines_text (concat (map diff_lines (ds @ [(p, hs @ [(h, es)])])) @ [''-- '', v, []]))"
  shows "parse_patch (lines_text (concat (map diff_lines (ds @ [(p, hs @ [(h, es)])])) @ [''-- '', v, []])) =
    Inr (concat (map diff_hunks ds) @ diff_hunks (p, hs) @
      [(Some p, h, py_join [NL] (old_side es @ [''- '']), py_join [NL] (new_side es))])"
proof -
  let ?es = "es @ [Gone ''- '', Note v, Note []]"
  have t: "concat (map diff_lines (ds @ [(p, hs @ [(h, es)])])) @ [''-- '', v, []] =
      concat (map diff_lines (ds @ [(p, hs @ [(h, ?es)])]))"
    by (simp add: diff_lines_def hunk_lines_def)
  have "unbroken ''-- ''" "unbroken []" by (rule unbroken_ascii, simp add: in_range_def)+
  with assms(1,2) have "list_all proper_diff (ds @ [(p, hs @ [(h, ?es)])])"
    by (auto simp: proper_diff_def)
  from parse_rendered [OF this] assms(3) show ?thesis
    unfolding t by (simp add: diff_hunks_def side_append)
qed

end
