(* ===== verification/Scenarios.thy ===== *)
theory Scenarios
  imports Graft_Context
begin

text \<open>
  Concrete trees and contexts the properties are evaluated on: a tree given by its list of
  files, rooted at \<^verbatim>\<open>/k\<close>, with the defconfig the build passes. \<open>resolve_dirs\<close> stands for
  \<open>Path.resolve\<close> on a system without symbolic links.
\<close>

definition resolve_dirs :: "str \<Rightarrow> str list option" where
  "resolve_dirs p = Some (filter (\<lambda>c. c \<noteq> []) (split_on ''/'' p))"

definition tree_of :: "(path \<times> str) list \<Rightarrow> store" where
  "tree_of fs = map_option Regular \<circ> map_of fs"

definition gki_defconfig :: path where
  "gki_defconfig = ''arch/arm64/configs/gki_defconfig''"

definition ctx_of :: "(str \<rightharpoonup> str) \<Rightarrow> (path \<times> str) list \<Rightarrow> bool \<Rightarrow> gctx" where
  "ctx_of env fs dry = make_context resolve_dirs env (\<lambda>e. ''unreadable'') (tree_of fs) ''/k'' ''180''
     ''android13-5.15'' (''/k/'' @ gki_defconfig) dry"

lemma tree_of_None [simp]: "tree_of fs p = None \<longleftrightarrow> p \<notin> fst ` set fs"
  by (simp add: tree_of_def map_of_eq_None_iff)

lemma tree_of_Some: "tree_of fs p = Some n \<Longrightarrow> \<exists>t. n = Regular t \<and> (p, t) \<in> set fs"
  by (auto simp: tree_of_def dest: map_of_SomeD)

lemma ctx_of_defconfig: "defconfig_rel (ctx_of env fs dry) = Some gki_defconfig"
  by (simp add: ctx_of_def make_context_def) code_simp

lemma ctx_of_fresh [simp]:
  "kfiles (ctx_of env fs dry) = tree_of fs" "texts (ctx_of env fs dry) = Map.empty"
  "dirty (ctx_of env fs dry) = []" "dry_run (ctx_of env fs dry) = dry"
  "environ (ctx_of env fs dry) = env"
  by (simp_all add: ctx_of_def make_context_def Let_def)

end
