(* ===== verification/Spec2Isabelle.thy ===== *)
theory Spec2Isabelle
  imports Core_Registry Display_Registry Perf_Laws Core_Madvise_Laws Text_Laws Report_Reader Core_Config_Laws
    Ak3_Verify Hunks_Tool Batch15_Swap_Table Scenarios
begin

text \<open>
  ABK 5.15 LTS backport: a verification library of the graft engine and of the patch groups it
  runs.

  The program. A build of an Android 5.15 kernel calls the children \<^verbatim>\<open>scripts/abk_stable_core.py\<close>,
  \<^verbatim>\<open>scripts/abk_stable_perf.py\<close> and \<^verbatim>\<open>scripts/abk_stable_display.py\<close> on the kernel tree. Each holds a
  registry of \<open>PatchGroup\<close>s; a group is a function that edits files of the tree by anchored
  replacements and returns a status. \<^verbatim>\<open>scripts/abk_backport_engine.py\<close> runs the groups through one
  \<open>GraftContext\<close> (a read cache, a set of pending writes, a dry-run flag), checks after each group
  that its status agrees with what it wrote, and builds the report. \<^verbatim>\<open>scripts/abk_common.py\<close> has
  the text edits and the file access, which snapshots a file before its first write;
  \<^verbatim>\<open>scripts/abk_rollback.sh\<close> restores the snapshots.

  Beside it, \<^verbatim>\<open>scripts/build_ksu_module.py\<close> packs a KernelSU module into a zip,
  \<^verbatim>\<open>scripts/ak3_bundle_ksu_module.py\<close> adds that zip and an installer block to an AnyKernel3
  package and verifies the result, and \<^verbatim>\<open>tools/hunks.py\<close> lists the hunks of a patch.

  How the theories correspond to the code.
  \<^item> \<open>Abk_Prelude\<close>: Python's string operations on texts (byte lists in UTF-8), and the interface
    \<open>text_reader\<close>, a text that can be read back, of the report and the patch formats; \<open>Utf8\<close>:
    well-formedness and its closure under the edits; \<open>Py_Text\<close>: \<open>splitlines\<close>, the names of paths,
    search in a text made of lines, the exceptions of the tools.
  \<^item> \<open>Abk_Common\<close>: \<open>replace_once\<close>, \<open>ensure_after\<close>, \<open>has_any\<close> and the markers; the interfaces
    \<open>text_edit\<close> (what a caller of an edit relies on) and \<open>text_measure\<close> (an additive measure kept
    by balanced edits). \<open>Text_Laws\<close>: line endings and UTF-8 under edits.
  \<^item> \<open>Tree_Store\<close>: the files (a map from paths to nodes), \<open>read_text\<close>, \<open>write_text\<close>, the rollback
    loop and its effect. \<open>Tree_Reach\<close>: runs and rollbacks as a step relation.
  \<^item> \<open>Graft_Context\<close>: the class \<open>GraftContext\<close> as the record \<open>gctx\<close> and state-passing programs of
    type \<open>'a io\<close>; a raised exception is the left value, with the effects made before it.
    \<open>Context_Laws\<close>, \<open>Context_Frames\<close>, \<open>Dry_Run\<close>: the interface \<open>ctx_relation\<close>, a relation every
    context operation keeps, and its interpretations: constants, dry runs, frames, unwritten
    contexts, cache coherence, snapshots; and the simulation between a dry and a real run.
    \<open>Config_Laws\<close>, \<open>Cmdline_Laws\<close>: the defconfig lane; \<open>Core_Config_Laws\<close>: its group with the PSI tier.
  \<^item> \<open>Apply_Steps\<close>: \<open>apply_steps\<close>; \<open>Steps_Spec\<close>: its specification \<open>run_view\<close>, the refinement, and a
    second run over what a first one left.
  \<^item> \<open>Graft_Engine\<close>: \<open>PatchGroup.run\<close>, \<open>run_child\<close>, the report. \<open>Engine_Laws\<close>: the contract of a
    group's function (\<open>transactional\<close>); \<open>Registry_Laws\<close>: the interfaces \<open>registry\<close> and
    \<open>txn_registry\<close>, what a list of such groups gives \<open>run_child\<close>; \<open>Report_Laws\<close>: the report.
    \<open>Json_Text\<close>: \<open>json.dumps\<close> and a reader that inverts it; \<open>Report_Text\<close>: the JSON and Markdown
    files, \<open>_write_report\<close>, \<open>_log_summary\<close> and the \<open>main\<close> of a child; \<open>Report_Reader\<close>: a reader of the
    report's members by name.
  \<^item> \<open>Core_*\<close> and \<open>Batch*\<close>: the anchors, steps, probes and functions of the 78 core groups, one
    theory per section or module of the source (the small modules share one, a section each), each
    with the proof of its contract. \<open>Perf_*\<close> and the theories \<open>Batch*\<close> they import: the 24 perf groups;
    \<open>Perf_Tools\<close> has their shared loops, \<open>Sha256\<close> the digest one of them checks. \<open>Core_Registry\<close>,
    \<open>Perf_Registry\<close> and \<open>Display_Registry\<close> list the groups and interpret the interfaces on them;
    \<open>Perf_Laws\<close> is about single perf groups. \<open>Batch15_Swap_Table\<close> is a module without groups.
  \<^item> \<open>Ksu_Module\<close>: the module builder. \<open>Ak3_Bundle\<close>: the bundler; \<open>Ak3_Laws\<close>: injection into a
    script, once and again; \<open>Ak3_Verify\<close>: what the verification accepts. \<open>Hunks_Tool\<close>: the hunk tool.
  \<^item> \<open>Scenarios\<close>: concrete trees and contexts.

  What the properties show. C1 to C4: rollback, frame and snapshots of whole runs. C5, C6: dry
  runs. C7 to C11: what a group's status says of the tree, and the two ways a run aborts after
  the fact. C12, C13: the report. C14 to C18: the transactional steps. C19 to C23: the text
  edits. C24: the loop of the rollback script. C25 to C28: the defconfig lane. C29: brace balance. C30 to C32: the perf registry and the
  keys of all three. C33 to C35: the report files. C36 to C38: the module zip and the bundle. C39,
  C40: the hunk tool.

  Bounds. Every loop of the modelled code runs over a list that exists before the loop, or shortens
  its text, and is a total function. The one definition with fuel is the reader of JSON, which is
  not the program's: it gets the length of the text, which C33 shows to be enough.

  Parameters. \<open>Path.resolve\<close>, the environment, the clock and the interpreter's wording of an
  \<open>OSError\<close> are arguments, and so is reading the bytes of a zip (\<open>unzip\<close>; a zip that is written is
  the list of its members). A tree's paths are in normal form, and no file changes while a child
  runs. Writing a file that can be read, or its snapshot, succeeds: a read-only file or a full disk,
  where \<open>write_bytes\<close> raises an \<open>OSError\<close> that \<open>PatchGroup.run\<close> turns into a blocked group, is outside
  the model. \<open>json.dumps\<close> and the reader of its text are the standard library's, written out in
  \<open>Json_Text\<close> as far as the report uses them.

  Not modelled. Argument parsing and the warnings the packaging tools print (I/O); the shell glue
  (\<^verbatim>\<open>setup.sh\<close>, \<^verbatim>\<open>libabk.sh\<close>, \<^verbatim>\<open>stable_backport.sh\<close>), the device-side KSU modules and the C payload
  files (not Python); the test suite.
\<close>

section \<open>Rollback, snapshots and frames\<close>

lemma child_registry: "Gs \<in> {CORE_PATCH_GROUPS, PERF_PATCH_GROUPS, DISPLAY_PATCH_GROUPS} \<Longrightarrow> registry Gs"
  using core.registry_axioms perf.registry_axioms display.registry_axioms by blast

lemma child_txn_registry: "Gs \<in> {CORE_TXN_GROUPS, PERF_TXN_GROUPS, DISPLAY_PATCH_GROUPS} \<Longrightarrow> txn_registry Gs"
  using core_txn.txn_registry_axioms perf_txn.txn_registry_axioms display.txn_registry_axioms by blast

text \<open>C1. The core, the perf and the display child, run one after the other on a tree that has
  no snapshots, are undone by the rollback script: every file is again exactly what it was,
  whatever the groups did, also when a run stopped with an exception.\<close>

theorem children_roll_back:
  assumes "pristine fs" and "no_sentinel fs"
    and "kfiles g = fs" and "no_backup (defconfig_scope g)"
    and "kfiles h = kfiles (snd (run_child child now CORE_PATCH_GROUPS enabled g))"
    and "no_backup (defconfig_scope h)"
    and "kfiles k = kfiles (snd (run_child child' now' PERF_PATCH_GROUPS enabled' h))"
    and "no_backup (defconfig_scope k)"
  shows "rollback (kfiles (snd (run_child child'' now'' DISPLAY_PATCH_GROUPS enabled'' k))) = fs"
proof -
  have "snap fs (kfiles g)" using pristine_snap [OF assms(1)] assms(3) by simp
  then have "snap fs (kfiles h)"
    unfolding assms(5) by (rule core.child_snap [OF _ core.scope_no_backup [OF assms(4)]])
  then have "snap fs (kfiles k)"
    unfolding assms(7) by (rule perf.child_snap [OF _ perf.scope_no_backup [OF assms(6)]])
  then have "snap fs (kfiles (snd (run_child child'' now'' DISPLAY_PATCH_GROUPS enabled'' k)))"
    by (rule display.child_snap [OF _ display.scope_no_backup [OF assms(8)]])
  then show ?thesis using assms(2) by (rule rollback_snap_eq)
qed

text \<open>A tree with a defconfig and a file every group finds without its anchors.\<close>

definition small_tree :: "(path \<times> str) list" where
  "small_tree = [(gki_defconfig, ''CONFIG_ZRAM=y'' @ [NL]), (''mm/filemap.c'', ''/* empty */'' @ [NL])]"

lemma small_tree_pristine: "pristine (tree_of small_tree)"
  by (auto simp: pristine_def small_tree_def gki_defconfig_def is_backup_code BACKUP_SUFFIX_def)

lemma small_tree_no_sentinel: "no_sentinel (tree_of small_tree)"
  by (auto simp: no_sentinel_def small_tree_def sentinel_line_def first_line_def NEW_FILE_SENTINEL_def dest!: tree_of_Some)

lemma small_tree_read: "read_text (tree_of small_tree) ''mm/filemap.c'' = Inr (''/* empty */'' @ [NL])"
  by code_simp

lemma ctx_of_no_backup: "no_backup (defconfig_scope (ctx_of env fs dry))"
  by (simp add: defconfig_scope_def ctx_of_defconfig no_backup_def gki_defconfig_def is_backup_code
      BACKUP_SUFFIX_def)

lemma ctx_of_coherent: "coherent (ctx_of env fs dry)"
  by (simp add: coherent_def)

definition after_core :: gctx where
  "after_core = (ctx_of Map.empty small_tree False)
     \<lparr>kfiles := kfiles (snd (run_child ''core'' ''t0'' CORE_PATCH_GROUPS True (ctx_of Map.empty small_tree False)))\<rparr>"

definition after_perf :: gctx where
  "after_perf = after_core\<lparr>kfiles := kfiles (snd (run_child ''perf'' ''t1'' PERF_PATCH_GROUPS True after_core))\<rparr>"

lemma after_core_scope: "no_backup (defconfig_scope after_core)" "no_backup (defconfig_scope after_perf)"
  using ctx_of_no_backup [of Map.empty small_tree False]
  by (simp_all add: after_core_def after_perf_def defconfig_scope_def)

theorem children_roll_back_witness:
  "rollback (kfiles (snd (run_child ''display'' ''t2'' DISPLAY_PATCH_GROUPS True after_perf)))
     = tree_of small_tree"
  by (rule children_roll_back [OF small_tree_pristine small_tree_no_sentinel, where
        g = "ctx_of Map.empty small_tree False" and child = "''core''" and now = "''t0''"
        and enabled = True and h = after_core and child' = "''perf''" and now' = "''t1''"
        and enabled' = True and k = after_perf])
    (simp_all add: ctx_of_no_backup after_core_scope, simp_all add: after_core_def after_perf_def)

text \<open>C2. Writes through \<open>write_text\<close> and runs of the rollback script, in any order and
  number, never lose the first contents: a final rollback gives the initial tree.\<close>

theorem write_rollback_history:
  assumes "pristine fs0" and "no_sentinel fs0" and "tree_step\<^sup>*\<^sup>* fs0 fs"
  shows "rollback fs = fs0"
  using tree_steps_snap [OF assms(3) pristine_snap [OF assms(1)] assms(1,2)] assms(2)
  by (rule rollback_snap_eq)

definition twice_written :: store where
  "twice_written = snd (write_text (snd (write_text (tree_of small_tree) ''mm/filemap.c'' ''one'' True))
     ''mm/filemap.c'' ''two'' True)"

theorem write_rollback_history_witness:
  "rollback twice_written = tree_of small_tree \<and> twice_written ''mm/filemap.c'' = Some (Regular ''two'')"
proof
  have nb: "\<not> is_backup ''mm/filemap.c''" by (simp add: is_backup_code BACKUP_SUFFIX_def)
  have "tree_step\<^sup>*\<^sup>* (tree_of small_tree) twice_written"
    unfolding twice_written_def
    by (rule rtranclp.rtrancl_into_rtrancl [OF r_into_rtranclp]; rule tree_write [OF nb])
  then show "rollback twice_written = tree_of small_tree"
    by (rule write_rollback_history [OF small_tree_pristine small_tree_no_sentinel])
  show "twice_written ''mm/filemap.c'' = Some (Regular ''two'')"
    by (simp add: twice_written_def small_tree_def gki_defconfig_def tree_of_def write_text_def Let_def)
qed

text \<open>C3. A run of a child changes no path but the files the groups of its registry declare, the
  defconfig, and the snapshots of these: no other file, and no other file's snapshot, is created,
  overwritten or deleted.\<close>

theorem child_frame:
  assumes "Gs \<in> {CORE_PATCH_GROUPS, PERF_PATCH_GROUPS, DISPLAY_PATCH_GROUPS}"
    and "S = registry_files Gs \<union> set_option (defconfig_rel g)"
    and "kfiles (snd (run_child child now Gs enabled g)) p \<noteq> kfiles g p"
  shows "p \<in> S \<union> (\<lambda>q. q @ BACKUP_SUFFIX) ` S"
proof -
  have "S = registry_scope Gs g" unfolding assms(2) registry_scope_def defconfig_scope_def ..
  then show ?thesis
    using registry.child_framed [OF child_registry [OF assms(1)], of g child now enabled] assms(3)
    unfolding framed_def with_backups_def by blast
qed

theorem child_frame_witness:
  "kfiles (snd (run_child ''core'' ''t0'' CORE_PATCH_GROUPS True
     (ctx_of Map.empty ((''Makefile.abk-orig'', ''SUBLEVEL = 180'') # small_tree) False))) ''Makefile.abk-orig''
   = Some (Regular ''SUBLEVEL = 180'')
   \<and> gki_defconfig \<in> registry_files CORE_PATCH_GROUPS \<union> {gki_defconfig}
     \<union> (\<lambda>q. q @ BACKUP_SUFFIX) ` (registry_files CORE_PATCH_GROUPS \<union> {gki_defconfig})"
proof
  let ?g = "ctx_of Map.empty ((''Makefile.abk-orig'', ''SUBLEVEL = 180'') # small_tree) False"
  let ?S = "registry_files CORE_PATCH_GROUPS \<union> set_option (defconfig_rel ?g)"
  let ?k = "kfiles (snd (run_child ''core'' ''t0'' CORE_PATCH_GROUPS True ?g))"
  have "''Makefile'' \<notin> set CORE_FILES" "''Makefile.abk-orig'' \<notin> set CORE_FILES" by (simp_all add: CORE_FILES_def)
  then have out: "''Makefile'' \<notin> ?S" "''Makefile.abk-orig'' \<notin> ?S"
    using core_files by (auto simp: ctx_of_defconfig gki_defconfig_def)
  have orig: "''Makefile.abk-orig'' = ''Makefile'' @ BACKUP_SUFFIX" by (simp add: BACKUP_SUFFIX_def)
  have "''Makefile.abk-orig'' \<notin> ?S \<union> (\<lambda>q. q @ BACKUP_SUFFIX) ` ?S"
    using out unfolding orig by auto
  then have "?k ''Makefile.abk-orig'' = kfiles ?g ''Makefile.abk-orig''"
    using child_frame [of CORE_PATCH_GROUPS ?S ?g "''core''" "''t0''" True "''Makefile.abk-orig''"] by blast
  then show "?k ''Makefile.abk-orig'' = Some (Regular ''SUBLEVEL = 180'')" by (simp add: tree_of_def)
qed simp

text \<open>C4. Every pending write of a run of a child is on disk with the text the context
  holds, and beside it stands its snapshot. (The pending writes are what the report lists; a
  fresh context has none, so \<open>all_backed\<close> holds of it.)\<close>

theorem child_pending_on_disk:
  assumes "Gs \<in> {CORE_PATCH_GROUPS, PERF_PATCH_GROUPS, DISPLAY_PATCH_GROUPS}"
    and "coherent g" and "\<not> dry_run g" and "all_backed g"
    and "snd (run_child child now Gs enabled g) = h" and "rel \<in> set (pending_writes h)"
  shows "texts h rel \<noteq> None \<and> kfiles h rel = map_option Regular (texts h rel) \<and>
    kfiles h (rel @ BACKUP_SUFFIX) \<noteq> None"
proof -
  note reg = child_registry [OF assms(1)]
  have c: "coherent h" unfolding assms(5) [symmetric] by (rule registry.child_coherent [OF reg assms(2)])
  have nd: "\<not> dry_run h"
    using registry.child_framed [OF reg, of g child now enabled] assms(3)
    by (simp add: assms(5) framed_def same_consts_def)
  have "all_backed h"
    using registry.child_backed [OF reg assms(3,4), of child now enabled] by (simp add: assms(5))
  with assms(6) c coherent_file [OF c nd] show ?thesis
    by (auto simp: all_backed_def coherent_def)
qed

definition edited_ctx :: gctx where
  "edited_ctx = snd (ctx_write ''mm/filemap.c'' ''/* edited */''
     (snd (ctx_read ''mm/filemap.c'' (ctx_of Map.empty small_tree False))))"

theorem child_pending_on_disk_witness:
  "kfiles (snd (run_child ''core'' ''t0'' CORE_PATCH_GROUPS True edited_ctx)) ''mm/filemap.c.abk-orig'' \<noteq> None"
proof -
  let ?g = "snd (ctx_read ''mm/filemap.c'' (ctx_of Map.empty small_tree False))"
  let ?h = "snd (run_child ''core'' ''t0'' CORE_PATCH_GROUPS True edited_ctx)"
  have loaded: "''mm/filemap.c'' \<in> dom (texts ?g)"
    by (simp add: ctx_read_def small_tree_read)
  have c: "coherent ?g" by (rule coherent_read [OF ctx_of_coherent])
  have b: "all_backed ?g" "\<not> dry_run ?g"
    using backed.R_read [of "ctx_of Map.empty small_tree False" "''mm/filemap.c''"]
    by (simp_all add: keeps_backed_def all_backed_def)
  have "coherent edited_ctx" "all_backed edited_ctx" "\<not> dry_run edited_ctx"
    using coherent_write [OF c loaded] b backed.R_write [of "''mm/filemap.c''" "\<lambda>_. UNIV" ?g] loaded
    by (simp_all add: edited_ctx_def keeps_backed_def)
  moreover have "''mm/filemap.c'' \<in> set (pending_writes ?h)"
    using core.child_framed [of edited_ctx "''core''" "''t0''" True] dirty_write [OF c loaded]
    by (auto simp: framed_def edited_ctx_def)
  ultimately have "kfiles ?h (''mm/filemap.c'' @ BACKUP_SUFFIX) \<noteq> None"
    using child_pending_on_disk [of CORE_PATCH_GROUPS edited_ctx "''core''" "''t0''" True ?h] by blast
  then show ?thesis by (simp add: BACKUP_SUFFIX_def)
qed

section \<open>Dry runs\<close>

text \<open>C5. A dry run of a child predicts the real one: from the same tree both return
  the same report up to the \<open>dry_run\<close> flag, statuses and details included, or raise the same
  exception.\<close>

theorem dry_run_predicts:
  assumes "Gs \<in> {CORE_PATCH_GROUPS, PERF_PATCH_GROUPS, DISPLAY_PATCH_GROUPS}"
    and "no_backup (defconfig_scope (make_context resolve env word fs root_dir sub fam dc False))"
  shows "fst (run_child child now Gs enabled (make_context resolve env word fs root_dir sub fam dc True))
    = map_sum id (\<lambda>r. r\<lparr>rp_dry_run := True\<rparr>)
        (fst (run_child child now Gs enabled (make_context resolve env word fs root_dir sub fam dc False)))"
  by (rule registry.child_predicts [OF child_registry [OF assms(1)]], rule dry_simI [where fs = fs])
    (use assms(2) in \<open>simp_all add: make_context_def Let_def coherent_def\<close>)

theorem dry_run_predicts_witness:
  "fst (run_child ''core'' ''t0'' CORE_PATCH_GROUPS True (ctx_of Map.empty small_tree True))
    = map_sum id (\<lambda>r. r\<lparr>rp_dry_run := True\<rparr>)
        (fst (run_child ''core'' ''t0'' CORE_PATCH_GROUPS True (ctx_of Map.empty small_tree False)))"
  unfolding ctx_of_def
  by (rule dry_run_predicts) (simp, rule ctx_of_no_backup [unfolded ctx_of_def])

text \<open>C6. A dry run of a child leaves every file as it is.\<close>

theorem dry_run_writes_nothing:
  assumes "Gs \<in> {CORE_PATCH_GROUPS, PERF_PATCH_GROUPS, DISPLAY_PATCH_GROUPS}" and "dry_run g"
  shows "kfiles (snd (run_child child now Gs enabled g)) = kfiles g"
  using registry.child_dry [OF child_registry [OF assms(1)] assms(2)] .

theorem dry_run_writes_nothing_witness:
  "kfiles (snd (run_child ''core'' ''t0'' CORE_PATCH_GROUPS True (ctx_of Map.empty small_tree True)))
     = tree_of small_tree"
  using dry_run_writes_nothing [of CORE_PATCH_GROUPS "ctx_of Map.empty small_tree True" "''core''" "''t0''" True]
  by simp

section \<open>Groups: what a status says\<close>

text \<open>C7. Every group but two, the defconfig lane of the core child and the perf child's
  \<open>randomize_kstack_pertask\<close>, is all or nothing: when it degrades (any status but applied,
  partial, already present) or raises, it has written no file, marked none pending and changed no
  text the context shows.\<close>

theorem group_all_or_nothing:
  assumes "Gs \<in> {CORE_TXN_GROUPS, PERF_TXN_GROUPS, DISPLAY_PATCH_GROUPS}" and "G \<in> set Gs"
    and "coherent g" and "run_group G g = (r, h)" and "\<And>x. r = Inr x \<Longrightarrow> \<not> ok_status (r_status x)"
  shows "kfiles h = kfiles g \<and> dirty h = dirty g \<and> seen h = seen g"
  using txn_registry.group_degrades [OF child_txn_registry [OF assms(1)] assms(2-4)] assms(5)
  by (auto simp: unwritten_def split: sum.split)

lemma mmap_miss_in_core: "readahead_mmap_miss_race_group \<in> set CORE_TXN_GROUPS"
proof -
  have "readahead_mmap_miss_race_group \<in> set b30_build_groups" by (simp add: b30_build_groups_def)
  then have "readahead_mmap_miss_race_group \<in> set CORE_PATCH_GROUPS"
    unfolding CORE_PATCH_GROUPS_def set_append by blast
  then show ?thesis
    unfolding CORE_TXN_GROUPS_def set_filter by (simp add: key_of [OF readahead_mmap_miss_race_group_def])
qed

lemma mmap_miss_blocked:
  "\<exists>d. fst (run_group readahead_mmap_miss_race_group (ctx_of Map.empty [] False))
     = Inr (group_result_of readahead_mmap_miss_race_group (BlockedByShape, d))"
proof -
  have "apply_fn readahead_mmap_miss_race_group = apply_or_block b30_build_steps"
    by (simp add: readahead_mmap_miss_race_group_def b30_mmap_miss_race_apply_def)
  then show ?thesis
    by (simp add: run_group_def io_defs apply_or_block_def apply_or_else_def apply_steps_def
        b30_build_steps_def b30_build_steps_step1_def b30_FILEMAP_C_def ctx_read_def read_text_def
        tree_of_def absent_detail_def, blast)
qed

theorem group_all_or_nothing_witness:
  "kfiles (snd (run_group readahead_mmap_miss_race_group (ctx_of Map.empty [] False))) = tree_of []"
proof -
  let ?run = "run_group readahead_mmap_miss_race_group (ctx_of Map.empty [] False)"
  from mmap_miss_blocked obtain d where
    "fst ?run = Inr (group_result_of readahead_mmap_miss_race_group (BlockedByShape, d))" by blast
  then have "\<not> ok_status (r_status x)" if "fst ?run = Inr x" for x
    using that by (auto simp: ok_status_def group_result_of_def)
  then have "kfiles (snd ?run) = kfiles (ctx_of Map.empty [] False) \<and>
      dirty (snd ?run) = dirty (ctx_of Map.empty [] False) \<and>
      seen (snd ?run) = seen (ctx_of Map.empty [] False)"
    by (rule_tac group_all_or_nothing [OF _ mmap_miss_in_core ctx_of_coherent, where r = "fst ?run"]) simp_all
  then show ?thesis by simp
qed

text \<open>C8. A status \<open>run_child\<close> lets through is honest: applied or partial means this group
  left some file with a new text, and a degraded status means no pending file differs from what
  it was before the group.\<close>

theorem status_honest:
  assumes "Gs \<in> {CORE_PATCH_GROUPS, PERF_PATCH_GROUPS, DISPLAY_PATCH_GROUPS}"
    and "G \<in> set Gs" and "coherent g" and "run_checked G g = (Inr r, h)"
  shows "(r_status r \<in> {Applied, Partial} \<longrightarrow>
      (\<exists>rel \<in> set (dirty h). rel \<notin> set (dirty g) \<or> texts h rel \<noteq> texts g rel)) \<and>
    (\<not> ok_status (r_status r) \<longrightarrow>
      (\<forall>rel \<in> set (dirty h). rel \<in> set (dirty g) \<and> texts h rel = texts g rel))"
proof -
  note gr = registry.group_graft [OF child_registry [OF assms(1)] assms(2)]
  have ch: "coherent h"
    using graft_coherent [OF graft_run_checked [OF gr] assms(3)] assms(4) by simp
  note iff = changed_by_iff [OF ch]
  note sound = run_checked_sound [OF assms(3) gr assms(4)]
  have some: "texts g rel = Some (the (texts g rel))" if "rel \<in> set (dirty g)" for rel
    using assms(3) that by (auto simp: coherent_def)
  show ?thesis
  proof (intro conjI impI)
    assume "r_status r \<in> {Applied, Partial}"
    from sound(1) [OF this] obtain rel where "rel \<in> set (changed_by g h)"
      by (cases "changed_by g h") auto
    then show "\<exists>rel \<in> set (dirty h). rel \<notin> set (dirty g) \<or> texts h rel \<noteq> texts g rel"
      using iff [of rel g] some [of rel] by metis
  next
    assume "\<not> ok_status (r_status r)"
    then have "rel \<notin> set (changed_by g h)" for rel using sound(2) by simp
    then show "\<forall>rel \<in> set (dirty h). rel \<in> set (dirty g) \<and> texts h rel = texts g rel"
      using iff [of _ g] some by metis
  qed
qed

lemma config_enablement_in_core: "config_enablement_group \<in> set CORE_PATCH_GROUPS"
proof -
  have "config_enablement_group \<in> set core_groups_3850" by (simp add: core_groups_3850_def)
  then show ?thesis unfolding CORE_PATCH_GROUPS_def set_append by blast
qed

theorem status_honest_witness:
  "\<exists>rel \<in> set (dirty (snd (run_checked config_enablement_group (ctx_of Map.empty small_tree False)))).
     texts (snd (run_checked config_enablement_group (ctx_of Map.empty small_tree False))) rel \<noteq> None"
proof -
  let ?run = "run_checked config_enablement_group (ctx_of Map.empty small_tree False)"
  have "map_sum id r_status (fst ?run) = Inr Applied" by code_simp
  then obtain r where r: "?run = (Inr r, snd ?run)" and s: "r_status r = Applied"
    by (cases "fst ?run") (auto simp: prod_eq_iff)
  from status_honest [OF _ config_enablement_in_core ctx_of_coherent r] s
  obtain rel where rel: "rel \<in> set (dirty (snd ?run))" by auto
  have "coherent (snd ?run)"
    using graft_coherent [OF graft_run_checked [OF core.group_graft [OF config_enablement_in_core]] ctx_of_coherent] .
  with rel have "rel \<in> dom (texts (snd ?run))" unfolding coherent_def by blast
  with rel show ?thesis unfolding dom_def mem_Collect_eq by (rule bexI [rotated])
qed

text \<open>C9. The only exception the loop of \<open>run_child\<close> can raise at a group other than the two of
  C7 is its own refusal of an edit that changed nothing, or the exception of the one hard group's
  function.\<close>

theorem group_raises:
  assumes "Gs \<in> {CORE_TXN_GROUPS, PERF_TXN_GROUPS, DISPLAY_PATCH_GROUPS}" and "G \<in> set Gs"
    and "coherent g" and "run_checked G g = (Inl e, h)"
  shows "e \<in> (\<lambda>s. System_Exit (no_op_message (key G) s)) ` {Applied, Partial} \<or>
    (key G = ''fdtable_alloc_conventions'' \<and> apply_fn G g = (Inl e, h))"
proof -
  have "G \<in> set CORE_PATCH_GROUPS \<or> G \<in> set PERF_PATCH_GROUPS \<or> G = drm_valid_clones_revert_group"
    using assms(1,2) unfolding CORE_TXN_GROUPS_def PERF_TXN_GROUPS_def DISPLAY_PATCH_GROUPS_def by auto
  then have "hard G \<Longrightarrow> key G = ''fdtable_alloc_conventions''"
    using core_soft perf_soft by (auto simp: drm_valid_clones_revert_group_def)
  with txn_registry.checked_raises [OF child_txn_registry [OF assms(1)] assms(2-4)] show ?thesis by auto
qed

lemma min_reserve_in_core: "pagealloc_min_reserve_semantics_group \<in> set CORE_PATCH_GROUPS"
proof -
  have "pagealloc_min_reserve_semantics_group \<in> set core_groups_3262" by (simp add: core_groups_3262_def)
  then show ?thesis unfolding CORE_PATCH_GROUPS_def set_append by blast
qed

definition min_reserve_partial_tree :: "(path \<times> str) list" where
  "min_reserve_partial_tree =
     [(''mm/internal.h'', fst (snd (snd min_reserve_step1)) @ [NL]),
      (''mm/page_alloc.c'', py_join [NL] (map (\<lambda>s. fst (snd (snd s)))
         [min_reserve_step2, min_reserve_step3, min_reserve_step4, min_reserve_step6]))]"

theorem group_raises_witness:
  "\<exists>e h. run_checked pagealloc_min_reserve_semantics_group (ctx_of Map.empty min_reserve_partial_tree False) = (Inl e, h)
    \<and> e \<in> (\<lambda>s. System_Exit (no_op_message (key pagealloc_min_reserve_semantics_group) s)) ` {Applied, Partial}"
proof -
  let ?run = "run_checked pagealloc_min_reserve_semantics_group (ctx_of Map.empty min_reserve_partial_tree False)"
  have "isl (fst ?run)" by code_simp
  then obtain e where r: "?run = (Inl e, snd ?run)" by (cases "fst ?run") (auto simp: prod_eq_iff)
  from min_reserve_in_core have "pagealloc_min_reserve_semantics_group \<in> set CORE_TXN_GROUPS"
    unfolding CORE_TXN_GROUPS_def set_filter
    by (simp add: key_of [OF pagealloc_min_reserve_semantics_group_def])
  from group_raises [OF _ this ctx_of_coherent r] r show ?thesis
    unfolding key_of [OF pagealloc_min_reserve_semantics_group_def] by auto
qed

text \<open>C10. A group left partial cannot be run again: when a first run of a group that applies a list
  of steps ends partial, the second run on what it left writes nothing, and \<open>run_child\<close> refuses
  the group's partial status as an edit that changed nothing. (Where several steps share a file,
  none of them may undo or complete another: \<open>undisturbed\<close>.)\<close>

theorem partial_group_rerun_aborts:
  assumes "Gs \<in> {CORE_PATCH_GROUPS, PERF_PATCH_GROUPS, DISPLAY_PATCH_GROUPS}" and "G \<in> set Gs"
    and "apply_fn G = apply_or_else ss k" and "\<And>q. q \<in> steps_files ss \<Longrightarrow> \<not> is_backup q"
    and "coherent g" and "calm g (steps_files ss)"
    and "run_view ss (seen g) [] = Inr (v, res)" and "undisturbed ss v res"
    and "run_checked G g = (Inr r, h)" and "r_status r = Partial"
  shows "\<exists>h'. run_checked G h = (Inl (System_Exit (no_op_message (key G) Partial)), h')
    \<and> kfiles h' = kfiles h \<and> dirty h' = dirty h \<and> seen h' = seen h"
proof -
  have nb: "\<forall>q \<in> steps_files ss. \<not> is_backup q" using assms(4) by blast
  from partial_rerun_refused [OF registry.group_graft [OF child_registry [OF assms(1)] assms(2)] assms(3,5) nb assms(6-10)]
  show ?thesis unfolding unwritten_def by blast
qed

definition min_reserve_tree :: "(path \<times> str) list" where
  \<comment> \<open>the anchors of the required steps; the comment the optional step edits is not there\<close>
  "min_reserve_tree =
     [(''mm/internal.h'', fst (snd min_reserve_step1) @ [NL]),
      (''mm/page_alloc.c'', py_join [NL] (map (\<lambda>s. fst (snd s))
         [min_reserve_step2, min_reserve_step3, min_reserve_step4, min_reserve_step6]))]"

theorem partial_group_rerun_aborts_witness:
  "\<exists>r h h'. run_checked pagealloc_min_reserve_semantics_group (ctx_of Map.empty min_reserve_tree False) = (Inr r, h)
     \<and> r_status r = Partial
     \<and> run_checked pagealloc_min_reserve_semantics_group h =
         (Inl (System_Exit (no_op_message ''pagealloc_min_reserve_semantics'' Partial)), h')
     \<and> kfiles h' = kfiles h"
proof -
  let ?G = pagealloc_min_reserve_semantics_group and ?g = "ctx_of Map.empty min_reserve_tree False"
  have "map_sum id r_status (fst (run_checked ?G ?g)) = Inr Partial" by code_simp
  then obtain r h where r: "run_checked ?G ?g = (Inr r, h)" "r_status r = Partial"
    by (cases "run_checked ?G ?g"; cases "fst (run_checked ?G ?g)") auto
  have "case run_view min_reserve_steps (seen ?g) [] of Inl x \<Rightarrow> False
      | Inr (v, res) \<Rightarrow> undisturbed min_reserve_steps v res"
    by code_simp
  then obtain v res where v: "run_view min_reserve_steps (seen ?g) [] = Inr (v, res)" "undisturbed min_reserve_steps v res"
    by (auto split: sum.splits prod.splits)
  have f: "q \<in> steps_files min_reserve_steps \<Longrightarrow> \<not> is_backup q" for q
    by (auto simp: min_reserve_steps_files is_backup_code BACKUP_SUFFIX_def)
  have "isl (read_text (kfiles ?g) ''mm/internal.h'') = False" "isl (read_text (kfiles ?g) ''mm/page_alloc.c'') = False"
    by code_simp+
  then have "calm ?g (steps_files min_reserve_steps)"
    unfolding calm_def min_reserve_steps_files by (auto simp: isl_def)
  from partial_group_rerun_aborts [OF _ min_reserve_in_core _ f ctx_of_coherent this v r] r show ?thesis
    by (auto simp: pagealloc_min_reserve_semantics_group_def min_reserve_apply_def)
qed

text \<open>C11. The PSI tier on a defconfig without a \<^verbatim>\<open>CONFIG_CMDLINE\<close> line, when not all the
  requested symbols are set already: the symbols are written first, the lane then reports a missing
  anchor, and the run aborts with the defconfig already rewritten on disk, every symbol in it.\<close>

theorem psi_lane_aborts_after_writing:
  assumes "coherent g" and "\<not> dry_run g" and "defconfig_rel g = Some rel" and "\<not> is_backup rel"
    and "seen g rel = Some t" and "no_lone_CR t"
    and "env_flag ''ABK_515_DEFCONFIG_PSI'' (environ g)"
    and "\<And>l. l \<in> set (split_on (joiner_of t) t) \<Longrightarrow> \<not> cmdline_line l"
    and "c \<in> set (tier_configs g)" and "config_target (fst c) (snd c) \<notin> set (split_on (joiner_of t) t)"
  shows "\<exists>changed h t'. run_checked config_enablement_group g =
      (Inl (System_Exit (degraded_message ''config_enablement'' BlockedByMissingAnchor changed)), h)
    \<and> rel \<in> set changed \<and> kfiles h rel = Some (Regular t') \<and> t' \<noteq> t
    \<and> (\<lambda>c. config_target (fst c) (snd c)) ` set (tier_configs g) \<subseteq> set (split_on (joiner_of t) t')"
proof -
  note cs = tier_configs_facts(1,2) [of g]
  have no: "\<forall>l \<in> set (split_on (joiner_of t) t). \<not> cmdline_line l" using assms(8) by blast
  have todo: "\<exists>c \<in> set (tier_configs g). config_target (fst c) (snd c) \<notin> set (split_on (joiner_of t) t)"
    using assms(9,10) by blast
  show ?thesis
    by (rule psi_lane_run [OF assms(1-3,5,4,6,7) no todo])
      (use configured_changes [OF cs todo] configured_set [OF cs] in blast)
qed

lemma gki_defconfig_not_backup: "\<not> is_backup gki_defconfig"
  by (simp add: gki_defconfig_def is_backup_code BACKUP_SUFFIX_def)

definition psi_ctx :: gctx where
  "psi_ctx = ctx_of [''ABK_515_DEFCONFIG_PSI'' \<mapsto> ''1''] small_tree False"

theorem psi_lane_aborts_after_writing_witness:
  "\<exists>changed h. run_checked config_enablement_group psi_ctx =
      (Inl (System_Exit (degraded_message ''config_enablement'' BlockedByMissingAnchor changed)), h)
    \<and> kfiles h gki_defconfig \<noteq> kfiles psi_ctx gki_defconfig"
proof -
  let ?t = "''CONFIG_ZRAM=y'' @ [NL]" and ?c = "(''ZRAM_MULTI_COMP'', ''y'')"
  have env: "env_flag ''ABK_515_DEFCONFIG_PSI'' (environ psi_ctx)" by code_simp
  have t: "seen psi_ctx gki_defconfig = Some ?t" "kfiles psi_ctx gki_defconfig = Some (Regular ?t)"
  proof -
    have r: "read_text (kfiles psi_ctx) gki_defconfig = Inr ?t" by code_simp
    then show "kfiles psi_ctx gki_defconfig = Some (Regular ?t)" unfolding read_text_Inr by (rule conjunct1)
    have "texts psi_ctx = Map.empty" by (simp add: psi_ctx_def)
    with r show "seen psi_ctx gki_defconfig = Some ?t" by (simp only: seen_def option.case sum.case)
  qed
  have cr: "no_lone_CR ?t" by (simp add: no_lone_CR_def)
  have no: "list_all (\<lambda>l. \<not> cmdline_line l) (split_on (joiner_of ?t) ?t)" by code_simp
  have c: "?c \<in> set (tier_configs psi_ctx)" by (simp add: tier_configs_def MODULE_CONFIGS_def)
  have todo: "config_target (fst ?c) (snd ?c) \<notin> set (split_on (joiner_of ?t) ?t)"
  proof -
    have "list_all (\<lambda>l. l \<noteq> config_target (fst ?c) (snd ?c)) (split_on (joiner_of ?t) ?t)" by code_simp
    then show ?thesis unfolding list_all_iff by blast
  qed
  have "coherent psi_ctx" "\<not> dry_run psi_ctx" "defconfig_rel psi_ctx = Some gki_defconfig"
    unfolding psi_ctx_def by (rule ctx_of_coherent, simp, rule ctx_of_defconfig)
  from psi_lane_aborts_after_writing [OF this gki_defconfig_not_backup t(1) cr env
      no [unfolded list_all_iff, rule_format] c todo] t(2)
  show ?thesis by auto
qed

section \<open>The report\<close>

text \<open>C12. On a family the module does not support, \<open>run_child\<close> touches nothing, reads
  nothing (the context, its cache included, is unchanged) and reports every group of the
  registry as \<open>report_only\<close>.\<close>

theorem unsupported_family_untouched:
  assumes "family g \<noteq> ''android13-5.15''"
  shows "\<exists>rep. run_child child now groups (main_enabled (family g) False) g = (Inr rep, g)
    \<and> map r_key (rp_groups rep) = map key groups
    \<and> map r_status (rp_groups rep) = replicate (length groups) ReportOnly
    \<and> rp_applied_groups rep = [] \<and> rp_shapes rep = None \<and> rp_pending_writes rep = pending_writes g"
proof -
  have e: "main_enabled (family g) False = False" using assms by (simp add: main_enabled_def)
  show ?thesis
    unfolding e
    by (simp add: run_child_def io_bind_def io_get_def io_ret_def run_groups_disabled build_report_def
        group_result_of_def ok_status_def filter_map comp_def map_replicate_const)
qed

theorem unsupported_family_untouched_witness:
  "\<exists>rep. run_child ''core'' ''t0'' CORE_PATCH_GROUPS (main_enabled ''android12-5.10'' False)
      ((ctx_of Map.empty small_tree False)\<lparr>family := ''android12-5.10''\<rparr>)
    = (Inr rep, (ctx_of Map.empty small_tree False)\<lparr>family := ''android12-5.10''\<rparr>)
    \<and> map r_key (rp_groups rep) = map key CORE_PATCH_GROUPS"
  using unsupported_family_untouched [of "(ctx_of Map.empty small_tree False)\<lparr>family := ''android12-5.10''\<rparr>"
      "''core''" "''t0''" CORE_PATCH_GROUPS]
  by (simp, blast)

text \<open>C13. A completed run reports one result per group, in registry order and with the
  group's own key, summary, commits and files; \<open>applied_groups\<close> lists exactly the groups that
  are applied, partial or already present; \<open>status_summary\<close> counts the results by status.\<close>

theorem report_complete:
  assumes "run_child child now groups enabled g = (Inr rep, h)"
  shows "list_all2 result_for groups (rp_groups rep)
    \<and> rp_applied_groups rep = map r_key (filter (\<lambda>r. ok_status (r_status r)) (rp_groups rep))
    \<and> distinct (map fst (rp_status_summary rep))
    \<and> map_of (rp_status_summary rep) s = (let n = count_list (map r_status (rp_groups rep)) s in
        if n = 0 then None else Some n)
    \<and> sum_list (map snd (rp_status_summary rep)) = length groups"
proof -
  obtain results sh where r: "run_groups enabled groups [] g = (Inr results, snd (run_groups enabled groups [] g))"
    and rep: "rep = build_report child now results sh h"
    using assms by (rule run_child_report)
  from run_groups_results [OF r] have l: "list_all2 result_for groups results" by simp
  then have "length results = length groups" by (simp add: list_all2_lengthD)
  with l show ?thesis
    by (simp add: rep build_report_def status_summary_keys status_summary_count status_summary_total)
qed

theorem report_complete_witness:
  "\<exists>rep. run_child ''display'' ''t0'' DISPLAY_PATCH_GROUPS False (ctx_of Map.empty small_tree False)
      = (Inr rep, ctx_of Map.empty small_tree False)
    \<and> sum_list (map snd (rp_status_summary rep)) = 1"
proof -
  let ?run = "run_child ''display'' ''t0'' DISPLAY_PATCH_GROUPS False (ctx_of Map.empty small_tree False)"
  obtain rep where r: "?run = (Inr rep, ctx_of Map.empty small_tree False)"
    by (simp add: run_child_def io_bind_def io_get_def io_ret_def run_groups_disabled)
  with report_complete [OF r] show ?thesis by (auto simp: DISPLAY_PATCH_GROUPS_def)
qed

section \<open>Transactional steps\<close>

text \<open>C14. \<open>apply_steps\<close> implements its specification \<open>run_view\<close>, the anchored edits made in
  order on a plain map from files to texts: it returns what \<open>run_view\<close> returns, and either the
  tree is untouched (a required step missed) or it shows exactly the edited texts, with exactly
  the files that differ as new writes. It never raises.\<close>

theorem apply_steps_implements_view:
  assumes "coherent g" and "\<And>q. q \<in> steps_files ss \<Longrightarrow> \<not> is_backup q" and "calm g (steps_files ss)"
  shows "case run_view ss (seen g) [] of
      Inl (res, d) \<Rightarrow> \<exists>h. apply_steps ss g = (Inr (None, res, d), h) \<and> unwritten g h
    | Inr (v, res) \<Rightarrow> \<exists>h. apply_steps ss g = (Inr (classify res), h) \<and> landed g v h"
proof -
  have nb: "\<forall>q \<in> steps_files ss. \<not> is_backup q" using assms(2) by blast
  obtain r h where a: "apply_steps ss g = (r, h)" by fastforce
  note R = apply_steps_refines [OF assms(1) nb, unfolded a]
  show ?thesis
  proof (cases r)
    case (Inl e)
    with R assms(3) show ?thesis by simp
  next
    case (Inr x)
    show ?thesis
    proof (cases "run_view ss (seen g) []")
      case (Inl y)
      with R Inr a show ?thesis by (cases y) simp
    next
      case (Inr y)
      with R \<open>r = Inr x\<close> a show ?thesis by (cases y) simp
    qed
  qed
qed

definition two_steps :: "step list" where
  "two_steps = [(''a.c'', ''old a'', ''new a'', True), (''b.c'', ''old b'', ''new b'', False)]"

definition two_files :: gctx where
  "two_files = ctx_of Map.empty [(''a.c'', ''x old a y''), (''b.c'', ''new b'')] False"

lemma two_files_facts:
  "coherent two_files" "q \<in> steps_files two_steps \<Longrightarrow> \<not> is_backup q" "calm two_files (steps_files two_steps)"
  "seen two_files ''a.c'' = Some ''x old a y''" "seen two_files ''b.c'' = Some ''new b''"
proof -
  have r: "read_text (kfiles two_files) ''a.c'' = Inr ''x old a y''"
    "read_text (kfiles two_files) ''b.c'' = Inr ''new b''" by code_simp+
  have t: "texts two_files = Map.empty" by (simp add: two_files_def)
  show "coherent two_files" unfolding two_files_def by (rule ctx_of_coherent)
  show "q \<in> steps_files two_steps \<Longrightarrow> \<not> is_backup q"
    by (auto simp: two_steps_def is_backup_code BACKUP_SUFFIX_def)
  show "calm two_files (steps_files two_steps)" using r by (simp add: calm_def two_steps_def)
  show "seen two_files ''a.c'' = Some ''x old a y''" "seen two_files ''b.c'' = Some ''new b''"
    using r t by (simp_all add: seen_def)
qed

lemma two_steps_view:
  "run_view two_steps (seen two_files) [] =
     Inr ((seen two_files)(''a.c'' \<mapsto> ''x new a y'', ''b.c'' \<mapsto> ''new b''),
       [(''a.c'', StApplied), (''b.c'', StPresent)])"
proof -
  have "replace_once ''x old a y'' ''old a'' ''new a'' = (''x new a y'', StApplied)"
    "replace_once ''new b'' ''old b'' ''new b'' = (''new b'', StPresent)" by code_simp+
  then show ?thesis by (simp add: two_steps_def two_files_facts(4,5))
qed

theorem apply_steps_implements_view_witness:
  "\<exists>h. apply_steps two_steps two_files =
      (Inr (Some Applied, [(''a.c'', StApplied), (''b.c'', StPresent)],
        ''1 hunk(s) applied, 1 already present''), h)
    \<and> seen h ''a.c'' = Some ''x new a y''"
proof -
  have "classify [(''a.c'', StApplied), (''b.c'', StPresent)] =
      (Some Applied, [(''a.c'', StApplied), (''b.c'', StPresent)], ''1 hunk(s) applied, 1 already present'')"
    by code_simp
  moreover have "\<not> is_backup ''a.c''" using two_files_facts(2) [of "''a.c''"] by (simp add: two_steps_def)
  ultimately show ?thesis
    using apply_steps_implements_view [OF two_files_facts(1-3)]
    by (auto simp: two_steps_view landed_def)
qed

text \<open>C15. Required anchors are transactional: when a required step of a list finds its file absent,
  or holding neither its new nor its old text once the steps before it are made, nothing at all is
  written, not even the steps before it, and the list returns no status.\<close>

theorem required_miss_writes_nothing:
  assumes "coherent g" and "\<And>q. q \<in> steps_files ss \<Longrightarrow> \<not> is_backup q" and "calm g (steps_files ss)"
    and "ss = pre @ (rel, old, new, True) # post"
    and "\<And>v res t. run_view pre (seen g) [] = Inr (v, res) \<Longrightarrow> v rel = Some t \<Longrightarrow>
      snd (replace_once t old new) = StMissing"
  shows "\<exists>res d h. apply_steps ss g = (Inr (None, res, d), h)
    \<and> kfiles h = kfiles g \<and> dirty h = dirty g \<and> seen h = seen g"
proof -
  obtain res d where "run_view ss (seen g) [] = Inl (res, d)"
    unfolding assms(4) using run_view_miss [of pre "seen g" "[]" rel old new post] assms(5) by blast
  then obtain h where "apply_steps ss g = (Inr (None, res, d), h)" and "unwritten g h"
    using apply_steps_refines [of g ss] assms(1,2,3)
    by (cases "apply_steps ss g"; cases "fst (apply_steps ss g)") auto
  then show ?thesis by (auto simp: unwritten_def)
qed

definition miss_steps :: "step list" where
  \<comment> \<open>the last step finds its anchor taken away by the first, which edits the same file\<close>
  "miss_steps = two_steps @ [(''a.c'', ''old a'', ''newer a'', True)]"

theorem required_miss_writes_nothing_witness:
  "\<exists>res d h. apply_steps miss_steps two_files = (Inr (None, res, d), h) \<and> kfiles h = kfiles two_files"
proof -
  have same: "steps_files miss_steps = steps_files two_steps" by (auto simp: miss_steps_def two_steps_def)
  have "snd (replace_once ''x new a y'' ''old a'' ''newer a'') = StMissing" by code_simp
  then have miss: "\<And>v res t. run_view two_steps (seen two_files) [] = Inr (v, res) \<Longrightarrow> v ''a.c'' = Some t \<Longrightarrow>
      snd (replace_once t ''old a'' ''newer a'') = StMissing"
    using two_steps_view by auto
  have "\<exists>res d h. apply_steps miss_steps two_files = (Inr (None, res, d), h)
    \<and> kfiles h = kfiles two_files \<and> dirty h = dirty two_files \<and> seen h = seen two_files"
  proof (rule required_miss_writes_nothing [OF two_files_facts(1) _ _ miss_steps_def])
    fix v res t
    assume "run_view two_steps (seen two_files) [] = Inr (v, res)" and "v ''a.c'' = Some t"
    then show "snd (replace_once t ''old a'' ''newer a'') = StMissing" by (rule miss)
  qed (simp_all add: same two_files_facts(2,3))
  then show ?thesis by blast
qed

text \<open>C16. Steps on distinct files are idempotent: after a run that ended applied or already
  present, a second run on the resulting context reports already present and writes nothing.\<close>

theorem apply_steps_idempotent:
  assumes "coherent g" and "\<And>q. q \<in> steps_files ss \<Longrightarrow> \<not> is_backup q" and "distinct (map fst ss)"
    and "apply_steps ss g = (Inr (Some s, res, d), h)" and "s \<in> {Applied, AlreadyPresent}"
  shows "\<exists>res' d' k. apply_steps ss h = (Inr (Some AlreadyPresent, res', d'), k) \<and> unwritten h k"
proof -
  have nb: "\<forall>q \<in> steps_files ss. \<not> is_backup q" using assms(2) by blast
  note R = apply_steps_refines [OF assms(1) nb, unfolded assms(4)]
  then obtain v where v: "run_view ss (seen g) [] = Inr (v, res)" and l: "landed g v h"
    and c: "classify res = (Some s, res, d)"
    by (cases "run_view ss (seen g) []") (auto simp: classify_def Let_def split: if_splits)
  have ok: "StMissing \<notin> snd ` set res" "res \<noteq> []"
    using classify_status [of res] c assms(5) by (auto split: if_splits)
  have "settled ss v" using run_view_distinct_settled [of ss "seen g" "[]" v res] v assms(3) ok(1) by simp
  moreover have "seen h rel = v rel" if "(rel, e) \<in> set ss" for rel e
    using l that nb by (force simp: landed_def steps_files_def)
  ultimately have st: "settled ss (seen h)" unfolding settled_def by fastforce
  note V = run_view_settled [OF st, of "[]"]
  let ?res = "map (\<lambda>(rel, _). (rel, StPresent)) ss"
  have "map fst res = map fst ss" using run_view_results [OF v] by simp
  with ok(2) have "ss \<noteq> []" by auto
  then have "fst (classify ?res) = Some AlreadyPresent"
    unfolding classify_status by (cases ss) (auto simp: image_image split: prod.splits)
  moreover have "coherent h" using l by (simp add: landed_def)
  note R2 = apply_steps_refines [OF this nb, unfolded V]
  have "calm h (steps_files ss)"
    using st by (fastforce simp: calm_def settled_def steps_files_def seen_def)
  with R2 obtain r k where "apply_steps ss h = (Inr r, k)" "r = classify ?res" "unwritten h k"
    by (cases "apply_steps ss h"; cases "fst (apply_steps ss h)") auto
  ultimately show ?thesis by (cases "classify ?res") auto
qed

theorem apply_steps_idempotent_witness:
  "\<exists>h res d k. apply_steps two_steps h = (Inr (Some AlreadyPresent, res, d), k) \<and> seen h ''a.c'' = Some ''x new a y''"
proof -
  from apply_steps_implements_view_witness obtain h where
    h: "apply_steps two_steps two_files = (Inr (Some Applied, [(''a.c'', StApplied), (''b.c'', StPresent)],
        ''1 hunk(s) applied, 1 already present''), h)" "seen h ''a.c'' = Some ''x new a y''"
    by blast
  have "distinct (map fst two_steps)" by (simp add: two_steps_def)
  from apply_steps_idempotent [OF two_files_facts(1,2) this h(1)] h(2) show ?thesis by blast
qed

text \<open>C17. What the status of a finished step list says: nothing matched, everything was
  there, some (optional) step is missing, or no step is missing and at least one text changed.
  One result is reported per step, in order.\<close>

theorem apply_steps_status_meaning:
  assumes "coherent g" and "\<And>q. q \<in> steps_files ss \<Longrightarrow> \<not> is_backup q"
    and "apply_steps ss g = (Inr (Some s, res, d), h)"
  shows "map fst res = map fst ss \<and>
    s = (if \<forall>x \<in> set res. snd x = StMissing then BlockedByMissingAnchor
         else if \<forall>x \<in> set res. snd x = StPresent then AlreadyPresent
         else if \<exists>x \<in> set res. snd x = StMissing then Partial else Applied)"
proof -
  have nb: "\<forall>q \<in> steps_files ss. \<not> is_backup q" using assms(2) by blast
  obtain v where v: "run_view ss (seen g) [] = Inr (v, res)" and c: "classify res = (Some s, res, d)"
    using apply_steps_refines [OF assms(1) nb, unfolded assms(3)]
    by (cases "run_view ss (seen g) []") (auto simp: classify_def Let_def split: if_splits)
  have "snd ` set res = {StPresent} \<longleftrightarrow> (\<forall>x \<in> set res. snd x = StPresent)"
    if "\<not> (\<forall>x \<in> set res. snd x = StMissing)"
    using that by auto
  moreover have "StMissing \<in> snd ` set res \<longleftrightarrow> (\<exists>x \<in> set res. snd x = StMissing)" by force
  moreover have "snd ` set res \<subseteq> {StMissing} \<longleftrightarrow> (\<forall>x \<in> set res. snd x = StMissing)" by auto
  moreover have "fst (classify res) = Some s" by (simp add: c)
  ultimately have "Some s = Some (if \<forall>x \<in> set res. snd x = StMissing then BlockedByMissingAnchor
         else if \<forall>x \<in> set res. snd x = StPresent then AlreadyPresent
         else if \<exists>x \<in> set res. snd x = StMissing then Partial else Applied)"
    unfolding classify_status
    by (cases "\<forall>x \<in> set res. snd x = StMissing") (simp_all split: if_splits)
  then show ?thesis using run_view_results [OF v] by simp
qed

theorem apply_steps_status_meaning_witness:
  "\<exists>res d h. apply_steps two_steps two_files = (Inr (Some Applied, res, d), h) \<and> map fst res = [''a.c'', ''b.c'']"
proof -
  from apply_steps_implements_view_witness obtain res d h where
    h: "apply_steps two_steps two_files = (Inr (Some Applied, res, d), h)" by blast
  from apply_steps_status_meaning [OF two_files_facts(1,2) h] h show ?thesis
    by (auto simp: two_steps_def)
qed

text \<open>C18. A list of required steps never ends partial: it misses (and writes nothing), finds
  everything present (and writes nothing), or is applied in full.\<close>

theorem required_steps_never_partial:
  assumes "coherent g" and "\<And>q. q \<in> steps_files ss \<Longrightarrow> \<not> is_backup q" and "all_required ss" and "ss \<noteq> []"
    and "apply_steps ss g = (Inr (st, res, d), h)"
  shows "(st = None \<and> unwritten g h) \<or> (st = Some AlreadyPresent \<and> unwritten g h) \<or> st = Some Applied"
proof -
  have nb: "\<forall>q \<in> steps_files ss. \<not> is_backup q" using assms(2) by blast
  show ?thesis
    using apply_steps_required [OF assms(1) nb assms(3-5)] apply_steps_quiet [OF assms(1) nb assms(5)]
    by auto
qed

theorem required_steps_never_partial_witness:
  "\<exists>st res d h. apply_steps b30_build_steps (ctx_of Map.empty [] False) = (Inr (st, res, d), h) \<and> st \<noteq> Some Partial"
proof -
  let ?g = "ctx_of Map.empty [] False"
  have f: "q \<in> steps_files b30_build_steps \<Longrightarrow> \<not> is_backup q" for q
    by (simp add: b30_build_steps_files b30_FILEMAP_C_def is_backup_code BACKUP_SUFFIX_def)
  have ne: "b30_build_steps \<noteq> []" by (simp add: b30_build_steps_def)
  have "\<exists>r h. apply_steps b30_build_steps ?g = (Inr r, h)"
    by (simp add: io_defs apply_steps_def b30_build_steps_def b30_build_steps_step1_def b30_FILEMAP_C_def
        ctx_read_def read_text_def tree_of_def)
  then obtain st res d h where a: "apply_steps b30_build_steps ?g = (Inr (st, res, d), h)" by auto
  from required_steps_never_partial [OF ctx_of_coherent f b30_build_steps_required ne a]
  have "st \<noteq> Some Partial" by auto
  with a show ?thesis by blast
qed

section \<open>Anchored edits of a text\<close>

text \<open>C19. An applied \<open>replace_once\<close> replaces exactly one occurrence, the leftmost, of the old
  text in the line-ending form in which the file has it, by the new text in the same form, and
  keeps everything before and after it.\<close>

theorem replace_once_leftmost:
  assumes "replace_once t old new = (t', StApplied)"
  shows "\<exists>a b f. f \<in> {to_lf, to_crlf \<circ> to_lf} \<and> t = a @ f old @ b \<and> t' = a @ f new @ b
    \<and> {length x |x. \<exists>y. t = x @ f old @ y} \<subseteq> {length a..}"
proof -
  have "contains (f old) t \<Longrightarrow> t' = replace_first t (f old) (f new) \<Longrightarrow> ?thesis"
    if f: "f \<in> {to_lf, to_crlf \<circ> to_lf}" for f
  proof (erule contains_cutE)
    fix a b
    assume "t' = replace_first t (f old) (f new)" and c: "cut (f old) t = Some (a, b)" and "t = a @ f old @ b"
    moreover have "{length x |x. \<exists>y. t = x @ f old @ y} \<subseteq> {length a..}"
      using cut_leftmost [OF c] by auto
    ultimately show ?thesis using f by (intro exI [of _ a] exI [of _ b] exI [of _ f]) (simp add: replace_first_def)
  qed
  from this [of to_lf] this [of "to_crlf \<circ> to_lf"] assms show ?thesis
    by (auto simp: replace_once_unfold split: if_splits)
qed

theorem replace_once_leftmost_witness:
  "\<exists>a b f. ''x old y old'' = a @ f ''old'' @ b \<and> ''x new y old'' = a @ f ''new'' @ b"
proof -
  have "replace_once ''x old y old'' ''old'' ''new'' = (''x new y old'', StApplied)" by code_simp
  from replace_once_leftmost [OF this] show ?thesis by blast
qed

text \<open>C20. \<open>replace_once\<close> changes the text only when it says applied, and a second run of the
  same edit, after applied or already present, reports already present and changes nothing.\<close>

theorem replace_once_rerun:
  assumes "replace_once t old new = (t', s)"
  shows "(s \<noteq> StApplied \<longrightarrow> t' = t) \<and> (s \<noteq> StMissing \<longrightarrow> replace_once t' old new = (t', StPresent))"
  using once.edit_keeps [of t "(old, new)" t' s] once.edit_rerun [of t "(old, new)" t' s] assms by simp

theorem replace_once_rerun_witness:
  "replace_once ''x new y old'' ''old'' ''new'' = (''x new y old'', StPresent)"
proof -
  have "replace_once ''x old y old'' ''old'' ''new'' = (''x new y old'', StApplied)" by code_simp
  from replace_once_rerun [OF this] show ?thesis by simp
qed

text \<open>C21. The same holds of \<open>ensure_after\<close>: only an applied edit changes the text, it inserts
  the snippet on the line after the first anchor, and a rerun finds it present.\<close>

theorem ensure_after_rerun:
  assumes "ensure_after t anchor snippet = (t', s)"
  shows "(s \<noteq> StApplied \<longrightarrow> t' = t) \<and> (s \<noteq> StMissing \<longrightarrow> ensure_after t' anchor snippet = (t', StPresent))
    \<and> (s = StApplied \<longrightarrow> (\<exists>a b. t = a @ anchor @ b \<and> t' = a @ anchor @ [NL] @ snippet @ b
      \<and> {length x |x. \<exists>y. t = x @ anchor @ y} \<subseteq> {length a..}))"
proof -
  have "\<exists>a b. t = a @ anchor @ b \<and> t' = a @ anchor @ [NL] @ snippet @ b
      \<and> {length x |x. \<exists>y. t = x @ anchor @ y} \<subseteq> {length a..}" if "s = StApplied"
  proof -
    from that assms have "contains anchor t" and t': "t' = replace_first t anchor (anchor @ [NL] @ snippet)"
      by (auto simp: ensure_after_def split: if_splits)
    from this(1) obtain a b where c: "cut anchor t = Some (a, b)" and "t = a @ anchor @ b"
      by (rule contains_cutE)
    moreover have "{length x |x. \<exists>y. t = x @ anchor @ y} \<subseteq> {length a..}"
      using cut_leftmost [OF c] by auto
    ultimately show ?thesis using t' by (auto simp: replace_first_def)
  qed
  with after.edit_keeps [of t "(anchor, snippet)" t' s] after.edit_rerun [of t "(anchor, snippet)" t' s] assms
  show ?thesis by simp
qed

theorem ensure_after_rerun_witness:
  "ensure_after (''#include <a.h>'' @ [NL] @ ''#include <b.h>'') ''#include <a.h>'' ''#include <b.h>''
     = (''#include <a.h>'' @ [NL] @ ''#include <b.h>'', StPresent)"
proof -
  have "ensure_after ''#include <a.h>'' ''#include <a.h>'' ''#include <b.h>''
      = (''#include <a.h>'' @ [NL] @ ''#include <b.h>'', StApplied)" by code_simp
  from ensure_after_rerun [OF this] show ?thesis by simp
qed

text \<open>C22. An edit written with LF anchors does to a CRLF file what it does to the LF file:
  converting and editing commute, for a file and anchors without carriage returns of their own,
  when the old text is more than one line or both the old and the new text stay within one line.\<close>

theorem replace_once_commutes_with_crlf:
  assumes "CR \<notin> set u" and "CR \<notin> set old" and "CR \<notin> set new"
    and "NL \<in> set (tl old) \<or> NL \<notin> set old \<and> NL \<notin> set new"
  shows "replace_once (to_crlf u) old new = apfst to_crlf (replace_once u old new)"
  using assms by (rule replace_once_crlf)

theorem replace_once_commutes_with_crlf_witness:
  "replace_once (to_crlf (block [''a'', ''b'', ''c''])) (block [''a'', ''b'']) (block [''a'', ''x'', ''b''])
     = (to_crlf (block [''a'', ''x'', ''b'', ''c'']), StApplied)"
proof -
  have "replace_once (to_crlf (block [''a'', ''b'', ''c''])) (block [''a'', ''b'']) (block [''a'', ''x'', ''b''])
      = apfst to_crlf (replace_once (block [''a'', ''b'', ''c'']) (block [''a'', ''b'']) (block [''a'', ''x'', ''b'']))"
    by (rule replace_once_commutes_with_crlf) (simp_all add: block_def)
  moreover have "replace_once (block [''a'', ''b'', ''c'']) (block [''a'', ''b'']) (block [''a'', ''x'', ''b''])
      = (block [''a'', ''x'', ''b'', ''c''], StApplied)" by code_simp
  ultimately show ?thesis by simp
qed

text \<open>C23. Outside that proviso it fails: an edit that replaces an anchor within one line by
  several lines, where it applies to the LF file, applies to the CRLF file too, but puts the new
  lines in with bare line feeds, so the result is not the CRLF form of what the edit gives on the
  LF file.\<close>

theorem one_line_anchor_mixes_line_ends:
  assumes "CR \<notin> set u" and "CR \<notin> set old" and "CR \<notin> set new" and "NL \<notin> set old" and "NL \<in> set new"
    and "replace_once u old new = (u', StApplied)"
  shows "\<exists>a b. u = a @ old @ b \<and> u' = a @ new @ b
    \<and> replace_once (to_crlf u) old new = (to_crlf a @ new @ to_crlf b, StApplied)
    \<and> to_crlf a @ new @ to_crlf b \<noteq> to_crlf u'"
  by (rule replace_once_mixes [OF assms]) blast

theorem one_line_anchor_mixes_line_ends_witness:
  "\<exists>a b. case min_reserve_step1 of (rel, old, new, req) \<Rightarrow>
     replace_once (to_crlf (old @ [NL])) old new = (to_crlf a @ new @ to_crlf b, StApplied)
     \<and> to_crlf a @ new @ to_crlf b \<noteq> to_crlf (new @ [NL])"
proof -
  define old where "old = fst (snd min_reserve_step1)"
  define new where "new = fst (snd (snd min_reserve_step1))"
  have "replace_once (old @ [NL]) old new = (new @ [NL], StApplied)" unfolding old_def new_def by code_simp
  moreover have "CR \<notin> set (old @ [NL])" "CR \<notin> set old" "CR \<notin> set new" "NL \<notin> set old" "NL \<in> set new"
    by (simp_all add: old_def new_def min_reserve_step1_def block_def)
  ultimately obtain a b where "replace_once (to_crlf (old @ [NL])) old new = (to_crlf a @ new @ to_crlf b, StApplied)"
    "to_crlf a @ new @ to_crlf b \<noteq> to_crlf (new @ [NL])"
    using one_line_anchor_mixes_line_ends [of "old @ [NL]" old new "new @ [NL]"] by blast
  then show ?thesis
    unfolding old_def new_def case_prod_beta by blast
qed

section \<open>The loop of the rollback script\<close>

text \<open>C24. The loop of the rollback script, which restores one snapshot after the other in the order
  \<^verbatim>\<open>find\<close> happens to list them, has one result whatever that order, the one C1 and C2 speak of:
  every snapshot is gone, every file that had one is back (or deleted, when the snapshot marks it as
  made by a module), every other file is untouched. (No snapshot is itself a file with a snapshot.)\<close>

theorem rollback_loop_order:
  assumes "distinct bs" and "set bs = {b. is_backup b \<and> (\<exists>t. fs b = Some (Regular t))}"
    and "\<And>b. b \<in> set bs \<Longrightarrow> \<not> is_backup (original_of b)"
  shows "fold restore_one bs fs = rollback fs"
proof -
  have "fold restore_one bs fs = rolled_back (set bs) fs"
    by (rule fold_restore [OF assms(1)]) (use assms(2,3) in blast)
  with rolled_back_all [OF assms(2)] show ?thesis by simp
qed

definition snapshot_files :: "(path \<times> str) list" where
  \<comment> \<open>a file that was edited, one a module made, one nobody touched\<close>
  "snapshot_files = [(''a.c'', ''new''), (''a.c.abk-orig'', ''old''), (''b.c'', ''made''),
     (''b.c.abk-orig'', NEW_FILE_SENTINEL @ [NL]), (''c.c'', ''same'')]"

theorem rollback_loop_order_witness:
  "fold restore_one [''b.c.abk-orig'', ''a.c.abk-orig''] (tree_of snapshot_files)
     = rollback (tree_of snapshot_files)
   \<and> map (rollback (tree_of snapshot_files)) [''a.c'', ''a.c.abk-orig'', ''b.c'', ''b.c.abk-orig'', ''c.c'']
     = [Some (Regular ''old''), None, None, None, Some (Regular ''same'')]"
proof
  show "fold restore_one [''b.c.abk-orig'', ''a.c.abk-orig''] (tree_of snapshot_files)
     = rollback (tree_of snapshot_files)"
  proof (rule rollback_loop_order)
    show "set [''b.c.abk-orig'', ''a.c.abk-orig''] =
        {b. is_backup b \<and> (\<exists>t. tree_of snapshot_files b = Some (Regular t))}"
      by (auto simp: tree_of_def snapshot_files_def is_backup_code BACKUP_SUFFIX_def split: if_splits)
  qed (auto simp: original_of_def is_backup_code BACKUP_SUFFIX_def)
  show "map (rollback (tree_of snapshot_files)) [''a.c'', ''a.c.abk-orig'', ''b.c'', ''b.c.abk-orig'', ''c.c'']
     = [Some (Regular ''old''), None, None, None, Some (Regular ''same'')]"
    by code_simp
qed

section \<open>The defconfig\<close>

text \<open>C25. \<open>enable_configs\<close> on a readable defconfig leaves a text with the line
  \<^verbatim>\<open>CONFIG_name=value\<close> for every requested symbol, and keeps every line that does not set or
  unset one of them to something else. When every symbol is set already it says already present
  and writes nothing; otherwise it says applied and the text has changed.\<close>

theorem enable_configs_sets:
  assumes "coherent g" and "defconfig_rel g = Some rel" and "seen g rel = Some t" and "\<not> is_backup rel"
    and "\<And>c. c \<in> set cs \<Longrightarrow> plain_config c" and "distinct (map fst cs)"
  shows "\<exists>st m h t'. enable_configs cs g = (Inr (st, m), h) \<and> seen h rel = Some t'
    \<and> (\<lambda>c. config_target (fst c) (snd c)) ` set cs \<subseteq> set (split_on (joiner_of t) t')
    \<and> {l \<in> set (split_on (joiner_of t) t). list_all (\<lambda>c. \<not> config_stale (fst c) (config_target (fst c) (snd c)) l) cs}
        \<subseteq> set (split_on (joiner_of t) t')
    \<and> (if (\<lambda>c. config_target (fst c) (snd c)) ` set cs \<subseteq> set (split_on (joiner_of t) t)
       then st = AlreadyPresent \<and> unwritten g h else st = Applied \<and> rel \<in> set (dirty h) \<and> t' \<noteq> t)"
proof -
  have p: "\<forall>c \<in> set cs. plain_config c" using assms(5) by blast
  have sets: "(\<lambda>c. config_target (fst c) (snd c)) ` set cs \<subseteq> set (split_on (joiner_of t) (configured cs t))"
    using configured_set [OF p assms(6)] by blast
  have keeps: "{l \<in> set (split_on (joiner_of t) t). list_all (\<lambda>c. \<not> config_stale (fst c) (config_target (fst c) (snd c)) l) cs}
      \<subseteq> set (split_on (joiner_of t) (configured cs t))"
    using configured_keeps [OF p] by (auto simp: list_all_iff)
  show ?thesis
  proof (rule enable_configs_run [OF assms(1-4), of cs])
    fix h m
    assume "enable_configs cs g = (Inr (AlreadyPresent, m), h)" "unwritten g h"
      "seen h rel = Some (configured cs t)"
      and all: "\<forall>c \<in> set cs. config_target (fst c) (snd c) \<in> set (split_on (joiner_of t) t)"
    moreover from all have "(\<lambda>c. config_target (fst c) (snd c)) ` set cs \<subseteq> set (split_on (joiner_of t) t)" by blast
    ultimately show ?thesis using sets keeps by auto
  next
    fix h m
    assume "enable_configs cs g = (Inr (Applied, m), h)" "rel \<in> set (dirty h)"
      "seen h rel = Some (configured cs t)"
      and some: "\<exists>c \<in> set cs. config_target (fst c) (snd c) \<notin> set (split_on (joiner_of t) t)"
    moreover from some have "\<not> (\<lambda>c. config_target (fst c) (snd c)) ` set cs \<subseteq> set (split_on (joiner_of t) t)" by blast
    ultimately show ?thesis using sets keeps configured_changes [OF p assms(6) some] by auto
  qed
qed

lemma all_configs_plain:
  "c \<in> set (MODULE_CONFIGS @ ALIGN_CONFIGS @ ROM_CONFIGS) \<Longrightarrow> plain_config c"
  "distinct (map fst (MODULE_CONFIGS @ ALIGN_CONFIGS @ ROM_CONFIGS))"
proof -
  have "list_all plain_config (MODULE_CONFIGS @ ALIGN_CONFIGS @ ROM_CONFIGS)" by code_simp
  then show "c \<in> set (MODULE_CONFIGS @ ALIGN_CONFIGS @ ROM_CONFIGS) \<Longrightarrow> plain_config c"
    unfolding list_all_iff by blast
  show "distinct (map fst (MODULE_CONFIGS @ ALIGN_CONFIGS @ ROM_CONFIGS))" by code_simp
qed

lemma small_tree_defconfig:
  "seen (ctx_of Map.empty small_tree False) gki_defconfig = Some (''CONFIG_ZRAM=y'' @ [NL])"
proof -
  have "read_text (tree_of small_tree) gki_defconfig = Inr (''CONFIG_ZRAM=y'' @ [NL])" by code_simp
  then show ?thesis by (simp add: seen_def)
qed

theorem enable_configs_sets_witness:
  "\<exists>st m h t'. enable_configs (MODULE_CONFIGS @ ALIGN_CONFIGS @ ROM_CONFIGS) (ctx_of Map.empty small_tree False)
      = (Inr (st, m), h) \<and> seen h gki_defconfig = Some t'
    \<and> ''CONFIG_ZRAM_MULTI_COMP=y'' \<in> set (split_on [NL] t')"
proof -
  let ?t = "''CONFIG_ZRAM=y'' @ [NL]" and ?cs = "MODULE_CONFIGS @ ALIGN_CONFIGS @ ROM_CONFIGS"
  have j: "joiner_of ?t = [NL]" by code_simp
  have "(''ZRAM_MULTI_COMP'', ''y'') \<in> set ?cs" by (simp add: MODULE_CONFIGS_def)
  then have "''CONFIG_ZRAM_MULTI_COMP=y'' \<in> (\<lambda>c. config_target (fst c) (snd c)) ` set ?cs"
    by (rule rev_image_eqI) (simp add: config_target_def)
  with enable_configs_sets [OF ctx_of_coherent ctx_of_defconfig small_tree_defconfig
      gki_defconfig_not_backup all_configs_plain, unfolded j]
  show ?thesis by blast
qed

text \<open>C26. A second \<open>enable_configs\<close> with the same symbols finds them all set and writes
  nothing (for a defconfig whose carriage returns, if any, include a CRLF line end).\<close>

theorem enable_configs_idempotent:
  assumes "coherent g" and "defconfig_rel g = Some rel" and "seen g rel = Some t" and "\<not> is_backup rel"
    and "\<And>c. c \<in> set cs \<Longrightarrow> plain_config c" and "distinct (map fst cs)" and "no_lone_CR t"
    and "enable_configs cs g = (x, h)"
  shows "\<exists>m k. enable_configs cs h = (Inr (AlreadyPresent, m), k) \<and> unwritten h k"
proof -
  have p: "\<forall>c \<in> set cs. plain_config c" using assms(5) by blast
  have same: "configured cs (configured cs t) = configured cs t"
    by (rule configured_again [OF p assms(6,7)])
  have "coherent h \<and> seen h rel = Some (configured cs t) \<and> defconfig_rel h = Some rel"
    by (rule enable_configs_run [OF assms(1-4), of cs])
      (use assms(2,8) in \<open>auto simp: unwritten_def same_consts_def\<close>)
  then have h: "coherent h" "seen h rel = Some (configured cs t)" "defconfig_rel h = Some rel"
    by blast+
  have idle: "enable_loop (joiner_of (configured cs t)) cs (configured cs t) 0 0 = (configured cs t, 0, 0)"
    using enable_loop_idle configured_set [OF p assms(6)] configured_joiner [OF p assms(7)] by simp
  obtain g1 where r: "ctx_read rel h = (Inr (configured cs t), g1)" and u: "unwritten h g1"
    using h(2) quiet.R_read [of h rel] by (cases "ctx_read rel h") (simp add: ctx_read_seen)
  from idle r u h(3) show ?thesis
    by (simp add: enable_configs_def io_bind_def [of "ctx_read rel"] io_ret_def Let_def)
qed

theorem enable_configs_idempotent_witness:
  "\<exists>m k. enable_configs MODULE_CONFIGS (snd (enable_configs MODULE_CONFIGS (ctx_of Map.empty small_tree False)))
     = (Inr (AlreadyPresent, m), k)"
proof -
  let ?run = "enable_configs MODULE_CONFIGS (ctx_of Map.empty small_tree False)"
  have p: "plain_config c" if "c \<in> set MODULE_CONFIGS" for c using all_configs_plain(1) that by simp
  have d: "distinct (map fst MODULE_CONFIGS)" by (simp add: MODULE_CONFIGS_def)
  have l: "no_lone_CR (''CONFIG_ZRAM=y'' @ [NL])" by (simp add: no_lone_CR_def)
  have "?run = (fst ?run, snd ?run)" by simp
  from enable_configs_idempotent [OF ctx_of_coherent ctx_of_defconfig small_tree_defconfig
      gki_defconfig_not_backup p d l this]
  show ?thesis by blast
qed

text \<open>C27. \<open>defconfig_drop_cmdline_token\<close> returns a status on every readable defconfig; after
  it no \<^verbatim>\<open>CONFIG_CMDLINE\<close> line holds the token, unless there is no such line at all (the
  missing anchor); it writes only when it drops something.\<close>

theorem drop_token_removes:
  assumes "coherent g" and "defconfig_rel g = Some rel" and "seen g rel = Some t" and "\<not> is_backup rel"
  shows "\<exists>st m h t'. defconfig_drop_cmdline_token token g = (Inr (st, m), h) \<and> seen h rel = Some t'
    \<and> st \<in> {Applied, AlreadyPresent, BlockedByMissingAnchor} \<and> (st = Applied \<or> unwritten g h)
    \<and> {l \<in> set (split_on (joiner_of t) t'). cmdline_line l \<and> token \<in> set (cmdline_tokens l)} = {}
    \<and> (st = BlockedByMissingAnchor \<longrightarrow> {l \<in> set (split_on (joiner_of t) t). cmdline_line l} = {})"
proof (rule drop_cmdline_run [OF assms, of token])
  fix h m
  assume "defconfig_drop_cmdline_token token g = (Inr (BlockedByMissingAnchor, m), h)"
    and u: "unwritten g h" and "\<forall>l \<in> set (split_on (joiner_of t) t). \<not> cmdline_line l"
  then show ?thesis using assms(3) unwritten_seen [OF u] by auto
next
  fix h m
  assume "defconfig_drop_cmdline_token token g = (Inr (AlreadyPresent, m), h)" and u: "unwritten g h"
    and "\<forall>l \<in> set (split_on (joiner_of t) t). cmdline_line l \<longrightarrow> token \<notin> set (cmdline_tokens l)"
  then show ?thesis using assms(3) unwritten_seen [OF u] by auto
next
  fix h m
  assume "defconfig_drop_cmdline_token token g = (Inr (Applied, m), h)"
    and "seen h rel = Some (token_dropped token t)"
  moreover have "{l \<in> set (split_on (joiner_of t) (token_dropped token t)).
      cmdline_line l \<and> token \<in> set (cmdline_tokens l)} = {}"
    using token_dropped_gone [of _ t token] by blast
  ultimately show ?thesis by blast
qed

theorem drop_token_removes_witness:
  "\<exists>st m h. defconfig_drop_cmdline_token PSI_CMDLINE_TOKEN (ctx_of Map.empty small_tree False) = (Inr (st, m), h)
    \<and> (st = Applied \<or> unwritten (ctx_of Map.empty small_tree False) h)"
  using drop_token_removes [OF ctx_of_coherent ctx_of_defconfig small_tree_defconfig
      gki_defconfig_not_backup, of PSI_CMDLINE_TOKEN]
  by blast

text \<open>C28. The rewritten line: dropping a token leaves every other token of a
  \<^verbatim>\<open>CONFIG_CMDLINE\<close> line, in order, for any line and token; other lines are kept.\<close>

theorem drop_token_line:
  "if cmdline_line l
   then cmdline_line (drop_token token l)
     \<and> cmdline_tokens (drop_token token l) = filter (\<lambda>x. x \<noteq> token) (cmdline_tokens l)
   else drop_token token l = l"
  using drop_token_tokens [of l token] by (simp add: drop_token_other)

section \<open>The display group\<close>

text \<open>C29. The display group keeps the brace balance of every file, whatever the tree holds and
  whether its steps apply, are present, or miss (the audit of \<^verbatim>\<open>tests/step_audit.py\<close>).\<close>

theorem display_keeps_braces:
  assumes "coherent g" and "\<not> is_backup q"
  shows "map_option brace_delta (seen (snd (apply_fn drm_valid_clones_revert_group g)) q)
    = map_option brace_delta (seen g q)"
proof -
  have "brace_delta VC_FN_OLD = brace_delta VC_FN_NEW" "brace_delta VC_CALL_OLD = brace_delta VC_CALL_NEW"
    by code_simp+
  then have b: "brace.balanced_steps drm_valid_clones_revert_steps"
    by (simp add: brace.balanced_steps_def drm_valid_clones_revert_steps_def
        drm_valid_clones_revert_step1_def drm_valid_clones_revert_step2_def)
  have f: "\<forall>q \<in> steps_files drm_valid_clones_revert_steps. \<not> is_backup q"
    by (simp add: drm_valid_clones_revert_steps_files is_backup_code BACKUP_SUFFIX_def)
  have "snd (apply_fn drm_valid_clones_revert_group g) = snd (apply_steps drm_valid_clones_revert_steps g)"
    by (simp add: drm_valid_clones_revert_group_def drm_valid_clones_revert_apply_def apply_or_block_def
        apply_or_else_def io_defs split: prod.split sum.split option.split)
  with brace.apply_steps_measure [OF assms(1) f b assms(2)] show ?thesis by simp
qed

theorem display_keeps_braces_witness:
  "map_option brace_delta (seen (snd (apply_fn drm_valid_clones_revert_group
     (ctx_of Map.empty small_tree False))) gki_defconfig) = Some 0"
proof -
  have "brace_delta (''CONFIG_ZRAM=y'' @ [NL]) = 0" by code_simp
  with display_keeps_braces [OF ctx_of_coherent gki_defconfig_not_backup, of Map.empty small_tree False]
  show ?thesis by (simp add: small_tree_defconfig)
qed

section \<open>The perf registry\<close>

text \<open>C30. \<open>randomize_kstack_pertask\<close> is the exception: it verifies where its member landed only
  after its steps are on disk. Whenever the steps apply but leave \<open>struct task_struct\<close> without
  the member, the group degrades with its files rewritten, and the whole run aborts.\<close>

theorem kstack_verified_too_late:
  assumes "coherent g" and "seen g ''include/linux/sched.h'' = Some t"
    and "calm g (steps_files (kstack_pertask_steps t))"
    and "run_view (kstack_pertask_steps t) (seen g) [] = Inr (v, res)" and "StApplied \<in> snd ` set res"
    and "v ''include/linux/sched.h'' = Some t'" and "t' \<noteq> t" and "\<not> member_in_task_struct t'"
  shows "\<exists>changed h. run_checked randomize_kstack_pertask_group g =
      (Inl (System_Exit (degraded_message ''randomize_kstack_pertask'' BlockedByShape changed)), h)
    \<and> ''include/linux/sched.h'' \<in> set changed \<and> seen h ''include/linux/sched.h'' = Some t'"
proof -
  have q: "v ''include/linux/sched.h'' \<noteq> seen g ''include/linux/sched.h''" "\<not> is_backup ''include/linux/sched.h''"
    using assms(2,6,7) by (simp_all add: is_backup_code BACKUP_SUFFIX_def)
  obtain changed h where "landed g v h" "''include/linux/sched.h'' \<in> set changed"
    "run_checked randomize_kstack_pertask_group g =
       (Inl (System_Exit (degraded_message ''randomize_kstack_pertask'' BlockedByShape changed)), h)"
    using kstack_run_checked [OF assms(1-6,8) q] by blast
  moreover from this(1) q(2) have "seen h ''include/linux/sched.h'' = Some t'"
    by (simp add: landed_def assms(6))
  ultimately show ?thesis by blast
qed

definition kstack_sched_h :: str where
  "kstack_sched_h = block [''struct other {'', [TAB] @ ''ANDROID_KABI_RESERVE(5);'', ''};'',
     ''struct task_struct {'', [TAB] @ ''ANDROID_KABI_USE(6, struct sysv_sem sysvsem);'', ''};'']"

definition kstack_tree :: "(path \<times> str) list" where
  "kstack_tree =
     [(''include/linux/sched.h'', kstack_sched_h),
      (''include/linux/randomize_kstack.h'', fst (snd (snd kstack_pertask_step1)) @ fst (snd (snd kstack_pertask_step2))),
      (''init/main.c'', fst (snd (snd kstack_pertask_step3))),
      (''kernel/fork.c'', fst (snd (snd kstack_pertask_step4)) @ fst (snd (snd kstack_pertask_step5)))]"

definition kstack_ctx :: gctx where
  \<comment> \<open>a context that has read the tree\<close>
  "kstack_ctx = (ctx_of Map.empty kstack_tree False)\<lparr>texts := map_of kstack_tree\<rparr>"

lemma kstack_ctx_seen: "(rel, t) \<in> set kstack_tree \<Longrightarrow> seen kstack_ctx rel = Some t"
proof -
  assume m: "(rel, t) \<in> set kstack_tree"
  have "distinct (map fst kstack_tree)" by (simp add: kstack_tree_def)
  with m show ?thesis by (simp add: seen_def kstack_ctx_def)
qed

lemma kstack_ctx_coherent: "coherent kstack_ctx"
  by (simp add: coherent_def kstack_ctx_def tree_of_def)

lemma kstack_sched_h_step:
  "sched_h_kstack_step kstack_sched_h = (''include/linux/sched.h'', [TAB] @ ''ANDROID_KABI_RESERVE(5);'',
     [TAB] @ kstack_marker @ [NL] @ [TAB] @ ''ANDROID_KABI_USE(5, u32'' @ [TAB, TAB, TAB] @ ''kstack_offset);'', True)"
  "contains ''kstack_offset;'' kstack_sched_h = False"
  by code_simp+

definition kstack_sched_h_after :: str where
  "kstack_sched_h_after = block [''struct other {'', [TAB] @ kstack_marker,
     [TAB] @ ''ANDROID_KABI_USE(5, u32'' @ [TAB, TAB, TAB] @ ''kstack_offset);'', ''};'',
     ''struct task_struct {'', [TAB] @ ''ANDROID_KABI_USE(6, struct sysv_sem sysvsem);'', ''};'']"

lemma kstack_sched_h_edit:
  "replace_once kstack_sched_h ([TAB] @ ''ANDROID_KABI_RESERVE(5);'')
     ([TAB] @ kstack_marker @ [NL] @ [TAB] @ ''ANDROID_KABI_USE(5, u32'' @ [TAB, TAB, TAB] @ ''kstack_offset);'')
   = (kstack_sched_h_after, StApplied)"
  by code_simp

lemma kstack_sched_h_after:
  "\<not> member_in_task_struct kstack_sched_h_after" "kstack_sched_h_after \<noteq> kstack_sched_h"
  by code_simp+

lemma no_CR_block: "list_all (\<lambda>l. CR \<notin> set l) ls \<Longrightarrow> CR \<notin> set (block ls)"
  unfolding block_def by (induction "[NL]" ls rule: py_join.induct) auto

lemma replace_once_present:
  "contains new t \<Longrightarrow> CR \<notin> set new \<Longrightarrow> replace_once t old new = (t, StPresent)"
  by (simp add: replace_once_unfold to_lf_no_CR)

lemma kstack_rest_present:
  "settled kstack_pertask_rest ((seen kstack_ctx)(''include/linux/sched.h'' \<mapsto> kstack_sched_h_after))"
proof -
  let ?v = "(seen kstack_ctx)(''include/linux/sched.h'' \<mapsto> kstack_sched_h_after)"
  have present: "\<exists>t. ?v (fst s) = Some t \<and> replace_once t (fst (snd s)) (fst (snd (snd s))) = (t, StPresent)"
    if "(fst s, a @ fst (snd (snd s)) @ b) \<in> set kstack_tree" "fst s \<noteq> ''include/linux/sched.h''"
      "CR \<notin> set (fst (snd (snd s)))" for s :: step and a b
    using kstack_ctx_seen [OF that(1)] that(2) replace_once_present [OF _ that(3)] by auto
  have files: "fst kstack_pertask_step1 = ''include/linux/randomize_kstack.h''"
    "fst kstack_pertask_step2 = ''include/linux/randomize_kstack.h''" "fst kstack_pertask_step3 = ''init/main.c''"
    "fst kstack_pertask_step4 = ''kernel/fork.c''" "fst kstack_pertask_step5 = ''kernel/fork.c''"
    by (simp_all add: kstack_pertask_step1_def kstack_pertask_step2_def kstack_pertask_step3_def
        kstack_pertask_step4_def kstack_pertask_step5_def)
  have no_CR: "CR \<notin> set (fst (snd (snd kstack_pertask_step1)))" "CR \<notin> set (fst (snd (snd kstack_pertask_step2)))"
    "CR \<notin> set (fst (snd (snd kstack_pertask_step3)))" "CR \<notin> set (fst (snd (snd kstack_pertask_step4)))"
    "CR \<notin> set (fst (snd (snd kstack_pertask_step5)))"
    by (simp_all add: kstack_pertask_step1_def kstack_pertask_step2_def kstack_pertask_step3_def
        kstack_pertask_step4_def kstack_pertask_step5_def no_CR_block)
  have "\<forall>s \<in> set kstack_pertask_rest. \<exists>t. ?v (fst s) = Some t
      \<and> replace_once t (fst (snd s)) (fst (snd (snd s))) = (t, StPresent)"
    unfolding kstack_pertask_rest_def list.set ball_simps
    using present [of kstack_pertask_step1 "[]" "fst (snd (snd kstack_pertask_step2))"]
      present [of kstack_pertask_step2 "fst (snd (snd kstack_pertask_step1))" "[]"]
      present [of kstack_pertask_step3 "[]" "[]"]
      present [of kstack_pertask_step4 "[]" "fst (snd (snd kstack_pertask_step5))"]
      present [of kstack_pertask_step5 "fst (snd (snd kstack_pertask_step4))" "[]"] no_CR
    unfolding files kstack_tree_def by simp
  then show ?thesis by (fastforce simp: settled_def)
qed

theorem kstack_verified_too_late_witness:
  "\<exists>changed h. run_checked randomize_kstack_pertask_group kstack_ctx =
      (Inl (System_Exit (degraded_message ''randomize_kstack_pertask'' BlockedByShape changed)), h)
    \<and> ''include/linux/sched.h'' \<in> set changed"
proof -
  let ?ss = "kstack_pertask_steps kstack_sched_h"
  let ?v = "(seen kstack_ctx)(''include/linux/sched.h'' \<mapsto> kstack_sched_h_after)"
  have s: "seen kstack_ctx ''include/linux/sched.h'' = Some kstack_sched_h"
    by (rule kstack_ctx_seen) (simp add: kstack_tree_def)
  have calm: "calm kstack_ctx (steps_files ?ss)"
    using kstack_pertask_files [of kstack_sched_h]
    by (fastforce simp: calm_def kstack_ctx_def kstack_tree_def)
  have "run_view ?ss (seen kstack_ctx) [] = run_view kstack_pertask_rest ?v [(''include/linux/sched.h'', StApplied)]"
    by (simp add: kstack_pertask_steps_def kstack_sched_h_step s kstack_sched_h_edit [simplified])
  also note run_view_settled [OF kstack_rest_present]
  finally have w: "run_view ?ss (seen kstack_ctx) [] = Inr (?v, [(''include/linux/sched.h'', StApplied)]
      @ map (\<lambda>(rel, _). (rel, StPresent)) kstack_pertask_rest)" .
  show ?thesis
    using kstack_verified_too_late [OF kstack_ctx_coherent s calm w _ _ kstack_sched_h_after(2,1)] by auto
qed

text \<open>C31. The three registries hold 78, 24 and 1 groups and no two of the 103 share a key, so a
  key names one group across the children's reports.\<close>

theorem registries_keys_distinct:
  "map length [CORE_PATCH_GROUPS, PERF_PATCH_GROUPS, DISPLAY_PATCH_GROUPS] = [78, 24, 1]
   \<and> distinct (map key (CORE_PATCH_GROUPS @ PERF_PATCH_GROUPS @ DISPLAY_PATCH_GROUPS))"
proof -
  have d: "map key DISPLAY_PATCH_GROUPS = [''drm_valid_clones_revert'']"
    by (simp add: DISPLAY_PATCH_GROUPS_def key_of [OF drm_valid_clones_revert_group_def])
  have "length (map key CORE_PATCH_GROUPS) = 78" "length (map key PERF_PATCH_GROUPS) = 24"
    unfolding CORE_PATCH_GROUPS_def PERF_PATCH_GROUPS_def map_append core_group_keys perf_group_keys by simp_all
  moreover have "length DISPLAY_PATCH_GROUPS = 1" by (simp add: DISPLAY_PATCH_GROUPS_def)
  moreover have "set (map key CORE_PATCH_GROUPS) \<inter> set (map key PERF_PATCH_GROUPS) = {}"
    unfolding CORE_PATCH_GROUPS_def PERF_PATCH_GROUPS_def map_append core_group_keys perf_group_keys by simp
  moreover have "''drm_valid_clones_revert'' \<notin> set (map key CORE_PATCH_GROUPS)"
    "''drm_valid_clones_revert'' \<notin> set (map key PERF_PATCH_GROUPS)"
    unfolding CORE_PATCH_GROUPS_def PERF_PATCH_GROUPS_def map_append core_group_keys perf_group_keys by simp_all
  ultimately show ?thesis
    unfolding map_append d distinct_append using core_keys_distinct perf_keys_distinct by auto
qed

text \<open>C32. The EEVDF field groups claim no structure slot and add no switch unless \<^verbatim>\<open>fair.c\<close>
  carries the scheduler code that reads them: with one of the nine landed probes missing they
  are blocked and write nothing.\<close>

theorem eevdf_fields_gated:
  assumes "G \<in> {sched_eevdf_core_fields_group, sched_eevdf_modern_fields_group}"
    and "seen g ''include/linux/sched.h'' = Some t" and "seen g ''kernel/sched/fair.c'' = Some fair"
    and "probe \<in> set p15e_FAIR_LANDED_PROBES" and "\<not> contains probe fair"
  shows "\<exists>d h. run_group G g = (Inr (group_result_of G (BlockedByShape, d)), h)
    \<and> kfiles h = kfiles g \<and> dirty h = dirty g \<and> seen h = seen g"
proof -
  have "\<exists>d h. apply_fn G g = (Inr (BlockedByShape, d), h) \<and> unwritten g h"
    using eevdf_core_fields_gate [of g t fair probe] eevdf_modern_fields_gate [of g fair probe] assms
    by (auto simp: sched_eevdf_core_fields_group_def sched_eevdf_modern_fields_group_def
        p15e_SCHED_H_def p15e_FAIR_C_def)
  then show ?thesis by (auto simp: run_group_def io_try_def io_ret_def unwritten_def)
qed

definition eevdf_tree :: "(path \<times> str) list" where
  "eevdf_tree = [(''include/linux/sched.h'', ''struct sched_entity {''), (''kernel/sched/fair.c'', ''int x;'')]"

theorem eevdf_fields_gated_witness:
  "kfiles (snd (run_group sched_eevdf_core_fields_group (ctx_of Map.empty eevdf_tree False))) = tree_of eevdf_tree"
proof -
  have "seen (ctx_of Map.empty eevdf_tree False) ''include/linux/sched.h'' = Some ''struct sched_entity {''"
    "seen (ctx_of Map.empty eevdf_tree False) ''kernel/sched/fair.c'' = Some ''int x;''"
    "\<not> contains ''if (!se->slice)'' ''int x;''"
    by code_simp+
  moreover have "''if (!se->slice)'' \<in> set p15e_FAIR_LANDED_PROBES" by (simp add: p15e_FAIR_LANDED_PROBES_def)
  ultimately show ?thesis
    using eevdf_fields_gated [of sched_eevdf_core_fields_group "ctx_of Map.empty eevdf_tree False"] by fastforce
qed

section \<open>The report files\<close>

text \<open>C33. The JSON file of a report holds the whole report: reading the file that
  \<open>write_report\<close> leaves gives back, member by member under the names the file uses, every field of
  the report and of each of its group results, whatever the texts in it (quotes, control characters
  and characters beyond ASCII included).\<close>

theorem report_json_read_back:
  assumes "report_valid rp"
  shows "Option.bind (Option.bind (write_report child rp fs (report_file child ''.json'')) json_loads) report_of = Some rp"
proof -
  have "write_report child rp fs (report_file child ''.json'') = Some (dumps (Some 2) 0 (report_json rp))"
    using report_files_apart [of child] by (simp add: write_report_def write_one_at)
  with report_text.get_put [OF assms] show ?thesis by simp
qed

definition sample_report :: report where
  \<comment> \<open>a degraded run with a quote, a line feed and a character beyond ASCII in the texts\<close>
  "sample_report = build_report ''core'' ''2024-01-01T00:00:00Z''
     [\<lparr>r_key = ''k'', r_summary = ''s'', r_commits = [''c1'', ''c2''], r_files = [''mm/filemap.c''],
       r_status = BlockedByShape, r_detail = [DQ, NL, CHR 0xC3, CHR 0xA9]\<rparr>]
     (Some \<lparr>sh_fdtable_upstream_shape = True, sh_suite_fdtable_fallback = False, sh_block_rolled_back = True\<rparr>)
     (ctx_of Map.empty small_tree True)"

theorem report_json_read_back_witness:
  "Option.bind (Option.bind (write_report ''core'' sample_report Map.empty (report_file ''core'' ''.json'')) json_loads)
     report_of = Some sample_report"
  by (rule report_json_read_back) code_simp

text \<open>C34. The Markdown file of a completed run is the ten lines of the head and one line per
  group of the registry, in its order, each the row of that group's result: a detail of several
  lines does not break the table.\<close>

theorem markdown_rows:
  assumes "run_child child now groups enabled g = (Inr rp, h)" and "list_all one_line groups"
    and "NL \<notin> set (rp_child rp) \<union> set (rp_generated rp) \<union> set (rp_family rp) \<union> set (rp_sub_level rp)"
  shows "split_on [NL] (render_markdown rp) = markdown_head rp @ map markdown_row (rp_groups rp) @ [[]]
    \<and> length (markdown_head rp) = 10
    \<and> list_all2 (\<lambda>G l. prefix (''| '' @ key G @ '' | '') l) groups (map markdown_row (rp_groups rp))"
proof -
  from assms(1) obtain results sh where r: "run_groups enabled groups [] g = (Inr results, snd (run_groups enabled groups [] g))"
    and rp: "rp = build_report child now results sh h"
    by (rule run_child_report)
  from run_groups_results [OF r] have res: "list_all2 result_for groups (rp_groups rp)"
    by (simp add: rp build_report_def)
  have "list_all (\<lambda>r. NL \<notin> set (r_key r) \<and> list_all (\<lambda>c. NL \<notin> set c) (r_commits r)) (rp_groups rp)"
    using res assms(2)
    by (induction rule: list_all2_induct) (auto simp: result_for_def one_line_def)
  moreover have "list_all2 (\<lambda>G l. prefix (''| '' @ key G @ '' | '') l) groups (map markdown_row (rp_groups rp))"
    using res by (induction rule: list_all2_induct) (auto simp: result_for_def markdown_row_def)
  ultimately show ?thesis using markdown_lines [OF _ assms(3)] by (simp add: markdown_head_def)
qed

theorem markdown_rows_witness:
  "\<exists>rp. fst (run_child ''d'' ''t'' DISPLAY_PATCH_GROUPS False (ctx_of Map.empty small_tree False)) = Inr rp
     \<and> length (split_on [NL] (render_markdown rp)) = 12"
proof -
  let ?g = "ctx_of Map.empty small_tree False"
  define rp where "rp = build_report ''d'' ''t'' (map (\<lambda>G. group_result_of G (ReportOnly,
      ''family '' @ family ?g @ '' is not android13-5.15; nothing read or written'')) DISPLAY_PATCH_GROUPS) None ?g"
  have run: "run_child ''d'' ''t'' DISPLAY_PATCH_GROUPS False ?g = (Inr rp, ?g)"
    by (simp add: run_child_def run_groups_disabled io_bind_def io_ret_def io_get_def rp_def)
  have "rp_child rp = ''d'' \<and> rp_generated rp = ''t'' \<and> rp_family rp = family ?g \<and> rp_sub_level rp = sub_level ?g
      \<and> length (rp_groups rp) = 1"
    by (simp add: rp_def build_report_def DISPLAY_PATCH_GROUPS_def)
  moreover have "NL \<notin> set (family ?g) \<union> set (sub_level ?g)"
    by (simp add: ctx_of_def make_context_def Let_def)
  moreover have "list_all one_line DISPLAY_PATCH_GROUPS"
    by (simp add: DISPLAY_PATCH_GROUPS_def one_line_def drm_valid_clones_revert_group_def)
  ultimately show ?thesis using markdown_rows [OF run] run by auto
qed

text \<open>C35. After any series of runs of a child, aborted ones among them, the report directory is
  what the completed runs alone make of it: each of the two files holds the last completed run's
  report, its backup holds the first contents the file ever had (an older backup is never
  touched), and no other file changes. An aborted run leaves the previous report in place.\<close>

theorem report_directory_history:
  "fold (\<lambda>(now, allow, g) fs. fst (snd (snd (child_main child groups now allow g fs)))) runs fs =
     (let rps = concat (map (\<lambda>(now, allow, g).
          case fst (run_child child now groups (main_enabled (family g) allow) g) of Inl e \<Rightarrow> [] | Inr rp \<Rightarrow> [rp]) runs)
      in after_writes (after_writes fs (report_file child ''.json'') (map (\<lambda>rp. dumps (Some 2) 0 (report_json rp)) rps))
           (report_file child ''.md'') (map render_markdown rps))"
proof -
  have "fst (snd (snd (child_main child groups now allow g fs))) =
      fold (write_report child)
        (case fst (run_child child now groups (main_enabled (family g) allow) g) of Inl e \<Rightarrow> [] | Inr rp \<Rightarrow> [rp]) fs"
    for now allow g fs
    by (simp add: child_main_def Let_def split: prod.split sum.split)
  then have "fold (\<lambda>(now, allow, g) fs. fst (snd (snd (child_main child groups now allow g fs)))) runs fs =
      fold (write_report child) (concat (map (\<lambda>(now, allow, g).
          case fst (run_child child now groups (main_enabled (family g) allow) g) of Inl e \<Rightarrow> [] | Inr rp \<Rightarrow> [rp]) runs)) fs"
    by (induction runs arbitrary: fs) auto
  then show ?thesis by (simp only: write_reports Let_def)
qed

section \<open>Packaging\<close>

text \<open>C36. What a build of a KernelSU module puts in its zip: the members in the order of their
  names, each name once; every file of the module directory; beside them only files of the
  repository, under a name that neither is absolute nor climbs out of the archive; each with the
  mode its name calls for and the fixed date, so that equal inputs give equal zips.\<close>

theorem build_members_sound:
  assumes "build R src fs = Inr ms" and "distinct (map fst fs)"
  shows "sorted (map z_name ms) \<and> distinct (map z_name ms)
    \<and> (\<forall>(n, d) \<in> set fs. \<exists>e \<in> set ms. z_name e = n \<and> z_data e = d)
    \<and> (\<forall>e \<in> set ms. z_mode e = entry_mode (z_name e) \<and> z_date e = FIXED_TIME \<and>
         ((z_name e, z_data e) \<in> set fs \<or>
           (\<not> prefix ''/'' (z_name e) \<and> ''..'' \<notin> set (split_on ''/'' (z_name e)) \<and>
           (\<exists>s. prefix (repo_resolve R (repo_root R)) s \<and> repo_file R s = Some (z_data e)))))"
  using build_contents [OF assms] build_members(2) [OF assms]
  unfolding safe_target_def by (simp add: ball_conj_distrib)

definition demo_repo :: repo where
  "demo_repo = \<lparr>repo_root = ''r'', repo_resolve = split_on ''/'',
     repo_file = (\<lambda>p. if p = [''r'', ''ksu'', ''tool''] then Some ''T'' else None)\<rparr>"

definition demo_module :: files where
  "demo_module = [(''module.prop'', ''id=m'' @ [NL]), (''service.sh'', ''s''), (''embed.conf'', ''ksu/tool = bin/tool.sh'')]"

lemma demo_build:
  "\<exists>ms. build demo_repo ''x/m'' demo_module = Inr ms
    \<and> map z_name ms = [''bin/tool.sh'', ''embed.conf'', ''module.prop'', ''service.sh'']"
proof -
  have i: "read_module_id ''x/m'' demo_module = Inr ''m'' \<and> path_name ''x/m'' = ''m''" by code_simp
  have "map_sum id (map fst) (module_entries demo_repo ''x/m'' demo_module) =
      Inr [''bin/tool.sh'', ''embed.conf'', ''module.prop'', ''service.sh'']" by code_simp
  then obtain es where es: "module_entries demo_repo ''x/m'' demo_module = Inr es"
    "map fst es = [''bin/tool.sh'', ''embed.conf'', ''module.prop'', ''service.sh'']"
    by (cases "module_entries demo_repo ''x/m'' demo_module") auto
  have "map z_name (map (\<lambda>(n, d, m). zip_info n m FIXED_TIME d) es) = map fst es"
    by (simp add: zip_info_def case_prod_unfold)
  with i es show ?thesis by (simp add: build_def)
qed

theorem build_members_sound_witness:
  "\<exists>ms. build demo_repo ''x/m'' demo_module = Inr ms \<and> sorted (map z_name ms)
    \<and> map z_name ms = [''bin/tool.sh'', ''embed.conf'', ''module.prop'', ''service.sh'']
    \<and> (\<forall>e \<in> set ms. z_mode e = entry_mode (z_name e))"
proof -
  obtain ms where ms: "build demo_repo ''x/m'' demo_module = Inr ms"
    "map z_name ms = [''bin/tool.sh'', ''embed.conf'', ''module.prop'', ''service.sh'']"
    using demo_build by (elim exE conjE)
  have "distinct (map fst demo_module)" by code_simp
  note c = build_members_sound [OF ms(1) this]
  have "sorted (map z_name ms)" using c by (rule conjunct1)
  moreover have "\<forall>e \<in> set ms. z_mode e = entry_mode (z_name e)"
    using c [THEN conjunct2, THEN conjunct2, THEN conjunct2] unfolding ball_conj_distrib by (rule conjunct1)
  ultimately show ?thesis using ms by (intro exI [of _ ms] conjI)
qed

text \<open>C37. A bundle passes its own verification: a module built from its directory, injected into
  an AnyKernel3 zip whose script has no marker of the installer block and which bundles no other
  module, is accepted by \<open>verify_zip\<close>; the zip then holds the module's bytes and every other member
  as it was.\<close>

theorem bundle_verifies:
  assumes "build R src fs = Inr ms" and "distinct (map fst fs)" and "path_name src \<noteq> []"
    and "map_of fs ''module.prop'' = Some t" and "one_id t (path_name src)" and "unzip d = Some ms"
    and "zip_read es ANY_KERNEL_SCRIPT = Some s" and "utf8_valid s"
    and "\<not> contains BEGIN_MARKER (normalize_eol s)" and "\<not> contains END_MARKER (normalize_eol s)"
    and "\<forall>e \<in> set es. bundled (z_name e) \<longrightarrow> z_name e = module_member (path_name src)"
  shows "\<exists>es'. inject_zip unzip source es mz d = Inr (es', module_member (path_name src))
    \<and> verify_zip unzip out es' = Inr []
    \<and> zip_read es' (module_member (path_name src)) = Some d
    \<and> (\<forall>n. n \<notin> {ANY_KERNEL_SCRIPT, module_member (path_name src)} \<longrightarrow> zip_read es' n = zip_read es n)"
  by (rule inject_verifies [OF check_built(2) [where unzip = unzip and d = d, OF assms(1,2,6,4,5)]
      path_name_one_component assms(3) check_built(1) [where unzip = unzip and d = d, OF assms(1,2,6,4,5)]
      assms(7-11)])

definition demo_ak3 :: "zentry list" where
  "demo_ak3 = [zip_info ANY_KERNEL_SCRIPT EXECUTABLE_MODE FIXED_TIME (''ui_print hi'' @ [NL]),
     zip_info ''Image'' REGULAR_MODE FIXED_TIME ''K'']"

definition demo_unzip :: "str \<Rightarrow> zentry list option" where
  "demo_unzip d = (case build demo_repo ''x/m'' demo_module of Inl e \<Rightarrow> None | Inr ms \<Rightarrow> if d = ''Z'' then Some ms else None)"

theorem bundle_verifies_witness:
  "\<exists>es'. inject_zip demo_unzip ''a.zip'' demo_ak3 ''m.zip'' ''Z'' = Inr (es', ''abk-ksu-modules/m.zip'')
    \<and> verify_zip demo_unzip ''b.zip'' es' = Inr [] \<and> zip_read es' ''Image'' = Some ''K''"
proof -
  obtain ms where ms: "build demo_repo ''x/m'' demo_module = Inr ms" using demo_build by (elim exE conjE)
  have u: "demo_unzip ''Z'' = Some ms" by (simp add: demo_unzip_def ms)
  have f: "distinct (map fst demo_module) \<and> path_name ''x/m'' = ''m''
      \<and> map_of demo_module ''module.prop'' = Some (''id=m'' @ [NL]) \<and> one_id (''id=m'' @ [NL]) ''m''" by code_simp
  have s: "utf8_valid (''ui_print hi'' @ [NL])
      \<and> contains BEGIN_MARKER (normalize_eol (''ui_print hi'' @ [NL])) = False
      \<and> contains END_MARKER (normalize_eol (''ui_print hi'' @ [NL])) = False" by code_simp
  have e: "zip_read demo_ak3 ANY_KERNEL_SCRIPT = Some (''ui_print hi'' @ [NL]) \<and> zip_read demo_ak3 ''Image'' = Some ''K''
      \<and> (\<forall>e \<in> set demo_ak3. \<not> bundled (z_name e))"
    by (simp add: demo_ak3_def zip_read_def zip_info_def ANY_KERNEL_SCRIPT_def bundled_def BUNDLE_DIR_def)
  have n: "module_member ''m'' = ''abk-ksu-modules/m.zip''" by (simp add: module_member_def BUNDLE_DIR_def)
  have p: "path_name ''x/m'' = ''m''" using f by blast
  obtain es' where es': "inject_zip demo_unzip ''a.zip'' demo_ak3 ''m.zip'' ''Z'' = Inr (es', module_member ''m'')"
    "verify_zip demo_unzip ''b.zip'' es' = Inr []"
    and k: "\<forall>n. n \<notin> {ANY_KERNEL_SCRIPT, module_member ''m''} \<longrightarrow> zip_read es' n = zip_read demo_ak3 n"
    using bundle_verifies [OF ms, where t = "''id=m'' @ [NL]" and s = "''ui_print hi'' @ [NL]"
        and unzip = demo_unzip and d = "''Z''" and es = demo_ak3, unfolded p] f s e u by blast
  have "''Image'' \<notin> {ANY_KERNEL_SCRIPT, module_member ''m''}" unfolding n by (simp add: ANY_KERNEL_SCRIPT_def)
  with k have "zip_read es' ''Image'' = zip_read demo_ak3 ''Image''" by blast
  with es' e show ?thesis unfolding n by auto
qed

text \<open>C38. Injecting into a script a second time changes nothing, whatever the script, but in one
  case: if its first begin marker has no end marker after it, the first run appends a whole block,
  and the second takes everything from that marker to the end of the appended block for the old
  block, so that what followed the marker in the script is lost.\<close>

theorem inject_twice:
  "inject_script (inject_script t) = (case cut BEGIN_MARKER (normalize_eol t) of
       Some (a, b) \<Rightarrow> if contains BLOCK_END b then inject_script t else a @ INSTALLER_BLOCK
     | None \<Rightarrow> inject_script t)"
proof (cases "cut BEGIN_MARKER (normalize_eol t)")
  case None
  then have "\<not> contains BEGIN_MARKER (normalize_eol t)" by (simp add: cut_None_iff)
  with None inject_idem [of t] show ?thesis by simp
next
  case (Some x)
  obtain a b where x: "x = (a, b)" by (cases x)
  show ?thesis
  proof (cases "contains BLOCK_END b")
    case True
    then have "block_search (normalize_eol t) \<noteq> None"
      using Some x cut_Some_iff_contains [of BLOCK_END b] by (auto simp: block_search_def)
    with inject_idem [of t] True Some x show ?thesis by simp
  next
    case False
    with inject_orphan [of t a b] Some x show ?thesis by simp
  qed
qed

section \<open>The hunk tool\<close>

text \<open>C39. \<open>parse_patch\<close> reads a unified diff back: from the text of any list of file diffs it
  returns their hunks in order, each with its file, its header, the kept and removed lines as the
  old text and the kept and added lines as the new text.\<close>

theorem parse_patch_reads_diffs:
  assumes "list_all proper_diff ds" and "utf8_valid (lines_text (concat (map diff_lines ds)))"
  shows "parse_patch (lines_text (concat (map diff_lines ds))) = Inr (concat (map diff_hunks ds))"
  using assms by (rule parse_rendered)

definition demo_diff :: file_diff where
  "demo_diff = (''mm/x.c'', [(''@@ -1,2 +1,2 @@'', [Kept ''int a;'', Gone ''int b;'', Added ''long b;'']),
     (''@@ -9 +9 @@'', [Added ''c'', Note (BSL # '' No newline at end of file'')])])"

theorem parse_patch_reads_diffs_witness:
  "parse_patch (lines_text (diff_lines demo_diff)) = Inr
     [(Some ''mm/x.c'', ''@@ -1,2 +1,2 @@'', ''int a;'' @ [NL] @ ''int b;'', ''int a;'' @ [NL] @ ''long b;''),
      (Some ''mm/x.c'', ''@@ -9 +9 @@'', [], ''c'')]"
proof -
  have "list_all proper_diff [demo_diff]"
    unfolding demo_diff_def proper_diff_def by (simp add: graphic_def in_range_def unbroken_ascii)
  moreover have "utf8_valid (lines_text (concat (map diff_lines [demo_diff])))" by code_simp
  ultimately have "parse_patch (lines_text (concat (map diff_lines [demo_diff]))) = Inr (concat (map diff_hunks [demo_diff]))"
    by (rule parse_patch_reads_diffs)
  then show ?thesis by (simp add: demo_diff_def diff_hunks_def)
qed

text \<open>C40. The signature \<^verbatim>\<open>git format-patch\<close> ends a patch with, a line of two dashes and a space
  and a line with a version, is not told from the last hunk: the dashes are read as a removed
  line, and the old text of that hunk ends in a line the file does not have.\<close>

theorem signature_read_as_removed:
  assumes "list_all proper_diff (ds @ [(p, hs @ [(h, es)])])" and "proper_edit (Note v)"
    and "utf8_valid (lines_text (concat (map diff_lines (ds @ [(p, hs @ [(h, es)])])) @ [''-- '', v, []]))"
  shows "parse_patch (lines_text (concat (map diff_lines (ds @ [(p, hs @ [(h, es)])])) @ [''-- '', v, []])) =
    Inr (concat (map diff_hunks ds) @ diff_hunks (p, hs) @
      [(Some p, h, py_join [NL] (old_side es @ [''- '']), py_join [NL] (new_side es))])"
  using assms by (rule parse_signed)

theorem signature_read_as_removed_witness:
  "parse_patch (lines_text (diff_lines (''f'', [(''@@ -1 +1 @@'', [Gone ''a'', Added ''b''])]) @ [''-- '', ''2.39.0'', []]))
   = Inr [(Some ''f'', ''@@ -1 +1 @@'', ''a'' @ [NL] @ ''- '', ''b'')]"
proof -
  have "list_all proper_diff ([] @ [(''f'', [] @ [(''@@ -1 +1 @@'', [Gone ''a'', Added ''b''])])])" "proper_edit (Note ''2.39.0'')"
    by (simp_all add: proper_diff_def graphic_def in_range_def unbroken_ascii)
  from signature_read_as_removed [OF this] show ?thesis
    by (simp add: diff_lines_def hunk_lines_def lines_text_def diff_hunks_def in_range_def)
qed

end
